(* ===== verification/Prelude.thy ===== *)
theory Prelude
  imports Main "HOL-Library.Signed_Division" "HOL-Library.Multiset"
    "HOL-Library.List_Lexorder" "HOL-Library.Char_ord"
begin

text \<open>
  The vocabulary the components share: Go's integer division, \<open>cmp.Compare\<close> and
  \<open>slices.SortFunc\<close>, the decimal verbs of \<open>fmt.Sprintf\<close>, and the list
  operations the code writes as loops (update the first match, sum a field).  The lemma
  collections declared here are filled by the component theories.
\<close>

named_theorems clone_simps \<open>a Clone method is the identity on values\<close>
named_theorems phase_simps \<open>what a step of the round phase leaves unchanged\<close>
named_theorems inv_intros \<open>invariant preservation, one rule per operation\<close>
named_theorems ok_intros \<open>well-formedness preservation, one rule per operation\<close>

section \<open>Integers\<close>

text \<open>
  Go divides towards zero.  Every division of the modelled code has a positive divisor,
  and on a non-negative dividend it is the floor division of HOL.
\<close>

definition go_div :: "int \<Rightarrow> int \<Rightarrow> int" where
  "go_div a b = a sdiv b"

lemma go_div_nonneg: "0 \<le> a \<Longrightarrow> 0 < b \<Longrightarrow> go_div a b = a div b"
  by (cases "a = 0") (simp_all add: go_div_def signed_divide_int_def)

lemma go_div_neg: "a < 0 \<Longrightarrow> 0 < b \<Longrightarrow> go_div a b = - ((- a) div b)"
  by (simp add: go_div_def signed_divide_int_def)

lemma go_div_mult_le: "0 \<le> a \<Longrightarrow> 0 < b \<Longrightarrow> go_div a b * b \<le> a"
  by (simp add: go_div_nonneg flip: minus_mod_eq_div_mult)

lemma go_div_lower: "0 \<le> a \<Longrightarrow> 0 < b \<Longrightarrow> 0 \<le> go_div a b"
  by (simp add: go_div_nonneg pos_imp_zdiv_nonneg_iff)

lemma le_div_iff_int:
  assumes "0 < (q::int)"
  shows "n \<le> p div q \<longleftrightarrow> q * n \<le> p"
proof
  assume "n \<le> p div q"
  then have "q * n \<le> q * (p div q)" using assms by simp
  also have "\<dots> = p - p mod q" by (simp add: minus_mod_eq_mult_div)
  also have "\<dots> \<le> p" using assms by simp
  finally show "q * n \<le> p" .
next
  assume "q * n \<le> p"
  then have "(q * n) div q \<le> p div q" using assms by (rule zdiv_mono1)
  then show "n \<le> p div q" using assms by simp
qed

section \<open>Lists\<close>

text \<open>The sum of a field over a slice.\<close>

abbreviation sum_of :: "('a \<Rightarrow> int) \<Rightarrow> 'a list \<Rightarrow> int" where
  "sum_of f xs \<equiv> sum_list (map f xs)"

lemma sum_of_nonneg: "(\<And>x. x \<in> set xs \<Longrightarrow> 0 \<le> f x) \<Longrightarrow> 0 \<le> sum_of f xs"
  by (induction xs) auto

lemma sum_of_member_le:
  "(\<And>y. y \<in> set xs \<Longrightarrow> 0 \<le> f y) \<Longrightarrow> x \<in> set xs \<Longrightarrow> f x \<le> sum_of f xs"
  by (induction xs) (auto simp: sum_of_nonneg add_increasing)

lemma sum_of_filter_split:
  "sum_of f (filter P xs) + sum_of f (filter (\<lambda>x. \<not> P x) xs) = sum_of f xs"
  by (induction xs) auto

lemma sum_of_list_update:
  "i < length xs \<Longrightarrow> sum_of f (xs[i := y]) = sum_of f xs - f (xs ! i) + f y"
  by (induction xs arbitrary: i) (auto split: nat.split)

lemma upt_0_Suc: "[0..<Suc n] = 0 # map Suc [0..<n]"
  by (simp add: upt_conv_Cons map_Suc_upt del: upt_Suc)

text \<open>
  A loop that finds the first match and changes it in place, and the read through the
  pointer such a loop returns.
\<close>

fun update_first :: "('a \<Rightarrow> bool) \<Rightarrow> ('a \<Rightarrow> 'a) \<Rightarrow> 'a list \<Rightarrow> 'a list" where
  "update_first P f [] = []"
| "update_first P f (x # xs) = (if P x then f x # xs else x # update_first P f xs)"

fun find_first :: "('a \<Rightarrow> bool) \<Rightarrow> 'a list \<Rightarrow> 'a option" where
  "find_first P [] = None"
| "find_first P (x # xs) = (if P x then Some x else find_first P xs)"

lemma length_update_first [simp]: "length (update_first P f xs) = length xs"
  by (induction xs) auto

lemma find_first_Some: "find_first P xs = Some x \<Longrightarrow> x \<in> set xs \<and> P x"
  by (induction xs) (auto split: if_splits)

lemma find_first_None: "find_first P xs = None \<longleftrightarrow> (\<forall>x \<in> set xs. \<not> P x)"
  by (induction xs) auto

lemma find_first_append:
  "find_first P (xs @ ys) =
     (case find_first P xs of None \<Rightarrow> find_first P ys | Some x \<Rightarrow> Some x)"
  by (induction xs) auto

lemma update_first_none: "find_first P xs = None \<Longrightarrow> update_first P f xs = xs"
  by (induction xs) (auto split: if_splits)

lemma update_first_map:
  "(\<And>x. g (f x) = g x) \<Longrightarrow> map g (update_first P f xs) = map g xs"
  by (induction xs) auto

lemma find_first_update_same:
  "(\<And>x. P x \<Longrightarrow> P (f x)) \<Longrightarrow>
   find_first P (update_first P f xs) = map_option f (find_first P xs)"
  by (induction xs) auto

lemma find_first_update_other:
  "(\<And>x. P x \<Longrightarrow> \<not> Q x \<and> \<not> Q (f x)) \<Longrightarrow>
   find_first Q (update_first P f xs) = find_first Q xs"
  by (induction xs) auto

lemma set_update_first: "set (update_first P f xs) \<subseteq> set xs \<union> f ` {x \<in> set xs. P x}"
  by (induction xs) auto

lemma update_first_all:
  "(\<And>x. x \<in> set xs \<Longrightarrow> P x \<Longrightarrow> Q (f x)) \<Longrightarrow> \<forall>x \<in> set xs. Q x \<Longrightarrow>
   \<forall>x \<in> set (update_first P f xs). Q x"
  by (induction xs) auto

lemma sum_of_update_first:
  "find_first P xs = Some x \<Longrightarrow>
   sum_of g (update_first P f xs) = sum_of g xs - g x + g (f x)"
  by (induction xs) (auto split: if_splits)

lemma sum_of_unique_key:
  "distinct (map k xs) \<Longrightarrow> find_first (\<lambda>x. k x = a) xs = Some y \<Longrightarrow>
   sum_of g (filter (\<lambda>x. k x = a) xs) = g y"
proof (induction xs)
  case Nil
  then show ?case by simp
next
  case (Cons x xs)
  show ?case
  proof (cases "k x = a")
    case True
    with Cons.prems have "filter (\<lambda>x. k x = a) xs = []"
      by (auto simp: filter_empty_conv image_iff)
    with True Cons.prems show ?thesis by simp
  next
    case False
    with Cons show ?thesis by simp
  qed
qed

text \<open>A loop that overwrites its result at every match keeps the only match of a unique key.\<close>

lemma foldl_unique_key:
  "distinct (map k xs) \<Longrightarrow>
   foldl (\<lambda>acc x. if k x = a then f x else acc) d xs =
     (case find_first (\<lambda>x. k x = a) xs of None \<Rightarrow> d | Some x \<Rightarrow> f x)"
proof (induction xs arbitrary: d)
  case Nil
  then show ?case by simp
next
  case (Cons x xs)
  have "find_first (\<lambda>y. k y = a) xs = None" if "k x = a"
    using Cons.prems that by (auto simp: find_first_None image_iff)
  with Cons show ?case by auto
qed

text \<open>The same loop, appending a new element when nothing matches.\<close>

fun upsert_first :: "('a \<Rightarrow> bool) \<Rightarrow> ('a \<Rightarrow> 'a) \<Rightarrow> 'a \<Rightarrow> 'a list \<Rightarrow> 'a list" where
  "upsert_first P f new [] = [new]"
| "upsert_first P f new (x # xs) = (if P x then f x # xs else x # upsert_first P f new xs)"

lemma upsert_first_eq:
  "upsert_first P f new xs =
     (case find_first P xs of None \<Rightarrow> xs @ [new] | Some _ \<Rightarrow> update_first P f xs)"
  by (induction xs) (auto split: option.splits)

section \<open>Comparison and sorting\<close>

text \<open>\<open>cmp.Compare\<close> on integers and strings, and \<open>cmp.Or\<close>.\<close>

definition compare_go :: "'a::linorder \<Rightarrow> 'a \<Rightarrow> int" where
  "compare_go x y = (if x < y then - 1 else if y < x then 1 else 0)"

fun cmp_or :: "int list \<Rightarrow> int" where
  "cmp_or [] = 0"
| "cmp_or (c # cs) = (if c \<noteq> 0 then c else cmp_or cs)"

lemma compare_go_simps [simp]:
  "compare_go x y < 0 \<longleftrightarrow> x < y" "0 < compare_go x y \<longleftrightarrow> y < x"
  "compare_go x y = 0 \<longleftrightarrow> x = y" "compare_go x y \<le> 0 \<longleftrightarrow> x \<le> y"
  "compare_go x y = - 1 \<longleftrightarrow> x < y"
  by (auto simp: compare_go_def)

text \<open>
  \<open>slices.SortFunc\<close> with a comparison function.  Go sorts slices of up to twelve
  elements by this insertion sort; a longer slice may be returned with elements that
  compare equal in another order, so only the facts below (a sorted permutation) are to
  be used where ties matter.
\<close>

fun insert_by :: "('a \<Rightarrow> 'a \<Rightarrow> int) \<Rightarrow> 'a \<Rightarrow> 'a list \<Rightarrow> 'a list" where
  "insert_by c x [] = [x]"
| "insert_by c x (y # ys) = (if c x y < 0 then x # y # ys else y # insert_by c x ys)"

definition sort_by :: "('a \<Rightarrow> 'a \<Rightarrow> int) \<Rightarrow> 'a list \<Rightarrow> 'a list" where
  "sort_by c xs = foldl (\<lambda>acc x. insert_by c x acc) [] xs"

lemma mset_insert_by [simp]: "mset (insert_by c x xs) = add_mset x (mset xs)"
  by (induction xs) auto

lemma set_insert_by [simp]: "set (insert_by c x xs) = insert x (set xs)"
  by (induction xs) auto

lemma mset_foldl_insert_by:
  "mset (foldl (\<lambda>acc x. insert_by c x acc) acc xs) = mset acc + mset xs"
  by (induction xs arbitrary: acc) auto

lemma mset_sort_by [simp]: "mset (sort_by c xs) = mset xs"
  by (simp add: sort_by_def mset_foldl_insert_by)

lemma set_sort_by [simp]: "set (sort_by c xs) = set xs"
  by (metis mset_sort_by set_mset_mset)

lemma length_sort_by [simp]: "length (sort_by c xs) = length xs"
  by (metis mset_sort_by size_mset)

lemma sum_of_sort_by [simp]: "sum_of f (sort_by c xs) = sum_of f xs"
  by (metis mset_map mset_sort_by sum_mset_sum_list)

text \<open>What \<open>slices.SortFunc\<close> asks of its comparison: a total preorder.\<close>

locale weak_order =
  fixes c :: "'a \<Rightarrow> 'a \<Rightarrow> int"
  assumes flip: "0 < c x y \<longleftrightarrow> c y x < 0"
    and le_trans: "c x y \<le> 0 \<Longrightarrow> c y z \<le> 0 \<Longrightarrow> c x z \<le> 0"
begin

abbreviation ordered :: "'a list \<Rightarrow> bool" where
  "ordered xs \<equiv> sorted_wrt (\<lambda>x y. c x y \<le> 0) xs"

lemma not_less_le: "\<not> c x y < 0 \<Longrightarrow> c y x \<le> 0"
  using flip [of y x] by linarith

lemma ordered_insert_by: "ordered xs \<Longrightarrow> ordered (insert_by c x xs)"
proof (induction xs)
  case Nil
  then show ?case by simp
next
  case (Cons y ys)
  show ?case
  proof (cases "c x y < 0")
    case True
    with Cons.prems show ?thesis by (auto intro: le_trans [of x y])
  next
    case False
    then have "c y x \<le> 0" by (rule not_less_le)
    with False Cons show ?thesis by simp
  qed
qed

lemma ordered_sort_by: "ordered (sort_by c xs)"
proof -
  have "ordered acc \<Longrightarrow> ordered (foldl (\<lambda>acc x. insert_by c x acc) acc xs)" for acc
    by (induction xs arbitrary: acc) (auto intro: ordered_insert_by)
  then show ?thesis by (simp add: sort_by_def)
qed

lemma insert_by_last: "\<forall>y \<in> set xs. c y x \<le> 0 \<Longrightarrow> insert_by c x xs = xs @ [x]"
proof (induction xs)
  case Nil
  then show ?case by simp
next
  case (Cons y ys)
  then have "\<not> c x y < 0" using flip [of y x] by auto
  with Cons show ?case by simp
qed

lemma sort_by_ordered_id: "ordered xs \<Longrightarrow> sort_by c xs = xs"
proof -
  have "ordered (acc @ xs) \<Longrightarrow> foldl (\<lambda>acc x. insert_by c x acc) acc xs = acc @ xs" for acc
  proof (induction xs arbitrary: acc)
    case Nil
    then show ?case by simp
  next
    case (Cons x xs)
    then have "insert_by c x acc = acc @ [x]"
      by (intro insert_by_last) (auto simp: sorted_wrt_append)
    with Cons show ?case by simp
  qed
  then show "ordered xs \<Longrightarrow> sort_by c xs = xs" by (simp add: sort_by_def)
qed

end

text \<open>Comparing by one key is such an order; a lexicographic combination is again one.\<close>

interpretation compare_key: weak_order "\<lambda>x y. compare_go (k x) (k y)" for k
  by unfold_locales auto

lemma weak_order_lex:
  assumes "weak_order c" "weak_order d"
  shows "weak_order (\<lambda>x y. if c x y \<noteq> 0 then c x y else d x y)"
proof -
  have cf: "\<And>x y. (0 < c x y) = (c y x < 0)" and df: "\<And>x y. (0 < d x y) = (d y x < 0)"
    and ct: "\<And>x y z. c x y \<le> 0 \<Longrightarrow> c y z \<le> 0 \<Longrightarrow> c x z \<le> 0"
    and dt: "\<And>x y z. d x y \<le> 0 \<Longrightarrow> d y z \<le> 0 \<Longrightarrow> d x z \<le> 0"
    using assms by (auto simp: weak_order_def)
  show ?thesis
  proof
    fix x y
    show "(0 < (if c x y \<noteq> 0 then c x y else d x y)) =
          ((if c y x \<noteq> 0 then c y x else d y x) < 0)"
      using cf [of x y] cf [of y x] df [of x y] by auto
  next
    fix x y z
    assume xy: "(if c x y \<noteq> 0 then c x y else d x y) \<le> 0"
      and yz: "(if c y z \<noteq> 0 then c y z else d y z) \<le> 0"
    from xy yz have le: "c x y \<le> 0" "c y z \<le> 0" by (auto split: if_splits)
    then have "c x z \<le> 0" by (rule ct)
    moreover have "d x z \<le> 0" if "c x z = 0"
    proof -
      have "c z x \<le> 0" using that cf [of z x] by linarith
      with le have "c z y \<le> 0" "c y x \<le> 0" using ct by blast+
      then have "c x y = 0" "c y z = 0" using le cf [of y x] cf [of x y] cf [of y z] cf [of z y]
        by linarith+
      with xy yz show ?thesis by (auto intro: dt)
    qed
    ultimately show "(if c x z \<noteq> 0 then c x z else d x z) \<le> 0" by simp
  qed
qed

section \<open>Decimal text\<close>

text \<open>
  The verbs \<open>%d\<close>, \<open>%02d\<close> and \<open>%03d\<close> of \<open>fmt.Sprintf\<close> (the padded ones
  on non-negative numbers only), and the reading back that shows them injective.
\<close>

fun digits_nat :: "nat \<Rightarrow> string" where
  "digits_nat n =
     (if n < 10 then [char_of (48 + n)] else digits_nat (n div 10) @ [char_of (48 + n mod 10)])"

declare digits_nat.simps [simp del]

definition itoa :: "int \<Rightarrow> string" where
  "itoa i = (if i < 0 then CHR ''-'' # digits_nat (nat (- i)) else digits_nat (nat i))"

definition pad_itoa :: "nat \<Rightarrow> int \<Rightarrow> string" where
  "pad_itoa w i = replicate (w - length (itoa i)) (CHR ''0'') @ itoa i"

definition read_digits :: "string \<Rightarrow> nat" where
  "read_digits s = foldl (\<lambda>acc ch. 10 * acc + (of_char ch - 48)) 0 s"

lemma read_digits_snoc: "read_digits (s @ [ch]) = 10 * read_digits s + (of_char ch - 48)"
  by (simp add: read_digits_def)

lemma read_digits_nat: "read_digits (digits_nat n) = n"
proof (induction n rule: digits_nat.induct)
  case (1 n)
  show ?case
  proof (cases "n < 10")
    case True
    then show ?thesis by (subst digits_nat.simps) (simp add: read_digits_def of_char_of)
  next
    case False
    with 1 show ?thesis
      by (subst digits_nat.simps) (simp add: read_digits_snoc of_char_of)
  qed
qed

lemma read_digits_zeros: "read_digits (replicate k (CHR ''0'') @ s) = read_digits s"
  by (induction k) (simp_all add: read_digits_def)

lemma read_pad_itoa: "0 \<le> i \<Longrightarrow> read_digits (pad_itoa w i) = nat i"
  by (simp add: pad_itoa_def itoa_def read_digits_zeros read_digits_nat)

lemma pad_itoa_inj: "0 \<le> i \<Longrightarrow> 0 \<le> j \<Longrightarrow> pad_itoa w i = pad_itoa w j \<Longrightarrow> i = j"
  using read_pad_itoa by (metis nat_eq_iff2)

section \<open>Ranging over a map\<close>

text \<open>
  Ranging over a Go map visits its keys in no fixed order.  A map that is ranged over is the
  list of its bindings in the order they were inserted, and the order of the visit is a
  parameter: for the number of the loop and the number of keys, the positions visited.
\<close>

type_synonym MapOrder = "nat \<Rightarrow> nat \<Rightarrow> nat list"

text \<open>The values of a map, in the order its keys are visited.\<close>

definition mapValues :: "(nat \<Rightarrow> nat list) \<Rightarrow> 'a list \<Rightarrow> 'a list" where
  "mapValues order items = map (\<lambda>i. items ! i) (order (length items))"

text \<open>The order of a map's keys is some permutation.\<close>

definition validOrder :: "MapOrder \<Rightarrow> bool" where
  "validOrder mo \<longleftrightarrow> (\<forall>site n. mset (mo site n) = mset [0..<n])"

lemma mapValues_mset:
  assumes "mset (order (length items)) = mset [0..<length items]"
  shows "mset (mapValues order items) = mset items"
proof -
  have "mset (mapValues order items) = image_mset (\<lambda>i. items ! i) (mset (order (length items)))"
    by (simp add: mapValues_def)
  also have "\<dots> = mset (map (\<lambda>i. items ! i) [0..<length items])" by (simp only: assms mset_map)
  finally show ?thesis by (simp add: map_nth)
qed

end
