(* ===== verification/Domain.thy ===== *)
theory Domain
  imports Prelude
begin

text \<open>
  The data model of \<open>internal/domain\<close> (\<open>model.go\<close>, \<open>roles.go\<close>) and the random
  source of \<open>internal/ports/random.go\<close>.  A Go struct is a record whose fields keep
  their Go names behind a short prefix, a string-typed enumeration is a datatype, a slice
  is a list (a nil slice and an empty one are both \<open>[]\<close>), a pointer that may be nil is
  an option.  Go's \<open>int\<close> based types are \<open>int\<close>: the model does not wrap at 64 bits, except where
  \<open>MachineAmounts\<close> takes up the money arithmetic at its width.
\<close>

section \<open>Identifiers and quantities\<close>

type_synonym MatchID = string
type_synonym ScenarioID = string
type_synonym RoundNumber = int
type_synonym ActorID = string
type_synonym ProductID = string
type_synonym PartID = string
type_synonym CustomerID = string
type_synonym SupplierID = string
type_synonym WorkstationID = string
type_synonym MetricID = string
type_synonym EventID = string
type_synonym CommentaryID = string
type_synonym ActionID = string
type_synonym Units = int
type_synonym Money = int
type_synonym CapacityUnits = int
type_synonym Percentage = int

text \<open>A \<open>time.Time\<close> is its instant; 0 stands for Go's zero time.\<close>

type_synonym Time = int

definition ActorPlantSystem :: ActorID where
  "ActorPlantSystem = ''plant_system''"

section \<open>Roles\<close>

text \<open>
  A \<open>RoleID\<close> is one of the four canonical names or any other string (the empty one
  included), which the code must reject.
\<close>

datatype RoleID =
    RoleProcurementManager
  | RoleProductionManager
  | RoleSalesManager
  | RoleFinanceController
  | OtherRole string

fun role_string :: "RoleID \<Rightarrow> string" where
  "role_string RoleProcurementManager = ''procurement_manager''"
| "role_string RoleProductionManager = ''production_manager''"
| "role_string RoleSalesManager = ''sales_manager''"
| "role_string RoleFinanceController = ''finance_controller''"
| "role_string (OtherRole s) = s"

definition CanonicalRoles :: "RoleID list" where
  "CanonicalRoles =
     [RoleProcurementManager, RoleProductionManager, RoleSalesManager, RoleFinanceController]"

lemma distinct_CanonicalRoles: "distinct CanonicalRoles"
  by (simp add: CanonicalRoles_def)

record RoleAssignment =
  ra_RoleID :: RoleID
  ra_PlayerID :: string
  ra_IsHuman :: bool
  ra_Provider :: string
  ra_ModelName :: string

datatype RoundPhase =
    RoundPhaseUnset
  | RoundPhaseCollecting
  | RoundPhaseResolving
  | RoundPhaseRevealed

record RoundFlowState =
  rf_Phase :: RoundPhase
  rf_SubmittedRoles :: "RoleID list"
  rf_WaitingOnRoles :: "RoleID list"
  rf_ProviderWaitingRoles :: "RoleID list"
  rf_AIRevealDelaySeconds :: int

section \<open>Plant\<close>

record PartInventory =
  pi_PartID :: PartID
  pi_OnHandQty :: Units
  pi_UnitCost :: Money

record WIPInventory =
  wi_ProductID :: ProductID
  wi_WorkstationID :: WorkstationID
  wi_Quantity :: Units
  wi_UnitCost :: Money

record FinishedInventory =
  fi_ProductID :: ProductID
  fi_OnHandQty :: Units
  fi_UnitCost :: Money

record InspectionHoldInventory =
  ih_ProductID :: ProductID
  ih_Quantity :: Units
  ih_UnitCost :: Money
  ih_HoldRound :: RoundNumber
  ih_ReleaseRound :: RoundNumber
  ih_Reason :: string

record CustomerReturnCommitment =
  cr_ReturnID :: string
  cr_CustomerID :: CustomerID
  cr_ProductID :: ProductID
  cr_Quantity :: Units
  cr_UnitCost :: Money
  cr_DueRound :: RoundNumber
  cr_CreatedRound :: RoundNumber

record SupplyLot =
  sl_PurchaseOrderID :: string
  sl_SupplierID :: SupplierID
  sl_PartID :: PartID
  sl_Quantity :: Units
  sl_UnitCost :: Money
  sl_OrderedRound :: RoundNumber
  sl_PromisedRound :: RoundNumber
  sl_ArrivalRound :: RoundNumber

datatype CashCommitmentKind =
    CashCommitmentReceivable
  | CashCommitmentPayable
  | CashCommitmentPayroll

fun kind_string :: "CashCommitmentKind \<Rightarrow> string" where
  "kind_string CashCommitmentReceivable = ''receivable''"
| "kind_string CashCommitmentPayable = ''payable''"
| "kind_string CashCommitmentPayroll = ''payroll''"

record CashCommitment =
  cc_CommitmentID :: string
  cc_Kind :: CashCommitmentKind
  cc_Amount :: Money
  cc_DueRound :: RoundNumber
  cc_CreatedRound :: RoundNumber
  cc_ReferenceID :: string

record WorkstationState =
  ws_WorkstationID :: WorkstationID
  ws_DisplayName :: string
  ws_CapacityPerRound :: CapacityUnits
  ws_EffectiveCapacityPerRound :: CapacityUnits
  ws_StressCapacityLoss :: CapacityUnits
  ws_StressBufferUnits :: CapacityUnits
  ws_StressPenaltyPerExcessUnit :: CapacityUnits
  ws_LaborCapacityPerRound :: CapacityUnits
  ws_LaborUsed :: CapacityUnits
  ws_LaborCostPerCapacityUnit :: Money
  ws_OvertimeUsed :: CapacityUnits
  ws_OvertimeCostPerCapacityUnit :: Money
  ws_CapacityUsed :: CapacityUnits

record BacklogEntry =
  be_CustomerID :: CustomerID
  be_ProductID :: ProductID
  be_Quantity :: Units
  be_OriginRound :: RoundNumber
  be_AgeInRounds :: int

record PlantState =
  pl_Cash :: Money
  pl_Debt :: Money
  pl_DebtCeiling :: Money
  pl_PartsInventory :: "PartInventory list"
  pl_WIPInventory :: "WIPInventory list"
  pl_FinishedInventory :: "FinishedInventory list"
  pl_InspectionHolds :: "InspectionHoldInventory list"
  pl_InTransitSupply :: "SupplyLot list"
  pl_PendingReturns :: "CustomerReturnCommitment list"
  pl_Receivables :: "CashCommitment list"
  pl_Payables :: "CashCommitment list"
  pl_Workstations :: "WorkstationState list"
  pl_Backlog :: "BacklogEntry list"

section \<open>Suppliers, customers, targets, metrics\<close>

record SupplierState =
  ss_SupplierID :: SupplierID
  ss_DisplayName :: string
  ss_BehaviorID :: string
  ss_BehaviorDisplay :: string
  ss_OnTimeDeliveryPct :: int
  ss_LateDeliveryRounds :: int
  ss_ReliabilityScore :: int
  ss_OrdersPlaced :: int
  ss_OrdersReceived :: int
  ss_LateDeliveries :: int

record BOMLine =
  bl_PartID :: PartID
  bl_Quantity :: Units

record CustomerState =
  cs_CustomerID :: CustomerID
  cs_DisplayName :: string
  cs_Sentiment :: int
  cs_PaymentDelayRounds :: int
  cs_Backlog :: "BacklogEntry list"

record BudgetTargets =
  bt_EffectiveRound :: RoundNumber
  bt_ProcurementBudget :: Money
  bt_ProductionSpendBudget :: Money
  bt_RevenueTarget :: Money
  bt_CashFloorTarget :: Money
  bt_DebtCeilingTarget :: Money

record PlantMetrics =
  pm_ThroughputRevenue :: Money
  pm_OperatingExpense :: Money
  pm_ProcurementSpend :: Money
  pm_ProductionSpend :: Money
  pm_PayrollExpense :: Money
  pm_LaborCost :: Money
  pm_OvertimeCost :: Money
  pm_HoldingCost :: Money
  pm_DebtServiceCost :: Money
  pm_InventoryValue :: Money
  pm_NetCashChange :: Money
  pm_CashReceipts :: Money
  pm_CashDisbursements :: Money
  pm_EndingCash :: Money
  pm_RoundProfit :: Money
  pm_OnTimeShipmentRate :: Percentage
  pm_BacklogUnits :: Units
  pm_LostSalesUnits :: Units
  pm_PartsOnHandUnits :: Units
  pm_FinishedGoodsUnits :: Units
  pm_InspectionHoldUnits :: Units
  pm_ProductionOutputUnits :: Units
  pm_CapacityLossUnits :: Units
  pm_IdleLaborUnits :: Units
  pm_OvertimeUnits :: Units
  pm_ScrapUnits :: Units
  pm_ReworkUnits :: Units
  pm_CustomerReturnUnits :: Units
  pm_SupplierReliability :: Percentage

text \<open>The zero value \<open>PlantMetrics{}\<close> of a round record that is still being resolved.\<close>

definition zero_PlantMetrics :: PlantMetrics where
  "zero_PlantMetrics =
     PlantMetrics.make 0 0 0 0 0 0 0 0 0 0 0 0 0 0 0 0 0 0 0 0 0 0 0 0 0 0 0 0 0"

section \<open>Actions\<close>

record PurchaseOrderIntent =
  po_PartID :: PartID
  po_SupplierID :: SupplierID
  po_Quantity :: Units

record ProcurementAction =
  pra_Orders :: "PurchaseOrderIntent list"

record ProductionRelease =
  pr_ProductID :: ProductID
  pr_Quantity :: Units

record CapacityAllocation =
  ca_WorkstationID :: WorkstationID
  ca_ProductID :: ProductID
  ca_Capacity :: CapacityUnits

record OvertimeAllocation =
  oa_WorkstationID :: WorkstationID
  oa_Capacity :: CapacityUnits

record ProductionAction =
  pda_Releases :: "ProductionRelease list"
  pda_CapacityAllocation :: "CapacityAllocation list"
  pda_Overtime :: "OvertimeAllocation list"

record ProductOffer =
  of_ProductID :: ProductID
  of_UnitPrice :: Money

record SalesAction =
  sa_ProductOffers :: "ProductOffer list"

record FinanceAction =
  fa_NextRoundTargets :: BudgetTargets

record RoleAction =
  act_Procurement :: "ProcurementAction option"
  act_Production :: "ProductionAction option"
  act_Sales :: "SalesAction option"
  act_Finance :: "FinanceAction option"

text \<open>The only visibility class; a record not yet normalised may carry another string.\<close>

type_synonym CommentaryVisibility = string

definition CommentaryPublic :: CommentaryVisibility where
  "CommentaryPublic = ''public''"

record CommentaryRecord =
  cm_CommentaryID :: CommentaryID
  cm_MatchID :: MatchID
  cm_Round :: RoundNumber
  cm_ActorID :: ActorID
  cm_RoleID :: RoleID
  cm_Visibility :: CommentaryVisibility
  cm_Body :: string

record ActionSubmission =
  as_ActionID :: ActionID
  as_MatchID :: MatchID
  as_Round :: RoundNumber
  as_RoleID :: RoleID
  as_SubmittedAt :: Time
  as_Action :: RoleAction
  as_Commentary :: CommentaryRecord

section \<open>Events, timeline, history\<close>

datatype RoundEventType =
    EventBudgetActivated
  | EventPurchaseOrderPlaced
  | EventPayableScheduled
  | EventPayablePaid
  | EventPayrollScheduled
  | EventSupplyArrived
  | EventSupplyDelayed
  | EventSupplierScoreChanged
  | EventProductionReleased
  | EventWorkstationStressed
  | EventWorkAdvanced
  | EventOvertimeApplied
  | EventLaborCostApplied
  | EventFinishedGoodsProduced
  | EventQualityScrapped
  | EventQualityReworkCreated
  | EventInspectionHoldPlaced
  | EventInspectionHoldReleased
  | EventDemandRealized
  | EventShipmentCompleted
  | EventCustomerReturnScheduled
  | EventCustomerReturnReceived
  | EventReceivableScheduled
  | EventReceivableCollected
  | EventBacklogCreated
  | EventBacklogExpired
  | EventCustomerSentimentMoved
  | EventCashChanged
  | EventPayrollPaid
  | EventMetricSnapshot
  | EventRuleAdjustment

text \<open>
  The values an event payload (\<open>map[string]any\<close>) holds, nested maps and slices
  included; \<open>AFloat\<close> is a \<open>float64\<close> of an integer, which decoding JSON makes of an \<open>int\<close>.  A
  payload is an association list in the order of the code's map literal.
\<close>

datatype any =
    AString string
  | AInt int
  | AFloat int
  | ABool bool
  | AMap "(string \<times> any) list"
  | AList "any list"

type_synonym payload = "(string \<times> any) list"

record RoundEvent =
  ev_EventID :: EventID
  ev_MatchID :: MatchID
  ev_Round :: RoundNumber
  ev_Type :: RoundEventType
  ev_ActorID :: ActorID
  ev_Summary :: string
  ev_Payload :: payload

datatype RoundTimelinePhase =
    RoundTimelinePhaseIntake
  | RoundTimelinePhaseSimulation
  | RoundTimelinePhaseSummary

datatype RoundTimelineKind = RoundTimelineKindCommentary | RoundTimelineKindEvent

record RoundTimelineEntry =
  tl_Phase :: RoundTimelinePhase
  tl_Sequence :: int
  tl_Kind :: RoundTimelineKind
  tl_Event :: "RoundEvent option"
  tl_Commentary :: "CommentaryRecord option"

record RoundRecord =
  rr_Round :: RoundNumber
  rr_Actions :: "ActionSubmission list"
  rr_Events :: "RoundEvent list"
  rr_Commentary :: "CommentaryRecord list"
  rr_Timeline :: "RoundTimelineEntry list"
  rr_Metrics :: PlantMetrics

record RoundHistory =
  rh_RecentRounds :: "RoundRecord list"

record MatchState =
  ms_MatchID :: MatchID
  ms_ScenarioID :: ScenarioID
  ms_CurrentRound :: RoundNumber
  ms_Roles :: "RoleAssignment list"
  ms_RoundFlow :: RoundFlowState
  ms_Plant :: PlantState
  ms_Customers :: "CustomerState list"
  ms_Suppliers :: "SupplierState list"
  ms_ActiveTargets :: BudgetTargets
  ms_Metrics :: PlantMetrics
  ms_History :: RoundHistory

record RoundSummary =
  rs_Metrics :: PlantMetrics
  rs_EventCount :: int
  rs_CommentaryCount :: int
  rs_ActionCount :: int

record RoundHistoryEntry =
  he_Round :: RoundNumber
  he_Events :: "RoundEvent list"
  he_Commentary :: "CommentaryRecord list"
  he_Timeline :: "RoundTimelineEntry list"
  he_Summary :: RoundSummary

record RoundView =
  rv_MatchID :: MatchID
  rv_Round :: RoundNumber
  rv_ViewerRoleID :: RoleID
  rv_RoundFlow :: RoundFlowState
  rv_Plant :: PlantState
  rv_Customers :: "CustomerState list"
  rv_Suppliers :: "SupplierState list"
  rv_ActiveTargets :: BudgetTargets
  rv_Metrics :: PlantMetrics
  rv_RecentRounds :: "RoundHistoryEntry list"
  rv_RecentTimeline :: "RoundTimelineEntry list"
  rv_RecentEvents :: "RoundEvent list"
  rv_RecentCommentary :: "CommentaryRecord list"

section \<open>Random source\<close>

text \<open>
  A \<open>ports.RandomSource\<close> is a tape of raw draws and a position on it; \<open>IntN n\<close>
  reads the next draw reduced to \<open>0 \<le> r < n\<close>, the range the port documents.  Every
  sequence of results a source can give is the reading of some tape.  Where the code
  allows a nil source the model has an option.
\<close>

record RandomSource =
  rnd_tape :: "nat \<Rightarrow> nat"
  rnd_pos :: nat

definition IntN :: "int \<Rightarrow> RandomSource \<Rightarrow> int \<times> RandomSource" where
  "IntN n r = (int (rnd_tape r (rnd_pos r)) mod n, r\<lparr>rnd_pos := Suc (rnd_pos r)\<rparr>)"

lemma IntN_range: "0 < n \<Longrightarrow> 0 \<le> fst (IntN n r) \<and> fst (IntN n r) < n"
  by (simp add: IntN_def)

end
