(* ===== verification/Clone.thy ===== *)
theory Clone
  imports Domain
begin

text \<open>
  The \<open>Clone\<close> methods of \<open>internal/domain/model.go\<close> and the canonical timeline of a
  round.  A model value has no aliases, so a deep copy is the identity on it; the copies
  are written out field by field as the code has them, and the lemmas in
  \<open>clone_simps\<close> show that none drops or swaps a field.  The one clone that is not the
  identity is that of a round record, which fills in the canonical timeline.
\<close>

section \<open>Generic helpers\<close>

definition cloneSlice :: "('a \<Rightarrow> 'a) \<Rightarrow> 'a list \<Rightarrow> 'a list" where
  "cloneSlice clone items = map clone items"

definition clonePtr :: "('a \<Rightarrow> 'a) \<Rightarrow> 'a option \<Rightarrow> 'a option" where
  "clonePtr clone item = (case item of None \<Rightarrow> None | Some x \<Rightarrow> Some (clone x))"

lemma cloneSlice_id: "(\<And>x. x \<in> set xs \<Longrightarrow> f x = x) \<Longrightarrow> cloneSlice f xs = xs"
  by (simp add: cloneSlice_def map_idI)

lemma clonePtr_id: "(\<And>x. f x = x) \<Longrightarrow> clonePtr f p = p"
  by (simp add: clonePtr_def split: option.split)

primrec cloneAny :: "any \<Rightarrow> any" where
  "cloneAny (AString s) = AString s"
| "cloneAny (AInt i) = AInt i"
| "cloneAny (AFloat i) = AFloat i"
| "cloneAny (ABool b) = ABool b"
| "cloneAny (AMap m) = AMap (map (map_prod id cloneAny) m)"
| "cloneAny (AList xs) = AList (map cloneAny xs)"

definition clonePayload :: "payload \<Rightarrow> payload" where
  "clonePayload p = map (map_prod id cloneAny) p"

lemma cloneAny_id [clone_simps]: "cloneAny v = v"
proof (induction v)
  case (AMap m)
  have "map (map_prod id cloneAny) m = m"
  proof (rule map_idI)
    fix kv assume "kv \<in> set m"
    then have "cloneAny (snd kv) = snd kv" by (auto intro!: AMap simp: prod_set_defs)
    then show "map_prod id cloneAny kv = kv" by (cases kv) simp
  qed
  then show ?case by simp
qed (simp_all add: map_idI)

lemma clonePayload_id [clone_simps]: "clonePayload p = p"
  by (auto simp: clonePayload_def clone_simps intro!: map_idI)

section \<open>Flat structs\<close>

definition RoundFlowState_Clone :: "RoundFlowState \<Rightarrow> RoundFlowState" where
  "RoundFlowState_Clone f =
     \<lparr>rf_Phase = rf_Phase f,
      rf_SubmittedRoles = cloneSlice id (rf_SubmittedRoles f),
      rf_WaitingOnRoles = cloneSlice id (rf_WaitingOnRoles f),
      rf_ProviderWaitingRoles = cloneSlice id (rf_ProviderWaitingRoles f),
      rf_AIRevealDelaySeconds = rf_AIRevealDelaySeconds f\<rparr>"

definition PlantState_Clone :: "PlantState \<Rightarrow> PlantState" where
  "PlantState_Clone s =
     \<lparr>pl_Cash = pl_Cash s,
      pl_Debt = pl_Debt s,
      pl_DebtCeiling = pl_DebtCeiling s,
      pl_PartsInventory = cloneSlice id (pl_PartsInventory s),
      pl_WIPInventory = cloneSlice id (pl_WIPInventory s),
      pl_FinishedInventory = cloneSlice id (pl_FinishedInventory s),
      pl_InspectionHolds = cloneSlice id (pl_InspectionHolds s),
      pl_InTransitSupply = cloneSlice id (pl_InTransitSupply s),
      pl_PendingReturns = cloneSlice id (pl_PendingReturns s),
      pl_Receivables = cloneSlice id (pl_Receivables s),
      pl_Payables = cloneSlice id (pl_Payables s),
      pl_Workstations = cloneSlice id (pl_Workstations s),
      pl_Backlog = cloneSlice id (pl_Backlog s)\<rparr>"

definition CustomerState_Clone :: "CustomerState \<Rightarrow> CustomerState" where
  "CustomerState_Clone s =
     \<lparr>cs_CustomerID = cs_CustomerID s,
      cs_DisplayName = cs_DisplayName s,
      cs_Sentiment = cs_Sentiment s,
      cs_PaymentDelayRounds = cs_PaymentDelayRounds s,
      cs_Backlog = cloneSlice id (cs_Backlog s)\<rparr>"

definition ProcurementAction_Clone :: "ProcurementAction \<Rightarrow> ProcurementAction" where
  "ProcurementAction_Clone a = \<lparr>pra_Orders = cloneSlice id (pra_Orders a)\<rparr>"

definition ProductionAction_Clone :: "ProductionAction \<Rightarrow> ProductionAction" where
  "ProductionAction_Clone a =
     \<lparr>pda_Releases = cloneSlice id (pda_Releases a),
      pda_CapacityAllocation = cloneSlice id (pda_CapacityAllocation a),
      pda_Overtime = cloneSlice id (pda_Overtime a)\<rparr>"

definition SalesAction_Clone :: "SalesAction \<Rightarrow> SalesAction" where
  "SalesAction_Clone a = \<lparr>sa_ProductOffers = cloneSlice id (sa_ProductOffers a)\<rparr>"

definition FinanceAction_Clone :: "FinanceAction \<Rightarrow> FinanceAction" where
  "FinanceAction_Clone a = \<lparr>fa_NextRoundTargets = fa_NextRoundTargets a\<rparr>"

definition RoleAction_Clone :: "RoleAction \<Rightarrow> RoleAction" where
  "RoleAction_Clone a =
     \<lparr>act_Procurement = clonePtr ProcurementAction_Clone (act_Procurement a),
      act_Production = clonePtr ProductionAction_Clone (act_Production a),
      act_Sales = clonePtr SalesAction_Clone (act_Sales a),
      act_Finance = clonePtr FinanceAction_Clone (act_Finance a)\<rparr>"

definition CommentaryRecord_Clone :: "CommentaryRecord \<Rightarrow> CommentaryRecord" where
  "CommentaryRecord_Clone r = r"

definition ActionSubmission_Clone :: "ActionSubmission \<Rightarrow> ActionSubmission" where
  "ActionSubmission_Clone s =
     \<lparr>as_ActionID = as_ActionID s,
      as_MatchID = as_MatchID s,
      as_Round = as_Round s,
      as_RoleID = as_RoleID s,
      as_SubmittedAt = as_SubmittedAt s,
      as_Action = RoleAction_Clone (as_Action s),
      as_Commentary = CommentaryRecord_Clone (as_Commentary s)\<rparr>"

definition RoundEvent_Clone :: "RoundEvent \<Rightarrow> RoundEvent" where
  "RoundEvent_Clone e =
     \<lparr>ev_EventID = ev_EventID e,
      ev_MatchID = ev_MatchID e,
      ev_Round = ev_Round e,
      ev_Type = ev_Type e,
      ev_ActorID = ev_ActorID e,
      ev_Summary = ev_Summary e,
      ev_Payload = clonePayload (ev_Payload e)\<rparr>"

definition RoundTimelineEntry_Clone :: "RoundTimelineEntry \<Rightarrow> RoundTimelineEntry" where
  "RoundTimelineEntry_Clone e =
     \<lparr>tl_Phase = tl_Phase e,
      tl_Sequence = tl_Sequence e,
      tl_Kind = tl_Kind e,
      tl_Event = clonePtr RoundEvent_Clone (tl_Event e),
      tl_Commentary = clonePtr CommentaryRecord_Clone (tl_Commentary e)\<rparr>"

definition RoundSummary_Clone :: "RoundSummary \<Rightarrow> RoundSummary" where
  "RoundSummary_Clone s =
     \<lparr>rs_Metrics = rs_Metrics s,
      rs_EventCount = rs_EventCount s,
      rs_CommentaryCount = rs_CommentaryCount s,
      rs_ActionCount = rs_ActionCount s\<rparr>"

definition RoundHistoryEntry_Clone :: "RoundHistoryEntry \<Rightarrow> RoundHistoryEntry" where
  "RoundHistoryEntry_Clone e =
     \<lparr>he_Round = he_Round e,
      he_Events = cloneSlice RoundEvent_Clone (he_Events e),
      he_Commentary = cloneSlice CommentaryRecord_Clone (he_Commentary e),
      he_Timeline = cloneSlice RoundTimelineEntry_Clone (he_Timeline e),
      he_Summary = RoundSummary_Clone (he_Summary e)\<rparr>"

definition RoundView_Clone :: "RoundView \<Rightarrow> RoundView" where
  "RoundView_Clone v =
     \<lparr>rv_MatchID = rv_MatchID v,
      rv_Round = rv_Round v,
      rv_ViewerRoleID = rv_ViewerRoleID v,
      rv_RoundFlow = RoundFlowState_Clone (rv_RoundFlow v),
      rv_Plant = PlantState_Clone (rv_Plant v),
      rv_Customers = cloneSlice CustomerState_Clone (rv_Customers v),
      rv_Suppliers = cloneSlice id (rv_Suppliers v),
      rv_ActiveTargets = rv_ActiveTargets v,
      rv_Metrics = rv_Metrics v,
      rv_RecentRounds = cloneSlice RoundHistoryEntry_Clone (rv_RecentRounds v),
      rv_RecentTimeline = cloneSlice RoundTimelineEntry_Clone (rv_RecentTimeline v),
      rv_RecentEvents = cloneSlice RoundEvent_Clone (rv_RecentEvents v),
      rv_RecentCommentary = cloneSlice CommentaryRecord_Clone (rv_RecentCommentary v)\<rparr>"

lemma cloneSlice_id_fun [clone_simps]: "cloneSlice id xs = xs"
  by (simp add: cloneSlice_def)

lemma flat_clones [clone_simps]:
  "RoundFlowState_Clone f = f" "PlantState_Clone p = p" "CustomerState_Clone c = c"
  "CommentaryRecord_Clone r = r" "RoundEvent_Clone e = e" "RoundSummary_Clone s = s"
  "ProcurementAction_Clone pa = pa" "ProductionAction_Clone da = da"
  "SalesAction_Clone sa = sa" "FinanceAction_Clone fa = fa"
  by (simp_all add: RoundFlowState_Clone_def PlantState_Clone_def CustomerState_Clone_def
      CommentaryRecord_Clone_def RoundEvent_Clone_def RoundSummary_Clone_def
      ProcurementAction_Clone_def ProductionAction_Clone_def SalesAction_Clone_def
      FinanceAction_Clone_def clone_simps)

lemma RoleAction_Clone_id [clone_simps]: "RoleAction_Clone a = a"
  by (simp add: RoleAction_Clone_def clonePtr_id clone_simps)

lemma ActionSubmission_Clone_id [clone_simps]: "ActionSubmission_Clone s = s"
  by (simp add: ActionSubmission_Clone_def clone_simps)

lemma RoundTimelineEntry_Clone_id [clone_simps]: "RoundTimelineEntry_Clone e = e"
  by (simp add: RoundTimelineEntry_Clone_def clonePtr_id clone_simps)

lemma RoundHistoryEntry_Clone_id [clone_simps]: "RoundHistoryEntry_Clone e = e"
  by (simp add: RoundHistoryEntry_Clone_def cloneSlice_id clone_simps)

lemma RoundView_Clone_id [clone_simps]: "RoundView_Clone v = v"
  by (simp add: RoundView_Clone_def cloneSlice_id clone_simps)

lemma cloneSlice_clones [clone_simps]:
  "cloneSlice CustomerState_Clone cs = cs" "cloneSlice CommentaryRecord_Clone rs = rs"
  "cloneSlice RoundEvent_Clone es = es" "cloneSlice ActionSubmission_Clone as = as"
  "cloneSlice RoundTimelineEntry_Clone ts = ts"
  by (simp_all add: cloneSlice_id clone_simps)

section \<open>The canonical timeline\<close>

definition roleTimelineRank :: "RoleID \<Rightarrow> int" where
  "roleTimelineRank roleID = int (length (takeWhile (\<lambda>canonical. canonical \<noteq> roleID) CanonicalRoles))"

definition timelineCompare :: "ActionSubmission \<Rightarrow> ActionSubmission \<Rightarrow> int" where
  "timelineCompare left right =
     (let compare = compare_go (as_SubmittedAt left) (as_SubmittedAt right)
      in if compare \<noteq> 0 then compare
         else let compare = compare_go (roleTimelineRank (as_RoleID left))
                                       (roleTimelineRank (as_RoleID right))
              in if compare \<noteq> 0 then compare
                 else compare_go (as_ActionID left) (as_ActionID right))"

interpretation timeline: weak_order timelineCompare
proof -
  have "weak_order (\<lambda>x y. if compare_go (as_SubmittedAt x) (as_SubmittedAt y) \<noteq> 0
      then compare_go (as_SubmittedAt x) (as_SubmittedAt y)
      else if compare_go (roleTimelineRank (as_RoleID x)) (roleTimelineRank (as_RoleID y)) \<noteq> 0
      then compare_go (roleTimelineRank (as_RoleID x)) (roleTimelineRank (as_RoleID y))
      else compare_go (as_ActionID x) (as_ActionID y))"
    by (intro weak_order_lex compare_key.weak_order_axioms)
  then show "weak_order timelineCompare"
    by (simp only: timelineCompare_def [abs_def] Let_def)
qed

definition orderedActionsForTimeline :: "RoundRecord \<Rightarrow> ActionSubmission list" where
  "orderedActionsForTimeline r =
     (if rr_Actions r = [] then []
      else sort_by timelineCompare (cloneSlice ActionSubmission_Clone (rr_Actions r)))"

fun phaseForRoundEvent :: "RoundEvent \<Rightarrow> RoundTimelinePhase" where
  "phaseForRoundEvent event =
     (case ev_Type event of
        EventMetricSnapshot \<Rightarrow> RoundTimelinePhaseSummary
      | _ \<Rightarrow> RoundTimelinePhaseSimulation)"

text \<open>The map from commentary id to record; a later record with the same id wins.\<close>

fun commentaryByID :: "CommentaryRecord list \<Rightarrow> CommentaryID \<rightharpoonup> CommentaryRecord" where
  "commentaryByID [] = Map.empty"
| "commentaryByID (c # cs) = (Map.empty(cm_CommentaryID c \<mapsto> c)) ++ commentaryByID cs"

text \<open>The commentary the ordered actions refer to, then what no action refers to.\<close>

definition commentaryOfActions ::
  "(CommentaryID \<rightharpoonup> CommentaryRecord) \<Rightarrow> ActionSubmission list \<Rightarrow> CommentaryRecord list" where
  "commentaryOfActions byID actions =
     List.map_filter (\<lambda>action. byID (cm_CommentaryID (as_Commentary action))) actions"

definition orderedCommentary :: "RoundRecord \<Rightarrow> CommentaryRecord list" where
  "orderedCommentary r =
     (let first = commentaryOfActions (commentaryByID (rr_Commentary r)) (orderedActionsForTimeline r);
          used = cm_CommentaryID ` set first
      in first @ filter (\<lambda>c. cm_CommentaryID c \<notin> used) (rr_Commentary r))"

fun commentaryEntries :: "int \<Rightarrow> CommentaryRecord list \<Rightarrow> RoundTimelineEntry list" where
  "commentaryEntries index [] = []"
| "commentaryEntries index (c # cs) =
     \<lparr>tl_Phase = RoundTimelinePhaseIntake, tl_Sequence = index + 1,
      tl_Kind = RoundTimelineKindCommentary, tl_Event = None,
      tl_Commentary = Some (CommentaryRecord_Clone c)\<rparr> # commentaryEntries (index + 1) cs"

fun eventEntries ::
  "(RoundTimelinePhase \<Rightarrow> int) \<Rightarrow> RoundEvent list \<Rightarrow> RoundTimelineEntry list" where
  "eventEntries phaseSequence [] = []"
| "eventEntries phaseSequence (event # events) =
     (let phase = phaseForRoundEvent event;
          phaseSequence = phaseSequence(phase := phaseSequence phase + 1)
      in \<lparr>tl_Phase = phase, tl_Sequence = phaseSequence phase,
          tl_Kind = RoundTimelineKindEvent, tl_Event = Some (RoundEvent_Clone event),
          tl_Commentary = None\<rparr> # eventEntries phaseSequence events)"

definition CanonicalTimeline :: "RoundRecord \<Rightarrow> RoundTimelineEntry list" where
  "CanonicalTimeline r =
     (if rr_Timeline r \<noteq> [] then cloneSlice RoundTimelineEntry_Clone (rr_Timeline r)
      else commentaryEntries 0 (orderedCommentary r) @ eventEntries (\<lambda>_. 0) (rr_Events r))"

definition RoundRecord_Clone :: "RoundRecord \<Rightarrow> RoundRecord" where
  "RoundRecord_Clone r =
     \<lparr>rr_Round = rr_Round r,
      rr_Actions = cloneSlice ActionSubmission_Clone (rr_Actions r),
      rr_Events = cloneSlice RoundEvent_Clone (rr_Events r),
      rr_Commentary = cloneSlice CommentaryRecord_Clone (rr_Commentary r),
      rr_Timeline = cloneSlice RoundTimelineEntry_Clone (CanonicalTimeline r),
      rr_Metrics = rr_Metrics r\<rparr>"

definition RoundHistory_Clone :: "RoundHistory \<Rightarrow> RoundHistory" where
  "RoundHistory_Clone h = \<lparr>rh_RecentRounds = cloneSlice RoundRecord_Clone (rh_RecentRounds h)\<rparr>"

definition RoundHistory_Recent :: "RoundHistory \<Rightarrow> int \<Rightarrow> RoundHistory" where
  "RoundHistory_Recent h limit =
     (if limit \<le> 0 \<or> int (length (rh_RecentRounds h)) \<le> limit then RoundHistory_Clone h
      else let start = length (rh_RecentRounds h) - nat limit
           in \<lparr>rh_RecentRounds = cloneSlice RoundRecord_Clone (drop start (rh_RecentRounds h))\<rparr>)"

definition MatchState_Clone :: "MatchState \<Rightarrow> MatchState" where
  "MatchState_Clone s =
     \<lparr>ms_MatchID = ms_MatchID s,
      ms_ScenarioID = ms_ScenarioID s,
      ms_CurrentRound = ms_CurrentRound s,
      ms_Roles = cloneSlice id (ms_Roles s),
      ms_RoundFlow = RoundFlowState_Clone (ms_RoundFlow s),
      ms_Plant = PlantState_Clone (ms_Plant s),
      ms_Customers = cloneSlice CustomerState_Clone (ms_Customers s),
      ms_Suppliers = cloneSlice id (ms_Suppliers s),
      ms_ActiveTargets = ms_ActiveTargets s,
      ms_Metrics = ms_Metrics s,
      ms_History = RoundHistory_Clone (ms_History s)\<rparr>"

section \<open>Facts\<close>

lemma RoundRecord_Clone_eq: "RoundRecord_Clone r = r\<lparr>rr_Timeline := CanonicalTimeline r\<rparr>"
  by (simp add: RoundRecord_Clone_def clone_simps)

lemma RoundRecord_Clone_fields [simp]:
  "rr_Round (RoundRecord_Clone r) = rr_Round r"
  "rr_Actions (RoundRecord_Clone r) = rr_Actions r"
  "rr_Events (RoundRecord_Clone r) = rr_Events r"
  "rr_Commentary (RoundRecord_Clone r) = rr_Commentary r"
  "rr_Metrics (RoundRecord_Clone r) = rr_Metrics r"
  "rr_Timeline (RoundRecord_Clone r) = CanonicalTimeline r"
  by (simp_all add: RoundRecord_Clone_eq)

lemma CanonicalTimeline_keeps: "rr_Timeline r \<noteq> [] \<Longrightarrow> CanonicalTimeline r = rr_Timeline r"
  by (simp add: CanonicalTimeline_def clone_simps)

lemma orderedCommentary_timeline [simp]:
  "orderedCommentary (r\<lparr>rr_Timeline := t\<rparr>) = orderedCommentary r"
  by (simp add: orderedCommentary_def orderedActionsForTimeline_def)

lemma CanonicalTimeline_idem:
  "CanonicalTimeline (r\<lparr>rr_Timeline := CanonicalTimeline r\<rparr>) = CanonicalTimeline r"
  by (cases "rr_Timeline r = []") (simp_all add: CanonicalTimeline_def clone_simps)

lemma RoundRecord_Clone_idem: "RoundRecord_Clone (RoundRecord_Clone r) = RoundRecord_Clone r"
  by (simp add: RoundRecord_Clone_eq CanonicalTimeline_idem)

lemma RoundHistory_Clone_idem: "RoundHistory_Clone (RoundHistory_Clone h) = RoundHistory_Clone h"
  by (simp add: RoundHistory_Clone_def cloneSlice_def RoundRecord_Clone_idem)

lemma MatchState_Clone_eq:
  "MatchState_Clone s = s\<lparr>ms_History := RoundHistory_Clone (ms_History s)\<rparr>"
  by (simp add: MatchState_Clone_def clone_simps)

lemma MatchState_Clone_fields [simp]:
  "ms_MatchID (MatchState_Clone s) = ms_MatchID s"
  "ms_ScenarioID (MatchState_Clone s) = ms_ScenarioID s"
  "ms_CurrentRound (MatchState_Clone s) = ms_CurrentRound s"
  "ms_Roles (MatchState_Clone s) = ms_Roles s"
  "ms_RoundFlow (MatchState_Clone s) = ms_RoundFlow s"
  "ms_Plant (MatchState_Clone s) = ms_Plant s"
  "ms_Customers (MatchState_Clone s) = ms_Customers s"
  "ms_Suppliers (MatchState_Clone s) = ms_Suppliers s"
  "ms_ActiveTargets (MatchState_Clone s) = ms_ActiveTargets s"
  "ms_Metrics (MatchState_Clone s) = ms_Metrics s"
  "ms_History (MatchState_Clone s) = RoundHistory_Clone (ms_History s)"
  by (simp_all add: MatchState_Clone_eq)

lemma MatchState_Clone_idem: "MatchState_Clone (MatchState_Clone s) = MatchState_Clone s"
  by (simp add: MatchState_Clone_eq RoundHistory_Clone_idem)

lemma eventEntries_events:
  "map tl_Event (eventEntries f es) = map Some es" "map tl_Commentary (eventEntries f es) = map (\<lambda>_. None) es"
  by (induction es arbitrary: f) (simp_all add: Let_def clone_simps)

lemma commentaryEntries_commentary:
  "map tl_Commentary (commentaryEntries i cs) = map Some cs"
  "map tl_Event (commentaryEntries i cs) = map (\<lambda>_. None) cs"
  "map tl_Sequence (commentaryEntries i cs) = map (\<lambda>k. i + 1 + int k) [0..<length cs]"
  "\<forall>e \<in> set (commentaryEntries i cs). tl_Phase e = RoundTimelinePhaseIntake"
proof (induction cs arbitrary: i)
  case (Cons c cs)
  {
    case 3
    from Cons(3) show ?case
      by (simp add: upt_0_Suc o_def add.commute add.left_commute del: upt_Suc)
  }
qed (simp_all add: clone_simps)

text \<open>Within one phase the entries are numbered 1, 2, and so on, in event order.\<close>

lemma eventEntries_sequence:
  "map tl_Sequence (filter (\<lambda>e. tl_Phase e = ph) (eventEntries f es)) =
     map (\<lambda>k. f ph + 1 + int k) [0..<length (filter (\<lambda>e. phaseForRoundEvent e = ph) es)]"
proof (induction es arbitrary: f)
  case Nil
  then show ?case by simp
next
  case (Cons e es)
  then show ?case
    by (simp add: Let_def upt_0_Suc o_def add.commute add.left_commute del: upt_Suc phaseForRoundEvent.simps)
qed

lemma commentaryByID_in: "commentaryByID cs i = Some c \<Longrightarrow> c \<in> set cs \<and> cm_CommentaryID c = i"
  by (induction cs) (auto simp: map_add_def split: option.splits if_splits)

lemma commentaryByID_dom: "c \<in> set cs \<Longrightarrow> commentaryByID cs (cm_CommentaryID c) \<noteq> None"
  by (induction cs) (auto simp: map_add_def split: option.splits)

lemma set_commentaryOfActions:
  "set (commentaryOfActions byID as) =
     {c. \<exists>a \<in> set as. byID (cm_CommentaryID (as_Commentary a)) = Some c}"
  by (force simp: commentaryOfActions_def map_filter_def)

text \<open>With distinct ids, no commentary of the round is lost and none is invented.\<close>

lemma set_orderedCommentary:
  assumes "inj_on cm_CommentaryID (set (rr_Commentary r))"
  shows "set (orderedCommentary r) = set (rr_Commentary r)"
proof -
  let ?as = "commentaryOfActions (commentaryByID (rr_Commentary r)) (orderedActionsForTimeline r)"
  have sub: "set ?as \<subseteq> set (rr_Commentary r)"
    by (auto simp: set_commentaryOfActions dest: commentaryByID_in)
  have "c \<in> set ?as" if "c \<in> set (rr_Commentary r)" "cm_CommentaryID c \<in> cm_CommentaryID ` set ?as" for c
    using that sub assms by (auto simp: inj_on_def)
  with sub show ?thesis
    by (auto simp: orderedCommentary_def Let_def)
qed

end
