(* ===== verification/Inventory.thy ===== *)
theory Inventory
  imports Clone
begin

text \<open>
  The inventory helpers of \<open>internal/engine/resolver.go\<close>: costs, parts, work in
  process, finished goods and inspection holds.  The three stock lists share one shape (a
  key, a quantity, a unit cost, an add that averages the cost, a take that drops what
  reaches zero), so their laws are proved once, in the locale \<open>stock\<close>, which is
  interpreted on the three models; the operations other components rely on are the
  interface \<open>inventory\<close>.
\<close>

section \<open>Costs\<close>

definition spendForQuantity :: "Units \<Rightarrow> Money \<Rightarrow> Money" where
  "spendForQuantity quantity unitCost = quantity * unitCost"

definition inventoryCost :: "Units \<Rightarrow> Money \<Rightarrow> Money" where
  "inventoryCost quantity unitCost = quantity * unitCost"

definition perUnitCost :: "Money \<Rightarrow> Units \<Rightarrow> Money" where
  "perUnitCost totalCost quantity = (if quantity \<le> 0 then 0 else go_div totalCost quantity)"

definition affordableQuantity :: "Money \<Rightarrow> Money \<Rightarrow> Units" where
  "affordableQuantity available unitCost =
     (if available \<le> 0 \<or> unitCost \<le> 0 then 0 else go_div available unitCost)"

definition carryingCost :: "Money \<Rightarrow> Money" where
  "carryingCost amount = (if amount \<le> 0 then 0 else max 1 (go_div (amount + 9) 10))"

lemma perUnitCost_nonneg: "0 \<le> t \<Longrightarrow> 0 \<le> perUnitCost t q"
  by (simp add: perUnitCost_def go_div_lower)

lemma perUnitCost_value: "0 \<le> t \<Longrightarrow> 0 < q \<Longrightarrow>
    inventoryCost q (perUnitCost t q) \<le> t \<and> t < inventoryCost q (perUnitCost t q) + q"
proof -
  assume a: "0 \<le> t" "0 < q"
  have "q * (t div q) = t - t mod q" by (simp add: minus_mod_eq_mult_div)
  moreover have "0 \<le> t mod q" "t mod q < q" using a by simp_all
  ultimately show ?thesis using a
    by (simp add: inventoryCost_def perUnitCost_def go_div_nonneg)
qed

lemma affordableQuantity_spec:
  assumes "0 < c"
  shows "0 \<le> affordableQuantity a c"
    and "0 \<le> a \<Longrightarrow> spendForQuantity (affordableQuantity a c) c \<le> a"
    and "0 \<le> a \<Longrightarrow> a < spendForQuantity (affordableQuantity a c + 1) c"
proof -
  have m: "0 \<le> a \<Longrightarrow> a div c * c = a - a mod c" "0 \<le> a mod c" "a mod c < c"
    using assms by (simp_all add: minus_mod_eq_div_mult)
  show "0 \<le> affordableQuantity a c"
    using assms by (simp add: affordableQuantity_def go_div_lower)
  show "0 \<le> a \<Longrightarrow> spendForQuantity (affordableQuantity a c) c \<le> a"
    using assms m by (simp add: affordableQuantity_def spendForQuantity_def go_div_nonneg)
  show "0 \<le> a \<Longrightarrow> a < spendForQuantity (affordableQuantity a c + 1) c"
    using assms m by (simp add: affordableQuantity_def spendForQuantity_def go_div_nonneg distrib_right)
qed

lemma carryingCost_bounds:
  "0 \<le> carryingCost a" "0 \<le> a \<Longrightarrow> carryingCost a \<le> a" "0 \<le> a \<Longrightarrow> a \<le> 10 * carryingCost a"
  by (auto simp: carryingCost_def go_div_nonneg)

section \<open>Parts inventory\<close>

definition mergePart :: "Units \<Rightarrow> Money \<Rightarrow> PartInventory \<Rightarrow> PartInventory" where
  "mergePart quantity unitCost item =
    (if pi_UnitCost item \<le> 0
     then item\<lparr>pi_OnHandQty := pi_OnHandQty item + quantity, pi_UnitCost := unitCost\<rparr>
     else if unitCost \<le> 0
     then item\<lparr>pi_OnHandQty := pi_OnHandQty item + quantity\<rparr>
     else let totalValue = inventoryCost (pi_OnHandQty item) (pi_UnitCost item)
                + inventoryCost quantity unitCost;
              item = item\<lparr>pi_OnHandQty := pi_OnHandQty item + quantity\<rparr>
          in item\<lparr>pi_UnitCost := perUnitCost totalValue (pi_OnHandQty item)\<rparr>)"

definition addPartInventory ::
  "PartInventory list \<Rightarrow> PartID \<Rightarrow> Units \<Rightarrow> Money \<Rightarrow> PartInventory list" where
  "addPartInventory items partID quantity unitCost =
     (if quantity \<le> 0 then items
      else upsert_first (\<lambda>item. pi_PartID item = partID)
        (mergePart quantity unitCost)
        \<lparr>pi_PartID = partID, pi_OnHandQty = quantity, pi_UnitCost = unitCost\<rparr> items)"

definition partQuantity :: "PartInventory list \<Rightarrow> PartID \<Rightarrow> Units" where
  "partQuantity items partID =
     (case find_first (\<lambda>item. pi_PartID item = partID) items of
        Some item \<Rightarrow> pi_OnHandQty item | None \<Rightarrow> 0)"

text \<open>The loop keeps the cost of the last matching item, 0 when none matches.\<close>

definition takePartInventory ::
  "PartInventory list \<Rightarrow> PartID \<Rightarrow> Units \<Rightarrow> PartInventory list \<times> Money" where
  "takePartInventory items partID quantity =
     (filter (\<lambda>item. 0 < pi_OnHandQty item)
        (map (\<lambda>item. if pi_PartID item = partID
                then item\<lparr>pi_OnHandQty := pi_OnHandQty item - quantity\<rparr> else item) items),
      foldl (\<lambda>totalCost item. if pi_PartID item = partID
                then inventoryCost quantity (pi_UnitCost item) else totalCost) 0 items)"

fun consumePartInventory ::
  "PartInventory list \<Rightarrow> BOMLine list \<Rightarrow> Units \<Rightarrow> PartInventory list \<times> Money" where
  "consumePartInventory items [] quantity = (items, 0)"
| "consumePartInventory items (line # bom) quantity =
     (let (items, cost) = takePartInventory items (bl_PartID line) (bl_Quantity line * quantity);
          (items, totalCost) = consumePartInventory items bom quantity
      in (items, cost + totalCost))"

fun maxBuildableLoop :: "PartInventory list \<Rightarrow> BOMLine list \<Rightarrow> Units \<Rightarrow> Units" where
  "maxBuildableLoop items [] allowed = allowed"
| "maxBuildableLoop items (line # bom) allowed =
     (if bl_Quantity line \<le> 0 then maxBuildableLoop items bom allowed
      else let buildable = go_div (partQuantity items (bl_PartID line)) (bl_Quantity line)
           in maxBuildableLoop items bom
                (if allowed < 0 \<or> buildable < allowed then buildable else allowed))"

definition maxBuildableQuantity :: "PartInventory list \<Rightarrow> BOMLine list \<Rightarrow> Units" where
  "maxBuildableQuantity items bom =
     (if bom = [] then 0
      else let allowed = maxBuildableLoop items bom (- 1)
           in if allowed < 0 then 0 else allowed)"

section \<open>Work in process\<close>

definition mergeWIP :: "Units \<Rightarrow> Money \<Rightarrow> WIPInventory \<Rightarrow> WIPInventory" where
  "mergeWIP quantity unitCost item =
    (if wi_UnitCost item \<le> 0
     then item\<lparr>wi_Quantity := wi_Quantity item + quantity, wi_UnitCost := unitCost\<rparr>
     else if unitCost \<le> 0
     then item\<lparr>wi_Quantity := wi_Quantity item + quantity\<rparr>
     else let totalValue = inventoryCost (wi_Quantity item) (wi_UnitCost item)
                + inventoryCost quantity unitCost;
              item = item\<lparr>wi_Quantity := wi_Quantity item + quantity\<rparr>
          in item\<lparr>wi_UnitCost := perUnitCost totalValue (wi_Quantity item)\<rparr>)"

definition addWIPInventory ::
  "WIPInventory list \<Rightarrow> ProductID \<Rightarrow> WorkstationID \<Rightarrow> Units \<Rightarrow> Money \<Rightarrow> WIPInventory list" where
  "addWIPInventory items productID workstationID quantity unitCost =
     (if quantity \<le> 0 then items
      else upsert_first
        (\<lambda>item. wi_ProductID item = productID \<and> wi_WorkstationID item = workstationID)
        (mergeWIP quantity unitCost)
        \<lparr>wi_ProductID = productID, wi_WorkstationID = workstationID,
         wi_Quantity = quantity, wi_UnitCost = unitCost\<rparr> items)"

definition wipQuantity :: "WIPInventory list \<Rightarrow> ProductID \<Rightarrow> WorkstationID \<Rightarrow> Units" where
  "wipQuantity items productID workstationID =
     (case find_first
        (\<lambda>item. wi_ProductID item = productID \<and> wi_WorkstationID item = workstationID) items of
        Some item \<Rightarrow> wi_Quantity item | None \<Rightarrow> 0)"

definition takeWIPInventory ::
  "WIPInventory list \<Rightarrow> ProductID \<Rightarrow> WorkstationID \<Rightarrow> Units \<Rightarrow> WIPInventory list \<times> Money" where
  "takeWIPInventory items productID workstationID quantity =
     (filter (\<lambda>item. 0 < wi_Quantity item)
        (map (\<lambda>item. if wi_ProductID item = productID \<and> wi_WorkstationID item = workstationID
                then item\<lparr>wi_Quantity := wi_Quantity item - quantity\<rparr> else item) items),
      foldl (\<lambda>totalCost item.
                if wi_ProductID item = productID \<and> wi_WorkstationID item = workstationID
                then inventoryCost quantity (wi_UnitCost item) else totalCost) 0 items)"

definition wipUnitsAtWorkstation :: "WIPInventory list \<Rightarrow> WorkstationID \<Rightarrow> Units" where
  "wipUnitsAtWorkstation items workstationID =
     sum_of wi_Quantity (filter (\<lambda>item. wi_WorkstationID item = workstationID) items)"

section \<open>Finished goods\<close>

definition mergeFinished :: "Units \<Rightarrow> Money \<Rightarrow> FinishedInventory \<Rightarrow> FinishedInventory" where
  "mergeFinished quantity unitCost item =
    (if fi_UnitCost item \<le> 0
     then item\<lparr>fi_OnHandQty := fi_OnHandQty item + quantity, fi_UnitCost := unitCost\<rparr>
     else if unitCost \<le> 0
     then item\<lparr>fi_OnHandQty := fi_OnHandQty item + quantity\<rparr>
     else let totalValue = inventoryCost (fi_OnHandQty item) (fi_UnitCost item)
                + inventoryCost quantity unitCost;
              item = item\<lparr>fi_OnHandQty := fi_OnHandQty item + quantity\<rparr>
          in item\<lparr>fi_UnitCost := perUnitCost totalValue (fi_OnHandQty item)\<rparr>)"

definition addFinishedInventory ::
  "FinishedInventory list \<Rightarrow> ProductID \<Rightarrow> Units \<Rightarrow> Money \<Rightarrow> FinishedInventory list" where
  "addFinishedInventory items productID quantity unitCost =
     (if quantity \<le> 0 then items
      else upsert_first (\<lambda>item. fi_ProductID item = productID)
        (mergeFinished quantity unitCost)
        \<lparr>fi_ProductID = productID, fi_OnHandQty = quantity, fi_UnitCost = unitCost\<rparr> items)"

definition finishedQuantity :: "FinishedInventory list \<Rightarrow> ProductID \<Rightarrow> Units" where
  "finishedQuantity items productID =
     (case find_first (\<lambda>item. fi_ProductID item = productID) items of
        Some item \<Rightarrow> fi_OnHandQty item | None \<Rightarrow> 0)"

definition finishedUnitCost :: "FinishedInventory list \<Rightarrow> ProductID \<Rightarrow> Money" where
  "finishedUnitCost items productID =
     (case find_first (\<lambda>item. fi_ProductID item = productID) items of
        Some item \<Rightarrow> fi_UnitCost item | None \<Rightarrow> 0)"

definition takeFinishedInventory ::
  "FinishedInventory list \<Rightarrow> ProductID \<Rightarrow> Units \<Rightarrow> FinishedInventory list" where
  "takeFinishedInventory items productID quantity =
     filter (\<lambda>item. 0 < fi_OnHandQty item)
       (map (\<lambda>item. if fi_ProductID item = productID
               then item\<lparr>fi_OnHandQty := fi_OnHandQty item - quantity\<rparr> else item) items)"

section \<open>Inspection holds\<close>

definition addInspectionHoldInventory ::
  "InspectionHoldInventory list \<Rightarrow> ProductID \<Rightarrow> Units \<Rightarrow> Money \<Rightarrow> RoundNumber \<Rightarrow>
     RoundNumber \<Rightarrow> string \<Rightarrow> InspectionHoldInventory list" where
  "addInspectionHoldInventory items productID quantity unitCost holdRound releaseRound reason =
     (if quantity \<le> 0 then items
      else upsert_first
        (\<lambda>item. ih_ProductID item = productID \<and> ih_ReleaseRound item = releaseRound
                \<and> ih_Reason item = reason)
        (\<lambda>item. let item = item\<lparr>ih_Quantity := ih_Quantity item + quantity\<rparr>
                in if ih_UnitCost item \<le> 0 then item\<lparr>ih_UnitCost := unitCost\<rparr> else item)
        \<lparr>ih_ProductID = productID, ih_Quantity = quantity, ih_UnitCost = unitCost,
         ih_HoldRound = holdRound, ih_ReleaseRound = releaseRound, ih_Reason = reason\<rparr> items)"

section \<open>The inventory interface\<close>

text \<open>
  What the round phase relies on: a stock \<open>s\<close> answers the quantity of a key, takes in a
  quantity at a unit cost and gives a quantity out.  \<open>ok\<close> is its well-formedness (one
  positive entry per key, no negative cost) and \<open>total\<close> counts all its units.
\<close>

locale inventory =
  fixes qty :: "'s \<Rightarrow> 'k \<Rightarrow> int"
    and put :: "'s \<Rightarrow> 'k \<Rightarrow> int \<Rightarrow> int \<Rightarrow> 's"
    and draw :: "'s \<Rightarrow> 'k \<Rightarrow> int \<Rightarrow> 's"
    and ok :: "'s \<Rightarrow> bool"
    and total :: "'s \<Rightarrow> int"
  assumes qty_nonneg: "ok s \<Longrightarrow> 0 \<le> qty s k"
    and qty_le_total: "ok s \<Longrightarrow> qty s k \<le> total s"
    and put_nothing: "q \<le> 0 \<Longrightarrow> put s k q c = s"
    and qty_put: "0 \<le> q \<Longrightarrow> qty (put s k q c) k' = qty s k' + (if k' = k then q else 0)"
    and qty_draw: "ok s \<Longrightarrow> 0 \<le> q \<Longrightarrow>
          qty (draw s k q) k' = (if k' = k then max 0 (qty s k - q) else qty s k')"
    and ok_put: "ok s \<Longrightarrow> 0 \<le> c \<Longrightarrow> ok (put s k q c)"
    and ok_draw: "ok s \<Longrightarrow> ok (draw s k q)"
    and total_put: "0 \<le> q \<Longrightarrow> total (put s k q c) = total s + q"
    and total_draw: "ok s \<Longrightarrow> 0 \<le> q \<Longrightarrow> q \<le> qty s k \<Longrightarrow> total (draw s k q) = total s - q"
begin

lemma qty_draw_exact:
  "ok s \<Longrightarrow> 0 \<le> q \<Longrightarrow> q \<le> qty s k \<Longrightarrow>
   qty (draw s k q) k' = qty s k' - (if k' = k then q else 0)"
  by (simp add: qty_draw)

lemma draw_put_qty:
  "ok s \<Longrightarrow> 0 \<le> q \<Longrightarrow> 0 \<le> c \<Longrightarrow> qty (draw (put s k q c) k q) k' = qty s k'"
  using qty_nonneg [of s k] by (simp add: qty_draw ok_put qty_put)

text \<open>Moving a quantity from one key to another neither makes nor loses a unit.\<close>

lemma total_move:
  assumes "ok s" "0 \<le> q" "q \<le> qty s k"
  shows "total (put (draw s k q) k' q c) = total s"
  using assms by (simp add: total_put total_draw)

lemma ok_move: "ok s \<Longrightarrow> 0 \<le> c \<Longrightarrow> ok (put (draw s k q) k' q c)"
  by (simp add: ok_put ok_draw)

end

text \<open>The shape the three stock lists of the engine have in common.\<close>

locale stock =
  fixes key :: "'i \<Rightarrow> 'k"
    and qt :: "'i \<Rightarrow> int"
    and ct :: "'i \<Rightarrow> int"
    and new :: "'k \<Rightarrow> int \<Rightarrow> int \<Rightarrow> 'i"
    and merge :: "int \<Rightarrow> int \<Rightarrow> 'i \<Rightarrow> 'i"
    and less :: "int \<Rightarrow> 'i \<Rightarrow> 'i"
    and qtyOf :: "'i list \<Rightarrow> 'k \<Rightarrow> int"
    and putIn :: "'i list \<Rightarrow> 'k \<Rightarrow> int \<Rightarrow> int \<Rightarrow> 'i list"
    and drawOut :: "'i list \<Rightarrow> 'k \<Rightarrow> int \<Rightarrow> 'i list"
    and okStock :: "'i list \<Rightarrow> bool"
  assumes new: "key (new k q c) = k" "qt (new k q c) = q" "ct (new k q c) = c"
    and merge: "key (merge q c i) = key i" "qt (merge q c i) = qt i + q"
          "0 < qt i \<Longrightarrow> 0 \<le> ct i \<Longrightarrow> 0 < q \<Longrightarrow> 0 \<le> c \<Longrightarrow> 0 \<le> ct (merge q c i)"
    and less: "key (less q i) = key i" "qt (less q i) = qt i - q" "ct (less q i) = ct i"
    and qtyOf: "qtyOf xs k =
          (case find_first (\<lambda>i. key i = k) xs of Some i \<Rightarrow> qt i | None \<Rightarrow> 0)"
    and putIn: "putIn xs k q c =
          (if q \<le> 0 then xs
           else upsert_first (\<lambda>i. key i = k) (merge q c) (new k q c) xs)"
    and drawOut: "drawOut xs k q =
          filter (\<lambda>i. 0 < qt i) (map (\<lambda>i. if key i = k then less q i else i) xs)"
    and okStock: "okStock xs \<longleftrightarrow>
          distinct (map key xs) \<and> (\<forall>i \<in> set xs. 0 < qt i \<and> 0 \<le> ct i)"
begin

abbreviation units :: "'i list \<Rightarrow> int" where
  "units xs \<equiv> sum_of qt xs"

lemma qtyOf_simps [simp]:
  "qtyOf [] k = 0"
  "qtyOf (x # xs) k = (if key x = k then qt x else qtyOf xs k)"
  by (simp_all add: qtyOf)

lemma qtyOf_absent: "k \<notin> key ` set xs \<Longrightarrow> qtyOf xs k = 0"
  by (induction xs) auto

lemma qtyOf_bounds: "okStock xs \<Longrightarrow> 0 \<le> qtyOf xs k \<and> qtyOf xs k \<le> units xs"
proof -
  assume "okStock xs"
  then have "\<forall>i \<in> set xs. 0 < qt i" by (simp add: okStock)
  then show ?thesis
  proof (induction xs)
    case (Cons x xs)
    moreover have "0 \<le> units xs" using Cons.prems by (intro sum_of_nonneg) force
    ultimately show ?case by auto
  qed simp
qed

lemma qtyOf_upsert:
  "qtyOf (upsert_first (\<lambda>i. key i = k) (merge q c) (new k q c) xs) k' =
     qtyOf xs k' + (if k' = k then q else 0)"
proof (induction xs)
  case Nil
  show ?case by (simp add: new)
next
  case (Cons x xs)
  then show ?case by (cases "key x = k") (simp_all add: merge(1,2))
qed

lemma units_upsert:
  "units (upsert_first (\<lambda>i. key i = k) (merge q c) (new k q c) xs) = units xs + q"
proof (induction xs)
  case Nil
  show ?case by (simp add: new)
next
  case (Cons x xs)
  then show ?case by (cases "key x = k") (simp_all add: merge(1,2))
qed

lemma putIn_nothing: "q \<le> 0 \<Longrightarrow> putIn xs k q c = xs"
  by (simp add: putIn)

lemma qtyOf_putIn:
  "0 \<le> q \<Longrightarrow> qtyOf (putIn xs k q c) k' = qtyOf xs k' + (if k' = k then q else 0)"
  by (simp only: putIn qtyOf_upsert split: if_split) simp

lemma units_putIn: "0 \<le> q \<Longrightarrow> units (putIn xs k q c) = units xs + q"
  by (simp only: putIn units_upsert split: if_split) simp

lemma keys_upsert: "key ` set (upsert_first (\<lambda>i. key i = k) (merge q c) (new k q c) xs) = insert k (key ` set xs)"
proof (induction xs)
  case Nil
  show ?case by (simp add: new)
next
  case (Cons x xs)
  show ?case
  proof (cases "key x = k")
    case True
    then show ?thesis by (simp add: merge(1))
  next
    case False
    then show ?thesis by (simp add: Cons.IH insert_commute)
  qed
qed

lemma okStock_Cons:
  "okStock (x # xs) \<longleftrightarrow> key x \<notin> key ` set xs \<and> 0 < qt x \<and> 0 \<le> ct x \<and> okStock xs"
  by (auto simp: okStock)

lemma okStock_Nil: "okStock []"
  by (simp add: okStock)

lemma okStock_upsert:
  "0 < q \<Longrightarrow> 0 \<le> c \<Longrightarrow> okStock xs \<Longrightarrow>
   okStock (upsert_first (\<lambda>i. key i = k) (merge q c) (new k q c) xs)"
proof (induction xs)
  case Nil
  then show ?case by (simp add: okStock_Cons okStock_Nil new)
next
  case (Cons x xs)
  then show ?case
    by (cases "key x = k") (simp_all add: okStock_Cons keys_upsert merge)
qed

lemma okStock_putIn: "okStock xs \<Longrightarrow> 0 \<le> c \<Longrightarrow> okStock (putIn xs k q c)"
  by (cases "q \<le> 0") (simp_all add: putIn okStock_upsert)

lemma drawOut_simps [simp]:
  "drawOut [] k q = []"
  "drawOut (x # xs) k q =
     (if 0 < qt (if key x = k then less q x else x)
      then (if key x = k then less q x else x) # drawOut xs k q else drawOut xs k q)"
  by (simp_all add: drawOut)

lemma keys_drawOut: "key ` set (drawOut xs k q) \<subseteq> key ` set xs"
  by (induction xs) (auto simp: less)

lemma okStock_drawOut: "okStock xs \<Longrightarrow> okStock (drawOut xs k q)"
proof (induction xs)
  case Nil
  then show ?case by simp
next
  case (Cons x xs)
  then show ?case using keys_drawOut [of xs k q] by (auto simp: okStock_Cons less)
qed

lemma qtyOf_drawOut:
  "okStock xs \<Longrightarrow> 0 \<le> q \<Longrightarrow>
   qtyOf (drawOut xs k q) k' = (if k' = k then max 0 (qtyOf xs k - q) else qtyOf xs k')"
proof (induction xs)
  case Nil
  then show ?case by simp
next
  case (Cons x xs)
  have fresh: "key x \<notin> key ` set xs" and pos: "0 < qt x" and tail: "okStock xs"
    using Cons.prems by (simp_all add: okStock_Cons)
  have gone: "qtyOf (drawOut xs k q) (key x) = 0"
    using fresh keys_drawOut [of xs k q] by (intro qtyOf_absent) blast
  show ?case
  proof (cases "key x = k")
    case True
    then show ?thesis using Cons.IH [OF tail] Cons.prems(2) gone by (simp add: less)
  next
    case False
    then show ?thesis using Cons.IH [OF tail] Cons.prems(2) pos by auto
  qed
qed

lemma drawOut_absent: "okStock xs \<Longrightarrow> k \<notin> key ` set xs \<Longrightarrow> drawOut xs k q = xs"
  by (induction xs) (auto simp: okStock_Cons)

lemma units_drawOut:
  "okStock xs \<Longrightarrow> 0 \<le> q \<Longrightarrow> q \<le> qtyOf xs k \<Longrightarrow> units (drawOut xs k q) = units xs - q"
proof (induction xs)
  case Nil
  then show ?case by simp
next
  case (Cons x xs)
  have fresh: "key x \<notin> key ` set xs" and pos: "0 < qt x" and tail: "okStock xs"
    using Cons.prems by (simp_all add: okStock_Cons)
  show ?case
  proof (cases "key x = k")
    case True
    then show ?thesis using Cons.prems fresh by (simp add: less drawOut_absent tail)
  next
    case False
    then show ?thesis using Cons.IH [OF tail] Cons.prems pos by simp
  qed
qed

text \<open>
  The book value of a stock.  Drawing takes out exactly the cost it reports; putting in
  never adds value when both costs are known, and the truncated average loses less than
  one money unit per unit held.
\<close>

definition worth :: "'i list \<Rightarrow> int" where
  "worth xs = sum_of (\<lambda>i. inventoryCost (qt i) (ct i)) xs"

definition costOf :: "'i list \<Rightarrow> 'k \<Rightarrow> int" where
  "costOf xs k = (case find_first (\<lambda>i. key i = k) xs of Some i \<Rightarrow> ct i | None \<Rightarrow> 0)"

lemma worth_nonneg: "okStock xs \<Longrightarrow> 0 \<le> worth xs"
  unfolding worth_def by (intro sum_of_nonneg) (auto simp: okStock inventoryCost_def)

lemma costOf_nonneg: "okStock xs \<Longrightarrow> 0 \<le> costOf xs k"
  by (auto simp: costOf_def okStock split: option.split dest: find_first_Some)

lemma worth_drawOut:
  "okStock xs \<Longrightarrow> 0 \<le> q \<Longrightarrow> q \<le> qtyOf xs k \<Longrightarrow>
   worth (drawOut xs k q) = worth xs - inventoryCost q (costOf xs k)"
proof (induction xs)
  case Nil
  then show ?case by (simp add: worth_def costOf_def inventoryCost_def)
next
  case (Cons x xs)
  have fresh: "key x \<notin> key ` set xs" and pos: "0 < qt x" and tail: "okStock xs"
    using Cons.prems by (simp_all add: okStock_Cons)
  show ?case
  proof (cases "key x = k")
    case True
    then show ?thesis using Cons.prems fresh
      by (auto simp: worth_def costOf_def inventoryCost_def less drawOut_absent tail algebra_simps)
  next
    case False
    then show ?thesis using Cons.IH [OF tail] Cons.prems pos by (simp add: worth_def costOf_def)
  qed
qed

lemma worth_upsert:
  "worth (upsert_first (\<lambda>i. key i = k) (merge q c) (new k q c) xs) =
     (case find_first (\<lambda>i. key i = k) xs of
        None \<Rightarrow> worth xs + inventoryCost q c
      | Some i \<Rightarrow> worth xs - inventoryCost (qt i) (ct i)
          + inventoryCost (qt i + q) (ct (merge q c i)))"
  by (simp add: upsert_first_eq worth_def new sum_of_update_first merge(2) split: option.split)

end

sublocale stock \<subseteq> inventory qtyOf putIn drawOut okStock units
proof
  fix s k k' q c
  show "okStock s \<Longrightarrow> 0 \<le> qtyOf s k" "okStock s \<Longrightarrow> qtyOf s k \<le> units s"
    by (simp_all only: qtyOf_bounds)
qed (simp_all only: putIn_nothing qtyOf_putIn qtyOf_drawOut okStock_putIn okStock_drawOut
    units_putIn units_drawOut)

section \<open>The three stocks\<close>

definition partsOk :: "PartInventory list \<Rightarrow> bool" where
  "partsOk items \<longleftrightarrow> distinct (map pi_PartID items)
     \<and> (\<forall>item \<in> set items. 0 < pi_OnHandQty item \<and> 0 \<le> pi_UnitCost item)"

definition wipOk :: "WIPInventory list \<Rightarrow> bool" where
  "wipOk items \<longleftrightarrow> distinct (map (\<lambda>item. (wi_ProductID item, wi_WorkstationID item)) items)
     \<and> (\<forall>item \<in> set items. 0 < wi_Quantity item \<and> 0 \<le> wi_UnitCost item)"

definition finishedOk :: "FinishedInventory list \<Rightarrow> bool" where
  "finishedOk items \<longleftrightarrow> distinct (map fi_ProductID items)
     \<and> (\<forall>item \<in> set items. 0 < fi_OnHandQty item \<and> 0 \<le> fi_UnitCost item)"

lemma averaged_cost_nonneg:
  "0 < q0 \<Longrightarrow> 0 \<le> c0 \<Longrightarrow> 0 < q \<Longrightarrow> 0 \<le> c \<Longrightarrow>
   0 \<le> perUnitCost (inventoryCost q0 c0 + inventoryCost q c) n"
  by (intro perUnitCost_nonneg) (simp add: inventoryCost_def)

interpretation parts: stock
  pi_PartID pi_OnHandQty pi_UnitCost
  "\<lambda>k q c. \<lparr>pi_PartID = k, pi_OnHandQty = q, pi_UnitCost = c\<rparr>" mergePart
  "\<lambda>q item. item\<lparr>pi_OnHandQty := pi_OnHandQty item - q\<rparr>"
  partQuantity addPartInventory "\<lambda>items k q. fst (takePartInventory items k q)" partsOk
  by unfold_locales
    (simp_all add: mergePart_def Let_def partQuantity_def addPartInventory_def
      takePartInventory_def partsOk_def averaged_cost_nonneg)

interpretation wip: stock
  "\<lambda>item. (wi_ProductID item, wi_WorkstationID item)" wi_Quantity wi_UnitCost
  "\<lambda>(p, w) q c. \<lparr>wi_ProductID = p, wi_WorkstationID = w, wi_Quantity = q, wi_UnitCost = c\<rparr>"
  mergeWIP "\<lambda>q item. item\<lparr>wi_Quantity := wi_Quantity item - q\<rparr>"
  "\<lambda>items (p, w). wipQuantity items p w" "\<lambda>items (p, w). addWIPInventory items p w"
  "\<lambda>items (p, w) q. fst (takeWIPInventory items p w q)" wipOk
  by unfold_locales
    (simp_all add: mergeWIP_def Let_def wipQuantity_def addWIPInventory_def
      takeWIPInventory_def wipOk_def averaged_cost_nonneg split: prod.split)

interpretation finished: stock
  fi_ProductID fi_OnHandQty fi_UnitCost
  "\<lambda>k q c. \<lparr>fi_ProductID = k, fi_OnHandQty = q, fi_UnitCost = c\<rparr>" mergeFinished
  "\<lambda>q item. item\<lparr>fi_OnHandQty := fi_OnHandQty item - q\<rparr>"
  finishedQuantity addFinishedInventory takeFinishedInventory finishedOk
  by unfold_locales
    (simp_all add: mergeFinished_def Let_def finishedQuantity_def addFinishedInventory_def
      takeFinishedInventory_def finishedOk_def averaged_cost_nonneg)

lemma takePart_cost:
  "partsOk items \<Longrightarrow>
   snd (takePartInventory items k q) = inventoryCost q (parts.costOf items k)"
  by (simp add: takePartInventory_def partsOk_def foldl_unique_key parts.costOf_def
      inventoryCost_def split: option.split)

lemma takeWIP_cost:
  assumes "wipOk items"
  shows "snd (takeWIPInventory items p w q) = inventoryCost q (wip.costOf items (p, w))"
proof -
  have "distinct (map (\<lambda>item. (wi_ProductID item, wi_WorkstationID item)) items)"
    using assms by (simp add: wipOk_def)
  then show ?thesis
    using foldl_unique_key [where k = "\<lambda>item. (wi_ProductID item, wi_WorkstationID item)"
        and a = "(p, w)" and f = "\<lambda>item. inventoryCost q (wi_UnitCost item)" and d = 0 and xs = items]
    by (simp add: takeWIPInventory_def wip.costOf_def inventoryCost_def split: option.split)
qed

lemma finishedUnitCost_eq: "finishedUnitCost items k = finished.costOf items k"
  by (simp add: finishedUnitCost_def finished.costOf_def)

lemma takePart_cost_nonneg: "partsOk items \<Longrightarrow> 0 \<le> q \<Longrightarrow> 0 \<le> snd (takePartInventory items k q)"
  by (simp add: takePart_cost inventoryCost_def parts.costOf_nonneg)

lemma takeWIP_cost_nonneg: "wipOk items \<Longrightarrow> 0 \<le> q \<Longrightarrow> 0 \<le> snd (takeWIPInventory items p w q)"
  by (simp add: takeWIP_cost inventoryCost_def wip.costOf_nonneg)

text \<open>The moving average of parts: no value appears, and less than a unit each is lost.\<close>

lemma addPart_worth:
  assumes ok: "partsOk items" and q: "0 < q" and c: "0 < c"
    and known: "\<forall>item \<in> set items. pi_PartID item = k \<longrightarrow> 0 < pi_UnitCost item"
  shows "parts.worth (addPartInventory items k q c) \<le> parts.worth items + inventoryCost q c"
    and "parts.worth items + inventoryCost q c
           < parts.worth (addPartInventory items k q c) + (partQuantity items k + q)"
proof -
  have u: "addPartInventory items k q c = upsert_first (\<lambda>i. pi_PartID i = k) (mergePart q c)
      \<lparr>pi_PartID = k, pi_OnHandQty = q, pi_UnitCost = c\<rparr> items"
    using q by (simp add: addPartInventory_def)
  have "parts.worth (addPartInventory items k q c) \<le> parts.worth items + inventoryCost q c \<and>
    parts.worth items + inventoryCost q c
           < parts.worth (addPartInventory items k q c) + (partQuantity items k + q)"
  proof (cases "find_first (\<lambda>i. pi_PartID i = k) items")
    case None
    with q show ?thesis by (simp add: u parts.worth_upsert partQuantity_def)
  next
    case (Some i)
    then have i: "0 < pi_OnHandQty i" "0 < pi_UnitCost i"
      using ok known by (auto simp: partsOk_def dest: find_first_Some)
    then have t: "0 \<le> inventoryCost (pi_OnHandQty i) (pi_UnitCost i) + inventoryCost q c"
      and n: "0 < pi_OnHandQty i + q"
      using q c by (simp_all add: inventoryCost_def)
    from perUnitCost_value [OF t n] i c Some show ?thesis
      by (simp add: u parts.worth_upsert partQuantity_def mergePart_def Let_def)
  qed
  then show "parts.worth (addPartInventory items k q c) \<le> parts.worth items + inventoryCost q c"
    "parts.worth items + inventoryCost q c
           < parts.worth (addPartInventory items k q c) + (partQuantity items k + q)" by auto
qed

section \<open>Bills of material\<close>

text \<open>The stock covers \<open>n\<close> units of every line of the bill that consumes anything.\<close>

definition coversBOM :: "PartInventory list \<Rightarrow> BOMLine list \<Rightarrow> Units \<Rightarrow> bool" where
  "coversBOM items bom n \<longleftrightarrow>
     (\<forall>line \<in> set bom. 0 < bl_Quantity line \<longrightarrow>
        bl_Quantity line * n \<le> partQuantity items (bl_PartID line))"

lemma buildable_iff:
  "partsOk items \<Longrightarrow> 0 < q \<Longrightarrow>
   n \<le> go_div (partQuantity items k) q \<longleftrightarrow> q * n \<le> partQuantity items k"
  using parts.qty_nonneg [of items k] by (simp add: go_div_nonneg le_div_iff_int)

lemma buildable_nonneg: "partsOk items \<Longrightarrow> 0 < q \<Longrightarrow> 0 \<le> go_div (partQuantity items k) q"
  by (simp add: go_div_lower parts.qty_nonneg)

lemma maxBuildableLoop_iff:
  assumes "partsOk items"
  shows "0 \<le> allowed \<Longrightarrow>
    n \<le> maxBuildableLoop items bom allowed \<longleftrightarrow> n \<le> allowed \<and> coversBOM items bom n"
  using assms
proof (induction bom arbitrary: allowed)
  case Nil
  then show ?case by (simp add: coversBOM_def)
next
  case (Cons line bom)
  then show ?case
    using buildable_iff [of items "bl_Quantity line" n "bl_PartID line"]
      buildable_nonneg [of items "bl_Quantity line" "bl_PartID line"]
    by (auto simp: coversBOM_def Let_def)
qed

lemma maxBuildableLoop_start:
  assumes "partsOk items" "\<exists>line \<in> set bom. 0 < bl_Quantity line"
  shows "0 \<le> maxBuildableLoop items bom (- 1)"
    and "n \<le> maxBuildableLoop items bom (- 1) \<longleftrightarrow> coversBOM items bom n"
  using assms(2)
proof (induction bom)
  case (Cons line bom)
  {
    case 1
    show ?case
    proof (cases "0 < bl_Quantity line")
      case True
      have "coversBOM items bom 0" using assms(1) by (simp add: coversBOM_def parts.qty_nonneg)
      with True assms(1) show ?thesis
        by (simp add: Let_def maxBuildableLoop_iff buildable_nonneg)
    next
      case False
      with 1 Cons.IH show ?thesis by auto
    qed
  next
    case 2
    show ?case
    proof (cases "0 < bl_Quantity line")
      case True
      with assms(1) show ?thesis
        by (simp add: Let_def maxBuildableLoop_iff buildable_iff parts.qty_nonneg)
          (auto simp: coversBOM_def)
    next
      case False
      with 2 Cons.IH show ?thesis by (auto simp: coversBOM_def)
    qed
  }
qed simp_all

lemma maxBuildable_iff:
  assumes "partsOk items" "\<exists>line \<in> set bom. 0 < bl_Quantity line"
  shows "n \<le> maxBuildableQuantity items bom \<longleftrightarrow> coversBOM items bom n"
proof -
  have "bom \<noteq> []" using assms(2) by auto
  then have "maxBuildableQuantity items bom = maxBuildableLoop items bom (- 1)"
    using maxBuildableLoop_start(1) [OF assms] by (simp only: maxBuildableQuantity_def Let_def) simp
  then show ?thesis by (simp only: maxBuildableLoop_start(2) [OF assms])
qed

lemma maxBuildable_nonneg: "0 \<le> maxBuildableQuantity items bom"
  by (simp add: maxBuildableQuantity_def Let_def)

text \<open>What a bill consumes of one part.\<close>

definition bomDemand :: "BOMLine list \<Rightarrow> PartID \<Rightarrow> Units \<Rightarrow> Units" where
  "bomDemand bom k n = sum_of (\<lambda>line. bl_Quantity line * n) (filter (\<lambda>line. bl_PartID line = k) bom)"

lemma bomDemand_Cons:
  "bomDemand (line # bom) k n = (if bl_PartID line = k then bl_Quantity line * n else 0) + bomDemand bom k n"
  by (simp add: bomDemand_def)

lemma bomDemand_absent: "k \<notin> bl_PartID ` set bom \<Longrightarrow> bomDemand bom k n = 0"
  by (induction bom) (auto simp: bomDemand_def)

lemma bomDemand_nonneg:
  "\<forall>line \<in> set bom. 0 \<le> bl_Quantity line \<Longrightarrow> 0 \<le> n \<Longrightarrow> 0 \<le> bomDemand bom k n"
  unfolding bomDemand_def by (rule sum_of_nonneg) auto

lemma consume_ok: "partsOk items \<Longrightarrow> partsOk (fst (consumePartInventory items bom n))"
proof (induction bom arbitrary: items)
  case Nil
  then show ?case by simp
next
  case (Cons line bom)
  then have "partsOk (fst (takePartInventory items (bl_PartID line) (bl_Quantity line * n)))"
    using parts.ok_draw by blast
  from Cons.IH [OF this] show ?case by (simp add: split_beta Let_def)
qed

lemma consume_qty:
  assumes "\<forall>line \<in> set bom. 0 \<le> bl_Quantity line" "0 \<le> n"
  shows "partsOk items \<Longrightarrow> \<forall>k. bomDemand bom k n \<le> partQuantity items k \<Longrightarrow>
    partQuantity (fst (consumePartInventory items bom n)) k =
      partQuantity items k - bomDemand bom k n"
  using assms(1)
proof (induction bom arbitrary: items)
  case Nil
  then show ?case by (simp add: bomDemand_def)
next
  case (Cons line bom)
  let ?q = "bl_Quantity line * n"
  let ?rest = "fst (takePartInventory items (bl_PartID line) ?q)"
  have q: "0 \<le> ?q" using Cons.prems assms(2) by simp
  have tail: "0 \<le> bomDemand bom k n" for k
    using Cons.prems(3) assms(2) by (intro bomDemand_nonneg) auto
  have "bomDemand bom (bl_PartID line) n + ?q \<le> partQuantity items (bl_PartID line)"
    using Cons.prems(2) [rule_format, of "bl_PartID line"] by (simp add: bomDemand_Cons)
  with tail [of "bl_PartID line"] have fits: "?q \<le> partQuantity items (bl_PartID line)" by linarith
  have rest: "partQuantity ?rest k =
      partQuantity items k - (if k = bl_PartID line then ?q else 0)" for k
    by (rule parts.qty_draw_exact [OF Cons.prems(1) q fits])
  have "\<forall>k. bomDemand bom k n \<le> partQuantity ?rest k"
  proof
    fix k
    show "bomDemand bom k n \<le> partQuantity ?rest k"
      using Cons.prems(2) [rule_format, of k] by (simp add: rest bomDemand_Cons split: if_splits)
  qed
  with Cons.IH [of ?rest] Cons.prems(1,3) show ?case
    by (simp add: split_beta Let_def rest bomDemand_Cons parts.ok_draw)
qed

text \<open>
  A release that is trimmed to the buildable quantity takes exactly its bill of material,
  and never more than there is, if the bill lists each part once.
\<close>

lemma bomDemand_single:
  "distinct (map bl_PartID bom) \<Longrightarrow> line \<in> set bom \<Longrightarrow>
   bomDemand bom (bl_PartID line) n = bl_Quantity line * n"
proof (induction bom)
  case (Cons l bom)
  have "bomDemand bom (bl_PartID l) n = 0"
    using Cons.prems(1) by (simp add: bomDemand_absent)
  with Cons show ?case by (cases "line = l") (auto simp: bomDemand_Cons)
qed simp

lemma coversBOM_demand:
  assumes "partsOk items" "coversBOM items bom n" "distinct (map bl_PartID bom)"
    and "\<forall>line \<in> set bom. 0 \<le> bl_Quantity line" "0 \<le> n"
  shows "bomDemand bom k n \<le> partQuantity items k"
proof (cases "\<exists>line \<in> set bom. bl_PartID line = k")
  case True
  then obtain line where "line \<in> set bom" and k: "bl_PartID line = k" by blast
  with assms show ?thesis
    using bomDemand_single [of bom line n] parts.qty_nonneg [of items k]
    by (cases "bl_Quantity line = 0") (auto simp: coversBOM_def order_less_le)
next
  case False
  then have "bomDemand bom k n = 0" by (intro bomDemand_absent) auto
  with assms(1) show ?thesis by (simp add: parts.qty_nonneg)
qed

section \<open>Inspection hold facts\<close>

definition holdsOk :: "InspectionHoldInventory list \<Rightarrow> bool" where
  "holdsOk items \<longleftrightarrow> (\<forall>item \<in> set items. 0 < ih_Quantity item \<and> 0 \<le> ih_UnitCost item)"

lemma addHold_units:
  "0 \<le> q \<Longrightarrow> sum_of ih_Quantity (addInspectionHoldInventory items k q c h r why)
     = sum_of ih_Quantity items + q"
proof (cases "q = 0")
  case False
  assume "0 \<le> q"
  with False show ?thesis
    by (simp add: addInspectionHoldInventory_def upsert_first_eq sum_of_update_first Let_def
        split: option.split)
qed (simp add: addInspectionHoldInventory_def)

lemma addHold_ok:
  assumes "holdsOk items" "0 \<le> c"
  shows "holdsOk (addInspectionHoldInventory items k q c h r why)"
proof (cases "q \<le> 0")
  case False
  with assms have "\<forall>item \<in> set (update_first P
      (\<lambda>item. let item = item\<lparr>ih_Quantity := ih_Quantity item + q\<rparr>
              in if ih_UnitCost item \<le> 0 then item\<lparr>ih_UnitCost := c\<rparr> else item) items).
      0 < ih_Quantity item \<and> 0 \<le> ih_UnitCost item" for P
    by (intro update_first_all) (auto simp: holdsOk_def Let_def)
  with False assms show ?thesis
    by (auto simp: addInspectionHoldInventory_def upsert_first_eq holdsOk_def split: option.split)
qed (use assms in \<open>simp add: addInspectionHoldInventory_def\<close>)

end
