(* ===== verification/Phase.thy ===== *)
theory Phase
  imports Inventory
begin

text \<open>
  The resolver's configuration and the state a round resolution works on
  (\<open>internal/engine/resolver.go\<close>): the scenario hooks and their contexts, the
  \<open>roundPhase\<close> with its statistics, the event log and the cash ledger.  The relation
  \<open>phase_ext\<close> says what every phase method keeps: the configuration, the identity of
  the match and round, a gap-free event log, and the balance of the cash ledger.
\<close>

section \<open>Hooks and their contexts\<close>

record ProcurementTermsContext =
  ptc_State :: MatchState
  ptc_CurrentRound :: RoundNumber
  ptc_Order :: PurchaseOrderIntent

record ProcurementTerms =
  pt_UnitCost :: Money
  pt_MinimumOrderQuantity :: Units
  pt_LeadTimeRounds :: int
  pt_OnTimeDeliveryPct :: int
  pt_LateDeliveryRounds :: int
  pt_KnownSupplier :: bool

type_synonym ProcurementTermsHook = "ProcurementTermsContext \<Rightarrow> ProcurementTerms"

record ProductionBOMContext =
  pbc_State :: MatchState
  pbc_CurrentRound :: RoundNumber
  pbc_ProductID :: ProductID

record ProductionBOM =
  pb_KnownProduct :: bool
  pb_Parts :: "BOMLine list"

type_synonym ProductionBOMHook = "ProductionBOMContext \<Rightarrow> ProductionBOM"

record ProductionRouteContext =
  prc_State :: MatchState
  prc_CurrentRound :: RoundNumber
  prc_ProductID :: ProductID
  prc_CurrentStationID :: WorkstationID

record ProductionRouteStep =
  prs_NextWorkstationID :: WorkstationID
  prs_Finished :: bool

type_synonym ProductionRouteHook = "ProductionRouteContext \<Rightarrow> ProductionRouteStep"

record ProductionCostContext =
  pcc_State :: MatchState
  pcc_CurrentRound :: RoundNumber
  pcc_ProductID :: ProductID
  pcc_WorkstationID :: WorkstationID
  pcc_Quantity :: CapacityUnits

record ProductionCost =
  pc_CostPerCapacityUnit :: Money

type_synonym ProductionCostHook = "ProductionCostContext \<Rightarrow> ProductionCost"

datatype QualityPhase = QualityPhaseProductionFinal | QualityPhaseShipment

record QualityProfileContext =
  qpc_State :: MatchState
  qpc_CurrentRound :: RoundNumber
  qpc_Phase :: QualityPhase
  qpc_ProductID :: ProductID
  qpc_WorkstationID :: WorkstationID
  qpc_CustomerID :: CustomerID
  qpc_Quantity :: Units
  qpc_Stressed :: bool
  qpc_OvertimeUsed :: bool

record QualityProfile =
  qp_ScrapRatePct :: int
  qp_ReworkRatePct :: int
  qp_InspectionHoldRatePct :: int
  qp_CustomerReturnRatePct :: int
  qp_InspectionHoldRounds :: int
  qp_ReturnDelayRounds :: int

type_synonym QualityProfileHook = "QualityProfileContext \<Rightarrow> QualityProfile"

datatype InventoryClass = InventoryClassParts | InventoryClassWIP | InventoryClassFinished

record InventoryCarryingCostContext =
  icc_State :: MatchState
  icc_CurrentRound :: RoundNumber
  icc_InventoryClass :: InventoryClass
  icc_InventoryValue :: Money

type_synonym InventoryCarryingCostHook = "InventoryCarryingCostContext \<Rightarrow> Money"

text \<open>
  A world update writes the state and the round record through pointers, draws from the
  random source and appends events through a closure, whose captured round and event
  counter are the last two fields.  It returns an error or the context as it left it.
\<close>

record WorldUpdateContext =
  wu_State :: MatchState
  wu_Round :: RoundRecord
  wu_Random :: "RandomSource option"
  wu_currentRound :: RoundNumber
  wu_eventSeq :: int

type_synonym WorldUpdateHook = "WorldUpdateContext \<Rightarrow> string + WorldUpdateContext"

section \<open>Round state\<close>

record resolutionStats =
  st_revenue :: Money
  st_procurementSpend :: Money
  st_productionSpend :: Money
  st_payrollExpense :: Money
  st_laborCost :: Money
  st_overtimeCost :: Money
  st_holdingCost :: Money
  st_debtServiceCost :: Money
  st_shippedUnits :: Units
  st_producedUnits :: Units
  st_lostSalesUnits :: Units
  st_cashReceipts :: Money
  st_cashDisbursements :: Money
  st_idleLaborUnits :: Units
  st_overtimeUnits :: Units
  st_scrapUnits :: Units
  st_reworkUnits :: Units
  st_customerReturnUnits :: Units

definition zero_stats :: resolutionStats where
  "zero_stats = resolutionStats.make 0 0 0 0 0 0 0 0 0 0 0 0 0 0 0 0 0 0"

record roundPhase =
  rp_state :: MatchState
  rp_round :: RoundRecord
  rp_currentRound :: RoundNumber
  rp_beginningCash :: Money
  rp_stats :: resolutionStats
  rp_backlogExpiryRounds :: int
  rp_procurementTerms :: ProcurementTermsHook
  rp_productionBOM :: ProductionBOMHook
  rp_productionRoute :: ProductionRouteHook
  rp_productionCost :: ProductionCostHook
  rp_qualityProfile :: QualityProfileHook
  rp_inventoryCost :: "InventoryCarryingCostHook option"
  rp_receivableDelayRounds :: int
  rp_payableDelayRounds :: int
  rp_payrollDelayRounds :: int
  rp_random :: "RandomSource option"
  rp_eventSeq :: int
  rp_stressedStations :: "WorkstationID \<Rightarrow> bool"

abbreviation plant :: "roundPhase \<Rightarrow> PlantState" where
  "plant p \<equiv> ms_Plant (rp_state p)"

text \<open>Writes through the phase's pointers.\<close>

definition upd_state :: "(MatchState \<Rightarrow> MatchState) \<Rightarrow> roundPhase \<Rightarrow> roundPhase" where
  "upd_state f p = p\<lparr>rp_state := f (rp_state p)\<rparr>"

definition upd_plant :: "(PlantState \<Rightarrow> PlantState) \<Rightarrow> roundPhase \<Rightarrow> roundPhase" where
  "upd_plant f = upd_state (\<lambda>s. s\<lparr>ms_Plant := f (ms_Plant s)\<rparr>)"

definition upd_suppliers :: "(SupplierState list \<Rightarrow> SupplierState list) \<Rightarrow> roundPhase \<Rightarrow> roundPhase" where
  "upd_suppliers f = upd_state (\<lambda>s. s\<lparr>ms_Suppliers := f (ms_Suppliers s)\<rparr>)"

definition upd_customers :: "(CustomerState list \<Rightarrow> CustomerState list) \<Rightarrow> roundPhase \<Rightarrow> roundPhase" where
  "upd_customers f = upd_state (\<lambda>s. s\<lparr>ms_Customers := f (ms_Customers s)\<rparr>)"

definition upd_stats :: "(resolutionStats \<Rightarrow> resolutionStats) \<Rightarrow> roundPhase \<Rightarrow> roundPhase" where
  "upd_stats f p = p\<lparr>rp_stats := f (rp_stats p)\<rparr>"

section \<open>Events\<close>

definition eventID :: "RoundNumber \<Rightarrow> int \<Rightarrow> EventID" where
  "eventID currentRound eventSeq =
     ''round-'' @ itoa currentRound @ ''-event-'' @ pad_itoa 3 eventSeq"

text \<open>The engine's own payload copy: nested maps are copied deeply, slices one level.\<close>

primrec engine_cloneAny :: "any \<Rightarrow> any" where
  "engine_cloneAny (AString s) = AString s"
| "engine_cloneAny (AInt i) = AInt i"
| "engine_cloneAny (AFloat i) = AFloat i"
| "engine_cloneAny (ABool b) = ABool b"
| "engine_cloneAny (AMap m) = AMap (map (map_prod id engine_cloneAny) m)"
| "engine_cloneAny (AList xs) = AList xs"

definition engine_clonePayload :: "payload \<Rightarrow> payload" where
  "engine_clonePayload p = map (map_prod id engine_cloneAny) p"

lemma engine_cloneAny_id [clone_simps]: "engine_cloneAny v = v"
proof (induction v)
  case (AMap m)
  have "map (map_prod id engine_cloneAny) m = m"
  proof (rule map_idI)
    fix kv assume "kv \<in> set m"
    then have "engine_cloneAny (snd kv) = snd kv" by (auto intro!: AMap simp: prod_set_defs)
    then show "map_prod id engine_cloneAny kv = kv" by (cases kv) simp
  qed
  then show ?case by simp
qed simp_all

lemma engine_clonePayload_id [clone_simps]: "engine_clonePayload p = p"
  by (auto simp: engine_clonePayload_def clone_simps intro!: map_idI)

definition newEvent ::
  "MatchID \<Rightarrow> RoundNumber \<Rightarrow> int \<Rightarrow> RoundEventType \<Rightarrow> ActorID \<Rightarrow> string \<Rightarrow> payload \<Rightarrow> RoundEvent" where
  "newEvent matchID currentRound eventSeq eventType actorID summary payload =
     \<lparr>ev_EventID = eventID currentRound eventSeq,
      ev_MatchID = matchID,
      ev_Round = currentRound,
      ev_Type = eventType,
      ev_ActorID = actorID,
      ev_Summary = summary,
      ev_Payload = engine_clonePayload payload\<rparr>"

definition appendEvent ::
  "RoundEventType \<Rightarrow> ActorID \<Rightarrow> string \<Rightarrow> payload \<Rightarrow> roundPhase \<Rightarrow> roundPhase" where
  "appendEvent eventType actorID summary payload p =
     (let p = p\<lparr>rp_eventSeq := rp_eventSeq p + 1\<rparr>
      in p\<lparr>rp_round := (rp_round p)\<lparr>rr_Events := rr_Events (rp_round p) @
             [newEvent (ms_MatchID (rp_state p)) (rp_currentRound p) (rp_eventSeq p)
                eventType actorID summary payload]\<rparr>\<rparr>)"

text \<open>The same closure, as a world update sees it.\<close>

definition AppendEvent ::
  "RoundEventType \<Rightarrow> ActorID \<Rightarrow> string \<Rightarrow> payload \<Rightarrow> WorldUpdateContext \<Rightarrow> WorldUpdateContext" where
  "AppendEvent eventType actorID summary payload ctx =
     (let ctx = ctx\<lparr>wu_eventSeq := wu_eventSeq ctx + 1\<rparr>
      in ctx\<lparr>wu_Round := (wu_Round ctx)\<lparr>rr_Events := rr_Events (wu_Round ctx) @
             [newEvent (ms_MatchID (wu_State ctx)) (wu_currentRound ctx) (wu_eventSeq ctx)
                eventType actorID summary payload]\<rparr>\<rparr>)"

text \<open>Events numbered from \<open>seq + 1\<close> on, all of one match and round.\<close>

fun numbered :: "MatchID \<Rightarrow> RoundNumber \<Rightarrow> int \<Rightarrow> RoundEvent list \<Rightarrow> bool" where
  "numbered m r seq [] \<longleftrightarrow> True"
| "numbered m r seq (e # es) \<longleftrightarrow>
     ev_EventID e = eventID r (seq + 1) \<and> ev_MatchID e = m \<and> ev_Round e = r
     \<and> numbered m r (seq + 1) es"

lemma numbered_append:
  "numbered m r seq (xs @ ys) \<longleftrightarrow> numbered m r seq xs \<and> numbered m r (seq + int (length xs)) ys"
  by (induction xs arbitrary: seq) (auto simp: add.assoc add.commute)

lemma numbered_newEvent: "numbered m r seq [newEvent m r (seq + 1) t a s pl]"
  by (simp add: newEvent_def)

lemma numbered_nth:
  "numbered m r seq es \<Longrightarrow> i < length es \<Longrightarrow> ev_EventID (es ! i) = eventID r (seq + 1 + int i)"
  by (induction es arbitrary: seq i) (auto simp: nth_Cons split: nat.split, force simp: algebra_simps)

lemma numbered_keys:
  "numbered m r seq es \<Longrightarrow> i < length es \<Longrightarrow> ev_MatchID (es ! i) = m \<and> ev_Round (es ! i) = r"
  by (induction es arbitrary: seq i) (auto simp: nth_Cons split: nat.split)

lemma eventID_inj: "0 \<le> i \<Longrightarrow> 0 \<le> j \<Longrightarrow> eventID r i = eventID r j \<Longrightarrow> i = j"
  by (auto simp: eventID_def intro: pad_itoa_inj)

lemma numbered_distinct:
  assumes "numbered m r seq es" "0 \<le> seq"
  shows "distinct (map ev_EventID es)"
proof -
  have "ev_EventID (es ! i) \<noteq> ev_EventID (es ! j)" if "i < length es" "j < length es" "i \<noteq> j" for i j
    using that assms eventID_inj [of "seq + 1 + int i" "seq + 1 + int j" r]
    by (auto simp: numbered_nth)
  then show ?thesis by (simp add: distinct_conv_nth)
qed

section \<open>Cash\<close>

definition minMoney2 :: "Money \<Rightarrow> Money \<Rightarrow> Money" where
  "minMoney2 a b = (if b < a then b else a)"

definition plantCashDelta :: "Money \<Rightarrow> PlantState \<Rightarrow> PlantState" where
  "plantCashDelta delta s =
     (if delta = 0 then s
      else if 0 < delta then
        (let paydown = minMoney2 delta (pl_Debt s)
         in s\<lparr>pl_Debt := pl_Debt s - paydown, pl_Cash := pl_Cash s + (delta - paydown)\<rparr>)
      else
        (let spend = - delta
         in if spend \<le> pl_Cash s then s\<lparr>pl_Cash := pl_Cash s - spend\<rparr>
            else let deficit = spend - pl_Cash s
                 in s\<lparr>pl_Cash := 0, pl_Debt := pl_Debt s + deficit\<rparr>))"

definition applyCashDelta :: "Money \<Rightarrow> roundPhase \<Rightarrow> roundPhase" where
  "applyCashDelta delta = upd_plant (plantCashDelta delta)"

definition availableSpendCapacity :: "PlantState \<Rightarrow> Money" where
  "availableSpendCapacity s =
     (if pl_DebtCeiling s \<le> 0 then pl_Cash s
      else pl_Cash s + max (pl_DebtCeiling s - pl_Debt s) 0)"

definition projectCashDelta :: "Money \<Rightarrow> Money \<Rightarrow> Money \<Rightarrow> Money \<times> Money" where
  "projectCashDelta cash debt delta =
     (if delta = 0 then (cash, debt)
      else if 0 < delta then
        (let paydown = minMoney2 delta debt;
             debt = debt - paydown;
             cash = cash + (delta - paydown)
         in (cash, debt))
      else
        (let spend = - delta
         in if spend \<le> cash then (cash - spend, debt)
            else let deficit = spend - cash in (0, debt + deficit)))"

definition projectedPlantPositionAfterCommitments :: "PlantState \<Rightarrow> Money \<times> Money" where
  "projectedPlantPositionAfterCommitments s =
     (let position = (pl_Cash s, pl_Debt s);
          position = foldl (\<lambda>(cash, debt) item. projectCashDelta cash debt (- cc_Amount item))
                       position (pl_Payables s);
          position = foldl (\<lambda>(cash, debt) item. projectCashDelta cash debt (cc_Amount item))
                       position (pl_Receivables s)
      in position)"

definition availableProjectedSpendCapacity :: "PlantState \<Rightarrow> Money" where
  "availableProjectedSpendCapacity s =
     (let (projectedCash, projectedDebt) = projectedPlantPositionAfterCommitments s
      in if pl_DebtCeiling s \<le> 0 then max projectedCash 0
         else max projectedCash 0 + max (pl_DebtCeiling s - projectedDebt) 0)"

definition cappedBudget :: "Money \<Rightarrow> Money" where
  "cappedBudget target = (if target \<le> 0 then 0 else target + go_div target 10)"

definition sumCommitments :: "CashCommitment list \<Rightarrow> Money" where
  "sumCommitments items = foldl (\<lambda>total item. total + cc_Amount item) 0 items"

text \<open>Cash net of debt: the quantity every cash movement changes by its amount.\<close>

definition netCash :: "PlantState \<Rightarrow> Money" where
  "netCash s = pl_Cash s - pl_Debt s"

lemma netCash_plantCashDelta: "netCash (plantCashDelta delta s) = netCash s + delta"
  by (simp add: netCash_def plantCashDelta_def minMoney2_def Let_def)

lemma plantCashDelta_nonneg:
  "0 \<le> pl_Cash s \<Longrightarrow> 0 \<le> pl_Debt s \<Longrightarrow>
   0 \<le> pl_Cash (plantCashDelta d s) \<and> 0 \<le> pl_Debt (plantCashDelta d s)"
  by (simp add: plantCashDelta_def minMoney2_def Let_def)

lemma plantCashDelta_fields [simp]:
  "pl_DebtCeiling (plantCashDelta d s) = pl_DebtCeiling s"
  "pl_PartsInventory (plantCashDelta d s) = pl_PartsInventory s"
  "pl_WIPInventory (plantCashDelta d s) = pl_WIPInventory s"
  "pl_FinishedInventory (plantCashDelta d s) = pl_FinishedInventory s"
  "pl_InspectionHolds (plantCashDelta d s) = pl_InspectionHolds s"
  "pl_InTransitSupply (plantCashDelta d s) = pl_InTransitSupply s"
  "pl_PendingReturns (plantCashDelta d s) = pl_PendingReturns s"
  "pl_Receivables (plantCashDelta d s) = pl_Receivables s"
  "pl_Payables (plantCashDelta d s) = pl_Payables s"
  "pl_Workstations (plantCashDelta d s) = pl_Workstations s"
  "pl_Backlog (plantCashDelta d s) = pl_Backlog s"
  by (simp_all add: plantCashDelta_def Let_def)

lemma sumCommitments_eq: "sumCommitments items = sum_of cc_Amount items"
proof -
  have "foldl (\<lambda>total item. total + cc_Amount item) a items = a + sum_of cc_Amount items" for a
    by (induction items arbitrary: a) auto
  then show ?thesis by (simp add: sumCommitments_def)
qed

text \<open>The projection is the ledger operation on the pair of cash and debt.\<close>

lemma projectCashDelta_plant:
  "projectCashDelta (pl_Cash s) (pl_Debt s) d =
     (pl_Cash (plantCashDelta d s), pl_Debt (plantCashDelta d s))"
  by (simp add: projectCashDelta_def plantCashDelta_def Let_def)

end
