(* ===== verification/Ledger.thy ===== *)
theory Ledger
  imports Phase
begin

text \<open>
  What every method of the round phase keeps, as one reflexive and transitive relation
  \<open>phase_ext\<close> with an introduction rule per primitive write, and the well-formedness of
  the match state (\<open>stateOk\<close>) that the methods preserve.
\<close>

section \<open>The extension relation\<close>

definition sameConfig :: "roundPhase \<Rightarrow> roundPhase \<Rightarrow> bool" where
  "sameConfig p q \<longleftrightarrow>
     rp_currentRound q = rp_currentRound p
     \<and> rp_beginningCash q = rp_beginningCash p
     \<and> rp_backlogExpiryRounds q = rp_backlogExpiryRounds p
     \<and> rp_procurementTerms q = rp_procurementTerms p
     \<and> rp_productionBOM q = rp_productionBOM p
     \<and> rp_productionRoute q = rp_productionRoute p
     \<and> rp_productionCost q = rp_productionCost p
     \<and> rp_qualityProfile q = rp_qualityProfile p
     \<and> rp_inventoryCost q = rp_inventoryCost p
     \<and> rp_receivableDelayRounds q = rp_receivableDelayRounds p
     \<and> rp_payableDelayRounds q = rp_payableDelayRounds p
     \<and> rp_payrollDelayRounds q = rp_payrollDelayRounds p
     \<and> (rp_random q = None \<longleftrightarrow> rp_random p = None)"

definition sameIdentity :: "MatchState \<Rightarrow> MatchState \<Rightarrow> bool" where
  "sameIdentity s t \<longleftrightarrow>
     ms_MatchID t = ms_MatchID s \<and> ms_ScenarioID t = ms_ScenarioID s
     \<and> ms_CurrentRound t = ms_CurrentRound s \<and> ms_Roles t = ms_Roles s
     \<and> ms_RoundFlow t = ms_RoundFlow s \<and> ms_Metrics t = ms_Metrics s
     \<and> ms_History t = ms_History s"

definition sameRound :: "RoundRecord \<Rightarrow> RoundRecord \<Rightarrow> bool" where
  "sameRound r t \<longleftrightarrow>
     rr_Round t = rr_Round r \<and> rr_Actions t = rr_Actions r
     \<and> rr_Commentary t = rr_Commentary r \<and> rr_Timeline t = rr_Timeline r"

definition eventsExtend :: "roundPhase \<Rightarrow> roundPhase \<Rightarrow> bool" where
  "eventsExtend p q \<longleftrightarrow>
     (\<exists>es. rr_Events (rp_round q) = rr_Events (rp_round p) @ es
        \<and> rp_eventSeq q = rp_eventSeq p + int (length es)
        \<and> numbered (ms_MatchID (rp_state p)) (rp_currentRound p) (rp_eventSeq p) es)"

text \<open>Cash net of debt, less the cash movements the round has recorded so far.\<close>

definition ledger :: "roundPhase \<Rightarrow> Money" where
  "ledger p = netCash (plant p) - (st_cashReceipts (rp_stats p) - st_cashDisbursements (rp_stats p))"

definition phase_ext :: "roundPhase \<Rightarrow> roundPhase \<Rightarrow> bool" where
  "phase_ext p q \<longleftrightarrow>
     sameConfig p q \<and> sameIdentity (rp_state p) (rp_state q) \<and> sameRound (rp_round p) (rp_round q)
     \<and> eventsExtend p q \<and> ledger q = ledger p"

lemmas same_defs = sameConfig_def sameIdentity_def sameRound_def

lemma eventsExtend_refl: "eventsExtend p p"
  unfolding eventsExtend_def by (rule exI [of _ "[]"]) simp

lemma eventsExtend_trans:
  assumes "eventsExtend p q" "eventsExtend q r"
    "ms_MatchID (rp_state q) = ms_MatchID (rp_state p)" "rp_currentRound q = rp_currentRound p"
  shows "eventsExtend p r"
proof -
  let ?num = "numbered (ms_MatchID (rp_state p)) (rp_currentRound p)"
  from assms(1) obtain es where es: "rr_Events (rp_round q) = rr_Events (rp_round p) @ es"
    "rp_eventSeq q = rp_eventSeq p + int (length es)" "?num (rp_eventSeq p) es"
    by (auto simp: eventsExtend_def)
  from assms(2-4) obtain fs where fs: "rr_Events (rp_round r) = rr_Events (rp_round q) @ fs"
    "rp_eventSeq r = rp_eventSeq q + int (length fs)" "?num (rp_eventSeq q) fs"
    by (auto simp: eventsExtend_def)
  from es fs show ?thesis
    unfolding eventsExtend_def by (intro exI [of _ "es @ fs"]) (simp add: numbered_append)
qed

lemma phase_ext_refl [intro, simp]: "phase_ext p p"
  by (simp add: phase_ext_def same_defs eventsExtend_refl)

lemma same_trans:
  "sameConfig p q \<Longrightarrow> sameConfig q r \<Longrightarrow> sameConfig p r"
  "sameIdentity s t \<Longrightarrow> sameIdentity t u \<Longrightarrow> sameIdentity s u"
  "sameRound x y \<Longrightarrow> sameRound y z \<Longrightarrow> sameRound x z"
  by (simp_all add: same_defs)

lemma same_keys:
  "sameConfig p q \<Longrightarrow> rp_currentRound q = rp_currentRound p"
  "sameIdentity s t \<Longrightarrow> ms_MatchID t = ms_MatchID s"
  by (simp_all add: same_defs)

lemma phase_ext_trans [trans]: "phase_ext p q \<Longrightarrow> phase_ext q r \<Longrightarrow> phase_ext p r"
  unfolding phase_ext_def by (metis eventsExtend_trans same_keys same_trans)

lemma phase_extD:
  assumes "phase_ext p q"
  shows "rp_currentRound q = rp_currentRound p" "ms_MatchID (rp_state q) = ms_MatchID (rp_state p)"
    "rp_qualityProfile q = rp_qualityProfile p" "rp_random q = None \<longleftrightarrow> rp_random p = None"
    "rp_productionBOM q = rp_productionBOM p" "rp_productionRoute q = rp_productionRoute p"
    "ledger q = ledger p" "rp_backlogExpiryRounds q = rp_backlogExpiryRounds p"
    "rp_inventoryCost q = rp_inventoryCost p" "rp_beginningCash q = rp_beginningCash p"
  using assms by (auto simp: phase_ext_def same_defs)

section \<open>What the primitive writes change\<close>

lemma upd_sels [phase_simps]:
  "rp_state (upd_state f p) = f (rp_state p)" "rp_round (upd_state f p) = rp_round p"
  "rp_stats (upd_state f p) = rp_stats p" "rp_eventSeq (upd_state f p) = rp_eventSeq p"
  "rp_random (upd_state f p) = rp_random p" "rp_currentRound (upd_state f p) = rp_currentRound p"
  "rp_stressedStations (upd_state f p) = rp_stressedStations p"
  "rp_state (upd_stats g p) = rp_state p" "rp_round (upd_stats g p) = rp_round p"
  "rp_stats (upd_stats g p) = g (rp_stats p)" "rp_eventSeq (upd_stats g p) = rp_eventSeq p"
  "rp_random (upd_stats g p) = rp_random p" "rp_currentRound (upd_stats g p) = rp_currentRound p"
  "rp_stressedStations (upd_stats g p) = rp_stressedStations p"
  by (simp_all add: upd_state_def upd_stats_def)

lemma upd_hooks [phase_simps]:
  "rp_beginningCash (upd_state f p) = rp_beginningCash p"
  "rp_backlogExpiryRounds (upd_state f p) = rp_backlogExpiryRounds p"
  "rp_procurementTerms (upd_state f p) = rp_procurementTerms p"
  "rp_productionBOM (upd_state f p) = rp_productionBOM p"
  "rp_productionRoute (upd_state f p) = rp_productionRoute p"
  "rp_productionCost (upd_state f p) = rp_productionCost p"
  "rp_qualityProfile (upd_state f p) = rp_qualityProfile p"
  "rp_inventoryCost (upd_state f p) = rp_inventoryCost p"
  "rp_receivableDelayRounds (upd_state f p) = rp_receivableDelayRounds p"
  "rp_payableDelayRounds (upd_state f p) = rp_payableDelayRounds p"
  "rp_payrollDelayRounds (upd_state f p) = rp_payrollDelayRounds p"
  "rp_beginningCash (upd_stats g p) = rp_beginningCash p"
  "rp_backlogExpiryRounds (upd_stats g p) = rp_backlogExpiryRounds p"
  "rp_procurementTerms (upd_stats g p) = rp_procurementTerms p"
  "rp_productionBOM (upd_stats g p) = rp_productionBOM p"
  "rp_productionRoute (upd_stats g p) = rp_productionRoute p"
  "rp_productionCost (upd_stats g p) = rp_productionCost p"
  "rp_qualityProfile (upd_stats g p) = rp_qualityProfile p"
  "rp_inventoryCost (upd_stats g p) = rp_inventoryCost p"
  "rp_receivableDelayRounds (upd_stats g p) = rp_receivableDelayRounds p"
  "rp_payableDelayRounds (upd_stats g p) = rp_payableDelayRounds p"
  "rp_payrollDelayRounds (upd_stats g p) = rp_payrollDelayRounds p"
  by (simp_all add: upd_state_def upd_stats_def)

lemma plant_upd [phase_simps]:
  "plant (upd_plant f p) = f (plant p)" "plant (upd_suppliers g p) = plant p"
  "plant (upd_customers h p) = plant p" "plant (upd_stats k p) = plant p"
  "rp_stats (upd_plant f p) = rp_stats p" "rp_stats (upd_suppliers g p) = rp_stats p"
  "rp_stats (upd_customers h p) = rp_stats p"
  "ms_Customers (rp_state (upd_plant f p)) = ms_Customers (rp_state p)"
  "ms_Customers (rp_state (upd_suppliers g p)) = ms_Customers (rp_state p)"
  "ms_Customers (rp_state (upd_customers h p)) = h (ms_Customers (rp_state p))"
  "ms_Suppliers (rp_state (upd_plant f p)) = ms_Suppliers (rp_state p)"
  "ms_Suppliers (rp_state (upd_suppliers g p)) = g (ms_Suppliers (rp_state p))"
  "ms_Suppliers (rp_state (upd_customers h p)) = ms_Suppliers (rp_state p)"
  "ms_ActiveTargets (rp_state (upd_plant f p)) = ms_ActiveTargets (rp_state p)"
  "ms_ActiveTargets (rp_state (upd_suppliers g p)) = ms_ActiveTargets (rp_state p)"
  "ms_ActiveTargets (rp_state (upd_customers h p)) = ms_ActiveTargets (rp_state p)"
  "rp_stressedStations (upd_plant f p) = rp_stressedStations p"
  "rp_stressedStations (upd_suppliers g p) = rp_stressedStations p"
  "rp_stressedStations (upd_customers h p) = rp_stressedStations p"
  "rp_currentRound (upd_plant f p) = rp_currentRound p"
  "rp_currentRound (upd_suppliers g p) = rp_currentRound p"
  "rp_currentRound (upd_customers h p) = rp_currentRound p"
  "rp_random (upd_plant f p) = rp_random p"
  "rp_random (upd_suppliers g p) = rp_random p"
  "rp_random (upd_customers h p) = rp_random p"
  by (simp_all add: upd_plant_def upd_suppliers_def upd_customers_def phase_simps)

lemma appendEvent_sels [phase_simps]:
  "rp_state (appendEvent t a s pl p) = rp_state p" "rp_stats (appendEvent t a s pl p) = rp_stats p"
  "rp_random (appendEvent t a s pl p) = rp_random p"
  "rp_currentRound (appendEvent t a s pl p) = rp_currentRound p"
  "rp_eventSeq (appendEvent t a s pl p) = rp_eventSeq p + 1"
  "rp_stressedStations (appendEvent t a s pl p) = rp_stressedStations p"
  "rp_qualityProfile (appendEvent t a s pl p) = rp_qualityProfile p"
  "rp_backlogExpiryRounds (appendEvent t a s pl p) = rp_backlogExpiryRounds p"
  "rr_Events (rp_round (appendEvent t a s pl p)) = rr_Events (rp_round p) @
     [newEvent (ms_MatchID (rp_state p)) (rp_currentRound p) (rp_eventSeq p + 1) t a s pl]"
  "rr_Metrics (rp_round (appendEvent t a s pl p)) = rr_Metrics (rp_round p)"
  by (simp_all add: appendEvent_def Let_def)

lemma cash_sels [phase_simps]:
  "plant (applyCashDelta d p) = plantCashDelta d (plant p)"
  "rp_stats (applyCashDelta d p) = rp_stats p"
  "ms_Customers (rp_state (applyCashDelta d p)) = ms_Customers (rp_state p)"
  "rp_currentRound (applyCashDelta d p) = rp_currentRound p"
  "rp_random (applyCashDelta d p) = rp_random p"
  "rp_stressedStations (applyCashDelta d p) = rp_stressedStations p"
  by (simp_all add: applyCashDelta_def phase_simps)

section \<open>Introduction rules, one per primitive write\<close>

lemma phase_ext_step:
  "phase_ext q r \<Longrightarrow> phase_ext p q \<Longrightarrow> phase_ext p r"
  by (rule phase_ext_trans)

lemma eventsExtend_same:
  "rr_Events (rp_round q) = rr_Events (rp_round p) \<Longrightarrow> rp_eventSeq q = rp_eventSeq p \<Longrightarrow> eventsExtend p q"
  unfolding eventsExtend_def by (rule exI [of _ "[]"]) simp

lemma ext_appendEvent [inv_intros]: "phase_ext p q \<Longrightarrow> phase_ext p (appendEvent t a s pl q)"
proof (rule phase_ext_step)
  have "eventsExtend q (appendEvent t a s pl q)"
    unfolding eventsExtend_def by (rule exI, simp only: phase_simps, rule conjI, rule refl)
      (simp add: numbered_newEvent del: numbered.simps)
  then show "phase_ext q (appendEvent t a s pl q)"
    by (simp add: phase_ext_def ledger_def same_defs appendEvent_def Let_def)
qed

lemma ext_upd_state:
  "phase_ext p q \<Longrightarrow> sameIdentity (rp_state q) (f (rp_state q)) \<Longrightarrow>
   netCash (ms_Plant (f (rp_state q))) = netCash (plant q) \<Longrightarrow> phase_ext p (upd_state f q)"
  by (rule phase_ext_step [of q])
    (simp_all add: phase_ext_def ledger_def sameConfig_def sameRound_def upd_state_def
      eventsExtend_same)

lemma ext_upd_plant [inv_intros]:
  "phase_ext p q \<Longrightarrow> netCash (f (plant q)) = netCash (plant q) \<Longrightarrow> phase_ext p (upd_plant f q)"
  unfolding upd_plant_def by (rule ext_upd_state) (simp_all add: sameIdentity_def)

lemma ext_upd_suppliers [inv_intros]: "phase_ext p q \<Longrightarrow> phase_ext p (upd_suppliers f q)"
  unfolding upd_suppliers_def by (rule ext_upd_state) (simp_all add: sameIdentity_def)

lemma ext_upd_customers [inv_intros]: "phase_ext p q \<Longrightarrow> phase_ext p (upd_customers f q)"
  unfolding upd_customers_def by (rule ext_upd_state) (simp_all add: sameIdentity_def)

lemma ext_upd_stats [inv_intros]:
  "phase_ext p q \<Longrightarrow> st_cashReceipts (f (rp_stats q)) = st_cashReceipts (rp_stats q) \<Longrightarrow>
   st_cashDisbursements (f (rp_stats q)) = st_cashDisbursements (rp_stats q) \<Longrightarrow>
   phase_ext p (upd_stats f q)"
  by (rule phase_ext_step [of q])
    (simp_all add: phase_ext_def ledger_def same_defs upd_stats_def eventsExtend_same)

lemma ext_random [inv_intros]:
  "phase_ext p q \<Longrightarrow> (r = None \<longleftrightarrow> rp_random q = None) \<Longrightarrow> phase_ext p (q\<lparr>rp_random := r\<rparr>)"
  by (rule phase_ext_step [of q])
    (simp_all add: phase_ext_def ledger_def same_defs eventsExtend_same)

lemma ext_stressed [inv_intros]: "phase_ext p q \<Longrightarrow> phase_ext p (q\<lparr>rp_stressedStations := r\<rparr>)"
  by (rule phase_ext_step [of q])
    (simp_all add: phase_ext_def ledger_def same_defs eventsExtend_same)

text \<open>Cash moves only together with the statistic that records it.\<close>

lemma netCash_updates [simp]:
  "netCash (s\<lparr>pl_PartsInventory := a\<rparr>) = netCash s" "netCash (s\<lparr>pl_WIPInventory := b\<rparr>) = netCash s"
  "netCash (s\<lparr>pl_FinishedInventory := c\<rparr>) = netCash s" "netCash (s\<lparr>pl_InspectionHolds := d\<rparr>) = netCash s"
  "netCash (s\<lparr>pl_InTransitSupply := e\<rparr>) = netCash s" "netCash (s\<lparr>pl_PendingReturns := f\<rparr>) = netCash s"
  "netCash (s\<lparr>pl_Receivables := g\<rparr>) = netCash s" "netCash (s\<lparr>pl_Payables := h\<rparr>) = netCash s"
  "netCash (s\<lparr>pl_Workstations := i\<rparr>) = netCash s" "netCash (s\<lparr>pl_Backlog := j\<rparr>) = netCash s"
  "netCash (s\<lparr>pl_DebtCeiling := k\<rparr>) = netCash s"
  by (simp_all add: netCash_def)

definition addReceipts :: "Money \<Rightarrow> roundPhase \<Rightarrow> roundPhase" where
  "addReceipts amount =
     upd_stats (\<lambda>s. s\<lparr>st_cashReceipts := st_cashReceipts s + amount\<rparr>)"

definition addDisbursements :: "Money \<Rightarrow> roundPhase \<Rightarrow> roundPhase" where
  "addDisbursements amount =
     upd_stats (\<lambda>s. s\<lparr>st_cashDisbursements := st_cashDisbursements s + amount\<rparr>)"

lemma recorded_sels [phase_simps]:
  "rp_state (addReceipts a p) = rp_state p" "rp_state (addDisbursements a p) = rp_state p"
  "rp_round (addReceipts a p) = rp_round p" "rp_round (addDisbursements a p) = rp_round p"
  "rp_currentRound (addReceipts a p) = rp_currentRound p"
  "rp_currentRound (addDisbursements a p) = rp_currentRound p"
  "rp_random (addReceipts a p) = rp_random p"
  "rp_random (addDisbursements a p) = rp_random p"
  by (simp_all add: addReceipts_def addDisbursements_def phase_simps)

text \<open>A run of cash movements, and then one entry for their sum.\<close>

definition cash_ext :: "Money \<Rightarrow> roundPhase \<Rightarrow> roundPhase \<Rightarrow> bool" where
  "cash_ext amount p q \<longleftrightarrow>
     sameConfig p q \<and> sameIdentity (rp_state p) (rp_state q) \<and> sameRound (rp_round p) (rp_round q)
     \<and> eventsExtend p q \<and> ledger q = ledger p + amount"

lemma cash_ext_0: "cash_ext 0 p q \<longleftrightarrow> phase_ext p q"
  by (simp add: cash_ext_def phase_ext_def)

lemma cash_ext_trans: "cash_ext a p q \<Longrightarrow> cash_ext b q r \<Longrightarrow> cash_ext (a + b) p r"
  unfolding cash_ext_def by (metis eventsExtend_trans same_keys same_trans add.assoc)

lemma cash_ext_delta: "cash_ext d q (applyCashDelta d q)"
  by (simp add: cash_ext_def same_defs eventsExtend_same ledger_def applyCashDelta_def
      upd_plant_def upd_state_def netCash_plantCashDelta)

lemma cash_ext_append: "cash_ext d p q \<Longrightarrow> cash_ext d p (appendEvent t a s pl q)"
  using cash_ext_trans [of d p q 0] ext_appendEvent [of q q]
  by (simp add: cash_ext_0)

lemma cash_ext_receipts: "cash_ext d p q \<Longrightarrow> cash_ext (d - a) p (addReceipts a q)"
  by (simp add: cash_ext_def addReceipts_def upd_stats_def same_defs ledger_def eventsExtend_def)

lemma cash_ext_disbursements: "cash_ext d p q \<Longrightarrow> cash_ext (d + a) p (addDisbursements a q)"
  by (simp add: cash_ext_def addDisbursements_def upd_stats_def same_defs ledger_def eventsExtend_def)

lemma ext_receive [inv_intros]:
  "phase_ext p q \<Longrightarrow> phase_ext p (addReceipts a (applyCashDelta a q))"
proof -
  have "cash_ext (a - a) q (addReceipts a (applyCashDelta a q))"
    by (rule cash_ext_receipts [OF cash_ext_delta])
  then show "phase_ext p q \<Longrightarrow> ?thesis" by (auto simp: cash_ext_0 intro: phase_ext_trans)
qed

lemma ext_disburse [inv_intros]:
  "phase_ext p q \<Longrightarrow> phase_ext p (addDisbursements a (applyCashDelta (- a) q))"
proof -
  have "cash_ext (- a + a) q (addDisbursements a (applyCashDelta (- a) q))"
    by (rule cash_ext_disbursements [OF cash_ext_delta])
  then show "phase_ext p q \<Longrightarrow> ?thesis" by (auto simp: cash_ext_0 intro: phase_ext_trans)
qed

section \<open>Well-formed states\<close>

definition lotsOk :: "SupplyLot list \<Rightarrow> bool" where
  "lotsOk lots \<longleftrightarrow> (\<forall>lot \<in> set lots. 0 < sl_Quantity lot \<and> 0 \<le> sl_UnitCost lot)"

definition returnsOk :: "CustomerReturnCommitment list \<Rightarrow> bool" where
  "returnsOk items \<longleftrightarrow> (\<forall>item \<in> set items. 0 < cr_Quantity item \<and> 0 \<le> cr_UnitCost item)"

definition amountsOk :: "CashCommitment list \<Rightarrow> bool" where
  "amountsOk items \<longleftrightarrow> (\<forall>item \<in> set items. 0 < cc_Amount item)"

definition backlogOk :: "BacklogEntry list \<Rightarrow> bool" where
  "backlogOk entries \<longleftrightarrow> (\<forall>entry \<in> set entries. 0 < be_Quantity entry)"

definition plantOk :: "PlantState \<Rightarrow> bool" where
  "plantOk s \<longleftrightarrow>
     0 \<le> pl_Cash s \<and> 0 \<le> pl_Debt s
     \<and> partsOk (pl_PartsInventory s) \<and> wipOk (pl_WIPInventory s)
     \<and> finishedOk (pl_FinishedInventory s) \<and> holdsOk (pl_InspectionHolds s)
     \<and> lotsOk (pl_InTransitSupply s) \<and> returnsOk (pl_PendingReturns s)
     \<and> amountsOk (pl_Receivables s) \<and> amountsOk (pl_Payables s) \<and> backlogOk (pl_Backlog s)"

definition stateOk :: "MatchState \<Rightarrow> bool" where
  "stateOk s \<longleftrightarrow> plantOk (ms_Plant s) \<and> (\<forall>c \<in> set (ms_Customers s). backlogOk (cs_Backlog c))"

abbreviation phaseOk :: "roundPhase \<Rightarrow> bool" where
  "phaseOk p \<equiv> stateOk (rp_state p)"

lemma phaseOk_plant: "phaseOk p \<Longrightarrow> plantOk (plant p)"
  by (simp add: stateOk_def)

lemma plantOkD:
  assumes "plantOk s"
  shows "0 \<le> pl_Cash s" "0 \<le> pl_Debt s" "partsOk (pl_PartsInventory s)" "wipOk (pl_WIPInventory s)"
    "finishedOk (pl_FinishedInventory s)" "holdsOk (pl_InspectionHolds s)"
    "lotsOk (pl_InTransitSupply s)" "returnsOk (pl_PendingReturns s)"
    "amountsOk (pl_Receivables s)" "amountsOk (pl_Payables s)" "backlogOk (pl_Backlog s)"
  using assms by (simp_all add: plantOk_def)

lemma plantOk_cash: "plantOk s \<Longrightarrow> plantOk (plantCashDelta d s)"
  using plantCashDelta_nonneg [of s d] by (simp add: plantOk_def)

lemma ok_upd_plant: "phaseOk p \<Longrightarrow> plantOk (f (plant p)) \<Longrightarrow> phaseOk (upd_plant f p)"
  by (simp add: stateOk_def phase_simps)

lemma ok_appendEvent [simp]: "phaseOk (appendEvent t a s pl p) \<longleftrightarrow> phaseOk p"
  by (simp add: phase_simps)

lemma ok_upd_stats [simp]: "phaseOk (upd_stats f p) \<longleftrightarrow> phaseOk p"
  by (simp add: phase_simps)

lemma ok_recorded [simp]: "phaseOk (addReceipts d p) \<longleftrightarrow> phaseOk p" "phaseOk (addDisbursements d p) \<longleftrightarrow> phaseOk p"
  by (simp_all add: phase_simps)

lemma ok_upd_suppliers [simp]: "phaseOk (upd_suppliers f p) \<longleftrightarrow> phaseOk p"
  by (simp add: stateOk_def phase_simps)

lemma ok_upd_customers:
  "phaseOk p \<Longrightarrow> (\<And>c. c \<in> set (f (ms_Customers (rp_state p))) \<Longrightarrow> backlogOk (cs_Backlog c)) \<Longrightarrow>
   phaseOk (upd_customers f p)"
  by (simp add: stateOk_def phase_simps)

lemma ok_applyCashDelta [ok_intros]: "phaseOk p \<Longrightarrow> phaseOk (applyCashDelta d p)"
  unfolding applyCashDelta_def by (rule ok_upd_plant) (simp_all add: phaseOk_plant plantOk_cash)

lemma ok_keeps [ok_intros]:
  "phaseOk p \<Longrightarrow> phaseOk (appendEvent t a s pl p)"
  "phaseOk p \<Longrightarrow> phaseOk (upd_stats f p)"
  "phaseOk p \<Longrightarrow> phaseOk (addReceipts d p)"
  "phaseOk p \<Longrightarrow> phaseOk (addDisbursements d p)"
  "phaseOk p \<Longrightarrow> phaseOk (upd_suppliers g p)"
  by simp_all

text \<open>A write to one field of the plant: its invariant, given the others.\<close>

lemma ok_set [ok_intros]:
  assumes "phaseOk p"
  shows
    "(plantOk (plant p) \<Longrightarrow> partsOk (fPar (plant p))) \<Longrightarrow>
     phaseOk (upd_plant (\<lambda>s. s\<lparr>pl_PartsInventory := fPar s\<rparr>) p)"
    "(plantOk (plant p) \<Longrightarrow> wipOk (fWIP (plant p))) \<Longrightarrow>
     phaseOk (upd_plant (\<lambda>s. s\<lparr>pl_WIPInventory := fWIP s\<rparr>) p)"
    "(plantOk (plant p) \<Longrightarrow> finishedOk (fFin (plant p))) \<Longrightarrow>
     phaseOk (upd_plant (\<lambda>s. s\<lparr>pl_FinishedInventory := fFin s\<rparr>) p)"
    "(plantOk (plant p) \<Longrightarrow> holdsOk (fIns (plant p))) \<Longrightarrow>
     phaseOk (upd_plant (\<lambda>s. s\<lparr>pl_InspectionHolds := fIns s\<rparr>) p)"
    "(plantOk (plant p) \<Longrightarrow> lotsOk (fInT (plant p))) \<Longrightarrow>
     phaseOk (upd_plant (\<lambda>s. s\<lparr>pl_InTransitSupply := fInT s\<rparr>) p)"
    "(plantOk (plant p) \<Longrightarrow> returnsOk (fPen (plant p))) \<Longrightarrow>
     phaseOk (upd_plant (\<lambda>s. s\<lparr>pl_PendingReturns := fPen s\<rparr>) p)"
    "(plantOk (plant p) \<Longrightarrow> amountsOk (fRec (plant p))) \<Longrightarrow>
     phaseOk (upd_plant (\<lambda>s. s\<lparr>pl_Receivables := fRec s\<rparr>) p)"
    "(plantOk (plant p) \<Longrightarrow> amountsOk (fPay (plant p))) \<Longrightarrow>
     phaseOk (upd_plant (\<lambda>s. s\<lparr>pl_Payables := fPay s\<rparr>) p)"
    "(plantOk (plant p) \<Longrightarrow> backlogOk (fBac (plant p))) \<Longrightarrow>
     phaseOk (upd_plant (\<lambda>s. s\<lparr>pl_Backlog := fBac s\<rparr>) p)"
    "phaseOk (upd_plant (\<lambda>s. s\<lparr>pl_Workstations := h s\<rparr>) p)"
    "phaseOk (upd_plant (\<lambda>s. s\<lparr>pl_DebtCeiling := k s\<rparr>) p)"
  using assms by (simp_all add: stateOk_def phase_simps plantOk_def)

end
