(* ===== verification/Commitments.thy ===== *)
theory Commitments
  imports Ledger
begin

text \<open>
  The commitments of the plant in \<open>internal/engine/resolver.go\<close>: scheduling and settling
  receivables, payables and payroll, and the copy of the backlog each customer carries.
\<close>

section \<open>Scheduling\<close>

text \<open>The cash and debt entries most payloads end with.\<close>

definition cashPayload :: "roundPhase \<Rightarrow> payload" where
  "cashPayload p = [(''cash'', AInt (pl_Cash (plant p))), (''debt'', AInt (pl_Debt (plant p)))]"

definition commitmentPayload :: "CashCommitment \<Rightarrow> payload" where
  "commitmentPayload item =
     [(''commitment_id'', AString (cc_CommitmentID item)),
      (''amount'', AInt (cc_Amount item)),
      (''due_round'', AInt (cc_DueRound item)),
      (''reference_id'', AString (cc_ReferenceID item))]"

definition commitmentID :: "string \<Rightarrow> RoundNumber \<Rightarrow> CashCommitment list \<Rightarrow> string" where
  "commitmentID prefix currentRound items =
     prefix @ ''-r'' @ itoa currentRound @ ''-'' @ itoa (int (length items) + 1)"

definition scheduleReceivable :: "Money \<Rightarrow> string \<Rightarrow> int \<Rightarrow> roundPhase \<Rightarrow> roundPhase" where
  "scheduleReceivable amount referenceID delayRounds p =
    (if amount \<le> 0 then p
     else let delayRounds = max 0 delayRounds
     in if delayRounds = 0
     then let p = addReceipts amount (applyCashDelta amount p)
       in appendEvent EventCashChanged ActorPlantSystem ''Shipment revenue applied''
            ((''delta'', AInt amount) # cashPayload p) p
     else let item =
         \<lparr>cc_CommitmentID = commitmentID ''ar'' (rp_currentRound p) (pl_Receivables (plant p)),
          cc_Kind = CashCommitmentReceivable,
          cc_Amount = amount,
          cc_DueRound = rp_currentRound p + delayRounds,
          cc_CreatedRound = rp_currentRound p,
          cc_ReferenceID = referenceID\<rparr>;
         p = upd_plant (\<lambda>s. s\<lparr>pl_Receivables := pl_Receivables s @ [item]\<rparr>) p
       in appendEvent EventReceivableScheduled ActorPlantSystem ''Scheduled customer receivable''
            (commitmentPayload item) p)"

definition findCustomer :: "CustomerState list \<Rightarrow> CustomerID \<Rightarrow> CustomerState option" where
  "findCustomer customers customerID = find_first (\<lambda>c. cs_CustomerID c = customerID) customers"

definition customerPaymentDelay :: "roundPhase \<Rightarrow> CustomerID \<Rightarrow> int" where
  "customerPaymentDelay p customerID =
    (case findCustomer (ms_Customers (rp_state p)) customerID of
       None \<Rightarrow> rp_receivableDelayRounds p
     | Some customer \<Rightarrow>
         if cs_PaymentDelayRounds customer \<le> 0 then rp_receivableDelayRounds p
         else cs_PaymentDelayRounds customer)"

definition schedulePayable :: "Money \<Rightarrow> string \<Rightarrow> roundPhase \<Rightarrow> roundPhase" where
  "schedulePayable amount referenceID p =
    (if amount \<le> 0 then p
     else if rp_payableDelayRounds p = 0
     then let p = addDisbursements amount (applyCashDelta (- amount) p)
       in appendEvent EventCashChanged ActorPlantSystem ''Procurement spending applied''
            ((''delta'', AInt (- amount)) # cashPayload p) p
     else let item =
         \<lparr>cc_CommitmentID = commitmentID ''ap'' (rp_currentRound p) (pl_Payables (plant p)),
          cc_Kind = CashCommitmentPayable,
          cc_Amount = amount,
          cc_DueRound = rp_currentRound p + rp_payableDelayRounds p,
          cc_CreatedRound = rp_currentRound p,
          cc_ReferenceID = referenceID\<rparr>;
         p = upd_plant (\<lambda>s. s\<lparr>pl_Payables := pl_Payables s @ [item]\<rparr>) p
       in appendEvent EventPayableScheduled ActorPlantSystem ''Scheduled supplier payable''
            (commitmentPayload item) p)"

text \<open>The results are the due round and whether the payroll was paid at once.\<close>

definition schedulePayroll ::
  "Money \<Rightarrow> string \<Rightarrow> roundPhase \<Rightarrow> (RoundNumber \<times> bool) \<times> roundPhase" where
  "schedulePayroll amount referenceID p =
    (if amount \<le> 0 then ((0, False), p)
     else if rp_payrollDelayRounds p = 0
     then let p = addDisbursements amount (applyCashDelta (- amount) p);
              p = appendEvent EventPayrollPaid ActorPlantSystem ''Paid current-round payroll''
                    ([(''amount'', AInt amount), (''reference_id'', AString referenceID)]
                       @ cashPayload p) p;
              p = appendEvent EventCashChanged ActorPlantSystem ''Payroll cash applied''
                    ((''delta'', AInt (- amount)) # cashPayload p) p
       in ((rp_currentRound p, True), p)
     else let item =
         \<lparr>cc_CommitmentID = commitmentID ''payroll'' (rp_currentRound p) (pl_Payables (plant p)),
          cc_Kind = CashCommitmentPayroll,
          cc_Amount = amount,
          cc_DueRound = rp_currentRound p + rp_payrollDelayRounds p,
          cc_CreatedRound = rp_currentRound p,
          cc_ReferenceID = referenceID\<rparr>;
         p = upd_plant (\<lambda>s. s\<lparr>pl_Payables := pl_Payables s @ [item]\<rparr>) p;
         p = appendEvent EventPayrollScheduled ActorPlantSystem ''Scheduled payroll commitment''
               (commitmentPayload item) p
       in ((cc_DueRound item, False), p))"

section \<open>Settling\<close>

definition collectOne :: "roundPhase \<Rightarrow> CashCommitment \<Rightarrow> roundPhase" where
  "collectOne p item =
    (let p = applyCashDelta (cc_Amount item) p
     in appendEvent EventReceivableCollected ActorPlantSystem ''Collected customer receivable''
          ([(''commitment_id'', AString (cc_CommitmentID item)),
            (''amount'', AInt (cc_Amount item)),
            (''due_round'', AInt (cc_DueRound item))] @ cashPayload p) p)"

definition collectReceivablesDue :: "roundPhase \<Rightarrow> roundPhase" where
  "collectReceivablesDue p =
    (if pl_Receivables (plant p) = [] then p
     else let due = filter (\<lambda>item. cc_DueRound item \<le> rp_currentRound p) (pl_Receivables (plant p));
              remaining = filter (\<lambda>item. \<not> cc_DueRound item \<le> rp_currentRound p)
                (pl_Receivables (plant p));
              p = upd_plant (\<lambda>s. s\<lparr>pl_Receivables := remaining\<rparr>) p;
              collected = sumCommitments due;
              p = foldl collectOne p due
     in if 0 < collected
        then let p = addReceipts collected p
          in appendEvent EventCashChanged ActorPlantSystem ''Customer receipts collected''
               ((''delta'', AInt collected) # cashPayload p) p
        else p)"

definition payOne :: "roundPhase \<Rightarrow> CashCommitment \<Rightarrow> roundPhase" where
  "payOne p item =
    (let p = applyCashDelta (- cc_Amount item) p;
         (eventType, summary) =
           (if cc_Kind item = CashCommitmentPayroll
            then (EventPayrollPaid, ''Paid payroll commitment'')
            else (EventPayablePaid, ''Paid supplier payable''))
     in appendEvent eventType ActorPlantSystem summary
          ([(''commitment_id'', AString (cc_CommitmentID item)),
            (''amount'', AInt (cc_Amount item)),
            (''due_round'', AInt (cc_DueRound item)),
            (''kind'', AString (kind_string (cc_Kind item)))] @ cashPayload p) p)"

definition payPayablesDue :: "roundPhase \<Rightarrow> roundPhase" where
  "payPayablesDue p =
    (if pl_Payables (plant p) = [] then p
     else let due = filter (\<lambda>item. cc_DueRound item \<le> rp_currentRound p) (pl_Payables (plant p));
              remaining = filter (\<lambda>item. \<not> cc_DueRound item \<le> rp_currentRound p)
                (pl_Payables (plant p));
              p = upd_plant (\<lambda>s. s\<lparr>pl_Payables := remaining\<rparr>) p;
              disbursed = sumCommitments due;
              p = foldl payOne p due
     in if 0 < disbursed
        then let p = addDisbursements disbursed p
          in appendEvent EventCashChanged ActorPlantSystem ''Committed disbursements applied''
               ((''delta'', AInt (- disbursed)) # cashPayload p) p
        else p)"

section \<open>Customer backlog\<close>

definition customerBacklog :: "BacklogEntry list \<Rightarrow> CustomerState \<Rightarrow> CustomerState" where
  "customerBacklog backlog customer =
     customer\<lparr>cs_Backlog :=
       filter (\<lambda>entry. be_CustomerID entry = cs_CustomerID customer) backlog\<rparr>"

definition syncCustomerBacklog :: "BacklogEntry list \<Rightarrow> roundPhase \<Rightarrow> roundPhase" where
  "syncCustomerBacklog backlog = upd_customers (map (customerBacklog backlog))"

definition effectiveBacklog :: "MatchState \<Rightarrow> BacklogEntry list" where
  "effectiveBacklog state =
     (if pl_Backlog (ms_Plant state) \<noteq> [] then pl_Backlog (ms_Plant state)
      else concat (map cs_Backlog (ms_Customers state)))"

section \<open>What they keep\<close>

lemma scheduleReceivable_ext [inv_intros]:
  "phase_ext p q \<Longrightarrow> phase_ext p (scheduleReceivable amount ref delay q)"
  by (auto simp: scheduleReceivable_def Let_def intro!: inv_intros)

lemma amountsOk_snoc: "amountsOk items \<Longrightarrow> 0 < cc_Amount item \<Longrightarrow> amountsOk (items @ [item])"
  by (auto simp: amountsOk_def)

lemma scheduleReceivable_ok [ok_intros]:
  "phaseOk p \<Longrightarrow> phaseOk (scheduleReceivable amount ref delay p)"
  by (auto simp: scheduleReceivable_def Let_def plantOkD intro!: ok_intros amountsOk_snoc)

lemma schedulePayable_ext [inv_intros]:
  "phase_ext p q \<Longrightarrow> phase_ext p (schedulePayable amount ref q)"
  by (auto simp: schedulePayable_def Let_def intro!: inv_intros)

lemma schedulePayable_ok [ok_intros]: "phaseOk p \<Longrightarrow> phaseOk (schedulePayable amount ref p)"
  by (auto simp: schedulePayable_def Let_def plantOkD intro!: ok_intros amountsOk_snoc)

lemma schedulePayroll_ext [inv_intros]:
  "phase_ext p q \<Longrightarrow> phase_ext p (snd (schedulePayroll amount ref q))"
  by (auto simp: schedulePayroll_def Let_def intro!: inv_intros)

lemma schedulePayroll_ok [ok_intros]:
  "phaseOk p \<Longrightarrow> phaseOk (snd (schedulePayroll amount ref p))"
  by (auto simp: schedulePayroll_def Let_def plantOkD intro!: ok_intros amountsOk_snoc)

lemma collect_ext: "cash_ext (sum_of cc_Amount items) p (foldl collectOne p items)"
proof (induction items arbitrary: p)
  case (Cons item items)
  have "cash_ext (cc_Amount item) p (collectOne p item)"
    unfolding collectOne_def Let_def by (intro cash_ext_append cash_ext_delta)
  from cash_ext_trans [OF this Cons.IH] show ?case by simp
qed (simp add: cash_ext_0)

lemma pay_ext: "cash_ext (- sum_of cc_Amount items) p (foldl payOne p items)"
proof (induction items arbitrary: p)
  case (Cons item items)
  have "cash_ext (- cc_Amount item) p (payOne p item)"
    unfolding payOne_def Let_def by (auto intro: cash_ext_append cash_ext_delta)
  from cash_ext_trans [OF this Cons.IH] show ?case by simp
qed (simp add: cash_ext_0)

lemma due_nonneg: "amountsOk items \<Longrightarrow> 0 \<le> sum_of cc_Amount (filter P items)"
  by (intro sum_of_nonneg) (auto simp: amountsOk_def order_less_imp_le)

lemma collect_ok: "phaseOk p \<Longrightarrow> phaseOk (foldl collectOne p items)"
  by (induction items arbitrary: p) (simp_all add: collectOne_def Let_def ok_applyCashDelta)

lemma pay_ok: "phaseOk p \<Longrightarrow> phaseOk (foldl payOne p items)"
  by (induction items arbitrary: p) (simp_all add: payOne_def Let_def ok_applyCashDelta)

lemma amountsOk_filter: "amountsOk items \<Longrightarrow> amountsOk (filter P items)"
  by (simp add: amountsOk_def)

lemma cash_ext_phase: "cash_ext d q r \<Longrightarrow> phase_ext p q \<Longrightarrow> cash_ext d p r"
  using cash_ext_trans [of 0 p q d r] by (simp add: cash_ext_0)

lemma collectReceivablesDue_ext:
  assumes "phaseOk p"
  shows "phase_ext p (collectReceivablesDue p)"
proof -
  define due where "due = filter (\<lambda>item. cc_DueRound item \<le> rp_currentRound p) (pl_Receivables (plant p))"
  define q where "q = upd_plant (\<lambda>s. s\<lparr>pl_Receivables :=
      filter (\<lambda>item. \<not> cc_DueRound item \<le> rp_currentRound p) (pl_Receivables (plant p))\<rparr>) p"
  have "phase_ext p q" unfolding q_def by (auto intro!: inv_intros)
  then have run: "cash_ext (sumCommitments due) p (foldl collectOne q due)"
    unfolding sumCommitments_eq by (rule cash_ext_phase [OF collect_ext])
  have "0 \<le> sumCommitments due"
    using assms unfolding sumCommitments_eq due_def
    by (intro due_nonneg) (simp add: plantOkD phaseOk_plant)
  then have "\<not> 0 < sumCommitments due \<Longrightarrow> phase_ext p (foldl collectOne q due)"
    using run by (simp add: cash_ext_0 [symmetric])
  moreover have "phase_ext p (addReceipts (sumCommitments due) (foldl collectOne q due))"
    using cash_ext_receipts [OF run, of "sumCommitments due"] by (simp add: cash_ext_0)
  ultimately show ?thesis
    by (simp add: collectReceivablesDue_def Let_def ext_appendEvent flip: due_def q_def)
qed

lemma payPayablesDue_ext:
  assumes "phaseOk p"
  shows "phase_ext p (payPayablesDue p)"
proof -
  define due where "due = filter (\<lambda>item. cc_DueRound item \<le> rp_currentRound p) (pl_Payables (plant p))"
  define q where "q = upd_plant (\<lambda>s. s\<lparr>pl_Payables :=
      filter (\<lambda>item. \<not> cc_DueRound item \<le> rp_currentRound p) (pl_Payables (plant p))\<rparr>) p"
  have "phase_ext p q" unfolding q_def by (auto intro!: inv_intros)
  then have run: "cash_ext (- sumCommitments due) p (foldl payOne q due)"
    unfolding sumCommitments_eq by (rule cash_ext_phase [OF pay_ext])
  have "0 \<le> sumCommitments due"
    using assms unfolding sumCommitments_eq due_def
    by (intro due_nonneg) (simp add: plantOkD phaseOk_plant)
  then have "\<not> 0 < sumCommitments due \<Longrightarrow> phase_ext p (foldl payOne q due)"
    using run by (simp add: cash_ext_0 [symmetric])
  moreover have "phase_ext p (addDisbursements (sumCommitments due) (foldl payOne q due))"
    using cash_ext_disbursements [OF run, of "sumCommitments due"] by (simp add: cash_ext_0)
  ultimately show ?thesis
    by (simp add: payPayablesDue_def Let_def ext_appendEvent flip: due_def q_def)
qed

lemma collectReceivablesDue_ok [ok_intros]: "phaseOk p \<Longrightarrow> phaseOk (collectReceivablesDue p)"
  by (auto simp: collectReceivablesDue_def Let_def plantOkD phaseOk_plant
      intro!: ok_intros collect_ok amountsOk_filter)

lemma payPayablesDue_ok [ok_intros]: "phaseOk p \<Longrightarrow> phaseOk (payPayablesDue p)"
  by (auto simp: payPayablesDue_def Let_def plantOkD phaseOk_plant
      intro!: ok_intros pay_ok amountsOk_filter)

lemma syncCustomerBacklog_ext [inv_intros]:
  "phase_ext p q \<Longrightarrow> phase_ext p (syncCustomerBacklog backlog q)"
  unfolding syncCustomerBacklog_def by (rule inv_intros)

lemma syncCustomerBacklog_ok [ok_intros]:
  "phaseOk p \<Longrightarrow> backlogOk backlog \<Longrightarrow> phaseOk (syncCustomerBacklog backlog p)"
  unfolding syncCustomerBacklog_def
  by (rule ok_upd_customers) (auto simp: customerBacklog_def backlogOk_def)

lemma effectiveBacklog_ok: "stateOk s \<Longrightarrow> backlogOk (effectiveBacklog s)"
  by (auto simp: effectiveBacklog_def stateOk_def plantOk_def backlogOk_def)

section \<open>Working off the due commitments\<close>

lemma plantCashDelta_keeps [simp]:
  "pl_Receivables (plantCashDelta d s) = pl_Receivables s" "pl_Payables (plantCashDelta d s) = pl_Payables s"
  by (simp_all add: plantCashDelta_def Let_def)

lemma collect_all:
  "pl_Receivables (plant (foldl collectOne p items)) = pl_Receivables (plant p)"
  "rp_stats (foldl collectOne p items) = rp_stats p"
  "netCash (plant (foldl collectOne p items)) = netCash (plant p) + sum_of cc_Amount items"
  by (induction items arbitrary: p)
    (simp_all add: collectOne_def Let_def phase_simps applyCashDelta_def netCash_plantCashDelta)

lemma pay_all:
  "pl_Payables (plant (foldl payOne p items)) = pl_Payables (plant p)"
  "rp_stats (foldl payOne p items) = rp_stats p"
  "netCash (plant (foldl payOne p items)) = netCash (plant p) - sum_of cc_Amount items"
  by (induction items arbitrary: p)
    (simp_all add: payOne_def Let_def phase_simps applyCashDelta_def netCash_plantCashDelta)

end
