(* ===== verification/Procurement.thy ===== *)
theory Procurement
  imports Commitments
begin

text \<open>
  Purchasing and inbound supply in \<open>internal/engine/resolver.go\<close>: how much of an order
  is accepted, what it commits the plant to, when a lot arrives or slips, and the
  suppliers' scores.
\<close>

section \<open>Suppliers\<close>

definition findSupplier :: "SupplierState list \<Rightarrow> SupplierID \<Rightarrow> SupplierState option" where
  "findSupplier suppliers supplierID = find_first (\<lambda>s. ss_SupplierID s = supplierID) suppliers"

text \<open>A write through the pointer \<open>findSupplier\<close> returns.\<close>

definition setSupplier :: "SupplierID \<Rightarrow> SupplierState \<Rightarrow> roundPhase \<Rightarrow> roundPhase" where
  "setSupplier supplierID supplier =
     upd_suppliers (update_first (\<lambda>s. ss_SupplierID s = supplierID) (\<lambda>_. supplier))"

definition recordSupplierOrder :: "SupplierID \<Rightarrow> roundPhase \<Rightarrow> roundPhase" where
  "recordSupplierOrder supplierID p =
    (case findSupplier (ms_Suppliers (rp_state p)) supplierID of
       None \<Rightarrow> p
     | Some supplier \<Rightarrow>
         setSupplier supplierID (supplier\<lparr>ss_OrdersPlaced := ss_OrdersPlaced supplier + 1\<rparr>) p)"

definition recordSupplierReceipt :: "SupplierID \<Rightarrow> roundPhase \<Rightarrow> roundPhase" where
  "recordSupplierReceipt supplierID p =
    (case findSupplier (ms_Suppliers (rp_state p)) supplierID of
       None \<Rightarrow> p
     | Some supplier \<Rightarrow>
         let supplier = supplier\<lparr>ss_OrdersReceived := ss_OrdersReceived supplier + 1\<rparr>;
             p = setSupplier supplierID supplier p
         in if ss_LateDeliveries supplier = 0
               \<or> ss_OnTimeDeliveryPct supplier \<le> ss_ReliabilityScore supplier then p
            else let supplier = supplier\<lparr>ss_ReliabilityScore := min 100 (ss_ReliabilityScore supplier + 2)\<rparr>;
                     p = setSupplier supplierID supplier p
              in appendEvent EventSupplierScoreChanged ActorPlantSystem
                   (''Supplier '' @ supplierID @ '' score recovered after an on-time receipt'')
                   [(''supplier_id'', AString supplierID),
                    (''reliability_score'', AInt (ss_ReliabilityScore supplier))] p)"

definition recordSupplierDelay :: "SupplierID \<Rightarrow> roundPhase \<Rightarrow> roundPhase" where
  "recordSupplierDelay supplierID p =
    (case findSupplier (ms_Suppliers (rp_state p)) supplierID of
       None \<Rightarrow> p
     | Some supplier \<Rightarrow>
         let supplier = supplier\<lparr>ss_LateDeliveries := ss_LateDeliveries supplier + 1,
               ss_ReliabilityScore := max 0 (ss_ReliabilityScore supplier - 10)\<rparr>;
             p = setSupplier supplierID supplier p
         in appendEvent EventSupplierScoreChanged ActorPlantSystem
              (''Supplier '' @ supplierID @ '' score dropped after a late promise'')
              [(''supplier_id'', AString supplierID),
               (''reliability_score'', AInt (ss_ReliabilityScore supplier)),
               (''late_deliveries'', AInt (ss_LateDeliveries supplier))] p)"

text \<open>The draw is taken only when every test before it lets the code reach it.\<close>

definition shouldDelayLot ::
  "SupplyLot \<Rightarrow> SupplierState list \<Rightarrow> RandomSource option \<Rightarrow> bool \<times> RandomSource option" where
  "shouldDelayLot lot suppliers random =
    (case random of
       None \<Rightarrow> (False, random)
     | Some rnd \<Rightarrow>
        (case findSupplier suppliers (sl_SupplierID lot) of
           None \<Rightarrow> (False, random)
         | Some supplier \<Rightarrow>
             if ss_LateDeliveryRounds supplier \<le> 0 \<or> 100 \<le> ss_OnTimeDeliveryPct supplier
             then (False, random)
             else let (roll, rnd) = IntN 100 rnd
                  in (ss_OnTimeDeliveryPct supplier \<le> roll, Some rnd)))"

definition supplierLateDelay :: "SupplierState list \<Rightarrow> SupplierID \<Rightarrow> RoundNumber" where
  "supplierLateDelay suppliers supplierID =
    (case findSupplier suppliers supplierID of
       None \<Rightarrow> 0
     | Some supplier \<Rightarrow>
         if ss_LateDeliveryRounds supplier \<le> 0 then 0 else ss_LateDeliveryRounds supplier)"

definition supplierReliabilityScore :: "SupplierState list \<Rightarrow> SupplierID \<Rightarrow> int" where
  "supplierReliabilityScore suppliers supplierID =
    (case findSupplier suppliers supplierID of
       None \<Rightarrow> 0 | Some supplier \<Rightarrow> ss_ReliabilityScore supplier)"

definition averageSupplierReliability :: "SupplierState list \<Rightarrow> Percentage" where
  "averageSupplierReliability suppliers =
    (if suppliers = [] then 0
     else let total = sum_of ss_ReliabilityScore suppliers
          in go_div total (int (length suppliers)))"

section \<open>Purchase orders\<close>

definition normalizedTerms :: "ProcurementTerms \<Rightarrow> ProcurementTerms" where
  "normalizedTerms terms =
    (let terms = (if pt_UnitCost terms \<le> 0 then terms\<lparr>pt_UnitCost := 1\<rparr> else terms);
         terms = (if pt_LeadTimeRounds terms \<le> 0 then terms\<lparr>pt_LeadTimeRounds := 1\<rparr> else terms);
         terms = (if pt_OnTimeDeliveryPct terms < 0 then terms\<lparr>pt_OnTimeDeliveryPct := 100\<rparr> else terms)
     in terms)"

text \<open>The quantity an order is trimmed to, given the cap, what it used so far and the credit.\<close>

definition orderQuantity ::
  "Money \<Rightarrow> Money \<Rightarrow> Money \<Rightarrow> ProcurementTerms \<Rightarrow> Units \<Rightarrow> Units" where
  "orderQuantity hardCap spendUsed affordable terms quantity =
    (let allowed = quantity;
         allowed = (if quantity < pt_MinimumOrderQuantity terms
                    then pt_MinimumOrderQuantity terms else allowed);
         allowed =
           (if 0 < hardCap
            then let remaining = hardCap - spendUsed
                 in if remaining \<le> 0 then 0
                    else if remaining < spendForQuantity allowed (pt_UnitCost terms)
                    then affordableQuantity remaining (pt_UnitCost terms)
                    else allowed
            else allowed);
         allowed = (if affordable < spendForQuantity allowed (pt_UnitCost terms)
                    then affordableQuantity affordable (pt_UnitCost terms) else allowed);
         allowed = (if 0 < allowed \<and> allowed < pt_MinimumOrderQuantity terms then 0 else allowed)
     in allowed)"

definition trimmedOrderPayload ::
  "PurchaseOrderIntent \<Rightarrow> ProcurementTerms \<Rightarrow> Units \<Rightarrow> payload" where
  "trimmedOrderPayload order terms accepted =
     [(''part_id'', AString (po_PartID order)),
      (''requested_quantity'', AInt (po_Quantity order)),
      (''accepted_quantity'', AInt accepted),
      (''minimum_order_quantity'', AInt (pt_MinimumOrderQuantity terms)),
      (''effective_unit_cost'', AInt (pt_UnitCost terms))]"

text \<open>The tail of the loop body: the lot of an accepted quantity.\<close>

definition placeOrder ::
  "ActionID \<Rightarrow> int \<Rightarrow> PurchaseOrderIntent \<Rightarrow> ProcurementTerms \<Rightarrow> Units \<Rightarrow>
     Money \<times> roundPhase \<Rightarrow> Money \<times> roundPhase" where
  "placeOrder actionID index order terms allowed = (\<lambda>(spendUsed, p).
    (let arrivalRound = rp_currentRound p + pt_LeadTimeRounds terms;
         lot = \<lparr>sl_PurchaseOrderID = actionID @ ''-po-'' @ pad_itoa 2 (index + 1),
                sl_SupplierID = po_SupplierID order,
                sl_PartID = po_PartID order,
                sl_Quantity = allowed,
                sl_UnitCost = pt_UnitCost terms,
                sl_OrderedRound = rp_currentRound p,
                sl_PromisedRound = rp_currentRound p + pt_LeadTimeRounds terms,
                sl_ArrivalRound = arrivalRound\<rparr>;
         p = recordSupplierOrder (po_SupplierID order) p;
         p = upd_plant (\<lambda>s. s\<lparr>pl_InTransitSupply := pl_InTransitSupply s @ [lot]\<rparr>) p;
         lineSpend = spendForQuantity allowed (sl_UnitCost lot);
         spendUsed = spendUsed + lineSpend;
         p = upd_stats (\<lambda>s. s\<lparr>st_procurementSpend := st_procurementSpend s + lineSpend\<rparr>) p;
         p = appendEvent EventPurchaseOrderPlaced ActorPlantSystem
               (''Placed purchase order for '' @ itoa allowed @ '' '' @ po_PartID order)
               [(''purchase_order_id'', AString (sl_PurchaseOrderID lot)),
                (''part_id'', AString (po_PartID order)),
                (''supplier_id'', AString (po_SupplierID order)),
                (''quantity'', AInt allowed),
                (''lead_time_rounds'', AInt (pt_LeadTimeRounds terms)),
                (''promised_round'', AInt (sl_PromisedRound lot)),
                (''reliability_score'', AInt (supplierReliabilityScore
                    (ms_Suppliers (rp_state p)) (po_SupplierID order))),
                (''unit_cost'', AInt (sl_UnitCost lot))] p
     in (spendUsed, p)))"

definition procurementOrder ::
  "ActionID \<Rightarrow> Money \<Rightarrow> int \<Rightarrow> PurchaseOrderIntent \<Rightarrow> Money \<times> roundPhase \<Rightarrow> Money \<times> roundPhase" where
  "procurementOrder actionID hardCap index order = (\<lambda>(spendUsed, p).
    (if po_Quantity order \<le> 0 then (spendUsed, p)
     else let terms = rp_procurementTerms p
            \<lparr>ptc_State = MatchState_Clone (rp_state p), ptc_CurrentRound = rp_currentRound p,
             ptc_Order = order\<rparr>
     in if \<not> pt_KnownSupplier terms
     then (spendUsed, appendEvent EventRuleAdjustment ActorPlantSystem
             ''Rejected procurement order for unsupported supplier/part combination''
             [(''part_id'', AString (po_PartID order)),
              (''supplier_id'', AString (po_SupplierID order)),
              (''quantity'', AInt (po_Quantity order))] p)
     else let terms = normalizedTerms terms;
              affordable = availableProjectedSpendCapacity (plant p);
              allowed = orderQuantity hardCap spendUsed affordable terms (po_Quantity order);
              p = (if allowed \<noteq> po_Quantity order
                   then appendEvent EventRuleAdjustment ActorPlantSystem
                     ''Trimmed procurement order to stay within budget or debt constraints''
                     (trimmedOrderPayload order terms allowed) p
                   else p)
     in if allowed \<le> 0
     then (spendUsed, appendEvent EventRuleAdjustment ActorPlantSystem
             ''Rejected procurement order because no legal quantity remained''
             (trimmedOrderPayload order terms 0) p)
     else placeOrder actionID index order terms allowed (spendUsed, p)))"

fun procurementOrders ::
  "ActionID \<Rightarrow> Money \<Rightarrow> int \<Rightarrow> PurchaseOrderIntent list \<Rightarrow> Money \<times> roundPhase \<Rightarrow> Money \<times> roundPhase" where
  "procurementOrders actionID hardCap index [] acc = acc"
| "procurementOrders actionID hardCap index (order # orders) acc =
     procurementOrders actionID hardCap (index + 1) orders
       (procurementOrder actionID hardCap index order acc)"

definition resolveProcurement :: "ActionSubmission option \<Rightarrow> roundPhase \<Rightarrow> roundPhase" where
  "resolveProcurement action p =
    (case action of
       None \<Rightarrow> p
     | Some action \<Rightarrow>
        (case act_Procurement (as_Action action) of
           None \<Rightarrow> p
         | Some procurement \<Rightarrow>
             let hardCap = cappedBudget (bt_ProcurementBudget (ms_ActiveTargets (rp_state p)));
                 (spendUsed, p) = procurementOrders (as_ActionID action) hardCap 0
                   (pra_Orders procurement) (0, p)
             in if 0 < spendUsed
                then schedulePayable spendUsed (''procurement-r'' @ itoa (rp_currentRound p)) p
                else p))"

section \<open>Inbound supply\<close>

text \<open>One pass over the lots in transit; the results are the arrivals and what remains.\<close>

fun receiveLoop ::
  "SupplyLot list \<Rightarrow> roundPhase \<Rightarrow> (SupplyLot list \<times> SupplyLot list) \<times> roundPhase" where
  "receiveLoop [] p = (([], []), p)"
| "receiveLoop (lot # lots) p =
    (if rp_currentRound p < sl_PromisedRound lot
     then let ((arrivals, remaining), p) = receiveLoop lots p in ((arrivals, lot # remaining), p)
     else let (delay, random) =
            (if sl_ArrivalRound lot = sl_PromisedRound lot \<and> sl_PromisedRound lot = rp_currentRound p
             then shouldDelayLot lot (ms_Suppliers (rp_state p)) (rp_random p)
             else (False, rp_random p));
          p = p\<lparr>rp_random := random\<rparr>
     in if delay
     then let lot = lot\<lparr>sl_ArrivalRound := sl_PromisedRound lot
                + supplierLateDelay (ms_Suppliers (rp_state p)) (sl_SupplierID lot)\<rparr>;
              p = recordSupplierDelay (sl_SupplierID lot) p;
              p = appendEvent EventSupplyDelayed ActorPlantSystem
                    (''Supplier '' @ sl_SupplierID lot @ '' slipped '' @ sl_PartID lot @ '' delivery'')
                    [(''purchase_order_id'', AString (sl_PurchaseOrderID lot)),
                     (''supplier_id'', AString (sl_SupplierID lot)),
                     (''part_id'', AString (sl_PartID lot)),
                     (''promised_round'', AInt (sl_PromisedRound lot)),
                     (''arrival_round'', AInt (sl_ArrivalRound lot))] p;
              ((arrivals, remaining), p) = receiveLoop lots p
          in ((arrivals, lot # remaining), p)
     else if sl_ArrivalRound lot \<le> rp_currentRound p
     then let ((arrivals, remaining), p) = receiveLoop lots p in ((lot # arrivals, remaining), p)
     else let ((arrivals, remaining), p) = receiveLoop lots p in ((arrivals, lot # remaining), p))"

definition receiveOne :: "roundPhase \<Rightarrow> SupplyLot \<Rightarrow> roundPhase" where
  "receiveOne p lot =
    (let p = upd_plant (\<lambda>s. s\<lparr>pl_PartsInventory := addPartInventory (pl_PartsInventory s)
               (sl_PartID lot) (sl_Quantity lot) (sl_UnitCost lot)\<rparr>) p;
         p = recordSupplierReceipt (sl_SupplierID lot) p
     in appendEvent EventSupplyArrived ActorPlantSystem
          (''Received '' @ itoa (sl_Quantity lot) @ '' '' @ sl_PartID lot)
          [(''purchase_order_id'', AString (sl_PurchaseOrderID lot)),
           (''supplier_id'', AString (sl_SupplierID lot)),
           (''part_id'', AString (sl_PartID lot)),
           (''quantity'', AInt (sl_Quantity lot)),
           (''unit_cost'', AInt (sl_UnitCost lot)),
           (''promised_round'', AInt (sl_PromisedRound lot)),
           (''arrival_round'', AInt (sl_ArrivalRound lot))] p)"

definition receiveSupply :: "roundPhase \<Rightarrow> roundPhase" where
  "receiveSupply p =
    (if pl_InTransitSupply (plant p) = [] then p
     else let ((arrivals, remaining), p) = receiveLoop (pl_InTransitSupply (plant p)) p;
              p = upd_plant (\<lambda>s. s\<lparr>pl_InTransitSupply := remaining\<rparr>) p
          in foldl receiveOne p arrivals)"

section \<open>How much of an order is accepted\<close>

lemma normalizedTerms_pos:
  "0 < pt_UnitCost (normalizedTerms terms)" "0 < pt_LeadTimeRounds (normalizedTerms terms)"
  by (simp_all add: normalizedTerms_def Let_def)

lemma normalizedTerms_keeps [simp]:
  "pt_MinimumOrderQuantity (normalizedTerms terms) = pt_MinimumOrderQuantity terms"
  "pt_KnownSupplier (normalizedTerms terms) = pt_KnownSupplier terms"
  by (simp_all add: normalizedTerms_def Let_def)

text \<open>What the limits on an order ask of a quantity.\<close>

definition withinLimits :: "Money \<Rightarrow> Money \<Rightarrow> Money \<Rightarrow> ProcurementTerms \<Rightarrow> Units \<Rightarrow> bool" where
  "withinLimits hardCap spendUsed affordable terms n \<longleftrightarrow>
     pt_MinimumOrderQuantity terms \<le> n
     \<and> spendForQuantity n (pt_UnitCost terms) \<le> affordable
     \<and> (0 < hardCap \<longrightarrow> spendUsed + spendForQuantity n (pt_UnitCost terms) \<le> hardCap)"

lemma affordable_le: "0 < c \<Longrightarrow> 0 < n \<Longrightarrow> n \<le> affordableQuantity b c \<longleftrightarrow> spendForQuantity n c \<le> b"
proof (cases "b \<le> 0")
  case True
  assume "0 < c" "0 < n"
  then have "0 < n * c" by simp
  with True \<open>0 < n\<close> show ?thesis by (simp add: affordableQuantity_def spendForQuantity_def)
qed (simp add: affordableQuantity_def go_div_nonneg le_div_iff_int spendForQuantity_def mult.commute)

lemma trim_le:
  assumes "0 < c" "0 < n"
  shows "n \<le> (if b < spendForQuantity a c then affordableQuantity b c else a) \<longleftrightarrow>
     n \<le> a \<and> spendForQuantity n c \<le> b"
proof -
  have "n \<le> a \<Longrightarrow> spendForQuantity n c \<le> spendForQuantity a c" and
    "spendForQuantity n c < spendForQuantity a c \<Longrightarrow> n \<le> a"
    using assms(1) by (simp_all add: spendForQuantity_def)
  then show ?thesis by (auto simp: affordable_le [OF assms])
qed

lemma orderQuantity_accepts:
  assumes c: "0 < pt_UnitCost terms" and pos: "0 < orderQuantity cap used credit terms q"
  shows "withinLimits cap used credit terms (orderQuantity cap used credit terms q)"
    "orderQuantity cap used credit terms q \<le> max q (pt_MinimumOrderQuantity terms)"
proof -
  let ?c = "pt_UnitCost terms" and ?m = "pt_MinimumOrderQuantity terms" 
  let ?n = "orderQuantity cap used credit terms q"
  define a where "a = (if q < ?m then ?m else q)"
  define b where "b = (if 0 < cap then if cap - used \<le> 0 then 0
      else if cap - used < spendForQuantity a ?c then affordableQuantity (cap - used) ?c else a else a)"
  define d where "d = (if credit < spendForQuantity b ?c then affordableQuantity credit ?c else b)"
  have n: "?n = (if 0 < d \<and> d < ?m then 0 else d)"
    unfolding orderQuantity_def Let_def a_def b_def d_def ..
  with pos have d: "?n = d" "0 < d" "?m \<le> d" by (simp_all split: if_splits)
  have b1: "d \<le> b" "spendForQuantity d ?c \<le> credit"
    using trim_le [OF c d(2), of credit b] by (simp_all add: d_def)
  then have b2: "d \<le> a" "0 < cap \<Longrightarrow> spendForQuantity d ?c \<le> cap - used"
    using trim_le [OF c d(2), of "cap - used" a] d(2) by (auto simp: b_def split: if_splits)
  show "withinLimits cap used credit terms ?n"
    using b1 b2(2) d by (auto simp: withinLimits_def)
  show "?n \<le> max q ?m" using b2(1) d(1) by (simp add: a_def split: if_splits)
qed

lemma orderQuantity_largest:
  assumes c: "0 < pt_UnitCost terms" and n: "0 < n" "n \<le> max q (pt_MinimumOrderQuantity terms)"
    and lim: "withinLimits cap used credit terms n"
  shows "n \<le> orderQuantity cap used credit terms q"
proof -
  let ?c = "pt_UnitCost terms" and ?m = "pt_MinimumOrderQuantity terms" 
  define a where "a = (if q < ?m then ?m else q)"
  define b where "b = (if 0 < cap then if cap - used \<le> 0 then 0
      else if cap - used < spendForQuantity a ?c then affordableQuantity (cap - used) ?c else a else a)"
  define d where "d = (if credit < spendForQuantity b ?c then affordableQuantity credit ?c else b)"
  have eq: "orderQuantity cap used credit terms q = (if 0 < d \<and> d < ?m then 0 else d)"
    unfolding orderQuantity_def Let_def a_def b_def d_def ..
  have "n \<le> a" using n(2) by (simp add: a_def max_def split: if_splits)
  moreover have "0 < spendForQuantity n ?c" using c n by (simp add: spendForQuantity_def)
  ultimately have "n \<le> b"
    using trim_le [OF c n(1), of "cap - used" a] lim n(1)
    by (auto simp: b_def withinLimits_def simp flip: if_not_P)
  then have "n \<le> d"
    using trim_le [OF c n(1), of credit b] lim by (simp add: d_def withinLimits_def)
  with lim show ?thesis by (auto simp: eq withinLimits_def)
qed

section \<open>What an order commits the plant to\<close>

text \<open>
  \<open>lots\<close> were ordered between two states of the loop: they are appended to the lots in
  transit, each one promised for a later round, and the loop's spending and the
  statistic grow by what they cost.
\<close>

definition lotSpend :: "SupplyLot list \<Rightarrow> Money" where
  "lotSpend lots = sum_of (\<lambda>lot. spendForQuantity (sl_Quantity lot) (sl_UnitCost lot)) lots"

definition freshLot :: "RoundNumber \<Rightarrow> SupplyLot \<Rightarrow> bool" where
  "freshLot currentRound lot \<longleftrightarrow>
     sl_OrderedRound lot = currentRound \<and> currentRound < sl_PromisedRound lot
     \<and> sl_ArrivalRound lot = sl_PromisedRound lot \<and> 0 < sl_Quantity lot \<and> 0 < sl_UnitCost lot"

definition ordersPlaced ::
  "Money \<Rightarrow> SupplyLot list \<Rightarrow> Money \<times> roundPhase \<Rightarrow> Money \<times> roundPhase \<Rightarrow> bool" where
  "ordersPlaced hardCap lots = (\<lambda>(used, p) (used', q).
     phase_ext p q
     \<and> plant q = (plant p)\<lparr>pl_InTransitSupply := pl_InTransitSupply (plant p) @ lots\<rparr>
     \<and> ms_Customers (rp_state q) = ms_Customers (rp_state p)
     \<and> (\<forall>lot \<in> set lots. freshLot (rp_currentRound p) lot)
     \<and> used' = used + lotSpend lots
     \<and> rp_stats q = (rp_stats p)\<lparr>st_procurementSpend := st_procurementSpend (rp_stats p) + lotSpend lots\<rparr>
     \<and> (0 < hardCap \<longrightarrow> used \<le> hardCap \<longrightarrow> used' \<le> hardCap))"

lemma ordersPlaced_none: "phase_ext p q \<Longrightarrow> rp_state q = rp_state p \<Longrightarrow> rp_stats q = rp_stats p \<Longrightarrow>
    ordersPlaced hardCap [] (used, p) (used, q)"
  by (simp add: ordersPlaced_def lotSpend_def)

lemma ordersPlaced_trans:
  assumes "ordersPlaced hardCap xs (a, p) (b, q)" "ordersPlaced hardCap ys (b, q) (c, r)"
  shows "ordersPlaced hardCap (xs @ ys) (a, p) (c, r)"
  using assms phase_ext_trans [of p q r] phase_extD(1) [of p q]
  by (auto simp: ordersPlaced_def lotSpend_def)

lemma setSupplier_sels [phase_simps]:
  "plant (setSupplier i s p) = plant p" "rp_stats (setSupplier i s p) = rp_stats p"
  "ms_Customers (rp_state (setSupplier i s p)) = ms_Customers (rp_state p)"
  "rp_currentRound (setSupplier i s p) = rp_currentRound p"
  "rp_random (setSupplier i s p) = rp_random p"
  by (simp_all add: setSupplier_def phase_simps)

lemma record_sels [phase_simps]:
  "plant (recordSupplierOrder i p) = plant p" "plant (recordSupplierReceipt i p) = plant p"
  "plant (recordSupplierDelay i p) = plant p"
  "rp_stats (recordSupplierOrder i p) = rp_stats p" "rp_stats (recordSupplierReceipt i p) = rp_stats p"
  "rp_stats (recordSupplierDelay i p) = rp_stats p"
  "ms_Customers (rp_state (recordSupplierOrder i p)) = ms_Customers (rp_state p)"
  "ms_Customers (rp_state (recordSupplierReceipt i p)) = ms_Customers (rp_state p)"
  "ms_Customers (rp_state (recordSupplierDelay i p)) = ms_Customers (rp_state p)"
  "rp_currentRound (recordSupplierOrder i p) = rp_currentRound p"
  "rp_currentRound (recordSupplierReceipt i p) = rp_currentRound p"
  "rp_currentRound (recordSupplierDelay i p) = rp_currentRound p"
  "rp_random (recordSupplierOrder i p) = rp_random p"
  "rp_random (recordSupplierReceipt i p) = rp_random p"
  "rp_random (recordSupplierDelay i p) = rp_random p"
  by (simp_all add: recordSupplierOrder_def recordSupplierReceipt_def recordSupplierDelay_def
      Let_def phase_simps split: option.split)

lemma setSupplier_ext [inv_intros]: "phase_ext p q \<Longrightarrow> phase_ext p (setSupplier i s q)"
  unfolding setSupplier_def by (rule inv_intros)

lemma record_ext [inv_intros]:
  "phase_ext p q \<Longrightarrow> phase_ext p (recordSupplierOrder i q)"
  "phase_ext p q \<Longrightarrow> phase_ext p (recordSupplierReceipt i q)"
  "phase_ext p q \<Longrightarrow> phase_ext p (recordSupplierDelay i q)"
  by (auto simp: recordSupplierOrder_def recordSupplierReceipt_def recordSupplierDelay_def Let_def
      split: option.split intro!: inv_intros)

lemma phaseOk_cong:
  "plant q = plant p \<Longrightarrow> ms_Customers (rp_state q) = ms_Customers (rp_state p) \<Longrightarrow> phaseOk q \<longleftrightarrow> phaseOk p"
  by (simp add: stateOk_def)

lemma record_ok [ok_intros]:
  "phaseOk p \<Longrightarrow> phaseOk (recordSupplierOrder i p)"
  "phaseOk p \<Longrightarrow> phaseOk (recordSupplierReceipt i p)"
  "phaseOk p \<Longrightarrow> phaseOk (recordSupplierDelay i p)"
  by (simp_all add: stateOk_def phase_simps)

lemma placeOrder_placed:
  assumes "0 < pt_UnitCost terms" "0 < pt_LeadTimeRounds terms" "0 < n"
    and "0 < hardCap \<longrightarrow> used + spendForQuantity n (pt_UnitCost terms) \<le> hardCap"
  shows "\<exists>lots. ordersPlaced hardCap lots (used, p) (placeOrder a i order terms n (used, p))"
proof -
  define lot where "lot = \<lparr>sl_PurchaseOrderID = a @ ''-po-'' @ pad_itoa 2 (i + 1),
    sl_SupplierID = po_SupplierID order, sl_PartID = po_PartID order, sl_Quantity = n,
    sl_UnitCost = pt_UnitCost terms, sl_OrderedRound = rp_currentRound p,
    sl_PromisedRound = rp_currentRound p + pt_LeadTimeRounds terms,
    sl_ArrivalRound = rp_currentRound p + pt_LeadTimeRounds terms\<rparr>"
  have "ordersPlaced hardCap [lot] (used, p) (placeOrder a i order terms n (used, p))"
    unfolding placeOrder_def Let_def ordersPlaced_def prod.case
    using assms
    by (auto simp: phase_simps lot_def freshLot_def lotSpend_def intro!: inv_intros)
  then show ?thesis ..
qed

lemma procurementOrder_placed:
  "\<exists>lots. ordersPlaced hardCap lots (used, p) (procurementOrder a hardCap i order (used, p))"
proof -
  define terms where "terms = normalizedTerms (rp_procurementTerms p
    \<lparr>ptc_State = MatchState_Clone (rp_state p), ptc_CurrentRound = rp_currentRound p, ptc_Order = order\<rparr>)"
  define n where "n = orderQuantity hardCap used (availableProjectedSpendCapacity (plant p)) terms (po_Quantity order)"
  have c: "0 < pt_UnitCost terms" "0 < pt_LeadTimeRounds terms"
    by (simp_all add: terms_def normalizedTerms_pos)
  have rejected: "\<exists>lots. ordersPlaced hardCap lots (used, p) (used, appendEvent t x s pl q)"
    if "phase_ext p q" "rp_state q = rp_state p" "rp_stats q = rp_stats p" for t x s pl q
    using that by (intro exI [of _ "[]"] ordersPlaced_none inv_intros) (simp_all add: phase_simps)
  have placed: "\<exists>lots. ordersPlaced hardCap lots (used, p) (placeOrder a i order terms m (used, q))"
    if q: "phase_ext p q" "rp_state q = rp_state p" "rp_stats q = rp_stats p" and "0 < m" "m = n" for q m
  proof -
    have n: "0 < n" using \<open>0 < m\<close> \<open>m = n\<close> by simp
    have "0 < hardCap \<longrightarrow> used + spendForQuantity n (pt_UnitCost terms) \<le> hardCap"
      using orderQuantity_accepts(1) [OF c(1)] n unfolding n_def withinLimits_def by blast
    from placeOrder_placed [OF c n this] obtain lots
      where "ordersPlaced hardCap lots (used, q) (placeOrder a i order terms n (used, q))" by blast
    with ordersPlaced_trans [OF ordersPlaced_none [OF q]] \<open>m = n\<close> show ?thesis
      by (metis append_Nil prod.collapse)
  qed
  have skipped: "\<exists>lots. ordersPlaced hardCap lots (used, p) (used, p)"
    using ordersPlaced_none [of p p] by blast
  show ?thesis
    unfolding procurementOrder_def prod.case Let_def terms_def [symmetric] n_def [symmetric]
    by (simp only: split: if_split) (auto simp: phase_simps intro!: skipped rejected placed inv_intros)
qed

lemma procurementOrders_placed:
  "\<exists>lots. ordersPlaced hardCap lots acc (procurementOrders a hardCap i orders acc)"
proof (induction orders arbitrary: i acc)
  case Nil
  then show ?case
    using ordersPlaced_none [of "snd acc" "snd acc" hardCap "fst acc"] by auto
next
  case (Cons order orders)
  obtain used p where acc: "acc = (used, p)" by (cases acc)
  obtain used' p' where step: "procurementOrder a hardCap i order acc = (used', p')" by fastforce
  with procurementOrder_placed [of hardCap used p a i order] acc obtain xs
    where xs: "ordersPlaced hardCap xs (used, p) (used', p')" by auto
  from Cons.IH [of "(used', p')" "i + 1"] obtain ys
    where "ordersPlaced hardCap ys (used', p') (procurementOrders a hardCap (i + 1) orders (used', p'))"
    by blast
  with ordersPlaced_trans [OF xs] have "ordersPlaced hardCap (xs @ ys) (used, p)
      (procurementOrders a hardCap (i + 1) orders (used', p'))" by (metis prod.collapse)
  then show ?case using step acc by auto
qed

lemma lotSpend_nonneg: "\<forall>lot \<in> set lots. freshLot r lot \<Longrightarrow> 0 \<le> lotSpend lots"
  unfolding lotSpend_def by (intro sum_of_nonneg) (auto simp: freshLot_def spendForQuantity_def)

lemma resolveProcurement_cases:
  obtains "resolveProcurement action p = p"
  | lots used q where
      "ordersPlaced (cappedBudget (bt_ProcurementBudget (ms_ActiveTargets (rp_state p)))) lots (0, p) (used, q)"
      "resolveProcurement action p =
         (if 0 < used then schedulePayable used (''procurement-r'' @ itoa (rp_currentRound q)) q else q)"
proof (cases "\<exists>a procurement. action = Some a \<and> act_Procurement (as_Action a) = Some procurement")
  case True
  then obtain a procurement where a: "action = Some a" "act_Procurement (as_Action a) = Some procurement"
    by blast
  define cap where "cap = cappedBudget (bt_ProcurementBudget (ms_ActiveTargets (rp_state p)))"
  obtain used q where uq: "procurementOrders (as_ActionID a) cap 0 (pra_Orders procurement) (0, p) = (used, q)"
    by fastforce
  with procurementOrders_placed [of cap "(0, p)" "as_ActionID a" 0 "pra_Orders procurement"]
  obtain lots where "ordersPlaced cap lots (0, p) (used, q)" by auto
  with a uq show thesis using that(2) by (simp add: resolveProcurement_def Let_def cap_def)
next
  case False
  then show thesis using that(1) by (auto simp: resolveProcurement_def split: option.splits)
qed

lemma ordersPlaced_ok: "ordersPlaced cap lots (a, p) (b, q) \<Longrightarrow> phaseOk p \<Longrightarrow> phaseOk q"
  by (auto simp: ordersPlaced_def stateOk_def plantOk_def lotsOk_def freshLot_def)

lemma resolveProcurement_ext [inv_intros]:
  assumes "phase_ext p q"
  shows "phase_ext p (resolveProcurement action q)"
proof (cases rule: resolveProcurement_cases [of action q])
  case (2 lots used r)
  then have "phase_ext q r" by (simp add: ordersPlaced_def)
  with assms have "phase_ext p r" by (rule phase_ext_trans)
  with 2 show ?thesis by (simp add: inv_intros)
qed (use assms in simp)

lemma resolveProcurement_ok [ok_intros]:
  assumes "phaseOk p"
  shows "phaseOk (resolveProcurement action p)"
proof (cases rule: resolveProcurement_cases [of action p])
  case (2 lots used r)
  with assms have "phaseOk r" by (blast intro: ordersPlaced_ok)
  with 2 show ?thesis by (simp add: ok_intros)
qed (use assms in simp)

lemma schedulePayable_inTransit [phase_simps]:
  "pl_InTransitSupply (plant (schedulePayable amount ref p)) = pl_InTransitSupply (plant p)"
  "st_procurementSpend (rp_stats (schedulePayable amount ref p)) = st_procurementSpend (rp_stats p)"
  by (simp_all add: schedulePayable_def Let_def phase_simps addDisbursements_def)

section \<open>Arrivals\<close>

definition lotQuantity :: "PartID \<Rightarrow> SupplyLot list \<Rightarrow> Units" where
  "lotQuantity k lots = sum_of sl_Quantity (filter (\<lambda>lot. sl_PartID lot = k) lots)"

lemma lotQuantity_simps [simp]:
  "lotQuantity k [] = 0"
  "lotQuantity k (lot # lots) = (if sl_PartID lot = k then sl_Quantity lot else 0) + lotQuantity k lots"
  by (simp_all add: lotQuantity_def)

lemma shouldDelayLot_late:
  "fst (shouldDelayLot lot suppliers random) \<Longrightarrow>
   0 < supplierLateDelay suppliers (sl_SupplierID lot)"
  by (auto simp: shouldDelayLot_def supplierLateDelay_def split: option.splits if_splits)

lemma shouldDelayLot_random:
  "snd (shouldDelayLot lot suppliers random) = None \<longleftrightarrow> random = None"
  by (simp add: shouldDelayLot_def split: option.splits prod.splits)

text \<open>The pass over the lots in transit, summarised.\<close>

definition received ::
  "RoundNumber \<Rightarrow> SupplyLot list \<Rightarrow> SupplyLot list \<Rightarrow> SupplyLot list \<Rightarrow> bool" where
  "received currentRound lots arrivals remaining \<longleftrightarrow>
     (\<forall>k. lotQuantity k arrivals + lotQuantity k remaining = lotQuantity k lots)
     \<and> (\<forall>lot \<in> set arrivals. lot \<in> set lots \<and> sl_PromisedRound lot \<le> currentRound
          \<and> sl_ArrivalRound lot \<le> currentRound)
     \<and> (\<forall>lot \<in> set remaining. currentRound < sl_PromisedRound lot \<or> currentRound < sl_ArrivalRound lot)
     \<and> (lotsOk lots \<longrightarrow> lotsOk arrivals \<and> lotsOk remaining)"

lemma received_Nil: "received r [] [] []"
  by (simp add: received_def lotsOk_def)

lemma receivedD:
  assumes "received r lots a b"
  shows "lotQuantity k lots = lotQuantity k a + lotQuantity k b"
    "lot \<in> set a \<Longrightarrow> lot \<in> set lots \<and> sl_PromisedRound lot \<le> r \<and> sl_ArrivalRound lot \<le> r"
    "lot \<in> set b \<Longrightarrow> r < sl_PromisedRound lot \<or> r < sl_ArrivalRound lot"
    "lotsOk lots \<Longrightarrow> lotsOk a" "lotsOk lots \<Longrightarrow> lotsOk b"
  using assms unfolding received_def by metis+

lemma lotsOk_Cons:
  "lotsOk (lot # lots) \<longleftrightarrow> 0 < sl_Quantity lot \<and> 0 \<le> sl_UnitCost lot \<and> lotsOk lots"
  by (simp add: lotsOk_def)

lemma received_arrival:
  assumes "received r lots a b" "sl_PromisedRound lot \<le> r" "sl_ArrivalRound lot \<le> r"
  shows "received r (lot # lots) (lot # a) b"
  unfolding received_def
proof (intro conjI ballI allI impI)
  show "lotQuantity k (lot # a) + lotQuantity k b = lotQuantity k (lot # lots)" for k
    using receivedD(1) [OF assms(1), of k] by simp
qed (use assms(2,3) receivedD(2-5) [OF assms(1)] in \<open>auto simp: lotsOk_Cons\<close>)

lemma received_remaining:
  assumes "received r lots a b" "r < sl_PromisedRound lot' \<or> r < sl_ArrivalRound lot'"
    "sl_PartID lot = sl_PartID lot'" "sl_Quantity lot = sl_Quantity lot'"
    "sl_UnitCost lot = sl_UnitCost lot'"
  shows "received r (lot # lots) a (lot' # b)"
  unfolding received_def
proof (intro conjI ballI allI impI)
  show "lotQuantity k a + lotQuantity k (lot' # b) = lotQuantity k (lot # lots)" for k
    using receivedD(1) [OF assms(1), of k] assms(3,4) by simp
qed (use assms(2,4,5) receivedD(2-5) [OF assms(1)] in \<open>auto simp: lotsOk_Cons\<close>)

lemma receiveLoop_spec:
  assumes "receiveLoop lots p = ((arrivals, remaining), q)"
  shows "phase_ext p q \<and> plant q = plant p \<and> rp_stats q = rp_stats p
    \<and> ms_Customers (rp_state q) = ms_Customers (rp_state p)
    \<and> received (rp_currentRound p) lots arrivals remaining"
  using assms
proof (induction lots arbitrary: p q arrivals remaining)
  case Nil
  then show ?case by (simp add: received_Nil)
next
  case (Cons lot lots)
  define r where "r = rp_currentRound p"
  show ?case
  proof (cases "r < sl_PromisedRound lot")
    case True
    with Cons.prems obtain b where "receiveLoop lots p = ((arrivals, b), q)" "remaining = lot # b"
      by (auto simp: r_def split: prod.splits)
    with Cons.IH [of p arrivals b q] True show ?thesis
      by (auto simp: r_def intro: received_remaining)
  next
    case False
    let ?check = "sl_ArrivalRound lot = sl_PromisedRound lot \<and> sl_PromisedRound lot = r"
    obtain d rnd where d: "(if ?check then shouldDelayLot lot (ms_Suppliers (rp_state p)) (rp_random p)
        else (False, rp_random p)) = (d, rnd)" by fastforce
    define s where "s = p\<lparr>rp_random := rnd\<rparr>"
    have rnd: "rnd = None \<longleftrightarrow> rp_random p = None"
      using d shouldDelayLot_random [of lot "ms_Suppliers (rp_state p)" "rp_random p"]
      by (auto split: if_splits)
    then have s: "phase_ext p s" "plant s = plant p" "rp_stats s = rp_stats p"
      "ms_Customers (rp_state s) = ms_Customers (rp_state p)" "rp_currentRound s = r"
      "ms_Suppliers (rp_state s) = ms_Suppliers (rp_state p)"
      by (auto simp: s_def r_def intro: ext_random)
    note loop = Cons.prems [unfolded receiveLoop.simps r_def [symmetric], unfolded d Let_def prod.case,
        folded s_def] 
    show ?thesis
    proof (cases d)
      case True
      define lot' where "lot' = lot\<lparr>sl_ArrivalRound := sl_PromisedRound lot
          + supplierLateDelay (ms_Suppliers (rp_state s)) (sl_SupplierID lot)\<rparr>"
      define t where "t = appendEvent EventSupplyDelayed ActorPlantSystem
          (''Supplier '' @ sl_SupplierID lot' @ '' slipped '' @ sl_PartID lot' @ '' delivery'')
          [(''purchase_order_id'', AString (sl_PurchaseOrderID lot')),
           (''supplier_id'', AString (sl_SupplierID lot')),
           (''part_id'', AString (sl_PartID lot')),
           (''promised_round'', AInt (sl_PromisedRound lot')),
           (''arrival_round'', AInt (sl_ArrivalRound lot'))] (recordSupplierDelay (sl_SupplierID lot') s)"
      have t: "phase_ext p t" "plant t = plant p" "rp_stats t = rp_stats p"
        "ms_Customers (rp_state t) = ms_Customers (rp_state p)" "rp_currentRound t = r"
        using s by (auto simp: t_def phase_simps intro!: inv_intros)
      from loop True False obtain b where b: "receiveLoop lots t = ((arrivals, b), q)" "remaining = lot' # b"
        by (auto simp: t_def lot'_def split: prod.splits)
      have late: "r < sl_ArrivalRound lot'"
        using d True shouldDelayLot_late [of lot "ms_Suppliers (rp_state p)" "rp_random p"] s(6)
        by (auto simp: lot'_def split: if_splits)
      from Cons.IH [OF b(1)] t have "received r lots arrivals b" by simp
      then have "received r (lot # lots) arrivals (lot' # b)"
        by (rule received_remaining) (use late in \<open>simp_all add: lot'_def\<close>)
      with Cons.IH [OF b(1)] t b(2) show ?thesis by (auto simp: r_def intro: phase_ext_trans)
    next
      case nodelay: False
      show ?thesis
      proof (cases "sl_ArrivalRound lot \<le> r")
        case True
        with loop False nodelay s(5) obtain a where a: "receiveLoop lots s = ((a, remaining), q)" "arrivals = lot # a"
          by (auto split: prod.splits)
        with Cons.IH [OF a(1)] s True False show ?thesis
          by (auto simp: r_def intro: phase_ext_trans received_arrival)
      next
        case later: False
        with loop False nodelay s(5) obtain b where b: "receiveLoop lots s = ((arrivals, b), q)" "remaining = lot # b"
          by (auto split: prod.splits)
        with Cons.IH [OF b(1)] s later show ?thesis
          by (auto simp: r_def intro: phase_ext_trans received_remaining)
      qed
    qed
  qed
qed

lemma receiveOne_ext [inv_intros]: "phase_ext p q \<Longrightarrow> phase_ext p (receiveOne q lot)"
  by (auto simp: receiveOne_def Let_def intro!: inv_intros)

lemma receiveAll_ext [inv_intros]: "phase_ext p q \<Longrightarrow> phase_ext p (foldl receiveOne q lots)"
  by (induction lots arbitrary: q) (simp_all add: receiveOne_ext)

lemma receiveOne_ok: "phaseOk p \<Longrightarrow> 0 \<le> sl_UnitCost lot \<Longrightarrow> phaseOk (receiveOne p lot)"
  by (auto simp: receiveOne_def Let_def plantOkD intro!: ok_intros parts.ok_put)

lemma receiveAll_ok: "phaseOk p \<Longrightarrow> lotsOk lots \<Longrightarrow> phaseOk (foldl receiveOne p lots)"
  by (induction lots arbitrary: p) (simp_all add: lotsOk_Cons receiveOne_ok)

lemma receiveOne_plant:
  "plant (receiveOne p lot) = (plant p)\<lparr>pl_PartsInventory :=
     addPartInventory (pl_PartsInventory (plant p)) (sl_PartID lot) (sl_Quantity lot) (sl_UnitCost lot)\<rparr>"
  by (simp add: receiveOne_def Let_def phase_simps)

lemma receiveAll_quantity:
  "lotsOk lots \<Longrightarrow> partQuantity (pl_PartsInventory (plant (foldl receiveOne p lots))) k =
     partQuantity (pl_PartsInventory (plant p)) k + lotQuantity k lots"
  by (induction lots arbitrary: p) (auto simp: lotsOk_Cons receiveOne_plant parts.qty_put)

lemma receiveAll_inTransit:
  "pl_InTransitSupply (plant (foldl receiveOne p lots)) = pl_InTransitSupply (plant p)"
  by (induction lots arbitrary: p) (simp_all add: receiveOne_plant)

lemma receiveSupply_cases:
  assumes "lotsOk (pl_InTransitSupply (plant p))"
  obtains arrivals remaining q where
    "phase_ext p q" "plant q = (plant p)\<lparr>pl_InTransitSupply := remaining\<rparr>"
    "ms_Customers (rp_state q) = ms_Customers (rp_state p)"
    "received (rp_currentRound p) (pl_InTransitSupply (plant p)) arrivals remaining"
    "receiveSupply p = foldl receiveOne q arrivals"
proof (cases "pl_InTransitSupply (plant p) = []")
  case True
  then show thesis by (intro that [of p "[]" "[]"]) (simp_all add: received_Nil receiveSupply_def)
next
  case False
  obtain a b q where loop: "receiveLoop (pl_InTransitSupply (plant p)) p = ((a, b), q)"
    by (metis prod.exhaust)
  from receiveLoop_spec [OF loop] False show thesis
    by (intro that [of "upd_plant (\<lambda>s. s\<lparr>pl_InTransitSupply := b\<rparr>) q" b a])
      (auto simp: phase_simps receiveSupply_def loop intro!: inv_intros)
qed

lemma receiveSupply_ext [inv_intros]:
  assumes "phase_ext p q" "phaseOk q"
  shows "phase_ext p (receiveSupply q)"
proof -
  have "lotsOk (pl_InTransitSupply (plant q))" using assms(2) by (simp add: plantOkD phaseOk_plant)
  then obtain a r where "phase_ext q r" "receiveSupply q = foldl receiveOne r a"
    by (rule receiveSupply_cases)
  with assms(1) show ?thesis by (auto intro: receiveAll_ext phase_ext_trans)
qed

lemma receiveSupply_ok [ok_intros]:
  assumes "phaseOk p"
  shows "phaseOk (receiveSupply p)"
proof -
  have lots: "lotsOk (pl_InTransitSupply (plant p))" using assms by (simp add: plantOkD phaseOk_plant)
  obtain a b r where r: "plant r = (plant p)\<lparr>pl_InTransitSupply := b\<rparr>"
    "ms_Customers (rp_state r) = ms_Customers (rp_state p)"
    "received (rp_currentRound p) (pl_InTransitSupply (plant p)) a b"
    "receiveSupply p = foldl receiveOne r a"
    using lots by (rule receiveSupply_cases)
  have "lotsOk a" "lotsOk b" using receivedD(4,5) [OF r(3) lots] .
  then have "phaseOk r" using assms r(1,2) by (simp add: stateOk_def plantOk_def)
  with \<open>lotsOk a\<close> r(4) show ?thesis by (simp add: receiveAll_ok)
qed

text \<open>Scores stay between 0 and 100.\<close>

definition scoresOk :: "SupplierState list \<Rightarrow> bool" where
  "scoresOk suppliers \<longleftrightarrow>
     (\<forall>s \<in> set suppliers. 0 \<le> ss_ReliabilityScore s \<and> ss_ReliabilityScore s \<le> 100)"

lemma scoresOk_set:
  "scoresOk xs \<Longrightarrow> 0 \<le> ss_ReliabilityScore s \<Longrightarrow> ss_ReliabilityScore s \<le> 100 \<Longrightarrow>
   scoresOk (update_first P (\<lambda>_. s) xs)"
  using set_update_first [of P "\<lambda>_. s" xs] by (auto simp: scoresOk_def)

lemma scoresOk_find:
  "scoresOk xs \<Longrightarrow> findSupplier xs i = Some s \<Longrightarrow> 0 \<le> ss_ReliabilityScore s \<and> ss_ReliabilityScore s \<le> 100"
  by (auto simp: scoresOk_def findSupplier_def dest: find_first_Some)

lemma averageSupplierReliability_bounds:
  assumes "scoresOk suppliers"
  shows "0 \<le> averageSupplierReliability suppliers" "averageSupplierReliability suppliers \<le> 100"
proof -
  have sum: "0 \<le> sum_of ss_ReliabilityScore suppliers \<and>
      sum_of ss_ReliabilityScore suppliers \<le> 100 * int (length suppliers)"
    using assms by (induction suppliers) (auto simp: scoresOk_def)
  then have "0 < length suppliers \<Longrightarrow>
      sum_of ss_ReliabilityScore suppliers div int (length suppliers) \<le> 100 * int (length suppliers) div int (length suppliers)"
    by (intro zdiv_mono1) simp_all
  with sum show "0 \<le> averageSupplierReliability suppliers" "averageSupplierReliability suppliers \<le> 100"
    by (auto simp: averageSupplierReliability_def Let_def go_div_nonneg pos_imp_zdiv_nonneg_iff)
qed

lemma amounts_append: "sum_of cc_Amount (xs @ [x]) = sum_of cc_Amount xs + cc_Amount x"
  by simp

text \<open>What the plant owes and owns: cash net of debt, less what it has promised to pay.\<close>

definition netOfPayables :: "PlantState \<Rightarrow> Money" where
  "netOfPayables s = netCash s - sum_of cc_Amount (pl_Payables s)"

lemma schedulePayable_owed:
  "0 \<le> amount \<Longrightarrow> netOfPayables (plant (schedulePayable amount ref p)) = netOfPayables (plant p) - amount"
  by (auto simp: schedulePayable_def Let_def phase_simps netOfPayables_def netCash_plantCashDelta)

end
