(* ===== verification/Quality.thy ===== *)
theory Quality
  imports Procurement
begin

text \<open>
  Quality in \<open>internal/engine/resolver.go\<close>: how a finished batch splits into scrap,
  rework, inspection holds and good units, when holds are released, and how customer
  returns are scheduled and come back.
\<close>

section \<open>Profiles and rolls\<close>

definition clampPct :: "int \<Rightarrow> int" where
  "clampPct pct = min 100 (max 0 pct)"

definition clampedRates :: "QualityProfile \<Rightarrow> QualityProfile" where
  "clampedRates profile =
     profile\<lparr>qp_ScrapRatePct := clampPct (qp_ScrapRatePct profile),
       qp_ReworkRatePct := clampPct (qp_ReworkRatePct profile),
       qp_InspectionHoldRatePct := clampPct (qp_InspectionHoldRatePct profile),
       qp_CustomerReturnRatePct := clampPct (qp_CustomerReturnRatePct profile)\<rparr>"

definition fittedHoldRate :: "QualityProfile \<Rightarrow> QualityProfile" where
  "fittedHoldRate profile =
    (let total = qp_ScrapRatePct profile + qp_ReworkRatePct profile + qp_InspectionHoldRatePct profile
     in if 100 < total
        then profile\<lparr>qp_InspectionHoldRatePct := max 0 (qp_InspectionHoldRatePct profile - (total - 100))\<rparr>
        else profile)"

definition normalizedQualityProfile :: "QualityProfile \<Rightarrow> QualityProfile" where
  "normalizedQualityProfile profile =
    (let profile = fittedHoldRate (clampedRates profile);
         profile = (if qp_InspectionHoldRounds profile < 0
           then profile\<lparr>qp_InspectionHoldRounds := 0\<rparr> else profile)
     in if qp_ReturnDelayRounds profile < 0 then profile\<lparr>qp_ReturnDelayRounds := 0\<rparr> else profile)"

definition qualityRoll :: "RandomSource option \<Rightarrow> int \<times> RandomSource option" where
  "qualityRoll random =
    (case random of
       None \<Rightarrow> (100, None)
     | Some rnd \<Rightarrow> let (roll, rnd) = IntN 100 rnd in (roll, Some rnd))"

definition countByPct :: "Units \<Rightarrow> int \<Rightarrow> Units" where
  "countByPct quantity pct =
    (if quantity \<le> 0 \<or> pct \<le> 0 then 0 else go_div (quantity * pct) 100)"

text \<open>The loop over the units of a batch; the fuel is their number.\<close>

fun qualityLoop ::
  "nat \<Rightarrow> QualityProfile \<Rightarrow> Units \<times> Units \<times> Units \<Rightarrow> RandomSource option \<Rightarrow>
     (Units \<times> Units \<times> Units) \<times> RandomSource option" where
  "qualityLoop 0 profile counts random = (counts, random)"
| "qualityLoop (Suc n) profile (scrap, rework, hold) random =
    (let (roll, random) = qualityRoll random in
     if roll < qp_ScrapRatePct profile
     then qualityLoop n profile (scrap + 1, rework, hold) random
     else if roll < qp_ScrapRatePct profile + qp_ReworkRatePct profile
     then qualityLoop n profile (scrap, rework + 1, hold) random
     else if roll < qp_ScrapRatePct profile + qp_ReworkRatePct profile + qp_InspectionHoldRatePct profile
     then qualityLoop n profile (scrap, rework, hold + 1) random
     else qualityLoop n profile (scrap, rework, hold) random)"

definition resolveFinishedQuality ::
  "Units \<Rightarrow> QualityProfile \<Rightarrow> RandomSource option \<Rightarrow> (Units \<times> Units \<times> Units) \<times> RandomSource option" where
  "resolveFinishedQuality quantity profile random =
    (let ((scrap, rework, hold), random') = qualityLoop (nat quantity) profile (0, 0, 0) random
     in if random = None
        then let scrap = countByPct quantity (qp_ScrapRatePct profile);
                 rework = countByPct (max (quantity - scrap) 0) (qp_ReworkRatePct profile);
                 hold = countByPct (max (quantity - scrap - rework) 0) (qp_InspectionHoldRatePct profile)
             in ((scrap, rework, hold), None)
        else ((scrap, rework, hold), random'))"

fun returnLoop :: "nat \<Rightarrow> int \<Rightarrow> Units \<Rightarrow> RandomSource option \<Rightarrow> Units \<times> RandomSource option" where
  "returnLoop 0 pct returned random = (returned, random)"
| "returnLoop (Suc n) pct returned random =
    (let (roll, random) = qualityRoll random
     in returnLoop n pct (if roll < pct then returned + 1 else returned) random)"

definition resolveReturnQuantity ::
  "Units \<Rightarrow> int \<Rightarrow> RandomSource option \<Rightarrow> Units \<times> RandomSource option" where
  "resolveReturnQuantity quantity pct random =
    (if pct \<le> 0 \<or> quantity \<le> 0 then (0, random)
     else if random = None then (countByPct quantity pct, random)
     else returnLoop (nat quantity) pct 0 random)"

section \<open>Inspection holds and returns\<close>

fun releaseLoop ::
  "InspectionHoldInventory list \<Rightarrow> roundPhase \<Rightarrow> InspectionHoldInventory list \<times> roundPhase" where
  "releaseLoop [] p = ([], p)"
| "releaseLoop (item # items) p =
    (if rp_currentRound p < ih_ReleaseRound item
     then let (remaining, p) = releaseLoop items p in (item # remaining, p)
     else let p = upd_plant (\<lambda>s. s\<lparr>pl_FinishedInventory := addFinishedInventory
                (pl_FinishedInventory s) (ih_ProductID item) (ih_Quantity item) (ih_UnitCost item)\<rparr>) p;
              p = appendEvent EventInspectionHoldReleased ActorPlantSystem
                (''Released '' @ itoa (ih_Quantity item) @ '' '' @ ih_ProductID item
                   @ '' from inspection hold'')
                [(''product_id'', AString (ih_ProductID item)),
                 (''quantity'', AInt (ih_Quantity item)),
                 (''reason'', AString (ih_Reason item)),
                 (''release_round'', AInt (ih_ReleaseRound item))] p
          in releaseLoop items p)"

definition releaseInspectionHolds :: "roundPhase \<Rightarrow> roundPhase" where
  "releaseInspectionHolds p =
    (if pl_InspectionHolds (plant p) = [] then p
     else let (remaining, p) = releaseLoop (pl_InspectionHolds (plant p)) p
          in upd_plant (\<lambda>s. s\<lparr>pl_InspectionHolds := remaining\<rparr>) p)"

text \<open>A customer's sentiment falls by one, with the event that says so.\<close>

definition lowerSentiment :: "CustomerID \<Rightarrow> string \<Rightarrow> roundPhase \<Rightarrow> roundPhase" where
  "lowerSentiment customerID suffix p =
    (case findCustomer (ms_Customers (rp_state p)) customerID of
       None \<Rightarrow> p
     | Some customer \<Rightarrow>
         let customer = customer\<lparr>cs_Sentiment := cs_Sentiment customer - 1\<rparr>;
             p = upd_customers (update_first (\<lambda>c. cs_CustomerID c = customerID)
                   (\<lambda>c. c\<lparr>cs_Sentiment := cs_Sentiment c - 1\<rparr>)) p
         in appendEvent EventCustomerSentimentMoved ActorPlantSystem
              (''Customer '' @ customerID @ '' sentiment decreased'' @ suffix)
              [(''customer_id'', AString customerID),
               (''sentiment'', AInt (cs_Sentiment customer))] p)"

definition processReturn :: "roundPhase \<Rightarrow> CustomerReturnCommitment \<Rightarrow> roundPhase" where
  "processReturn p item =
    (let p = upd_stats (\<lambda>s. s\<lparr>st_customerReturnUnits := st_customerReturnUnits s + cr_Quantity item\<rparr>) p;
         p = upd_plant (\<lambda>s. s\<lparr>pl_InspectionHolds := addInspectionHoldInventory (pl_InspectionHolds s)
               (cr_ProductID item) (cr_Quantity item) (cr_UnitCost item)
               (rp_currentRound p) (rp_currentRound p + 1) ''customer_return''\<rparr>) p;
         p = appendEvent EventInspectionHoldPlaced ActorPlantSystem
               (''Placed '' @ itoa (cr_Quantity item) @ '' returned '' @ cr_ProductID item
                  @ '' on inspection hold'')
               [(''product_id'', AString (cr_ProductID item)),
                (''quantity'', AInt (cr_Quantity item)),
                (''reason'', AString ''customer_return''),
                (''release_round'', AInt (rp_currentRound p + 1))] p;
         p = upd_plant (\<lambda>s. s\<lparr>pl_Backlog := pl_Backlog s @
               [\<lparr>be_CustomerID = cr_CustomerID item, be_ProductID = cr_ProductID item,
                 be_Quantity = cr_Quantity item, be_OriginRound = rp_currentRound p,
                 be_AgeInRounds = 0\<rparr>]\<rparr>) p;
         p = lowerSentiment (cr_CustomerID item) '' after return'' p;
         p = appendEvent EventCustomerReturnReceived ActorPlantSystem
               (''Received '' @ itoa (cr_Quantity item) @ '' returned '' @ cr_ProductID item
                  @ '' from '' @ cr_CustomerID item)
               [(''return_id'', AString (cr_ReturnID item)),
                (''customer_id'', AString (cr_CustomerID item)),
                (''product_id'', AString (cr_ProductID item)),
                (''quantity'', AInt (cr_Quantity item)),
                (''release_round'', AInt (rp_currentRound p + 1))] p
     in appendEvent EventBacklogCreated ActorPlantSystem
          (''Booked '' @ itoa (cr_Quantity item) @ '' replacement units of '' @ cr_ProductID item
             @ '' backlog for '' @ cr_CustomerID item)
          [(''customer_id'', AString (cr_CustomerID item)),
           (''product_id'', AString (cr_ProductID item)),
           (''quantity'', AInt (cr_Quantity item)),
           (''reason'', AString ''customer_return'')] p)"

definition processCustomerReturns :: "roundPhase \<Rightarrow> roundPhase" where
  "processCustomerReturns p =
    (if pl_PendingReturns (plant p) = [] then p
     else let due = filter (\<lambda>item. cr_DueRound item \<le> rp_currentRound p) (pl_PendingReturns (plant p));
              remaining = filter (\<lambda>item. \<not> cr_DueRound item \<le> rp_currentRound p)
                (pl_PendingReturns (plant p));
              p = upd_plant (\<lambda>s. s\<lparr>pl_PendingReturns := remaining\<rparr>) p;
              p = foldl processReturn p due
          in if due \<noteq> [] then syncCustomerBacklog (pl_Backlog (plant p)) p else p)"

section \<open>Finished batches and shipments\<close>

definition scrapUnits :: "ProductID \<Rightarrow> WorkstationID \<Rightarrow> Units \<Rightarrow> roundPhase \<Rightarrow> roundPhase" where
  "scrapUnits productID workstationID scrapQty p =
    (if 0 < scrapQty
     then let p = upd_stats (\<lambda>s. s\<lparr>st_scrapUnits := st_scrapUnits s + scrapQty\<rparr>) p
       in appendEvent EventQualityScrapped ActorPlantSystem
            (''Scrapped '' @ itoa scrapQty @ '' '' @ productID @ '' during final inspection'')
            [(''product_id'', AString productID),
             (''quantity'', AInt scrapQty),
             (''workstation_id'', AString workstationID)] p
     else p)"

definition reworkUnits ::
  "ProductID \<Rightarrow> WorkstationID \<Rightarrow> Units \<Rightarrow> Money \<Rightarrow> roundPhase \<Rightarrow> roundPhase" where
  "reworkUnits productID workstationID reworkQty unitCost p =
    (if 0 < reworkQty
     then let p = upd_stats (\<lambda>s. s\<lparr>st_reworkUnits := st_reworkUnits s + reworkQty\<rparr>) p;
              p = upd_plant (\<lambda>s. s\<lparr>pl_WIPInventory := addWIPInventory (pl_WIPInventory s)
                    productID workstationID reworkQty unitCost\<rparr>) p
       in appendEvent EventQualityReworkCreated ActorPlantSystem
            (''Sent '' @ itoa reworkQty @ '' '' @ productID @ '' back for rework'')
            [(''product_id'', AString productID),
             (''quantity'', AInt reworkQty),
             (''workstation_id'', AString workstationID)] p
     else p)"

definition holdUnits ::
  "ProductID \<Rightarrow> WorkstationID \<Rightarrow> Units \<Rightarrow> Money \<Rightarrow> int \<Rightarrow> roundPhase \<Rightarrow> roundPhase" where
  "holdUnits productID workstationID holdQty unitCost holdRounds p =
    (if 0 < holdQty
     then let releaseRound = rp_currentRound p + max holdRounds 1;
              p = upd_plant (\<lambda>s. s\<lparr>pl_InspectionHolds := addInspectionHoldInventory
                    (pl_InspectionHolds s) productID holdQty unitCost
                    (rp_currentRound p) releaseRound ''production_quality''\<rparr>) p
       in appendEvent EventInspectionHoldPlaced ActorPlantSystem
            (''Placed '' @ itoa holdQty @ '' '' @ productID @ '' on inspection hold'')
            [(''product_id'', AString productID),
             (''quantity'', AInt holdQty),
             (''workstation_id'', AString workstationID),
             (''release_round'', AInt releaseRound)] p
     else p)"

definition goodUnits ::
  "ProductID \<Rightarrow> WorkstationID \<Rightarrow> Units \<Rightarrow> Money \<Rightarrow> roundPhase \<Rightarrow> roundPhase" where
  "goodUnits productID workstationID goodQty unitCost p =
    (if 0 < goodQty
     then let p = upd_plant (\<lambda>s. s\<lparr>pl_FinishedInventory := addFinishedInventory
                    (pl_FinishedInventory s) productID goodQty unitCost\<rparr>) p;
              p = upd_stats (\<lambda>s. s\<lparr>st_producedUnits := st_producedUnits s + goodQty\<rparr>) p
       in appendEvent EventFinishedGoodsProduced ActorPlantSystem
            (''Finished '' @ itoa goodQty @ '' '' @ productID)
            [(''product_id'', AString productID),
             (''quantity'', AInt goodQty),
             (''workstation_id'', AString workstationID),
             (''inventory_cost'', AInt (inventoryCost goodQty unitCost))] p
     else p)"

definition completeFinishedUnits ::
  "ProductID \<Rightarrow> WorkstationID \<Rightarrow> Units \<Rightarrow> Money \<Rightarrow> bool \<Rightarrow> roundPhase \<Rightarrow> roundPhase" where
  "completeFinishedUnits productID workstationID quantity unitCost overtimeUsed p =
    (if quantity \<le> 0 then p
     else let profile = normalizedQualityProfile (rp_qualityProfile p
                \<lparr>qpc_State = MatchState_Clone (rp_state p),
                 qpc_CurrentRound = rp_currentRound p,
                 qpc_Phase = QualityPhaseProductionFinal,
                 qpc_ProductID = productID,
                 qpc_WorkstationID = workstationID,
                 qpc_CustomerID = [],
                 qpc_Quantity = quantity,
                 qpc_Stressed = rp_stressedStations p workstationID,
                 qpc_OvertimeUsed = overtimeUsed\<rparr>);
              ((scrapQty, reworkQty, holdQty), random) =
                resolveFinishedQuality quantity profile (rp_random p);
              p = p\<lparr>rp_random := random\<rparr>;
              goodQty = max (quantity - scrapQty - reworkQty - holdQty) 0;
              p = scrapUnits productID workstationID scrapQty p;
              p = reworkUnits productID workstationID reworkQty unitCost p;
              p = holdUnits productID workstationID holdQty unitCost (qp_InspectionHoldRounds profile) p
          in goodUnits productID workstationID goodQty unitCost p)"

definition scheduleCustomerReturns ::
  "CustomerID \<Rightarrow> ProductID \<Rightarrow> Units \<Rightarrow> Money \<Rightarrow> roundPhase \<Rightarrow> roundPhase" where
  "scheduleCustomerReturns customerID productID quantity unitCost p =
    (if quantity \<le> 0 then p
     else let profile = normalizedQualityProfile (rp_qualityProfile p
                \<lparr>qpc_State = MatchState_Clone (rp_state p),
                 qpc_CurrentRound = rp_currentRound p,
                 qpc_Phase = QualityPhaseShipment,
                 qpc_ProductID = productID,
                 qpc_WorkstationID = [],
                 qpc_CustomerID = customerID,
                 qpc_Quantity = quantity,
                 qpc_Stressed = False,
                 qpc_OvertimeUsed = False\<rparr>);
              (returnQty, random) =
                resolveReturnQuantity quantity (qp_CustomerReturnRatePct profile) (rp_random p);
              p = p\<lparr>rp_random := random\<rparr>
          in if returnQty \<le> 0 then p
             else let delayRounds = max (qp_ReturnDelayRounds profile) 1;
                      item =
                        \<lparr>cr_ReturnID = ''return-r'' @ itoa (rp_currentRound p) @ ''-''
                           @ itoa (int (length (pl_PendingReturns (plant p))) + 1),
                         cr_CustomerID = customerID,
                         cr_ProductID = productID,
                         cr_Quantity = returnQty,
                         cr_UnitCost = unitCost,
                         cr_DueRound = rp_currentRound p + delayRounds,
                         cr_CreatedRound = rp_currentRound p\<rparr>;
                      p = upd_plant (\<lambda>s. s\<lparr>pl_PendingReturns := pl_PendingReturns s @ [item]\<rparr>) p
               in appendEvent EventCustomerReturnScheduled ActorPlantSystem
                    (''Scheduled '' @ itoa returnQty @ '' '' @ productID
                       @ '' customer return(s) from '' @ customerID)
                    [(''return_id'', AString (cr_ReturnID item)),
                     (''customer_id'', AString customerID),
                     (''product_id'', AString productID),
                     (''quantity'', AInt returnQty),
                     (''due_round'', AInt (cr_DueRound item))] p)"

section \<open>Splitting a batch\<close>

lemma qualityRoll_range: "0 \<le> fst (qualityRoll random) \<and> fst (qualityRoll random) \<le> 100"
  using IntN_range [of 100 "the random"]
  by (auto simp: qualityRoll_def split: option.splits prod.splits)

lemma qualityRoll_none: "snd (qualityRoll random) = None \<longleftrightarrow> random = None"
  by (simp add: qualityRoll_def split: option.splits prod.splits)

lemma qualityLoop_bounds:
  "qualityLoop n profile (s, r, h) random = ((s', r', h'), random') \<Longrightarrow>
   s \<le> s' \<and> r \<le> r' \<and> h \<le> h' \<and> s' + r' + h' \<le> s + r + h + int n
   \<and> (random' = None \<longleftrightarrow> random = None)"
proof (induction n arbitrary: s r h random)
  case 0
  then show ?case by simp
next
  case (Suc n)
  obtain roll rnd where "qualityRoll random = (roll, rnd)" by fastforce
  moreover from this have "rnd = None \<longleftrightarrow> random = None" using qualityRoll_none [of random] by simp
  ultimately show ?case
    using Suc.prems Suc.IH [of "s + 1" r h rnd] Suc.IH [of s "r + 1" h rnd]
      Suc.IH [of s r "h + 1" rnd] Suc.IH [of s r h rnd]
    by (auto split: if_splits)
qed

lemma countByPct_bounds:
  assumes "pct \<le> 100"
  shows "0 \<le> countByPct q pct" "0 \<le> q \<Longrightarrow> countByPct q pct \<le> q"
proof -
  have "0 < q \<Longrightarrow> 0 < pct \<Longrightarrow> q * pct div 100 \<le> q * 100 div 100"
    using assms by (intro zdiv_mono1 mult_left_mono) simp_all
  then show "0 \<le> countByPct q pct" "0 \<le> q \<Longrightarrow> countByPct q pct \<le> q"
    by (auto simp: countByPct_def go_div_nonneg pos_imp_zdiv_nonneg_iff)
qed

lemma clampPct_range: "0 \<le> clampPct x" "clampPct x \<le> 100"
  by (simp_all add: clampPct_def)

lemma fittedHoldRate_sels:
  "qp_ScrapRatePct (fittedHoldRate p) = qp_ScrapRatePct p"
  "qp_ReworkRatePct (fittedHoldRate p) = qp_ReworkRatePct p"
  "qp_CustomerReturnRatePct (fittedHoldRate p) = qp_CustomerReturnRatePct p"
  "qp_InspectionHoldRatePct (fittedHoldRate p) =
     (if 100 < qp_ScrapRatePct p + qp_ReworkRatePct p + qp_InspectionHoldRatePct p
      then max 0 (100 - qp_ScrapRatePct p - qp_ReworkRatePct p) else qp_InspectionHoldRatePct p)"
  by (simp_all add: fittedHoldRate_def Let_def algebra_simps)

lemma normalizedQualityProfile_sels:
  "qp_ScrapRatePct (normalizedQualityProfile p) = clampPct (qp_ScrapRatePct p)"
  "qp_ReworkRatePct (normalizedQualityProfile p) = clampPct (qp_ReworkRatePct p)"
  "qp_CustomerReturnRatePct (normalizedQualityProfile p) = clampPct (qp_CustomerReturnRatePct p)"
  "qp_InspectionHoldRatePct (normalizedQualityProfile p) =
     qp_InspectionHoldRatePct (fittedHoldRate (clampedRates p))"
  "0 \<le> qp_InspectionHoldRounds (normalizedQualityProfile p)"
  "0 \<le> qp_ReturnDelayRounds (normalizedQualityProfile p)"
  by (simp_all add: normalizedQualityProfile_def Let_def fittedHoldRate_sels(1-3) clampedRates_def)

lemma normalizedQualityProfile_rates:
  fixes profile
  defines "n \<equiv> normalizedQualityProfile profile"
  shows "0 \<le> qp_ScrapRatePct n" "qp_ScrapRatePct n \<le> 100" "0 \<le> qp_ReworkRatePct n"
    "qp_ReworkRatePct n \<le> 100" "0 \<le> qp_InspectionHoldRatePct n" "qp_InspectionHoldRatePct n \<le> 100"
    "0 \<le> qp_CustomerReturnRatePct n" "qp_CustomerReturnRatePct n \<le> 100"
    "0 \<le> qp_InspectionHoldRounds n" "0 \<le> qp_ReturnDelayRounds n"
proof -
  have hold: "0 \<le> qp_InspectionHoldRatePct n \<and> qp_InspectionHoldRatePct n \<le> 100"
    using clampPct_range [of "qp_ScrapRatePct profile"] clampPct_range [of "qp_ReworkRatePct profile"]
      clampPct_range [of "qp_InspectionHoldRatePct profile"]
    by (simp add: n_def normalizedQualityProfile_sels(4) fittedHoldRate_sels(4) clampedRates_def)
  then show "0 \<le> qp_InspectionHoldRatePct n" "qp_InspectionHoldRatePct n \<le> 100" by simp_all
qed (simp_all add: n_def normalizedQualityProfile_sels(1-3,5,6) clampPct_range)

lemma resolveFinishedQuality_bounds:
  assumes "resolveFinishedQuality q (normalizedQualityProfile profile) random = ((s, r, h), random')"
    and q: "0 \<le> q"
  shows "0 \<le> s \<and> 0 \<le> r \<and> 0 \<le> h \<and> s + r + h \<le> q \<and> (random' = None \<longleftrightarrow> random = None)"
proof (cases random)
  case None
  let ?n = "normalizedQualityProfile profile"
  note rates = normalizedQualityProfile_rates [of profile]
  have s: "s = countByPct q (qp_ScrapRatePct ?n)"
    and r: "r = countByPct (max (q - s) 0) (qp_ReworkRatePct ?n)"
    and h: "h = countByPct (max (q - s - r) 0) (qp_InspectionHoldRatePct ?n)"
    and none: "random' = None"
    using assms(1) None by (auto simp: resolveFinishedQuality_def Let_def split: prod.splits)
  have "0 \<le> s \<and> s \<le> q" using countByPct_bounds [OF rates(2), of q] q by (simp add: s)
  moreover from this have "0 \<le> r \<and> r \<le> q - s"
    using countByPct_bounds [OF rates(4), of "max (q - s) 0"] by (simp add: r)
  moreover from calculation have "0 \<le> h \<and> h \<le> q - s - r"
    using countByPct_bounds [OF rates(6), of "max (q - s - r) 0"] by (simp add: h)
  ultimately show ?thesis using None none by linarith
next
  case (Some rnd)
  then have "qualityLoop (nat q) (normalizedQualityProfile profile) (0, 0, 0) random = ((s, r, h), random')"
    using assms(1) by (auto simp: resolveFinishedQuality_def Let_def split: prod.splits)
  from qualityLoop_bounds [OF this] q show ?thesis by simp
qed

lemma returnLoop_bounds:
  "returnLoop n pct a random = (b, random') \<Longrightarrow>
   a \<le> b \<and> b \<le> a + int n \<and> (random' = None \<longleftrightarrow> random = None)"
proof (induction n arbitrary: a random)
  case (Suc n)
  obtain roll rnd where roll: "qualityRoll random = (roll, rnd)" by fastforce
  moreover from this have "rnd = None \<longleftrightarrow> random = None" using qualityRoll_none [of random] by simp
  ultimately show ?case using Suc.prems Suc.IH [of "if roll < pct then a + 1 else a" rnd]
    by (simp split: if_splits)
qed simp

lemma resolveReturnQuantity_bounds:
  assumes "resolveReturnQuantity q pct random = (n, random')" "pct \<le> 100" "0 \<le> q"
  shows "0 \<le> n \<and> n \<le> q \<and> (random' = None \<longleftrightarrow> random = None)"
  using assms returnLoop_bounds [of "nat q" pct 0 random n random'] countByPct_bounds [of pct q]
  by (auto simp: resolveReturnQuantity_def split: if_splits)

section \<open>What the quality steps keep\<close>

lemma batch_ext [inv_intros]:
  "phase_ext p q \<Longrightarrow> phase_ext p (scrapUnits a b n q)"
  "phase_ext p q \<Longrightarrow> phase_ext p (reworkUnits a b n c q)"
  "phase_ext p q \<Longrightarrow> phase_ext p (holdUnits a b n c r q)"
  "phase_ext p q \<Longrightarrow> phase_ext p (goodUnits a b n c q)"
  by (auto simp: scrapUnits_def reworkUnits_def holdUnits_def goodUnits_def Let_def intro!: inv_intros)

lemma batch_ok [ok_intros]:
  "phaseOk p \<Longrightarrow> phaseOk (scrapUnits a b n p)"
  "phaseOk p \<Longrightarrow> 0 \<le> c \<Longrightarrow> phaseOk (reworkUnits a b n c p)"
  "phaseOk p \<Longrightarrow> 0 \<le> c \<Longrightarrow> phaseOk (holdUnits a b n c r p)"
  "phaseOk p \<Longrightarrow> 0 \<le> c \<Longrightarrow> phaseOk (goodUnits a b n c p)"
  using wip.ok_put [where k = "(a, b)" for a b]
  by (auto simp: scrapUnits_def reworkUnits_def holdUnits_def goodUnits_def Let_def plantOkD
      intro!: ok_intros finished.ok_put addHold_ok)

lemma batch_sels [phase_simps]:
  "rp_random (scrapUnits a b n p) = rp_random p" "rp_random (reworkUnits a b n c p) = rp_random p"
  "rp_random (holdUnits a b n c r p) = rp_random p" "rp_random (goodUnits a b n c p) = rp_random p"
  by (simp_all add: scrapUnits_def reworkUnits_def holdUnits_def goodUnits_def Let_def phase_simps)

lemma completeFinishedUnits_cases:
  assumes "0 < quantity"
  obtains random s r h rounds where
    "0 \<le> s" "0 \<le> r" "0 \<le> h" "s + r + h \<le> quantity" "random = None \<longleftrightarrow> rp_random p = None"
    "completeFinishedUnits a b quantity c overtime p =
       goodUnits a b (quantity - s - r - h) c
         (holdUnits a b h c rounds (reworkUnits a b r c (scrapUnits a b s (p\<lparr>rp_random := random\<rparr>))))"
proof -
  define ctx where "ctx = \<lparr>qpc_State = MatchState_Clone (rp_state p),
     qpc_CurrentRound = rp_currentRound p, qpc_Phase = QualityPhaseProductionFinal,
     qpc_ProductID = a, qpc_WorkstationID = b, qpc_CustomerID = [], qpc_Quantity = quantity,
     qpc_Stressed = rp_stressedStations p b, qpc_OvertimeUsed = overtime\<rparr>"
  define profile where "profile = normalizedQualityProfile (rp_qualityProfile p ctx)"
  obtain s r h random where split:
    "resolveFinishedQuality quantity profile (rp_random p) = ((s, r, h), random)"
    by (metis prod.exhaust)
  have b: "0 \<le> s \<and> 0 \<le> r \<and> 0 \<le> h \<and> s + r + h \<le> quantity \<and> (random = None \<longleftrightarrow> rp_random p = None)"
    using resolveFinishedQuality_bounds [OF split [unfolded profile_def]] assms by simp
  show thesis
    by (rule that [of s r h random "qp_InspectionHoldRounds profile"])
      (use b assms in \<open>simp_all add: completeFinishedUnits_def Let_def split
        flip: ctx_def profile_def\<close>)
qed

lemma completeFinishedUnits_ext [inv_intros]:
  assumes "phase_ext p q"
  shows "phase_ext p (completeFinishedUnits a b quantity c overtime q)"
proof (cases "0 < quantity")
  case True
  then obtain random s r h rounds where "random = None \<longleftrightarrow> rp_random q = None"
    "completeFinishedUnits a b quantity c overtime q =
       goodUnits a b (quantity - s - r - h) c
         (holdUnits a b h c rounds (reworkUnits a b r c (scrapUnits a b s (q\<lparr>rp_random := random\<rparr>))))"
    by (rule completeFinishedUnits_cases)
  with assms show ?thesis by (auto intro!: inv_intros)
qed (use assms in \<open>simp add: completeFinishedUnits_def\<close>)

lemma ok_random [simp]: "phaseOk (p\<lparr>rp_random := r\<rparr>) \<longleftrightarrow> phaseOk p"
  by simp

lemma completeFinishedUnits_ok [ok_intros]:
  assumes "phaseOk p" "0 \<le> c"
  shows "phaseOk (completeFinishedUnits a b quantity c overtime p)"
proof (cases "0 < quantity")
  case True
  then obtain random s r h rounds where
    "completeFinishedUnits a b quantity c overtime p =
       goodUnits a b (quantity - s - r - h) c
         (holdUnits a b h c rounds (reworkUnits a b r c (scrapUnits a b s (p\<lparr>rp_random := random\<rparr>))))"
    by (rule completeFinishedUnits_cases)
  with assms show ?thesis by (auto intro!: ok_intros)
qed (use assms in \<open>simp add: completeFinishedUnits_def\<close>)

lemma lowerSentiment_sels [phase_simps]:
  "plant (lowerSentiment i x p) = plant p" "rp_stats (lowerSentiment i x p) = rp_stats p"
  "rp_random (lowerSentiment i x p) = rp_random p"
  "rp_currentRound (lowerSentiment i x p) = rp_currentRound p"
  by (simp_all add: lowerSentiment_def Let_def phase_simps split: option.split)

lemma lowerSentiment_ext [inv_intros]: "phase_ext p q \<Longrightarrow> phase_ext p (lowerSentiment i x q)"
  by (auto simp: lowerSentiment_def Let_def split: option.split intro!: inv_intros)

lemma lowerSentiment_ok [ok_intros]: "phaseOk p \<Longrightarrow> phaseOk (lowerSentiment i x p)"
proof -
  assume ok: "phaseOk p"
  have "\<forall>c \<in> set (update_first P (\<lambda>c. c\<lparr>cs_Sentiment := cs_Sentiment c - 1\<rparr>)
      (ms_Customers (rp_state p))). backlogOk (cs_Backlog c)" for P
    using ok by (intro update_first_all) (auto simp: stateOk_def)
  then show ?thesis using ok
    by (auto simp: lowerSentiment_def Let_def split: option.split intro!: ok_intros ok_upd_customers)
qed

lemma processReturn_ext [inv_intros]: "phase_ext p q \<Longrightarrow> phase_ext p (processReturn q item)"
  by (auto simp: processReturn_def Let_def intro!: inv_intros)

lemma processReturns_ext [inv_intros]: "phase_ext p q \<Longrightarrow> phase_ext p (foldl processReturn q items)"
  by (induction items arbitrary: q) (simp_all add: processReturn_ext)

lemma processReturn_ok:
  "phaseOk p \<Longrightarrow> 0 < cr_Quantity item \<Longrightarrow> 0 \<le> cr_UnitCost item \<Longrightarrow> phaseOk (processReturn p item)"
  by (auto simp: processReturn_def Let_def plantOkD backlogOk_def
      intro!: ok_intros addHold_ok dest: plantOkD(11))

lemma processReturns_ok:
  "phaseOk p \<Longrightarrow> returnsOk items \<Longrightarrow> phaseOk (foldl processReturn p items)"
  by (induction items arbitrary: p) (simp_all add: returnsOk_def processReturn_ok)

lemma processCustomerReturns_ext [inv_intros]:
  "phase_ext p q \<Longrightarrow> phase_ext p (processCustomerReturns q)"
  by (auto simp: processCustomerReturns_def Let_def intro!: inv_intros)

lemma processCustomerReturns_ok [ok_intros]:
  assumes "phaseOk p"
  shows "phaseOk (processCustomerReturns p)"
proof -
  have ret: "returnsOk (filter P (pl_PendingReturns (plant p)))" for P
    using assms by (simp add: stateOk_def plantOk_def returnsOk_def)
  then have "phaseOk (foldl processReturn (upd_plant (\<lambda>s. s\<lparr>pl_PendingReturns :=
      filter Q (pl_PendingReturns (plant p))\<rparr>) p) (filter P (pl_PendingReturns (plant p))))" for P Q
    using assms by (intro processReturns_ok ok_intros)
  then show ?thesis using assms
    by (auto simp: processCustomerReturns_def Let_def intro!: ok_intros ret plantOkD(11) phaseOk_plant)
qed

lemma releaseLoop_keeps:
  "releaseLoop items p = (remaining, q) \<Longrightarrow>
   phase_ext p q \<and> (phaseOk p \<longrightarrow> holdsOk items \<longrightarrow> phaseOk q) \<and> set remaining \<subseteq> set items"
proof (induction items arbitrary: p remaining)
  case (Cons item items)
  show ?case
  proof (cases "rp_currentRound p < ih_ReleaseRound item")
    case True
    with Cons.prems obtain b where b: "releaseLoop items p = (b, q)" "remaining = item # b"
      by (auto split: prod.splits)
    from Cons.IH [OF b(1)] b(2) show ?thesis by (auto simp: holdsOk_def)
  next
    case False
    define p' where "p' = appendEvent EventInspectionHoldReleased ActorPlantSystem
        (''Released '' @ itoa (ih_Quantity item) @ '' '' @ ih_ProductID item
           @ '' from inspection hold'')
        [(''product_id'', AString (ih_ProductID item)),
         (''quantity'', AInt (ih_Quantity item)),
         (''reason'', AString (ih_Reason item)),
         (''release_round'', AInt (ih_ReleaseRound item))]
       (upd_plant (\<lambda>s. s\<lparr>pl_FinishedInventory := addFinishedInventory
                (pl_FinishedInventory s) (ih_ProductID item) (ih_Quantity item) (ih_UnitCost item)\<rparr>) p)"
    with False Cons.prems have "releaseLoop items p' = (remaining, q)" by (simp add: Let_def)
    from Cons.IH [OF this] have IH: "phase_ext p' q" "phaseOk p' \<longrightarrow> holdsOk items \<longrightarrow> phaseOk q"
      "set remaining \<subseteq> set items" by simp_all
    have "phase_ext p p'" unfolding p'_def by (auto intro!: inv_intros)
    moreover have "phaseOk p \<Longrightarrow> 0 \<le> ih_UnitCost item \<Longrightarrow> phaseOk p'"
      unfolding p'_def by (auto simp: plantOkD intro!: ok_intros finished.ok_put)
    ultimately show ?thesis using IH by (auto simp: holdsOk_def intro: phase_ext_trans)
  qed
qed simp

lemma releaseInspectionHolds_ext [inv_intros]:
  "phase_ext p q \<Longrightarrow> phase_ext p (releaseInspectionHolds q)"
  by (auto simp: releaseInspectionHolds_def split: prod.split intro!: inv_intros
      dest!: releaseLoop_keeps intro: phase_ext_trans)

lemma releaseInspectionHolds_ok [ok_intros]:
  assumes "phaseOk p"
  shows "phaseOk (releaseInspectionHolds p)"
proof -
  obtain b q where loop: "releaseLoop (pl_InspectionHolds (plant p)) p = (b, q)" by fastforce
  have holds: "holdsOk (pl_InspectionHolds (plant p))" using assms by (simp add: plantOkD phaseOk_plant)
  from releaseLoop_keeps [OF loop] have "phaseOk q" "holdsOk b"
    using assms holds by (auto simp: holdsOk_def)
  then have "phaseOk (upd_plant (\<lambda>s. s\<lparr>pl_InspectionHolds := b\<rparr>) q)" by (intro ok_intros)
  with assms loop show ?thesis by (simp add: releaseInspectionHolds_def)
qed

lemma scheduleCustomerReturns_ext [inv_intros]:
  assumes "phase_ext p q"
  shows "phase_ext p (scheduleCustomerReturns a b n c q)"
proof -
  have rnd: "snd (resolveReturnQuantity n (qp_CustomerReturnRatePct (normalizedQualityProfile pr)) (rp_random q)) = None
      \<longleftrightarrow> rp_random q = None" if "0 < n" for pr
    using that resolveReturnQuantity_bounds [of n _ "rp_random q"] normalizedQualityProfile_rates(8) [of pr]
    by (metis less_imp_le prod.collapse)
  show ?thesis using assms rnd
    by (auto simp: scheduleCustomerReturns_def Let_def split: prod.split intro!: inv_intros)
      (metis snd_conv not_le)+
qed

lemma scheduleCustomerReturns_ok [ok_intros]:
  "phaseOk p \<Longrightarrow> 0 \<le> c \<Longrightarrow> phaseOk (scheduleCustomerReturns a b n c p)"
  by (auto simp: scheduleCustomerReturns_def Let_def plantOkD split: prod.split intro!: ok_intros)
    (auto simp: returnsOk_def dest!: plantOkD(8))

end
