(* ===== verification/Capacity.thy ===== *)
theory Capacity
  imports Quality
begin

text \<open>
  Workstation capacity, labor and overtime in \<open>internal/engine/resolver.go\<close>, and the
  largest advance a budget affords.
\<close>

section \<open>Stations\<close>

fun stationIndexFrom :: "int \<Rightarrow> WorkstationState list \<Rightarrow> WorkstationID \<Rightarrow> int" where
  "stationIndexFrom index [] workstationID = - 1"
| "stationIndexFrom index (item # items) workstationID =
     (if ws_WorkstationID item = workstationID then index
      else stationIndexFrom (index + 1) items workstationID)"

definition workstationIndex :: "WorkstationState list \<Rightarrow> WorkstationID \<Rightarrow> int" where
  "workstationIndex items workstationID = stationIndexFrom 0 items workstationID"

definition resetCapacityUsage :: "WorkstationState list \<Rightarrow> WorkstationState list" where
  "resetCapacityUsage items =
     map (\<lambda>ws. ws\<lparr>ws_CapacityUsed := 0,
                   ws_EffectiveCapacityPerRound := ws_CapacityPerRound ws,
                   ws_StressCapacityLoss := 0,
                   ws_LaborUsed := 0,
                   ws_OvertimeUsed := 0\<rparr>) items"

definition stressedCapacity :: "WorkstationState \<Rightarrow> Units \<Rightarrow> CapacityUnits \<times> CapacityUnits" where
  "stressedCapacity workstation wipUnits =
    (let nominal = ws_CapacityPerRound workstation
     in if nominal \<le> 0 then (0, 0)
     else if ws_StressPenaltyPerExcessUnit workstation \<le> 0 then (nominal, 0)
     else let threshold = nominal + ws_StressBufferUnits workstation
     in if wipUnits \<le> threshold then (nominal, 0)
     else let excess = wipUnits - threshold;
              loss = excess * ws_StressPenaltyPerExcessUnit workstation;
              loss = (if nominal < loss then nominal else loss)
          in (nominal - loss, loss))"

definition effectiveLaborCapacity :: "WorkstationState \<Rightarrow> CapacityUnits" where
  "effectiveLaborCapacity workstation =
    (if ws_LaborCapacityPerRound workstation \<le> 0 then ws_CapacityPerRound workstation
     else ws_LaborCapacityPerRound workstation)"

definition availableBaseLaborCapacity :: "WorkstationState \<Rightarrow> CapacityUnits" where
  "availableBaseLaborCapacity workstation =
    (let baseRemaining = effectiveLaborCapacity workstation - ws_LaborUsed workstation
     in if baseRemaining < 0 then 0 else baseRemaining)"

definition availableLaborCapacity :: "WorkstationState \<Rightarrow> CapacityUnits \<Rightarrow> CapacityUnits" where
  "availableLaborCapacity workstation overtimeRequested =
     availableBaseLaborCapacity workstation + max overtimeRequested 0"

text \<open>The result is the overtime used and the workstation written through the pointer.\<close>

definition consumeLaborCapacity ::
  "WorkstationState \<Rightarrow> CapacityUnits \<Rightarrow> CapacityUnits \<Rightarrow> CapacityUnits \<times> WorkstationState" where
  "consumeLaborCapacity workstation quantity overtimeRequested =
    (let baseRemaining = availableBaseLaborCapacity workstation;
         baseUsed = min baseRemaining quantity;
         workstation = workstation\<lparr>ws_LaborUsed := ws_LaborUsed workstation + baseUsed\<rparr>;
         overtimeUsed = min (max overtimeRequested 0) (quantity - baseUsed);
         workstation = workstation\<lparr>ws_OvertimeUsed := ws_OvertimeUsed workstation + overtimeUsed\<rparr>
     in (overtimeUsed, workstation))"

definition minUnits :: "Units list \<Rightarrow> Units" where
  "minUnits vs = foldl (\<lambda>result v. if v < result then v else result) (hd vs) (tl vs)"

definition minCapacity :: "CapacityUnits list \<Rightarrow> CapacityUnits" where
  "minCapacity vs = foldl (\<lambda>result v. if v < result then v else result) (hd vs) (tl vs)"

section \<open>Affordable advance\<close>

definition projectedOvertimeUnits ::
  "CapacityUnits \<Rightarrow> CapacityUnits \<Rightarrow> CapacityUnits \<Rightarrow> CapacityUnits" where
  "projectedOvertimeUnits quantity baseLaborRemaining overtimeRequested =
    (if quantity \<le> baseLaborRemaining then 0
     else min (quantity - baseLaborRemaining) (max overtimeRequested 0))"

definition advanceCost ::
  "CapacityUnits \<Rightarrow> CapacityUnits \<Rightarrow> Money \<Rightarrow> Money \<Rightarrow> CapacityUnits \<Rightarrow> Money" where
  "advanceCost baseLaborRemaining overtimeRequested productionUnitCost overtimeUnitCost quantity =
    (let overtimeUnits = projectedOvertimeUnits quantity baseLaborRemaining overtimeRequested
     in spendForQuantity quantity productionUnitCost + spendForQuantity overtimeUnits overtimeUnitCost)"

text \<open>The loop over \<open>1 .. maxAdvance\<close> with its break.\<close>

fun advanceLoop ::
  "(CapacityUnits \<Rightarrow> Money) \<Rightarrow> Money \<Rightarrow> CapacityUnits list \<Rightarrow> CapacityUnits \<Rightarrow> CapacityUnits" where
  "advanceLoop cost available [] affordable = affordable"
| "advanceLoop cost available (quantity # quantities) affordable =
    (if available < cost quantity then affordable
     else advanceLoop cost available quantities quantity)"

definition affordableProductionAdvance ::
  "CapacityUnits \<Rightarrow> CapacityUnits \<Rightarrow> CapacityUnits \<Rightarrow> Money \<Rightarrow> Money \<Rightarrow> Money \<Rightarrow> CapacityUnits" where
  "affordableProductionAdvance maxAdvance baseLaborRemaining overtimeRequested
     productionUnitCost overtimeUnitCost available =
    (if maxAdvance \<le> 0 \<or> available \<le> 0 then 0
     else advanceLoop
       (advanceCost baseLaborRemaining overtimeRequested productionUnitCost overtimeUnitCost)
       available [1..maxAdvance] 0)"

section \<open>Facts\<close>

lemma stationIndexFrom_range:
  "stationIndexFrom i items w = - 1 \<or>
   (i \<le> stationIndexFrom i items w \<and> stationIndexFrom i items w < i + int (length items)
    \<and> ws_WorkstationID (items ! nat (stationIndexFrom i items w - i)) = w)"
proof (induction items arbitrary: i)
  case (Cons item items)
  show ?case
  proof (cases "ws_WorkstationID item = w")
    case False
    then show ?thesis using Cons [of "i + 1"]
      by (auto simp: nth_Cons' nat_diff_distrib' simp flip: diff_diff_eq)
  qed simp
qed simp

lemma workstationIndex_found:
  "0 \<le> workstationIndex items w \<Longrightarrow> nat (workstationIndex items w) < length items
     \<and> ws_WorkstationID (items ! nat (workstationIndex items w)) = w"
  using stationIndexFrom_range [of 0 items w] by (auto simp: workstationIndex_def)

lemma workstationIndex_nonneg_iff:
  "0 \<le> workstationIndex items w \<longleftrightarrow> w \<in> ws_WorkstationID ` set items"
proof -
  have "0 \<le> i \<Longrightarrow> 0 \<le> stationIndexFrom i items w \<longleftrightarrow> w \<in> ws_WorkstationID ` set items" for i
    by (induction items arbitrary: i) auto
  then show ?thesis by (simp add: workstationIndex_def)
qed

lemma stressedCapacity_bounds:
  assumes "stressedCapacity ws n = (capacity, loss)"
  shows "0 \<le> capacity" "capacity \<le> max 0 (ws_CapacityPerRound ws)" "0 \<le> loss"
    "capacity + loss = max 0 (ws_CapacityPerRound ws)"
proof -
  have "0 < ws_StressPenaltyPerExcessUnit ws \<Longrightarrow> t < n \<Longrightarrow> 0 < (n - t) * ws_StressPenaltyPerExcessUnit ws" for t
    by simp
  then show "0 \<le> capacity" "capacity \<le> max 0 (ws_CapacityPerRound ws)" "0 \<le> loss"
    "capacity + loss = max 0 (ws_CapacityPerRound ws)"
    using assms by (fastforce simp: stressedCapacity_def Let_def split: if_splits)+
qed

lemma stressedCapacity_fst:
  "fst (stressedCapacity ws n) =
     (if ws_CapacityPerRound ws \<le> 0 then 0
      else if ws_StressPenaltyPerExcessUnit ws \<le> 0 then ws_CapacityPerRound ws
      else ws_CapacityPerRound ws - min (ws_CapacityPerRound ws)
        (max 0 ((n - (ws_CapacityPerRound ws + ws_StressBufferUnits ws)) * ws_StressPenaltyPerExcessUnit ws)))"
proof -
  have "max 0 ((n - t) * e) = (if n \<le> t then 0 else (n - t) * e)" if "0 < e" for t e :: int
    using that by (auto simp: max_def mult_le_0_iff zero_le_mult_iff)
  then show ?thesis by (simp add: stressedCapacity_def Let_def)
qed

lemma stressedCapacity_antimono:
  assumes "m \<le> n"
  shows "fst (stressedCapacity ws n) \<le> fst (stressedCapacity ws m)"
proof -
  have "min a (max 0 ((m - t) * e)) \<le> min a (max 0 ((n - t) * e))" if "0 < e" for t e a :: int
    using that assms by (intro min.mono max.mono mult_right_mono) simp_all
  then show ?thesis by (simp add: stressedCapacity_fst)
qed

lemma min_foldl: "foldl (\<lambda>r v. if v < r then v else r) (a::int) vs \<le> x \<longleftrightarrow> a \<le> x \<or> (\<exists>v \<in> set vs. v \<le> x)"
  by (induction vs arbitrary: a) auto

lemma minUnits_two [simp]: "minUnits [a, b] = min a b"
  by (simp add: minUnits_def)

lemma minCapacity_four [simp]: "minCapacity [a, b, c, d] = min (min (min a b) c) d"
  by (simp add: minCapacity_def)

lemma projectedOvertimeUnits_mono:
  "m \<le> n \<Longrightarrow> projectedOvertimeUnits m b ot \<le> projectedOvertimeUnits n b ot"
  by (auto simp: projectedOvertimeUnits_def)

lemma advanceCost_mono:
  assumes "0 \<le> c" "0 \<le> oc" "m \<le> n"
  shows "advanceCost b ot c oc m \<le> advanceCost b ot c oc n"
  using assms projectedOvertimeUnits_mono [OF assms(3), of b ot]
  by (auto simp: advanceCost_def Let_def spendForQuantity_def intro!: add_mono mult_right_mono)

lemma advanceLoop_spec:
  assumes "\<And>x y. x \<le> y \<Longrightarrow> cost x \<le> cost y"
  shows "0 \<le> a \<Longrightarrow> a \<le> m \<Longrightarrow> (a = 0 \<or> cost a \<le> available) \<Longrightarrow>
    advanceLoop cost available [a + 1..m] a = n \<Longrightarrow>
    a \<le> n \<and> n \<le> m \<and> (n = 0 \<or> cost n \<le> available) \<and> (\<forall>k. n < k \<longrightarrow> k \<le> m \<longrightarrow> available < cost k)"
proof (induction "nat (m - a)" arbitrary: a)
  case 0
  then show ?case by simp
next
  case (Suc x)
  then have list: "[a + 1..m] = (a + 1) # [(a + 1) + 1..m]" by (intro upto_rec1) simp
  show ?case
  proof (cases "available < cost (a + 1)")
    case True
    then have "available < cost k" if "a < k" for k
      using assms [of "a + 1" k] that by linarith
    with True Suc.prems show ?thesis by (simp add: list)
  next
    case False
    with Suc.prems have "advanceLoop cost available [(a + 1) + 1..m] (a + 1) = n" by (simp add: list)
    moreover have "x = nat (m - (a + 1))" "a + 1 \<le> m" using Suc.hyps(2) by auto
    ultimately show ?thesis using Suc.hyps(1) [of "a + 1"] Suc.prems False by auto
  qed
qed

lemma affordableProductionAdvance_spec:
  fixes m b ot c oc available :: int
  assumes "0 \<le> c" "0 \<le> oc"
  defines "n \<equiv> affordableProductionAdvance m b ot c oc available"
  shows "0 \<le> n" "n \<le> max 0 m" "0 < n \<Longrightarrow> advanceCost b ot c oc n \<le> available"
    "n < k \<Longrightarrow> k \<le> m \<Longrightarrow> available < advanceCost b ot c oc k \<or> available \<le> 0"
proof -
  have "0 \<le> n \<and> n \<le> max 0 m \<and> (0 < n \<longrightarrow> advanceCost b ot c oc n \<le> available)
    \<and> (n < k \<longrightarrow> k \<le> m \<longrightarrow> available < advanceCost b ot c oc k \<or> available \<le> 0)" for k
  proof (cases "m \<le> 0 \<or> available \<le> 0")
    case True
    then show ?thesis by (auto simp: n_def affordableProductionAdvance_def)
  next
    case False
    then have "advanceLoop (advanceCost b ot c oc) available [0 + 1..m] 0 = n"
      by (simp add: n_def affordableProductionAdvance_def)
    with advanceLoop_spec [where a = 0 and m = m and n = n and available = available
        and cost = "advanceCost b ot c oc"] advanceCost_mono [OF assms(1,2), of _ _ b ot] False
    show ?thesis by auto
  qed
  then show "0 \<le> n" "n \<le> max 0 m" "0 < n \<Longrightarrow> advanceCost b ot c oc n \<le> available"
    "n < k \<Longrightarrow> k \<le> m \<Longrightarrow> available < advanceCost b ot c oc k \<or> available \<le> 0" by auto
qed

text \<open>Even with negative unit costs the advance stays within its bounds.\<close>

lemma advanceLoop_range:
  "advanceLoop cost available qs a = a \<or> advanceLoop cost available qs a \<in> set qs"
  by (induction qs arbitrary: a) auto

lemma affordableProductionAdvance_range:
  "0 \<le> affordableProductionAdvance m b ot c oc available \<and>
   affordableProductionAdvance m b ot c oc available \<le> max 0 m"
  using advanceLoop_range [of "advanceCost b ot c oc" available "[1..m]" 0]
  by (auto simp: affordableProductionAdvance_def)

lemma consumeLaborCapacity_sum:
  assumes "consumeLaborCapacity ws n ot = (used, ws')" "0 \<le> n" "n \<le> availableLaborCapacity ws ot"
  shows "0 \<le> used" "used = projectedOvertimeUnits n (availableBaseLaborCapacity ws) ot"
    "ws_LaborUsed ws' + ws_OvertimeUsed ws' = ws_LaborUsed ws + ws_OvertimeUsed ws + n"
    "ws_LaborUsed ws' \<le> max (ws_LaborUsed ws) (effectiveLaborCapacity ws)"
    "used \<le> max ot 0" "ws_OvertimeUsed ws' = ws_OvertimeUsed ws + used"
  using assms
  by (auto simp: consumeLaborCapacity_def availableLaborCapacity_def availableBaseLaborCapacity_def
      projectedOvertimeUnits_def Let_def)

lemma consumeLaborCapacity_keeps:
  assumes "consumeLaborCapacity ws n ot = (used, ws')"
  shows "ws' = ws\<lparr>ws_LaborUsed := ws_LaborUsed ws', ws_OvertimeUsed := ws_OvertimeUsed ws'\<rparr>"
  using assms by (auto simp: consumeLaborCapacity_def Let_def)

end
