(* ===== verification/Production.thy ===== *)
theory Production
  imports Capacity
begin

text \<open>
  \<open>resolveProduction\<close> in \<open>internal/engine/resolver.go\<close>: releases of parts into work
  in process, then the capacity allocations, each of which is trimmed to the station's
  capacity, the work waiting there, the labor and the budget before the work moves on.
\<close>

section \<open>Releases\<close>

definition overtimeRequestsOf :: "OvertimeAllocation list \<Rightarrow> WorkstationID \<Rightarrow> CapacityUnits" where
  "overtimeRequestsOf allocations =
     foldl (\<lambda>requests allocation.
              if oa_Capacity allocation \<le> 0 then requests
              else requests(oa_WorkstationID allocation :=
                     requests (oa_WorkstationID allocation) + oa_Capacity allocation))
       (\<lambda>_. 0) allocations"

text \<open>The tail of the loop body: the parts of an accepted quantity become work in process.\<close>

definition startWork ::
  "WorkstationID \<Rightarrow> ProductID \<Rightarrow> BOMLine list \<Rightarrow> Units \<Rightarrow> roundPhase \<Rightarrow> roundPhase" where
  "startWork firstStation productID bom allowed p =
    (let (items, materialCost) = consumePartInventory (pl_PartsInventory (plant p)) bom allowed;
         p = upd_plant (\<lambda>s. s\<lparr>pl_PartsInventory := items\<rparr>) p;
         p = upd_plant (\<lambda>s. s\<lparr>pl_WIPInventory := addWIPInventory (pl_WIPInventory s)
               productID firstStation allowed (perUnitCost materialCost allowed)\<rparr>) p
     in appendEvent EventProductionReleased ActorPlantSystem
          (''Released '' @ itoa allowed @ '' '' @ productID @ '' into production'')
          [(''product_id'', AString productID),
           (''quantity'', AInt allowed),
           (''workstation_id'', AString firstStation),
           (''material_cost'', AInt materialCost)] p)"

definition releaseQuantity :: "PartInventory list \<Rightarrow> BOMLine list \<Rightarrow> Units \<Rightarrow> Units" where
  "releaseQuantity items parts quantity =
    (if parts \<noteq> [] then minUnits [quantity, maxBuildableQuantity items parts] else quantity)"

definition releaseProduct :: "WorkstationID \<Rightarrow> roundPhase \<Rightarrow> ProductionRelease \<Rightarrow> roundPhase" where
  "releaseProduct firstStation p release =
    (if pr_Quantity release \<le> 0 then p
     else let bom = rp_productionBOM p
            \<lparr>pbc_State = MatchState_Clone (rp_state p), pbc_CurrentRound = rp_currentRound p,
             pbc_ProductID = pr_ProductID release\<rparr>
     in if \<not> pb_KnownProduct bom
     then appendEvent EventRuleAdjustment ActorPlantSystem
            ''Rejected production release for unknown product''
            [(''product_id'', AString (pr_ProductID release)),
             (''requested_quantity'', AInt (pr_Quantity release)),
             (''accepted_quantity'', AInt 0),
             (''blocked_requirement'', AString ''unknown_product'')] p
     else let allowed = releaseQuantity (pl_PartsInventory (plant p)) (pb_Parts bom) (pr_Quantity release);
              p = (if pb_Parts bom \<noteq> [] \<and> allowed \<noteq> pr_Quantity release
                   then appendEvent EventRuleAdjustment ActorPlantSystem
                     ''Trimmed production release to available part inventory''
                     [(''product_id'', AString (pr_ProductID release)),
                      (''requested_quantity'', AInt (pr_Quantity release)),
                      (''accepted_quantity'', AInt allowed)] p
                   else p)
     in if allowed \<le> 0
     then appendEvent EventRuleAdjustment ActorPlantSystem
            ''Rejected production release because required parts were unavailable''
            [(''product_id'', AString (pr_ProductID release)),
             (''requested_quantity'', AInt (pr_Quantity release)),
             (''accepted_quantity'', AInt 0)] p
     else startWork firstStation (pr_ProductID release) (pb_Parts bom) allowed p)"

section \<open>Capacity allocations\<close>

text \<open>A write to \<open>p.state.Plant.Workstations[wsIndex]\<close>.\<close>

definition upd_station :: "int \<Rightarrow> (WorkstationState \<Rightarrow> WorkstationState) \<Rightarrow> roundPhase \<Rightarrow> roundPhase" where
  "upd_station wsIndex f = upd_plant (\<lambda>s. s\<lparr>pl_Workstations :=
     (pl_Workstations s)[nat wsIndex := f (pl_Workstations s ! nat wsIndex)]\<rparr>)"

abbreviation station :: "roundPhase \<Rightarrow> int \<Rightarrow> WorkstationState" where
  "station p wsIndex \<equiv> pl_Workstations (plant p) ! nat wsIndex"

definition stressStation :: "int \<Rightarrow> WorkstationID \<Rightarrow> roundPhase \<Rightarrow> roundPhase" where
  "stressStation wsIndex workstationID p =
    (let (effectiveCapacity, capacityLoss) = stressedCapacity (station p wsIndex)
           (wipUnitsAtWorkstation (pl_WIPInventory (plant p)) workstationID);
         p = upd_station wsIndex (\<lambda>ws. ws\<lparr>ws_EffectiveCapacityPerRound := effectiveCapacity,
               ws_StressCapacityLoss := capacityLoss\<rparr>) p
     in if 0 < capacityLoss \<and> \<not> rp_stressedStations p workstationID
        then let p = p\<lparr>rp_stressedStations := (rp_stressedStations p)(workstationID := True)\<rparr>
          in appendEvent EventWorkstationStressed ActorPlantSystem
               (workstationID @ '' lost effective capacity to congestion'')
               [(''workstation_id'', AString workstationID),
                (''effective_capacity'', AInt effectiveCapacity),
                (''capacity_loss'', AInt capacityLoss)] p
        else p)"

text \<open>How far an allocation can advance, before its cost is known.\<close>

definition physicalAdvance ::
  "CapacityAllocation \<Rightarrow> WorkstationState \<Rightarrow> WIPInventory list \<Rightarrow> CapacityUnits \<Rightarrow> CapacityUnits" where
  "physicalAdvance allocation workstation wip overtimeRemaining =
    (let remainingCapacity = ws_EffectiveCapacityPerRound workstation - ws_CapacityUsed workstation;
         availableWIP = wipQuantity wip (ca_ProductID allocation) (ca_WorkstationID allocation);
         laborRemaining = availableLaborCapacity workstation overtimeRemaining
     in minCapacity [ca_Capacity allocation, remainingCapacity, availableWIP, laborRemaining])"

definition productionUnitCost ::
  "roundPhase \<Rightarrow> CapacityAllocation \<Rightarrow> CapacityUnits \<Rightarrow> Money" where
  "productionUnitCost p allocation advance =
    (let costing = rp_productionCost p
           \<lparr>pcc_State = MatchState_Clone (rp_state p), pcc_CurrentRound = rp_currentRound p,
            pcc_ProductID = ca_ProductID allocation, pcc_WorkstationID = ca_WorkstationID allocation,
            pcc_Quantity = advance\<rparr>
     in if pc_CostPerCapacityUnit costing \<le> 0 then 1 else pc_CostPerCapacityUnit costing)"

text \<open>The advance after the production budget and the credit of the plant.\<close>

definition budgetedAdvance ::
  "Money \<Rightarrow> Money \<Rightarrow> Money \<Rightarrow> WorkstationState \<Rightarrow> CapacityUnits \<Rightarrow> Money \<Rightarrow> CapacityUnits \<Rightarrow> CapacityUnits" where
  "budgetedAdvance hardCap budgetUsed affordable workstation overtimeRemaining unitCost advance =
    (let baseLaborRemaining = availableBaseLaborCapacity workstation;
         overtimeCost = ws_OvertimeCostPerCapacityUnit workstation;
         advance =
           (if 0 < hardCap
            then let remainingBudget = hardCap - budgetUsed
                 in if remainingBudget \<le> 0 then 0
                    else affordableProductionAdvance advance baseLaborRemaining overtimeRemaining
                           unitCost overtimeCost remainingBudget
            else advance)
     in affordableProductionAdvance advance baseLaborRemaining overtimeRemaining
          unitCost overtimeCost affordable)"

text \<open>Where the advanced work goes.\<close>

definition routeWork ::
  "int \<Rightarrow> CapacityAllocation \<Rightarrow> CapacityUnits \<Rightarrow> Money \<Rightarrow> bool \<Rightarrow> roundPhase \<Rightarrow> roundPhase" where
  "routeWork wsIndex allocation advance unitCost overtimeUsed p =
    (let ctx = \<lparr>prc_State = MatchState_Clone (rp_state p), prc_CurrentRound = rp_currentRound p,
                prc_ProductID = ca_ProductID allocation,
                prc_CurrentStationID = ca_WorkstationID allocation\<rparr>;
         complete = completeFinishedUnits (ca_ProductID allocation) (ca_WorkstationID allocation)
           advance unitCost overtimeUsed p
     in if wsIndex = int (length (pl_Workstations (plant p))) - 1
           \<and> prs_Finished (rp_productionRoute p ctx)
     then complete
     else let route = rp_productionRoute p ctx
     in if prs_Finished route then complete
     else let nextStation = prs_NextWorkstationID route
     in if nextStation = []
     then let p = appendEvent EventRuleAdjustment ActorPlantSystem
                ''Ignored production advance with no scenario route continuation''
                [(''product_id'', AString (ca_ProductID allocation)),
                 (''workstation_id'', AString (ca_WorkstationID allocation)),
                 (''quantity'', AInt advance)] p
       in upd_plant (\<lambda>s. s\<lparr>pl_WIPInventory := addWIPInventory (pl_WIPInventory s)
            (ca_ProductID allocation) (ca_WorkstationID allocation) advance unitCost\<rparr>) p
     else let p = upd_plant (\<lambda>s. s\<lparr>pl_WIPInventory := addWIPInventory (pl_WIPInventory s)
                (ca_ProductID allocation) nextStation advance unitCost\<rparr>) p
       in appendEvent EventWorkAdvanced ActorPlantSystem
            (''Advanced '' @ itoa advance @ '' '' @ ca_ProductID allocation @ '' to '' @ nextStation)
            [(''product_id'', AString (ca_ProductID allocation)),
             (''quantity'', AInt advance),
             (''from_workstation_id'', AString (ca_WorkstationID allocation)),
             (''to_workstation_id'', AString nextStation)] p)"

text \<open>
  The state of the allocation loop: the overtime still requested per station, the budget
  used so far, and the phase.
\<close>

type_synonym allocationState = "(WorkstationID \<Rightarrow> CapacityUnits) \<times> Money \<times> roundPhase"

text \<open>Labor, capacity and cost of an advance, before the work is routed.\<close>

definition workStation ::
  "int \<Rightarrow> CapacityAllocation \<Rightarrow> CapacityUnits \<Rightarrow> Money \<Rightarrow> allocationState \<Rightarrow>
     (CapacityUnits \<times> Money) \<times> allocationState" where
  "workStation wsIndex allocation advance unitCost = (\<lambda>(requests, budgetUsed, p).
    (let w = ca_WorkstationID allocation;
         (items, advancedCost) = takeWIPInventory (pl_WIPInventory (plant p))
           (ca_ProductID allocation) w advance;
         p = upd_plant (\<lambda>s. s\<lparr>pl_WIPInventory := items\<rparr>) p;
         (overtimeUsed, workstation) = consumeLaborCapacity (station p wsIndex) advance (requests w);
         p = upd_station wsIndex (\<lambda>_. workstation) p;
         p = upd_station wsIndex (\<lambda>ws. ws\<lparr>ws_CapacityUsed := ws_CapacityUsed ws + advance\<rparr>) p;
         requests = requests(w := max 0 (requests w - overtimeUsed));
         lineSpend = spendForQuantity advance unitCost;
         overtimeSpend = spendForQuantity overtimeUsed
           (ws_OvertimeCostPerCapacityUnit (station p wsIndex));
         budgetUsed = budgetUsed + (lineSpend + overtimeSpend);
         p = upd_stats (\<lambda>s. s\<lparr>st_productionSpend := st_productionSpend s + lineSpend\<rparr>) p;
         p = (if 0 < overtimeUsed
              then let p = upd_stats (\<lambda>s. s\<lparr>st_overtimeUnits := st_overtimeUnits s + overtimeUsed\<rparr>) p
                in appendEvent EventOvertimeApplied ActorPlantSystem
                     (''Applied '' @ itoa overtimeUsed @ '' overtime unit(s) at '' @ w)
                     [(''workstation_id'', AString w), (''overtime_used'', AInt overtimeUsed)] p
              else p)
     in ((overtimeUsed, advancedCost), (requests, budgetUsed, p))))"

definition advanceAllocation ::
  "Money \<Rightarrow> CapacityAllocation \<Rightarrow> int \<Rightarrow> allocationState \<Rightarrow> CapacityUnits \<times> Money" where
  "advanceAllocation hardCap allocation wsIndex = (\<lambda>(requests, budgetUsed, p).
    (let overtimeRemaining = requests (ca_WorkstationID allocation);
         advance = physicalAdvance allocation (station p wsIndex) (pl_WIPInventory (plant p)) overtimeRemaining;
         unitCost = productionUnitCost p allocation advance;
         advance = budgetedAdvance hardCap budgetUsed (availableSpendCapacity (plant p))
           (station p wsIndex) overtimeRemaining unitCost advance
     in (advance, unitCost)))"

definition allocateCapacity ::
  "Money \<Rightarrow> allocationState \<Rightarrow> CapacityAllocation \<Rightarrow> allocationState" where
  "allocateCapacity hardCap acc allocation =
    (let (requests, budgetUsed, p) = acc
     in if ca_Capacity allocation \<le> 0 then acc
     else let wsIndex = workstationIndex (pl_Workstations (plant p)) (ca_WorkstationID allocation)
     in if wsIndex < 0
     then (requests, budgetUsed, appendEvent EventRuleAdjustment ActorPlantSystem
             ''Ignored capacity allocation for unknown workstation''
             [(''workstation_id'', AString (ca_WorkstationID allocation)),
              (''product_id'', AString (ca_ProductID allocation))] p)
     else let p = stressStation wsIndex (ca_WorkstationID allocation) p;
              (advance, unitCost) = advanceAllocation hardCap allocation wsIndex (requests, budgetUsed, p);
              p = (if advance < ca_Capacity allocation
                   then appendEvent EventRuleAdjustment ActorPlantSystem
                     ''Trimmed production advance to available work or capacity''
                     [(''workstation_id'', AString (ca_WorkstationID allocation)),
                      (''product_id'', AString (ca_ProductID allocation)),
                      (''requested_capacity'', AInt (ca_Capacity allocation)),
                      (''accepted_capacity'', AInt advance),
                      (''effective_capacity'', AInt (ws_EffectiveCapacityPerRound (station p wsIndex)))] p
                   else p)
     in if advance \<le> 0 then (requests, budgetUsed, p)
     else let ((overtimeUsed, advancedCost), (requests, budgetUsed, p)) =
                workStation wsIndex allocation advance unitCost (requests, budgetUsed, p)
     in (requests, budgetUsed,
         routeWork wsIndex allocation advance (perUnitCost advancedCost advance) (0 < overtimeUsed) p))"

definition settleProduction :: "roundPhase \<Rightarrow> roundPhase" where
  "settleProduction p =
    (let spend = st_productionSpend (rp_stats p)
     in if 0 < spend
        then let p = addDisbursements spend (applyCashDelta (- spend) p)
          in appendEvent EventCashChanged ActorPlantSystem ''Production spending applied''
               ((''delta'', AInt (- spend)) # cashPayload p) p
        else p)"

definition resolveProduction :: "ActionSubmission option \<Rightarrow> roundPhase \<Rightarrow> roundPhase" where
  "resolveProduction action p =
    (case action of
       None \<Rightarrow> p
     | Some action \<Rightarrow>
        (case act_Production (as_Action action) of
           None \<Rightarrow> p
         | Some production \<Rightarrow>
             if pl_Workstations (plant p) = [] then p
             else let firstStation = ws_WorkstationID (pl_Workstations (plant p) ! 0);
                      requests = overtimeRequestsOf (pda_Overtime production);
                      p = foldl (releaseProduct firstStation) p (pda_Releases production);
                      hardCap = cappedBudget (bt_ProductionSpendBudget (ms_ActiveTargets (rp_state p)));
                      (requests, budgetUsed, p) = foldl (allocateCapacity hardCap) (requests, 0, p)
                        (pda_CapacityAllocation production)
                  in settleProduction p))"

section \<open>What the production steps keep\<close>

definition bomOk :: "ProductionBOMHook \<Rightarrow> bool" where
  "bomOk bom \<longleftrightarrow> (\<forall>ctx. \<forall>line \<in> set (pb_Parts (bom ctx)). 0 \<le> bl_Quantity line)"

lemma consume_cost_nonneg:
  "partsOk items \<Longrightarrow> \<forall>line \<in> set bom. 0 \<le> bl_Quantity line \<Longrightarrow> 0 \<le> n \<Longrightarrow>
   0 \<le> snd (consumePartInventory items bom n)"
proof (induction bom arbitrary: items)
  case (Cons line bom)
  let ?q = "bl_Quantity line * n"
  have "0 \<le> snd (takePartInventory items (bl_PartID line) ?q)"
    using Cons.prems by (intro takePart_cost_nonneg) simp_all
  moreover have "0 \<le> snd (consumePartInventory (fst (takePartInventory items (bl_PartID line) ?q)) bom n)"
    using Cons.prems by (intro Cons.IH parts.ok_draw) simp_all
  ultimately show ?case by (simp add: split_beta Let_def)
qed simp

text \<open>All units of product the plant holds, and those it has scrapped this round.\<close>

definition plantUnits :: "PlantState \<Rightarrow> Units" where
  "plantUnits s = sum_of wi_Quantity (pl_WIPInventory s) + sum_of fi_OnHandQty (pl_FinishedInventory s)
     + sum_of ih_Quantity (pl_InspectionHolds s)"

definition mass :: "roundPhase \<Rightarrow> Units" where
  "mass p = plantUnits (plant p) + st_scrapUnits (rp_stats p)"

lemma wip_add:
  "0 \<le> q \<Longrightarrow> sum_of wi_Quantity (addWIPInventory items a w q c) = sum_of wi_Quantity items + q"
  using wip.total_put [of q items "(a, w)" c] by simp

lemma wip_add_ok: "wipOk items \<Longrightarrow> 0 \<le> c \<Longrightarrow> wipOk (addWIPInventory items a w q c)"
  using wip.ok_put [of items c "(a, w)" q] by simp

lemma wip_take:
  assumes "wipOk items" "0 \<le> q" "q \<le> wipQuantity items a w"
  shows "sum_of wi_Quantity (fst (takeWIPInventory items a w q)) = sum_of wi_Quantity items - q"
  using wip.total_draw [of items q "(a, w)"] assms by simp

lemma wip_take_ok: "wipOk items \<Longrightarrow> wipOk (fst (takeWIPInventory items a w q))"
  using wip.ok_draw [of items "(a, w)" q] by simp

lemma mass_keeps [phase_simps]:
  "mass (appendEvent t a s pl p) = mass p" "mass (p\<lparr>rp_random := r\<rparr>) = mass p"
  "mass (p\<lparr>rp_stressedStations := x\<rparr>) = mass p"
  by (simp_all add: mass_def phase_simps)

lemma batch_mass:
  "0 \<le> n \<Longrightarrow> mass (scrapUnits a b n p) = mass p + n"
  "0 \<le> n \<Longrightarrow> mass (reworkUnits a b n c p) = mass p + n"
  "0 \<le> n \<Longrightarrow> mass (holdUnits a b n c r p) = mass p + n"
  "0 \<le> n \<Longrightarrow> mass (goodUnits a b n c p) = mass p + n"
  by (auto simp: scrapUnits_def reworkUnits_def holdUnits_def goodUnits_def Let_def
      mass_def plantUnits_def phase_simps wip_add addHold_units finished.total_put)

lemma completeFinishedUnits_mass:
  assumes "0 \<le> quantity"
  shows "mass (completeFinishedUnits a b quantity c overtime p) = mass p + quantity"
proof (cases "0 < quantity")
  case True
  then obtain random s r h rounds where b: "0 \<le> s" "0 \<le> r" "0 \<le> h" "s + r + h \<le> quantity"
    and eq: "completeFinishedUnits a b quantity c overtime p =
       goodUnits a b (quantity - s - r - h) c
         (holdUnits a b h c rounds (reworkUnits a b r c (scrapUnits a b s (p\<lparr>rp_random := random\<rparr>))))"
    by (rule completeFinishedUnits_cases)
  have "0 \<le> quantity - s - r - h" using b by linarith
  with b show ?thesis by (simp add: eq batch_mass mass_keeps)
qed (use assms in \<open>simp add: completeFinishedUnits_def\<close>)

subsection \<open>Releases\<close>

lemma startWork_ext [inv_intros]: "phase_ext p q \<Longrightarrow> phase_ext p (startWork w a bom n q)"
  by (auto simp: startWork_def split: prod.split intro!: inv_intros)

lemma startWork_ok:
  assumes "phaseOk p" "\<forall>line \<in> set bom. 0 \<le> bl_Quantity line" "0 \<le> n"
  shows "phaseOk (startWork w a bom n p)"
proof -
  obtain items cost where c: "consumePartInventory (pl_PartsInventory (plant p)) bom n = (items, cost)"
    by fastforce
  have parts: "partsOk (pl_PartsInventory (plant p))" using assms(1) by (simp add: plantOkD phaseOk_plant)
  have "partsOk items" "0 \<le> cost"
    using consume_ok [OF parts, of bom n] consume_cost_nonneg [OF parts assms(2,3)] by (simp_all add: c)
  with assms(1) c show ?thesis
    by (auto simp: startWork_def plantOkD intro!: ok_intros wip_add_ok perUnitCost_nonneg)
qed

lemma startWork_mass: "0 \<le> n \<Longrightarrow> mass (startWork w a bom n p) = mass p + n"
  by (simp add: startWork_def mass_def plantUnits_def phase_simps wip_add split: prod.split)

lemma releaseQuantity_bounds:
  "releaseQuantity items bom q \<le> q"
  "bom \<noteq> [] \<Longrightarrow> releaseQuantity items bom q = min q (maxBuildableQuantity items bom)"
  by (simp_all add: releaseQuantity_def)

lemma releaseProduct_ext [inv_intros]: "phase_ext p q \<Longrightarrow> phase_ext p (releaseProduct w q release)"
  by (auto simp: releaseProduct_def Let_def intro!: inv_intros)

lemma releaseProduct_ok:
  assumes "phaseOk p" "bomOk (rp_productionBOM p)"
  shows "phaseOk (releaseProduct w p release)"
proof -
  have "phaseOk (startWork w a (pb_Parts (rp_productionBOM p ctx)) n q)"
    if "phaseOk q" "0 < n" for ctx n q a
    using that assms(2) by (intro startWork_ok) (auto simp: bomOk_def)
  with assms(1) show ?thesis
    by (auto simp: releaseProduct_def Let_def not_le intro!: ok_intros)
qed

lemma releaseProduct_mass:
  "mass p \<le> mass (releaseProduct w p release)"
  "mass (releaseProduct w p release) \<le> mass p + max 0 (pr_Quantity release)"
  using releaseQuantity_bounds(1)
  by (auto simp: releaseProduct_def Let_def startWork_mass mass_keeps)

lemma releases_ext [inv_intros]: "phase_ext p q \<Longrightarrow> phase_ext p (foldl (releaseProduct w) q releases)"
  by (induction releases arbitrary: q) (simp_all add: releaseProduct_ext)

lemma releases_keep:
  "phaseOk p \<Longrightarrow> bomOk (rp_productionBOM p) \<Longrightarrow>
   phaseOk (foldl (releaseProduct w) p releases)
   \<and> mass p \<le> mass (foldl (releaseProduct w) p releases)
   \<and> mass (foldl (releaseProduct w) p releases) \<le> mass p + sum_of (\<lambda>r. max 0 (pr_Quantity r)) releases"
proof (induction releases arbitrary: p)
  case (Cons r rs)
  let ?q = "releaseProduct w p r"
  have "phase_ext p ?q" by (intro inv_intros phase_ext_refl)
  then have "bomOk (rp_productionBOM ?q)" using Cons.prems(2) by (simp add: phase_extD(5))
  then show ?case
    using Cons.IH [of ?q] releaseProduct_ok [OF Cons.prems, where w = w and release = r]
      releaseProduct_mass [where p = p and w = w and release = r]
    by simp
qed simp

subsection \<open>Allocations\<close>

text \<open>
  What one station has used: no more than its capacity, split into base labor within the
  station's labor and overtime.
\<close>

definition usageOk :: "WorkstationState \<Rightarrow> bool" where
  "usageOk ws \<longleftrightarrow>
     0 \<le> ws_CapacityUsed ws \<and> ws_CapacityUsed ws \<le> max 0 (ws_CapacityPerRound ws)
     \<and> ws_LaborUsed ws + ws_OvertimeUsed ws = ws_CapacityUsed ws
     \<and> ws_LaborUsed ws \<le> max 0 (effectiveLaborCapacity ws)
     \<and> 0 \<le> ws_OvertimeUsed ws \<and> 0 \<le> ws_OvertimeCostPerCapacityUnit ws"

definition stationsOk :: "PlantState \<Rightarrow> bool" where
  "stationsOk s \<longleftrightarrow> (\<forall>ws \<in> set (pl_Workstations s). usageOk ws)"

lemma reset_usageOk:
  "\<forall>ws \<in> set items. 0 \<le> ws_OvertimeCostPerCapacityUnit ws \<Longrightarrow>
   \<forall>ws \<in> set (resetCapacityUsage items). usageOk ws"
  by (auto simp: resetCapacityUsage_def usageOk_def effectiveLaborCapacity_def)

lemma upd_station_sels [phase_simps]:
  "rp_stats (upd_station i f p) = rp_stats p" "rp_random (upd_station i f p) = rp_random p"
  "pl_WIPInventory (plant (upd_station i f p)) = pl_WIPInventory (plant p)"
  "pl_Workstations (plant (upd_station i f p)) =
     (pl_Workstations (plant p))[nat i := f (pl_Workstations (plant p) ! nat i)]"
  "rp_stressedStations (upd_station i f p) = rp_stressedStations p"
  "rp_currentRound (upd_station i f p) = rp_currentRound p"
  "mass (upd_station i f p) = mass p"
  by (simp_all add: upd_station_def phase_simps mass_def plantUnits_def)

lemma upd_station_ext [inv_intros]: "phase_ext p q \<Longrightarrow> phase_ext p (upd_station i f q)"
  unfolding upd_station_def by (auto intro!: inv_intros)

lemma upd_station_ok [ok_intros]: "phaseOk p \<Longrightarrow> phaseOk (upd_station i f p)"
  unfolding upd_station_def by (intro ok_intros)

lemma ext_stress [inv_intros]: "phase_ext p q \<Longrightarrow> phase_ext p (stressStation i w q)"
  by (auto simp: stressStation_def Let_def split: prod.split intro!: inv_intros)

lemma ok_stressed: "phaseOk p \<Longrightarrow> phaseOk (p\<lparr>rp_stressedStations := x\<rparr>)"
  by simp

lemma stress_ok [ok_intros]: "phaseOk p \<Longrightarrow> phaseOk (stressStation i w p)"
  by (auto simp: stressStation_def Let_def split: prod.split intro!: ok_intros)

lemma stress_sels [phase_simps]:
  "rp_stats (stressStation i w p) = rp_stats p"
  "mass (stressStation i w p) = mass p"
  "pl_WIPInventory (plant (stressStation i w p)) = pl_WIPInventory (plant p)"
  "pl_Workstations (plant (stressStation i w p)) = (pl_Workstations (plant p))[nat i :=
     (station p i)\<lparr>ws_EffectiveCapacityPerRound := fst (stressedCapacity (station p i)
         (wipUnitsAtWorkstation (pl_WIPInventory (plant p)) w)),
       ws_StressCapacityLoss := snd (stressedCapacity (station p i)
         (wipUnitsAtWorkstation (pl_WIPInventory (plant p)) w))\<rparr>]"
  by (simp_all add: stressStation_def Let_def phase_simps split: prod.split)

lemma stations_keep [phase_simps]:
  "pl_Workstations (plant (scrapUnits a b n p)) = pl_Workstations (plant p)"
  "pl_Workstations (plant (reworkUnits a b n c p)) = pl_Workstations (plant p)"
  "pl_Workstations (plant (holdUnits a b n c r p)) = pl_Workstations (plant p)"
  "pl_Workstations (plant (goodUnits a b n c p)) = pl_Workstations (plant p)"
  "st_productionSpend (rp_stats (scrapUnits a b n p)) = st_productionSpend (rp_stats p)"
  "st_productionSpend (rp_stats (reworkUnits a b n c p)) = st_productionSpend (rp_stats p)"
  "st_productionSpend (rp_stats (holdUnits a b n c r p)) = st_productionSpend (rp_stats p)"
  "st_productionSpend (rp_stats (goodUnits a b n c p)) = st_productionSpend (rp_stats p)"
  by (simp_all add: scrapUnits_def reworkUnits_def holdUnits_def goodUnits_def Let_def phase_simps)

lemma complete_keeps [phase_simps]:
  "pl_Workstations (plant (completeFinishedUnits a b n c ot p)) = pl_Workstations (plant p)"
  "st_productionSpend (rp_stats (completeFinishedUnits a b n c ot p)) = st_productionSpend (rp_stats p)"
  by (simp_all add: completeFinishedUnits_def Let_def phase_simps split: prod.split)

lemma release_keeps [phase_simps]:
  "pl_Workstations (plant (releaseProduct w p r)) = pl_Workstations (plant p)"
  "st_productionSpend (rp_stats (releaseProduct w p r)) = st_productionSpend (rp_stats p)"
  by (simp_all add: releaseProduct_def startWork_def Let_def phase_simps split: prod.split)

lemma route_keeps [phase_simps]:
  "pl_Workstations (plant (routeWork i a n c ot p)) = pl_Workstations (plant p)"
  "st_productionSpend (rp_stats (routeWork i a n c ot p)) = st_productionSpend (rp_stats p)"
  by (simp_all add: routeWork_def Let_def phase_simps)

lemma routeWork_ext [inv_intros]: "phase_ext p q \<Longrightarrow> phase_ext p (routeWork i a n c ot q)"
  by (auto simp: routeWork_def Let_def intro!: inv_intros)

lemma routeWork_ok [ok_intros]: "phaseOk p \<Longrightarrow> 0 \<le> c \<Longrightarrow> phaseOk (routeWork i a n c ot p)"
  by (auto simp: routeWork_def Let_def plantOkD intro!: ok_intros wip_add_ok)

lemma routeWork_mass: "0 \<le> n \<Longrightarrow> mass (routeWork i a n c ot p) = mass p + n"
  by (simp add: routeWork_def Let_def completeFinishedUnits_mass mass_keeps)
    (simp add: mass_def plantUnits_def phase_simps wip_add)

lemma advanceLoop_all:
  assumes "advanceLoop cost available [a + 1..m] a = n" "1 \<le> k" "k \<le> n" "0 \<le> a"
    "\<And>k. 1 \<le> k \<Longrightarrow> k \<le> a \<Longrightarrow> cost k \<le> available"
  shows "cost k \<le> available"
  using assms
proof (induction "nat (m - a)" arbitrary: a)
  case 0
  then show ?case by simp
next
  case (Suc x)
  then have list: "[a + 1..m] = (a + 1) # [(a + 1) + 1..m]" by (intro upto_rec1) simp
  show ?case
  proof (cases "available < cost (a + 1)")
    case True
    with Suc.prems show ?thesis by (simp add: list)
  next
    case False
    have "x = nat (m - (a + 1))" using Suc.hyps(2) by simp
    moreover have "advanceLoop cost available [(a + 1) + 1..m] (a + 1) = n"
      using Suc.prems(1) False by (simp add: list)
    moreover have "cost k \<le> available" if "1 \<le> k" "k \<le> a + 1" for k
      using that False Suc.prems(5) [of k] by (cases "k = a + 1") auto
    ultimately show ?thesis using Suc.hyps(1) [of "a + 1"] Suc.prems(2-4) by simp
  qed
qed

lemma affordable_all:
  assumes "1 \<le> k" "k \<le> affordableProductionAdvance m b ot c oc available"
  shows "advanceCost b ot c oc k \<le> available"
proof -
  have "\<not> (m \<le> 0 \<or> available \<le> 0)" using assms by (auto simp: affordableProductionAdvance_def)
  then have "advanceLoop (advanceCost b ot c oc) available [0 + 1..m] 0 =
      affordableProductionAdvance m b ot c oc available"
    by (simp add: affordableProductionAdvance_def)
  from advanceLoop_all [OF this assms] show ?thesis by simp
qed

lemma budgetedAdvance_bounds:
  fixes cap used credit ot c n :: int and ws :: WorkstationState
  defines "m \<equiv> budgetedAdvance cap used credit ws ot c n"
  shows "0 \<le> m" "m \<le> max 0 n"
    "0 < m \<Longrightarrow> advanceCost (availableBaseLaborCapacity ws) ot c (ws_OvertimeCostPerCapacityUnit ws) m \<le> credit"
    "0 < m \<Longrightarrow> 0 < cap \<Longrightarrow>
     used + advanceCost (availableBaseLaborCapacity ws) ot c (ws_OvertimeCostPerCapacityUnit ws) m \<le> cap"
proof -
  let ?b = "availableBaseLaborCapacity ws" and ?oc = "ws_OvertimeCostPerCapacityUnit ws"
  define k where "k = (if 0 < cap then if cap - used \<le> 0 then 0
      else affordableProductionAdvance n ?b ot c ?oc (cap - used) else n)"
  have m: "m = affordableProductionAdvance k ?b ot c ?oc credit"
    unfolding m_def budgetedAdvance_def Let_def k_def ..
  have k: "k \<le> max 0 n"
    using affordableProductionAdvance_range [of n ?b ot c ?oc "cap - used"] by (simp add: k_def)
  have mk: "0 \<le> m" "m \<le> max 0 k"
    using affordableProductionAdvance_range [of k ?b ot c ?oc credit] by (simp_all add: m)
  then show "0 \<le> m" "m \<le> max 0 n" using k by simp_all
  show "0 < m \<Longrightarrow> advanceCost ?b ot c ?oc m \<le> credit"
    using affordable_all [of m k ?b ot c ?oc credit] by (simp add: m)
  show "used + advanceCost ?b ot c ?oc m \<le> cap" if "0 < m" "0 < cap"
  proof -
    have "m \<le> affordableProductionAdvance n ?b ot c ?oc (cap - used)"
      using mk that by (simp add: k_def max_def split: if_splits)
    then have "advanceCost ?b ot c ?oc m \<le> cap - used" using that by (intro affordable_all) simp_all
    then show ?thesis by simp
  qed
qed

lemma consumeLaborCapacity_sels:
  assumes "consumeLaborCapacity ws n ot = (used, ws')"
  shows "ws_OvertimeCostPerCapacityUnit ws' = ws_OvertimeCostPerCapacityUnit ws"
    "ws_CapacityUsed ws' = ws_CapacityUsed ws" "ws_CapacityPerRound ws' = ws_CapacityPerRound ws"
    "effectiveLaborCapacity ws' = effectiveLaborCapacity ws"
    "ws_WorkstationID ws' = ws_WorkstationID ws"
  using assms by (auto simp: consumeLaborCapacity_def Let_def effectiveLaborCapacity_def)

lemma labor_update:
  "effectiveLaborCapacity (ws\<lparr>ws_EffectiveCapacityPerRound := c, ws_StressCapacityLoss := l\<rparr>) = effectiveLaborCapacity ws"
  "effectiveLaborCapacity (ws\<lparr>ws_CapacityUsed := u\<rparr>) = effectiveLaborCapacity ws"
  by (simp_all add: effectiveLaborCapacity_def)

lemma usageOk_used:
  "usageOk (ws\<lparr>ws_CapacityUsed := u\<rparr>) \<longleftrightarrow>
     0 \<le> u \<and> u \<le> max 0 (ws_CapacityPerRound ws) \<and> ws_LaborUsed ws + ws_OvertimeUsed ws = u
     \<and> ws_LaborUsed ws \<le> max 0 (effectiveLaborCapacity ws)
     \<and> 0 \<le> ws_OvertimeUsed ws \<and> 0 \<le> ws_OvertimeCostPerCapacityUnit ws"
  by (simp add: usageOk_def labor_update)

lemma ext_if: "(c \<Longrightarrow> phase_ext p q) \<Longrightarrow> (\<not> c \<Longrightarrow> phase_ext p r) \<Longrightarrow> phase_ext p (if c then q else r)"
  by simp

lemma workStation_spec:
  assumes work: "workStation i a n c (r, b, p) = ((ot, cost), (r', b', q))"
    and ok: "phaseOk p" and n: "0 < n" "n \<le> wipQuantity (pl_WIPInventory (plant p)) (ca_ProductID a) (ca_WorkstationID a)"
    and i: "nat i < length (pl_Workstations (plant p))"
    and labor: "n \<le> availableLaborCapacity (station p i) (r (ca_WorkstationID a))"
    and use: "usageOk (station p i)" "ws_CapacityUsed (station p i) + n \<le> max 0 (ws_CapacityPerRound (station p i))"
  shows "phase_ext p q" "phaseOk q" "mass q = mass p - n" "0 \<le> cost"
    "\<exists>ws. usageOk ws \<and> pl_Workstations (plant q) = (pl_Workstations (plant p))[nat i := ws]"
    "b' = b + advanceCost (availableBaseLaborCapacity (station p i)) (r (ca_WorkstationID a)) c
        (ws_OvertimeCostPerCapacityUnit (station p i)) n"
    "st_productionSpend (rp_stats q) = st_productionSpend (rp_stats p) + spendForQuantity n c"
    "rp_stressedStations q = rp_stressedStations p"
proof -
  let ?w = "ca_WorkstationID a" and ?ws = "station p i"
  obtain items cost' where take: "takeWIPInventory (pl_WIPInventory (plant p)) (ca_ProductID a) ?w n = (items, cost')"
    by fastforce
  obtain ot' ws where consume: "consumeLaborCapacity ?ws n (r ?w) = (ot', ws)" by fastforce
  have wip: "wipOk (pl_WIPInventory (plant p))" using ok by (simp add: plantOkD phaseOk_plant)
  have items: "wipOk items" "0 \<le> cost'" "sum_of wi_Quantity items = sum_of wi_Quantity (pl_WIPInventory (plant p)) - n"
    using wip_take_ok [OF wip, of "ca_ProductID a" ?w n] takeWIP_cost_nonneg [OF wip, of n "ca_ProductID a" ?w]
      wip_take [OF wip _ n(2)] n(1) by (simp_all add: take)
  note used = consumeLaborCapacity_sum [OF consume less_imp_le [OF n(1)] labor]
  note keep = consumeLaborCapacity_sels [OF consume]
  define p3 where "p3 = upd_stats (\<lambda>s. s\<lparr>st_productionSpend := st_productionSpend s + spendForQuantity n c\<rparr>)
    (upd_station i (\<lambda>ws. ws\<lparr>ws_CapacityUsed := ws_CapacityUsed ws + n\<rparr>)
      (upd_station i (\<lambda>_. ws) (upd_plant (\<lambda>s. s\<lparr>pl_WIPInventory := items\<rparr>) p)))"
  have st: "pl_Workstations (plant p3) =
      (pl_Workstations (plant p))[nat i := ws\<lparr>ws_CapacityUsed := ws_CapacityUsed ?ws + n\<rparr>]"
    using i by (simp add: p3_def phase_simps keep)
  have ext3: "phase_ext p p3" unfolding p3_def by (auto intro!: inv_intros)
  have ok3: "phaseOk p3" unfolding p3_def using ok items(1) by (intro ok_intros)
  have mass3: "mass p3 = mass p - n" using items(3) by (simp add: p3_def mass_def plantUnits_def upd_station_def phase_simps)
  define q' where "q' = (if 0 < ot' then appendEvent EventOvertimeApplied ActorPlantSystem
      (''Applied '' @ itoa ot' @ '' overtime unit(s) at '' @ ?w)
      [(''workstation_id'', AString ?w), (''overtime_used'', AInt ot')]
      (upd_stats (\<lambda>s. s\<lparr>st_overtimeUnits := st_overtimeUnits s + ot'\<rparr>) p3) else p3)"
  have eq: "q = q'" "cost = cost'" "b' = b + (spendForQuantity n c + spendForQuantity ot' (ws_OvertimeCostPerCapacityUnit ?ws))"
    using work i by (auto simp: workStation_def take consume phase_simps keep q'_def p3_def Let_def
        split: if_splits)
  show "phase_ext p q" using ext3 by (auto simp: eq(1) q'_def intro!: inv_intros)
  show "phaseOk q" using ok3 by (simp add: eq(1) q'_def)
  show "mass q = mass p - n" using mass3 by (simp add: eq(1) q'_def mass_def phase_simps)
  show "0 \<le> cost" using items(2) eq(2) by simp
  show "b' = b + advanceCost (availableBaseLaborCapacity ?ws) (r ?w) c (ws_OvertimeCostPerCapacityUnit ?ws) n"
    using used(2) n(1) by (simp add: eq(3) advanceCost_def Let_def)
  show "st_productionSpend (rp_stats q) = st_productionSpend (rp_stats p) + spendForQuantity n c"
    by (simp add: eq(1) q'_def p3_def phase_simps)
  show "rp_stressedStations q = rp_stressedStations p"
    by (simp add: eq(1) q'_def p3_def phase_simps)
  have "ws_LaborUsed ?ws \<le> max 0 (effectiveLaborCapacity ?ws)"
    using use(1) unfolding usageOk_def by blast
  from order_trans [OF used(4) max.boundedI [OF this max.cobounded2]]
  have "ws_LaborUsed ws \<le> max 0 (effectiveLaborCapacity ?ws)" .
  moreover have old: "0 \<le> ws_CapacityUsed ?ws" "0 \<le> ws_OvertimeUsed ?ws"
    "ws_LaborUsed ?ws + ws_OvertimeUsed ?ws = ws_CapacityUsed ?ws" "0 \<le> ws_OvertimeCostPerCapacityUnit ?ws"
    using use(1) by (simp_all add: usageOk_def)
  moreover have "0 \<le> ws_CapacityUsed ?ws + n" using old(1) n(1) by linarith
  moreover have "ws_LaborUsed ws + ws_OvertimeUsed ws = ws_CapacityUsed ?ws + n"
    using used(3) old(3) by linarith
  moreover have "0 \<le> ws_OvertimeUsed ws" using used(1,6) old(2) by linarith
  ultimately have u: "usageOk (ws\<lparr>ws_CapacityUsed := ws_CapacityUsed ?ws + n\<rparr>)"
    unfolding usageOk_used keep using use(2) by blast
  have "pl_Workstations (plant q) = pl_Workstations (plant p3)"
    by (simp add: eq(1) q'_def phase_simps)
  then show "\<exists>ws. usageOk ws \<and> pl_Workstations (plant q) = (pl_Workstations (plant p))[nat i := ws]"
    unfolding st using u by (intro exI conjI)
qed

text \<open>The invariant of the allocation loop, and what one allocation adds to it.\<close>

definition allocationInv :: "Money \<Rightarrow> allocationState \<Rightarrow> bool" where
  "allocationInv hardCap = (\<lambda>(requests, used, p).
     phaseOk p \<and> stationsOk (plant p)
     \<and> st_productionSpend (rp_stats p) \<le> used \<and> (0 < hardCap \<longrightarrow> used \<le> hardCap))"

lemma stationsOk_update:
  "stationsOk s \<Longrightarrow> usageOk ws \<Longrightarrow> pl_Workstations t = (pl_Workstations s)[i := ws] \<Longrightarrow> stationsOk t"
  using set_update_subset_insert [of "pl_Workstations s" i ws] by (auto simp: stationsOk_def)

lemma stress_station:
  assumes "stationsOk (plant p)" and i: "nat i < length (pl_Workstations (plant p))"
  shows "stationsOk (plant (stressStation i w p))"
    "ws_EffectiveCapacityPerRound (station (stressStation i w p) i) \<le> max 0 (ws_CapacityPerRound (station (stressStation i w p) i))"
    "usageOk (station (stressStation i w p) i)"
proof -
  let ?ws = "station p i"
  obtain c l where cl: "stressedCapacity ?ws (wipUnitsAtWorkstation (pl_WIPInventory (plant p)) w) = (c, l)"
    by fastforce
  have "usageOk ?ws" using assms by (simp add: stationsOk_def)
  then have ok: "usageOk (?ws\<lparr>ws_EffectiveCapacityPerRound := c, ws_StressCapacityLoss := l\<rparr>)"
    by (simp add: usageOk_def labor_update)
  have st: "pl_Workstations (plant (stressStation i w p)) =
      (pl_Workstations (plant p))[nat i := ?ws\<lparr>ws_EffectiveCapacityPerRound := c, ws_StressCapacityLoss := l\<rparr>]"
    by (simp add: stress_sels cl)
  show "stationsOk (plant (stressStation i w p))" by (rule stationsOk_update [OF assms(1) ok st])
  show "ws_EffectiveCapacityPerRound (station (stressStation i w p) i) \<le> max 0 (ws_CapacityPerRound (station (stressStation i w p) i))"
    "usageOk (station (stressStation i w p) i)"
    using stressedCapacity_bounds(2) [OF cl] ok i by (simp_all add: st)
qed

lemma physicalAdvance_le:
  "physicalAdvance a ws wip ot \<le> ca_Capacity a"
  "physicalAdvance a ws wip ot \<le> ws_EffectiveCapacityPerRound ws - ws_CapacityUsed ws"
  "physicalAdvance a ws wip ot \<le> wipQuantity wip (ca_ProductID a) (ca_WorkstationID a)"
  "physicalAdvance a ws wip ot \<le> availableLaborCapacity ws ot"
  by (simp_all add: physicalAdvance_def Let_def)

lemma productionUnitCost_pos: "0 < productionUnitCost p a n"
  by (simp add: productionUnitCost_def Let_def)

lemma advanceCost_split:
  "0 \<le> oc \<Longrightarrow> spendForQuantity n c \<le> advanceCost b ot c oc n"
  by (auto simp: advanceCost_def Let_def spendForQuantity_def projectedOvertimeUnits_def)

lemma advanceAllocation_bounds:
  assumes "advanceAllocation cap a i (r, b, p) = (n, c)" "0 < n"
  shows "n \<le> physicalAdvance a (station p i) (pl_WIPInventory (plant p)) (r (ca_WorkstationID a))"
    "0 < c"
    "advanceCost (availableBaseLaborCapacity (station p i)) (r (ca_WorkstationID a)) c
       (ws_OvertimeCostPerCapacityUnit (station p i)) n \<le> availableSpendCapacity (plant p)"
    "0 < cap \<Longrightarrow> b + advanceCost (availableBaseLaborCapacity (station p i)) (r (ca_WorkstationID a)) c
       (ws_OvertimeCostPerCapacityUnit (station p i)) n \<le> cap"
proof -
  let ?m = "physicalAdvance a (station p i) (pl_WIPInventory (plant p)) (r (ca_WorkstationID a))"
  have c: "c = productionUnitCost p a ?m"
    and n: "n = budgetedAdvance cap b (availableSpendCapacity (plant p)) (station p i) (r (ca_WorkstationID a)) c ?m"
    using assms(1) by (auto simp: advanceAllocation_def Let_def)
  show "0 < c" by (simp add: c productionUnitCost_pos)
  note bounds = budgetedAdvance_bounds [of cap b "availableSpendCapacity (plant p)" "station p i"
      "r (ca_WorkstationID a)" c ?m, folded n]
  show "n \<le> ?m" using bounds(2) assms(2) by simp
  show "advanceCost (availableBaseLaborCapacity (station p i)) (r (ca_WorkstationID a)) c
       (ws_OvertimeCostPerCapacityUnit (station p i)) n \<le> availableSpendCapacity (plant p)"
    by (rule bounds(3) [OF assms(2)])
  show "0 < cap \<Longrightarrow> b + advanceCost (availableBaseLaborCapacity (station p i)) (r (ca_WorkstationID a)) c
       (ws_OvertimeCostPerCapacityUnit (station p i)) n \<le> cap"
    by (rule bounds(4) [OF assms(2)])
qed

lemma allocateCapacity_keeps:
  assumes inv: "allocationInv cap (r, b, p)" and step: "allocateCapacity cap (r, b, p) a = (r', b', q)"
  shows "phase_ext p q \<and> allocationInv cap (r', b', q) \<and> mass q = mass p"
proof -
  let ?w = "ca_WorkstationID a"
  define i where "i = workstationIndex (pl_Workstations (plant p)) ?w"
  have ok: "phaseOk p" and st: "stationsOk (plant p)"
    and spend: "st_productionSpend (rp_stats p) \<le> b" and cap: "0 < cap \<longrightarrow> b \<le> cap"
    using inv by (simp_all add: allocationInv_def)
  consider "ca_Capacity a \<le> 0" | "0 < ca_Capacity a" "i < 0" | "0 < ca_Capacity a" "0 \<le> i" by linarith
  then show ?thesis
  proof cases
    case 1
    with step inv show ?thesis by (auto simp: allocateCapacity_def)
  next
    case 2
    with step inv show ?thesis
      by (auto simp: allocateCapacity_def i_def [symmetric] allocationInv_def phase_simps mass_keeps
          stationsOk_def intro!: inv_intros)
  next
    case 3
    define p1 where "p1 = stressStation i ?w p"
    obtain n c where n: "advanceAllocation cap a i (r, b, p1) = (n, c)" by fastforce
    define p2 where "p2 = (if n < ca_Capacity a
       then appendEvent EventRuleAdjustment ActorPlantSystem
         ''Trimmed production advance to available work or capacity''
         [(''workstation_id'', AString ?w), (''product_id'', AString (ca_ProductID a)),
          (''requested_capacity'', AInt (ca_Capacity a)), (''accepted_capacity'', AInt n),
          (''effective_capacity'', AInt (ws_EffectiveCapacityPerRound (station p1 i)))] p1
       else p1)"
    have i: "nat i < length (pl_Workstations (plant p))"
      using workstationIndex_found 3(2) unfolding i_def by blast
    note stress = stress_station [OF st i, of ?w, folded p1_def]
    have p2: "phase_ext p p2" "phaseOk p2" "plant p2 = plant p1" "rp_stats p2 = rp_stats p" "mass p2 = mass p"
      using ok by (auto simp: p2_def p1_def phase_simps mass_keeps intro!: inv_intros ok_intros)
    have eq: "(r', b', q) = (if n \<le> 0 then (r, b, p2)
        else let ((ot, cost), (r, b, p)) = workStation i a n c (r, b, p2)
          in (r, b, routeWork i a n (perUnitCost cost n) (0 < ot) p))"
      using step [symmetric] 3 n unfolding allocateCapacity_def prod.case Let_def i_def [symmetric] p2_def p1_def
      by (simp split del: if_split)
    show ?thesis
    proof (cases "n \<le> 0")
      case True
      with eq p2 spend cap stress(1) show ?thesis by (simp add: allocationInv_def)
    next
      case False
      obtain ot cost r2 b2 p3 where work: "workStation i a n c (r, b, p2) = ((ot, cost), (r2, b2, p3))"
        by (metis prod.exhaust)
      have len: "nat i < length (pl_Workstations (plant p2))" using i p2(3) by (simp add: p1_def stress_sels)
      note bounds = advanceAllocation_bounds [OF n] and phys = physicalAdvance_le [of a]
      have n0: "0 < n" using False by simp
      have wipn: "n \<le> wipQuantity (pl_WIPInventory (plant p2)) (ca_ProductID a) ?w"
        using order_trans [OF bounds(1) [OF n0] phys(3)] by (simp add: p2(3))
      have labor: "n \<le> availableLaborCapacity (station p2 i) (r ?w)"
        using order_trans [OF bounds(1) [OF n0] phys(4)] by (simp add: p2(3))
      have use: "usageOk (station p2 i)"
        "ws_CapacityUsed (station p2 i) + n \<le> max 0 (ws_CapacityPerRound (station p2 i))"
        using stress(2,3) order_trans [OF bounds(1) [OF n0] phys(2)] by (simp_all add: p2(3))
      note spec = workStation_spec [OF work p2(2) n0 wipn len labor use]
      have q: "r' = r2" "b' = b2" "q = routeWork i a n (perUnitCost cost n) (0 < ot) p3"
        using eq False work by simp_all
      have "phase_ext p q" unfolding q(3) using phase_ext_trans [OF p2(1) spec(1)] by (rule routeWork_ext)
      moreover have "mass q = mass p"
        using spec(3) p2(5) n0 by (simp add: q(3) routeWork_mass)
      moreover have "phaseOk q"
        unfolding q(3) using spec(2,4) by (intro routeWork_ok perUnitCost_nonneg)
      moreover have "stationsOk (plant q)"
      proof -
        from spec(5) obtain ws where ws: "usageOk ws" "pl_Workstations (plant p3) = (pl_Workstations (plant p2))[nat i := ws]"
          by blast
        have "stationsOk (plant p2)" using stress(1) by (simp add: p2(3))
        then show ?thesis by (rule stationsOk_update [OF _ ws(1)]) (simp add: q(3) phase_simps ws(2))
      qed
      moreover have "st_productionSpend (rp_stats q) \<le> b'"
        using spec(6,7) spend use(1) advanceCost_split [of "ws_OvertimeCostPerCapacityUnit (station p2 i)" n c
            "availableBaseLaborCapacity (station p2 i)" "r ?w"]
        by (simp add: q phase_simps p2(4) usageOk_def)
      moreover have "0 < cap \<longrightarrow> b' \<le> cap"
        using bounds(4) [OF n0] spec(6) by (simp add: q p2(3))
      ultimately show ?thesis by (simp add: allocationInv_def)
    qed
  qed
qed

lemma allocations_keep:
  "allocationInv cap (r, b, p) \<Longrightarrow> foldl (allocateCapacity cap) (r, b, p) as = (r', b', q) \<Longrightarrow>
   phase_ext p q \<and> allocationInv cap (r', b', q) \<and> mass q = mass p"
proof (induction as arbitrary: r b p)
  case (Cons a as)
  obtain r1 b1 p1 where step: "allocateCapacity cap (r, b, p) a = (r1, b1, p1)" by (metis prod.exhaust)
  from allocateCapacity_keeps [OF Cons.prems(1) step]
  have one: "phase_ext p p1" "allocationInv cap (r1, b1, p1)" "mass p1 = mass p" by simp_all
  from Cons.prems(2) step have "foldl (allocateCapacity cap) (r1, b1, p1) as = (r', b', q)" by simp
  from Cons.IH [OF one(2) this] one show ?case by (auto intro: phase_ext_trans)
qed simp

subsection \<open>The phase\<close>

lemma settleProduction_ext [inv_intros]: "phase_ext p q \<Longrightarrow> phase_ext p (settleProduction q)"
  by (auto simp: settleProduction_def Let_def intro!: inv_intros)

lemma settleProduction_ok [ok_intros]: "phaseOk p \<Longrightarrow> phaseOk (settleProduction p)"
  by (auto simp: settleProduction_def Let_def intro!: ok_intros)

lemma settleProduction_sels [phase_simps]:
  "pl_Workstations (plant (settleProduction p)) = pl_Workstations (plant p)"
  "st_productionSpend (rp_stats (settleProduction p)) = st_productionSpend (rp_stats p)"
  "mass (settleProduction p) = mass p"
  by (simp_all add: settleProduction_def Let_def phase_simps addDisbursements_def mass_def plantUnits_def)

lemma release_targets [phase_simps]:
  "ms_ActiveTargets (rp_state (releaseProduct w p r)) = ms_ActiveTargets (rp_state p)"
  by (simp add: releaseProduct_def startWork_def Let_def phase_simps split: prod.split)

lemma releases_sels [phase_simps]:
  "ms_ActiveTargets (rp_state (foldl (releaseProduct w) p rs)) = ms_ActiveTargets (rp_state p)"
  "pl_Workstations (plant (foldl (releaseProduct w) p rs)) = pl_Workstations (plant p)"
  "st_productionSpend (rp_stats (foldl (releaseProduct w) p rs)) = st_productionSpend (rp_stats p)"
  by (induction rs arbitrary: p) (simp_all add: release_keeps release_targets)

definition requestedReleases :: "ActionSubmission option \<Rightarrow> Units" where
  "requestedReleases action =
    (case action of None \<Rightarrow> 0 | Some a \<Rightarrow>
      (case act_Production (as_Action a) of None \<Rightarrow> 0 | Some production \<Rightarrow>
        sum_of (\<lambda>r. max 0 (pr_Quantity r)) (pda_Releases production)))"

lemma requestedReleases_nonneg: "0 \<le> requestedReleases action"
  by (auto simp: requestedReleases_def intro!: sum_of_nonneg split: option.split)

lemma resolveProduction_keeps:
  fixes action :: "ActionSubmission option"
  assumes "phaseOk p" "stationsOk (plant p)" "bomOk (rp_productionBOM p)"
    and "st_productionSpend (rp_stats p) = 0"
  defines "q \<equiv> resolveProduction action p"
    and "cap \<equiv> cappedBudget (bt_ProductionSpendBudget (ms_ActiveTargets (rp_state p)))"
  shows "phase_ext p q" "phaseOk q" "stationsOk (plant q)" "mass p \<le> mass q"
    "mass q \<le> mass p + requestedReleases action"
    "0 < cap \<Longrightarrow> st_productionSpend (rp_stats q) \<le> cap"
proof -
  have "phase_ext p q \<and> phaseOk q \<and> stationsOk (plant q) \<and> mass p \<le> mass q
    \<and> mass q \<le> mass p + requestedReleases action \<and> (0 < cap \<longrightarrow> st_productionSpend (rp_stats q) \<le> cap)"
  proof (cases "pl_Workstations (plant p) = [] \<or> (\<forall>a production. action = Some a \<longrightarrow>
      act_Production (as_Action a) \<noteq> Some production)")
    case True
    then have "q = p" by (auto simp: q_def resolveProduction_def split: option.split)
    with assms requestedReleases_nonneg [of action] show ?thesis by simp
  next
    case False
    then obtain a production where a: "action = Some a" "act_Production (as_Action a) = Some production"
      and ws: "pl_Workstations (plant p) \<noteq> []" by auto
    define w where "w = ws_WorkstationID (pl_Workstations (plant p) ! 0)"
    define p1 where "p1 = foldl (releaseProduct w) p (pda_Releases production)"
    have p1: "phase_ext p p1" "phaseOk p1" "mass p \<le> mass p1" "mass p1 \<le> mass p + requestedReleases action"
      "stationsOk (plant p1)" "st_productionSpend (rp_stats p1) = 0"
      using releases_keep [OF assms(1,3), of w "pda_Releases production"] assms(2,4)
        releases_ext [OF phase_ext_refl, of p w "pda_Releases production"]
      by (simp_all add: p1_def requestedReleases_def a stationsOk_def phase_simps)
    have cap: "cappedBudget (bt_ProductionSpendBudget (ms_ActiveTargets (rp_state p1))) = cap"
      by (simp add: p1_def phase_simps cap_def)
    obtain r b p2 where loop: "foldl (allocateCapacity cap)
        (overtimeRequestsOf (pda_Overtime production), 0, p1) (pda_CapacityAllocation production) = (r, b, p2)"
      by (metis prod.exhaust)
    have "allocationInv cap (overtimeRequestsOf (pda_Overtime production), 0, p1)"
      using p1 by (simp add: allocationInv_def)
    from allocations_keep [OF this loop]
    have p2: "phase_ext p1 p2" "mass p2 = mass p1" "phaseOk p2" "stationsOk (plant p2)"
      "st_productionSpend (rp_stats p2) \<le> b" "0 < cap \<longrightarrow> b \<le> cap"
      by (simp_all add: allocationInv_def)
    have "q = settleProduction p2"
      by (simp add: q_def resolveProduction_def a ws Let_def cap loop flip: w_def p1_def)
    then show ?thesis using p1 p2 phase_ext_trans [OF p1(1) p2(1)]
      by (auto simp: phase_simps stationsOk_def intro!: inv_intros ok_intros)
  qed
  then show "phase_ext p q" "phaseOk q" "stationsOk (plant q)" "mass p \<le> mass q"
    "mass q \<le> mass p + requestedReleases action"
    "0 < cap \<Longrightarrow> st_productionSpend (rp_stats q) \<le> cap" by auto
qed

subsection \<open>Cash during production\<close>

text \<open>Cash, debt and ceiling: what the credit of the plant is computed from.\<close>

definition cashPosition :: "PlantState \<Rightarrow> Money \<times> Money \<times> Money" where
  "cashPosition s = (pl_Cash s, pl_Debt s, pl_DebtCeiling s)"

lemma cashPosition_credit: "cashPosition s = cashPosition t \<Longrightarrow> availableSpendCapacity s = availableSpendCapacity t"
  by (simp add: cashPosition_def availableSpendCapacity_def)

lemma cashPosition_fields [simp]:
  "cashPosition (s\<lparr>pl_WIPInventory := a\<rparr>) = cashPosition s" "cashPosition (s\<lparr>pl_FinishedInventory := b\<rparr>) = cashPosition s"
  "cashPosition (s\<lparr>pl_InspectionHolds := c\<rparr>) = cashPosition s" "cashPosition (s\<lparr>pl_Workstations := d\<rparr>) = cashPosition s"
  by (simp_all add: cashPosition_def)

lemma cashPosition_station: "cashPosition (plant (upd_station i f p)) = cashPosition (plant p)"
  by (simp add: upd_station_def phase_simps)

lemma cashPosition_complete:
  "cashPosition (plant (completeFinishedUnits a b n c ot p)) = cashPosition (plant p)"
  by (simp add: completeFinishedUnits_def scrapUnits_def reworkUnits_def holdUnits_def goodUnits_def
      Let_def phase_simps split: prod.split)

lemma cashPosition_production:
  "cashPosition (plant (stressStation i w p)) = cashPosition (plant p)"
  "cashPosition (plant (routeWork i al n c ot p)) = cashPosition (plant p)"
  by (simp_all add: stressStation_def routeWork_def Let_def phase_simps cashPosition_station
      cashPosition_complete split: prod.split)

lemma cashPosition_work:
  "cashPosition (plant (snd (snd (snd (workStation i a n c acc))))) = cashPosition (plant (snd (snd acc)))"
  by (cases acc) (simp add: workStation_def Let_def phase_simps cashPosition_station split: prod.split)

lemma cashPosition_allocate:
  "cashPosition (plant (snd (snd (allocateCapacity cap acc a)))) = cashPosition (plant (snd (snd acc)))"
  by (cases acc) (simp add: allocateCapacity_def Let_def phase_simps cashPosition_production
      cashPosition_work case_prod_beta)

lemma cashPosition_allocations:
  "cashPosition (plant (snd (snd (foldl (allocateCapacity cap) acc as)))) = cashPosition (plant (snd (snd acc)))"
  by (induction as arbitrary: acc) (simp_all add: cashPosition_allocate)

end
