(* ===== verification/Sales.thy ===== *)
theory Sales
  imports Production
begin

text \<open>
  \<open>resolveSales\<close> in \<open>internal/engine/resolver.go\<close>: the backlog is served oldest first
  from the finished goods, each shipment books revenue and may schedule a return.
\<close>

section \<open>Definitions\<close>

definition priceByProduct :: "ActionSubmission option \<Rightarrow> ProductID \<Rightarrow> Money" where
  "priceByProduct action =
    (case action of
       None \<Rightarrow> (\<lambda>_. 0)
     | Some action \<Rightarrow>
        (case act_Sales (as_Action action) of
           None \<Rightarrow> (\<lambda>_. 0)
         | Some sales \<Rightarrow>
             foldl (\<lambda>prices offer.
                      if of_UnitPrice offer \<le> 0 then prices
                      else prices(of_ProductID offer := of_UnitPrice offer))
               (\<lambda>_. 0) (sa_ProductOffers sales)))"

definition backlogCompare :: "BacklogEntry \<Rightarrow> BacklogEntry \<Rightarrow> int" where
  "backlogCompare left right =
     cmp_or [compare_go (be_OriginRound left) (be_OriginRound right),
             compare_go (be_CustomerID left) (be_CustomerID right),
             compare_go (be_ProductID left) (be_ProductID right)]"

text \<open>The shipment of \<open>shipped\<close> units of an entry.\<close>

definition shipEntry :: "(ProductID \<Rightarrow> Money) \<Rightarrow> BacklogEntry \<Rightarrow> Units \<Rightarrow> roundPhase \<Rightarrow> roundPhase" where
  "shipEntry prices entry shipped p =
    (let unitCost = finishedUnitCost (pl_FinishedInventory (plant p)) (be_ProductID entry);
         p = upd_plant (\<lambda>s. s\<lparr>pl_FinishedInventory :=
               takeFinishedInventory (pl_FinishedInventory s) (be_ProductID entry) shipped\<rparr>) p;
         unitPrice = prices (be_ProductID entry);
         unitPrice = (if unitPrice \<le> 0 then 1 else unitPrice);
         revenue = shipped * unitPrice;
         p = upd_stats (\<lambda>s. s\<lparr>st_revenue := st_revenue s + revenue,
               st_shippedUnits := st_shippedUnits s + shipped\<rparr>) p;
         p = scheduleReceivable revenue
               (be_CustomerID entry @ ''-'' @ be_ProductID entry @ ''-r'' @ itoa (rp_currentRound p))
               (customerPaymentDelay p (be_CustomerID entry)) p;
         p = appendEvent EventShipmentCompleted ActorPlantSystem
               (''Shipped '' @ itoa shipped @ '' '' @ be_ProductID entry @ '' to '' @ be_CustomerID entry)
               [(''customer_id'', AString (be_CustomerID entry)),
                (''product_id'', AString (be_ProductID entry)),
                (''quantity'', AInt shipped),
                (''unit_price'', AInt unitPrice)] p
     in scheduleCustomerReturns (be_CustomerID entry) (be_ProductID entry) shipped unitCost p)"

definition serveEntry ::
  "(ProductID \<Rightarrow> Money) \<Rightarrow> BacklogEntry \<Rightarrow> roundPhase \<Rightarrow> BacklogEntry \<times> roundPhase" where
  "serveEntry prices entry p =
    (let onHand = finishedQuantity (pl_FinishedInventory (plant p)) (be_ProductID entry);
         shipped = minUnits [be_Quantity entry, onHand]
     in if 0 < shipped
        then (entry\<lparr>be_Quantity := be_Quantity entry - shipped\<rparr>, shipEntry prices entry shipped p)
        else (entry, p))"

fun salesLoop ::
  "(ProductID \<Rightarrow> Money) \<Rightarrow> BacklogEntry list \<Rightarrow> roundPhase \<Rightarrow> BacklogEntry list \<times> roundPhase" where
  "salesLoop prices [] p = ([], p)"
| "salesLoop prices (entry # entries) p =
    (let (entry, p) = serveEntry prices entry p;
         (remaining, p) = salesLoop prices entries p
     in (if 0 < be_Quantity entry then entry # remaining else remaining, p))"

definition resolveSales :: "ActionSubmission option \<Rightarrow> roundPhase \<Rightarrow> roundPhase" where
  "resolveSales action p =
    (let prices = priceByProduct action;
         backlog = effectiveBacklog (rp_state p)
     in if backlog = []
        then let p = syncCustomerBacklog [] p in upd_plant (\<lambda>s. s\<lparr>pl_Backlog := []\<rparr>) p
        else let backlog = sort_by backlogCompare backlog;
                 (remaining, p) = salesLoop prices backlog p;
                 p = upd_plant (\<lambda>s. s\<lparr>pl_Backlog := remaining\<rparr>) p
             in syncCustomerBacklog remaining p)"

section \<open>What the sales steps keep\<close>

interpretation backlog_order: weak_order backlogCompare
proof -
  have "weak_order (\<lambda>(x :: BacklogEntry) y. if compare_go (be_OriginRound x) (be_OriginRound y) \<noteq> 0
      then compare_go (be_OriginRound x) (be_OriginRound y)
      else if compare_go (be_CustomerID x) (be_CustomerID y) \<noteq> 0
      then compare_go (be_CustomerID x) (be_CustomerID y)
      else compare_go (be_ProductID x) (be_ProductID y))"
    by (intro weak_order_lex compare_key.weak_order_axioms)
  moreover have "backlogCompare = (\<lambda>x y. if compare_go (be_OriginRound x) (be_OriginRound y) \<noteq> 0
      then compare_go (be_OriginRound x) (be_OriginRound y)
      else if compare_go (be_CustomerID x) (be_CustomerID y) \<noteq> 0
      then compare_go (be_CustomerID x) (be_CustomerID y)
      else compare_go (be_ProductID x) (be_ProductID y))"
    by (intro ext) (simp add: backlogCompare_def)
  ultimately show "weak_order backlogCompare" by (simp only:)
qed

lemma priceByProduct_nonneg: "0 \<le> priceByProduct action k"
proof -
  have *: "(\<And>k. 0 \<le> f k) \<Longrightarrow> 0 \<le> foldl (\<lambda>prices offer. if of_UnitPrice offer \<le> 0 then prices
      else prices(of_ProductID offer := of_UnitPrice offer)) f offers k" for f offers
    by (induction offers arbitrary: f) auto
  show ?thesis by (auto simp: priceByProduct_def split: option.split intro!: *)
qed

lemma shipEntry_ext [inv_intros]: "phase_ext p q \<Longrightarrow> phase_ext p (shipEntry prices entry n q)"
  by (auto simp: shipEntry_def Let_def intro!: inv_intros)

lemma finishedUnitCost_nonneg: "finishedOk items \<Longrightarrow> 0 \<le> finishedUnitCost items k"
  by (simp add: finishedUnitCost_eq finished.costOf_nonneg)

lemma shipEntry_ok [ok_intros]: "phaseOk p \<Longrightarrow> phaseOk (shipEntry prices entry n p)"
  by (auto simp: shipEntry_def Let_def plantOkD phaseOk_plant
      intro!: ok_intros finished.ok_draw finishedUnitCost_nonneg)

lemma shipped_sels [phase_simps]:
  "plantUnits (plant (scheduleReceivable x y z p)) = plantUnits (plant p)"
  "plantUnits (plant (scheduleCustomerReturns a b n c p)) = plantUnits (plant p)"
  "pl_FinishedInventory (plant (scheduleReceivable x y z p)) = pl_FinishedInventory (plant p)"
  "pl_FinishedInventory (plant (scheduleCustomerReturns a b n c p)) = pl_FinishedInventory (plant p)"
  "st_shippedUnits (rp_stats (scheduleReceivable x y z p)) = st_shippedUnits (rp_stats p)"
  "st_shippedUnits (rp_stats (scheduleCustomerReturns a b n c p)) = st_shippedUnits (rp_stats p)"
  "st_scrapUnits (rp_stats (scheduleReceivable x y z p)) = st_scrapUnits (rp_stats p)"
  "st_scrapUnits (rp_stats (scheduleCustomerReturns a b n c p)) = st_scrapUnits (rp_stats p)"
  "st_revenue (rp_stats (scheduleReceivable x y z p)) = st_revenue (rp_stats p)"
  "st_revenue (rp_stats (scheduleCustomerReturns a b n c p)) = st_revenue (rp_stats p)"
  by (simp_all add: scheduleReceivable_def scheduleCustomerReturns_def Let_def phase_simps
      plantUnits_def addReceipts_def split: prod.split)

lemma shipEntry_counts:
  assumes "phaseOk p" "0 \<le> n" "n \<le> finishedQuantity (pl_FinishedInventory (plant p)) (be_ProductID entry)"
  shows "st_shippedUnits (rp_stats (shipEntry prices entry n p)) = st_shippedUnits (rp_stats p) + n"
    "mass (shipEntry prices entry n p) = mass p - n"
    "st_revenue (rp_stats (shipEntry prices entry n p)) = st_revenue (rp_stats p)
       + n * (if prices (be_ProductID entry) \<le> 0 then 1 else prices (be_ProductID entry))"
proof -
  have "finishedOk (pl_FinishedInventory (plant p))" using assms(1) by (simp add: plantOkD phaseOk_plant)
  from finished.total_draw [OF this assms(2,3)]
  show "mass (shipEntry prices entry n p) = mass p - n"
    by (simp add: shipEntry_def Let_def mass_def phase_simps) (simp add: plantUnits_def phase_simps)
qed (simp_all add: shipEntry_def Let_def phase_simps)

lemma serveEntry_spec:
  assumes "serveEntry prices entry p = (entry', q)" "phaseOk p" "0 < be_Quantity entry"
  shows "phase_ext p q" "phaseOk q" "0 \<le> be_Quantity entry'" "be_Quantity entry' \<le> be_Quantity entry"
    "entry' = entry\<lparr>be_Quantity := be_Quantity entry'\<rparr>"
    "st_shippedUnits (rp_stats q) + be_Quantity entry' = st_shippedUnits (rp_stats p) + be_Quantity entry"
    "mass q + st_shippedUnits (rp_stats q) = mass p + st_shippedUnits (rp_stats p)"
    "st_revenue (rp_stats p) + (be_Quantity entry - be_Quantity entry') \<le> st_revenue (rp_stats q)"
proof -
  define m where "m = min (be_Quantity entry) (finishedQuantity (pl_FinishedInventory (plant p)) (be_ProductID entry))"
  have res: "entry' = (if 0 < m then entry\<lparr>be_Quantity := be_Quantity entry - m\<rparr> else entry)"
    "q = (if 0 < m then shipEntry prices entry m p else p)"
    using assms(1) by (auto simp: serveEntry_def Let_def m_def split: if_splits)
  have m: "m \<le> be_Quantity entry"
    "m \<le> finishedQuantity (pl_FinishedInventory (plant p)) (be_ProductID entry)" by (simp_all add: m_def)
  show "phase_ext p q" "phaseOk q" using assms(2) by (auto simp: res(2) intro!: inv_intros ok_intros)
  show "0 \<le> be_Quantity entry'" "be_Quantity entry' \<le> be_Quantity entry"
    "entry' = entry\<lparr>be_Quantity := be_Quantity entry'\<rparr>"
    using m(1) assms(3) by (simp_all add: res(1))
  have counts: "0 < m \<Longrightarrow> st_shippedUnits (rp_stats q) = st_shippedUnits (rp_stats p) + m"
    "0 < m \<Longrightarrow> mass q = mass p - m"
    "0 < m \<Longrightarrow> st_revenue (rp_stats q) = st_revenue (rp_stats p)
       + m * (if prices (be_ProductID entry) \<le> 0 then 1 else prices (be_ProductID entry))"
    using shipEntry_counts [OF assms(2) _ m(2)] by (simp_all add: res(2))
  show "st_shippedUnits (rp_stats q) + be_Quantity entry' = st_shippedUnits (rp_stats p) + be_Quantity entry"
    "mass q + st_shippedUnits (rp_stats q) = mass p + st_shippedUnits (rp_stats p)"
    using counts(1,2) by (cases "0 < m"; simp add: res)+
  have "m \<le> m * x" if "0 < m" "0 < x" for x :: int
    using that by simp
  then show "st_revenue (rp_stats p) + (be_Quantity entry - be_Quantity entry') \<le> st_revenue (rp_stats q)"
    using counts(3) by (cases "0 < m") (simp_all add: res)
qed

text \<open>One pass over the backlog, summarised.\<close>

lemma salesLoop_spec:
  "salesLoop prices entries p = (remaining, q) \<Longrightarrow> phaseOk p \<Longrightarrow> backlogOk entries \<Longrightarrow>
   phase_ext p q \<and> phaseOk q \<and> backlogOk remaining
   \<and> st_shippedUnits (rp_stats q) + sum_of be_Quantity remaining
       = st_shippedUnits (rp_stats p) + sum_of be_Quantity entries
   \<and> mass q + st_shippedUnits (rp_stats q) = mass p + st_shippedUnits (rp_stats p)
   \<and> st_shippedUnits (rp_stats p) \<le> st_shippedUnits (rp_stats q)
   \<and> st_revenue (rp_stats p) + (st_shippedUnits (rp_stats q) - st_shippedUnits (rp_stats p))
       \<le> st_revenue (rp_stats q)"
proof (induction entries arbitrary: p remaining)
  case Nil
  then show ?case by simp
next
  case (Cons entry entries)
  obtain entry' p1 where serve: "serveEntry prices entry p = (entry', p1)" by fastforce
  obtain rest where loop: "salesLoop prices entries p1 = (rest, q)"
    and rem: "remaining = (if 0 < be_Quantity entry' then entry' # rest else rest)"
    using Cons.prems(1) by (auto simp: serve split: prod.splits)
  have "0 < be_Quantity entry" "backlogOk entries" using Cons.prems(3) by (simp_all add: backlogOk_def)
  note step = serveEntry_spec [OF serve Cons.prems(2) this(1)]
  note IH = Cons.IH [OF loop step(2) \<open>backlogOk entries\<close>]
  have "phase_ext p q" using phase_ext_trans step(1) IH by blast
  moreover have "backlogOk remaining" using IH by (simp add: rem backlogOk_def)
  moreover have "sum_of be_Quantity remaining = be_Quantity entry' + sum_of be_Quantity rest"
    using step(3) by (simp add: rem)
  ultimately show ?case using IH step(3,4,6,7,8) by simp
qed

lemma sync_sels [phase_simps]:
  "plant (syncCustomerBacklog b p) = plant p" "rp_stats (syncCustomerBacklog b p) = rp_stats p"
  "mass (syncCustomerBacklog b p) = mass p" "rp_currentRound (syncCustomerBacklog b p) = rp_currentRound p"
  by (simp_all add: syncCustomerBacklog_def phase_simps mass_def)

lemma backlogOk_sort: "backlogOk entries \<Longrightarrow> backlogOk (sort_by c entries)"
  by (simp add: backlogOk_def)

lemma resolveSales_spec:
  fixes action :: "ActionSubmission option"
  assumes "phaseOk p"
  defines "q \<equiv> resolveSales action p"
  shows "phase_ext p q" "phaseOk q"
    "st_shippedUnits (rp_stats q) + sum_of be_Quantity (pl_Backlog (plant q))
       = st_shippedUnits (rp_stats p) + sum_of be_Quantity (effectiveBacklog (rp_state p))"
    "mass q + st_shippedUnits (rp_stats q) = mass p + st_shippedUnits (rp_stats p)"
    "st_shippedUnits (rp_stats p) \<le> st_shippedUnits (rp_stats q)"
    "st_revenue (rp_stats p) + (st_shippedUnits (rp_stats q) - st_shippedUnits (rp_stats p))
       \<le> st_revenue (rp_stats q)"
proof -
  have "phase_ext p q \<and> phaseOk q \<and> st_shippedUnits (rp_stats q) + sum_of be_Quantity (pl_Backlog (plant q))
       = st_shippedUnits (rp_stats p) + sum_of be_Quantity (effectiveBacklog (rp_state p))
    \<and> mass q + st_shippedUnits (rp_stats q) = mass p + st_shippedUnits (rp_stats p)
    \<and> st_shippedUnits (rp_stats p) \<le> st_shippedUnits (rp_stats q)
    \<and> st_revenue (rp_stats p) + (st_shippedUnits (rp_stats q) - st_shippedUnits (rp_stats p))
       \<le> st_revenue (rp_stats q)"
  proof (cases "effectiveBacklog (rp_state p) = []")
    case True
    then have q: "q = upd_plant (\<lambda>s. s\<lparr>pl_Backlog := []\<rparr>) (syncCustomerBacklog [] p)"
      by (simp add: q_def resolveSales_def)
    have "phase_ext p q" unfolding q by (auto intro!: inv_intros)
    moreover have "phaseOk q" unfolding q using assms(1) by (intro ok_intros) (simp_all add: backlogOk_def)
    moreover have "mass q = mass p" by (simp add: q mass_def plantUnits_def phase_simps)
    ultimately show ?thesis by (simp add: q True phase_simps)
  next
    case False
    let ?sorted = "sort_by backlogCompare (effectiveBacklog (rp_state p))"
    obtain rem p1 where loop: "salesLoop (priceByProduct action) ?sorted p = (rem, p1)" by fastforce
    have q: "q = syncCustomerBacklog rem (upd_plant (\<lambda>s. s\<lparr>pl_Backlog := rem\<rparr>) p1)"
      using False loop by (simp add: q_def resolveSales_def Let_def)
    note spec = salesLoop_spec [OF loop assms(1) backlogOk_sort [OF effectiveBacklog_ok [OF assms(1)]]]
    have "phase_ext p q" unfolding q using spec by (auto intro!: inv_intros)
    moreover have "phaseOk q" unfolding q using spec by (intro ok_intros) simp_all
    moreover have "mass q = mass p1" by (simp add: q mass_def plantUnits_def phase_simps)
    moreover have "rp_stats q = rp_stats p1" "pl_Backlog (plant q) = rem" by (simp_all add: q phase_simps)
    ultimately show ?thesis using spec by simp
  qed
  then show "phase_ext p q" "phaseOk q"
    "st_shippedUnits (rp_stats q) + sum_of be_Quantity (pl_Backlog (plant q))
       = st_shippedUnits (rp_stats p) + sum_of be_Quantity (effectiveBacklog (rp_state p))"
    "mass q + st_shippedUnits (rp_stats q) = mass p + st_shippedUnits (rp_stats p)"
    "st_shippedUnits (rp_stats p) \<le> st_shippedUnits (rp_stats q)"
    "st_revenue (rp_stats p) + (st_shippedUnits (rp_stats q) - st_shippedUnits (rp_stats p))
       \<le> st_revenue (rp_stats q)" by simp_all
qed

section \<open>Stock and the entries that wait\<close>

lemma finishedQuantity_draw:
  "finishedOk items \<Longrightarrow> 0 \<le> n \<Longrightarrow> finishedQuantity (takeFinishedInventory items k n) j =
     (if j = k then max 0 (finishedQuantity items k - n) else finishedQuantity items j)"
  by (rule finished.qty_draw)

lemma shipEntry_stock:
  "pl_FinishedInventory (plant (shipEntry prices entry n p)) =
     takeFinishedInventory (pl_FinishedInventory (plant p)) (be_ProductID entry) n"
  by (simp add: shipEntry_def Let_def phase_simps)

lemma serveEntry_stock:
  assumes "serveEntry prices entry p = (entry', q)" "phaseOk p"
  shows "finishedQuantity (pl_FinishedInventory (plant q)) k \<le> finishedQuantity (pl_FinishedInventory (plant p)) k"
    "0 < be_Quantity entry' \<Longrightarrow> 0 < be_Quantity entry \<Longrightarrow>
      finishedQuantity (pl_FinishedInventory (plant q)) (be_ProductID entry) = 0"
proof -
  let ?s = "pl_FinishedInventory (plant p)"
  define m where "m = min (be_Quantity entry) (finishedQuantity ?s (be_ProductID entry))"
  have ok: "finishedOk ?s" using assms(2) by (simp add: plantOkD phaseOk_plant)
  have q0: "0 \<le> finishedQuantity ?s j" for j by (rule finished.qty_nonneg [OF ok])
  have res: "entry' = (if 0 < m then entry\<lparr>be_Quantity := be_Quantity entry - m\<rparr> else entry)"
    "pl_FinishedInventory (plant q) =
       (if 0 < m then takeFinishedInventory ?s (be_ProductID entry) m else ?s)"
    using assms(1) by (auto simp: serveEntry_def Let_def m_def shipEntry_stock split: if_splits)
  show "finishedQuantity (pl_FinishedInventory (plant q)) k \<le> finishedQuantity ?s k"
    using q0 [of k] q0 [of "be_ProductID entry"] by (auto simp: res(2) finishedQuantity_draw [OF ok])
  show "finishedQuantity (pl_FinishedInventory (plant q)) (be_ProductID entry) = 0"
    if "0 < be_Quantity entry'" "0 < be_Quantity entry"
    using that q0 [of "be_ProductID entry"]
    by (auto simp: res finishedQuantity_draw [OF ok] m_def min_def split: if_splits)
qed

lemma salesLoop_exhausts:
  "salesLoop prices entries p = (remaining, q) \<Longrightarrow> phaseOk p \<Longrightarrow> backlogOk entries \<Longrightarrow>
   (\<forall>k. finishedQuantity (pl_FinishedInventory (plant q)) k \<le> finishedQuantity (pl_FinishedInventory (plant p)) k)
   \<and> (\<forall>e \<in> set remaining. finishedQuantity (pl_FinishedInventory (plant q)) (be_ProductID e) = 0)"
proof (induction entries arbitrary: p remaining)
  case (Cons entry entries)
  obtain entry' p1 where serve: "serveEntry prices entry p = (entry', p1)" by fastforce
  obtain rest where loop: "salesLoop prices entries p1 = (rest, q)"
    and rem: "remaining = (if 0 < be_Quantity entry' then entry' # rest else rest)"
    using Cons.prems(1) by (auto simp: serve split: prod.splits)
  have b: "0 < be_Quantity entry" "backlogOk entries" using Cons.prems(3) by (simp_all add: backlogOk_def)
  note step = serveEntry_spec [OF serve Cons.prems(2) b(1)] and stock = serveEntry_stock [OF serve Cons.prems(2)]
  note IH = Cons.IH [OF loop step(2) b(2)]
  have okq: "phaseOk q" using salesLoop_spec [OF loop step(2) b(2)] by simp
  have "finishedQuantity (pl_FinishedInventory (plant q)) (be_ProductID entry') = 0" if "0 < be_Quantity entry'"
  proof -
    have "be_ProductID entry' = be_ProductID entry" by (subst step(5)) simp
    moreover have "0 \<le> finishedQuantity (pl_FinishedInventory (plant q)) (be_ProductID entry)"
      using okq by (intro finished.qty_nonneg) (simp add: plantOkD phaseOk_plant)
    ultimately show ?thesis using IH stock(2) [OF that b(1)] by (metis order_antisym)
  qed
  moreover have "finishedQuantity (pl_FinishedInventory (plant q)) k \<le> finishedQuantity (pl_FinishedInventory (plant p)) k" for k
    using IH stock(1) [of k] by (meson order_trans)
  ultimately show ?case using IH by (auto simp: rem)
qed simp

end
