(* ===== verification/Finalize.thy ===== *)
theory Finalize
  imports Sales
begin

text \<open>
  The end of a round in \<open>internal/engine/resolver.go\<close>: the backlog ages and expires, the
  finance targets take effect, commitments are settled, labor and carrying costs are
  charged, and the metrics are computed.
\<close>

section \<open>Ageing\<close>

text \<open>The loop over the backlog; its result is what has not expired.\<close>

fun ageLoop :: "BacklogEntry list \<Rightarrow> roundPhase \<Rightarrow> BacklogEntry list \<times> roundPhase" where
  "ageLoop [] p = ([], p)"
| "ageLoop (entry # entries) p =
    (let entry = entry\<lparr>be_AgeInRounds := be_AgeInRounds entry + 1\<rparr>
     in if rp_backlogExpiryRounds p < be_AgeInRounds entry
     then let p = upd_stats (\<lambda>s. s\<lparr>st_lostSalesUnits := st_lostSalesUnits s + be_Quantity entry\<rparr>) p;
              p = appendEvent EventBacklogExpired ActorPlantSystem
                (''Expired backlog for '' @ be_CustomerID entry @ ''/'' @ be_ProductID entry)
                [(''customer_id'', AString (be_CustomerID entry)),
                 (''product_id'', AString (be_ProductID entry)),
                 (''quantity'', AInt (be_Quantity entry))] p;
              p = lowerSentiment (be_CustomerID entry) [] p
          in ageLoop entries p
     else let (aged, p) = ageLoop entries p in (entry # aged, p))"

section \<open>Costs of the round\<close>

text \<open>The three sums the loop over the workstations builds.\<close>

definition laborCostOf :: "WorkstationState list \<Rightarrow> Money" where
  "laborCostOf items = sum_of (\<lambda>ws.
     if 0 < ws_LaborCostPerCapacityUnit ws \<and> 0 < effectiveLaborCapacity ws
     then effectiveLaborCapacity ws * ws_LaborCostPerCapacityUnit ws else 0) items"

definition overtimeCostOf :: "WorkstationState list \<Rightarrow> Money" where
  "overtimeCostOf items = sum_of (\<lambda>ws.
     if 0 < ws_OvertimeCostPerCapacityUnit ws \<and> 0 < ws_OvertimeUsed ws
     then ws_OvertimeUsed ws * ws_OvertimeCostPerCapacityUnit ws else 0) items"

definition idleLaborOf :: "WorkstationState list \<Rightarrow> Units" where
  "idleLaborOf items = sum_of (\<lambda>ws.
     if ws_LaborUsed ws < effectiveLaborCapacity ws
     then effectiveLaborCapacity ws - ws_LaborUsed ws else 0) items"

definition applyLaborCosts :: "roundPhase \<Rightarrow> (Money \<times> Money) \<times> roundPhase" where
  "applyLaborCosts p =
    (let stations = pl_Workstations (plant p);
         laborCost = laborCostOf stations;
         overtimeCost = overtimeCostOf stations;
         idleLabor = idleLaborOf stations;
         p = upd_stats (\<lambda>s. s\<lparr>st_idleLaborUnits := idleLabor\<rparr>) p;
         total = laborCost + overtimeCost;
         p = upd_stats (\<lambda>s. s\<lparr>st_payrollExpense := total\<rparr>) p;
         p = (if 0 < total
              then let ((dueRound, paidImmediately), p) =
                         schedulePayroll total (''payroll-r'' @ itoa (rp_currentRound p)) p;
                       payload =
                         [(''labor_cost'', AInt laborCost),
                          (''overtime_cost'', AInt overtimeCost),
                          (''payroll_expense'', AInt total),
                          (''idle_labor_units'', AInt idleLabor)]
                         @ (if paidImmediately
                            then (''cash_applied'', ABool True) # cashPayload p
                            else [(''cash_applied'', ABool False), (''due_round'', AInt dueRound)])
                in appendEvent EventLaborCostApplied ActorPlantSystem
                     ''Applied labor and overtime costs'' payload p
              else p)
     in ((laborCost, overtimeCost), p))"

definition partsValueOf :: "PlantState \<Rightarrow> Money" where
  "partsValueOf s = sum_of (\<lambda>part. inventoryCost (pi_OnHandQty part) (pi_UnitCost part)) (pl_PartsInventory s)"

definition wipValueOf :: "PlantState \<Rightarrow> Money" where
  "wipValueOf s = sum_of (\<lambda>item. inventoryCost (wi_Quantity item) (wi_UnitCost item)) (pl_WIPInventory s)"

definition finishedValueOf :: "PlantState \<Rightarrow> Money" where
  "finishedValueOf s = sum_of (\<lambda>item. inventoryCost (fi_OnHandQty item) (fi_UnitCost item)) (pl_FinishedInventory s)"

definition holdsValueOf :: "PlantState \<Rightarrow> Money" where
  "holdsValueOf s = sum_of (\<lambda>item. inventoryCost (ih_Quantity item) (ih_UnitCost item)) (pl_InspectionHolds s)"

definition holdingCostOf :: "roundPhase \<Rightarrow> Money" where
  "holdingCostOf p =
    (let partsValue = partsValueOf (plant p);
         wipValue = wipValueOf (plant p);
         finishedValue = finishedValueOf (plant p)
     in case rp_inventoryCost p of
          None \<Rightarrow> carryingCost (partsValue + wipValue + finishedValue)
        | Some hook \<Rightarrow>
            let ctx = (\<lambda>cls v. \<lparr>icc_State = MatchState_Clone (rp_state p),
                  icc_CurrentRound = rp_currentRound p, icc_InventoryClass = cls,
                  icc_InventoryValue = v\<rparr>)
            in hook (ctx InventoryClassParts partsValue)
               + hook (ctx InventoryClassWIP wipValue)
               + hook (ctx InventoryClassFinished finishedValue))"

definition applyRoundOperatingCosts :: "roundPhase \<Rightarrow> (Money \<times> Money) \<times> roundPhase" where
  "applyRoundOperatingCosts p =
    (let holdingCost = holdingCostOf p;
         debtCost = carryingCost (pl_Debt (plant p));
         total = holdingCost + debtCost;
         p = (if 0 < total
              then let p = addDisbursements total (applyCashDelta (- total) p)
                in appendEvent EventCashChanged ActorPlantSystem ''Round-end carrying costs applied''
                     (((''delta'', AInt (- total)) # cashPayload p)
                      @ [(''holding_cost'', AInt holdingCost), (''debt_service_cost'', AInt debtCost)]) p
              else p)
     in ((holdingCost, debtCost), p))"

section \<open>Metrics\<close>

definition onTimeRate :: "Units \<Rightarrow> Units \<Rightarrow> Percentage" where
  "onTimeRate shippedUnits demandUnits =
    (if 0 < demandUnits then go_div (shippedUnits * 100) demandUnits else 100)"

definition computeMetrics :: "roundPhase \<Rightarrow> PlantMetrics" where
  "computeMetrics p =
    (let s = plant p;
         st = rp_stats p;
         backlogUnits = sum_of be_Quantity (pl_Backlog s);
         inventoryValue = partsValueOf s + wipValueOf s + finishedValueOf s + holdsValueOf s;
         operatingExpense = st_procurementSpend st + st_productionSpend st + st_payrollExpense st
           + st_holdingCost st + st_debtServiceCost st;
         demandUnits = st_shippedUnits st + backlogUnits + st_lostSalesUnits st
     in \<lparr>pm_ThroughputRevenue = st_revenue st,
         pm_OperatingExpense = operatingExpense,
         pm_ProcurementSpend = st_procurementSpend st,
         pm_ProductionSpend = st_productionSpend st,
         pm_PayrollExpense = st_payrollExpense st,
         pm_LaborCost = st_laborCost st,
         pm_OvertimeCost = st_overtimeCost st,
         pm_HoldingCost = st_holdingCost st,
         pm_DebtServiceCost = st_debtServiceCost st,
         pm_InventoryValue = inventoryValue,
         pm_NetCashChange = pl_Cash s - rp_beginningCash p,
         pm_CashReceipts = st_cashReceipts st,
         pm_CashDisbursements = st_cashDisbursements st,
         pm_EndingCash = pl_Cash s,
         pm_RoundProfit = st_revenue st - operatingExpense,
         pm_OnTimeShipmentRate = onTimeRate (st_shippedUnits st) demandUnits,
         pm_BacklogUnits = backlogUnits,
         pm_LostSalesUnits = st_lostSalesUnits st,
         pm_PartsOnHandUnits = sum_of pi_OnHandQty (pl_PartsInventory s),
         pm_FinishedGoodsUnits = sum_of fi_OnHandQty (pl_FinishedInventory s),
         pm_InspectionHoldUnits = sum_of ih_Quantity (pl_InspectionHolds s),
         pm_ProductionOutputUnits = st_producedUnits st,
         pm_CapacityLossUnits = sum_of ws_StressCapacityLoss (pl_Workstations s),
         pm_IdleLaborUnits = st_idleLaborUnits st,
         pm_OvertimeUnits = st_overtimeUnits st,
         pm_ScrapUnits = st_scrapUnits st,
         pm_ReworkUnits = st_reworkUnits st,
         pm_CustomerReturnUnits = st_customerReturnUnits st,
         pm_SupplierReliability = averageSupplierReliability (ms_Suppliers (rp_state p))\<rparr>)"

section \<open>The end of the round\<close>

definition setTargets :: "BudgetTargets \<Rightarrow> roundPhase \<Rightarrow> roundPhase" where
  "setTargets targets p =
    (let targets = targets\<lparr>bt_EffectiveRound := rp_currentRound p + 1\<rparr>;
         p = upd_state (\<lambda>s. s\<lparr>ms_ActiveTargets := targets\<rparr>) p
     in upd_plant (\<lambda>s. s\<lparr>pl_DebtCeiling := bt_DebtCeilingTarget targets\<rparr>) p)"

definition applyFinance :: "ActionSubmission option \<Rightarrow> roundPhase \<Rightarrow> roundPhase" where
  "applyFinance action p =
    (case action of
       None \<Rightarrow> p
     | Some action \<Rightarrow>
        (case act_Finance (as_Action action) of
           None \<Rightarrow> p
         | Some finance \<Rightarrow> setTargets (fa_NextRoundTargets finance) p))"

definition ageBacklog :: "roundPhase \<Rightarrow> roundPhase" where
  "ageBacklog p =
    (let (aged, p) = ageLoop (effectiveBacklog (rp_state p)) p;
         p = upd_plant (\<lambda>s. s\<lparr>pl_Backlog := aged\<rparr>) p
     in syncCustomerBacklog aged p)"

definition recordMetrics :: "roundPhase \<Rightarrow> roundPhase" where
  "recordMetrics p =
    (let metrics = computeMetrics p;
         p = p\<lparr>rp_round := (rp_round p)\<lparr>rr_Metrics := metrics\<rparr>\<rparr>
     in appendEvent EventMetricSnapshot ActorPlantSystem ''Recorded round metrics''
          [(''operating_expense'', AInt (pm_OperatingExpense metrics)),
           (''round_profit'', AInt (pm_RoundProfit metrics)),
           (''throughput_revenue'', AInt (pm_ThroughputRevenue metrics)),
           (''backlog_units'', AInt (pm_BacklogUnits metrics)),
           (''production_output_units'', AInt (pm_ProductionOutputUnits metrics))] p)"

definition settleRound :: "roundPhase \<Rightarrow> roundPhase" where
  "settleRound p =
    (let p = collectReceivablesDue p;
         p = payPayablesDue p;
         ((laborCost, overtimeCost), p) = applyLaborCosts p;
         p = upd_stats (\<lambda>s. s\<lparr>st_laborCost := laborCost, st_overtimeCost := overtimeCost\<rparr>) p;
         ((holdingCost, debtCost), p) = applyRoundOperatingCosts p
     in upd_stats (\<lambda>s. s\<lparr>st_holdingCost := holdingCost, st_debtServiceCost := debtCost\<rparr>) p)"

definition finalizeRound :: "ActionSubmission option \<Rightarrow> roundPhase \<Rightarrow> roundPhase" where
  "finalizeRound action p = recordMetrics (settleRound (applyFinance action (ageBacklog p)))"

section \<open>What the steps keep\<close>

text \<open>An entry that stays, one round older.\<close>

definition older :: "BacklogEntry \<Rightarrow> BacklogEntry" where
  "older entry = entry\<lparr>be_AgeInRounds := be_AgeInRounds entry + 1\<rparr>"

lemma ageLoop_result:
  "ageLoop entries p = (aged, q) \<Longrightarrow>
   aged = map older (filter (\<lambda>e. be_AgeInRounds e < rp_backlogExpiryRounds p) entries)"
proof (induction entries arbitrary: p aged)
  case (Cons e entries)
  show ?case
  proof (cases "be_AgeInRounds e < rp_backlogExpiryRounds p")
    case True
    with Cons.prems obtain b where "ageLoop entries p = (b, q)" "aged = older e # b"
      by (auto simp: older_def Let_def split: prod.splits)
    with True Cons.IH show ?thesis by simp
  next
    case False
    define p1 where "p1 = lowerSentiment (be_CustomerID e) []
        (appendEvent EventBacklogExpired ActorPlantSystem
            (''Expired backlog for '' @ be_CustomerID e @ ''/'' @ be_ProductID e)
            [(''customer_id'', AString (be_CustomerID e)), (''product_id'', AString (be_ProductID e)),
             (''quantity'', AInt (be_Quantity e))]
          (upd_stats (\<lambda>s. s\<lparr>st_lostSalesUnits := st_lostSalesUnits s + be_Quantity e\<rparr>) p))"
    have "phase_ext p p1" unfolding p1_def by (auto intro!: inv_intros)
    moreover from False Cons.prems have "ageLoop entries p1 = (aged, q)"
      by (simp add: Let_def p1_def)
    ultimately show ?thesis using False Cons.IH [of p1] by (simp add: phase_extD)
  qed
qed simp

lemma ageLoop_spec:
  "ageLoop entries p = (aged, q) \<Longrightarrow> phaseOk p \<Longrightarrow>
   phase_ext p q \<and> phaseOk q \<and> plant q = plant p
   \<and> st_lostSalesUnits (rp_stats q) + sum_of be_Quantity aged
       = st_lostSalesUnits (rp_stats p) + sum_of be_Quantity entries
   \<and> rp_stats q = (rp_stats p)\<lparr>st_lostSalesUnits := st_lostSalesUnits (rp_stats q)\<rparr>"
proof (induction entries arbitrary: p aged)
  case (Cons e entries)
  show ?case
  proof (cases "be_AgeInRounds e < rp_backlogExpiryRounds p")
    case True
    with Cons.prems obtain b where b: "ageLoop entries p = (b, q)" "aged = older e # b"
      by (auto simp: older_def Let_def split: prod.splits)
    from Cons.IH [OF b(1) Cons.prems(2)] show ?thesis by (simp add: b(2) older_def)
  next
    case False
    define p1 where "p1 = lowerSentiment (be_CustomerID e) []
        (appendEvent EventBacklogExpired ActorPlantSystem
            (''Expired backlog for '' @ be_CustomerID e @ ''/'' @ be_ProductID e)
            [(''customer_id'', AString (be_CustomerID e)), (''product_id'', AString (be_ProductID e)),
             (''quantity'', AInt (be_Quantity e))]
          (upd_stats (\<lambda>s. s\<lparr>st_lostSalesUnits := st_lostSalesUnits s + be_Quantity e\<rparr>) p))"
    have p1: "phase_ext p p1" "phaseOk p1" "plant p1 = plant p"
      "rp_stats p1 = (rp_stats p)\<lparr>st_lostSalesUnits := st_lostSalesUnits (rp_stats p) + be_Quantity e\<rparr>"
      using Cons.prems(2) by (auto simp: p1_def phase_simps intro!: inv_intros ok_intros)
    from False Cons.prems have "ageLoop entries p1 = (aged, q)" by (simp add: Let_def p1_def)
    from Cons.IH [OF this p1(2)] p1 show ?thesis by (auto intro: phase_ext_trans)
  qed
qed simp

lemma ageBacklog_spec:
  assumes "phaseOk p"
  defines "q \<equiv> ageBacklog p" and "old \<equiv> effectiveBacklog (rp_state p)"
  shows "phase_ext p q" "phaseOk q"
    "pl_Backlog (plant q) = map older (filter (\<lambda>e. be_AgeInRounds e < rp_backlogExpiryRounds p) old)"
    "st_lostSalesUnits (rp_stats q) + sum_of be_Quantity (pl_Backlog (plant q))
       = st_lostSalesUnits (rp_stats p) + sum_of be_Quantity old"
    "rp_stats q = (rp_stats p)\<lparr>st_lostSalesUnits := st_lostSalesUnits (rp_stats q)\<rparr>"
    "plant q = (plant p)\<lparr>pl_Backlog := pl_Backlog (plant q)\<rparr>"
proof -
  obtain aged p1 where loop: "ageLoop old p = (aged, p1)" by fastforce
  have q: "q = syncCustomerBacklog aged (upd_plant (\<lambda>s. s\<lparr>pl_Backlog := aged\<rparr>) p1)"
    using loop by (simp add: q_def ageBacklog_def old_def)
  note spec = ageLoop_spec [OF loop assms(1)] and res = ageLoop_result [OF loop]
  have "backlogOk aged" using effectiveBacklog_ok [OF assms(1)] by (auto simp: res old_def backlogOk_def older_def)
  then show "phaseOk q" unfolding q using spec by (intro ok_intros) simp_all
  show "phase_ext p q" unfolding q using spec by (auto intro!: inv_intros)
  show "pl_Backlog (plant q) = map older (filter (\<lambda>e. be_AgeInRounds e < rp_backlogExpiryRounds p) old)"
    "st_lostSalesUnits (rp_stats q) + sum_of be_Quantity (pl_Backlog (plant q))
       = st_lostSalesUnits (rp_stats p) + sum_of be_Quantity old"
    "rp_stats q = (rp_stats p)\<lparr>st_lostSalesUnits := st_lostSalesUnits (rp_stats q)\<rparr>"
    "plant q = (plant p)\<lparr>pl_Backlog := pl_Backlog (plant q)\<rparr>"
    using spec res by (simp_all add: q phase_simps)
qed

lemma setTargets_ext [inv_intros]: "phase_ext p q \<Longrightarrow> phase_ext p (setTargets targets q)"
proof -
  have "phase_ext q (setTargets targets q)"
    by (simp add: setTargets_def Let_def upd_state_def upd_plant_def phase_ext_def same_defs
        eventsExtend_same ledger_def netCash_def)
  then show "phase_ext p q \<Longrightarrow> ?thesis" by (rule phase_ext_trans [rotated])
qed

lemma applyFinance_ext [inv_intros]: "phase_ext p q \<Longrightarrow> phase_ext p (applyFinance action q)"
  by (auto simp: applyFinance_def split: option.split intro: setTargets_ext)

lemma applyFinance_ok [ok_intros]: "phaseOk p \<Longrightarrow> phaseOk (applyFinance action p)"
  by (auto simp: applyFinance_def setTargets_def Let_def stateOk_def plantOk_def upd_plant_def upd_state_def
      split: option.split)

lemma laborCostOf_nonneg: "0 \<le> laborCostOf items" "0 \<le> overtimeCostOf items" "0 \<le> idleLaborOf items"
  by (auto simp: laborCostOf_def overtimeCostOf_def idleLaborOf_def intro!: sum_of_nonneg)

lemma applyLaborCosts_ext [inv_intros]: "phase_ext p q \<Longrightarrow> phase_ext p (snd (applyLaborCosts q))"
proof -
  assume "phase_ext p q"
  then show ?thesis
    unfolding applyLaborCosts_def Let_def
    by (auto simp: case_prod_beta intro!: inv_intros)
qed

lemma applyLaborCosts_ok [ok_intros]: "phaseOk p \<Longrightarrow> phaseOk (snd (applyLaborCosts p))"
  unfolding applyLaborCosts_def Let_def by (auto simp: case_prod_beta intro!: ok_intros)

lemma applyRoundOperatingCosts_ext [inv_intros]:
  "phase_ext p q \<Longrightarrow> phase_ext p (snd (applyRoundOperatingCosts q))"
  unfolding applyRoundOperatingCosts_def Let_def snd_conv by (rule ext_if) (intro inv_intros | assumption)+

lemma applyRoundOperatingCosts_ok [ok_intros]: "phaseOk p \<Longrightarrow> phaseOk (snd (applyRoundOperatingCosts p))"
  unfolding applyRoundOperatingCosts_def Let_def by (auto intro!: ok_intros)

lemma settleRound_keeps:
  assumes "phaseOk p"
  shows "phase_ext p (settleRound p)" "phaseOk (settleRound p)"
proof -
  define p1 where "p1 = payPayablesDue (collectReceivablesDue p)"
  have p1: "phase_ext p p1" "phaseOk p1"
    using assms collectReceivablesDue_ext [OF assms]
      payPayablesDue_ext [OF collectReceivablesDue_ok [OF assms]]
    by (auto simp: p1_def intro: phase_ext_trans ok_intros)
  show "phase_ext p (settleRound p)" "phaseOk (settleRound p)"
    using p1 unfolding settleRound_def Let_def p1_def [symmetric]
    by (auto simp: case_prod_beta intro!: inv_intros ok_intros)
qed

lemma recordMetrics_ext [inv_intros]: "phase_ext p q \<Longrightarrow> phase_ext p (recordMetrics q)"
proof -
  have "phase_ext q (q\<lparr>rp_round := (rp_round q)\<lparr>rr_Metrics := m\<rparr>\<rparr>)" for m
    by (simp add: phase_ext_def same_defs eventsExtend_same ledger_def)
  then show "phase_ext p q \<Longrightarrow> ?thesis"
    by (auto simp: recordMetrics_def Let_def intro!: ext_appendEvent intro: phase_ext_trans)
qed

lemma recordMetrics_sels [phase_simps]:
  "rp_state (recordMetrics p) = rp_state p" "rp_stats (recordMetrics p) = rp_stats p"
  "rr_Metrics (rp_round (recordMetrics p)) = computeMetrics p"
  by (simp_all add: recordMetrics_def Let_def phase_simps)

lemma finalizeRound_keeps:
  assumes "phaseOk p"
  shows "phase_ext p (finalizeRound action p)" "phaseOk (finalizeRound action p)"
proof -
  have "phase_ext p (applyFinance action (ageBacklog p))" "phaseOk (applyFinance action (ageBacklog p))"
    using ageBacklog_spec(1,2) [OF assms] by (auto intro!: inv_intros ok_intros)
  with settleRound_keeps [OF this(2)] show "phase_ext p (finalizeRound action p)"
    "phaseOk (finalizeRound action p)"
    unfolding finalizeRound_def by (auto simp: phase_simps intro: phase_ext_trans recordMetrics_ext)
qed

lemma onTimeRate_bounds: "0 \<le> s \<Longrightarrow> s \<le> d \<Longrightarrow> 0 \<le> onTimeRate s d \<and> onTimeRate s d \<le> 100"
proof -
  assume s: "0 \<le> s" "s \<le> d"
  have "0 < d \<Longrightarrow> s * 100 div d \<le> d * 100 div d" using s by (intro zdiv_mono1) simp_all
  then show ?thesis using s by (simp add: onTimeRate_def go_div_nonneg pos_imp_zdiv_nonneg_iff)
qed

end
