(* ===== verification/Actions.thy ===== *)
theory Actions
  imports Finalize
begin

text \<open>
  Action intake in \<open>internal/engine/resolver.go\<close>: validation of the submitted actions,
  their canonical order, the commentary they carry.  Each message of \<open>fmt.Errorf\<close> is a
  constructor of \<open>engineError\<close> with the values the message shows.
\<close>

section \<open>Errors\<close>

datatype engineError =
    EmptyMatchID
  | NonPositiveRound RoundNumber
  | MatchMismatch ActionID MatchID MatchID
  | RoundMismatch ActionID RoundNumber RoundNumber
  | UnsupportedRole ActionID RoleID
  | UnassignedRole ActionID RoleID
  | DuplicateRole RoleID
  | UnsupportedRoles "string list"
  | MissingPayload ActionID RoleID
  | MultiplePayloads ActionID RoleID "string list"
  | MismatchedPayload ActionID RoleID string
  | NegativeOrder ActionID int
  | NegativeRelease ActionID int
  | NegativeCapacity ActionID int
  | UnknownCapacityStation ActionID int WorkstationID
  | NegativeOvertime ActionID int
  | UnknownOvertimeStation ActionID int WorkstationID
  | NegativePrice ActionID int
  | NegativeTarget ActionID string
  | WorldUpdateFailed string

text \<open>A loop over an indexed slice that returns the first error.\<close>

fun first_error :: "(int \<Rightarrow> 'a \<Rightarrow> engineError option) \<Rightarrow> int \<Rightarrow> 'a list \<Rightarrow> engineError option" where
  "first_error check index [] = None"
| "first_error check index (x # xs) =
     (case check index x of Some e \<Rightarrow> Some e | None \<Rightarrow> first_error check (index + 1) xs)"

lemma first_error_None:
  "first_error check i xs = None \<longleftrightarrow> (\<forall>k < length xs. check (i + int k) (xs ! k) = None)"
proof (induction xs arbitrary: i)
  case (Cons x xs)
  have "(\<forall>k < length (x # xs). check (i + int k) ((x # xs) ! k) = None) \<longleftrightarrow>
      check i x = None \<and> (\<forall>k < length xs. check (i + 1 + int k) (xs ! k) = None)"
    by (auto simp: less_Suc_eq_0_disj add.assoc)
  with Cons show ?case by (auto split: option.split)
qed simp

section \<open>Validation\<close>

definition populatedPayloadNames :: "RoleAction \<Rightarrow> string list" where
  "populatedPayloadNames action =
     (if act_Procurement action \<noteq> None then [role_string RoleProcurementManager] else [])
     @ (if act_Production action \<noteq> None then [role_string RoleProductionManager] else [])
     @ (if act_Sales action \<noteq> None then [role_string RoleSalesManager] else [])
     @ (if act_Finance action \<noteq> None then [role_string RoleFinanceController] else [])"

definition validateProcurementAction :: "ActionSubmission \<Rightarrow> engineError option" where
  "validateProcurementAction action =
    (case act_Procurement (as_Action action) of
       None \<Rightarrow> Some (MissingPayload (as_ActionID action) (as_RoleID action))
     | Some procurement \<Rightarrow>
         first_error (\<lambda>index order.
             if po_Quantity order < 0 then Some (NegativeOrder (as_ActionID action) index) else None)
           0 (pra_Orders procurement))"

definition validateProductionAction :: "MatchState \<Rightarrow> ActionSubmission \<Rightarrow> engineError option" where
  "validateProductionAction state action =
    (case act_Production (as_Action action) of
       None \<Rightarrow> Some (MissingPayload (as_ActionID action) (as_RoleID action))
     | Some production \<Rightarrow>
        (case first_error (\<lambda>index release.
             if pr_Quantity release < 0 then Some (NegativeRelease (as_ActionID action) index) else None)
           0 (pda_Releases production) of
           Some e \<Rightarrow> Some e
         | None \<Rightarrow>
        (case first_error (\<lambda>index allocation.
             if ca_Capacity allocation < 0 then Some (NegativeCapacity (as_ActionID action) index)
             else if workstationIndex (pl_Workstations (ms_Plant state)) (ca_WorkstationID allocation) < 0
             then Some (UnknownCapacityStation (as_ActionID action) index (ca_WorkstationID allocation))
             else None)
           0 (pda_CapacityAllocation production) of
           Some e \<Rightarrow> Some e
         | None \<Rightarrow>
         first_error (\<lambda>index overtime.
             if oa_Capacity overtime < 0 then Some (NegativeOvertime (as_ActionID action) index)
             else if workstationIndex (pl_Workstations (ms_Plant state)) (oa_WorkstationID overtime) < 0
             then Some (UnknownOvertimeStation (as_ActionID action) index (oa_WorkstationID overtime))
             else None)
           0 (pda_Overtime production))))"

definition validateSalesAction :: "ActionSubmission \<Rightarrow> engineError option" where
  "validateSalesAction action =
    (case act_Sales (as_Action action) of
       None \<Rightarrow> Some (MissingPayload (as_ActionID action) (as_RoleID action))
     | Some sales \<Rightarrow>
         first_error (\<lambda>index offer.
             if of_UnitPrice offer < 0 then Some (NegativePrice (as_ActionID action) index) else None)
           0 (sa_ProductOffers sales))"

definition validateFinanceAction :: "ActionSubmission \<Rightarrow> engineError option" where
  "validateFinanceAction action =
    (case act_Finance (as_Action action) of
       None \<Rightarrow> Some (MissingPayload (as_ActionID action) (as_RoleID action))
     | Some finance \<Rightarrow>
         let targets = fa_NextRoundTargets finance; i = as_ActionID action
         in if bt_ProcurementBudget targets < 0 then Some (NegativeTarget i ''procurement budget'')
            else if bt_ProductionSpendBudget targets < 0 then Some (NegativeTarget i ''production budget'')
            else if bt_RevenueTarget targets < 0 then Some (NegativeTarget i ''revenue target'')
            else if bt_CashFloorTarget targets < 0 then Some (NegativeTarget i ''cash floor target'')
            else if bt_DebtCeilingTarget targets < 0 then Some (NegativeTarget i ''debt ceiling target'')
            else None)"

definition validateActionSubmission :: "MatchState \<Rightarrow> ActionSubmission \<Rightarrow> engineError option" where
  "validateActionSubmission state action =
    (let payloads = populatedPayloadNames (as_Action action)
     in if length payloads = 0
     then Some (MissingPayload (as_ActionID action) (as_RoleID action))
     else if 1 < length payloads
     then Some (MultiplePayloads (as_ActionID action) (as_RoleID action) payloads)
     else if length payloads = 1 \<and> payloads ! 0 \<noteq> role_string (as_RoleID action)
     then Some (MismatchedPayload (as_ActionID action) (as_RoleID action) (payloads ! 0))
     else case as_RoleID action of
            RoleProcurementManager \<Rightarrow> validateProcurementAction action
          | RoleProductionManager \<Rightarrow> validateProductionAction state action
          | RoleSalesManager \<Rightarrow> validateSalesAction action
          | RoleFinanceController \<Rightarrow> validateFinanceAction action
          | OtherRole _ \<Rightarrow> Some (UnsupportedRole (as_ActionID action) (as_RoleID action)))"

section \<open>Normalisation\<close>

text \<open>The set the code keeps as a map; \<open>None\<close> is its nil map.\<close>

definition assignedRoles :: "MatchState \<Rightarrow> RoleID list option" where
  "assignedRoles state =
    (if ms_Roles state = [] then None else Some (map ra_RoleID (ms_Roles state)))"

text \<open>The checks of one action, in the order of the code.\<close>

definition checkAction ::
  "MatchState \<Rightarrow> (RoleID \<times> ActionSubmission) list \<Rightarrow> ActionSubmission \<Rightarrow> engineError option" where
  "checkAction state byRole action =
    (if as_MatchID action \<noteq> ms_MatchID state
     then Some (MatchMismatch (as_ActionID action) (as_MatchID action) (ms_MatchID state))
     else if as_Round action \<noteq> ms_CurrentRound state
     then Some (RoundMismatch (as_ActionID action) (as_Round action) (ms_CurrentRound state))
     else if as_RoleID action \<notin> set CanonicalRoles
     then Some (UnsupportedRole (as_ActionID action) (as_RoleID action))
     else if (case assignedRoles state of
                None \<Rightarrow> False | Some roles \<Rightarrow> as_RoleID action \<notin> set roles)
     then Some (UnassignedRole (as_ActionID action) (as_RoleID action))
     else case validateActionSubmission state action of
            Some e \<Rightarrow> Some e
          | None \<Rightarrow>
              if map_of byRole (as_RoleID action) \<noteq> None
              then Some (DuplicateRole (as_RoleID action)) else None)"

text \<open>The map from role to action, as the list of its bindings (the keys are distinct).\<close>

fun gatherActions ::
  "MatchState \<Rightarrow> (RoleID \<times> ActionSubmission) list \<Rightarrow> ActionSubmission list \<Rightarrow>
     engineError + (RoleID \<times> ActionSubmission) list" where
  "gatherActions state byRole [] = Inr byRole"
| "gatherActions state byRole (action # actions) =
    (case checkAction state byRole action of
       Some e \<Rightarrow> Inl e
     | None \<Rightarrow> gatherActions state
         ((as_RoleID action, ActionSubmission_Clone action) # byRole) actions)"

fun takeInOrder ::
  "RoleID list \<Rightarrow> (RoleID \<times> ActionSubmission) list \<Rightarrow>
     ActionSubmission list \<times> (RoleID \<times> ActionSubmission) list" where
  "takeInOrder [] byRole = ([], byRole)"
| "takeInOrder (roleID # roles) byRole =
    (case map_of byRole roleID of
       None \<Rightarrow> takeInOrder roles byRole
     | Some action \<Rightarrow>
         let (ordered, byRole) = takeInOrder roles (filter (\<lambda>(r, _). r \<noteq> roleID) byRole)
         in (action # ordered, byRole))"

definition sortedRoleNames :: "(RoleID \<times> ActionSubmission) list \<Rightarrow> string list" where
  "sortedRoleNames items = sort (map (\<lambda>(roleID, _). role_string roleID) items)"

definition normalizeActions ::
  "MatchState \<Rightarrow> ActionSubmission list \<Rightarrow> engineError + ActionSubmission list" where
  "normalizeActions state actions =
    (case gatherActions state [] actions of
       Inl e \<Rightarrow> Inl e
     | Inr byRole \<Rightarrow>
         let (ordered, byRole) = takeInOrder CanonicalRoles byRole
         in if byRole \<noteq> [] then Inl (UnsupportedRoles (sortedRoleNames byRole)) else Inr ordered)"

definition actionForRole :: "ActionSubmission list \<Rightarrow> RoleID \<Rightarrow> ActionSubmission option" where
  "actionForRole actions roleID = find_first (\<lambda>a. as_RoleID a = roleID) actions"

section \<open>Commentary\<close>

text \<open>\<open>strings.TrimSpace\<close> on ASCII text.\<close>

definition isSpace :: "char \<Rightarrow> bool" where
  "isSpace c \<longleftrightarrow> of_char c \<in> {9, 10, 11, 12, 13, 32 :: nat}"

definition TrimSpace :: "string \<Rightarrow> string" where
  "TrimSpace s = rev (dropWhile isSpace (rev (dropWhile isSpace s)))"

definition cloneActions :: "ActionSubmission list \<Rightarrow> ActionSubmission list" where
  "cloneActions actions = map ActionSubmission_Clone actions"

fun rankFrom :: "int \<Rightarrow> RoleID list \<Rightarrow> RoleID \<Rightarrow> int" where
  "rankFrom index [] roleID = index"
| "rankFrom index (canonical # roles) roleID =
     (if canonical = roleID then index else rankFrom (index + 1) roles roleID)"

definition actionTimelineRoleRank :: "RoleID \<Rightarrow> int" where
  "actionTimelineRoleRank roleID = rankFrom 0 CanonicalRoles roleID"

definition commentaryCompare :: "ActionSubmission \<Rightarrow> ActionSubmission \<Rightarrow> int" where
  "commentaryCompare left right =
    (if compare_go (as_SubmittedAt left) (as_SubmittedAt right) \<noteq> 0
     then compare_go (as_SubmittedAt left) (as_SubmittedAt right)
     else if compare_go (actionTimelineRoleRank (as_RoleID left)) (actionTimelineRoleRank (as_RoleID right)) \<noteq> 0
     then compare_go (actionTimelineRoleRank (as_RoleID left)) (actionTimelineRoleRank (as_RoleID right))
     else compare_go (as_ActionID left) (as_ActionID right))"

definition commentaryRecord :: "MatchState \<Rightarrow> ActionSubmission \<Rightarrow> CommentaryRecord" where
  "commentaryRecord state action =
    (let record = CommentaryRecord_Clone (as_Commentary action);
         record = record\<lparr>cm_MatchID := ms_MatchID state, cm_Round := ms_CurrentRound state,
           cm_RoleID := as_RoleID action\<rparr>;
         record = (if cm_ActorID record = [] then record\<lparr>cm_ActorID := role_string (as_RoleID action)\<rparr>
                   else record);
         record = (if cm_Visibility record = [] then record\<lparr>cm_Visibility := CommentaryPublic\<rparr>
                   else record)
     in if cm_CommentaryID record = []
        then record\<lparr>cm_CommentaryID := as_ActionID action @ ''-commentary''\<rparr> else record)"

definition collectCommentary :: "MatchState \<Rightarrow> ActionSubmission list \<Rightarrow> CommentaryRecord list" where
  "collectCommentary state actions =
    (let ordered = sort_by commentaryCompare (cloneActions actions)
     in map (commentaryRecord state)
          (filter (\<lambda>action. TrimSpace (cm_Body (as_Commentary action)) \<noteq> []) ordered))"

section \<open>What normalisation accepts\<close>

definition admissible :: "MatchState \<Rightarrow> ActionSubmission \<Rightarrow> bool" where
  "admissible state action \<longleftrightarrow>
     as_MatchID action = ms_MatchID state \<and> as_Round action = ms_CurrentRound state
     \<and> as_RoleID action \<in> set CanonicalRoles
     \<and> (ms_Roles state \<noteq> [] \<longrightarrow> as_RoleID action \<in> ra_RoleID ` set (ms_Roles state))
     \<and> validateActionSubmission state action = None"

lemma checkAction_None:
  "checkAction state byRole action = None \<longleftrightarrow>
     admissible state action \<and> as_RoleID action \<notin> fst ` set byRole"
  by (simp add: checkAction_def admissible_def assignedRoles_def map_of_eq_None_iff split: option.split)

lemma gatherActions_Inr:
  "gatherActions state byRole actions = Inr result \<longleftrightarrow>
     (\<forall>a \<in> set actions. admissible state a) \<and> distinct (map as_RoleID actions)
     \<and> set (map as_RoleID actions) \<inter> fst ` set byRole = {}
     \<and> result = rev (map (\<lambda>a. (as_RoleID a, a)) actions) @ byRole"
proof (induction actions arbitrary: byRole)
  case Nil
  then show ?case by auto
next
  case (Cons a actions)
  show ?case
  proof (cases "checkAction state byRole a")
    case None
    then have a: "admissible state a" "as_RoleID a \<notin> fst ` set byRole" by (simp_all add: checkAction_None)
    from Cons [of "(as_RoleID a, ActionSubmission_Clone a) # byRole"] a show ?thesis
      by (simp add: None ActionSubmission_Clone_id) blast
  next
    case (Some e)
    then have "\<not> (admissible state a \<and> as_RoleID a \<notin> fst ` set byRole)"
      by (simp flip: checkAction_None)
    with Some show ?thesis by auto
  qed
qed

lemma takeInOrder_spec:
  "distinct roles \<Longrightarrow>
   takeInOrder roles byRole =
     (List.map_filter (map_of byRole) roles, filter (\<lambda>(r, _). r \<notin> set roles) byRole)"
proof (induction roles arbitrary: byRole)
  case Nil
  then show ?case by (simp add: map_filter_def case_prod_unfold)
next
  case (Cons r roles)
  show ?case
  proof (cases "map_of byRole r")
    case None
    then have "filter (\<lambda>(s, _). s \<notin> set roles) byRole = filter (\<lambda>(s, _). s \<notin> set (r # roles)) byRole"
      by (intro filter_cong refl) (auto simp: map_of_eq_None_iff image_iff)
    with None Cons show ?thesis by (simp add: map_filter_simps)
  next
    case (Some a)
    let ?rest = "filter (\<lambda>(s, _). s \<noteq> r) byRole"
    have "map_of ?rest s = map_of byRole s" if "s \<in> set roles" for s
      using that Cons.prems by (induction byRole) auto
    then have "List.map_filter (map_of ?rest) roles = List.map_filter (map_of byRole) roles"
      by (simp add: map_filter_def cong: map_cong filter_cong)
    moreover have "filter (\<lambda>(s, _). s \<notin> set roles) ?rest = filter (\<lambda>(s, _). s \<notin> set (r # roles)) byRole"
      by (simp add: case_prod_unfold conj_commute)
    ultimately show ?thesis using Some Cons by (simp add: map_filter_simps)
  qed
qed

text \<open>The order of the result: the canonical order of the roles.\<close>

definition inCanonicalOrder :: "ActionSubmission list \<Rightarrow> ActionSubmission list" where
  "inCanonicalOrder actions = List.map_filter (actionForRole actions) CanonicalRoles"

lemma actionForRole_simps [simp]:
  "actionForRole [] r = None"
  "actionForRole (a # actions) r = (if as_RoleID a = r then Some a else actionForRole actions r)"
  by (simp_all add: actionForRole_def)

lemma actionForRole_None: "actionForRole actions r = None \<longleftrightarrow> r \<notin> as_RoleID ` set actions"
  by (induction actions) auto

lemma actionForRole_Some: "actionForRole actions r = Some a \<Longrightarrow> a \<in> set actions \<and> as_RoleID a = r"
  unfolding actionForRole_def by (rule find_first_Some)

lemma map_of_actions:
  "distinct (map as_RoleID actions) \<Longrightarrow>
   map_of (rev (map (\<lambda>a. (as_RoleID a, a)) actions)) r = actionForRole actions r"
proof (induction actions)
  case (Cons a actions)
  have "actionForRole actions (as_RoleID a) = None" using Cons.prems by (auto simp: actionForRole_None)
  with Cons show ?case by (auto simp: map_add_def split: option.split)
qed simp

lemma leftover_none:
  "\<forall>a \<in> set actions. admissible state a \<Longrightarrow>
   filter (\<lambda>(r, _). r \<notin> set CanonicalRoles) (rev (map (\<lambda>a. (as_RoleID a, a)) actions)) = []"
  by (auto simp: filter_empty_conv admissible_def)

lemma normalizeActions_Inr:
  "normalizeActions state actions = Inr ordered \<longleftrightarrow>
     (\<forall>a \<in> set actions. admissible state a) \<and> distinct (map as_RoleID actions)
     \<and> ordered = inCanonicalOrder actions"
proof (cases "(\<forall>a \<in> set actions. admissible state a) \<and> distinct (map as_RoleID actions)")
  case True
  then have "gatherActions state [] actions = Inr (rev (map (\<lambda>a. (as_RoleID a, a)) actions))"
    by (simp add: gatherActions_Inr)
  moreover have "map_of (rev (map (\<lambda>a. (as_RoleID a, a)) actions)) = actionForRole actions"
    using True by (intro ext) (simp add: map_of_actions)
  ultimately show ?thesis using True leftover_none [of actions state]
    by (auto simp: normalizeActions_def takeInOrder_spec distinct_CanonicalRoles inCanonicalOrder_def)
next
  case False
  then have "gatherActions state [] actions \<noteq> Inr byRole" for byRole by (auto simp: gatherActions_Inr)
  then have "\<exists>e. gatherActions state [] actions = Inl e" by (cases "gatherActions state [] actions") auto
  with False show ?thesis by (auto simp: normalizeActions_def)
qed

lemma inCanonicalOrder_set:
  assumes "\<forall>a \<in> set actions. as_RoleID a \<in> set CanonicalRoles" "distinct (map as_RoleID actions)"
  shows "set (inCanonicalOrder actions) = set actions"
proof -
  have "actionForRole actions (as_RoleID a) = Some a" if "a \<in> set actions" for a
    using that assms(2) by (induction actions) (auto simp: image_iff)
  note found = this
  have "set actions \<subseteq> set (inCanonicalOrder actions)"
  proof
    fix a assume "a \<in> set actions"
    with found assms(1) show "a \<in> set (inCanonicalOrder actions)"
      by (auto simp: inCanonicalOrder_def map_filter_def image_iff intro!: exI [of _ "as_RoleID a"])
  qed
  moreover have "set (inCanonicalOrder actions) \<subseteq> set actions"
    by (auto simp: inCanonicalOrder_def map_filter_def dest: actionForRole_Some)
  ultimately show ?thesis by blast
qed

lemma inCanonicalOrder_roles:
  "map as_RoleID (inCanonicalOrder actions) = filter (\<lambda>r. r \<in> as_RoleID ` set actions) CanonicalRoles"
proof -
  have "map as_RoleID (List.map_filter (actionForRole actions) roles) =
      filter (\<lambda>r. r \<in> as_RoleID ` set actions) roles" for roles
  proof (induction roles)
    case (Cons r roles)
    show ?case
    proof (cases "actionForRole actions r")
      case None
      then show ?thesis using Cons actionForRole_None [of actions r] by (simp add: map_filter_simps)
    next
      case (Some a)
      then have "r \<in> as_RoleID ` set actions" "as_RoleID a = r" using actionForRole_Some by fastforce+
      with Some Cons show ?thesis by (simp add: map_filter_simps)
    qed
  qed (simp add: map_filter_simps)
  then show ?thesis by (simp add: inCanonicalOrder_def)
qed

text \<open>The order of submission does not matter.\<close>

lemma actionForRole_perm:
  assumes "set as = set bs" "distinct (map as_RoleID as)" "distinct (map as_RoleID bs)"
  shows "actionForRole as r = actionForRole bs r"
proof (cases "actionForRole as r")
  case None
  then have "actionForRole bs r = None" using assms(1) by (simp add: actionForRole_None)
  with None show ?thesis by simp
next
  case (Some a)
  then have a: "a \<in> set bs" "as_RoleID a = r" using assms(1) actionForRole_Some by auto
  then obtain b where b: "actionForRole bs r = Some b" using actionForRole_None [of bs r] by fastforce
  from actionForRole_Some [OF this] have "b \<in> set bs" "as_RoleID b = r" by simp_all
  with a assms(3) have "a = b" by (auto simp: distinct_map inj_on_def)
  with Some b show ?thesis by simp
qed

lemma normalizeActions_perm:
  assumes "mset as = mset bs" "normalizeActions state as = Inr ordered"
  shows "normalizeActions state bs = Inr ordered"
proof -
  have s: "set as = set bs" using assms(1) by (metis set_mset_mset)
  have "mset (map as_RoleID as) = mset (map as_RoleID bs)" using assms(1) by simp
  from mset_eq_imp_distinct_iff [OF this] have "distinct (map as_RoleID bs)"
    using assms(2) by (simp add: normalizeActions_Inr)
  with assms(2) s show ?thesis
    by (auto simp: normalizeActions_Inr inCanonicalOrder_def actionForRole_perm [OF s] cong: map_cong
        intro!: arg_cong [where f = "\<lambda>f. List.map_filter f CanonicalRoles"])
qed

section \<open>Valid actions\<close>

lemma payload_is:
  "populatedPayloadNames x = [role_string RoleProcurementManager] \<longleftrightarrow> (\<exists>y. x = RoleAction.make (Some y) None None None)"
  "populatedPayloadNames x = [role_string RoleProductionManager] \<longleftrightarrow> (\<exists>y. x = RoleAction.make None (Some y) None None)"
  "populatedPayloadNames x = [role_string RoleSalesManager] \<longleftrightarrow> (\<exists>y. x = RoleAction.make None None (Some y) None)"
  "populatedPayloadNames x = [role_string RoleFinanceController] \<longleftrightarrow> (\<exists>y. x = RoleAction.make None None None (Some y))"
  by (cases x; auto simp: populatedPayloadNames_def RoleAction.defs)+

lemma valid_payload:
  "validateActionSubmission state a = None \<longleftrightarrow>
     populatedPayloadNames (as_Action a) = [role_string (as_RoleID a)]
     \<and> (case as_RoleID a of
          RoleProcurementManager \<Rightarrow> validateProcurementAction a
        | RoleProductionManager \<Rightarrow> validateProductionAction state a
        | RoleSalesManager \<Rightarrow> validateSalesAction a
        | RoleFinanceController \<Rightarrow> validateFinanceAction a
        | OtherRole _ \<Rightarrow> Some (UnsupportedRole (as_ActionID a) (as_RoleID a))) = None"
proof -
  show ?thesis
    unfolding validateActionSubmission_def Let_def
    by (cases "populatedPayloadNames (as_Action a)"; cases "tl (populatedPayloadNames (as_Action a))") auto
qed

lemma valid_parts:
  "validateProcurementAction a = None \<longleftrightarrow> (\<exists>x. act_Procurement (as_Action a) = Some x
     \<and> (\<forall>order \<in> set (pra_Orders x). 0 \<le> po_Quantity order))"
  "validateProductionAction state a = None \<longleftrightarrow> (\<exists>x. act_Production (as_Action a) = Some x
     \<and> (\<forall>release \<in> set (pda_Releases x). 0 \<le> pr_Quantity release)
     \<and> (\<forall>c \<in> set (pda_CapacityAllocation x). 0 \<le> ca_Capacity c
          \<and> ca_WorkstationID c \<in> ws_WorkstationID ` set (pl_Workstations (ms_Plant state)))
     \<and> (\<forall>c \<in> set (pda_Overtime x). 0 \<le> oa_Capacity c
          \<and> oa_WorkstationID c \<in> ws_WorkstationID ` set (pl_Workstations (ms_Plant state))))"
  "validateSalesAction a = None \<longleftrightarrow> (\<exists>x. act_Sales (as_Action a) = Some x
     \<and> (\<forall>offer \<in> set (sa_ProductOffers x). 0 \<le> of_UnitPrice offer))"
  "validateFinanceAction a = None \<longleftrightarrow> (\<exists>x. act_Finance (as_Action a) = Some x
     \<and> 0 \<le> bt_ProcurementBudget (fa_NextRoundTargets x) \<and> 0 \<le> bt_ProductionSpendBudget (fa_NextRoundTargets x)
     \<and> 0 \<le> bt_RevenueTarget (fa_NextRoundTargets x) \<and> 0 \<le> bt_CashFloorTarget (fa_NextRoundTargets x)
     \<and> 0 \<le> bt_DebtCeilingTarget (fa_NextRoundTargets x))"
proof -
  show "validateProcurementAction a = None \<longleftrightarrow> (\<exists>x. act_Procurement (as_Action a) = Some x
     \<and> (\<forall>order \<in> set (pra_Orders x). 0 \<le> po_Quantity order))"
    by (simp add: validateProcurementAction_def first_error_None all_set_conv_all_nth split: option.split)
      (meson not_le)
  show "validateSalesAction a = None \<longleftrightarrow> (\<exists>x. act_Sales (as_Action a) = Some x
     \<and> (\<forall>offer \<in> set (sa_ProductOffers x). 0 \<le> of_UnitPrice offer))"
    by (simp add: validateSalesAction_def first_error_None all_set_conv_all_nth split: option.split)
      (meson not_le)
  show "validateFinanceAction a = None \<longleftrightarrow> (\<exists>x. act_Finance (as_Action a) = Some x
     \<and> 0 \<le> bt_ProcurementBudget (fa_NextRoundTargets x) \<and> 0 \<le> bt_ProductionSpendBudget (fa_NextRoundTargets x)
     \<and> 0 \<le> bt_RevenueTarget (fa_NextRoundTargets x) \<and> 0 \<le> bt_CashFloorTarget (fa_NextRoundTargets x)
     \<and> 0 \<le> bt_DebtCeilingTarget (fa_NextRoundTargets x))"
    by (simp add: validateFinanceAction_def Let_def not_less split: option.split)
  have known: "(workstationIndex items w < 0) = (w \<notin> ws_WorkstationID ` set items)" for items w
    by (simp flip: workstationIndex_nonneg_iff add: not_le)
  have none: "(case e of None \<Rightarrow> f | Some x \<Rightarrow> Some x) = None \<longleftrightarrow> e = None \<and> f = None" for e f :: "engineError option"
    by (cases e) simp_all
  have guard: "(if c then Some x else if d then Some y else None) = None \<longleftrightarrow> \<not> c \<and> \<not> d" for c d and x y :: engineError
    by simp
  show "validateProductionAction state a = None \<longleftrightarrow> (\<exists>x. act_Production (as_Action a) = Some x
     \<and> (\<forall>release \<in> set (pda_Releases x). 0 \<le> pr_Quantity release)
     \<and> (\<forall>c \<in> set (pda_CapacityAllocation x). 0 \<le> ca_Capacity c
          \<and> ca_WorkstationID c \<in> ws_WorkstationID ` set (pl_Workstations (ms_Plant state)))
     \<and> (\<forall>c \<in> set (pda_Overtime x). 0 \<le> oa_Capacity c
          \<and> oa_WorkstationID c \<in> ws_WorkstationID ` set (pl_Workstations (ms_Plant state))))"
    by (cases "act_Production (as_Action a)")
      (simp_all add: validateProductionAction_def none first_error_None guard known all_set_conv_all_nth not_less,
        meson not_le)
qed

end
