(* ===== verification/Resolver.thy ===== *)
theory Resolver
  imports Actions
begin

text \<open>
  The resolver of \<open>internal/engine/resolver.go\<close>: its options with their defaults and the
  resolution of a whole round.
\<close>

section \<open>Options and defaults\<close>

record Options =
  op_HistoryLimit :: int
  op_BacklogExpiryRounds :: int
  op_ProcurementTerms :: "ProcurementTermsHook option"
  op_ProductionBOM :: "ProductionBOMHook option"
  op_ProductionRoute :: "ProductionRouteHook option"
  op_ProductionCost :: "ProductionCostHook option"
  op_QualityProfile :: "QualityProfileHook option"
  op_InventoryCost :: "InventoryCarryingCostHook option"
  op_ReceivableDelayRounds :: int
  op_PayableDelayRounds :: int
  op_PayrollDelayRounds :: int
  op_WorldUpdate :: "WorldUpdateHook option"

record Resolver =
  rsv_historyLimit :: int
  rsv_backlogExpiryRounds :: int
  rsv_procurementTerms :: ProcurementTermsHook
  rsv_productionBOM :: ProductionBOMHook
  rsv_productionRoute :: ProductionRouteHook
  rsv_productionCost :: ProductionCostHook
  rsv_qualityProfile :: QualityProfileHook
  rsv_inventoryCost :: "InventoryCarryingCostHook option"
  rsv_receivableDelayRounds :: int
  rsv_payableDelayRounds :: int
  rsv_payrollDelayRounds :: int
  rsv_worldUpdate :: "WorldUpdateHook option"

record Result =
  res_NextState :: MatchState
  res_Round :: RoundRecord

definition normalizedHistoryLimit :: "int \<Rightarrow> int" where
  "normalizedHistoryLimit limit = (if limit \<le> 0 then 10 else limit)"

definition normalizedBacklogExpiryRounds :: "int \<Rightarrow> int" where
  "normalizedBacklogExpiryRounds rounds = (if rounds \<le> 0 then 2 else rounds)"

definition normalizedDelayRounds :: "int \<Rightarrow> int" where
  "normalizedDelayRounds rounds = (if rounds < 0 then 0 else rounds)"

definition defaultProcurementTerms :: "ProcurementTermsHook option \<Rightarrow> ProcurementTermsHook" where
  "defaultProcurementTerms hook =
    (case hook of
       Some hook \<Rightarrow> hook
     | None \<Rightarrow> (\<lambda>_. \<lparr>pt_UnitCost = 1, pt_MinimumOrderQuantity = 0, pt_LeadTimeRounds = 1,
                      pt_OnTimeDeliveryPct = 100, pt_LateDeliveryRounds = 0,
                      pt_KnownSupplier = True\<rparr>))"

definition defaultProductionBOM :: "ProductionBOMHook option \<Rightarrow> ProductionBOMHook" where
  "defaultProductionBOM hook =
    (case hook of
       Some hook \<Rightarrow> hook
     | None \<Rightarrow> (\<lambda>_. \<lparr>pb_KnownProduct = True, pb_Parts = []\<rparr>))"

definition defaultProductionRoute :: "ProductionRouteHook option \<Rightarrow> ProductionRouteHook" where
  "defaultProductionRoute hook =
    (case hook of
       Some hook \<Rightarrow> hook
     | None \<Rightarrow> (\<lambda>ctx.
         let stations = pl_Workstations (ms_Plant (prc_State ctx));
             index = workstationIndex stations (prc_CurrentStationID ctx)
         in if index < 0 \<or> index = int (length stations) - 1
            then \<lparr>prs_NextWorkstationID = [], prs_Finished = True\<rparr>
            else \<lparr>prs_NextWorkstationID = ws_WorkstationID (stations ! nat (index + 1)),
                  prs_Finished = False\<rparr>))"

definition defaultProductionCost :: "ProductionCostHook option \<Rightarrow> ProductionCostHook" where
  "defaultProductionCost hook =
    (case hook of Some hook \<Rightarrow> hook | None \<Rightarrow> (\<lambda>_. \<lparr>pc_CostPerCapacityUnit = 1\<rparr>))"

definition defaultQualityProfile :: "QualityProfileHook option \<Rightarrow> QualityProfileHook" where
  "defaultQualityProfile hook =
    (case hook of Some hook \<Rightarrow> hook | None \<Rightarrow> (\<lambda>_. QualityProfile.make 0 0 0 0 0 0))"

definition NewResolver :: "Options \<Rightarrow> Resolver" where
  "NewResolver options =
     \<lparr>rsv_historyLimit = normalizedHistoryLimit (op_HistoryLimit options),
      rsv_backlogExpiryRounds = normalizedBacklogExpiryRounds (op_BacklogExpiryRounds options),
      rsv_procurementTerms = defaultProcurementTerms (op_ProcurementTerms options),
      rsv_productionBOM = defaultProductionBOM (op_ProductionBOM options),
      rsv_productionRoute = defaultProductionRoute (op_ProductionRoute options),
      rsv_productionCost = defaultProductionCost (op_ProductionCost options),
      rsv_qualityProfile = defaultQualityProfile (op_QualityProfile options),
      rsv_inventoryCost = op_InventoryCost options,
      rsv_receivableDelayRounds = normalizedDelayRounds (op_ReceivableDelayRounds options),
      rsv_payableDelayRounds = normalizedDelayRounds (op_PayableDelayRounds options),
      rsv_payrollDelayRounds = normalizedDelayRounds (op_PayrollDelayRounds options),
      rsv_worldUpdate = op_WorldUpdate options\<rparr>"

section \<open>History\<close>

definition cloneRoundHistory :: "RoundRecord list \<Rightarrow> RoundRecord list" where
  "cloneRoundHistory rounds = map RoundRecord_Clone rounds"

definition appendRecentRound :: "RoundHistory \<Rightarrow> RoundRecord \<Rightarrow> int \<Rightarrow> RoundHistory" where
  "appendRecentRound history round limit =
    (let rounds = cloneRoundHistory (rh_RecentRounds history) @ [RoundRecord_Clone round];
         rounds = (if 0 < limit \<and> limit < int (length rounds)
                   then drop (length rounds - nat limit) rounds else rounds)
     in \<lparr>rh_RecentRounds = rounds\<rparr>)"

section \<open>A round\<close>

definition activateTargets :: "roundPhase \<Rightarrow> roundPhase" where
  "activateTargets p =
    (let targets = ms_ActiveTargets (rp_state p)
     in if bt_EffectiveRound targets = rp_currentRound p
        then appendEvent EventBudgetActivated ActorPlantSystem ''Activated current round targets''
               [(''effective_round'', AInt (bt_EffectiveRound targets)),
                (''procurement_budget'', AInt (bt_ProcurementBudget targets)),
                (''production_budget'', AInt (bt_ProductionSpendBudget targets)),
                (''revenue_target'', AInt (bt_RevenueTarget targets)),
                (''cash_floor_target'', AInt (bt_CashFloorTarget targets)),
                (''debt_ceiling_target'', AInt (bt_DebtCeilingTarget targets))] p
        else p)"

text \<open>The phase \<open>ResolveRound\<close> starts with, for a state and its normalised actions.\<close>

definition startPhase ::
  "Resolver \<Rightarrow> MatchState \<Rightarrow> ActionSubmission list \<Rightarrow> RandomSource option \<Rightarrow> roundPhase" where
  "startPhase r state orderedActions random =
    (let nextState = MatchState_Clone state;
         nextState = nextState\<lparr>ms_Plant := (ms_Plant nextState)
           \<lparr>pl_Workstations := resetCapacityUsage (pl_Workstations (ms_Plant nextState))\<rparr>\<rparr>;
         round = \<lparr>rr_Round = ms_CurrentRound state,
                  rr_Actions = cloneActions orderedActions,
                  rr_Events = [],
                  rr_Commentary = collectCommentary state orderedActions,
                  rr_Timeline = [],
                  rr_Metrics = zero_PlantMetrics\<rparr>
     in \<lparr>rp_state = nextState,
         rp_round = round,
         rp_currentRound = ms_CurrentRound state,
         rp_beginningCash = pl_Cash (ms_Plant state),
         rp_stats = zero_stats,
         rp_backlogExpiryRounds = rsv_backlogExpiryRounds r,
         rp_procurementTerms = rsv_procurementTerms r,
         rp_productionBOM = rsv_productionBOM r,
         rp_productionRoute = rsv_productionRoute r,
         rp_productionCost = rsv_productionCost r,
         rp_qualityProfile = rsv_qualityProfile r,
         rp_inventoryCost = rsv_inventoryCost r,
         rp_receivableDelayRounds = rsv_receivableDelayRounds r,
         rp_payableDelayRounds = rsv_payableDelayRounds r,
         rp_payrollDelayRounds = rsv_payrollDelayRounds r,
         rp_random = random,
         rp_eventSeq = 0,
         rp_stressedStations = (\<lambda>_. False)\<rparr>)"

text \<open>The core of the round: every phase up to the world update.\<close>

definition resolvePhases :: "ActionSubmission list \<Rightarrow> roundPhase \<Rightarrow> roundPhase" where
  "resolvePhases orderedActions phase =
    (let phase = activateTargets phase;
         phase = resolveProcurement (actionForRole orderedActions RoleProcurementManager) phase;
         phase = receiveSupply phase;
         phase = releaseInspectionHolds phase;
         phase = processCustomerReturns phase;
         phase = resolveProduction (actionForRole orderedActions RoleProductionManager) phase
     in resolveSales (actionForRole orderedActions RoleSalesManager) phase)"

definition runWorldUpdate :: "WorldUpdateHook option \<Rightarrow> roundPhase \<Rightarrow> engineError + roundPhase" where
  "runWorldUpdate worldUpdate phase =
    (case worldUpdate of
       None \<Rightarrow> Inr phase
     | Some hook \<Rightarrow>
        (case hook \<lparr>wu_State = rp_state phase, wu_Round = rp_round phase,
                    wu_Random = rp_random phase, wu_currentRound = rp_currentRound phase,
                    wu_eventSeq = rp_eventSeq phase\<rparr> of
           Inl message \<Rightarrow> Inl (WorldUpdateFailed message)
         | Inr ctx \<Rightarrow> Inr (phase\<lparr>rp_state := wu_State ctx, rp_round := wu_Round ctx,
                                 rp_random := wu_Random ctx, rp_eventSeq := wu_eventSeq ctx\<rparr>)))"

definition closeRound :: "int \<Rightarrow> roundPhase \<Rightarrow> Result" where
  "closeRound historyLimit phase =
    (let round = (rp_round phase)\<lparr>rr_Timeline := CanonicalTimeline (rp_round phase)\<rparr>;
         nextState = (rp_state phase)\<lparr>ms_Metrics := rr_Metrics round\<rparr>;
         nextState = nextState\<lparr>ms_CurrentRound := ms_CurrentRound nextState + 1\<rparr>;
         nextState = nextState\<lparr>ms_History :=
           appendRecentRound (ms_History nextState) round historyLimit\<rparr>
     in \<lparr>res_NextState = MatchState_Clone nextState, res_Round = RoundRecord_Clone round\<rparr>)"

definition ResolveRound ::
  "Resolver \<Rightarrow> MatchState \<Rightarrow> ActionSubmission list \<Rightarrow> RandomSource option \<Rightarrow> engineError + Result" where
  "ResolveRound r state actions random =
    (if ms_MatchID state = [] then Inl EmptyMatchID
     else if ms_CurrentRound state \<le> 0 then Inl (NonPositiveRound (ms_CurrentRound state))
     else case normalizeActions state actions of
       Inl e \<Rightarrow> Inl e
     | Inr orderedActions \<Rightarrow>
        (case runWorldUpdate (rsv_worldUpdate r)
                (resolvePhases orderedActions (startPhase r state orderedActions random)) of
           Inl e \<Rightarrow> Inl e
         | Inr phase \<Rightarrow> Inr (closeRound (rsv_historyLimit r)
             (finalizeRound (actionForRole orderedActions RoleFinanceController) phase))))"

section \<open>What every phase before production keeps\<close>

text \<open>
  The units of product, with what was shipped and less what came back: only a release of
  parts into production adds to them.
\<close>

definition productLedger :: "roundPhase \<Rightarrow> Units" where
  "productLedger p = mass p + st_shippedUnits (rp_stats p) - st_customerReturnUnits (rp_stats p)"

definition stable :: "roundPhase \<Rightarrow> roundPhase \<Rightarrow> bool" where
  "stable p q \<longleftrightarrow>
     pl_Workstations (plant q) = pl_Workstations (plant p)
     \<and> st_productionSpend (rp_stats q) = st_productionSpend (rp_stats p)
     \<and> ms_ActiveTargets (rp_state q) = ms_ActiveTargets (rp_state p)
     \<and> productLedger q = productLedger p"

lemma stable_refl [simp, intro]: "stable p p"
  by (simp add: stable_def)

lemma stable_trans: "stable p q \<Longrightarrow> stable q r \<Longrightarrow> stable p r"
  by (simp add: stable_def)

lemma stable_append [simp]: "stable p (appendEvent t a s pl q) \<longleftrightarrow> stable p q"
  by (simp add: stable_def productLedger_def mass_def phase_simps)

lemma stable_upd_plant:
  "stable p q \<Longrightarrow> pl_Workstations (f (plant q)) = pl_Workstations (plant q) \<Longrightarrow>
   plantUnits (f (plant q)) = plantUnits (plant q) \<Longrightarrow> stable p (upd_plant f q)"
  by (simp add: stable_def productLedger_def mass_def phase_simps)

lemma stable_upd_suppliers [simp]: "stable p (upd_suppliers f q) \<longleftrightarrow> stable p q"
  by (simp add: stable_def productLedger_def mass_def phase_simps)

lemma stable_upd_customers [simp]: "stable p (upd_customers f q) \<longleftrightarrow> stable p q"
  by (simp add: stable_def productLedger_def mass_def phase_simps)

lemma plantUnits_fields [simp]:
  "plantUnits (s\<lparr>pl_InTransitSupply := a\<rparr>) = plantUnits s" "plantUnits (s\<lparr>pl_PartsInventory := b\<rparr>) = plantUnits s"
  "plantUnits (s\<lparr>pl_Receivables := c\<rparr>) = plantUnits s" "plantUnits (s\<lparr>pl_Payables := d\<rparr>) = plantUnits s"
  "plantUnits (s\<lparr>pl_PendingReturns := e\<rparr>) = plantUnits s" "plantUnits (s\<lparr>pl_Backlog := f\<rparr>) = plantUnits s"
  "plantUnits (plantCashDelta x s) = plantUnits s"
  by (simp_all add: plantUnits_def)

lemma applyCashDelta_targets [phase_simps]:
  "ms_ActiveTargets (rp_state (applyCashDelta d p)) = ms_ActiveTargets (rp_state p)"
  by (simp add: applyCashDelta_def phase_simps)

lemma stable_cash [simp]: "stable p (applyCashDelta d q) \<longleftrightarrow> stable p q"
  by (simp add: stable_def productLedger_def mass_def phase_simps)

lemma stable_recorded [simp]:
  "stable p (addDisbursements d q) \<longleftrightarrow> stable p q" "stable p (addReceipts d q) \<longleftrightarrow> stable p q"
  by (simp_all add: stable_def productLedger_def mass_def phase_simps addDisbursements_def addReceipts_def)

lemma stable_schedulePayable [simp]: "stable p (schedulePayable x y q) \<longleftrightarrow> stable p q"
proof -
  have "stable q (schedulePayable x y q)"
    by (auto simp: schedulePayable_def Let_def intro!: stable_upd_plant)
  moreover have "stable (schedulePayable x y q) q" using calculation by (simp add: stable_def)
  ultimately show ?thesis using stable_trans by blast
qed

lemma setSupplier_targets [phase_simps]:
  "ms_ActiveTargets (rp_state (setSupplier i s p)) = ms_ActiveTargets (rp_state p)"
  by (simp add: setSupplier_def phase_simps)

lemma stable_setSupplier [simp]: "stable p (setSupplier i s q) \<longleftrightarrow> stable p q"
  by (simp add: setSupplier_def)

lemma stable_record [simp]:
  "stable p (recordSupplierOrder i q) \<longleftrightarrow> stable p q" "stable p (recordSupplierReceipt i q) \<longleftrightarrow> stable p q"
  "stable p (recordSupplierDelay i q) \<longleftrightarrow> stable p q"
  by (simp_all add: recordSupplierOrder_def recordSupplierReceipt_def recordSupplierDelay_def Let_def
      split: option.split)

lemma stable_placeOrder:
  "stable p q \<Longrightarrow> stable p (snd (placeOrder a i order terms n (used, q)))"
  by (simp add: placeOrder_def Let_def stable_def productLedger_def mass_def phase_simps)
    (simp add: recordSupplierOrder_def phase_simps split: option.split)

lemma stable_procurementOrder: "stable p (snd acc) \<Longrightarrow> stable p (snd (procurementOrder a cap i order acc))"
  by (cases acc) (auto simp: procurementOrder_def Let_def intro!: stable_placeOrder)

lemma stable_procurementOrders: "stable p (snd acc) \<Longrightarrow> stable p (snd (procurementOrders a cap i orders acc))"
  by (induction orders arbitrary: i acc) (simp_all add: stable_procurementOrder)

lemma stable_resolveProcurement: "stable p (resolveProcurement action p)"
  using stable_procurementOrders [of p "(0, p)"]
  by (auto simp: resolveProcurement_def Let_def split: option.split prod.split) (metis snd_conv stable_refl)+

lemma record_targets [phase_simps]:
  "ms_ActiveTargets (rp_state (recordSupplierDelay i p)) = ms_ActiveTargets (rp_state p)"
  "ms_ActiveTargets (rp_state (recordSupplierReceipt i p)) = ms_ActiveTargets (rp_state p)"
  by (simp_all add: recordSupplierDelay_def recordSupplierReceipt_def Let_def phase_simps split: option.split)

lemma receiveLoop_targets:
  "ms_ActiveTargets (rp_state (snd (receiveLoop lots p))) = ms_ActiveTargets (rp_state p)"
  by (induction lots arbitrary: p) (auto simp: Let_def phase_simps case_prod_beta)

lemma receiveOne_stable: "stable p q \<Longrightarrow> stable p (receiveOne q lot)"
  by (auto simp: receiveOne_def Let_def intro!: stable_upd_plant)

lemma receiveAll_stable: "stable p q \<Longrightarrow> stable p (foldl receiveOne q lots)"
  by (induction lots arbitrary: q) (simp_all add: receiveOne_stable)

lemma stable_receiveSupply: "stable p (receiveSupply p)"
proof -
  obtain a b q where loop: "receiveLoop (pl_InTransitSupply (plant p)) p = ((a, b), q)"
    by (metis prod.exhaust)
  have "stable p q"
    using receiveLoop_spec [OF loop] receiveLoop_targets [of "pl_InTransitSupply (plant p)" p]
    by (simp add: loop stable_def productLedger_def mass_def)
  then have "stable p (foldl receiveOne (upd_plant (\<lambda>s. s\<lparr>pl_InTransitSupply := b\<rparr>) q) a)"
    by (intro receiveAll_stable stable_upd_plant) simp_all
  then show ?thesis by (simp add: receiveSupply_def loop)
qed

lemma releaseLoop_units:
  "releaseLoop items p = (remaining, q) \<Longrightarrow> holdsOk items \<Longrightarrow>
   pl_Workstations (plant q) = pl_Workstations (plant p) \<and> rp_stats q = rp_stats p
   \<and> ms_ActiveTargets (rp_state q) = ms_ActiveTargets (rp_state p)
   \<and> pl_InspectionHolds (plant q) = pl_InspectionHolds (plant p)
   \<and> plantUnits (plant q) + sum_of ih_Quantity remaining = plantUnits (plant p) + sum_of ih_Quantity items"
proof (induction items arbitrary: p remaining)
  case (Cons item items)
  have items: "holdsOk items" "0 < ih_Quantity item" using Cons.prems(2) by (simp_all add: holdsOk_def)
  show ?case
  proof (cases "rp_currentRound p < ih_ReleaseRound item")
    case True
    with Cons.prems obtain b where b: "releaseLoop items p = (b, q)" "remaining = item # b"
      by (auto split: prod.splits)
    from Cons.IH [OF b(1) items(1)] b(2) show ?thesis by simp
  next
    case False
    define p' where "p' = appendEvent EventInspectionHoldReleased ActorPlantSystem
        (''Released '' @ itoa (ih_Quantity item) @ '' '' @ ih_ProductID item
           @ '' from inspection hold'')
        [(''product_id'', AString (ih_ProductID item)),
         (''quantity'', AInt (ih_Quantity item)),
         (''reason'', AString (ih_Reason item)),
         (''release_round'', AInt (ih_ReleaseRound item))]
       (upd_plant (\<lambda>s. s\<lparr>pl_FinishedInventory := addFinishedInventory
                (pl_FinishedInventory s) (ih_ProductID item) (ih_Quantity item) (ih_UnitCost item)\<rparr>) p)"
    with False Cons.prems have loop: "releaseLoop items p' = (remaining, q)" by (simp add: Let_def)
    have "plantUnits (plant p') = plantUnits (plant p) + ih_Quantity item"
      using items(2) by (simp add: p'_def phase_simps plantUnits_def finished.total_put)
    with Cons.IH [OF loop items(1)] show ?thesis by (simp add: p'_def phase_simps)
  qed
qed simp

lemma stable_releaseInspectionHolds:
  assumes "phaseOk p"
  shows "stable p (releaseInspectionHolds p)"
proof -
  obtain b q where loop: "releaseLoop (pl_InspectionHolds (plant p)) p = (b, q)" by fastforce
  have "holdsOk (pl_InspectionHolds (plant p))" using assms by (simp add: plantOkD phaseOk_plant)
  note spec = releaseLoop_units [OF loop this]
  then have "plantUnits ((plant q)\<lparr>pl_InspectionHolds := b\<rparr>) = plantUnits (plant p)"
    by (auto simp: plantUnits_def)
  with spec show ?thesis
    by (simp add: releaseInspectionHolds_def loop stable_def productLedger_def mass_def phase_simps)
qed

lemma stable_lowerSentiment [simp]: "stable p (lowerSentiment i x q) \<longleftrightarrow> stable p q"
  by (simp add: lowerSentiment_def Let_def split: option.split)

lemma processReturn_stable:
  assumes "stable p q" "0 < cr_Quantity item"
  shows "stable p (processReturn q item)"
proof -
  let ?q = "upd_plant (\<lambda>s. s\<lparr>pl_InspectionHolds := addInspectionHoldInventory (pl_InspectionHolds s)
       (cr_ProductID item) (cr_Quantity item) (cr_UnitCost item) (rp_currentRound q)
       (rp_currentRound q + 1) ''customer_return''\<rparr>)
     (upd_stats (\<lambda>s. s\<lparr>st_customerReturnUnits := st_customerReturnUnits s + cr_Quantity item\<rparr>) q)"
  have "stable p ?q"
    using assms by (simp add: stable_def productLedger_def mass_def phase_simps plantUnits_def addHold_units)
  then show ?thesis
    by (auto simp: processReturn_def Let_def phase_simps intro!: stable_upd_plant)
qed

lemma stable_processCustomerReturns:
  assumes "phaseOk p"
  shows "stable p (processCustomerReturns p)"
proof -
  have run: "stable p q \<Longrightarrow> \<forall>i \<in> set items. 0 < cr_Quantity i \<Longrightarrow> stable p (foldl processReturn q items)" for q items
    by (induction items arbitrary: q) (simp_all add: processReturn_stable)
  have "stable p (foldl processReturn (upd_plant (\<lambda>s. s\<lparr>pl_PendingReturns := filter Q (pl_PendingReturns (plant p))\<rparr>) p)
      (filter P (pl_PendingReturns (plant p))))" for P Q
    using assms by (intro run stable_upd_plant) (auto simp: stateOk_def plantOk_def returnsOk_def)
  then show ?thesis
    by (auto simp: processCustomerReturns_def Let_def syncCustomerBacklog_def intro!: stable_upd_plant)
qed

lemma stable_activateTargets: "stable p (activateTargets p)"
  by (simp add: activateTargets_def Let_def)

section \<open>What production and sales count\<close>

definition tradeCounts :: "roundPhase \<Rightarrow> Units \<times> Units" where
  "tradeCounts p = (st_shippedUnits (rp_stats p), st_customerReturnUnits (rp_stats p))"

lemma tradeCounts_keep [phase_simps]:
  "tradeCounts (appendEvent t a s pl p) = tradeCounts p" "tradeCounts (upd_plant f p) = tradeCounts p"
  "tradeCounts (p\<lparr>rp_random := r\<rparr>) = tradeCounts p" "tradeCounts (p\<lparr>rp_stressedStations := x\<rparr>) = tradeCounts p"
  "tradeCounts (upd_station i g p) = tradeCounts p" "tradeCounts (applyCashDelta d p) = tradeCounts p"
  "tradeCounts (addDisbursements d p) = tradeCounts p"
  by (simp_all add: tradeCounts_def phase_simps addDisbursements_def)

lemma tradeCounts_stats [phase_simps]:
  "tradeCounts (upd_stats (\<lambda>s. s\<lparr>st_scrapUnits := f1 s\<rparr>) p) = tradeCounts p"
  "tradeCounts (upd_stats (\<lambda>s. s\<lparr>st_reworkUnits := f1 s\<rparr>) p) = tradeCounts p"
  "tradeCounts (upd_stats (\<lambda>s. s\<lparr>st_producedUnits := f1 s\<rparr>) p) = tradeCounts p"
  "tradeCounts (upd_stats (\<lambda>s. s\<lparr>st_overtimeUnits := f1 s\<rparr>) p) = tradeCounts p"
  "tradeCounts (upd_stats (\<lambda>s. s\<lparr>st_productionSpend := f1 s\<rparr>) p) = tradeCounts p"
  by (simp_all add: tradeCounts_def phase_simps)

lemma tradeCounts_complete [phase_simps]:
  "tradeCounts (completeFinishedUnits a b n c ot p) = tradeCounts p"
  by (simp add: completeFinishedUnits_def scrapUnits_def reworkUnits_def holdUnits_def goodUnits_def
      Let_def phase_simps split: prod.split)

lemma tradeCounts_production [phase_simps]:
  "tradeCounts (startWork w a bom n p) = tradeCounts p"
  "tradeCounts (stressStation i w p) = tradeCounts p"
  "tradeCounts (routeWork i al n c ot p) = tradeCounts p"
  "tradeCounts (settleProduction p) = tradeCounts p"
  by (simp_all add: startWork_def stressStation_def routeWork_def settleProduction_def Let_def
      phase_simps split: prod.split)

lemma tradeCounts_release [phase_simps]: "tradeCounts (releaseProduct w p r) = tradeCounts p"
  by (simp add: releaseProduct_def Let_def phase_simps)

lemma tradeCounts_releases [phase_simps]: "tradeCounts (foldl (releaseProduct w) p rs) = tradeCounts p"
  by (induction rs arbitrary: p) (simp_all add: tradeCounts_release)

lemma tradeCounts_work [phase_simps]:
  "tradeCounts (snd (snd (snd (workStation i a n c acc)))) = tradeCounts (snd (snd acc))"
  by (cases acc) (simp add: workStation_def Let_def phase_simps split: prod.split)

lemma tradeCounts_allocate [phase_simps]:
  "tradeCounts (snd (snd (allocateCapacity cap acc a))) = tradeCounts (snd (snd acc))"
  by (cases acc) (simp add: allocateCapacity_def Let_def phase_simps case_prod_beta)

lemma tradeCounts_allocations:
  "tradeCounts (snd (snd (foldl (allocateCapacity cap) acc as))) = tradeCounts (snd (snd acc))"
  by (induction as arbitrary: acc) (simp_all add: tradeCounts_allocate)

lemma tradeCounts_resolveProduction: "tradeCounts (resolveProduction action p) = tradeCounts p"
  by (simp add: resolveProduction_def Let_def phase_simps tradeCounts_allocations case_prod_beta
      split: option.split)

lemma returns_sels [phase_simps]:
  "st_customerReturnUnits (rp_stats (scheduleReceivable x y z p)) = st_customerReturnUnits (rp_stats p)"
  "st_customerReturnUnits (rp_stats (scheduleCustomerReturns a b n c p)) = st_customerReturnUnits (rp_stats p)"
  by (simp_all add: scheduleReceivable_def scheduleCustomerReturns_def Let_def phase_simps
      addReceipts_def split: prod.split)

lemma salesLoop_returns:
  "st_customerReturnUnits (rp_stats (snd (salesLoop prices entries p))) = st_customerReturnUnits (rp_stats p)"
  by (induction entries arbitrary: p)
    (simp_all add: Let_def serveEntry_def shipEntry_def phase_simps case_prod_beta)

lemma resolveSales_returns:
  "st_customerReturnUnits (rp_stats (resolveSales action p)) = st_customerReturnUnits (rp_stats p)"
  by (simp add: resolveSales_def Let_def phase_simps salesLoop_returns case_prod_beta)

section \<open>The phases of a round\<close>

lemma activateTargets_keeps [inv_intros, ok_intros]:
  "phase_ext p q \<Longrightarrow> phase_ext p (activateTargets q)" "phaseOk r \<Longrightarrow> phaseOk (activateTargets r)"
  by (auto simp: activateTargets_def Let_def intro!: inv_intros)

lemma resolvePhases_keeps:
  fixes actions :: "ActionSubmission list"
  assumes ok: "phaseOk p" "stationsOk (plant p)" "bomOk (rp_productionBOM p)"
    and spend: "st_productionSpend (rp_stats p) = 0"
  defines "q \<equiv> resolvePhases actions p"
  shows "phase_ext p q" "phaseOk q"
    "productLedger p \<le> productLedger q"
    "productLedger q \<le> productLedger p + requestedReleases (actionForRole actions RoleProductionManager)"
proof -
  let ?prod = "actionForRole actions RoleProductionManager"
  define p1 where "p1 = resolveProcurement (actionForRole actions RoleProcurementManager) (activateTargets p)"
  define p2 where "p2 = receiveSupply p1"
  define p3 where "p3 = releaseInspectionHolds p2"
  define p4 where "p4 = processCustomerReturns p3"
  define p5 where "p5 = resolveProduction ?prod p4"
  have q: "q = resolveSales (actionForRole actions RoleSalesManager) p5"
    by (simp add: q_def resolvePhases_def Let_def p1_def p2_def p3_def p4_def p5_def)
  have p1: "phase_ext p p1" "phaseOk p1" "stable p p1"
    using ok(1) stable_trans [OF stable_activateTargets stable_resolveProcurement]
    by (auto simp: p1_def intro!: inv_intros ok_intros)
  have p2: "phase_ext p p2" "phaseOk p2" "stable p p2"
    using p1 stable_trans [OF p1(3) stable_receiveSupply] by (auto simp: p2_def intro!: inv_intros ok_intros)
  have p3: "phase_ext p p3" "phaseOk p3" "stable p p3"
    using p2 stable_trans [OF p2(3) stable_releaseInspectionHolds [OF p2(2)]]
    by (auto simp: p3_def intro!: inv_intros ok_intros)
  have p4: "phase_ext p p4" "phaseOk p4" "stable p p4"
    using p3 stable_trans [OF p3(3) stable_processCustomerReturns [OF p3(2)]]
    by (auto simp: p4_def intro!: inv_intros ok_intros)
  have pre: "stationsOk (plant p4)" "bomOk (rp_productionBOM p4)" "st_productionSpend (rp_stats p4) = 0"
    using p4(3) phase_extD(5) [OF p4(1)] ok(2,3) spend by (simp_all add: stable_def stationsOk_def)
  note prod = resolveProduction_keeps [OF p4(2) pre, of ?prod, folded p5_def]
  have "tradeCounts p5 = tradeCounts p4" by (simp add: p5_def tradeCounts_resolveProduction)
  with prod(4,5) p4(3) have led: "productLedger p \<le> productLedger p5"
    "productLedger p5 \<le> productLedger p + requestedReleases ?prod"
    by (simp_all add: stable_def productLedger_def tradeCounts_def)
  note sales = resolveSales_spec [OF prod(2), of "actionForRole actions RoleSalesManager", folded q]
  have "productLedger q = productLedger p5"
    using sales(4) resolveSales_returns [of "actionForRole actions RoleSalesManager" p5]
    by (simp add: productLedger_def q)
  with led show "productLedger p \<le> productLedger q"
    "productLedger q \<le> productLedger p + requestedReleases ?prod" by simp_all
  show "phaseOk q" by (rule sales(2))
  show "phase_ext p q" using p4(1) prod(1) sales(1) by (blast intro: phase_ext_trans)
qed

lemma startPhase_ok:
  assumes "stateOk s" "\<forall>ws \<in> set (pl_Workstations (ms_Plant s)). 0 \<le> ws_OvertimeCostPerCapacityUnit ws"
  shows "phaseOk (startPhase r s actions random)" "stationsOk (plant (startPhase r s actions random))"
  using assms reset_usageOk [OF assms(2)]
  by (simp_all add: startPhase_def Let_def stateOk_def plantOk_def stationsOk_def MatchState_Clone_eq)

lemma startPhase_sels [simp]:
  "st_productionSpend (rp_stats (startPhase r s actions random)) = 0"
  "rp_productionBOM (startPhase r s actions random) = rsv_productionBOM r"
  "rp_currentRound (startPhase r s actions random) = ms_CurrentRound s"
  "rp_eventSeq (startPhase r s actions random) = 0"
  "rr_Events (rp_round (startPhase r s actions random)) = []"
  "ms_MatchID (rp_state (startPhase r s actions random)) = ms_MatchID s"
  "ms_CurrentRound (rp_state (startPhase r s actions random)) = ms_CurrentRound s"
  "ledger (startPhase r s actions random) = netCash (ms_Plant s)"
  by (simp_all add: startPhase_def Let_def zero_stats_def resolutionStats.make_def ledger_def netCash_def)

section \<open>World updates\<close>

text \<open>
  What the core relies on when a scenario updates the world between sales and the end of
  the round: it appends numbered events and may change demand and targets, but neither
  moves cash nor touches the identity of the match, and it keeps the state well-formed.
\<close>

definition worldContext :: "roundPhase \<Rightarrow> WorldUpdateContext" where
  "worldContext p = \<lparr>wu_State = rp_state p, wu_Round = rp_round p, wu_Random = rp_random p,
     wu_currentRound = rp_currentRound p, wu_eventSeq = rp_eventSeq p\<rparr>"

definition afterWorld :: "roundPhase \<Rightarrow> WorldUpdateContext \<Rightarrow> roundPhase" where
  "afterWorld p ctx = p\<lparr>rp_state := wu_State ctx, rp_round := wu_Round ctx,
     rp_random := wu_Random ctx, rp_eventSeq := wu_eventSeq ctx\<rparr>"

lemma runWorldUpdate_eq:
  "runWorldUpdate hook p =
     (case hook of None \<Rightarrow> Inr p | Some h \<Rightarrow>
       (case h (worldContext p) of Inl m \<Rightarrow> Inl (WorldUpdateFailed m) | Inr ctx \<Rightarrow> Inr (afterWorld p ctx)))"
  by (auto simp: runWorldUpdate_def worldContext_def afterWorld_def split: option.split sum.split)

definition worldKeeps :: "WorldUpdateHook option \<Rightarrow> bool" where
  "worldKeeps hook \<longleftrightarrow>
     (\<forall>p q. runWorldUpdate hook p = Inr q \<longrightarrow> phase_ext p q \<and> (phaseOk p \<longrightarrow> phaseOk q))"

lemma worldKeeps_None [simp]: "worldKeeps None"
  by (simp add: worldKeeps_def runWorldUpdate_def)

section \<open>Facts about a resolved round\<close>

definition resolvable :: "Resolver \<Rightarrow> MatchState \<Rightarrow> bool" where
  "resolvable r s \<longleftrightarrow>
     stateOk s \<and> (\<forall>ws \<in> set (pl_Workstations (ms_Plant s)). 0 \<le> ws_OvertimeCostPerCapacityUnit ws)
     \<and> bomOk (rsv_productionBOM r) \<and> worldKeeps (rsv_worldUpdate r)"

lemma ResolveRound_Inr:
  "ResolveRound r s actions random = Inr res \<longleftrightarrow>
     ms_MatchID s \<noteq> [] \<and> 0 < ms_CurrentRound s
     \<and> (\<exists>ordered p. normalizeActions s actions = Inr ordered
          \<and> runWorldUpdate (rsv_worldUpdate r) (resolvePhases ordered (startPhase r s ordered random)) = Inr p
          \<and> res = closeRound (rsv_historyLimit r)
              (finalizeRound (actionForRole ordered RoleFinanceController) p))"
  by (auto simp: ResolveRound_def split: sum.splits)

lemma ResolveRound_phase:
  assumes "resolvable r s" "ResolveRound r s actions random = Inr res"
  obtains p ordered where "normalizeActions s actions = Inr ordered"
    "phase_ext (startPhase r s ordered random) p" "phaseOk p"
    "rr_Metrics (rp_round p) = computeMetrics p"
    "res = closeRound (rsv_historyLimit r) p"
proof -
  from assms(2) obtain ordered q where norm: "normalizeActions s actions = Inr ordered"
    and world: "runWorldUpdate (rsv_worldUpdate r) (resolvePhases ordered (startPhase r s ordered random)) = Inr q"
    and res: "res = closeRound (rsv_historyLimit r) (finalizeRound (actionForRole ordered RoleFinanceController) q)"
    by (auto simp: ResolveRound_Inr)
  let ?start = "startPhase r s ordered random"
  have start: "phaseOk ?start" "stationsOk (plant ?start)" "bomOk (rp_productionBOM ?start)"
    using assms(1) startPhase_ok [of s r ordered random] by (simp_all add: resolvable_def)
  note phases = resolvePhases_keeps [OF start startPhase_sels(1), of ordered]
  have q: "phase_ext ?start q" "phaseOk q"
    using assms(1) world phases(1,2) by (auto simp: resolvable_def worldKeeps_def intro: phase_ext_trans)
  note final = finalizeRound_keeps [OF q(2), of "actionForRole ordered RoleFinanceController"]
  have "rr_Metrics (rp_round (finalizeRound a q)) = computeMetrics (finalizeRound a q)" for a
    by (simp add: finalizeRound_def recordMetrics_sels computeMetrics_def Let_def)
      (simp add: recordMetrics_def Let_def appendEvent_def)
  with that [OF norm phase_ext_trans [OF q(1) final(1)] final(2) _ res] show thesis by blast
qed

lemma closeRound_sels [simp]:
  "ms_Plant (res_NextState (closeRound n p)) = plant p"
  "ms_Customers (res_NextState (closeRound n p)) = ms_Customers (rp_state p)"
  "ms_CurrentRound (res_NextState (closeRound n p)) = ms_CurrentRound (rp_state p) + 1"
  "ms_MatchID (res_NextState (closeRound n p)) = ms_MatchID (rp_state p)"
  "ms_Metrics (res_NextState (closeRound n p)) = rr_Metrics (rp_round p)"
  "rr_Metrics (res_Round (closeRound n p)) = rr_Metrics (rp_round p)"
  "rr_Events (res_Round (closeRound n p)) = rr_Events (rp_round p)"
  "rr_Round (res_Round (closeRound n p)) = rr_Round (rp_round p)"
  "rr_Actions (res_Round (closeRound n p)) = rr_Actions (rp_round p)"
  "rr_Commentary (res_Round (closeRound n p)) = rr_Commentary (rp_round p)"
  by (simp_all add: closeRound_def Let_def)

lemma appendRecentRound_length:
  "0 < limit \<Longrightarrow> int (length (rh_RecentRounds (appendRecentRound h r limit))) =
     min limit (int (length (rh_RecentRounds h)) + 1)"
  by (auto simp: appendRecentRound_def Let_def cloneRoundHistory_def)

lemma appendRecentRound_last:
  "0 < limit \<Longrightarrow> rh_RecentRounds (appendRecentRound h r limit) \<noteq> []
     \<and> last (rh_RecentRounds (appendRecentRound h r limit)) = RoundRecord_Clone r"
  by (simp add: appendRecentRound_def Let_def last_drop)

lemma appendRecentRound_history_clone:
  "0 < limit \<Longrightarrow> int (length (rh_RecentRounds (RoundHistory_Clone (appendRecentRound h r limit)))) =
     min limit (int (length (rh_RecentRounds h)) + 1)"
  by (simp add: RoundHistory_Clone_def cloneSlice_def appendRecentRound_length)

lemma closeRound_history:
  assumes "0 < limit"
  shows "int (length (rh_RecentRounds (ms_History (res_NextState (closeRound limit p))))) =
      min limit (int (length (rh_RecentRounds (ms_History (rp_state p)))) + 1)
    \<and> last (rh_RecentRounds (ms_History (res_NextState (closeRound limit p)))) =
      res_Round (closeRound limit p)"
  using appendRecentRound_length [OF assms] appendRecentRound_last [OF assms]
  by (simp add: closeRound_def Let_def RoundHistory_Clone_def cloneSlice_def last_map RoundRecord_Clone_idem)

end
