(* ===== verification/Example.thy ===== *)
theory Example
  imports Resolver
begin

text \<open>
  A small concrete match, on which the properties are instantiated: one part, one product,
  two workstations, one supplier and one customer, with an action of every role.
\<close>

definition exampleStation :: "WorkstationID \<Rightarrow> CapacityUnits \<Rightarrow> WorkstationState" where
  "exampleStation w capacity =
     \<lparr>ws_WorkstationID = w, ws_DisplayName = w, ws_CapacityPerRound = capacity,
      ws_EffectiveCapacityPerRound = capacity, ws_StressCapacityLoss = 0,
      ws_StressBufferUnits = 2, ws_StressPenaltyPerExcessUnit = 1,
      ws_LaborCapacityPerRound = 3, ws_LaborUsed = 0, ws_LaborCostPerCapacityUnit = 1,
      ws_OvertimeUsed = 0, ws_OvertimeCostPerCapacityUnit = 2, ws_CapacityUsed = 0\<rparr>"

definition examplePlant :: PlantState where
  "examplePlant =
     \<lparr>pl_Cash = 40, pl_Debt = 5, pl_DebtCeiling = 20,
      pl_PartsInventory = [\<lparr>pi_PartID = ''p'', pi_OnHandQty = 6, pi_UnitCost = 2\<rparr>],
      pl_WIPInventory = [\<lparr>wi_ProductID = ''x'', wi_WorkstationID = ''b'', wi_Quantity = 2, wi_UnitCost = 3\<rparr>],
      pl_FinishedInventory = [\<lparr>fi_ProductID = ''x'', fi_OnHandQty = 3, fi_UnitCost = 4\<rparr>],
      pl_InspectionHolds = [\<lparr>ih_ProductID = ''x'', ih_Quantity = 1, ih_UnitCost = 4,
        ih_HoldRound = 1, ih_ReleaseRound = 2, ih_Reason = ''production_quality''\<rparr>],
      pl_InTransitSupply = [\<lparr>sl_PurchaseOrderID = ''o'', sl_SupplierID = ''s'', sl_PartID = ''p'',
        sl_Quantity = 2, sl_UnitCost = 3, sl_OrderedRound = 1, sl_PromisedRound = 2, sl_ArrivalRound = 2\<rparr>],
      pl_PendingReturns = [],
      pl_Receivables = [\<lparr>cc_CommitmentID = ''r1'', cc_Kind = CashCommitmentReceivable, cc_Amount = 7,
        cc_DueRound = 2, cc_CreatedRound = 1, cc_ReferenceID = ''c''\<rparr>],
      pl_Payables = [\<lparr>cc_CommitmentID = ''p1'', cc_Kind = CashCommitmentPayable, cc_Amount = 4,
        cc_DueRound = 3, cc_CreatedRound = 1, cc_ReferenceID = ''s''\<rparr>],
      pl_Workstations = [exampleStation ''a'' 4, exampleStation ''b'' 4],
      pl_Backlog = [\<lparr>be_CustomerID = ''c'', be_ProductID = ''x'', be_Quantity = 5,
        be_OriginRound = 1, be_AgeInRounds = 0\<rparr>]\<rparr>"

definition exampleState :: MatchState where
  "exampleState =
     \<lparr>ms_MatchID = ''m'', ms_ScenarioID = ''starter'', ms_CurrentRound = 2, ms_Roles = [],
      ms_RoundFlow = \<lparr>rf_Phase = RoundPhaseCollecting, rf_SubmittedRoles = [],
        rf_WaitingOnRoles = [], rf_ProviderWaitingRoles = [], rf_AIRevealDelaySeconds = 0\<rparr>,
      ms_Plant = examplePlant,
      ms_Customers = [\<lparr>cs_CustomerID = ''c'', cs_DisplayName = ''C'', cs_Sentiment = 5,
        cs_PaymentDelayRounds = 0, cs_Backlog = []\<rparr>],
      ms_Suppliers = [\<lparr>ss_SupplierID = ''s'', ss_DisplayName = ''S'', ss_BehaviorID = [],
        ss_BehaviorDisplay = [], ss_OnTimeDeliveryPct = 90, ss_LateDeliveryRounds = 1,
        ss_ReliabilityScore = 90, ss_OrdersPlaced = 1, ss_OrdersReceived = 0, ss_LateDeliveries = 0\<rparr>],
      ms_ActiveTargets = \<lparr>bt_EffectiveRound = 2, bt_ProcurementBudget = 20,
        bt_ProductionSpendBudget = 10, bt_RevenueTarget = 0, bt_CashFloorTarget = 0,
        bt_DebtCeilingTarget = 20\<rparr>,
      ms_Metrics = zero_PlantMetrics,
      ms_History = \<lparr>rh_RecentRounds = []\<rparr>\<rparr>"

definition exampleAction :: "ActionID \<Rightarrow> RoleID \<Rightarrow> RoleAction \<Rightarrow> ActionSubmission" where
  "exampleAction i role action =
     \<lparr>as_ActionID = i, as_MatchID = ''m'', as_Round = 2, as_RoleID = role, as_SubmittedAt = 1,
      as_Action = action,
      as_Commentary = \<lparr>cm_CommentaryID = i, cm_MatchID = ''m'', cm_Round = 2, cm_ActorID = [],
        cm_RoleID = role, cm_Visibility = [], cm_Body = ''ok''\<rparr>\<rparr>"

definition exampleActions :: "ActionSubmission list" where
  "exampleActions =
     [exampleAction ''s2'' RoleSalesManager \<lparr>act_Procurement = None, act_Production = None,
        act_Sales = Some \<lparr>sa_ProductOffers = [\<lparr>of_ProductID = ''x'', of_UnitPrice = 6\<rparr>]\<rparr>,
        act_Finance = None\<rparr>,
      exampleAction ''b2'' RoleProcurementManager \<lparr>act_Procurement = Some \<lparr>pra_Orders =
          [\<lparr>po_PartID = ''p'', po_SupplierID = ''s'', po_Quantity = 30\<rparr>]\<rparr>,
        act_Production = None, act_Sales = None, act_Finance = None\<rparr>,
      exampleAction ''w2'' RoleProductionManager \<lparr>act_Procurement = None,
        act_Production = Some \<lparr>pda_Releases = [\<lparr>pr_ProductID = ''x'', pr_Quantity = 9\<rparr>],
          pda_CapacityAllocation = [\<lparr>ca_WorkstationID = ''a'', ca_ProductID = ''x'', ca_Capacity = 4\<rparr>,
            \<lparr>ca_WorkstationID = ''b'', ca_ProductID = ''x'', ca_Capacity = 2\<rparr>],
          pda_Overtime = [\<lparr>oa_WorkstationID = ''a'', oa_Capacity = 1\<rparr>]\<rparr>,
        act_Sales = None, act_Finance = None\<rparr>]"

definition exampleOptions :: Options where
  "exampleOptions =
     \<lparr>op_HistoryLimit = 3, op_BacklogExpiryRounds = 2, op_ProcurementTerms = None,
      op_ProductionBOM = Some (\<lambda>_. \<lparr>pb_KnownProduct = True,
        pb_Parts = [\<lparr>bl_PartID = ''p'', bl_Quantity = 2\<rparr>]\<rparr>),
      op_ProductionRoute = None, op_ProductionCost = None, op_QualityProfile = None,
      op_InventoryCost = None, op_ReceivableDelayRounds = 1, op_PayableDelayRounds = 1,
      op_PayrollDelayRounds = 0, op_WorldUpdate = None\<rparr>"

definition exampleResolver :: Resolver where
  "exampleResolver = NewResolver exampleOptions"

lemma example_resolvable: "resolvable exampleResolver exampleState"
  by (simp add: resolvable_def exampleResolver_def NewResolver_def exampleOptions_def
      defaultProductionBOM_def bomOk_def exampleState_def examplePlant_def exampleStation_def
      stateOk_def plantOk_def partsOk_def wipOk_def finishedOk_def holdsOk_def lotsOk_def
      returnsOk_def amountsOk_def backlogOk_def)

lemma example_admissible:
  "(\<forall>a \<in> set exampleActions. admissible exampleState a) \<and> distinct (map as_RoleID exampleActions)"
  by code_simp

lemma example_shape:
  "ms_MatchID exampleState = ''m''" "ms_CurrentRound exampleState = 2"
  "rsv_worldUpdate exampleResolver = None" "rsv_historyLimit exampleResolver = 3"
  "netCash (ms_Plant exampleState) = 35" "rh_RecentRounds (ms_History exampleState) = []"
  by (simp_all add: exampleState_def examplePlant_def exampleResolver_def NewResolver_def
      exampleOptions_def normalizedHistoryLimit_def netCash_def)

lemma example_resolves: "\<exists>res. ResolveRound exampleResolver exampleState exampleActions None = Inr res"
  using example_admissible by (simp add: ResolveRound_Inr normalizeActions_Inr runWorldUpdate_def example_shape)

definition examplePhase :: roundPhase where
  "examplePhase = startPhase exampleResolver exampleState exampleActions None"

lemma example_phase:
  "phaseOk examplePhase" "stationsOk (plant examplePhase)" "bomOk (rp_productionBOM examplePhase)"
  "st_productionSpend (rp_stats examplePhase) = 0" "rp_currentRound examplePhase = 2"
  using example_resolvable startPhase_ok [of exampleState exampleResolver exampleActions None]
  by (simp_all add: resolvable_def examplePhase_def example_shape)

lemma example_plant:
  "plant examplePhase = examplePlant" "ms_ActiveTargets (rp_state examplePhase) = ms_ActiveTargets exampleState"
  "rp_stats examplePhase = zero_stats" "rp_backlogExpiryRounds examplePhase = 2"
  by (simp_all add: examplePhase_def startPhase_def Let_def exampleState_def examplePlant_def
      resetCapacityUsage_def exampleStation_def exampleResolver_def NewResolver_def exampleOptions_def
      normalizedBacklogExpiryRounds_def)

end
