(* ===== verification/MachineAmounts.thy ===== *)
theory MachineAmounts
  imports Sales "HOL-Library.Word"
begin

text \<open>
  The money arithmetic of purchasing and sales in \<open>internal/engine/resolver.go\<close> at the width
  of the code: \<open>domain.Money\<close>, \<open>domain.Units\<close> and \<open>domain.RoundNumber\<close> are Go's \<open>int\<close>, 64 bits
  on the supported platforms, whose operations wrap.  Each operation here is the one of
  \<open>Phase\<close>, \<open>Commitments\<close>, \<open>Procurement\<close> or \<open>Sales\<close> with every sum, difference, negation and
  product of an amount wrapped by \<open>int64\<close>; the lemmas show that it agrees with the unbounded
  one as long as the amounts that go in stay below explicit bounds.
\<close>

section \<open>Sixty-four bits\<close>

definition int64 :: "int \<Rightarrow> int" where
  "int64 n = sint (word_of_int n :: 64 word)"

definition fits64 :: "int \<Rightarrow> bool" where
  "fits64 n \<longleftrightarrow> - (2 ^ 63) \<le> n \<and> n < 2 ^ 63"

lemma int64_fits: "fits64 n \<Longrightarrow> int64 n = n"
  by (simp add: int64_def fits64_def sint_sbintrunc' signed_take_bit_int_eq_self)

lemma int64_small: "\<bar>n\<bar> \<le> 2 ^ 62 \<Longrightarrow> int64 n = n"
  by (rule int64_fits) (auto simp: fits64_def abs_if split: if_splits)

lemma int64_zero [simp]: "int64 0 = 0"
  by (simp add: int64_def)

section \<open>Cash and credit\<close>

definition plantCashDelta64 :: "Money \<Rightarrow> PlantState \<Rightarrow> PlantState" where
  "plantCashDelta64 delta s =
     (if delta = 0 then s
      else if 0 < delta then
        (let paydown = minMoney2 delta (pl_Debt s)
         in s\<lparr>pl_Debt := int64 (pl_Debt s - paydown),
              pl_Cash := int64 (pl_Cash s + int64 (delta - paydown))\<rparr>)
      else
        (let spend = int64 (- delta)
         in if spend \<le> pl_Cash s then s\<lparr>pl_Cash := int64 (pl_Cash s - spend)\<rparr>
            else let deficit = int64 (spend - pl_Cash s)
                 in s\<lparr>pl_Cash := 0, pl_Debt := int64 (pl_Debt s + deficit)\<rparr>))"

definition projectCashDelta64 :: "Money \<Rightarrow> Money \<Rightarrow> Money \<Rightarrow> Money \<times> Money" where
  "projectCashDelta64 cash debt delta =
     (if delta = 0 then (cash, debt)
      else if 0 < delta then
        (let paydown = minMoney2 delta debt;
             debt = int64 (debt - paydown);
             cash = int64 (cash + int64 (delta - paydown))
         in (cash, debt))
      else
        (let spend = int64 (- delta)
         in if spend \<le> cash then (int64 (cash - spend), debt)
            else let deficit = int64 (spend - cash) in (0, int64 (debt + deficit))))"

definition projectedPlantPosition64 :: "PlantState \<Rightarrow> Money \<times> Money" where
  "projectedPlantPosition64 s =
     (let position = (pl_Cash s, pl_Debt s);
          position = foldl (\<lambda>(cash, debt) item. projectCashDelta64 cash debt (int64 (- cc_Amount item)))
                       position (pl_Payables s);
          position = foldl (\<lambda>(cash, debt) item. projectCashDelta64 cash debt (cc_Amount item))
                       position (pl_Receivables s)
      in position)"

definition availableProjectedSpendCapacity64 :: "PlantState \<Rightarrow> Money" where
  "availableProjectedSpendCapacity64 s =
     (let (projectedCash, projectedDebt) = projectedPlantPosition64 s
      in if pl_DebtCeiling s \<le> 0 then max projectedCash 0
         else int64 (max projectedCash 0 + max (int64 (pl_DebtCeiling s - projectedDebt)) 0))"

definition cappedBudget64 :: "Money \<Rightarrow> Money" where
  "cappedBudget64 target = (if target \<le> 0 then 0 else int64 (target + go_div target 10))"

text \<open>The largest amount a plant's position can reach when all its commitments are projected.\<close>

definition commitmentsFit :: "PlantState \<Rightarrow> bool" where
  "commitmentsFit s \<longleftrightarrow>
     \<bar>pl_Cash s\<bar> + \<bar>pl_Debt s\<bar> + sum_of (\<lambda>i. \<bar>cc_Amount i\<bar>) (pl_Payables s)
       + sum_of (\<lambda>i. \<bar>cc_Amount i\<bar>) (pl_Receivables s) + \<bar>pl_DebtCeiling s\<bar> \<le> 2 ^ 60"

lemma projectCashDelta64_eq:
  assumes "\<bar>c\<bar> + \<bar>d\<bar> + \<bar>x\<bar> \<le> 2 ^ 62"
  shows "projectCashDelta64 c d x = projectCashDelta c d x"
    and "\<bar>fst (projectCashDelta c d x)\<bar> + \<bar>snd (projectCashDelta c d x)\<bar> \<le> \<bar>c\<bar> + \<bar>d\<bar> + \<bar>x\<bar>"
proof -
  consider "x = 0" | "0 < x" "x \<le> d" | "0 < x" "d < x" | "x < 0" "- x \<le> c" | "x < 0" "c < - x"
    by linarith
  then show "projectCashDelta64 c d x = projectCashDelta c d x"
    by cases (use assms in \<open>simp_all add: projectCashDelta64_def projectCashDelta_def minMoney2_def
        Let_def int64_small\<close>)
  show "\<bar>fst (projectCashDelta c d x)\<bar> + \<bar>snd (projectCashDelta c d x)\<bar> \<le> \<bar>c\<bar> + \<bar>d\<bar> + \<bar>x\<bar>"
    by (auto simp: projectCashDelta_def minMoney2_def Let_def)
qed

lemma projectAll64_eq:
  assumes "\<And>i. \<bar>f i\<bar> = \<bar>cc_Amount i\<bar>"
    and "\<And>i. i \<in> set items \<Longrightarrow> g i = f i"
    and "\<bar>c\<bar> + \<bar>d\<bar> + sum_of (\<lambda>i. \<bar>cc_Amount i\<bar>) items \<le> 2 ^ 62"
  defines "proj \<equiv> foldl (\<lambda>(cash, debt) item. projectCashDelta cash debt (f item)) (c, d) items"
  shows "foldl (\<lambda>(cash, debt) item. projectCashDelta64 cash debt (g item)) (c, d) items = proj
     \<and> \<bar>fst proj\<bar> + \<bar>snd proj\<bar> \<le> \<bar>c\<bar> + \<bar>d\<bar> + sum_of (\<lambda>i. \<bar>cc_Amount i\<bar>) items"
  using assms(2,3) unfolding proj_def
proof (induction items arbitrary: c d)
  case Nil
  then show ?case by simp
next
  case (Cons i items)
  obtain c' d' where cd: "projectCashDelta c d (f i) = (c', d')" by fastforce
  have "0 \<le> sum_of (\<lambda>i. \<bar>cc_Amount i\<bar>) items" by (rule sum_of_nonneg) simp
  then have "\<bar>c\<bar> + \<bar>d\<bar> + \<bar>f i\<bar> \<le> 2 ^ 62" using Cons.prems(2) by (simp add: assms(1))
  from projectCashDelta64_eq [OF this]
  have step: "projectCashDelta64 c d (g i) = (c', d')" "\<bar>c'\<bar> + \<bar>d'\<bar> \<le> \<bar>c\<bar> + \<bar>d\<bar> + \<bar>cc_Amount i\<bar>"
    using Cons.prems(1) [of i] by (simp_all add: cd assms(1))
  have "\<bar>c'\<bar> + \<bar>d'\<bar> + sum_of (\<lambda>i. \<bar>cc_Amount i\<bar>) items \<le> 2 ^ 62" using step(2) Cons.prems(2) by simp
  from Cons.IH [OF _ this] Cons.prems(1) step cd show ?case by simp
qed

lemma projected64_eq:
  assumes "commitmentsFit s"
  shows "availableProjectedSpendCapacity64 s = availableProjectedSpendCapacity s"
proof -
  let ?pay = "sum_of (\<lambda>i. \<bar>cc_Amount i\<bar>) (pl_Payables s)"
  let ?rec = "sum_of (\<lambda>i. \<bar>cc_Amount i\<bar>) (pl_Receivables s)"
  have nn: "0 \<le> ?pay" "0 \<le> ?rec" by (auto intro: sum_of_nonneg)
  have b: "\<bar>pl_Cash s\<bar> + \<bar>pl_Debt s\<bar> + ?pay + ?rec + \<bar>pl_DebtCeiling s\<bar> \<le> 2 ^ 60"
    using assms by (simp add: commitmentsFit_def)
  have "\<bar>cc_Amount i\<bar> \<le> ?pay" if "i \<in> set (pl_Payables s)" for i
    using that by (intro sum_of_member_le) simp_all
  then have neg: "int64 (- cc_Amount i) = - cc_Amount i" if "i \<in> set (pl_Payables s)" for i
    using that b nn by (intro int64_small) force
  obtain c d where cd: "foldl (\<lambda>(cash, debt) item. projectCashDelta cash debt (- cc_Amount item))
      (pl_Cash s, pl_Debt s) (pl_Payables s) = (c, d)" by fastforce
  from projectAll64_eq [where f = "\<lambda>i. - cc_Amount i" and g = "\<lambda>i. int64 (- cc_Amount i)"
      and items = "pl_Payables s" and c = "pl_Cash s" and d = "pl_Debt s"] neg b nn cd
  have p1: "foldl (\<lambda>(cash, debt) item. projectCashDelta64 cash debt (int64 (- cc_Amount item)))
      (pl_Cash s, pl_Debt s) (pl_Payables s) = (c, d)" "\<bar>c\<bar> + \<bar>d\<bar> \<le> \<bar>pl_Cash s\<bar> + \<bar>pl_Debt s\<bar> + ?pay"
    by simp_all
  obtain c' d' where cd': "foldl (\<lambda>(cash, debt) item. projectCashDelta cash debt (cc_Amount item))
      (c, d) (pl_Receivables s) = (c', d')" by fastforce
  from projectAll64_eq [where f = cc_Amount and g = cc_Amount and items = "pl_Receivables s" and c = c and d = d]
    cd'
  have recs: "\<bar>c\<bar> + \<bar>d\<bar> + ?rec \<le> 2 ^ 62 \<Longrightarrow>
      foldl (\<lambda>(cash, debt) item. projectCashDelta64 cash debt (cc_Amount item))
        (c, d) (pl_Receivables s) = (c', d') \<and> \<bar>c'\<bar> + \<bar>d'\<bar> \<le> \<bar>c\<bar> + \<bar>d\<bar> + ?rec" by simp
  have "\<bar>c\<bar> + \<bar>d\<bar> + ?rec \<le> 2 ^ 62" using p1(2) b nn by simp
  from recs [OF this] p1(2)
  have p2: "foldl (\<lambda>(cash, debt) item. projectCashDelta64 cash debt (cc_Amount item))
      (c, d) (pl_Receivables s) = (c', d')" "\<bar>c'\<bar> + \<bar>d'\<bar> \<le> \<bar>pl_Cash s\<bar> + \<bar>pl_Debt s\<bar> + ?pay + ?rec"
    by linarith+
  have "projectedPlantPosition64 s = (c', d')" "projectedPlantPositionAfterCommitments s = (c', d')"
    by (simp_all add: projectedPlantPosition64_def projectedPlantPositionAfterCommitments_def Let_def
        cd cd' p1(1) p2(1))
  moreover have "int64 (pl_DebtCeiling s - d') = pl_DebtCeiling s - d'"
    "int64 (max c' 0 + max (pl_DebtCeiling s - d') 0) = max c' 0 + max (pl_DebtCeiling s - d') 0"
    using p2(2) b by (auto intro!: int64_small)
  ultimately show ?thesis
    by (simp add: availableProjectedSpendCapacity64_def availableProjectedSpendCapacity_def)
qed

lemma cappedBudget64_eq: "t \<le> 2 ^ 60 \<Longrightarrow> cappedBudget64 t = cappedBudget t"
  by (auto simp: cappedBudget64_def cappedBudget_def go_div_nonneg intro!: int64_small)

section \<open>Purchasing\<close>

definition spendForQuantity64 :: "Units \<Rightarrow> Money \<Rightarrow> Money" where
  "spendForQuantity64 quantity unitCost =
     sint ((word_of_int quantity :: 64 word) * word_of_int unitCost)"

definition orderQuantity64 ::
  "Money \<Rightarrow> Money \<Rightarrow> Money \<Rightarrow> ProcurementTerms \<Rightarrow> Units \<Rightarrow> Units" where
  "orderQuantity64 hardCap spendUsed affordable terms quantity =
    (let allowed = quantity;
         allowed = (if quantity < pt_MinimumOrderQuantity terms
                    then pt_MinimumOrderQuantity terms else allowed);
         allowed =
           (if 0 < hardCap
            then let remaining = int64 (hardCap - spendUsed)
                 in if remaining \<le> 0 then 0
                    else if remaining < spendForQuantity64 allowed (pt_UnitCost terms)
                    then affordableQuantity remaining (pt_UnitCost terms)
                    else allowed
            else allowed);
         allowed = (if affordable < spendForQuantity64 allowed (pt_UnitCost terms)
                    then affordableQuantity affordable (pt_UnitCost terms) else allowed);
         allowed = (if 0 < allowed \<and> allowed < pt_MinimumOrderQuantity terms then 0 else allowed)
     in allowed)"

definition placeOrder64 ::
  "ActionID \<Rightarrow> int \<Rightarrow> PurchaseOrderIntent \<Rightarrow> ProcurementTerms \<Rightarrow> Units \<Rightarrow>
     Money \<times> roundPhase \<Rightarrow> Money \<times> roundPhase" where
  "placeOrder64 actionID index order terms allowed = (\<lambda>(spendUsed, p).
    (let arrivalRound = int64 (rp_currentRound p + pt_LeadTimeRounds terms);
         lot = \<lparr>sl_PurchaseOrderID = actionID @ ''-po-'' @ pad_itoa 2 (index + 1),
                sl_SupplierID = po_SupplierID order,
                sl_PartID = po_PartID order,
                sl_Quantity = allowed,
                sl_UnitCost = pt_UnitCost terms,
                sl_OrderedRound = rp_currentRound p,
                sl_PromisedRound = int64 (rp_currentRound p + pt_LeadTimeRounds terms),
                sl_ArrivalRound = arrivalRound\<rparr>;
         p = recordSupplierOrder (po_SupplierID order) p;
         p = upd_plant (\<lambda>s. s\<lparr>pl_InTransitSupply := pl_InTransitSupply s @ [lot]\<rparr>) p;
         lineSpend = spendForQuantity64 allowed (sl_UnitCost lot);
         spendUsed = int64 (spendUsed + lineSpend);
         p = upd_stats (\<lambda>s. s\<lparr>st_procurementSpend := int64 (st_procurementSpend s + lineSpend)\<rparr>) p;
         p = appendEvent EventPurchaseOrderPlaced ActorPlantSystem
               (''Placed purchase order for '' @ itoa allowed @ '' '' @ po_PartID order)
               [(''purchase_order_id'', AString (sl_PurchaseOrderID lot)),
                (''part_id'', AString (po_PartID order)),
                (''supplier_id'', AString (po_SupplierID order)),
                (''quantity'', AInt allowed),
                (''lead_time_rounds'', AInt (pt_LeadTimeRounds terms)),
                (''promised_round'', AInt (sl_PromisedRound lot)),
                (''reliability_score'', AInt (supplierReliabilityScore
                    (ms_Suppliers (rp_state p)) (po_SupplierID order))),
                (''unit_cost'', AInt (sl_UnitCost lot))] p
     in (spendUsed, p)))"

definition procurementOrder64 ::
  "ActionID \<Rightarrow> Money \<Rightarrow> int \<Rightarrow> PurchaseOrderIntent \<Rightarrow> Money \<times> roundPhase \<Rightarrow> Money \<times> roundPhase" where
  "procurementOrder64 actionID hardCap index order = (\<lambda>(spendUsed, p).
    (if po_Quantity order \<le> 0 then (spendUsed, p)
     else let terms = rp_procurementTerms p
            \<lparr>ptc_State = MatchState_Clone (rp_state p), ptc_CurrentRound = rp_currentRound p,
             ptc_Order = order\<rparr>
     in if \<not> pt_KnownSupplier terms
     then (spendUsed, appendEvent EventRuleAdjustment ActorPlantSystem
             ''Rejected procurement order for unsupported supplier/part combination''
             [(''part_id'', AString (po_PartID order)),
              (''supplier_id'', AString (po_SupplierID order)),
              (''quantity'', AInt (po_Quantity order))] p)
     else let terms = normalizedTerms terms;
              affordable = availableProjectedSpendCapacity64 (plant p);
              allowed = orderQuantity64 hardCap spendUsed affordable terms (po_Quantity order);
              p = (if allowed \<noteq> po_Quantity order
                   then appendEvent EventRuleAdjustment ActorPlantSystem
                     ''Trimmed procurement order to stay within budget or debt constraints''
                     (trimmedOrderPayload order terms allowed) p
                   else p)
     in if allowed \<le> 0
     then (spendUsed, appendEvent EventRuleAdjustment ActorPlantSystem
             ''Rejected procurement order because no legal quantity remained''
             (trimmedOrderPayload order terms 0) p)
     else placeOrder64 actionID index order terms allowed (spendUsed, p)))"

fun procurementOrders64 ::
  "ActionID \<Rightarrow> Money \<Rightarrow> int \<Rightarrow> PurchaseOrderIntent list \<Rightarrow> Money \<times> roundPhase \<Rightarrow> Money \<times> roundPhase" where
  "procurementOrders64 actionID hardCap index [] acc = acc"
| "procurementOrders64 actionID hardCap index (order # orders) acc =
     procurementOrders64 actionID hardCap (index + 1) orders
       (procurementOrder64 actionID hardCap index order acc)"

definition schedulePayable64 :: "Money \<Rightarrow> string \<Rightarrow> roundPhase \<Rightarrow> roundPhase" where
  "schedulePayable64 amount referenceID p =
    (if amount \<le> 0 then p
     else if rp_payableDelayRounds p = 0
     then let p = upd_plant (plantCashDelta64 (int64 (- amount))) p;
              p = upd_stats (\<lambda>s. s\<lparr>st_cashDisbursements := int64 (st_cashDisbursements s + amount)\<rparr>) p
       in appendEvent EventCashChanged ActorPlantSystem ''Procurement spending applied''
            ((''delta'', AInt (int64 (- amount))) # cashPayload p) p
     else let item =
         \<lparr>cc_CommitmentID = commitmentID ''ap'' (rp_currentRound p) (pl_Payables (plant p)),
          cc_Kind = CashCommitmentPayable,
          cc_Amount = amount,
          cc_DueRound = int64 (rp_currentRound p + rp_payableDelayRounds p),
          cc_CreatedRound = rp_currentRound p,
          cc_ReferenceID = referenceID\<rparr>;
         p = upd_plant (\<lambda>s. s\<lparr>pl_Payables := pl_Payables s @ [item]\<rparr>) p
       in appendEvent EventPayableScheduled ActorPlantSystem ''Scheduled supplier payable''
            (commitmentPayload item) p)"

definition resolveProcurement64 :: "ActionSubmission option \<Rightarrow> roundPhase \<Rightarrow> roundPhase" where
  "resolveProcurement64 action p =
    (case action of
       None \<Rightarrow> p
     | Some action \<Rightarrow>
        (case act_Procurement (as_Action action) of
           None \<Rightarrow> p
         | Some procurement \<Rightarrow>
             let hardCap = cappedBudget64 (bt_ProcurementBudget (ms_ActiveTargets (rp_state p)));
                 (spendUsed, p) = procurementOrders64 (as_ActionID action) hardCap 0
                   (pra_Orders procurement) (0, p)
             in if 0 < spendUsed
                then schedulePayable64 spendUsed (''procurement-r'' @ itoa (rp_currentRound p)) p
                else p))"

section \<open>Purchasing within the bounds\<close>

lemma spendForQuantity64_eq: "spendForQuantity64 q c = int64 (spendForQuantity q c)"
  by (simp add: spendForQuantity64_def spendForQuantity_def int64_def)

lemma orderQuantity64_eq:
  assumes "0 < pt_UnitCost terms"
    and "fits64 (spendForQuantity (max quantity (pt_MinimumOrderQuantity terms)) (pt_UnitCost terms))"
    and "0 < hardCap \<Longrightarrow> fits64 (hardCap - spendUsed)"
  shows "orderQuantity64 hardCap spendUsed affordable terms quantity
       = orderQuantity hardCap spendUsed affordable terms quantity"
proof -
  let ?c = "pt_UnitCost terms" and ?m = "pt_MinimumOrderQuantity terms"
  define a where "a = (if quantity < ?m then ?m else quantity)"
  have a: "spendForQuantity64 a ?c = spendForQuantity a ?c"
    using assms(2) by (simp add: spendForQuantity64_eq int64_fits a_def max_def split: if_splits)
  have rem: "0 < hardCap \<Longrightarrow> int64 (hardCap - spendUsed) = hardCap - spendUsed"
    by (rule int64_fits) (rule assms(3))
  define b where "b = (if 0 < hardCap then if hardCap - spendUsed \<le> 0 then 0
      else if hardCap - spendUsed < spendForQuantity a ?c then affordableQuantity (hardCap - spendUsed) ?c
      else a else a)"
  have "fits64 (spendForQuantity b ?c)"
  proof (cases "b = a \<or> b = 0")
    case True
    then show ?thesis
      using assms(2) by (auto simp: a_def max_def spendForQuantity_def fits64_def split: if_splits)
  next
    case False
    then have b: "0 < hardCap" "0 < hardCap - spendUsed" "b = affordableQuantity (hardCap - spendUsed) ?c"
      by (auto simp: b_def split: if_splits)
    note spec = affordableQuantity_spec [OF assms(1), of "hardCap - spendUsed"]
    have "0 \<le> spendForQuantity b ?c" using spec(1) assms(1) by (simp add: b(3) spendForQuantity_def)
    moreover have "spendForQuantity b ?c \<le> hardCap - spendUsed" using spec(2) b by simp
    ultimately show ?thesis using assms(3) [OF b(1)] by (simp add: fits64_def)
  qed
  then have b': "spendForQuantity64 b ?c = spendForQuantity b ?c"
    by (simp add: spendForQuantity64_eq int64_fits)
  have first: "(if 0 < hardCap then let remaining = int64 (hardCap - spendUsed)
      in if remaining \<le> 0 then 0
         else if remaining < spendForQuantity64 a ?c then affordableQuantity remaining ?c else a
      else a) = b"
    by (simp add: Let_def rem a b_def)
  show ?thesis
    unfolding orderQuantity64_def orderQuantity_def Let_def a_def [symmetric]
    unfolding first [unfolded Let_def] b'
    unfolding b_def ..
qed

text \<open>
  The bounds under which a procurement action cannot wrap: about a million orders, each of at
  most about a million units at a cost of about a million, on amounts of at most \<open>2 ^ 60\<close>.
  An order is then worth at most \<open>2 ^ 40\<close> and all of them at most \<open>2 ^ 60\<close>.
\<close>

definition orderFits :: "(ProcurementTermsContext \<Rightarrow> ProcurementTerms) \<Rightarrow> PurchaseOrderIntent \<Rightarrow> bool" where
  "orderFits hook order \<longleftrightarrow> po_Quantity order \<le> 2 ^ 20
     \<and> (\<forall>ctx. ptc_Order ctx = order \<longrightarrow> pt_UnitCost (hook ctx) \<le> 2 ^ 20
          \<and> pt_MinimumOrderQuantity (hook ctx) \<le> 2 ^ 20 \<and> pt_LeadTimeRounds (hook ctx) \<le> 2 ^ 20)"

definition procurementFits :: "ActionSubmission option \<Rightarrow> roundPhase \<Rightarrow> bool" where
  "procurementFits action p \<longleftrightarrow>
     commitmentsFit (plant p) \<and> bt_ProcurementBudget (ms_ActiveTargets (rp_state p)) \<le> 2 ^ 60
     \<and> \<bar>st_procurementSpend (rp_stats p)\<bar> \<le> 2 ^ 60 \<and> \<bar>st_cashDisbursements (rp_stats p)\<bar> \<le> 2 ^ 60
     \<and> \<bar>rp_currentRound p\<bar> \<le> 2 ^ 60 \<and> \<bar>rp_payableDelayRounds p\<bar> \<le> 2 ^ 60
     \<and> (\<forall>a procurement. action = Some a \<longrightarrow> act_Procurement (as_Action a) = Some procurement \<longrightarrow>
          int (length (pra_Orders procurement)) \<le> 2 ^ 20
          \<and> (\<forall>order \<in> set (pra_Orders procurement). orderFits (rp_procurementTerms p) order))"

lemma normalizedTerms_bounds:
  "1 \<le> b \<Longrightarrow> pt_UnitCost t \<le> b \<Longrightarrow> pt_UnitCost (normalizedTerms t) \<le> b"
  "1 \<le> b \<Longrightarrow> pt_LeadTimeRounds t \<le> b \<Longrightarrow> pt_LeadTimeRounds (normalizedTerms t) \<le> b"
  by (simp_all add: normalizedTerms_def Let_def)

lemma spend_bound: "q \<le> 2 ^ 20 \<Longrightarrow> 0 < c \<Longrightarrow> c \<le> 2 ^ 20 \<Longrightarrow> spendForQuantity q c \<le> 2 ^ 40"
proof -
  assume "q \<le> 2 ^ 20" "0 < c" "c \<le> 2 ^ 20"
  then have "q * c \<le> 2 ^ 20 * c" "2 ^ 20 * c \<le> 2 ^ 20 * (2 ^ 20 :: int)"
    by (simp_all add: mult_right_mono)
  then show ?thesis by (simp add: spendForQuantity_def)
qed

lemma placeOrder64_eq:
  assumes "0 < n" "n \<le> 2 ^ 20" "0 < pt_UnitCost terms" "pt_UnitCost terms \<le> 2 ^ 20"
    and "0 < pt_LeadTimeRounds terms" "pt_LeadTimeRounds terms \<le> 2 ^ 20" "\<bar>rp_currentRound p\<bar> \<le> 2 ^ 60"
    and "0 \<le> used" "used \<le> 2 ^ 61" "\<bar>st_procurementSpend (rp_stats p)\<bar> \<le> 2 ^ 61"
  shows "placeOrder64 a i order terms n (used, p) = placeOrder a i order terms n (used, p)"
proof -
  let ?line = "spendForQuantity n (pt_UnitCost terms)"
  have l: "0 \<le> ?line" "?line \<le> 2 ^ 40"
    using assms(1,3) spend_bound [OF assms(2-4)] by (simp_all add: spendForQuantity_def)
  have line: "spendForQuantity64 n (pt_UnitCost terms) = ?line"
    unfolding spendForQuantity64_eq by (rule int64_small) (use l in simp)
  have sums: "int64 (used + ?line) = used + ?line"
    "int64 (st_procurementSpend (rp_stats p) + ?line) = st_procurementSpend (rp_stats p) + ?line"
    "int64 (rp_currentRound p + pt_LeadTimeRounds terms) = rp_currentRound p + pt_LeadTimeRounds terms"
    using l assms(5-10) by (auto intro!: int64_small)
  have stats: "upd_stats (\<lambda>s. s\<lparr>st_procurementSpend := int64 (st_procurementSpend s + ?line)\<rparr>) q
      = upd_stats (\<lambda>s. s\<lparr>st_procurementSpend := st_procurementSpend s + ?line\<rparr>) q"
    if "rp_stats q = rp_stats p" for q
    by (simp add: upd_stats_def that sums(2))
  show ?thesis
    unfolding placeOrder64_def placeOrder_def Let_def prod.case SupplyLot.simps line sums
    by (subst stats) (simp_all add: phase_simps)
qed

lemma procurementOrder64_eq:
  assumes fits: "commitmentsFit (plant p)" "orderFits (rp_procurementTerms p) order"
    and cap: "hardCap \<le> 2 ^ 61" and round: "\<bar>rp_currentRound p\<bar> \<le> 2 ^ 60"
    and used: "0 \<le> used" "used \<le> 2 ^ 61" and spend: "\<bar>st_procurementSpend (rp_stats p)\<bar> \<le> 2 ^ 61"
  shows "procurementOrder64 a hardCap i order (used, p) = procurementOrder a hardCap i order (used, p)"
    and "fst (procurementOrder a hardCap i order (used, p)) \<le> used + 2 ^ 40"
proof -
  define terms where "terms = normalizedTerms (rp_procurementTerms p
    \<lparr>ptc_State = MatchState_Clone (rp_state p), ptc_CurrentRound = rp_currentRound p, ptc_Order = order\<rparr>)"
  define n where "n = orderQuantity hardCap used (availableProjectedSpendCapacity (plant p)) terms (po_Quantity order)"
  have t: "0 < pt_UnitCost terms" "pt_UnitCost terms \<le> 2 ^ 20" "0 < pt_LeadTimeRounds terms"
    "pt_LeadTimeRounds terms \<le> 2 ^ 20" "pt_MinimumOrderQuantity terms \<le> 2 ^ 20" "po_Quantity order \<le> 2 ^ 20"
    using fits(2) by (simp_all add: terms_def normalizedTerms_pos normalizedTerms_bounds orderFits_def)
  have n: "n \<le> 2 ^ 20" if "0 < n"
    using orderQuantity_accepts(2) [OF t(1) that [unfolded n_def]] t(5,6) by (simp add: n_def)
  have line: "spendForQuantity n (pt_UnitCost terms) \<le> 2 ^ 40" if "0 < n"
    by (rule spend_bound [OF n [OF that] t(1,2)])
  have n64: "orderQuantity64 hardCap used (availableProjectedSpendCapacity64 (plant p)) terms
      (po_Quantity order) = n" if "0 < po_Quantity order"
    unfolding n_def projected64_eq [OF fits(1)]
  proof (rule orderQuantity64_eq [OF t(1)])
    let ?q = "max (po_Quantity order) (pt_MinimumOrderQuantity terms)"
    have "0 < ?q" "?q \<le> 2 ^ 20" using that t(5,6) by simp_all
    with spend_bound [OF this(2) t(1,2)] t(1)
    have "0 \<le> spendForQuantity ?q (pt_UnitCost terms)" "spendForQuantity ?q (pt_UnitCost terms) \<le> 2 ^ 40"
      by (simp_all add: spendForQuantity_def)
    then show "fits64 (spendForQuantity ?q (pt_UnitCost terms))" by (simp add: fits64_def)
    show "fits64 (hardCap - used)" if "0 < hardCap" using that cap used by (simp add: fits64_def)
  qed
  show "procurementOrder64 a hardCap i order (used, p) = procurementOrder a hardCap i order (used, p)"
  proof (cases "po_Quantity order \<le> 0")
    case True
    then show ?thesis by (simp add: procurementOrder64_def procurementOrder_def)
  next
    case False
    then have pos: "0 < po_Quantity order" by simp
    have place: "placeOrder64 a i order terms n (used, q) = placeOrder a i order terms n (used, q)"
      if "\<not> n \<le> 0" "rp_currentRound q = rp_currentRound p" "rp_stats q = rp_stats p" for q
      using that n t used spend round by (intro placeOrder64_eq) simp_all
    show ?thesis
      unfolding procurementOrder64_def procurementOrder_def prod.case Let_def
        terms_def [symmetric] n64 [OF pos] n_def [symmetric]
      by (simp add: place phase_simps)
  qed
  show "fst (procurementOrder a hardCap i order (used, p)) \<le> used + 2 ^ 40"
    unfolding procurementOrder_def prod.case Let_def terms_def [symmetric] n_def [symmetric]
    using line by (simp add: placeOrder_def Let_def)
qed

lemma procurementOrders64_eq:
  assumes "commitmentsFit (plant p)" "\<forall>order \<in> set orders. orderFits (rp_procurementTerms p) order"
    and "hardCap \<le> 2 ^ 61" "\<bar>rp_currentRound p\<bar> \<le> 2 ^ 60" "0 \<le> used" "0 \<le> k"
    and "used \<le> k * 2 ^ 40" "\<bar>st_procurementSpend (rp_stats p)\<bar> \<le> 2 ^ 60 + k * 2 ^ 40"
    and "k + int (length orders) \<le> 2 ^ 20"
  shows "procurementOrders64 a hardCap i orders (used, p) = procurementOrders a hardCap i orders (used, p)
     \<and> fst (procurementOrders a hardCap i orders (used, p)) \<le> 2 ^ 60"
  using assms
proof (induction orders arbitrary: i used p k)
  case Nil
  then have "k * 2 ^ 40 \<le> 2 ^ 60" by simp
  with Nil.prems(7) show ?case by simp
next
  case (Cons order orders)
  have small: "used \<le> 2 ^ 61" "\<bar>st_procurementSpend (rp_stats p)\<bar> \<le> 2 ^ 61"
    using Cons.prems(7-9) by simp_all
  obtain used' q where step: "procurementOrder a hardCap i order (used, p) = (used', q)" by fastforce
  have fits: "orderFits (rp_procurementTerms p) order" using Cons.prems(2) by simp
  note eq = procurementOrder64_eq [OF Cons.prems(1) fits Cons.prems(3-5) small, of a i, unfolded step]
  from procurementOrder_placed [of hardCap used p a i order] step obtain lots
    where lots: "ordersPlaced hardCap lots (used, p) (used', q)" by auto
  then have "phase_ext p q" "plant q = (plant p)\<lparr>pl_InTransitSupply := pl_InTransitSupply (plant p) @ lots\<rparr>"
    "used' = used + lotSpend lots" "\<forall>lot \<in> set lots. freshLot (rp_currentRound p) lot"
    "st_procurementSpend (rp_stats q) = st_procurementSpend (rp_stats p) + lotSpend lots"
    by (simp_all add: ordersPlaced_def)
  note placed = this lotSpend_nonneg [OF this(4)]
  have keep: "rp_currentRound q = rp_currentRound p" "rp_procurementTerms q = rp_procurementTerms p"
    using placed(1) by (simp_all add: phase_ext_def same_defs)
  have "lotSpend lots \<le> 2 ^ 40" using eq(2) placed(3) by simp
  moreover have "commitmentsFit (plant q)"
    using Cons.prems(1) by (simp add: placed(2) commitmentsFit_def)
  ultimately have "procurementOrders64 a hardCap (i + 1) orders (used', q)
      = procurementOrders a hardCap (i + 1) orders (used', q)
    \<and> fst (procurementOrders a hardCap (i + 1) orders (used', q)) \<le> 2 ^ 60"
    using Cons.prems(2-9) placed(3,5,6)
    by (intro Cons.IH [where k = "k + 1"]) (simp_all add: keep algebra_simps)
  then show ?case by (simp add: eq(1) step)
qed

lemma plantCashDelta64_eq:
  assumes "\<bar>pl_Cash s\<bar> + \<bar>pl_Debt s\<bar> + \<bar>x\<bar> \<le> 2 ^ 62"
  shows "plantCashDelta64 x s = plantCashDelta x s"
proof -
  consider "x = 0" | "0 < x" "x \<le> pl_Debt s" | "0 < x" "pl_Debt s < x" | "x < 0" "- x \<le> pl_Cash s"
    | "x < 0" "pl_Cash s < - x" by linarith
  then show ?thesis
    by cases (use assms in \<open>simp_all add: plantCashDelta64_def plantCashDelta_def minMoney2_def
        Let_def int64_small\<close>)
qed

lemma commitmentsFit_position: "commitmentsFit s \<Longrightarrow> \<bar>pl_Cash s\<bar> + \<bar>pl_Debt s\<bar> \<le> 2 ^ 60"
proof -
  assume *: "commitmentsFit s"
  have "0 \<le> sum_of (\<lambda>i. \<bar>cc_Amount i\<bar>) (pl_Payables s)" "0 \<le> sum_of (\<lambda>i. \<bar>cc_Amount i\<bar>) (pl_Receivables s)"
    by (auto intro: sum_of_nonneg)
  with * show ?thesis by (simp add: commitmentsFit_def)
qed

lemma schedulePayable64_eq:
  assumes "\<bar>pl_Cash (plant p)\<bar> + \<bar>pl_Debt (plant p)\<bar> \<le> 2 ^ 60" "amount \<le> 2 ^ 60"
    and "\<bar>st_cashDisbursements (rp_stats p)\<bar> \<le> 2 ^ 60" "\<bar>rp_currentRound p\<bar> \<le> 2 ^ 60"
    and "\<bar>rp_payableDelayRounds p\<bar> \<le> 2 ^ 60"
  shows "schedulePayable64 amount ref p = schedulePayable amount ref p"
proof (cases "amount \<le> 0")
  case False
  have ints: "int64 (- amount) = - amount" "int64 (st_cashDisbursements (rp_stats p) + amount)
      = st_cashDisbursements (rp_stats p) + amount"
    "int64 (rp_currentRound p + rp_payableDelayRounds p) = rp_currentRound p + rp_payableDelayRounds p"
    using False assms by (auto intro!: int64_small)
  have "plantCashDelta64 (- amount) (plant p) = plantCashDelta (- amount) (plant p)"
    using False assms by (intro plantCashDelta64_eq) simp
  then have cash: "upd_plant (plantCashDelta64 (- amount)) p = applyCashDelta (- amount) p"
    by (simp add: applyCashDelta_def upd_plant_def upd_state_def)
  have stats: "upd_stats (\<lambda>s. s\<lparr>st_cashDisbursements := int64 (st_cashDisbursements s + amount)\<rparr>)
      (applyCashDelta (- amount) p) = addDisbursements amount (applyCashDelta (- amount) p)"
    by (simp add: addDisbursements_def upd_stats_def phase_simps ints(2))
  show ?thesis
    unfolding schedulePayable64_def schedulePayable_def Let_def ints cash stats ..
qed (simp add: schedulePayable64_def schedulePayable_def)

text \<open>Within the bounds the code's purchasing is the unbounded one.\<close>

lemma resolveProcurement64_eq:
  assumes "procurementFits action p"
  shows "resolveProcurement64 action p = resolveProcurement action p"
proof (cases "\<exists>a procurement. action = Some a \<and> act_Procurement (as_Action a) = Some procurement")
  case True
  then obtain a procurement where a: "action = Some a" "act_Procurement (as_Action a) = Some procurement"
    by blast
  have fits: "commitmentsFit (plant p)" "bt_ProcurementBudget (ms_ActiveTargets (rp_state p)) \<le> 2 ^ 60"
    "\<bar>st_procurementSpend (rp_stats p)\<bar> \<le> 2 ^ 60" "\<bar>st_cashDisbursements (rp_stats p)\<bar> \<le> 2 ^ 60"
    "\<bar>rp_currentRound p\<bar> \<le> 2 ^ 60" "\<bar>rp_payableDelayRounds p\<bar> \<le> 2 ^ 60"
    "int (length (pra_Orders procurement)) \<le> 2 ^ 20"
    "\<forall>order \<in> set (pra_Orders procurement). orderFits (rp_procurementTerms p) order"
    using assms a by (simp_all add: procurementFits_def)
  define cap where "cap = cappedBudget (bt_ProcurementBudget (ms_ActiveTargets (rp_state p)))"
  have cap: "cap \<le> 2 ^ 61" using fits(2) by (auto simp: cap_def cappedBudget_def go_div_nonneg)
  obtain used q where uq: "procurementOrders (as_ActionID a) cap 0 (pra_Orders procurement) (0, p) = (used, q)"
    by fastforce
  have loop: "procurementOrders64 (as_ActionID a) cap 0 (pra_Orders procurement) (0, p) = (used, q)"
    "used \<le> 2 ^ 60"
    using procurementOrders64_eq [OF fits(1,8) cap fits(5), of 0 0 "as_ActionID a" 0] fits(3,7)
    by (simp_all add: uq)
  from procurementOrders_placed [of cap "(0, p)" "as_ActionID a" 0 "pra_Orders procurement"] uq
  obtain lots where lots: "ordersPlaced cap lots (0, p) (used, q)" by auto
  have "schedulePayable64 used ref q = schedulePayable used ref q" for ref
    using lots loop(2) commitmentsFit_position [OF fits(1)] fits(4-6)
    by (intro schedulePayable64_eq) (auto simp: ordersPlaced_def phase_ext_def same_defs)
  with a uq loop(1) show ?thesis
    by (simp add: resolveProcurement64_def resolveProcurement_def Let_def cappedBudget64_eq [OF fits(2)]
        flip: cap_def)
next
  case False
  then show ?thesis by (auto simp: resolveProcurement64_def resolveProcurement_def split: option.splits)
qed

section \<open>Sales\<close>

definition scheduleReceivable64 :: "Money \<Rightarrow> string \<Rightarrow> int \<Rightarrow> roundPhase \<Rightarrow> roundPhase" where
  "scheduleReceivable64 amount referenceID delayRounds p =
    (if amount \<le> 0 then p
     else let delayRounds = max 0 delayRounds
     in if delayRounds = 0
     then let p = upd_plant (plantCashDelta64 amount) p;
              p = upd_stats (\<lambda>s. s\<lparr>st_cashReceipts := int64 (st_cashReceipts s + amount)\<rparr>) p
       in appendEvent EventCashChanged ActorPlantSystem ''Shipment revenue applied''
            ((''delta'', AInt amount) # cashPayload p) p
     else let item =
         \<lparr>cc_CommitmentID = commitmentID ''ar'' (rp_currentRound p) (pl_Receivables (plant p)),
          cc_Kind = CashCommitmentReceivable,
          cc_Amount = amount,
          cc_DueRound = int64 (rp_currentRound p + delayRounds),
          cc_CreatedRound = rp_currentRound p,
          cc_ReferenceID = referenceID\<rparr>;
         p = upd_plant (\<lambda>s. s\<lparr>pl_Receivables := pl_Receivables s @ [item]\<rparr>) p
       in appendEvent EventReceivableScheduled ActorPlantSystem ''Scheduled customer receivable''
            (commitmentPayload item) p)"

definition shipEntry64 :: "(ProductID \<Rightarrow> Money) \<Rightarrow> BacklogEntry \<Rightarrow> Units \<Rightarrow> roundPhase \<Rightarrow> roundPhase" where
  "shipEntry64 prices entry shipped p =
    (let unitCost = finishedUnitCost (pl_FinishedInventory (plant p)) (be_ProductID entry);
         p = upd_plant (\<lambda>s. s\<lparr>pl_FinishedInventory :=
               takeFinishedInventory (pl_FinishedInventory s) (be_ProductID entry) shipped\<rparr>) p;
         unitPrice = prices (be_ProductID entry);
         unitPrice = (if unitPrice \<le> 0 then 1 else unitPrice);
         revenue = sint ((word_of_int shipped :: 64 word) * word_of_int unitPrice);
         p = upd_stats (\<lambda>s. s\<lparr>st_revenue := int64 (st_revenue s + revenue),
               st_shippedUnits := int64 (st_shippedUnits s + shipped)\<rparr>) p;
         p = scheduleReceivable64 revenue
               (be_CustomerID entry @ ''-'' @ be_ProductID entry @ ''-r'' @ itoa (rp_currentRound p))
               (customerPaymentDelay p (be_CustomerID entry)) p;
         p = appendEvent EventShipmentCompleted ActorPlantSystem
               (''Shipped '' @ itoa shipped @ '' '' @ be_ProductID entry @ '' to '' @ be_CustomerID entry)
               [(''customer_id'', AString (be_CustomerID entry)),
                (''product_id'', AString (be_ProductID entry)),
                (''quantity'', AInt shipped),
                (''unit_price'', AInt unitPrice)] p
     in scheduleCustomerReturns (be_CustomerID entry) (be_ProductID entry) shipped unitCost p)"

definition serveEntry64 ::
  "(ProductID \<Rightarrow> Money) \<Rightarrow> BacklogEntry \<Rightarrow> roundPhase \<Rightarrow> BacklogEntry \<times> roundPhase" where
  "serveEntry64 prices entry p =
    (let onHand = finishedQuantity (pl_FinishedInventory (plant p)) (be_ProductID entry);
         shipped = minUnits [be_Quantity entry, onHand]
     in if 0 < shipped
        then (entry\<lparr>be_Quantity := int64 (be_Quantity entry - shipped)\<rparr>, shipEntry64 prices entry shipped p)
        else (entry, p))"

fun salesLoop64 ::
  "(ProductID \<Rightarrow> Money) \<Rightarrow> BacklogEntry list \<Rightarrow> roundPhase \<Rightarrow> BacklogEntry list \<times> roundPhase" where
  "salesLoop64 prices [] p = ([], p)"
| "salesLoop64 prices (entry # entries) p =
    (let (entry, p) = serveEntry64 prices entry p;
         (remaining, p) = salesLoop64 prices entries p
     in (if 0 < be_Quantity entry then entry # remaining else remaining, p))"

definition resolveSales64 :: "ActionSubmission option \<Rightarrow> roundPhase \<Rightarrow> roundPhase" where
  "resolveSales64 action p =
    (let prices = priceByProduct action;
         backlog = effectiveBacklog (rp_state p)
     in if backlog = []
        then let p = syncCustomerBacklog [] p in upd_plant (\<lambda>s. s\<lparr>pl_Backlog := []\<rparr>) p
        else let backlog = sort_by backlogCompare backlog;
                 (remaining, p) = salesLoop64 prices backlog p;
                 p = upd_plant (\<lambda>s. s\<lparr>pl_Backlog := remaining\<rparr>) p
             in syncCustomerBacklog remaining p)"

section \<open>Sales within the bounds\<close>

text \<open>Room for \<open>k\<close> shipments more on top of amounts of at most \<open>2 ^ 60\<close>.\<close>

definition salesRoom :: "int \<Rightarrow> roundPhase \<Rightarrow> bool" where
  "salesRoom k p \<longleftrightarrow>
     \<bar>pl_Cash (plant p)\<bar> + \<bar>pl_Debt (plant p)\<bar> \<le> 2 ^ 60 + k * 2 ^ 40
     \<and> \<bar>st_revenue (rp_stats p)\<bar> \<le> 2 ^ 60 + k * 2 ^ 40
     \<and> \<bar>st_cashReceipts (rp_stats p)\<bar> \<le> 2 ^ 60 + k * 2 ^ 40
     \<and> \<bar>st_shippedUnits (rp_stats p)\<bar> \<le> 2 ^ 60 + k * 2 ^ 40
     \<and> \<bar>rp_currentRound p\<bar> \<le> 2 ^ 60 \<and> rp_receivableDelayRounds p \<le> 2 ^ 60
     \<and> (\<forall>customer \<in> set (ms_Customers (rp_state p)). cs_PaymentDelayRounds customer \<le> 2 ^ 60)"

text \<open>
  The bounds under which sales cannot wrap: about a million backlog entries of at most about
  a million units each, prices of about a million, on amounts of at most \<open>2 ^ 60\<close>.
\<close>

definition salesFits :: "ActionSubmission option \<Rightarrow> roundPhase \<Rightarrow> bool" where
  "salesFits action p \<longleftrightarrow> salesRoom 0 p
     \<and> (\<forall>k. priceByProduct action k \<le> 2 ^ 20)
     \<and> int (length (effectiveBacklog (rp_state p))) \<le> 2 ^ 20
     \<and> (\<forall>entry \<in> set (effectiveBacklog (rp_state p)). be_Quantity entry \<le> 2 ^ 20)"

lemma customerPaymentDelay_bound: "salesRoom k p \<Longrightarrow> customerPaymentDelay p c \<le> 2 ^ 60"
proof -
  assume room: "salesRoom k p"
  have "cs_PaymentDelayRounds customer \<le> 2 ^ 60"
    if "findCustomer (ms_Customers (rp_state p)) c = Some customer" for customer
    using room find_first_Some [OF that [unfolded findCustomer_def]] by (simp add: salesRoom_def)
  with room show ?thesis by (auto simp: customerPaymentDelay_def salesRoom_def split: option.split)
qed

lemma plantCashDelta_position:
  "\<bar>pl_Cash (plantCashDelta x s)\<bar> + \<bar>pl_Debt (plantCashDelta x s)\<bar> \<le> \<bar>pl_Cash s\<bar> + \<bar>pl_Debt s\<bar> + \<bar>x\<bar>"
  by (auto simp: plantCashDelta_def minMoney2_def Let_def)

lemma scheduleReceivable64_eq:
  assumes "salesRoom k p" "k \<le> 2 ^ 21" "amount \<le> 2 ^ 40" "delay \<le> 2 ^ 60"
  shows "scheduleReceivable64 amount ref delay p = scheduleReceivable amount ref delay p"
proof (cases "amount \<le> 0")
  case False
  have ints: "int64 (st_cashReceipts (rp_stats p) + amount) = st_cashReceipts (rp_stats p) + amount"
    "int64 (rp_currentRound p + max 0 delay) = rp_currentRound p + max 0 delay"
    using False assms by (auto simp: salesRoom_def intro!: int64_small)
  have "plantCashDelta64 amount (plant p) = plantCashDelta amount (plant p)"
    using False assms(1-3) by (intro plantCashDelta64_eq) (simp add: salesRoom_def)
  then have cash: "upd_plant (plantCashDelta64 amount) p = applyCashDelta amount p"
    by (simp add: applyCashDelta_def upd_plant_def upd_state_def)
  have stats: "upd_stats (\<lambda>s. s\<lparr>st_cashReceipts := int64 (st_cashReceipts s + amount)\<rparr>)
      (applyCashDelta amount p) = addReceipts amount (applyCashDelta amount p)"
    by (simp add: addReceipts_def upd_stats_def phase_simps ints(1))
  show ?thesis
    unfolding scheduleReceivable64_def scheduleReceivable_def Let_def ints cash stats ..
qed (simp add: scheduleReceivable64_def scheduleReceivable_def)

lemma scheduleReceivable_position:
  "\<bar>pl_Cash (plant (scheduleReceivable amount ref d p))\<bar> + \<bar>pl_Debt (plant (scheduleReceivable amount ref d p))\<bar>
     \<le> \<bar>pl_Cash (plant p)\<bar> + \<bar>pl_Debt (plant p)\<bar> + \<bar>amount\<bar>"
  "\<bar>st_cashReceipts (rp_stats (scheduleReceivable amount ref d p))\<bar> \<le> \<bar>st_cashReceipts (rp_stats p)\<bar> + \<bar>amount\<bar>"
  using plantCashDelta_position [of amount "plant p"]
  by (auto simp: scheduleReceivable_def Let_def phase_simps addReceipts_def)

lemma scheduled_sels [phase_simps]:
  "pl_Cash (plant (scheduleCustomerReturns a b n c p)) = pl_Cash (plant p)"
  "pl_Debt (plant (scheduleCustomerReturns a b n c p)) = pl_Debt (plant p)"
  "st_cashReceipts (rp_stats (scheduleCustomerReturns a b n c p)) = st_cashReceipts (rp_stats p)"
  "ms_Customers (rp_state (scheduleCustomerReturns a b n c p)) = ms_Customers (rp_state p)"
  "rp_receivableDelayRounds (scheduleCustomerReturns a b n c p) = rp_receivableDelayRounds p"
  "rp_currentRound (scheduleCustomerReturns a b n c p) = rp_currentRound p"
  by (simp_all add: scheduleCustomerReturns_def Let_def phase_simps upd_plant_def appendEvent_def
      split: prod.split)

lemma receivable_sels [phase_simps]:
  "ms_Customers (rp_state (scheduleReceivable x y z p)) = ms_Customers (rp_state p)"
  "rp_receivableDelayRounds (scheduleReceivable x y z p) = rp_receivableDelayRounds p"
  "rp_currentRound (scheduleReceivable x y z p) = rp_currentRound p"
  by (simp_all add: scheduleReceivable_def Let_def phase_simps addReceipts_def upd_plant_def
      applyCashDelta_def appendEvent_def)

lemma shipEntry64_eq:
  assumes room: "salesRoom k p" "0 \<le> k" "k \<le> 2 ^ 20" and n: "0 < n" "n \<le> 2 ^ 20"
    and price: "prices (be_ProductID entry) \<le> 2 ^ 20"
  shows "shipEntry64 prices entry n p = shipEntry prices entry n p \<and> salesRoom (k + 1) (shipEntry prices entry n p)"
proof -
  let ?k = "be_ProductID entry"
  define u where "u = (if prices ?k \<le> 0 then 1 else prices ?k)"
  have u: "0 < u" "u \<le> 2 ^ 20" using price by (simp_all add: u_def)
  then have rev: "0 < n * u" "n * u \<le> 2 ^ 40"
    using n spend_bound [OF n(2) u] by (simp_all add: spendForQuantity_def)
  have rev64: "sint ((word_of_int n :: 64 word) * word_of_int u) = n * u"
    using int64_small [of "n * u"] rev by (simp add: int64_def)
  define p1 where "p1 = upd_plant (\<lambda>s. s\<lparr>pl_FinishedInventory :=
      takeFinishedInventory (pl_FinishedInventory s) ?k n\<rparr>) p"
  define p2 where "p2 = upd_stats (\<lambda>s. s\<lparr>st_revenue := st_revenue s + n * u,
      st_shippedUnits := st_shippedUnits s + n\<rparr>) p1"
  have p2: "rp_stats p2 = (rp_stats p)\<lparr>st_revenue := st_revenue (rp_stats p) + n * u,
      st_shippedUnits := st_shippedUnits (rp_stats p) + n\<rparr>"
    "pl_Cash (plant p2) = pl_Cash (plant p)" "pl_Debt (plant p2) = pl_Debt (plant p)"
    "ms_Customers (rp_state p2) = ms_Customers (rp_state p)" "rp_currentRound p2 = rp_currentRound p"
    "rp_receivableDelayRounds p2 = rp_receivableDelayRounds p"
    by (simp_all add: p2_def p1_def phase_simps upd_plant_def)
  have stats: "upd_stats (\<lambda>s. s\<lparr>st_revenue := int64 (st_revenue s + n * u),
      st_shippedUnits := int64 (st_shippedUnits s + n)\<rparr>) p1 = p2"
  proof -
    have "int64 (st_revenue (rp_stats p) + n * u) = st_revenue (rp_stats p) + n * u"
      "int64 (st_shippedUnits (rp_stats p) + n) = st_shippedUnits (rp_stats p) + n"
      using room rev n by (auto simp: salesRoom_def intro!: int64_small)
    then show ?thesis by (simp add: p2_def upd_stats_def p1_def phase_simps)
  qed
  have room2: "salesRoom (k + 1) p2"
    using room rev n abs_triangle_ineq [of "st_revenue (rp_stats p)" "n * u"]
      abs_triangle_ineq [of "st_shippedUnits (rp_stats p)" n]
    by (simp add: salesRoom_def p2 algebra_simps)
  have sched: "scheduleReceivable64 (n * u) ref (customerPaymentDelay p2 c) p2
      = scheduleReceivable (n * u) ref (customerPaymentDelay p2 c) p2" for ref c
    using customerPaymentDelay_bound [OF room2] room(3) rev(2)
    by (intro scheduleReceivable64_eq [OF room2]) simp_all
  have eq: "shipEntry64 prices entry n p = shipEntry prices entry n p"
    unfolding shipEntry64_def shipEntry_def Let_def u_def [symmetric] rev64 p1_def [symmetric] stats
      p2_def [symmetric] sched ..
  define q where "q = scheduleReceivable (n * u)
      (be_CustomerID entry @ ''-'' @ ?k @ ''-r'' @ itoa (rp_currentRound p2))
      (customerPaymentDelay p2 (be_CustomerID entry)) p2"
  have q: "\<bar>pl_Cash (plant q)\<bar> + \<bar>pl_Debt (plant q)\<bar> \<le> \<bar>pl_Cash (plant p)\<bar> + \<bar>pl_Debt (plant p)\<bar> + n * u"
    "\<bar>st_cashReceipts (rp_stats q)\<bar> \<le> \<bar>st_cashReceipts (rp_stats p)\<bar> + n * u"
    using scheduleReceivable_position [of "n * u" _ _ p2] rev(1) by (simp_all add: q_def p2)
  have "salesRoom (k + 1) q"
    using room2 q room(1) rev(2) by (simp add: salesRoom_def q_def phase_simps p2 algebra_simps)
  then have "salesRoom (k + 1) (scheduleCustomerReturns a b m c (appendEvent t x y z q))" for a b m c t x y z
    by (simp add: salesRoom_def phase_simps) (simp add: appendEvent_def)
  then have "salesRoom (k + 1) (shipEntry prices entry n p)"
    unfolding shipEntry_def Let_def u_def [symmetric] p1_def [symmetric] p2_def [symmetric] q_def [symmetric] .
  with eq show ?thesis ..
qed

lemma salesLoop64_eq:
  assumes "salesRoom k p" "0 \<le> k" "k + int (length entries) \<le> 2 ^ 20" "\<forall>x. prices x \<le> 2 ^ 20"
    and "\<forall>entry \<in> set entries. be_Quantity entry \<le> 2 ^ 20"
  shows "salesLoop64 prices entries p = salesLoop prices entries p"
  using assms
proof (induction entries arbitrary: p k)
  case (Cons entry entries)
  define n where "n = minUnits [be_Quantity entry, finishedQuantity (pl_FinishedInventory (plant p)) (be_ProductID entry)]"
  have n: "n \<le> be_Quantity entry" "n \<le> 2 ^ 20" using Cons.prems(5) by (auto simp: n_def)
  have k: "k \<le> 2 ^ 20" "k + 1 + int (length entries) \<le> 2 ^ 20" using Cons.prems(3) by simp_all
  have step: "serveEntry64 prices entry p = serveEntry prices entry p \<and> salesRoom (k + 1) (snd (serveEntry prices entry p))"
  proof (cases "0 < n")
    case True
    have "int64 (be_Quantity entry - n) = be_Quantity entry - n"
      using n True Cons.prems(5) by (intro int64_small) auto
    moreover have "prices (be_ProductID entry) \<le> 2 ^ 20" using Cons.prems(4) by blast
    note shipEntry64_eq [where prices = prices and entry = entry, OF Cons.prems(1,2) k(1) True n(2) this]
    ultimately show ?thesis
      using True by (simp add: serveEntry64_def serveEntry_def Let_def del: minUnits_two flip: n_def)
  next
    case False
    moreover have "salesRoom (k + 1) p" using Cons.prems(1) by (auto simp: salesRoom_def algebra_simps)
    ultimately show ?thesis
      by (simp add: serveEntry64_def serveEntry_def Let_def del: minUnits_two flip: n_def)
  qed
  obtain entry' q where q: "serveEntry prices entry p = (entry', q)" by fastforce
  have "salesLoop64 prices entries q = salesLoop prices entries q"
    using step Cons.prems k by (intro Cons.IH [of "k + 1"]) (simp_all add: q)
  then show ?case using step by (simp add: q)
qed simp

text \<open>Within the bounds the code's sales are the unbounded ones.\<close>

lemma resolveSales64_eq:
  assumes "salesFits action p"
  shows "resolveSales64 action p = resolveSales action p"
proof -
  have "salesLoop64 (priceByProduct action) (sort_by backlogCompare (effectiveBacklog (rp_state p))) p
      = salesLoop (priceByProduct action) (sort_by backlogCompare (effectiveBacklog (rp_state p))) p"
    using assms by (intro salesLoop64_eq [of 0]) (simp_all add: salesFits_def)
  then show ?thesis by (simp add: resolveSales64_def resolveSales_def Let_def)
qed

end
