(* ===== verification/EngineProperties.thy ===== *)
theory EngineProperties
  imports Example MachineAmounts
begin

text \<open>
  The properties of the engine's components, each over the definitions of one theory:
  procurement and supply, production, cash settlement, sales and backlog, the copies and
  timelines of rounds, stock valuation and the validation of actions.  The witness after a
  property applies it to the match of \<open>Example\<close>.
\<close>

section \<open>Procurement and supply\<close>

text \<open>C14: Unless the value of the request or the budget left leaves 64 bits, an accepted purchase
  order is within the budget cap, within the credit left after all commitments and at least
  the supplier's minimum, and it is the largest quantity up to the request (raised to the
  minimum) that is: the wrapping arithmetic of the code then computes the true limits.\<close>

theorem order_quantity_largest:
  fixes hardCap spendUsed affordable :: Money and terms :: ProcurementTerms and quantity :: Units
  assumes "0 < pt_UnitCost terms"
    and "fits64 (spendForQuantity (max quantity (pt_MinimumOrderQuantity terms)) (pt_UnitCost terms))"
    and "0 < hardCap \<longrightarrow> fits64 (hardCap - spendUsed)"
  defines "n \<equiv> orderQuantity64 hardCap spendUsed affordable terms quantity"
  shows "(0 < n \<longrightarrow> withinLimits hardCap spendUsed affordable terms n
       \<and> n \<le> max quantity (pt_MinimumOrderQuantity terms))
     \<and> (\<forall>m. 0 < m \<and> m \<le> max quantity (pt_MinimumOrderQuantity terms)
           \<and> withinLimits hardCap spendUsed affordable terms m \<longrightarrow> m \<le> n)"
proof -
  have "n = orderQuantity hardCap spendUsed affordable terms quantity"
    unfolding n_def using assms(3) by (intro orderQuantity64_eq [OF assms(1,2)]) simp
  then show ?thesis
    using orderQuantity_accepts [OF assms(1)] orderQuantity_largest [OF assms(1)] by blast
qed

lemma order_quantity_largest_witness:
  "\<not> 6 \<le> orderQuantity64 22 0 30 \<lparr>pt_UnitCost = 4, pt_MinimumOrderQuantity = 2, pt_LeadTimeRounds = 1,
       pt_OnTimeDeliveryPct = 100, pt_LateDeliveryRounds = 0, pt_KnownSupplier = True\<rparr> 9
   \<and> 5 \<le> orderQuantity64 22 0 30 \<lparr>pt_UnitCost = 4, pt_MinimumOrderQuantity = 2, pt_LeadTimeRounds = 1,
       pt_OnTimeDeliveryPct = 100, pt_LateDeliveryRounds = 0, pt_KnownSupplier = True\<rparr> 9"
proof -
  let ?t = "\<lparr>pt_UnitCost = 4, pt_MinimumOrderQuantity = 2, pt_LeadTimeRounds = 1,
       pt_OnTimeDeliveryPct = 100, pt_LateDeliveryRounds = 0, pt_KnownSupplier = True\<rparr>"
  define n where "n = orderQuantity64 22 0 30 ?t 9"
  have limits: "withinLimits 22 0 30 ?t m \<longleftrightarrow> 2 \<le> m \<and> m \<le> 5" for m
    by (auto simp: withinLimits_def spendForQuantity_def)
  have "(0 < n \<longrightarrow> withinLimits 22 0 30 ?t n \<and> n \<le> 9) \<and> (\<forall>m. 0 < m \<and> m \<le> 9 \<and> withinLimits 22 0 30 ?t m \<longrightarrow> m \<le> n)"
    using order_quantity_largest [of ?t 9 22 0 30] by (simp add: n_def fits64_def spendForQuantity_def)
  then have "5 \<le> n" "n \<le> 5" unfolding limits by auto
  then show ?thesis by (simp add: n_def)
qed

text \<open>C26: Unless an amount leaves 64 bits, procurement commits the plant to exactly the lots it
  orders: each lot is promised for a later round, their total cost is added to the round's
  procurement spend and taken from cash or booked as a payable, it never exceeds the budget
  with its tolerance when there is a budget, and nothing else of the plant's stock changes.
  The bounds (\<open>procurementFits\<close>) are about a million orders, units and money units, on amounts
  of at most \<open>2 ^ 60\<close>.\<close>

theorem procurement_commitments:
  fixes action :: "ActionSubmission option" and p :: roundPhase
  assumes fits: "procurementFits action p"
  defines "q \<equiv> resolveProcurement64 action p" and "cap \<equiv> cappedBudget64 (bt_ProcurementBudget (ms_ActiveTargets (rp_state p)))"
  shows "\<exists>lots. pl_InTransitSupply (plant q) = pl_InTransitSupply (plant p) @ lots
     \<and> (\<forall>lot \<in> set lots. freshLot (rp_currentRound p) lot)
     \<and> st_procurementSpend (rp_stats q) = st_procurementSpend (rp_stats p) + lotSpend lots
     \<and> netOfPayables (plant q) = netOfPayables (plant p) - lotSpend lots
     \<and> (0 < cap \<longrightarrow> lotSpend lots \<le> cap)
     \<and> pl_PartsInventory (plant q) = pl_PartsInventory (plant p)"
proof (cases rule: resolveProcurement_cases [of action p])
  case 1
  then show ?thesis
    by (intro exI [of _ "[]"]) (simp add: q_def resolveProcurement64_eq [OF fits] lotSpend_def)
next
  case (2 lots used r)
  have q_eq: "q = resolveProcurement action p" by (simp add: q_def resolveProcurement64_eq [OF fits])
  have cap_eq: "cap = cappedBudget (bt_ProcurementBudget (ms_ActiveTargets (rp_state p)))"
    using fits by (simp add: cap_def cappedBudget64_eq procurementFits_def)
  have placed: "plant r = (plant p)\<lparr>pl_InTransitSupply := pl_InTransitSupply (plant p) @ lots\<rparr>"
    "\<forall>lot \<in> set lots. freshLot (rp_currentRound p) lot" "used = lotSpend lots"
    "st_procurementSpend (rp_stats r) = st_procurementSpend (rp_stats p) + lotSpend lots"
    "0 < cap \<longrightarrow> used \<le> cap"
    using 2(1) by (auto simp: ordersPlaced_def cap_eq)
  have "0 \<le> used" using lotSpend_nonneg placed(2,3) by simp
  then have q: "netOfPayables (plant q) = netOfPayables (plant r) - used"
    using 2(2) by (simp add: q_eq schedulePayable_owed)
  have "pl_PartsInventory (plant q) = pl_PartsInventory (plant r)"
    by (simp add: q_eq 2(2) schedulePayable_def Let_def phase_simps)
  with placed q show ?thesis
    by (intro exI [of _ lots]) (simp add: q_eq 2(2) phase_simps netOfPayables_def netCash_def)
qed

lemma example_fits:
  "procurementFits (actionForRole exampleActions RoleProcurementManager) examplePhase"
  "salesFits None examplePhase"
proof -
  have hooks: "rp_procurementTerms examplePhase = (\<lambda>_. \<lparr>pt_UnitCost = 1, pt_MinimumOrderQuantity = 0,
      pt_LeadTimeRounds = 1, pt_OnTimeDeliveryPct = 100, pt_LateDeliveryRounds = 0, pt_KnownSupplier = True\<rparr>)"
    "rp_payableDelayRounds examplePhase = 1" "rp_receivableDelayRounds examplePhase = 1"
    "ms_Customers (rp_state examplePhase) = ms_Customers exampleState"
    by (simp_all add: examplePhase_def startPhase_def Let_def exampleResolver_def NewResolver_def
        exampleOptions_def defaultProcurementTerms_def normalizedDelayRounds_def)
  have "actionForRole exampleActions RoleProcurementManager = Some (exampleActions ! 1)" by code_simp
  then show "procurementFits (actionForRole exampleActions RoleProcurementManager) examplePhase"
    by (simp add: procurementFits_def orderFits_def hooks example_plant example_phase(5) zero_stats_def
        resolutionStats.defs exampleState_def)
      (simp add: commitmentsFit_def examplePlant_def exampleActions_def exampleAction_def)
  show "salesFits None examplePhase"
    by (simp add: salesFits_def salesRoom_def priceByProduct_def hooks example_plant example_phase(5)
        zero_stats_def resolutionStats.defs effectiveBacklog_def exampleState_def)
      (simp add: examplePlant_def)
qed

lemma procurement_commitments_witness:
  "\<exists>lots. pl_InTransitSupply (plant (resolveProcurement64 (actionForRole exampleActions RoleProcurementManager) examplePhase))
       = pl_InTransitSupply (plant examplePhase) @ lots \<and> lotSpend lots \<le> 22"
  using procurement_commitments [OF example_fits(1)]
  by (auto simp: example_plant exampleState_def cappedBudget64_def int64_def go_div_nonneg)

text \<open>C27: Receiving supply loses no part: for every part, what is on hand and what is in
  transit add up to what they were, and every lot still in transit is promised or expected
  for a later round.\<close>

theorem supply_conserved:
  assumes "phaseOk p"
  shows "partQuantity (pl_PartsInventory (plant (receiveSupply p))) k
       + lotQuantity k (pl_InTransitSupply (plant (receiveSupply p)))
       = partQuantity (pl_PartsInventory (plant p)) k + lotQuantity k (pl_InTransitSupply (plant p))
     \<and> (\<forall>lot \<in> set (pl_InTransitSupply (plant (receiveSupply p))).
          rp_currentRound p < sl_PromisedRound lot \<or> rp_currentRound p < sl_ArrivalRound lot)"
proof -
  have lots: "lotsOk (pl_InTransitSupply (plant p))" using assms by (simp add: plantOkD phaseOk_plant)
  obtain a b r where r: "plant r = (plant p)\<lparr>pl_InTransitSupply := b\<rparr>"
    "received (rp_currentRound p) (pl_InTransitSupply (plant p)) a b"
    "receiveSupply p = foldl receiveOne r a"
    using lots by (rule receiveSupply_cases)
  have "lotsOk a" using receivedD(4) [OF r(2) lots] .
  with receivedD(1) [OF r(2), of k] receivedD(3) [OF r(2)] show ?thesis
    by (simp add: r(1,3) receiveAll_quantity receiveAll_inTransit)
qed

lemma supply_conserved_witness:
  "partQuantity (pl_PartsInventory (plant (receiveSupply examplePhase))) ''p''
     + lotQuantity ''p'' (pl_InTransitSupply (plant (receiveSupply examplePhase))) = 8"
  using supply_conserved [OF example_phase(1), of "''p''"]
  by (simp add: example_plant examplePlant_def partQuantity_def)

section \<open>Production\<close>

text \<open>C28: A release starts the largest quantity, up to the request, whose bill of material the
  part stock covers; it takes exactly that bill from the stock and puts that many units into
  work at the first station.\<close>

theorem release_takes_bill:
  fixes p :: roundPhase and release :: ProductionRelease and w :: WorkstationID
  assumes "phaseOk p" "bomOk (rp_productionBOM p)" "0 < pr_Quantity release"
  defines "bom \<equiv> rp_productionBOM p \<lparr>pbc_State = MatchState_Clone (rp_state p),
      pbc_CurrentRound = rp_currentRound p, pbc_ProductID = pr_ProductID release\<rparr>"
  defines "n \<equiv> releaseQuantity (pl_PartsInventory (plant p)) (pb_Parts bom) (pr_Quantity release)"
    and "q \<equiv> releaseProduct w p release"
  assumes "pb_KnownProduct bom" "distinct (map bl_PartID (pb_Parts bom))"
    and "\<exists>line \<in> set (pb_Parts bom). 0 < bl_Quantity line"
  shows "0 \<le> n \<and> n \<le> pr_Quantity release
     \<and> (\<forall>m \<le> pr_Quantity release. m \<le> n \<longleftrightarrow> coversBOM (pl_PartsInventory (plant p)) (pb_Parts bom) m)
     \<and> (\<forall>k. partQuantity (pl_PartsInventory (plant q)) k =
          partQuantity (pl_PartsInventory (plant p)) k - bomDemand (pb_Parts bom) k n)
     \<and> wipQuantity (pl_WIPInventory (plant q)) (pr_ProductID release) w =
          wipQuantity (pl_WIPInventory (plant p)) (pr_ProductID release) w + n"
proof -
  let ?parts = "pl_PartsInventory (plant p)"
  have ok: "partsOk ?parts" using assms(1) by (simp add: plantOkD phaseOk_plant)
  have bom: "\<forall>line \<in> set (pb_Parts bom). 0 \<le> bl_Quantity line"
    using assms(2) by (simp add: bomOk_def bom_def)
  have "pb_Parts bom \<noteq> []" using assms(9) by auto
  then have n: "n = min (pr_Quantity release) (maxBuildableQuantity ?parts (pb_Parts bom))"
    by (simp add: n_def releaseQuantity_def)
  note buildable = maxBuildable_iff [OF ok assms(9)]
  have n0: "0 \<le> n" using maxBuildable_nonneg [of ?parts "pb_Parts bom"] assms(3) by (simp add: n)
  have iff: "m \<le> n \<longleftrightarrow> coversBOM ?parts (pb_Parts bom) m" if "m \<le> pr_Quantity release" for m
    using that by (simp add: n flip: buildable)
  have "coversBOM ?parts (pb_Parts bom) n" by (simp add: n flip: buildable)
  then have "\<forall>k. bomDemand (pb_Parts bom) k n \<le> partQuantity ?parts k"
    using coversBOM_demand [OF ok _ assms(8) bom n0] by blast
  note taken = consume_qty [OF bom n0 ok this]
  have q: "pl_PartsInventory (plant q) =
        (if n \<le> 0 then ?parts else fst (consumePartInventory ?parts (pb_Parts bom) n))"
    "wipQuantity (pl_WIPInventory (plant q)) (pr_ProductID release) w =
        wipQuantity (pl_WIPInventory (plant p)) (pr_ProductID release) w + n"
    using assms(3,7) n0 wip.qty_put [where k = "(pr_ProductID release, w)" and k' = "(pr_ProductID release, w)"]
    by (auto simp: q_def releaseProduct_def startWork_def Let_def phase_simps case_prod_beta
        simp flip: bom_def n_def)
  have "bomDemand (pb_Parts bom) k 0 = 0" for k
    by (simp add: bomDemand_def)
  then have "partQuantity (pl_PartsInventory (plant q)) k = partQuantity ?parts k - bomDemand (pb_Parts bom) k n" for k
    using taken [of k] n0 by (cases "n = 0") (simp_all add: q(1))
  with n0 iff q(2) show ?thesis by (simp add: n)
qed

lemma release_takes_bill_witness:
  "partQuantity (pl_PartsInventory (plant (releaseProduct ''a'' examplePhase
      \<lparr>pr_ProductID = ''x'', pr_Quantity = 9\<rparr>))) ''p'' = 0"
proof -
  let ?r = "\<lparr>pr_ProductID = ''x'', pr_Quantity = 9\<rparr> :: ProductionRelease"
  have hook: "rp_productionBOM examplePhase = (\<lambda>_. \<lparr>pb_KnownProduct = True,
      pb_Parts = [\<lparr>bl_PartID = ''p'', bl_Quantity = 2\<rparr>]\<rparr>)"
    by (simp add: examplePhase_def startPhase_def Let_def exampleResolver_def NewResolver_def exampleOptions_def defaultProductionBOM_def)
  have "releaseQuantity (pl_PartsInventory examplePlant) [\<lparr>bl_PartID = ''p'', bl_Quantity = 2\<rparr>] 9 = 3"
    by (simp add: releaseQuantity_def examplePlant_def maxBuildableQuantity_def partQuantity_def go_div_nonneg Let_def)
  with release_takes_bill [OF example_phase(1,3), of ?r "''a''"]
  show ?thesis by (simp add: hook example_plant bomDemand_def)
    (simp add: examplePlant_def partQuantity_def)
qed



text \<open>The affordable advance is the largest number of capacity units, up to the maximum, whose
  production and overtime cost the available money covers.\<close>

theorem affordable_advance_largest:
  assumes "0 \<le> unitCost" "0 \<le> overtimeCost" "0 < available" "0 \<le> n" "n \<le> maximum"
  shows "n \<le> affordableProductionAdvance maximum base overtime unitCost overtimeCost available
     \<longleftrightarrow> n = 0 \<or> advanceCost base overtime unitCost overtimeCost n \<le> available"
proof -
  note spec = affordableProductionAdvance_spec [OF assms(1,2), of maximum base overtime available]
  let ?a = "affordableProductionAdvance maximum base overtime unitCost overtimeCost available"
  show ?thesis
  proof (cases "n \<le> ?a")
    case True
    moreover have "advanceCost base overtime unitCost overtimeCost n \<le> available" if "n \<noteq> 0"
      using that spec(3) advanceCost_mono [OF assms(1,2) True, of base overtime] assms(4) True by force
    ultimately show ?thesis by blast
  next
    case False
    then show ?thesis using spec(4) [of n] spec(1) assms by auto
  qed
qed

lemma affordable_advance_largest_witness:
  "3 \<le> affordableProductionAdvance 9 2 4 1 2 7 \<and> \<not> 5 \<le> affordableProductionAdvance 9 2 4 1 2 7"
  using affordable_advance_largest [of 1 2 7 3 9 2 4] affordable_advance_largest [of 1 2 7 5 9 2 4]
  by (simp add: advanceCost_def projectedOvertimeUnits_def spendForQuantity_def)

text \<open>A workstation's stressed capacity and its loss add up to its nominal capacity, and more
  work waiting at the station never raises the capacity.\<close>

theorem stressed_capacity:
  "fst (stressedCapacity ws n) + snd (stressedCapacity ws n) = max 0 (ws_CapacityPerRound ws)
     \<and> 0 \<le> fst (stressedCapacity ws n) \<and> 0 \<le> snd (stressedCapacity ws n)
     \<and> fst (stressedCapacity ws (n + int k)) \<le> fst (stressedCapacity ws n)"
  using stressedCapacity_bounds [of ws n "fst (stressedCapacity ws n)" "snd (stressedCapacity ws n)"]
    stressedCapacity_antimono [of n "n + int k" ws] by simp

text \<open>The units of a finished batch all go somewhere: what the plant holds and what was
  scrapped grow together by exactly the batch, whatever the dice say.\<close>

theorem batch_split_complete:
  assumes "0 \<le> quantity"
  shows "mass (completeFinishedUnits product w quantity cost overtime p) = mass p + quantity"
  using assms by (rule completeFinishedUnits_mass)

lemma batch_split_complete_witness:
  "mass (completeFinishedUnits ''x'' ''b'' 7 2 True examplePhase) = 13"
  by (simp add: batch_split_complete) (simp add: mass_def example_plant plantUnits_def examplePlant_def zero_stats_def resolutionStats.defs)

text \<open>While the allocations of a round are worked off, the credit they are checked against does
  not move: an allocation is checked against the money left before the first one.\<close>

theorem allocation_credit_unchanged:
  "availableSpendCapacity (plant (snd (snd (foldl (allocateCapacity cap) (requests, used, p) allocations))))
     = availableSpendCapacity (plant p)"
  using cashPosition_credit [OF cashPosition_allocations [of cap "(requests, used, p)" allocations]] by simp

section \<open>Settling what is due\<close>

text \<open>Collecting settles exactly the receivables that are due: they leave the list, cash net
  of debt grows by their sum, and so do the round's cash receipts.\<close>

theorem receivables_settled:
  fixes p :: roundPhase
  assumes "phaseOk p"
  defines "due \<equiv> filter (\<lambda>item. cc_DueRound item \<le> rp_currentRound p) (pl_Receivables (plant p))"
    and "q \<equiv> collectReceivablesDue p"
  shows "pl_Receivables (plant q) = filter (\<lambda>item. rp_currentRound p < cc_DueRound item) (pl_Receivables (plant p))
     \<and> netCash (plant q) = netCash (plant p) + sum_of cc_Amount due
     \<and> st_cashReceipts (rp_stats q) = st_cashReceipts (rp_stats p) + sum_of cc_Amount due"
proof -
  have "0 \<le> sum_of cc_Amount due"
    using assms(1) unfolding due_def by (intro due_nonneg) (simp add: plantOkD phaseOk_plant)
  moreover have "due = []" if "pl_Receivables (plant p) = []" using that by (simp add: due_def)
  ultimately show ?thesis
    by (cases "pl_Receivables (plant p) = []")
      (simp_all add: q_def collectReceivablesDue_def Let_def sumCommitments_eq collect_all addReceipts_def
        phase_simps not_le flip: due_def)
qed

lemma receivables_settled_witness:
  "netCash (plant (collectReceivablesDue examplePhase)) = 42"
  using receivables_settled [OF example_phase(1)]
  by (simp add: example_plant example_phase(5) example_shape(5)) (simp add: examplePlant_def netCash_def)

text \<open>Paying settles exactly the payables and payrolls that are due: they leave the list,
  cash net of debt falls by their sum, and the round's cash disbursements grow by it.\<close>

theorem payables_settled:
  fixes p :: roundPhase
  assumes "phaseOk p"
  defines "due \<equiv> filter (\<lambda>item. cc_DueRound item \<le> rp_currentRound p) (pl_Payables (plant p))"
    and "q \<equiv> payPayablesDue p"
  shows "pl_Payables (plant q) = filter (\<lambda>item. rp_currentRound p < cc_DueRound item) (pl_Payables (plant p))
     \<and> netCash (plant q) = netCash (plant p) - sum_of cc_Amount due
     \<and> st_cashDisbursements (rp_stats q) = st_cashDisbursements (rp_stats p) + sum_of cc_Amount due"
proof -
  have "0 \<le> sum_of cc_Amount due"
    using assms(1) unfolding due_def by (intro due_nonneg) (simp add: plantOkD phaseOk_plant)
  moreover have "due = []" if "pl_Payables (plant p) = []" using that by (simp add: due_def)
  ultimately show ?thesis
    by (cases "pl_Payables (plant p) = []")
      (simp_all add: q_def payPayablesDue_def Let_def sumCommitments_eq pay_all addDisbursements_def
        phase_simps not_le flip: due_def)
qed

lemma payables_settled_witness:
  "pl_Payables (plant (payPayablesDue examplePhase)) = pl_Payables examplePlant"
  using payables_settled [OF example_phase(1)]
  by (simp add: example_plant example_phase(5)) (simp add: examplePlant_def)

section \<open>Sales and backlog\<close>

text \<open>C30: Unless an amount leaves 64 bits, sales account for every unit: what was shipped and what
  stays in the backlog add up to the backlog and shipments before, the shipped units leave the
  plant's stock, and every shipped unit earns at least 1.  The bounds (\<open>salesFits\<close>) are about
  a million entries, units and money units of price, on amounts of at most \<open>2 ^ 60\<close>.\<close>

theorem sales_account:
  fixes action :: "ActionSubmission option" and p :: roundPhase
  assumes "phaseOk p" "salesFits action p"
  defines "q \<equiv> resolveSales64 action p"
  shows "st_shippedUnits (rp_stats q) + sum_of be_Quantity (pl_Backlog (plant q))
       = st_shippedUnits (rp_stats p) + sum_of be_Quantity (effectiveBacklog (rp_state p))
     \<and> mass q + st_shippedUnits (rp_stats q) = mass p + st_shippedUnits (rp_stats p)
     \<and> st_revenue (rp_stats p) + (st_shippedUnits (rp_stats q) - st_shippedUnits (rp_stats p))
         \<le> st_revenue (rp_stats q)"
  using resolveSales_spec [OF assms(1), of action] by (simp add: q_def resolveSales64_eq [OF assms(2)])

lemma sales_account_witness:
  "st_shippedUnits (rp_stats (resolveSales64 None examplePhase))
     + sum_of be_Quantity (pl_Backlog (plant (resolveSales64 None examplePhase))) = 5"
  using sales_account [OF example_phase(1) example_fits(2)]
  by (simp add: example_plant zero_stats_def resolutionStats.defs effectiveBacklog_def) (simp add: examplePlant_def)

text \<open>No order waits while its product is in stock: after sales, the stock of the product of
  every entry that stays in the backlog is empty.\<close>

theorem no_order_waits_with_stock:
  fixes action :: "ActionSubmission option" and p :: roundPhase
  assumes "phaseOk p"
  shows "\<forall>entry \<in> set (pl_Backlog (plant (resolveSales action p))).
     finishedQuantity (pl_FinishedInventory (plant (resolveSales action p))) (be_ProductID entry) = 0"
proof (cases "effectiveBacklog (rp_state p) = []")
  case True
  then show ?thesis by (simp add: resolveSales_def phase_simps)
next
  case False
  let ?sorted = "sort_by backlogCompare (effectiveBacklog (rp_state p))"
  obtain rem p1 where loop: "salesLoop (priceByProduct action) ?sorted p = (rem, p1)" by fastforce
  with salesLoop_exhausts [OF loop assms backlogOk_sort [OF effectiveBacklog_ok [OF assms]]] False
  show ?thesis by (simp add: resolveSales_def Let_def phase_simps)
qed

lemma no_order_waits_with_stock_witness:
  "list_all (\<lambda>entry. finishedQuantity (pl_FinishedInventory (plant (resolveSales None examplePhase)))
       (be_ProductID entry) = 0) (pl_Backlog (plant (resolveSales None examplePhase)))"
  using no_order_waits_with_stock [OF example_phase(1)] by (simp add: list_all_iff)

text \<open>Ageing keeps exactly the entries below the expiry age, each one round older and in
  order, and counts the units of all others as lost sales.\<close>

theorem backlog_ages:
  fixes p :: roundPhase
  assumes "phaseOk p"
  defines "old \<equiv> effectiveBacklog (rp_state p)" and "q \<equiv> ageBacklog p"
  shows "pl_Backlog (plant q) = map (\<lambda>e. e\<lparr>be_AgeInRounds := be_AgeInRounds e + 1\<rparr>)
         (filter (\<lambda>e. be_AgeInRounds e < rp_backlogExpiryRounds p) old)
     \<and> st_lostSalesUnits (rp_stats q) = st_lostSalesUnits (rp_stats p)
         + sum_of be_Quantity (filter (\<lambda>e. rp_backlogExpiryRounds p \<le> be_AgeInRounds e) old)"
proof -
  note spec = ageBacklog_spec(3,4) [OF assms(1)]
  have "sum_of be_Quantity (map older es) = sum_of be_Quantity es" for es
    by (induction es) (simp_all add: older_def)
  then show ?thesis
    using spec sum_of_filter_split [of be_Quantity "\<lambda>e. be_AgeInRounds e < rp_backlogExpiryRounds p" old]
    by (simp add: q_def old_def not_less older_def [abs_def])
qed

lemma backlog_ages_witness:
  "map be_AgeInRounds (pl_Backlog (plant (ageBacklog examplePhase))) = [1]"
  using backlog_ages [OF example_phase(1)]
  by (simp add: example_plant effectiveBacklog_def) (simp add: examplePlant_def)

text \<open>The reported on-time shipment rate is a percentage.\<close>

theorem on_time_rate_percentage:
  assumes "phaseOk p" "0 \<le> st_shippedUnits (rp_stats p)" "0 \<le> st_lostSalesUnits (rp_stats p)"
  shows "0 \<le> pm_OnTimeShipmentRate (computeMetrics p) \<and> pm_OnTimeShipmentRate (computeMetrics p) \<le> 100"
proof -
  have "backlogOk (pl_Backlog (plant p))" using assms(1) by (simp add: plantOkD phaseOk_plant)
  then have "0 \<le> sum_of be_Quantity (pl_Backlog (plant p))"
    by (intro sum_of_nonneg) (auto simp: backlogOk_def order_less_imp_le)
  with onTimeRate_bounds [OF assms(2)] assms(3) show ?thesis by (simp add: computeMetrics_def Let_def)
qed

lemma on_time_rate_percentage_witness:
  "pm_OnTimeShipmentRate (computeMetrics examplePhase) \<le> 100"
  using on_time_rate_percentage [OF example_phase(1)]
  by (simp add: example_plant zero_stats_def resolutionStats.defs)

section \<open>Records and their copies\<close>

text \<open>A copy of a match state differs from it only in that every round of its history carries
  its timeline, and a copy of a copy is the same copy.\<close>

theorem state_copy:
  "MatchState_Clone s = s\<lparr>ms_History := \<lparr>rh_RecentRounds =
       map (\<lambda>r. r\<lparr>rr_Timeline := CanonicalTimeline r\<rparr>) (rh_RecentRounds (ms_History s))\<rparr>\<rparr>
     \<and> MatchState_Clone (MatchState_Clone s) = MatchState_Clone s"
  by (simp add: MatchState_Clone_idem) (simp add: MatchState_Clone_eq RoundHistory_Clone_def
      cloneSlice_def RoundRecord_Clone_eq)

text \<open>The timeline built for a round lists all its events in order and loses or invents no
  commentary (with distinct ids); its entries are numbered 1, 2, and so on within each
  phase.\<close>

theorem timeline_complete:
  assumes "rr_Timeline r = []" "inj_on cm_CommentaryID (set (rr_Commentary r))"
  shows "List.map_filter tl_Event (CanonicalTimeline r) = rr_Events r
     \<and> set (List.map_filter tl_Commentary (CanonicalTimeline r)) = set (rr_Commentary r)
     \<and> (\<forall>phase \<in> {RoundTimelinePhaseSimulation, RoundTimelinePhaseSummary}.
          map tl_Sequence (filter (\<lambda>e. tl_Phase e = phase) (CanonicalTimeline r)) =
            map (\<lambda>k. 1 + int k) [0..<length (filter (\<lambda>e. tl_Phase e = phase) (CanonicalTimeline r))])"
proof -
  let ?c = "commentaryEntries 0 (orderedCommentary r)" and ?e = "eventEntries (\<lambda>_. 0) (rr_Events r)"
  have t: "CanonicalTimeline r = ?c @ ?e" using assms(1) by (simp add: CanonicalTimeline_def)
  have some: "map g xs = map Some ys \<Longrightarrow> List.map_filter g xs = ys" for g :: "RoundTimelineEntry \<Rightarrow> 'b option" and xs ys
    by (induction xs arbitrary: ys) (auto simp: map_filter_simps)
  have none: "map g xs = map (\<lambda>_. None) ys \<Longrightarrow> List.map_filter g xs = []" for g :: "RoundTimelineEntry \<Rightarrow> 'b option" and xs and ys :: "'c list"
    by (induction xs arbitrary: ys) (auto simp: map_filter_simps)
  have app: "List.map_filter g (xs @ ys) = List.map_filter g xs @ List.map_filter g ys" for g :: "RoundTimelineEntry \<Rightarrow> 'b option" and xs ys
    by (simp add: map_filter_def)
  have "List.map_filter tl_Event (CanonicalTimeline r) = rr_Events r"
    "List.map_filter tl_Commentary (CanonicalTimeline r) = orderedCommentary r"
    using some [OF eventEntries_events(1)] none [OF eventEntries_events(2)]
      some [OF commentaryEntries_commentary(1)] none [OF commentaryEntries_commentary(2)]
    by (simp_all add: t app)
  moreover have "map tl_Sequence (filter (\<lambda>e. tl_Phase e = ph) (CanonicalTimeline r)) =
      map (\<lambda>k. 1 + int k) [0..<length (filter (\<lambda>e. tl_Phase e = ph) (CanonicalTimeline r))]"
    if "ph \<noteq> RoundTimelinePhaseIntake" for ph
  proof -
    have "filter (\<lambda>e. tl_Phase e = ph) ?c = []"
      using commentaryEntries_commentary(4) [of 0 "orderedCommentary r"] that by (auto simp: filter_empty_conv)
    moreover from arg_cong [OF eventEntries_sequence [of ph "\<lambda>_. 0" "rr_Events r"], of length]
    have "length (filter (\<lambda>e. tl_Phase e = ph) ?e) = length (filter (\<lambda>e. phaseForRoundEvent e = ph) (rr_Events r))"
      by simp
    ultimately show ?thesis using eventEntries_sequence [of ph "\<lambda>_. 0" "rr_Events r"] by (simp add: t)
  qed
  ultimately show ?thesis using set_orderedCommentary [OF assms(2)] by simp
qed

lemma timeline_complete_witness:
  "List.map_filter tl_Event (CanonicalTimeline \<lparr>rr_Round = 1, rr_Actions = [],
      rr_Events = [newEvent ''m'' 1 1 EventMetricSnapshot ActorPlantSystem ''s'' []],
      rr_Commentary = [as_Commentary (exampleActions ! 0)], rr_Timeline = [], rr_Metrics = zero_PlantMetrics\<rparr>)
   = [newEvent ''m'' 1 1 EventMetricSnapshot ActorPlantSystem ''s'' []]"
  using timeline_complete by simp

section \<open>Stock valuation\<close>

text \<open>Merging a delivery into the part stock creates no value: the stock is then worth at most
  its old worth plus the delivery's cost, and rounding loses less than one per unit.\<close>

theorem moving_average_value:
  assumes "partsOk items" "0 < quantity" "0 < unitCost"
    and "\<forall>item \<in> set items. pi_PartID item = part \<longrightarrow> 0 < pi_UnitCost item"
  shows "sum_of (\<lambda>i. inventoryCost (pi_OnHandQty i) (pi_UnitCost i)) (addPartInventory items part quantity unitCost)
       \<le> sum_of (\<lambda>i. inventoryCost (pi_OnHandQty i) (pi_UnitCost i)) items + inventoryCost quantity unitCost
     \<and> sum_of (\<lambda>i. inventoryCost (pi_OnHandQty i) (pi_UnitCost i)) items + inventoryCost quantity unitCost
       < sum_of (\<lambda>i. inventoryCost (pi_OnHandQty i) (pi_UnitCost i)) (addPartInventory items part quantity unitCost)
           + (partQuantity items part + quantity)"
  using addPart_worth [OF assms] by (simp add: parts.worth_def)

lemma moving_average_value_witness:
  "sum_of (\<lambda>i. inventoryCost (pi_OnHandQty i) (pi_UnitCost i))
     (addPartInventory (pl_PartsInventory examplePlant) ''p'' 3 5) \<le> 27"
  using moving_average_value [of "pl_PartsInventory examplePlant" 3 5 "''p''"]
  by (simp add: examplePlant_def partsOk_def inventoryCost_def)

section \<open>Actions\<close>

text \<open>Whatever order the actions arrive in, normalizing them returns exactly those actions,
  sorted by the canonical order of their roles.\<close>

theorem normalized_actions_canonical:
  assumes "normalizeActions state actions = Inr ordered"
  shows "set ordered = set actions
     \<and> map as_RoleID ordered = filter (\<lambda>r. r \<in> as_RoleID ` set actions) CanonicalRoles"
proof -
  have *: "\<forall>a \<in> set actions. admissible state a" "distinct (map as_RoleID actions)"
    "ordered = inCanonicalOrder actions"
    using assms by (simp_all add: normalizeActions_Inr)
  then have "\<forall>a \<in> set actions. as_RoleID a \<in> set CanonicalRoles" by (simp add: admissible_def)
  with * show ?thesis by (simp add: inCanonicalOrder_set inCanonicalOrder_roles)
qed

lemma normalized_actions_canonical_witness:
  "\<exists>ordered. normalizeActions exampleState exampleActions = Inr ordered
     \<and> map as_RoleID ordered = [RoleProcurementManager, RoleProductionManager, RoleSalesManager]"
proof -
  have "normalizeActions exampleState exampleActions = Inr (inCanonicalOrder exampleActions)"
    using example_admissible by (simp add: normalizeActions_Inr)
  from normalized_actions_canonical [OF this] this show ?thesis
    by (simp add: exampleActions_def exampleAction_def CanonicalRoles_def)
qed

text \<open>An action is valid exactly when its only payload is that of its role and the payload is
  well-formed: no negative quantity, capacity, price or target, and only stations of the plant.\<close>

theorem valid_action_iff:
  "validateActionSubmission state a = None \<longleftrightarrow>
     (\<exists>x. as_RoleID a = RoleProcurementManager \<and> as_Action a = RoleAction.make (Some x) None None None
        \<and> (\<forall>order \<in> set (pra_Orders x). 0 \<le> po_Quantity order))
   \<or> (\<exists>x. as_RoleID a = RoleProductionManager \<and> as_Action a = RoleAction.make None (Some x) None None
        \<and> (\<forall>release \<in> set (pda_Releases x). 0 \<le> pr_Quantity release)
        \<and> (\<forall>c \<in> set (pda_CapacityAllocation x). 0 \<le> ca_Capacity c
             \<and> ca_WorkstationID c \<in> ws_WorkstationID ` set (pl_Workstations (ms_Plant state)))
        \<and> (\<forall>c \<in> set (pda_Overtime x). 0 \<le> oa_Capacity c
             \<and> oa_WorkstationID c \<in> ws_WorkstationID ` set (pl_Workstations (ms_Plant state))))
   \<or> (\<exists>x. as_RoleID a = RoleSalesManager \<and> as_Action a = RoleAction.make None None (Some x) None
        \<and> (\<forall>offer \<in> set (sa_ProductOffers x). 0 \<le> of_UnitPrice offer))
   \<or> (\<exists>x. as_RoleID a = RoleFinanceController \<and> as_Action a = RoleAction.make None None None (Some x)
        \<and> 0 \<le> bt_ProcurementBudget (fa_NextRoundTargets x) \<and> 0 \<le> bt_ProductionSpendBudget (fa_NextRoundTargets x)
        \<and> 0 \<le> bt_RevenueTarget (fa_NextRoundTargets x) \<and> 0 \<le> bt_CashFloorTarget (fa_NextRoundTargets x)
        \<and> 0 \<le> bt_DebtCeilingTarget (fa_NextRoundTargets x))"
  by (cases "as_RoleID a") (auto simp: valid_payload payload_is valid_parts RoleAction.defs
      simp del: role_string.simps)

lemma valid_action_iff_witness:
  "validateActionSubmission exampleState (exampleAction ''a'' RoleSalesManager
      (RoleAction.make None None (Some \<lparr>sa_ProductOffers = [\<lparr>of_ProductID = ''x'', of_UnitPrice = - 6\<rparr>]\<rparr>) None)) \<noteq> None"
  unfolding valid_action_iff by (simp add: exampleAction_def RoleAction.defs)

text \<open>A finance action sets the targets of the next round and the debt ceiling, and moves no
  cash; without one the targets stay.\<close>

theorem finance_sets_next_targets:
  "(\<forall>finance. act_Finance (as_Action action) = Some finance \<longrightarrow>
       ms_ActiveTargets (rp_state (applyFinance (Some action) p)) =
         (fa_NextRoundTargets finance)\<lparr>bt_EffectiveRound := rp_currentRound p + 1\<rparr>
       \<and> plant (applyFinance (Some action) p) =
         (plant p)\<lparr>pl_DebtCeiling := bt_DebtCeilingTarget (fa_NextRoundTargets finance)\<rparr>)
     \<and> (act_Finance (as_Action action) = None \<longrightarrow> applyFinance (Some action) p = p)"
  by (auto simp: applyFinance_def setTargets_def Let_def phase_simps)

lemma finance_sets_next_targets_witness:
  "bt_EffectiveRound (ms_ActiveTargets (rp_state (applyFinance (Some (exampleAction ''f'' RoleFinanceController
      (RoleAction.make None None None (Some \<lparr>fa_NextRoundTargets = ms_ActiveTargets exampleState\<rparr>)))) examplePhase))) = 3"
  using finance_sets_next_targets [of "exampleAction ''f'' RoleFinanceController
      (RoleAction.make None None None (Some \<lparr>fa_NextRoundTargets = ms_ActiveTargets exampleState\<rparr>))" examplePhase]
  by (simp add: exampleAction_def RoleAction.defs example_phase(5))

section \<open>Where the width of the integers shows\<close>

text \<open>C2: An order can be free.  When a unit costs 4, an order of \<open>2 ^ 62\<close> units, which
  validation accepts, costs 0 in the 64-bit arithmetic of the code: the whole quantity is
  ordered whatever the budget and the credit, and no cash is paid, no payable booked and no
  spend recorded for it.\<close>

theorem huge_order_is_free:
  fixes a :: ActionSubmission and order :: PurchaseOrderIntent and p :: roundPhase
  defines "terms \<equiv> rp_procurementTerms p
      \<lparr>ptc_State = MatchState_Clone (rp_state p), ptc_CurrentRound = rp_currentRound p, ptc_Order = order\<rparr>"
  assumes "as_RoleID a = RoleProcurementManager"
    and "as_Action a = RoleAction.make (Some \<lparr>pra_Orders = [order]\<rparr>) None None None"
    and "po_Quantity order = 2 ^ 62"
    and "pt_KnownSupplier terms" "pt_UnitCost terms = 4" "pt_MinimumOrderQuantity terms \<le> 2 ^ 62"
    and "commitmentsFit (plant p)" "bt_ProcurementBudget (ms_ActiveTargets (rp_state p)) \<le> 2 ^ 60"
    and "\<bar>st_procurementSpend (rp_stats p)\<bar> \<le> 2 ^ 60"
  defines "q \<equiv> resolveProcurement64 (Some a) p"
  shows "validateActionSubmission state a = None
     \<and> rp_stats q = rp_stats p
     \<and> (\<exists>lot. sl_PartID lot = po_PartID order \<and> sl_Quantity lot = 2 ^ 62 \<and> sl_UnitCost lot = 4
          \<and> plant q = (plant p)\<lparr>pl_InTransitSupply := pl_InTransitSupply (plant p) @ [lot]\<rparr>)"
proof (intro conjI)
  show "validateActionSubmission state a = None"
    unfolding valid_action_iff using assms(2-4)
    by (intro disjI1 exI [of _ "\<lparr>pra_Orders = [order]\<rparr>"]) simp
  define norm where "norm = normalizedTerms terms"
  define cap where "cap = cappedBudget (bt_ProcurementBudget (ms_ActiveTargets (rp_state p)))"
  have norm: "pt_UnitCost norm = 4" "pt_MinimumOrderQuantity norm \<le> 2 ^ 62"
    using assms(6,7) by (simp_all add: norm_def) (simp add: normalizedTerms_def Let_def)
  have free: "spendForQuantity64 (2 ^ 62) 4 = 0" by (simp add: spendForQuantity64_def)
  have cap: "int64 cap = cap"
    using assms(9) by (auto simp: cap_def cappedBudget_def go_div_nonneg intro!: int64_small)
  have "0 \<le> availableProjectedSpendCapacity (plant p)"
    by (simp add: availableProjectedSpendCapacity_def Let_def split: prod.split)
  then have n: "orderQuantity64 cap 0 (availableProjectedSpendCapacity64 (plant p)) norm (2 ^ 62) = 2 ^ 62"
    using norm by (simp add: orderQuantity64_def Let_def cap free [simplified] projected64_eq [OF assms(8)])
  have order: "procurementOrder64 (as_ActionID a) cap 0 order (0, p)
      = placeOrder64 (as_ActionID a) 0 order norm (2 ^ 62) (0, p)"
    unfolding procurementOrder64_def prod.case Let_def terms_def [symmetric] norm_def [symmetric] assms(4) n
    using assms(5) by simp
  define r where "r = snd (placeOrder64 (as_ActionID a) 0 order norm (2 ^ 62) (0, p))"
  have used: "placeOrder64 (as_ActionID a) 0 order norm (2 ^ 62) (0, p) = (0, r)"
    unfolding r_def by (simp add: placeOrder64_def Let_def norm free [simplified])
  have "act_Procurement (as_Action a) = Some \<lparr>pra_Orders = [order]\<rparr>" by (simp add: assms(3) RoleAction.defs)
  then have q: "q = r"
    by (simp add: q_def resolveProcurement64_def cappedBudget64_eq [OF assms(9)] order used [simplified] flip: cap_def)
  have "int64 (st_procurementSpend (rp_stats p)) = st_procurementSpend (rp_stats p)"
    using assms(10) by (intro int64_small) simp
  then show "rp_stats q = rp_stats p"
    unfolding q r_def by (simp add: placeOrder64_def Let_def norm free [simplified] phase_simps)
  show "\<exists>lot. sl_PartID lot = po_PartID order \<and> sl_Quantity lot = 2 ^ 62 \<and> sl_UnitCost lot = 4
          \<and> plant q = (plant p)\<lparr>pl_InTransitSupply := pl_InTransitSupply (plant p) @ [lot]\<rparr>"
    unfolding q r_def by (rule exI, intro conjI, simp_all only: placeOrder64_def Let_def prod.case snd_conv phase_simps)
      (rule refl | simp add: norm)+
qed

lemma huge_order_is_free_witness:
  "\<exists>lot. sl_Quantity lot = 2 ^ 62 \<and> pl_InTransitSupply (plant (resolveProcurement64
       (Some (exampleAction ''b2'' RoleProcurementManager (RoleAction.make
          (Some \<lparr>pra_Orders = [\<lparr>po_PartID = ''p'', po_SupplierID = ''s'', po_Quantity = 2 ^ 62\<rparr>]\<rparr>) None None None)))
       (examplePhase\<lparr>rp_procurementTerms := \<lambda>_. \<lparr>pt_UnitCost = 4, pt_MinimumOrderQuantity = 1,
          pt_LeadTimeRounds = 1, pt_OnTimeDeliveryPct = 90, pt_LateDeliveryRounds = 1, pt_KnownSupplier = True\<rparr>\<rparr>)))
     = pl_InTransitSupply examplePlant @ [lot]"
proof -
  let ?o = "\<lparr>po_PartID = ''p'', po_SupplierID = ''s'', po_Quantity = 2 ^ 62\<rparr> :: PurchaseOrderIntent"
  let ?a = "exampleAction ''b2'' RoleProcurementManager (RoleAction.make (Some \<lparr>pra_Orders = [?o]\<rparr>) None None None)"
  let ?p = "examplePhase\<lparr>rp_procurementTerms := \<lambda>_. \<lparr>pt_UnitCost = 4, pt_MinimumOrderQuantity = 1,
      pt_LeadTimeRounds = 1, pt_OnTimeDeliveryPct = 90, pt_LateDeliveryRounds = 1, pt_KnownSupplier = True\<rparr>\<rparr>"
  have p: "plant ?p = examplePlant" "rp_stats ?p = zero_stats"
    "bt_ProcurementBudget (ms_ActiveTargets (rp_state ?p)) = 20"
    using example_plant(1-3) by (simp_all add: exampleState_def)
  have fits: "commitmentsFit examplePlant" by (simp add: commitmentsFit_def examplePlant_def)
  have "rp_stats (resolveProcurement64 (Some ?a) ?p) = rp_stats ?p
     \<and> (\<exists>lot. sl_PartID lot = po_PartID ?o \<and> sl_Quantity lot = 2 ^ 62 \<and> sl_UnitCost lot = 4
          \<and> plant (resolveProcurement64 (Some ?a) ?p)
            = (plant ?p)\<lparr>pl_InTransitSupply := pl_InTransitSupply (plant ?p) @ [lot]\<rparr>)"
    using huge_order_is_free [of ?a ?o ?p exampleState] p fits
    by (simp add: exampleAction_def zero_stats_def resolutionStats.defs)
  then show ?thesis unfolding p by (elim conjE exE) (rule exI, simp)
qed

text \<open>C38: A sale can pay nothing.  At a unit price of \<open>2 ^ 63 - 1\<close>, which validation accepts, two
  units shipped are worth -2 in the 64-bit arithmetic of the code: the units leave the stock
  and count as shipped, but no cash is received, no receivable is booked and the revenue of
  the round falls by 2.\<close>

theorem huge_price_pays_nothing:
  fixes a :: ActionSubmission and entry :: BacklogEntry and p :: roundPhase
  assumes "as_RoleID a = RoleSalesManager"
    and "as_Action a = RoleAction.make None None
        (Some \<lparr>sa_ProductOffers = [\<lparr>of_ProductID = be_ProductID entry, of_UnitPrice = 2 ^ 63 - 1\<rparr>]\<rparr>) None"
  defines "q \<equiv> shipEntry64 (priceByProduct (Some a)) entry 2 p"
  shows "validateActionSubmission state a = None
     \<and> pl_FinishedInventory (plant q) =
         takeFinishedInventory (pl_FinishedInventory (plant p)) (be_ProductID entry) 2
     \<and> st_shippedUnits (rp_stats q) = int64 (st_shippedUnits (rp_stats p) + 2)
     \<and> st_revenue (rp_stats q) = int64 (st_revenue (rp_stats p) - 2)
     \<and> st_cashReceipts (rp_stats q) = st_cashReceipts (rp_stats p)
     \<and> pl_Cash (plant q) = pl_Cash (plant p) \<and> pl_Debt (plant q) = pl_Debt (plant p)
     \<and> pl_Receivables (plant q) = pl_Receivables (plant p)"
proof (intro conjI)
  show "validateActionSubmission state a = None"
    unfolding valid_action_iff using assms(1,2)
    by (intro disjI2 disjI1 exI [of _ "\<lparr>sa_ProductOffers = [\<lparr>of_ProductID = be_ProductID entry, of_UnitPrice = 2 ^ 63 - 1\<rparr>]\<rparr>"]) simp
  have price: "priceByProduct (Some a) (be_ProductID entry) = 2 ^ 63 - 1"
    by (simp add: priceByProduct_def assms(2) RoleAction.defs)
  have lost: "sint ((2 :: 64 word) * word_of_int 9223372036854775807) = - 2" by simp
  have returns: "pl_Receivables (plant (scheduleCustomerReturns x b n c r)) = pl_Receivables (plant r)" for x b n c r
    by (simp add: scheduleCustomerReturns_def Let_def phase_simps split: prod.split)
  have none: "scheduleReceivable64 (- 2) ref d r = r" for ref d r
    by (simp add: scheduleReceivable64_def)
  note ship = q_def shipEntry64_def Let_def price lost none returns phase_simps
  show "pl_FinishedInventory (plant q) =
         takeFinishedInventory (pl_FinishedInventory (plant p)) (be_ProductID entry) 2"
    "st_shippedUnits (rp_stats q) = int64 (st_shippedUnits (rp_stats p) + 2)"
    "st_revenue (rp_stats q) = int64 (st_revenue (rp_stats p) - 2)"
    "st_cashReceipts (rp_stats q) = st_cashReceipts (rp_stats p)"
    "pl_Cash (plant q) = pl_Cash (plant p)" "pl_Debt (plant q) = pl_Debt (plant p)"
    "pl_Receivables (plant q) = pl_Receivables (plant p)"
    by (simp_all add: ship)
qed

lemma huge_price_pays_nothing_witness:
  "pl_Cash (plant (shipEntry64 (priceByProduct (Some (exampleAction ''s2'' RoleSalesManager
        (RoleAction.make None None (Some \<lparr>sa_ProductOffers = [\<lparr>of_ProductID = ''x'', of_UnitPrice = 2 ^ 63 - 1\<rparr>]\<rparr>) None))))
      (hd (pl_Backlog examplePlant)) 2 examplePhase)) = 40"
  using huge_price_pays_nothing [of "exampleAction ''s2'' RoleSalesManager
        (RoleAction.make None None (Some \<lparr>sa_ProductOffers = [\<lparr>of_ProductID = ''x'', of_UnitPrice = 2 ^ 63 - 1\<rparr>]\<rparr>) None)"
      "hd (pl_Backlog examplePlant)" exampleState examplePhase]
  by (simp add: example_plant exampleAction_def) (simp add: examplePlant_def)

end
