(* ===== verification/MemoryStore.thy ===== *)
theory MemoryStore
  imports Resolver
begin

text \<open>
  The match store: \<open>ports.MatchStateStore\<close> (\<open>internal/ports/state_store.go\<close>) as a locale,
  and its in-memory implementation (\<open>internal/adapters/persistence/memory/store.go\<close>).  A
  store keeps, per match, the current state with a bounded history, one snapshot per
  current round and the full logs of rounds, events and commentary.  The mutex of the code
  makes every operation one step, so an operation is a function from store to store; an
  operation that fails leaves the store as it was.
\<close>

section \<open>The store\<close>

datatype storeError =
    StoreEmptyMatchID
  | MatchExists MatchID
  | MatchNotFound
  | MismatchedMatchID MatchID MatchID
  | RoundNotPositive RoundNumber
  | RoundNotLater RoundNumber RoundNumber
  | RoundNotFound RoundNumber

record storedMatch =
  sm_state :: MatchState
  sm_snapshots :: "MatchState list"
  sm_rounds :: "RoundRecord list"
  sm_events :: "RoundEvent list"
  sm_commentary :: "CommentaryRecord list"

record Store =
  mem_historyLimit :: int
  mem_matches :: "MatchID \<rightharpoonup> storedMatch"

definition memoryHistoryLimit :: "int \<Rightarrow> int" where
  "memoryHistoryLimit limit = (if limit \<le> 0 then 10 else limit)"

definition NewStore :: "int \<Rightarrow> Store" where
  "NewStore recentHistoryLimit =
     \<lparr>mem_historyLimit = memoryHistoryLimit recentHistoryLimit, mem_matches = Map.empty\<rparr>"

definition cloneRoundRecords :: "RoundRecord list \<Rightarrow> RoundRecord list" where
  "cloneRoundRecords rounds = map RoundRecord_Clone rounds"

definition cloneEvents :: "RoundEvent list \<Rightarrow> RoundEvent list" where
  "cloneEvents events = map RoundEvent_Clone events"

definition flattenEvents :: "RoundRecord list \<Rightarrow> RoundEvent list" where
  "flattenEvents rounds = concat (map (\<lambda>round. cloneEvents (rr_Events round)) rounds)"

definition flattenCommentary :: "RoundRecord list \<Rightarrow> CommentaryRecord list" where
  "flattenCommentary rounds = concat (map rr_Commentary rounds)"

definition cloneStates :: "MatchState list \<Rightarrow> MatchState list" where
  "cloneStates states = map MatchState_Clone states"

definition tailOf :: "'a list \<Rightarrow> int \<Rightarrow> 'a list" where
  "tailOf items limit =
    (if limit \<le> 0 \<or> int (length items) \<le> limit then items
     else drop (length items - nat limit) items)"

fun replaceSnapshot :: "MatchState list \<Rightarrow> MatchState \<Rightarrow> MatchState list" where
  "replaceSnapshot [] cloned = [cloned]"
| "replaceSnapshot (s # states) cloned =
    (if ms_CurrentRound s = ms_CurrentRound cloned then cloned # states
     else s # replaceSnapshot states cloned)"

definition appendOrReplaceSnapshot :: "MatchState list \<Rightarrow> MatchState \<Rightarrow> MatchState list" where
  "appendOrReplaceSnapshot states next = replaceSnapshot states (MatchState_Clone next)"

definition CreateMatch :: "MatchState \<Rightarrow> Store \<Rightarrow> storeError + Store" where
  "CreateMatch initial st =
    (if ms_MatchID initial = [] then Inl StoreEmptyMatchID
     else if mem_matches st (ms_MatchID initial) \<noteq> None then Inl (MatchExists (ms_MatchID initial))
     else let state = MatchState_Clone initial;
              history = RoundHistory_Recent (ms_History state) (mem_historyLimit st);
              rounds = rh_RecentRounds history;
              state = state\<lparr>ms_History := history\<rparr>
          in Inr (st\<lparr>mem_matches := (mem_matches st)(ms_MatchID initial \<mapsto>
               \<lparr>sm_state = state, sm_snapshots = [MatchState_Clone state],
                sm_rounds = cloneRoundRecords rounds, sm_events = flattenEvents rounds,
                sm_commentary = flattenCommentary rounds\<rparr>)\<rparr>))"

definition CurrentState :: "Store \<Rightarrow> MatchID \<Rightarrow> storeError + MatchState" where
  "CurrentState st matchID =
    (case mem_matches st matchID of
       None \<Rightarrow> Inl MatchNotFound
     | Some match \<Rightarrow> Inr (MatchState_Clone (sm_state match)))"

text \<open>The committed match: the body of \<open>CommitRound\<close> after its checks.\<close>

definition commitTo :: "int \<Rightarrow> MatchState \<Rightarrow> RoundRecord \<Rightarrow> storedMatch \<Rightarrow> storedMatch" where
  "commitTo limit nextState round match =
    (let committedRound = RoundRecord_Clone round;
         rounds = sm_rounds match @ [committedRound];
         events = sm_events match @ flattenEvents [committedRound];
         commentary = sm_commentary match @ flattenCommentary [committedRound];
         state = (MatchState_Clone nextState)\<lparr>ms_History :=
           \<lparr>rh_RecentRounds = cloneRoundRecords (tailOf rounds limit)\<rparr>\<rparr>
     in \<lparr>sm_state = state, sm_snapshots = appendOrReplaceSnapshot (sm_snapshots match) state,
         sm_rounds = rounds, sm_events = events, sm_commentary = commentary\<rparr>)"

definition CommitRound ::
  "MatchID \<Rightarrow> MatchState \<Rightarrow> RoundRecord \<Rightarrow> Store \<Rightarrow> storeError + MatchState \<times> Store" where
  "CommitRound matchID nextState round st =
    (if matchID = [] then Inl StoreEmptyMatchID
     else if ms_MatchID nextState \<noteq> matchID then Inl (MismatchedMatchID (ms_MatchID nextState) matchID)
     else if rr_Round round \<le> 0 then Inl (RoundNotPositive (rr_Round round))
     else case mem_matches st matchID of
       None \<Rightarrow> Inl MatchNotFound
     | Some match \<Rightarrow>
         if sm_rounds match \<noteq> [] \<and> rr_Round round \<le> rr_Round (last (sm_rounds match))
         then Inl (RoundNotLater (rr_Round round) (rr_Round (last (sm_rounds match))))
         else let match = commitTo (mem_historyLimit st) nextState round match
              in Inr (MatchState_Clone (sm_state match),
                      st\<lparr>mem_matches := (mem_matches st)(matchID \<mapsto> match)\<rparr>))"

definition Store_Round :: "Store \<Rightarrow> MatchID \<Rightarrow> RoundNumber \<Rightarrow> storeError + RoundRecord" where
  "Store_Round st matchID roundNumber =
    (case mem_matches st matchID of
       None \<Rightarrow> Inl MatchNotFound
     | Some match \<Rightarrow>
        (case find_first (\<lambda>round. rr_Round round = roundNumber) (sm_rounds match) of
           Some round \<Rightarrow> Inr (RoundRecord_Clone round)
         | None \<Rightarrow> Inl (RoundNotFound roundNumber)))"

definition EventTimeline :: "Store \<Rightarrow> MatchID \<Rightarrow> storeError + RoundEvent list" where
  "EventTimeline st matchID =
    (case mem_matches st matchID of
       None \<Rightarrow> Inl MatchNotFound | Some match \<Rightarrow> Inr (cloneEvents (sm_events match)))"

definition Store_Commentary :: "Store \<Rightarrow> MatchID \<Rightarrow> storeError + CommentaryRecord list" where
  "Store_Commentary st matchID =
    (case mem_matches st matchID of
       None \<Rightarrow> Inl MatchNotFound | Some match \<Rightarrow> Inr (sm_commentary match))"

definition StateSnapshots :: "Store \<Rightarrow> MatchID \<Rightarrow> storeError + MatchState list" where
  "StateSnapshots st matchID =
    (case mem_matches st matchID of
       None \<Rightarrow> Inl MatchNotFound | Some match \<Rightarrow> Inr (cloneStates (sm_snapshots match)))"

section \<open>The interface\<close>

text \<open>
  What a client of \<open>ports.MatchStateStore\<close> relies on, over the abstract log of a store: the
  committed rounds of every match.
\<close>

locale match_store =
  fixes create :: "MatchState \<Rightarrow> 's \<Rightarrow> storeError + 's"
    and current :: "'s \<Rightarrow> MatchID \<Rightarrow> storeError + MatchState"
    and commit :: "MatchID \<Rightarrow> MatchState \<Rightarrow> RoundRecord \<Rightarrow> 's \<Rightarrow> storeError + MatchState \<times> 's"
    and roundOf :: "'s \<Rightarrow> MatchID \<Rightarrow> RoundNumber \<Rightarrow> storeError + RoundRecord"
    and timeline :: "'s \<Rightarrow> MatchID \<Rightarrow> storeError + RoundEvent list"
    and remarks :: "'s \<Rightarrow> MatchID \<Rightarrow> storeError + CommentaryRecord list"
    and ok :: "'s \<Rightarrow> bool"
    and log :: "'s \<Rightarrow> MatchID \<Rightarrow> RoundRecord list option"
  assumes create_log: "create s st = Inr st' \<Longrightarrow>
        log st (ms_MatchID s) = None \<and>
        (\<exists>k. log st' = (log st)(ms_MatchID s \<mapsto>
           map RoundRecord_Clone (drop k (rh_RecentRounds (ms_History s)))))"
    and create_ok: "create s st = Inr st' \<Longrightarrow> ok st \<Longrightarrow>
        sorted_wrt (<) (map rr_Round (rh_RecentRounds (ms_History s))) \<Longrightarrow> ok st'"
    and current_known: "(\<exists>s. current st m = Inr s) \<longleftrightarrow> log st m \<noteq> None"
    and commit_log: "commit m next r st = Inr (s, st') \<Longrightarrow>
        \<exists>rounds. log st m = Some rounds \<and> log st' = (log st)(m \<mapsto> rounds @ [RoundRecord_Clone r])
          \<and> (\<forall>round \<in> set rounds. ok st \<longrightarrow> rr_Round round < rr_Round r)"
    and commit_state: "commit m next r st = Inr (s, st') \<Longrightarrow> current st' m = Inr s \<and>
        (\<exists>h. s = (MatchState_Clone next)\<lparr>ms_History := h\<rparr>)"
    and commit_possible: "ok st \<Longrightarrow> log st m = Some rounds \<Longrightarrow> ms_MatchID next = m \<Longrightarrow> 0 < rr_Round r \<Longrightarrow>
        (\<forall>round \<in> set rounds. rr_Round round < rr_Round r) \<Longrightarrow> \<exists>s st'. commit m next r st = Inr (s, st')"
    and commit_ok: "commit m next r st = Inr (s, st') \<Longrightarrow> ok st \<Longrightarrow> ok st'"
    and timeline_log: "ok st \<Longrightarrow> log st m = Some rounds \<Longrightarrow>
        timeline st m = Inr (concat (map rr_Events rounds))"
    and remarks_log: "ok st \<Longrightarrow> log st m = Some rounds \<Longrightarrow>
        remarks st m = Inr (concat (map rr_Commentary rounds))"
    and round_log: "ok st \<Longrightarrow> log st m = Some rounds \<Longrightarrow> r \<in> set rounds \<Longrightarrow>
        roundOf st m (rr_Round r) = Inr r"
begin

text \<open>A series of commits to one match.\<close>

fun commitAll :: "MatchID \<Rightarrow> (MatchState \<times> RoundRecord) list \<Rightarrow> 's \<Rightarrow> storeError + 's" where
  "commitAll m [] st = Inr st"
| "commitAll m ((next, r) # rest) st =
    (case commit m next r st of Inl e \<Rightarrow> Inl e | Inr (_, st) \<Rightarrow> commitAll m rest st)"

lemma commitAll_keeps:
  "commitAll m rs st = Inr st' \<Longrightarrow> log st m = Some rounds \<Longrightarrow>
   log st' = (log st)(m \<mapsto> rounds @ map (RoundRecord_Clone \<circ> snd) rs) \<and> (ok st \<longrightarrow> ok st')"
proof (induction m rs st arbitrary: rounds rule: commitAll.induct)
  case (1 m st)
  then show ?case by auto
next
  case (2 m "next" r rest st)
  then obtain s st1 where c: "commit m next r st = Inr (s, st1)" and rest: "commitAll m rest st1 = Inr st'"
    by (auto split: sum.splits)
  from commit_log [OF c] "2.prems"(2)
  have log: "log st1 = (log st)(m \<mapsto> rounds @ [RoundRecord_Clone r])" by auto
  with "2.IH" [OF c refl rest, of "rounds @ [RoundRecord_Clone r]"] commit_ok [OF c]
  show ?case by (simp add: fun_eq_iff)
qed

text \<open>The timeline of a match is append-only: commits add exactly their own events.\<close>

lemma timeline_grows:
  assumes "commitAll m rs st = Inr st'" "ok st" "log st m \<noteq> None"
  shows "\<exists>events. timeline st m = Inr events
     \<and> timeline st' m = Inr (events @ concat (map (rr_Events \<circ> snd) rs))"
proof -
  obtain rounds where log: "log st m = Some rounds" using assms(3) by blast
  from commitAll_keeps [OF assms(1) log] assms(2)
  have "ok st'" "log st' m = Some (rounds @ map (RoundRecord_Clone \<circ> snd) rs)" by simp_all
  from timeline_log [OF this] timeline_log [OF assms(2) log]
  show ?thesis by (simp add: o_def)
qed

text \<open>A committed round can be read back, also after later commits.\<close>

lemma committed_round:
  assumes "commitAll m rs st = Inr st'" "ok st" "log st m \<noteq> None" "(next, r) \<in> set rs"
  shows "roundOf st' m (rr_Round r) = Inr (RoundRecord_Clone r)"
proof -
  obtain rounds where log: "log st m = Some rounds" using assms(3) by blast
  from commitAll_keeps [OF assms(1) log] assms(2)
  have "ok st'" "log st' m = Some (rounds @ map (RoundRecord_Clone \<circ> snd) rs)" by simp_all
  moreover have "RoundRecord_Clone r \<in> set (rounds @ map (RoundRecord_Clone \<circ> snd) rs)"
    using assms(4) by (force simp: image_iff)
  ultimately show ?thesis using round_log [of st' m _ "RoundRecord_Clone r"] by simp
qed

end

section \<open>The memory store implements it\<close>

definition matchOk :: "int \<Rightarrow> MatchID \<Rightarrow> storedMatch \<Rightarrow> bool" where
  "matchOk limit m x \<longleftrightarrow>
     m \<noteq> [] \<and> ms_MatchID (sm_state x) = m
     \<and> sorted_wrt (<) (map rr_Round (sm_rounds x))
     \<and> (\<forall>r \<in> set (sm_rounds x). RoundRecord_Clone r = r)
     \<and> sm_events x = concat (map rr_Events (sm_rounds x))
     \<and> sm_commentary x = concat (map rr_Commentary (sm_rounds x))
     \<and> rh_RecentRounds (ms_History (sm_state x)) = tailOf (sm_rounds x) limit
     \<and> distinct (map ms_CurrentRound (sm_snapshots x))
     \<and> sm_state x \<in> set (sm_snapshots x)"

definition storeOk :: "Store \<Rightarrow> bool" where
  "storeOk st \<longleftrightarrow> (\<forall>m x. mem_matches st m = Some x \<longrightarrow> matchOk (mem_historyLimit st) m x)"

definition matchLog :: "Store \<Rightarrow> MatchID \<Rightarrow> RoundRecord list option" where
  "matchLog st m = map_option sm_rounds (mem_matches st m)"

lemma RoundRecord_Clone_clone [simp]: "RoundRecord_Clone (RoundRecord_Clone r) = RoundRecord_Clone r"
  by (rule RoundRecord_Clone_idem)

lemma tailOf_tailOf [simp]: "tailOf (tailOf xs l) l = tailOf xs l"
  by (auto simp: tailOf_def)

lemma map_tailOf: "map f (tailOf xs l) = tailOf (map f xs) l"
  by (simp add: tailOf_def drop_map)

lemma tailOf_drop: "\<exists>k. tailOf xs l = drop k xs"
  by (auto simp: tailOf_def intro: exI [of _ 0])

lemma set_tailOf: "set (tailOf xs l) \<subseteq> set xs"
  using tailOf_drop [of xs l] set_drop_subset by metis

lemma sorted_tailOf: "sorted_wrt P xs \<Longrightarrow> sorted_wrt P (tailOf xs l)"
  using tailOf_drop [of xs l] sorted_wrt_drop by metis

lemma Recent_tailOf:
  "rh_RecentRounds (RoundHistory_Recent h l) = map RoundRecord_Clone (tailOf (rh_RecentRounds h) l)"
  by (simp add: RoundHistory_Recent_def RoundHistory_Clone_def cloneSlice_def tailOf_def Let_def)

lemma flatten_eq:
  "flattenEvents rounds = concat (map rr_Events rounds)"
  "flattenCommentary rounds = concat (map rr_Commentary rounds)"
  by (simp_all add: flattenEvents_def flattenCommentary_def cloneEvents_def clone_simps
      flip: cloneSlice_def)

lemma snapshots_keys:
  "ms_CurrentRound ` set (replaceSnapshot states s) = insert (ms_CurrentRound s) (ms_CurrentRound ` set states)"
  by (induction states) auto

lemma replaceSnapshot_in: "s \<in> set (replaceSnapshot states s)"
  by (induction states) auto

lemma distinct_replaceSnapshot:
  "distinct (map ms_CurrentRound states) \<Longrightarrow> distinct (map ms_CurrentRound (replaceSnapshot states s))"
proof (induction states)
  case (Cons x states)
  then show ?case using snapshots_keys [of states s] by (auto simp: image_iff)
qed simp

lemma Clone_with_history:
  "\<forall>r \<in> set rounds. RoundRecord_Clone r = r \<Longrightarrow>
   MatchState_Clone (s\<lparr>ms_History := \<lparr>rh_RecentRounds = rounds\<rparr>\<rparr>) = s\<lparr>ms_History := \<lparr>rh_RecentRounds = rounds\<rparr>\<rparr>"
  by (simp add: MatchState_Clone_eq RoundHistory_Clone_def cloneSlice_id)

lemma MatchState_Clone_update: "(MatchState_Clone s)\<lparr>ms_History := h\<rparr> = s\<lparr>ms_History := h\<rparr>"
  by (simp add: MatchState_Clone_eq)

text \<open>The state a match is created with, and the one a commit leaves.\<close>

lemma created_state:
  "(MatchState_Clone s)\<lparr>ms_History := RoundHistory_Recent (ms_History (MatchState_Clone s)) l\<rparr> =
     s\<lparr>ms_History := \<lparr>rh_RecentRounds = map RoundRecord_Clone (tailOf (rh_RecentRounds (ms_History s)) l)\<rparr>\<rparr>"
proof -
  have "RoundHistory_Recent h l = \<lparr>rh_RecentRounds = rh_RecentRounds (RoundHistory_Recent h l)\<rparr>" for h
    by (cases "RoundHistory_Recent h l") simp
  moreover have "rh_RecentRounds (RoundHistory_Recent (ms_History (MatchState_Clone s)) l) =
      map RoundRecord_Clone (tailOf (rh_RecentRounds (ms_History s)) l)"
    by (simp add: Recent_tailOf RoundHistory_Clone_def cloneSlice_def map_tailOf o_def)
  ultimately show ?thesis by (simp add: MatchState_Clone_update)
qed

lemma commitTo_fields:
  "sm_rounds (commitTo l s r x) = sm_rounds x @ [RoundRecord_Clone r]"
  "sm_events (commitTo l s r x) = sm_events x @ rr_Events r"
  "sm_commentary (commitTo l s r x) = sm_commentary x @ rr_Commentary r"
  "sm_state (commitTo l s r x) = s\<lparr>ms_History := \<lparr>rh_RecentRounds =
     map RoundRecord_Clone (tailOf (sm_rounds x @ [RoundRecord_Clone r]) l)\<rparr>\<rparr>"
  "sm_snapshots (commitTo l s r x) = replaceSnapshot (sm_snapshots x) (sm_state (commitTo l s r x))"
  by (simp_all add: commitTo_def Let_def flatten_eq cloneRoundRecords_def MatchState_Clone_update
      appendOrReplaceSnapshot_def Clone_with_history)

lemma committed_clone:
  "MatchState_Clone (sm_state (commitTo l s r x)) = sm_state (commitTo l s r x)"
  by (simp add: commitTo_fields Clone_with_history)

lemma matchOk_commit:
  assumes "matchOk l m x" "ms_MatchID s = m" "sm_rounds x = [] \<or> rr_Round (last (sm_rounds x)) < rr_Round r"
  shows "matchOk l m (commitTo l s r x)"
proof -
  have clone: "\<forall>r' \<in> set (sm_rounds x @ [RoundRecord_Clone r]). RoundRecord_Clone r' = r'"
    using assms(1) by (auto simp: matchOk_def)
  have last: "rr_Round r' < rr_Round r" if "r' \<in> set (sm_rounds x)" for r'
  proof -
    have "sm_rounds x \<noteq> []" using that by auto
    then obtain xs y where xs: "sm_rounds x = xs @ [y]" by (metis rev_exhaust)
    then have "r' = y \<or> rr_Round r' < rr_Round y"
      using that assms(1) by (auto simp: matchOk_def sorted_wrt_append)
    with assms(3) xs show ?thesis by auto
  qed
  note ok = assms(1) [unfolded matchOk_def]
  show ?thesis
    unfolding matchOk_def commitTo_fields
  proof (intro conjI)
    show "sorted_wrt (<) (map rr_Round (sm_rounds x @ [RoundRecord_Clone r]))"
      using ok last by (auto simp: sorted_wrt_append)
    show "\<forall>r' \<in> set (sm_rounds x @ [RoundRecord_Clone r]). RoundRecord_Clone r' = r'" by (rule clone)
    have "map RoundRecord_Clone (tailOf (sm_rounds x @ [RoundRecord_Clone r]) l)
        = tailOf (sm_rounds x @ [RoundRecord_Clone r]) l"
      using clone set_tailOf [of "sm_rounds x @ [RoundRecord_Clone r]" l] by (intro map_idI) blast
    then show "rh_RecentRounds (ms_History (s\<lparr>ms_History := \<lparr>rh_RecentRounds =
        map RoundRecord_Clone (tailOf (sm_rounds x @ [RoundRecord_Clone r]) l)\<rparr>\<rparr>)) =
        tailOf (sm_rounds x @ [RoundRecord_Clone r]) l" by simp
    show "distinct (map ms_CurrentRound (replaceSnapshot (sm_snapshots x) t))" for t
      by (rule distinct_replaceSnapshot) (use ok in blast)
    show "t \<in> set (replaceSnapshot (sm_snapshots x) t)" for t by (rule replaceSnapshot_in)
  qed (use ok assms(2) in auto)
qed

lemma CommitRound_Inr:
  "CommitRound m next r st = Inr (s, st') \<longleftrightarrow>
     m \<noteq> [] \<and> ms_MatchID next = m \<and> 0 < rr_Round r
     \<and> (\<exists>x. mem_matches st m = Some x
          \<and> (sm_rounds x = [] \<or> rr_Round (last (sm_rounds x)) < rr_Round r)
          \<and> s = sm_state (commitTo (mem_historyLimit st) next r x)
          \<and> st' = st\<lparr>mem_matches := (mem_matches st)(m \<mapsto> commitTo (mem_historyLimit st) next r x)\<rparr>)"
  by (auto simp: CommitRound_def Let_def committed_clone split: option.split)

lemma CreateMatch_Inr:
  "CreateMatch s st = Inr st' \<longleftrightarrow>
     ms_MatchID s \<noteq> [] \<and> mem_matches st (ms_MatchID s) = None
     \<and> (\<exists>rounds state. rounds = map RoundRecord_Clone (tailOf (rh_RecentRounds (ms_History s)) (mem_historyLimit st))
          \<and> state = s\<lparr>ms_History := \<lparr>rh_RecentRounds = rounds\<rparr>\<rparr>
          \<and> st' = st\<lparr>mem_matches := (mem_matches st)(ms_MatchID s \<mapsto>
              \<lparr>sm_state = state, sm_snapshots = [state], sm_rounds = rounds,
               sm_events = concat (map rr_Events rounds), sm_commentary = concat (map rr_Commentary rounds)\<rparr>)\<rparr>)"
proof -
  define rounds where "rounds = map RoundRecord_Clone (tailOf (rh_RecentRounds (ms_History s)) (mem_historyLimit st))"
  have same: "rh_RecentRounds (RoundHistory_Recent (ms_History (MatchState_Clone s)) (mem_historyLimit st)) = rounds"
    by (simp add: Recent_tailOf RoundHistory_Clone_def cloneSlice_def map_tailOf o_def rounds_def)
  have "\<forall>r \<in> set rounds. RoundRecord_Clone r = r" by (auto simp: rounds_def)
  then show ?thesis
    unfolding CreateMatch_def Let_def created_state same rounds_def [symmetric]
    by (auto simp: Clone_with_history cloneRoundRecords_def flatten_eq map_idI)
qed

lemma storeOk_create:
  assumes "CreateMatch s st = Inr st'" "storeOk st"
    and "sorted_wrt (<) (map rr_Round (rh_RecentRounds (ms_History s)))"
  shows "storeOk st'"
proof -
  let ?l = "mem_historyLimit st"
  obtain rounds where rounds: "rounds = map RoundRecord_Clone (tailOf (rh_RecentRounds (ms_History s)) ?l)"
    "ms_MatchID s \<noteq> []"
    and st': "st' = st\<lparr>mem_matches := (mem_matches st)(ms_MatchID s \<mapsto>
      \<lparr>sm_state = s\<lparr>ms_History := \<lparr>rh_RecentRounds = rounds\<rparr>\<rparr>,
       sm_snapshots = [s\<lparr>ms_History := \<lparr>rh_RecentRounds = rounds\<rparr>\<rparr>], sm_rounds = rounds,
       sm_events = concat (map rr_Events rounds), sm_commentary = concat (map rr_Commentary rounds)\<rparr>)\<rparr>"
    using assms(1) by (auto simp: CreateMatch_Inr)
  have "\<forall>r \<in> set rounds. RoundRecord_Clone r = r" by (auto simp: rounds(1))
  moreover have "tailOf rounds ?l = rounds" by (simp add: rounds(1) map_tailOf)
  moreover have "sorted_wrt (<) (map rr_Round rounds)"
    using sorted_tailOf [OF assms(3), of ?l] by (simp add: rounds(1) map_tailOf o_def)
  ultimately show ?thesis using assms(2) rounds(2) by (auto simp: st' storeOk_def matchOk_def)
qed

lemma storeOk_commit: "CommitRound m next r st = Inr (s, st') \<Longrightarrow> storeOk st \<Longrightarrow> storeOk st'"
  by (auto simp: CommitRound_Inr storeOk_def matchOk_commit split: if_splits)

lemma find_round:
  "sorted_wrt (<) (map rr_Round rounds) \<Longrightarrow> r \<in> set rounds \<Longrightarrow>
   find_first (\<lambda>round. rr_Round round = rr_Round r) rounds = Some r"
  by (induction rounds) auto

interpretation memory: match_store CreateMatch CurrentState CommitRound Store_Round EventTimeline
  Store_Commentary storeOk matchLog
proof
  show "matchLog st (ms_MatchID s) = None \<and>
        (\<exists>k. matchLog st' = (matchLog st)(ms_MatchID s \<mapsto>
           map RoundRecord_Clone (drop k (rh_RecentRounds (ms_History s)))))"
    if "CreateMatch s st = Inr st'" for s st st'
    using that tailOf_drop [of "rh_RecentRounds (ms_History s)" "mem_historyLimit st"]
    by (auto simp: CreateMatch_Inr matchLog_def fun_eq_iff)
  show "storeOk st'" if "CreateMatch s st = Inr st'" "storeOk st"
    "sorted_wrt (<) (map rr_Round (rh_RecentRounds (ms_History s)))" for s st st'
    using that by (rule storeOk_create)
  show "(\<exists>s. CurrentState st m = Inr s) \<longleftrightarrow> matchLog st m \<noteq> None" for st m
    by (simp add: CurrentState_def matchLog_def split: option.split)
  show "\<exists>rounds. matchLog st m = Some rounds
      \<and> matchLog st' = (matchLog st)(m \<mapsto> rounds @ [RoundRecord_Clone r])
      \<and> (\<forall>round \<in> set rounds. storeOk st \<longrightarrow> rr_Round round < rr_Round r)"
    if c: "CommitRound m next r st = Inr (s, st')" for m "next" r st s st'
  proof -
    obtain x where x: "mem_matches st m = Some x"
      "sm_rounds x = [] \<or> rr_Round (last (sm_rounds x)) < rr_Round r"
      "st' = st\<lparr>mem_matches := (mem_matches st)(m \<mapsto> commitTo (mem_historyLimit st) next r x)\<rparr>"
      "ms_MatchID next = m"
      using c by (auto simp: CommitRound_Inr)
    have "rr_Round round < rr_Round r" if "storeOk st" "round \<in> set (sm_rounds x)" for round
    proof -
      have "matchOk (mem_historyLimit st) m (commitTo (mem_historyLimit st) next r x)"
        using that(1) x by (intro matchOk_commit) (auto simp: storeOk_def)
      with that(2) show ?thesis by (auto simp: matchOk_def commitTo_fields sorted_wrt_append)
    qed
    with x(1,3) show ?thesis by (auto simp: matchLog_def fun_eq_iff commitTo_fields)
  qed
  show "CurrentState st' m = Inr s \<and> (\<exists>h. s = (MatchState_Clone next)\<lparr>ms_History := h\<rparr>)"
    if "CommitRound m next r st = Inr (s, st')" for m "next" r st s st'
    using that by (auto simp: CommitRound_Inr CurrentState_def committed_clone)
      (auto simp: commitTo_fields MatchState_Clone_update)
  show "\<exists>s st'. CommitRound m next r st = Inr (s, st')"
    if "storeOk st" "matchLog st m = Some rounds" "ms_MatchID next = m" "0 < rr_Round r"
      "\<forall>round \<in> set rounds. rr_Round round < rr_Round r" for st m rounds "next" r
  proof -
    note known = that(1,2)
    obtain x where x: "mem_matches st m = Some x" "sm_rounds x = rounds" "m \<noteq> []"
      using known by (auto simp: matchLog_def storeOk_def matchOk_def)
    moreover have "rounds = [] \<or> rr_Round (last rounds) < rr_Round r" using that(5) last_in_set by blast
    ultimately show ?thesis using that(3,4) by (simp add: CommitRound_Inr)
  qed
  show "storeOk st'" if "CommitRound m next r st = Inr (s, st')" "storeOk st" for m "next" r st s st'
    using that by (rule storeOk_commit)
  show "EventTimeline st m = Inr (concat (map rr_Events rounds))"
    if "storeOk st" "matchLog st m = Some rounds" for st m rounds
    using that by (auto simp: storeOk_def matchOk_def matchLog_def EventTimeline_def cloneEvents_def
        clone_simps simp flip: cloneSlice_def)
  show "Store_Commentary st m = Inr (concat (map rr_Commentary rounds))"
    if "storeOk st" "matchLog st m = Some rounds" for st m rounds
    using that by (auto simp: storeOk_def matchOk_def matchLog_def Store_Commentary_def)
  show "Store_Round st m (rr_Round r) = Inr r"
    if "storeOk st" "matchLog st m = Some rounds" "r \<in> set rounds" for st m rounds r
    using that find_round [of _ r]
    by (auto simp: storeOk_def matchLog_def Store_Round_def matchOk_def)
qed

end
