(* ===== verification/Projection.thy ===== *)
theory Projection
  imports MemoryStore
begin

text \<open>
  The view of a round a player is given (\<open>internal/projection/round_view.go\<close>): the canonical
  state of the plant, its partners and targets, and the last ten rounds of history.
\<close>

section \<open>Definitions\<close>

definition cloneTimeline :: "RoundTimelineEntry list \<Rightarrow> RoundTimelineEntry list" where
  "cloneTimeline entries = map RoundTimelineEntry_Clone entries"

definition cloneCommentary :: "CommentaryRecord list \<Rightarrow> CommentaryRecord list" where
  "cloneCommentary commentary = commentary"

definition cloneCustomers :: "CustomerState list \<Rightarrow> CustomerState list" where
  "cloneCustomers customers = map CustomerState_Clone customers"

definition cloneSuppliers :: "SupplierState list \<Rightarrow> SupplierState list" where
  "cloneSuppliers suppliers = suppliers"

definition historyEntry :: "RoundRecord \<Rightarrow> RoundHistoryEntry" where
  "historyEntry round =
     \<lparr>he_Round = rr_Round round,
      he_Events = cloneEvents (rr_Events round),
      he_Commentary = cloneCommentary (rr_Commentary round),
      he_Timeline = cloneTimeline (CanonicalTimeline round),
      he_Summary =
        \<lparr>rs_Metrics = rr_Metrics round,
         rs_EventCount = int (length (rr_Events round)),
         rs_CommentaryCount = int (length (rr_Commentary round)),
         rs_ActionCount = int (length (rr_Actions round))\<rparr>\<rparr>"

definition buildRecentRounds :: "RoundHistory \<Rightarrow> RoundHistoryEntry list" where
  "buildRecentRounds history = map historyEntry (rh_RecentRounds history)"

definition BuildRoundView :: "MatchState \<Rightarrow> RoleID \<Rightarrow> RoundView" where
  "BuildRoundView state viewerRoleID =
    (let recentRounds = buildRecentRounds (RoundHistory_Recent (ms_History state) 10)
     in \<lparr>rv_MatchID = ms_MatchID state,
         rv_Round = ms_CurrentRound state,
         rv_ViewerRoleID = viewerRoleID,
         rv_RoundFlow = RoundFlowState_Clone (ms_RoundFlow state),
         rv_Plant = PlantState_Clone (ms_Plant state),
         rv_Customers = cloneCustomers (ms_Customers state),
         rv_Suppliers = cloneSuppliers (ms_Suppliers state),
         rv_ActiveTargets = ms_ActiveTargets state,
         rv_Metrics = ms_Metrics state,
         rv_RecentRounds = recentRounds,
         rv_RecentTimeline = concat (map (\<lambda>round. cloneTimeline (he_Timeline round)) recentRounds),
         rv_RecentEvents = concat (map (\<lambda>round. cloneEvents (he_Events round)) recentRounds),
         rv_RecentCommentary = concat (map (\<lambda>round. cloneCommentary (he_Commentary round)) recentRounds)\<rparr>)"

section \<open>What a view shows\<close>

lemma view_clones [simp]:
  "cloneTimeline entries = entries" "cloneCommentary commentary = commentary" "cloneEvents events = events"
  "cloneCustomers customers = customers" "cloneSuppliers suppliers = suppliers"
  by (simp_all add: cloneTimeline_def cloneCommentary_def cloneEvents_def cloneCustomers_def
      cloneSuppliers_def clone_simps flip: cloneSlice_def)

text \<open>The rounds a view is built from: the last ten, with their timelines.\<close>

lemma historyEntry_Clone: "historyEntry (RoundRecord_Clone r) = historyEntry r"
  by (simp add: historyEntry_def RoundRecord_Clone_eq CanonicalTimeline_idem)

lemma recent_entries:
  "buildRecentRounds (RoundHistory_Recent h l) = map historyEntry (tailOf (rh_RecentRounds h) l)"
  by (simp add: buildRecentRounds_def Recent_tailOf historyEntry_Clone)

lemma BuildRoundView_eq:
  "BuildRoundView s role =
     (let rounds = tailOf (rh_RecentRounds (ms_History s)) 10
      in \<lparr>rv_MatchID = ms_MatchID s, rv_Round = ms_CurrentRound s, rv_ViewerRoleID = role,
          rv_RoundFlow = ms_RoundFlow s, rv_Plant = ms_Plant s, rv_Customers = ms_Customers s,
          rv_Suppliers = ms_Suppliers s, rv_ActiveTargets = ms_ActiveTargets s, rv_Metrics = ms_Metrics s,
          rv_RecentRounds = map historyEntry rounds,
          rv_RecentTimeline = concat (map CanonicalTimeline rounds),
          rv_RecentEvents = concat (map rr_Events rounds),
          rv_RecentCommentary = concat (map rr_Commentary rounds)\<rparr>)"
  by (simp add: BuildRoundView_def recent_entries Let_def clone_simps o_def historyEntry_def)

end
