(* ===== verification/RoleReport.thy ===== *)
theory RoleReport
  imports Projection
begin

text \<open>
  The role reports: their types (\<open>internal/domain/reports.go\<close>) and their construction from
  the canonical state (\<open>internal/projection/role_report.go\<close>).  The functions that turn a map of
  summaries into a list take the order of its keys as a \<open>MapOrder\<close>.
\<close>

section \<open>Types\<close>

datatype RoleReportSectionKind =
    RoleReportSectionExecutiveSummary
  | RoleReportSectionOperatingPicture
  | RoleReportSectionConstraintRiskView
  | RoleReportSectionTradeoffPressure
  | RoleReportSectionDecisionPrompts
  | RoleReportSectionInventoryRisk
  | RoleReportSectionBacklogHealth
  | RoleReportSectionServiceRisk
  | RoleReportSectionMarginVariance
  | RoleReportSectionCapacityPressure
  | RoleReportSectionDemandHealth
  | RoleReportSectionCashDebtPressure
  | RoleReportSectionOperationalNotes

record MetricValue =
  mv_MetricID :: MetricID
  mv_Value :: int
  mv_DisplayUnit :: string

record RoleReportMetric =
  rm_Metric :: MetricValue
  rm_Label :: string
  rm_Interpretation :: string

record RoleReportWarning =
  wn_Code :: string
  wn_Headline :: string
  wn_Detail :: string

record RoleReportTradeoff =
  tr_Focus :: string
  tr_Tension :: string
  tr_Guidance :: string

record RoleReportPrompt =
  pp_Question :: string
  pp_WhyItMatters :: string

record ProductValueSummary =
  pv_ProductID :: ProductID
  pv_Count :: Units
  pv_TotalValue :: Money
  pv_Description :: string

record ProductUnitSummary =
  pu_ProductID :: ProductID
  pu_Count :: Units
  pu_Description :: string

record InventoryBucketValue =
  ib_Bucket :: string
  ib_TotalValue :: Money

record InventoryValueSummary =
  iv_TotalValue :: Money
  iv_Detail :: "InventoryBucketValue list"

record ProductFinancialSummary =
  pf_ProductID :: ProductID
  pf_Revenue :: Money
  pf_ProductionCost :: Money
  pf_PartsCost :: Money
  pf_ContributionMargin :: Money

record RoleReportSection =
  se_Kind :: RoleReportSectionKind
  se_Title :: string
  se_DecisionFocus :: string
  se_Summary :: "string list"
  se_Metrics :: "RoleReportMetric list"
  se_Facts :: "string list"
  se_ProductValues :: "ProductValueSummary list"
  se_ProductUnits :: "ProductUnitSummary list"
  se_Inventory :: "InventoryValueSummary option"
  se_Financials :: "ProductFinancialSummary list"
  se_Warnings :: "RoleReportWarning list"
  se_Tradeoffs :: "RoleReportTradeoff list"
  se_Prompts :: "RoleReportPrompt list"

record CompanywidePerformanceReport =
  cr_Sections :: "RoleReportSection list"

record DepartmentPerformanceReport =
  dr_RoleID :: RoleID
  dr_Sections :: "RoleReportSection list"
  dr_BonusSummary :: string
  dr_FocusQuestion :: string

record RoleRoundReport =
  re_Companywide :: CompanywidePerformanceReport
  re_Department :: DepartmentPerformanceReport
  re_BonusReminder :: string

definition RoleReportMetric_Clone :: "RoleReportMetric \<Rightarrow> RoleReportMetric" where
  "RoleReportMetric_Clone m =
     \<lparr>rm_Metric = rm_Metric m, rm_Label = rm_Label m, rm_Interpretation = rm_Interpretation m\<rparr>"

definition InventoryValueSummary_Clone :: "InventoryValueSummary \<Rightarrow> InventoryValueSummary" where
  "InventoryValueSummary_Clone s = \<lparr>iv_TotalValue = iv_TotalValue s, iv_Detail = iv_Detail s\<rparr>"

definition RoleReportSection_Clone :: "RoleReportSection \<Rightarrow> RoleReportSection" where
  "RoleReportSection_Clone s =
     \<lparr>se_Kind = se_Kind s,
      se_Title = se_Title s,
      se_DecisionFocus = se_DecisionFocus s,
      se_Summary = se_Summary s,
      se_Metrics = cloneSlice RoleReportMetric_Clone (se_Metrics s),
      se_Facts = se_Facts s,
      se_ProductValues = se_ProductValues s,
      se_ProductUnits = se_ProductUnits s,
      se_Inventory = clonePtr InventoryValueSummary_Clone (se_Inventory s),
      se_Financials = se_Financials s,
      se_Warnings = cloneSlice id (se_Warnings s),
      se_Tradeoffs = cloneSlice id (se_Tradeoffs s),
      se_Prompts = cloneSlice id (se_Prompts s)\<rparr>"

definition CompanywidePerformanceReport_Clone ::
  "CompanywidePerformanceReport \<Rightarrow> CompanywidePerformanceReport" where
  "CompanywidePerformanceReport_Clone r =
     \<lparr>cr_Sections = cloneSlice RoleReportSection_Clone (cr_Sections r)\<rparr>"

definition DepartmentPerformanceReport_Clone ::
  "DepartmentPerformanceReport \<Rightarrow> DepartmentPerformanceReport" where
  "DepartmentPerformanceReport_Clone r =
     \<lparr>dr_RoleID = dr_RoleID r,
      dr_Sections = cloneSlice RoleReportSection_Clone (dr_Sections r),
      dr_BonusSummary = dr_BonusSummary r,
      dr_FocusQuestion = dr_FocusQuestion r\<rparr>"

definition RoleRoundReport_Clone :: "RoleRoundReport \<Rightarrow> RoleRoundReport" where
  "RoleRoundReport_Clone r =
     \<lparr>re_Companywide = CompanywidePerformanceReport_Clone (re_Companywide r),
      re_Department = DepartmentPerformanceReport_Clone (re_Department r),
      re_BonusReminder = re_BonusReminder r\<rparr>"

section \<open>Sums and averages\<close>

definition latestRound :: "MatchState \<Rightarrow> RoundRecord option" where
  "latestRound state =
    (if rh_RecentRounds (ms_History state) = [] then None
     else Some (RoundRecord_Clone (last (rh_RecentRounds (ms_History state)))))"

definition sumBacklogUnits :: "BacklogEntry list \<Rightarrow> Units" where
  "sumBacklogUnits backlog = foldl (\<lambda>total entry. total + be_Quantity entry) 0 backlog"

definition sumBacklogUnitsAtRisk :: "BacklogEntry list \<Rightarrow> Units" where
  "sumBacklogUnitsAtRisk backlog =
     foldl (\<lambda>total entry. if be_AgeInRounds entry < 2 then total else total + be_Quantity entry) 0 backlog"

definition sumInTransitSupply :: "SupplyLot list \<Rightarrow> Units" where
  "sumInTransitSupply lots = foldl (\<lambda>total lot. total + sl_Quantity lot) 0 lots"

definition sumWIPUnits :: "WIPInventory list \<Rightarrow> Units" where
  "sumWIPUnits items = foldl (\<lambda>total item. total + wi_Quantity item) 0 items"

definition sumCommitmentAmount :: "CashCommitment list \<Rightarrow> Money" where
  "sumCommitmentAmount items = foldl (\<lambda>total item. total + cc_Amount item) 0 items"

definition sumCommitmentsDue :: "CashCommitment list \<Rightarrow> RoundNumber \<Rightarrow> Money" where
  "sumCommitmentsDue items round =
     foldl (\<lambda>total item. if cc_DueRound item = round then total + cc_Amount item else total) 0 items"

definition nextRoundNetCash :: "PlantState \<Rightarrow> RoundNumber \<Rightarrow> Money" where
  "nextRoundNetCash s round =
     sumCommitmentsDue (pl_Receivables s) round - sumCommitmentsDue (pl_Payables s) round"

definition inventoryBucketTotal :: "PartInventory list \<Rightarrow> Money" where
  "inventoryBucketTotal items = foldl (\<lambda>total item. total + pi_UnitCost item * pi_OnHandQty item) 0 items"

definition wipInventoryValue :: "WIPInventory list \<Rightarrow> Money" where
  "wipInventoryValue items = foldl (\<lambda>total item. total + wi_UnitCost item * wi_Quantity item) 0 items"

definition finishedInventoryValue :: "FinishedInventory list \<Rightarrow> Money" where
  "finishedInventoryValue items = foldl (\<lambda>total item. total + fi_UnitCost item * fi_OnHandQty item) 0 items"

definition inventorySummary :: "PlantState \<Rightarrow> InventoryValueSummary" where
  "inventorySummary s =
     \<lparr>iv_TotalValue = inventoryBucketTotal (pl_PartsInventory s)
        + wipInventoryValue (pl_WIPInventory s) + finishedInventoryValue (pl_FinishedInventory s),
      iv_Detail =
       [\<lparr>ib_Bucket = ''parts'', ib_TotalValue = inventoryBucketTotal (pl_PartsInventory s)\<rparr>,
        \<lparr>ib_Bucket = ''wip'', ib_TotalValue = wipInventoryValue (pl_WIPInventory s)\<rparr>,
        \<lparr>ib_Bucket = ''finished_goods'', ib_TotalValue = finishedInventoryValue (pl_FinishedInventory s)\<rparr>]\<rparr>"

definition averageCustomerSentiment :: "CustomerState list \<Rightarrow> int" where
  "averageCustomerSentiment customers =
    (if customers = [] then 0
     else go_div (foldl (\<lambda>total customer. total + cs_Sentiment customer) 0 customers) (int (length customers)))"

definition report_minMoney :: "Money \<Rightarrow> Money \<Rightarrow> Money" where
  "report_minMoney left right = (if left < right then left else right)"

definition applyProjectedCashDelta :: "Money \<Rightarrow> Money \<Rightarrow> Money \<Rightarrow> Money \<times> Money" where
  "applyProjectedCashDelta cash debt delta =
    (if delta = 0 then (cash, debt)
     else if 0 < delta then
       (let paydown = report_minMoney delta debt;
            debt = debt - paydown;
            cash = cash + (delta - paydown)
        in (cash, debt))
     else let spend = - delta
       in if spend \<le> cash then (cash - spend, debt)
          else (0, debt + (spend - cash)))"

definition projectedPositionAfterCommitments :: "PlantState \<Rightarrow> Money \<times> Money" where
  "projectedPositionAfterCommitments s =
    (let position = (pl_Cash s, pl_Debt s);
         position = foldl (\<lambda>(cash, debt) item. applyProjectedCashDelta cash debt (- cc_Amount item))
                      position (pl_Payables s)
     in foldl (\<lambda>(cash, debt) item. applyProjectedCashDelta cash debt (cc_Amount item))
          position (pl_Receivables s))"

section \<open>Summaries per product\<close>

definition payloadString :: "payload \<Rightarrow> string \<Rightarrow> string option" where
  "payloadString p key = (case map_of p key of Some (AString s) \<Rightarrow> Some s | _ \<Rightarrow> None)"

definition payloadInt :: "payload \<Rightarrow> string \<Rightarrow> int" where
  "payloadInt p key = (case map_of p key of Some (AInt i) \<Rightarrow> i | _ \<Rightarrow> 0)"

text \<open>A read of a missing key gives the zero value: an absent product id is the empty string.\<close>

definition payloadProduct :: "payload \<Rightarrow> ProductID" where
  "payloadProduct p = (case payloadString p ''product_id'' of Some s \<Rightarrow> s | None \<Rightarrow> [])"

text \<open>\<open>item := summary[id]\<close>, its update, and the write back.\<close>

definition updateValue ::
  "ProductID \<Rightarrow> (ProductValueSummary \<Rightarrow> ProductValueSummary) \<Rightarrow> ProductValueSummary list \<Rightarrow> ProductValueSummary list" where
  "updateValue productID f summary =
     upsert_first (\<lambda>item. pv_ProductID item = productID) f
       (f \<lparr>pv_ProductID = productID, pv_Count = 0, pv_TotalValue = 0, pv_Description = []\<rparr>) summary"

definition newSalesStep :: "ProductValueSummary list \<Rightarrow> RoundEvent \<Rightarrow> ProductValueSummary list" where
  "newSalesStep summary event =
    (if ev_Type event \<noteq> EventDemandRealized then summary
     else let productID = payloadProduct (ev_Payload event);
              quantity = payloadInt (ev_Payload event) ''quantity'';
              unitPrice = payloadInt (ev_Payload event) ''offered_unit_price''
          in updateValue productID (\<lambda>item. item\<lparr>pv_Count := pv_Count item + quantity,
               pv_TotalValue := pv_TotalValue item + quantity * unitPrice,
               pv_Description := ''New demand realized last round''\<rparr>) summary)"

definition newSalesSummary :: "(nat \<Rightarrow> nat list) \<Rightarrow> RoundRecord option \<Rightarrow> ProductValueSummary list" where
  "newSalesSummary order latest =
    (case latest of None \<Rightarrow> []
     | Some round \<Rightarrow> mapValues order (foldl newSalesStep [] (rr_Events round)))"

definition backlogStep :: "string \<Rightarrow> ProductValueSummary list \<Rightarrow> BacklogEntry \<Rightarrow> ProductValueSummary list" where
  "backlogStep description summary entry =
     updateValue (be_ProductID entry)
       (\<lambda>item. item\<lparr>pv_Count := pv_Count item + be_Quantity entry, pv_Description := description\<rparr>) summary"

definition backlogSummary :: "(nat \<Rightarrow> nat list) \<Rightarrow> BacklogEntry list \<Rightarrow> ProductValueSummary list" where
  "backlogSummary order backlog = mapValues order (foldl (backlogStep ''Unshipped backlog'') [] backlog)"

definition backlogAtRiskSummary :: "(nat \<Rightarrow> nat list) \<Rightarrow> BacklogEntry list \<Rightarrow> ProductValueSummary list" where
  "backlogAtRiskSummary order backlog =
     mapValues order (foldl (\<lambda>summary entry. if be_AgeInRounds entry < 2 then summary
       else backlogStep ''Delayed backlog at expiry risk'' summary entry) [] backlog)"

definition producedStep :: "ProductUnitSummary list \<Rightarrow> RoundEvent \<Rightarrow> ProductUnitSummary list" where
  "producedStep summary event =
    (if ev_Type event \<noteq> EventFinishedGoodsProduced then summary
     else let productID = payloadProduct (ev_Payload event);
              quantity = payloadInt (ev_Payload event) ''quantity'';
              f = (\<lambda>item. item\<lparr>pu_Count := pu_Count item + quantity, pu_Description := ''Finished last round''\<rparr>)
          in upsert_first (\<lambda>item. pu_ProductID item = productID) f
               (f \<lparr>pu_ProductID = productID, pu_Count = 0, pu_Description = []\<rparr>) summary)"

definition producedSummary :: "(nat \<Rightarrow> nat list) \<Rightarrow> RoundRecord option \<Rightarrow> ProductUnitSummary list" where
  "producedSummary order latest =
    (case latest of None \<Rightarrow> []
     | Some round \<Rightarrow> mapValues order (foldl producedStep [] (rr_Events round)))"

definition financialUpdate :: "RoundEvent \<Rightarrow> ProductFinancialSummary \<Rightarrow> ProductFinancialSummary" where
  "financialUpdate event item =
    (let item =
       (case ev_Type event of
          EventShipmentCompleted \<Rightarrow> item\<lparr>pf_Revenue := pf_Revenue item
            + payloadInt (ev_Payload event) ''quantity'' * payloadInt (ev_Payload event) ''unit_price''\<rparr>
        | EventFinishedGoodsProduced \<Rightarrow> item\<lparr>pf_ProductionCost := pf_ProductionCost item
            + payloadInt (ev_Payload event) ''inventory_cost''\<rparr>
        | EventProductionReleased \<Rightarrow> item\<lparr>pf_PartsCost := pf_PartsCost item
            + payloadInt (ev_Payload event) ''material_cost''\<rparr>
        | _ \<Rightarrow> item)
     in item\<lparr>pf_ContributionMargin := pf_Revenue item - pf_ProductionCost item - pf_PartsCost item\<rparr>)"

definition financialStep :: "ProductFinancialSummary list \<Rightarrow> RoundEvent \<Rightarrow> ProductFinancialSummary list" where
  "financialStep summary event =
    (case payloadString (ev_Payload event) ''product_id'' of
       None \<Rightarrow> summary
     | Some productID \<Rightarrow>
         if productID = [] then summary
         else upsert_first (\<lambda>item. pf_ProductID item = productID) (financialUpdate event)
           (financialUpdate event \<lparr>pf_ProductID = productID, pf_Revenue = 0, pf_ProductionCost = 0,
              pf_PartsCost = 0, pf_ContributionMargin = 0\<rparr>) summary)"

definition financialSummary :: "(nat \<Rightarrow> nat list) \<Rightarrow> RoundRecord option \<Rightarrow> ProductFinancialSummary list" where
  "financialSummary order latest =
    (case latest of None \<Rightarrow> []
     | Some round \<Rightarrow> mapValues order (foldl financialStep [] (rr_Events round)))"

section \<open>Lines\<close>

definition stressSummaryLine :: "WorkstationState list \<Rightarrow> string" where
  "stressSummaryLine items =
    (if items = [] then ''No workstation stress profile is currently active.''
     else let worst = foldl (\<lambda>worst item. if ws_StressCapacityLoss worst < ws_StressCapacityLoss item
                then item else worst) (hd items) (tl items)
     in if ws_StressCapacityLoss worst \<le> 0
     then ''No workstation lost effective capacity to congestion last round.''
     else ws_DisplayName worst @ '' lost '' @ itoa (ws_StressCapacityLoss worst)
       @ '' unit(s) of effective capacity and closed at '' @ itoa (ws_EffectiveCapacityPerRound worst)
       @ ''/'' @ itoa (ws_CapacityPerRound worst) @ ''.'')"

definition nextSupplyArrivalLine :: "SupplyLot list \<Rightarrow> RoundNumber \<Rightarrow> string" where
  "nextSupplyArrivalLine lots currentRound =
    (if lots = [] then ''No inbound supply is currently scheduled.''
     else let lot = foldl (\<lambda>lot other. if sl_ArrivalRound other < sl_ArrivalRound lot then other else lot)
                (hd lots) (tl lots)
     in if sl_ArrivalRound lot \<le> currentRound
     then ''Next inbound lot from '' @ sl_SupplierID lot @ '' is due this round.''
     else if sl_PromisedRound lot < sl_ArrivalRound lot \<and> sl_PromisedRound lot \<le> currentRound
     then ''Next inbound lot from '' @ sl_SupplierID lot @ '' is running ''
       @ itoa (sl_ArrivalRound lot - currentRound) @ '' round(s) late.''
     else ''Next inbound lot from '' @ sl_SupplierID lot @ '' is due in ''
       @ itoa (sl_ArrivalRound lot - currentRound) @ '' round(s).'')"

definition supplierScorecardLine :: "SupplierState list \<Rightarrow> string" where
  "supplierScorecardLine suppliers =
    (if suppliers = [] then ''No supplier scorecard is available.''
     else let best = foldl (\<lambda>best s. if ss_ReliabilityScore best < ss_ReliabilityScore s then s else best)
                (hd suppliers) (tl suppliers);
              worst = foldl (\<lambda>worst s. if ss_ReliabilityScore s < ss_ReliabilityScore worst then s else worst)
                (hd suppliers) (tl suppliers)
     in if ss_SupplierID best = ss_SupplierID worst
     then ss_SupplierID best @ '' is currently carrying a supplier score of ''
       @ itoa (ss_ReliabilityScore best) @ ''.''
     else ''Supplier scorecard ranges from '' @ ss_SupplierID worst @ '' at '' @ itoa (ss_ReliabilityScore worst)
       @ '' to '' @ ss_SupplierID best @ '' at '' @ itoa (ss_ReliabilityScore best) @ ''.'')"

definition laborRemaining :: "WorkstationState \<Rightarrow> CapacityUnits" where
  "laborRemaining item =
    (let base = ws_LaborCapacityPerRound item;
         base = (if base \<le> 0 then ws_CapacityPerRound item else base);
         remaining = base - ws_LaborUsed item
     in if remaining < 0 then 0 else remaining)"

definition laborBottleneckLine :: "WorkstationState list \<Rightarrow> string" where
  "laborBottleneckLine items =
    (if items = [] then ''No labor profile is currently configured.''
     else let (mostConstrained, bestRemaining) =
            foldl (\<lambda>(most, best) item. if laborRemaining item < best then (item, laborRemaining item) else (most, best))
              (hd items, laborRemaining (hd items)) (tl items)
     in ws_DisplayName mostConstrained @ '' closed with '' @ itoa bestRemaining
       @ '' labor unit(s) remaining and '' @ itoa (ws_OvertimeUsed mostConstrained) @ '' overtime unit(s) used.'')"

definition reportMetric :: "string \<Rightarrow> string \<Rightarrow> int \<Rightarrow> string \<Rightarrow> string \<Rightarrow> RoleReportMetric" where
  "reportMetric metricID label amount unit interpretation =
     \<lparr>rm_Metric = \<lparr>mv_MetricID = metricID, mv_Value = amount, mv_DisplayUnit = unit\<rparr>,
      rm_Label = label, rm_Interpretation = interpretation\<rparr>"

definition bonusReminder :: "RoleID \<Rightarrow> string" where
  "bonusReminder roleID =
    (case roleID of
       RoleProcurementManager \<Rightarrow>
         ''Bonus reminder: protect supply continuity and favorable part economics without starving plant cash.''
     | RoleProductionManager \<Rightarrow>
         ''Bonus reminder: keep throughput moving and WIP under control at the bottleneck.''
     | RoleSalesManager \<Rightarrow>
         ''Bonus reminder: sales compensation favors booked demand and shipped revenue.''
     | RoleFinanceController \<Rightarrow>
         ''Bonus reminder: maintain liquidity, margins, and target discipline.''
     | OtherRole _ \<Rightarrow> ''Bonus reminder: optimize for plant-wide performance.'')"

section \<open>Warnings\<close>

definition warningIf :: "bool \<Rightarrow> string \<Rightarrow> string \<Rightarrow> string \<Rightarrow> RoleReportWarning list" where
  "warningIf condition code headline detail =
    (if condition then [\<lparr>wn_Code = code, wn_Headline = headline, wn_Detail = detail\<rparr>] else [])"

definition inventoryRiskWarnings :: "PlantState \<Rightarrow> InventoryValueSummary \<Rightarrow> RoleReportWarning list" where
  "inventoryRiskWarnings s held =
     warningIf (pl_Cash s < iv_TotalValue held \<and> 0 < iv_TotalValue held)
       ''inventory_exceeds_cash''
       ''Inventory value exceeds current cash.''
       ''Working capital is heavily tied up in stock relative to liquid cash on hand.''
     @ warningIf (0 < int (length (pl_InspectionHolds s)))
       ''inspection_hold_inventory''
       ''Some inventory is stuck in inspection hold.''
       (itoa (int (length (pl_InspectionHolds s))) @ '' hold lot(s) are not currently available to support demand.'')"

definition backlogWarnings :: "BacklogEntry list \<Rightarrow> RoleReportWarning list" where
  "backlogWarnings backlog =
     warningIf (sumBacklogUnitsAtRisk backlog \<noteq> 0)
       ''aging_backlog''
       ''Aging backlog is accumulating.''
       (itoa (sumBacklogUnitsAtRisk backlog) @ '' backlog unit(s) are at risk because they have aged two rounds or more.'')"

definition serviceWarnings :: "MatchState \<Rightarrow> RoleReportWarning list" where
  "serviceWarnings state =
     warningIf (pm_OnTimeShipmentRate (ms_Metrics state) < 90)
       ''service_level_low''
       ''On-time shipment performance is below target.''
       ''Customer service credibility is at risk if new demand continues to outpace fulfillment.''
     @ warningIf (0 < pm_LostSalesUnits (ms_Metrics state))
       ''lost_sales''
       ''The plant is already losing demand.''
       (itoa (pm_LostSalesUnits (ms_Metrics state)) @ '' unit(s) of demand were lost last round.'')"

definition marginWarnings :: "MatchState \<Rightarrow> RoleReportWarning list" where
  "marginWarnings state =
     warningIf (\<not> 0 \<le> pm_RoundProfit (ms_Metrics state))
       ''negative_profit''
       ''The latest round closed at a loss.''
       ''Current pricing, spend, or production mix is not generating healthy economics.''"

definition capacityWarnings :: "MatchState \<Rightarrow> RoleReportWarning list" where
  "capacityWarnings state =
     warningIf (0 < pm_CapacityLossUnits (ms_Metrics state))
       ''capacity_stress''
       ''Capacity stress reduced effective output.''
       (itoa (pm_CapacityLossUnits (ms_Metrics state)) @ '' unit(s) of capacity were lost to stress or congestion.'')
     @ warningIf (pm_IdleLaborUnits (ms_Metrics state) < pm_OvertimeUnits (ms_Metrics state) \<and> 0 < pm_OvertimeUnits (ms_Metrics state))
       ''overtime_dependency''
       ''Output is leaning on overtime.''
       ''The plant is relying more on overtime than on unused labor slack, which can become expensive quickly.''"

definition demandWarnings :: "MatchState \<Rightarrow> RoleReportWarning list" where
  "demandWarnings state =
     warningIf (averageCustomerSentiment (ms_Customers state) \<le> 4 \<and> 0 < int (length (ms_Customers state)))
       ''customer_sentiment_softening''
       ''Customer sentiment is softening.''
       ''Future demand may weaken if service or pricing pressure continues.''
     @ warningIf (pm_FinishedGoodsUnits (ms_Metrics state) < sumBacklogUnits (pl_Backlog (ms_Plant state)) \<and> 0 < int (length (pl_Backlog (ms_Plant state))))
       ''demand_outpacing_inventory''
       ''Booked demand is outrunning finished goods.''
       ''Current demand pressure may be turning into service risk rather than healthy growth.''"

definition procurementWarnings :: "MatchState \<Rightarrow> RoleReportWarning list" where
  "procurementWarnings state =
     warningIf (pm_SupplierReliability (ms_Metrics state) < 90)
       ''supplier_reliability_low''
       ''Supplier reliability is below comfort range.''
       ''Receipts may be less dependable, so coverage assumptions should stay conservative.''
     @ warningIf (sumInTransitSupply (pl_InTransitSupply (ms_Plant state)) = 0)
       ''no_inbound_supply''
       ''No inbound supply is currently scheduled.''
       ''Production continuity may depend entirely on existing stock unless procurement acts.''
     @ warningIf (pl_Cash (ms_Plant state) < inventoryBucketTotal (pl_PartsInventory (ms_Plant state)) \<and> 0 < pm_PartsOnHandUnits (ms_Metrics state))
       ''parts_cash_drag''
       ''Parts inventory is becoming a cash drag.''
       ''More buys may worsen liquidity unless they clearly protect near-term throughput.''"

definition financeWarnings :: "MatchState \<Rightarrow> Money \<Rightarrow> Money \<Rightarrow> RoleReportWarning list" where
  "financeWarnings state projectedCash projectedDebt =
     warningIf (pl_Debt (ms_Plant state) < projectedDebt)
       ''projected_debt_increase''
       ''Open commitments are likely to increase debt.''
       (''Projected debt rises to '' @ itoa projectedDebt @ '' after currently visible commitments.'')
     @ warningIf (projectedCash < bt_CashFloorTarget (ms_ActiveTargets state))
       ''cash_floor_pressure''
       ''Projected cash falls below the active cash floor target.''
       (''Projected cash is '' @ itoa projectedCash @ '' against a target floor of '' @ itoa (bt_CashFloorTarget (ms_ActiveTargets state)) @ ''.'')
     @ warningIf (nextRoundNetCash (ms_Plant state) (ms_CurrentRound state) < 0)
       ''negative_next_round_maturities''
       ''Next-round maturities are net cash-negative.''
       ''Near-term commitments are likely to pressure liquidity unless operations recover cash quickly.''"

definition productionWarnings :: "MatchState \<Rightarrow> RoleReportWarning list" where
  "productionWarnings state =
     capacityWarnings state
     @ warningIf (pm_ProductionOutputUnits (ms_Metrics state) < sumWIPUnits (pl_WIPInventory (ms_Plant state)) \<and> 0 < sumWIPUnits (pl_WIPInventory (ms_Plant state)))
       ''wip_building''
       ''WIP is building faster than finished output.''
       ''More release may create congestion instead of more useful throughput.''"

definition salesWarnings :: "MatchState \<Rightarrow> RoleReportWarning list" where
  "salesWarnings state =
     serviceWarnings state
     @ warningIf (0 < sumBacklogUnitsAtRisk (pl_Backlog (ms_Plant state)))
       ''backlog_expiry_risk''
       ''Some backlog is old enough to threaten service credibility.''
       ''Aggressive pricing may be counterproductive until aging orders are stabilized.''"

definition cashDebtWarnings :: "MatchState \<Rightarrow> RoleReportWarning list" where
  "cashDebtWarnings state =
    (let (projectedCash, projectedDebt) = projectedPositionAfterCommitments (ms_Plant state)
     in financeWarnings state projectedCash projectedDebt)"


section \<open>The reports\<close>

definition companySection_InventoryRisk :: "MatchState \<Rightarrow> RoleReportSection" where
  "companySection_InventoryRisk state =
     (let held = inventorySummary (ms_Plant state)
     in \<lparr>se_Kind = RoleReportSectionInventoryRisk,
      se_Title = ''Inventory risk'',
      se_DecisionFocus = ''Shows how much working capital is currently trapped in inventory.'',
      se_Summary = [(''Inventory currently ties up '' @ itoa (iv_TotalValue held) @ '' across parts, WIP, and finished goods.'')],
      se_Metrics = [],
      se_Facts = [(''Parts value is '' @ itoa (inventoryBucketTotal (pl_PartsInventory (ms_Plant state))) @ '', WIP value is '' @ itoa (wipInventoryValue (pl_WIPInventory (ms_Plant state))) @ '', and finished goods value is '' @ itoa (finishedInventoryValue (pl_FinishedInventory (ms_Plant state))) @ ''.'')],
      se_ProductValues = [],
      se_ProductUnits = [],
      se_Inventory = (Some held),
      se_Financials = [],
      se_Warnings = (inventoryRiskWarnings (ms_Plant state) held),
      se_Tradeoffs = [],
      se_Prompts = []\<rparr>)"

definition companySection_BacklogHealth :: "MapOrder \<Rightarrow> MatchState \<Rightarrow> RoleReportSection" where
  "companySection_BacklogHealth mo state =
     (let backlogAtRisk = sumBacklogUnitsAtRisk (pl_Backlog (ms_Plant state));
         backlogUnits = sumBacklogUnits (pl_Backlog (ms_Plant state))
     in \<lparr>se_Kind = RoleReportSectionBacklogHealth,
      se_Title = ''Backlog health and aging'',
      se_DecisionFocus = ''Highlights open demand that is still waiting to ship and where service risk is accumulating.'',
      se_Summary = [(''Open backlog totals '' @ itoa backlogUnits @ '' unit(s), with '' @ itoa backlogAtRisk @ '' unit(s) already at expiry risk.'')],
      se_Metrics = [],
      se_Facts = [],
      se_ProductValues = (backlogSummary (mo 1) (pl_Backlog (ms_Plant state))),
      se_ProductUnits = [],
      se_Inventory = None,
      se_Financials = [],
      se_Warnings = (backlogWarnings (pl_Backlog (ms_Plant state))),
      se_Tradeoffs = [],
      se_Prompts = []\<rparr>)"

definition companySection_ServiceRisk :: "MatchState \<Rightarrow> RoleReportSection" where
  "companySection_ServiceRisk state =
     \<lparr>se_Kind = RoleReportSectionServiceRisk,
      se_Title = ''Service risk'',
      se_DecisionFocus = ''Shows whether shipments and backlog quality are putting customer service credibility at risk.'',
      se_Summary = [(''On-time shipment rate closed at '' @ itoa (pm_OnTimeShipmentRate (ms_Metrics state)) @ ''% with '' @ itoa (pm_LostSalesUnits (ms_Metrics state)) @ '' lost sales unit(s).'')],
      se_Metrics = [(reportMetric ''on_time_shipment_rate'' ''On-time shipment rate'' (pm_OnTimeShipmentRate (ms_Metrics state)) ''pct'' ''Higher values indicate the plant is keeping its service promises.''),
        (reportMetric ''lost_sales_units'' ''Lost sales'' (pm_LostSalesUnits (ms_Metrics state)) ''units'' ''Lost sales indicate demand the plant could not convert into revenue.'')],
      se_Facts = [],
      se_ProductValues = [],
      se_ProductUnits = [],
      se_Inventory = None,
      se_Financials = [],
      se_Warnings = (serviceWarnings state),
      se_Tradeoffs = [],
      se_Prompts = []\<rparr>"

definition companySection_MarginVariance :: "MapOrder \<Rightarrow> MatchState \<Rightarrow> RoleReportSection" where
  "companySection_MarginVariance mo state =
     (let financials = financialSummary (mo 4) (latestRound state)
     in \<lparr>se_Kind = RoleReportSectionMarginVariance,
      se_Title = ''Margin and variance'',
      se_DecisionFocus = ''Summarizes whether revenue, production cost, and parts cost are producing healthy economics.'',
      se_Summary = [(''Round profit closed at '' @ itoa (pm_RoundProfit (ms_Metrics state)) @ '' and product contribution summaries are available for '' @ itoa (int (length financials)) @ '' product(s).'')],
      se_Metrics = [(reportMetric ''round_profit'' ''Round profit'' (pm_RoundProfit (ms_Metrics state)) ''money'' ''Profit signals whether the current operating mix is economically healthy.''),
        (reportMetric ''throughput_revenue'' ''Throughput revenue'' (pm_ThroughputRevenue (ms_Metrics state)) ''money'' ''Revenue shows how much shipped demand converted into cash-generating output.'')],
      se_Facts = [],
      se_ProductValues = [],
      se_ProductUnits = [],
      se_Inventory = None,
      se_Financials = financials,
      se_Warnings = (marginWarnings state),
      se_Tradeoffs = [],
      se_Prompts = []\<rparr>)"

definition companySection_CapacityPressure :: "MapOrder \<Rightarrow> MatchState \<Rightarrow> RoleReportSection" where
  "companySection_CapacityPressure mo state =
     (let produced = producedSummary (mo 3) (latestRound state)
     in \<lparr>se_Kind = RoleReportSectionCapacityPressure,
      se_Title = ''Capacity pressure'',
      se_DecisionFocus = ''Shows whether the line is running into congestion, idle labor, or overtime dependence.'',
      se_Summary = [(''The plant produced '' @ itoa (pm_ProductionOutputUnits (ms_Metrics state)) @ '' unit(s), lost '' @ itoa (pm_CapacityLossUnits (ms_Metrics state)) @ '' unit(s) of capacity, and used '' @ itoa (pm_OvertimeUnits (ms_Metrics state)) @ '' overtime unit(s) last round.'')],
      se_Metrics = [(reportMetric ''production_output_units'' ''Output'' (pm_ProductionOutputUnits (ms_Metrics state)) ''units'' ''Completed output is the plant's realized production flow.''),
        (reportMetric ''capacity_loss_units'' ''Capacity loss'' (pm_CapacityLossUnits (ms_Metrics state)) ''units'' ''Capacity loss indicates congestion or stress penalties.''),
        (reportMetric ''overtime_units'' ''Overtime'' (pm_OvertimeUnits (ms_Metrics state)) ''units'' ''Overtime can protect throughput but increases spend and stress.'')],
      se_Facts = [(stressSummaryLine (pl_Workstations (ms_Plant state))),
        (laborBottleneckLine (pl_Workstations (ms_Plant state)))],
      se_ProductValues = [],
      se_ProductUnits = produced,
      se_Inventory = None,
      se_Financials = [],
      se_Warnings = (capacityWarnings state),
      se_Tradeoffs = [],
      se_Prompts = []\<rparr>)"

definition companySection_DemandHealth :: "MapOrder \<Rightarrow> MatchState \<Rightarrow> RoleReportSection" where
  "companySection_DemandHealth mo state =
     \<lparr>se_Kind = RoleReportSectionDemandHealth,
      se_Title = ''Customer sentiment and demand health'',
      se_DecisionFocus = ''Shows whether current demand is healthy, weak, or turning fragile because of service or price posture.'',
      se_Summary = [(''New demand realized last round totaled '' @ itoa (int (length (newSalesSummary (mo 0) (latestRound state)))) @ '' product line(s) and customer sentiment averages '' @ itoa (averageCustomerSentiment (ms_Customers state)) @ ''.'')],
      se_Metrics = [(reportMetric ''customer_sentiment'' ''Average sentiment'' (averageCustomerSentiment (ms_Customers state)) ''score'' ''Sentiment helps signal whether future demand pressure is durable.'')],
      se_Facts = [],
      se_ProductValues = (newSalesSummary (mo 0) (latestRound state)),
      se_ProductUnits = [],
      se_Inventory = None,
      se_Financials = [],
      se_Warnings = (demandWarnings state),
      se_Tradeoffs = [],
      se_Prompts = []\<rparr>"

definition companySection_CashDebtPressure :: "MatchState \<Rightarrow> RoleReportSection" where
  "companySection_CashDebtPressure state =
     \<lparr>se_Kind = RoleReportSectionCashDebtPressure,
      se_Title = ''Cash and debt pressure'',
      se_DecisionFocus = ''Shows whether the plant can fund operations comfortably or is drifting toward liquidity stress.'',
      se_Summary = [(''Current cash is '' @ itoa (pl_Cash (ms_Plant state)) @ '' against debt '' @ itoa (pl_Debt (ms_Plant state)) @ '' and a debt ceiling of '' @ itoa (pl_DebtCeiling (ms_Plant state)) @ ''.'')],
      se_Metrics = [(reportMetric ''cash_position'' ''Cash'' (pl_Cash (ms_Plant state)) ''money'' ''Cash is the first buffer against operating volatility.''),
        (reportMetric ''debt_position'' ''Debt'' (pl_Debt (ms_Plant state)) ''money'' ''Debt rises when the plant spends beyond available cash.''),
        (reportMetric ''net_cash_change'' ''Net cash change'' (pm_NetCashChange (ms_Metrics state)) ''money'' ''Net cash change shows whether the week strengthened or weakened liquidity.'')],
      se_Facts = [(''Open receivables total '' @ itoa (sumCommitmentAmount (pl_Receivables (ms_Plant state))) @ '' and open payables total '' @ itoa (sumCommitmentAmount (pl_Payables (ms_Plant state))) @ ''.'')],
      se_ProductValues = [],
      se_ProductUnits = [],
      se_Inventory = None,
      se_Financials = [],
      se_Warnings = (cashDebtWarnings state),
      se_Tradeoffs = [],
      se_Prompts = []\<rparr>"

definition buildCompanywidePerformanceReport :: "MapOrder \<Rightarrow> MatchState \<Rightarrow> CompanywidePerformanceReport" where
  "buildCompanywidePerformanceReport mo state =
     \<lparr>cr_Sections =
       [companySection_InventoryRisk state,
        companySection_BacklogHealth mo state,
        companySection_ServiceRisk state,
        companySection_MarginVariance mo state,
        companySection_CapacityPressure mo state,
        companySection_DemandHealth mo state,
        companySection_CashDebtPressure state]\<rparr>"

definition procurementSection_ExecutiveSummary :: "MatchState \<Rightarrow> RoleReportSection" where
  "procurementSection_ExecutiveSummary state =
     (let inTransit = sumInTransitSupply (pl_InTransitSupply (ms_Plant state))
     in \<lparr>se_Kind = RoleReportSectionExecutiveSummary,
      se_Title = ''Executive summary'',
      se_DecisionFocus = ''Set the overall buying posture for this week.'',
      se_Summary = [(''Procurement is balancing '' @ itoa inTransit @ '' unit(s) already in transit against '' @ itoa (pm_PartsOnHandUnits (ms_Metrics state)) @ '' unit(s) on hand.''),
        (''Supplier reliability is '' @ itoa (pm_SupplierReliability (ms_Metrics state)) @ ''%, so buying posture should reflect both continuity and cash discipline.'')],
      se_Metrics = [],
      se_Facts = [],
      se_ProductValues = [],
      se_ProductUnits = [],
      se_Inventory = None,
      se_Financials = [],
      se_Warnings = (procurementWarnings state),
      se_Tradeoffs = [],
      se_Prompts = []\<rparr>)"

definition procurementSection_OperatingPicture :: "MatchState \<Rightarrow> RoleReportSection" where
  "procurementSection_OperatingPicture state =
     (let inTransit = sumInTransitSupply (pl_InTransitSupply (ms_Plant state));
         partsValue = inventoryBucketTotal (pl_PartsInventory (ms_Plant state))
     in \<lparr>se_Kind = RoleReportSectionOperatingPicture,
      se_Title = ''Role-critical operating picture'',
      se_DecisionFocus = ''Shows current material coverage, receipts, and supplier posture.'',
      se_Summary = [],
      se_Metrics = [(reportMetric ''ordered_parts'' ''In-transit supply'' inTransit ''units'' ''Open purchase orders already provide some next-round protection.''),
        (reportMetric ''parts_on_hand'' ''Parts on hand'' (pm_PartsOnHandUnits (ms_Metrics state)) ''units'' ''On-hand parts are the immediate material buffer.''),
        (reportMetric ''supplier_reliability'' ''Supplier reliability'' (pm_SupplierReliability (ms_Metrics state)) ''pct'' ''Reliability signals how much schedule confidence procurement can assume.'')],
      se_Facts = [(''On-hand parts inventory value is '' @ itoa partsValue @ ''.''),
        (supplierScorecardLine (ms_Suppliers state)),
        (nextSupplyArrivalLine (pl_InTransitSupply (ms_Plant state)) (ms_CurrentRound state))],
      se_ProductValues = [],
      se_ProductUnits = [],
      se_Inventory = None,
      se_Financials = [],
      se_Warnings = [],
      se_Tradeoffs = [],
      se_Prompts = []\<rparr>)"

definition procurementSection_ConstraintRiskView :: "MatchState \<Rightarrow> RoleReportSection" where
  "procurementSection_ConstraintRiskView state =
     (let inTransit = sumInTransitSupply (pl_InTransitSupply (ms_Plant state))
     in \<lparr>se_Kind = RoleReportSectionConstraintRiskView,
      se_Title = ''Constraint and risk view'',
      se_DecisionFocus = ''Highlights where shortages or overbuy risk are becoming dangerous.'',
      se_Summary = [],
      se_Metrics = [],
      se_Facts = [(''Open inbound supply totals '' @ itoa inTransit @ '' unit(s) across current purchase orders.'')],
      se_ProductValues = [],
      se_ProductUnits = [],
      se_Inventory = None,
      se_Financials = [],
      se_Warnings = (procurementWarnings state),
      se_Tradeoffs = [],
      se_Prompts = []\<rparr>)"

definition procurementSection_TradeoffPressure :: "MatchState \<Rightarrow> RoleReportSection" where
  "procurementSection_TradeoffPressure state =
     (let inTransit = sumInTransitSupply (pl_InTransitSupply (ms_Plant state))
     in \<lparr>se_Kind = RoleReportSectionTradeoffPressure,
      se_Title = ''Tradeoff and pressure view'',
      se_DecisionFocus = ''Shows the tension between shortage protection and cash discipline.'',
      se_Summary = [],
      se_Metrics = [],
      se_Facts = [],
      se_ProductValues = [],
      se_ProductUnits = [],
      se_Inventory = None,
      se_Financials = [],
      se_Warnings = [],
      se_Tradeoffs = [\<lparr>tr_Focus = ''Continuity versus overbuy'', tr_Tension = ''Buying too little risks starving production, but buying too much traps cash in parts inventory.'', tr_Guidance = (''Use the '' @ itoa inTransit @ '' unit(s) already in transit before layering on duplicate protection.'')\<rparr>,
        \<lparr>tr_Focus = ''Cheap supply versus reliable supply'', tr_Tension = ''A lower-cost source is not attractive if reliability makes next-round production fragile.'', tr_Guidance = (supplierScorecardLine (ms_Suppliers state))\<rparr>],
      se_Prompts = []\<rparr>)"

definition procurementSection_DecisionPrompts :: "MatchState \<Rightarrow> RoleReportSection" where
  "procurementSection_DecisionPrompts state =
     \<lparr>se_Kind = RoleReportSectionDecisionPrompts,
      se_Title = ''Decision prompts'',
      se_DecisionFocus = ''End with the concrete buying questions procurement should answer now.'',
      se_Summary = [],
      se_Metrics = [],
      se_Facts = [],
      se_ProductValues = [],
      se_ProductUnits = [],
      se_Inventory = None,
      se_Financials = [],
      se_Warnings = [],
      se_Tradeoffs = [],
      se_Prompts = [\<lparr>pp_Question = ''Which exposed part is actually worth buying now?'', pp_WhyItMatters = ''Not every low stock position deserves immediate cash.''\<rparr>,
        \<lparr>pp_Question = ''Does existing in-transit supply already cover the next bottleneck risk?'', pp_WhyItMatters = ''Avoiding duplicate buys preserves liquidity.''\<rparr>,
        \<lparr>pp_Question = ''Where is reliability weak enough that supply continuity deserves extra protection?'', pp_WhyItMatters = ''A fragile supplier base can erase a seemingly efficient order plan.''\<rparr>]\<rparr>"

definition procurementDepartmentReport :: "MatchState \<Rightarrow> RoleID \<Rightarrow> DepartmentPerformanceReport" where
  "procurementDepartmentReport state viewerRoleID =
     \<lparr>dr_RoleID = viewerRoleID,
      dr_Sections =
       [procurementSection_ExecutiveSummary state,
        procurementSection_OperatingPicture state,
        procurementSection_ConstraintRiskView state,
        procurementSection_TradeoffPressure state,
        procurementSection_DecisionPrompts state],
      dr_BonusSummary = bonusReminder viewerRoleID,
      dr_FocusQuestion = ''Which purchases best protect next-round production without creating avoidable cash and inventory drag?''\<rparr>"

definition productionSection_ExecutiveSummary :: "MatchState \<Rightarrow> RoleReportSection" where
  "productionSection_ExecutiveSummary state =
     \<lparr>se_Kind = RoleReportSectionExecutiveSummary,
      se_Title = ''Executive summary'',
      se_DecisionFocus = ''Sets whether this week is about throughput, recovery, or congestion control.'',
      se_Summary = [(''Production closed with '' @ itoa (pm_ProductionOutputUnits (ms_Metrics state)) @ '' unit(s) of output, '' @ itoa (sumWIPUnits (pl_WIPInventory (ms_Plant state))) @ '' unit(s) of WIP, and '' @ itoa (pm_CapacityLossUnits (ms_Metrics state)) @ '' unit(s) of capacity loss.''),
        (''Overtime contributed '' @ itoa (pm_OvertimeUnits (ms_Metrics state)) @ '' unit(s) while idle labor left '' @ itoa (pm_IdleLaborUnits (ms_Metrics state)) @ '' unit(s) unused.'')],
      se_Metrics = [],
      se_Facts = [],
      se_ProductValues = [],
      se_ProductUnits = [],
      se_Inventory = None,
      se_Financials = [],
      se_Warnings = (productionWarnings state),
      se_Tradeoffs = [],
      se_Prompts = []\<rparr>"

definition productionSection_OperatingPicture :: "MatchState \<Rightarrow> RoleReportSection" where
  "productionSection_OperatingPicture state =
     \<lparr>se_Kind = RoleReportSectionOperatingPicture,
      se_Title = ''Role-critical operating picture'',
      se_DecisionFocus = ''Shows output flow, bottlenecks, and material readiness.'',
      se_Summary = [],
      se_Metrics = [(reportMetric ''wip_units'' ''WIP'' (sumWIPUnits (pl_WIPInventory (ms_Plant state))) ''units'' ''WIP indicates how much work is already committed to the line.''),
        (reportMetric ''output_units'' ''Output'' (pm_ProductionOutputUnits (ms_Metrics state)) ''units'' ''Output shows how much useful work actually finished.''),
        (reportMetric ''capacity_loss'' ''Capacity loss'' (pm_CapacityLossUnits (ms_Metrics state)) ''units'' ''Capacity loss highlights congestion and stress.''),
        (reportMetric ''idle_labor'' ''Idle labor'' (pm_IdleLaborUnits (ms_Metrics state)) ''units'' ''Idle labor shows unused labor that could be redeployed.''),
        (reportMetric ''overtime_units'' ''Overtime'' (pm_OvertimeUnits (ms_Metrics state)) ''units'' ''Overtime may protect output but increases operating pressure.'')],
      se_Facts = [(''Finished goods on hand total '' @ itoa (pm_FinishedGoodsUnits (ms_Metrics state)) @ '' unit(s).''),
        (stressSummaryLine (pl_Workstations (ms_Plant state))),
        (laborBottleneckLine (pl_Workstations (ms_Plant state)))],
      se_ProductValues = [],
      se_ProductUnits = [],
      se_Inventory = None,
      se_Financials = [],
      se_Warnings = [],
      se_Tradeoffs = [],
      se_Prompts = []\<rparr>"

definition productionSection_ConstraintRiskView :: "MatchState \<Rightarrow> RoleReportSection" where
  "productionSection_ConstraintRiskView state =
     \<lparr>se_Kind = RoleReportSectionConstraintRiskView,
      se_Title = ''Constraint and risk view'',
      se_DecisionFocus = ''Shows where line congestion or material readiness can break the plan.'',
      se_Summary = [],
      se_Metrics = [],
      se_Facts = [],
      se_ProductValues = [],
      se_ProductUnits = [],
      se_Inventory = None,
      se_Financials = [],
      se_Warnings = (productionWarnings state),
      se_Tradeoffs = [],
      se_Prompts = []\<rparr>"

definition productionSection_TradeoffPressure :: "MatchState \<Rightarrow> RoleReportSection" where
  "productionSection_TradeoffPressure state =
     \<lparr>se_Kind = RoleReportSectionTradeoffPressure,
      se_Title = ''Tradeoff and pressure view'',
      se_DecisionFocus = ''Frames the throughput-versus-congestion decisions production must make.'',
      se_Summary = [],
      se_Metrics = [],
      se_Facts = [],
      se_ProductValues = [],
      se_ProductUnits = [],
      se_Inventory = None,
      se_Financials = [],
      se_Warnings = [],
      se_Tradeoffs = [\<lparr>tr_Focus = ''Throughput versus congestion'', tr_Tension = ''More release can improve output only if bottlenecks are still absorbent.'', tr_Guidance = (stressSummaryLine (pl_Workstations (ms_Plant state)))\<rparr>,
        \<lparr>tr_Focus = ''Overtime versus spend discipline'', tr_Tension = ''Selective overtime can rescue high-value output, but broad overtime adds cost without fixing bad flow.'', tr_Guidance = (''Last round used '' @ itoa (pm_OvertimeUnits (ms_Metrics state)) @ '' overtime unit(s) for '' @ itoa (pm_OvertimeCost (ms_Metrics state)) @ '' in overtime cost.'')\<rparr>],
      se_Prompts = []\<rparr>"

definition productionSection_DecisionPrompts :: "MatchState \<Rightarrow> RoleReportSection" where
  "productionSection_DecisionPrompts state =
     \<lparr>se_Kind = RoleReportSectionDecisionPrompts,
      se_Title = ''Decision prompts'',
      se_DecisionFocus = ''Ends with the production plan choices that matter this week.'',
      se_Summary = [],
      se_Metrics = [],
      se_Facts = [],
      se_ProductValues = [],
      se_ProductUnits = [],
      se_Inventory = None,
      se_Financials = [],
      se_Warnings = [],
      se_Tradeoffs = [],
      se_Prompts = [\<lparr>pp_Question = ''What is the highest-value feasible mix this week?'', pp_WhyItMatters = ''Not every release is equally valuable when capacity is constrained.''\<rparr>,
        \<lparr>pp_Question = ''Will more release protect throughput or just clog the bottleneck?'', pp_WhyItMatters = ''Pushing work into a congested line can lower real output.''\<rparr>,
        \<lparr>pp_Question = ''Is selective overtime justified by the output it protects?'', pp_WhyItMatters = ''Overtime should solve a real constraint, not mask a bad plan.''\<rparr>]\<rparr>"

definition productionDepartmentReport :: "MatchState \<Rightarrow> RoleID \<Rightarrow> DepartmentPerformanceReport" where
  "productionDepartmentReport state viewerRoleID =
     \<lparr>dr_RoleID = viewerRoleID,
      dr_Sections =
       [productionSection_ExecutiveSummary state,
        productionSection_OperatingPicture state,
        productionSection_ConstraintRiskView state,
        productionSection_TradeoffPressure state,
        productionSection_DecisionPrompts state],
      dr_BonusSummary = bonusReminder viewerRoleID,
      dr_FocusQuestion = ''What is the highest-value feasible production plan given visible parts, capacity, WIP, and spend pressure?''\<rparr>"

definition salesSection_ExecutiveSummary :: "MatchState \<Rightarrow> RoleReportSection" where
  "salesSection_ExecutiveSummary state =
     \<lparr>se_Kind = RoleReportSectionExecutiveSummary,
      se_Title = ''Executive summary'',
      se_DecisionFocus = ''Sets whether sales should press growth, hold steady, or protect credibility.'',
      se_Summary = [(''Sales is carrying '' @ itoa (sumBacklogUnits (pl_Backlog (ms_Plant state))) @ '' unit(s) of backlog with '' @ itoa (pm_OnTimeShipmentRate (ms_Metrics state)) @ ''% on-time shipment performance.''),
        (''Latest throughput revenue is '' @ itoa (pm_ThroughputRevenue (ms_Metrics state)) @ '' and lost sales reached '' @ itoa (pm_LostSalesUnits (ms_Metrics state)) @ '' unit(s).'')],
      se_Metrics = [],
      se_Facts = [],
      se_ProductValues = [],
      se_ProductUnits = [],
      se_Inventory = None,
      se_Financials = [],
      se_Warnings = (salesWarnings state),
      se_Tradeoffs = [],
      se_Prompts = []\<rparr>"

definition salesSection_OperatingPicture :: "MatchState \<Rightarrow> RoleReportSection" where
  "salesSection_OperatingPicture state =
     \<lparr>se_Kind = RoleReportSectionOperatingPicture,
      se_Title = ''Role-critical operating picture'',
      se_DecisionFocus = ''Shows backlog, shipped revenue, and customer demand pressure.'',
      se_Summary = [],
      se_Metrics = [(reportMetric ''sales_pipeline'' ''Backlog'' (sumBacklogUnits (pl_Backlog (ms_Plant state))) ''units'' ''Backlog is the booked demand already competing for fulfillment.''),
        (reportMetric ''throughput_revenue'' ''Throughput revenue'' (pm_ThroughputRevenue (ms_Metrics state)) ''money'' ''Revenue shows the demand that actually converted into shipments.''),
        (reportMetric ''on_time_shipment_rate'' ''On-time shipment rate'' (pm_OnTimeShipmentRate (ms_Metrics state)) ''pct'' ''Service quality shapes future credibility.'')],
      se_Facts = [(''Finished goods on hand total '' @ itoa (pm_FinishedGoodsUnits (ms_Metrics state)) @ '' unit(s).''),
        (''Average visible customer sentiment is '' @ itoa (averageCustomerSentiment (ms_Customers state)) @ ''.'')],
      se_ProductValues = [],
      se_ProductUnits = [],
      se_Inventory = None,
      se_Financials = [],
      se_Warnings = [],
      se_Tradeoffs = [],
      se_Prompts = []\<rparr>"

definition salesSection_ConstraintRiskView :: "MapOrder \<Rightarrow> MatchState \<Rightarrow> RoleReportSection" where
  "salesSection_ConstraintRiskView mo state =
     \<lparr>se_Kind = RoleReportSectionConstraintRiskView,
      se_Title = ''Constraint and risk view'',
      se_DecisionFocus = ''Highlights where backlog or service misses make incremental demand dangerous.'',
      se_Summary = [],
      se_Metrics = [],
      se_Facts = [],
      se_ProductValues = (backlogAtRiskSummary (mo 2) (pl_Backlog (ms_Plant state))),
      se_ProductUnits = [],
      se_Inventory = None,
      se_Financials = [],
      se_Warnings = (salesWarnings state),
      se_Tradeoffs = [],
      se_Prompts = []\<rparr>"

definition salesSection_TradeoffPressure :: "MatchState \<Rightarrow> RoleReportSection" where
  "salesSection_TradeoffPressure state =
     \<lparr>se_Kind = RoleReportSectionTradeoffPressure,
      se_Title = ''Tradeoff and pressure view'',
      se_DecisionFocus = ''Frames the growth-versus-service tradeoff sales is managing.'',
      se_Summary = [],
      se_Metrics = [],
      se_Facts = [],
      se_ProductValues = [],
      se_ProductUnits = [],
      se_Inventory = None,
      se_Financials = [],
      se_Warnings = [],
      se_Tradeoffs = [\<lparr>tr_Focus = ''Revenue growth versus service credibility'', tr_Tension = ''Pushing for more demand is only healthy if the plant can still fulfill it on time.'', tr_Guidance = (''Backlog at risk already totals '' @ itoa (sumBacklogUnitsAtRisk (pl_Backlog (ms_Plant state))) @ '' unit(s).'')\<rparr>,
        \<lparr>tr_Focus = ''Demand capture versus margin quality'', tr_Tension = ''A lower price may book more demand, but it can create weak economics if margin and service both deteriorate.'', tr_Guidance = (''Round profit is '' @ itoa (pm_RoundProfit (ms_Metrics state)) @ '' while throughput revenue is '' @ itoa (pm_ThroughputRevenue (ms_Metrics state)) @ ''.'')\<rparr>],
      se_Prompts = []\<rparr>"

definition salesSection_DecisionPrompts :: "MatchState \<Rightarrow> RoleReportSection" where
  "salesSection_DecisionPrompts state =
     \<lparr>se_Kind = RoleReportSectionDecisionPrompts,
      se_Title = ''Decision prompts'',
      se_DecisionFocus = ''Ends with the pricing questions sales should answer now.'',
      se_Summary = [],
      se_Metrics = [],
      se_Facts = [],
      se_ProductValues = [],
      se_ProductUnits = [],
      se_Inventory = None,
      se_Financials = [],
      se_Warnings = [],
      se_Tradeoffs = [],
      se_Prompts = [\<lparr>pp_Question = ''Are we winning healthy demand or dangerous backlog?'', pp_WhyItMatters = ''Demand quality matters as much as demand volume.''\<rparr>,
        \<lparr>pp_Question = ''Should pricing cool demand until service credibility recovers?'', pp_WhyItMatters = ''Overpromising can damage future demand more than a cautious week.''\<rparr>,
        \<lparr>pp_Question = ''Which product can still support price without outrunning finished-goods availability?'', pp_WhyItMatters = ''Pricing should respect the plant's visible ability to serve.''\<rparr>]\<rparr>"

definition salesDepartmentReport :: "MapOrder \<Rightarrow> MatchState \<Rightarrow> RoleID \<Rightarrow> DepartmentPerformanceReport" where
  "salesDepartmentReport mo state viewerRoleID =
     \<lparr>dr_RoleID = viewerRoleID,
      dr_Sections =
       [salesSection_ExecutiveSummary state,
        salesSection_OperatingPicture state,
        salesSection_ConstraintRiskView mo state,
        salesSection_TradeoffPressure state,
        salesSection_DecisionPrompts state],
      dr_BonusSummary = bonusReminder viewerRoleID,
      dr_FocusQuestion = ''How should pricing shape future demand without creating backlog, service, or margin damage the plant cannot support?''\<rparr>"

definition financeSection_ExecutiveSummary :: "MatchState \<Rightarrow> RoleReportSection" where
  "financeSection_ExecutiveSummary state =
     (let projectedCash = fst (projectedPositionAfterCommitments (ms_Plant state));
         projectedDebt = snd (projectedPositionAfterCommitments (ms_Plant state))
     in \<lparr>se_Kind = RoleReportSectionExecutiveSummary,
      se_Title = ''Executive summary'',
      se_DecisionFocus = ''Sets whether finance should tighten, hold, or selectively support.'',
      se_Summary = [(''Finance is carrying '' @ itoa (pl_Cash (ms_Plant state)) @ '' cash, '' @ itoa (pl_Debt (ms_Plant state)) @ '' debt, and '' @ itoa (pm_RoundProfit (ms_Metrics state)) @ '' round profit.''),
        (''Projected position after all open commitments is cash '' @ itoa projectedCash @ '' and debt '' @ itoa projectedDebt @ ''.'')],
      se_Metrics = [],
      se_Facts = [],
      se_ProductValues = [],
      se_ProductUnits = [],
      se_Inventory = None,
      se_Financials = [],
      se_Warnings = (financeWarnings state projectedCash projectedDebt),
      se_Tradeoffs = [],
      se_Prompts = []\<rparr>)"

definition financeSection_OperatingPicture :: "MatchState \<Rightarrow> RoleReportSection" where
  "financeSection_OperatingPicture state =
     \<lparr>se_Kind = RoleReportSectionOperatingPicture,
      se_Title = ''Role-critical operating picture'',
      se_DecisionFocus = ''Shows liquidity, cash commitments, and current economic quality.'',
      se_Summary = [],
      se_Metrics = [(reportMetric ''margin'' ''Round profit'' (pm_RoundProfit (ms_Metrics state)) ''money'' ''Profit is the cleanest weekly read on whether the plant is earning its activity.''),
        (reportMetric ''cash_position'' ''Cash'' (pl_Cash (ms_Plant state)) ''money'' ''Cash is the plant's immediate operating buffer.''),
        (reportMetric ''cash_receipts'' ''Cash receipts'' (pm_CashReceipts (ms_Metrics state)) ''money'' ''Receipts show recent cash conversion.''),
        (reportMetric ''cash_disbursements'' ''Cash disbursements'' (pm_CashDisbursements (ms_Metrics state)) ''money'' ''Disbursements show the weekly cash burn.''),
        (reportMetric ''labor_cost'' ''Labor cost'' (pm_LaborCost (ms_Metrics state)) ''money'' ''Labor cost is a major controllable operating spend.''),
        (reportMetric ''overtime_cost'' ''Overtime cost'' (pm_OvertimeCost (ms_Metrics state)) ''money'' ''Overtime cost should buy real throughput, not just activity.'')],
      se_Facts = [(''Current cash is '' @ itoa (pl_Cash (ms_Plant state)) @ '' against debt ceiling '' @ itoa (pl_DebtCeiling (ms_Plant state)) @ ''.''),
        (''Next-round maturities net to '' @ itoa (nextRoundNetCash (ms_Plant state) (ms_CurrentRound state)) @ '' ('' @ itoa (sumCommitmentsDue (pl_Receivables (ms_Plant state)) (ms_CurrentRound state)) @ '' receivable, '' @ itoa (sumCommitmentsDue (pl_Payables (ms_Plant state)) (ms_CurrentRound state)) @ '' payable).''),
        (''Open receivables total '' @ itoa (sumCommitmentAmount (pl_Receivables (ms_Plant state))) @ '', with '' @ itoa (sumCommitmentsDue (pl_Receivables (ms_Plant state)) (ms_CurrentRound state)) @ '' due next round.''),
        (''Open payables total '' @ itoa (sumCommitmentAmount (pl_Payables (ms_Plant state))) @ '', with '' @ itoa (sumCommitmentsDue (pl_Payables (ms_Plant state)) (ms_CurrentRound state)) @ '' due next round.'')],
      se_ProductValues = [],
      se_ProductUnits = [],
      se_Inventory = None,
      se_Financials = [],
      se_Warnings = [],
      se_Tradeoffs = [],
      se_Prompts = []\<rparr>"

definition financeSection_ConstraintRiskView :: "MatchState \<Rightarrow> RoleReportSection" where
  "financeSection_ConstraintRiskView state =
     (let projectedCash = fst (projectedPositionAfterCommitments (ms_Plant state));
         projectedDebt = snd (projectedPositionAfterCommitments (ms_Plant state))
     in \<lparr>se_Kind = RoleReportSectionConstraintRiskView,
      se_Title = ''Constraint and risk view'',
      se_DecisionFocus = ''Highlights where liquidity or working-capital stress is becoming dangerous.'',
      se_Summary = [],
      se_Metrics = [],
      se_Facts = [],
      se_ProductValues = [],
      se_ProductUnits = [],
      se_Inventory = None,
      se_Financials = [],
      se_Warnings = (financeWarnings state projectedCash projectedDebt),
      se_Tradeoffs = [],
      se_Prompts = []\<rparr>)"

definition financeSection_TradeoffPressure :: "MatchState \<Rightarrow> RoleReportSection" where
  "financeSection_TradeoffPressure state =
     (let projectedCash = fst (projectedPositionAfterCommitments (ms_Plant state));
         projectedDebt = snd (projectedPositionAfterCommitments (ms_Plant state))
     in \<lparr>se_Kind = RoleReportSectionTradeoffPressure,
      se_Title = ''Tradeoff and pressure view'',
      se_DecisionFocus = ''Frames the support-versus-discipline tradeoffs finance must enforce.'',
      se_Summary = [],
      se_Metrics = [],
      se_Facts = [],
      se_ProductValues = [],
      se_ProductUnits = [],
      se_Inventory = None,
      se_Financials = [],
      se_Warnings = [],
      se_Tradeoffs = [\<lparr>tr_Focus = ''Liquidity discipline versus throughput support'', tr_Tension = ''Tighter budgets protect cash, but over-tightening can starve the operations that still create value.'', tr_Guidance = (''Projected post-commitment position is cash '' @ itoa projectedCash @ '' and debt '' @ itoa projectedDebt @ ''.'')\<rparr>,
        \<lparr>tr_Focus = ''Inventory support versus trapped working capital'', tr_Tension = ''Inventory can protect service, but excess stock traps cash that may be needed elsewhere.'', tr_Guidance = (''Inventory currently represents '' @ itoa (iv_TotalValue (inventorySummary (ms_Plant state))) @ '' of plant value exposure.'')\<rparr>],
      se_Prompts = []\<rparr>)"

definition financeSection_DecisionPrompts :: "MatchState \<Rightarrow> RoleReportSection" where
  "financeSection_DecisionPrompts state =
     \<lparr>se_Kind = RoleReportSectionDecisionPrompts,
      se_Title = ''Decision prompts'',
      se_DecisionFocus = ''Ends with the questions finance should answer when setting next-round guardrails.'',
      se_Summary = [],
      se_Metrics = [],
      se_Facts = [],
      se_ProductValues = [],
      se_ProductUnits = [],
      se_Inventory = None,
      se_Financials = [],
      se_Warnings = [],
      se_Tradeoffs = [],
      se_Prompts = [\<lparr>pp_Question = ''Which spend should tighten and which still deserves support?'', pp_WhyItMatters = ''The plant rarely needs every budget tightened equally.''\<rparr>,
        \<lparr>pp_Question = ''How much liquidity buffer is actually required for the next round?'', pp_WhyItMatters = ''Targets should reflect visible cash risk rather than generic caution.''\<rparr>,
        \<lparr>pp_Question = ''Where is cash being trapped in low-value inventory or overtime?'', pp_WhyItMatters = ''Working-capital leakage reduces strategic flexibility quickly.''\<rparr>]\<rparr>"

definition financeDepartmentReport :: "MatchState \<Rightarrow> RoleID \<Rightarrow> DepartmentPerformanceReport" where
  "financeDepartmentReport state viewerRoleID =
     \<lparr>dr_RoleID = viewerRoleID,
      dr_Sections =
       [financeSection_ExecutiveSummary state,
        financeSection_OperatingPicture state,
        financeSection_ConstraintRiskView state,
        financeSection_TradeoffPressure state,
        financeSection_DecisionPrompts state],
      dr_BonusSummary = bonusReminder viewerRoleID,
      dr_FocusQuestion = ''Which next-round targets protect liquidity and discipline without starving the plant of the support it still needs?''\<rparr>"

definition buildDepartmentPerformanceReport :: "MapOrder \<Rightarrow> MatchState \<Rightarrow> RoleID \<Rightarrow> DepartmentPerformanceReport" where
  "buildDepartmentPerformanceReport mo state viewerRoleID =
    (case viewerRoleID of
       RoleProcurementManager \<Rightarrow> procurementDepartmentReport state viewerRoleID
     | RoleProductionManager \<Rightarrow> productionDepartmentReport state viewerRoleID
     | RoleSalesManager \<Rightarrow> salesDepartmentReport mo state viewerRoleID
     | RoleFinanceController \<Rightarrow> financeDepartmentReport state viewerRoleID
     | OtherRole _ \<Rightarrow>
         \<lparr>dr_RoleID = viewerRoleID,
          dr_Sections =
           [\<lparr>se_Kind = RoleReportSectionExecutiveSummary,
             se_Title = ''Executive summary'',
             se_DecisionFocus = ''No role-specific report is configured yet.'',
             se_Summary = [''This role currently falls back to the shared companywide report only.''],
             se_Metrics = [], se_Facts = [], se_ProductValues = [], se_ProductUnits = [],
             se_Inventory = None, se_Financials = [], se_Warnings = [], se_Tradeoffs = [], se_Prompts = []\<rparr>],
          dr_BonusSummary = bonusReminder viewerRoleID,
          dr_FocusQuestion = []\<rparr>)"

definition BuildRoleRoundReport :: "MapOrder \<Rightarrow> MatchState \<Rightarrow> RoleID \<Rightarrow> RoleRoundReport" where
  "BuildRoleRoundReport mo state viewerRoleID =
     \<lparr>re_Companywide = buildCompanywidePerformanceReport mo state,
      re_Department = buildDepartmentPerformanceReport mo state viewerRoleID,
      re_BonusReminder = bonusReminder viewerRoleID\<rparr>"

section \<open>Grouping by product\<close>

text \<open>
  Summing up by key: a list of summaries, one per key, to which each element adds its amount
  under its key.
\<close>

locale grouping =
  fixes key :: "'i \<Rightarrow> 'k"
    and amount :: "'i \<Rightarrow> int"
    and step :: "'i list \<Rightarrow> 'e \<Rightarrow> 'i list"
    and relevant :: "'e \<Rightarrow> bool"
    and keyOf :: "'e \<Rightarrow> 'k"
    and gives :: "'e \<Rightarrow> int"
    and f :: "'e \<Rightarrow> 'i \<Rightarrow> 'i"
    and zero :: "'e \<Rightarrow> 'i"
  assumes step: "step items e =
        (if relevant e then upsert_first (\<lambda>i. key i = keyOf e) (f e) (f e (zero e)) items else items)"
    and f: "key (f e i) = key i" "relevant e \<Longrightarrow> amount (f e i) = amount i + gives e"
    and zero: "key (zero e) = keyOf e" "amount (zero e) = 0"
begin

lemma upsert_keys:
  "map key (upsert_first (\<lambda>i. key i = keyOf e) (f e) (f e (zero e)) items) =
     (if keyOf e \<in> key ` set items then map key items else map key items @ [keyOf e])"
  by (induction items) (auto simp: f(1) zero(1))

lemma step_map_keys:
  "map key (step items e) =
     (if relevant e \<and> keyOf e \<notin> key ` set items then map key items @ [keyOf e] else map key items)"
  by (simp add: step upsert_keys)

lemma step_keys:
  assumes "distinct (map key items)"
  shows "distinct (map key (step items e))"
    "key ` set (step items e) = key ` set items \<union> (if relevant e then {keyOf e} else {})"
proof -
  show "distinct (map key (step items e))"
    unfolding step_map_keys using assms by (auto simp del: distinct_map)
  have "set (map key (step items e)) = key ` set items \<union> (if relevant e then {keyOf e} else {})"
    unfolding step_map_keys by auto
  then show "key ` set (step items e) = key ` set items \<union> (if relevant e then {keyOf e} else {})"
    by simp
qed

lemma foldl_keys:
  "distinct (map key items) \<Longrightarrow> distinct (map key (foldl step items es))
     \<and> key ` set (foldl step items es) = key ` set items \<union> keyOf ` {e \<in> set es. relevant e}"
proof (induction es arbitrary: items)
  case (Cons e es)
  from Cons.IH [OF step_keys(1) [OF Cons.prems, of e]] step_keys(2) [OF Cons.prems, of e]
  show ?case by auto
qed simp

lemma step_amount: "sum_of amount (step items e) = sum_of amount items + (if relevant e then gives e else 0)"
proof -
  have "relevant e \<Longrightarrow>
    sum_of amount (upsert_first (\<lambda>i. key i = keyOf e) (f e) (f e (zero e)) items) = sum_of amount items + gives e"
    by (induction items) (auto simp: f zero)
  then show ?thesis by (simp add: step)
qed

lemma foldl_amount: "sum_of amount (foldl step items es) = sum_of amount items + sum_of gives (filter relevant es)"
  by (induction es arbitrary: items) (simp_all add: step_amount)

text \<open>The summary of one key.\<close>

definition amountOf :: "'i list \<Rightarrow> 'k \<Rightarrow> int" where
  "amountOf items k = (case find_first (\<lambda>i. key i = k) items of None \<Rightarrow> 0 | Some i \<Rightarrow> amount i)"

lemma step_amountOf:
  "amountOf (step items e) k = amountOf items k + (if relevant e \<and> keyOf e = k then gives e else 0)"
proof -
  have "relevant e \<Longrightarrow> find_first (\<lambda>i. key i = k) (upsert_first (\<lambda>i. key i = keyOf e) (f e) (f e (zero e)) items) =
     (if keyOf e = k
      then Some (f e (case find_first (\<lambda>i. key i = k) items of None \<Rightarrow> zero e | Some i \<Rightarrow> i))
      else find_first (\<lambda>i. key i = k) items)"
    by (induction items) (auto simp: f zero)
  then show ?thesis by (auto simp: amountOf_def step f zero split: option.split)
qed

lemma foldl_amountOf:
  "amountOf (foldl step items es) k = amountOf items k + sum_of gives (filter (\<lambda>e. relevant e \<and> keyOf e = k) es)"
  by (induction es arbitrary: items) (simp_all add: step_amountOf)

lemma amountOf_member: "distinct (map key items) \<Longrightarrow> i \<in> set items \<Longrightarrow> amountOf items (key i) = amount i"
proof -
  assume "distinct (map key items)" "i \<in> set items"
  then have "find_first (\<lambda>j. key j = key i) items = Some i"
    by (induction items) (auto simp: image_iff)
  then show ?thesis by (simp add: amountOf_def)
qed

text \<open>The summaries as a whole, in whatever order they are listed.\<close>

lemma summary:
  assumes "mset (order (length (foldl step [] es))) = mset [0..<length (foldl step [] es)]"
  shows "distinct (map key (mapValues order (foldl step [] es)))"
    "key ` set (mapValues order (foldl step [] es)) = keyOf ` {e \<in> set es. relevant e}"
    "\<forall>i \<in> set (mapValues order (foldl step [] es)).
       amount i = sum_of gives (filter (\<lambda>e. relevant e \<and> keyOf e = key i) es)"
proof -
  let ?s = "foldl step [] es"
  have m: "mset (mapValues order ?s) = mset ?s" using assms by (rule mapValues_mset [where items = ?s and order = order])
  have keys: "distinct (map key ?s)" "key ` set ?s = keyOf ` {e \<in> set es. relevant e}"
    using foldl_keys [of "[]" es] by simp_all
  have "mset (map key (mapValues order ?s)) = mset (map key ?s)" by (simp add: m)
  then show "distinct (map key (mapValues order ?s))" using keys(1) mset_eq_imp_distinct_iff by blast
  have set: "set (mapValues order ?s) = set ?s" using m mset_eq_setD by blast
  then show "key ` set (mapValues order ?s) = keyOf ` {e \<in> set es. relevant e}" by (simp add: keys(2))
  have "amountOf [] k = 0" for k by (simp add: amountOf_def)
  with foldl_amountOf [of "[]" es] amountOf_member [OF keys(1)] set
  show "\<forall>i \<in> set (mapValues order ?s). amount i = sum_of gives (filter (\<lambda>e. relevant e \<and> keyOf e = key i) es)"
    by fastforce
qed

end

interpretation backlog_by_product: grouping pv_ProductID pv_Count "backlogStep description" "\<lambda>_. True"
  be_ProductID be_Quantity
  "\<lambda>entry item. item\<lparr>pv_Count := pv_Count item + be_Quantity entry, pv_Description := description\<rparr>"
  "\<lambda>entry. \<lparr>pv_ProductID = be_ProductID entry, pv_Count = 0, pv_TotalValue = 0, pv_Description = []\<rparr>"
  for description
  by unfold_locales (simp_all add: backlogStep_def updateValue_def)

interpretation produced_by_product: grouping pu_ProductID pu_Count producedStep
  "\<lambda>event. ev_Type event = EventFinishedGoodsProduced" "\<lambda>event. payloadProduct (ev_Payload event)"
  "\<lambda>event. payloadInt (ev_Payload event) ''quantity''"
  "\<lambda>event item. item\<lparr>pu_Count := pu_Count item + payloadInt (ev_Payload event) ''quantity'',
     pu_Description := ''Finished last round''\<rparr>"
  "\<lambda>event. \<lparr>pu_ProductID = payloadProduct (ev_Payload event), pu_Count = 0, pu_Description = []\<rparr>"
  by unfold_locales (simp_all add: producedStep_def Let_def)

interpretation demand_by_product: grouping pv_ProductID pv_Count newSalesStep
  "\<lambda>event. ev_Type event = EventDemandRealized" "\<lambda>event. payloadProduct (ev_Payload event)"
  "\<lambda>event. payloadInt (ev_Payload event) ''quantity''"
  "\<lambda>event item. item\<lparr>pv_Count := pv_Count item + payloadInt (ev_Payload event) ''quantity'',
     pv_TotalValue := pv_TotalValue item + payloadInt (ev_Payload event) ''quantity''
       * payloadInt (ev_Payload event) ''offered_unit_price'',
     pv_Description := ''New demand realized last round''\<rparr>"
  "\<lambda>event. \<lparr>pv_ProductID = payloadProduct (ev_Payload event), pv_Count = 0, pv_TotalValue = 0, pv_Description = []\<rparr>"
  by unfold_locales (simp_all add: newSalesStep_def updateValue_def Let_def)

interpretation revenue_by_product: grouping pf_ProductID pf_Revenue financialStep
  "\<lambda>event. payloadString (ev_Payload event) ''product_id'' \<notin> {None, Some []}"
  "\<lambda>event. payloadProduct (ev_Payload event)"
  "\<lambda>event. if ev_Type event = EventShipmentCompleted
     then payloadInt (ev_Payload event) ''quantity'' * payloadInt (ev_Payload event) ''unit_price'' else 0"
  financialUpdate
  "\<lambda>event. \<lparr>pf_ProductID = payloadProduct (ev_Payload event), pf_Revenue = 0, pf_ProductionCost = 0,
     pf_PartsCost = 0, pf_ContributionMargin = 0\<rparr>"
  by unfold_locales
    (auto simp: financialStep_def financialUpdate_def payloadProduct_def Let_def
      split: option.split RoundEventType.split)

section \<open>Reports and the engine\<close>

lemma sums_eq:
  "sumBacklogUnits es = sum_of be_Quantity es" "sumInTransitSupply lots = sum_of sl_Quantity lots"
  "sumWIPUnits items = sum_of wi_Quantity items" "sumCommitmentAmount cs = sum_of cc_Amount cs"
  "sumBacklogUnitsAtRisk es = sum_of be_Quantity (filter (\<lambda>e. 2 \<le> be_AgeInRounds e) es)"
  "sumCommitmentsDue cs r = sum_of cc_Amount (filter (\<lambda>c. cc_DueRound c = r) cs)"
proof -
  have sum: "foldl (\<lambda>t x. t + g x) (a::int) xs = a + sum_of g xs" for a g and xs :: "'x list"
    by (induction xs arbitrary: a) simp_all
  have cond: "foldl (\<lambda>t x. if P x then t + g x else t) (a::int) xs = a + sum_of g (filter P xs)"
    for a g P and xs :: "'x list"
    by (induction xs arbitrary: a) simp_all
  show "sumBacklogUnits es = sum_of be_Quantity es" "sumInTransitSupply lots = sum_of sl_Quantity lots"
    "sumWIPUnits items = sum_of wi_Quantity items" "sumCommitmentAmount cs = sum_of cc_Amount cs"
    by (simp_all add: sumBacklogUnits_def sumInTransitSupply_def sumWIPUnits_def sumCommitmentAmount_def sum)
  show "sumCommitmentsDue cs r = sum_of cc_Amount (filter (\<lambda>c. cc_DueRound c = r) cs)"
    by (simp add: sumCommitmentsDue_def cond)
  have flip: "(\<lambda>total entry. if be_AgeInRounds entry < 2 then total else total + be_Quantity entry) =
      (\<lambda>total entry. if 2 \<le> be_AgeInRounds entry then total + be_Quantity entry else total)"
    by (intro ext) auto
  show "sumBacklogUnitsAtRisk es = sum_of be_Quantity (filter (\<lambda>e. 2 \<le> be_AgeInRounds e) es)"
    unfolding sumBacklogUnitsAtRisk_def flip cond by simp
qed

lemma applyProjectedCashDelta_eq: "applyProjectedCashDelta = projectCashDelta"
  by (intro ext) (simp add: applyProjectedCashDelta_def projectCashDelta_def report_minMoney_def minMoney2_def Let_def)

lemma values_eq:
  "inventoryBucketTotal (pl_PartsInventory s) = partsValueOf s"
  "wipInventoryValue (pl_WIPInventory s) = wipValueOf s"
  "finishedInventoryValue (pl_FinishedInventory s) = finishedValueOf s"
proof -
  have sum: "foldl (\<lambda>t x. t + g x) (a::int) xs = a + sum_of g xs" for a g and xs :: "'x list"
    by (induction xs arbitrary: a) simp_all
  show "inventoryBucketTotal (pl_PartsInventory s) = partsValueOf s"
    "wipInventoryValue (pl_WIPInventory s) = wipValueOf s"
    "finishedInventoryValue (pl_FinishedInventory s) = finishedValueOf s"
    by (simp_all add: inventoryBucketTotal_def wipInventoryValue_def finishedInventoryValue_def sum
        partsValueOf_def wipValueOf_def finishedValueOf_def inventoryCost_def mult.commute)
qed

end
