(* ===== verification/AppProperties.thy ===== *)
theory AppProperties
  imports RoleReport Example
begin

text \<open>
  The properties of the parts around the engine: the match store, the view and the report a
  player is given.
\<close>

section \<open>The match store\<close>

text \<open>On a well-formed store a commit succeeds exactly when its state belongs to the named
  match, its round is positive, the match is known and every committed round is earlier.\<close>

theorem commit_succeeds_iff:
  assumes "storeOk st"
  shows "(\<exists>s st'. CommitRound m next r st = Inr (s, st')) \<longleftrightarrow>
     m \<noteq> [] \<and> ms_MatchID next = m \<and> 0 < rr_Round r
     \<and> (\<exists>rounds. matchLog st m = Some rounds \<and> list_all (\<lambda>round. rr_Round round < rr_Round r) rounds)"
proof -
  have "sm_rounds x = [] \<or> rr_Round (last (sm_rounds x)) < rr_Round r \<longleftrightarrow>
      list_all (\<lambda>round. rr_Round round < rr_Round r) (sm_rounds x)" if x: "mem_matches st m = Some x" for x
  proof -
    have "sorted_wrt (<) (map rr_Round (sm_rounds x))" using assms x by (simp add: storeOk_def matchOk_def)
    then show ?thesis
      by (cases "sm_rounds x" rule: rev_cases) (auto simp: list_all_iff sorted_wrt_append)
  qed
  then show ?thesis by (auto simp: CommitRound_Inr matchLog_def)
qed

definition exampleStore :: Store where
  "exampleStore = (case CreateMatch exampleState (NewStore 2) of Inr st \<Rightarrow> st | Inl _ \<Rightarrow> NewStore 2)"

definition exampleRound :: "RoundNumber \<Rightarrow> RoundRecord" where
  "exampleRound n = \<lparr>rr_Round = n, rr_Actions = [], rr_Events = [], rr_Commentary = [],
     rr_Timeline = [], rr_Metrics = zero_PlantMetrics\<rparr>"

lemma exampleStore_created: "CreateMatch exampleState (NewStore 2) = Inr exampleStore"
proof -
  have "\<exists>st. CreateMatch exampleState (NewStore 2) = Inr st"
    by (simp add: CreateMatch_Inr NewStore_def example_shape)
  then show ?thesis by (auto simp: exampleStore_def)
qed

lemma exampleStore_ok: "storeOk exampleStore" "matchLog exampleStore ''m'' = Some []"
proof -
  have "storeOk (NewStore 2)" by (simp add: storeOk_def NewStore_def)
  then show "storeOk exampleStore"
    using memory.create_ok [OF exampleStore_created] by (simp add: example_shape)
  show "matchLog exampleStore ''m'' = Some []"
    using memory.create_log [OF exampleStore_created] by (auto simp: example_shape)
qed

lemma example_commits: "\<exists>s st'. CommitRound ''m'' exampleState (exampleRound 2) exampleStore = Inr (s, st')"
proof -
  obtain x where "mem_matches exampleStore ''m'' = Some x" "sm_rounds x = []"
    using exampleStore_ok(2) by (auto simp: matchLog_def)
  then show ?thesis by (simp add: CommitRound_Inr example_shape exampleRound_def)
qed

lemma commit_succeeds_iff_witness:
  "(\<exists>s st'. CommitRound ''m'' exampleState (exampleRound 2) exampleStore = Inr (s, st'))
   \<and> \<not> (\<exists>s st'. CommitRound ''m'' exampleState (exampleRound 0) exampleStore = Inr (s, st'))"
  using commit_succeeds_iff [OF exampleStore_ok(1), of "''m''" exampleState]
  by (simp add: exampleStore_ok(2) example_shape exampleRound_def)

text \<open>C13: A commit changes no other match, appends exactly the round to the log of its match
  (whatever was committed before is still there and the event timeline grows by exactly the
  round's events), keeps at most the configured number of recent rounds in the current state,
  leaves that state as given apart from its history, and keeps the store well-formed.\<close>

theorem commit_appends:
  assumes "storeOk st" "CommitRound m next r st = Inr (s, st')"
  shows "\<exists>rounds events. matchLog st m = Some rounds \<and> EventTimeline st m = Inr events
     \<and> matchLog st' = (matchLog st)(m \<mapsto> rounds @ [RoundRecord_Clone r])
     \<and> EventTimeline st' m = Inr (events @ rr_Events r)
     \<and> Store_Round st' m (rr_Round r) = Inr (RoundRecord_Clone r)
     \<and> CurrentState st' m = Inr s
     \<and> s = next\<lparr>ms_History := \<lparr>rh_RecentRounds = tailOf (rounds @ [RoundRecord_Clone r]) (mem_historyLimit st)\<rparr>\<rparr>
     \<and> storeOk st'"
proof -
  have ok: "storeOk st'" using assms(2,1) by (rule memory.commit_ok)
  obtain rounds where log: "matchLog st m = Some rounds"
    "matchLog st' = (matchLog st)(m \<mapsto> rounds @ [RoundRecord_Clone r])"
    using memory.commit_log [OF assms(2)] by blast
  then have log': "matchLog st' m = Some (rounds @ [RoundRecord_Clone r])" by simp
  have round: "Store_Round st' m (rr_Round (RoundRecord_Clone r)) = Inr (RoundRecord_Clone r)"
    using ok log' by (rule memory.round_log) simp
  obtain x where x: "mem_matches st m = Some x" "s = sm_state (commitTo (mem_historyLimit st) next r x)"
    using assms(2) by (auto simp: CommitRound_Inr)
  with log(1) have rounds: "sm_rounds x = rounds" by (simp add: matchLog_def)
  have "list_all (\<lambda>r'. RoundRecord_Clone r' = r') (rounds @ [RoundRecord_Clone r])"
    using assms(1) x(1) rounds by (auto simp: storeOk_def matchOk_def list_all_iff)
  then have "map RoundRecord_Clone (tailOf (rounds @ [RoundRecord_Clone r]) l)
      = tailOf (rounds @ [RoundRecord_Clone r]) l" for l
    using set_tailOf [of "rounds @ [RoundRecord_Clone r]" l] by (intro map_idI) (auto simp: list_all_iff)
  with x(2) rounds have "s = next\<lparr>ms_History :=
      \<lparr>rh_RecentRounds = tailOf (rounds @ [RoundRecord_Clone r]) (mem_historyLimit st)\<rparr>\<rparr>"
    by (simp add: commitTo_fields)
  with log round memory.commit_state [OF assms(2)] memory.timeline_log [OF assms(1) log(1)]
    memory.timeline_log [OF ok log'] ok
  show ?thesis by simp
qed

lemma commit_appends_witness:
  "\<exists>s st'. CommitRound ''m'' exampleState (exampleRound 2) exampleStore = Inr (s, st')
     \<and> matchLog st' ''m'' = Some [RoundRecord_Clone (exampleRound 2)]
     \<and> Store_Round st' ''m'' 2 = Inr (RoundRecord_Clone (exampleRound 2))"
proof -
  obtain s st' where c: "CommitRound ''m'' exampleState (exampleRound 2) exampleStore = Inr (s, st')"
    using example_commits by blast
  from commit_appends [OF exampleStore_ok(1) c] c exampleStore_ok(2) show ?thesis
    by (auto simp: exampleRound_def)
qed

section \<open>Views and reports\<close>

text \<open>A player's view shows the state as it is: the plant, its partners, targets and metrics
  unchanged, at most the ten latest rounds, and the merged timeline, events and commentary of
  exactly those rounds, in order.  Apart from its own role id every role has the same view,
  and looking at a copy of the state shows the same.\<close>

theorem round_view_faithful:
  "rv_Plant (BuildRoundView s role) = ms_Plant s
   \<and> rv_Metrics (BuildRoundView s role) = ms_Metrics s
   \<and> rv_ActiveTargets (BuildRoundView s role) = ms_ActiveTargets s
   \<and> (\<exists>older. rh_RecentRounds (ms_History s) = older @ tailOf (rh_RecentRounds (ms_History s)) 10
        \<and> length (tailOf (rh_RecentRounds (ms_History s)) 10) \<le> 10)
   \<and> map he_Round (rv_RecentRounds (BuildRoundView s role)) = map rr_Round (tailOf (rh_RecentRounds (ms_History s)) 10)
   \<and> rv_RecentEvents (BuildRoundView s role) = concat (map rr_Events (tailOf (rh_RecentRounds (ms_History s)) 10))
   \<and> rv_RecentTimeline (BuildRoundView s role) = concat (map CanonicalTimeline (tailOf (rh_RecentRounds (ms_History s)) 10))
   \<and> BuildRoundView s role' = (BuildRoundView s role)\<lparr>rv_ViewerRoleID := role'\<rparr>
   \<and> BuildRoundView (MatchState_Clone s) role = BuildRoundView s role"
proof -
  let ?h = "rh_RecentRounds (ms_History s)"
  have "\<exists>older. ?h = older @ tailOf ?h 10 \<and> length (tailOf ?h 10) \<le> 10"
  proof (cases "length ?h \<le> 10")
    case True
    then show ?thesis by (simp add: tailOf_def)
  next
    case False
    then have "tailOf ?h 10 = drop (length ?h - 10) ?h" by (simp add: tailOf_def)
    then show ?thesis by (intro exI [of _ "take (length ?h - 10) ?h"]) simp
  qed
  moreover have "BuildRoundView (MatchState_Clone s) role = BuildRoundView s role"
  proof -
    have "CanonicalTimeline (RoundRecord_Clone r) = CanonicalTimeline r" "rr_Events (RoundRecord_Clone r) = rr_Events r"
      "rr_Commentary (RoundRecord_Clone r) = rr_Commentary r" for r
      by (simp_all add: RoundRecord_Clone_eq CanonicalTimeline_idem)
    then show ?thesis
      by (simp add: BuildRoundView_eq MatchState_Clone_eq RoundHistory_Clone_def cloneSlice_def
          historyEntry_Clone o_def Let_def flip: map_tailOf)
  qed
  ultimately show ?thesis
    by (simp add: BuildRoundView_eq Let_def historyEntry_def o_def)
qed

text \<open>The cash and debt the finance report projects, and the inventory value it shows, are
  the engine's: settling every payable and then every receivable with the engine's rule, and
  the value the metrics report, inspection holds apart.\<close>

theorem finance_report_agrees:
  "projectedPositionAfterCommitments (plant p) = projectedPlantPositionAfterCommitments (plant p)
   \<and> iv_TotalValue (inventorySummary (plant p)) + holdsValueOf (plant p) = pm_InventoryValue (computeMetrics p)"
  by (simp add: projectedPositionAfterCommitments_def projectedPlantPositionAfterCommitments_def Let_def
      applyProjectedCashDelta_eq inventorySummary_def values_eq computeMetrics_def)

text \<open>Whatever order the map of summaries is ranged in, the backlog part of a report lists
  every product with backlog exactly once, each with the total quantity waiting for it.\<close>

theorem backlog_summary_complete:
  fixes backlog :: "BacklogEntry list" and mo :: MapOrder
  assumes "validOrder mo"
  defines "summary \<equiv> backlogSummary (mo 1) backlog"
  shows "distinct (map pv_ProductID summary)
     \<and> pv_ProductID ` set summary = be_ProductID ` set backlog
     \<and> list_all (\<lambda>item. pv_Count item =
           sum_of be_Quantity (filter (\<lambda>entry. be_ProductID entry = pv_ProductID item) backlog)) summary"
proof -
  have "mset (mo 1 (length (foldl (backlogStep ''Unshipped backlog'') [] backlog))) =
      mset [0..<length (foldl (backlogStep ''Unshipped backlog'') [] backlog)]"
    using assms(1) by (simp only: validOrder_def)
  from backlog_by_product.summary [where description = "''Unshipped backlog''" and order = "mo 1" and es = backlog, OF this] show ?thesis
    by (simp add: summary_def backlogSummary_def list_all_iff)
qed

lemma backlog_summary_complete_witness:
  "pv_ProductID ` set (backlogSummary (\<lambda>n. rev [0..<n]) (pl_Backlog examplePlant)) = {''x''}"
proof -
  have "validOrder (\<lambda>_ n. rev [0..<n])" by (simp add: validOrder_def)
  from backlog_summary_complete [OF this, of "pl_Backlog examplePlant"] show ?thesis
    by (simp add: examplePlant_def)
qed

end
