(* ===== verification/Players.thy ===== *)
theory Players
  imports RoleReport
begin

text \<open>
  The players of a round: the player port (\<open>internal/ports/player.go\<close>, \<open>errors.go\<close>) and its
  two adapters, the human one (\<open>internal/adapters/player/human/player.go\<close>) and the AI-backed
  one with its fallbacks (\<open>internal/adapters/player/llm/player.go\<close>).  What a player answers is
  decided outside the repository (a person, a model): a submit handler is a parameter, a
  function of the request and of whether the context of the call is done.
\<close>

section \<open>The port\<close>

text \<open>Errors with the sentinels the code looks for; \<open>PlayerWrap\<close> is \<open>fmt.Errorf\<close> with \<open>%w\<close>
  after a text, \<open>PlayerBoth\<close> with \<open>%w: %w\<close>.\<close>

datatype playerError =
    ErrNonResponsive
  | ErrProviderFailure
  | ErrProviderTimeout
  | ContextCanceled
  | ContextDeadlineExceeded
  | PlayerError string
  | PlayerWrap string playerError
  | PlayerBoth playerError playerError

fun errorIs :: "playerError \<Rightarrow> playerError \<Rightarrow> bool" where
  "errorIs (PlayerWrap m e) target \<longleftrightarrow> PlayerWrap m e = target \<or> errorIs e target"
| "errorIs (PlayerBoth e e') target \<longleftrightarrow> PlayerBoth e e' = target \<or> errorIs e target \<or> errorIs e' target"
| "errorIs e target \<longleftrightarrow> e = target"

record RoundRequest =
  rq_Assignment :: RoleAssignment
  rq_RoleView :: RoundView
  rq_RoleReport :: RoleRoundReport
  rq_PreviousAcceptedAction :: "ActionSubmission option"

type_synonym SubmitFunc = "bool \<Rightarrow> RoundRequest \<Rightarrow> playerError + ActionSubmission"

record Player =
  ply_SubmitRound :: SubmitFunc
  ply_RecoverFromNonResponse :: "bool \<Rightarrow> RoundRequest \<Rightarrow> playerError \<Rightarrow> playerError + ActionSubmission"

text \<open>The zero values the code returns beside an error, or reads from a map without the key.\<close>

definition zeroCommentary :: CommentaryRecord where
  "zeroCommentary = \<lparr>cm_CommentaryID = [], cm_MatchID = [], cm_Round = 0, cm_ActorID = [],
     cm_RoleID = OtherRole [], cm_Visibility = [], cm_Body = []\<rparr>"

definition zeroAction :: RoleAction where
  "zeroAction = \<lparr>act_Procurement = None, act_Production = None, act_Sales = None, act_Finance = None\<rparr>"

definition zeroSubmission :: ActionSubmission where
  "zeroSubmission = \<lparr>as_ActionID = [], as_MatchID = [], as_Round = 0, as_RoleID = OtherRole [],
     as_SubmittedAt = 0, as_Action = zeroAction, as_Commentary = zeroCommentary\<rparr>"

section \<open>Human players\<close>

definition humanSubmitRound :: "SubmitFunc option \<Rightarrow> SubmitFunc" where
  "humanSubmitRound submit done request =
    (case submit of
       None \<Rightarrow> Inl (PlayerError (''human player '' @ role_string (ra_RoleID (rq_Assignment request))
                @ '': submit handler is not configured''))
     | Some submit \<Rightarrow> submit done request)"

definition humanRecover :: "bool \<Rightarrow> RoundRequest \<Rightarrow> playerError \<Rightarrow> playerError + ActionSubmission" where
  "humanRecover done request cause =
     Inl (PlayerWrap (''human player '' @ role_string (ra_RoleID (rq_Assignment request))
       @ '' requires an explicit submission'') cause)"

definition humanPlayer :: "SubmitFunc option \<Rightarrow> Player" where
  "humanPlayer submit =
     \<lparr>ply_SubmitRound = humanSubmitRound submit, ply_RecoverFromNonResponse = humanRecover\<rparr>"

section \<open>AI-backed players\<close>

text \<open>A fallback policy may fail, decline (\<open>None\<close>) or give a submission.\<close>

type_synonym FallbackPolicy = "RoundRequest \<Rightarrow> playerError \<Rightarrow> playerError + ActionSubmission option"

definition nonResponsive :: "playerError \<Rightarrow> bool" where
  "nonResponsive err \<longleftrightarrow>
     errorIs err ErrNonResponsive \<or> errorIs err ErrProviderFailure
     \<or> errorIs err ErrProviderTimeout \<or> errorIs err ContextDeadlineExceeded"

definition safeNoOpAction :: "RoundRequest \<Rightarrow> RoleAction" where
  "safeNoOpAction request =
    (case ra_RoleID (rq_Assignment request) of
       RoleProcurementManager \<Rightarrow> zeroAction\<lparr>act_Procurement := Some \<lparr>pra_Orders = []\<rparr>\<rparr>
     | RoleProductionManager \<Rightarrow> zeroAction\<lparr>act_Production :=
         Some \<lparr>pda_Releases = [], pda_CapacityAllocation = [], pda_Overtime = []\<rparr>\<rparr>
     | RoleSalesManager \<Rightarrow> zeroAction\<lparr>act_Sales := Some \<lparr>sa_ProductOffers = []\<rparr>\<rparr>
     | RoleFinanceController \<Rightarrow> zeroAction\<lparr>act_Finance :=
         Some \<lparr>fa_NextRoundTargets = rv_ActiveTargets (rq_RoleView request)\<rparr>\<rparr>
     | OtherRole _ \<Rightarrow> zeroAction)"

definition fallbackCommentary :: "RoundRequest \<Rightarrow> string \<Rightarrow> CommentaryRecord" where
  "fallbackCommentary request body =
     zeroCommentary\<lparr>cm_ActorID := ra_PlayerID (rq_Assignment request),
       cm_Visibility := CommentaryPublic, cm_Body := body\<rparr>"

definition llmSubmitRound :: "SubmitFunc option \<Rightarrow> SubmitFunc" where
  "llmSubmitRound submit done request =
    (case submit of
       None \<Rightarrow> Inl (PlayerError (''llm player '' @ role_string (ra_RoleID (rq_Assignment request))
                @ '': submit handler is not configured''))
     | Some submit \<Rightarrow> submit done request)"

definition reusePrevious :: "RoundRequest \<Rightarrow> ActionSubmission" where
  "reusePrevious request =
    (case rq_PreviousAcceptedAction request of
       Some previous \<Rightarrow> (ActionSubmission_Clone previous)\<lparr>as_Commentary :=
         fallbackCommentary request ''Previous action reused after AI transport failure.''\<rparr>
     | None \<Rightarrow> zeroSubmission\<lparr>as_Action := safeNoOpAction request, as_Commentary :=
         fallbackCommentary request ''Safe no-op submitted after AI transport failure.''\<rparr>)"

definition llmRecover ::
  "FallbackPolicy option \<Rightarrow> bool \<Rightarrow> RoundRequest \<Rightarrow> playerError \<Rightarrow> playerError + ActionSubmission" where
  "llmRecover fallback done request cause =
    (let role = role_string (ra_RoleID (rq_Assignment request))
     in if \<not> nonResponsive cause
        then Inl (PlayerWrap (''llm player '' @ role @ '': submit round'') cause)
        else case fallback of
          None \<Rightarrow> Inr (reusePrevious request)
        | Some policy \<Rightarrow>
            (case policy request cause of
               Inl err \<Rightarrow> Inl (PlayerWrap (''llm player '' @ role @ '': fallback policy'') err)
             | Inr (Some submission) \<Rightarrow> Inr submission
             | Inr None \<Rightarrow> Inr (reusePrevious request)))"

definition llmPlayer :: "SubmitFunc option \<Rightarrow> FallbackPolicy option \<Rightarrow> Player" where
  "llmPlayer submit fallback =
     \<lparr>ply_SubmitRound = llmSubmitRound submit, ply_RecoverFromNonResponse = llmRecover fallback\<rparr>"

section \<open>What recovery gives\<close>

lemma errorIs_refl [simp]: "errorIs e e"
  by (cases e) simp_all

lemma nonResponsive_wrap [simp]: "nonResponsive (PlayerWrap m e) = nonResponsive e"
  by (simp add: nonResponsive_def)

lemma nonResponsive_simps [simp]:
  "nonResponsive ErrNonResponsive" "nonResponsive ErrProviderFailure"
  "nonResponsive ErrProviderTimeout" "nonResponsive ContextDeadlineExceeded"
  "\<not> nonResponsive ContextCanceled" "\<not> nonResponsive (PlayerError m)"
  by (simp_all add: nonResponsive_def)

text \<open>Without a policy an AI-backed player recovers from exactly the outages of its provider.\<close>

lemma llmRecover_None:
  "(\<exists>s. llmRecover None done request cause = Inr s) \<longleftrightarrow> nonResponsive cause"
  by (simp add: llmRecover_def Let_def)

text \<open>Targets a finance action may set.\<close>

definition targetsOk :: "BudgetTargets \<Rightarrow> bool" where
  "targetsOk t \<longleftrightarrow> 0 \<le> bt_ProcurementBudget t \<and> 0 \<le> bt_ProductionSpendBudget t
     \<and> 0 \<le> bt_RevenueTarget t \<and> 0 \<le> bt_CashFloorTarget t \<and> 0 \<le> bt_DebtCeilingTarget t"

lemma validateFinance_targets:
  "validateFinanceAction a = None \<longleftrightarrow>
     (\<exists>x. act_Finance (as_Action a) = Some x \<and> targetsOk (fa_NextRoundTargets x))"
  by (simp add: valid_parts(4) targetsOk_def)

text \<open>The safe no-op of a canonical role passes the engine's validation.\<close>

lemma safeNoOp_valid:
  assumes "as_RoleID a = ra_RoleID (rq_Assignment request)" "as_Action a = safeNoOpAction request"
    "as_RoleID a \<in> set CanonicalRoles" "targetsOk (rv_ActiveTargets (rq_RoleView request))"
  shows "validateActionSubmission s a = None"
  using assms
  by (auto simp: CanonicalRoles_def valid_payload populatedPayloadNames_def
      safeNoOpAction_def zeroAction_def valid_parts(1-3) validateFinance_targets)

text \<open>What a submission is judged by, beyond its match, round and role, is its action.\<close>

lemma validate_action_only:
  assumes "as_Action a = as_Action b" "as_RoleID a = as_RoleID b" "validateActionSubmission s b = None"
    "ws_WorkstationID ` set (pl_Workstations (ms_Plant s)) =
       ws_WorkstationID ` set (pl_Workstations (ms_Plant s'))"
  shows "validateActionSubmission s' a = None"
  using assms unfolding valid_payload
  by (cases "as_RoleID b") (simp_all add: valid_parts)

end
