(* ===== verification/RoundCollection.thy ===== *)
theory RoundCollection
  imports Players
begin

text \<open>
  Collecting the actions of a round (\<open>internal/app/round_collection.go\<close>).  \<open>Collect\<close> starts
  one goroutine per role in an \<open>errgroup\<close> and waits for all of them; the goroutines share
  the round flow (behind a mutex) and write to their own slot of the result.  The concurrent
  run is the step relation \<open>collectStep\<close>, whose steps are the code's atomic sections;
  \<open>Collect\<close> is the same computation one role after the other, and the theorems of the
  last section say that every run ends and that its result is the sequential one.
\<close>

section \<open>Requests and submissions\<close>

type_synonym PreviousActions = "RoleID \<rightharpoonup> ActionSubmission"

definition roleIDs :: "RoleAssignment list \<Rightarrow> RoleID list" where
  "roleIDs assignments = map ra_RoleID assignments"

definition clonePrevious :: "ActionSubmission \<Rightarrow> ActionSubmission option" where
  "clonePrevious previous =
     (if previous = zeroSubmission then None else Some (ActionSubmission_Clone previous))"

definition submittedAt :: "Time \<Rightarrow> Time \<Rightarrow> Time" where
  "submittedAt v fallback = (if v = 0 then fallback else v)"

definition actionID :: "ActionID \<Rightarrow> RoundRequest \<Rightarrow> ActionID" where
  "actionID existing request =
     (if existing \<noteq> [] then existing
      else role_string (ra_RoleID (rq_Assignment request)) @ ''-r'' @ itoa (rv_Round (rq_RoleView request)))"

definition commentaryID :: "CommentaryID \<Rightarrow> RoundRequest \<Rightarrow> CommentaryID" where
  "commentaryID existing request =
     (if existing \<noteq> [] then existing
      else role_string (ra_RoleID (rq_Assignment request)) @ ''-commentary-r''
        @ itoa (rv_Round (rq_RoleView request)))"

definition commentaryActor :: "ActorID \<Rightarrow> RoundRequest \<Rightarrow> ActorID" where
  "commentaryActor existing request =
     (if existing \<noteq> [] then existing
      else if ra_PlayerID (rq_Assignment request) \<noteq> [] then ra_PlayerID (rq_Assignment request)
      else role_string (ra_RoleID (rq_Assignment request)))"

definition commentaryVisibility :: "CommentaryVisibility \<Rightarrow> CommentaryVisibility" where
  "commentaryVisibility existing = (if existing \<noteq> [] then existing else CommentaryPublic)"

definition normalizeSubmission :: "ActionSubmission \<Rightarrow> RoundRequest \<Rightarrow> Time \<Rightarrow> ActionSubmission" where
  "normalizeSubmission submission request now =
    (let submission = submission\<lparr>as_MatchID := rv_MatchID (rq_RoleView request),
           as_Round := rv_Round (rq_RoleView request),
           as_RoleID := ra_RoleID (rq_Assignment request)\<rparr>;
         submission = submission\<lparr>as_SubmittedAt := submittedAt (as_SubmittedAt submission) now\<rparr>;
         submission = submission\<lparr>as_ActionID := actionID (as_ActionID submission) request\<rparr>;
         commentary = CommentaryRecord_Clone (as_Commentary submission);
         commentary = commentary\<lparr>cm_CommentaryID := commentaryID (cm_CommentaryID commentary) request,
           cm_MatchID := as_MatchID submission, cm_Round := as_Round submission,
           cm_RoleID := as_RoleID submission,
           cm_ActorID := commentaryActor (cm_ActorID commentary) request,
           cm_Visibility := commentaryVisibility (cm_Visibility commentary)\<rparr>
     in submission\<lparr>as_Commentary := commentary\<rparr>)"

section \<open>Round flow\<close>

definition removeRoleID :: "RoleID list \<Rightarrow> RoleID \<Rightarrow> RoleID list" where
  "removeRoleID items target = filter (\<lambda>roleID. roleID \<noteq> target) items"

definition newRoundFlowProgress :: "RoundFlowState \<Rightarrow> RoleAssignment list \<Rightarrow> RoundFlowState" where
  "newRoundFlowProgress flow assignments =
    (let flow = RoundFlowState_Clone flow;
         flow = (if rf_Phase flow = RoundPhaseUnset then flow\<lparr>rf_Phase := RoundPhaseCollecting\<rparr> else flow)
     in if rf_WaitingOnRoles flow = [] \<and> assignments \<noteq> []
        then flow\<lparr>rf_WaitingOnRoles := roleIDs assignments\<rparr> else flow)"

definition hasProvider :: "RoleAssignment \<Rightarrow> bool" where
  "hasProvider assignment \<longleftrightarrow> TrimSpace (ra_Provider assignment) \<noteq> []"

definition markProviderWaiting :: "RoleAssignment \<Rightarrow> bool \<Rightarrow> RoundFlowState \<Rightarrow> RoundFlowState" where
  "markProviderWaiting assignment active flow =
    (let roleID = ra_RoleID assignment; waiting = rf_ProviderWaitingRoles flow
     in if active
        then if roleID \<in> set waiting then flow
             else flow\<lparr>rf_ProviderWaitingRoles := waiting @ [roleID]\<rparr>
        else flow\<lparr>rf_ProviderWaitingRoles := removeRoleID waiting roleID\<rparr>)"

definition markSubmitted :: "RoleID \<Rightarrow> RoundFlowState \<Rightarrow> RoundFlowState" where
  "markSubmitted roleID flow =
    (let flow = (if roleID \<in> set (rf_SubmittedRoles flow) then flow
                 else flow\<lparr>rf_SubmittedRoles := rf_SubmittedRoles flow @ [roleID]\<rparr>)
     in flow\<lparr>rf_WaitingOnRoles := removeRoleID (rf_WaitingOnRoles flow) roleID,
           rf_ProviderWaitingRoles := removeRoleID (rf_ProviderWaitingRoles flow) roleID\<rparr>)"

section \<open>One role after the other\<close>

datatype collectError =
    CollectEmptyMatchID RoundNumber
  | CollectRoundNotPositive RoundNumber
  | PlayerMissing RoundNumber RoleID
  | PlayerFailed RoundNumber RoleID playerError

text \<open>What a call of \<open>Collect\<close> works on: the collector's players and clock, the state, the
  previous actions, and the order in which maps are ranged over when a report is built.\<close>

record collectEnv =
  en_Players :: "RoleID \<rightharpoonup> Player"
  en_Now :: Time
  en_order :: MapOrder
  en_state :: MatchState
  en_previous :: PreviousActions

definition roundRequest :: "collectEnv \<Rightarrow> RoleAssignment \<Rightarrow> RoundRequest" where
  "roundRequest env assignment =
     \<lparr>rq_Assignment = assignment,
      rq_RoleView = BuildRoundView (en_state env) (ra_RoleID assignment),
      rq_RoleReport = BuildRoleRoundReport (en_order env) (en_state env) (ra_RoleID assignment),
      rq_PreviousAcceptedAction = clonePrevious
        (case en_previous env (ra_RoleID assignment) of Some a \<Rightarrow> a | None \<Rightarrow> zeroSubmission)\<rparr>"

definition collectRole :: "collectEnv \<Rightarrow> Player \<Rightarrow> RoleAssignment \<Rightarrow> collectError + ActionSubmission" where
  "collectRole env player assignment =
    (let request = roundRequest env assignment
     in case ply_SubmitRound player False request of
          Inr submission \<Rightarrow> Inr (normalizeSubmission submission request (en_Now env))
        | Inl err \<Rightarrow>
            (case ply_RecoverFromNonResponse player False request err of
               Inr submission \<Rightarrow> Inr (normalizeSubmission submission request (en_Now env))
             | Inl err \<Rightarrow> Inl (PlayerFailed (ms_CurrentRound (en_state env)) (ra_RoleID assignment) err)))"

definition missingPlayer :: "collectEnv \<Rightarrow> RoleAssignment \<Rightarrow> bool" where
  "missingPlayer env assignment \<longleftrightarrow> en_Players env (ra_RoleID assignment) = None"

fun collectRoles :: "collectEnv \<Rightarrow> RoleAssignment list \<Rightarrow> collectError + ActionSubmission list" where
  "collectRoles env [] = Inr []"
| "collectRoles env (assignment # rest) =
    (case en_Players env (ra_RoleID assignment) of
       None \<Rightarrow> Inl (PlayerMissing (ms_CurrentRound (en_state env)) (ra_RoleID assignment))
     | Some player \<Rightarrow>
         (case collectRole env player assignment of
            Inl err \<Rightarrow> Inl err
          | Inr action \<Rightarrow>
              (case collectRoles env rest of Inl err \<Rightarrow> Inl err | Inr actions \<Rightarrow> Inr (action # actions))))"

definition collectGuard :: "collectEnv \<Rightarrow> collectError option" where
  "collectGuard env =
    (let state = en_state env
     in if ms_MatchID state = [] then Some (CollectEmptyMatchID (ms_CurrentRound state))
        else if ms_CurrentRound state \<le> 0 then Some (CollectRoundNotPositive (ms_CurrentRound state))
        else None)"

definition Collect :: "collectEnv \<Rightarrow> collectError + ActionSubmission list" where
  "Collect env =
    (case collectGuard env of
       Some err \<Rightarrow> Inl err
     | None \<Rightarrow>
        (case find_first (missingPlayer env) (ms_Roles (en_state env)) of
           Some assignment \<Rightarrow> Inl (PlayerMissing (ms_CurrentRound (en_state env)) (ra_RoleID assignment))
         | None \<Rightarrow> collectRoles env (ms_Roles (en_state env))))"

section \<open>The goroutines\<close>

text \<open>Where a goroutine stands; a round flow is one it still has to pass to the listener.\<close>

datatype taskState =
    TaskReady
  | TaskAnnounced RoundFlowState
  | TaskAsking
  | TaskRecovering playerError
  | TaskCollected
  | TaskSubmitted RoundFlowState
  | TaskDone
  | TaskGivingUp playerError
  | TaskWithdrawn playerError RoundFlowState
  | TaskFailed playerError

record collectState =
  co_tasks :: "taskState list"
  co_flow :: RoundFlowState
  co_collected :: "ActionSubmission list"
  co_emitted :: "RoundFlowState list"
  co_ctxDone :: bool
  co_error :: "collectError option"
  co_result :: "(collectError + ActionSubmission list) option"

definition setTask :: "nat \<Rightarrow> taskState \<Rightarrow> collectState \<Rightarrow> collectState" where
  "setTask i t c = c\<lparr>co_tasks := (co_tasks c)[i := t]\<rparr>"

definition emitFlow :: "RoundFlowState \<Rightarrow> collectState \<Rightarrow> collectState" where
  "emitFlow flow c = c\<lparr>co_emitted := co_emitted c @ [flow]\<rparr>"

text \<open>A goroutine returns an error: the group keeps the first one and cancels its context.\<close>

definition failTask :: "collectEnv \<Rightarrow> nat \<Rightarrow> playerError \<Rightarrow> collectState \<Rightarrow> collectState" where
  "failTask env i err c =
     setTask i (TaskFailed err)
       (c\<lparr>co_error := (case co_error c of
            Some e \<Rightarrow> Some e
          | None \<Rightarrow> Some (PlayerFailed (ms_CurrentRound (en_state env))
              (ra_RoleID (ms_Roles (en_state env) ! i)) err)),
          co_ctxDone := True\<rparr>)"

definition storeSubmission :: "collectEnv \<Rightarrow> nat \<Rightarrow> ActionSubmission \<Rightarrow> collectState \<Rightarrow> collectState" where
  "storeSubmission env i submission c =
     setTask i TaskCollected
       (c\<lparr>co_collected := (co_collected c)[i := normalizeSubmission submission
            (roundRequest env (ms_Roles (en_state env) ! i)) (en_Now env)]\<rparr>)"

text \<open>The next atomic section of goroutine \<open>i\<close>; \<open>done\<close> is what a call sees of its context.\<close>

definition taskStep :: "collectEnv \<Rightarrow> Player \<Rightarrow> bool \<Rightarrow> nat \<Rightarrow> collectState \<Rightarrow> collectState" where
  "taskStep env player done i c =
    (let assignment = ms_Roles (en_state env) ! i; request = roundRequest env assignment
     in case co_tasks c ! i of
          TaskReady \<Rightarrow>
            if hasProvider assignment
            then let flow = markProviderWaiting assignment True (co_flow c)
                 in setTask i (TaskAnnounced (RoundFlowState_Clone flow)) (c\<lparr>co_flow := flow\<rparr>)
            else setTask i TaskAsking c
        | TaskAnnounced flow \<Rightarrow> setTask i TaskAsking (emitFlow flow c)
        | TaskAsking \<Rightarrow>
            (case ply_SubmitRound player done request of
               Inr submission \<Rightarrow> storeSubmission env i submission c
             | Inl err \<Rightarrow> setTask i (TaskRecovering err) c)
        | TaskRecovering cause \<Rightarrow>
            (case ply_RecoverFromNonResponse player done request cause of
               Inr submission \<Rightarrow> storeSubmission env i submission c
             | Inl err \<Rightarrow> setTask i (TaskGivingUp err) c)
        | TaskCollected \<Rightarrow>
            let flow = markSubmitted (ra_RoleID assignment) (co_flow c)
            in setTask i (TaskSubmitted (RoundFlowState_Clone flow)) (c\<lparr>co_flow := flow\<rparr>)
        | TaskSubmitted flow \<Rightarrow> setTask i TaskDone (emitFlow flow c)
        | TaskGivingUp err \<Rightarrow>
            if hasProvider assignment
            then let flow = markProviderWaiting assignment False (co_flow c)
                 in setTask i (TaskWithdrawn err (RoundFlowState_Clone flow)) (c\<lparr>co_flow := flow\<rparr>)
            else failTask env i err c
        | TaskWithdrawn err flow \<Rightarrow> failTask env i err (emitFlow flow c)
        | TaskDone \<Rightarrow> c
        | TaskFailed err \<Rightarrow> c)"

fun finished :: "taskState \<Rightarrow> bool" where
  "finished TaskDone \<longleftrightarrow> True"
| "finished (TaskFailed _) \<longleftrightarrow> True"
| "finished _ \<longleftrightarrow> False"

definition collectStart :: "collectEnv \<Rightarrow> collectState" where
  "collectStart env =
     \<lparr>co_tasks = [],
      co_flow = newRoundFlowProgress (ms_RoundFlow (en_state env)) (ms_Roles (en_state env)),
      co_collected = replicate (length (ms_Roles (en_state env))) zeroSubmission,
      co_emitted = [], co_ctxDone = False, co_error = None,
      co_result = map_option Inl (collectGuard env)\<rparr>"

text \<open>
  The steps of a run: the loop over the roles starts the next goroutine, or returns when the
  role has no player; a started goroutine works; \<open>Wait\<close> returns once all are finished.
  Goroutines that run go on when the loop has returned.
\<close>

inductive collectStep :: "collectEnv \<Rightarrow> collectState \<Rightarrow> collectState \<Rightarrow> bool"
  for env :: collectEnv where
  launch: "co_result c = None \<Longrightarrow> length (co_tasks c) < length (ms_Roles (en_state env)) \<Longrightarrow>
     \<not> missingPlayer env (ms_Roles (en_state env) ! length (co_tasks c)) \<Longrightarrow>
     collectStep env c (c\<lparr>co_tasks := co_tasks c @ [TaskReady]\<rparr>)"
| missing: "co_result c = None \<Longrightarrow> length (co_tasks c) < length (ms_Roles (en_state env)) \<Longrightarrow>
     missingPlayer env (ms_Roles (en_state env) ! length (co_tasks c)) \<Longrightarrow>
     collectStep env c (c\<lparr>co_result := Some (Inl (PlayerMissing (ms_CurrentRound (en_state env))
       (ra_RoleID (ms_Roles (en_state env) ! length (co_tasks c)))))\<rparr>)"
| work: "i < length (co_tasks c) \<Longrightarrow> \<not> finished (co_tasks c ! i) \<Longrightarrow>
     en_Players env (ra_RoleID (ms_Roles (en_state env) ! i)) = Some player \<Longrightarrow>
     done \<longrightarrow> co_ctxDone c \<Longrightarrow>
     collectStep env c (taskStep env player done i c)"
| wait: "co_result c = None \<Longrightarrow> length (co_tasks c) = length (ms_Roles (en_state env)) \<Longrightarrow>
     list_all finished (co_tasks c) \<Longrightarrow>
     collectStep env c (c\<lparr>co_result :=
       Some (case co_error c of Some err \<Rightarrow> Inl err | None \<Rightarrow> Inr (co_collected c))\<rparr>)"

inductive_cases collectStep_cases: "collectStep env c c'"

section \<open>Every run gives the sequential result\<close>

definition roleError :: "collectEnv \<Rightarrow> collectError \<Rightarrow> bool" where
  "roleError env err \<longleftrightarrow> (\<exists>assignment \<in> set (ms_Roles (en_state env)). \<exists>player.
     en_Players env (ra_RoleID assignment) = Some player \<and> collectRole env player assignment = Inl err)"

lemma collectRoles_Inr:
  "collectRoles env assignments = Inr actions \<longleftrightarrow>
     list_all2 (\<lambda>assignment action. \<exists>player. en_Players env (ra_RoleID assignment) = Some player
       \<and> collectRole env player assignment = Inr action) assignments actions"
proof (induction assignments arbitrary: actions)
  case (Cons assignment rest)
  show ?case
    by (cases actions) (auto simp flip: Cons.IH split: option.splits sum.splits)
qed auto

lemma Collect_Inr:
  "Collect env = Inr actions \<longleftrightarrow> collectGuard env = None \<and> collectRoles env (ms_Roles (en_state env)) = Inr actions"
proof -
  have "find_first (missingPlayer env) assignments = None"
    if "collectRoles env assignments = Inr actions" for assignments
    using that
    by (induction assignments arbitrary: actions) (auto simp: missingPlayer_def split: option.splits sum.splits)
  then show ?thesis by (auto simp: Collect_def split: option.split)
qed

lemma Collect_no_roleError: "Collect env = Inr actions \<Longrightarrow> \<not> roleError env err"
  by (force simp: Collect_Inr collectRoles_Inr roleError_def list_all2_conv_all_nth in_set_conv_nth)

text \<open>What a goroutine has found out, as long as no other one has failed.\<close>

fun taskFacts ::
  "collectEnv \<Rightarrow> Player \<Rightarrow> RoleAssignment \<Rightarrow> taskState \<Rightarrow> ActionSubmission \<Rightarrow> bool" where
  "taskFacts env player a (TaskRecovering err) x \<longleftrightarrow>
     ply_SubmitRound player False (roundRequest env a) = Inl err"
| "taskFacts env player a TaskCollected x \<longleftrightarrow> collectRole env player a = Inr x"
| "taskFacts env player a (TaskSubmitted _) x \<longleftrightarrow> collectRole env player a = Inr x"
| "taskFacts env player a TaskDone x \<longleftrightarrow> collectRole env player a = Inr x"
| "taskFacts env player a (TaskGivingUp err) x \<longleftrightarrow>
     collectRole env player a = Inl (PlayerFailed (ms_CurrentRound (en_state env)) (ra_RoleID a) err)"
| "taskFacts env player a (TaskWithdrawn err _) x \<longleftrightarrow>
     collectRole env player a = Inl (PlayerFailed (ms_CurrentRound (en_state env)) (ra_RoleID a) err)"
| "taskFacts env player a (TaskFailed _) x \<longleftrightarrow> False"
| "taskFacts env player a _ x \<longleftrightarrow> True"

definition taskOk :: "collectEnv \<Rightarrow> collectState \<Rightarrow> nat \<Rightarrow> bool" where
  "taskOk env c i \<longleftrightarrow> (\<exists>player. en_Players env (ra_RoleID (ms_Roles (en_state env) ! i)) = Some player
     \<and> (\<not> co_ctxDone c \<longrightarrow>
          taskFacts env player (ms_Roles (en_state env) ! i) (co_tasks c ! i) (co_collected c ! i)))"

lemma setTask_simps [simp]:
  "co_tasks (setTask i t c) = (co_tasks c)[i := t]" "co_flow (setTask i t c) = co_flow c"
  "co_collected (setTask i t c) = co_collected c" "co_emitted (setTask i t c) = co_emitted c"
  "co_ctxDone (setTask i t c) = co_ctxDone c" "co_error (setTask i t c) = co_error c"
  "co_result (setTask i t c) = co_result c"
  by (simp_all add: setTask_def)

lemma emitFlow_simps [simp]:
  "co_tasks (emitFlow f c) = co_tasks c" "co_flow (emitFlow f c) = co_flow c"
  "co_collected (emitFlow f c) = co_collected c" "co_emitted (emitFlow f c) = co_emitted c @ [f]"
  "co_ctxDone (emitFlow f c) = co_ctxDone c" "co_error (emitFlow f c) = co_error c"
  "co_result (emitFlow f c) = co_result c"
  by (simp_all add: emitFlow_def)

lemma failTask_simps [simp]:
  "co_tasks (failTask env i e c) = (co_tasks c)[i := TaskFailed e]" "co_flow (failTask env i e c) = co_flow c"
  "co_collected (failTask env i e c) = co_collected c" "co_emitted (failTask env i e c) = co_emitted c"
  "co_ctxDone (failTask env i e c) = True"
  "co_error (failTask env i e c) = (case co_error c of Some e' \<Rightarrow> Some e'
     | None \<Rightarrow> Some (PlayerFailed (ms_CurrentRound (en_state env)) (ra_RoleID (ms_Roles (en_state env) ! i)) e))"
  "co_result (failTask env i e c) = co_result c"
  by (simp_all add: failTask_def)

lemma storeSubmission_simps [simp]:
  "co_tasks (storeSubmission env i s c) = (co_tasks c)[i := TaskCollected]"
  "co_flow (storeSubmission env i s c) = co_flow c"
  "co_collected (storeSubmission env i s c) = (co_collected c)[i := normalizeSubmission s
     (roundRequest env (ms_Roles (en_state env) ! i)) (en_Now env)]"
  "co_emitted (storeSubmission env i s c) = co_emitted c"
  "co_ctxDone (storeSubmission env i s c) = co_ctxDone c" "co_error (storeSubmission env i s c) = co_error c"
  "co_result (storeSubmission env i s c) = co_result c"
  by (simp_all add: storeSubmission_def)

lemmas task_splits = taskState.splits sum.splits if_splits

lemma taskStep_frame:
  "length (co_tasks (taskStep env player d i c)) = length (co_tasks c)"
  "length (co_collected (taskStep env player d i c)) = length (co_collected c)"
  "co_result (taskStep env player d i c) = co_result c"
  "co_ctxDone c \<Longrightarrow> co_ctxDone (taskStep env player d i c)"
  "j \<noteq> i \<Longrightarrow> co_tasks (taskStep env player d i c) ! j = co_tasks c ! j"
  "j \<noteq> i \<Longrightarrow> co_collected (taskStep env player d i c) ! j = co_collected c ! j"
  by (simp_all add: taskStep_def Let_def split: taskState.split sum.split)

lemma taskStep_own:
  assumes "i < length (co_tasks c)" "i < length (co_collected c)" "d \<longrightarrow> co_ctxDone c"
    and p: "en_Players env (ra_RoleID (ms_Roles (en_state env) ! i)) = Some player"
    and "taskOk env c i"
  shows "taskOk env (taskStep env player d i c) i"
    "co_ctxDone c \<longleftrightarrow> co_error c \<noteq> None \<Longrightarrow>
       co_ctxDone (taskStep env player d i c) \<longleftrightarrow> co_error (taskStep env player d i c) \<noteq> None"
    "co_error (taskStep env player d i c) = Some e \<Longrightarrow> co_ctxDone c \<longleftrightarrow> co_error c \<noteq> None \<Longrightarrow>
       co_error c = Some e \<or>
       (co_error c = None \<and> collectRole env player (ms_Roles (en_state env) ! i) = Inl e)"
proof -
  show "taskOk env (taskStep env player d i c) i"
    using assms
    by (cases "co_ctxDone c"; cases "co_tasks c ! i")
      (auto simp: taskOk_def taskStep_def Let_def collectRole_def split: sum.split)
  show "co_ctxDone c \<longleftrightarrow> co_error c \<noteq> None \<Longrightarrow>
       co_ctxDone (taskStep env player d i c) \<longleftrightarrow> co_error (taskStep env player d i c) \<noteq> None"
    by (cases "co_tasks c ! i") (auto simp: taskStep_def Let_def split: sum.split option.split)
  show "co_error (taskStep env player d i c) = Some e \<Longrightarrow> co_ctxDone c \<longleftrightarrow> co_error c \<noteq> None \<Longrightarrow>
       co_error c = Some e \<or>
       (co_error c = None \<and> collectRole env player (ms_Roles (en_state env) ! i) = Inl e)"
    using assms(5) p
    by (cases "co_tasks c ! i")
      (auto simp: taskOk_def taskStep_def Let_def split: sum.splits option.splits if_splits)
qed

definition resultOk :: "collectEnv \<Rightarrow> collectError + ActionSubmission list \<Rightarrow> bool" where
  "resultOk env r \<longleftrightarrow>
    (case r of
       Inr actions \<Rightarrow> Collect env = Inr actions
     | Inl err \<Rightarrow> Collect env = Inl err \<or> roleError env err)"

definition collectInv :: "collectEnv \<Rightarrow> collectState \<Rightarrow> bool" where
  "collectInv env c \<longleftrightarrow>
     length (co_tasks c) \<le> length (ms_Roles (en_state env))
     \<and> length (co_collected c) = length (ms_Roles (en_state env))
     \<and> (\<forall>i < length (co_tasks c). taskOk env c i)
     \<and> (co_ctxDone c \<longleftrightarrow> co_error c \<noteq> None)
     \<and> (\<forall>err. co_error c = Some err \<longrightarrow> roleError env err)
     \<and> (co_result c = None \<longrightarrow> collectGuard env = None)
     \<and> (\<forall>r. co_result c = Some r \<longrightarrow> resultOk env r)"

lemma collectInv_start: "collectInv env (collectStart env)"
  by (auto simp: collectInv_def collectStart_def resultOk_def Collect_def)

lemma find_first_nth:
  "k < length xs \<Longrightarrow> P (xs ! k) \<Longrightarrow> (\<And>i. i < k \<Longrightarrow> \<not> P (xs ! i)) \<Longrightarrow> find_first P xs = Some (xs ! k)"
proof (induction xs arbitrary: k)
  case (Cons x xs)
  show ?case
  proof (cases k)
    case 0
    with Cons.prems show ?thesis by simp
  next
    case (Suc k')
    have "\<not> P x" using Cons.prems(3) [of 0] Suc by simp
    moreover have "\<not> P (xs ! i)" if "i < k'" for i
      using Cons.prems(3) [of "Suc i"] that Suc by simp
    then have "find_first P xs = Some (xs ! k')"
      using Cons.prems(1,2) Suc by (intro Cons.IH) auto
    ultimately show ?thesis by (simp add: Suc)
  qed
qed simp

lemma collectInv_step:
  assumes "collectStep env c c'" "collectInv env c"
  shows "collectInv env c'"
  using assms(1)
proof cases
  case launch
  from assms(2) launch show ?thesis
    by (auto simp: collectInv_def taskOk_def missingPlayer_def nth_append less_Suc_eq)
next
  case missing
  let ?n = "length (co_tasks c)"
  have "\<not> missingPlayer env (ms_Roles (en_state env) ! i)" if "i < ?n" for i
    using assms(2) that by (auto simp: collectInv_def taskOk_def missingPlayer_def)
  then have "find_first (missingPlayer env) (ms_Roles (en_state env)) = Some (ms_Roles (en_state env) ! ?n)"
    using missing by (intro find_first_nth) auto
  with assms(2) missing show ?thesis
    by (auto simp: collectInv_def resultOk_def Collect_def taskOk_def)
next
  case (work i player d)
  have i: "i < length (co_collected c)" "taskOk env c i" "co_ctxDone c \<longleftrightarrow> co_error c \<noteq> None"
    using assms(2) work by (auto simp: collectInv_def)
  note own = taskStep_own [OF work(2) i(1) work(5,4) i(2)]
  have "taskOk env (taskStep env player d i c) j" if "j < length (co_tasks c)" for j
  proof (cases "j = i")
    case False
    then show ?thesis
      using assms(2) that taskStep_frame(4) [of c env player d i] taskStep_frame(5,6) [OF False]
      by (auto simp: collectInv_def taskOk_def)
  qed (use own(1) in simp)
  moreover have "roleError env err" if "co_error (taskStep env player d i c) = Some err" for err
  proof -
    have "ms_Roles (en_state env) ! i \<in> set (ms_Roles (en_state env))"
      using assms(2) work(2) by (auto simp: collectInv_def)
    with own(3) [OF that i(3)] work(4) assms(2) show ?thesis
      by (auto simp: collectInv_def roleError_def)
  qed
  ultimately show ?thesis
    using assms(2) own(2) [OF i(3)] unfolding work(1)
    by (simp add: collectInv_def taskStep_frame(1-3))
next
  case wait
  have "resultOk env (case co_error c of Some err \<Rightarrow> Inl err | None \<Rightarrow> Inr (co_collected c))"
  proof (cases "co_error c")
    case None
    have "list_all2 (\<lambda>assignment action. \<exists>player. en_Players env (ra_RoleID assignment) = Some player
       \<and> collectRole env player assignment = Inr action) (ms_Roles (en_state env)) (co_collected c)"
    proof (rule list_all2_all_nthI)
      fix i assume "i < length (ms_Roles (en_state env))"
      then have "taskOk env c i" "finished (co_tasks c ! i)" "\<not> co_ctxDone c"
        using assms(2) wait None by (auto simp: collectInv_def list_all_length)
      then show "\<exists>player. en_Players env (ra_RoleID (ms_Roles (en_state env) ! i)) = Some player
          \<and> collectRole env player (ms_Roles (en_state env) ! i) = Inr (co_collected c ! i)"
        by (cases "co_tasks c ! i") (auto simp: taskOk_def)
    qed (use assms(2) in \<open>simp add: collectInv_def\<close>)
    with assms(2) wait None show ?thesis
      by (simp add: resultOk_def Collect_Inr collectRoles_Inr collectInv_def)
  next
    case (Some err)
    with assms(2) show ?thesis by (simp add: resultOk_def collectInv_def)
  qed
  with assms(2) wait show ?thesis by (auto simp: collectInv_def taskOk_def)
qed

lemma collectInv_run: "(collectStep env)\<^sup>*\<^sup>* (collectStart env) c \<Longrightarrow> collectInv env c"
  by (induction rule: rtranclp_induct) (auto intro: collectInv_start collectInv_step)

section \<open>Every run ends\<close>

fun taskWork :: "taskState \<Rightarrow> nat" where
  "taskWork TaskReady = 7"
| "taskWork (TaskAnnounced _) = 6"
| "taskWork TaskAsking = 5"
| "taskWork (TaskRecovering _) = 4"
| "taskWork TaskCollected = 2"
| "taskWork (TaskSubmitted _) = 1"
| "taskWork TaskDone = 0"
| "taskWork (TaskGivingUp _) = 2"
| "taskWork (TaskWithdrawn _ _) = 1"
| "taskWork (TaskFailed _) = 0"

definition remainingWork :: "collectEnv \<Rightarrow> collectState \<Rightarrow> nat" where
  "remainingWork env c =
     sum_list (map taskWork (co_tasks c)) + 8 * (length (ms_Roles (en_state env)) - length (co_tasks c))
     + (if co_result c = None then 1 else 0)"

lemma taskStep_work:
  assumes "i < length (co_tasks c)" "\<not> finished (co_tasks c ! i)"
  shows "sum_list (map taskWork (co_tasks (taskStep env player d i c))) < sum_list (map taskWork (co_tasks c))"
proof -
  have "\<exists>t. co_tasks (taskStep env player d i c) = (co_tasks c)[i := t] \<and> taskWork t < taskWork (co_tasks c ! i)"
    using assms(2)
    by (cases "co_tasks c ! i") (auto simp: taskStep_def Let_def split: sum.split)
  then obtain t where t: "co_tasks (taskStep env player d i c) = (co_tasks c)[i := t]"
    "taskWork t < taskWork (co_tasks c ! i)" by blast
  have "sum_list (map taskWork (co_tasks c)) = sum_list (map taskWork (take i (co_tasks c)))
      + (taskWork (co_tasks c ! i) + sum_list (map taskWork (drop (Suc i) (co_tasks c))))"
    by (subst id_take_nth_drop [OF assms(1)]) simp
  moreover have "sum_list (map taskWork ((co_tasks c)[i := t])) = sum_list (map taskWork (take i (co_tasks c)))
      + (taskWork t + sum_list (map taskWork (drop (Suc i) (co_tasks c))))"
    using assms(1) by (simp add: upd_conv_take_nth_drop)
  ultimately show ?thesis using t by simp
qed

lemma collectStep_work: "collectStep env c c' \<Longrightarrow> remainingWork env c' < remainingWork env c"
  by (erule collectStep_cases)
    (auto simp: remainingWork_def taskStep_work taskStep_frame(1,3))

lemma collectStep_possible:
  assumes "collectInv env c" "co_result c = None"
  shows "\<exists>c'. collectStep env c c'"
proof (cases "length (co_tasks c) < length (ms_Roles (en_state env))")
  case True
  then show ?thesis
    using collectStep.launch [OF assms(2) True] collectStep.missing [OF assms(2) True] by blast
next
  case False
  then have n: "length (co_tasks c) = length (ms_Roles (en_state env))"
    using assms(1) by (simp add: collectInv_def)
  show ?thesis
  proof (cases "list_all finished (co_tasks c)")
    case True
    then show ?thesis using collectStep.wait [OF assms(2) n] by blast
  next
    case False
    then obtain i where i: "i < length (co_tasks c)" "\<not> finished (co_tasks c ! i)"
      by (auto simp: list_all_length)
    then obtain player where "en_Players env (ra_RoleID (ms_Roles (en_state env) ! i)) = Some player"
      using assms(1) by (auto simp: collectInv_def taskOk_def)
    then show ?thesis using collectStep.work [OF i, of env player False] by blast
  qed
qed

lemma collect_run_length:
  "(collectStep env ^^ k) c c' \<Longrightarrow> k + remainingWork env c' \<le> remainingWork env c"
proof (induction k arbitrary: c')
  case (Suc k)
  then obtain d where "(collectStep env ^^ k) c d" "collectStep env d c'" by auto
  with Suc.IH [of d] collectStep_work [of env d c'] show ?case by simp
qed simp

section \<open>The round flow\<close>

text \<open>A flow that accounts for every role: it has submitted or is waited on, and only roles
  waited on can be waiting for their provider.\<close>

definition flowOk :: "RoleID list \<Rightarrow> RoundFlowState \<Rightarrow> bool" where
  "flowOk roles flow \<longleftrightarrow>
     distinct (rf_SubmittedRoles flow) \<and> set (rf_SubmittedRoles flow) \<subseteq> set roles
     \<and> rf_WaitingOnRoles flow = filter (\<lambda>r. r \<notin> set (rf_SubmittedRoles flow)) roles
     \<and> distinct (rf_ProviderWaitingRoles flow)
     \<and> set (rf_ProviderWaitingRoles flow) \<subseteq> set (rf_WaitingOnRoles flow)"

lemma flowOk_clone [simp]: "flowOk roles (RoundFlowState_Clone flow) = flowOk roles flow"
  by (simp add: clone_simps)

lemma flowOk_provider:
  assumes "flowOk roles flow" "ra_RoleID a \<in> set roles" "ra_RoleID a \<notin> set (rf_SubmittedRoles flow)"
  shows "flowOk roles (markProviderWaiting a active flow)"
  using assms by (auto simp: flowOk_def markProviderWaiting_def removeRoleID_def Let_def)

lemma flowOk_submitted:
  assumes "flowOk roles flow" "r \<in> set roles"
  shows "flowOk roles (markSubmitted r flow)"
  using assms by (auto simp: flowOk_def markSubmitted_def removeRoleID_def Let_def intro: filter_cong)

lemma marked_submitted [simp]:
  "rf_SubmittedRoles (markProviderWaiting a active flow) = rf_SubmittedRoles flow"
  "set (rf_SubmittedRoles (markSubmitted r flow)) = insert r (set (rf_SubmittedRoles flow))"
  by (auto simp: markProviderWaiting_def markSubmitted_def Let_def)

text \<open>The flow a goroutine holds, and whether it has marked its role as submitted.\<close>

fun heldFlow :: "taskState \<Rightarrow> RoundFlowState option" where
  "heldFlow (TaskAnnounced flow) = Some flow"
| "heldFlow (TaskSubmitted flow) = Some flow"
| "heldFlow (TaskWithdrawn _ flow) = Some flow"
| "heldFlow _ = None"

fun hasSubmitted :: "taskState \<Rightarrow> bool" where
  "hasSubmitted (TaskSubmitted _) \<longleftrightarrow> True"
| "hasSubmitted TaskDone \<longleftrightarrow> True"
| "hasSubmitted _ \<longleftrightarrow> False"

definition flowInv :: "collectEnv \<Rightarrow> collectState \<Rightarrow> bool" where
  "flowInv env c \<longleftrightarrow>
    (let roles = roleIDs (ms_Roles (en_state env))
     in flowOk roles (co_flow c)
        \<and> (\<forall>flow \<in> set (co_emitted c). flowOk roles flow)
        \<and> (\<forall>i < length (co_tasks c). \<forall>flow. heldFlow (co_tasks c ! i) = Some flow \<longrightarrow> flowOk roles flow)
        \<and> (\<forall>i < length roles. roles ! i \<in> set (rf_SubmittedRoles (co_flow c)) \<longleftrightarrow>
             i < length (co_tasks c) \<and> hasSubmitted (co_tasks c ! i))
        \<and> length (co_tasks c) \<le> length roles)"

lemma taskStep_held:
  assumes "i < length (co_tasks c)" "heldFlow (co_tasks (taskStep env player d i c) ! i) = Some flow"
  shows "flow = RoundFlowState_Clone (co_flow (taskStep env player d i c)) \<or> finished (co_tasks c ! i)"
  using assms by (cases "co_tasks c ! i") (auto simp: taskStep_def Let_def split: sum.splits if_splits)

lemma taskStep_emitted:
  "flow \<in> set (co_emitted (taskStep env player d i c)) \<Longrightarrow>
     flow \<in> set (co_emitted c) \<or> heldFlow (co_tasks c ! i) = Some flow"
  by (cases "co_tasks c ! i") (auto simp: taskStep_def Let_def split: sum.splits if_splits)

lemma taskStep_flow:
  assumes "i < length (co_tasks c)"
  shows "(co_flow (taskStep env player d i c) = co_flow c
       \<and> hasSubmitted (co_tasks (taskStep env player d i c) ! i) = hasSubmitted (co_tasks c ! i))
     \<or> (\<exists>active. co_flow (taskStep env player d i c) =
           markProviderWaiting (ms_Roles (en_state env) ! i) active (co_flow c)
       \<and> \<not> hasSubmitted (co_tasks (taskStep env player d i c) ! i) \<and> \<not> hasSubmitted (co_tasks c ! i))
     \<or> (co_flow (taskStep env player d i c) = markSubmitted (ra_RoleID (ms_Roles (en_state env) ! i)) (co_flow c)
       \<and> hasSubmitted (co_tasks (taskStep env player d i c) ! i) \<and> \<not> hasSubmitted (co_tasks c ! i))"
  using assms by (cases "co_tasks c ! i") (auto simp: taskStep_def Let_def split: sum.split)

lemma flowInv_step:
  assumes "collectStep env c c'" "flowInv env c" "distinct (roleIDs (ms_Roles (en_state env)))"
  shows "flowInv env c'"
proof -
  define roles where "roles = roleIDs (ms_Roles (en_state env))"
  note inv = assms(2) [unfolded flowInv_def Let_def, folded roles_def]
  from assms(1) show ?thesis
  proof cases
    case launch
    with inv show ?thesis
      by (auto simp: flowInv_def Let_def nth_append less_Suc_eq roles_def roleIDs_def)
  next
    case missing
    with inv show ?thesis by (simp add: flowInv_def Let_def roles_def)
  next
    case wait
    with inv show ?thesis by (simp add: flowInv_def Let_def roles_def)
  next
    case (work i player d)
    let ?c = "taskStep env player d i c" and ?r = "ra_RoleID (ms_Roles (en_state env) ! i)"
    have i: "i < length roles" "roles ! i = ?r" "?r \<in> set roles"
      using inv work(2) by (auto simp: roles_def roleIDs_def)
    have other: "roles ! j \<noteq> ?r" if "j < length roles" "j \<noteq> i" for j
      using that assms(3) i by (metis nth_eq_iff_index_eq roles_def)
    have sub: "?r \<in> set (rf_SubmittedRoles (co_flow c)) \<longleftrightarrow> hasSubmitted (co_tasks c ! i)"
      using inv i work(2) by metis
    have flow: "flowOk roles (co_flow ?c)"
      using taskStep_flow [OF work(2), of env player d] inv i(3) sub
      by (auto intro: flowOk_provider flowOk_submitted)
    have mark: "roles ! j \<in> set (rf_SubmittedRoles (co_flow ?c)) \<longleftrightarrow>
        j < length (co_tasks ?c) \<and> hasSubmitted (co_tasks ?c ! j)" if j: "j < length roles" for j
    proof (cases "j = i")
      case True
      then show ?thesis
        using taskStep_flow [OF work(2), of env player d] sub i work(2) by (auto simp: taskStep_frame(1))
    next
      case False
      then have "roles ! j \<in> set (rf_SubmittedRoles (co_flow ?c)) \<longleftrightarrow> roles ! j \<in> set (rf_SubmittedRoles (co_flow c))"
        using taskStep_flow [OF work(2), of env player d] other [OF j] by auto
      with inv j False show ?thesis by (simp add: taskStep_frame(1,5))
    qed
    have held: "flowOk roles f" if "j < length (co_tasks c)" "heldFlow (co_tasks ?c ! j) = Some f" for j f
      using that taskStep_held [OF work(2), of env player d f] taskStep_frame(5) [of j i env player d c]
        inv flow work(3) by (cases "j = i") auto
    have "flowOk roles f" if "f \<in> set (co_emitted ?c)" for f
      using taskStep_emitted [OF that] inv work(2) by blast
    with flow mark held inv show ?thesis
      by (simp add: work(1) flowInv_def Let_def taskStep_frame(1) flip: roles_def)
  qed
qed

text \<open>The flow \<open>Collect\<close> is called with: nobody has submitted.\<close>

definition freshFlow :: "MatchState \<Rightarrow> bool" where
  "freshFlow s \<longleftrightarrow> rf_SubmittedRoles (ms_RoundFlow s) = [] \<and> rf_ProviderWaitingRoles (ms_RoundFlow s) = []
     \<and> rf_WaitingOnRoles (ms_RoundFlow s) \<in> {[], roleIDs (ms_Roles s)}"

lemma flowInv_start: "freshFlow (en_state env) \<Longrightarrow> flowInv env (collectStart env)"
  by (auto simp: flowInv_def Let_def collectStart_def freshFlow_def flowOk_def newRoundFlowProgress_def
      roleIDs_def clone_simps)

lemma flowInv_run:
  "(collectStep env)\<^sup>*\<^sup>* (collectStart env) c \<Longrightarrow> freshFlow (en_state env) \<Longrightarrow>
   distinct (roleIDs (ms_Roles (en_state env))) \<Longrightarrow> flowInv env c"
  by (induction rule: rtranclp_induct) (auto intro: flowInv_start flowInv_step)

text \<open>A result with actions comes from a state in which every goroutine is done.\<close>

definition doneInv :: "collectEnv \<Rightarrow> collectState \<Rightarrow> bool" where
  "doneInv env c \<longleftrightarrow> (\<forall>actions. co_result c = Some (Inr actions) \<longrightarrow>
     length (co_tasks c) = length (ms_Roles (en_state env)) \<and> list_all (\<lambda>t. t = TaskDone) (co_tasks c))"

lemma doneInv_step:
  assumes "collectStep env c c'" "doneInv env c" "collectInv env c"
  shows "doneInv env c'"
  using assms(1)
proof cases
  case (work i player d)
  have "co_tasks c ! i \<noteq> TaskDone" using work(3) by auto
  with assms(2) work(2) have "\<not> (\<exists>actions. co_result c = Some (Inr actions))"
    by (auto simp: doneInv_def list_all_length)
  then show ?thesis by (simp add: work(1) doneInv_def taskStep_frame(3))
next
  case wait
  have "list_all (\<lambda>t. t = TaskDone) (co_tasks c)" if "co_error c = None"
    unfolding list_all_length
  proof (intro allI impI)
    fix i assume "i < length (co_tasks c)"
    then have "taskOk env c i" "finished (co_tasks c ! i)" "\<not> co_ctxDone c"
      using assms(3) wait that by (auto simp: collectInv_def list_all_length)
    then show "co_tasks c ! i = TaskDone" by (cases "co_tasks c ! i") (auto simp: taskOk_def)
  qed
  with wait show ?thesis by (auto simp: doneInv_def split: option.split)
qed (use assms(2) in \<open>simp_all add: doneInv_def\<close>)

lemma doneInv_run: "(collectStep env)\<^sup>*\<^sup>* (collectStart env) c \<Longrightarrow> doneInv env c"
proof (induction rule: rtranclp_induct)
  case base
  then show ?case by (auto simp: doneInv_def collectStart_def)
next
  case (step c c')
  from doneInv_step [OF step(2,3) collectInv_run [OF step(1)]] show ?case .
qed

end
