(* ===== verification/Rounds.thy ===== *)
theory Rounds
  imports Resolver
begin

text \<open>
  Round after round: what a resolved round leaves for the next one.  The configuration of the
  workstations never changes, so a state that can be resolved leads to one that can be
  resolved again.  \<open>ResolveRoundRandom\<close> is \<open>ResolveRound\<close> of \<open>internal/engine/resolver.go\<close>
  with the random source it leaves behind, which the code shares between rounds.
\<close>

section \<open>The configuration of the workstations\<close>

text \<open>A workstation without what the rounds write to it.\<close>

definition stationSpec :: "WorkstationState \<Rightarrow> WorkstationState" where
  "stationSpec ws = ws\<lparr>ws_EffectiveCapacityPerRound := 0, ws_StressCapacityLoss := 0,
     ws_LaborUsed := 0, ws_OvertimeUsed := 0, ws_CapacityUsed := 0\<rparr>"

definition specs :: "roundPhase \<Rightarrow> WorkstationState list" where
  "specs p = map stationSpec (pl_Workstations (plant p))"

lemma specs_update:
  "nat i < length (pl_Workstations (plant p)) \<longrightarrow> stationSpec ws = stationSpec (pl_Workstations (plant p) ! nat i) \<Longrightarrow>
   map stationSpec ((pl_Workstations (plant p))[nat i := ws]) = specs p"
  by (cases "nat i < length (pl_Workstations (plant p))")
    (simp_all add: specs_def map_update list_update_beyond, metis list_update_id nth_map)

lemma specs_upd_station:
  "stationSpec (f (station p i)) = stationSpec (station p i) \<Longrightarrow> specs (upd_station i f p) = specs p"
  using specs_update [of i p "f (station p i)"] by (simp add: specs_def phase_simps)

lemma specs_stress [phase_simps]: "specs (stressStation i w p) = specs p"
proof -
  have "map stationSpec ((pl_Workstations (plant p))[nat i := (station p i)\<lparr>ws_EffectiveCapacityPerRound := c,
      ws_StressCapacityLoss := l\<rparr>]) = specs p" for c l
    by (intro specs_update) (simp add: stationSpec_def)
  then show ?thesis by (simp add: specs_def phase_simps)
qed

lemma specs_same: "pl_Workstations (plant q) = pl_Workstations (plant p) \<Longrightarrow> specs q = specs p"
  by (simp add: specs_def)

lemma specs_keeps [phase_simps]:
  "specs (appendEvent t a s pl p) = specs p" "specs (upd_stats g p) = specs p"
  "specs (applyCashDelta d p) = specs p" "specs (addDisbursements d p) = specs p"
  "specs (releaseProduct w p r) = specs p" "specs (routeWork i al n c ot p) = specs p"
  "specs (settleProduction p) = specs p"
  by (simp_all add: specs_def phase_simps addDisbursements_def applyCashDelta_def settleProduction_def Let_def)

lemma specs_upd_plant:
  "pl_Workstations (f (plant p)) = pl_Workstations (plant p) \<Longrightarrow> specs (upd_plant f p) = specs p"
  by (simp add: specs_def phase_simps)

lemma consume_spec: "stationSpec (snd (consumeLaborCapacity ws n ot)) = stationSpec ws"
proof -
  obtain used ws' where c: "consumeLaborCapacity ws n ot = (used, ws')" by (rule prod.exhaust)
  have "ws' = ws\<lparr>ws_LaborUsed := ws_LaborUsed ws', ws_OvertimeUsed := ws_OvertimeUsed ws'\<rparr>"
    using c by (rule consumeLaborCapacity_keeps)
  then have "stationSpec ws' = stationSpec (ws\<lparr>ws_LaborUsed := ws_LaborUsed ws', ws_OvertimeUsed := ws_OvertimeUsed ws'\<rparr>)"
    by simp
  then show ?thesis by (simp add: c stationSpec_def)
qed

lemma specs_work [phase_simps]:
  "specs (snd (snd (snd (workStation i a n c acc)))) = specs (snd (snd acc))"
proof -
  obtain requests used p where acc: "acc = (requests, used, p)" by (metis prod.exhaust)
  have plain: "specs (upd_station i (\<lambda>_. snd (consumeLaborCapacity (station q i) n ot)) q) = specs q" for q ot
    by (intro specs_upd_station consume_spec)
  have cap: "specs (upd_station i (\<lambda>ws. ws\<lparr>ws_CapacityUsed := ws_CapacityUsed ws + n\<rparr>) q) = specs q" for q
    by (intro specs_upd_station) (simp add: stationSpec_def)
  have wip: "specs (upd_plant (\<lambda>s. s\<lparr>pl_WIPInventory := items\<rparr>) q) = specs q" for items q
    by (rule specs_upd_plant) simp
  show ?thesis
    by (simp add: acc workStation_def Let_def case_prod_beta specs_keeps cap plain wip)
qed

lemma specs_allocate [phase_simps]:
  "specs (snd (snd (allocateCapacity cap acc a))) = specs (snd (snd acc))"
  by (cases acc) (simp add: allocateCapacity_def Let_def phase_simps case_prod_beta)

lemma specs_allocations:
  "specs (snd (snd (foldl (allocateCapacity cap) acc as))) = specs (snd (snd acc))"
  by (induction as arbitrary: acc) (simp_all add: specs_allocate)

lemma specs_releases: "specs (foldl (releaseProduct w) p rs) = specs p"
  by (induction rs arbitrary: p) (simp_all add: phase_simps)

lemma specs_resolveProduction: "specs (resolveProduction action p) = specs p"
  by (simp add: resolveProduction_def Let_def specs_keeps specs_allocations specs_releases case_prod_beta
      split: option.split)

lemma stations_trade [phase_simps]:
  "pl_Workstations (plant (scheduleReceivable x y z p)) = pl_Workstations (plant p)"
  "pl_Workstations (plant (scheduleCustomerReturns a b n c p)) = pl_Workstations (plant p)"
  "pl_Workstations (plant (syncCustomerBacklog entries p)) = pl_Workstations (plant p)"
  by (simp_all add: scheduleReceivable_def scheduleCustomerReturns_def syncCustomerBacklog_def Let_def
      phase_simps addReceipts_def split: prod.split)

lemma salesLoop_stations:
  "pl_Workstations (plant (snd (salesLoop prices entries p))) = pl_Workstations (plant p)"
  by (induction entries arbitrary: p)
    (simp_all add: Let_def serveEntry_def shipEntry_def phase_simps case_prod_beta)

lemma specs_resolveSales: "specs (resolveSales action p) = specs p"
  by (rule specs_same) (simp add: resolveSales_def Let_def phase_simps salesLoop_stations case_prod_beta)

lemma resolvePhases_specs:
  assumes "phaseOk p"
  shows "specs (resolvePhases actions p) = specs p"
proof -
  define p2 where "p2 = receiveSupply (resolveProcurement (actionForRole actions RoleProcurementManager) (activateTargets p))"
  have p2: "stable p p2" "phaseOk p2"
    using assms stable_trans [OF stable_trans [OF stable_activateTargets stable_resolveProcurement] stable_receiveSupply]
    by (auto simp: p2_def intro!: ok_intros)
  define p3 where "p3 = releaseInspectionHolds p2"
  have p3: "stable p p3" "phaseOk p3"
    using p2 stable_trans [OF p2(1) stable_releaseInspectionHolds [OF p2(2)]] by (auto simp: p3_def intro!: ok_intros)
  have "stable p (processCustomerReturns p3)"
    using stable_trans [OF p3(1) stable_processCustomerReturns [OF p3(2)]] .
  then have "specs (processCustomerReturns p3) = specs p" by (intro specs_same) (simp add: stable_def)
  then show ?thesis
    by (simp add: resolvePhases_def Let_def specs_resolveSales specs_resolveProduction flip: p2_def p3_def)
qed

text \<open>The end of the round.\<close>

lemma settle_stations [phase_simps]:
  "pl_Workstations (plant (collectOne p c)) = pl_Workstations (plant p)"
  "pl_Workstations (plant (payOne p c)) = pl_Workstations (plant p)"
  "pl_Workstations (plant (addReceipts d p)) = pl_Workstations (plant p)"
  "pl_Workstations (plant (addDisbursements d p)) = pl_Workstations (plant p)"
  by (simp_all add: collectOne_def payOne_def Let_def phase_simps applyCashDelta_def)

lemma settles_stations:
  "pl_Workstations (plant (foldl collectOne p cs)) = pl_Workstations (plant p)"
  "pl_Workstations (plant (foldl payOne p cs)) = pl_Workstations (plant p)"
  by (induction cs arbitrary: p) (simp_all add: settle_stations)

lemma due_stations [phase_simps]:
  "pl_Workstations (plant (collectReceivablesDue p)) = pl_Workstations (plant p)"
  "pl_Workstations (plant (payPayablesDue p)) = pl_Workstations (plant p)"
  by (simp_all add: collectReceivablesDue_def payPayablesDue_def Let_def phase_simps settles_stations)

lemma costs_stations [phase_simps]:
  "pl_Workstations (plant (snd (applyLaborCosts p))) = pl_Workstations (plant p)"
  "pl_Workstations (plant (snd (applyRoundOperatingCosts p))) = pl_Workstations (plant p)"
  by (simp_all add: applyLaborCosts_def applyRoundOperatingCosts_def schedulePayroll_def Let_def
      phase_simps case_prod_beta applyCashDelta_def)

lemma finalizeRound_specs:
  assumes "phaseOk p"
  shows "specs (finalizeRound action p) = specs p"
proof -
  have "pl_Workstations (plant (settleRound q)) = pl_Workstations (plant q)" for q
    by (simp add: settleRound_def Let_def phase_simps case_prod_beta)
  moreover have "pl_Workstations (plant (applyFinance action q)) = pl_Workstations (plant q)" for q
    by (simp add: applyFinance_def setTargets_def Let_def phase_simps split: option.split)
  moreover have "plant (ageBacklog p) = (plant p)\<lparr>pl_Backlog := pl_Backlog (plant (ageBacklog p))\<rparr>"
    using ageBacklog_spec(6) [OF assms] .
  then have "pl_Workstations (plant (ageBacklog p)) = pl_Workstations (plant p)"
    by (metis PlantState.select_convs(12) PlantState.surjective PlantState.update_convs(13))
  ultimately show ?thesis by (simp add: specs_def finalizeRound_def phase_simps)
qed

section \<open>From one round to the next\<close>

lemma cloneActions_id [simp]: "cloneActions actions = actions"
  by (simp add: cloneActions_def map_idI ActionSubmission_Clone_id)

text \<open>A world update that leaves the workstations alone.\<close>

definition worldSpecs :: "WorldUpdateHook option \<Rightarrow> bool" where
  "worldSpecs hook \<longleftrightarrow> (\<forall>p q. runWorldUpdate hook p = Inr q \<longrightarrow> specs q = specs p)"

lemma worldSpecs_None [simp]: "worldSpecs None"
  by (simp add: worldSpecs_def runWorldUpdate_def)

lemma startPhase_specs: "specs (startPhase r s actions random) = map stationSpec (pl_Workstations (ms_Plant s))"
  by (simp add: specs_def startPhase_def Let_def resetCapacityUsage_def stationSpec_def MatchState_Clone_eq)

lemma ResolveRound_next:
  assumes r: "resolvable r s" "worldSpecs (rsv_worldUpdate r)" and res: "ResolveRound r s actions random = Inr res"
  shows "resolvable r (res_NextState res)"
    "map stationSpec (pl_Workstations (ms_Plant (res_NextState res))) =
       map stationSpec (pl_Workstations (ms_Plant s))"
    "ms_Roles (res_NextState res) = ms_Roles s" "ms_ScenarioID (res_NextState res) = ms_ScenarioID s"
    "ms_MatchID (res_NextState res) = ms_MatchID s"
    "ms_CurrentRound (res_NextState res) = ms_CurrentRound s + 1"
    "rr_Round (res_Round res) = ms_CurrentRound s"
    "normalizeActions s actions = Inr (rr_Actions (res_Round res))"
proof -
  from res obtain ordered q where norm: "normalizeActions s actions = Inr ordered"
    and world: "runWorldUpdate (rsv_worldUpdate r) (resolvePhases ordered (startPhase r s ordered random)) = Inr q"
    and eq: "res = closeRound (rsv_historyLimit r) (finalizeRound (actionForRole ordered RoleFinanceController) q)"
    by (auto simp: ResolveRound_Inr)
  let ?start = "startPhase r s ordered random"
  have start: "phaseOk ?start" "stationsOk (plant ?start)" "bomOk (rp_productionBOM ?start)"
    using r(1) startPhase_ok [of s r ordered random] by (simp_all add: resolvable_def)
  note phases = resolvePhases_keeps [OF start startPhase_sels(1), of ordered]
  have q: "phase_ext ?start q" "phaseOk q"
    using r(1) world phases(1,2) by (auto simp: resolvable_def worldKeeps_def intro: phase_ext_trans)
  define p where "p = finalizeRound (actionForRole ordered RoleFinanceController) q"
  have p: "phase_ext ?start p" "phaseOk p"
    using finalizeRound_keeps [OF q(2)] phase_ext_trans [OF q(1)] by (simp_all add: p_def)
  have "specs p = specs ?start"
    using finalizeRound_specs [OF q(2)] resolvePhases_specs [OF start(1)] r(2) world
    by (simp add: p_def worldSpecs_def)
  then show specs: "map stationSpec (pl_Workstations (ms_Plant (res_NextState res))) =
       map stationSpec (pl_Workstations (ms_Plant s))"
    by (simp add: eq startPhase_specs flip: p_def) (simp add: specs_def)
  have cost: "ws_OvertimeCostPerCapacityUnit (stationSpec ws) = ws_OvertimeCostPerCapacityUnit ws" for ws
    by (simp add: stationSpec_def)
  have "\<forall>c \<in> ws_OvertimeCostPerCapacityUnit ` set (map stationSpec (pl_Workstations (ms_Plant s))). 0 \<le> c"
    using r(1) by (auto simp: resolvable_def cost)
  then have "\<forall>ws \<in> set (pl_Workstations (ms_Plant (res_NextState res))). 0 \<le> ws_OvertimeCostPerCapacityUnit ws"
    unfolding specs [symmetric] by (auto simp: cost)
  moreover have "stateOk (res_NextState res)"
    using p(2) by (simp add: stateOk_def eq flip: p_def)
  ultimately show "resolvable r (res_NextState res)"
    using r(1) by (simp add: resolvable_def)
  show "ms_Roles (res_NextState res) = ms_Roles s" "ms_ScenarioID (res_NextState res) = ms_ScenarioID s"
    "ms_MatchID (res_NextState res) = ms_MatchID s"
    "ms_CurrentRound (res_NextState res) = ms_CurrentRound s + 1"
    "rr_Round (res_Round res) = ms_CurrentRound s"
    using p(1) by (auto simp: eq closeRound_def Let_def phase_ext_def same_defs startPhase_def simp flip: p_def)
  show "normalizeActions s actions = Inr (rr_Actions (res_Round res))"
    using p(1) norm
    by (simp add: eq closeRound_def Let_def phase_ext_def same_defs startPhase_def flip: p_def)
qed

text \<open>Over a round, cash net of debt changes by the receipts less the disbursements.\<close>

lemma ResolveRound_cash:
  assumes "resolvable r s" "ResolveRound r s actions random = Inr res"
  shows "netCash (ms_Plant (res_NextState res)) =
     netCash (ms_Plant s) + pm_CashReceipts (rr_Metrics (res_Round res))
       - pm_CashDisbursements (rr_Metrics (res_Round res))"
proof -
  obtain p ordered where p: "phase_ext (startPhase r s ordered random) p"
    "rr_Metrics (rp_round p) = computeMetrics p" "res = closeRound (rsv_historyLimit r) p"
    using assms by (rule ResolveRound_phase)
  from phase_extD(7) [OF p(1)] have "ledger p = netCash (ms_Plant s)" by simp
  with p(2,3) show ?thesis by (simp add: ledger_def computeMetrics_def Let_def)
qed

section \<open>The random source a round leaves\<close>

definition ResolveRoundRandom ::
  "Resolver \<Rightarrow> MatchState \<Rightarrow> ActionSubmission list \<Rightarrow> RandomSource option \<Rightarrow>
     engineError + Result \<times> RandomSource option" where
  "ResolveRoundRandom r state actions random =
    (if ms_MatchID state = [] then Inl EmptyMatchID
     else if ms_CurrentRound state \<le> 0 then Inl (NonPositiveRound (ms_CurrentRound state))
     else case normalizeActions state actions of
       Inl e \<Rightarrow> Inl e
     | Inr orderedActions \<Rightarrow>
        (case runWorldUpdate (rsv_worldUpdate r)
                (resolvePhases orderedActions (startPhase r state orderedActions random)) of
           Inl e \<Rightarrow> Inl e
         | Inr phase \<Rightarrow>
             let phase = finalizeRound (actionForRole orderedActions RoleFinanceController) phase
             in Inr (closeRound (rsv_historyLimit r) phase, rp_random phase)))"

lemma ResolveRoundRandom_result:
  "ResolveRound r s actions random = map_sum id fst (ResolveRoundRandom r s actions random)"
  by (simp add: ResolveRound_def ResolveRoundRandom_def Let_def split: sum.split)

lemma ResolveRoundRandom_Inr:
  "ResolveRoundRandom r s actions random = Inr (res, random') \<Longrightarrow> ResolveRound r s actions random = Inr res"
  by (simp add: ResolveRoundRandom_result)

lemma ResolveRoundRandom_Inl:
  "ResolveRoundRandom r s actions random = Inl e \<longleftrightarrow> ResolveRound r s actions random = Inl e"
  by (cases "ResolveRoundRandom r s actions random") (auto simp: ResolveRoundRandom_result)

end
