(* ===== verification/MatchRunner.thy ===== *)
theory MatchRunner
  imports RoundCollection Rounds
begin

text \<open>
  The match loop (\<open>internal/app/match_runner.go\<close>): collect the actions of every role, resolve
  the round, commit it to the store, carry the state forward.  The store is the port of
  \<open>MemoryStore\<close>: a record of its operations with the state they work on, absent when the
  runner has none.  The flows the collector reports while it waits are those of
  \<open>RoundCollection\<close>; the list of emitted states holds the others.
\<close>

section \<open>The loop\<close>

record 's matchStore =
  mst_CreateMatch :: "MatchState \<Rightarrow> 's \<Rightarrow> storeError + 's"
  mst_CurrentState :: "'s \<Rightarrow> MatchID \<Rightarrow> storeError + MatchState"
  mst_CommitRound :: "MatchID \<Rightarrow> MatchState \<Rightarrow> RoundRecord \<Rightarrow> 's \<Rightarrow> storeError + MatchState \<times> 's"

datatype playError =
    PlayRoundsNotPositive
  | PlayNoResolver
  | PlayNoRandom
  | PlayStoreLookup storeError
  | PlayStoreCreate storeError
  | PlayCollect collectError
  | PlayResolve engineError
  | PlayCommit RoundNumber storeError

text \<open>The runner; the clock and the map orders are those of the i-th round it plays.\<close>

record MatchRunner =
  mr_Players :: "RoleID \<rightharpoonup> Player"
  mr_clock :: "nat \<Rightarrow> Time"
  mr_orders :: "nat \<Rightarrow> MapOrder"
  mr_Resolver :: "Resolver option"
  mr_Random :: "RandomSource option"

record 's playState =
  ps_state :: MatchState
  ps_previous :: PreviousActions
  ps_results :: "Result list"
  ps_store :: "'s option"
  ps_random :: "RandomSource option"
  ps_emitted :: "MatchState list"

definition prepareCollectionState :: "MatchState \<Rightarrow> MatchState" where
  "prepareCollectionState state = state\<lparr>ms_RoundFlow :=
     \<lparr>rf_Phase = RoundPhaseCollecting, rf_SubmittedRoles = [],
      rf_WaitingOnRoles = roleIDs (ms_Roles state), rf_ProviderWaitingRoles = [],
      rf_AIRevealDelaySeconds = rf_AIRevealDelaySeconds (ms_RoundFlow state)\<rparr>\<rparr>"

definition roundFlowFor ::
  "RoleAssignment list \<Rightarrow> ActionSubmission list \<Rightarrow> RoundPhase \<Rightarrow> int \<Rightarrow> RoundFlowState" where
  "roundFlowFor assignments actions phase revealDelaySeconds =
    (let submitted = map as_RoleID actions
     in \<lparr>rf_Phase = phase, rf_SubmittedRoles = submitted,
         rf_WaitingOnRoles = map ra_RoleID (filter (\<lambda>a. ra_RoleID a \<notin> set submitted) assignments),
         rf_ProviderWaitingRoles = [], rf_AIRevealDelaySeconds = revealDelaySeconds\<rparr>)"

definition rememberActions :: "ActionSubmission list \<Rightarrow> PreviousActions \<Rightarrow> PreviousActions" where
  "rememberActions actions previous =
     foldl (\<lambda>previous action. previous(as_RoleID action \<mapsto> ActionSubmission_Clone action)) previous actions"

definition previousAcceptedActions :: "MatchState \<Rightarrow> PreviousActions" where
  "previousAcceptedActions state =
     foldl (\<lambda>previous round. rememberActions (rr_Actions round) previous) Map.empty
       (rh_RecentRounds (ms_History state))"

definition emitState :: "MatchState \<Rightarrow> 's playState \<Rightarrow> 's playState" where
  "emitState state ps = ps\<lparr>ps_emitted := ps_emitted ps @ [MatchState_Clone state]\<rparr>"

text \<open>The revealed state, as the store gives it back when there is a store.\<close>

definition commitResult ::
  "'s matchStore \<Rightarrow> MatchID \<Rightarrow> MatchState \<Rightarrow> Result \<Rightarrow> 's option \<Rightarrow>
     storeError + MatchState \<times> Result \<times> 's option" where
  "commitResult ops matchID revealed result store =
    (case store of
       None \<Rightarrow> Inr (revealed, result, None)
     | Some st \<Rightarrow>
        (case mst_CommitRound ops matchID (res_NextState result) (res_Round result) st of
           Inl err \<Rightarrow> Inl err
         | Inr (committed, st) \<Rightarrow>
             Inr (MatchState_Clone committed,
                  result\<lparr>res_NextState := MatchState_Clone committed\<rparr>, Some st)))"

definition collectEnvOf :: "MatchRunner \<Rightarrow> nat \<Rightarrow> MatchState \<Rightarrow> PreviousActions \<Rightarrow> collectEnv" where
  "collectEnvOf runner i state previous =
     \<lparr>en_Players = mr_Players runner, en_Now = mr_clock runner i, en_order = mr_orders runner i,
      en_state = state, en_previous = previous\<rparr>"

text \<open>One iteration of the loop, with an error when it returns early.\<close>

definition playRound ::
  "MatchRunner \<Rightarrow> Resolver \<Rightarrow> 's matchStore \<Rightarrow> nat \<Rightarrow> 's playState \<Rightarrow> playError option \<times> 's playState" where
  "playRound runner resolver ops i ps =
    (let state = ps_state ps;
         delay = rf_AIRevealDelaySeconds (ms_RoundFlow state);
         ps = emitState state ps
     in case Collect (collectEnvOf runner i state (ps_previous ps)) of
          Inl err \<Rightarrow> (Some (PlayCollect err), ps)
        | Inr actions \<Rightarrow>
     let resolving = (MatchState_Clone state)\<lparr>ms_RoundFlow :=
           roundFlowFor (ms_Roles state) actions RoundPhaseResolving delay\<rparr>;
         ps = emitState resolving ps
     in case ResolveRoundRandom resolver state actions (ps_random ps) of
          Inl err \<Rightarrow> (Some (PlayResolve err), ps)
        | Inr (result, random) \<Rightarrow>
     let ps = ps\<lparr>ps_random := random\<rparr>;
         revealed = (MatchState_Clone (res_NextState result))\<lparr>ms_RoundFlow :=
           roundFlowFor (ms_Roles state) actions RoundPhaseRevealed delay\<rparr>;
         result = result\<lparr>res_NextState := MatchState_Clone revealed\<rparr>
     in case commitResult ops (ms_MatchID state) revealed result (ps_store ps) of
          Inl err \<Rightarrow> (Some (PlayCommit (rr_Round (res_Round result)) err), ps)
        | Inr (revealed, result, store) \<Rightarrow>
     let ps = ps\<lparr>ps_store := store, ps_results := ps_results ps @ [result],
           ps_previous := rememberActions (rr_Actions (res_Round result)) (ps_previous ps)\<rparr>;
         ps = emitState revealed ps
     in (None, ps\<lparr>ps_state := prepareCollectionState revealed\<rparr>))"

fun playRounds ::
  "MatchRunner \<Rightarrow> Resolver \<Rightarrow> 's matchStore \<Rightarrow> nat \<Rightarrow> nat \<Rightarrow> 's playState \<Rightarrow> playError option \<times> 's playState" where
  "playRounds runner resolver ops i 0 ps = (None, ps)"
| "playRounds runner resolver ops i (Suc n) ps =
    (case playRound runner resolver ops i ps of
       (Some err, ps) \<Rightarrow> (Some err, ps)
     | (None, ps) \<Rightarrow> playRounds runner resolver ops (Suc i) n ps)"

definition openStore :: "'s matchStore \<Rightarrow> MatchState \<Rightarrow> 's option \<Rightarrow> playError + 's option" where
  "openStore ops state store =
    (case store of
       None \<Rightarrow> Inr None
     | Some st \<Rightarrow>
        (case mst_CurrentState ops st (ms_MatchID state) of
           Inr _ \<Rightarrow> Inr (Some st)
         | Inl err \<Rightarrow>
             if err \<noteq> MatchNotFound then Inl (PlayStoreLookup err)
             else (case mst_CreateMatch ops state st of
                     Inl err \<Rightarrow> Inl (PlayStoreCreate err)
                   | Inr st \<Rightarrow> Inr (Some st))))"

text \<open>
  \<open>Play\<close>: the error it returns before the loop, or the error of the loop with the state and
  the results it returns beside it.
\<close>

definition Play ::
  "MatchRunner \<Rightarrow> 's matchStore \<Rightarrow> 's option \<Rightarrow> MatchState \<Rightarrow> int \<Rightarrow>
     playError + playError option \<times> 's playState" where
  "Play runner ops store initial rounds =
    (if rounds \<le> 0 then Inl PlayRoundsNotPositive
     else case mr_Resolver runner of
       None \<Rightarrow> Inl PlayNoResolver
     | Some resolver \<Rightarrow>
     (case mr_Random runner of
       None \<Rightarrow> Inl PlayNoRandom
     | Some random \<Rightarrow>
     let state = MatchState_Clone initial; previous = previousAcceptedActions state
     in case openStore ops state store of
          Inl err \<Rightarrow> Inl err
        | Inr store \<Rightarrow>
            Inr (playRounds runner resolver ops 0 (nat rounds)
              \<lparr>ps_state = prepareCollectionState state, ps_previous = previous, ps_results = [],
               ps_store = store, ps_random = Some random, ps_emitted = []\<rparr>)))"

section \<open>A played round\<close>

lemma emitState_simps [simp]:
  "ps_state (emitState s ps) = ps_state ps" "ps_previous (emitState s ps) = ps_previous ps"
  "ps_results (emitState s ps) = ps_results ps" "ps_store (emitState s ps) = ps_store ps"
  "ps_random (emitState s ps) = ps_random ps"
  by (simp_all add: emitState_def)

lemma prepare_simps [simp]:
  "ms_MatchID (prepareCollectionState s) = ms_MatchID s" "ms_CurrentRound (prepareCollectionState s) = ms_CurrentRound s"
  "ms_Roles (prepareCollectionState s) = ms_Roles s" "ms_Plant (prepareCollectionState s) = ms_Plant s"
  "ms_Customers (prepareCollectionState s) = ms_Customers s" "ms_ScenarioID (prepareCollectionState s) = ms_ScenarioID s"
  "ms_History (prepareCollectionState s) = ms_History s" "ms_ActiveTargets (prepareCollectionState s) = ms_ActiveTargets s"
  "ms_Suppliers (prepareCollectionState s) = ms_Suppliers s" "ms_Metrics (prepareCollectionState s) = ms_Metrics s"
  by (simp_all add: prepareCollectionState_def)

lemma freshFlow_prepare: "freshFlow (prepareCollectionState s)"
  by (simp add: freshFlow_def prepareCollectionState_def)

text \<open>What a round that ends well is made of.\<close>

lemma commitResult_round:
  "commitResult ops m revealed result store = Inr (final, final_result, store') \<Longrightarrow>
     res_Round final_result = res_Round result"
  by (auto simp: commitResult_def split: option.splits sum.splits)

lemma playRound_None:
  assumes play: "playRound runner resolver ops i ps = (None, ps')"
  obtains actions result random revealed final final_result where
    "Collect (collectEnvOf runner i (ps_state ps) (ps_previous ps)) = Inr actions"
    "ResolveRoundRandom resolver (ps_state ps) actions (ps_random ps) = Inr (result, random)"
    "revealed = (MatchState_Clone (res_NextState result))\<lparr>ms_RoundFlow :=
       roundFlowFor (ms_Roles (ps_state ps)) actions RoundPhaseRevealed
         (rf_AIRevealDelaySeconds (ms_RoundFlow (ps_state ps)))\<rparr>"
    "commitResult ops (ms_MatchID (ps_state ps)) revealed
       (result\<lparr>res_NextState := MatchState_Clone revealed\<rparr>) (ps_store ps) = Inr (final, final_result, ps_store ps')"
    "ps_state ps' = prepareCollectionState final" "ps_results ps' = ps_results ps @ [final_result]"
    "ps_random ps' = random" "res_Round final_result = res_Round result"
    "ps_previous ps' = rememberActions (rr_Actions (res_Round result)) (ps_previous ps)"
proof -
  let ?s = "ps_state ps"
  obtain actions where c: "Collect (collectEnvOf runner i ?s (ps_previous ps)) = Inr actions"
    using play by (cases "Collect (collectEnvOf runner i ?s (ps_previous ps))")
      (auto simp: playRound_def Let_def)
  obtain result random where r: "ResolveRoundRandom resolver ?s actions (ps_random ps) = Inr (result, random)"
    using play c by (cases "ResolveRoundRandom resolver ?s actions (ps_random ps)")
      (auto simp: playRound_def Let_def)
  define revealed where "revealed = (MatchState_Clone (res_NextState result))\<lparr>ms_RoundFlow :=
     roundFlowFor (ms_Roles ?s) actions RoundPhaseRevealed (rf_AIRevealDelaySeconds (ms_RoundFlow ?s))\<rparr>"
  obtain final final_result store where k: "commitResult ops (ms_MatchID ?s) revealed
      (result\<lparr>res_NextState := MatchState_Clone revealed\<rparr>) (ps_store ps) = Inr (final, final_result, store)"
    using play c r
    by (cases "commitResult ops (ms_MatchID ?s) revealed (result\<lparr>res_NextState := MatchState_Clone revealed\<rparr>) (ps_store ps)")
      (auto simp: playRound_def Let_def revealed_def)
  have round: "res_Round final_result = res_Round result" using commitResult_round [OF k] by simp
  have ps': "ps_store ps' = store" "ps_state ps' = prepareCollectionState final"
    "ps_results ps' = ps_results ps @ [final_result]" "ps_random ps' = random"
    "ps_previous ps' = rememberActions (rr_Actions (res_Round result)) (ps_previous ps)"
    using play c r k round by (auto simp: playRound_def Let_def simp flip: revealed_def)
  show thesis using that [OF c r revealed_def _ ps'(2,3,4) round ps'(5)] k ps'(1) by blast
qed

section \<open>Played rounds\<close>

text \<open>What the rounds of a match do to its state, whoever plays and wherever it is stored.\<close>

definition netReceipts :: "Result \<Rightarrow> Money" where
  "netReceipts res = pm_CashReceipts (rr_Metrics (res_Round res)) - pm_CashDisbursements (rr_Metrics (res_Round res))"

definition continues :: "Resolver \<Rightarrow> MatchState \<Rightarrow> Result \<Rightarrow> MatchState \<Rightarrow> bool" where
  "continues resolver s res t \<longleftrightarrow>
     resolvable resolver t \<and> ms_MatchID t = ms_MatchID s \<and> ms_Roles t = ms_Roles s
     \<and> ms_CurrentRound t = ms_CurrentRound s + 1 \<and> rr_Round (res_Round res) = ms_CurrentRound s
     \<and> netCash (ms_Plant t) = netCash (ms_Plant s) + netReceipts res
     \<and> map stationSpec (pl_Workstations (ms_Plant t)) = map stationSpec (pl_Workstations (ms_Plant s))
     \<and> normalizeActions s (rr_Actions (res_Round res)) = Inr (rr_Actions (res_Round res))"

lemma map_filter_eq: "(\<And>x. x \<in> set xs \<Longrightarrow> f x = g x) \<Longrightarrow> List.map_filter f xs = List.map_filter g xs"
  by (induction xs) (simp_all add: map_filter_simps split: option.split)

lemma inCanonicalOrder_idem:
  assumes "distinct (map as_RoleID actions)"
  shows "inCanonicalOrder (inCanonicalOrder actions) = inCanonicalOrder actions"
proof -
  have "actionForRole (inCanonicalOrder actions) r = actionForRole actions r" if "r \<in> set CanonicalRoles" for r
  proof -
    have roles: "distinct (map as_RoleID (inCanonicalOrder actions))"
      by (simp add: inCanonicalOrder_roles distinct_CanonicalRoles del: distinct_map)
    have sub: "set (inCanonicalOrder actions) \<subseteq> set actions"
      by (auto simp: inCanonicalOrder_def map_filter_def dest: actionForRole_Some)
    show ?thesis
    proof (cases "actionForRole actions r")
      case None
      with sub have "r \<notin> as_RoleID ` set (inCanonicalOrder actions)" by (auto simp: actionForRole_None)
      then have "actionForRole (inCanonicalOrder actions) r = None" by (simp add: actionForRole_None)
      with None show ?thesis by simp
    next
      case (Some a)
      then have "a \<in> set (inCanonicalOrder actions)" "as_RoleID a = r"
        using that actionForRole_Some [OF Some] by (auto simp: inCanonicalOrder_def map_filter_def image_iff intro!: bexI [of _ r])
      then have "actionForRole (inCanonicalOrder actions) r = Some a"
      proof -
        obtain b where b: "actionForRole (inCanonicalOrder actions) r = Some b"
          using \<open>a \<in> _\<close> \<open>as_RoleID a = r\<close> actionForRole_None [of "inCanonicalOrder actions" r] by fastforce
        from actionForRole_Some [OF b] \<open>a \<in> _\<close> \<open>as_RoleID a = r\<close> roles have "a = b"
          by (auto simp: distinct_map inj_on_def)
        with b show ?thesis by simp
      qed
      with Some show ?thesis by simp
    qed
  qed
  then have "List.map_filter (actionForRole (inCanonicalOrder actions)) CanonicalRoles =
      List.map_filter (actionForRole actions) CanonicalRoles" by (rule map_filter_eq)
  then show ?thesis by (metis inCanonicalOrder_def)
qed

lemma normalizeActions_idem:
  assumes "normalizeActions s actions = Inr ordered"
  shows "normalizeActions s ordered = Inr ordered"
proof -
  have a: "\<forall>a \<in> set actions. admissible s a" "distinct (map as_RoleID actions)" "ordered = inCanonicalOrder actions"
    using assms by (simp_all add: normalizeActions_Inr)
  have "set ordered \<subseteq> set actions"
    by (auto simp: a(3) inCanonicalOrder_def map_filter_def dest: actionForRole_Some)
  moreover have "distinct (map as_RoleID ordered)"
    by (simp add: a(3) inCanonicalOrder_roles distinct_CanonicalRoles del: distinct_map)
  ultimately show ?thesis using a inCanonicalOrder_idem [OF a(2)] by (auto simp: normalizeActions_Inr)
qed

lemma resolved_continues:
  assumes "resolvable resolver s" "worldSpecs (rsv_worldUpdate resolver)"
    and "ResolveRoundRandom resolver s actions random = Inr (result, random')"
    and "t = (res_NextState result)\<lparr>ms_RoundFlow := f, ms_History := h\<rparr>" "res_Round res = res_Round result"
  shows "continues resolver s res t"
proof -
  note r = ResolveRoundRandom_Inr [OF assms(3)]
  note next' = ResolveRound_next [OF assms(1,2) r]
  have "resolvable resolver t" using next'(1) by (simp add: assms(4) resolvable_def stateOk_def)
  with next' ResolveRound_cash [OF assms(1) r] normalizeActions_idem [OF next'(8)] show ?thesis
    by (simp add: continues_def assms(4,5) netReceipts_def)
qed

text \<open>The store gives the revealed state back, but for the history.\<close>

context match_store
begin

definition ops :: "'s matchStore" where
  "ops = \<lparr>mst_CreateMatch = create, mst_CurrentState = current, mst_CommitRound = commit\<rparr>"

text \<open>A list of rounds committed one by one.\<close>

definition commits :: "MatchID \<Rightarrow> Result list \<Rightarrow> 's option \<Rightarrow> 's option \<Rightarrow> bool" where
  "commits m results store store' \<longleftrightarrow>
    (case store of
       None \<Rightarrow> store' = None
     | Some st \<Rightarrow> \<exists>rs st'. store' = Some st' \<and> commitAll m rs st = Inr st' \<and> map snd rs = map res_Round results)"

lemma commitAll_append:
  "commitAll m (rs @ rs') st = (case commitAll m rs st of Inl e \<Rightarrow> Inl e | Inr st \<Rightarrow> commitAll m rs' st)"
  by (induction m rs st rule: commitAll.induct) (auto split: sum.split)

lemma commits_trans: "commits m xs a b \<Longrightarrow> commits m ys b c \<Longrightarrow> commits m (xs @ ys) a c"
proof (cases a)
  case (Some st)
  assume "commits m xs a b" "commits m ys b c"
  then obtain rs st1 rs' st2 where "b = Some st1" "commitAll m rs st = Inr st1" "map snd rs = map res_Round xs"
    "c = Some st2" "commitAll m rs' st1 = Inr st2" "map snd rs' = map res_Round ys"
    by (auto simp: commits_def Some)
  then show ?thesis
    by (auto simp: commits_def Some commitAll_append intro!: exI [of _ "rs @ rs'"])
qed (simp add: commits_def)

lemma playRound_continues:
  assumes play: "playRound runner resolver ops i ps = (None, ps')"
    and "resolvable resolver (ps_state ps)" "worldSpecs (rsv_worldUpdate resolver)"
  shows "\<exists>res. ps_results ps' = ps_results ps @ [res] \<and> continues resolver (ps_state ps) res (ps_state ps')
     \<and> commits (ms_MatchID (ps_state ps)) [res] (ps_store ps) (ps_store ps')
     \<and> ps_previous ps' = rememberActions (rr_Actions (res_Round res)) (ps_previous ps)"
  using play
proof (cases rule: playRound_None)
  case (1 actions result random revealed final final_result)
  let ?m = "ms_MatchID (ps_state ps)"
  have "(\<exists>h. final = revealed\<lparr>ms_History := h\<rparr>) \<and> commits ?m [final_result] (ps_store ps) (ps_store ps')"
  proof (cases "ps_store ps")
    case None
    have "final = revealed\<lparr>ms_History := ms_History revealed\<rparr>"
      using 1(4) None by (simp add: commitResult_def)
    then have "\<exists>h. final = revealed\<lparr>ms_History := h\<rparr>" ..
    with 1(4) None show ?thesis by (simp add: commitResult_def commits_def)
  next
    case (Some st)
    then obtain s st' where c: "commit ?m (MatchState_Clone revealed) (res_Round result) st = Inr (s, st')"
      "final = MatchState_Clone s" "ps_store ps' = Some st'"
      using 1(4) by (auto simp: commitResult_def ops_def split: sum.splits)
    from commit_state [OF c(1)] obtain h where "s = revealed\<lparr>ms_History := h\<rparr>"
      by (auto simp: MatchState_Clone_eq)
    then have "\<exists>h. final = revealed\<lparr>ms_History := h\<rparr>" by (auto simp: c(2) MatchState_Clone_eq)
    moreover have "commitAll ?m [(MatchState_Clone revealed, res_Round result)] st = Inr st'" using c(1) by simp
    then have "commits ?m [final_result] (ps_store ps) (ps_store ps')"
      unfolding commits_def Some option.case c(3) 1(8)
      by (intro exI [of _ "[(MatchState_Clone revealed, res_Round result)]"]) (simp add: 1(8))
    ultimately show ?thesis by blast
  qed
  then obtain h where h: "final = revealed\<lparr>ms_History := h\<rparr>"
    and commits: "commits ?m [final_result] (ps_store ps) (ps_store ps')" by blast
  have "ps_state ps' = (res_NextState result)\<lparr>ms_RoundFlow := ms_RoundFlow (ps_state ps'), ms_History := h\<rparr>"
    by (simp add: 1(3,5) h prepareCollectionState_def MatchState_Clone_eq)
  from resolved_continues [OF assms(2,3) 1(2) this 1(8)] 1(6,8,9) commits show ?thesis by simp
qed

lemma playRounds_continue:
  assumes "playRounds runner resolver ops i n ps = (err, ps')"
    and "resolvable resolver (ps_state ps)" "worldSpecs (rsv_worldUpdate resolver)"
  shows "\<exists>results. ps_results ps' = ps_results ps @ results
     \<and> (err = None \<longrightarrow> length results = n) \<and> length results \<le> n
     \<and> map (rr_Round \<circ> res_Round) results = map (\<lambda>k. ms_CurrentRound (ps_state ps) + int k) [0..<length results]
     \<and> ms_CurrentRound (ps_state ps') = ms_CurrentRound (ps_state ps) + int (length results)
     \<and> ms_MatchID (ps_state ps') = ms_MatchID (ps_state ps)
     \<and> resolvable resolver (ps_state ps')
     \<and> netCash (ms_Plant (ps_state ps')) = netCash (ms_Plant (ps_state ps)) + sum_of netReceipts results
     \<and> commits (ms_MatchID (ps_state ps)) results (ps_store ps) (ps_store ps')"
  using assms(1,2)
proof (induction n arbitrary: i ps)
  case 0
  then show ?case
    by (auto simp: commits_def split: option.split intro!: exI [of _ "[]"])
next
  case (Suc n)
  obtain e1 ps1 where one: "playRound runner resolver ops i ps = (e1, ps1)" by fastforce
  show ?case
  proof (cases e1)
    case (Some e)
    have same: "ps_state ps1 = ps_state ps" "ps_results ps1 = ps_results ps" "ps_store ps1 = ps_store ps"
      using one Some by (auto simp: playRound_def Let_def split: sum.splits prod.splits)
    with one Some Suc.prems show ?thesis
      by (auto simp: commits_def split: option.split intro!: exI [of _ "[]"])
  next
    case None
    from playRound_continues [OF one [unfolded None] Suc.prems(2) assms(3)] obtain res where res:
      "ps_results ps1 = ps_results ps @ [res]" "continues resolver (ps_state ps) res (ps_state ps1)"
      "commits (ms_MatchID (ps_state ps)) [res] (ps_store ps) (ps_store ps1)" by blast
    have rest: "playRounds runner resolver ops (Suc i) n ps1 = (err, ps')" using Suc.prems(1) one None by simp
    have "resolvable resolver (ps_state ps1)" using res(2) by (simp add: continues_def)
    from Suc.IH [OF rest this] obtain results where results:
      "ps_results ps' = ps_results ps1 @ results" "err = None \<longrightarrow> length results = n" "length results \<le> n"
      "map (rr_Round \<circ> res_Round) results = map (\<lambda>k. ms_CurrentRound (ps_state ps1) + int k) [0..<length results]"
      "ms_CurrentRound (ps_state ps') = ms_CurrentRound (ps_state ps1) + int (length results)"
      "ms_MatchID (ps_state ps') = ms_MatchID (ps_state ps1)" "resolvable resolver (ps_state ps')"
      "netCash (ms_Plant (ps_state ps')) = netCash (ms_Plant (ps_state ps1)) + sum_of netReceipts results"
      "commits (ms_MatchID (ps_state ps1)) results (ps_store ps1) (ps_store ps')" by blast
    have one': "ms_CurrentRound (ps_state ps1) = ms_CurrentRound (ps_state ps) + 1"
      "ms_MatchID (ps_state ps1) = ms_MatchID (ps_state ps)" "rr_Round (res_Round res) = ms_CurrentRound (ps_state ps)"
      "netCash (ms_Plant (ps_state ps1)) = netCash (ms_Plant (ps_state ps)) + netReceipts res"
      using res(2) by (simp_all add: continues_def)
    have "commits (ms_MatchID (ps_state ps)) (res # results) (ps_store ps) (ps_store ps')"
      using commits_trans [OF res(3)] results(9) one'(2) by fastforce
    moreover have "map (rr_Round \<circ> res_Round) (res # results) =
        map (\<lambda>k. ms_CurrentRound (ps_state ps) + int k) [0..<length (res # results)]"
      using results(4) one' by (simp add: upt_0_Suc o_def add.assoc del: upt_Suc)
    ultimately show ?thesis
      using results one' res(1) by (intro exI [of _ "res # results"] conjI) (assumption | simp)+
  qed
qed

text \<open>The event timeline of a stored match grows by exactly the events of the returned results.\<close>

lemma commits_timeline:
  assumes "commits m results (Some st) store'" "ok st" "log st m \<noteq> None"
  shows "\<exists>st' events. store' = Some st' \<and> timeline st m = Inr events
     \<and> timeline st' m = Inr (events @ concat (map (rr_Events \<circ> res_Round) results)) \<and> ok st'"
proof -
  obtain rs st' where rs: "store' = Some st'" "commitAll m rs st = Inr st'" "map snd rs = map res_Round results"
    using assms(1) by (auto simp: commits_def)
  have "map (rr_Events \<circ> snd) rs = map rr_Events (map snd rs)" by simp
  then have "concat (map (rr_Events \<circ> snd) rs) = concat (map (rr_Events \<circ> res_Round) results)"
    by (simp add: rs(3))
  moreover obtain rounds where "log st m = Some rounds" using assms(3) by blast
  with commitAll_keeps [OF rs(2)] assms(2) have "ok st'" by blast
  ultimately show ?thesis using timeline_grows [OF rs(2) assms(2,3)] rs(1) by auto
qed

end

section \<open>Play never gets stuck\<close>

text \<open>A valid answer to a request, judged by the plant the request shows.\<close>

definition answers :: "RoundRequest \<Rightarrow> ActionSubmission \<Rightarrow> bool" where
  "answers request action \<longleftrightarrow> (\<forall>s. ms_Plant s = rv_Plant (rq_RoleView request) \<longrightarrow>
     validateActionSubmission s (action\<lparr>as_RoleID := ra_RoleID (rq_Assignment request)\<rparr>) = None)"

text \<open>The requests a match makes: of a known match and round and a canonical role, in a plant with the
  match's workstations, with a previous action that is still valid, or targets that can be repeated.\<close>

definition stationIDs :: "PlantState \<Rightarrow> WorkstationID set" where
  "stationIDs plant1 = ws_WorkstationID ` set (pl_Workstations plant1)"

definition fairRequest :: "WorkstationID set \<Rightarrow> RoundRequest \<Rightarrow> bool" where
  "fairRequest stations request \<longleftrightarrow>
     rv_MatchID (rq_RoleView request) \<noteq> [] \<and> 0 < rv_Round (rq_RoleView request)
     \<and> ra_RoleID (rq_Assignment request) \<in> set CanonicalRoles
     \<and> stationIDs (rv_Plant (rq_RoleView request)) = stations
     \<and> (case rq_PreviousAcceptedAction request of
          Some previous \<Rightarrow> answers request previous
        | None \<Rightarrow> targetsOk (rv_ActiveTargets (rq_RoleView request)))"

text \<open>A player that answers such requests validly, or has an outage and is AI-backed without a policy
  of its own.\<close>

definition dependable :: "WorkstationID set \<Rightarrow> RoleAssignment \<Rightarrow> Player \<Rightarrow> bool" where
  "dependable stations assignment player \<longleftrightarrow>
    (\<forall>request. rq_Assignment request = assignment \<longrightarrow> fairRequest stations request \<longrightarrow>
     (case ply_SubmitRound player False request of
        Inr action \<Rightarrow> answers request action
      | Inl err \<Rightarrow> nonResponsive err \<and> ply_RecoverFromNonResponse player = llmRecover None))"

definition prevOk :: "MatchState \<Rightarrow> PreviousActions \<Rightarrow> bool" where
  "prevOk s previous \<longleftrightarrow> (\<forall>role p. previous role = Some p \<longrightarrow>
     as_RoleID p = role \<and> role \<in> set CanonicalRoles \<and> validateActionSubmission s p = None)"

definition fallbackReady :: "MatchState \<Rightarrow> PreviousActions \<Rightarrow> bool" where
  "fallbackReady s previous \<longleftrightarrow> prevOk s previous
     \<and> (targetsOk (ms_ActiveTargets s) \<or> (\<forall>role \<in> set (roleIDs (ms_Roles s)). previous role \<noteq> None))"

lemma normalized_fields [simp]:
  "as_Action (normalizeSubmission a request now) = as_Action a"
  "as_RoleID (normalizeSubmission a request now) = ra_RoleID (rq_Assignment request)"
  "as_MatchID (normalizeSubmission a request now) = rv_MatchID (rq_RoleView request)"
  "as_Round (normalizeSubmission a request now) = rv_Round (rq_RoleView request)"
  by (simp_all add: normalizeSubmission_def Let_def)

lemma request_fields [simp]:
  "rq_Assignment (roundRequest env a) = a" "rv_MatchID (rq_RoleView (roundRequest env a)) = ms_MatchID (en_state env)"
  "rv_Round (rq_RoleView (roundRequest env a)) = ms_CurrentRound (en_state env)"
  "rv_Plant (rq_RoleView (roundRequest env a)) = ms_Plant (en_state env)"
  "rv_ActiveTargets (rq_RoleView (roundRequest env a)) = ms_ActiveTargets (en_state env)"
  by (simp_all add: roundRequest_def BuildRoundView_eq Let_def)

lemma zeroSubmission_role: "as_RoleID zeroSubmission \<notin> set CanonicalRoles"
  by (simp add: zeroSubmission_def CanonicalRoles_def)

lemma reusePrevious_valid:
  assumes "fallbackReady (en_state env) (en_previous env)" "a \<in> set (ms_Roles (en_state env))"
    and role: "ra_RoleID a \<in> set CanonicalRoles"
  shows "validateActionSubmission (en_state env)
     (normalizeSubmission (reusePrevious (roundRequest env a)) (roundRequest env a) now) = None"
proof (cases "en_previous env (ra_RoleID a)")
  case (Some p)
  then have p: "as_RoleID p = ra_RoleID a" "validateActionSubmission (en_state env) p = None"
    using assms(1) by (auto simp: fallbackReady_def prevOk_def)
  then have "p \<noteq> zeroSubmission" using role zeroSubmission_role by auto
  then have "as_Action (reusePrevious (roundRequest env a)) = as_Action p"
    by (simp add: reusePrevious_def roundRequest_def clonePrevious_def Some ActionSubmission_Clone_id)
  with p show ?thesis by - (rule validate_action_only [of _ p "en_state env" "en_state env"], simp_all)
next
  case None
  then have "targetsOk (ms_ActiveTargets (en_state env))"
    using assms(1,2) by (auto simp: fallbackReady_def roleIDs_def)
  moreover have "as_Action (reusePrevious (roundRequest env a)) = safeNoOpAction (roundRequest env a)"
    using None by (simp add: reusePrevious_def roundRequest_def clonePrevious_def)
  ultimately show ?thesis using role by (intro safeNoOp_valid [of _ "roundRequest env a"]) simp_all
qed

lemma roundRequest_fair:
  assumes "fallbackReady (en_state env) (en_previous env)" "a \<in> set (ms_Roles (en_state env))"
    and "ra_RoleID a \<in> set CanonicalRoles" "ms_MatchID (en_state env) \<noteq> []" "0 < ms_CurrentRound (en_state env)"
  shows "fairRequest (stationIDs (ms_Plant (en_state env))) (roundRequest env a)"
proof (cases "en_previous env (ra_RoleID a)")
  case (Some p)
  then have p: "as_RoleID p = ra_RoleID a" "validateActionSubmission (en_state env) p = None"
    using assms(1) by (auto simp: fallbackReady_def prevOk_def)
  then have "p \<noteq> zeroSubmission" using assms(3) zeroSubmission_role by auto
  then have "rq_PreviousAcceptedAction (roundRequest env a) = Some p"
    by (simp add: roundRequest_def clonePrevious_def Some ActionSubmission_Clone_id)
  moreover have "answers (roundRequest env a) p"
    unfolding answers_def
  proof (intro allI impI)
    fix s :: MatchState assume "ms_Plant s = rv_Plant (rq_RoleView (roundRequest env a))"
    then show "validateActionSubmission s (p\<lparr>as_RoleID := ra_RoleID (rq_Assignment (roundRequest env a))\<rparr>) = None"
      using p by - (rule validate_action_only [of _ p "en_state env"], simp_all)
  qed
  ultimately show ?thesis using assms(3-5) by (simp add: fairRequest_def)
next
  case None
  then have "targetsOk (ms_ActiveTargets (en_state env))"
    using assms(1,2) by (auto simp: fallbackReady_def roleIDs_def)
  moreover have "rq_PreviousAcceptedAction (roundRequest env a) = None"
    using None by (simp add: roundRequest_def clonePrevious_def)
  ultimately show ?thesis using assms(3-5) by (simp add: fairRequest_def)
qed

lemma collectRole_dependable:
  assumes "dependable (stationIDs (ms_Plant (en_state env))) a player"
    "fallbackReady (en_state env) (en_previous env)" "a \<in> set (ms_Roles (en_state env))"
    "ra_RoleID a \<in> set CanonicalRoles" "ms_MatchID (en_state env) \<noteq> []" "0 < ms_CurrentRound (en_state env)"
  shows "\<exists>x. collectRole env player a = Inr x \<and> as_RoleID x = ra_RoleID a \<and> admissible (en_state env) x"
proof -
  let ?r = "roundRequest env a"
  have d: "case ply_SubmitRound player False ?r of
        Inr action \<Rightarrow> answers ?r action
      | Inl err \<Rightarrow> nonResponsive err \<and> ply_RecoverFromNonResponse player = llmRecover None"
    using assms(1) roundRequest_fair [OF assms(2-6)] by (auto simp: dependable_def)
  have "\<exists>b. collectRole env player a = Inr (normalizeSubmission b ?r (en_Now env))
     \<and> validateActionSubmission (en_state env) (normalizeSubmission b ?r (en_Now env)) = None"
  proof (cases "ply_SubmitRound player False ?r")
    case (Inr b)
    with d have "answers ?r b" by simp
    then have "validateActionSubmission (en_state env) (b\<lparr>as_RoleID := ra_RoleID a\<rparr>) = None"
      by (simp add: answers_def)
    then have "validateActionSubmission (en_state env) (normalizeSubmission b ?r (en_Now env)) = None"
      by (rule validate_action_only [rotated 2]) simp_all
    with Inr show ?thesis by (auto simp: collectRole_def Let_def)
  next
    case (Inl err)
    with d have "nonResponsive err" "ply_RecoverFromNonResponse player = llmRecover None" by simp_all
    then have "ply_RecoverFromNonResponse player False ?r err = Inr (reusePrevious ?r)"
      by (simp add: llmRecover_def Let_def)
    with Inl reusePrevious_valid [OF assms(2-4)] show ?thesis by (auto simp: collectRole_def Let_def)
  qed
  with assms(3,4) show ?thesis by (auto simp: admissible_def)
qed

text \<open>The roster of a match: distinct canonical roles, each with a dependable player.\<close>

definition staffed :: "(RoleID \<rightharpoonup> Player) \<Rightarrow> MatchState \<Rightarrow> bool" where
  "staffed players s \<longleftrightarrow> distinct (roleIDs (ms_Roles s)) \<and> set (roleIDs (ms_Roles s)) \<subseteq> set CanonicalRoles
     \<and> (\<forall>a \<in> set (ms_Roles s). \<exists>player. players (ra_RoleID a) = Some player
          \<and> dependable (stationIDs (ms_Plant s)) a player)"

lemma Collect_staffed:
  assumes "staffed (en_Players env) (en_state env)" "fallbackReady (en_state env) (en_previous env)"
    "ms_MatchID (en_state env) \<noteq> []" "0 < ms_CurrentRound (en_state env)"
  shows "\<exists>actions. Collect env = Inr actions \<and> (\<forall>x \<in> set actions. admissible (en_state env) x)
     \<and> map as_RoleID actions = roleIDs (ms_Roles (en_state env))"
proof -
  have "\<exists>actions. collectRoles env as = Inr actions \<and> (\<forall>x \<in> set actions. admissible (en_state env) x)
     \<and> map as_RoleID actions = roleIDs as" if "set as \<subseteq> set (ms_Roles (en_state env))" for as
    using that
  proof (induction as)
    case (Cons a as)
    have a: "a \<in> set (ms_Roles (en_state env))" using Cons.prems by simp
    then obtain player where player: "en_Players env (ra_RoleID a) = Some player"
      "dependable (stationIDs (ms_Plant (en_state env))) a player"
      using assms(1) by (auto simp: staffed_def)
    have "ra_RoleID a \<in> set CanonicalRoles" using assms(1) a by (auto simp: staffed_def roleIDs_def)
    from collectRole_dependable [OF player(2) assms(2) a this assms(3,4)] Cons player(1) show ?case
      by (auto simp: roleIDs_def)
  qed (simp add: roleIDs_def)
  then obtain actions where "collectRoles env (ms_Roles (en_state env)) = Inr actions"
    "\<forall>x \<in> set actions. admissible (en_state env) x" "map as_RoleID actions = roleIDs (ms_Roles (en_state env))"
    by blast
  moreover have "collectGuard env = None" using assms(3,4) by (simp add: collectGuard_def Let_def)
  ultimately show ?thesis by (auto simp: Collect_Inr)
qed

lemma rememberActions_Cons:
  "rememberActions (a # actions) previous = rememberActions actions (previous(as_RoleID a \<mapsto> a))"
  by (simp add: rememberActions_def ActionSubmission_Clone_id)

lemma rememberActions_from:
  "rememberActions actions previous r = Some p \<Longrightarrow> p \<in> set actions \<and> as_RoleID p = r \<or> previous r = Some p"
proof (induction actions arbitrary: previous)
  case (Cons a actions)
  from Cons.IH [of "previous(as_RoleID a \<mapsto> a)"] Cons.prems
  have "p \<in> set actions \<and> as_RoleID p = r \<or> (previous(as_RoleID a \<mapsto> a)) r = Some p"
    unfolding rememberActions_Cons by blast
  then show ?case by (auto split: if_splits)
qed (simp add: rememberActions_def)

lemma rememberActions_covers:
  "r \<in> as_RoleID ` set actions \<or> previous r \<noteq> None \<Longrightarrow> rememberActions actions previous r \<noteq> None"
proof (induction actions arbitrary: previous)
  case (Cons a actions)
  then have "r \<in> as_RoleID ` set actions \<or> (previous(as_RoleID a \<mapsto> a)) r \<noteq> None" by auto
  from Cons.IH [where previous = "previous(as_RoleID a \<mapsto> a)", OF this]
  show ?case unfolding rememberActions_Cons .
qed (simp add: rememberActions_def)

definition worldTotal :: "WorldUpdateHook option \<Rightarrow> bool" where
  "worldTotal hook \<longleftrightarrow> (\<forall>p. \<exists>q. runWorldUpdate hook p = Inr q)"

lemma station_ids: "ws_WorkstationID ` set wss = ws_WorkstationID ` set (map stationSpec wss)"
  by (simp add: image_image stationSpec_def)

text \<open>After a round, everything a fallback needs is there again.\<close>

lemma continues_fallback:
  assumes "fallbackReady s previous" "continues resolver s res t"
    and "set (roleIDs (ms_Roles s)) \<subseteq> as_RoleID ` set (rr_Actions (res_Round res))"
  shows "fallbackReady t (rememberActions (rr_Actions (res_Round res)) previous)"
proof -
  have ids: "ws_WorkstationID ` set (pl_Workstations (ms_Plant s)) = ws_WorkstationID ` set (pl_Workstations (ms_Plant t))"
    using assms(2) station_ids by (metis continues_def)
  have "\<forall>a \<in> set (rr_Actions (res_Round res)). admissible s a"
    using assms(2) by (simp add: continues_def normalizeActions_Inr)
  then have old: "as_RoleID p = r \<and> r \<in> set CanonicalRoles \<and> validateActionSubmission s p = None"
    if "rememberActions (rr_Actions (res_Round res)) previous r = Some p" for r p
    using rememberActions_from [OF that] assms(1) by (auto simp: admissible_def fallbackReady_def prevOk_def)
  have "prevOk t (rememberActions (rr_Actions (res_Round res)) previous)"
    unfolding prevOk_def using old validate_action_only [OF refl refl _ ids] by blast
  moreover have "ms_Roles t = ms_Roles s" using assms(2) by (simp add: continues_def)
  ultimately show ?thesis
    using assms(3) rememberActions_covers by (auto simp: fallbackReady_def)
qed

context match_store
begin

text \<open>What a round starts from.\<close>

definition ready :: "Resolver \<Rightarrow> 's playState \<Rightarrow> bool" where
  "ready resolver ps \<longleftrightarrow>
     resolvable resolver (ps_state ps) \<and> ms_MatchID (ps_state ps) \<noteq> [] \<and> 0 < ms_CurrentRound (ps_state ps)
     \<and> fallbackReady (ps_state ps) (ps_previous ps)
     \<and> (\<forall>st. ps_store ps = Some st \<longrightarrow> ok st \<and> (\<exists>rounds. log st (ms_MatchID (ps_state ps)) = Some rounds
          \<and> (\<forall>round \<in> set rounds. rr_Round round < ms_CurrentRound (ps_state ps))))"

lemma commitResult_possible:
  assumes "\<forall>st. store = Some st \<longrightarrow> ok st \<and> (\<exists>rounds. log st m = Some rounds
      \<and> (\<forall>round \<in> set rounds. rr_Round round < rr_Round (res_Round result)))"
    "ms_MatchID (res_NextState result) = m" "0 < rr_Round (res_Round result)"
  shows "\<exists>x. commitResult ops m revealed result store = Inr x"
proof (cases store)
  case (Some st)
  then obtain rounds where "ok st" "log st m = Some rounds"
    "\<forall>round \<in> set rounds. rr_Round round < rr_Round (res_Round result)" using assms(1) by blast
  from commit_possible [OF this(1,2) assms(2,3) this(3)] Some show ?thesis
    by (auto simp: commitResult_def ops_def)
qed (simp add: commitResult_def)

lemma playRound_ready:
  assumes ready: "ready resolver ps" and staff: "staffed (mr_Players runner) (ps_state ps)"
    and world: "worldSpecs (rsv_worldUpdate resolver)" "worldTotal (rsv_worldUpdate resolver)"
  shows "\<exists>ps'. playRound runner resolver ops i ps = (None, ps') \<and> ready resolver ps'
     \<and> staffed (mr_Players runner) (ps_state ps')"
proof -
  let ?s = "ps_state ps" and ?m = "ms_MatchID (ps_state ps)"
  note r = ready [unfolded ready_def]
  let ?env = "collectEnvOf runner i ?s (ps_previous ps)"
  have env: "en_state ?env = ?s" "en_Players ?env = mr_Players runner" "en_previous ?env = ps_previous ps"
    by (simp_all add: collectEnvOf_def)
  obtain actions where actions: "Collect ?env = Inr actions" "\<forall>x \<in> set actions. admissible ?s x"
    "map as_RoleID actions = roleIDs (ms_Roles ?s)"
    using Collect_staffed [of ?env] r staff unfolding env by blast
  have norm: "normalizeActions ?s actions = Inr (inCanonicalOrder actions)"
    using actions staff by (simp add: normalizeActions_Inr staffed_def)
  obtain q where "runWorldUpdate (rsv_worldUpdate resolver)
      (resolvePhases (inCanonicalOrder actions) (startPhase resolver ?s (inCanonicalOrder actions) (ps_random ps))) = Inr q"
    using world(2) by (auto simp: worldTotal_def)
  then obtain result random where result: "ResolveRoundRandom resolver ?s actions (ps_random ps) = Inr (result, random)"
    using norm r by (simp add: ResolveRoundRandom_def Let_def)
  note round = ResolveRound_next [OF _ world(1) ResolveRoundRandom_Inr [OF result]]
  define revealed where "revealed = (MatchState_Clone (res_NextState result))\<lparr>ms_RoundFlow :=
     roundFlowFor (ms_Roles ?s) actions RoundPhaseRevealed (rf_AIRevealDelaySeconds (ms_RoundFlow ?s))\<rparr>"
  have "\<exists>x. commitResult ops ?m revealed (result\<lparr>res_NextState := MatchState_Clone revealed\<rparr>) (ps_store ps) = Inr x"
    using r round(5,7) by (intro commitResult_possible) (auto simp: revealed_def)
  then obtain ps' where ps': "playRound runner resolver ops i ps = (None, ps')"
    using actions(1) result by (auto simp: playRound_def Let_def simp flip: revealed_def)
  from playRound_continues [OF ps' _ world(1)] r obtain res where res:
    "continues resolver ?s res (ps_state ps')" "commits ?m [res] (ps_store ps) (ps_store ps')"
    "ps_previous ps' = rememberActions (rr_Actions (res_Round res)) (ps_previous ps)"
    "ps_results ps' = ps_results ps @ [res]" by blast
  have "rr_Actions (res_Round res) = inCanonicalOrder actions"
    using ps'
  proof (cases rule: playRound_None)
    case (1 actions' result' random' revealed' final final_result)
    with actions(1) result res(4) have "res_Round res = res_Round result" by simp
    then show ?thesis using round(8) norm r by simp
  qed
  then have "set (roleIDs (ms_Roles ?s)) \<subseteq> as_RoleID ` set (rr_Actions (res_Round res))"
    using actions staff inCanonicalOrder_set [of actions]
    by (auto simp: staffed_def admissible_def simp flip: actions(3))
  then have fallback: "fallbackReady (ps_state ps') (ps_previous ps')"
    using continues_fallback [OF _ res(1)] r res(3) by simp
  note c = res(1) [unfolded continues_def]
  have store: "ok st' \<and> (\<exists>rounds. log st' ?m = Some rounds
      \<and> (\<forall>round \<in> set rounds. rr_Round round < ms_CurrentRound (ps_state ps')))" if st': "ps_store ps' = Some st'" for st'
  proof -
    obtain st where some: "ps_store ps = Some st"
      using res(2) st' by (cases "ps_store ps") (simp_all add: commits_def)
    from res(2) [unfolded commits_def some option.case] st'
    obtain rs where st: "ps_store ps = Some st" "commitAll ?m rs st = Inr st'" "map snd rs = map res_Round [res]"
      using some by (metis option.inject)
    obtain rounds where rounds: "ok st" "log st ?m = Some rounds"
      "\<forall>round \<in> set rounds. rr_Round round < ms_CurrentRound ?s" using r st(1) by blast
    have "map (RoundRecord_Clone \<circ> snd) rs = map RoundRecord_Clone (map snd rs)" by simp
    then have "map (RoundRecord_Clone \<circ> snd) rs = [RoundRecord_Clone (res_Round res)]" by (simp only: st(3) list.map)
    with commitAll_keeps [OF st(2) rounds(2)] rounds(1)
    have "ok st'" "log st' ?m = Some (rounds @ [RoundRecord_Clone (res_Round res)])" by simp_all
    moreover have "rr_Round (RoundRecord_Clone (res_Round res)) = ms_CurrentRound ?s"
      using c by (simp add: RoundRecord_Clone_eq)
    ultimately show ?thesis using rounds(3) c by force
  qed
  have "ready resolver ps'"
    using fallback store c r by (simp add: ready_def)
  moreover have "stationIDs (ms_Plant (ps_state ps')) = stationIDs (ms_Plant ?s)"
    using c station_ids unfolding stationIDs_def by metis
  then have "staffed (mr_Players runner) (ps_state ps')" using staff c by (simp add: staffed_def)
  ultimately show ?thesis using ps' by blast
qed

lemma playRounds_ready:
  assumes "ready resolver ps" "staffed (mr_Players runner) (ps_state ps)"
    and world: "worldSpecs (rsv_worldUpdate resolver)" "worldTotal (rsv_worldUpdate resolver)"
  shows "\<exists>ps'. playRounds runner resolver ops i n ps = (None, ps')"
  using assms(1,2)
proof (induction n arbitrary: i ps)
  case (Suc n)
  from playRound_ready [OF Suc.prems world] obtain ps1 where one:
    "playRound runner resolver ops i ps = (None, ps1)" "ready resolver ps1"
    "staffed (mr_Players runner) (ps_state ps1)" by blast
  from Suc.IH [OF one(2,3)] one(1) show ?case by simp
qed simp

end

end
