(* ===== verification/Scenario.thy ===== *)
theory Scenario
  imports Rounds "HOL-Library.Word"
begin

text \<open>
  Scenarios (\<open>internal/scenario/scenario.go\<close>): the definition of a playable plant, the state a
  match starts in, and the hooks a scenario gives the resolver, among them the demand of a
  round.  A Go map built by the code is the list of its bindings in the order of insertion;
  \<open>applyDemand\<close> ranges over such a map, so the order of the visit is a parameter.
\<close>

unbundle bit_operations_syntax

section \<open>Definitions\<close>

record DemandProfile =
  dp_ReferencePrice :: Money
  dp_BaseDemand :: Units
  dp_PriceSensitivity :: int

record MatchSetup =
  su_ID :: string
  su_DisplayName :: string
  su_RoleRoster :: "RoleID list"

record CustomerSeed =
  sk_ID :: CustomerID
  sk_DisplayName :: string
  sk_Sentiment :: int
  sk_PaymentDelayRounds :: int

record StartingConditions =
  sc_ID :: string
  sc_DisplayName :: string
  sc_Description :: string
  sc_StartingTargets :: BudgetTargets
  sc_StartingPlant :: PlantState
  sc_Customers :: "CustomerSeed list"

record CustomerMarket =
  km_ID :: CustomerID
  km_DisplayName :: string
  km_DemandByProduct :: "(ProductID \<times> DemandProfile) list"

record DemandAssumptions =
  da_BacklogExpiryRounds :: int

record MarketModel =
  mk_ID :: string
  mk_DisplayName :: string
  mk_Description :: string
  mk_Customers :: "CustomerMarket list"
  mk_DemandAssumptions :: DemandAssumptions

record SupplierPriceBreak =
  sp_MinimumQuantity :: Units
  sp_UnitCost :: Money

record SupplierOption =
  so_ID :: SupplierID
  so_UnitCost :: Money
  so_LeadTimeRounds :: int
  so_MinimumOrderQuantity :: Units
  so_PriceBreaks :: "SupplierPriceBreak list"

record Part =
  pa_ID :: PartID
  pa_DisplayName :: string
  pa_UnitCost :: Money
  pa_SupplierID :: SupplierID
  pa_LeadTimeRounds :: int
  pa_MinimumOrderQuantity :: Units
  pa_PriceBreaks :: "SupplierPriceBreak list"
  pa_AlternateSuppliers :: "SupplierOption list"

record Product =
  pd_ID :: ProductID
  pd_DisplayName :: string
  pd_BOM :: "BOMLine list"
  pd_Route :: "WorkstationID list"
  pd_BaseUnitCost :: Money
  pd_ScrapRatePct :: int
  pd_ReworkRatePct :: int
  pd_InspectionHoldRatePct :: int
  pd_CustomerReturnRatePct :: int
  pd_InspectionHoldRounds :: int
  pd_CustomerReturnDelayRounds :: int

record SupplierBehavior =
  sb_ID :: string
  sb_DisplayName :: string
  sb_OnTimeDeliveryPct :: int
  sb_LateDeliveryRounds :: int

record Supplier =
  sr_ID :: SupplierID
  sr_DisplayName :: string
  sr_BehaviorScript :: "SupplierBehavior list"

record Workstation =
  wk_ID :: WorkstationID
  wk_DisplayName :: string
  wk_CapacityPerRound :: CapacityUnits
  wk_CostPerUnit :: Money
  wk_StressBufferUnits :: CapacityUnits
  wk_StressPenaltyPerExcessUnit :: CapacityUnits
  wk_LaborCapacityPerRound :: CapacityUnits
  wk_LaborCostPerCapacityUnit :: Money
  wk_OvertimeCostPerCapacityUnit :: Money

record BottleneckAssumption =
  bn_WorkstationID :: WorkstationID
  bn_Summary :: string

record ProductionModel =
  mo_ID :: string
  mo_DisplayName :: string
  mo_Description :: string
  mo_Products :: "Product list"
  mo_Parts :: "Part list"
  mo_Suppliers :: "Supplier list"
  mo_Workstations :: "Workstation list"
  mo_Bottleneck :: BottleneckAssumption

record FinanceModel =
  fm_ID :: string
  fm_DisplayName :: string
  fm_Description :: string
  fm_ReceivableDelayRounds :: int
  fm_PayableDelayRounds :: int
  fm_PayrollDelayRounds :: int

record Definition =
  sd_ID :: ScenarioID
  sd_DisplayName :: string
  sd_Description :: string
  sd_Setup :: MatchSetup
  sd_StartingConditions :: StartingConditions
  sd_MarketModel :: MarketModel
  sd_ProductionModel :: ProductionModel
  sd_FinanceModel :: FinanceModel
  sd_DefaultHistoryLimit :: int

definition NewDefinition ::
  "ScenarioID \<Rightarrow> string \<Rightarrow> string \<Rightarrow> MatchSetup \<Rightarrow> StartingConditions \<Rightarrow> MarketModel \<Rightarrow>
     ProductionModel \<Rightarrow> FinanceModel \<Rightarrow> Definition" where
  "NewDefinition scenarioID displayName description setup starting market production finance =
     \<lparr>sd_ID = scenarioID, sd_DisplayName = displayName, sd_Description = description,
      sd_Setup = setup, sd_StartingConditions = starting, sd_MarketModel = market,
      sd_ProductionModel = production, sd_FinanceModel = finance, sd_DefaultHistoryLimit = 10\<rparr>"

section \<open>Maps by id\<close>

text \<open>Of two items with the same id the later one stays.\<close>

definition byID :: "('a \<Rightarrow> string) \<Rightarrow> 'a list \<Rightarrow> string \<Rightarrow> 'a option" where
  "byID key items = foldl (\<lambda>m item. m(key item \<mapsto> item)) Map.empty items"

definition partsByID :: "Definition \<Rightarrow> PartID \<Rightarrow> Part option" where
  "partsByID d = byID pa_ID (mo_Parts (sd_ProductionModel d))"

definition productsByID :: "Definition \<Rightarrow> ProductID \<Rightarrow> Product option" where
  "productsByID d = byID pd_ID (mo_Products (sd_ProductionModel d))"

definition workstationsByID :: "Definition \<Rightarrow> WorkstationID \<Rightarrow> Workstation option" where
  "workstationsByID d = byID wk_ID (mo_Workstations (sd_ProductionModel d))"

definition customersByID :: "Definition \<Rightarrow> CustomerID \<Rightarrow> CustomerMarket option" where
  "customersByID d = byID km_ID (mk_Customers (sd_MarketModel d))"

section \<open>Suppliers\<close>

definition normalizedLeadTime :: "int \<Rightarrow> int" where
  "normalizedLeadTime rounds = (if rounds \<le> 0 then 1 else rounds)"

definition normalizedOnTimePct :: "int \<Rightarrow> int" where
  "normalizedOnTimePct pct = (if pct < 0 then 100 else if 100 < pct then 100 else pct)"

definition normalizedLateRounds :: "int \<Rightarrow> int" where
  "normalizedLateRounds rounds = (if rounds < 0 then 0 else rounds)"

definition Part_suppliers :: "Part \<Rightarrow> SupplierOption list" where
  "Part_suppliers p =
     \<lparr>so_ID = pa_SupplierID p, so_UnitCost = pa_UnitCost p,
      so_LeadTimeRounds = normalizedLeadTime (pa_LeadTimeRounds p),
      so_MinimumOrderQuantity = pa_MinimumOrderQuantity p, so_PriceBreaks = pa_PriceBreaks p\<rparr>
     # pa_AlternateSuppliers p"

definition Part_supplier :: "Part \<Rightarrow> SupplierID \<Rightarrow> SupplierOption option" where
  "Part_supplier p supplierID =
     map_option (\<lambda>item. item\<lparr>so_LeadTimeRounds := normalizedLeadTime (so_LeadTimeRounds item)\<rparr>)
       (find_first (\<lambda>item. so_ID item = supplierID) (Part_suppliers p))"

text \<open>The loop over the price breaks, over the best break so far and the unit cost.\<close>

definition breakStep :: "Units \<Rightarrow> Units \<times> Money \<Rightarrow> SupplierPriceBreak \<Rightarrow> Units \<times> Money" where
  "breakStep quantity acc item =
    (let (bestBreak, unitCost) = acc
     in if sp_MinimumQuantity item \<le> 0 \<or> quantity < sp_MinimumQuantity item
           \<or> sp_MinimumQuantity item < bestBreak
        then acc else (sp_MinimumQuantity item, sp_UnitCost item))"

definition unitCostForQuantity :: "SupplierOption \<Rightarrow> Units \<Rightarrow> Money" where
  "unitCostForQuantity o1 quantity = snd (foldl (breakStep quantity) (0, so_UnitCost o1) (so_PriceBreaks o1))"

text \<open>\<open>hash/fnv\<close>: the 32-bit FNV-1a hash of a byte sequence, \<open>hasher\<close> the sum so far.\<close>

definition fnvWrite :: "32 word \<Rightarrow> string \<Rightarrow> 32 word" where
  "fnvWrite hasher bytes = foldl (\<lambda>h ch. (h XOR of_nat (of_char ch)) * 16777619) hasher bytes"

definition fnvNew32a :: "32 word" where
  "fnvNew32a = 2166136261"

definition supplierBehaviorIndex :: "MatchID \<Rightarrow> SupplierID \<Rightarrow> nat \<Rightarrow> nat" where
  "supplierBehaviorIndex matchID supplierID len =
    (if len \<le> 1 then 0
     else let hasher = fnvNew32a;
              hasher = fnvWrite hasher matchID;
              hasher = fnvWrite hasher '':'';
              hasher = fnvWrite hasher supplierID
          in unat (hasher mod of_nat len))"

definition selectBehavior :: "Supplier \<Rightarrow> MatchID \<Rightarrow> SupplierBehavior" where
  "selectBehavior s matchID =
    (if sr_BehaviorScript s = []
     then \<lparr>sb_ID = ''steady'', sb_DisplayName = ''Steady'', sb_OnTimeDeliveryPct = 100,
           sb_LateDeliveryRounds = 0\<rparr>
     else let index = supplierBehaviorIndex matchID (sr_ID s) (length (sr_BehaviorScript s));
              behavior = sr_BehaviorScript s ! index
          in behavior\<lparr>sb_OnTimeDeliveryPct := normalizedOnTimePct (sb_OnTimeDeliveryPct behavior),
               sb_LateDeliveryRounds := normalizedLateRounds (sb_LateDeliveryRounds behavior)\<rparr>)"

definition supplierState :: "Definition \<Rightarrow> MatchID \<Rightarrow> SupplierState list" where
  "supplierState d matchID =
     map (\<lambda>supplier. let behavior = selectBehavior supplier matchID
       in \<lparr>ss_SupplierID = sr_ID supplier, ss_DisplayName = sr_DisplayName supplier,
           ss_BehaviorID = sb_ID behavior, ss_BehaviorDisplay = sb_DisplayName behavior,
           ss_OnTimeDeliveryPct = normalizedOnTimePct (sb_OnTimeDeliveryPct behavior),
           ss_LateDeliveryRounds = normalizedLateRounds (sb_LateDeliveryRounds behavior),
           ss_ReliabilityScore = normalizedOnTimePct (sb_OnTimeDeliveryPct behavior),
           ss_OrdersPlaced = 0, ss_OrdersReceived = 0, ss_LateDeliveries = 0\<rparr>)
       (mo_Suppliers (sd_ProductionModel d))"

definition supplierStateByID :: "SupplierState list \<Rightarrow> SupplierID \<Rightarrow> SupplierState option" where
  "supplierStateByID items supplierID = find_first (\<lambda>item. ss_SupplierID item = supplierID) items"

section \<open>The state a match starts in\<close>

definition productionWorkstationState :: "Definition \<Rightarrow> WorkstationState list" where
  "productionWorkstationState d =
     map (\<lambda>workstation.
       \<lparr>ws_WorkstationID = wk_ID workstation, ws_DisplayName = wk_DisplayName workstation,
        ws_CapacityPerRound = wk_CapacityPerRound workstation,
        ws_EffectiveCapacityPerRound = wk_CapacityPerRound workstation,
        ws_StressCapacityLoss = 0,
        ws_StressBufferUnits = wk_StressBufferUnits workstation,
        ws_StressPenaltyPerExcessUnit = wk_StressPenaltyPerExcessUnit workstation,
        ws_LaborCapacityPerRound = wk_LaborCapacityPerRound workstation,
        ws_LaborUsed = 0,
        ws_LaborCostPerCapacityUnit = wk_LaborCostPerCapacityUnit workstation,
        ws_OvertimeUsed = 0,
        ws_OvertimeCostPerCapacityUnit = wk_OvertimeCostPerCapacityUnit workstation,
        ws_CapacityUsed = 0\<rparr>)
       (mo_Workstations (sd_ProductionModel d))"

definition scenarioCustomerBacklog :: "BacklogEntry list \<Rightarrow> CustomerID \<Rightarrow> BacklogEntry list" where
  "scenarioCustomerBacklog backlog customerID = filter (\<lambda>entry. be_CustomerID entry = customerID) backlog"

definition scenarioRoleIDs :: "RoleAssignment list \<Rightarrow> RoleID list" where
  "scenarioRoleIDs assignments = map ra_RoleID assignments"

definition InitialState :: "Definition \<Rightarrow> MatchID \<Rightarrow> RoleAssignment list \<Rightarrow> MatchState" where
  "InitialState d matchID roles =
    (let s = PlantState_Clone (sc_StartingPlant (sd_StartingConditions d));
         s = s\<lparr>pl_Workstations := productionWorkstationState d\<rparr>;
         customers = map (\<lambda>customer.
           \<lparr>cs_CustomerID = sk_ID customer, cs_DisplayName = sk_DisplayName customer,
            cs_Sentiment = sk_Sentiment customer,
            cs_PaymentDelayRounds = sk_PaymentDelayRounds customer,
            cs_Backlog = scenarioCustomerBacklog (pl_Backlog s) (sk_ID customer)\<rparr>)
           (sc_Customers (sd_StartingConditions d))
     in \<lparr>ms_MatchID = matchID, ms_ScenarioID = sd_ID d, ms_CurrentRound = 1, ms_Roles = roles,
         ms_RoundFlow = \<lparr>rf_Phase = RoundPhaseCollecting, rf_SubmittedRoles = [],
           rf_WaitingOnRoles = scenarioRoleIDs roles, rf_ProviderWaitingRoles = [],
           rf_AIRevealDelaySeconds = 0\<rparr>,
         ms_Plant = s, ms_Customers = customers, ms_Suppliers = supplierState d matchID,
         ms_ActiveTargets = sc_StartingTargets (sd_StartingConditions d),
         ms_Metrics = zero_PlantMetrics, ms_History = \<lparr>rh_RecentRounds = []\<rparr>\<rparr>)"

section \<open>Demand\<close>

definition setPrice :: "ProductID \<Rightarrow> Money \<Rightarrow> (ProductID \<times> Money) list \<Rightarrow> (ProductID \<times> Money) list" where
  "setPrice productID price =
     upsert_first (\<lambda>(k, _). k = productID) (\<lambda>_. (productID, price)) (productID, price)"

definition offersOf :: "ActionSubmission \<Rightarrow> ProductOffer list" where
  "offersOf action =
    (if as_RoleID action \<noteq> RoleSalesManager then []
     else case act_Sales (as_Action action) of None \<Rightarrow> [] | Some sales \<Rightarrow> sa_ProductOffers sales)"

definition currentOfferPrices :: "RoundRecord \<Rightarrow> Product list \<Rightarrow> (ProductID \<times> Money) list" where
  "currentOfferPrices round products =
    (let prices = foldl (\<lambda>prices product. setPrice (pd_ID product) (pd_BaseUnitCost product * 2) prices) [] products
     in foldl (\<lambda>prices action.
          foldl (\<lambda>prices offer. if 0 < of_UnitPrice offer
                   then setPrice (of_ProductID offer) (of_UnitPrice offer) prices else prices)
            prices (offersOf action))
          prices (rr_Actions round))"

definition realizedDemand :: "DemandProfile \<Rightarrow> int \<Rightarrow> Money \<Rightarrow> Units" where
  "realizedDemand profile sentiment offeredPrice =
    (let sentimentModifier = max 1 sentiment + 2;
         demandScore = dp_BaseDemand profile * sentimentModifier
           - dp_PriceSensitivity profile * max 0 (offeredPrice - dp_ReferencePrice profile)
     in max 0 (go_div demandScore 5))"

definition appendCustomerBacklog :: "CustomerID \<Rightarrow> BacklogEntry \<Rightarrow> MatchState \<Rightarrow> MatchState" where
  "appendCustomerBacklog customerID entry state =
     state\<lparr>ms_Customers := update_first (\<lambda>c. cs_CustomerID c = customerID)
       (\<lambda>c. c\<lparr>cs_Backlog := cs_Backlog c @ [entry]\<rparr>) (ms_Customers state)\<rparr>"

text \<open>The body of the inner loop: the demand of one customer for one product.\<close>

definition demandFor ::
  "CustomerMarket \<Rightarrow> CustomerState \<Rightarrow> WorldUpdateContext \<Rightarrow> ProductID \<times> Money \<Rightarrow> WorldUpdateContext" where
  "demandFor customer customerState ctx = (\<lambda>(productID, offerPrice).
    (case map_of (km_DemandByProduct customer) productID of
       None \<Rightarrow> ctx
     | Some profile \<Rightarrow>
         let realized = realizedDemand profile (cs_Sentiment customerState) offerPrice;
             customerID = cs_CustomerID customerState
         in if realized \<le> 0 then ctx
         else let entry = \<lparr>be_CustomerID = customerID, be_ProductID = productID, be_Quantity = realized,
                    be_OriginRound = ms_CurrentRound (wu_State ctx), be_AgeInRounds = 0\<rparr>;
                  state = wu_State ctx;
                  state = state\<lparr>ms_Plant := (ms_Plant state)\<lparr>pl_Backlog := pl_Backlog (ms_Plant state) @ [entry]\<rparr>\<rparr>;
                  state = appendCustomerBacklog customerID entry state;
                  ctx = ctx\<lparr>wu_State := state\<rparr>;
                  ctx = AppendEvent EventDemandRealized ActorPlantSystem
                    (''Realized '' @ itoa realized @ '' units of '' @ productID @ '' demand from '' @ customerID)
                    [(''customer_id'', AString customerID),
                     (''product_id'', AString productID),
                     (''quantity'', AInt realized),
                     (''reference_price'', AInt (dp_ReferencePrice profile)),
                     (''offered_unit_price'', AInt offerPrice),
                     (''sentiment'', AInt (cs_Sentiment customerState))] ctx
              in AppendEvent EventBacklogCreated ActorPlantSystem
                   (''Booked '' @ itoa realized @ '' units of '' @ productID @ '' backlog for '' @ customerID)
                   [(''customer_id'', AString customerID),
                    (''product_id'', AString productID),
                    (''quantity'', AInt realized)] ctx))"

text \<open>The loop over the customers, \<open>index\<close> the number of the range over the prices.\<close>

fun demandOfCustomers ::
  "Definition \<Rightarrow> MapOrder \<Rightarrow> (ProductID \<times> Money) list \<Rightarrow> nat \<Rightarrow> CustomerState list \<Rightarrow>
     WorldUpdateContext \<Rightarrow> WorldUpdateContext" where
  "demandOfCustomers d order prices index [] ctx = ctx"
| "demandOfCustomers d order prices index (customerState # customers) ctx =
    (case customersByID d (cs_CustomerID customerState) of
       None \<Rightarrow> demandOfCustomers d order prices (Suc index) customers ctx
     | Some customer \<Rightarrow> demandOfCustomers d order prices (Suc index) customers
         (foldl (demandFor customer customerState) ctx (mapValues (order index) prices)))"

definition applyDemand :: "Definition \<Rightarrow> MapOrder \<Rightarrow> WorldUpdateContext \<Rightarrow> WorldUpdateContext" where
  "applyDemand d order ctx =
     demandOfCustomers d order
       (currentOfferPrices (wu_Round ctx) (mo_Products (sd_ProductionModel d))) 0
       (ms_Customers (wu_State ctx)) ctx"

section \<open>The hooks\<close>

definition scenarioProcurementTerms :: "Definition \<Rightarrow> ProcurementTermsHook" where
  "scenarioProcurementTerms d ctx =
    (let none = \<lparr>pt_UnitCost = 0, pt_MinimumOrderQuantity = 0, pt_LeadTimeRounds = 0,
           pt_OnTimeDeliveryPct = 0, pt_LateDeliveryRounds = 0, pt_KnownSupplier = False\<rparr>;
         order = ptc_Order ctx
     in case partsByID d (po_PartID order) of
          None \<Rightarrow> none
        | Some part \<Rightarrow>
     (case supplierStateByID (ms_Suppliers (ptc_State ctx)) (po_SupplierID order) of
          None \<Rightarrow> none
        | Some state \<Rightarrow>
     (case Part_supplier part (po_SupplierID order) of
          None \<Rightarrow> none
        | Some supplier \<Rightarrow>
            \<lparr>pt_UnitCost = unitCostForQuantity supplier (po_Quantity order),
             pt_MinimumOrderQuantity = so_MinimumOrderQuantity supplier,
             pt_LeadTimeRounds = so_LeadTimeRounds supplier,
             pt_OnTimeDeliveryPct = ss_OnTimeDeliveryPct state,
             pt_LateDeliveryRounds = ss_LateDeliveryRounds state,
             pt_KnownSupplier = True\<rparr>)))"

definition scenarioProductionBOM :: "Definition \<Rightarrow> ProductionBOMHook" where
  "scenarioProductionBOM d ctx =
    (case productsByID d (pbc_ProductID ctx) of
       None \<Rightarrow> \<lparr>pb_KnownProduct = False, pb_Parts = []\<rparr>
     | Some product \<Rightarrow> \<lparr>pb_KnownProduct = True, pb_Parts = pd_BOM product\<rparr>)"

text \<open>\<open>slices.Index\<close>\<close>

fun indexOf :: "'a list \<Rightarrow> 'a \<Rightarrow> int" where
  "indexOf [] x = - 1"
| "indexOf (y # ys) x = (if y = x then 0 else let i = indexOf ys x in if i < 0 then - 1 else i + 1)"

definition scenarioProductionRoute :: "Definition \<Rightarrow> ProductionRouteHook" where
  "scenarioProductionRoute d ctx =
    (let none = \<lparr>prs_NextWorkstationID = [], prs_Finished = False\<rparr>
     in case productsByID d (prc_ProductID ctx) of
          None \<Rightarrow> none
        | Some product \<Rightarrow>
            let index = indexOf (pd_Route product) (prc_CurrentStationID ctx)
            in if index < 0 then none
               else if index = int (length (pd_Route product)) - 1
               then \<lparr>prs_NextWorkstationID = [], prs_Finished = True\<rparr>
               else \<lparr>prs_NextWorkstationID = pd_Route product ! nat (index + 1), prs_Finished = False\<rparr>)"

definition scenarioProductionCost :: "Definition \<Rightarrow> ProductionCostHook" where
  "scenarioProductionCost d ctx =
    (case workstationsByID d (pcc_WorkstationID ctx) of
       None \<Rightarrow> \<lparr>pc_CostPerCapacityUnit = 1\<rparr>
     | Some workstation \<Rightarrow>
         if wk_CostPerUnit workstation \<le> 0 then \<lparr>pc_CostPerCapacityUnit = 1\<rparr>
         else \<lparr>pc_CostPerCapacityUnit = wk_CostPerUnit workstation\<rparr>)"

definition scenarioQualityProfile :: "Definition \<Rightarrow> QualityProfileHook" where
  "scenarioQualityProfile d ctx =
    (case productsByID d (qpc_ProductID ctx) of
       None \<Rightarrow> QualityProfile.make 0 0 0 0 0 0
     | Some product \<Rightarrow>
         let profile = \<lparr>qp_ScrapRatePct = pd_ScrapRatePct product,
               qp_ReworkRatePct = pd_ReworkRatePct product,
               qp_InspectionHoldRatePct = pd_InspectionHoldRatePct product,
               qp_CustomerReturnRatePct = pd_CustomerReturnRatePct product,
               qp_InspectionHoldRounds = pd_InspectionHoldRounds product,
               qp_ReturnDelayRounds = pd_CustomerReturnDelayRounds product\<rparr>
         in if qpc_Phase ctx = QualityPhaseProductionFinal
            then let profile = (if qpc_Stressed ctx
                   then profile\<lparr>qp_ScrapRatePct := qp_ScrapRatePct profile + 10,
                     qp_ReworkRatePct := qp_ReworkRatePct profile + 10\<rparr> else profile)
                 in if qpc_OvertimeUsed ctx
                    then profile\<lparr>qp_InspectionHoldRatePct := qp_InspectionHoldRatePct profile + 10\<rparr>
                    else profile
            else profile)"

text \<open>The order in which demand is ranged over may differ from round to round.\<close>

definition scenarioWorldUpdate :: "Definition \<Rightarrow> (RoundNumber \<Rightarrow> MapOrder) \<Rightarrow> WorldUpdateHook" where
  "scenarioWorldUpdate d orders ctx = Inr (applyDemand d (orders (wu_currentRound ctx)) ctx)"

definition ResolverOptions :: "Definition \<Rightarrow> (RoundNumber \<Rightarrow> MapOrder) \<Rightarrow> Options" where
  "ResolverOptions d orders =
     \<lparr>op_HistoryLimit = sd_DefaultHistoryLimit d,
      op_BacklogExpiryRounds = da_BacklogExpiryRounds (mk_DemandAssumptions (sd_MarketModel d)),
      op_ProcurementTerms = Some (scenarioProcurementTerms d),
      op_ProductionBOM = Some (scenarioProductionBOM d),
      op_ProductionRoute = Some (scenarioProductionRoute d),
      op_ProductionCost = Some (scenarioProductionCost d),
      op_QualityProfile = Some (scenarioQualityProfile d),
      op_InventoryCost = None,
      op_ReceivableDelayRounds = fm_ReceivableDelayRounds (sd_FinanceModel d),
      op_PayableDelayRounds = fm_PayableDelayRounds (sd_FinanceModel d),
      op_PayrollDelayRounds = fm_PayrollDelayRounds (sd_FinanceModel d),
      op_WorldUpdate = Some (scenarioWorldUpdate d orders)\<rparr>"

definition roleNames :: "RoleID list \<Rightarrow> string list" where
  "roleNames roles = map role_string roles"

text \<open>\<open>strings.Join\<close>\<close>

fun joinStrings :: "string list \<Rightarrow> string \<Rightarrow> string" where
  "joinStrings [] sep = []"
| "joinStrings [s] sep = s"
| "joinStrings (s # t # rest) sep = s @ sep @ joinStrings (t # rest) sep"

definition SummaryLines :: "Definition \<Rightarrow> string list" where
  "SummaryLines d =
     [''scenario='' @ sd_ID d @ '' ('' @ sd_DisplayName d @ '')'',
      ''setup='' @ su_ID (sd_Setup d),
      ''starting_conditions='' @ sc_ID (sd_StartingConditions d),
      ''market_model='' @ mk_ID (sd_MarketModel d),
      ''production_model='' @ mo_ID (sd_ProductionModel d),
      ''finance_model='' @ fm_ID (sd_FinanceModel d),
      ''bottleneck='' @ bn_WorkstationID (mo_Bottleneck (sd_ProductionModel d)),
      ''roles='' @ joinStrings (roleNames (su_RoleRoster (sd_Setup d))) '', '']"

section \<open>Unit costs\<close>

text \<open>A price break applies from its positive minimum quantity on.\<close>

definition breakApplies :: "Units \<Rightarrow> SupplierPriceBreak \<Rightarrow> bool" where
  "breakApplies quantity item \<longleftrightarrow> 0 < sp_MinimumQuantity item \<and> sp_MinimumQuantity item \<le> quantity"

text \<open>The loop ends with the last of the applicable breaks with the largest minimum.\<close>

lemma breakStep_best:
  assumes "0 \<le> best"
  shows "(best', cost') = foldl (breakStep quantity) (best, cost) items \<Longrightarrow>
     ((best', cost') = (best, cost) \<or>
        (\<exists>item \<in> set items. breakApplies quantity item \<and> best' = sp_MinimumQuantity item \<and> cost' = sp_UnitCost item))
     \<and> best \<le> best' \<and> (\<forall>item \<in> set items. breakApplies quantity item \<longrightarrow> sp_MinimumQuantity item \<le> best')
     \<and> ((\<exists>item \<in> set items. breakApplies quantity item \<and> best \<le> sp_MinimumQuantity item) \<longrightarrow>
          (\<exists>item \<in> set items. breakApplies quantity item \<and> best' = sp_MinimumQuantity item \<and> cost' = sp_UnitCost item))"
  using assms
proof (induction items arbitrary: best cost)
  case (Cons item items)
  show ?case
  proof (cases "breakApplies quantity item \<and> best \<le> sp_MinimumQuantity item")
    case True
    then have "breakStep quantity (best, cost) item = (sp_MinimumQuantity item, sp_UnitCost item)"
      by (auto simp: breakStep_def breakApplies_def)
    with Cons.IH [of "sp_MinimumQuantity item" "sp_UnitCost item"] Cons.prems True show ?thesis
      by (auto simp: breakApplies_def)
  next
    case False
    then have "breakStep quantity (best, cost) item = (best, cost)"
      using Cons.prems(2) by (auto simp: breakStep_def breakApplies_def)
    with Cons.IH [of best cost] Cons.prems False show ?thesis by (auto simp: breakApplies_def)
  qed
qed simp

lemma unitCost_base:
  "\<forall>item \<in> set (so_PriceBreaks o1). \<not> breakApplies quantity item \<Longrightarrow>
   unitCostForQuantity o1 quantity = so_UnitCost o1"
  using breakStep_best [of 0 "fst (foldl (breakStep quantity) (0, so_UnitCost o1) (so_PriceBreaks o1))"
      "snd (foldl (breakStep quantity) (0, so_UnitCost o1) (so_PriceBreaks o1))" quantity "so_UnitCost o1" "so_PriceBreaks o1"]
  by (auto simp: unitCostForQuantity_def)

lemma unitCost_break:
  assumes "\<exists>item \<in> set (so_PriceBreaks o1). breakApplies quantity item"
  shows "\<exists>item \<in> set (so_PriceBreaks o1). breakApplies quantity item
     \<and> unitCostForQuantity o1 quantity = sp_UnitCost item
     \<and> (\<forall>other \<in> set (so_PriceBreaks o1). breakApplies quantity other \<longrightarrow>
          sp_MinimumQuantity other \<le> sp_MinimumQuantity item)"
proof -
  let ?r = "foldl (breakStep quantity) (0, so_UnitCost o1) (so_PriceBreaks o1)"
  have "\<exists>item \<in> set (so_PriceBreaks o1). breakApplies quantity item \<and> 0 \<le> sp_MinimumQuantity item"
    using assms by (auto simp: breakApplies_def)
  with breakStep_best [of 0 "fst ?r" "snd ?r" quantity "so_UnitCost o1" "so_PriceBreaks o1"]
  show ?thesis unfolding unitCostForQuantity_def by (metis order.refl prod.collapse)
qed

section \<open>Suppliers and their behavior\<close>

lemma supplierBehaviorIndex_less:
  "0 < len \<Longrightarrow> len < 2 ^ 32 \<Longrightarrow> supplierBehaviorIndex matchID supplierID len < len"
proof -
  assume len: "0 < len" "len < 2 ^ 32"
  then have "unat (of_nat len :: 32 word) = len" by (simp add: unat_of_nat)
  then have "unat (h mod of_nat len) < len" for h :: "32 word"
    using len(1) by (simp add: unat_mod)
  then show ?thesis using len(1) by (simp add: supplierBehaviorIndex_def Let_def)
qed

text \<open>The reliability a supplier starts with is a percentage.\<close>

lemma normalizedOnTimePct_range: "0 \<le> normalizedOnTimePct p \<and> normalizedOnTimePct p \<le> 100"
  by (simp add: normalizedOnTimePct_def)

section \<open>Demand as a step of the round\<close>

text \<open>The order of one customer for one product, if there is demand.\<close>

definition demandEntry ::
  "RoundNumber \<Rightarrow> CustomerMarket \<Rightarrow> CustomerState \<Rightarrow> ProductID \<times> Money \<Rightarrow> BacklogEntry option" where
  "demandEntry round customer customerState = (\<lambda>(productID, offerPrice).
     (case map_of (km_DemandByProduct customer) productID of
        None \<Rightarrow> None
      | Some profile \<Rightarrow>
          let realized = realizedDemand profile (cs_Sentiment customerState) offerPrice
          in if realized \<le> 0 then None
             else Some \<lparr>be_CustomerID = cs_CustomerID customerState, be_ProductID = productID,
               be_Quantity = realized, be_OriginRound = round, be_AgeInRounds = 0\<rparr>))"

definition bookEntry :: "BacklogEntry \<Rightarrow> MatchState \<Rightarrow> MatchState" where
  "bookEntry entry state = appendCustomerBacklog (be_CustomerID entry) entry
     (state\<lparr>ms_Plant := (ms_Plant state)\<lparr>pl_Backlog := pl_Backlog (ms_Plant state) @ [entry]\<rparr>\<rparr>)"

text \<open>A phase that differs from another one only in what a world update may write.\<close>

definition worldStep :: "roundPhase \<Rightarrow> roundPhase \<Rightarrow> bool" where
  "worldStep p q \<longleftrightarrow> afterWorld p (worldContext q) = q \<and> phase_ext p q \<and> (phaseOk p \<longrightarrow> phaseOk q)
     \<and> specs q = specs p"

lemma worldStep_refl [simp]: "worldStep p p"
  by (simp add: worldStep_def afterWorld_def worldContext_def)

lemma worldStep_trans: "worldStep p q \<Longrightarrow> worldStep q r \<Longrightarrow> worldStep p r"
proof -
  assume p: "worldStep p q" and q: "worldStep q r"
  have "afterWorld (afterWorld p (worldContext q)) (worldContext r) = afterWorld p (worldContext r)"
    by (simp add: afterWorld_def)
  with p q show ?thesis by (auto simp: worldStep_def intro: phase_ext_trans)
qed

lemma AppendEvent_phase: "AppendEvent t a s pl (worldContext p) = worldContext (appendEvent t a s pl p)"
  by (simp add: AppendEvent_def appendEvent_def worldContext_def Let_def)

lemma worldStep_append: "worldStep p (appendEvent t a s pl p)"
  by (auto simp: worldStep_def specs_keeps intro!: inv_intros)
    (simp add: afterWorld_def worldContext_def appendEvent_def Let_def)

lemma bookEntry_ok:
  assumes "stateOk s" "0 < be_Quantity entry"
  shows "stateOk (bookEntry entry s)"
proof -
  have more: "backlogOk (es @ [entry]) \<longleftrightarrow> backlogOk es" for es
    using assms(2) by (auto simp: backlogOk_def)
  have "\<forall>c \<in> set (update_first P (\<lambda>c. c\<lparr>cs_Backlog := cs_Backlog c @ [entry]\<rparr>) (ms_Customers s)). backlogOk (cs_Backlog c)"
    for P
  proof
    fix c assume "c \<in> set (update_first P (\<lambda>c. c\<lparr>cs_Backlog := cs_Backlog c @ [entry]\<rparr>) (ms_Customers s))"
    then have "c \<in> set (ms_Customers s) \<union> (\<lambda>c. c\<lparr>cs_Backlog := cs_Backlog c @ [entry]\<rparr>) ` {x \<in> set (ms_Customers s). P x}"
      using set_update_first by fast
    with assms(1) show "backlogOk (cs_Backlog c)" by (auto simp: stateOk_def more)
  qed
  with assms(1) show ?thesis
    by (simp add: bookEntry_def appendCustomerBacklog_def stateOk_def plantOk_def more)
qed

lemma worldStep_book:
  assumes "0 < be_Quantity entry"
  shows "worldStep p (upd_state (bookEntry entry) p)"
proof -
  have "phase_ext p (upd_state (bookEntry entry) p)"
    by (intro ext_upd_state)
      (simp_all add: sameIdentity_def bookEntry_def appendCustomerBacklog_def netCash_def phase_ext_refl)
  then show ?thesis
    using bookEntry_ok [OF _ assms]
    by (simp add: worldStep_def phase_simps specs_def)
      (simp add: afterWorld_def worldContext_def upd_state_def bookEntry_def appendCustomerBacklog_def)
qed

lemma demandFor_step:
  "\<exists>q. demandFor customer customerState (worldContext p) x = worldContext q \<and> worldStep p q
     \<and> pl_Backlog (plant q) = pl_Backlog (plant p)
         @ (case demandEntry (ms_CurrentRound (rp_state p)) customer customerState x of None \<Rightarrow> [] | Some e \<Rightarrow> [e])
     \<and> ms_CurrentRound (rp_state q) = ms_CurrentRound (rp_state p)
     \<and> ms_ActiveTargets (rp_state q) = ms_ActiveTargets (rp_state p)"
proof (cases "demandEntry (ms_CurrentRound (rp_state p)) customer customerState x")
  case None
  then have "demandFor customer customerState (worldContext p) x = worldContext p"
    by (cases x) (auto simp: demandFor_def demandEntry_def Let_def split: option.splits if_splits)
  with None show ?thesis by (intro exI [of _ p]) simp
next
  case (Some entry)
  then have pos: "0 < be_Quantity entry"
    by (cases x) (auto simp: demandEntry_def Let_def split: option.splits if_splits)
  define p1 where "p1 = upd_state (bookEntry entry) p"
  obtain t1 a1 s1 pl1 t2 a2 s2 pl2 where eq: "demandFor customer customerState (worldContext p) x =
      AppendEvent t2 a2 s2 pl2 (AppendEvent t1 a1 s1 pl1 (worldContext p1))"
    using Some
    by (cases x)
      (auto simp: demandFor_def demandEntry_def Let_def p1_def upd_state_def worldContext_def bookEntry_def
        split: option.splits if_splits)
  have "worldStep p p1" unfolding p1_def using pos by (rule worldStep_book)
  then have "worldStep p (appendEvent t2 a2 s2 pl2 (appendEvent t1 a1 s1 pl1 p1))"
    using worldStep_append worldStep_trans by blast
  moreover have "pl_Backlog (plant p1) = pl_Backlog (plant p) @ [entry]"
    "ms_CurrentRound (rp_state p1) = ms_CurrentRound (rp_state p)"
    "ms_ActiveTargets (rp_state p1) = ms_ActiveTargets (rp_state p)"
    by (simp_all add: p1_def phase_simps bookEntry_def appendCustomerBacklog_def)
  ultimately show ?thesis
    using Some eq
    by (intro exI [of _ "appendEvent t2 a2 s2 pl2 (appendEvent t1 a1 s1 pl1 p1)"])
      (simp add: AppendEvent_phase phase_simps)
qed

definition entriesOf :: "RoundNumber \<Rightarrow> CustomerMarket \<Rightarrow> CustomerState \<Rightarrow> (ProductID \<times> Money) list \<Rightarrow> BacklogEntry list" where
  "entriesOf round customer customerState prices =
     List.map_filter (demandEntry round customer customerState) prices"

lemma demandOf_steps:
  "\<exists>q. foldl (demandFor customer customerState) (worldContext p) prices = worldContext q \<and> worldStep p q
     \<and> pl_Backlog (plant q) = pl_Backlog (plant p)
         @ entriesOf (ms_CurrentRound (rp_state p)) customer customerState prices
     \<and> ms_CurrentRound (rp_state q) = ms_CurrentRound (rp_state p)
     \<and> ms_ActiveTargets (rp_state q) = ms_ActiveTargets (rp_state p)"
proof (induction prices arbitrary: p)
  case Nil
  then show ?case by (intro exI [of _ p]) (simp add: entriesOf_def map_filter_simps)
next
  case (Cons x prices)
  obtain p1 where p1: "demandFor customer customerState (worldContext p) x = worldContext p1" "worldStep p p1"
    "pl_Backlog (plant p1) = pl_Backlog (plant p)
       @ (case demandEntry (ms_CurrentRound (rp_state p)) customer customerState x of None \<Rightarrow> [] | Some e \<Rightarrow> [e])"
    "ms_CurrentRound (rp_state p1) = ms_CurrentRound (rp_state p)"
    "ms_ActiveTargets (rp_state p1) = ms_ActiveTargets (rp_state p)"
    using demandFor_step by blast
  from Cons.IH [of p1] obtain q where
    "foldl (demandFor customer customerState) (worldContext p1) prices = worldContext q" "worldStep p1 q"
    "pl_Backlog (plant q) = pl_Backlog (plant p1) @ entriesOf (ms_CurrentRound (rp_state p1)) customer customerState prices"
    "ms_CurrentRound (rp_state q) = ms_CurrentRound (rp_state p1)"
    "ms_ActiveTargets (rp_state q) = ms_ActiveTargets (rp_state p1)" by blast
  with p1 worldStep_trans [OF p1(2)] show ?case
    by (intro exI [of _ q]) (auto simp: entriesOf_def map_filter_simps split: option.split)
qed

fun entriesOfCustomers ::
  "Definition \<Rightarrow> MapOrder \<Rightarrow> (ProductID \<times> Money) list \<Rightarrow> RoundNumber \<Rightarrow> nat \<Rightarrow> CustomerState list \<Rightarrow> BacklogEntry list" where
  "entriesOfCustomers d order prices round index [] = []"
| "entriesOfCustomers d order prices round index (c # customers) =
    (case customersByID d (cs_CustomerID c) of
       None \<Rightarrow> []
     | Some customer \<Rightarrow> entriesOf round customer c (mapValues (order index) prices))
    @ entriesOfCustomers d order prices round (Suc index) customers"

lemma demandOfCustomers_steps:
  "\<exists>q. demandOfCustomers d order prices index customers (worldContext p) = worldContext q \<and> worldStep p q
     \<and> pl_Backlog (plant q) = pl_Backlog (plant p)
         @ entriesOfCustomers d order prices (ms_CurrentRound (rp_state p)) index customers
     \<and> ms_ActiveTargets (rp_state q) = ms_ActiveTargets (rp_state p)"
proof (induction customers arbitrary: p index)
  case Nil
  then show ?case by (intro exI [of _ p]) simp
next
  case (Cons c customers)
  show ?case
  proof (cases "customersByID d (cs_CustomerID c)")
    case None
    with Cons show ?thesis by simp
  next
    case (Some customer)
    from demandOf_steps [of customer c p "mapValues (order index) prices"] obtain p1 where p1:
      "foldl (demandFor customer c) (worldContext p) (mapValues (order index) prices) = worldContext p1"
      "worldStep p p1" "pl_Backlog (plant p1) = pl_Backlog (plant p)
         @ entriesOf (ms_CurrentRound (rp_state p)) customer c (mapValues (order index) prices)"
      "ms_CurrentRound (rp_state p1) = ms_CurrentRound (rp_state p)"
      "ms_ActiveTargets (rp_state p1) = ms_ActiveTargets (rp_state p)" by blast
    from Cons.IH [of "Suc index" p1] obtain q where q:
      "demandOfCustomers d order prices (Suc index) customers (worldContext p1) = worldContext q" "worldStep p1 q"
      "pl_Backlog (plant q) = pl_Backlog (plant p1)
         @ entriesOfCustomers d order prices (ms_CurrentRound (rp_state p1)) (Suc index) customers"
      "ms_ActiveTargets (rp_state q) = ms_ActiveTargets (rp_state p1)" by blast
    with p1 worldStep_trans [OF p1(2) q(2)] Some show ?thesis by (intro exI [of _ q]) simp
  qed
qed

lemma scenarioWorldUpdate_step:
  "\<exists>q. runWorldUpdate (Some (scenarioWorldUpdate d orders)) p = Inr q \<and> worldStep p q
     \<and> pl_Backlog (plant q) = pl_Backlog (plant p)
         @ entriesOfCustomers d (orders (rp_currentRound p))
             (currentOfferPrices (rp_round p) (mo_Products (sd_ProductionModel d)))
             (ms_CurrentRound (rp_state p)) 0 (ms_Customers (rp_state p))"
proof -
  obtain q where q: "applyDemand d (orders (rp_currentRound p)) (worldContext p) = worldContext q" "worldStep p q"
    "pl_Backlog (plant q) = pl_Backlog (plant p)
         @ entriesOfCustomers d (orders (rp_currentRound p))
             (currentOfferPrices (rp_round p) (mo_Products (sd_ProductionModel d)))
             (ms_CurrentRound (rp_state p)) 0 (ms_Customers (rp_state p))"
    using demandOfCustomers_steps [of d "orders (rp_currentRound p)"
        "currentOfferPrices (rp_round p) (mo_Products (sd_ProductionModel d))" 0 "ms_Customers (rp_state p)" p]
    by (auto simp: applyDemand_def) (simp add: worldContext_def)
  have "wu_currentRound (worldContext p) = rp_currentRound p" by (simp add: worldContext_def)
  with q have "runWorldUpdate (Some (scenarioWorldUpdate d orders)) p = Inr q"
    by (simp add: runWorldUpdate_eq scenarioWorldUpdate_def worldStep_def)
  with q(2,3) show ?thesis by blast
qed

lemma scenario_world:
  "worldKeeps (Some (scenarioWorldUpdate d orders))" "worldSpecs (Some (scenarioWorldUpdate d orders))"
  "\<exists>q. runWorldUpdate (Some (scenarioWorldUpdate d orders)) p = Inr q"
  using scenarioWorldUpdate_step [of d orders] unfolding worldKeeps_def worldSpecs_def worldStep_def by (metis Inr_inject)+

section \<open>A scenario the engine can resolve\<close>

text \<open>What a definition must give for its matches to be resolvable; a check on the data alone.\<close>

definition scenarioOk :: "Definition \<Rightarrow> bool" where
  "scenarioOk d \<longleftrightarrow>
     plantOk (sc_StartingPlant (sd_StartingConditions d))
     \<and> list_all (\<lambda>product. list_all (\<lambda>line. 0 \<le> bl_Quantity line) (pd_BOM product))
         (mo_Products (sd_ProductionModel d))
     \<and> list_all (\<lambda>workstation. 0 \<le> wk_OvertimeCostPerCapacityUnit workstation)
         (mo_Workstations (sd_ProductionModel d))"

lemma byID_in: "byID key items i = Some x \<Longrightarrow> x \<in> set items \<and> key x = i"
proof -
  have "foldl (\<lambda>m item. m(key item \<mapsto> item)) m items i = Some x \<Longrightarrow> x \<in> set items \<and> key x = i \<or> m i = Some x" for m
    by (induction items arbitrary: m) (fastforce split: if_splits)+
  then show "byID key items i = Some x \<Longrightarrow> ?thesis" by (fastforce simp: byID_def)
qed

lemma scenario_resolvable:
  assumes "scenarioOk d"
  shows "resolvable (NewResolver (ResolverOptions d orders)) (InitialState d matchID roles)"
  unfolding resolvable_def
proof (intro conjI)
  have backlog: "backlogOk (filter P es)" if "backlogOk es" for P es
    using that by (auto simp: backlogOk_def)
  show "stateOk (InitialState d matchID roles)"
    using assms backlog
    by (auto simp: stateOk_def InitialState_def Let_def scenarioOk_def plantOk_def clone_simps scenarioCustomerBacklog_def)
  show "\<forall>ws \<in> set (pl_Workstations (ms_Plant (InitialState d matchID roles))). 0 \<le> ws_OvertimeCostPerCapacityUnit ws"
    using assms by (auto simp: InitialState_def Let_def productionWorkstationState_def scenarioOk_def list_all_iff)
  show "bomOk (rsv_productionBOM (NewResolver (ResolverOptions d orders)))"
    using assms
    by (auto simp: bomOk_def NewResolver_def ResolverOptions_def defaultProductionBOM_def scenarioProductionBOM_def
        scenarioOk_def list_all_iff productsByID_def split: option.split dest!: byID_in)
  show "worldKeeps (rsv_worldUpdate (NewResolver (ResolverOptions d orders)))"
    using scenario_world(1) by (simp add: NewResolver_def ResolverOptions_def)
qed

section \<open>Demand does not depend on the order of the visit\<close>

lemma entriesOf_mset:
  "mset (entriesOf round customer c prices) =
     mset (List.map_filter (demandEntry round customer c) prices)"
  by (simp add: entriesOf_def)

lemma map_filter_mset: "mset xs = mset ys \<Longrightarrow> mset (List.map_filter f xs) = mset (List.map_filter f ys)"
proof -
  assume "mset xs = mset ys"
  then have "mset (map (the \<circ> f) (filter (\<lambda>x. f x \<noteq> None) xs)) = mset (map (the \<circ> f) (filter (\<lambda>x. f x \<noteq> None) ys))"
    by (simp only: mset_map mset_filter)
  then show ?thesis by (simp add: map_filter_def)
qed

lemma entriesOfCustomers_mset:
  assumes "validOrder order" "validOrder order'"
  shows "mset (entriesOfCustomers d order prices round index customers) =
     mset (entriesOfCustomers d order' prices round index customers)"
proof (induction customers arbitrary: index)
  case (Cons c customers)
  have "mset (mapValues (order index) prices) = mset prices" "mset (mapValues (order' index) prices) = mset prices"
    using assms by (simp_all add: mapValues_mset validOrder_def)
  then have "mset (entriesOf round customer c (mapValues (order index) prices)) =
      mset (entriesOf round customer c (mapValues (order' index) prices))" for customer
    unfolding entriesOf_def by (intro map_filter_mset) simp
  with Cons show ?case by (simp split: option.split)
qed simp

end
