(* ===== verification/Starter.thy ===== *)
theory Starter
  imports Scenario
begin

text \<open>
  The starter scenario (\<open>internal/scenario/starter.go\<close>): a small pump-and-valve plant.  The data
  is the code's, and the lemmas check what the engine relies on: its matches can be resolved.
\<close>

section \<open>The scenario\<close>

definition StarterID :: ScenarioID where
  "StarterID = ''starter''"

definition StarterMatchSetup :: MatchSetup where
  "StarterMatchSetup =
     \<lparr>su_ID = ''core_four_roles'', su_DisplayName = ''Core Four Roles'', su_RoleRoster = CanonicalRoles\<rparr>"

text \<open>The starting workstations carry only what the literal sets; a match takes its own from the
  production model.\<close>

definition startingStation :: "WorkstationID \<Rightarrow> string \<Rightarrow> CapacityUnits \<Rightarrow> WorkstationState" where
  "startingStation stationID displayName capacity =
     \<lparr>ws_WorkstationID = stationID, ws_DisplayName = displayName, ws_CapacityPerRound = capacity,
      ws_EffectiveCapacityPerRound = 0, ws_StressCapacityLoss = 0, ws_StressBufferUnits = 0,
      ws_StressPenaltyPerExcessUnit = 0, ws_LaborCapacityPerRound = 0, ws_LaborUsed = 0,
      ws_LaborCostPerCapacityUnit = 0, ws_OvertimeUsed = 0, ws_OvertimeCostPerCapacityUnit = 0,
      ws_CapacityUsed = 0\<rparr>"

definition StarterStartingConditions :: StartingConditions where
  "StarterStartingConditions =
     \<lparr>sc_ID = ''prairie_bootstrap'',
      sc_DisplayName = ''Prairie Bootstrap'',
      sc_Description = ''A solvent but cash-tight plant that starts with some WIP, one finished valve, and a small backlog already waiting.'',
      sc_StartingTargets =
        \<lparr>bt_EffectiveRound = 1, bt_ProcurementBudget = 18, bt_ProductionSpendBudget = 14,
         bt_RevenueTarget = 28, bt_CashFloorTarget = 8, bt_DebtCeilingTarget = 15\<rparr>,
      sc_StartingPlant =
        \<lparr>pl_Cash = 24, pl_Debt = 0, pl_DebtCeiling = 15,
         pl_PartsInventory =
          [\<lparr>pi_PartID = ''housing'', pi_OnHandQty = 2, pi_UnitCost = 3\<rparr>,
           \<lparr>pi_PartID = ''seal_kit'', pi_OnHandQty = 2, pi_UnitCost = 2\<rparr>,
           \<lparr>pi_PartID = ''body'', pi_OnHandQty = 3, pi_UnitCost = 2\<rparr>,
           \<lparr>pi_PartID = ''fastener_kit'', pi_OnHandQty = 3, pi_UnitCost = 1\<rparr>],
         pl_WIPInventory =
          [\<lparr>wi_ProductID = ''pump'', wi_WorkstationID = ''assembly'', wi_Quantity = 2, wi_UnitCost = 8\<rparr>],
         pl_FinishedInventory = [\<lparr>fi_ProductID = ''valve'', fi_OnHandQty = 1, fi_UnitCost = 5\<rparr>],
         pl_InspectionHolds = [], pl_InTransitSupply = [], pl_PendingReturns = [],
         pl_Receivables = [], pl_Payables = [],
         pl_Workstations =
          [startingStation ''fabrication'' ''Fabrication'' 7, startingStation ''assembly'' ''Assembly'' 4],
         pl_Backlog =
          [\<lparr>be_CustomerID = ''northbuild'', be_ProductID = ''pump'', be_Quantity = 2,
            be_OriginRound = 0, be_AgeInRounds = 0\<rparr>,
           \<lparr>be_CustomerID = ''prairieflow'', be_ProductID = ''valve'', be_Quantity = 1,
            be_OriginRound = 0, be_AgeInRounds = 0\<rparr>]\<rparr>,
      sc_Customers =
       [\<lparr>sk_ID = ''northbuild'', sk_DisplayName = ''NorthBuild'', sk_Sentiment = 6, sk_PaymentDelayRounds = 2\<rparr>,
        \<lparr>sk_ID = ''prairieflow'', sk_DisplayName = ''PrairieFlow'', sk_Sentiment = 5, sk_PaymentDelayRounds = 1\<rparr>,
        \<lparr>sk_ID = ''agriworks'', sk_DisplayName = ''AgriWorks'', sk_Sentiment = 4, sk_PaymentDelayRounds = 1\<rparr>]\<rparr>"

definition StarterMarketModel :: MarketModel where
  "StarterMarketModel =
     \<lparr>mk_ID = ''regional_weekly_demand'',
      mk_DisplayName = ''Regional Weekly Demand'',
      mk_Description = ''Demand reacts to offered prices and customer sentiment, then rolls into next-round backlog.'',
      mk_Customers =
       [\<lparr>km_ID = ''northbuild'', km_DisplayName = ''NorthBuild'', km_DemandByProduct =
          [(''pump'', \<lparr>dp_ReferencePrice = 14, dp_BaseDemand = 3, dp_PriceSensitivity = 1\<rparr>),
           (''valve'', \<lparr>dp_ReferencePrice = 9, dp_BaseDemand = 2, dp_PriceSensitivity = 1\<rparr>)]\<rparr>,
        \<lparr>km_ID = ''prairieflow'', km_DisplayName = ''PrairieFlow'', km_DemandByProduct =
          [(''pump'', \<lparr>dp_ReferencePrice = 13, dp_BaseDemand = 2, dp_PriceSensitivity = 1\<rparr>),
           (''valve'', \<lparr>dp_ReferencePrice = 8, dp_BaseDemand = 3, dp_PriceSensitivity = 1\<rparr>)]\<rparr>,
        \<lparr>km_ID = ''agriworks'', km_DisplayName = ''AgriWorks'', km_DemandByProduct =
          [(''pump'', \<lparr>dp_ReferencePrice = 12, dp_BaseDemand = 2, dp_PriceSensitivity = 1\<rparr>),
           (''valve'', \<lparr>dp_ReferencePrice = 8, dp_BaseDemand = 2, dp_PriceSensitivity = 1\<rparr>)]\<rparr>],
      mk_DemandAssumptions = \<lparr>da_BacklogExpiryRounds = 2\<rparr>\<rparr>"

definition StarterProductionModel :: ProductionModel where
  "StarterProductionModel =
     \<lparr>mo_ID = ''two_stage_pump_valve_line'',
      mo_DisplayName = ''Two-Stage Pump/Valve Line'',
      mo_Description = ''Two products share fabrication and assembly, with assembly intentionally sized as the tighter capacity pool.'',
      mo_Products =
       [\<lparr>pd_ID = ''pump'', pd_DisplayName = ''Pump'', pd_BOM =
          [\<lparr>bl_PartID = ''housing'', bl_Quantity = 1\<rparr>, \<lparr>bl_PartID = ''seal_kit'', bl_Quantity = 1\<rparr>],
         pd_Route = [''fabrication'', ''assembly''], pd_BaseUnitCost = 8, pd_ScrapRatePct = 0,
         pd_ReworkRatePct = 0, pd_InspectionHoldRatePct = 0, pd_CustomerReturnRatePct = 0,
         pd_InspectionHoldRounds = 0, pd_CustomerReturnDelayRounds = 0\<rparr>,
        \<lparr>pd_ID = ''valve'', pd_DisplayName = ''Valve'', pd_BOM =
          [\<lparr>bl_PartID = ''body'', bl_Quantity = 1\<rparr>, \<lparr>bl_PartID = ''fastener_kit'', bl_Quantity = 1\<rparr>],
         pd_Route = [''fabrication'', ''assembly''], pd_BaseUnitCost = 5, pd_ScrapRatePct = 0,
         pd_ReworkRatePct = 0, pd_InspectionHoldRatePct = 0, pd_CustomerReturnRatePct = 0,
         pd_InspectionHoldRounds = 0, pd_CustomerReturnDelayRounds = 0\<rparr>],
      mo_Parts =
       [\<lparr>pa_ID = ''housing'', pa_DisplayName = ''Housing'', pa_UnitCost = 3, pa_SupplierID = ''forgeco'', pa_LeadTimeRounds = 2,
         pa_MinimumOrderQuantity = 2, pa_PriceBreaks = [\<lparr>sp_MinimumQuantity = 4, sp_UnitCost = 2\<rparr>],
         pa_AlternateSuppliers = [\<lparr>so_ID = ''prairiefast'', so_UnitCost = 5, so_LeadTimeRounds = 1, so_MinimumOrderQuantity = 1, so_PriceBreaks = []\<rparr>]\<rparr>,
        \<lparr>pa_ID = ''seal_kit'', pa_DisplayName = ''Seal Kit'', pa_UnitCost = 2, pa_SupplierID = ''sealworks'', pa_LeadTimeRounds = 1,
         pa_MinimumOrderQuantity = 2, pa_PriceBreaks = [\<lparr>sp_MinimumQuantity = 5, sp_UnitCost = 1\<rparr>],
         pa_AlternateSuppliers = [\<lparr>so_ID = ''prairiefast'', so_UnitCost = 3, so_LeadTimeRounds = 1, so_MinimumOrderQuantity = 1, so_PriceBreaks = []\<rparr>]\<rparr>,
        \<lparr>pa_ID = ''body'', pa_DisplayName = ''Valve Body'', pa_UnitCost = 2, pa_SupplierID = ''forgeco'', pa_LeadTimeRounds = 2,
         pa_MinimumOrderQuantity = 2, pa_PriceBreaks = [\<lparr>sp_MinimumQuantity = 4, sp_UnitCost = 1\<rparr>],
         pa_AlternateSuppliers = [\<lparr>so_ID = ''prairiefast'', so_UnitCost = 4, so_LeadTimeRounds = 1, so_MinimumOrderQuantity = 1, so_PriceBreaks = []\<rparr>]\<rparr>,
        \<lparr>pa_ID = ''fastener_kit'', pa_DisplayName = ''Fastener Kit'', pa_UnitCost = 2, pa_SupplierID = ''fastenall'', pa_LeadTimeRounds = 1,
         pa_MinimumOrderQuantity = 4, pa_PriceBreaks = [\<lparr>sp_MinimumQuantity = 8, sp_UnitCost = 1\<rparr>],
         pa_AlternateSuppliers = []\<rparr>],
      mo_Suppliers =
       [\<lparr>sr_ID = ''forgeco'', sr_DisplayName = ''ForgeCo'', sr_BehaviorScript =
          [\<lparr>sb_ID = ''steady'', sb_DisplayName = ''Steady'', sb_OnTimeDeliveryPct = 82, sb_LateDeliveryRounds = 1\<rparr>,
           \<lparr>sb_ID = ''strained'', sb_DisplayName = ''Strained'', sb_OnTimeDeliveryPct = 62, sb_LateDeliveryRounds = 2\<rparr>]\<rparr>,
        \<lparr>sr_ID = ''prairiefast'', sr_DisplayName = ''PrairieFast'', sr_BehaviorScript =
          [\<lparr>sb_ID = ''expedite'', sb_DisplayName = ''Expedite'', sb_OnTimeDeliveryPct = 97, sb_LateDeliveryRounds = 1\<rparr>,
           \<lparr>sb_ID = ''premium_peak'', sb_DisplayName = ''Premium Peak'', sb_OnTimeDeliveryPct = 92, sb_LateDeliveryRounds = 1\<rparr>]\<rparr>,
        \<lparr>sr_ID = ''sealworks'', sr_DisplayName = ''SealWorks'', sr_BehaviorScript =
          [\<lparr>sb_ID = ''stable'', sb_DisplayName = ''Stable'', sb_OnTimeDeliveryPct = 94, sb_LateDeliveryRounds = 1\<rparr>,
           \<lparr>sb_ID = ''choppy'', sb_DisplayName = ''Choppy'', sb_OnTimeDeliveryPct = 74, sb_LateDeliveryRounds = 2\<rparr>]\<rparr>,
        \<lparr>sr_ID = ''fastenall'', sr_DisplayName = ''FastenAll'', sr_BehaviorScript =
          [\<lparr>sb_ID = ''routine'', sb_DisplayName = ''Routine'', sb_OnTimeDeliveryPct = 90, sb_LateDeliveryRounds = 1\<rparr>,
           \<lparr>sb_ID = ''backordered'', sb_DisplayName = ''Backordered'', sb_OnTimeDeliveryPct = 70, sb_LateDeliveryRounds = 2\<rparr>]\<rparr>],
      mo_Workstations =
       [\<lparr>wk_ID = ''fabrication'', wk_DisplayName = ''Fabrication'', wk_CapacityPerRound = 7, wk_CostPerUnit = 2,
         wk_StressBufferUnits = 2, wk_StressPenaltyPerExcessUnit = 1, wk_LaborCapacityPerRound = 6,
         wk_LaborCostPerCapacityUnit = 1, wk_OvertimeCostPerCapacityUnit = 2\<rparr>,
        \<lparr>wk_ID = ''assembly'', wk_DisplayName = ''Assembly'', wk_CapacityPerRound = 4, wk_CostPerUnit = 3,
         wk_StressBufferUnits = 1, wk_StressPenaltyPerExcessUnit = 1, wk_LaborCapacityPerRound = 3,
         wk_LaborCostPerCapacityUnit = 1, wk_OvertimeCostPerCapacityUnit = 3\<rparr>],
      mo_Bottleneck =
        \<lparr>bn_WorkstationID = ''assembly'',
         bn_Summary = ''Assembly is the chronic near-term bottleneck, so overselling or over-releasing work tends to inflate WIP and burn cash faster than throughput improves.''\<rparr>\<rparr>"

definition StarterFinanceModel :: FinanceModel where
  "StarterFinanceModel =
     \<lparr>fm_ID = ''net30-lite-weekly'',
      fm_DisplayName = ''Net-30 Lite Weekly Cash Timing'',
      fm_Description = ''Customer receipts settle on customer-specific terms, while supplier invoices and payroll settle one round later to keep near-term cash pressure visible.'',
      fm_ReceivableDelayRounds = 1, fm_PayableDelayRounds = 1, fm_PayrollDelayRounds = 1\<rparr>"

definition Starter :: Definition where
  "Starter = NewDefinition StarterID ''Prairie Pump Starter Plant''
     ''A small pump-and-valve plant with constrained final assembly, limited cash, and enough demand pressure to create local-vs-global tension immediately.''
     StarterMatchSetup StarterStartingConditions StarterMarketModel StarterProductionModel StarterFinanceModel"

section \<open>The starter scenario can be played\<close>

lemma Starter_parts [simp]:
  "sd_ID Starter = StarterID" "sd_StartingConditions Starter = StarterStartingConditions"
  "sd_MarketModel Starter = StarterMarketModel" "sd_ProductionModel Starter = StarterProductionModel"
  "sd_FinanceModel Starter = StarterFinanceModel" "sd_DefaultHistoryLimit Starter = 10"
  by (simp_all add: Starter_def NewDefinition_def)

lemma starter_ok: "scenarioOk Starter"
  by (simp add: scenarioOk_def StarterStartingConditions_def StarterProductionModel_def plantOk_def
      partsOk_def wipOk_def finishedOk_def holdsOk_def lotsOk_def returnsOk_def amountsOk_def backlogOk_def)

definition starterResolver :: "(RoundNumber \<Rightarrow> MapOrder) \<Rightarrow> Resolver" where
  "starterResolver orders = NewResolver (ResolverOptions Starter orders)"

lemma starter_resolvable: "resolvable (starterResolver orders) (InitialState Starter matchID roles)"
  unfolding starterResolver_def by (rule scenario_resolvable [OF starter_ok])

lemma starter_world:
  "worldSpecs (rsv_worldUpdate (starterResolver orders))"
  "\<exists>q. runWorldUpdate (rsv_worldUpdate (starterResolver orders)) p = Inr q"
  using scenario_world(2,3) by (simp_all add: starterResolver_def NewResolver_def ResolverOptions_def)

end
