(* ===== verification/Lookups.thy ===== *)
theory Lookups
  imports Starter
begin

text \<open>
  The lookups a scenario answers (\<open>internal/scenario/lookups.go\<close>), for the tools of an AI player
  and for the browser of a human one, and the registry of scenarios
  (\<open>internal/scenario/registry.go\<close>).
\<close>

section \<open>Lookups\<close>

record ValidSuppliersLookup =
  vl_PartID :: PartID
  vl_DisplayName :: string
  vl_Suppliers :: "SupplierID list"

record ProductRouteLookup =
  rl_ProductID :: ProductID
  rl_DisplayName :: string
  rl_Route :: "WorkstationID list"
  rl_BottleneckID :: WorkstationID
  rl_BottleneckWhy :: string

record ProductBOMLookup =
  bo_ProductID :: ProductID
  bo_DisplayName :: string
  bo_BOM :: "BOMLine list"
  bo_BaseUnitCost :: Money

record CustomerDemandProfileLookup =
  cl_CustomerID :: CustomerID
  cl_CustomerName :: string
  cl_ProductID :: ProductID
  cl_ProductName :: string
  cl_ReferencePrice :: Money
  cl_BaseDemand :: Units
  cl_PriceSensitivity :: int

record DemandProfileReference =
  df_CustomerID :: CustomerID
  df_CustomerName :: string
  df_ProductID :: ProductID
  df_ProductName :: string

datatype lookupError =
    UnknownPartID PartID
  | UnknownProductID ProductID
  | UnknownCustomerID CustomerID
  | NoDemandProfile CustomerID ProductID
  | LookupsNotConfigured
  | UnsupportedTool string

record LookupToolArgument =
  ta_Name :: string
  ta_Description :: string
  ta_Required :: bool

record LookupToolSpec =
  ts_Name :: string
  ts_Description :: string
  ts_Arguments :: "LookupToolArgument list"

record LookupToolCall =
  tc_ToolName :: string
  tc_Arguments :: "(string \<times> string) list"

record LookupToolResult =
  tr_ToolName :: string
  tr_Arguments :: "(string \<times> string) list"
  tr_Result :: payload

definition LookupTools :: "LookupToolSpec list" where
  "LookupTools =
     [\<lparr>ts_Name = ''list_valid_suppliers'',
       ts_Description = ''Return the valid suppliers for one part in the active scenario.'',
       ts_Arguments =
        [\<lparr>ta_Name = ''part_id'', ta_Description = ''Canonical part identifier.'', ta_Required = True\<rparr>]\<rparr>,
      \<lparr>ts_Name = ''show_product_route'',
       ts_Description = ''Return the ordered workstation route for one product.'',
       ts_Arguments =
        [\<lparr>ta_Name = ''product_id'', ta_Description = ''Canonical product identifier.'', ta_Required = True\<rparr>]\<rparr>,
      \<lparr>ts_Name = ''show_product_bom'',
       ts_Description = ''Return the bill of materials for one product.'',
       ts_Arguments =
        [\<lparr>ta_Name = ''product_id'', ta_Description = ''Canonical product identifier.'', ta_Required = True\<rparr>]\<rparr>,
      \<lparr>ts_Name = ''show_customer_demand_profile'',
       ts_Description = ''Return the known demand settings for one customer and product pair.'',
       ts_Arguments =
        [\<lparr>ta_Name = ''customer_id'', ta_Description = ''Canonical customer identifier.'', ta_Required = True\<rparr>,
         \<lparr>ta_Name = ''product_id'', ta_Description = ''Canonical product identifier.'', ta_Required = True\<rparr>]\<rparr>]"

text \<open>The order of a browsable list: by display name, then by id.\<close>

definition nameCompare :: "('a \<Rightarrow> string) \<Rightarrow> ('a \<Rightarrow> string) \<Rightarrow> 'a \<Rightarrow> 'a \<Rightarrow> int" where
  "nameCompare name key left right =
    (let byName = compare_go (name left) (name right)
     in if byName \<noteq> 0 then byName else compare_go (key left) (key right))"

definition Definition_Part :: "Definition \<Rightarrow> PartID \<Rightarrow> Part option" where
  "Definition_Part d partID = partsByID d partID"

definition Definition_Parts :: "Definition \<Rightarrow> Part list" where
  "Definition_Parts d = sort_by (nameCompare pa_DisplayName pa_ID) (mo_Parts (sd_ProductionModel d))"

definition Definition_Product :: "Definition \<Rightarrow> ProductID \<Rightarrow> Product option" where
  "Definition_Product d productID = productsByID d productID"

definition Definition_Products :: "Definition \<Rightarrow> Product list" where
  "Definition_Products d = sort_by (nameCompare pd_DisplayName pd_ID) (mo_Products (sd_ProductionModel d))"

definition ScenarioDisplayName :: "Definition \<Rightarrow> string" where
  "ScenarioDisplayName d = sd_DisplayName d"

definition Definition_Workstations :: "Definition \<Rightarrow> Workstation list" where
  "Definition_Workstations d =
     sort_by (nameCompare wk_DisplayName wk_ID) (mo_Workstations (sd_ProductionModel d))"

definition Definition_Workstation :: "Definition \<Rightarrow> WorkstationID \<Rightarrow> Workstation option" where
  "Definition_Workstation d workstationID = workstationsByID d workstationID"

definition Definition_Customer :: "Definition \<Rightarrow> CustomerID \<Rightarrow> CustomerMarket option" where
  "Definition_Customer d customerID = customersByID d customerID"

definition demandReference :: "Definition \<Rightarrow> CustomerMarket \<Rightarrow> ProductID \<Rightarrow> DemandProfileReference" where
  "demandReference d customer productID =
     \<lparr>df_CustomerID = km_ID customer,
      df_CustomerName = (case customersByID d (km_ID customer) of
          Some canonical \<Rightarrow> km_DisplayName canonical | None \<Rightarrow> km_DisplayName customer),
      df_ProductID = productID,
      df_ProductName = (case productsByID d productID of
          Some product \<Rightarrow> pd_DisplayName product | None \<Rightarrow> productID)\<rparr>"

definition referenceCompare :: "DemandProfileReference \<Rightarrow> DemandProfileReference \<Rightarrow> int" where
  "referenceCompare left right =
    (let byCustomer = compare_go (df_CustomerName left) (df_CustomerName right);
         byProduct = compare_go (df_ProductName left) (df_ProductName right);
         byCustomerID = compare_go (df_CustomerID left) (df_CustomerID right)
     in if byCustomer \<noteq> 0 then byCustomer
        else if byProduct \<noteq> 0 then byProduct
        else if byCustomerID \<noteq> 0 then byCustomerID
        else compare_go (df_ProductID left) (df_ProductID right))"

definition DemandProfileReferences :: "Definition \<Rightarrow> DemandProfileReference list" where
  "DemandProfileReferences d =
     sort_by referenceCompare
       (concat (map (\<lambda>customer.
          map (demandReference d customer) (sort (map fst (km_DemandByProduct customer))))
        (mk_Customers (sd_MarketModel d))))"

definition ListValidSuppliers :: "Definition \<Rightarrow> PartID \<Rightarrow> lookupError + ValidSuppliersLookup" where
  "ListValidSuppliers d partID =
    (case Definition_Part d partID of
       None \<Rightarrow> Inl (UnknownPartID partID)
     | Some part \<Rightarrow> Inr \<lparr>vl_PartID = pa_ID part, vl_DisplayName = pa_DisplayName part,
         vl_Suppliers = map so_ID (Part_suppliers part)\<rparr>)"

definition ShowProductRoute :: "Definition \<Rightarrow> ProductID \<Rightarrow> lookupError + ProductRouteLookup" where
  "ShowProductRoute d productID =
    (case Definition_Product d productID of
       None \<Rightarrow> Inl (UnknownProductID productID)
     | Some product \<Rightarrow> Inr \<lparr>rl_ProductID = pd_ID product, rl_DisplayName = pd_DisplayName product,
         rl_Route = pd_Route product,
         rl_BottleneckID = bn_WorkstationID (mo_Bottleneck (sd_ProductionModel d)),
         rl_BottleneckWhy = bn_Summary (mo_Bottleneck (sd_ProductionModel d))\<rparr>)"

definition ShowProductBOM :: "Definition \<Rightarrow> ProductID \<Rightarrow> lookupError + ProductBOMLookup" where
  "ShowProductBOM d productID =
    (case Definition_Product d productID of
       None \<Rightarrow> Inl (UnknownProductID productID)
     | Some product \<Rightarrow> Inr \<lparr>bo_ProductID = pd_ID product, bo_DisplayName = pd_DisplayName product,
         bo_BOM = pd_BOM product, bo_BaseUnitCost = pd_BaseUnitCost product\<rparr>)"

definition ShowCustomerDemandProfile ::
  "Definition \<Rightarrow> CustomerID \<Rightarrow> ProductID \<Rightarrow> lookupError + CustomerDemandProfileLookup" where
  "ShowCustomerDemandProfile d customerID productID =
    (case Definition_Customer d customerID of
       None \<Rightarrow> Inl (UnknownCustomerID customerID)
     | Some customer \<Rightarrow>
        (case map_of (km_DemandByProduct customer) productID of
           None \<Rightarrow> Inl (NoDemandProfile customerID productID)
         | Some profile \<Rightarrow> Inr
             \<lparr>cl_CustomerID = km_ID customer, cl_CustomerName = km_DisplayName customer,
              cl_ProductID = productID,
              cl_ProductName = (case Definition_Product d productID of
                  Some product \<Rightarrow> pd_DisplayName product | None \<Rightarrow> productID),
              cl_ReferencePrice = dp_ReferencePrice profile,
              cl_BaseDemand = dp_BaseDemand profile,
              cl_PriceSensitivity = dp_PriceSensitivity profile\<rparr>))"

text \<open>A read of an argument the call does not have gives the empty string.\<close>

definition callArgument :: "LookupToolCall \<Rightarrow> string \<Rightarrow> string" where
  "callArgument call name = (case map_of (tc_Arguments call) name of Some v \<Rightarrow> v | None \<Rightarrow> [])"

text \<open>A \<open>BOMLine\<close> in a result, as its fields.\<close>

definition bomLineValue :: "BOMLine \<Rightarrow> any" where
  "bomLineValue line = AMap [(''PartID'', AString (bl_PartID line)), (''Quantity'', AInt (bl_Quantity line))]"

definition ExecuteLookup :: "Definition \<Rightarrow> LookupToolCall \<Rightarrow> lookupError + LookupToolResult" where
  "ExecuteLookup d call =
    (let result = (\<lambda>r. \<lparr>tr_ToolName = tc_ToolName call, tr_Arguments = tc_Arguments call, tr_Result = r\<rparr>)
     in if sd_ID d = [] then Inl LookupsNotConfigured
     else if tc_ToolName call = ''list_valid_suppliers''
     then (case ListValidSuppliers d (callArgument call ''part_id'') of
             Inl err \<Rightarrow> Inl err
           | Inr lookup \<Rightarrow> Inr (result
               [(''part_id'', AString (vl_PartID lookup)),
                (''display_name'', AString (vl_DisplayName lookup)),
                (''suppliers'', AList (map AString (vl_Suppliers lookup)))]))
     else if tc_ToolName call = ''show_product_route''
     then (case ShowProductRoute d (callArgument call ''product_id'') of
             Inl err \<Rightarrow> Inl err
           | Inr lookup \<Rightarrow> Inr (result
               [(''product_id'', AString (rl_ProductID lookup)),
                (''display_name'', AString (rl_DisplayName lookup)),
                (''route'', AList (map AString (rl_Route lookup))),
                (''bottleneck_id'', AString (rl_BottleneckID lookup))]))
     else if tc_ToolName call = ''show_product_bom''
     then (case ShowProductBOM d (callArgument call ''product_id'') of
             Inl err \<Rightarrow> Inl err
           | Inr lookup \<Rightarrow> Inr (result
               [(''product_id'', AString (bo_ProductID lookup)),
                (''display_name'', AString (bo_DisplayName lookup)),
                (''bom'', AList (map bomLineValue (bo_BOM lookup)))]))
     else if tc_ToolName call = ''show_customer_demand_profile''
     then (case ShowCustomerDemandProfile d (callArgument call ''customer_id'') (callArgument call ''product_id'') of
             Inl err \<Rightarrow> Inl err
           | Inr lookup \<Rightarrow> Inr (result
               [(''customer_id'', AString (cl_CustomerID lookup)),
                (''customer_name'', AString (cl_CustomerName lookup)),
                (''product_id'', AString (cl_ProductID lookup)),
                (''reference_price'', AInt (cl_ReferencePrice lookup)),
                (''base_demand'', AInt (cl_BaseDemand lookup)),
                (''price_sensitivity'', AInt (cl_PriceSensitivity lookup))]))
     else Inl (UnsupportedTool (tc_ToolName call)))"

section \<open>The registry\<close>

type_synonym registry = "(ScenarioID \<times> Definition) list"

datatype registryError = EmptyScenarioID | AlreadyRegistered ScenarioID

definition Register :: "Definition \<Rightarrow> registry \<Rightarrow> registryError + registry" where
  "Register d registry =
    (if sd_ID d = [] then Inl EmptyScenarioID
     else if map_of registry (sd_ID d) \<noteq> None then Inl (AlreadyRegistered (sd_ID d))
     else Inr (registry @ [(sd_ID d, d)]))"

text \<open>\<open>None\<close> is a panic.\<close>

definition MustRegister :: "Definition \<Rightarrow> registry \<Rightarrow> registry option" where
  "MustRegister d registry = (case Register d registry of Inl _ \<Rightarrow> None | Inr registry \<Rightarrow> Some registry)"

definition Lookup :: "registry \<Rightarrow> ScenarioID \<Rightarrow> Definition option" where
  "Lookup registry scenarioID = map_of registry scenarioID"

definition MustLookup :: "registry \<Rightarrow> ScenarioID \<Rightarrow> Definition option" where
  "MustLookup registry scenarioID = Lookup registry scenarioID"

definition DefaultID :: ScenarioID where
  "DefaultID = StarterID"

definition DefaultScenario :: "registry \<Rightarrow> Definition option" where
  "DefaultScenario registry = MustLookup registry DefaultID"

definition RegisteredIDs :: "registry \<Rightarrow> ScenarioID list" where
  "RegisteredIDs registry = sort (map fst registry)"

text \<open>The registry when the program has started: \<open>init\<close> registers the starter scenario.\<close>

definition startRegistry :: "registry option" where
  "startRegistry = MustRegister Starter []"

section \<open>Facts\<close>

text \<open>What is registered, by a run of registrations that ignores the ones that fail.\<close>

fun registerAll :: "Definition list \<Rightarrow> registry \<Rightarrow> registry" where
  "registerAll [] registry = registry"
| "registerAll (d # ds) registry =
     registerAll ds (case Register d registry of Inl _ \<Rightarrow> registry | Inr registry \<Rightarrow> registry)"

lemma Register_keys:
  "Register d registry = Inr registry' \<Longrightarrow> distinct (map fst registry) \<Longrightarrow>
     distinct (map fst registry') \<and> map_of registry' = (map_of registry)(sd_ID d \<mapsto> d)"
proof -
  assume reg: "Register d registry = Inr registry'" "distinct (map fst registry)"
  then have new: "map_of registry (sd_ID d) = None" "registry' = registry @ [(sd_ID d, d)]"
    by (cases "map_of registry (sd_ID d)"; simp add: Register_def split: if_splits)+
  from new(1) reg(2) have "distinct (map fst registry')" by (simp add: new(2) map_of_eq_None_iff)
  moreover have "map_of registry' = (map_of registry)(sd_ID d \<mapsto> d)"
    using new(1) by (simp add: new(2) fun_eq_iff map_add_def split: option.split)
  ultimately show ?thesis ..
qed

lemma Part_supplier_listed:
  "Part_supplier p s \<noteq> None \<longleftrightarrow> s \<in> set (map so_ID (Part_suppliers p))"
  using find_first_None [of "\<lambda>item. so_ID item = s" "Part_suppliers p"]
  by (auto simp: Part_supplier_def image_iff)

lemma indexOf_nth:
  "distinct xs \<Longrightarrow> k < length xs \<Longrightarrow> indexOf xs (xs ! k) = int k"
proof (induction xs arbitrary: k)
  case (Cons x xs)
  show ?case
  proof (cases k)
    case (Suc j)
    with Cons show ?thesis by (auto simp: nth_mem)
  qed simp
qed simp

text \<open>Following the engine's route from one station to the next, for at most \<open>n\<close> stations.\<close>

fun followRoute :: "ProductionRouteHook \<Rightarrow> (WorkstationID \<Rightarrow> ProductionRouteContext) \<Rightarrow> nat \<Rightarrow> WorkstationID \<Rightarrow> WorkstationID list option" where
  "followRoute route ctx 0 w = None"
| "followRoute route ctx (Suc n) w =
    (let step = route (ctx w)
     in if prs_Finished step then Some [w]
        else map_option ((#) w) (followRoute route ctx n (prs_NextWorkstationID step)))"

lemma followRoute_scenario:
  assumes "productsByID d productID = Some product" "distinct (pd_Route product)"
    and "k < length (pd_Route product)" "\<And>w. prc_ProductID (ctx w) = productID"
    "\<And>w. prc_CurrentStationID (ctx w) = w"
  shows "followRoute (scenarioProductionRoute d) ctx (length (pd_Route product) - k) (pd_Route product ! k)
     = Some (drop k (pd_Route product))"
  using assms(3)
proof (induction "length (pd_Route product) - Suc k" arbitrary: k)
  case 0
  then have last: "int k = int (length (pd_Route product)) - 1" "length (pd_Route product) - k = Suc 0" by simp_all
  then have "drop k (pd_Route product) = [pd_Route product ! k]"
    using 0 by (simp add: Cons_nth_drop_Suc [symmetric])
  moreover have "pd_Route product \<noteq> []" using 0 by auto
  ultimately show ?case using last 0 assms(1,2,4,5)
    by (simp add: scenarioProductionRoute_def indexOf_nth Let_def)
next
  case (Suc n)
  then have k: "Suc k < length (pd_Route product)" "n = length (pd_Route product) - Suc (Suc k)" by simp_all
  from Suc.hyps(1) [OF k(2,1)] have IH: "followRoute (scenarioProductionRoute d) ctx
      (length (pd_Route product) - Suc k) (pd_Route product ! Suc k) = Some (drop (Suc k) (pd_Route product))" .
  have "length (pd_Route product) - k = Suc (length (pd_Route product) - Suc k)" using k by simp
  moreover have "nat (int k + 1) = Suc k" by simp
  ultimately show ?case
    using Suc.prems k(1) assms(1,2,4,5) IH
    by (simp add: scenarioProductionRoute_def indexOf_nth Let_def Cons_nth_drop_Suc [symmetric])
qed

end
