(* ===== verification/MatchProperties.thy ===== *)
theory MatchProperties
  imports MatchRunner Lookups
begin

text \<open>
  The properties of the parts that play a match: the concurrent collection of actions, the match
  loop over the memory store, and the scenarios.
\<close>

section \<open>A match of the starter scenario\<close>

text \<open>The memory store behind the port of the match loop.\<close>

definition memoryOps :: "Store matchStore" where
  "memoryOps = \<lparr>mst_CreateMatch = CreateMatch, mst_CurrentState = CurrentState, mst_CommitRound = CommitRound\<rparr>"

lemma memory_ops: "memory.ops = memoryOps"
  by (simp add: memory.ops_def memoryOps_def)

text \<open>Four AI-backed players whose provider times out in every round.\<close>

definition silentPlayer :: Player where
  "silentPlayer = llmPlayer (Some (\<lambda>done request. Inl (PlayerWrap ''request'' ErrProviderTimeout))) None"

definition demoRoles :: "RoleAssignment list" where
  "demoRoles = map (\<lambda>role. \<lparr>ra_RoleID = role, ra_PlayerID = [], ra_IsHuman = False,
     ra_Provider = ''openai'', ra_ModelName = ''m''\<rparr>) CanonicalRoles"

definition sliceOrder :: MapOrder where
  "sliceOrder site n = [0..<n]"

definition demoRunner :: MatchRunner where
  "demoRunner = \<lparr>mr_Players = (\<lambda>_. Some silentPlayer), mr_clock = int, mr_orders = (\<lambda>_. sliceOrder),
     mr_Resolver = Some (starterResolver (\<lambda>_. sliceOrder)), mr_Random = Some \<lparr>rnd_tape = (\<lambda>_. 0), rnd_pos = 0\<rparr>\<rparr>"

definition demoState :: MatchState where
  "demoState = InitialState Starter ''m1'' demoRoles"

lemma silent_dependable: "dependable stations a silentPlayer"
  by (simp add: dependable_def silentPlayer_def llmPlayer_def llmSubmitRound_def)

lemma demo_staffed: "staffed (mr_Players demoRunner) demoState"
proof -
  have "roleIDs (ms_Roles demoState) = CanonicalRoles"
    by (simp add: demoState_def InitialState_def Let_def demoRoles_def roleIDs_def o_def)
  then show ?thesis
    using silent_dependable distinct_CanonicalRoles by (simp add: staffed_def demoRunner_def)
qed

lemma demo_state:
  "ms_MatchID demoState = ''m1''" "ms_CurrentRound demoState = 1" "targetsOk (ms_ActiveTargets demoState)"
  "rh_RecentRounds (ms_History demoState) = []" "ms_Roles demoState = demoRoles"
  "netCash (ms_Plant demoState) = pl_Cash (sc_StartingPlant StarterStartingConditions) - pl_Debt (sc_StartingPlant StarterStartingConditions)"
  by (simp_all add: demoState_def InitialState_def Let_def targetsOk_def StarterStartingConditions_def
      netCash_def clone_simps)

lemma demo_runner:
  "mr_Resolver demoRunner = Some (starterResolver (\<lambda>_. sliceOrder))"
  "resolvable (starterResolver orders) demoState" "mr_Random demoRunner \<noteq> None"
  "worldTotal (rsv_worldUpdate (starterResolver orders))"
  by (simp_all add: demoRunner_def demoState_def starter_resolvable worldTotal_def starter_world)

section \<open>Playing a match\<close>

text \<open>The loop of \<open>Play\<close> starts from a resolvable state of the same match, round, plant and history.\<close>

lemma Play_start:
  assumes "Play runner memoryOps store initial rounds = Inr (err, ps)" "mr_Resolver runner = Some resolver"
    "resolvable resolver initial"
  obtains start where "playRounds runner resolver memory.ops 0 (nat rounds) start = (err, ps)" "0 < rounds"
    "resolvable resolver (ps_state start)" "ps_results start = []"
    "ms_MatchID (ps_state start) = ms_MatchID initial" "ms_CurrentRound (ps_state start) = ms_CurrentRound initial"
    "ms_Plant (ps_state start) = ms_Plant initial" "ms_Roles (ps_state start) = ms_Roles initial"
    "openStore memoryOps (MatchState_Clone initial) store = Inr (ps_store start)"
proof -
  obtain random store' where random: "mr_Random runner = Some random" "0 < rounds"
    "openStore memoryOps (MatchState_Clone initial) store = Inr store'"
    using assms(1,2) by (auto simp: Play_def Let_def split: if_splits option.splits sum.splits)
  define start where "start = \<lparr>ps_state = prepareCollectionState (MatchState_Clone initial),
     ps_previous = previousAcceptedActions (MatchState_Clone initial), ps_results = [],
     ps_store = store', ps_random = Some random, ps_emitted = []\<rparr>"
  have "playRounds runner resolver memory.ops 0 (nat rounds) start = (err, ps)"
    using assms(1,2) random by (simp add: Play_def Let_def start_def memory_ops)
  moreover have "resolvable resolver (ps_state start)"
    using assms(3) by (simp add: start_def resolvable_def stateOk_def MatchState_Clone_eq)
  ultimately show thesis
    using that random by (simp add: start_def MatchState_Clone_eq)
qed


text \<open>A new match is known to the store once it is opened.\<close>

lemma openStore_new:
  assumes "rh_RecentRounds (ms_History initial) = []" "ms_MatchID initial \<noteq> []"
    and "\<forall>st. store = Some st \<longrightarrow> storeOk st \<and> matchLog st (ms_MatchID initial) = None"
  shows "\<exists>store'. openStore memoryOps (MatchState_Clone initial) store = Inr store'
     \<and> (store' = None \<longleftrightarrow> store = None)
     \<and> (\<forall>st. store' = Some st \<longrightarrow> storeOk st \<and> matchLog st (ms_MatchID initial) = Some []
          \<and> EventTimeline st (ms_MatchID initial) = Inr [])"
proof (cases store)
  case (Some st)
  let ?s = "MatchState_Clone initial"
  have s: "ms_MatchID ?s = ms_MatchID initial" "rh_RecentRounds (ms_History ?s) = []"
    using assms(1) by (simp_all add: clone_simps RoundHistory_Clone_def cloneSlice_def)
  have st: "storeOk st" "matchLog st (ms_MatchID initial) = None" using assms(3) Some by simp_all
  then have "CurrentState st (ms_MatchID initial) = Inl MatchNotFound"
    by (simp add: CurrentState_def matchLog_def split: option.split)
  moreover obtain st' where c: "CreateMatch ?s st = Inr st'"
    using st s assms(2) by (auto simp: CreateMatch_Inr matchLog_def)
  moreover have ok: "storeOk st'" using memory.create_ok [OF c st(1)] s by simp
  moreover have log: "matchLog st' (ms_MatchID initial) = Some []"
    using memory.create_log [OF c] s by auto
  ultimately show ?thesis
    using memory.timeline_log [OF ok log] Some s by (simp add: openStore_def memoryOps_def)
qed (simp add: openStore_def)

lemma Play_new:
  assumes "0 < rounds" "mr_Resolver runner = Some resolver" "mr_Random runner \<noteq> None"
    and "resolvable resolver initial" "worldSpecs (rsv_worldUpdate resolver)" "worldTotal (rsv_worldUpdate resolver)"
    and "staffed (mr_Players runner) initial" "targetsOk (ms_ActiveTargets initial)"
    and match: "ms_MatchID initial \<noteq> []" "0 < ms_CurrentRound initial" "rh_RecentRounds (ms_History initial) = []"
    and store: "\<forall>st. store = Some st \<longrightarrow> storeOk st \<and> matchLog st (ms_MatchID initial) = None"
  shows "\<exists>ps. Play runner memoryOps store initial rounds = Inr (None, ps)"
proof -
  obtain random where random: "mr_Random runner = Some random" using assms(3) by blast
  obtain store' where store': "openStore memoryOps (MatchState_Clone initial) store = Inr store'"
    "\<forall>st. store' = Some st \<longrightarrow> storeOk st \<and> matchLog st (ms_MatchID initial) = Some []"
    using openStore_new [OF match(3,1) store] by blast
  define start where "start = \<lparr>ps_state = prepareCollectionState (MatchState_Clone initial),
     ps_previous = previousAcceptedActions (MatchState_Clone initial), ps_results = [],
     ps_store = store', ps_random = Some random, ps_emitted = []\<rparr>"
  have "previousAcceptedActions (MatchState_Clone initial) = Map.empty"
    using match(3) by (simp add: previousAcceptedActions_def clone_simps RoundHistory_Clone_def cloneSlice_def)
  then have "memory.ready resolver start"
    using assms(4,8) match store'(2)
    by (simp add: memory.ready_def start_def resolvable_def stateOk_def MatchState_Clone_eq
        fallbackReady_def prevOk_def)
  moreover have "staffed (mr_Players runner) (ps_state start)"
    using assms(7) by (simp add: staffed_def start_def MatchState_Clone_eq)
  ultimately obtain ps where "playRounds runner resolver memory.ops 0 (nat rounds) start = (None, ps)"
    using memory.playRounds_ready assms(5,6) by blast
  with assms(1,2) random store'(1) show ?thesis
    by (simp add: Play_def Let_def start_def memory_ops)
qed

lemma NewStore_empty: "storeOk (NewStore l)" "matchLog (NewStore l) m = None"
  by (simp_all add: storeOk_def NewStore_def matchLog_def)

lemma demo_plays: "\<exists>ps. Play demoRunner memoryOps (Some (NewStore 3)) demoState 3 = Inr (None, ps)"
  using demo_runner(1,3) demo_runner(2) demo_runner(4) demo_staffed demo_state starter_world(1) NewStore_empty
  by (intro Play_new [of _ _ "starterResolver (\<lambda>_. sliceOrder)"]) simp_all


text \<open>C5: Whoever plays and wherever the match is stored, the rounds \<open>Play\<close> returns are
  consecutive from the current one on, all of those asked for when there is no error, the match
  is left at the round after them, and cash net of debt has moved by exactly what their metrics
  report in receipts and disbursements.\<close>

theorem match_ledger:
  assumes "Play runner memoryOps store initial rounds = Inr (err, ps)"
    "mr_Resolver runner = Some resolver" "resolvable resolver initial" "worldSpecs (rsv_worldUpdate resolver)"
  shows "map (rr_Round \<circ> res_Round) (ps_results ps) =
       map (\<lambda>k. ms_CurrentRound initial + int k) [0..<length (ps_results ps)]
     \<and> (err = None \<longrightarrow> int (length (ps_results ps)) = rounds)
     \<and> ms_CurrentRound (ps_state ps) = ms_CurrentRound initial + int (length (ps_results ps))
     \<and> netCash (ms_Plant (ps_state ps)) = netCash (ms_Plant initial) + sum_of netReceipts (ps_results ps)"
proof -
  obtain start where start: "playRounds runner resolver memory.ops 0 (nat rounds) start = (err, ps)" "0 < rounds"
    "resolvable resolver (ps_state start)" "ps_results start = []"
    "ms_CurrentRound (ps_state start) = ms_CurrentRound initial" "ms_Plant (ps_state start) = ms_Plant initial"
    using assms(1-3) by (rule Play_start)
  from memory.playRounds_continue [OF start(1,3) assms(4)] start show ?thesis by fastforce
qed

lemma match_ledger_witness:
  "\<exists>ps. Play demoRunner memoryOps (Some (NewStore 3)) demoState 3 = Inr (None, ps)
     \<and> ms_CurrentRound (ps_state ps) = 4 \<and> map (rr_Round \<circ> res_Round) (ps_results ps) = [1, 2, 3]
     \<and> netCash (ms_Plant (ps_state ps)) = netCash (ms_Plant demoState) + sum_of netReceipts (ps_results ps)"
proof -
  obtain ps where play: "Play demoRunner memoryOps (Some (NewStore 3)) demoState 3 = Inr (None, ps)"
    using demo_plays by blast
  note m = match_ledger [OF play demo_runner(1,2) starter_world(1)]
  then have "length (ps_results ps) = 3" by simp
  with m play demo_state(2) show ?thesis by (simp add: upt_rec)
qed

text \<open>The event timeline of a stored match grows, over a call of \<open>Play\<close>, by exactly the
  events of the returned rounds, in order, also when the call ends in an error; the store stays
  well-formed.\<close>

theorem match_timeline:
  assumes "Play runner memoryOps (Some st) initial rounds = Inr (err, ps)"
    "mr_Resolver runner = Some resolver" "resolvable resolver initial" "worldSpecs (rsv_worldUpdate resolver)"
    and "storeOk st" "EventTimeline st (ms_MatchID initial) = Inr events" "matchLog st (ms_MatchID initial) \<noteq> None"
  shows "\<exists>st'. ps_store ps = Some st' \<and> storeOk st'
     \<and> EventTimeline st' (ms_MatchID initial) =
         Inr (events @ concat (map (rr_Events \<circ> res_Round) (ps_results ps)))"
proof -
  obtain start where start: "playRounds runner resolver memory.ops 0 (nat rounds) start = (err, ps)"
    "resolvable resolver (ps_state start)" "ps_results start = []"
    "ms_MatchID (ps_state start) = ms_MatchID initial"
    "openStore memoryOps (MatchState_Clone initial) (Some st) = Inr (ps_store start)"
    using assms(1-3) by (rule Play_start)
  have "\<exists>s. CurrentState st (ms_MatchID initial) = Inr s"
    using assms(7) memory.current_known by blast
  then have "ps_store start = Some st"
    using start(5) by (auto simp: openStore_def memoryOps_def clone_simps)
  with memory.playRounds_continue [OF start(1,2) assms(4)] start(3,4)
  have "memory.commits (ms_MatchID initial) (ps_results ps) (Some st) (ps_store ps)" by fastforce
  from memory.commits_timeline [OF this assms(5,7)] assms(6) show ?thesis by auto
qed

text \<open>The store of the demo match, with the match created.\<close>

definition demoStore :: Store where
  "demoStore = (case CreateMatch demoState (NewStore 3) of Inr st \<Rightarrow> st | Inl _ \<Rightarrow> NewStore 3)"

lemma demo_stored:
  "storeOk demoStore" "matchLog demoStore ''m1'' = Some []" "EventTimeline demoStore ''m1'' = Inr []"
proof -
  have "\<exists>st. CreateMatch demoState (NewStore 3) = Inr st"
    by (simp add: CreateMatch_Inr NewStore_def demo_state)
  then have c: "CreateMatch demoState (NewStore 3) = Inr demoStore" by (auto simp: demoStore_def)
  show ok: "storeOk demoStore" using memory.create_ok [OF c] NewStore_empty(1) demo_state(4) by simp
  show log: "matchLog demoStore ''m1'' = Some []"
    using memory.create_log [OF c] demo_state by auto
  show "EventTimeline demoStore ''m1'' = Inr []" using memory.timeline_log [OF ok log] by simp
qed

lemma match_timeline_witness:
  "\<exists>err ps st'. Play demoRunner memoryOps (Some demoStore) demoState 3 = Inr (err, ps)
     \<and> ps_store ps = Some st'
     \<and> EventTimeline st' ''m1'' = Inr (concat (map (rr_Events \<circ> res_Round) (ps_results ps)))"
proof -
  obtain s where "CurrentState demoStore ''m1'' = Inr s"
    using memory.current_known [of demoStore "''m1''"] demo_stored(2) by auto
  then have "openStore memoryOps (MatchState_Clone demoState) (Some demoStore) = Inr (Some demoStore)"
    by (simp add: openStore_def memoryOps_def clone_simps demo_state)
  then have "\<exists>x. Play demoRunner memoryOps (Some demoStore) demoState 3 = Inr x"
    using demo_runner(3) demo_runner(1) by (cases "mr_Random demoRunner") (simp_all add: Play_def Let_def)
  then obtain err ps where play: "Play demoRunner memoryOps (Some demoStore) demoState 3 = Inr (err, ps)"
    by (auto simp: split_paired_Ex)
  from match_timeline [OF play demo_runner(1,2) starter_world(1) demo_stored(1)] demo_stored(2,3) play
  show ?thesis by (fastforce simp: demo_state)
qed

text \<open>C4: A new match whose roles are distinct and canonical, each with a player that answers
  validly or is AI-backed and reports an outage of its provider, is played to the last round asked
  for: no collection, resolution or commit fails, whatever the world draws.\<close>

theorem match_never_stuck:
  assumes "0 < rounds" "mr_Resolver runner = Some resolver" "mr_Random runner \<noteq> None"
    and "resolvable resolver initial" "worldSpecs (rsv_worldUpdate resolver)" "worldTotal (rsv_worldUpdate resolver)"
    and "staffed (mr_Players runner) initial" "targetsOk (ms_ActiveTargets initial)"
    and "ms_MatchID initial \<noteq> []" "0 < ms_CurrentRound initial" "rh_RecentRounds (ms_History initial) = []"
    and "\<forall>st. store = Some st \<longrightarrow> storeOk st \<and> matchLog st (ms_MatchID initial) = None"
  shows "\<exists>ps. Play runner memoryOps store initial rounds = Inr (None, ps)"
  using assms by (rule Play_new)

lemma match_never_stuck_witness:
  "\<exists>ps. Play demoRunner memoryOps None demoState 5 = Inr (None, ps)"
  using demo_runner(1,3) demo_runner(2) demo_runner(4) demo_staffed demo_state starter_world(1)
  by (intro match_never_stuck [of _ _ "starterResolver (\<lambda>_. sliceOrder)"]) simp_all


section \<open>Collecting the actions\<close>

lemma flowOk_accounts:
  "flowOk roles flow \<Longrightarrow> set (rf_SubmittedRoles flow) \<union> set (rf_WaitingOnRoles flow) = set roles
     \<and> set (rf_SubmittedRoles flow) \<inter> set (rf_WaitingOnRoles flow) = {}
     \<and> set (rf_ProviderWaitingRoles flow) \<subseteq> set (rf_WaitingOnRoles flow)"
  by (auto simp: flowOk_def)

text \<open>Some run returns: from every reachable state one can go on until there is a result.\<close>

lemma collect_returns:
  assumes "(collectStep env)\<^sup>*\<^sup>* (collectStart env) c"
  shows "\<exists>c' r. (collectStep env)\<^sup>*\<^sup>* (collectStart env) c' \<and> co_result c' = Some r"
  using assms
proof (induction "remainingWork env c" arbitrary: c rule: less_induct)
  case less
  show ?case
  proof (cases "co_result c")
    case None
    then obtain c' where step: "collectStep env c c'"
      using collectStep_possible collectInv_run [OF less.prems] by blast
    from less.hyps [OF collectStep_work [OF step]] less.prems step show ?thesis
      by (meson rtranclp.rtrancl_into_rtrancl)
  qed (use less.prems in blast)
qed

definition demoEnv :: collectEnv where
  "demoEnv = collectEnvOf demoRunner 0 (prepareCollectionState demoState) Map.empty"

lemma demo_env:
  "en_state demoEnv = prepareCollectionState demoState" "en_Players demoEnv = mr_Players demoRunner"
  "freshFlow (en_state demoEnv)" "roleIDs (ms_Roles (en_state demoEnv)) = CanonicalRoles"
  by (simp_all add: demoEnv_def collectEnvOf_def freshFlow_prepare demo_state demoRoles_def roleIDs_def o_def)

lemma demo_collects: "\<exists>actions. Collect demoEnv = Inr actions \<and> map as_RoleID actions = CanonicalRoles"
proof -
  have "fallbackReady (en_state demoEnv) (en_previous demoEnv)"
    by (simp add: demo_env demoEnv_def collectEnvOf_def fallbackReady_def prevOk_def demo_state)
  moreover have "staffed (en_Players demoEnv) (en_state demoEnv)"
    using demo_staffed by (simp add: staffed_def demo_env(1,2))
  ultimately show ?thesis
    using Collect_staffed [of demoEnv] demo_env(4) by (auto simp: demo_env(1) demo_state)
qed

lemma demo_run: "\<exists>c r. (collectStep demoEnv)\<^sup>*\<^sup>* (collectStart demoEnv) c \<and> co_result c = Some r"
  using collect_returns [of demoEnv "collectStart demoEnv"] by blast

lemma demo_run_actions:
  "\<exists>c actions. (collectStep demoEnv)\<^sup>*\<^sup>* (collectStart demoEnv) c \<and> co_result c = Some (Inr actions)"
proof -
  obtain c r where run: "(collectStep demoEnv)\<^sup>*\<^sup>* (collectStart demoEnv) c" "co_result c = Some r"
    using demo_run by blast
  obtain actions where "Collect demoEnv = Inr actions" using demo_collects by blast
  moreover have "resultOk demoEnv r" using collectInv_run [OF run(1)] run(2) by (simp add: collectInv_def)
  ultimately have "r = Inr actions" by (cases r) (auto simp: resultOk_def dest: Collect_no_roleError)
  with run show ?thesis by blast
qed

text \<open>C6: However the goroutines of a collection are interleaved, a run returns actions exactly
  when the collection of one role after the other does, and then the same ones; an error it
  returns is that of the sequential collection or of some role whose player failed.\<close>

theorem collect_any_schedule:
  assumes "(collectStep env)\<^sup>*\<^sup>* (collectStart env) c" "co_result c = Some r"
  shows "(r = Inr actions \<longleftrightarrow> Collect env = Inr actions)
     \<and> (r = Inl err \<longrightarrow> Collect env = Inl err \<or> roleError env err)"
proof -
  have ok: "resultOk env r" using collectInv_run [OF assms(1)] assms(2) by (simp add: collectInv_def)
  show ?thesis
  proof (cases r)
    case (Inl e)
    then have "Collect env = Inl e \<or> roleError env e" using ok by (simp add: resultOk_def)
    with Inl Collect_no_roleError [of env actions e] show ?thesis by auto
  next
    case (Inr xs)
    with ok show ?thesis by (auto simp: resultOk_def)
  qed
qed

lemma collect_any_schedule_witness:
  "\<exists>c actions. (collectStep demoEnv)\<^sup>*\<^sup>* (collectStart demoEnv) c
     \<and> co_result c = Some (Inr actions) \<and> map as_RoleID actions = CanonicalRoles"
proof -
  obtain c r where run: "(collectStep demoEnv)\<^sup>*\<^sup>* (collectStart demoEnv) c" "co_result c = Some r"
    using demo_run by blast
  obtain actions where "Collect demoEnv = Inr actions" "map as_RoleID actions = CanonicalRoles"
    using demo_collects by blast
  with collect_any_schedule [OF run, of actions] run show ?thesis by auto
qed

text \<open>C17: Collecting the actions of n roles ends: no run has more than 8n+1 steps, and until the
  result is there some step is possible.\<close>

theorem collect_ends:
  assumes "(collectStep env ^^ k) (collectStart env) c"
  shows "k \<le> 8 * length (ms_Roles (en_state env)) + 1
     \<and> (co_result c = None \<longrightarrow> (\<exists>c'. collectStep env c c'))"
proof -
  have "k + remainingWork env c \<le> remainingWork env (collectStart env)"
    using assms by (rule collect_run_length)
  moreover have "remainingWork env (collectStart env) \<le> 8 * length (ms_Roles (en_state env)) + 1"
    by (simp add: remainingWork_def collectStart_def)
  moreover have "collectInv env c" using assms collectInv_run by (simp add: relpowp_imp_rtranclp)
  ultimately show ?thesis using collectStep_possible by simp
qed

lemma collect_ends_witness:
  "\<exists>k c actions. (collectStep demoEnv ^^ k) (collectStart demoEnv) c
     \<and> co_result c = Some (Inr actions) \<and> k \<le> 33"
proof -
  obtain c actions where run: "(collectStep demoEnv)\<^sup>*\<^sup>* (collectStart demoEnv) c" "co_result c = Some (Inr actions)"
    using demo_run_actions by blast
  then obtain k where k: "(collectStep demoEnv ^^ k) (collectStart demoEnv) c"
    by (meson rtranclp_imp_relpowp)
  have "length (ms_Roles (en_state demoEnv)) = length CanonicalRoles"
    using demo_env(4) by (metis length_map roleIDs_def)
  then have "length (ms_Roles (en_state demoEnv)) = 4" by (simp add: CanonicalRoles_def)
  with collect_ends [OF k] k run(2) show ?thesis by auto
qed

text \<open>C16: Every round flow reported during a collection, and the one kept, accounts for each role:
  it has submitted or is waited on, and only roles waited on wait for their provider; once the
  actions are returned every role has submitted.\<close>

theorem round_flow_accounts:
  assumes "(collectStep env)\<^sup>*\<^sup>* (collectStart env) c" "freshFlow (en_state env)"
    "distinct (roleIDs (ms_Roles (en_state env)))"
  defines "roles \<equiv> roleIDs (ms_Roles (en_state env))"
  shows "(\<forall>flow \<in> insert (co_flow c) (set (co_emitted c)).
         set (rf_SubmittedRoles flow) \<union> set (rf_WaitingOnRoles flow) = set roles
       \<and> set (rf_SubmittedRoles flow) \<inter> set (rf_WaitingOnRoles flow) = {}
       \<and> set (rf_ProviderWaitingRoles flow) \<subseteq> set (rf_WaitingOnRoles flow))
     \<and> (co_result c = Some (Inr actions) \<longrightarrow> rf_WaitingOnRoles (co_flow c) = [])"
proof
  have inv: "flowInv env c" using flowInv_run [OF assms(1,2,3)] .
  then have "\<forall>flow \<in> insert (co_flow c) (set (co_emitted c)). flowOk roles flow"
    by (auto simp: flowInv_def Let_def roles_def)
  then show "\<forall>flow \<in> insert (co_flow c) (set (co_emitted c)).
         set (rf_SubmittedRoles flow) \<union> set (rf_WaitingOnRoles flow) = set roles
       \<and> set (rf_SubmittedRoles flow) \<inter> set (rf_WaitingOnRoles flow) = {}
       \<and> set (rf_ProviderWaitingRoles flow) \<subseteq> set (rf_WaitingOnRoles flow)"
    using flowOk_accounts by blast
  show "co_result c = Some (Inr actions) \<longrightarrow> rf_WaitingOnRoles (co_flow c) = []"
  proof
    assume "co_result c = Some (Inr actions)"
    with doneInv_run [OF assms(1)] have tasks: "length (co_tasks c) = length roles"
      "\<forall>i < length (co_tasks c). hasSubmitted (co_tasks c ! i)"
      by (auto simp: doneInv_def list_all_length roles_def roleIDs_def)
    with inv have "\<forall>i < length roles. roles ! i \<in> set (rf_SubmittedRoles (co_flow c))"
      by (simp add: flowInv_def Let_def roles_def)
    then have "filter (\<lambda>r. r \<notin> set (rf_SubmittedRoles (co_flow c))) roles = []"
      by (auto simp: filter_empty_conv in_set_conv_nth)
    with inv show "rf_WaitingOnRoles (co_flow c) = []"
      by (simp add: flowInv_def Let_def flowOk_def roles_def)
  qed
qed


lemma round_flow_accounts_witness:
  "\<exists>c actions. (collectStep demoEnv)\<^sup>*\<^sup>* (collectStart demoEnv) c \<and> co_result c = Some (Inr actions)
     \<and> rf_WaitingOnRoles (co_flow c) = []"
  using demo_run_actions round_flow_accounts [of demoEnv] demo_env(3,4) distinct_CanonicalRoles by metis

section \<open>Scenarios\<close>

text \<open>C31: A new match of a scenario with well-formed data (positive stock entries, non-negative cash,
  quantities and overtime prices) starts in a state its own resolver can resolve, and the
  scenario's world update never fails and keeps the state well-formed.\<close>

theorem scenario_starts_resolvable:
  assumes "scenarioOk d"
  shows "resolvable (NewResolver (ResolverOptions d orders)) (InitialState d matchID roles)
     \<and> worldSpecs (rsv_worldUpdate (NewResolver (ResolverOptions d orders)))
     \<and> worldTotal (rsv_worldUpdate (NewResolver (ResolverOptions d orders)))"
  using scenario_resolvable [OF assms(1)] scenario_world [of d orders]
  by (simp add: NewResolver_def ResolverOptions_def worldTotal_def)

lemma scenario_starts_resolvable_witness:
  "resolvable (NewResolver (ResolverOptions Starter (\<lambda>_. sliceOrder))) (InitialState Starter ''m'' demoRoles)"
  using scenario_starts_resolvable [OF starter_ok] by blast

text \<open>The order in which the demand map of a customer is ranged over changes the order of
  the backlog, not the orders in it: each customer wants the same quantities of the same products.\<close>

theorem demand_order_irrelevant:
  assumes "validOrder (orders (rp_currentRound p))" "validOrder (orders' (rp_currentRound p))"
    "runWorldUpdate (Some (scenarioWorldUpdate d orders)) p = Inr q"
    "runWorldUpdate (Some (scenarioWorldUpdate d orders')) p = Inr q'"
  shows "mset (pl_Backlog (plant q)) = mset (pl_Backlog (plant q'))"
  using scenarioWorldUpdate_step [of d orders p] scenarioWorldUpdate_step [of d orders' p] assms(3,4)
    entriesOfCustomers_mset [OF assms(1,2)] by auto

lemma demand_order_irrelevant_witness:
  "\<exists>q q'. runWorldUpdate (Some (scenarioWorldUpdate Starter (\<lambda>_. sliceOrder)))
       (startPhase (starterResolver (\<lambda>_. sliceOrder)) demoState [] None) = Inr q
     \<and> runWorldUpdate (Some (scenarioWorldUpdate Starter (\<lambda>_ site n. rev [0..<n])))
       (startPhase (starterResolver (\<lambda>_. sliceOrder)) demoState [] None) = Inr q'
     \<and> mset (pl_Backlog (plant q)) = mset (pl_Backlog (plant q'))"
proof -
  let ?p = "startPhase (starterResolver (\<lambda>_. sliceOrder)) demoState [] None"
  have valid: "validOrder sliceOrder" "validOrder (\<lambda>site n. rev [0..<n])"
    by (simp_all add: validOrder_def sliceOrder_def)
  obtain q q' where q: "runWorldUpdate (Some (scenarioWorldUpdate Starter (\<lambda>_. sliceOrder))) ?p = Inr q"
    "runWorldUpdate (Some (scenarioWorldUpdate Starter (\<lambda>_ site n. rev [0..<n]))) ?p = Inr q'"
    using scenario_world(3) by blast
  from demand_order_irrelevant [OF _ _ q] valid q show ?thesis by blast
qed

text \<open>The unit cost of an order is that of the price break with the largest minimum quantity
  the order reaches, and the supplier's base cost when it reaches none.\<close>

theorem unit_cost_best_break:
  shows "if \<exists>item \<in> set (so_PriceBreaks supplier). breakApplies quantity item
     then \<exists>item \<in> set (so_PriceBreaks supplier). breakApplies quantity item
        \<and> unitCostForQuantity supplier quantity = sp_UnitCost item
        \<and> (\<forall>other \<in> set (so_PriceBreaks supplier). breakApplies quantity other \<longrightarrow>
             sp_MinimumQuantity other \<le> sp_MinimumQuantity item)
     else unitCostForQuantity supplier quantity = so_UnitCost supplier"
  using unitCost_base [of supplier quantity] unitCost_break [of supplier quantity] by auto

lemma unit_cost_best_break_witness:
  "unitCostForQuantity \<lparr>so_ID = ''s'', so_UnitCost = 3, so_LeadTimeRounds = 1, so_MinimumOrderQuantity = 1,
     so_PriceBreaks = [\<lparr>sp_MinimumQuantity = 10, sp_UnitCost = 1\<rparr>, \<lparr>sp_MinimumQuantity = 4, sp_UnitCost = 2\<rparr>]\<rparr> 7 = 2"
  using unit_cost_best_break [of "\<lparr>so_ID = ''s'', so_UnitCost = 3, so_LeadTimeRounds = 1, so_MinimumOrderQuantity = 1,
     so_PriceBreaks = [\<lparr>sp_MinimumQuantity = 10, sp_UnitCost = 1\<rparr>, \<lparr>sp_MinimumQuantity = 4, sp_UnitCost = 2\<rparr>]\<rparr>" 7]
  by (simp add: breakApplies_def)

text \<open>What the engine's hook says of the routing is followed from each station of the round.\<close>

definition routeContext :: "ProductID \<Rightarrow> roundPhase \<Rightarrow> WorkstationID \<Rightarrow> ProductionRouteContext" where
  "routeContext productID p workstation =
     \<lparr>prc_State = MatchState_Clone (rp_state p), prc_CurrentRound = rp_currentRound p,
      prc_ProductID = productID, prc_CurrentStationID = workstation\<rparr>"

text \<open>What the lookups show is what the engine does: the engine knows a supplier of a part exactly
  when the lookup lists it and the match has its record, and following the engine's routing from
  any station of a listed route (without repetition) visits exactly the rest of that route.\<close>

theorem lookups_describe_engine:
  shows "(pt_KnownSupplier (scenarioProcurementTerms d terms) \<longleftrightarrow>
       (\<exists>lookup. ListValidSuppliers d (po_PartID (ptc_Order terms)) = Inr lookup
          \<and> po_SupplierID (ptc_Order terms) \<in> set (vl_Suppliers lookup))
       \<and> supplierStateByID (ms_Suppliers (ptc_State terms)) (po_SupplierID (ptc_Order terms)) \<noteq> None)
     \<and> (ShowProductRoute d productID = Inr route \<and> distinct (rl_Route route) \<and> k < length (rl_Route route)
        \<longrightarrow> followRoute (scenarioProductionRoute d) (routeContext productID p)
               (length (rl_Route route) - k) (rl_Route route ! k) = Some (drop k (rl_Route route)))"
proof (intro conjI impI)
  show "pt_KnownSupplier (scenarioProcurementTerms d terms) \<longleftrightarrow>
       (\<exists>lookup. ListValidSuppliers d (po_PartID (ptc_Order terms)) = Inr lookup
          \<and> po_SupplierID (ptc_Order terms) \<in> set (vl_Suppliers lookup))
       \<and> supplierStateByID (ms_Suppliers (ptc_State terms)) (po_SupplierID (ptc_Order terms)) \<noteq> None"
    using Part_supplier_listed [of _ "po_SupplierID (ptc_Order terms)"]
    by (auto simp del: not_None_eq not_Some_eq set_map simp: scenarioProcurementTerms_def ListValidSuppliers_def Definition_Part_def Let_def
        split: option.split)
  assume route: "ShowProductRoute d productID = Inr route \<and> distinct (rl_Route route) \<and> k < length (rl_Route route)"
  then obtain product where "productsByID d productID = Some product" "rl_Route route = pd_Route product"
    by (auto simp: ShowProductRoute_def Definition_Product_def split: option.splits)
  with followRoute_scenario [of d productID product k "routeContext productID p"] route
  show "followRoute (scenarioProductionRoute d) (routeContext productID p)
         (length (rl_Route route) - k) (rl_Route route ! k) = Some (drop k (rl_Route route))"
    by (simp add: routeContext_def)
qed

lemma lookups_describe_engine_witness:
  "\<exists>route. ShowProductRoute Starter ''pump'' = Inr route
     \<and> followRoute (scenarioProductionRoute Starter) (routeContext ''pump''
           (startPhase (starterResolver (\<lambda>_. sliceOrder)) demoState [] None)) 2 ''fabrication'' = Some (rl_Route route)"
proof -
  obtain route where route: "ShowProductRoute Starter ''pump'' = Inr route" "rl_Route route = [''fabrication'', ''assembly'']"
    by (simp add: ShowProductRoute_def Definition_Product_def productsByID_def byID_def StarterProductionModel_def)
  let ?p = "startPhase (starterResolver (\<lambda>_. sliceOrder)) demoState [] None"
  have "distinct (rl_Route route)" "0 < length (rl_Route route)" "length (rl_Route route) - 0 = 2"
    "rl_Route route ! 0 = ''fabrication''" by (simp_all add: route(2))
  with conjunct2 [OF lookups_describe_engine, of Starter "''pump''" route 0 ?p] route(1) show ?thesis
    by (metis drop0)
qed

end
