(* ===== verification/ActionSchema.thy ===== *)
theory ActionSchema
  imports Lookups Players
begin

text \<open>
  The shared action schema (\<open>internal/actionschema\<close>): for each role the fields of its action with
  the parts, suppliers, products and workstations of the scenario as options (\<open>schema.go\<close>), and
  the check of an action against it (\<open>validate.go\<close>).  The forms of human players and the answers
  of AI players are checked the same way.  The last section relates the check to the engine's.
\<close>

section \<open>The schema\<close>

text \<open>\<open>ValueKindUnset\<close> is the empty string, the kind of a field that is a collection.\<close>

datatype ValueKind = ValueKindUnset | ValueKindChoice | ValueKindInteger | ValueKindText

record Option =
  opt_Value :: string
  opt_Label :: string
  opt_Description :: string

record OptionSource =
  src_Static :: "Option list"
  src_DependencyFieldID :: string
  src_Dependent :: "string \<rightharpoonup> Option list"

text \<open>A row is a map that may be nil.\<close>

definition OptionSource_Options :: "OptionSource \<Rightarrow> (string \<rightharpoonup> string) option \<Rightarrow> Option list" where
  "OptionSource_Options source row =
    (if src_DependencyFieldID source = [] then src_Static source
     else case row of
       None \<Rightarrow> []
     | Some row \<Rightarrow>
         (case src_Dependent source (case row (src_DependencyFieldID source) of Some v \<Rightarrow> v | None \<Rightarrow> []) of
            Some items \<Rightarrow> items | None \<Rightarrow> []))"

record ColumnSpec =
  col_ID :: string
  col_Label :: string
  col_Help :: string
  col_Placeholder :: string
  col_Kind :: ValueKind
  col_Required :: bool
  col_Options :: OptionSource

record CollectionSpec =
  cln_AddLabel :: string
  cln_EmptyText :: string
  cln_Columns :: "ColumnSpec list"

record FieldSpec =
  fld_ID :: string
  fld_Label :: string
  fld_Help :: string
  fld_Placeholder :: string
  fld_Kind :: ValueKind
  fld_Required :: bool
  fld_Multiline :: bool
  fld_Options :: OptionSource
  fld_Collection :: "CollectionSpec option"

record RoleSchema =
  rsc_RoleID :: RoleID
  rsc_RequiredAction :: string
  rsc_JSONSchemaName :: string
  rsc_AllowedSummary :: "string list"
  rsc_ValidationRules :: "string list"
  rsc_Fields :: "FieldSpec list"

text \<open>Literals that leave fields at their zero value.\<close>

definition noOptions :: OptionSource where
  "noOptions = \<lparr>src_Static = [], src_DependencyFieldID = [], src_Dependent = Map.empty\<rparr>"

definition staticOptions :: "Option list \<Rightarrow> OptionSource" where
  "staticOptions options = noOptions\<lparr>src_Static := options\<rparr>"

definition choiceColumn :: "string \<Rightarrow> string \<Rightarrow> string \<Rightarrow> OptionSource \<Rightarrow> ColumnSpec" where
  "choiceColumn i label help options =
     \<lparr>col_ID = i, col_Label = label, col_Help = help, col_Placeholder = [], col_Kind = ValueKindChoice,
      col_Required = True, col_Options = options\<rparr>"

definition integerColumn :: "string \<Rightarrow> string \<Rightarrow> string \<Rightarrow> ColumnSpec" where
  "integerColumn i label help =
     \<lparr>col_ID = i, col_Label = label, col_Help = help, col_Placeholder = ''0'', col_Kind = ValueKindInteger,
      col_Required = True, col_Options = noOptions\<rparr>"

definition collectionField :: "string \<Rightarrow> string \<Rightarrow> string \<Rightarrow> CollectionSpec \<Rightarrow> FieldSpec" where
  "collectionField i label help collection =
     \<lparr>fld_ID = i, fld_Label = label, fld_Help = help, fld_Placeholder = [], fld_Kind = ValueKindUnset,
      fld_Required = False, fld_Multiline = False, fld_Options = noOptions, fld_Collection = Some collection\<rparr>"

definition commentaryField :: FieldSpec where
  "commentaryField =
     \<lparr>fld_ID = ''commentary'', fld_Label = ''Commentary'',
      fld_Help = ''Required public commentary shown after the round is revealed.'',
      fld_Placeholder = ''Explain your reasoning for this round.'', fld_Kind = ValueKindText,
      fld_Required = True, fld_Multiline = True, fld_Options = noOptions, fld_Collection = None\<rparr>"

definition integerField :: "string \<Rightarrow> string \<Rightarrow> string \<Rightarrow> FieldSpec" where
  "integerField i label help =
     \<lparr>fld_ID = i, fld_Label = label, fld_Help = help, fld_Placeholder = ''0'', fld_Kind = ValueKindInteger,
      fld_Required = True, fld_Multiline = False, fld_Options = noOptions, fld_Collection = None\<rparr>"

definition productOptions :: "Product list \<Rightarrow> Option list" where
  "productOptions products = map (\<lambda>product.
     \<lparr>opt_Value = pd_ID product, opt_Label = pd_DisplayName product,
      opt_Description = itoa (int (length (pd_Route product))) @ '' route step(s)''\<rparr>) products"

definition workstationOptions :: "Workstation list \<Rightarrow> Option list" where
  "workstationOptions workstations = map (\<lambda>workstation.
     \<lparr>opt_Value = wk_ID workstation, opt_Label = wk_DisplayName workstation,
      opt_Description = itoa (wk_CapacityPerRound workstation) @ '' capacity per round''\<rparr>) workstations"

definition partOptions :: "Part list \<Rightarrow> Option list" where
  "partOptions parts = map (\<lambda>part.
     \<lparr>opt_Value = pa_ID part, opt_Label = pa_DisplayName part,
      opt_Description = ''Default supplier '' @ pa_SupplierID part\<rparr>) parts"

definition supplierOptions :: "Part \<Rightarrow> Option list" where
  "supplierOptions part =
     \<lparr>opt_Value = pa_SupplierID part, opt_Label = pa_SupplierID part, opt_Description = ''Default supplier''\<rparr>
     # map (\<lambda>supplier. \<lparr>opt_Value = so_ID supplier, opt_Label = so_ID supplier,
          opt_Description = ''Lead time '' @ itoa (so_LeadTimeRounds supplier) @ '' round(s)''\<rparr>)
         (pa_AlternateSuppliers part)"

definition partSuppliers :: "Part list \<Rightarrow> string \<rightharpoonup> Option list" where
  "partSuppliers parts = foldl (\<lambda>m part. m(pa_ID part \<mapsto> supplierOptions part)) Map.empty parts"

definition procurementSchema :: "Part list \<Rightarrow> RoleSchema" where
  "procurementSchema parts =
     \<lparr>rsc_RoleID = RoleProcurementManager, rsc_RequiredAction = ''procurement'',
      rsc_JSONSchemaName = ''ProcurementAction'',
      rsc_AllowedSummary =
       [''Return only procurement orders.'',
        ''Each order chooses a part, a valid supplier for that part, and a non-negative quantity.'',
        ''Use an empty orders list for a deliberate no-op.''],
      rsc_ValidationRules =
       [''Populate only action.procurement.'',
        ''orders entries require part_id, supplier_id, and quantity.'',
        ''supplier_id must be valid for the selected part.'',
        ''quantity must be non-negative.''],
      rsc_Fields =
       [collectionField ''orders'' ''Orders''
          ''Add one or more purchase orders. Each row should select a part, choose a valid supplier for that part, and enter a quantity.''
          \<lparr>cln_AddLabel = ''Add order'', cln_EmptyText = ''No purchase orders configured.'',
           cln_Columns =
            [choiceColumn ''part_id'' ''Part'' ''Choose the part to order.'' (staticOptions (partOptions parts)),
             choiceColumn ''supplier_id'' ''Supplier'' ''Choose a supplier that can provide the selected part.''
               (noOptions\<lparr>src_DependencyFieldID := ''part_id'', src_Dependent := partSuppliers parts\<rparr>),
             integerColumn ''quantity'' ''Quantity'' ''Enter a whole-number quantity that is 0 or greater.'']\<rparr>,
        commentaryField]\<rparr>"

definition productionSchema :: "Product list \<Rightarrow> Workstation list \<Rightarrow> RoleSchema" where
  "productionSchema products workstations =
     \<lparr>rsc_RoleID = RoleProductionManager, rsc_RequiredAction = ''production'',
      rsc_JSONSchemaName = ''ProductionAction'',
      rsc_AllowedSummary =
       [''Return production releases, capacity allocations, and optional overtime allocations.'',
        ''Each release chooses a product and quantity.'',
        ''Each capacity allocation chooses a workstation, product, and non-negative capacity.'',
        ''Each overtime allocation chooses a workstation and non-negative capacity.''],
      rsc_ValidationRules =
       [''Populate only action.production.'',
        ''releases entries require product_id and quantity.'',
        ''capacity_allocation entries require workstation_id, product_id, and capacity.'',
        ''overtime entries are optional; each requires workstation_id and capacity.'',
        ''quantities and capacity must be non-negative.''],
      rsc_Fields =
       [collectionField ''releases'' ''Releases''
          ''Add production releases for the products the plant should push through the line this round.''
          \<lparr>cln_AddLabel = ''Add release'', cln_EmptyText = ''No production releases configured.'',
           cln_Columns =
            [choiceColumn ''product_id'' ''Product'' ''Choose the product to release.'' (staticOptions (productOptions products)),
             integerColumn ''quantity'' ''Quantity'' ''Enter a whole-number quantity that is 0 or greater.'']\<rparr>,
        collectionField ''capacity_allocation'' ''Capacity allocation''
          ''Allocate workstation capacity to products for this round.''
          \<lparr>cln_AddLabel = ''Add allocation'', cln_EmptyText = ''No capacity allocations configured.'',
           cln_Columns =
            [choiceColumn ''workstation_id'' ''Workstation'' ''Choose the workstation receiving the capacity.''
               (staticOptions (workstationOptions workstations)),
             choiceColumn ''product_id'' ''Product'' ''Choose the product consuming that capacity.''
               (staticOptions (productOptions products)),
             integerColumn ''capacity'' ''Capacity'' ''Enter a whole-number capacity allocation that is 0 or greater.'']\<rparr>,
        collectionField ''overtime'' ''Overtime''
          ''Add optional overtime allocations for workstations that need extra capacity.''
          \<lparr>cln_AddLabel = ''Add overtime'', cln_EmptyText = ''No overtime allocations configured.'',
           cln_Columns =
            [choiceColumn ''workstation_id'' ''Workstation'' ''Choose the workstation using overtime.''
               (staticOptions (workstationOptions workstations)),
             integerColumn ''capacity'' ''Capacity'' ''Enter overtime capacity that is 0 or greater.'']\<rparr>,
        commentaryField]\<rparr>"

definition salesSchema :: "Product list \<Rightarrow> RoleSchema" where
  "salesSchema products =
     \<lparr>rsc_RoleID = RoleSalesManager, rsc_RequiredAction = ''sales'', rsc_JSONSchemaName = ''SalesAction'',
      rsc_AllowedSummary =
       [''Return only product offers.'',
        ''Each offer chooses a product and a non-negative unit price.'',
        ''Use an empty product_offers list for a deliberate no-op.''],
      rsc_ValidationRules =
       [''Populate only action.sales.'',
        ''product_offers entries require product_id and unit_price.'',
        ''unit_price must be non-negative.''],
      rsc_Fields =
       [collectionField ''product_offers'' ''Offers''
          ''Set the customer-facing offer price for one or more products.''
          \<lparr>cln_AddLabel = ''Add offer'', cln_EmptyText = ''No product offers configured.'',
           cln_Columns =
            [choiceColumn ''product_id'' ''Product'' ''Choose the product being offered.'' (staticOptions (productOptions products)),
             integerColumn ''unit_price'' ''Unit price'' ''Enter a whole-number unit price that is 0 or greater.'']\<rparr>,
        commentaryField]\<rparr>"

definition financeSchema :: RoleSchema where
  "financeSchema =
     \<lparr>rsc_RoleID = RoleFinanceController, rsc_RequiredAction = ''finance'', rsc_JSONSchemaName = ''FinanceAction'',
      rsc_AllowedSummary =
       [''Return only finance next_round_targets.'',
        ''Provide every target field in the next_round_targets object.'',
        ''A safe no-op repeats the currently active targets.''],
      rsc_ValidationRules =
       [''Populate only action.finance.'',
        ''Provide next_round_targets exactly once.'',
        ''Each target field must be present and non-negative.''],
      rsc_Fields =
       [integerField ''procurement_budget'' ''Procurement budget'' ''Whole-number procurement budget for the next round.'',
        integerField ''production_spend_budget'' ''Production budget'' ''Whole-number production-spend budget for the next round.'',
        integerField ''revenue_target'' ''Revenue target'' ''Whole-number revenue target for the next round.'',
        integerField ''cash_floor_target'' ''Cash floor'' ''Whole-number cash floor target for the next round.'',
        integerField ''debt_ceiling_target'' ''Debt ceiling'' ''Whole-number debt ceiling target for the next round.'',
        commentaryField]\<rparr>"

definition buildFromPartsProductsWorkstations ::
  "Part list \<Rightarrow> Product list \<Rightarrow> Workstation list \<Rightarrow> RoleID \<Rightarrow> RoleSchema" where
  "buildFromPartsProductsWorkstations parts products workstations roleID =
    (case roleID of
       RoleProcurementManager \<Rightarrow> procurementSchema parts
     | RoleProductionManager \<Rightarrow> productionSchema products workstations
     | RoleSalesManager \<Rightarrow> salesSchema products
     | RoleFinanceController \<Rightarrow> financeSchema
     | OtherRole _ \<Rightarrow> \<lparr>rsc_RoleID = roleID, rsc_RequiredAction = [], rsc_JSONSchemaName = [],
         rsc_AllowedSummary = [], rsc_ValidationRules = [], rsc_Fields = []\<rparr>)"

definition Build :: "Definition \<Rightarrow> RoleID \<Rightarrow> RoleSchema" where
  "Build d roleID =
     buildFromPartsProductsWorkstations (mo_Parts (sd_ProductionModel d)) (mo_Products (sd_ProductionModel d))
       (mo_Workstations (sd_ProductionModel d)) roleID"

text \<open>The catalog of a definition lists the same items by display name.\<close>

definition BuildFromCatalog :: "Definition \<Rightarrow> RoleID \<Rightarrow> RoleSchema" where
  "BuildFromCatalog source roleID =
     buildFromPartsProductsWorkstations (Definition_Parts source) (Definition_Products source)
       (Definition_Workstations source) roleID"

section \<open>Validation\<close>

record ValidationError =
  vr_Path :: string
  vr_Message :: string

definition errorIf :: "bool \<Rightarrow> string \<Rightarrow> string \<Rightarrow> ValidationError list" where
  "errorIf c path message = (if c then [\<lparr>vr_Path = path, vr_Message = message\<rparr>] else [])"

text \<open>A loop over the rows of a collection with their index.\<close>

fun rowErrors :: "(int \<Rightarrow> 'a \<Rightarrow> 'e list) \<Rightarrow> int \<Rightarrow> 'a list \<Rightarrow> 'e list" where
  "rowErrors check i [] = []"
| "rowErrors check i (row # rows) = check i row @ rowErrors check (i + 1) rows"

definition rowPath :: "string \<Rightarrow> int \<Rightarrow> string \<Rightarrow> string" where
  "rowPath collection i column = collection @ ''['' @ itoa i @ '']'' @ column"

definition findColumn :: "RoleSchema \<Rightarrow> string \<Rightarrow> string \<Rightarrow> ColumnSpec option" where
  "findColumn schema fieldID columnID =
     find_first (\<lambda>column. col_ID column = columnID)
       (concat (map (\<lambda>field. case fld_Collection field of
            Some collection \<Rightarrow> if fld_ID field = fieldID then cln_Columns collection else []
          | None \<Rightarrow> []) (rsc_Fields schema)))"

definition staticColumnOptions :: "RoleSchema \<Rightarrow> string \<Rightarrow> string \<Rightarrow> string set" where
  "staticColumnOptions schema fieldID columnID =
    (case findColumn schema fieldID columnID of
       None \<Rightarrow> {}
     | Some column \<Rightarrow> set (map opt_Value (src_Static (col_Options column))))"

text \<open>The allowed values of a row whose dependency has the given value.\<close>

definition dependentColumnOptions :: "RoleSchema \<Rightarrow> string \<Rightarrow> string \<Rightarrow> string \<Rightarrow> string set" where
  "dependentColumnOptions schema fieldID columnID key =
    (case findColumn schema fieldID columnID of
       None \<Rightarrow> {}
     | Some column \<Rightarrow>
        (case src_Dependent (col_Options column) key of
           None \<Rightarrow> {}
         | Some items \<Rightarrow> set (map opt_Value items)))"

definition validateProcurementRows :: "RoleSchema \<Rightarrow> PurchaseOrderIntent list \<Rightarrow> ValidationError list" where
  "validateProcurementRows schema orders =
    (let partOptions = staticColumnOptions schema ''orders'' ''part_id'';
         supplierOptions = dependentColumnOptions schema ''orders'' ''supplier_id''
     in rowErrors (\<lambda>i order.
          errorIf (po_PartID order \<notin> partOptions) (rowPath ''action.procurement.orders'' i ''.part_id'')
            ''must reference a known part in the shared action schema''
          @ errorIf (po_SupplierID order \<notin> supplierOptions (po_PartID order))
              (rowPath ''action.procurement.orders'' i ''.supplier_id'') ''must be valid for the selected part''
          @ errorIf (po_Quantity order < 0) (rowPath ''action.procurement.orders'' i ''.quantity'')
              ''must be non-negative'') 0 orders)"

definition validateProductionRows :: "RoleSchema \<Rightarrow> ProductionAction \<Rightarrow> ValidationError list" where
  "validateProductionRows schema action =
    (let productOptions = staticColumnOptions schema ''releases'' ''product_id'';
         workstationOptions = staticColumnOptions schema ''capacity_allocation'' ''workstation_id'';
         allocationProducts = staticColumnOptions schema ''capacity_allocation'' ''product_id'';
         overtimeStations = staticColumnOptions schema ''overtime'' ''workstation_id''
     in rowErrors (\<lambda>i release.
          errorIf (pr_ProductID release \<notin> productOptions) (rowPath ''action.production.releases'' i ''.product_id'')
            ''must reference a product visible in the shared action schema''
          @ errorIf (pr_Quantity release < 0) (rowPath ''action.production.releases'' i ''.quantity'')
              ''must be non-negative'') 0 (pda_Releases action)
        @ rowErrors (\<lambda>i allocation.
          errorIf (ca_WorkstationID allocation \<notin> workstationOptions)
            (rowPath ''action.production.capacity_allocation'' i ''.workstation_id'')
            ''must reference a workstation visible in the shared action schema''
          @ errorIf (ca_ProductID allocation \<notin> allocationProducts)
              (rowPath ''action.production.capacity_allocation'' i ''.product_id'')
              ''must reference a product visible in the shared action schema''
          @ errorIf (ca_Capacity allocation < 0)
              (rowPath ''action.production.capacity_allocation'' i ''.capacity'') ''must be non-negative'')
            0 (pda_CapacityAllocation action)
        @ rowErrors (\<lambda>i overtime.
          errorIf (oa_WorkstationID overtime \<notin> overtimeStations)
            (rowPath ''action.production.overtime'' i ''.workstation_id'')
            ''must reference a workstation visible in the shared action schema''
          @ errorIf (oa_Capacity overtime < 0) (rowPath ''action.production.overtime'' i ''.capacity'')
              ''must be non-negative'') 0 (pda_Overtime action))"

definition validateSalesRows :: "RoleSchema \<Rightarrow> SalesAction \<Rightarrow> ValidationError list" where
  "validateSalesRows schema action =
    (let productOptions = staticColumnOptions schema ''product_offers'' ''product_id''
     in rowErrors (\<lambda>i offer.
          errorIf (of_ProductID offer \<notin> productOptions) (rowPath ''action.sales.product_offers'' i ''.product_id'')
            ''must reference a product visible in the shared action schema''
          @ errorIf (of_UnitPrice offer < 0) (rowPath ''action.sales.product_offers'' i ''.unit_price'')
              ''must be non-negative'') 0 (sa_ProductOffers action))"

definition validateFinanceTargets :: "BudgetTargets \<Rightarrow> RoundView \<Rightarrow> ValidationError list" where
  "validateFinanceTargets targets view =
    (let expectedRound = bt_EffectiveRound (rv_ActiveTargets view) + 1;
         path = ''action.finance.next_round_targets.''
     in errorIf (bt_EffectiveRound targets \<noteq> expectedRound) (path @ ''effective_round'')
          (''must equal '' @ itoa expectedRound @ '' for the next planning round'')
        @ errorIf (bt_ProcurementBudget targets < 0) (path @ ''procurement_budget'') ''must be non-negative''
        @ errorIf (bt_ProductionSpendBudget targets < 0) (path @ ''production_spend_budget'') ''must be non-negative''
        @ errorIf (bt_RevenueTarget targets < 0) (path @ ''revenue_target'') ''must be non-negative''
        @ errorIf (bt_CashFloorTarget targets < 0) (path @ ''cash_floor_target'') ''must be non-negative''
        @ errorIf (bt_DebtCeilingTarget targets < 0) (path @ ''debt_ceiling_target'') ''must be non-negative'')"

definition payloadCount :: "RoleAction \<Rightarrow> nat" where
  "payloadCount action =
     (if act_Procurement action \<noteq> None then 1 else 0) + (if act_Production action \<noteq> None then 1 else 0)
     + (if act_Sales action \<noteq> None then 1 else 0) + (if act_Finance action \<noteq> None then 1 else 0)"

definition ValidateRoleAction :: "RoleSchema \<Rightarrow> RoleAction \<Rightarrow> RoundView \<Rightarrow> ValidationError list" where
  "ValidateRoleAction schema action view =
     errorIf (payloadCount action \<noteq> 1) ''action'' ''must contain exactly one populated role action payload''
     @ (case rsc_RoleID schema of
          RoleProcurementManager \<Rightarrow>
            (case act_Procurement action of
               None \<Rightarrow> errorIf True ''action.procurement'' ''must be populated for procurement_manager''
             | Some procurement \<Rightarrow> validateProcurementRows schema (pra_Orders procurement))
        | RoleProductionManager \<Rightarrow>
            (case act_Production action of
               None \<Rightarrow> errorIf True ''action.production'' ''must be populated for production_manager''
             | Some production \<Rightarrow> validateProductionRows schema production)
        | RoleSalesManager \<Rightarrow>
            (case act_Sales action of
               None \<Rightarrow> errorIf True ''action.sales'' ''must be populated for sales_manager''
             | Some sales \<Rightarrow> validateSalesRows schema sales)
        | RoleFinanceController \<Rightarrow>
            (case act_Finance action of
               None \<Rightarrow> errorIf True ''action.finance'' ''must be populated for finance_controller''
             | Some finance \<Rightarrow> validateFinanceTargets (fa_NextRoundTargets finance) view)
        | OtherRole _ \<Rightarrow> [])"

definition FirstError :: "ValidationError list \<Rightarrow> string option" where
  "FirstError errs =
    (case errs of [] \<Rightarrow> None | err # _ \<Rightarrow> Some (vr_Path err @ '': '' @ vr_Message err))"


section \<open>What the check accepts\<close>

lemma errorIf_Nil [simp]: "errorIf c path message = [] \<longleftrightarrow> \<not> c"
  by (simp add: errorIf_def)

lemma rowErrors_Nil:
  assumes "\<And>i row. check i row = [] \<longleftrightarrow> P row"
  shows "rowErrors check i rows = [] \<longleftrightarrow> list_all P rows"
  using assms by (induction rows arbitrary: i) simp_all

lemmas column_simps = findColumn_def collectionField_def choiceColumn_def integerColumn_def commentaryField_def
  staticOptions_def noOptions_def

lemma procurement_columns:
  "staticColumnOptions (procurementSchema parts) ''orders'' ''part_id'' = pa_ID ` set parts"
  "dependentColumnOptions (procurementSchema parts) ''orders'' ''supplier_id'' i =
     (case partSuppliers parts i of None \<Rightarrow> {} | Some items \<Rightarrow> set (map opt_Value items))"
  by (simp_all add: staticColumnOptions_def dependentColumnOptions_def procurementSchema_def column_simps
      partOptions_def image_image)

lemma production_columns:
  "staticColumnOptions (productionSchema products workstations) ''releases'' ''product_id'' = pd_ID ` set products"
  "staticColumnOptions (productionSchema products workstations) ''capacity_allocation'' ''workstation_id''
     = wk_ID ` set workstations"
  "staticColumnOptions (productionSchema products workstations) ''capacity_allocation'' ''product_id''
     = pd_ID ` set products"
  "staticColumnOptions (productionSchema products workstations) ''overtime'' ''workstation_id''
     = wk_ID ` set workstations"
  by (simp_all add: staticColumnOptions_def productionSchema_def column_simps productOptions_def
      workstationOptions_def image_image)

lemma sales_columns:
  "staticColumnOptions (salesSchema products) ''product_offers'' ''product_id'' = pd_ID ` set products"
  by (simp add: staticColumnOptions_def salesSchema_def column_simps productOptions_def image_image)

text \<open>The suppliers offered for a part are those of the lookup.\<close>

lemma partSuppliers_lookup:
  "partSuppliers (mo_Parts (sd_ProductionModel d)) i = map_option supplierOptions (partsByID d i)"
proof -
  have "foldl (\<lambda>m part. m(pa_ID part \<mapsto> supplierOptions part)) (\<lambda>i. map_option supplierOptions (m i)) parts i
      = map_option supplierOptions (foldl (\<lambda>m item. m(pa_ID item \<mapsto> item)) m parts i)" for m parts
  proof (induction parts arbitrary: m)
    case (Cons part parts)
    have "(\<lambda>i. map_option supplierOptions (m i))(pa_ID part \<mapsto> supplierOptions part)
        = (\<lambda>i. map_option supplierOptions ((m(pa_ID part \<mapsto> part)) i))" by (simp add: fun_eq_iff)
    then show ?case unfolding foldl.simps by (simp only: Cons.IH)
  qed simp
  from this [of Map.empty] show ?thesis by (simp add: partSuppliers_def partsByID_def byID_def)
qed

lemma supplierOptions_values: "map opt_Value (supplierOptions part) = map so_ID (Part_suppliers part)"
  by (simp add: supplierOptions_def Part_suppliers_def o_def)

text \<open>One accepted row of each kind.\<close>

definition orderOk :: "Definition \<Rightarrow> PurchaseOrderIntent \<Rightarrow> bool" where
  "orderOk d order \<longleftrightarrow> 0 \<le> po_Quantity order
     \<and> (\<exists>lookup. ListValidSuppliers d (po_PartID order) = Inr lookup \<and> po_SupplierID order \<in> set (vl_Suppliers lookup))"

definition productKnown :: "Definition \<Rightarrow> ProductID \<Rightarrow> bool" where
  "productKnown d productID \<longleftrightarrow> productID \<in> pd_ID ` set (mo_Products (sd_ProductionModel d))"

definition stationKnown :: "Definition \<Rightarrow> WorkstationID \<Rightarrow> bool" where
  "stationKnown d workstationID \<longleftrightarrow> workstationID \<in> wk_ID ` set (mo_Workstations (sd_ProductionModel d))"

definition actionOk :: "Definition \<Rightarrow> RoleID \<Rightarrow> RoleAction \<Rightarrow> RoundView \<Rightarrow> bool" where
  "actionOk d roleID action view \<longleftrightarrow>
    (case roleID of
       RoleProcurementManager \<Rightarrow>
         (\<exists>x. action = RoleAction.make (Some x) None None None \<and> list_all (orderOk d) (pra_Orders x))
     | RoleProductionManager \<Rightarrow>
         (\<exists>x. action = RoleAction.make None (Some x) None None
            \<and> list_all (\<lambda>r. productKnown d (pr_ProductID r) \<and> 0 \<le> pr_Quantity r) (pda_Releases x)
            \<and> list_all (\<lambda>c. stationKnown d (ca_WorkstationID c) \<and> productKnown d (ca_ProductID c) \<and> 0 \<le> ca_Capacity c)
                (pda_CapacityAllocation x)
            \<and> list_all (\<lambda>c. stationKnown d (oa_WorkstationID c) \<and> 0 \<le> oa_Capacity c) (pda_Overtime x))
     | RoleSalesManager \<Rightarrow>
         (\<exists>x. action = RoleAction.make None None (Some x) None
            \<and> list_all (\<lambda>r. productKnown d (of_ProductID r) \<and> 0 \<le> of_UnitPrice r) (sa_ProductOffers x))
     | RoleFinanceController \<Rightarrow>
         (\<exists>x. action = RoleAction.make None None None (Some x) \<and> targetsOk (fa_NextRoundTargets x)
            \<and> bt_EffectiveRound (fa_NextRoundTargets x) = bt_EffectiveRound (rv_ActiveTargets view) + 1)
     | OtherRole _ \<Rightarrow> payloadCount action = 1)"

lemma byID_None: "byID key items i = None \<longleftrightarrow> i \<notin> key ` set items"
proof -
  have "foldl (\<lambda>m item. m(key item \<mapsto> item)) m items i = None \<longleftrightarrow> i \<notin> key ` set items \<and> m i = None" for m
    by (induction items arbitrary: m) auto
  then show ?thesis by (simp add: byID_def)
qed

lemma procurementRows_Nil:
  "validateProcurementRows (procurementSchema (mo_Parts (sd_ProductionModel d))) orders = [] \<longleftrightarrow>
     list_all (orderOk d) orders"
proof -
  have "(po_PartID order \<in> pa_ID ` set (mo_Parts (sd_ProductionModel d))
      \<and> po_SupplierID order \<in> (case partSuppliers (mo_Parts (sd_ProductionModel d)) (po_PartID order) of
            None \<Rightarrow> {} | Some items \<Rightarrow> set (map opt_Value items))
      \<and> 0 \<le> po_Quantity order) \<longleftrightarrow> orderOk d order" for order
    unfolding partSuppliers_lookup orderOk_def ListValidSuppliers_def Definition_Part_def
    using byID_None [of pa_ID "mo_Parts (sd_ProductionModel d)" "po_PartID order"]
    by (cases "partsByID d (po_PartID order)") (auto simp: partsByID_def supplierOptions_values simp del: set_map)
  then show ?thesis
    unfolding validateProcurementRows_def Let_def procurement_columns
    by (intro rowErrors_Nil) (simp add: not_less)
qed

lemma payload_one:
  "payloadCount action = 1 \<and> act_Procurement action = Some x \<longleftrightarrow> action = RoleAction.make (Some x) None None None"
  "payloadCount action = 1 \<and> act_Production action = Some y \<longleftrightarrow> action = RoleAction.make None (Some y) None None"
  "payloadCount action = 1 \<and> act_Sales action = Some z \<longleftrightarrow> action = RoleAction.make None None (Some z) None"
  "payloadCount action = 1 \<and> act_Finance action = Some w \<longleftrightarrow> action = RoleAction.make None None None (Some w)"
  by (cases action; auto simp: payloadCount_def RoleAction.defs split: if_splits)+

lemma schema_role [simp]:
  "rsc_RoleID (procurementSchema parts) = RoleProcurementManager"
  "rsc_RoleID (productionSchema products workstations) = RoleProductionManager"
  "rsc_RoleID (salesSchema products) = RoleSalesManager" "rsc_RoleID financeSchema = RoleFinanceController"
  by (simp_all add: procurementSchema_def productionSchema_def salesSchema_def financeSchema_def)

lemma productionRows_Nil:
  "validateProductionRows (productionSchema (mo_Products (sd_ProductionModel d)) (mo_Workstations (sd_ProductionModel d))) x = []
   \<longleftrightarrow> list_all (\<lambda>r. productKnown d (pr_ProductID r) \<and> 0 \<le> pr_Quantity r) (pda_Releases x)
      \<and> list_all (\<lambda>c. stationKnown d (ca_WorkstationID c) \<and> productKnown d (ca_ProductID c) \<and> 0 \<le> ca_Capacity c)
          (pda_CapacityAllocation x)
      \<and> list_all (\<lambda>c. stationKnown d (oa_WorkstationID c) \<and> 0 \<le> oa_Capacity c) (pda_Overtime x)"
  unfolding validateProductionRows_def Let_def production_columns append_is_Nil_conv
  by (intro arg_cong2 [where f = "(\<and>)"] rowErrors_Nil) (simp_all add: not_less productKnown_def stationKnown_def)

lemma salesRows_Nil:
  "validateSalesRows (salesSchema (mo_Products (sd_ProductionModel d))) x = [] \<longleftrightarrow>
     list_all (\<lambda>r. productKnown d (of_ProductID r) \<and> 0 \<le> of_UnitPrice r) (sa_ProductOffers x)"
  unfolding validateSalesRows_def Let_def sales_columns
  by (intro rowErrors_Nil) (simp add: not_less productKnown_def)

lemma financeTargets_Nil:
  "validateFinanceTargets targets view = [] \<longleftrightarrow>
     targetsOk targets \<and> bt_EffectiveRound targets = bt_EffectiveRound (rv_ActiveTargets view) + 1"
  by (auto simp: validateFinanceTargets_def Let_def targetsOk_def)

lemma ValidateRoleAction_Nil:
  "ValidateRoleAction (Build d roleID) action view = [] \<longleftrightarrow> actionOk d roleID action view"
proof (cases roleID)
  case RoleProcurementManager
  then show ?thesis
    by (cases "act_Procurement action")
      (auto simp: ValidateRoleAction_def Build_def buildFromPartsProductsWorkstations_def actionOk_def
        procurementRows_Nil RoleAction.defs simp flip: payload_one [unfolded RoleAction.defs])
next
  case RoleProductionManager
  then show ?thesis
    by (cases "act_Production action")
      (auto simp: ValidateRoleAction_def Build_def buildFromPartsProductsWorkstations_def actionOk_def
        productionRows_Nil RoleAction.defs simp flip: payload_one [unfolded RoleAction.defs])
next
  case RoleSalesManager
  then show ?thesis
    by (cases "act_Sales action")
      (auto simp: ValidateRoleAction_def Build_def buildFromPartsProductsWorkstations_def actionOk_def
        salesRows_Nil RoleAction.defs simp flip: payload_one [unfolded RoleAction.defs])
next
  case RoleFinanceController
  then show ?thesis
    by (cases "act_Finance action")
      (auto simp: ValidateRoleAction_def Build_def buildFromPartsProductsWorkstations_def actionOk_def
        financeTargets_Nil RoleAction.defs simp flip: payload_one [unfolded RoleAction.defs])
qed (simp_all add: ValidateRoleAction_def Build_def buildFromPartsProductsWorkstations_def actionOk_def)

text \<open>What the schema accepts, the engine accepts.\<close>

lemma schema_engine:
  assumes "ValidateRoleAction (Build d (as_RoleID a)) (as_Action a) view = []" "as_RoleID a \<in> set CanonicalRoles"
    and "wk_ID ` set (mo_Workstations (sd_ProductionModel d)) \<subseteq> ws_WorkstationID ` set (pl_Workstations (ms_Plant s))"
  shows "validateActionSubmission s a = None"
proof -
  have "w \<in> ws_WorkstationID ` set (pl_Workstations (ms_Plant s))" if "stationKnown d w" for w
    using that assms(3) unfolding stationKnown_def by (rule subsetD [rotated])
  then show ?thesis
    using assms(1,2) unfolding ValidateRoleAction_Nil actionOk_def
    by (auto simp: CanonicalRoles_def valid_payload payload_is valid_parts(1-3) validateFinance_targets
        RoleAction.defs list_all_iff orderOk_def populatedPayloadNames_def)
qed

end
