(* ===== verification/Prompting.thy ===== *)
theory Prompting
  imports ActionSchema
begin

text \<open>
  The decision contract of AI players (\<open>internal/ports/ai.go\<close>) and the prompts that present it
  (\<open>internal/prompting/ai.go\<close>).  The prompts print values as indented JSON; \<open>encoding/json\<close> is a
  parameter, a function of the value printed, and \<open>promptValue\<close> lists the values the code prints.
\<close>

section \<open>The contract\<close>

record RoleBriefing =
  rb_RoleID :: RoleID
  rb_DisplayName :: string
  rb_PublicResponsibilities :: "string list"
  rb_HiddenIncentives :: "string list"
  rb_DecisionPrinciples :: "string list"
  rb_AllowedActionSummary :: "string list"

record AllowedActionSchema =
  aas_RoleID :: RoleID
  aas_RequiredAction :: string
  aas_JSONSchemaName :: string
  aas_Rules :: "string list"

record ResponseFormatSpec =
  rfs_RequireJSONOnly :: bool
  rfs_AllowMarkdownFences :: bool
  rfs_MaxCommentaryChars :: int
  rfs_MaxFocusTags :: int

text \<open>The validation errors of the port have the two fields of the schema's; they are kept apart.\<close>

record AIValidationError =
  av_Path :: string
  av_Message :: string

record RetryFeedback =
  rt_Attempt :: int
  rt_ValidationErrors :: "AIValidationError list"
  rt_LastRawResponse :: string

record AIDecisionRequest =
  dr_MatchID :: MatchID
  dr_Round :: RoundNumber
  dr_RoleID :: RoleID
  dr_Provider :: string
  dr_Model :: string
  dr_Briefing :: RoleBriefing
  dr_RoundView :: RoundView
  dr_RoleReport :: RoleRoundReport
  dr_SharedActionSurface :: RoleSchema
  dr_AllowedActions :: AllowedActionSchema
  dr_Tools :: "LookupToolSpec list"
  dr_ToolResults :: "LookupToolResult list"
  dr_PriorAIResponse :: string
  dr_ResponseSpec :: ResponseFormatSpec
  dr_RetryContext :: "RetryFeedback option"
  dr_PreviousAction :: "ActionSubmission option"

record AICommentary =
  ac_PublicSummary :: string
  ac_FocusTags :: "string list"

record AIDecisionResponse =
  ar_Action :: RoleAction
  ar_Commentary :: AICommentary

record AIDecisionEnvelope =
  ae_Action :: RoleAction
  ae_Commentary :: AICommentary
  ae_ToolCall :: "LookupToolCall option"

definition DecisionResponse :: "AIDecisionEnvelope \<Rightarrow> AIDecisionResponse" where
  "DecisionResponse e = \<lparr>ar_Action = ae_Action e, ar_Commentary = ae_Commentary e\<rparr>"

record ProviderDecisionRequest =
  pq_Provider :: string
  pq_Model :: string
  pq_SystemPrompt :: string
  pq_UserPrompt :: string
  pq_RequireJSONOnly :: bool
  pq_AllowMarkdownFences :: bool

record ProviderDecisionResult =
  px_RawResponse :: string
  px_StructuredResponse :: "AIDecisionEnvelope option"

record AICallRecord =
  cr_RoleID :: RoleID
  cr_Round :: RoundNumber
  cr_Attempt :: int
  cr_Provider :: string
  cr_Model :: string
  cr_SystemPrompt :: string
  cr_UserPrompt :: string
  cr_RawResponse :: string
  cr_IsToolCall :: bool
  cr_Valid :: bool
  cr_ErrorMessage :: string

record AIDecisionAudit =
  au_AttemptCount :: int
  au_UsedFallback :: bool
  au_FallbackReason :: string
  au_ValidationErrors :: "AIValidationError list"

section \<open>Examples\<close>

text \<open>An \<open>exampleSelector\<close> is its view: the first id in the view that is not empty, or a name.\<close>

definition firstID :: "string list \<Rightarrow> string \<Rightarrow> string" where
  "firstID ids fallback = (case find_first (\<lambda>i. i \<noteq> []) ids of Some i \<Rightarrow> i | None \<Rightarrow> fallback)"

text \<open>A field of an event that is missing or no string reads as the empty string.\<close>

definition idFromPayload :: "string \<Rightarrow> payload \<Rightarrow> string" where
  "idFromPayload key p = (case payloadString p key of Some v \<Rightarrow> v | None \<Rightarrow> [])"

definition viewPayloads :: "RoundView \<Rightarrow> payload list" where
  "viewPayloads view = concat (map (\<lambda>round. map ev_Payload (he_Events round)) (rv_RecentRounds view))"

definition exampleProductID :: "RoundView \<Rightarrow> ProductID" where
  "exampleProductID view = firstID
     (map wi_ProductID (pl_WIPInventory (rv_Plant view))
      @ map fi_ProductID (pl_FinishedInventory (rv_Plant view))
      @ map be_ProductID (pl_Backlog (rv_Plant view))
      @ concat (map (\<lambda>customer. map be_ProductID (cs_Backlog customer)) (rv_Customers view))
      @ map (idFromPayload ''product_id'') (viewPayloads view)) ''product_id''"

definition examplePartID :: "RoundView \<Rightarrow> PartID" where
  "examplePartID view = firstID
     (map pi_PartID (pl_PartsInventory (rv_Plant view))
      @ map sl_PartID (pl_InTransitSupply (rv_Plant view))
      @ map (idFromPayload ''part_id'') (viewPayloads view)) ''part_id''"

definition exampleSupplierID :: "RoundView \<Rightarrow> SupplierID" where
  "exampleSupplierID view = firstID
     (map ss_SupplierID (rv_Suppliers view)
      @ map sl_SupplierID (pl_InTransitSupply (rv_Plant view))
      @ map (idFromPayload ''supplier_id'') (viewPayloads view)) ''supplier_id''"

definition exampleWorkstationID :: "RoundView \<Rightarrow> WorkstationID" where
  "exampleWorkstationID view = firstID
     (map ws_WorkstationID (pl_Workstations (rv_Plant view))
      @ map wi_WorkstationID (pl_WIPInventory (rv_Plant view))) ''workstation_id''"

definition exampleCustomerID :: "RoundView \<Rightarrow> CustomerID" where
  "exampleCustomerID view = firstID
     (map cs_CustomerID (rv_Customers view)
      @ map be_CustomerID (pl_Backlog (rv_Plant view))
      @ map (idFromPayload ''customer_id'') (viewPayloads view)) ''customer_id''"

definition toolCallExample :: "RoundView \<Rightarrow> LookupToolSpec list \<Rightarrow> LookupToolCall" where
  "toolCallExample view tools =
    (case find_first (\<lambda>tool. ts_Name tool = ''show_customer_demand_profile'') tools of
       Some tool \<Rightarrow> \<lparr>tc_ToolName = ts_Name tool, tc_Arguments =
         [(''customer_id'', exampleCustomerID view), (''product_id'', exampleProductID view)]\<rparr>
     | None \<Rightarrow>
        (case find_first (\<lambda>tool. ts_Name tool = ''show_product_route'' \<or> ts_Name tool = ''show_product_bom''
                \<or> ts_Name tool = ''list_valid_suppliers'') tools of
           Some tool \<Rightarrow>
             \<lparr>tc_ToolName = ts_Name tool, tc_Arguments =
               (if ts_Name tool = ''list_valid_suppliers'' then [(''part_id'', examplePartID view)]
                else [(''product_id'', exampleProductID view)])\<rparr>
         | None \<Rightarrow> \<lparr>tc_ToolName = ''show_product_route'', tc_Arguments = [(''product_id'', exampleProductID view)]\<rparr>))"

definition exampleActionForView :: "RoleID \<Rightarrow> RoundView \<Rightarrow> RoleAction" where
  "exampleActionForView roleID view =
    (case roleID of
       RoleProcurementManager \<Rightarrow> zeroAction\<lparr>act_Procurement := Some \<lparr>pra_Orders =
         [\<lparr>po_PartID = examplePartID view, po_SupplierID = exampleSupplierID view, po_Quantity = 1\<rparr>]\<rparr>\<rparr>
     | RoleProductionManager \<Rightarrow> zeroAction\<lparr>act_Production := Some
         \<lparr>pda_Releases = [\<lparr>pr_ProductID = exampleProductID view, pr_Quantity = 1\<rparr>],
          pda_CapacityAllocation = [\<lparr>ca_WorkstationID = exampleWorkstationID view,
            ca_ProductID = exampleProductID view, ca_Capacity = 1\<rparr>],
          pda_Overtime = []\<rparr>\<rparr>
     | RoleSalesManager \<Rightarrow> zeroAction\<lparr>act_Sales := Some \<lparr>sa_ProductOffers =
         [\<lparr>of_ProductID = exampleProductID view, of_UnitPrice = 14\<rparr>]\<rparr>\<rparr>
     | RoleFinanceController \<Rightarrow> zeroAction\<lparr>act_Finance := Some \<lparr>fa_NextRoundTargets = rv_ActiveTargets view\<rparr>\<rparr>
     | OtherRole _ \<Rightarrow> zeroAction)"

section \<open>Prompts\<close>

text \<open>The values printed as JSON, each named by what the code puts into its map.\<close>

datatype promptValue =
    DecisionExample RoleAction
  | BriefingValue RoleBriefing
  | RoundFacts RoundView RoleRoundReport "ActionSubmission option"
  | ActionSurface RoleSchema
  | AllowedActionsValue AllowedActionSchema
  | ResponseFormat ResponseFormatSpec RoleAction
  | ToolLookup "LookupToolSpec list" LookupToolCall
  | ToolResultsValue "LookupToolResult list"
  | RetryValue RetryFeedback

type_synonym MarshalIndent = "promptValue \<Rightarrow> string"

text \<open>\<open>strings.ToLower\<close> on ASCII text, and \<open>strings.TrimSuffix\<close> of a full stop.\<close>

definition lowerChar :: "char \<Rightarrow> char" where
  "lowerChar c = (if of_char c \<in> {65..90 :: nat} then char_of (of_char c + 32 :: nat) else c)"

definition trimFullStop :: "string \<Rightarrow> string" where
  "trimFullStop s = (if s \<noteq> [] \<and> last s = CHR ''.'' then butlast s else s)"

definition roleObjective :: "RoleBriefing \<Rightarrow> string" where
  "roleObjective briefing =
    (case rb_DecisionPrinciples briefing of
       principle # _ \<Rightarrow> map lowerChar (trimFullStop principle)
     | [] \<Rightarrow> ''support plant-wide profitability and throughput'')"

definition roleDecisionScope :: "RoleID \<Rightarrow> string" where
  "roleDecisionScope roleID =
    (case roleID of
       RoleProcurementManager \<Rightarrow> ''procurement orders for parts and supplier coverage''
     | RoleProductionManager \<Rightarrow> ''production releases and capacity allocation across workstations''
     | RoleSalesManager \<Rightarrow> ''product pricing and market offers''
     | RoleFinanceController \<Rightarrow> ''next-round financial targets and budget guardrails''
     | OtherRole _ \<Rightarrow> ''the decisions assigned to your role'')"

definition toolLines :: "LookupToolSpec \<Rightarrow> string list" where
  "toolLines tool =
     (''- '' @ [CHR 0x60] @ ts_Name tool @ [CHR 0x60] @ '': '' @ ts_Description tool)
     # (if ts_Arguments tool = [] then []
        else ''  Arguments:'' # map (\<lambda>argument.
          ''  - '' @ ta_Name argument @ '' ('' @ (if ta_Required argument then ''required'' else ''optional'')
            @ ''): '' @ ta_Description argument) (ts_Arguments tool))"

definition renderToolCatalog :: "LookupToolSpec list \<Rightarrow> string list" where
  "renderToolCatalog tools =
    (if tools = [] then [''No scenario lookup tools are available for this match.'', []]
     else [''## Tool Catalog''] @ concat (map toolLines tools) @ [[]])"

definition bullets :: "string list \<Rightarrow> string list" where
  "bullets items = map (\<lambda>item. ''- '' @ item) items"

definition BuildSystemPrompt :: "MarshalIndent \<Rightarrow> AIDecisionRequest \<Rightarrow> string" where
  "BuildSystemPrompt mustJSON request =
    (let briefing = dr_Briefing request
     in joinStrings
      ([''# Role'',
        ''You are a '' @ rb_DisplayName briefing @ '' working for the HerbieGo Manufacturing plant.'',
        [],
        ''In your role, your objective is to '' @ roleObjective briefing @ ''.'',
        [],
        ''As part of your role, you have the following incentives:'']
       @ bullets (rb_HiddenIncentives briefing)
       @ [[],
        ''You also have a number of responsibilities towards the plant and rest of the operations. These are:'']
       @ bullets (rb_PublicResponsibilities briefing)
       @ [[],
        ''# Instructions'',
        ''Follow the following steps to'',
        ''- review the weekly plant report'',
        ''- review weekly department report'',
        ''- review action log of the previous weeks'',
        ''- take a decision on what actions should be taken this week to accomplish your objectives'',
        [],
        ''The decision you take should follow these principles:'']
       @ bullets (rb_DecisionPrinciples briefing)
       @ [[],
        ''# Context'',
        ''You will be triggered at the start of each week with information on the last week performance. You are in charge of making decisions on ''
          @ roleDecisionScope (rb_RoleID briefing) @ ''.'',
        [],
        ''# Tools'',
        ''You have the following tools available to you:'',
        []]
       @ renderToolCatalog (dr_Tools request)
       @ [''# Response'',
        [],
        ''Once you have your decision, communicate it to the rest of the team in JSON format according to the example below.'',
        [],
        mustJSON (DecisionExample (exampleActionForView (dr_RoleID request) (dr_RoundView request))),
        [],
        ''You have the following options for actions to take: ''
          @ joinStrings (rb_AllowedActionSummary briefing) ''; '' @ ''.'',
        [],
        ''Return either one lookup tool request or one final JSON decision.'']) [CHR 0x0A])"

definition promptSection :: "string \<Rightarrow> string \<Rightarrow> string" where
  "promptSection title body = title @ [CHR 0x0A] @ body"

definition BuildUserPrompt :: "MarshalIndent \<Rightarrow> AIDecisionRequest \<Rightarrow> RetryFeedback option \<Rightarrow> string" where
  "BuildUserPrompt mustJSON request retry =
    (let view = dr_RoundView request; decisionAction = exampleActionForView (dr_RoleID request) view
     in joinStrings
      ([promptSection ''## Role Briefing'' (mustJSON (BriefingValue (dr_Briefing request))),
        promptSection ''## Current Round Facts''
          (mustJSON (RoundFacts view (dr_RoleReport request) (dr_PreviousAction request))),
        promptSection ''## Shared Action Surface'' (mustJSON (ActionSurface (dr_SharedActionSurface request))),
        promptSection ''## Allowed Action Schema'' (mustJSON (AllowedActionsValue (dr_AllowedActions request))),
        promptSection ''## Response Format'' (mustJSON (ResponseFormat (dr_ResponseSpec request) decisionAction))]
       @ (if dr_Tools request \<noteq> []
          then [promptSection ''## Tool Lookup''
                 (mustJSON (ToolLookup (dr_Tools request) (toolCallExample view (dr_Tools request))))]
          else [])
       @ (if dr_PriorAIResponse request \<noteq> []
          then [promptSection ''## Prior Tool Call'' (dr_PriorAIResponse request)] else [])
       @ (if dr_ToolResults request \<noteq> []
          then [promptSection ''## Tool Results'' (mustJSON (ToolResultsValue (dr_ToolResults request)))] else [])
       @ (case retry of
            Some feedback \<Rightarrow> [promptSection ''## Retry Feedback'' (mustJSON (RetryValue feedback))]
          | None \<Rightarrow> [])
       @ [''Return JSON only. Do not add prose before or after the JSON object.''])
      [CHR 0x0A, CHR 0x0A])"

section \<open>The examples and the schema\<close>

text \<open>Repeating the active targets, as the finance example and the safe no-op do, names the current
  round as the effective one, which the schema rejects.\<close>

lemma repeated_targets_rejected:
  assumes "act_Finance action = Some x" "fa_NextRoundTargets x = rv_ActiveTargets view"
  shows "ValidateRoleAction (Build d RoleFinanceController) action view \<noteq> []"
  using assms unfolding ValidateRoleAction_Nil actionOk_def
  by (auto simp: RoleAction.defs)

end
