(* ===== verification/JsonObject.thy ===== *)
theory JsonObject
  imports Actions
begin

text \<open>
  Finding the JSON object in the answer of a model: \<open>extractJSONObject\<close> of
  \<open>internal/app/ai_orchestrator.go\<close>.  Characters are bytes.  The second section proves that an
  object is recovered from the text around it, for the objects a JSON printer writes.
\<close>

section \<open>The scan\<close>

definition fence :: string where
  "fence = replicate 3 (CHR 0x60)"

definition newline :: char where
  "newline = CHR 0x0A"

definition backslash :: char where
  "backslash = CHR 0x5C"

definition quoteMark :: char where
  "quoteMark = CHR 0x22"

definition openBrace :: char where
  "openBrace = CHR 0x7B"

definition closeBrace :: char where
  "closeBrace = CHR 0x7D"


text \<open>\<open>strings.LastIndex\<close> of a fence, as the text before it.\<close>

fun beforeLastFence :: "string \<Rightarrow> string option" where
  "beforeLastFence [] = None"
| "beforeLastFence (c # cs) =
    (case beforeLastFence cs of
       Some before \<Rightarrow> Some (c # before)
     | None \<Rightarrow> if take 3 (c # cs) = fence then Some [] else None)"

text \<open>The loop over the bytes from the first brace on; its result is the text up to the brace that
  closes it.\<close>

fun scanObject :: "int \<Rightarrow> bool \<Rightarrow> bool \<Rightarrow> string \<Rightarrow> string option" where
  "scanObject depth inString escaped [] = None"
| "scanObject depth inString escaped (c # cs) =
    (if c = backslash
     then map_option ((#) c) (scanObject depth inString (if inString then \<not> escaped else escaped) cs)
     else if c = quoteMark
     then map_option ((#) c) (scanObject depth (if escaped then inString else \<not> inString) False cs)
     else if c = openBrace
     then map_option ((#) c) (scanObject (if inString then depth else depth + 1) inString False cs)
     else if c = closeBrace
     then if inString then map_option ((#) c) (scanObject depth inString False cs)
          else if depth - 1 = 0 then Some [c]
          else map_option ((#) c) (scanObject (depth - 1) inString False cs)
     else map_option ((#) c) (scanObject depth inString False cs))"

text \<open>The body of a fenced block, up to its last fence if there is one; \<open>None\<close> is the error.\<close>

definition fencedBody :: "string \<Rightarrow> string option" where
  "fencedBody trimmed =
    (if newline \<notin> set trimmed then None
     else let body = TrimSpace (tl (dropWhile (\<lambda>c. c \<noteq> newline) trimmed))
          in Some (case beforeLastFence body of Some before \<Rightarrow> TrimSpace before | None \<Rightarrow> body))"

definition extractJSONObject :: "string \<Rightarrow> string option" where
  "extractJSONObject raw =
    (let trimmed = TrimSpace raw
     in if trimmed = [] then None
        else case (if take 3 trimmed = fence then fencedBody trimmed else Some trimmed) of
          None \<Rightarrow> None
        | Some body \<Rightarrow>
            if openBrace \<notin> set body then None
            else scanObject 0 False False (dropWhile (\<lambda>c. c \<noteq> openBrace) body))"

section \<open>Printed objects\<close>

text \<open>JSON values and their printed form; a printer may add white space between the parts.\<close>

datatype json =
    JNull
  | JBool bool
  | JNumber int
  | JString string
  | JArray "json list"
  | JObject "(string \<times> json) list"

fun escapeChar :: "char \<Rightarrow> string" where
  "escapeChar c =
    (if c = quoteMark \<or> c = backslash then [backslash, c]
     else if c = newline then [backslash, CHR ''n'']
     else if c = CHR 0x0D then [backslash, CHR ''r'']
     else if c = CHR 0x09 then [backslash, CHR ''t'']
     else [c])"

definition printString :: "string \<Rightarrow> string" where
  "printString s = [quoteMark] @ concat (map escapeChar s) @ [quoteMark]"

fun printJson :: "string \<Rightarrow> json \<Rightarrow> string"
  and printItems :: "string \<Rightarrow> json list \<Rightarrow> string"
  and printFields :: "string \<Rightarrow> (string \<times> json) list \<Rightarrow> string" where
  "printJson sp JNull = ''null''"
| "printJson sp (JBool b) = (if b then ''true'' else ''false'')"
| "printJson sp (JNumber i) = itoa i"
| "printJson sp (JString s) = printString s"
| "printJson sp (JArray items) = ''['' @ sp @ printItems sp items @ sp @ '']''"
| "printJson sp (JObject fs) = [openBrace] @ sp @ printFields sp fs @ sp @ [closeBrace]"
| "printItems sp [] = []"
| "printItems sp (v # vs) = printJson sp v @ (if vs = [] then [] else '','' @ sp) @ printItems sp vs"
| "printFields sp [] = []"
| "printFields sp ((k, v) # fs) =
     printString k @ '':'' @ sp @ printJson sp v @ (if fs = [] then [] else '','' @ sp) @ printFields sp fs"

section \<open>The scan finds the end of a printed object\<close>

lemmas char_names = backslash_def quoteMark_def openBrace_def closeBrace_def newline_def

lemma char_names_distinct [simp]:
  "quoteMark \<noteq> backslash" "openBrace \<noteq> backslash" "openBrace \<noteq> quoteMark" "closeBrace \<noteq> backslash"
  "closeBrace \<noteq> quoteMark" "closeBrace \<noteq> openBrace" "newline \<noteq> backslash"
  by (simp_all add: char_names)

text \<open>A text the scan passes over outside strings, whatever follows.\<close>

definition passes :: "int \<Rightarrow> string \<Rightarrow> bool" where
  "passes depth s \<longleftrightarrow> (\<forall>rest. scanObject depth False False (s @ rest)
     = (case scanObject depth False False rest of None \<Rightarrow> None | Some found \<Rightarrow> Some (s @ found)))"

lemma passes_Nil [simp]: "passes depth []"
  by (simp add: passes_def split: option.split)

lemma passes_append: "passes depth s \<Longrightarrow> passes depth t \<Longrightarrow> passes depth (s @ t)"
  by (simp add: passes_def split: option.split)

definition plainChar :: "char \<Rightarrow> bool" where
  "plainChar c \<longleftrightarrow> c \<notin> {backslash, quoteMark, openBrace, closeBrace}"

lemma plainChar_code: "plainChar c \<longleftrightarrow> of_char c \<notin> {92, 34, 123, 125 :: nat}"
proof -
  have "of_char backslash = (92::nat)" "of_char quoteMark = (34::nat)" "of_char openBrace = (123::nat)"
    "of_char closeBrace = (125::nat)" by (simp_all add: char_names)
  then show ?thesis unfolding plainChar_def by (metis insert_iff empty_iff of_char_eq_iff)
qed

lemma passes_plain: "list_all plainChar s \<Longrightarrow> passes depth s"
proof (induction s)
  case (Cons c s)
  then show ?case by (auto simp: passes_def plainChar_def split: option.split)
qed simp

lemma scan_escaped:
  "scanObject depth True False (escapeChar c @ rest) =
     (case scanObject depth True False rest of None \<Rightarrow> None | Some found \<Rightarrow> Some (escapeChar c @ found))"
  by (simp add: char_names split: option.split)

lemma passes_string: "passes depth (printString s)"
proof -
  have "scanObject depth True False (concat (map escapeChar s) @ quoteMark # rest)
      = (case scanObject depth False False rest of None \<Rightarrow> None
         | Some found \<Rightarrow> Some (concat (map escapeChar s) @ quoteMark # found))" for rest
  proof (induction s)
    case (Cons c s)
    have "scanObject depth True False (concat (map escapeChar (c # s)) @ quoteMark # rest)
        = scanObject depth True False (escapeChar c @ (concat (map escapeChar s) @ quoteMark # rest))" by simp
    also have "\<dots> = (case scanObject depth True False (concat (map escapeChar s) @ quoteMark # rest) of
        None \<Rightarrow> None | Some found \<Rightarrow> Some (escapeChar c @ found))" by (rule scan_escaped)
    finally show ?case using Cons.IH by (simp del: escapeChar.simps split: option.split)
  qed (simp split: option.split)
  then show ?thesis by (simp add: passes_def printString_def split: option.split)
qed

lemma passes_itoa: "passes depth (itoa i)"
proof -
  have digit: "plainChar (char_of (48 + n :: nat))" if "n < 10" for n
    using that by (simp add: plainChar_code of_char_of)
  have "list_all plainChar (digits_nat n)" for n
    by (induction n rule: digits_nat.induct) (subst digits_nat.simps, simp add: digit)
  moreover have "plainChar (CHR ''-'')" by (simp add: plainChar_def char_names)
  ultimately have "list_all plainChar (itoa i)" by (simp add: itoa_def)
  then show ?thesis by (rule passes_plain)
qed

lemma passes_braces:
  assumes "passes (depth + 1) s" "0 < depth"
  shows "passes depth ([openBrace] @ s @ [closeBrace])"
  using assms by (simp add: passes_def split: option.split)

text \<open>White space between the parts, as a printer inserts it.\<close>

definition blank :: "string \<Rightarrow> bool" where
  "blank sp \<longleftrightarrow> list_all isSpace sp"

lemma passes_blank: "blank sp \<Longrightarrow> passes depth sp"
  by (intro passes_plain) (auto simp: blank_def list_all_iff isSpace_def plainChar_code)

lemma passes_punctuation: "passes depth '',''" "passes depth '':''" "passes depth ''[''" "passes depth '']''"
  "passes depth ''null''" "passes depth ''true''" "passes depth ''false''"
  by (intro passes_plain, simp add: plainChar_code)+

lemmas passes_parts = passes_append passes_punctuation passes_string passes_itoa

lemma passes_print:
  assumes "blank sp"
  shows "0 < depth \<Longrightarrow> passes depth (printJson sp v)" "0 < depth \<Longrightarrow> passes depth (printItems sp vs)"
    "0 < depth \<Longrightarrow> passes depth (printFields sp fs)"
  using assms
proof (induction sp v and sp vs and sp fs arbitrary: depth and depth and depth
    rule: printJson_printItems_printFields.induct)
  case (6 sp fs)
  have "passes (depth + 1) (sp @ printFields sp fs @ sp)"
    using 6 by (intro passes_append) (simp_all add: passes_blank)
  from passes_braces [OF this 6(2)] show ?case by simp
next
  case (8 sp v vs)
  then show ?case unfolding printItems.simps
    by (cases "vs = []") (simp_all add: passes_parts passes_blank del: append.append_Cons)
next
  case (10 sp k v fs)
  then show ?case unfolding printFields.simps
    by (cases "fs = []") (simp_all add: passes_parts passes_blank del: append.append_Cons)
qed (simp_all add: passes_parts passes_blank del: append.append_Cons)


lemma scan_object:
  assumes "blank sp"
  shows "scanObject 0 False False (printJson sp (JObject fs) @ rest) = Some (printJson sp (JObject fs))"
proof -
  have "passes 1 (sp @ printFields sp fs @ sp)"
    using assms passes_print(3) [OF assms] by (intro passes_append) (simp_all add: passes_blank)
  then have "scanObject 1 False False ((sp @ printFields sp fs @ sp) @ closeBrace # rest)
      = Some ((sp @ printFields sp fs @ sp) @ [closeBrace])"
    unfolding passes_def by simp
  then show ?thesis by simp
qed

section \<open>Objects in the text around them\<close>

lemma dropWhile_around:
  "m \<noteq> [] \<Longrightarrow> \<not> isSpace (hd m) \<Longrightarrow> dropWhile isSpace (xs @ m @ ys) = dropWhile isSpace xs @ m @ ys"
proof (induction xs)
  case Nil
  then show ?case by (cases m) simp_all
qed simp

lemma TrimSpace_around:
  assumes "mid \<noteq> []" "\<not> isSpace (hd mid)" "\<not> isSpace (last mid)"
  shows "TrimSpace (pre @ mid @ post) = dropWhile isSpace pre @ mid @ rev (dropWhile isSpace (rev post))"
  using assms dropWhile_around [of mid pre post]
    dropWhile_around [of "rev mid" "rev post" "rev (dropWhile isSpace pre)"]
  by (simp add: TrimSpace_def hd_rev)

lemma printed_object_ends:
  "printJson sp (JObject fs) \<noteq> []" "\<not> isSpace (hd (printJson sp (JObject fs)))"
  "\<not> isSpace (last (printJson sp (JObject fs)))" "hd (printJson sp (JObject fs)) = openBrace"
  by (simp_all add: isSpace_def openBrace_def closeBrace_def)

text \<open>The object in a text without an earlier brace.\<close>

lemma scan_around:
  assumes "blank sp" "openBrace \<notin> set pre"
  shows "openBrace \<in> set (pre @ printJson sp (JObject fs) @ post)
    \<and> scanObject 0 False False (dropWhile (\<lambda>c. c \<noteq> openBrace) (pre @ printJson sp (JObject fs) @ post))
      = Some (printJson sp (JObject fs))"
proof -
  have "dropWhile (\<lambda>c. c \<noteq> openBrace) (pre @ printJson sp (JObject fs) @ post)
      = printJson sp (JObject fs) @ post"
    using assms(2) by (subst dropWhile_append2) auto
  then show ?thesis using scan_object [OF assms(1), of fs post] by (simp del: scanObject.simps)
qed

lemma extract_plain:
  assumes "blank sp" "openBrace \<notin> set pre"
    and "take 3 (TrimSpace (pre @ printJson sp (JObject fs) @ post)) \<noteq> fence"
  shows "extractJSONObject (pre @ printJson sp (JObject fs) @ post) = Some (printJson sp (JObject fs))"
proof -
  let ?o = "printJson sp (JObject fs)"
  have trim: "TrimSpace (pre @ ?o @ post) = dropWhile isSpace pre @ ?o @ rev (dropWhile isSpace (rev post))"
    using printed_object_ends by (intro TrimSpace_around)
  have "openBrace \<notin> set (dropWhile isSpace pre)" using assms(2) set_dropWhileD by fastforce
  from scan_around [OF assms(1) this, of fs "rev (dropWhile isSpace (rev post))"] assms(3)
  show ?thesis
    by (simp add: extractJSONObject_def Let_def trim printed_object_ends(1) del: printJson.simps scanObject.simps)
qed

lemma beforeLastFence_last:
  assumes "\<forall>c \<in> set post. c \<noteq> CHR 0x60"
  shows "beforeLastFence (body @ fence @ post) = Some body"
proof -
  have none: "beforeLastFence xs = None" if "\<forall>c \<in> set xs. c \<noteq> CHR 0x60" for xs
    using that by (induction xs) (auto simp: fence_def numeral_3_eq_3)
  have "beforeLastFence (fence @ post) = Some []"
  proof -
    have "beforeLastFence (CHR 0x60 # post) = None"
      using none [OF assms] assms by (cases post) (auto simp: fence_def numeral_3_eq_3)
    moreover have "beforeLastFence (CHR 0x60 # CHR 0x60 # post) = None"
      using calculation assms by (cases post) (auto simp: fence_def numeral_3_eq_3)
    ultimately show ?thesis by (simp add: fence_def numeral_3_eq_3)
  qed
  then show ?thesis by (induction body) simp_all
qed

text \<open>A fenced block with the object in it; after the block there are no backticks.\<close>

lemma extract_fenced:
  assumes "blank sp" "openBrace \<notin> set pre" "newline \<notin> set lang" "blank lead" "CHR 0x60 \<notin> set tail"
  shows "extractJSONObject (lead @ fence @ lang @ [newline] @ pre @ printJson sp (JObject fs) @ post @ fence @ tail)
     = Some (printJson sp (JObject fs))"
proof -
  let ?o = "printJson sp (JObject fs)" and ?tail = "rev (dropWhile isSpace (rev tail))"
  define block where "block = fence @ lang @ [newline] @ pre @ ?o @ post @ fence"
  have block: "block \<noteq> []" "\<not> isSpace (hd block)" "\<not> isSpace (last block)" "take 3 block = fence"
    by (simp_all add: block_def fence_def numeral_3_eq_3 isSpace_def)
  have "dropWhile isSpace lead = []" using assms(4) by (simp add: blank_def list_all_iff)
  with TrimSpace_around [OF block(1-3), of lead tail]
  have trim: "TrimSpace (lead @ fence @ lang @ [newline] @ pre @ ?o @ post @ fence @ tail) = block @ ?tail"
    by (simp add: block_def)
  have rest: "dropWhile (\<lambda>c. c \<noteq> newline) (block @ ?tail) = newline # pre @ ?o @ post @ fence @ ?tail"
  proof -
    have before: "dropWhile (\<lambda>c. c \<noteq> newline) ((fence @ lang) @ newline # ys) = newline # ys" for ys
      using assms(3) by (subst dropWhile_append2) (auto simp: fence_def newline_def)
    from before [of "pre @ ?o @ post @ fence @ ?tail"] show ?thesis by (simp add: block_def del: printJson.simps)
  qed
  define body where "body = ?o @ post @ fence"
  have "body \<noteq> []" "\<not> isSpace (hd body)" "\<not> isSpace (last body)"
    using printed_object_ends(1,2) by (simp_all add: body_def fence_def numeral_3_eq_3 isSpace_def del: printJson.simps)
  from TrimSpace_around [OF this, of pre ?tail]
  have "TrimSpace (tl (dropWhile (\<lambda>c. c \<noteq> newline) (block @ ?tail)))
      = dropWhile isSpace pre @ body @ rev (dropWhile isSpace (rev ?tail))"
    by (simp add: rest body_def del: printJson.simps)
  also have "\<dots> = (dropWhile isSpace pre @ ?o @ post) @ fence @ rev (dropWhile isSpace (rev ?tail))"
    by (simp add: body_def del: printJson.simps)
  finally have trimmed: "TrimSpace (tl (dropWhile (\<lambda>c. c \<noteq> newline) (block @ ?tail))) = \<dots>" .
  have "\<forall>c \<in> set (rev (dropWhile isSpace (rev ?tail))). c \<noteq> CHR 0x60"
    using assms(5) by (auto dest!: set_dropWhileD)
  note last = beforeLastFence_last [OF this, of "dropWhile isSpace pre @ ?o @ post"]
  have "newline \<in> set (block @ ?tail)" by (simp add: block_def)
  with trimmed last have "fencedBody (block @ ?tail) = Some (TrimSpace (dropWhile isSpace pre @ ?o @ post))"
    by (simp add: fencedBody_def Let_def del: printJson.simps)
  moreover have "TrimSpace (dropWhile isSpace pre @ ?o @ post)
      = dropWhile isSpace (dropWhile isSpace pre) @ ?o @ rev (dropWhile isSpace (rev post))"
    using printed_object_ends by (intro TrimSpace_around)
  ultimately have body: "fencedBody (block @ ?tail) =
      Some (dropWhile isSpace (dropWhile isSpace pre) @ ?o @ rev (dropWhile isSpace (rev post)))" by simp
  have "openBrace \<notin> set (dropWhile isSpace (dropWhile isSpace pre))"
    using assms(2) by (auto dest!: set_dropWhileD)
  note found = scan_around [OF assms(1) this, of fs "rev (dropWhile isSpace (rev post))"]
  have "take 3 (block @ ?tail) = fence" "block @ ?tail \<noteq> []"
    using block(1,4) by (simp_all add: block_def fence_def)
  with body found show ?thesis
    unfolding trim extractJSONObject_def Let_def by (simp del: printJson.simps scanObject.simps)
qed

end
