(* ===== verification/AIOrchestrator.thy ===== *)
theory AIOrchestrator
  imports Prompting JsonObject MatchRunner
begin

text \<open>
  The decisions of AI players (\<open>internal/app/ai_orchestrator.go\<close>) and the log of their provider
  calls (\<open>internal/app/debug_log.go\<close>): the request built for a round, the loop of attempts with
  its tool lookups, retries and fallback, and the validation of what a model answers.  The
  provider's client and the JSON decoder are parameters: a client is a function of the number of
  the attempt, whether its context is done, and the request, and it answers or fails.
\<close>

section \<open>The orchestrator\<close>

type_synonym DecisionClient = "nat \<Rightarrow> bool \<Rightarrow> ProviderDecisionRequest \<Rightarrow> playerError + ProviderDecisionResult"

text \<open>\<open>json.Unmarshal\<close> into the tool envelope (the call when there is one), into a response (or the
  text of its error), and the printer of the prompts.\<close>

record jsonCodec =
  jc_toolCall :: "string \<Rightarrow> LookupToolCall option"
  jc_response :: "string \<Rightarrow> string + AIDecisionResponse"
  jc_marshal :: MarshalIndent

record AIOrchestrator =
  oc_Client :: "DecisionClient option"
  oc_Scenario :: Definition
  oc_MaxAttempts :: int
  oc_MaxToolCalls :: int

definition defaultAIMaxAttempts :: int where
  "defaultAIMaxAttempts = 3"

definition defaultAIMaxCommentary :: int where
  "defaultAIMaxCommentary = 280"

definition defaultAIMaxFocusTags :: int where
  "defaultAIMaxFocusTags = 4"

definition defaultAIMaxToolCalls :: int where
  "defaultAIMaxToolCalls = 2"

definition NewAIOrchestrator :: "Definition \<Rightarrow> DecisionClient option \<Rightarrow> AIOrchestrator" where
  "NewAIOrchestrator d client =
     \<lparr>oc_Client = client, oc_Scenario = d, oc_MaxAttempts = defaultAIMaxAttempts,
      oc_MaxToolCalls = defaultAIMaxToolCalls\<rparr>"

section \<open>The request of a round\<close>

definition roleBriefing :: "Definition \<Rightarrow> RoleID \<Rightarrow> RoleBriefing" where
  "roleBriefing d roleID =
    (let summary = rsc_AllowedSummary (Build d roleID)
     in case roleID of
       RoleProcurementManager \<Rightarrow>
         \<lparr>rb_RoleID = roleID, rb_DisplayName = ''Procurement Manager'',
          rb_PublicResponsibilities = [''Secure materials required for operations.'', ''Control input cost.'',
            ''Protect the plant from shortages.'', ''Build reliable supplier coverage.''],
          rb_HiddenIncentives = [''Favor bulk buys and lower unit prices even when inventory and cash risk rise.''],
          rb_DecisionPrinciples = [''Protect supply continuity for bottleneck flow.'',
            ''Avoid buying material the plant cannot use soon.'',
            ''Stay aware of active budget targets and plant cash.''],
          rb_AllowedActionSummary = summary\<rparr>
     | RoleProductionManager \<Rightarrow>
         \<lparr>rb_RoleID = roleID, rb_DisplayName = ''Production Manager'',
          rb_PublicResponsibilities = [''Maximize production output.'', ''Keep machines and labor utilized.'',
            ''Manage work-in-progress through the shop floor.'', ''Meet production commitments.''],
          rb_HiddenIncentives = [''Keep resources busy and local output high even when WIP or bottlenecks worsen.''],
          rb_DecisionPrinciples = [''Favor plant throughput over local utilization theater.'',
            ''Release only work that can move through the route.'',
            ''Keep WIP under control at the bottleneck.''],
          rb_AllowedActionSummary = summary\<rparr>
     | RoleSalesManager \<Rightarrow>
         \<lparr>rb_RoleID = roleID, rb_DisplayName = ''Sales Manager'',
          rb_PublicResponsibilities = [''Grow revenue.'', ''Capture demand.'', ''Maintain customer relationships.'',
            ''Push the plant toward market opportunity.''],
          rb_HiddenIncentives = [''Favor booked demand and strong promises even when capacity or delivery reliability suffer.''],
          rb_DecisionPrinciples = [''Protect profitable throughput, not just order count.'',
            ''Consider backlog and delivery risk before chasing demand.'',
            ''Set prices that fit current operational reality.''],
          rb_AllowedActionSummary = summary\<rparr>
     | RoleFinanceController \<Rightarrow>
         \<lparr>rb_RoleID = roleID, rb_DisplayName = ''Finance Controller'',
          rb_PublicResponsibilities = [''Monitor cash, cost, and financial performance.'',
            ''Highlight waste and overspending.'',
            ''Protect the business from financially dangerous decisions.'',
            ''Provide visibility into profit drivers.''],
          rb_HiddenIncentives = [''Favor short-term cost discipline even when it can damage throughput or resilience.''],
          rb_DecisionPrinciples = [''Preserve liquidity without starving profitable flow.'',
            ''Set next-round targets that balance cash, debt, and throughput.'',
            ''Treat cost cuts that harm throughput as risky.''],
          rb_AllowedActionSummary = summary\<rparr>
     | OtherRole _ \<Rightarrow>
         \<lparr>rb_RoleID = roleID, rb_DisplayName = role_string roleID, rb_PublicResponsibilities = [],
          rb_HiddenIncentives = [], rb_DecisionPrinciples = [], rb_AllowedActionSummary = []\<rparr>)"

definition allowedActionSchema :: "Definition \<Rightarrow> RoleID \<Rightarrow> AllowedActionSchema" where
  "allowedActionSchema d roleID =
    (let spec = Build d roleID
     in \<lparr>aas_RoleID = roleID, aas_RequiredAction = rsc_RequiredAction spec,
         aas_JSONSchemaName = rsc_JSONSchemaName spec, aas_Rules = rsc_ValidationRules spec\<rparr>)"

definition clonePreviousForDecision :: "ActionSubmission option \<Rightarrow> ActionSubmission option" where
  "clonePreviousForDecision previous = map_option ActionSubmission_Clone previous"

definition BuildRequest :: "AIOrchestrator \<Rightarrow> RoundRequest \<Rightarrow> AIDecisionRequest" where
  "BuildRequest o1 request =
    (let roundView = RoundView_Clone (rq_RoleView request); assignment = rq_Assignment request;
         roleID = ra_RoleID assignment
     in \<lparr>dr_MatchID = rv_MatchID (rq_RoleView request), dr_Round = rv_Round (rq_RoleView request),
         dr_RoleID = roleID, dr_Provider = ra_Provider assignment, dr_Model = ra_ModelName assignment,
         dr_Briefing = roleBriefing (oc_Scenario o1) roleID, dr_RoundView = roundView,
         dr_RoleReport = RoleRoundReport_Clone (rq_RoleReport request),
         dr_SharedActionSurface = Build (oc_Scenario o1) roleID,
         dr_AllowedActions = allowedActionSchema (oc_Scenario o1) roleID,
         dr_Tools = LookupTools, dr_ToolResults = [], dr_PriorAIResponse = [],
         dr_ResponseSpec = \<lparr>rfs_RequireJSONOnly = True, rfs_AllowMarkdownFences = True,
           rfs_MaxCommentaryChars = defaultAIMaxCommentary, rfs_MaxFocusTags = defaultAIMaxFocusTags\<rparr>,
         dr_RetryContext = None, dr_PreviousAction = clonePreviousForDecision (rq_PreviousAcceptedAction request)\<rparr>)"

section \<open>Validation of requests and answers\<close>

text \<open>The errors joined into one text, a line each; \<open>None\<close> when there are none.\<close>

definition validateDecisionRequest :: "AIDecisionRequest \<Rightarrow> string option" where
  "validateDecisionRequest request =
    (let errs = (if dr_MatchID request = [] then [''match id must not be empty''] else [])
          @ (if dr_Round request \<le> 0 then [''round must be positive''] else [])
          @ (if role_string (dr_RoleID request) = [] then [''role id must not be empty''] else [])
          @ (if TrimSpace (dr_Provider request) = [] then [''provider must not be empty''] else [])
          @ (if TrimSpace (dr_Model request) = [] then [''model must not be empty''] else [])
     in if errs = [] then None else Some (joinStrings errs [CHR 0x0A]))"

definition aiError :: "bool \<Rightarrow> string \<Rightarrow> string \<Rightarrow> AIValidationError list" where
  "aiError c path message = (if c then [\<lparr>av_Path = path, av_Message = message\<rparr>] else [])"

definition translateValidationErrors :: "ValidationError list \<Rightarrow> AIValidationError list" where
  "translateValidationErrors errs = map (\<lambda>err. \<lparr>av_Path = vr_Path err, av_Message = vr_Message err\<rparr>) errs"

definition validateDecisionResponse ::
  "AIDecisionResponse \<Rightarrow> AIDecisionRequest \<Rightarrow> RoleSchema \<Rightarrow> AIValidationError list" where
  "validateDecisionResponse response request schema =
    (let action = ar_Action response; commentary = ar_Commentary response;
         summary = TrimSpace (ac_PublicSummary commentary); tags = ac_FocusTags commentary;
         spec = dr_ResponseSpec request
     in aiError (payloadCount action \<noteq> 1) ''action'' ''must contain exactly one populated role action payload''
        @ translateValidationErrors (ValidateRoleAction schema action (dr_RoundView request))
        @ aiError (summary = []) ''commentary.public_summary'' ''must not be empty''
        @ aiError (rfs_MaxCommentaryChars spec < int (length summary)) ''commentary.public_summary''
            (''must be at most '' @ itoa (rfs_MaxCommentaryChars spec) @ '' characters'')
        @ aiError (tags \<noteq> [] \<and> rfs_MaxFocusTags spec < int (length tags)) ''commentary.focus_tags''
            (''must contain at most '' @ itoa (rfs_MaxFocusTags spec) @ '' tags'')
        @ rowErrors (\<lambda>i tag. aiError (TrimSpace tag = []) (rowPath ''commentary.focus_tags'' i [])
            ''must not be empty'') 0 tags)"

text \<open>The verb \<open>%q\<close> on printable text.\<close>

definition quoteText :: "string \<Rightarrow> string" where
  "quoteText s = [quoteMark]
     @ concat (map (\<lambda>c. if c = quoteMark \<or> c = backslash then [backslash, c] else [c]) s) @ [quoteMark]"

definition validateToolCall :: "LookupToolCall \<Rightarrow> LookupToolSpec list \<Rightarrow> AIValidationError list" where
  "validateToolCall call tools =
    (if TrimSpace (tc_ToolName call) = [] then aiError True ''tool_call.tool_name'' ''must not be empty''
     else case find_first (\<lambda>tool. ts_Name tool = tc_ToolName call) tools of
       None \<Rightarrow> aiError True ''tool_call.tool_name''
         (''must match one of the available tools; got '' @ quoteText (tc_ToolName call))
     | Some selected \<Rightarrow>
         concat (map (\<lambda>argument. aiError
             (ta_Required argument \<and> TrimSpace (callArgument call (ta_Name argument)) = [])
             (''tool_call.arguments.'' @ ta_Name argument) ''must not be empty'')
           (ts_Arguments selected)))"

text \<open>What an answer turns out to be: a valid response, a valid tool call, or errors to report back
  with the text of the parse error.\<close>

datatype parsedDecision =
    ParsedResponse AIDecisionResponse
  | ParsedToolCall LookupToolCall
  | ParseFailed "AIValidationError list" string

definition checkedToolCall :: "LookupToolCall \<Rightarrow> AIDecisionRequest \<Rightarrow> parsedDecision" where
  "checkedToolCall call request =
    (let errs = validateToolCall call (dr_Tools request)
     in if errs \<noteq> [] then ParseFailed errs ''tool call failed validation'' else ParsedToolCall call)"

definition checkedResponse :: "AIDecisionResponse \<Rightarrow> AIDecisionRequest \<Rightarrow> RoleSchema \<Rightarrow> parsedDecision" where
  "checkedResponse response request schema =
    (let errs = validateDecisionResponse response request schema
     in if errs \<noteq> [] then ParseFailed errs ''response failed validation'' else ParsedResponse response)"

definition validateStructuredDecision ::
  "AIDecisionEnvelope \<Rightarrow> AIDecisionRequest \<Rightarrow> RoleSchema \<Rightarrow> parsedDecision" where
  "validateStructuredDecision envelope request schema =
    (case ae_ToolCall envelope of
       Some call \<Rightarrow> checkedToolCall call request
     | None \<Rightarrow> checkedResponse (DecisionResponse envelope) request schema)"

definition parseAndValidateDecision ::
  "jsonCodec \<Rightarrow> ProviderDecisionResult \<Rightarrow> AIDecisionRequest \<Rightarrow> RoleSchema \<Rightarrow> parsedDecision" where
  "parseAndValidateDecision codec result request schema =
    (case px_StructuredResponse result of
       Some envelope \<Rightarrow> validateStructuredDecision envelope request schema
     | None \<Rightarrow>
    (case extractJSONObject (px_RawResponse result) of
       None \<Rightarrow> let message = ''response did not contain a recoverable JSON object''
         in ParseFailed (aiError True ''$'' message) message
     | Some payload \<Rightarrow>
    (case jc_toolCall codec payload of
       Some call \<Rightarrow> checkedToolCall call request
     | None \<Rightarrow>
    (case jc_response codec payload of
       Inl message \<Rightarrow> ParseFailed (aiError True ''$'' (''invalid JSON payload: '' @ message)) message
     | Inr response \<Rightarrow> checkedResponse response request schema))))"

section \<open>What is submitted\<close>

definition responseToSubmission :: "AIDecisionResponse \<Rightarrow> AIDecisionRequest \<Rightarrow> ActionSubmission" where
  "responseToSubmission response request =
     zeroSubmission\<lparr>as_MatchID := dr_MatchID request, as_Round := dr_Round request, as_RoleID := dr_RoleID request,
       as_Action := RoleAction_Clone (ar_Action response),
       as_Commentary := zeroCommentary\<lparr>cm_RoleID := dr_RoleID request, cm_Visibility := CommentaryPublic,
         cm_Body := TrimSpace (ac_PublicSummary (ar_Commentary response))\<rparr>\<rparr>"

definition ai_safeNoOpAction :: "RoleID \<Rightarrow> BudgetTargets \<Rightarrow> RoleAction" where
  "ai_safeNoOpAction roleID targets =
    (case roleID of
       RoleProcurementManager \<Rightarrow> zeroAction\<lparr>act_Procurement := Some \<lparr>pra_Orders = []\<rparr>\<rparr>
     | RoleProductionManager \<Rightarrow> zeroAction\<lparr>act_Production :=
         Some \<lparr>pda_Releases = [], pda_CapacityAllocation = [], pda_Overtime = []\<rparr>\<rparr>
     | RoleSalesManager \<Rightarrow> zeroAction\<lparr>act_Sales := Some \<lparr>sa_ProductOffers = []\<rparr>\<rparr>
     | RoleFinanceController \<Rightarrow> zeroAction\<lparr>act_Finance := Some \<lparr>fa_NextRoundTargets = targets\<rparr>\<rparr>
     | OtherRole _ \<Rightarrow> zeroAction)"

definition fallbackRemark :: "AIDecisionRequest \<Rightarrow> string \<Rightarrow> CommentaryRecord" where
  "fallbackRemark request body =
     zeroCommentary\<lparr>cm_MatchID := dr_MatchID request, cm_Round := dr_Round request, cm_RoleID := dr_RoleID request,
       cm_Visibility := CommentaryPublic, cm_Body := body\<rparr>"

definition fallbackSubmission :: "AIDecisionRequest \<Rightarrow> ActionSubmission \<times> string" where
  "fallbackSubmission request =
    (case dr_PreviousAction request of
       Some previous \<Rightarrow>
         ((ActionSubmission_Clone previous)\<lparr>as_MatchID := dr_MatchID request, as_Round := dr_Round request,
            as_RoleID := dr_RoleID request,
            as_Commentary := fallbackRemark request ''Previous action reused after invalid AI output.''\<rparr>,
          ''previous accepted action reused after invalid AI output'')
     | None \<Rightarrow>
         (zeroSubmission\<lparr>as_MatchID := dr_MatchID request, as_Round := dr_Round request,
            as_RoleID := dr_RoleID request,
            as_Action := ai_safeNoOpAction (dr_RoleID request) (rv_ActiveTargets (dr_RoundView request)),
            as_Commentary := fallbackRemark request ''Safe no-op submitted after invalid AI output.''\<rparr>,
          ''safe no-op submitted after invalid AI output''))"


section \<open>The loop of attempts\<close>

fun errorText :: "playerError \<Rightarrow> string" where
  "errorText ErrNonResponsive = ''player did not respond''"
| "errorText ErrProviderFailure = ''ai provider request failed''"
| "errorText ErrProviderTimeout = ''ai provider request timed out''"
| "errorText ContextCanceled = ''context canceled''"
| "errorText ContextDeadlineExceeded = ''context deadline exceeded''"
| "errorText (PlayerError m) = m"
| "errorText (PlayerWrap m e) = m @ '': '' @ errorText e"
| "errorText (PlayerBoth e e') = errorText e @ '': '' @ errorText e'"

fun lookupErrorText :: "lookupError \<Rightarrow> string" where
  "lookupErrorText (UnknownPartID i) = ''unknown part_id '' @ quoteText i"
| "lookupErrorText (UnknownProductID i) = ''unknown product_id '' @ quoteText i"
| "lookupErrorText (UnknownCustomerID i) = ''unknown customer_id '' @ quoteText i"
| "lookupErrorText (NoDemandProfile c p) =
     ''customer '' @ quoteText c @ '' has no demand profile for product '' @ quoteText p"
| "lookupErrorText LookupsNotConfigured = ''scenario lookups are not configured''"
| "lookupErrorText (UnsupportedTool t) = ''unsupported tool '' @ quoteText t"

definition debugErrorMessage :: "string option \<Rightarrow> AIValidationError list \<Rightarrow> string" where
  "debugErrorMessage parseErr validationErrors =
    (case parseErr of
       Some message \<Rightarrow> message
     | None \<Rightarrow> if validationErrors = [] then []
               else joinStrings (map (\<lambda>ve. av_Path ve @ '': '' @ av_Message ve) validationErrors) ''; '')"

definition executeToolCall :: "AIOrchestrator \<Rightarrow> LookupToolCall \<Rightarrow> lookupError + LookupToolResult" where
  "executeToolCall o1 call = ExecuteLookup (oc_Scenario o1) call"

definition noAudit :: AIDecisionAudit where
  "noAudit = \<lparr>au_AttemptCount = 0, au_UsedFallback = False, au_FallbackReason = [], au_ValidationErrors = []\<rparr>"

text \<open>The variables of the loop, with the calls it has logged.\<close>

record decideState =
  ds_request :: AIDecisionRequest
  ds_retryContext :: "RetryFeedback option"
  ds_toolCalls :: int
  ds_audit :: AIDecisionAudit
  ds_calls :: "AICallRecord list"

definition providerRequestOf :: "jsonCodec \<Rightarrow> decideState \<Rightarrow> ProviderDecisionRequest" where
  "providerRequestOf codec ds =
    (let request = ds_request ds; spec = dr_ResponseSpec request
     in \<lparr>pq_Provider = dr_Provider request, pq_Model = dr_Model request,
         pq_SystemPrompt = BuildSystemPrompt (jc_marshal codec) request,
         pq_UserPrompt = BuildUserPrompt (jc_marshal codec) request (ds_retryContext ds),
         pq_RequireJSONOnly = rfs_RequireJSONOnly spec, pq_AllowMarkdownFences = rfs_AllowMarkdownFences spec\<rparr>)"

definition callRecord ::
  "AIDecisionRequest \<Rightarrow> ProviderDecisionRequest \<Rightarrow> nat \<Rightarrow> string \<Rightarrow> bool \<Rightarrow> bool \<Rightarrow> string \<Rightarrow> AICallRecord" where
  "callRecord request providerRequest attempt raw isToolCall valid message =
     \<lparr>cr_RoleID = dr_RoleID request, cr_Round = dr_Round request, cr_Attempt = int attempt + 1,
      cr_Provider = dr_Provider request, cr_Model = dr_Model request,
      cr_SystemPrompt = pq_SystemPrompt providerRequest, cr_UserPrompt = pq_UserPrompt providerRequest,
      cr_RawResponse = raw, cr_IsToolCall = isToolCall, cr_Valid = valid, cr_ErrorMessage = message\<rparr>"

text \<open>An attempt that gives no decision: what was wrong goes into the audit and the next prompt.\<close>

definition retryWith :: "nat \<Rightarrow> AIValidationError list \<Rightarrow> string \<Rightarrow> decideState \<Rightarrow> decideState" where
  "retryWith attempt validationErrors raw ds =
     ds\<lparr>ds_audit := (ds_audit ds)\<lparr>au_ValidationErrors := validationErrors\<rparr>,
       ds_retryContext := Some \<lparr>rt_Attempt = int attempt + 1, rt_ValidationErrors = validationErrors,
         rt_LastRawResponse = raw\<rparr>\<rparr>"

text \<open>A valid tool call: looked up within the budget, reported back otherwise.\<close>

definition runToolCall ::
  "AIOrchestrator \<Rightarrow> nat \<Rightarrow> LookupToolCall \<Rightarrow> string \<Rightarrow> decideState \<Rightarrow> decideState" where
  "runToolCall o1 attempt call raw ds =
    (let ds = ds\<lparr>ds_toolCalls := ds_toolCalls ds + 1\<rparr>
     in if max 0 (oc_MaxToolCalls o1) < ds_toolCalls ds \<and> 0 < oc_MaxToolCalls o1
        then retryWith attempt (aiError True ''tool_call'' (''tool call budget exceeded; at most ''
               @ itoa (oc_MaxToolCalls o1) @ '' tool calls allowed'')) raw ds
        else case executeToolCall o1 call of
          Inl err \<Rightarrow> retryWith attempt (aiError True ''tool_call'' (lookupErrorText err)) raw ds
        | Inr toolResult \<Rightarrow>
            ds\<lparr>ds_request := (ds_request ds)\<lparr>dr_ToolResults := dr_ToolResults (ds_request ds) @ [toolResult],
                 dr_PriorAIResponse := raw\<rparr>,
              ds_retryContext := None,
              ds_audit := (ds_audit ds)\<lparr>au_ValidationErrors := []\<rparr>\<rparr>)"

text \<open>The attempts left, each one provider call; after the last one the fallback.\<close>

fun decideLoop ::
  "AIOrchestrator \<Rightarrow> jsonCodec \<Rightarrow> DecisionClient \<Rightarrow> RoleSchema \<Rightarrow> bool \<Rightarrow> nat \<Rightarrow> nat \<Rightarrow> decideState \<Rightarrow>
     (playerError + ActionSubmission) \<times> decideState" where
  "decideLoop o1 codec client schema done attempt 0 ds =
    (let (submission, reason) = fallbackSubmission (ds_request ds)
     in (Inr submission, ds\<lparr>ds_audit := (ds_audit ds)\<lparr>au_UsedFallback := True, au_FallbackReason := reason\<rparr>\<rparr>))"
| "decideLoop o1 codec client schema done attempt (Suc n) ds =
    (let ds = ds\<lparr>ds_audit := (ds_audit ds)\<lparr>au_AttemptCount := int attempt + 1\<rparr>\<rparr>;
         request = ds_request ds; providerRequest = providerRequestOf codec ds
     in case client attempt done providerRequest of
          Inl err \<Rightarrow>
            (Inl (PlayerWrap ''app: ai decision runner: request decision'' err),
             ds\<lparr>ds_calls := ds_calls ds
               @ [callRecord request providerRequest attempt [] False False (errorText err)]\<rparr>)
        | Inr result \<Rightarrow>
     let raw = px_RawResponse result;
         log = (\<lambda>isToolCall valid message. ds\<lparr>ds_calls := ds_calls ds
           @ [callRecord request providerRequest attempt raw isToolCall valid message]\<rparr>)
     in case parseAndValidateDecision codec result request schema of
          ParsedResponse response \<Rightarrow>
            (Inr (responseToSubmission response request), log False True (debugErrorMessage None []))
        | ParsedToolCall call \<Rightarrow>
            decideLoop o1 codec client schema done (Suc attempt) n
              (runToolCall o1 attempt call raw (log True False (debugErrorMessage None [])))
        | ParseFailed validationErrors message \<Rightarrow>
            decideLoop o1 codec client schema done (Suc attempt) n
              (retryWith attempt validationErrors raw
                (log False False (debugErrorMessage (Some message) validationErrors))))"

definition Decide ::
  "AIOrchestrator \<Rightarrow> jsonCodec \<Rightarrow> bool \<Rightarrow> AIDecisionRequest \<Rightarrow>
     (playerError + ActionSubmission) \<times> AIDecisionAudit \<times> AICallRecord list" where
  "Decide o1 codec done request =
    (case oc_Client o1 of
       None \<Rightarrow> (Inl (PlayerError ''app: ai decision runner: decision client is not configured''), noAudit, [])
     | Some client \<Rightarrow>
    (case validateDecisionRequest request of
       Some message \<Rightarrow> (Inl (PlayerWrap ''app: ai decision runner'' (PlayerError message)), noAudit, [])
     | None \<Rightarrow>
        let attempts = nat (max 1 (oc_MaxAttempts o1));
            schema = Build (oc_Scenario o1) (dr_RoleID request);
            (decision, ds) = decideLoop o1 codec client schema done 0 attempts
              \<lparr>ds_request = request, ds_retryContext = dr_RetryContext request, ds_toolCalls = 0,
               ds_audit = noAudit, ds_calls = []\<rparr>
        in (decision, ds_audit ds, ds_calls ds)))"

definition AIOrchestrator_SubmitRound :: "AIOrchestrator \<Rightarrow> jsonCodec \<Rightarrow> SubmitFunc" where
  "AIOrchestrator_SubmitRound o1 codec done request = fst (Decide o1 codec done (BuildRequest o1 request))"

section \<open>The log of calls\<close>

record DebugLog =
  dl_records :: "AICallRecord list"
  dl_maxSize :: nat

definition defaultDebugLogMaxSize :: int where
  "defaultDebugLogMaxSize = 200"

definition NewDebugLog :: "int \<Rightarrow> DebugLog" where
  "NewDebugLog maxSize =
     \<lparr>dl_records = [], dl_maxSize = nat (if maxSize \<le> 0 then defaultDebugLogMaxSize else maxSize)\<rparr>"

definition DebugLog_Append :: "AICallRecord \<Rightarrow> DebugLog \<Rightarrow> DebugLog" where
  "DebugLog_Append record log =
    (let records = dl_records log @ [record]
     in log\<lparr>dl_records := (if dl_maxSize log < length records
          then drop (length records - dl_maxSize log) records else records)\<rparr>)"

definition DebugLog_Records :: "DebugLog \<Rightarrow> AICallRecord list" where
  "DebugLog_Records log = dl_records log"


section \<open>What a decision is\<close>

text \<open>The loop adds tool results to the request and keeps the rest of it.\<close>

definition sameDecision :: "AIDecisionRequest \<Rightarrow> AIDecisionRequest \<Rightarrow> bool" where
  "sameDecision r r' \<longleftrightarrow> (\<exists>results prior. r' = r\<lparr>dr_ToolResults := results, dr_PriorAIResponse := prior\<rparr>)"

lemma sameDecision_refl [simp]: "sameDecision r r"
  by (auto simp: sameDecision_def intro!: exI [of _ "dr_ToolResults r"] exI [of _ "dr_PriorAIResponse r"])

lemma sameDecision_trans: "sameDecision r r' \<Longrightarrow> sameDecision r' r'' \<Longrightarrow> sameDecision r r''"
  by (auto simp: sameDecision_def) (metis AIDecisionRequest.update_convs(12,13) AIDecisionRequest.surjective)

lemma sameDecision_fields:
  "sameDecision r r' \<Longrightarrow> dr_MatchID r' = dr_MatchID r \<and> dr_Round r' = dr_Round r \<and> dr_RoleID r' = dr_RoleID r
     \<and> dr_RoundView r' = dr_RoundView r \<and> dr_ResponseSpec r' = dr_ResponseSpec r
     \<and> dr_PreviousAction r' = dr_PreviousAction r \<and> dr_Tools r' = dr_Tools r
     \<and> dr_Provider r' = dr_Provider r"
  by (auto simp: sameDecision_def)

lemma sameDecision_update [simp]: "sameDecision r (r\<lparr>dr_ToolResults := results, dr_PriorAIResponse := prior\<rparr>)"
  unfolding sameDecision_def by blast

lemma runToolCall_same [simp]: "sameDecision (ds_request ds) (ds_request (runToolCall o1 attempt call raw ds))"
  by (auto simp: runToolCall_def Let_def retryWith_def split: sum.split)

lemma step_fields [simp]:
  "ds_calls (runToolCall o1 attempt call raw ds) = ds_calls ds" "ds_calls (retryWith attempt errs raw ds) = ds_calls ds"
  "ds_request (retryWith attempt errs raw ds) = ds_request ds"
  "au_UsedFallback (ds_audit (runToolCall o1 attempt call raw ds)) = au_UsedFallback (ds_audit ds)"
  "au_UsedFallback (ds_audit (retryWith attempt errs raw ds)) = au_UsedFallback (ds_audit ds)"
  "au_AttemptCount (ds_audit (runToolCall o1 attempt call raw ds)) = au_AttemptCount (ds_audit ds)"
  "au_AttemptCount (ds_audit (retryWith attempt errs raw ds)) = au_AttemptCount (ds_audit ds)"
  by (auto simp: runToolCall_def Let_def retryWith_def split: sum.split)

text \<open>The text of a response is a validated one, or the answer was no response.\<close>

lemma parsed_response:
  "parseAndValidateDecision codec result request schema = ParsedResponse response \<Longrightarrow>
     validateDecisionResponse response request schema = []"
  by (auto simp: parseAndValidateDecision_def validateStructuredDecision_def checkedResponse_def
      checkedToolCall_def Let_def split: option.splits sum.splits if_splits)

definition decided :: "AIDecisionRequest \<Rightarrow> RoleSchema \<Rightarrow> ActionSubmission \<Rightarrow> bool" where
  "decided request schema submission \<longleftrightarrow> (\<exists>response request'. sameDecision request request'
     \<and> validateDecisionResponse response request' schema = []
     \<and> submission = responseToSubmission response request')"

definition fellBack :: "AIDecisionRequest \<Rightarrow> ActionSubmission \<Rightarrow> bool" where
  "fellBack request submission \<longleftrightarrow>
     (\<exists>request'. sameDecision request request' \<and> submission = fst (fallbackSubmission request'))"

lemma decided_trans: "sameDecision r r' \<Longrightarrow> decided r' schema s \<Longrightarrow> decided r schema s"
  unfolding decided_def using sameDecision_trans by blast

lemma fellBack_trans: "sameDecision r r' \<Longrightarrow> fellBack r' s \<Longrightarrow> fellBack r s"
  unfolding fellBack_def using sameDecision_trans by blast

text \<open>How the loop ends: with the error of the client, a validated response, or the fallback; and
  what it has logged by then, one call per attempt.\<close>

definition loopEnds ::
  "DecisionClient \<Rightarrow> bool \<Rightarrow> RoleSchema \<Rightarrow> nat \<Rightarrow> nat \<Rightarrow> decideState \<Rightarrow>
     (playerError + ActionSubmission) \<times> decideState \<Rightarrow> bool" where
  "loopEnds client done schema attempt n ds out \<longleftrightarrow>
    (\<exists>new. ds_calls (snd out) = ds_calls ds @ new \<and> length new \<le> n \<and> (0 < n \<longrightarrow> new \<noteq> [])
       \<and> map cr_Attempt new = map (\<lambda>k. int (attempt + k) + 1) [0..<length new]
       \<and> list_all (\<lambda>c. \<not> cr_Valid c) (butlast new)
       \<and> (new \<noteq> [] \<longrightarrow> au_AttemptCount (ds_audit (snd out)) = int (attempt + length new))
       \<and> (new = [] \<longrightarrow> au_AttemptCount (ds_audit (snd out)) = au_AttemptCount (ds_audit ds))
       \<and> (case fst out of
            Inl err \<Rightarrow> (\<exists>k sent e. client k done sent = Inl e \<and> pq_Provider sent = dr_Provider (ds_request ds)
              \<and> err = PlayerWrap ''app: ai decision runner: request decision'' e)
              \<and> au_UsedFallback (ds_audit (snd out)) = au_UsedFallback (ds_audit ds)
          | Inr submission \<Rightarrow>
              if new \<noteq> [] \<and> cr_Valid (last new)
              then decided (ds_request ds) schema submission
                \<and> au_UsedFallback (ds_audit (snd out)) = au_UsedFallback (ds_audit ds)
              else fellBack (ds_request ds) submission \<and> length new = n
                \<and> au_UsedFallback (ds_audit (snd out))))"

lemma loopEnds_later:
  assumes "loopEnds client done schema (Suc attempt) n ds' out" "sameDecision (ds_request ds) (ds_request ds')"
    and "ds_calls ds' = ds_calls ds @ [c]" "\<not> cr_Valid c" "cr_Attempt c = int attempt + 1"
    and "au_AttemptCount (ds_audit ds') = int attempt + 1"
    and "au_UsedFallback (ds_audit ds') = au_UsedFallback (ds_audit ds)"
  shows "loopEnds client done schema attempt (Suc n) ds out"
proof -
  obtain new where new: "ds_calls (snd out) = ds_calls ds' @ new" "length new \<le> n"
    "map cr_Attempt new = map (\<lambda>k. int (Suc attempt + k) + 1) [0..<length new]"
    "list_all (\<lambda>c. \<not> cr_Valid c) (butlast new)"
    "new \<noteq> [] \<longrightarrow> au_AttemptCount (ds_audit (snd out)) = int (Suc attempt + length new)"
    "new = [] \<longrightarrow> au_AttemptCount (ds_audit (snd out)) = au_AttemptCount (ds_audit ds')"
    "case fst out of
       Inl err \<Rightarrow> (\<exists>k sent e. client k done sent = Inl e \<and> pq_Provider sent = dr_Provider (ds_request ds')
         \<and> err = PlayerWrap ''app: ai decision runner: request decision'' e)
         \<and> au_UsedFallback (ds_audit (snd out)) = au_UsedFallback (ds_audit ds')
     | Inr submission \<Rightarrow>
         if new \<noteq> [] \<and> cr_Valid (last new)
         then decided (ds_request ds') schema submission
           \<and> au_UsedFallback (ds_audit (snd out)) = au_UsedFallback (ds_audit ds')
         else fellBack (ds_request ds') submission \<and> length new = n \<and> au_UsedFallback (ds_audit (snd out))"
    using assms(1) unfolding loopEnds_def by blast
  have "map cr_Attempt (c # new) = map (\<lambda>k. int (attempt + k) + 1) [0..<length (c # new)]"
    using new(3) assms(5) by (simp add: upt_0_Suc o_def del: upt_Suc)
  moreover have "au_AttemptCount (ds_audit (snd out)) = int (attempt + length (c # new))"
    using new(5,6) assms(6) by (cases "new = []") simp_all
  moreover have "list_all (\<lambda>c. \<not> cr_Valid c) (butlast (c # new))" using new(4) assms(4) by simp
  ultimately show ?thesis
    using new(1,2,7) assms(2-4,7) decided_trans [OF assms(2)] fellBack_trans [OF assms(2)]
      sameDecision_fields [OF assms(2)]
    unfolding loopEnds_def
    by (intro exI [of _ "c # new"]) (auto split: sum.splits if_splits)
qed

lemma decideLoop_ends:
  "loopEnds client done schema attempt n ds (decideLoop o1 codec client schema done attempt n ds)"
proof (induction n arbitrary: attempt ds)
  case 0
  have "fellBack (ds_request ds) (fst (fallbackSubmission (ds_request ds)))"
    by (auto simp: fellBack_def intro: exI [of _ "ds_request ds"])
  then show ?case by (simp add: loopEnds_def case_prod_unfold Let_def)
next
  case (Suc n)
  define ds1 where "ds1 = ds\<lparr>ds_audit := (ds_audit ds)\<lparr>au_AttemptCount := int attempt + 1\<rparr>\<rparr>"
  define pr where "pr = providerRequestOf codec ds1"
  define log where "log raw isTool valid message = ds1\<lparr>ds_calls := ds_calls ds1
      @ [callRecord (ds_request ds1) pr attempt raw isTool valid message]\<rparr>" for raw isTool valid message
  have log: "ds_request (log raw t v m) = ds_request ds"
    "ds_calls (log raw t v m) = ds_calls ds @ [callRecord (ds_request ds1) pr attempt raw t v m]"
    "au_AttemptCount (ds_audit (log raw t v m)) = int attempt + 1"
    "au_UsedFallback (ds_audit (log raw t v m)) = au_UsedFallback (ds_audit ds)" for raw t v m
    by (simp_all add: log_def ds1_def)
  have provider: "pq_Provider pr = dr_Provider (ds_request ds)"
    by (simp add: pr_def providerRequestOf_def Let_def ds1_def)
  have logged: "cr_Valid (callRecord r pr attempt raw t v m) = v"
    "cr_Attempt (callRecord r pr attempt raw t v m) = int attempt + 1" for r raw t v m
    by (simp_all add: callRecord_def)
  show ?case
  proof (cases "client attempt done pr")
    case (Inl e)
    then have out: "decideLoop o1 codec client schema done attempt (Suc n) ds =
        (Inl (PlayerWrap ''app: ai decision runner: request decision'' e), log [] False False (errorText e))"
      by (simp add: Let_def log_def ds1_def pr_def)
    show ?thesis unfolding out loopEnds_def
      by (intro exI [of _ "[callRecord (ds_request ds1) pr attempt [] False False (errorText e)]"])
        (use Inl provider in \<open>auto simp: log logged\<close>)
  next
    case (Inr result)
    show ?thesis
    proof (cases "parseAndValidateDecision codec result (ds_request ds) schema")
      case (ParsedResponse response)
      then have out: "decideLoop o1 codec client schema done attempt (Suc n) ds =
          (Inr (responseToSubmission response (ds_request ds)), log (px_RawResponse result) False True [])"
        using Inr by (simp add: Let_def log_def ds1_def pr_def debugErrorMessage_def)
      have "decided (ds_request ds) schema (responseToSubmission response (ds_request ds))"
        unfolding decided_def using parsed_response [OF ParsedResponse] sameDecision_refl by blast
      then show ?thesis unfolding out loopEnds_def
        by (intro exI [of _ "[callRecord (ds_request ds1) pr attempt (px_RawResponse result) False True []]"])
          (simp add: log logged)
    next
      case (ParsedToolCall call)
      let ?ds = "runToolCall o1 attempt call (px_RawResponse result) (log (px_RawResponse result) True False [])"
      have out: "decideLoop o1 codec client schema done attempt (Suc n) ds =
          decideLoop o1 codec client schema done (Suc attempt) n ?ds"
        using Inr ParsedToolCall by (simp add: Let_def log_def ds1_def pr_def debugErrorMessage_def)
      have "sameDecision (ds_request ds) (ds_request ?ds)"
        using runToolCall_same [of "log (px_RawResponse result) True False []"] by (simp add: log)
      from loopEnds_later [OF Suc.IH this] show ?thesis unfolding out by (simp add: log logged)
    next
      case (ParseFailed errs message)
      let ?ds = "retryWith attempt errs (px_RawResponse result)
          (log (px_RawResponse result) False False (debugErrorMessage (Some message) errs))"
      have out: "decideLoop o1 codec client schema done attempt (Suc n) ds =
          decideLoop o1 codec client schema done (Suc attempt) n ?ds"
        using Inr ParseFailed by (simp add: Let_def log_def ds1_def pr_def)
      have "sameDecision (ds_request ds) (ds_request ?ds)" by (simp add: log)
      from loopEnds_later [OF Suc.IH this] show ?thesis unfolding out by (simp add: log logged)
    qed
  qed
qed


section \<open>Decisions the engine accepts\<close>

lemma validated_response:
  "validateDecisionResponse response request schema = [] \<Longrightarrow>
     ValidateRoleAction schema (ar_Action response) (dr_RoundView request) = []
     \<and> TrimSpace (ac_PublicSummary (ar_Commentary response)) \<noteq> []
     \<and> int (length (TrimSpace (ac_PublicSummary (ar_Commentary response))))
         \<le> rfs_MaxCommentaryChars (dr_ResponseSpec request)"
  by (auto simp: validateDecisionResponse_def Let_def aiError_def translateValidationErrors_def split: if_splits)

lemma decided_answers:
  assumes "decided (BuildRequest o1 request) (Build d (ra_RoleID (rq_Assignment request))) submission"
    "fairRequest stations request"
    "wk_ID ` set (mo_Workstations (sd_ProductionModel d)) \<subseteq> stations"
  shows "answers request submission"
proof -
  obtain response request' where r: "sameDecision (BuildRequest o1 request) request'"
    "validateDecisionResponse response request' (Build d (ra_RoleID (rq_Assignment request))) = []"
    "submission = responseToSubmission response request'"
    using assms(1) by (auto simp: decided_def)
  let ?a = "submission\<lparr>as_RoleID := ra_RoleID (rq_Assignment request)\<rparr>"
  have action: "as_Action ?a = ar_Action response"
    by (simp add: r(3) responseToSubmission_def RoleAction_Clone_id)
  have "validateActionSubmission s ?a = None" if "ms_Plant s = rv_Plant (rq_RoleView request)" for s :: MatchState
  proof (rule schema_engine)
    show "ValidateRoleAction (Build d (as_RoleID ?a)) (as_Action ?a) (dr_RoundView request') = []"
      using validated_response [OF r(2)] by (simp add: action)
  qed (use assms(2,3) that in \<open>simp_all add: fairRequest_def stationIDs_def\<close>)
  then show ?thesis by (simp add: answers_def)
qed

lemma clone_submission_option: "map_option ActionSubmission_Clone x = x"
  by (cases x) (simp_all add: ActionSubmission_Clone_id)

lemma fellBack_answers:
  assumes "fellBack (BuildRequest o1 request) submission" "fairRequest stations request"
  shows "answers request submission"
proof -
  obtain request' where r: "sameDecision (BuildRequest o1 request) request'"
    "submission = fst (fallbackSubmission request')" using assms(1) by (auto simp: fellBack_def)
  have same: "dr_RoleID request' = ra_RoleID (rq_Assignment request)" "dr_RoundView request' = rq_RoleView request"
    "dr_PreviousAction request' = rq_PreviousAcceptedAction request"
    using sameDecision_fields [OF r(1)]
    by (simp_all add: BuildRequest_def Let_def RoundView_Clone_id clonePreviousForDecision_def
        clone_submission_option)
  let ?a = "submission\<lparr>as_RoleID := ra_RoleID (rq_Assignment request)\<rparr>"
  have "validateActionSubmission s ?a = None" if plant: "ms_Plant s = rv_Plant (rq_RoleView request)" for s :: MatchState
  proof (cases "rq_PreviousAcceptedAction request")
    case (Some p)
    then have "validateActionSubmission s (p\<lparr>as_RoleID := ra_RoleID (rq_Assignment request)\<rparr>) = None"
      using assms(2) plant by (simp add: fairRequest_def answers_def)
    then show ?thesis
      by (rule validate_action_only [rotated 2])
        (simp_all add: r(2) fallbackSubmission_def same Some ActionSubmission_Clone_id)
  next
    case None
    have "ai_safeNoOpAction (ra_RoleID (rq_Assignment request)) (rv_ActiveTargets (rq_RoleView request))
        = safeNoOpAction request" by (simp add: ai_safeNoOpAction_def safeNoOpAction_def)
    with None assms(2) show ?thesis
      by (intro safeNoOp_valid [of _ request]) (simp_all add: r(2) fallbackSubmission_def same fairRequest_def)
  qed
  then show ?thesis by (simp add: answers_def)
qed

text \<open>A client that, asked for a provider's model, fails only with outages.\<close>

definition outagesOnly :: "DecisionClient \<Rightarrow> string \<Rightarrow> bool" where
  "outagesOnly client provider \<longleftrightarrow>
     (\<forall>k sent err. client k False sent = Inl err \<longrightarrow> pq_Provider sent = provider \<longrightarrow> nonResponsive err)"

text \<open>The request of a round is accepted by the orchestrator when the role names its provider and model.\<close>

lemma BuildRequest_valid:
  assumes "fairRequest stations request" "TrimSpace (ra_Provider (rq_Assignment request)) \<noteq> []"
    "TrimSpace (ra_ModelName (rq_Assignment request)) \<noteq> []"
  shows "validateDecisionRequest (BuildRequest o1 request) = None"
  using assms
  by (auto simp: validateDecisionRequest_def BuildRequest_def Let_def fairRequest_def CanonicalRoles_def)

text \<open>The player the program makes for an AI role.\<close>

definition aiPlayer :: "AIOrchestrator \<Rightarrow> jsonCodec \<Rightarrow> Player" where
  "aiPlayer o1 codec = llmPlayer (Some (AIOrchestrator_SubmitRound o1 codec)) None"

lemma aiPlayer_dependable:
  assumes "oc_Client o1 = Some client" "outagesOnly client (ra_Provider a)"
    "TrimSpace (ra_Provider a) \<noteq> []" "TrimSpace (ra_ModelName a) \<noteq> []"
    "wk_ID ` set (mo_Workstations (sd_ProductionModel (oc_Scenario o1))) \<subseteq> stations"
  shows "dependable stations a (aiPlayer o1 codec)"
  unfolding dependable_def
proof (intro allI impI)
  fix request assume req: "rq_Assignment request = a" "fairRequest stations request"
  let ?r = "BuildRequest o1 request" and ?schema = "Build (oc_Scenario o1) (ra_RoleID a)"
  let ?start = "\<lparr>ds_request = ?r, ds_retryContext = dr_RetryContext ?r, ds_toolCalls = 0,
               ds_audit = noAudit, ds_calls = []\<rparr>"
  define out where "out = decideLoop o1 codec client ?schema False 0 (nat (max 1 (oc_MaxAttempts o1))) ?start"
  have "validateDecisionRequest ?r = None" using BuildRequest_valid [OF req(2)] assms(3,4) req(1) by simp
  moreover have "dr_RoleID ?r = ra_RoleID a" by (simp add: BuildRequest_def Let_def req(1))
  ultimately have submit: "ply_SubmitRound (aiPlayer o1 codec) False request = fst out"
    using assms(1) by (simp add: aiPlayer_def llmPlayer_def llmSubmitRound_def AIOrchestrator_SubmitRound_def
        Decide_def Let_def out_def case_prod_unfold)
  have ends: "loopEnds client False ?schema 0 (nat (max 1 (oc_MaxAttempts o1))) ?start out"
    unfolding out_def by (rule decideLoop_ends)
  show "case ply_SubmitRound (aiPlayer o1 codec) False request of
        Inr action \<Rightarrow> answers request action
      | Inl err \<Rightarrow> nonResponsive err \<and> ply_RecoverFromNonResponse (aiPlayer o1 codec) = llmRecover None"
  proof (cases "fst out")
    case (Inl err)
    with ends obtain k q e where "client k False q = Inl e" "pq_Provider q = dr_Provider ?r"
      "err = PlayerWrap ''app: ai decision runner: request decision'' e"
      unfolding loopEnds_def by auto
    moreover have "ply_RecoverFromNonResponse (aiPlayer o1 codec) = llmRecover None"
      by (simp add: aiPlayer_def llmPlayer_def)
    moreover have "dr_Provider ?r = ra_Provider a" by (simp add: BuildRequest_def Let_def req(1))
    ultimately show ?thesis using assms(2) Inl by (auto simp: submit outagesOnly_def)
  next
    case (Inr submission)
    with ends have "decided ?r ?schema submission \<or> fellBack ?r submission"
      unfolding loopEnds_def by (auto split: if_splits)
    then show ?thesis
      using decided_answers [OF _ req(2) assms(5)] fellBack_answers [OF _ req(2)] Inr req(1)
      by (auto simp: submit)
  qed
qed

end
