(* ===== verification/AIProperties.thy ===== *)
theory AIProperties
  imports AIOrchestrator MatchProperties
begin

text \<open>
  The properties of AI decisions: what the loop of attempts returns and how many provider calls it
  makes, the agreement of the action schema with the engine, and the recovery of a JSON object from
  the text of a model.
\<close>

section \<open>The loop of attempts\<close>

text \<open>C19: A decision makes between one and the configured number of provider calls and logs
  and counts each; only the last call can be valid.  It returns the error of the client, or the
  submission of a response that passed the validation when the last call was valid, or else, after
  all attempts, the fallback, and says so in the audit.\<close>

theorem decision_ends:
  assumes "Decide o1 codec done request = (outcome, audit, calls)" "oc_Client o1 = Some client"
    "validateDecisionRequest request = None"
  shows "calls \<noteq> [] \<and> int (length calls) \<le> max 1 (oc_MaxAttempts o1) \<and> au_AttemptCount audit = int (length calls)
    \<and> map cr_Attempt calls = map (\<lambda>k. int k + 1) [0..<length calls] \<and> list_all (\<lambda>c. \<not> cr_Valid c) (butlast calls)
    \<and> (case outcome of
         Inl err \<Rightarrow> (\<exists>k sent e. client k done sent = Inl e \<and> pq_Provider sent = dr_Provider request
           \<and> err = PlayerWrap ''app: ai decision runner: request decision'' e) \<and> \<not> au_UsedFallback audit
       | Inr submission \<Rightarrow>
           if cr_Valid (last calls)
           then decided request (Build (oc_Scenario o1) (dr_RoleID request)) submission \<and> \<not> au_UsedFallback audit
           else fellBack request submission \<and> au_UsedFallback audit
             \<and> int (length calls) = max 1 (oc_MaxAttempts o1))"
proof -
  let ?n = "nat (max 1 (oc_MaxAttempts o1))" and ?schema = "Build (oc_Scenario o1) (dr_RoleID request)"
  let ?start = "\<lparr>ds_request = request, ds_retryContext = dr_RetryContext request, ds_toolCalls = 0,
               ds_audit = noAudit, ds_calls = []\<rparr>"
  define out where "out = decideLoop o1 codec client ?schema done 0 ?n ?start"
  have out: "outcome = fst out" "audit = ds_audit (snd out)" "calls = ds_calls (snd out)"
    using assms by (simp_all add: Decide_def Let_def out_def case_prod_unfold)
  have "loopEnds client done ?schema 0 ?n ?start out" unfolding out_def by (rule decideLoop_ends)
  then show ?thesis
    unfolding loopEnds_def out by (auto simp: noAudit_def split: sum.splits if_splits)
qed

text \<open>A client that first answers with prose and then with a structured response, for the starter
  scenario's sales manager.\<close>

definition wordyResponse :: AIDecisionResponse where
  "wordyResponse = \<lparr>ar_Action = RoleAction.make None None (Some \<lparr>sa_ProductOffers = []\<rparr>) None,
     ar_Commentary = \<lparr>ac_PublicSummary = ''Hold prices.'', ac_FocusTags = []\<rparr>\<rparr>"

definition proseResult :: ProviderDecisionResult where
  "proseResult = \<lparr>px_RawResponse = ''Let me think.'', px_StructuredResponse = None\<rparr>"

definition structuredResult :: ProviderDecisionResult where
  "structuredResult = \<lparr>px_RawResponse = [], px_StructuredResponse = Some
     \<lparr>ae_Action = ar_Action wordyResponse, ae_Commentary = ar_Commentary wordyResponse, ae_ToolCall = None\<rparr>\<rparr>"

definition wordyClient :: DecisionClient where
  "wordyClient k done request = Inr (if k = 0 then proseResult else structuredResult)"

definition strictCodec :: jsonCodec where
  "strictCodec = \<lparr>jc_toolCall = (\<lambda>_. None), jc_response = (\<lambda>_. Inl ''unexpected end of JSON input''),
     jc_marshal = (\<lambda>_. [])\<rparr>"

definition wordyAI :: AIOrchestrator where
  "wordyAI = NewAIOrchestrator Starter (Some wordyClient)"

definition salesRequest :: AIDecisionRequest where
  "salesRequest = BuildRequest wordyAI (roundRequest demoEnv (demoRoles ! 2))"

lemma sales_request:
  "validateDecisionRequest salesRequest = None" "dr_RoleID salesRequest = RoleSalesManager"
  "dr_ResponseSpec salesRequest = \<lparr>rfs_RequireJSONOnly = True, rfs_AllowMarkdownFences = True,
     rfs_MaxCommentaryChars = 280, rfs_MaxFocusTags = 4\<rparr>"
  by (auto simp: salesRequest_def BuildRequest_def Let_def validateDecisionRequest_def roundRequest_def
      BuildRoundView_def demo_env prepareCollectionState_def demo_state demoRoles_def CanonicalRoles_def
      TrimSpace_def isSpace_def defaultAIMaxCommentary_def defaultAIMaxFocusTags_def)

lemma wordy_valid:
  assumes "sameDecision salesRequest request"
  shows "validateDecisionResponse wordyResponse request (Build d RoleSalesManager) = []"
proof -
  have "ValidateRoleAction (Build d RoleSalesManager) (ar_Action wordyResponse) view = []" for view
    by (auto simp: ValidateRoleAction_Nil actionOk_def wordyResponse_def intro!: exI [of _ "\<lparr>sa_ProductOffers = []\<rparr>"])
  moreover have "dr_ResponseSpec request = dr_ResponseSpec salesRequest"
    using sameDecision_fields [OF assms] by simp
  ultimately show ?thesis
    by (simp add: validateDecisionResponse_def Let_def aiError_def translateValidationErrors_def sales_request
        wordyResponse_def payloadCount_def RoleAction.defs TrimSpace_def isSpace_def)
qed

lemma prose_parsed:
  "parseAndValidateDecision codec proseResult request schema =
     ParseFailed [\<lparr>av_Path = ''$'', av_Message = ''response did not contain a recoverable JSON object''\<rparr>]
       ''response did not contain a recoverable JSON object''"
proof -
  have "extractJSONObject ''Let me think.'' = None" by code_simp
  then show ?thesis by (simp add: parseAndValidateDecision_def proseResult_def aiError_def Let_def)
qed

lemma structured_parsed:
  "sameDecision salesRequest request \<Longrightarrow>
     parseAndValidateDecision codec structuredResult request (Build d RoleSalesManager) = ParsedResponse wordyResponse"
  using wordy_valid [of request d]
  by (simp add: parseAndValidateDecision_def structuredResult_def validateStructuredDecision_def
      DecisionResponse_def checkedResponse_def wordyResponse_def)

lemma wordy_decision:
  "\<exists>submission audit calls. Decide wordyAI strictCodec False salesRequest = (Inr submission, audit, calls)
     \<and> length calls = 2 \<and> cr_Valid (last calls)"
proof -
  have attempts: "nat (max 1 (oc_MaxAttempts wordyAI)) = Suc (Suc (Suc 0))"
    by (simp add: wordyAI_def NewAIOrchestrator_def defaultAIMaxAttempts_def)
  have "oc_Client wordyAI = Some wordyClient" by (simp add: wordyAI_def NewAIOrchestrator_def)
  then show ?thesis
    by (simp add: Decide_def Let_def attempts sales_request wordyClient_def prose_parsed structured_parsed
        retryWith_def callRecord_def)
qed

lemma decision_ends_witness:
  "\<exists>submission audit calls. Decide wordyAI strictCodec False salesRequest = (Inr submission, audit, calls)
     \<and> au_AttemptCount audit = 2 \<and> decided salesRequest (Build Starter RoleSalesManager) submission"
proof -
  obtain submission audit calls where d:
    "Decide wordyAI strictCodec False salesRequest = (Inr submission, audit, calls)"
    "length calls = 2" "cr_Valid (last calls)" using wordy_decision by blast
  have "oc_Client wordyAI = Some wordyClient" "oc_Scenario wordyAI = Starter"
    by (simp_all add: wordyAI_def NewAIOrchestrator_def)
  with decision_ends [OF d(1) _ sales_request(1)] d show ?thesis by (simp add: sales_request)
qed

section \<open>The action schema\<close>

text \<open>C25: The validation against the schema of a role reports no error exactly when the action has
  the one payload of its role, with known products, workstations and, per order, a supplier the
  lookup lists for the part; non-negative amounts; and targets for the round after the active ones.\<close>

theorem schema_accepts_iff:
  "ValidateRoleAction (Build d roleID) action view = [] \<longleftrightarrow> actionOk d roleID action view"
  by (rule ValidateRoleAction_Nil)

text \<open>An action the schema of its role accepts is accepted by the engine, in every state
  with the workstations of the scenario.\<close>

theorem schema_sound_for_engine:
  assumes "ValidateRoleAction (Build d (as_RoleID a)) (as_Action a) view = []" "as_RoleID a \<in> set CanonicalRoles"
    and "wk_ID ` set (mo_Workstations (sd_ProductionModel d)) \<subseteq> stationIDs (ms_Plant s)"
  shows "validateActionSubmission s a = None"
  using assms unfolding stationIDs_def by (rule schema_engine)

lemma demo_stations:
  "wk_ID ` set (mo_Workstations (sd_ProductionModel Starter)) = stationIDs (ms_Plant demoState)"
  by (simp add: stationIDs_def demoState_def InitialState_def Let_def image_image productionWorkstationState_def)

lemma schema_sound_for_engine_witness:
  "validateActionSubmission demoState (responseToSubmission wordyResponse salesRequest) = None"
proof -
  have "ValidateRoleAction (Build Starter (as_RoleID (responseToSubmission wordyResponse salesRequest)))
      (as_Action (responseToSubmission wordyResponse salesRequest)) (dr_RoundView salesRequest) = []"
    using validated_response [OF wordy_valid [OF sameDecision_refl, of Starter]]
    by (simp add: responseToSubmission_def sales_request RoleAction_Clone_id)
  then show ?thesis
    by (rule schema_sound_for_engine)
      (simp_all add: responseToSubmission_def sales_request CanonicalRoles_def flip: demo_stations)
qed

text \<open>C32: Repeating the active targets is what the finance no-op and the finance example of the
  prompt do; the schema rejects it always, since it wants the targets of the next round.\<close>

theorem repeating_targets_rejected:
  "ValidateRoleAction (Build d RoleFinanceController) (ai_safeNoOpAction RoleFinanceController (rv_ActiveTargets view)) view \<noteq> []
    \<and> ValidateRoleAction (Build d RoleFinanceController) (exampleActionForView RoleFinanceController view) view \<noteq> []"
  unfolding ai_safeNoOpAction_def exampleActionForView_def
  using repeated_targets_rejected [of _ "\<lparr>fa_NextRoundTargets = rv_ActiveTargets view\<rparr>" view d] by simp

section \<open>JSON objects in the text of a model\<close>

text \<open>C23: A printed JSON object is recovered from the text of a model, whatever strings, escapes and
  nested values it has: behind any text without a brace and before any text, and in a fenced
  block with an optional language.\<close>

theorem json_recovered:
  assumes "blank sp" "openBrace \<notin> set pre"
  shows "(take 3 (TrimSpace (pre @ printJson sp (JObject fs) @ post)) \<noteq> fence \<longrightarrow>
      extractJSONObject (pre @ printJson sp (JObject fs) @ post) = Some (printJson sp (JObject fs)))
    \<and> (newline \<notin> set lang \<and> blank lead \<and> CHR 0x60 \<notin> set tail \<longrightarrow>
      extractJSONObject (lead @ fence @ lang @ [newline] @ pre @ printJson sp (JObject fs) @ post @ fence @ tail)
        = Some (printJson sp (JObject fs)))"
  using extract_plain [OF assms] extract_fenced [OF assms] by auto

definition braceObject :: "(string \<times> json) list" where
  "braceObject = [(''a}'', JArray [JNull, JObject [(''b'', JString [quoteMark, closeBrace, backslash])]]), (''n'', JNumber 7)]"

lemma json_recovered_witness:
  "extractJSONObject (''Sure: '' @ printJson '' '' (JObject braceObject) @ '' ok }'')
       = Some (printJson '' '' (JObject braceObject))
     \<and> extractJSONObject (fence @ ''json'' @ [newline] @ printJson [] (JObject braceObject) @ [newline] @ fence)
       = Some (printJson [] (JObject braceObject))"
proof
  have "take 3 (TrimSpace (''Sure: '' @ printJson '' '' (JObject braceObject) @ '' ok }'')) \<noteq> fence" by code_simp
  then show "extractJSONObject (''Sure: '' @ printJson '' '' (JObject braceObject) @ '' ok }'')
      = Some (printJson '' '' (JObject braceObject))"
    using json_recovered [of "'' ''" "''Sure: ''" braceObject "'' ok }''"]
    by (simp add: blank_def isSpace_def openBrace_def)
  show "extractJSONObject (fence @ ''json'' @ [newline] @ printJson [] (JObject braceObject) @ [newline] @ fence)
      = Some (printJson [] (JObject braceObject))"
    using json_recovered [of "[]" "[]" braceObject "[newline]" "''json''" "[]" "[]"]
    by (simp add: blank_def newline_def)
qed

end
