(* ===== verification/AIClients.thy ===== *)
theory AIClients
  imports AIOrchestrator
begin

text \<open>
  The clients of model providers: the routing client that picks a provider's client by its name
  (\<open>internal/adapters/ai/client.go\<close>) and the client of an OpenAI-compatible endpoint
  (\<open>internal/adapters/ai/openai/client.go\<close>).  The chat completion of the third-party client is a
  parameter, a function of the attempt, of whether the context is done and of what is sent; so are
  the parser and the printer of URLs.
\<close>

section \<open>Routing\<close>

definition normalizeProvider :: "string \<Rightarrow> string" where
  "normalizeProvider provider = map lowerChar (TrimSpace provider)"

text \<open>The clients by name; a map that is ranged over is the list of its entries in the order of the visit.\<close>

type_synonym RoutingClient = "string \<rightharpoonup> DecisionClient"

definition NewRoutingClient :: "(string \<times> DecisionClient option) list \<Rightarrow> RoutingClient" where
  "NewRoutingClient providers =
     foldl (\<lambda>normalized (provider, client).
       let name = normalizeProvider provider
       in case client of
            None \<Rightarrow> normalized
          | Some client \<Rightarrow> if name = [] then normalized else normalized(name \<mapsto> client)) Map.empty providers"

definition SupportsProvider :: "RoutingClient option \<Rightarrow> string \<Rightarrow> bool" where
  "SupportsProvider c provider =
    (case c of None \<Rightarrow> False | Some providers \<Rightarrow> providers (normalizeProvider provider) \<noteq> None)"

definition RoutingClient_RequestDecision :: "RoutingClient option \<Rightarrow> DecisionClient" where
  "RoutingClient_RequestDecision c attempt done request =
    (case c of
       None \<Rightarrow> Inl (PlayerError ''ai routing client is not configured'')
     | Some providers \<Rightarrow>
    (case providers (normalizeProvider (pq_Provider request)) of
       None \<Rightarrow> Inl (PlayerError (''unsupported AI provider '' @ quoteText (pq_Provider request)))
     | Some client \<Rightarrow> client attempt done request))"

section \<open>OpenAI-compatible endpoints\<close>

record baseURL =
  url_Scheme :: string
  url_Host :: string
  url_Path :: string

record urlCodec =
  uc_Parse :: "string \<Rightarrow> string + baseURL"
  uc_String :: "baseURL \<Rightarrow> string"

record OpenAIClient =
  oa_baseURL :: "baseURL option"
  oa_apiKey :: string
  oa_maxRetries :: int

type_synonym OpenAIOption = "OpenAIClient \<Rightarrow> OpenAIClient"

text \<open>What is sent to the endpoint; a completion fails with an error that may be a network timeout,
  or gives the contents of its choices and the structured envelope.\<close>

record chatRequest =
  ch_BaseURL :: string
  ch_APIKey :: string
  ch_MaxRetries :: int
  ch_Model :: string
  ch_System :: string
  ch_User :: string

record chatError =
  ce_error :: playerError
  ce_netTimeout :: bool

type_synonym ChatCompletion = "nat \<Rightarrow> bool \<Rightarrow> chatRequest \<Rightarrow> chatError + (string list \<times> AIDecisionEnvelope)"

definition defaultBaseURL :: string where
  "defaultBaseURL = ''https://api.openai.com/v1/''"

definition hasSuffixSlash :: "string \<Rightarrow> bool" where
  "hasSuffixSlash s \<longleftrightarrow> s \<noteq> [] \<and> last s = CHR ''/''"

definition parseBaseURL :: "urlCodec \<Rightarrow> string \<Rightarrow> string + baseURL" where
  "parseBaseURL urls rawURL =
    (let trimmed = TrimSpace rawURL
     in if trimmed = [] then Inl ''openai base URL must not be empty''
        else case uc_Parse urls trimmed of
          Inl err \<Rightarrow> Inl (''parse openai base URL '' @ quoteText rawURL @ '': '' @ err)
        | Inr parsed \<Rightarrow>
            if url_Scheme parsed = [] \<or> url_Host parsed = []
            then Inl (''openai base URL '' @ quoteText rawURL @ '' must include scheme and host'')
            else Inr (if hasSuffixSlash (url_Path parsed) then parsed
                      else parsed\<lparr>url_Path := url_Path parsed @ ''/''\<rparr>))"

text \<open>A base URL that does not parse leaves the client without one.\<close>

definition WithBaseURL :: "urlCodec \<Rightarrow> string \<Rightarrow> OpenAIOption" where
  "WithBaseURL urls rawURL client =
     client\<lparr>oa_baseURL := (case parseBaseURL urls rawURL of Inl _ \<Rightarrow> None | Inr u \<Rightarrow> Some u)\<rparr>"

definition WithAPIKey :: "string \<Rightarrow> OpenAIOption" where
  "WithAPIKey apiKey client = client\<lparr>oa_apiKey := TrimSpace apiKey\<rparr>"

definition WithMaxRetries :: "int \<Rightarrow> OpenAIOption" where
  "WithMaxRetries maxRetries client = client\<lparr>oa_maxRetries := maxRetries\<rparr>"

definition NewOpenAI :: "urlCodec \<Rightarrow> int \<Rightarrow> OpenAIOption option list \<Rightarrow> string + OpenAIClient" where
  "NewOpenAI urls defaultMaxRetries options =
    (case parseBaseURL urls defaultBaseURL of
       Inl err \<Rightarrow> Inl err
     | Inr u \<Rightarrow>
        let client = \<lparr>oa_baseURL = Some u, oa_apiKey = [], oa_maxRetries = defaultMaxRetries\<rparr>;
            client = foldl (\<lambda>client opt. case opt of None \<Rightarrow> client | Some f \<Rightarrow> f client) client options
        in if oa_baseURL client = None then Inl ''openai client base URL is not configured''
           else Inr client)"

definition firstChoiceContent :: "string list \<Rightarrow> playerError + string" where
  "firstChoiceContent choices =
    (case choices of
       [] \<Rightarrow> Inl (PlayerError ''openai response did not include any choices'')
     | content # _ \<Rightarrow> Inr (TrimSpace content))"

definition providerDecisionResult :: "string list \<Rightarrow> AIDecisionEnvelope \<Rightarrow> playerError + ProviderDecisionResult" where
  "providerDecisionResult choices envelope =
    (case firstChoiceContent choices of
       Inl err \<Rightarrow> Inl err
     | Inr content \<Rightarrow> Inr \<lparr>px_RawResponse = content, px_StructuredResponse = Some envelope\<rparr>)"

definition isProviderTimeout :: "chatError \<Rightarrow> bool" where
  "isProviderTimeout err \<longleftrightarrow> errorIs (ce_error err) ContextDeadlineExceeded \<or> ce_netTimeout err"

definition classifyRequestError :: "chatError \<Rightarrow> playerError" where
  "classifyRequestError err =
     PlayerWrap ''call openai chat completions API''
       (PlayerBoth (if isProviderTimeout err then ErrProviderTimeout else ErrProviderFailure) (ce_error err))"

definition trimSuffixSlash :: "string \<Rightarrow> string" where
  "trimSuffixSlash s = (if hasSuffixSlash s then butlast s else s)"

definition OpenAI_RequestDecision :: "urlCodec \<Rightarrow> ChatCompletion \<Rightarrow> OpenAIClient option \<Rightarrow> DecisionClient" where
  "OpenAI_RequestDecision urls chat c attempt done request =
    (case c of
       None \<Rightarrow> Inl (PlayerError ''openai client is not configured'')
     | Some client \<Rightarrow>
    (case oa_baseURL client of
       None \<Rightarrow> Inl (PlayerError ''openai client is not configured'')
     | Some u \<Rightarrow>
    (case chat attempt done
            \<lparr>ch_BaseURL = trimSuffixSlash (uc_String urls u), ch_APIKey = oa_apiKey client,
             ch_MaxRetries = max 0 (oa_maxRetries client), ch_Model = pq_Model request,
             ch_System = pq_SystemPrompt request, ch_User = pq_UserPrompt request\<rparr> of
       Inl err \<Rightarrow> Inl (classifyRequestError err)
     | Inr (choices, envelope) \<Rightarrow> providerDecisionResult choices envelope)))"

section \<open>Which failures are outages\<close>

text \<open>Every failed completion is classified as an outage the player can recover from; a response
  without choices is not.\<close>

lemma classified_nonResponsive: "nonResponsive (classifyRequestError err)"
  by (simp add: nonResponsive_def classifyRequestError_def)

definition withChoices :: "ChatCompletion \<Rightarrow> bool" where
  "withChoices chat \<longleftrightarrow> (\<forall>k sent envelope. chat k False sent \<noteq> Inr ([], envelope))"

lemma openai_outages:
  assumes "oa_baseURL client \<noteq> None" "withChoices chat"
  shows "outagesOnly (OpenAI_RequestDecision urls chat (Some client)) provider"
  unfolding outagesOnly_def
proof (intro allI impI)
  fix k sent err assume "OpenAI_RequestDecision urls chat (Some client) k False sent = Inl err"
  then obtain e where "err = classifyRequestError e"
    using assms by (auto simp: OpenAI_RequestDecision_def providerDecisionResult_def firstChoiceContent_def
        withChoices_def split: sum.splits list.splits)
  then show "nonResponsive err" by (simp add: classified_nonResponsive)
qed

lemma NewOpenAI_url: "NewOpenAI urls retries options = Inr client \<Longrightarrow> oa_baseURL client \<noteq> None"
  by (auto simp: NewOpenAI_def Let_def split: sum.splits if_splits)

lemma no_choices_aborts:
  "\<not> nonResponsive (PlayerWrap m (PlayerError ''openai response did not include any choices''))"
  by (simp add: nonResponsive_def)

text \<open>What the routing client knows: the last client of a name, by normalised name.\<close>

lemma NewRoutingClient_ran:
  "NewRoutingClient providers name = Some client \<Longrightarrow>
     \<exists>provider. (provider, Some client) \<in> set providers \<and> normalizeProvider provider = name"
proof (induction providers rule: rev_induct)
  case (snoc entry providers)
  then show ?case
    by (cases entry) (auto simp: NewRoutingClient_def Let_def split: option.splits if_splits)
qed (simp add: NewRoutingClient_def)

lemma routed_outages:
  assumes "\<And>client. (\<exists>name. providers name = Some client) \<Longrightarrow> outagesOnly client provider"
    and "SupportsProvider (Some providers) provider"
  shows "outagesOnly (RoutingClient_RequestDecision (Some providers)) provider"
  using assms by (fastforce simp: outagesOnly_def RoutingClient_RequestDecision_def SupportsProvider_def
      split: option.splits)

end
