(* ===== verification/Configuration.thy ===== *)
theory Configuration
  imports AIClients "HOL-Library.Word"
begin

text \<open>
  The configuration of the process (\<open>internal/app/config.go\<close>), the runtime built from it
  (\<open>internal/app/runtime.go\<close>) and the players of a match (\<open>cmd/herbiego/players.go\<close>).  Files, the
  YAML decoder, file paths, the clock and the generator behind a seed are parameters.  The map of
  roles is an association list with distinct keys; where it is ranged over, a \<open>MapOrder\<close> gives the
  order of the visit.  A nil map reads as an empty one.
\<close>

section \<open>Data\<close>

type_synonym PlayerKind = string
type_synonym ProviderName = string
type_synonym APISDKType = string

definition PlayerKindHuman :: PlayerKind where
  "PlayerKindHuman = ''human''"

definition PlayerKindAI :: PlayerKind where
  "PlayerKindAI = ''ai''"

definition APISDKTypeOpenAI :: APISDKType where
  "APISDKTypeOpenAI = ''openai''"

record RoleConfig =
  rc_Kind :: PlayerKind
  rc_Provider :: ProviderName
  rc_Model :: string
  rc_URL :: string
  rc_APISDKType :: APISDKType
  rc_APIKey :: string

record RoleConfigFile =
  rcf_RoleID :: RoleID
  rcf_Provider :: ProviderName
  rcf_Model :: string

record LLMCatalogEntry =
  le_Provider :: ProviderName
  le_Model :: string
  le_URL :: string
  le_APISDKType :: APISDKType
  le_APIKey :: string

record LLMCatalog =
  lc_Entries :: "LLMCatalogEntry list"

record Config =
  cf_Environment :: string
  cf_ScenarioID :: ScenarioID
  cf_MatchID :: MatchID
  cf_RandomSeed :: "64 word"
  cf_HumanPlayers :: int
  cf_AIRevealDelaySeconds :: int
  cf_Roles :: "(RoleID \<times> RoleConfig) list"
  cf_RoleConfigs :: "RoleConfigFile list"
  cf_LLMCatalog :: LLMCatalog

record BootstrapOptions =
  bo_ConfigPath :: string
  bo_LLMCatalogPath :: string
  bo_MatchIDOverride :: "MatchID option"
  bo_HumanPlayersOverride :: "int option"
  bo_SeedOverride :: "64 word option"

definition defaultConfigPath :: string where
  "defaultConfigPath = ''herbiego.yaml''"

definition defaultLLMCatalogPath :: string where
  "defaultLLMCatalogPath = ''llm.yaml''"

definition defaultEnvironment :: string where
  "defaultEnvironment = ''local''"

definition defaultRandomSeed :: "64 word" where
  "defaultRandomSeed = 1"

definition defaultAIRevealDelay :: int where
  "defaultAIRevealDelay = 15"

definition defaultScenarioID :: ScenarioID where
  "defaultScenarioID = DefaultID"

definition preferredHumanRoleOrder :: "RoleID list" where
  "preferredHumanRoleOrder =
     [RoleProductionManager, RoleProcurementManager, RoleSalesManager, RoleFinanceController]"

section \<open>The catalog of models\<close>

definition LLMCatalog_Lookup :: "LLMCatalog \<Rightarrow> ProviderName \<Rightarrow> LLMCatalogEntry option" where
  "LLMCatalog_Lookup catalog provider =
    (let name = normalizeProvider provider
     in find_first (\<lambda>entry. normalizeProvider (le_Provider entry) = name) (lc_Entries catalog))"

definition LLMCatalog_normalize :: "LLMCatalog \<Rightarrow> LLMCatalog" where
  "LLMCatalog_normalize catalog =
     \<lparr>lc_Entries = map (\<lambda>entry.
        \<lparr>le_Provider = normalizeProvider (le_Provider entry), le_Model = TrimSpace (le_Model entry),
         le_URL = TrimSpace (le_URL entry), le_APISDKType = normalizeProvider (le_APISDKType entry),
         le_APIKey = TrimSpace (le_APIKey entry)\<rparr>) (lc_Entries catalog)\<rparr>"

definition textIf :: "bool \<Rightarrow> string \<Rightarrow> string list" where
  "textIf c message = (if c then [message] else [])"

definition entryName :: "LLMCatalogEntry \<Rightarrow> string" where
  "entryName entry = ''llm catalog entry '' @ quoteText (le_Provider entry) @ ''/'' @ quoteText (le_Model entry)"

text \<open>The loop over the entries with the names seen so far; the messages of \<open>errors.Join\<close>.\<close>

fun catalogErrors :: "string list \<Rightarrow> LLMCatalogEntry list \<Rightarrow> string list" where
  "catalogErrors seen [] = []"
| "catalogErrors seen (entry # entries) =
     textIf (TrimSpace (le_Provider entry) = []) ''llm catalog provider_name must not be empty''
     @ textIf (TrimSpace (le_Model entry) = []) ''llm catalog model_name must not be empty''
     @ textIf (TrimSpace (le_URL entry) = []) (entryName entry @ '' url must not be empty'')
     @ (if le_APISDKType entry = APISDKTypeOpenAI then []
        else if le_APISDKType entry = [] then [entryName entry @ '' api_sdk_type must not be empty'']
        else [entryName entry @ '' api_sdk_type must be '' @ quoteText APISDKTypeOpenAI])
     @ textIf (le_Provider entry \<in> set seen)
         (''llm catalog provider_name '' @ quoteText (le_Provider entry) @ '' must be unique'')
     @ catalogErrors (le_Provider entry # seen) entries"

definition LLMCatalog_Validate :: "LLMCatalog \<Rightarrow> string list" where
  "LLMCatalog_Validate catalog = catalogErrors [] (lc_Entries catalog)"

section \<open>The configuration\<close>

definition setRole :: "RoleID \<Rightarrow> RoleConfig \<Rightarrow> (RoleID \<times> RoleConfig) list \<Rightarrow> (RoleID \<times> RoleConfig) list" where
  "setRole roleID roleCfg =
     upsert_first (\<lambda>(k, _). k = roleID) (\<lambda>_. (roleID, roleCfg)) (roleID, roleCfg)"

definition selectedHumanRoles :: "int \<Rightarrow> RoleID list" where
  "selectedHumanRoles humanPlayers =
     take (nat (min humanPlayers (int (length preferredHumanRoleOrder)))) preferredHumanRoleOrder"

definition roleOfFile :: "LLMCatalog \<Rightarrow> RoleConfigFile \<Rightarrow> RoleConfig" where
  "roleOfFile catalog roleFile =
    (let provider = normalizeProvider (rcf_Provider roleFile); model = TrimSpace (rcf_Model roleFile)
     in case LLMCatalog_Lookup catalog provider of
          None \<Rightarrow> \<lparr>rc_Kind = PlayerKindAI, rc_Provider = provider, rc_Model = model, rc_URL = [],
                   rc_APISDKType = [], rc_APIKey = []\<rparr>
        | Some entry \<Rightarrow> \<lparr>rc_Kind = PlayerKindAI, rc_Provider = provider,
                   rc_Model = (if model = [] then le_Model entry else model), rc_URL = le_URL entry,
                   rc_APISDKType = le_APISDKType entry, rc_APIKey = le_APIKey entry\<rparr>)"

definition makeHuman :: "(RoleID \<times> RoleConfig) list \<Rightarrow> RoleID \<Rightarrow> (RoleID \<times> RoleConfig) list" where
  "makeHuman roles roleID =
    (case map_of roles roleID of
       None \<Rightarrow> roles
     | Some roleCfg \<Rightarrow> setRole roleID (roleCfg\<lparr>rc_Kind := PlayerKindHuman\<rparr>) roles)"

definition rolesFromFiles :: "Config \<Rightarrow> (RoleID \<times> RoleConfig) list" where
  "rolesFromFiles c =
     foldl makeHuman
       (foldl (\<lambda>roles roleFile. setRole (rcf_RoleID roleFile) (roleOfFile (cf_LLMCatalog c) roleFile) roles)
         [] (cf_RoleConfigs c))
       (selectedHumanRoles (cf_HumanPlayers c))"

definition Config_normalize :: "Config \<Rightarrow> Config" where
  "Config_normalize c =
    (let c = c\<lparr>cf_Environment := (if TrimSpace (cf_Environment c) = [] then defaultEnvironment else cf_Environment c),
               cf_ScenarioID := (if TrimSpace (cf_ScenarioID c) = [] then defaultScenarioID else cf_ScenarioID c),
               cf_RandomSeed := (if cf_RandomSeed c = 0 then defaultRandomSeed else cf_RandomSeed c),
               cf_HumanPlayers := (if cf_HumanPlayers c = 0 \<and> cf_RoleConfigs c = [] \<and> cf_Roles c = [] then 1
                 else cf_HumanPlayers c),
               cf_AIRevealDelaySeconds := (if cf_AIRevealDelaySeconds c \<le> 0 then defaultAIRevealDelay
                 else cf_AIRevealDelaySeconds c)\<rparr>
     in if cf_RoleConfigs c = [] then c else c\<lparr>cf_Roles := rolesFromFiles c\<rparr>)"

definition validateRoleConfig :: "RoleID \<Rightarrow> RoleConfig \<Rightarrow> bool \<Rightarrow> string list" where
  "validateRoleConfig roleID roleCfg requireCatalog =
    (let name = role_string roleID
     in textIf (rc_Kind roleCfg = []) (name @ '' kind must not be empty'')
        @ (if rc_Kind roleCfg = PlayerKindHuman \<or> rc_Kind roleCfg = PlayerKindAI
           then textIf (rc_Provider roleCfg = []) (name @ '' provider must not be empty'')
           else [name @ '' kind must be '' @ quoteText PlayerKindHuman @ '' or '' @ quoteText PlayerKindAI])
        @ (if requireCatalog \<and> rc_Provider roleCfg \<noteq> []
           then textIf (TrimSpace (rc_Model roleCfg) = [])
                  (name @ '' provider label must exist in llm catalog with a model'')
                @ textIf (TrimSpace (rc_URL roleCfg) = [])
                  (name @ '' provider label must exist in llm catalog with a non-empty URL'')
                @ textIf (rc_APISDKType roleCfg = [])
                  (name @ '' provider label must exist in llm catalog with a non-empty api_sdk_type'')
           else []))"

definition newlineText :: string where
  "newlineText = [CHR 0x0A]"

text \<open>The messages of the check; it normalises the configuration on the way.\<close>

definition Config_Validate :: "MapOrder \<Rightarrow> Config \<Rightarrow> string list" where
  "Config_Validate mo c0 =
    (let c = Config_normalize c0; catalog = LLMCatalog_Validate (cf_LLMCatalog c)
     in textIf (TrimSpace (cf_Environment c) = []) ''environment must not be empty''
        @ textIf (TrimSpace (cf_ScenarioID c) = []) ''scenario_id must not be empty''
        @ textIf (cf_HumanPlayers c < 0) ''human_players must be greater than or equal to 0''
        @ textIf (cf_AIRevealDelaySeconds c \<le> 0) ''ui.ai_reveal_delay_seconds must be greater than 0''
        @ (if catalog = [] then [] else [''llm catalog: '' @ joinStrings catalog newlineText])
        @ concat (map (\<lambda>(roleID, roleCfg).
            let errs = validateRoleConfig roleID roleCfg (lc_Entries (cf_LLMCatalog c) \<noteq> [])
            in if errs = [] then [] else [joinStrings errs newlineText]) (mapValues (mo 0) (cf_Roles c))))"

definition WithLLMCatalog :: "LLMCatalog \<Rightarrow> Config \<Rightarrow> Config" where
  "WithLLMCatalog catalog c = c\<lparr>cf_LLMCatalog := catalog\<rparr>"

definition ApplyOverrides :: "BootstrapOptions \<Rightarrow> Config \<Rightarrow> Config" where
  "ApplyOverrides options c =
     Config_normalize
       (c\<lparr>cf_MatchID := (case bo_MatchIDOverride options of Some v \<Rightarrow> v | None \<Rightarrow> cf_MatchID c),
         cf_HumanPlayers := (case bo_HumanPlayersOverride options of Some v \<Rightarrow> v | None \<Rightarrow> cf_HumanPlayers c),
         cf_RandomSeed := (case bo_SeedOverride options of Some v \<Rightarrow> v | None \<Rightarrow> cf_RandomSeed c)\<rparr>)"

section \<open>Loading\<close>

text \<open>The files and their decoders: a text or its error, and the decoding into given values.\<close>

record configFiles =
  fs_ReadFile :: "string \<Rightarrow> string + string"
  fs_UnmarshalConfig :: "string \<Rightarrow> Config \<Rightarrow> string + Config"
  fs_UnmarshalCatalog :: "string \<Rightarrow> string + LLMCatalog"
  fs_JoinDir :: "string \<Rightarrow> string \<Rightarrow> string"

datatype configError =
    ReadConfigFile string string
  | ParseConfigFile string string
  | ValidateConfigFile string "string list"
  | ReadCatalogFile string string
  | ParseCatalogFile string string
  | ValidateCatalogFile string "string list"
  | ScenarioNotRegistered ScenarioID
  | InvalidRuntimeConfig "string list"

definition startConfig :: Config where
  "startConfig = \<lparr>cf_Environment = defaultEnvironment, cf_ScenarioID = [], cf_MatchID = [],
     cf_RandomSeed = defaultRandomSeed, cf_HumanPlayers = 1, cf_AIRevealDelaySeconds = defaultAIRevealDelay,
     cf_Roles = [], cf_RoleConfigs = [], cf_LLMCatalog = \<lparr>lc_Entries = []\<rparr>\<rparr>"

definition LoadConfig :: "configFiles \<Rightarrow> MapOrder \<Rightarrow> string \<Rightarrow> configError + Config" where
  "LoadConfig files mo path =
    (let path = (if TrimSpace path = [] then defaultConfigPath else path)
     in case fs_ReadFile files path of
          Inl err \<Rightarrow> Inl (ReadConfigFile path err)
        | Inr data \<Rightarrow>
     (case fs_UnmarshalConfig files data startConfig of
          Inl err \<Rightarrow> Inl (ParseConfigFile path err)
        | Inr cfg \<Rightarrow>
     (let cfg = Config_normalize cfg; errs = Config_Validate mo cfg
      in if errs = [] then Inr cfg else Inl (ValidateConfigFile path errs))))"

definition LoadLLMCatalog :: "configFiles \<Rightarrow> string \<Rightarrow> configError + LLMCatalog" where
  "LoadLLMCatalog files path =
    (let path = (if TrimSpace path = [] then defaultLLMCatalogPath else path)
     in case fs_ReadFile files path of
          Inl err \<Rightarrow> Inl (ReadCatalogFile path err)
        | Inr data \<Rightarrow>
     (case fs_UnmarshalCatalog files data of
          Inl err \<Rightarrow> Inl (ParseCatalogFile path err)
        | Inr catalog \<Rightarrow>
     (let catalog = LLMCatalog_normalize catalog; errs = LLMCatalog_Validate catalog
      in if errs = [] then Inr catalog else Inl (ValidateCatalogFile path errs))))"

definition resolveLLMCatalogPath :: "configFiles \<Rightarrow> string \<Rightarrow> string \<Rightarrow> string" where
  "resolveLLMCatalogPath files configPath catalogPath =
    (if TrimSpace catalogPath \<noteq> [] then catalogPath
     else if TrimSpace configPath = [] then defaultLLMCatalogPath
     else fs_JoinDir files configPath defaultLLMCatalogPath)"

section \<open>The runtime\<close>

record Runtime =
  run_Config :: Config
  run_Random :: RandomSource
  run_Scenario :: Definition
  run_InitialMatch :: MatchState

text \<open>The generator behind a seed and the nanoseconds of the clock.\<close>

record processEnv =
  pe_Random :: "64 word \<Rightarrow> RandomSource"
  pe_Nanos :: int
  pe_order :: MapOrder

definition validateRuntimeRoles :: "MapOrder \<Rightarrow> Config \<Rightarrow> RoleID list \<Rightarrow> string list" where
  "validateRuntimeRoles mo cfg expectedRoles =
     textIf (length (cf_Roles cfg) \<noteq> length expectedRoles)
       (''roles must include exactly '' @ itoa (int (length expectedRoles)) @ '' expected roles'')
     @ textIf (int (length expectedRoles) < cf_HumanPlayers cfg)
       (''human_players must be between 0 and '' @ itoa (int (length expectedRoles)))
     @ concat (map (\<lambda>roleID. textIf (map_of (cf_Roles cfg) roleID = None)
         (''role configuration missing for '' @ role_string roleID)) expectedRoles)
     @ concat (map (\<lambda>(roleID, _). textIf (roleID \<notin> set expectedRoles)
         (''role configuration '' @ role_string roleID @ '' is not part of scenario '' @ cf_ScenarioID cfg))
         (mapValues (mo 1) (cf_Roles cfg)))"

definition runtimeMatchID :: "processEnv \<Rightarrow> Config \<Rightarrow> ScenarioID \<Rightarrow> MatchID" where
  "runtimeMatchID env cfg scenarioID =
    (if cf_MatchID cfg \<noteq> [] then cf_MatchID cfg
     else scenarioID @ ''-match-'' @ itoa (uint (cf_RandomSeed cfg)) @ ''-'' @ itoa (pe_Nanos env))"

definition runtimeRoles :: "Config \<Rightarrow> Definition \<Rightarrow> RoleAssignment list" where
  "runtimeRoles cfg selected =
     concat (map (\<lambda>roleID. case map_of (cf_Roles cfg) roleID of
         None \<Rightarrow> []
       | Some roleCfg \<Rightarrow>
           [\<lparr>ra_RoleID = roleID, ra_PlayerID = role_string roleID @ ''-player'',
             ra_IsHuman = (rc_Kind roleCfg = PlayerKindHuman), ra_Provider = rc_Provider roleCfg,
             ra_ModelName = rc_Model roleCfg\<rparr>]) (su_RoleRoster (sd_Setup selected)))"

definition NewRuntime :: "processEnv \<Rightarrow> registry \<Rightarrow> Config \<Rightarrow> configError + Runtime" where
  "NewRuntime env registry cfg =
    (let cfg = Config_normalize cfg
     in case Lookup registry (cf_ScenarioID cfg) of
          None \<Rightarrow> Inl (ScenarioNotRegistered (cf_ScenarioID cfg))
        | Some selected \<Rightarrow>
     (let errs = Config_Validate (pe_order env) cfg
      in if errs \<noteq> [] then Inl (InvalidRuntimeConfig errs)
         else let errs = validateRuntimeRoles (pe_order env) cfg (su_RoleRoster (sd_Setup selected))
      in if errs \<noteq> [] then Inl (InvalidRuntimeConfig errs)
         else let initialMatch = InitialState selected (runtimeMatchID env cfg (sd_ID selected))
                (runtimeRoles cfg selected)
      in Inr \<lparr>run_Config = cfg, run_Random = pe_Random env (cf_RandomSeed cfg), run_Scenario = selected,
              run_InitialMatch = initialMatch\<lparr>ms_RoundFlow := (ms_RoundFlow initialMatch)
                \<lparr>rf_AIRevealDelaySeconds := cf_AIRevealDelaySeconds cfg\<rparr>\<rparr>\<rparr>))"

definition Bootstrap :: "configFiles \<Rightarrow> processEnv \<Rightarrow> registry \<Rightarrow> BootstrapOptions \<Rightarrow> configError + Runtime" where
  "Bootstrap files env registry options =
    (case LoadConfig files (pe_order env) (bo_ConfigPath options) of
       Inl err \<Rightarrow> Inl err
     | Inr cfg \<Rightarrow>
    (case LoadLLMCatalog files
            (resolveLLMCatalogPath files (bo_ConfigPath options) (bo_LLMCatalogPath options)) of
       Inl err \<Rightarrow> Inl err
     | Inr catalog \<Rightarrow>
        NewRuntime env registry (ApplyOverrides options (WithLLMCatalog catalog cfg))))"

definition RoleSummaries :: "Runtime \<Rightarrow> string list" where
  "RoleSummaries r =
     sort (concat (map (\<lambda>roleID. case map_of (cf_Roles (run_Config r)) roleID of
         None \<Rightarrow> []
       | Some roleCfg \<Rightarrow>
           let summary = role_string roleID @ ''='' @ rc_Kind roleCfg
           in [if rc_Provider roleCfg \<noteq> [] \<or> rc_Model roleCfg \<noteq> []
               then summary @ ''['' @ rc_Provider roleCfg @ '':'' @ rc_Model roleCfg @ '']'' else summary])
       (su_RoleRoster (sd_Setup (run_Scenario r)))))"

section \<open>The players of a match\<close>

datatype setupError =
    ConfigureProvider ProviderName string
  | UnsupportedSDKType ProviderName APISDKType
  | UnsupportedProvider RoleID string

text \<open>The OpenAI client's surroundings: its URLs, the retries it starts with, and what it calls.\<close>

record openaiEnv =
  oe_URLs :: urlCodec
  oe_MaxRetries :: int
  oe_Chat :: ChatCompletion

definition buildDecisionClient :: "openaiEnv \<Rightarrow> RoleConfig \<Rightarrow> setupError + DecisionClient" where
  "buildDecisionClient oe roleCfg =
    (if rc_APISDKType roleCfg = APISDKTypeOpenAI
     then case NewOpenAI (oe_URLs oe) (oe_MaxRetries oe)
                 [Some (WithBaseURL (oe_URLs oe) (rc_URL roleCfg)), Some (WithAPIKey (rc_APIKey roleCfg))] of
            Inl err \<Rightarrow> Inl (ConfigureProvider (rc_Provider roleCfg) err)
          | Inr client \<Rightarrow> Inr (OpenAI_RequestDecision (oe_URLs oe) (oe_Chat oe) (Some client))
     else Inl (UnsupportedSDKType (rc_Provider roleCfg) (rc_APISDKType roleCfg)))"

fun buildDecisionClients ::
  "openaiEnv \<Rightarrow> (RoleID \<times> RoleConfig) list \<Rightarrow> (string \<times> DecisionClient option) list \<Rightarrow>
     setupError + (string \<times> DecisionClient option) list" where
  "buildDecisionClients oe [] clients = Inr clients"
| "buildDecisionClients oe ((_, roleCfg) # roles) clients =
    (if rc_Provider roleCfg = [] \<or> map_of clients (rc_Provider roleCfg) \<noteq> None
     then buildDecisionClients oe roles clients
     else case buildDecisionClient oe roleCfg of
            Inl err \<Rightarrow> Inl err
          | Inr client \<Rightarrow> buildDecisionClients oe roles (clients @ [(rc_Provider roleCfg, Some client)]))"

fun seatPlayers ::
  "Player \<Rightarrow> SubmitFunc \<Rightarrow> RoutingClient \<Rightarrow> RoleAssignment list \<Rightarrow>
     (RoleID \<rightharpoonup> Player) \<Rightarrow> setupError + (RoleID \<rightharpoonup> Player)" where
  "seatPlayers ai submit clients [] players = Inr players"
| "seatPlayers ai submit clients (a # as) players =
    (if ra_IsHuman a
     then seatPlayers ai submit clients as (players(ra_RoleID a \<mapsto> humanPlayer (Some submit)))
     else if \<not> SupportsProvider (Some clients) (ra_Provider a)
     then Inl (UnsupportedProvider (ra_RoleID a) (ra_Provider a))
     else seatPlayers ai submit clients as (players(ra_RoleID a \<mapsto> ai)))"

text \<open>The first order is of the roles, the second of the clients, as they are ranged over.\<close>

definition buildPlayersWithHumanSubmit ::
  "openaiEnv \<Rightarrow> jsonCodec \<Rightarrow> MapOrder \<Rightarrow> Config \<Rightarrow> Definition \<Rightarrow> MatchState \<Rightarrow> SubmitFunc \<Rightarrow>
     setupError + (RoleID \<rightharpoonup> Player) \<times> DebugLog" where
  "buildPlayersWithHumanSubmit oe codec mo cfg definition1 initial submit =
    (case buildDecisionClients oe (mapValues (mo 2) (cf_Roles cfg)) [] of
       Inl err \<Rightarrow> Inl err
     | Inr providers \<Rightarrow>
        let decisionClient = NewRoutingClient (mapValues (mo 3) providers);
            orchestrator = NewAIOrchestrator definition1 (Some (RoutingClient_RequestDecision (Some decisionClient)))
        in case seatPlayers (aiPlayer orchestrator codec) submit decisionClient (ms_Roles initial) Map.empty of
             Inl err \<Rightarrow> Inl err
           | Inr players \<Rightarrow> Inr (players, NewDebugLog 0))"


section \<open>Normalising\<close>

lemma Config_normalize_fields [simp]:
  "cf_MatchID (Config_normalize c) = cf_MatchID c" "cf_RoleConfigs (Config_normalize c) = cf_RoleConfigs c"
  "cf_LLMCatalog (Config_normalize c) = cf_LLMCatalog c"
  by (simp_all add: Config_normalize_def Let_def)

lemma setRole_nonempty [simp]: "setRole roleID roleCfg roles \<noteq> []"
  by (cases roles) (auto simp: setRole_def)

lemma makeHuman_nonempty: "roles \<noteq> [] \<Longrightarrow> makeHuman roles roleID \<noteq> []"
  by (simp add: makeHuman_def split: option.split)

lemma rolesFromFiles_nonempty: "cf_RoleConfigs c \<noteq> [] \<Longrightarrow> rolesFromFiles c \<noteq> []"
proof -
  assume some: "cf_RoleConfigs c \<noteq> []"
  have files: "foldl (\<lambda>roles roleFile. setRole (rcf_RoleID roleFile) (f roleFile) roles) roles rs \<noteq> []"
    if "roles \<noteq> [] \<or> rs \<noteq> []" for f roles rs
    using that by (induction rs arbitrary: roles) auto
  have "foldl makeHuman roles ids \<noteq> []" if "roles \<noteq> []" for roles ids
    using that by (induction ids arbitrary: roles) (auto simp: makeHuman_nonempty)
  moreover have "foldl (\<lambda>roles roleFile. setRole (rcf_RoleID roleFile) (roleOfFile (cf_LLMCatalog c) roleFile) roles)
      [] (cf_RoleConfigs c) \<noteq> []" by (rule files) (use some in simp)
  ultimately show ?thesis unfolding rolesFromFiles_def by blast
qed

lemma rolesFromFiles_cong:
  "cf_RoleConfigs c = cf_RoleConfigs c' \<Longrightarrow> cf_LLMCatalog c = cf_LLMCatalog c' \<Longrightarrow>
     cf_HumanPlayers c = cf_HumanPlayers c' \<Longrightarrow> rolesFromFiles c = rolesFromFiles c'"
  by (simp add: rolesFromFiles_def)

lemma default_values: "TrimSpace defaultEnvironment \<noteq> []" "TrimSpace defaultScenarioID \<noteq> []"
  by (simp_all add: defaultEnvironment_def defaultScenarioID_def DefaultID_def StarterID_def TrimSpace_def isSpace_def)

lemma Config_normalize_settled:
  assumes "TrimSpace (cf_Environment c) \<noteq> []" "TrimSpace (cf_ScenarioID c) \<noteq> []" "cf_RandomSeed c \<noteq> 0"
    "cf_RoleConfigs c = [] \<longrightarrow> cf_Roles c = [] \<longrightarrow> cf_HumanPlayers c \<noteq> 0" "0 < cf_AIRevealDelaySeconds c"
    "cf_RoleConfigs c \<noteq> [] \<longrightarrow> cf_Roles c = rolesFromFiles c"
  shows "Config_normalize c = c"
  using assms by (cases c) (auto simp: Config_normalize_def Let_def)

lemma Config_normalize_idem: "Config_normalize (Config_normalize c) = Config_normalize c"
proof (rule Config_normalize_settled)
  show "cf_RoleConfigs (Config_normalize c) \<noteq> [] \<longrightarrow>
      cf_Roles (Config_normalize c) = rolesFromFiles (Config_normalize c)"
    by (auto simp: Config_normalize_def Let_def intro: rolesFromFiles_cong)
qed (auto simp: Config_normalize_def Let_def default_values defaultRandomSeed_def defaultAIRevealDelay_def)

section \<open>What a runtime offers\<close>

lemma textIf_Nil [simp]: "textIf c message = [] \<longleftrightarrow> \<not> c"
  by (simp add: textIf_def)

lemma mapValues_set:
  assumes "validOrder mo"
  shows "set (mapValues (mo site) items) = set items"
proof -
  have "mset (mapValues (mo site) items) = mset items"
    using assms by (intro mapValues_mset) (simp add: validOrder_def)
  then show ?thesis by (rule mset_eq_setD)
qed

lemma Config_Validate_roles:
  assumes "Config_Validate mo c = []" "validOrder mo" "(roleID, roleCfg) \<in> set (cf_Roles (Config_normalize c))"
  shows "validateRoleConfig roleID roleCfg (lc_Entries (cf_LLMCatalog c) \<noteq> []) = []"
  using assms unfolding Config_Validate_def Let_def
  by (auto simp: mapValues_set split: if_splits prod.splits)

lemma validateRoleConfig_Nil:
  assumes "validateRoleConfig roleID roleCfg requireCatalog = []"
  shows "rc_Provider roleCfg \<noteq> [] \<and> (rc_Kind roleCfg = PlayerKindHuman \<or> rc_Kind roleCfg = PlayerKindAI)
    \<and> (requireCatalog \<longrightarrow> TrimSpace (rc_Model roleCfg) \<noteq> [])"
  using assms by (auto simp: validateRoleConfig_def Let_def split: if_splits)

lemma NewRuntime_ok:
  assumes "NewRuntime env registry cfg = Inr r"
  shows "Lookup registry (cf_ScenarioID (run_Config r)) = Some (run_Scenario r)"
    "run_Config r = Config_normalize cfg" "Config_Validate (pe_order env) (run_Config r) = []"
    "validateRuntimeRoles (pe_order env) (run_Config r) (su_RoleRoster (sd_Setup (run_Scenario r))) = []"
    "run_Random r = pe_Random env (cf_RandomSeed (run_Config r))"
    "\<exists>flow. run_InitialMatch r = (InitialState (run_Scenario r) (runtimeMatchID env (run_Config r) (sd_ID (run_Scenario r)))
       (runtimeRoles (run_Config r) (run_Scenario r)))\<lparr>ms_RoundFlow := flow\<rparr>"
  using assms by (auto simp: NewRuntime_def Let_def split: option.splits if_splits)

text \<open>Every role of the roster is seated, in its order, by its configuration.\<close>

lemma runtimeRoles_roster:
  assumes "validateRuntimeRoles mo cfg (su_RoleRoster (sd_Setup d)) = []"
  shows "map ra_RoleID (runtimeRoles cfg d) = su_RoleRoster (sd_Setup d)"
proof -
  let ?f = "\<lambda>roleID. case map_of (cf_Roles cfg) roleID of None \<Rightarrow> [] | Some roleCfg \<Rightarrow>
     [\<lparr>ra_RoleID = roleID, ra_PlayerID = role_string roleID @ ''-player'',
       ra_IsHuman = (rc_Kind roleCfg = PlayerKindHuman), ra_Provider = rc_Provider roleCfg,
       ra_ModelName = rc_Model roleCfg\<rparr>]"
  have "map ra_RoleID (concat (map ?f roster)) = roster" if "\<forall>roleID \<in> set roster. map_of (cf_Roles cfg) roleID \<noteq> None" for roster
    using that by (induction roster) auto
  moreover have "\<forall>roleID \<in> set (su_RoleRoster (sd_Setup d)). map_of (cf_Roles cfg) roleID \<noteq> None"
    using assms by (auto simp: validateRuntimeRoles_def)
  ultimately show ?thesis unfolding runtimeRoles_def by blast
qed

lemma runtimeRoles_configured:
  assumes "a \<in> set (runtimeRoles cfg d)"
  shows "\<exists>roleCfg. map_of (cf_Roles cfg) (ra_RoleID a) = Some roleCfg \<and> ra_Provider a = rc_Provider roleCfg
    \<and> ra_ModelName a = rc_Model roleCfg \<and> (ra_IsHuman a \<longleftrightarrow> rc_Kind roleCfg = PlayerKindHuman)"
proof -
  obtain roleID where "a \<in> set (case map_of (cf_Roles cfg) roleID of None \<Rightarrow> [] | Some roleCfg \<Rightarrow>
     [\<lparr>ra_RoleID = roleID, ra_PlayerID = role_string roleID @ ''-player'',
       ra_IsHuman = (rc_Kind roleCfg = PlayerKindHuman), ra_Provider = rc_Provider roleCfg,
       ra_ModelName = rc_Model roleCfg\<rparr>])"
    using assms unfolding runtimeRoles_def by auto
  then show ?thesis by (cases "map_of (cf_Roles cfg) roleID") auto
qed

lemma runtimeMatchID_nonempty: "runtimeMatchID env cfg i \<noteq> []"
  by (simp add: runtimeMatchID_def)

section \<open>The players can be relied on\<close>

text \<open>A person who answers every fair request, and validly.\<close>

definition answersAll :: "SubmitFunc \<Rightarrow> bool" where
  "answersAll submit \<longleftrightarrow> (\<forall>stations request. fairRequest stations request \<longrightarrow>
     (\<exists>action. submit False request = Inr action \<and> answers request action))"

lemma human_dependable: "answersAll submit \<Longrightarrow> dependable stations a (humanPlayer (Some submit))"
  by (fastforce simp: dependable_def answersAll_def humanPlayer_def humanSubmitRound_def)

lemma buildDecisionClients_outages:
  assumes "buildDecisionClients oe roles clients = Inr clients'" "withChoices (oe_Chat oe)"
    "\<forall>name client. (name, Some client) \<in> set clients \<longrightarrow> (\<forall>provider. outagesOnly client provider)"
  shows "\<forall>name client. (name, Some client) \<in> set clients' \<longrightarrow> (\<forall>provider. outagesOnly client provider)"
  using assms(1,3)
proof (induction roles arbitrary: clients)
  case (Cons entry roles)
  show ?case
  proof (cases "rc_Provider (snd entry) = [] \<or> map_of clients (rc_Provider (snd entry)) \<noteq> None")
    case True
    with Cons.prems Cons.IH [of clients] show ?thesis by (cases entry) auto
  next
    case False
    with Cons.prems obtain client where c: "buildDecisionClient oe (snd entry) = Inr client"
      "buildDecisionClients oe roles (clients @ [(rc_Provider (snd entry), Some client)]) = Inr clients'"
      by (cases entry) (auto split: sum.splits)
    then have "outagesOnly client provider" for provider
      using openai_outages [OF NewOpenAI_url assms(2)]
      by (auto simp: buildDecisionClient_def split: if_splits sum.splits)
    with Cons.IH [OF c(2)] Cons.prems(2) show ?thesis by auto
  qed
qed simp

lemma SupportsProvider_named:
  "SupportsProvider (Some (NewRoutingClient providers)) provider \<Longrightarrow> TrimSpace provider \<noteq> []"
proof -
  have "NewRoutingClient ps [] = None" for ps
    by (induction ps rule: rev_induct)
      (auto simp: NewRoutingClient_def Let_def split: option.splits)
  then show "SupportsProvider (Some (NewRoutingClient providers)) provider \<Longrightarrow> TrimSpace provider \<noteq> []"
    by (auto simp: SupportsProvider_def normalizeProvider_def)
qed

lemma seatPlayers_seated:
  assumes "seatPlayers ai submit clients as players = Inr players'" "distinct (map ra_RoleID as)"
    "\<forall>a \<in> set as. players (ra_RoleID a) = None"
  shows "(\<forall>a \<in> set as. (ra_IsHuman a \<longrightarrow> players' (ra_RoleID a) = Some (humanPlayer (Some submit)))
       \<and> (\<not> ra_IsHuman a \<longrightarrow> SupportsProvider (Some clients) (ra_Provider a) \<and> players' (ra_RoleID a) = Some ai))
     \<and> (\<forall>role. role \<notin> ra_RoleID ` set as \<longrightarrow> players' role = players role)"
  using assms
proof (induction as arbitrary: players)
  case (Cons a as)
  from Cons.prems obtain p where p: "seatPlayers ai submit clients as (players(ra_RoleID a \<mapsto> p)) = Inr players'"
    "ra_IsHuman a \<longrightarrow> p = humanPlayer (Some submit)"
    "\<not> ra_IsHuman a \<longrightarrow> SupportsProvider (Some clients) (ra_Provider a) \<and> p = ai"
    by (auto split: if_splits)
  have "\<forall>b \<in> set as. (players(ra_RoleID a \<mapsto> p)) (ra_RoleID b) = None"
    using Cons.prems(2,3) by (auto simp: image_iff)
  with Cons.IH [OF p(1)] Cons.prems(2) p(2,3) show ?case by auto
qed simp

text \<open>The players built for a match of roles with a model can be relied on.\<close>

lemma built_staffed:
  assumes "buildPlayersWithHumanSubmit oe codec mo cfg d initial submit = Inr (players, log)"
    and "validOrder mo" "withChoices (oe_Chat oe)" "answersAll submit"
    and "distinct (roleIDs (ms_Roles initial))" "set (roleIDs (ms_Roles initial)) \<subseteq> set CanonicalRoles"
    and "\<forall>a \<in> set (ms_Roles initial). TrimSpace (ra_ModelName a) \<noteq> []"
    and "wk_ID ` set (mo_Workstations (sd_ProductionModel d)) \<subseteq> stationIDs (ms_Plant initial)"
  shows "staffed players initial"
proof -
  obtain providers where clients: "buildDecisionClients oe (mapValues (mo 2) (cf_Roles cfg)) [] = Inr providers"
    using assms(1) by (auto simp: buildPlayersWithHumanSubmit_def split: sum.splits)
  define routing where "routing = NewRoutingClient (mapValues (mo 3) providers)"
  define o1 where "o1 = NewAIOrchestrator d (Some (RoutingClient_RequestDecision (Some routing)))"
  have seated: "seatPlayers (aiPlayer o1 codec) submit routing (ms_Roles initial) Map.empty = Inr players"
    using assms(1) clients
    by (auto simp: buildPlayersWithHumanSubmit_def Let_def routing_def o1_def split: sum.splits)
  have outages: "outagesOnly client provider" if routed: "routing name = Some client" for name client provider
  proof -
    obtain p where "(p, Some client) \<in> set (mapValues (mo 3) providers)"
      using NewRoutingClient_ran [OF routed [unfolded routing_def]] by blast
    then have "(p, Some client) \<in> set providers" by (simp add: mapValues_set [OF assms(2)])
    then show ?thesis using buildDecisionClients_outages [OF clients assms(3)] by auto
  qed
  have "\<exists>player. players (ra_RoleID a) = Some player \<and> dependable (stationIDs (ms_Plant initial)) a player"
    if a: "a \<in> set (ms_Roles initial)" for a
  proof (cases "ra_IsHuman a")
    case True
    then have "players (ra_RoleID a) = Some (humanPlayer (Some submit))"
      using seatPlayers_seated [OF seated] assms(5) a by (simp add: roleIDs_def)
    with human_dependable [OF assms(4)] show ?thesis by blast
  next
    case False
    then have ai: "players (ra_RoleID a) = Some (aiPlayer o1 codec)" "SupportsProvider (Some routing) (ra_Provider a)"
      using seatPlayers_seated [OF seated] assms(5) a by (simp_all add: roleIDs_def)
    have "dependable (stationIDs (ms_Plant initial)) a (aiPlayer o1 codec)"
    proof (rule aiPlayer_dependable)
      show "oc_Client o1 = Some (RoutingClient_RequestDecision (Some routing))"
        by (simp add: o1_def NewAIOrchestrator_def)
      show "outagesOnly (RoutingClient_RequestDecision (Some routing)) (ra_Provider a)"
        using outages ai(2) by (intro routed_outages) blast+
      show "TrimSpace (ra_Provider a) \<noteq> []" using ai(2) unfolding routing_def by (rule SupportsProvider_named)
    qed (use assms(7,8) a in \<open>simp_all add: o1_def NewAIOrchestrator_def\<close>)
    with ai(1) show ?thesis by blast
  qed
  with assms(5,6) show ?thesis by (simp add: staffed_def)
qed

text \<open>A runtime with a catalog of models starts a match whose roles have one.\<close>

lemma runtime_models:
  assumes "NewRuntime env registry cfg = Inr r" "validOrder (pe_order env)" "lc_Entries (cf_LLMCatalog cfg) \<noteq> []"
    "a \<in> set (ms_Roles (run_InitialMatch r))"
  shows "TrimSpace (ra_ModelName a) \<noteq> []"
proof -
  note ok = NewRuntime_ok [OF assms(1)]
  have "ms_Roles (run_InitialMatch r) = runtimeRoles (run_Config r) (run_Scenario r)"
    using ok(6) by (auto simp: InitialState_def Let_def)
  then obtain roleCfg where c: "map_of (cf_Roles (run_Config r)) (ra_RoleID a) = Some roleCfg"
    "ra_ModelName a = rc_Model roleCfg"
    using runtimeRoles_configured assms(4) by fastforce
  from c(1) have "(ra_RoleID a, roleCfg) \<in> set (cf_Roles (Config_normalize (run_Config r)))"
    using ok(2) by (simp add: Config_normalize_idem map_of_SomeD)
  from validateRoleConfig_Nil [OF Config_Validate_roles [OF ok(3) assms(2) this]] c(2) assms(3) show ?thesis
    by (simp add: ok(2))
qed

end
