(* ===== verification/LiveController.thy ===== *)
theory LiveController
  imports MemoryStore Players
begin

text \<open>
  The controller between a running match and the terminal (\<open>cmd/herbiego/live_gameplay_controller.go\<close>):
  it publishes states to the display, queues the submissions made there, and hands each to the
  player that waits for its role and round.  Players wait in goroutines of their own, which the
  mutex and the channel interleave: \<open>liveStep\<close> has one step per section under the mutex and per
  channel operation.
\<close>

section \<open>The controller\<close>

type_synonym submissionKey = "RoleID \<times> RoundNumber"

record liveGameplayController =
  lv_latest :: MatchState
  lv_snapshots :: "MatchState list"
  lv_updates :: "MatchState list"
  lv_submissions :: "ActionSubmission list"
  lv_capacity :: nat
  lv_pending :: "(submissionKey \<times> ActionSubmission list) list"
  lv_closed :: bool
  lv_updatesClosed :: bool

definition updatesCapacity :: nat where
  "updatesCapacity = 8"

definition cloneMatchStates :: "MatchState list \<Rightarrow> MatchState list" where
  "cloneMatchStates states = map MatchState_Clone states"

definition newLiveGameplayController :: "MatchState \<Rightarrow> MatchState list \<Rightarrow> liveGameplayController" where
  "newLiveGameplayController initial snapshots =
     \<lparr>lv_latest = MatchState_Clone initial,
      lv_snapshots = (let cloned = cloneMatchStates snapshots
        in if cloned = [] then [MatchState_Clone initial] else cloned),
      lv_updates = [], lv_submissions = [], lv_capacity = length (ms_Roles initial) + 1,
      lv_pending = [], lv_closed = False, lv_updatesClosed = False\<rparr>"

definition live_Snapshot :: "liveGameplayController \<Rightarrow> MatchState" where
  "live_Snapshot c = MatchState_Clone (lv_latest c)"

definition live_StateSnapshots :: "liveGameplayController \<Rightarrow> MatchState list" where
  "live_StateSnapshots c = cloneMatchStates (lv_snapshots c)"

text \<open>The part of \<open>Publish\<close> under the mutex, which may find the controller closed; what it goes on
  to send; and the two parts of \<open>Close\<close>: the second closes the channel of the updates.\<close>

definition live_Publish :: "MatchState \<Rightarrow> liveGameplayController \<Rightarrow> liveGameplayController \<times> MatchState option" where
  "live_Publish state c =
    (let cloned = MatchState_Clone state
     in if lv_closed c then (c, None)
        else (c\<lparr>lv_latest := MatchState_Clone cloned,
               lv_snapshots := appendOrReplaceSnapshot (lv_snapshots c) cloned\<rparr>, Some cloned))"

definition live_Close :: "liveGameplayController \<Rightarrow> liveGameplayController" where
  "live_Close c = (if lv_closed c then c else c\<lparr>lv_closed := True\<rparr>)"

definition closeUpdates :: "liveGameplayController \<Rightarrow> liveGameplayController" where
  "closeUpdates c = c\<lparr>lv_updatesClosed := True\<rparr>"

definition submissionKeyOf :: "ActionSubmission \<Rightarrow> submissionKey" where
  "submissionKeyOf s = (as_RoleID s, as_Round s)"

definition requestKey :: "RoundRequest \<Rightarrow> submissionKey" where
  "requestKey request = (ra_RoleID (rq_Assignment request), rv_Round (rq_RoleView request))"

text \<open>The first pending submission of a key; a list that gets empty is deleted.\<close>

fun takePending :: "submissionKey \<Rightarrow> (submissionKey \<times> ActionSubmission list) list \<Rightarrow>
    ActionSubmission option \<times> (submissionKey \<times> ActionSubmission list) list" where
  "takePending key [] = (None, [])"
| "takePending key ((k, items) # pending) =
    (if k = key
     then case items of
            [] \<Rightarrow> (None, (k, items) # pending)
          | [s] \<Rightarrow> (Some (ActionSubmission_Clone s), pending)
          | s # t \<Rightarrow> (Some (ActionSubmission_Clone s), (k, t) # pending)
     else let (found, rest) = takePending key pending in (found, (k, items) # rest))"

definition storePending :: "ActionSubmission \<Rightarrow> (submissionKey \<times> ActionSubmission list) list \<Rightarrow>
    (submissionKey \<times> ActionSubmission list) list" where
  "storePending s = upsert_first (\<lambda>(k, _). k = submissionKeyOf s)
     (\<lambda>(k, items). (k, items @ [ActionSubmission_Clone s])) (submissionKeyOf s, [ActionSubmission_Clone s])"

section \<open>The goroutines\<close>

text \<open>A call of \<open>SubmitRound\<close>: about to look at the pending submissions, listening on the channel,
  holding a submission of another key, or returned.  A call of \<open>Submit\<close> that has found the controller
  open is about to send.\<close>

datatype waiter =
    WaiterReady
  | WaiterListening
  | WaiterHolding ActionSubmission
  | WaiterDone "playerError + ActionSubmission"

record liveSystem =
  sys_controller :: liveGameplayController
  sys_waiters :: "(RoundRequest \<times> waiter) list"
  sys_senders :: "ActionSubmission list"
  sys_publishers :: "MatchState list"
  sys_ctxDone :: bool
  sys_panicked :: bool
  sys_accepted :: "ActionSubmission list"

definition tuiPlayer :: "RoundRequest \<Rightarrow> string" where
  "tuiPlayer request = ''tui player '' @ role_string (ra_RoleID (rq_Assignment request))"

definition setWaiter :: "nat \<Rightarrow> waiter \<Rightarrow> liveSystem \<Rightarrow> liveSystem" where
  "setWaiter i w sys = sys\<lparr>sys_waiters := (sys_waiters sys)[i := (fst (sys_waiters sys ! i), w)]\<rparr>"

definition lookPending :: "nat \<Rightarrow> liveSystem \<Rightarrow> liveSystem" where
  "lookPending i sys =
    (let c = sys_controller sys; (found, pending) = takePending (requestKey (fst (sys_waiters sys ! i))) (lv_pending c)
     in setWaiter i (case found of Some s \<Rightarrow> WaiterDone (Inr s) | None \<Rightarrow> WaiterListening)
          (sys\<lparr>sys_controller := c\<lparr>lv_pending := pending\<rparr>\<rparr>))"

definition receiveSubmission :: "nat \<Rightarrow> ActionSubmission \<Rightarrow> ActionSubmission list \<Rightarrow> liveSystem \<Rightarrow> liveSystem" where
  "receiveSubmission i s rest sys =
     setWaiter i (if submissionKeyOf s = requestKey (fst (sys_waiters sys ! i))
         then WaiterDone (Inr (ActionSubmission_Clone s)) else WaiterHolding s)
       (sys\<lparr>sys_controller := (sys_controller sys)\<lparr>lv_submissions := rest\<rparr>\<rparr>)"

definition keepSubmission :: "nat \<Rightarrow> ActionSubmission \<Rightarrow> liveSystem \<Rightarrow> liveSystem" where
  "keepSubmission i s sys =
     setWaiter i WaiterListening
       (sys\<lparr>sys_controller := (sys_controller sys)\<lparr>lv_pending := storePending s (lv_pending (sys_controller sys))\<rparr>\<rparr>)"

text \<open>The send of \<open>Submit\<close>: into a closed channel it panics, into a full one it reports an error.\<close>

definition sendSubmission :: "ActionSubmission \<Rightarrow> ActionSubmission list \<Rightarrow> liveSystem \<Rightarrow> liveSystem" where
  "sendSubmission s senders sys =
    (let c = sys_controller sys; sys = sys\<lparr>sys_senders := senders\<rparr>
     in if lv_closed c then sys\<lparr>sys_panicked := True\<rparr>
        else if length (lv_submissions c) < lv_capacity c
        then sys\<lparr>sys_controller := c\<lparr>lv_submissions := lv_submissions c @ [ActionSubmission_Clone s]\<rparr>,
                 sys_accepted := sys_accepted sys @ [s]\<rparr>
        else sys)"

definition publishState :: "MatchState \<Rightarrow> liveSystem \<Rightarrow> liveSystem" where
  "publishState state sys =
    (let (c, sent) = live_Publish state (sys_controller sys)
     in sys\<lparr>sys_controller := c,
            sys_publishers := sys_publishers sys @ (case sent of None \<Rightarrow> [] | Some cloned \<Rightarrow> [cloned])\<rparr>)"

definition sendUpdate :: "MatchState \<Rightarrow> MatchState list \<Rightarrow> liveSystem \<Rightarrow> liveSystem" where
  "sendUpdate state publishers sys =
    (let c = sys_controller sys; sys = sys\<lparr>sys_publishers := publishers\<rparr>
     in if lv_updatesClosed c then sys\<lparr>sys_panicked := True\<rparr>
        else sys\<lparr>sys_controller := c\<lparr>lv_updates := lv_updates c @ [state]\<rparr>\<rparr>)"

definition liveStart :: "MatchState \<Rightarrow> MatchState list \<Rightarrow> liveSystem" where
  "liveStart initial snapshots =
     \<lparr>sys_controller = newLiveGameplayController initial snapshots, sys_waiters = [], sys_senders = [],
      sys_publishers = [], sys_ctxDone = False, sys_panicked = False, sys_accepted = []\<rparr>"

inductive liveStep :: "liveSystem \<Rightarrow> liveSystem \<Rightarrow> bool" where
  ask: "\<not> sys_panicked sys \<Longrightarrow>
     liveStep sys (sys\<lparr>sys_waiters := sys_waiters sys @ [(request, WaiterReady)]\<rparr>)"
| look: "\<not> sys_panicked sys \<Longrightarrow> i < length (sys_waiters sys) \<Longrightarrow> snd (sys_waiters sys ! i) = WaiterReady \<Longrightarrow>
     liveStep sys (lookPending i sys)"
| receive: "\<not> sys_panicked sys \<Longrightarrow> i < length (sys_waiters sys) \<Longrightarrow> snd (sys_waiters sys ! i) = WaiterListening \<Longrightarrow>
     lv_submissions (sys_controller sys) = s # rest \<Longrightarrow> liveStep sys (receiveSubmission i s rest sys)"
| keep: "\<not> sys_panicked sys \<Longrightarrow> i < length (sys_waiters sys) \<Longrightarrow> snd (sys_waiters sys ! i) = WaiterHolding s \<Longrightarrow>
     liveStep sys (keepSubmission i s sys)"
| closed: "\<not> sys_panicked sys \<Longrightarrow> i < length (sys_waiters sys) \<Longrightarrow> snd (sys_waiters sys ! i) = WaiterListening \<Longrightarrow>
     lv_submissions (sys_controller sys) = [] \<Longrightarrow> lv_closed (sys_controller sys) \<Longrightarrow>
     liveStep sys (setWaiter i (WaiterDone (Inl (PlayerError
       (tuiPlayer (fst (sys_waiters sys ! i)) @ '': live submission channel closed'')))) sys)"
| cancelled: "\<not> sys_panicked sys \<Longrightarrow> i < length (sys_waiters sys) \<Longrightarrow> snd (sys_waiters sys ! i) = WaiterListening \<Longrightarrow>
     sys_ctxDone sys \<Longrightarrow>
     liveStep sys (setWaiter i (WaiterDone (Inl (PlayerWrap (tuiPlayer (fst (sys_waiters sys ! i)))
       ContextCanceled))) sys)"
| check: "\<not> sys_panicked sys \<Longrightarrow> \<not> lv_closed (sys_controller sys) \<Longrightarrow>
     liveStep sys (sys\<lparr>sys_senders := sys_senders sys @ [s]\<rparr>)"
| send: "\<not> sys_panicked sys \<Longrightarrow> sys_senders sys = before @ s # after \<Longrightarrow>
     liveStep sys (sendSubmission s (before @ after) sys)"
| publish: "\<not> sys_panicked sys \<Longrightarrow> liveStep sys (publishState state sys)"
| push: "\<not> sys_panicked sys \<Longrightarrow> sys_publishers sys = before @ state # after \<Longrightarrow>
     lv_updatesClosed (sys_controller sys) \<or> length (lv_updates (sys_controller sys)) < updatesCapacity \<Longrightarrow>
     liveStep sys (sendUpdate state (before @ after) sys)"
| display: "\<not> sys_panicked sys \<Longrightarrow> lv_updates (sys_controller sys) = state # updates \<Longrightarrow>
     liveStep sys (sys\<lparr>sys_controller := (sys_controller sys)\<lparr>lv_updates := updates\<rparr>\<rparr>)"
| close: "\<not> sys_panicked sys \<Longrightarrow>
     liveStep sys (sys\<lparr>sys_controller := live_Close (sys_controller sys)\<rparr>)"
| closeUpdates: "\<not> sys_panicked sys \<Longrightarrow> lv_closed (sys_controller sys) \<Longrightarrow> \<not> lv_updatesClosed (sys_controller sys) \<Longrightarrow>
     liveStep sys (sys\<lparr>sys_controller := closeUpdates (sys_controller sys)\<rparr>)"
| cancel: "\<not> sys_panicked sys \<Longrightarrow> liveStep sys (sys\<lparr>sys_ctxDone := True\<rparr>)"

inductive_cases liveStep_cases: "liveStep sys sys'"

section \<open>Submissions are neither lost nor doubled\<close>

definition heldBy :: "waiter \<Rightarrow> ActionSubmission list" where
  "heldBy w = (case w of WaiterHolding s \<Rightarrow> [s] | _ \<Rightarrow> [])"

definition returnedBy :: "waiter \<Rightarrow> ActionSubmission list" where
  "returnedBy w = (case w of WaiterDone (Inr s) \<Rightarrow> [s] | _ \<Rightarrow> [])"

definition pendingItems :: "(submissionKey \<times> ActionSubmission list) list \<Rightarrow> ActionSubmission list" where
  "pendingItems pending = concat (map snd pending)"

definition waiterItems :: "(RoundRequest \<times> waiter) list \<Rightarrow> ActionSubmission list" where
  "waiterItems waiters = concat (map (\<lambda>(_, w). heldBy w @ returnedBy w) waiters)"

definition answered :: "(RoundRequest \<times> waiter) \<Rightarrow> bool" where
  "answered x \<longleftrightarrow> (\<forall>s. snd x = WaiterDone (Inr s) \<longrightarrow> submissionKeyOf s = requestKey (fst x))"

definition filed :: "(submissionKey \<times> ActionSubmission list) list \<Rightarrow> bool" where
  "filed pending \<longleftrightarrow> list_all (\<lambda>(k, items). items \<noteq> [] \<and> list_all (\<lambda>s. submissionKeyOf s = k) items) pending"

definition liveInv :: "liveSystem \<Rightarrow> bool" where
  "liveInv sys \<longleftrightarrow>
     mset (sys_accepted sys) = mset (lv_submissions (sys_controller sys))
       + mset (pendingItems (lv_pending (sys_controller sys))) + mset (waiterItems (sys_waiters sys))
     \<and> list_all answered (sys_waiters sys) \<and> filed (lv_pending (sys_controller sys))
     \<and> length (lv_submissions (sys_controller sys)) \<le> lv_capacity (sys_controller sys)
     \<and> length (lv_updates (sys_controller sys)) \<le> updatesCapacity"

lemma takePending_items:
  "takePending key pending = (found, pending') \<Longrightarrow> filed pending \<Longrightarrow>
     mset (pendingItems pending) = mset (pendingItems pending') + mset (case found of None \<Rightarrow> [] | Some s \<Rightarrow> [s])
     \<and> filed pending' \<and> (\<forall>s. found = Some s \<longrightarrow> submissionKeyOf s = key)"
proof (induction key pending arbitrary: found pending' rule: takePending.induct)
  case (2 key k items pending)
  then show ?case
    by (cases "k = key")
      (auto simp: filed_def pendingItems_def ActionSubmission_Clone_id split: list.splits prod.splits)
qed (simp add: filed_def pendingItems_def)

lemma storePending_items:
  "mset (pendingItems (storePending s pending)) = add_mset s (mset (pendingItems pending))"
  "filed pending \<Longrightarrow> filed (storePending s pending)"
  by (induction pending) (auto simp: storePending_def pendingItems_def filed_def ActionSubmission_Clone_id)

lemma waiterItems_update:
  assumes "i < length waiters"
  shows "mset (waiterItems (waiters[i := (r, w)])) + mset (heldBy (snd (waiters ! i)) @ returnedBy (snd (waiters ! i)))
    = mset (waiterItems waiters) + mset (heldBy w @ returnedBy w)"
  using assms
proof (induction waiters arbitrary: i)
  case (Cons x waiters)
  then show ?case by (cases i; cases x) (auto simp: waiterItems_def ac_simps)
qed simp

lemma setWaiter_fields [simp]:
  "sys_controller (setWaiter i w sys) = sys_controller sys" "sys_accepted (setWaiter i w sys) = sys_accepted sys"
  "sys_senders (setWaiter i w sys) = sys_senders sys" "sys_panicked (setWaiter i w sys) = sys_panicked sys"
  "sys_ctxDone (setWaiter i w sys) = sys_ctxDone sys"
  by (simp_all add: setWaiter_def)

text \<open>One waiter moves on: what it gains comes out of the controller.\<close>

lemma liveInv_setWaiter:
  assumes "liveInv sys" "i < length (sys_waiters sys)"
    and "sys' = setWaiter i w (sys\<lparr>sys_controller := c\<rparr>)" "answered (fst (sys_waiters sys ! i), w)"
    and "mset (lv_submissions c) + mset (pendingItems (lv_pending c)) + mset (heldBy w @ returnedBy w)
       = mset (lv_submissions (sys_controller sys)) + mset (pendingItems (lv_pending (sys_controller sys)))
         + mset (heldBy (snd (sys_waiters sys ! i)) @ returnedBy (snd (sys_waiters sys ! i)))"
    and "filed (lv_pending c)" "length (lv_submissions c) \<le> lv_capacity c" "length (lv_updates c) \<le> updatesCapacity"
  shows "liveInv sys'"
proof -
  let ?h = "\<lambda>w. mset (heldBy w @ returnedBy w)" and ?old = "snd (sys_waiters sys ! i)"
  have ws: "sys_waiters sys' = (sys_waiters sys)[i := (fst (sys_waiters sys ! i), w)]"
    by (simp add: assms(3) setWaiter_def)
  have items: "mset (waiterItems (sys_waiters sys')) + ?h ?old = mset (waiterItems (sys_waiters sys)) + ?h w"
    unfolding ws by (rule waiterItems_update [OF assms(2)])
  have "mset (sys_accepted sys) + ?h ?old = mset (lv_submissions c) + mset (pendingItems (lv_pending c))
      + mset (waiterItems (sys_waiters sys')) + ?h ?old"
    using assms(1,5) items unfolding liveInv_def by (simp add: ac_simps)
  then have "mset (sys_accepted sys) = mset (lv_submissions c) + mset (pendingItems (lv_pending c))
      + mset (waiterItems (sys_waiters sys'))" by (simp only: add_right_cancel)
  moreover have "list_all answered (sys_waiters sys')"
    using assms(1,2,4) unfolding ws liveInv_def by (auto simp: list_all_length nth_list_update)
  ultimately show ?thesis using assms(3,6-8) by (simp add: liveInv_def)
qed

lemma liveInv_step:
  assumes "liveStep sys sys'" "liveInv sys"
  shows "liveInv sys'"
  using assms(1)
proof cases
  case (ask request)
  with assms(2) show ?thesis by (simp add: liveInv_def waiterItems_def heldBy_def returnedBy_def answered_def)
next
  case (look i)
  let ?c = "sys_controller sys"
  obtain found pending where t: "takePending (requestKey (fst (sys_waiters sys ! i))) (lv_pending ?c) = (found, pending)"
    by (cases "takePending (requestKey (fst (sys_waiters sys ! i))) (lv_pending ?c)")
  have filed: "filed (lv_pending ?c)" using assms(2) by (simp add: liveInv_def)
  from look(1) t have "sys' = setWaiter i (case found of Some s \<Rightarrow> WaiterDone (Inr s) | None \<Rightarrow> WaiterListening)
      (sys\<lparr>sys_controller := ?c\<lparr>lv_pending := pending\<rparr>\<rparr>)" by (simp add: lookPending_def)
  from liveInv_setWaiter [OF assms(2) look(3) this] takePending_items [OF t filed] look(4) assms(2) show ?thesis
    by (cases found) (auto simp: liveInv_def heldBy_def returnedBy_def answered_def)
next
  case (receive i s rest)
  then have "sys' = setWaiter i (if submissionKeyOf s = requestKey (fst (sys_waiters sys ! i))
        then WaiterDone (Inr s) else WaiterHolding s)
      (sys\<lparr>sys_controller := (sys_controller sys)\<lparr>lv_submissions := rest\<rparr>\<rparr>)"
    by (simp add: receiveSubmission_def ActionSubmission_Clone_id)
  note set = liveInv_setWaiter [OF assms(2) receive(3) this]
  show ?thesis
  proof (cases "submissionKeyOf s = requestKey (fst (sys_waiters sys ! i))")
    case True
    with receive(4,5) assms(2) show ?thesis
      by (intro set) (simp_all add: liveInv_def heldBy_def returnedBy_def answered_def)
  next
    case False
    with receive(4,5) assms(2) show ?thesis
      by (intro set) (simp_all add: liveInv_def heldBy_def returnedBy_def answered_def)
  qed
next
  case (keep i s)
  from liveInv_setWaiter [OF assms(2) keep(3) keep(1) [unfolded keepSubmission_def]] keep(4) assms(2) show ?thesis
    by (simp add: liveInv_def heldBy_def returnedBy_def answered_def storePending_items)
next
  case (closed i)
  let ?w = "WaiterDone (Inl (PlayerError (tuiPlayer (fst (sys_waiters sys ! i)) @ '': live submission channel closed'')))"
  from closed(1) have "sys' = setWaiter i ?w (sys\<lparr>sys_controller := sys_controller sys\<rparr>)" by simp
  from liveInv_setWaiter [OF assms(2) closed(3) this] closed(4) assms(2) show ?thesis
    by (simp add: liveInv_def heldBy_def returnedBy_def answered_def)
next
  case (cancelled i)
  let ?w = "WaiterDone (Inl (PlayerWrap (tuiPlayer (fst (sys_waiters sys ! i))) ContextCanceled))"
  from cancelled(1) have "sys' = setWaiter i ?w (sys\<lparr>sys_controller := sys_controller sys\<rparr>)" by simp
  from liveInv_setWaiter [OF assms(2) cancelled(3) this] cancelled(4) assms(2) show ?thesis
    by (simp add: liveInv_def heldBy_def returnedBy_def answered_def)
next
  case (check s)
  with assms(2) show ?thesis by (simp add: liveInv_def)
next
  case (send before s after)
  with assms(2) show ?thesis
    by (simp add: liveInv_def sendSubmission_def Let_def ActionSubmission_Clone_id)
next
  case (publish state)
  with assms(2) show ?thesis by (simp add: liveInv_def publishState_def live_Publish_def Let_def)
next
  case (push before state after)
  with assms(2) show ?thesis by (auto simp: liveInv_def sendUpdate_def Let_def)
next
  case (display state updates)
  with assms(2) show ?thesis by (simp add: liveInv_def)
next
  case close
  with assms(2) show ?thesis by (simp add: liveInv_def live_Close_def)
next
  case closeUpdates
  with assms(2) show ?thesis by (simp add: liveInv_def closeUpdates_def)
next
  case cancel
  with assms(2) show ?thesis by (simp add: liveInv_def)
qed

lemma liveInv_start: "liveInv (liveStart initial snapshots)"
  by (simp add: liveInv_def liveStart_def newLiveGameplayController_def pendingItems_def waiterItems_def filed_def
      updatesCapacity_def)

lemma liveInv_run: "liveStep\<^sup>*\<^sup>* (liveStart initial snapshots) sys \<Longrightarrow> liveInv sys"
  by (induction rule: rtranclp_induct) (simp_all add: liveInv_start liveInv_step)

section \<open>Two people at one terminal\<close>

text \<open>Both players listen; the second one's submission is received by the first, which files it.\<close>

definition filedAway :: "MatchState \<Rightarrow> MatchState list \<Rightarrow> RoundRequest \<Rightarrow> RoundRequest \<Rightarrow> ActionSubmission \<Rightarrow> liveSystem" where
  "filedAway initial snapshots r1 r2 s =
     (liveStart initial snapshots)\<lparr>
       sys_controller := (newLiveGameplayController initial snapshots)\<lparr>lv_pending := [(submissionKeyOf s, [s])]\<rparr>,
       sys_waiters := [(r1, WaiterListening), (r2, WaiterListening)], sys_accepted := [s]\<rparr>"

lemma filedAway_reachable:
  assumes "submissionKeyOf s = requestKey r2" "requestKey r1 \<noteq> requestKey r2"
  shows "liveStep\<^sup>*\<^sup>* (liveStart initial snapshots) (filedAway initial snapshots r1 r2 s)"
proof -
  let ?c = "newLiveGameplayController initial snapshots"
  define system where "system c ws senders accepted =
     \<lparr>sys_controller = c, sys_waiters = ws, sys_senders = senders, sys_publishers = [], sys_ctxDone = False, sys_panicked = False,
      sys_accepted = accepted\<rparr>" for c ws senders accepted
  have same: "?c\<lparr>lv_pending := []\<rparr> = ?c" by (simp add: newLiveGameplayController_def)
  have empty: "lv_pending ?c = []" "lv_submissions ?c = []" "\<not> lv_closed ?c" "lv_capacity ?c = length (ms_Roles initial) + 1"
    by (simp_all add: newLiveGameplayController_def)
  have fields: "sys_panicked (system c ws se ac) = False" "sys_controller (system c ws se ac) = c"
    "sys_waiters (system c ws se ac) = ws" "sys_senders (system c ws se ac) = se"
    "sys_accepted (system c ws se ac) = ac" for c ws se ac
    by (simp_all add: system_def)
  note run = rtranclp.rtrancl_into_rtrancl
  let ?run = "\<lambda>sys. liveStep\<^sup>*\<^sup>* (liveStart initial snapshots) sys"
  have "?run (system ?c [] [] [])" by (simp add: system_def liveStart_def)
  from run [OF this liveStep.ask [of _ r1]] have "?run (system ?c [(r1, WaiterReady)] [] [])"
    by (simp add: system_def)
  from run [OF this liveStep.ask [of _ r2]] have "?run (system ?c [(r1, WaiterReady), (r2, WaiterReady)] [] [])"
    by (simp add: system_def)
  from run [OF this liveStep.look [of _ 0]] have "?run (system ?c [(r1, WaiterListening), (r2, WaiterReady)] [] [])"
    by (simp add: system_def lookPending_def Let_def empty setWaiter_def same)
  from run [OF this liveStep.look [of _ 1]] have "?run (system ?c [(r1, WaiterListening), (r2, WaiterListening)] [] [])"
    by (simp add: system_def lookPending_def Let_def empty setWaiter_def same)
  from run [OF this liveStep.check [of _ s]] have "?run (system ?c [(r1, WaiterListening), (r2, WaiterListening)] [s] [])"
    by (simp add: system_def empty)
  from run [OF this liveStep.send [of _ "[]" s "[]"]]
  have "?run (system (?c\<lparr>lv_submissions := [s]\<rparr>) [(r1, WaiterListening), (r2, WaiterListening)] [] [s])"
    by (simp add: system_def sendSubmission_def Let_def empty ActionSubmission_Clone_id)
  from run [OF this liveStep.receive [of _ 0 s "[]"]] assms
  have "?run (system (?c\<lparr>lv_submissions := []\<rparr>) [(r1, WaiterHolding s), (r2, WaiterListening)] [] [s])"
    by (simp add: system_def receiveSubmission_def setWaiter_def)
  from run [OF this liveStep.keep [of _ 0 s]]
  have "?run (system (?c\<lparr>lv_submissions := [], lv_pending := [(submissionKeyOf s, [s])]\<rparr>)
      [(r1, WaiterListening), (r2, WaiterListening)] [] [s])"
    by (simp add: system_def keepSubmission_def setWaiter_def empty storePending_def ActionSubmission_Clone_id)
  moreover have "?c\<lparr>lv_submissions := [], lv_pending := [(submissionKeyOf s, [s])]\<rparr> = ?c\<lparr>lv_pending := [(submissionKeyOf s, [s])]\<rparr>"
    by (simp add: newLiveGameplayController_def)
  ultimately show ?thesis by (simp add: filedAway_def system_def liveStart_def)
qed

text \<open>From then on both players listen until another submission is accepted, the controller closes
  or the context ends.\<close>

definition bothListen :: "RoundRequest \<Rightarrow> RoundRequest \<Rightarrow> ActionSubmission \<Rightarrow> liveSystem \<Rightarrow> bool" where
  "bothListen r1 r2 s sys \<longleftrightarrow> 0 < lv_capacity (sys_controller sys) \<and> (\<exists>later. sys_accepted sys = s # later)
     \<and> (sys_accepted sys = [s] \<and> \<not> lv_closed (sys_controller sys) \<and> \<not> sys_ctxDone sys \<longrightarrow>
          lv_submissions (sys_controller sys) = []
          \<and> (\<exists>others. sys_waiters sys = (r1, WaiterListening) # (r2, WaiterListening) # others))"

lemma setWaiter_later:
  "sys_waiters sys = x # y # others \<Longrightarrow> snd (sys_waiters sys ! i) \<noteq> snd x \<Longrightarrow> snd (sys_waiters sys ! i) \<noteq> snd y \<Longrightarrow>
     \<exists>others. (sys_waiters sys)[i := w] = x # y # others"
  by (auto simp: nth_Cons split: nat.splits)

lemma bothListen_step: "liveStep sys sys' \<Longrightarrow> bothListen r1 r2 s sys \<Longrightarrow> bothListen r1 r2 s sys'"
proof (induction rule: liveStep.induct)
  case (look sys i)
  then show ?case
    using setWaiter_later [of sys "(r1, WaiterListening)" "(r2, WaiterListening)" _ i]
    by (auto simp: bothListen_def lookPending_def Let_def setWaiter_def split: prod.split option.split)
next
  case (keep sys i x)
  then show ?case
    using setWaiter_later [of sys "(r1, WaiterListening)" "(r2, WaiterListening)" _ i]
    by (auto simp: bothListen_def keepSubmission_def setWaiter_def)
next
  case (send sys before x after)
  then show ?case by (auto simp: bothListen_def sendSubmission_def Let_def)
qed (auto simp: bothListen_def receiveSubmission_def setWaiter_def publishState_def live_Publish_def sendUpdate_def live_Close_def closeUpdates_def Let_def)

lemma filedAway_forever:
  assumes "liveStep\<^sup>*\<^sup>* (filedAway initial snapshots r1 r2 s) sys"
    "sys_accepted sys = [s]" "\<not> lv_closed (sys_controller sys)" "\<not> sys_ctxDone sys"
  shows "take 2 (sys_waiters sys) = [(r1, WaiterListening), (r2, WaiterListening)]"
proof -
  have "bothListen r1 r2 s (filedAway initial snapshots r1 r2 s)"
    by (simp add: bothListen_def filedAway_def liveStart_def newLiveGameplayController_def)
  with assms(1) have "bothListen r1 r2 s sys"
    by (induction rule: rtranclp_induct) (auto intro: bothListen_step)
  with assms(2-4) show ?thesis by (auto simp: bothListen_def)
qed

section \<open>Submitting and publishing while the match ends\<close>

text \<open>A send that was still to come when the controller closed.\<close>

lemma submit_panic_reachable:
  "\<exists>sys. liveStep\<^sup>*\<^sup>* (liveStart initial snapshots) sys \<and> sys_panicked sys \<and> sys_publishers sys = []"
proof -
  let ?s0 = "liveStart initial snapshots"
  fix s :: ActionSubmission
  let ?s1 = "?s0\<lparr>sys_senders := [s]\<rparr>"
  let ?s2 = "?s1\<lparr>sys_controller := live_Close (sys_controller ?s1)\<rparr>"
  have "liveStep ?s0 ?s1"
    using liveStep.check [of ?s0 s] by (simp add: liveStart_def newLiveGameplayController_def)
  moreover have "liveStep ?s1 ?s2" by (rule liveStep.close) (simp add: liveStart_def)
  moreover have "liveStep ?s2 (sendSubmission s [] ?s2)"
    using liveStep.send [of ?s2 "[]" s "[]"] by (simp add: liveStart_def)
  moreover have "sys_panicked (sendSubmission s [] ?s2) \<and> sys_publishers (sendSubmission s [] ?s2) = []"
    by (simp add: sendSubmission_def Let_def live_Close_def liveStart_def newLiveGameplayController_def)
  ultimately show ?thesis by (meson rtranclp.rtrancl_into_rtrancl rtranclp.rtrancl_refl)
qed

lemma publish_panic_reachable:
  "\<exists>sys. liveStep\<^sup>*\<^sup>* (liveStart initial snapshots) sys \<and> sys_panicked sys \<and> sys_senders sys = []"
proof -
  let ?s0 = "liveStart initial snapshots"
  let ?s1 = "publishState initial ?s0"
  let ?s2 = "?s1\<lparr>sys_controller := live_Close (sys_controller ?s1)\<rparr>"
  let ?s3 = "?s2\<lparr>sys_controller := closeUpdates (sys_controller ?s2)\<rparr>"
  have start: "\<not> sys_panicked ?s0" "\<not> lv_closed (sys_controller ?s0)" "sys_publishers ?s0 = []" "sys_senders ?s0 = []"
    "\<not> lv_updatesClosed (sys_controller ?s0)"
    by (simp_all add: liveStart_def newLiveGameplayController_def)
  then have published: "\<not> sys_panicked ?s1" "\<not> lv_closed (sys_controller ?s1)" "sys_publishers ?s1 = [MatchState_Clone initial]"
    "sys_senders ?s1 = []" "\<not> lv_updatesClosed (sys_controller ?s1)"
    by (simp_all add: publishState_def live_Publish_def Let_def)
  have "liveStep ?s0 ?s1" by (rule liveStep.publish) (rule start)
  moreover have "liveStep ?s1 ?s2" by (rule liveStep.close) (rule published)
  moreover have "liveStep ?s2 ?s3" by (rule liveStep.closeUpdates) (simp_all add: published live_Close_def)
  moreover have "liveStep ?s3 (sendUpdate (MatchState_Clone initial) ([] @ []) ?s3)"
    by (rule liveStep.push) (simp_all add: published closeUpdates_def)
  moreover have "sys_panicked (sendUpdate (MatchState_Clone initial) ([] @ []) ?s3)
      \<and> sys_senders (sendUpdate (MatchState_Clone initial) ([] @ []) ?s3) = []"
    by (simp add: sendUpdate_def Let_def closeUpdates_def published)
  ultimately show ?thesis by (meson rtranclp.rtrancl_into_rtrancl rtranclp.rtrancl_refl)
qed

lemma panic_only_closed:
  assumes "liveStep\<^sup>*\<^sup>* (liveStart initial snapshots) sys"
  shows "(lv_updatesClosed (sys_controller sys) \<longrightarrow> lv_closed (sys_controller sys))
    \<and> (sys_panicked sys \<longrightarrow> lv_closed (sys_controller sys))"
  using assms
proof (induction rule: rtranclp_induct)
  case (step sys sys')
  from step(2,3) show ?case
    by (induction rule: liveStep.induct)
      (auto simp: lookPending_def receiveSubmission_def keepSubmission_def setWaiter_def sendSubmission_def
        publishState_def live_Publish_def sendUpdate_def live_Close_def closeUpdates_def Let_def split: prod.splits)
qed (simp add: liveStart_def newLiveGameplayController_def)

end
