(* ===== verification/SqliteStore.thy ===== *)
theory SqliteStore
  imports MemoryStore Prompting
begin

text \<open>
  The match store on an SQLite database (\<open>internal/adapters/persistence/sqlite/store.go\<close>).  The
  tables are lists of rows in the order of their ids or of their insertion, with the primary keys
  the schema declares; an operation runs in one transaction, so a failed one leaves the database
  as it was.  Values are stored as the text \<open>encoding/json\<close> makes of them: the encoder and the
  decoder are parameters, and what a value looks like when it comes back is \<open>jsonState\<close> and its
  parts.  A database that cannot be read or written at all is not modelled; times are the texts
  that are stored.
\<close>

section \<open>Values that went through JSON\<close>

text \<open>A number of an event payload comes back as a \<open>float64\<close>.\<close>

primrec jsonAny :: "any \<Rightarrow> any" where
  "jsonAny (AString s) = AString s"
| "jsonAny (AInt i) = AFloat i"
| "jsonAny (AFloat i) = AFloat i"
| "jsonAny (ABool b) = ABool b"
| "jsonAny (AMap m) = AMap (map (map_prod id jsonAny) m)"
| "jsonAny (AList xs) = AList (map jsonAny xs)"

definition jsonEvent :: "RoundEvent \<Rightarrow> RoundEvent" where
  "jsonEvent event = event\<lparr>ev_Payload := map (map_prod id jsonAny) (ev_Payload event)\<rparr>"

definition jsonEntry :: "RoundTimelineEntry \<Rightarrow> RoundTimelineEntry" where
  "jsonEntry entry = entry\<lparr>tl_Event := map_option jsonEvent (tl_Event entry)\<rparr>"

definition jsonRound :: "RoundRecord \<Rightarrow> RoundRecord" where
  "jsonRound r = r\<lparr>rr_Events := map jsonEvent (rr_Events r), rr_Timeline := map jsonEntry (rr_Timeline r)\<rparr>"

definition jsonState :: "MatchState \<Rightarrow> MatchState" where
  "jsonState s = s\<lparr>ms_History := \<lparr>rh_RecentRounds = map jsonRound (rh_RecentRounds (ms_History s))\<rparr>\<rparr>"

text \<open>An encoder with its decoder, each of which may fail, and the codecs of the stored values.  The
  store only hands texts from the one to the other, so their type is a parameter too.\<close>

record ('t, 'a) codec =
  cd_Marshal :: "'a \<Rightarrow> string + 't"
  cd_Unmarshal :: "'t \<Rightarrow> string + 'a"

record 't storeCodecs =
  jx_State :: "('t, MatchState) codec"
  jx_Round :: "('t, RoundRecord) codec"
  jx_Event :: "('t, RoundEvent) codec"
  jx_Commentary :: "('t, CommentaryRecord) codec"
  jx_AICall :: "('t, AICallRecord) codec"

section \<open>The database\<close>

record 't matchRow =
  tm_MatchID :: MatchID
  tm_ScenarioID :: ScenarioID
  tm_StateJSON :: 't
  tm_CreatedAt :: string
  tm_UpdatedAt :: string

record slotRow =
  ts_SlotName :: string
  ts_MatchID :: MatchID
  ts_ScenarioID :: ScenarioID
  ts_CurrentRound :: RoundNumber
  ts_Cash :: Money
  ts_CreatedAt :: string
  ts_UpdatedAt :: string

type_synonym 't roundRow = "MatchID \<times> RoundNumber \<times> 't"
type_synonym 't logRow = "MatchID \<times> 't"

record 't Database =
  db_matches :: "'t matchRow list"
  db_rounds :: "'t roundRow list"
  db_snapshots :: "'t roundRow list"
  db_events :: "'t logRow list"
  db_commentary :: "'t logRow list"
  db_aiCalls :: "'t logRow list"
  db_saveSlots :: "slotRow list"

record 't SqliteStore =
  sq_db :: "'t Database"
  sq_historyLimit :: int

record SaveSlotSummary =
  ss_SlotName :: string
  ss_MatchID :: MatchID
  ss_ScenarioID :: ScenarioID
  ss_CurrentRound :: RoundNumber
  ss_Cash :: Money
  ss_SavedAt :: string

datatype sqliteError =
    SqlStore storeError
  | SqlEmptyPath
  | SqlConstraint string
  | SqlEncode string
  | SqlDecode string
  | SqlEmptySlotName
  | ErrSaveSlotNotFound

definition initSchema :: "'t Database" where
  "initSchema = \<lparr>db_matches = [], db_rounds = [], db_snapshots = [], db_events = [], db_commentary = [],
     db_aiCalls = [], db_saveSlots = []\<rparr>"

definition normalizedHistoryLimit :: "int \<Rightarrow> int" where
  "normalizedHistoryLimit limit = (if limit \<le> 0 then 10 else limit)"

text \<open>Opening a path finds the database there, or creates the tables.\<close>

definition sqlite_NewStore :: "string \<Rightarrow> int \<Rightarrow> 't Database option \<Rightarrow> sqliteError + 't SqliteStore" where
  "sqlite_NewStore path recentHistoryLimit found =
    (if path = [] then Inl SqlEmptyPath
     else Inr \<lparr>sq_db = (case found of Some db \<Rightarrow> db | None \<Rightarrow> initSchema),
               sq_historyLimit = normalizedHistoryLimit recentHistoryLimit\<rparr>)"

section \<open>Writing\<close>

definition encode :: "('t, 'a) codec \<Rightarrow> 'a \<Rightarrow> sqliteError + 't" where
  "encode cd x = (case cd_Marshal cd x of Inl err \<Rightarrow> Inl (SqlEncode err) | Inr t \<Rightarrow> Inr t)"

definition marshalStateWithRecentHistory :: "'t storeCodecs \<Rightarrow> MatchState \<Rightarrow> int \<Rightarrow> sqliteError + 't" where
  "marshalStateWithRecentHistory cx nextState limit =
    (let state = MatchState_Clone nextState
     in encode (jx_State cx) (state\<lparr>ms_History := RoundHistory_Recent (ms_History state) limit\<rparr>))"

definition insertRoundRow :: "string \<Rightarrow> MatchID \<Rightarrow> RoundNumber \<Rightarrow> 't \<Rightarrow> 't roundRow list \<Rightarrow> sqliteError + 't roundRow list" where
  "insertRoundRow name m k t rows =
    (if (m, k) \<in> set (map (\<lambda>(m, k, _). (m, k)) rows) then Inl (SqlConstraint name) else Inr (rows @ [(m, k, t)]))"

fun insertRounds :: "'t storeCodecs \<Rightarrow> MatchID \<Rightarrow> RoundRecord list \<Rightarrow> 't roundRow list \<Rightarrow> sqliteError + 't roundRow list" where
  "insertRounds cx m [] rows = Inr rows"
| "insertRounds cx m (round # rounds) rows =
    (case encode (jx_Round cx) round of
       Inl err \<Rightarrow> Inl err
     | Inr t \<Rightarrow>
    (case insertRoundRow ''rounds'' m (rr_Round round) t rows of
       Inl err \<Rightarrow> Inl err
     | Inr rows \<Rightarrow> insertRounds cx m rounds rows))"

text \<open>The loops of \<open>insertEvents\<close> and \<open>insertCommentary\<close>, whose rows have an id of their own.\<close>

fun insertRows :: "('t, 'a) codec \<Rightarrow> MatchID \<Rightarrow> 'a list \<Rightarrow> 't logRow list \<Rightarrow> sqliteError + 't logRow list" where
  "insertRows cd m [] rows = Inr rows"
| "insertRows cd m (x # xs) rows =
    (case encode cd x of Inl err \<Rightarrow> Inl err | Inr t \<Rightarrow> insertRows cd m xs (rows @ [(m, t)]))"

definition insertEvents :: "'t storeCodecs \<Rightarrow> MatchID \<Rightarrow> RoundEvent list \<Rightarrow> 't logRow list \<Rightarrow> sqliteError + 't logRow list" where
  "insertEvents cx = insertRows (jx_Event cx)"

definition insertCommentary :: "'t storeCodecs \<Rightarrow> MatchID \<Rightarrow> CommentaryRecord list \<Rightarrow> 't logRow list \<Rightarrow> sqliteError + 't logRow list" where
  "insertCommentary cx = insertRows (jx_Commentary cx)"

text \<open>\<open>ON CONFLICT(match_id, current_round) DO UPDATE\<close>.\<close>

definition upsertSnapshot :: "MatchID \<Rightarrow> RoundNumber \<Rightarrow> 't \<Rightarrow> 't roundRow list \<Rightarrow> 't roundRow list" where
  "upsertSnapshot m k t = upsert_first (\<lambda>(m', k', _). m' = m \<and> k' = k) (\<lambda>_. (m, k, t)) (m, k, t)"

text \<open>The rows of the rounds, their events and their commentary.\<close>

definition insertLogs :: "'t storeCodecs \<Rightarrow> MatchID \<Rightarrow> RoundEvent list \<Rightarrow> CommentaryRecord list \<Rightarrow> 't Database \<Rightarrow>
    sqliteError + 't Database" where
  "insertLogs cx m events commentary db =
    (case insertEvents cx m events (db_events db) of
       Inl err \<Rightarrow> Inl err
     | Inr eventRows \<Rightarrow>
    (case insertCommentary cx m commentary (db_commentary db) of
       Inl err \<Rightarrow> Inl err
     | Inr commentaryRows \<Rightarrow> Inr (db\<lparr>db_events := eventRows, db_commentary := commentaryRows\<rparr>)))"

definition sqlite_CreateMatch :: "'t storeCodecs \<Rightarrow> string \<Rightarrow> MatchState \<Rightarrow> 't SqliteStore \<Rightarrow> sqliteError + 't SqliteStore" where
  "sqlite_CreateMatch cx now initial s =
    (if ms_MatchID initial = [] then Inl (SqlStore StoreEmptyMatchID)
     else let m = ms_MatchID initial; db = sq_db s; state = MatchState_Clone initial;
              history = RoundHistory_Recent (ms_History state) (sq_historyLimit s);
              rounds = rh_RecentRounds history;
              state = state\<lparr>ms_History := history\<rparr>
     in case encode (jx_State cx) state of
          Inl err \<Rightarrow> Inl err
        | Inr stateJSON \<Rightarrow>
     if m \<in> set (map tm_MatchID (db_matches db)) then Inl (SqlConstraint ''matches'')
     else case insertRoundRow ''state_snapshots'' m (ms_CurrentRound state) stateJSON (db_snapshots db) of
          Inl err \<Rightarrow> Inl err
        | Inr snapshots \<Rightarrow>
     (case insertRounds cx m rounds (db_rounds db) of
          Inl err \<Rightarrow> Inl err
        | Inr roundRows \<Rightarrow>
     (case insertLogs cx m (flattenEvents rounds) (flattenCommentary rounds)
             (db\<lparr>db_matches := db_matches db @ [\<lparr>tm_MatchID = m, tm_ScenarioID = ms_ScenarioID initial,
                   tm_StateJSON = stateJSON, tm_CreatedAt = now, tm_UpdatedAt = now\<rparr>],
                 db_snapshots := snapshots, db_rounds := roundRows\<rparr>) of
          Inl err \<Rightarrow> Inl err
        | Inr db \<Rightarrow> Inr (s\<lparr>sq_db := db\<rparr>))))"

text \<open>\<open>SELECT MAX(round_number)\<close>: no value when the match has no round.\<close>

definition latestRoundNumber :: "MatchID \<Rightarrow> 't roundRow list \<Rightarrow> RoundNumber option" where
  "latestRoundNumber m rows =
    (case filter (\<lambda>(m', _). m' = m) rows of
       [] \<Rightarrow> None
     | (_, k, _) # rest \<Rightarrow> Some (foldl max k (map (\<lambda>(_, k, _). k) rest)))"

definition updateMatchRow :: "MatchID \<Rightarrow> 't \<Rightarrow> string \<Rightarrow> 't matchRow list \<Rightarrow> 't matchRow list" where
  "updateMatchRow m stateJSON now =
     map (\<lambda>row. if tm_MatchID row = m then row\<lparr>tm_StateJSON := stateJSON, tm_UpdatedAt := now\<rparr> else row)"

definition sqlite_CommitRound ::
  "'t storeCodecs \<Rightarrow> string \<Rightarrow> MatchID \<Rightarrow> MatchState \<Rightarrow> RoundRecord \<Rightarrow> 't SqliteStore \<Rightarrow>
     sqliteError + MatchState \<times> 't SqliteStore" where
  "sqlite_CommitRound cx now m nextState round s =
    (if m = [] then Inl (SqlStore StoreEmptyMatchID)
     else if ms_MatchID nextState \<noteq> m then Inl (SqlStore (MismatchedMatchID (ms_MatchID nextState) m))
     else if rr_Round round \<le> 0 then Inl (SqlStore (RoundNotPositive (rr_Round round)))
     else let db = sq_db s; last = latestRoundNumber m (db_rounds db)
     in if last \<noteq> None \<and> rr_Round round \<le> the last
        then Inl (SqlStore (RoundNotLater (rr_Round round) (the last)))
        else let next = MatchState_Clone nextState; committedRound = RoundRecord_Clone round
     in case marshalStateWithRecentHistory cx next (sq_historyLimit s) of
          Inl err \<Rightarrow> Inl err
        | Inr stateJSON \<Rightarrow>
     (case encode (jx_Round cx) committedRound of
          Inl err \<Rightarrow> Inl err
        | Inr roundJSON \<Rightarrow>
     if m \<notin> set (map tm_MatchID (db_matches db)) then Inl (SqlStore MatchNotFound)
     else case insertRoundRow ''rounds'' m (rr_Round round) roundJSON (db_rounds db) of
          Inl err \<Rightarrow> Inl err
        | Inr roundRows \<Rightarrow>
     (case insertLogs cx m (rr_Events committedRound) (rr_Commentary committedRound)
             (db\<lparr>db_matches := updateMatchRow m stateJSON now (db_matches db), db_rounds := roundRows,
                 db_snapshots := upsertSnapshot m (ms_CurrentRound next) stateJSON (db_snapshots db)\<rparr>) of
          Inl err \<Rightarrow> Inl err
        | Inr db \<Rightarrow>
            Inr (next\<lparr>ms_History := RoundHistory_Recent (ms_History next) (sq_historyLimit s)\<rparr>,
                 s\<lparr>sq_db := db\<rparr>))))"

section \<open>Reading\<close>

definition decode :: "('t, 'a) codec \<Rightarrow> 't \<Rightarrow> sqliteError + 'a" where
  "decode cd t = (case cd_Unmarshal cd t of Inl err \<Rightarrow> Inl (SqlDecode err) | Inr x \<Rightarrow> Inr x)"

fun decodeAll :: "('t, 'a) codec \<Rightarrow> 't list \<Rightarrow> sqliteError + 'a list" where
  "decodeAll cd [] = Inr []"
| "decodeAll cd (t # ts) =
    (case decode cd t of
       Inl err \<Rightarrow> Inl err
     | Inr x \<Rightarrow> (case decodeAll cd ts of Inl err \<Rightarrow> Inl err | Inr xs \<Rightarrow> Inr (x # xs)))"

definition sqlite_CurrentState :: "'t storeCodecs \<Rightarrow> 't SqliteStore \<Rightarrow> MatchID \<Rightarrow> sqliteError + MatchState" where
  "sqlite_CurrentState cx s m =
    (case find_first (\<lambda>row. tm_MatchID row = m) (db_matches (sq_db s)) of
       None \<Rightarrow> Inl (SqlStore MatchNotFound)
     | Some row \<Rightarrow> decode (jx_State cx) (tm_StateJSON row))"

definition sqlite_Round :: "'t storeCodecs \<Rightarrow> 't SqliteStore \<Rightarrow> MatchID \<Rightarrow> RoundNumber \<Rightarrow> sqliteError + RoundRecord" where
  "sqlite_Round cx s m roundNumber =
    (case find_first (\<lambda>(m', k, _). m' = m \<and> k = roundNumber) (db_rounds (sq_db s)) of
       Some (_, _, t) \<Rightarrow> decode (jx_Round cx) t
     | None \<Rightarrow>
        (case sqlite_CurrentState cx s m of
           Inl err \<Rightarrow> Inl err
         | Inr _ \<Rightarrow> Inl (SqlStore (RoundNotFound roundNumber))))"

text \<open>The texts of a match, and their values; no rows may mean that there is no such match.\<close>

definition textsOf :: "MatchID \<Rightarrow> 't logRow list \<Rightarrow> 't list" where
  "textsOf m rows = map snd (filter (\<lambda>(m', _). m' = m) rows)"

definition readRows :: "'t storeCodecs \<Rightarrow> ('t, 'a) codec \<Rightarrow> 't SqliteStore \<Rightarrow> MatchID \<Rightarrow> 't list \<Rightarrow> sqliteError + 'a list" where
  "readRows cx cd s m texts =
    (case decodeAll cd texts of
       Inl err \<Rightarrow> Inl err
     | Inr xs \<Rightarrow>
        if xs = [] then (case sqlite_CurrentState cx s m of Inl err \<Rightarrow> Inl err | Inr _ \<Rightarrow> Inr xs) else Inr xs)"

definition sqlite_EventTimeline :: "'t storeCodecs \<Rightarrow> 't SqliteStore \<Rightarrow> MatchID \<Rightarrow> sqliteError + RoundEvent list" where
  "sqlite_EventTimeline cx s m = readRows cx (jx_Event cx) s m (textsOf m (db_events (sq_db s)))"

definition sqlite_Commentary :: "'t storeCodecs \<Rightarrow> 't SqliteStore \<Rightarrow> MatchID \<Rightarrow> sqliteError + CommentaryRecord list" where
  "sqlite_Commentary cx s m = readRows cx (jx_Commentary cx) s m (textsOf m (db_commentary (sq_db s)))"

definition sqlite_StateSnapshots :: "'t storeCodecs \<Rightarrow> 't SqliteStore \<Rightarrow> MatchID \<Rightarrow> sqliteError + MatchState list" where
  "sqlite_StateSnapshots cx s m = readRows cx (jx_State cx) s m
     (map (\<lambda>(_, _, t). t) (sort_key (\<lambda>(_, k, _). k) (filter (\<lambda>(m', _). m' = m) (db_snapshots (sq_db s)))))"

definition AppendAICall :: "'t storeCodecs \<Rightarrow> MatchID \<Rightarrow> AICallRecord \<Rightarrow> 't SqliteStore \<Rightarrow> sqliteError + 't SqliteStore" where
  "AppendAICall cx m call s =
    (case sqlite_CurrentState cx s m of
       Inl err \<Rightarrow> Inl err
     | Inr _ \<Rightarrow>
    (case encode (jx_AICall cx) call of
       Inl err \<Rightarrow> Inl err
     | Inr t \<Rightarrow> Inr (s\<lparr>sq_db := (sq_db s)\<lparr>db_aiCalls := db_aiCalls (sq_db s) @ [(m, t)]\<rparr>\<rparr>)))"

definition AICallRecords :: "'t storeCodecs \<Rightarrow> 't SqliteStore \<Rightarrow> MatchID \<Rightarrow> sqliteError + AICallRecord list" where
  "AICallRecords cx s m = readRows cx (jx_AICall cx) s m (textsOf m (db_aiCalls (sq_db s)))"

section \<open>Save slots\<close>

definition SaveSlot :: "'t storeCodecs \<Rightarrow> string \<Rightarrow> string \<Rightarrow> MatchID \<Rightarrow> 't SqliteStore \<Rightarrow>
    sqliteError + SaveSlotSummary \<times> 't SqliteStore" where
  "SaveSlot cx now slotName m s =
    (if slotName = [] then Inl SqlEmptySlotName
     else case sqlite_CurrentState cx s m of
       Inl err \<Rightarrow> Inl err
     | Inr state \<Rightarrow>
        let row = \<lparr>ts_SlotName = slotName, ts_MatchID = m, ts_ScenarioID = ms_ScenarioID state,
              ts_CurrentRound = ms_CurrentRound state, ts_Cash = pl_Cash (ms_Plant state),
              ts_CreatedAt = now, ts_UpdatedAt = now\<rparr>
        in Inr (\<lparr>ss_SlotName = slotName, ss_MatchID = m, ss_ScenarioID = ms_ScenarioID state,
                 ss_CurrentRound = ms_CurrentRound state, ss_Cash = pl_Cash (ms_Plant state), ss_SavedAt = now\<rparr>,
                s\<lparr>sq_db := (sq_db s)\<lparr>db_saveSlots :=
                  upsert_first (\<lambda>old. ts_SlotName old = slotName) (\<lambda>old. row\<lparr>ts_CreatedAt := ts_CreatedAt old\<rparr>) row
                    (db_saveSlots (sq_db s))\<rparr>\<rparr>))"

definition slotSummary :: "slotRow \<Rightarrow> SaveSlotSummary" where
  "slotSummary row = \<lparr>ss_SlotName = ts_SlotName row, ss_MatchID = ts_MatchID row, ss_ScenarioID = ts_ScenarioID row,
     ss_CurrentRound = ts_CurrentRound row, ss_Cash = ts_Cash row, ss_SavedAt = ts_UpdatedAt row\<rparr>"

text \<open>\<open>ORDER BY updated_at DESC, slot_name ASC\<close>, on the texts of the times.\<close>

definition ListSaveSlots :: "'t SqliteStore \<Rightarrow> SaveSlotSummary list" where
  "ListSaveSlots s = map slotSummary (sort_by (\<lambda>a b. cmp_or
     [compare_go (ts_UpdatedAt b) (ts_UpdatedAt a), compare_go (ts_SlotName a) (ts_SlotName b)])
     (db_saveSlots (sq_db s)))"

definition LoadSaveSlot :: "'t storeCodecs \<Rightarrow> string \<Rightarrow> 't SqliteStore \<Rightarrow> sqliteError + MatchState \<times> SaveSlotSummary" where
  "LoadSaveSlot cx slotName s =
    (if slotName = [] then Inl SqlEmptySlotName
     else case find_first (\<lambda>row. ts_SlotName row = slotName) (db_saveSlots (sq_db s)) of
       None \<Rightarrow> Inl ErrSaveSlotNotFound
     | Some row \<Rightarrow>
    (case sqlite_CurrentState cx s (ts_MatchID row) of
       Inl err \<Rightarrow> Inl err
     | Inr state \<Rightarrow> Inr (state, slotSummary row)))"

section \<open>What survives the trip through JSON\<close>

lemma jsonEvent_fields [simp]:
  "ev_EventID (jsonEvent e) = ev_EventID e" "ev_Type (jsonEvent e) = ev_Type e" "ev_Round (jsonEvent e) = ev_Round e"
  by (simp_all add: jsonEvent_def)

lemma jsonRound_fields [simp]:
  "rr_Round (jsonRound r) = rr_Round r" "rr_Actions (jsonRound r) = rr_Actions r"
  "rr_Commentary (jsonRound r) = rr_Commentary r" "rr_Metrics (jsonRound r) = rr_Metrics r"
  "rr_Events (jsonRound r) = map jsonEvent (rr_Events r)"
  by (simp_all add: jsonRound_def)

lemma jsonState_fields [simp]:
  "ms_MatchID (jsonState s) = ms_MatchID s" "ms_ScenarioID (jsonState s) = ms_ScenarioID s"
  "ms_CurrentRound (jsonState s) = ms_CurrentRound s" "ms_Plant (jsonState s) = ms_Plant s"
  "ms_Roles (jsonState s) = ms_Roles s"
  "rh_RecentRounds (ms_History (jsonState s)) = map jsonRound (rh_RecentRounds (ms_History s))"
  by (simp_all add: jsonState_def)

lemma phaseForRoundEvent_json [simp]: "phaseForRoundEvent (jsonEvent e) = phaseForRoundEvent e"
  by simp

lemma jsonRound_Clone: "RoundRecord_Clone (jsonRound r) = jsonRound (RoundRecord_Clone r)"
proof -
  have events: "eventEntries f (map jsonEvent es) = map jsonEntry (eventEntries f es)" for f es
    by (induction es arbitrary: f) (simp_all add: Let_def jsonEntry_def clone_simps)
  have remarks: "map jsonEntry (commentaryEntries i cs) = commentaryEntries i cs" for i cs
    by (induction cs arbitrary: i) (simp_all add: jsonEntry_def)
  have "orderedCommentary (jsonRound r) = orderedCommentary r"
    by (simp add: orderedCommentary_def orderedActionsForTimeline_def)
  then have "CanonicalTimeline (jsonRound r) = map jsonEntry (CanonicalTimeline r)"
    by (simp add: CanonicalTimeline_def clone_simps events remarks jsonRound_def)
  then show ?thesis by (simp add: RoundRecord_Clone_eq jsonRound_def)
qed

lemma jsonState_Recent:
  "rh_RecentRounds (RoundHistory_Recent (ms_History (jsonState s)) l) =
     map jsonRound (rh_RecentRounds (RoundHistory_Recent (ms_History s) l))"
  by (simp add: Recent_tailOf map_tailOf o_def jsonRound_Clone)

section \<open>The memory store in the database\<close>

text \<open>The laws of \<open>encoding/json\<close>: a value survives when it is encoded and can be decoded, to the value
  seen through JSON.  Every value of valid UTF-8 strings does; one whose strings are not comes back with them
  replaced, so a law for all values (\<open>codecsOk\<close>) is only for programs whose strings are valid.\<close>

definition survives :: "('t, 'a) codec \<Rightarrow> ('a \<Rightarrow> 'a) \<Rightarrow> 'a \<Rightarrow> bool" where
  "survives cd view x \<longleftrightarrow> (\<exists>t. cd_Marshal cd x = Inr t \<and> cd_Unmarshal cd t = Inr (view x))"

definition faithful :: "('t, 'a) codec \<Rightarrow> ('a \<Rightarrow> 'a) \<Rightarrow> bool" where
  "faithful cd view \<longleftrightarrow> (\<forall>x. survives cd view x)"

definition codecsOk :: "'t storeCodecs \<Rightarrow> bool" where
  "codecsOk cx \<longleftrightarrow> faithful (jx_State cx) jsonState \<and> faithful (jx_Round cx) jsonRound
     \<and> faithful (jx_Event cx) jsonEvent \<and> faithful (jx_Commentary cx) id \<and> faithful (jx_AICall cx) id"

definition decoded :: "('t, 'a) codec \<Rightarrow> 't \<Rightarrow> 'a" where
  "decoded cd t = projr (cd_Unmarshal cd t)"

definition readable :: "('t, 'a) codec \<Rightarrow> 't \<Rightarrow> bool" where
  "readable cd t \<longleftrightarrow> (\<exists>x. cd_Unmarshal cd t = Inr x)"

lemma survives_encode:
  assumes "survives cd view x"
  obtains t where "encode cd x = Inr t" "decoded cd t = view x" "readable cd t"
proof -
  obtain t where "cd_Marshal cd x = Inr t" "cd_Unmarshal cd t = Inr (view x)"
    using assms unfolding survives_def by blast
  then show thesis by (intro that [of t]) (simp_all add: encode_def decoded_def readable_def)
qed

lemma decode_readable: "readable cd t \<Longrightarrow> decode cd t = Inr (decoded cd t)"
  by (auto simp: readable_def decode_def decoded_def)

lemma decodeAll_readable: "list_all (readable cd) ts \<Longrightarrow> decodeAll cd ts = Inr (map (decoded cd) ts)"
  by (induction ts) (simp_all add: decode_readable)

definition roundTexts :: "MatchID \<Rightarrow> 't roundRow list \<Rightarrow> 't list" where
  "roundTexts m rows = map (\<lambda>(_, _, t). t) (filter (\<lambda>(m', _). m' = m) rows)"

definition storedMatchOf :: "'t storeCodecs \<Rightarrow> 't Database \<Rightarrow> 't matchRow \<Rightarrow> storedMatch" where
  "storedMatchOf cx db row =
    (let m = tm_MatchID row
     in \<lparr>sm_state = decoded (jx_State cx) (tm_StateJSON row),
         sm_snapshots = map (decoded (jx_State cx)) (roundTexts m (db_snapshots db)),
         sm_rounds = map (decoded (jx_Round cx)) (roundTexts m (db_rounds db)),
         sm_events = map (decoded (jx_Event cx)) (textsOf m (db_events db)),
         sm_commentary = map (decoded (jx_Commentary cx)) (textsOf m (db_commentary db))\<rparr>)"

definition stored :: "'t storeCodecs \<Rightarrow> 't SqliteStore \<Rightarrow> Store" where
  "stored cx s = \<lparr>mem_historyLimit = sq_historyLimit s, mem_matches = (\<lambda>m.
     map_option (storedMatchOf cx (sq_db s)) (find_first (\<lambda>row. tm_MatchID row = m) (db_matches (sq_db s))))\<rparr>"

text \<open>A well-formed database: texts that decode, the columns of a round row those of its value,
  keys without duplicates, and rows only of known matches.\<close>

definition knownMatches :: "'t Database \<Rightarrow> MatchID set" where
  "knownMatches db = tm_MatchID ` set (db_matches db)"

definition databaseOk :: "'t storeCodecs \<Rightarrow> 't Database \<Rightarrow> bool" where
  "databaseOk cx db \<longleftrightarrow>
     list_all (\<lambda>row. readable (jx_State cx) (tm_StateJSON row)) (db_matches db)
     \<and> list_all (\<lambda>(m, k, t). m \<in> knownMatches db \<and> readable (jx_Round cx) t
          \<and> rr_Round (decoded (jx_Round cx) t) = k) (db_rounds db)
     \<and> list_all (\<lambda>(m, k, t). m \<in> knownMatches db \<and> readable (jx_State cx) t
          \<and> ms_CurrentRound (decoded (jx_State cx) t) = k) (db_snapshots db)
     \<and> list_all (\<lambda>(m, t). m \<in> knownMatches db \<and> readable (jx_Event cx) t) (db_events db)
     \<and> list_all (\<lambda>(m, t). m \<in> knownMatches db \<and> readable (jx_Commentary cx) t) (db_commentary db)
     \<and> list_all (\<lambda>(m, t). m \<in> knownMatches db \<and> readable (jx_AICall cx) t) (db_aiCalls db)
     \<and> distinct (map tm_MatchID (db_matches db))"

definition sqliteOk :: "'t storeCodecs \<Rightarrow> 't SqliteStore \<Rightarrow> bool" where
  "sqliteOk cx s \<longleftrightarrow> databaseOk cx (sq_db s) \<and> storeOk (stored cx s)"

text \<open>Errors of the memory store as the errors of this one.\<close>

definition asSqlite :: "storeError + 'a \<Rightarrow> sqliteError + 'a" where
  "asSqlite r = (case r of Inl err \<Rightarrow> Inl (SqlStore err) | Inr x \<Rightarrow> Inr x)"

subsection \<open>Reading agrees\<close>

lemma known_match:
  "m \<in> knownMatches db \<longleftrightarrow> find_first (\<lambda>row. tm_MatchID row = m) (db_matches db) \<noteq> None"
  by (auto simp: knownMatches_def find_first_None)

lemma found_row:
  assumes "find_first (\<lambda>row. tm_MatchID row = m) (db_matches db) = Some row" "databaseOk cx db"
  shows "tm_MatchID row = m" "readable (jx_State cx) (tm_StateJSON row)" "row \<in> set (db_matches db)"
  using find_first_Some [OF assms(1)] assms(2) by (auto simp: databaseOk_def list_all_iff)

lemma stored_cases:
  assumes "sqliteOk cx s"
  obtains (unknown) "m \<notin> knownMatches (sq_db s)" "mem_matches (stored cx s) m = None"
      "find_first (\<lambda>row. tm_MatchID row = m) (db_matches (sq_db s)) = None"
    | (known) row where "m \<in> knownMatches (sq_db s)"
      "find_first (\<lambda>row. tm_MatchID row = m) (db_matches (sq_db s)) = Some row"
      "tm_MatchID row = m" "readable (jx_State cx) (tm_StateJSON row)"
      "mem_matches (stored cx s) m = Some (storedMatchOf cx (sq_db s) row)"
proof (cases "find_first (\<lambda>row. tm_MatchID row = m) (db_matches (sq_db s))")
  case None
  then show thesis using unknown known_match [of m "sq_db s"] by (simp add: stored_def)
next
  case (Some row)
  moreover have "databaseOk cx (sq_db s)" using assms by (simp add: sqliteOk_def)
  ultimately show thesis
    using known [of row] found_row [OF Some] known_match [of m "sq_db s"] by (simp add: stored_def)
qed

lemma stored_clone:
  assumes "storeOk st" "mem_matches st m = Some x"
  shows "MatchState_Clone (sm_state x) = sm_state x" "\<forall>r \<in> set (sm_rounds x). RoundRecord_Clone r = r"
proof -
  have ok: "\<forall>r \<in> set (sm_rounds x). RoundRecord_Clone r = r"
    "rh_RecentRounds (ms_History (sm_state x)) = tailOf (sm_rounds x) (mem_historyLimit st)"
    using assms by (auto simp: storeOk_def matchOk_def)
  have "cloneSlice RoundRecord_Clone (tailOf (sm_rounds x) l) = tailOf (sm_rounds x) l" for l
    using ok(1) set_tailOf [of "sm_rounds x" l] by (intro cloneSlice_id) blast
  then show "MatchState_Clone (sm_state x) = sm_state x"
    by (cases "ms_History (sm_state x)") (use ok(2) in \<open>simp add: MatchState_Clone_eq RoundHistory_Clone_def\<close>)
  show "\<forall>r \<in> set (sm_rounds x). RoundRecord_Clone r = r" by (rule ok(1))
qed

lemma sqlite_current_agrees:
  assumes "sqliteOk cx s"
  shows "sqlite_CurrentState cx s m = asSqlite (CurrentState (stored cx s) m)"
  using assms
proof (cases rule: stored_cases [where m = m])
  case unknown
  then show ?thesis by (simp add: sqlite_CurrentState_def CurrentState_def asSqlite_def)
next
  case (known row)
  have "MatchState_Clone (sm_state (storedMatchOf cx (sq_db s) row)) = sm_state (storedMatchOf cx (sq_db s) row)"
    using assms stored_clone(1) [OF _ known(5)] by (simp add: sqliteOk_def)
  with known show ?thesis
    by (simp add: sqlite_CurrentState_def CurrentState_def asSqlite_def decode_readable storedMatchOf_def Let_def)
qed

text \<open>A log of values, one per row.\<close>

lemma readRows_agrees:
  assumes "sqliteOk cx s" "list_all (readable cd) texts" "m \<notin> knownMatches (sq_db s) \<longrightarrow> texts = []"
  shows "readRows cx cd s m texts =
    (if m \<in> knownMatches (sq_db s) then Inr (map (decoded cd) texts) else Inl (SqlStore MatchNotFound))"
  using assms(1)
proof (cases rule: stored_cases [where m = m])
  case unknown
  with assms show ?thesis
    by (simp add: readRows_def sqlite_CurrentState_def)
next
  case (known row)
  with assms(2) show ?thesis
    by (simp add: readRows_def decodeAll_readable sqlite_CurrentState_def decode_readable)
qed

lemma textsOf_readable:
  assumes "list_all (\<lambda>(m, t). m \<in> known \<and> readable cd t) rows"
  shows "list_all (readable cd) (textsOf m rows)" "m \<notin> known \<longrightarrow> textsOf m rows = []"
  using assms by (auto simp: textsOf_def list_all_iff filter_empty_conv)

lemma roundTexts_readable:
  assumes "list_all (\<lambda>(m, k, t). m \<in> known \<and> readable cd t \<and> f t = k) rows"
  shows "list_all (readable cd) (roundTexts m rows)" "m \<notin> known \<longrightarrow> roundTexts m rows = []"
  using assms by (auto simp: roundTexts_def list_all_iff filter_empty_conv)

lemma sqlite_logs_agree:
  assumes "sqliteOk cx s"
  shows "sqlite_EventTimeline cx s m = asSqlite (EventTimeline (stored cx s) m)"
    "sqlite_Commentary cx s m = asSqlite (Store_Commentary (stored cx s) m)"
proof -
  have ok: "list_all (\<lambda>(m, t). m \<in> knownMatches (sq_db s) \<and> readable (jx_Event cx) t) (db_events (sq_db s))"
    "list_all (\<lambda>(m, t). m \<in> knownMatches (sq_db s) \<and> readable (jx_Commentary cx) t) (db_commentary (sq_db s))"
    using assms by (simp_all add: sqliteOk_def databaseOk_def)
  have clone: "cloneEvents events = events" for events
    by (simp add: cloneEvents_def clone_simps map_idI)
  note read = readRows_agrees [OF assms textsOf_readable [OF ok(1)], of m]
    readRows_agrees [OF assms textsOf_readable [OF ok(2)], of m]
  show "sqlite_EventTimeline cx s m = asSqlite (EventTimeline (stored cx s) m)"
    unfolding sqlite_EventTimeline_def read
    using assms
    by (cases rule: stored_cases [where m = m])
      (simp_all add: EventTimeline_def asSqlite_def storedMatchOf_def Let_def clone)
  show "sqlite_Commentary cx s m = asSqlite (Store_Commentary (stored cx s) m)"
    unfolding sqlite_Commentary_def read
    using assms
    by (cases rule: stored_cases [where m = m])
      (simp_all add: Store_Commentary_def asSqlite_def storedMatchOf_def Let_def)
qed

lemma find_round_row:
  assumes "list_all (\<lambda>(m, k, t). m \<in> known \<and> readable cd t \<and> f (decoded cd t) = k) rows"
  shows "map_option (\<lambda>(_, _, t). decoded cd t) (find_first (\<lambda>(m', k, _). m' = m \<and> k = n) rows)
    = find_first (\<lambda>x. f x = n) (map (decoded cd) (roundTexts m rows))"
  using assms by (induction rows) (auto simp: roundTexts_def)

lemma sqlite_round_agrees:
  assumes "sqliteOk cx s"
  shows "sqlite_Round cx s m n = asSqlite (Store_Round (stored cx s) m n)"
proof -
  have ok: "list_all (\<lambda>(m, k, t). m \<in> knownMatches (sq_db s) \<and> readable (jx_Round cx) t
      \<and> rr_Round (decoded (jx_Round cx) t) = k) (db_rounds (sq_db s))"
    using assms by (simp add: sqliteOk_def databaseOk_def)
  note find = find_round_row [OF ok, of m n, symmetric]
  show ?thesis
    using assms
  proof (cases rule: stored_cases [where m = m])
    case unknown
    then have "find_first (\<lambda>(m', k, _). m' = m \<and> k = n) (db_rounds (sq_db s)) = None"
      using ok unfolding find_first_None by (auto simp: list_all_iff)
    with unknown show ?thesis
      by (simp add: sqlite_Round_def Store_Round_def asSqlite_def sqlite_CurrentState_def)
  next
    case (known row)
    let ?x = "storedMatchOf cx (sq_db s) row"
    have rounds: "find_first (\<lambda>round. rr_Round round = n) (sm_rounds ?x)
        = map_option (\<lambda>(_, _, t). decoded (jx_Round cx) t)
            (find_first (\<lambda>(m', k, _). m' = m \<and> k = n) (db_rounds (sq_db s)))"
      using find known(3) by (simp add: storedMatchOf_def Let_def)
    show ?thesis
    proof (cases "find_first (\<lambda>(m', k, _). m' = m \<and> k = n) (db_rounds (sq_db s))")
      case None
      with rounds known show ?thesis
        by (simp add: sqlite_Round_def Store_Round_def asSqlite_def sqlite_CurrentState_def decode_readable)
    next
      case (Some r)
      obtain m' k t where r: "r = (m', k, t)" by (cases r)
      have "readable (jx_Round cx) t"
        using find_first_Some [OF Some] ok by (auto simp: r list_all_iff)
      moreover have "RoundRecord_Clone (decoded (jx_Round cx) t) = decoded (jx_Round cx) t"
        using stored_clone(2) [OF _ known(5)] assms find_first_Some [of _ "sm_rounds ?x"] rounds Some r
        by (auto simp: sqliteOk_def)
      ultimately show ?thesis using rounds Some r known
        by (simp add: sqlite_Round_def Store_Round_def asSqlite_def decode_readable)
    qed
  qed
qed

subsection \<open>Committing agrees\<close>

lemma insertRounds_ok:
  assumes "distinct (map rr_Round rounds)" "\<forall>r \<in> set rounds. survives (jx_Round cx) jsonRound r"
    and "\<forall>r \<in> set rounds. (m, rr_Round r) \<notin> set (map (\<lambda>(m, k, _). (m, k)) rows)"
  shows "\<exists>new. insertRounds cx m rounds rows = Inr (rows @ new)
     \<and> list_all (\<lambda>(m', k, t). m' = m \<and> readable (jx_Round cx) t \<and> rr_Round (decoded (jx_Round cx) t) = k) new
     \<and> map (\<lambda>(_, _, t). decoded (jx_Round cx) t) new = map jsonRound rounds"
  using assms
proof (induction rounds arbitrary: rows)
  case (Cons r rounds)
  have "survives (jx_Round cx) jsonRound r" using Cons.prems(2) by simp
  then obtain t where t: "encode (jx_Round cx) r = Inr t" "decoded (jx_Round cx) t = jsonRound r" "readable (jx_Round cx) t"
    by (rule survives_encode)
  have "\<forall>r' \<in> set rounds. (m, rr_Round r') \<notin> set (map (\<lambda>(m, k, _). (m, k)) (rows @ [(m, rr_Round r, t)]))"
    using Cons.prems by (auto simp: image_iff)
  then obtain new where new: "insertRounds cx m rounds (rows @ [(m, rr_Round r, t)]) = Inr (rows @ [(m, rr_Round r, t)] @ new)"
     "list_all (\<lambda>(m', k, t). m' = m \<and> readable (jx_Round cx) t \<and> rr_Round (decoded (jx_Round cx) t) = k) new"
     "map (\<lambda>(_, _, t). decoded (jx_Round cx) t) new = map jsonRound rounds"
    using Cons.IH [of "rows @ [(m, rr_Round r, t)]"] Cons.prems(1,2) by auto
  moreover have "insertRoundRow ''rounds'' m (rr_Round r) t rows = Inr (rows @ [(m, rr_Round r, t)])"
    using Cons.prems(3) by (simp add: insertRoundRow_def)
  ultimately show ?case
    using t by (intro exI [of _ "(m, rr_Round r, t) # new"]) simp
qed simp

lemma insertRows_ok:
  assumes "\<forall>x \<in> set xs. survives cd view x"
  shows "\<exists>new. insertRows cd m xs rows = Inr (rows @ new)
     \<and> list_all (\<lambda>(m', t). m' = m \<and> readable cd t) new \<and> map (\<lambda>(_, t). decoded cd t) new = map view xs"
  using assms
proof (induction xs arbitrary: rows)
  case (Cons x xs)
  have "survives cd view x" using Cons.prems by simp
  then obtain t where t: "encode cd x = Inr t" "decoded cd t = view x" "readable cd t"
    by (rule survives_encode)
  from Cons.IH [of "rows @ [(m, t)]"] Cons.prems obtain new where "insertRows cd m xs (rows @ [(m, t)]) = Inr (rows @ [(m, t)] @ new)"
    "list_all (\<lambda>(m', t). m' = m \<and> readable cd t) new" "map (\<lambda>(_, t). decoded cd t) new = map view xs" by auto
  with t show ?case by (intro exI [of _ "(m, t) # new"]) simp
qed simp

lemma textsOf_append:
  "list_all (\<lambda>(m', t). m' = m \<and> P t) new \<Longrightarrow>
     textsOf m' (rows @ new) = textsOf m' rows @ (if m' = m then map snd new else [])"
  by (induction new) (auto simp: textsOf_def)

lemma roundTexts_append:
  "list_all (\<lambda>(m', k, t). m' = m \<and> P k t) new \<Longrightarrow>
     roundTexts m' (rows @ new) = roundTexts m' rows @ (if m' = m then map (\<lambda>(_, _, t). t) new else [])"
  by (induction new) (auto simp: roundTexts_def)

text \<open>The rows of a round's events and commentary.\<close>

definition logsSurvive :: "'t storeCodecs \<Rightarrow> RoundEvent list \<Rightarrow> CommentaryRecord list \<Rightarrow> bool" where
  "logsSurvive cx events commentary \<longleftrightarrow>
     (\<forall>event \<in> set events. survives (jx_Event cx) jsonEvent event)
     \<and> (\<forall>remark \<in> set commentary. survives (jx_Commentary cx) id remark)"

lemma insertLogs_ok:
  assumes "logsSurvive cx events commentary"
  obtains events' commentary' where
    "insertLogs cx m events commentary db = Inr (db\<lparr>db_events := db_events db @ events', db_commentary := db_commentary db @ commentary'\<rparr>)"
    "list_all (\<lambda>(m', t). m' = m \<and> readable (jx_Event cx) t) events'"
    "map (\<lambda>(_, t). decoded (jx_Event cx) t) events' = map jsonEvent events"
    "list_all (\<lambda>(m', t). m' = m \<and> readable (jx_Commentary cx) t) commentary'"
    "map (\<lambda>(_, t). decoded (jx_Commentary cx) t) commentary' = commentary"
proof -
  have "\<forall>event \<in> set events. survives (jx_Event cx) jsonEvent event"
    "\<forall>remark \<in> set commentary. survives (jx_Commentary cx) id remark"
    using assms by (simp_all add: logsSurvive_def)
  from insertRows_ok [OF this(1), of m "db_events db"] insertRows_ok [OF this(2), of m "db_commentary db"]
  show thesis using that by (auto simp: insertLogs_def insertEvents_def insertCommentary_def)
qed

lemma upsertSnapshot_texts:
  assumes "list_all (\<lambda>(m, k, t). m \<in> known \<and> readable cd t \<and> ms_CurrentRound (decoded cd t) = k) rows"
    and "ms_CurrentRound (decoded cd t) = k"
  shows "map (decoded cd) (roundTexts m' (upsertSnapshot m k t rows)) =
    (if m' = m then replaceSnapshot (map (decoded cd) (roundTexts m rows)) (decoded cd t)
     else map (decoded cd) (roundTexts m' rows))"
  using assms by (induction rows) (auto simp: upsertSnapshot_def roundTexts_def)

lemma upsertSnapshot_all:
  "list_all P rows \<Longrightarrow> P (m, k, t) \<Longrightarrow> list_all P (upsertSnapshot m k t rows)"
  unfolding upsertSnapshot_def by (induction rows) auto

lemma updateMatchRow_find:
  "find_first (\<lambda>row. tm_MatchID row = m') (updateMatchRow m t now rows) =
     map_option (\<lambda>row. if m' = m then row\<lparr>tm_StateJSON := t, tm_UpdatedAt := now\<rparr> else row)
       (find_first (\<lambda>row. tm_MatchID row = m') rows)"
  by (induction rows) (auto simp: updateMatchRow_def)

lemma updateMatchRow_ids [simp]: "map tm_MatchID (updateMatchRow m t now rows) = map tm_MatchID rows"
  by (simp add: updateMatchRow_def o_def if_distrib)

lemma foldl_max_sorted: "sorted_wrt (<) (k # ks) \<Longrightarrow> foldl max k ks = last (k # ks)" for k :: int
  by (induction ks arbitrary: k) (auto simp: max_def)

lemma latestRoundNumber_last:
  assumes "list_all (\<lambda>(m, k, t). m \<in> known \<and> readable cd t \<and> rr_Round (decoded cd t) = k) rows"
    and "sorted_wrt (<) (map rr_Round (map (decoded cd) (roundTexts m rows)))"
  shows "latestRoundNumber m rows =
    (if roundTexts m rows = [] then None else Some (rr_Round (last (map (decoded cd) (roundTexts m rows)))))"
proof (cases "filter (\<lambda>(m', _). m' = m) rows")
  case Nil
  then show ?thesis by (simp add: latestRoundNumber_def roundTexts_def)
next
  case (Cons x xs)
  obtain m' k t where x: "x = (m', k, t)" by (cases x)
  have "\<forall>(m', k, t) \<in> set (x # xs). rr_Round (decoded cd t) = k"
    using assms(1) unfolding Cons [symmetric] by (auto simp: list_all_iff)
  then have rounds: "map rr_Round (map (decoded cd) (roundTexts m rows)) = k # map (\<lambda>(_, k, _). k) xs"
    unfolding roundTexts_def Cons by (auto simp: x)
  have nonempty: "roundTexts m rows \<noteq> []" by (simp add: roundTexts_def Cons)
  have "foldl max k (map (\<lambda>(_, k, _). k) xs) = last (k # map (\<lambda>(_, k, _). k) xs)"
    using assms(2) unfolding rounds by (rule foldl_max_sorted)
  also have "\<dots> = rr_Round (last (map (decoded cd) (roundTexts m rows)))"
    using nonempty by (simp add: last_map flip: rounds)
  finally show ?thesis using nonempty by (simp add: latestRoundNumber_def Cons x)
qed

text \<open>The state a commit stores and returns.\<close>

definition committedState :: "int \<Rightarrow> MatchState \<Rightarrow> MatchState" where
  "committedState l next = (MatchState_Clone next)\<lparr>ms_History := RoundHistory_Recent (ms_History (MatchState_Clone next)) l\<rparr>"

lemma committedState_json:
  assumes "map jsonRound (rh_RecentRounds (RoundHistory_Recent (ms_History next) l)) = tailOf rounds l"
  shows "jsonState (committedState l next) =
    (jsonState next)\<lparr>ms_History := \<lparr>rh_RecentRounds = map RoundRecord_Clone (tailOf rounds l)\<rparr>\<rparr>"
proof -
  let ?recent = "map RoundRecord_Clone (tailOf (rh_RecentRounds (ms_History next)) l)"
  have "jsonState (committedState l next) = next\<lparr>ms_History := \<lparr>rh_RecentRounds = map jsonRound ?recent\<rparr>\<rparr>"
    unfolding committedState_def created_state by (simp add: jsonState_def)
  moreover have "map RoundRecord_Clone (tailOf rounds l) = map jsonRound ?recent"
    unfolding assms [symmetric] Recent_tailOf by (simp add: jsonRound_Clone)
  ultimately show ?thesis by (simp add: jsonState_def)
qed

text \<open>A state whose recent history is that of the match's log with the committed round.\<close>

definition historyKept :: "'t storeCodecs \<Rightarrow> 't SqliteStore \<Rightarrow> MatchID \<Rightarrow> MatchState \<Rightarrow> RoundRecord \<Rightarrow> bool" where
  "historyKept cx s m next r \<longleftrightarrow> (\<forall>x. mem_matches (stored cx s) m = Some x \<longrightarrow>
     map jsonRound (rh_RecentRounds (RoundHistory_Recent (ms_History next) (sq_historyLimit s)))
       = tailOf (sm_rounds x @ [jsonRound (RoundRecord_Clone r)]) (sq_historyLimit s))"

text \<open>The database after a commit to a known match.\<close>

lemma committed_database:
  fixes db :: "'t Database"
  assumes "databaseOk cx db" "find_first (\<lambda>row. tm_MatchID row = m) (db_matches db) = Some row" "tm_MatchID row = m"
    and "rr_Round r = k" "decoded (jx_State cx) t = jsonState (committedState l next)" "readable (jx_State cx) t"
    and "decoded (jx_Round cx) rt = jsonRound (RoundRecord_Clone r)" "readable (jx_Round cx) rt"
    and events: "list_all (\<lambda>(m', t). m' = m \<and> readable (jx_Event cx) t) es"
      "map (\<lambda>(_, t). decoded (jx_Event cx) t) es = map jsonEvent (rr_Events r)"
    and remarks: "list_all (\<lambda>(m', t). m' = m \<and> readable (jx_Commentary cx) t) cs"
      "map (\<lambda>(_, t). decoded (jx_Commentary cx) t) cs = rr_Commentary r"
    and history: "map jsonRound (rh_RecentRounds (RoundHistory_Recent (ms_History next) l))
       = tailOf (sm_rounds (storedMatchOf cx db row) @ [jsonRound (RoundRecord_Clone r)]) l"
    and db': "db' = db\<lparr>db_matches := updateMatchRow m t now (db_matches db), db_rounds := db_rounds db @ [(m, k, rt)],
       db_snapshots := upsertSnapshot m (ms_CurrentRound next) t (db_snapshots db),
       db_events := db_events db @ es, db_commentary := db_commentary db @ cs\<rparr>"
  shows "databaseOk cx db'"
    "stored cx \<lparr>sq_db = db', sq_historyLimit = l\<rparr> = (stored cx \<lparr>sq_db = db, sq_historyLimit = l\<rparr>)
       \<lparr>mem_matches := (mem_matches (stored cx \<lparr>sq_db = db, sq_historyLimit = l\<rparr>))
          (m \<mapsto> commitTo l (jsonState next) (jsonRound r) (storedMatchOf cx db row))\<rparr>"
proof -
  have known: "knownMatches db' = knownMatches db"
    unfolding knownMatches_def by (simp add: db' flip: set_map)
  have m: "m \<in> knownMatches db" using assms(2) by (simp add: known_match)
  have round: "ms_CurrentRound (decoded (jx_State cx) t) = ms_CurrentRound next"
    by (simp add: assms(5) committedState_def)
  note ok = assms(1) [unfolded databaseOk_def]
  have snapshotRows: "list_all (\<lambda>(m, k, t). m \<in> knownMatches db \<and> readable (jx_State cx) t
      \<and> ms_CurrentRound (decoded (jx_State cx) t) = k) (db_snapshots db)" using ok by blast
  show "databaseOk cx db'"
    unfolding databaseOk_def known
  proof (intro conjI)
    show "list_all (\<lambda>row. readable (jx_State cx) (tm_StateJSON row)) (db_matches db')"
      using ok assms(6) by (auto simp: db' updateMatchRow_def list_all_iff)
    show "list_all (\<lambda>(m, k, t). m \<in> knownMatches db \<and> readable (jx_State cx) t
        \<and> ms_CurrentRound (decoded (jx_State cx) t) = k) (db_snapshots db')"
      using ok assms(6) m round by (simp add: db' upsertSnapshot_all)
    show "list_all (\<lambda>(m, k, t). m \<in> knownMatches db \<and> readable (jx_Round cx) t
        \<and> rr_Round (decoded (jx_Round cx) t) = k) (db_rounds db')"
      using ok assms(4,7,8) m by (simp add: db')
    show "list_all (\<lambda>(m, t). m \<in> knownMatches db \<and> readable (jx_Event cx) t) (db_events db')"
      using ok events(1) m by (auto simp: db' list_all_iff)
    show "list_all (\<lambda>(m, t). m \<in> knownMatches db \<and> readable (jx_Commentary cx) t) (db_commentary db')"
      using ok remarks(1) m by (auto simp: db' list_all_iff)
  qed (use ok in \<open>simp_all add: db'\<close>)
  have texts: "textsOf m' (db_events db') = textsOf m' (db_events db) @ (if m' = m then map snd es else [])"
    "textsOf m' (db_commentary db') = textsOf m' (db_commentary db) @ (if m' = m then map snd cs else [])"
    "roundTexts m' (db_rounds db') = roundTexts m' (db_rounds db) @ (if m' = m then [rt] else [])" for m'
    using textsOf_append [OF events(1)] textsOf_append [OF remarks(1)]
    by (simp_all add: db' roundTexts_def)
  have snaps: "map (decoded (jx_State cx)) (roundTexts m' (db_snapshots db')) =
      (if m' = m then replaceSnapshot (map (decoded (jx_State cx)) (roundTexts m (db_snapshots db))) (decoded (jx_State cx) t)
       else map (decoded (jx_State cx)) (roundTexts m' (db_snapshots db)))" for m'
    using upsertSnapshot_texts [OF snapshotRows round, of m' m] by (simp add: db')
  let ?old = "storedMatchOf cx db row"
  have "jsonState (committedState l next) = sm_state (commitTo l (jsonState next) (jsonRound r) ?old)"
    unfolding committedState_json [OF history] by (simp add: commitTo_fields jsonRound_Clone)
  then have new: "storedMatchOf cx db' (row\<lparr>tm_StateJSON := t, tm_UpdatedAt := now\<rparr>) =
      commitTo l (jsonState next) (jsonRound r) ?old"
    using events(2) remarks(2)
    by (intro storedMatch.equality)
      (simp_all add: commitTo_fields storedMatchOf_def Let_def assms(3,5,7) texts snaps jsonRound_Clone o_def case_prod_unfold)
  have other: "storedMatchOf cx db' row' = storedMatchOf cx db row'" if "tm_MatchID row' \<noteq> m" for row'
    using that by (simp add: storedMatchOf_def Let_def texts snaps)
  have "map_option (storedMatchOf cx db') (find_first (\<lambda>row. tm_MatchID row = m') (db_matches db'))
     = (if m' = m then Some (commitTo l (jsonState next) (jsonRound r) ?old)
        else map_option (storedMatchOf cx db) (find_first (\<lambda>row. tm_MatchID row = m') (db_matches db)))" for m'
  proof (cases "m' = m")
    case True
    then show ?thesis using new assms(2) by (simp add: db' updateMatchRow_find)
  next
    case False
    then show ?thesis
      using other find_first_Some by (fastforce simp: db' updateMatchRow_find map_option_case split: option.split)
  qed
  then show "stored cx \<lparr>sq_db = db', sq_historyLimit = l\<rparr> = (stored cx \<lparr>sq_db = db, sq_historyLimit = l\<rparr>)
       \<lparr>mem_matches := (mem_matches (stored cx \<lparr>sq_db = db, sq_historyLimit = l\<rparr>))
          (m \<mapsto> commitTo l (jsonState next) (jsonRound r) ?old)\<rparr>"
    by (simp add: stored_def fun_eq_iff)
qed

lemma round_key_free:
  assumes "list_all (\<lambda>(m, k, t). m \<in> known \<and> readable cd t \<and> rr_Round (decoded cd t) = k) rows"
    and "\<forall>r \<in> set (map (decoded cd) (roundTexts m rows)). rr_Round r \<noteq> n"
  shows "(m, n) \<notin> set (map (\<lambda>(m, k, _). (m, k)) rows)"
  using assms by (induction rows) (auto simp: roundTexts_def split: if_splits)

text \<open>What a commit encodes: the state with its recent history, the round, its events and its remarks.\<close>

definition commitSurvives :: "'t storeCodecs \<Rightarrow> int \<Rightarrow> MatchState \<Rightarrow> RoundRecord \<Rightarrow> bool" where
  "commitSurvives cx limit next round \<longleftrightarrow>
     survives (jx_State cx) jsonState (committedState limit next)
     \<and> survives (jx_Round cx) jsonRound (RoundRecord_Clone round)
     \<and> logsSurvive cx (rr_Events round) (rr_Commentary round)"

lemma codecsOk_survive:
  assumes "codecsOk cx"
  shows "commitSurvives cx limit next round" "logsSurvive cx events commentary"
    "survives (jx_State cx) jsonState state" "survives (jx_Round cx) jsonRound r"
  using assms by (simp_all add: codecsOk_def faithful_def commitSurvives_def logsSurvive_def)

lemma sqlite_commit_agrees_surviving:
  assumes "commitSurvives cx (sq_historyLimit s) next r" "sqliteOk cx s" "historyKept cx s m next r"
  shows "case sqlite_CommitRound cx now m next r s of
      Inl err \<Rightarrow> \<exists>e. err = SqlStore e \<and> CommitRound m (jsonState next) (jsonRound r) (stored cx s) = Inl e
    | Inr (state, s') \<Rightarrow> CommitRound m (jsonState next) (jsonRound r) (stored cx s) = Inr (jsonState state, stored cx s')
        \<and> sqliteOk cx s'"
proof (cases "m = [] \<or> ms_MatchID next \<noteq> m \<or> rr_Round r \<le> 0")
  case True
  then show ?thesis by (auto simp: sqlite_CommitRound_def CommitRound_def)
next
  case guards: False
  let ?db = "sq_db s" and ?l = "sq_historyLimit s"
  have dbOk: "databaseOk cx ?db" using assms(2) by (simp add: sqliteOk_def)
  have rows: "list_all (\<lambda>(m, k, t). m \<in> knownMatches ?db \<and> readable (jx_Round cx) t
      \<and> rr_Round (decoded (jx_Round cx) t) = k) (db_rounds ?db)"
    using dbOk by (simp add: databaseOk_def)
  have survive: "survives (jx_State cx) jsonState (committedState ?l next)"
    "survives (jx_Round cx) jsonRound (RoundRecord_Clone r)" "logsSurvive cx (rr_Events r) (rr_Commentary r)"
    using assms(1) unfolding commitSurvives_def by auto
  obtain t where t: "encode (jx_State cx) (committedState ?l next) = Inr t"
    "decoded (jx_State cx) t = jsonState (committedState ?l next)" "readable (jx_State cx) t"
    using survives_encode [OF survive(1)] .
  obtain rt where rt: "encode (jx_Round cx) (RoundRecord_Clone r) = Inr rt"
    "decoded (jx_Round cx) rt = jsonRound (RoundRecord_Clone r)" "readable (jx_Round cx) rt"
    using survives_encode [OF survive(2)] .
  have stateJSON: "marshalStateWithRecentHistory cx (MatchState_Clone next) ?l = Inr t"
  proof -
    have "MatchState_Clone (MatchState_Clone next) = MatchState_Clone next"
      by (simp add: MatchState_Clone_eq RoundHistory_Clone_idem)
    then show ?thesis using t(1) by (simp add: marshalStateWithRecentHistory_def committedState_def Let_def)
  qed
  show ?thesis
    using assms(2)
  proof (cases rule: stored_cases [where m = m])
    case unknown
    then have "filter (\<lambda>(m', _). m' = m) (db_rounds ?db) = []"
      using rows by (auto simp: list_all_iff filter_empty_conv)
    then have "latestRoundNumber m (db_rounds ?db) = None" by (simp add: latestRoundNumber_def)
    moreover have "m \<notin> set (map tm_MatchID (db_matches ?db))" using unknown(1) by (simp add: knownMatches_def)
    ultimately show ?thesis
      using guards unknown(2) by (simp add: sqlite_CommitRound_def CommitRound_def Let_def stateJSON rt(1))
  next
    case (known row)
    let ?x = "storedMatchOf cx ?db row"
    have x: "sm_rounds ?x = map (decoded (jx_Round cx)) (roundTexts m (db_rounds ?db))"
      using known(3) by (simp add: storedMatchOf_def Let_def)
    have sorted: "sorted_wrt (<) (map rr_Round (sm_rounds ?x))"
      using assms(2) known(5) by (auto simp: sqliteOk_def storeOk_def matchOk_def)
    have last: "latestRoundNumber m (db_rounds ?db) =
        (if sm_rounds ?x = [] then None else Some (rr_Round (last (sm_rounds ?x))))"
      using latestRoundNumber_last [OF rows] sorted by (simp add: x)
    show ?thesis
    proof (cases "sm_rounds ?x \<noteq> [] \<and> rr_Round r \<le> rr_Round (last (sm_rounds ?x))")
      case True
      then show ?thesis using guards known(5)
        by (simp add: sqlite_CommitRound_def CommitRound_def Let_def last)
    next
      case False
      have "rr_Round r' < rr_Round r" if "r' \<in> set (sm_rounds ?x)" for r'
        using that False sorted by (cases "sm_rounds ?x" rule: rev_cases) (auto simp: sorted_wrt_append)
      then have "\<forall>r' \<in> set (map (decoded (jx_Round cx)) (roundTexts m (db_rounds ?db))). rr_Round r' \<noteq> rr_Round r"
        unfolding x by fastforce
      from round_key_free [OF rows this]
      have free: "(m, rr_Round r) \<notin> set (map (\<lambda>(m, k, _). (m, k)) (db_rounds ?db))" .
      define db1 where "db1 = ?db\<lparr>db_matches := updateMatchRow m t now (db_matches ?db),
         db_rounds := db_rounds ?db @ [(m, rr_Round r, rt)],
         db_snapshots := upsertSnapshot m (ms_CurrentRound next) t (db_snapshots ?db)\<rparr>"
      obtain es cs where logs: "insertLogs cx m (rr_Events r) (rr_Commentary r) db1 =
          Inr (db1\<lparr>db_events := db_events db1 @ es, db_commentary := db_commentary db1 @ cs\<rparr>)"
        "list_all (\<lambda>(m', t). m' = m \<and> readable (jx_Event cx) t) es"
        "map (\<lambda>(_, t). decoded (jx_Event cx) t) es = map jsonEvent (rr_Events r)"
        "list_all (\<lambda>(m', t). m' = m \<and> readable (jx_Commentary cx) t) cs"
        "map (\<lambda>(_, t). decoded (jx_Commentary cx) t) cs = rr_Commentary r"
        using insertLogs_ok [OF survive(3)] .
      define db2 where "db2 = db1\<lparr>db_events := db_events db1 @ es, db_commentary := db_commentary db1 @ cs\<rparr>"
      have m: "m \<in> set (map tm_MatchID (db_matches ?db))" using known(1) by (simp add: knownMatches_def)
      have logged: "insertLogs cx m (rr_Events r) (rr_Commentary r)
          (?db\<lparr>db_matches := updateMatchRow m t now (db_matches ?db), db_rounds := db_rounds ?db @ [(m, rr_Round r, rt)],
            db_snapshots := upsertSnapshot m (ms_CurrentRound next) t (db_snapshots ?db)\<rparr>) = Inr db2"
        unfolding db2_def using logs(1) by (simp only: db1_def)
      have row: "insertRoundRow ''rounds'' m (rr_Round r) rt (db_rounds ?db) = Inr (db_rounds ?db @ [(m, rr_Round r, rt)])"
        using free by (simp add: insertRoundRow_def)
      have later: "\<not> (latestRoundNumber m (db_rounds ?db) \<noteq> None
          \<and> rr_Round r \<le> the (latestRoundNumber m (db_rounds ?db)))"
        using False by (auto simp: last)
      have commit: "sqlite_CommitRound cx now m next r s = Inr (committedState ?l next, s\<lparr>sq_db := db2\<rparr>)"
        unfolding sqlite_CommitRound_def Let_def
        by (simp only: later stateJSON rt(1) row sum.case if_False if_True not_not m logged guards [simplified]
            RoundRecord_Clone_fields MatchState_Clone_fields committedState_def simp_thms)
      have history: "map jsonRound (rh_RecentRounds (RoundHistory_Recent (ms_History next) ?l))
          = tailOf (sm_rounds ?x @ [jsonRound (RoundRecord_Clone r)]) ?l"
        using assms(3) known(5) by (simp add: historyKept_def)
      have db2: "db2 = ?db\<lparr>db_matches := updateMatchRow m t now (db_matches ?db),
         db_rounds := db_rounds ?db @ [(m, rr_Round r, rt)],
         db_snapshots := upsertSnapshot m (ms_CurrentRound next) t (db_snapshots ?db),
         db_events := db_events ?db @ es, db_commentary := db_commentary ?db @ cs\<rparr>"
        by (simp add: db2_def db1_def)
      have s: "\<lparr>sq_db = ?db, sq_historyLimit = ?l\<rparr> = s" "\<lparr>sq_db = db2, sq_historyLimit = ?l\<rparr> = s\<lparr>sq_db := db2\<rparr>"
        by (cases s; simp)+
      note new = committed_database [OF dbOk known(2,3) refl t(2,3) rt(2,3) logs(2-5) history db2, unfolded s]
      let ?y = "commitTo ?l (jsonState next) (jsonRound r) ?x"
      have "sm_state ?y = jsonState (committedState ?l next)"
        unfolding committedState_json [OF history] by (simp add: commitTo_fields jsonRound_Clone)
      then have "CommitRound m (jsonState next) (jsonRound r) (stored cx s) =
          Inr (jsonState (committedState ?l next), stored cx (s\<lparr>sq_db := db2\<rparr>))"
        unfolding CommitRound_Inr using guards False known(5) new(2) by (auto simp: stored_def)
      moreover from this have "storeOk (stored cx (s\<lparr>sq_db := db2\<rparr>))"
        using assms(2) storeOk_commit by (auto simp: sqliteOk_def)
      ultimately show ?thesis using new(1) by (simp add: commit sqliteOk_def)
    qed
  qed
qed

lemma sqlite_commit_agrees:
  assumes "codecsOk cx" "sqliteOk cx s" "historyKept cx s m next r"
  shows "case sqlite_CommitRound cx now m next r s of
      Inl err \<Rightarrow> \<exists>e. err = SqlStore e \<and> CommitRound m (jsonState next) (jsonRound r) (stored cx s) = Inl e
    | Inr (state, s') \<Rightarrow> CommitRound m (jsonState next) (jsonRound r) (stored cx s) = Inr (jsonState state, stored cx s')
        \<and> sqliteOk cx s'"
  using codecsOk_survive(1) [OF assms(1)] assms(2,3) by (rule sqlite_commit_agrees_surviving)

subsection \<open>Creating agrees\<close>

lemma Clone_rounds_idem: "map RoundRecord_Clone (map RoundRecord_Clone rounds) = map RoundRecord_Clone rounds"
  by simp

text \<open>What creating a match encodes: the state with its recent history, its rounds, their events and remarks.\<close>

definition createSurvives :: "'t storeCodecs \<Rightarrow> int \<Rightarrow> MatchState \<Rightarrow> bool" where
  "createSurvives cx limit initial \<longleftrightarrow>
     (let state = committedState limit initial; rounds = rh_RecentRounds (ms_History state)
      in survives (jx_State cx) jsonState state
         \<and> (\<forall>round \<in> set rounds. survives (jx_Round cx) jsonRound round)
         \<and> logsSurvive cx (flattenEvents rounds) (flattenCommentary rounds))"

text \<open>The error of an insert for an error of the memory store: a known match violates the primary key.\<close>

definition createError :: "storeError \<Rightarrow> sqliteError" where
  "createError err = (case err of MatchExists _ \<Rightarrow> SqlConstraint ''matches'' | _ \<Rightarrow> SqlStore err)"

lemma sqlite_create_agrees_surviving:
  assumes "createSurvives cx (sq_historyLimit s) initial" "sqliteOk cx s" "sorted_wrt (<) (map rr_Round (rh_RecentRounds (ms_History initial)))"
  shows "case sqlite_CreateMatch cx now initial s of
      Inl err \<Rightarrow> \<exists>e. err = createError e \<and> CreateMatch (jsonState initial) (stored cx s) = Inl e
    | Inr s' \<Rightarrow> CreateMatch (jsonState initial) (stored cx s) = Inr (stored cx s') \<and> sqliteOk cx s'"
proof (cases "ms_MatchID initial = []")
  case True
  then show ?thesis by (simp add: sqlite_CreateMatch_def CreateMatch_def createError_def)
next
  case named: False
  let ?db = "sq_db s" and ?l = "sq_historyLimit s"
  define m where "m = ms_MatchID initial"
  define rounds where "rounds = map RoundRecord_Clone (tailOf (rh_RecentRounds (ms_History initial)) ?l)"
  define state where "state = initial\<lparr>ms_History := \<lparr>rh_RecentRounds = rounds\<rparr>\<rparr>"
  have created: "(MatchState_Clone initial)\<lparr>ms_History := RoundHistory_Recent (ms_History (MatchState_Clone initial)) ?l\<rparr> = state"
    unfolding created_state state_def rounds_def ..
  have recent: "rh_RecentRounds (RoundHistory_Recent (ms_History (MatchState_Clone initial)) ?l) = rounds"
    using arg_cong [OF created, of "\<lambda>s. rh_RecentRounds (ms_History s)"] by (simp add: state_def)
  have dbOk: "databaseOk cx ?db" using assms(2) by (simp add: sqliteOk_def)
  note ok = dbOk [unfolded databaseOk_def]
  have state_rounds: "rh_RecentRounds (ms_History state) = rounds" by (simp add: state_def)
  have survive: "survives (jx_State cx) jsonState state" "\<forall>r \<in> set rounds. survives (jx_Round cx) jsonRound r"
    "logsSurvive cx (flattenEvents rounds) (flattenCommentary rounds)"
    using assms(1) unfolding createSurvives_def Let_def committedState_def created by (simp_all add: state_rounds)
  obtain t where t: "encode (jx_State cx) state = Inr t" "decoded (jx_State cx) t = jsonState state" "readable (jx_State cx) t"
    using survives_encode [OF survive(1)] .
  show ?thesis
    using assms(2)
  proof (cases rule: stored_cases [where m = m])
    case (known row)
    then have "m \<in> set (map tm_MatchID (db_matches ?db))" by (simp add: knownMatches_def)
    then have "sqlite_CreateMatch cx now initial s = Inl (SqlConstraint ''matches'')"
      using named by (simp only: sqlite_CreateMatch_def Let_def created t(1) if_True if_False sum.case m_def)
    then show ?thesis using named known(5) by (simp add: CreateMatch_def m_def createError_def)
  next
    case unknown
    have new: "m \<notin> set (map tm_MatchID (db_matches ?db))" using unknown(1) by (simp add: knownMatches_def)
    have free: "(m, k) \<notin> set (map (\<lambda>(m, k, _). (m, k)) (db_snapshots ?db))"
      "(m, k) \<notin> set (map (\<lambda>(m, k, _). (m, k)) (db_rounds ?db))" for k
      using ok unknown(1) by (auto simp: list_all_iff)
    have snapshot: "insertRoundRow ''state_snapshots'' m (ms_CurrentRound state) t (db_snapshots ?db)
        = Inr (db_snapshots ?db @ [(m, ms_CurrentRound state, t)])"
      using free(1) by (simp add: insertRoundRow_def)
    have "sorted_wrt (<) (map rr_Round rounds)"
      using sorted_tailOf [OF assms(3), of ?l] by (simp add: rounds_def map_tailOf o_def)
    then have "distinct (map rr_Round rounds)" by (simp add: strict_sorted_iff)
    from insertRounds_ok [OF this survive(2), of m "db_rounds ?db"] free(2)
    obtain rows where rows: "insertRounds cx m rounds (db_rounds ?db) = Inr (db_rounds ?db @ rows)"
      "list_all (\<lambda>(m', k, t). m' = m \<and> readable (jx_Round cx) t \<and> rr_Round (decoded (jx_Round cx) t) = k) rows"
      "map (\<lambda>(_, _, t). decoded (jx_Round cx) t) rows = map jsonRound rounds" by blast
    define row where "row = \<lparr>tm_MatchID = m, tm_ScenarioID = ms_ScenarioID initial, tm_StateJSON = t,
       tm_CreatedAt = now, tm_UpdatedAt = now\<rparr>"
    define db1 where "db1 = ?db\<lparr>db_matches := db_matches ?db @ [row],
       db_snapshots := db_snapshots ?db @ [(m, ms_CurrentRound state, t)], db_rounds := db_rounds ?db @ rows\<rparr>"
    obtain es cs where logs: "insertLogs cx m (flattenEvents rounds) (flattenCommentary rounds) db1 =
        Inr (db1\<lparr>db_events := db_events db1 @ es, db_commentary := db_commentary db1 @ cs\<rparr>)"
      "list_all (\<lambda>(m', t). m' = m \<and> readable (jx_Event cx) t) es"
      "map (\<lambda>(_, t). decoded (jx_Event cx) t) es = map jsonEvent (flattenEvents rounds)"
      "list_all (\<lambda>(m', t). m' = m \<and> readable (jx_Commentary cx) t) cs"
      "map (\<lambda>(_, t). decoded (jx_Commentary cx) t) cs = flattenCommentary rounds"
      using insertLogs_ok [OF survive(3)] .
    define db2 where "db2 = db1\<lparr>db_events := db_events db1 @ es, db_commentary := db_commentary db1 @ cs\<rparr>"
    have logged: "insertLogs cx m (flattenEvents rounds) (flattenCommentary rounds)
        (?db\<lparr>db_matches := db_matches ?db @ [\<lparr>tm_MatchID = m, tm_ScenarioID = ms_ScenarioID initial, tm_StateJSON = t,
           tm_CreatedAt = now, tm_UpdatedAt = now\<rparr>],
         db_snapshots := db_snapshots ?db @ [(m, ms_CurrentRound state, t)], db_rounds := db_rounds ?db @ rows\<rparr>) = Inr db2"
      unfolding db2_def using logs(1) by (simp only: db1_def row_def)
    have create: "sqlite_CreateMatch cx now initial s = Inr (s\<lparr>sq_db := db2\<rparr>)"
      unfolding sqlite_CreateMatch_def Let_def m_def [symmetric] created recent
      by (simp only: t(1) sum.case if_False new snapshot rows(1) logged named [folded m_def])
    have db2: "db_matches db2 = db_matches ?db @ [row]" "db_rounds db2 = db_rounds ?db @ rows"
      "db_snapshots db2 = db_snapshots ?db @ [(m, ms_CurrentRound state, t)]"
      "db_events db2 = db_events ?db @ es" "db_commentary db2 = db_commentary ?db @ cs" "db_aiCalls db2 = db_aiCalls ?db"
      by (simp_all add: db2_def db1_def)
    have known: "knownMatches db2 = insert m (knownMatches ?db)" by (simp add: knownMatches_def db2 row_def)
    have ok2: "databaseOk cx db2"
      unfolding databaseOk_def known db2
      using ok t(2,3) rows(2) logs(2,4) new by (auto simp: list_all_iff row_def)
    have none: "textsOf m (db_events ?db) = []" "textsOf m (db_commentary ?db) = []"
      "roundTexts m (db_rounds ?db) = []" "roundTexts m (db_snapshots ?db) = []"
      using ok unknown(1) by (auto simp: roundTexts_def textsOf_def list_all_iff filter_empty_conv)
    have texts: "textsOf m' (db_events db2) = textsOf m' (db_events ?db) @ (if m' = m then map snd es else [])"
      "textsOf m' (db_commentary db2) = textsOf m' (db_commentary ?db) @ (if m' = m then map snd cs else [])"
      "roundTexts m' (db_rounds db2) = roundTexts m' (db_rounds ?db) @ (if m' = m then map (\<lambda>(_, _, t). t) rows else [])"
      "roundTexts m' (db_snapshots db2) = roundTexts m' (db_snapshots ?db) @ (if m' = m then [t] else [])" for m'
      unfolding db2 using textsOf_append [OF logs(2)] textsOf_append [OF logs(4)]
        roundTexts_append [of m "\<lambda>k t. readable (jx_Round cx) t \<and> rr_Round (decoded (jx_Round cx) t) = k" rows m' "db_rounds ?db"] rows(2)
      by (simp_all add: roundTexts_def)
    let ?rs = "map jsonRound rounds"
    have flat: "map jsonEvent (flattenEvents rounds) = concat (map rr_Events ?rs)"
      "flattenCommentary rounds = concat (map rr_Commentary ?rs)"
      by (simp_all add: flatten_eq map_concat o_def)
    have new_match: "storedMatchOf cx db2 row = \<lparr>sm_state = jsonState state, sm_snapshots = [jsonState state], sm_rounds = ?rs,
        sm_events = concat (map rr_Events ?rs), sm_commentary = concat (map rr_Commentary ?rs)\<rparr>"
      using rows(3) logs(3,5) t(2) unfolding flat
      by (simp add: storedMatchOf_def Let_def row_def texts none o_def case_prod_unfold)
    have other: "storedMatchOf cx db2 row' = storedMatchOf cx ?db row'" if "tm_MatchID row' \<noteq> m" for row'
      using that by (simp add: storedMatchOf_def Let_def texts)
    have "map_option (storedMatchOf cx db2) (find_first (\<lambda>row. tm_MatchID row = m') (db_matches db2))
       = (if m' = m then Some (storedMatchOf cx db2 row)
          else map_option (storedMatchOf cx ?db) (find_first (\<lambda>row. tm_MatchID row = m') (db_matches ?db)))" for m'
    proof (cases "m' = m")
      case True
      then show ?thesis using unknown(3) by (simp add: db2 find_first_append row_def)
    next
      case False
      then show ?thesis using other find_first_Some
        by (fastforce simp: db2 find_first_append row_def map_option_case split: option.split)
    qed
    then have stored2: "stored cx (s\<lparr>sq_db := db2\<rparr>) = (stored cx s)
        \<lparr>mem_matches := (mem_matches (stored cx s))(m \<mapsto> storedMatchOf cx db2 row)\<rparr>"
      by (simp add: stored_def fun_eq_iff)
    have json: "map RoundRecord_Clone (tailOf (rh_RecentRounds (ms_History (jsonState initial))) ?l) = ?rs"
      by (simp add: rounds_def map_tailOf o_def jsonRound_Clone)
    have limit: "mem_historyLimit (stored cx s) = ?l" by (simp add: stored_def)
    have "CreateMatch (jsonState initial) (stored cx s) = Inr (stored cx (s\<lparr>sq_db := db2\<rparr>))"
      unfolding CreateMatch_Inr limit jsonState_fields json [unfolded jsonState_fields] m_def [symmetric]
    proof (intro conjI exI [of _ ?rs] exI [of _ "jsonState state"])
      show "?rs = ?rs" "m \<noteq> []" "mem_matches (stored cx s) m = None" using named unknown(2) by (simp_all add: m_def)
      show "jsonState state = (jsonState initial)\<lparr>ms_History := \<lparr>rh_RecentRounds = ?rs\<rparr>\<rparr>"
        by (simp add: state_def jsonState_def)
      show "stored cx (s\<lparr>sq_db := db2\<rparr>) = (stored cx s)\<lparr>mem_matches := (mem_matches (stored cx s))(m \<mapsto>
         \<lparr>sm_state = jsonState state, sm_snapshots = [jsonState state], sm_rounds = ?rs,
          sm_events = concat (map rr_Events ?rs), sm_commentary = concat (map rr_Commentary ?rs)\<rparr>)\<rparr>"
        by (simp only: stored2 new_match)
    qed
    moreover from this have "storeOk (stored cx (s\<lparr>sq_db := db2\<rparr>))"
      using assms(2,3) by (elim storeOk_create) (simp_all add: sqliteOk_def o_def)
    ultimately show ?thesis using ok2 by (simp add: create sqliteOk_def)
  qed
qed

lemma sqlite_create_agrees:
  assumes "codecsOk cx" "sqliteOk cx s" "sorted_wrt (<) (map rr_Round (rh_RecentRounds (ms_History initial)))"
  shows "case sqlite_CreateMatch cx now initial s of
      Inl err \<Rightarrow> \<exists>e. err = createError e \<and> CreateMatch (jsonState initial) (stored cx s) = Inl e
    | Inr s' \<Rightarrow> CreateMatch (jsonState initial) (stored cx s) = Inr (stored cx s') \<and> sqliteOk cx s'"
proof -
  have "createSurvives cx (sq_historyLimit s) initial"
    using codecsOk_survive [OF assms(1)] by (simp add: createSurvives_def Let_def)
  then show ?thesis using assms(2,3) by (rule sqlite_create_agrees_surviving)
qed

subsection \<open>Snapshots and slots\<close>

text \<open>Snapshots come back in the order of their rounds, and are those of the memory store.\<close>

lemma sqlite_snapshots_agree:
  assumes "sqliteOk cx s" "mem_matches (stored cx s) m = Some x"
  shows "\<exists>states. sqlite_StateSnapshots cx s m = Inr states \<and> mset states = mset (sm_snapshots x)
    \<and> sorted (map ms_CurrentRound states)"
proof -
  let ?rows = "filter (\<lambda>(m', _). m' = m) (db_snapshots (sq_db s))"
  let ?texts = "map (\<lambda>(_, _, t). t) (sort_key (\<lambda>(_, k, _). k) ?rows)"
  have rows: "list_all (\<lambda>(m, k, t). m \<in> knownMatches (sq_db s) \<and> readable (jx_State cx) t
      \<and> ms_CurrentRound (decoded (jx_State cx) t) = k) (db_snapshots (sq_db s))"
    using assms(1) by (simp add: sqliteOk_def databaseOk_def)
  have known: "m \<in> knownMatches (sq_db s) \<and> sm_snapshots x = map (decoded (jx_State cx)) (roundTexts m (db_snapshots (sq_db s)))"
    using assms(1)
    by (cases rule: stored_cases [where m = m]) (use assms(2) in \<open>auto simp: storedMatchOf_def Let_def\<close>)
  have readable: "list_all (readable (jx_State cx)) ?texts"
    using rows by (auto simp: list_all_iff)
  have "m \<notin> knownMatches (sq_db s) \<longrightarrow> ?texts = []" using known by blast
  from readRows_agrees [OF assms(1) readable this]
  have "sqlite_StateSnapshots cx s m = Inr (map (decoded (jx_State cx)) ?texts)"
    using known unfolding sqlite_StateSnapshots_def by (simp only: if_True)
  moreover have "mset (map (decoded (jx_State cx)) ?texts) = mset (sm_snapshots x)"
    using known by (simp add: roundTexts_def)
  moreover have "map ms_CurrentRound (map (decoded (jx_State cx)) ?texts) = map (\<lambda>(_, k, _). k) (sort_key (\<lambda>(_, k, _). k) ?rows)"
    using rows by (auto simp: list_all_iff)
  ultimately show ?thesis by (intro exI [of _ "map (decoded (jx_State cx)) ?texts"]) (simp only: sorted_sort_key simp_thms)
qed

lemma stored_slots [simp]: "stored cx (s\<lparr>sq_db := (sq_db s)\<lparr>db_saveSlots := rows\<rparr>\<rparr>) = stored cx s"
  by (simp add: stored_def storedMatchOf_def fun_eq_iff cong: map_option_cong)

lemma SaveSlot_Inr:
  assumes "SaveSlot cx now slot m s = Inr (summary, s')"
  shows "\<exists>rows state. s' = s\<lparr>sq_db := (sq_db s)\<lparr>db_saveSlots := rows\<rparr>\<rparr> \<and> sqlite_CurrentState cx s m = Inr state
    \<and> slot \<noteq> [] \<and> map_option slotSummary (find_first (\<lambda>row. ts_SlotName row = slot) rows) = Some summary
    \<and> ss_MatchID summary = m \<and> ss_CurrentRound summary = ms_CurrentRound state"
proof -
  have found: "find_first (\<lambda>row. ts_SlotName row = slot) (upsert_first (\<lambda>old. ts_SlotName old = slot)
      (\<lambda>old. row\<lparr>ts_CreatedAt := ts_CreatedAt old\<rparr>) row rows)
     = Some (case find_first (\<lambda>row. ts_SlotName row = slot) rows of
         None \<Rightarrow> row | Some old \<Rightarrow> row\<lparr>ts_CreatedAt := ts_CreatedAt old\<rparr>)" if "ts_SlotName row = slot" for row rows
    using that by (induction rows) auto
  obtain state where state: "sqlite_CurrentState cx s m = Inr state" and named: "slot \<noteq> []"
    using assms by (auto simp: SaveSlot_def split: if_splits sum.splits)
  define row where "row = \<lparr>ts_SlotName = slot, ts_MatchID = m, ts_ScenarioID = ms_ScenarioID state,
    ts_CurrentRound = ms_CurrentRound state, ts_Cash = pl_Cash (ms_Plant state), ts_CreatedAt = now, ts_UpdatedAt = now\<rparr>"
  have row: "ts_SlotName row = slot" by (simp add: row_def)
  let ?rows = "upsert_first (\<lambda>old. ts_SlotName old = slot) (\<lambda>old. row\<lparr>ts_CreatedAt := ts_CreatedAt old\<rparr>) row
    (db_saveSlots (sq_db s))"
  have saved: "summary = slotSummary row" "s' = s\<lparr>sq_db := (sq_db s)\<lparr>db_saveSlots := ?rows\<rparr>\<rparr>"
    using assms named by (simp_all add: SaveSlot_def state Let_def row_def slotSummary_def)
  have "slotSummary (row\<lparr>ts_CreatedAt := created\<rparr>) = slotSummary row" for created by (simp add: slotSummary_def)
  then have "map_option slotSummary (find_first (\<lambda>row. ts_SlotName row = slot) ?rows) = Some summary"
    by (simp only: found [OF row] saved(1) option.map split: option.split) simp_all
  moreover have "ss_MatchID summary = m" "ss_CurrentRound summary = ms_CurrentRound state"
    by (simp_all add: saved(1) slotSummary_def row_def)
  ultimately show ?thesis using saved(2) state named by blast
qed

lemma SaveSlot_ok: "SaveSlot cx now slot m s = Inr (summary, s') \<Longrightarrow> sqliteOk cx s \<Longrightarrow> sqliteOk cx s'"
  by (auto simp: sqliteOk_def databaseOk_def knownMatches_def dest!: SaveSlot_Inr)

lemma insertLogs_slots:
  "insertLogs cx m events commentary db = Inr db' \<Longrightarrow> db_saveSlots db' = db_saveSlots db"
  by (auto simp: insertLogs_def split: sum.splits)

lemma CommitRound_slots:
  assumes "sqlite_CommitRound cx now m next r s = Inr (state, s')"
  shows "db_saveSlots (sq_db s') = db_saveSlots (sq_db s)"
proof -
  obtain matches rounds snapshots db where
    "insertLogs cx m (rr_Events (RoundRecord_Clone r)) (rr_Commentary (RoundRecord_Clone r))
       ((sq_db s)\<lparr>db_matches := matches, db_rounds := rounds, db_snapshots := snapshots\<rparr>) = Inr db"
    "s' = s\<lparr>sq_db := db\<rparr>"
    using assms unfolding sqlite_CommitRound_def Let_def by (simp split: if_splits sum.splits)
  then show ?thesis by (auto dest: insertLogs_slots)
qed

text \<open>After a commit the current state is the committed one, as it went through JSON.\<close>

lemma sqlite_committed_current:
  assumes "codecsOk cx" "sqliteOk cx s" "historyKept cx s m next r"
    and "sqlite_CommitRound cx now m next r s = Inr (state, s')"
  shows "sqlite_CurrentState cx s' m = Inr (jsonState state)" "sqliteOk cx s'"
    "ms_CurrentRound state = ms_CurrentRound next"
proof -
  have commit: "CommitRound m (jsonState next) (jsonRound r) (stored cx s) = Inr (jsonState state, stored cx s')"
    and ok: "sqliteOk cx s'"
    using sqlite_commit_agrees [OF assms(1-3), of now] assms(4) by simp_all
  show "sqlite_CurrentState cx s' m = Inr (jsonState state)"
    using memory.commit_state [OF commit] by (simp add: sqlite_current_agrees [OF ok] asSqlite_def)
  show "sqliteOk cx s'" by (rule ok)
  show "ms_CurrentRound state = ms_CurrentRound next"
  proof -
    obtain h where "jsonState state = (MatchState_Clone (jsonState next))\<lparr>ms_History := h\<rparr>"
      using memory.commit_state [OF commit] by blast
    from arg_cong [where f = ms_CurrentRound, OF this] show ?thesis by simp
  qed
qed

text \<open>A slot names a match: loading it gives the state of the last commit, not the one that was saved.\<close>

lemma load_after_commit:
  assumes "codecsOk cx" "sqliteOk cx s" "SaveSlot cx now slot m s = Inr (summary, s1)"
    and "historyKept cx s1 m next r" "sqlite_CommitRound cx now' m next r s1 = Inr (state, s2)"
  shows "LoadSaveSlot cx slot s2 = Inr (jsonState state, summary)"
proof -
  obtain rows saved where saved: "s1 = s\<lparr>sq_db := (sq_db s)\<lparr>db_saveSlots := rows\<rparr>\<rparr>" "slot \<noteq> []"
    "map_option slotSummary (find_first (\<lambda>row. ts_SlotName row = slot) rows) = Some summary" "ss_MatchID summary = m"
    using SaveSlot_Inr [OF assms(3)] by blast
  then obtain row where row: "find_first (\<lambda>row. ts_SlotName row = slot) rows = Some row" "slotSummary row = summary"
    by auto
  have "ts_MatchID row = m" using row(2) saved(4) by (auto simp: slotSummary_def)
  moreover have "db_saveSlots (sq_db s2) = rows" using CommitRound_slots [OF assms(5)] by (simp add: saved(1))
  moreover have "sqlite_CurrentState cx s2 m = Inr (jsonState state)"
    by (rule sqlite_committed_current(1) [OF assms(1) SaveSlot_ok [OF assms(3,2)] assms(4,5)])
  ultimately show ?thesis using saved(2) row by (simp add: LoadSaveSlot_def)
qed

end
