(* ===== verification/HostProperties.thy ===== *)
theory HostProperties
  imports Configuration LiveController SqliteStore AIProperties
begin

text \<open>
  The properties of the parts around a match: the SQLite store and its save slots, the runtime the
  program builds from its configuration, and the controller between the match and the terminal.
\<close>

section \<open>A database of one match\<close>

text \<open>Texts that remember what they were made of.\<close>

datatype demoText =
    StateText MatchState
  | RoundText RoundRecord
  | EventText RoundEvent
  | CommentaryText CommentaryRecord
  | AICallText AICallRecord

definition demoCodecs :: "demoText storeCodecs" where
  "demoCodecs =
     \<lparr>jx_State = \<lparr>cd_Marshal = (\<lambda>x. Inr (StateText (jsonState x))),
        cd_Unmarshal = (\<lambda>t. case t of StateText x \<Rightarrow> Inr x | _ \<Rightarrow> Inl ''state'')\<rparr>,
      jx_Round = \<lparr>cd_Marshal = (\<lambda>x. Inr (RoundText (jsonRound x))),
        cd_Unmarshal = (\<lambda>t. case t of RoundText x \<Rightarrow> Inr x | _ \<Rightarrow> Inl ''round'')\<rparr>,
      jx_Event = \<lparr>cd_Marshal = (\<lambda>x. Inr (EventText (jsonEvent x))),
        cd_Unmarshal = (\<lambda>t. case t of EventText x \<Rightarrow> Inr x | _ \<Rightarrow> Inl ''event'')\<rparr>,
      jx_Commentary = \<lparr>cd_Marshal = (\<lambda>x. Inr (CommentaryText x)),
        cd_Unmarshal = (\<lambda>t. case t of CommentaryText x \<Rightarrow> Inr x | _ \<Rightarrow> Inl ''commentary'')\<rparr>,
      jx_AICall = \<lparr>cd_Marshal = (\<lambda>x. Inr (AICallText x)),
        cd_Unmarshal = (\<lambda>t. case t of AICallText x \<Rightarrow> Inr x | _ \<Rightarrow> Inl ''call'')\<rparr>\<rparr>"

lemma demo_codecs: "codecsOk demoCodecs"
  by (simp add: codecsOk_def faithful_def survives_def demoCodecs_def)

lemma demo_encode: "encode (jx_State demoCodecs) x = Inr (StateText (jsonState x))"
  by (simp add: encode_def demoCodecs_def)

definition demoDatabase :: "demoText SqliteStore" where
  "demoDatabase = \<lparr>sq_db = initSchema, sq_historyLimit = 3\<rparr>"

lemma demo_database: "sqliteOk cx demoDatabase"
  by (simp add: sqliteOk_def databaseOk_def demoDatabase_def initSchema_def stored_def storeOk_def)

text \<open>The match of the starter scenario, stored; and its first round, with an order for three pumps.\<close>

definition demoSqlite :: "demoText SqliteStore" where
  "demoSqlite = (case sqlite_CreateMatch demoCodecs ''t0'' demoState demoDatabase of Inr s \<Rightarrow> s | Inl _ \<Rightarrow> demoDatabase)"

definition demoDemand :: RoundEvent where
  "demoDemand = \<lparr>ev_EventID = ''e1'', ev_MatchID = ''m1'', ev_Round = 1, ev_Type = EventDemandRealized,
     ev_ActorID = [], ev_Summary = [],
     ev_Payload = [(''product_id'', AString ''pump''), (''quantity'', AInt 3), (''offered_unit_price'', AInt 40)]\<rparr>"

definition demoRound :: RoundRecord where
  "demoRound = RoundRecord_Clone \<lparr>rr_Round = 1, rr_Actions = [], rr_Events = [demoDemand], rr_Commentary = [],
     rr_Timeline = [], rr_Metrics = ms_Metrics demoState\<rparr>"

definition demoNext :: MatchState where
  "demoNext = demoState\<lparr>ms_CurrentRound := 2, ms_History := \<lparr>rh_RecentRounds = [demoRound]\<rparr>\<rparr>"

lemma demo_created:
  "sqlite_CreateMatch demoCodecs ''t0'' demoState demoDatabase = Inr demoSqlite" "sqliteOk demoCodecs demoSqlite"
  "CreateMatch (jsonState demoState) (stored demoCodecs demoDatabase) = Inr (stored demoCodecs demoSqlite)"
proof -
  have "\<exists>s. sqlite_CreateMatch demoCodecs ''t0'' demoState demoDatabase = Inr s"
    by (simp add: sqlite_CreateMatch_def Let_def demo_state demoDatabase_def initSchema_def demo_encode
        insertRoundRow_def insertLogs_def insertEvents_def insertCommentary_def Recent_tailOf clone_simps flatten_eq
        RoundHistory_Clone_def cloneSlice_def tailOf_def)
  then show created: "sqlite_CreateMatch demoCodecs ''t0'' demoState demoDatabase = Inr demoSqlite"
    by (auto simp: demoSqlite_def)
  have "sorted_wrt (<) (map rr_Round (rh_RecentRounds (ms_History demoState)))" by (simp add: demo_state)
  from sqlite_create_agrees [OF demo_codecs demo_database this, of "''t0''"]
  show "sqliteOk demoCodecs demoSqlite"
    "CreateMatch (jsonState demoState) (stored demoCodecs demoDatabase) = Inr (stored demoCodecs demoSqlite)"
    by (simp_all add: created)
qed

lemma demo_match:
  "\<exists>x. mem_matches (stored demoCodecs demoSqlite) ''m1'' = Some x \<and> sm_rounds x = []"
  "matchLog (stored demoCodecs demoSqlite) ''m1'' = Some []"
proof -
  show log: "matchLog (stored demoCodecs demoSqlite) ''m1'' = Some []"
    using memory.create_log [OF demo_created(3)] by (auto simp: demo_state)
  then show "\<exists>x. mem_matches (stored demoCodecs demoSqlite) ''m1'' = Some x \<and> sm_rounds x = []"
    by (auto simp: matchLog_def)
qed

lemma demo_history: "historyKept demoCodecs demoSqlite ''m1'' demoNext demoRound"
proof -
  have "sqlite_CreateMatch demoCodecs ''t0'' demoState demoDatabase = Inr s \<Longrightarrow> sq_historyLimit s = 3" for s
    unfolding sqlite_CreateMatch_def demoDatabase_def by (auto simp: Let_def split: if_splits sum.splits)
  then have "sq_historyLimit demoSqlite = 3" using demo_created(1) by blast
  then show ?thesis
    using demo_match(1) by (auto simp: historyKept_def demoNext_def Recent_tailOf tailOf_def demoRound_def)
qed

lemma demo_committed:
  "\<exists>state s'. sqlite_CommitRound demoCodecs ''t1'' ''m1'' demoNext demoRound demoSqlite = Inr (state, s')"
proof -
  have "storeOk (stored demoCodecs demoSqlite)" using demo_created(2) by (simp add: sqliteOk_def)
  then obtain st x where "CommitRound ''m1'' (jsonState demoNext) (jsonRound demoRound) (stored demoCodecs demoSqlite) = Inr (x, st)"
    using memory.commit_possible [OF _ demo_match(2), of "jsonState demoNext" "jsonRound demoRound"]
    by (auto simp: demoNext_def demo_state demoRound_def RoundRecord_Clone_eq)
  with sqlite_commit_agrees [OF demo_codecs demo_created(2) demo_history, of "''t1''"] show ?thesis
    by (auto split: sum.splits)
qed

section \<open>The database behaves as the memory store\<close>

text \<open>C21: A well-formed database reads as the memory store of its decoded rows, whatever the codecs.  When
  the values they store survive JSON, creating a match whose recent rounds are in order, and committing a round with a
  state whose recent history is that of the match's log, do to the database what they do to that store of the values
  as they come back from JSON, with the same errors (a match that exists already is a violated primary key), and leave
  it well-formed.\<close>

theorem sqlite_refines_memory:
  assumes "sqliteOk cx s"
  shows "sqlite_CurrentState cx s m = asSqlite (CurrentState (stored cx s) m)
    \<and> sqlite_Round cx s m n = asSqlite (Store_Round (stored cx s) m n)
    \<and> sqlite_EventTimeline cx s m = asSqlite (EventTimeline (stored cx s) m)
    \<and> sqlite_Commentary cx s m = asSqlite (Store_Commentary (stored cx s) m)
    \<and> (createSurvives cx (sq_historyLimit s) initial
        \<and> sorted_wrt (<) (map rr_Round (rh_RecentRounds (ms_History initial))) \<longrightarrow>
        (case sqlite_CreateMatch cx now initial s of
           Inl err \<Rightarrow> \<exists>e. err = createError e \<and> CreateMatch (jsonState initial) (stored cx s) = Inl e
         | Inr s' \<Rightarrow> CreateMatch (jsonState initial) (stored cx s) = Inr (stored cx s') \<and> sqliteOk cx s'))
    \<and> (commitSurvives cx (sq_historyLimit s) next r \<and> historyKept cx s m next r \<longrightarrow>
        (case sqlite_CommitRound cx now m next r s of
           Inl err \<Rightarrow> \<exists>e. err = SqlStore e \<and> CommitRound m (jsonState next) (jsonRound r) (stored cx s) = Inl e
         | Inr (state, s') \<Rightarrow>
             CommitRound m (jsonState next) (jsonRound r) (stored cx s) = Inr (jsonState state, stored cx s')
             \<and> sqliteOk cx s'))"
proof (intro conjI impI; (elim conjE)?)
  show "sqlite_CurrentState cx s m = asSqlite (CurrentState (stored cx s) m)"
    by (rule sqlite_current_agrees [OF assms])
  show "sqlite_Round cx s m n = asSqlite (Store_Round (stored cx s) m n)"
    by (rule sqlite_round_agrees [OF assms])
  show "sqlite_EventTimeline cx s m = asSqlite (EventTimeline (stored cx s) m)"
    "sqlite_Commentary cx s m = asSqlite (Store_Commentary (stored cx s) m)"
    by (rule sqlite_logs_agree [OF assms])+
qed (rule sqlite_create_agrees_surviving sqlite_commit_agrees_surviving, (rule assms | assumption)+)+

lemma sqlite_refines_memory_witness:
  "\<exists>state s' st. sqlite_CommitRound demoCodecs ''t1'' ''m1'' demoNext demoRound demoSqlite = Inr (state, s')
     \<and> CommitRound ''m1'' (jsonState demoNext) (jsonRound demoRound) (stored demoCodecs demoSqlite) = Inr (jsonState state, st)
     \<and> st = stored demoCodecs s' \<and> sqliteOk demoCodecs s'"
proof -
  obtain state s' where c: "sqlite_CommitRound demoCodecs ''t1'' ''m1'' demoNext demoRound demoSqlite = Inr (state, s')"
    using demo_committed by blast
  with sqlite_refines_memory [OF demo_created(2), of "''m1''" 1 demoState "''t1''" demoNext demoRound] demo_history
    codecsOk_survive(1) [OF demo_codecs]
  show ?thesis by auto
qed

section \<open>Save slots\<close>

text \<open>C33: A save slot keeps the name of the match, not its state: after a later commit, loading
  the slot gives the later state, with a summary that still shows the round of the save.\<close>

theorem load_slot_returns_latest:
  assumes "codecsOk cx" "sqliteOk cx s" "sqlite_CurrentState cx s m = Inr saved"
    and "SaveSlot cx now slot m s = Inr (summary, s1)"
    and "historyKept cx s1 m next r" "sqlite_CommitRound cx now' m next r s1 = Inr (state, s2)"
  shows "LoadSaveSlot cx slot s2 = Inr (jsonState state, summary)
    \<and> ms_CurrentRound (jsonState state) = ms_CurrentRound next
    \<and> ss_CurrentRound summary = ms_CurrentRound saved"
proof -
  have "sqlite_CurrentState cx s m = Inr saved' \<Longrightarrow> saved' = saved" for saved' using assms(3) by simp
  then have "ss_CurrentRound summary = ms_CurrentRound saved" using SaveSlot_Inr [OF assms(4)] by blast
  moreover have "ms_CurrentRound state = ms_CurrentRound next"
    by (rule sqlite_committed_current(3) [OF assms(1) SaveSlot_ok [OF assms(4,2)] assms(5,6)])
  ultimately show ?thesis using load_after_commit [OF assms(1,2,4-6)] by simp
qed

lemma demo_current: "\<exists>saved. sqlite_CurrentState demoCodecs demoSqlite ''m1'' = Inr saved \<and> ms_CurrentRound saved = 1"
proof -
  have "CurrentState (stored demoCodecs demoSqlite) ''m1'' = Inr s \<Longrightarrow> ms_CurrentRound s = 1" for s
    using demo_created(3) by (auto simp: CreateMatch_Inr demo_state CurrentState_def clone_simps)
  moreover obtain s where "CurrentState (stored demoCodecs demoSqlite) ''m1'' = Inr s"
    using memory.current_known [of "stored demoCodecs demoSqlite" "''m1''"] demo_match(2) by auto
  ultimately show ?thesis using sqlite_current_agrees [OF demo_created(2)] by (auto simp: asSqlite_def)
qed

lemma load_slot_returns_latest_witness:
  "\<exists>summary s1 state s2 loaded. SaveSlot demoCodecs ''t1'' ''before round 2'' ''m1'' demoSqlite = Inr (summary, s1)
     \<and> sqlite_CommitRound demoCodecs ''t2'' ''m1'' demoNext demoRound s1 = Inr (state, s2)
     \<and> LoadSaveSlot demoCodecs ''before round 2'' s2 = Inr (loaded, summary)
     \<and> ms_CurrentRound loaded = 2 \<and> ss_CurrentRound summary = 1"
proof -
  obtain saved where saved: "sqlite_CurrentState demoCodecs demoSqlite ''m1'' = Inr saved" "ms_CurrentRound saved = 1"
    using demo_current by blast
  then obtain summary s1 where slot: "SaveSlot demoCodecs ''t1'' ''before round 2'' ''m1'' demoSqlite = Inr (summary, s1)"
    by (simp add: SaveSlot_def Let_def)
  have same: "stored demoCodecs s1 = stored demoCodecs demoSqlite" using SaveSlot_Inr [OF slot] by auto
  have kept: "historyKept demoCodecs s1 ''m1'' demoNext demoRound"
    using demo_history same by (auto simp: historyKept_def stored_def)
  have "\<exists>x. CommitRound ''m1'' (jsonState demoNext) (jsonRound demoRound) (stored demoCodecs s1) = Inr x"
    using sqlite_commit_agrees [OF demo_codecs demo_created(2) demo_history, of "''t1''"] demo_committed
    unfolding same by auto
  then obtain state s2 where commit: "sqlite_CommitRound demoCodecs ''t2'' ''m1'' demoNext demoRound s1 = Inr (state, s2)"
    using sqlite_commit_agrees [OF demo_codecs SaveSlot_ok [OF slot demo_created(2)] kept, of "''t2''"]
    by (cases "sqlite_CommitRound demoCodecs ''t2'' ''m1'' demoNext demoRound s1") auto
  have "ms_CurrentRound demoNext = 2" by (simp add: demoNext_def)
  with load_slot_returns_latest [OF demo_codecs demo_created(2) saved(1) slot kept commit] slot commit saved(2)
  show ?thesis by auto
qed

section \<open>Reports of a resumed match\<close>

lemma jsonAny_int: "jsonAny x \<noteq> AInt i"
  by (cases x) simp_all

lemma payload_json: "map_of (map (map_prod id jsonAny) p) key = map_option jsonAny (map_of p key)"
  by (induction p) auto

lemma payloadInt_json [simp]: "payloadInt (ev_Payload (jsonEvent e)) key = 0"
  by (auto simp: payloadInt_def jsonEvent_def payload_json jsonAny_int split: option.split any.split)

lemma upsert_first_all: "\<forall>x \<in> set xs. P x \<and> P (f x) \<Longrightarrow> P new \<Longrightarrow> \<forall>x \<in> set (upsert_first Q f new xs). P x"
  by (induction xs) auto

lemma foldl_json:
  assumes "\<And>items e. \<forall>x \<in> set items. P x \<Longrightarrow> \<forall>x \<in> set (step items (jsonEvent e)). P x"
  shows "\<forall>x \<in> set items. P x \<Longrightarrow> \<forall>x \<in> set (foldl step items (map jsonEvent events)). P x"
proof (induction events arbitrary: items)
  case (Cons e events)
  from Cons.IH [OF assms [OF Cons.prems]] show ?case by simp
qed simp

text \<open>The lines of the summaries of a round that came back from JSON have no amounts.\<close>

lemma resumed_summaries:
  "\<forall>x \<in> set (foldl newSalesStep [] (map jsonEvent events)). pv_Count x = 0 \<and> pv_TotalValue x = 0"
  "\<forall>x \<in> set (foldl producedStep [] (map jsonEvent events)). pu_Count x = 0"
  "\<forall>x \<in> set (foldl financialStep [] (map jsonEvent events)). pf_Revenue x = 0 \<and> pf_ProductionCost x = 0
     \<and> pf_PartsCost x = 0 \<and> pf_ContributionMargin x = 0"
proof -
  show "\<forall>x \<in> set (foldl newSalesStep [] (map jsonEvent events)). pv_Count x = 0 \<and> pv_TotalValue x = 0"
    by (rule foldl_json, simp_all add: newSalesStep_def updateValue_def Let_def) (intro impI upsert_first_all, simp_all)
  show "\<forall>x \<in> set (foldl producedStep [] (map jsonEvent events)). pu_Count x = 0"
    by (rule foldl_json, simp_all add: producedStep_def Let_def) (intro impI upsert_first_all, simp_all)
  show "\<forall>x \<in> set (foldl financialStep [] (map jsonEvent events)). pf_Revenue x = 0 \<and> pf_ProductionCost x = 0
      \<and> pf_PartsCost x = 0 \<and> pf_ContributionMargin x = 0"
  proof (rule foldl_json)
    fix items :: "ProductFinancialSummary list" and e
    let ?zero = "\<lambda>x. pf_Revenue x = 0 \<and> pf_ProductionCost x = 0 \<and> pf_PartsCost x = 0 \<and> pf_ContributionMargin x = 0"
    have zero: "?zero x \<Longrightarrow> ?zero (financialUpdate (jsonEvent e) x)" for x
      by (cases "ev_Type e") (simp_all add: financialUpdate_def Let_def)
    assume items: "\<forall>x \<in> set items. ?zero x"
    have updated: "\<forall>x \<in> set (upsert_first Q (financialUpdate (jsonEvent e)) (financialUpdate (jsonEvent e) new) items). ?zero x"
      if "?zero new" for Q new
    proof (rule upsert_first_all [where P = ?zero])
      have "?zero x \<and> ?zero (financialUpdate (jsonEvent e) x)" if "x \<in> set items" for x
        using bspec [OF items that] zero [OF bspec [OF items that]] by (rule conjI)
      then show "\<forall>x \<in> set items. ?zero x \<and> ?zero (financialUpdate (jsonEvent e) x)" ..
      show "?zero (financialUpdate (jsonEvent e) new)" by (rule zero [OF that])
    qed
    show "\<forall>x \<in> set (financialStep items (jsonEvent e)). ?zero x"
      unfolding financialStep_def
      by (split option.split, split if_split) (intro conjI impI allI items updated; simp)
  qed simp
qed

text \<open>C34: After a match is read back from the database, the sales, production and finance summaries
  of its last round have no amounts, whatever the round had: the payloads of its events come back
  with \<open>float64\<close> numbers, and the summaries only count those that are \<open>int\<close>.\<close>

theorem resumed_reports_lose_amounts:
  assumes "codecsOk cx" "sqliteOk cx s" "historyKept cx s m next r" "validOrder mo"
    and "sqlite_CommitRound cx now m next r s = Inr (state, s')"
  shows "\<exists>resumed. sqlite_CurrentState cx s' m = Inr resumed
    \<and> (\<forall>x \<in> set (newSalesSummary (mo 0) (latestRound resumed)). pv_Count x = 0 \<and> pv_TotalValue x = 0)
    \<and> (\<forall>x \<in> set (producedSummary (mo 3) (latestRound resumed)). pu_Count x = 0)
    \<and> (\<forall>x \<in> set (financialSummary (mo 4) (latestRound resumed)).
         pf_Revenue x = 0 \<and> pf_ProductionCost x = 0 \<and> pf_PartsCost x = 0 \<and> pf_ContributionMargin x = 0)"
proof -
  have latest: "latestRound (jsonState state) = None \<or>
      (\<exists>r. latestRound (jsonState state) = Some r \<and> rr_Events r = map jsonEvent (rr_Events (last (rh_RecentRounds (ms_History state)))))"
    by (simp add: latestRound_def RoundRecord_Clone_eq last_map)
  have "(\<forall>x \<in> set (newSalesSummary (mo 0) (latestRound (jsonState state))). pv_Count x = 0 \<and> pv_TotalValue x = 0)
    \<and> (\<forall>x \<in> set (producedSummary (mo 3) (latestRound (jsonState state))). pu_Count x = 0)
    \<and> (\<forall>x \<in> set (financialSummary (mo 4) (latestRound (jsonState state))).
         pf_Revenue x = 0 \<and> pf_ProductionCost x = 0 \<and> pf_PartsCost x = 0 \<and> pf_ContributionMargin x = 0)"
    using latest resumed_summaries
    by (auto simp: newSalesSummary_def producedSummary_def financialSummary_def mapValues_set [OF assms(4)])
  with sqlite_committed_current(1) [OF assms(1-3,5)] show ?thesis by blast
qed

lemma slice_order: "validOrder sliceOrder"
  by (simp add: validOrder_def sliceOrder_def)

lemma resumed_reports_lose_amounts_witness:
  "\<exists>state s' resumed. sqlite_CommitRound demoCodecs ''t1'' ''m1'' demoNext demoRound demoSqlite = Inr (state, s')
     \<and> sqlite_CurrentState demoCodecs s' ''m1'' = Inr resumed
     \<and> map pv_TotalValue (newSalesSummary (sliceOrder 0) (latestRound demoNext)) = [120]
     \<and> (\<forall>x \<in> set (newSalesSummary (sliceOrder 0) (latestRound resumed)). pv_TotalValue x = 0)"
proof -
  have "map pv_TotalValue (newSalesSummary (sliceOrder 0) (latestRound demoNext)) = [120]"
    by (simp add: newSalesSummary_def latestRound_def demoNext_def demoRound_def RoundRecord_Clone_eq newSalesStep_def
        demoDemand_def payloadProduct_def payloadString_def payloadInt_def updateValue_def mapValues_def sliceOrder_def)
  moreover obtain state s' where commit: "sqlite_CommitRound demoCodecs ''t1'' ''m1'' demoNext demoRound demoSqlite = Inr (state, s')"
    using demo_committed by blast
  moreover obtain resumed where "sqlite_CurrentState demoCodecs s' ''m1'' = Inr resumed"
    "\<forall>x \<in> set (newSalesSummary (sliceOrder 0) (latestRound resumed)). pv_TotalValue x = 0"
    using resumed_reports_lose_amounts [OF demo_codecs demo_created(2) demo_history slice_order commit] by blast
  ultimately show ?thesis by (intro exI conjI)
qed

section \<open>The runtime\<close>

text \<open>A runtime seats every role of its scenario, in the order of the roster, as its normalised
  configuration says, in a match that has an id; normalising again changes nothing.\<close>

theorem runtime_seats_roster:
  assumes "NewRuntime env registry cfg = Inr r"
  shows "map ra_RoleID (ms_Roles (run_InitialMatch r)) = su_RoleRoster (sd_Setup (run_Scenario r))
    \<and> ms_MatchID (run_InitialMatch r) \<noteq> []
    \<and> Lookup registry (cf_ScenarioID (run_Config r)) = Some (run_Scenario r)
    \<and> run_Config r = Config_normalize cfg \<and> Config_normalize (run_Config r) = run_Config r
    \<and> (\<forall>a \<in> set (ms_Roles (run_InitialMatch r)). \<exists>roleCfg.
         map_of (cf_Roles (run_Config r)) (ra_RoleID a) = Some roleCfg
         \<and> ra_Provider a = rc_Provider roleCfg \<and> ra_ModelName a = rc_Model roleCfg
         \<and> (ra_IsHuman a \<longleftrightarrow> rc_Kind roleCfg = PlayerKindHuman))"
proof -
  note ok = NewRuntime_ok [OF assms]
  have "ms_Roles (run_InitialMatch r) = runtimeRoles (run_Config r) (run_Scenario r)"
    "ms_MatchID (run_InitialMatch r) = runtimeMatchID env (run_Config r) (sd_ID (run_Scenario r))"
    using ok(6) by (auto simp: InitialState_def Let_def)
  then show ?thesis
    using ok(1,2) runtimeRoles_roster [OF ok(4)] runtimeRoles_configured runtimeMatchID_nonempty
    by (simp add: Config_normalize_idem)
qed

text \<open>A configuration of one person and three AI players, with a catalog of one model.\<close>

definition demoConfig :: Config where
  "demoConfig = startConfig\<lparr>cf_HumanPlayers := 1,
     cf_RoleConfigs := map (\<lambda>role. \<lparr>rcf_RoleID = role, rcf_Provider = ''lab'', rcf_Model = []\<rparr>) CanonicalRoles,
     cf_LLMCatalog := \<lparr>lc_Entries = [\<lparr>le_Provider = ''lab'', le_Model = ''m'', le_URL = ''http://lab/v1'',
       le_APISDKType = APISDKTypeOpenAI, le_APIKey = ''k''\<rparr>]\<rparr>\<rparr>"

definition demoProcess :: processEnv where
  "demoProcess = \<lparr>pe_Random = (\<lambda>seed. \<lparr>rnd_tape = (\<lambda>_. 0), rnd_pos = 0\<rparr>), pe_Nanos = 7, pe_order = sliceOrder\<rparr>"

definition labRole :: "PlayerKind \<Rightarrow> RoleConfig" where
  "labRole kind = \<lparr>rc_Kind = kind, rc_Provider = ''lab'', rc_Model = ''m'', rc_URL = ''http://lab/v1'',
     rc_APISDKType = APISDKTypeOpenAI, rc_APIKey = ''k''\<rparr>"

lemma demo_roles:
  "cf_Roles (Config_normalize demoConfig) = [(RoleProcurementManager, labRole PlayerKindAI),
     (RoleProductionManager, labRole PlayerKindHuman), (RoleSalesManager, labRole PlayerKindAI),
     (RoleFinanceController, labRole PlayerKindAI)]"
  by code_simp

lemma demo_config_valid: "Config_Validate sliceOrder (Config_normalize demoConfig) = []"
  by code_simp

lemma demo_runtime_roles: "validateRuntimeRoles sliceOrder (Config_normalize demoConfig) CanonicalRoles = []"
  by code_simp

lemma demo_scenario: "cf_ScenarioID (Config_normalize demoConfig) = StarterID"
  by code_simp

lemma starter_roster: "su_RoleRoster (sd_Setup Starter) = CanonicalRoles"
  by (simp add: Starter_def NewDefinition_def StarterMatchSetup_def)

lemma demo_runtime:
  "\<exists>r. NewRuntime demoProcess [(StarterID, Starter)] demoConfig = Inr r
     \<and> run_Scenario r = Starter \<and> run_Config r = Config_normalize demoConfig
     \<and> ms_Roles (run_InitialMatch r) = runtimeRoles (Config_normalize demoConfig) Starter"
  using demo_config_valid demo_runtime_roles demo_scenario
  by (simp add: NewRuntime_def Let_def Lookup_def demoProcess_def InitialState_def starter_roster)

lemma demo_seated:
  "runtimeRoles (Config_normalize demoConfig) Starter = map (\<lambda>role. \<lparr>ra_RoleID = role,
     ra_PlayerID = role_string role @ ''-player'', ra_IsHuman = (role = RoleProductionManager),
     ra_Provider = ''lab'', ra_ModelName = ''m''\<rparr>) CanonicalRoles"
  by (simp add: runtimeRoles_def starter_roster CanonicalRoles_def demo_roles labRole_def PlayerKindAI_def PlayerKindHuman_def)

lemma runtime_seats_roster_witness:
  "\<exists>r. NewRuntime demoProcess [(StarterID, Starter)] demoConfig = Inr r
     \<and> map ra_RoleID (ms_Roles (run_InitialMatch r)) = CanonicalRoles
     \<and> ms_MatchID (run_InitialMatch r) \<noteq> []"
proof -
  obtain r where r: "NewRuntime demoProcess [(StarterID, Starter)] demoConfig = Inr r"
    "run_Scenario r = Starter" using demo_runtime by blast
  from runtime_seats_roster [OF r(1)] r show ?thesis by (auto simp: starter_roster)
qed

section \<open>From a configuration to a finished match\<close>


text \<open>A person who repeats what was accepted before, or does nothing; an endpoint that is down.\<close>

definition patientSubmit :: SubmitFunc where
  "patientSubmit done request = Inr (case rq_PreviousAcceptedAction request of
     Some previous \<Rightarrow> previous | None \<Rightarrow> zeroSubmission\<lparr>as_Action := safeNoOpAction request\<rparr>)"

lemma patient_answers: "answersAll patientSubmit"
  unfolding answersAll_def
proof (intro allI impI)
  fix stations request assume fair: "fairRequest stations request"
  show "\<exists>action. patientSubmit False request = Inr action \<and> answers request action"
  proof (cases "rq_PreviousAcceptedAction request")
    case None
    then have "answers request (zeroSubmission\<lparr>as_Action := safeNoOpAction request\<rparr>)"
      using fair unfolding answers_def
      by (intro allI impI safeNoOp_valid [of _ request]) (simp_all add: fairRequest_def)
    then show ?thesis by (simp add: patientSubmit_def None)
  qed (use fair in \<open>simp add: patientSubmit_def fairRequest_def\<close>)
qed

definition labEndpoint :: openaiEnv where
  "labEndpoint = \<lparr>oe_URLs = \<lparr>uc_Parse = (\<lambda>_. Inr \<lparr>url_Scheme = ''http'', url_Host = ''lab'', url_Path = ''/v1/''\<rparr>),
       uc_String = (\<lambda>_. ''http://lab/v1/'')\<rparr>,
     oe_MaxRetries = 2, oe_Chat = (\<lambda>_ _ _. Inl \<lparr>ce_error = ContextDeadlineExceeded, ce_netTimeout = True\<rparr>)\<rparr>"

lemma lab_players:
  "\<exists>players log. buildPlayersWithHumanSubmit labEndpoint strictCodec sliceOrder (Config_normalize demoConfig) Starter
     (initial\<lparr>ms_Roles := runtimeRoles (Config_normalize demoConfig) Starter\<rparr>) patientSubmit = Inr (players, log)"
proof -
  have order: "sliceOrder site (Suc (Suc (Suc (Suc 0)))) = [0, 1, 2, 3]" "sliceOrder site (Suc 0) = [0]" for site
    by (simp_all add: sliceOrder_def upt_rec)
  have provider: "rc_Provider (labRole kind) = ''lab''" for kind by (simp add: labRole_def)
  obtain client where "buildDecisionClient labEndpoint (labRole PlayerKindAI) = Inr client"
    by (simp add: buildDecisionClient_def labRole_def labEndpoint_def NewOpenAI_def parseBaseURL_def WithBaseURL_def
        WithAPIKey_def Let_def TrimSpace_def isSpace_def defaultBaseURL_def)
  then have "buildDecisionClients labEndpoint (mapValues (sliceOrder 2) (cf_Roles (Config_normalize demoConfig))) []
      = Inr [(''lab'', Some client)]"
    by (simp add: demo_roles mapValues_def order provider)
  moreover have "SupportsProvider (Some (NewRoutingClient [(''lab'', Some client)])) ''lab''" for client
    by (simp add: SupportsProvider_def NewRoutingClient_def Let_def normalizeProvider_def TrimSpace_def isSpace_def)
  ultimately show ?thesis
    by (simp add: buildPlayersWithHumanSubmit_def mapValues_def order demo_seated CanonicalRoles_def Let_def)
qed


section \<open>Submissions made at the terminal\<close>

text \<open>C22: However the players, the display and the terminal are interleaved, each submission that
  was accepted is in the queue, pending, in the hands of one player or returned by one, and is in
  one of these exactly as often as it was accepted; a player only returns a submission of its role
  and round; queue and display never hold more than their capacity.\<close>

theorem live_delivers:
  assumes "liveStep\<^sup>*\<^sup>* (liveStart initial snapshots) sys"
  shows "mset (sys_accepted sys) = mset (lv_submissions (sys_controller sys))
       + mset (pendingItems (lv_pending (sys_controller sys))) + mset (waiterItems (sys_waiters sys))
     \<and> (\<forall>(request, w) \<in> set (sys_waiters sys). \<forall>s. w = WaiterDone (Inr s) \<longrightarrow> submissionKeyOf s = requestKey request)
     \<and> length (lv_submissions (sys_controller sys)) \<le> lv_capacity (sys_controller sys)
     \<and> length (lv_updates (sys_controller sys)) \<le> updatesCapacity"
  using liveInv_run [OF assms] by (auto simp: liveInv_def list_all_iff answered_def)

definition waitFor :: "RoleID \<Rightarrow> RoundRequest" where
  "waitFor role = roundRequest demoEnv \<lparr>ra_RoleID = role, ra_PlayerID = [], ra_IsHuman = True,
     ra_Provider = [], ra_ModelName = []\<rparr>"

lemma wait_keys: "requestKey (waitFor role) = (role, 1)"
  by (simp add: requestKey_def waitFor_def demo_env demo_state)

definition salesSubmission :: ActionSubmission where
  "salesSubmission = zeroSubmission\<lparr>as_RoleID := RoleSalesManager, as_Round := 1\<rparr>"

lemma live_delivers_witness:
  "\<exists>sys. liveStep\<^sup>*\<^sup>* (liveStart demoState []) sys \<and> sys_accepted sys = [salesSubmission]
     \<and> mset (lv_submissions (sys_controller sys)) + mset (pendingItems (lv_pending (sys_controller sys)))
         + mset (waiterItems (sys_waiters sys)) = {#salesSubmission#}"
proof -
  let ?sys = "filedAway demoState [] (waitFor RoleProductionManager) (waitFor RoleSalesManager) salesSubmission"
  have run: "liveStep\<^sup>*\<^sup>* (liveStart demoState []) ?sys"
    by (rule filedAway_reachable) (simp_all add: wait_keys submissionKeyOf_def salesSubmission_def)
  have "sys_accepted ?sys = [salesSubmission]" by (simp add: filedAway_def)
  with live_delivers [OF run] run show ?thesis by fastforce
qed

text \<open>C35: A player can wait forever for a submission that is there.  With two people at the
  terminal, the submission for the second can be received by the first, which files it as pending;
  the second has looked at the pending submissions before, and both listen from then on, until
  another submission is accepted, the controller closes or the context ends.\<close>

theorem live_lost_wakeup:
  assumes "submissionKeyOf s = requestKey r2" "requestKey r1 \<noteq> requestKey r2"
  shows "\<exists>sys. liveStep\<^sup>*\<^sup>* (liveStart initial snapshots) sys
     \<and> lv_pending (sys_controller sys) = [(requestKey r2, [s])]
     \<and> sys_waiters sys = [(r1, WaiterListening), (r2, WaiterListening)]
     \<and> (\<forall>sys'. liveStep\<^sup>*\<^sup>* sys sys' \<and> sys_accepted sys' = [s] \<and> \<not> lv_closed (sys_controller sys') \<and> \<not> sys_ctxDone sys'
          \<longrightarrow> take 2 (sys_waiters sys') = [(r1, WaiterListening), (r2, WaiterListening)])"
proof (intro exI conjI allI impI)
  let ?sys = "filedAway initial snapshots r1 r2 s"
  show "liveStep\<^sup>*\<^sup>* (liveStart initial snapshots) ?sys" by (rule filedAway_reachable [OF assms])
  show "lv_pending (sys_controller ?sys) = [(requestKey r2, [s])]"
    "sys_waiters ?sys = [(r1, WaiterListening), (r2, WaiterListening)]"
    by (simp_all add: filedAway_def assms(1))
qed (use filedAway_forever in blast)

lemma live_lost_wakeup_witness:
  "\<exists>sys. liveStep\<^sup>*\<^sup>* (liveStart demoState []) sys
     \<and> lv_pending (sys_controller sys) = [((RoleSalesManager, 1), [salesSubmission])]
     \<and> map snd (sys_waiters sys) = [WaiterListening, WaiterListening]"
proof -
  have "submissionKeyOf salesSubmission = requestKey (waitFor RoleSalesManager)"
    "requestKey (waitFor RoleProductionManager) \<noteq> requestKey (waitFor RoleSalesManager)"
    by (simp_all add: wait_keys submissionKeyOf_def salesSubmission_def)
  from live_lost_wakeup [OF this, of demoState "[]"] show ?thesis by (auto simp: wait_keys)
qed

text \<open>C36: A match that ends can panic: \<open>Submit\<close> and \<open>Publish\<close> check under the mutex that the
  controller is open and send after it, and a send into a channel that was closed in between
  panics.  Without closing there is no panic.\<close>

theorem live_panics_when_closing:
  "(\<exists>sys. liveStep\<^sup>*\<^sup>* (liveStart initial snapshots) sys \<and> sys_panicked sys \<and> sys_publishers sys = [])
     \<and> (\<exists>sys. liveStep\<^sup>*\<^sup>* (liveStart initial snapshots) sys \<and> sys_panicked sys \<and> sys_senders sys = [])
     \<and> (\<forall>sys. liveStep\<^sup>*\<^sup>* (liveStart initial snapshots) sys \<and> sys_panicked sys \<longrightarrow> lv_closed (sys_controller sys))"
  using submit_panic_reachable publish_panic_reachable panic_only_closed by blast

lemma live_panics_when_closing_witness:
  "\<exists>sys. liveStep\<^sup>*\<^sup>* (liveStart demoState []) sys \<and> sys_panicked sys \<and> lv_closed (sys_controller sys)"
  using live_panics_when_closing [of demoState "[]"] by blast

end
