(* ===== verification/Terminal.thy ===== *)
theory Terminal
  imports AIOrchestrator
begin

text \<open>
  What the screens share: messages of the terminal, text in panes, the layout of the shell and the
  fitting of lines into a pane (\<open>internal/adapters/tui/model.go\<close>), and the table a form is drawn as
  (\<open>spreadsheet_component.go\<close>).  What the terminal libraries make of a text is a parameter.
\<close>

section \<open>The terminal library\<close>

text \<open>The width a text takes, a text wrapped to a width, a cell of a table (active or not) and a
  column's title at a width, a pane (focused or not), panes side by side and one below the other,
  what a frame adds; the runes that can be printed, and a time in UTC by RFC 3339.\<close>

record terminal =
  tm_Width :: "string \<Rightarrow> int"
  tm_Wrap :: "int \<Rightarrow> string \<Rightarrow> string"
  tm_Cell :: "bool \<Rightarrow> int \<Rightarrow> string \<Rightarrow> string"
  tm_Title :: "int \<Rightarrow> string \<Rightarrow> string"
  tm_Pane :: "bool \<Rightarrow> int \<Rightarrow> int \<Rightarrow> string \<Rightarrow> string"
  tm_JoinHorizontal :: "string list \<Rightarrow> string"
  tm_JoinVertical :: "string list \<Rightarrow> string"
  tm_FrameWidth :: int
  tm_FrameHeight :: int
  tm_IsPrint :: "string \<Rightarrow> bool"
  tm_FormatTime :: "Time \<Rightarrow> string"

text \<open>The runes of a text in UTF-8: a byte with the continuation bytes behind it.\<close>

definition continues :: "char \<Rightarrow> bool" where
  "continues c \<longleftrightarrow> 128 \<le> (of_char c :: nat) \<and> (of_char c :: nat) < 192"

function runes :: "string \<Rightarrow> string list" where
  "runes [] = []"
| "runes (c # cs) = (c # takeWhile continues cs) # runes (dropWhile continues cs)"
  by pat_completeness auto

termination
  by (relation "measure length") (simp_all add: length_dropWhile_le le_imp_less_Suc)

definition stringOfRunes :: "string list \<Rightarrow> string" where
  "stringOfRunes = concat"

definition repeatText :: "string \<Rightarrow> int \<Rightarrow> string" where
  "repeatText s n = concat (replicate (nat n) s)"

text \<open>The remainder of Go, with the sign of the dividend.\<close>

definition go_mod :: "int \<Rightarrow> int \<Rightarrow> int" where
  "go_mod a b = a - b * go_div a b"

lemma go_mod_range:
  assumes "0 \<le> a" "0 < b"
  shows "0 \<le> go_mod a b \<and> go_mod a b < b"
  using assms by (simp add: go_mod_def go_div_nonneg minus_mult_div_eq_mod)

section \<open>Messages\<close>

text \<open>A key with its type, its runes and the name the library gives it, and the button of a mouse.\<close>

datatype keyType = KeyEsc | KeyEnter | KeyBackspace | KeySpace | KeyRunes | KeyOther

record KeyMsg =
  ky_Type :: keyType
  ky_Runes :: "string list"
  ky_String :: string

datatype mouseButton = MouseButtonWheelUp | MouseButtonWheelDown | MouseButtonWheelOther | MouseButtonOther

definition IsWheel :: "mouseButton \<Rightarrow> bool" where
  "IsWheel button \<longleftrightarrow> button \<noteq> MouseButtonOther"

section \<open>Lines in a pane\<close>

text \<open>\<open>strings.Split\<close> at the ends of lines.\<close>

fun splitLines :: "string \<Rightarrow> string list" where
  "splitLines [] = [[]]"
| "splitLines (c # cs) =
    (if c = newline then [] # splitLines cs
     else case splitLines cs of l # ls \<Rightarrow> (c # l) # ls | [] \<Rightarrow> [[c]])"

definition wrapLine :: "terminal \<Rightarrow> string \<Rightarrow> int \<Rightarrow> string" where
  "wrapLine tm line width = (if width \<le> 0 \<or> int (length line) \<le> width then line else tm_Wrap tm width line)"

definition paneTextWidth :: "int \<Rightarrow> int" where
  "paneTextWidth width = max (width - 2) 1"

definition flattenLines :: "string list \<Rightarrow> string list" where
  "flattenLines lines = concat (map splitLines lines)"

definition fitLines :: "string list \<Rightarrow> int \<Rightarrow> string list" where
  "fitLines lines maxLines =
    (if maxLines \<le> 0 then []
     else let flattened = flattenLines lines
     in if int (length flattened) \<le> maxLines then flattened
        else if maxLines = 1 then [''...'']
        else take (nat (maxLines - 1)) flattened @ [''...''])"

definition clampScrollOffset :: "int \<Rightarrow> int \<Rightarrow> int \<Rightarrow> int" where
  "clampScrollOffset offset lineCount visibleLines =
    (if visibleLines \<le> 0 \<or> lineCount \<le> visibleLines then 0
     else if offset < 0 then 0
     else let maxOffset = lineCount - visibleLines in if offset > maxOffset then maxOffset else offset)"

definition viewportLines :: "string list \<Rightarrow> int \<Rightarrow> int \<Rightarrow> string list" where
  "viewportLines lines maxLines offset =
    (if maxLines \<le> 0 then []
     else let flattened = flattenLines lines
     in if int (length flattened) \<le> maxLines then flattened
        else let clamped = clampScrollOffset offset (int (length flattened)) maxLines
        in take (nat maxLines) (drop (nat clamped) flattened))"

definition paneText :: "string \<Rightarrow> bool \<Rightarrow> string list \<Rightarrow> string" where
  "paneText title focused content =
    (if focused then title @ '' [focus]'' else title) @ [newline] @ joinStrings content [newline]"

definition renderPane :: "terminal \<Rightarrow> string \<Rightarrow> string list \<Rightarrow> int \<Rightarrow> int \<Rightarrow> bool \<Rightarrow> string" where
  "renderPane tm title lines width height focused =
     tm_Pane tm focused width height (paneText title focused (fitLines lines (max (height - 1) 0)))"

definition renderScrollablePane :: "terminal \<Rightarrow> string \<Rightarrow> string list \<Rightarrow> int \<Rightarrow> int \<Rightarrow> bool \<Rightarrow> int \<Rightarrow> string" where
  "renderScrollablePane tm title lines width height focused offset =
     tm_Pane tm focused width height (paneText title focused (viewportLines lines (max (height - 1) 0) offset))"

section \<open>The layout\<close>

datatype layoutMode = layoutWide | layoutCompact | layoutStacked

definition fallbackDimension :: "int \<Rightarrow> int \<Rightarrow> int" where
  "fallbackDimension value1 fallback = (if 0 < value1 then value1 else fallback)"

definition chooseLayout :: "int \<Rightarrow> int \<Rightarrow> layoutMode" where
  "chooseLayout width height =
    (if width < 72 \<or> height < 18 then layoutStacked
     else if width < 118 \<or> height < 24 then layoutCompact else layoutWide)"

fun layoutPaneRows :: "layoutMode \<Rightarrow> int" where
  "layoutPaneRows layoutStacked = 3"
| "layoutPaneRows layoutCompact = 2"
| "layoutPaneRows layoutWide = 1"

definition commandBarHeight :: "int \<Rightarrow> int" where
  "commandBarHeight totalHeight = (if totalHeight < 20 then 1 else if totalHeight < 24 then 2 else 3)"

definition paneWidths :: "int \<Rightarrow> int \<times> int \<times> int" where
  "paneWidths totalWidth =
    (let left = max (go_div totalWidth 4) 24; right = max (go_div totalWidth 4) 28;
         center = totalWidth - left - right
     in if center < 34
        then let center = 34; left = max (go_div (totalWidth - center) 2) 24
             in (left, center, totalWidth - left - center)
        else (left, center, right))"

definition compactPaneHeights :: "int \<Rightarrow> int \<times> int" where
  "compactPaneHeights totalHeight =
    (if totalHeight \<le> 2 then (1, 1)
     else let top = max (go_div totalHeight 3) 5; remaining = totalHeight - top
     in if 5 \<le> remaining then (top, remaining)
        else let top = max (totalHeight - 5) 3 in (top, max (totalHeight - top) 1))"

definition stackedPaneHeights :: "int \<Rightarrow> int \<times> int \<times> int" where
  "stackedPaneHeights totalHeight =
    (let base = max (go_div totalHeight 3) 1; remaining = max (totalHeight - base) 1;
         history = max (go_div remaining 2) 1
     in (base, history, max (totalHeight - base - history) 1))"

definition splitWidth :: "int \<Rightarrow> int \<times> int" where
  "splitWidth totalWidth =
    (let left = max (go_div totalWidth 3) 28;
         left = (if left > totalWidth - 28 then max (go_div totalWidth 2) 24 else left)
     in (left, max (totalWidth - left) 28))"

text \<open>What \<open>View\<close> and \<open>historyPaneDimensions\<close> compute first: the width, the layout, and the heights of the
  content and of the command bar.\<close>

definition shellGeometry :: "terminal \<Rightarrow> int \<Rightarrow> int \<Rightarrow> int \<times> layoutMode \<times> int \<times> int" where
  "shellGeometry tm w h =
    (let width = fallbackDimension w 120; height = fallbackDimension h 32; layout = chooseLayout width height;
         totalRows = layoutPaneRows layout + 1;
         availableContentHeight = max (height - totalRows * tm_FrameHeight tm) totalRows;
         commandHeight = commandBarHeight availableContentHeight;
         contentHeight = max (availableContentHeight - commandHeight) (layoutPaneRows layout)
     in (width, layout, contentHeight, commandHeight))"

definition clampIndex :: "int \<Rightarrow> int \<Rightarrow> int" where
  "clampIndex index size1 =
    (if size1 \<le> 0 then 0 else if index < 0 then 0 else if index \<ge> size1 then size1 - 1 else index)"

definition cycleIndex :: "int \<Rightarrow> int \<Rightarrow> int \<Rightarrow> int" where
  "cycleIndex current size1 delta =
    (if size1 \<le> 0 then 0 else go_mod (clampIndex current size1 + delta + size1) size1)"

section \<open>A table\<close>

definition spreadsheetColumnGap :: int where
  "spreadsheetColumnGap = 3"

record spreadsheetColumn =
  sh_Title :: string
  sh_Width :: int

record spreadsheetCell =
  cl_Text :: string
  cl_Placeholder :: string
  cl_Active :: bool

record spreadsheetComponent =
  st_Columns :: "spreadsheetColumn list"
  st_Rows :: "spreadsheetCell list list"

definition fitSpreadsheetText :: "terminal \<Rightarrow> string \<Rightarrow> int \<Rightarrow> string" where
  "fitSpreadsheetText tm text1 width =
    (if width \<le> 0 then []
     else if tm_Width tm text1 \<le> width then text1
     else let rs = runes text1
     in if width \<le> 3 then stringOfRunes (take (nat (min width (int (length rs)))) rs)
        else stringOfRunes (take (nat (min (int (length rs)) (width - 3))) rs) @ ''...'')"

definition renderSpreadsheetCell :: "terminal \<Rightarrow> spreadsheetCell \<Rightarrow> int \<Rightarrow> string" where
  "renderSpreadsheetCell tm cell width =
    (let text1 = (if TrimSpace (cl_Text cell) = [] then cl_Placeholder cell else cl_Text cell)
     in tm_Cell tm (cl_Active cell) width (fitSpreadsheetText tm text1 width))"

definition totalWidth :: "spreadsheetComponent \<Rightarrow> int" where
  "totalWidth s = foldl (\<lambda>total column. total + sh_Width column) 0 (st_Columns s)
     + (int (length (st_Columns s)) - 1) * spreadsheetColumnGap"

definition renderHeader :: "terminal \<Rightarrow> spreadsheetComponent \<Rightarrow> string" where
  "renderHeader tm s =
     joinStrings (map (\<lambda>column. tm_Title tm (sh_Width column) (fitSpreadsheetText tm (sh_Title column) (sh_Width column)))
       (st_Columns s)) (repeatText '' '' spreadsheetColumnGap)"

text \<open>The cells of a row by the columns; a missing cell is empty.\<close>

definition zeroCell :: spreadsheetCell where
  "zeroCell = \<lparr>cl_Text = [], cl_Placeholder = [], cl_Active = False\<rparr>"

fun rowParts :: "terminal \<Rightarrow> spreadsheetColumn list \<Rightarrow> spreadsheetCell list \<Rightarrow> string list" where
  "rowParts tm [] row = []"
| "rowParts tm (column # columns) [] = renderSpreadsheetCell tm zeroCell (sh_Width column) # rowParts tm columns []"
| "rowParts tm (column # columns) (cell # row) =
     renderSpreadsheetCell tm cell (sh_Width column) # rowParts tm columns row"

definition renderRow :: "terminal \<Rightarrow> spreadsheetComponent \<Rightarrow> spreadsheetCell list \<Rightarrow> string" where
  "renderRow tm s row = joinStrings (rowParts tm (st_Columns s) row) (repeatText '' '' spreadsheetColumnGap)"

definition renderEmptyRow :: "terminal \<Rightarrow> spreadsheetComponent \<Rightarrow> string" where
  "renderEmptyRow tm s =
     renderRow tm s (map (\<lambda>index. zeroCell\<lparr>cl_Active := (index = 0)\<rparr>) [0..<length (st_Columns s)])"

definition renderRows :: "terminal \<Rightarrow> spreadsheetComponent \<Rightarrow> string list" where
  "renderRows tm s = (if st_Rows s = [] then [renderEmptyRow tm s] else map (renderRow tm s) (st_Rows s))"

text \<open>The rule is the box character U+2500 in UTF-8.\<close>

definition ruleText :: string where
  "ruleText = map char_of [226 :: nat, 148, 128]"

definition spreadsheet_Render :: "terminal \<Rightarrow> spreadsheetComponent \<Rightarrow> string" where
  "spreadsheet_Render tm s =
    (if st_Columns s = [] then []
     else joinStrings ([renderHeader tm s, repeatText ruleText (totalWidth s)] @ renderRows tm s) [CHR 0x0A])"

section \<open>Lines and indexes stay in range\<close>

lemma clampIndex_range: "0 < size1 \<Longrightarrow> 0 \<le> clampIndex index size1 \<and> clampIndex index size1 < size1"
  by (simp add: clampIndex_def)

lemma cycleIndex_range:
  "0 < size1 \<Longrightarrow> - size1 \<le> delta \<Longrightarrow> 0 \<le> cycleIndex current size1 delta \<and> cycleIndex current size1 delta < size1"
  using clampIndex_range [of size1 current] by (simp add: cycleIndex_def go_mod_range)

lemma clampScroll_range:
  "0 \<le> clampScrollOffset offset lineCount visibleLines
     \<and> (visibleLines < lineCount \<longrightarrow> 0 < visibleLines \<longrightarrow>
          clampScrollOffset offset lineCount visibleLines + visibleLines \<le> lineCount)"
  by (auto simp: clampScrollOffset_def Let_def)

lemma fitLines_length: "0 \<le> n \<Longrightarrow> int (length (fitLines lines n)) \<le> n"
  by (auto simp: fitLines_def Let_def min_def)

lemma viewportLines_length:
  "0 \<le> n \<Longrightarrow> int (length (viewportLines lines n offset)) = min n (int (length (flattenLines lines)))"
  using clampScroll_range [of offset "int (length (flattenLines lines))" n]
  by (auto simp: viewportLines_def Let_def min_def)

end
