(* ===== verification/FormEditor.thy ===== *)
theory FormEditor
  imports Terminal
begin

text \<open>
  The form of a role's action in the terminal (\<open>internal/adapters/tui/form_editor.go\<close>).  An operation
  that reads or writes a row or an option by its index returns \<open>None\<close> where the code would panic.
  \<open>syncCurrentTable\<close> and \<open>syncTable\<close> have empty bodies and are left out.
\<close>

section \<open>Options of a choice\<close>

definition cycleOptionValue :: "Option list \<Rightarrow> string \<Rightarrow> int \<Rightarrow> (string \<times> bool) option" where
  "cycleOptionValue options current delta =
    (if options = [] then Some ([], False)
     else if TrimSpace current = []
     then Some (opt_Value (if delta < 0 then last options else hd options), True)
     else let index = (if find_first (\<lambda>opt. opt_Value opt = current) options = None then 0
                       else int (length (takeWhile (\<lambda>opt. opt_Value opt \<noteq> current) options)));
              index = go_mod (index + delta + int (length options)) (int (length options))
     in if index < 0 then None else Some (opt_Value (options ! nat index), True))"

definition initialChoiceValue :: "Option list \<Rightarrow> string \<Rightarrow> string" where
  "initialChoiceValue options current =
    (if TrimSpace current \<noteq> [] then current else case options of [] \<Rightarrow> [] | opt # _ \<Rightarrow> opt_Value opt)"

definition optionLabel :: "Option list \<Rightarrow> string \<Rightarrow> string" where
  "optionLabel options value1 =
    (case find_first (\<lambda>opt. opt_Value opt = value1) options of Some opt \<Rightarrow> opt_Label opt | None \<Rightarrow> value1)"

section \<open>The form\<close>

text \<open>A row is a map that is only read and written by key.\<close>

type_synonym formRow = "string \<rightharpoonup> string"

record formFieldValue =
  fv_Scalar :: string
  fv_Rows :: "formRow list"

record actionFormModel =
  fm_Schema :: RoleSchema
  fm_Values :: "string \<rightharpoonup> formFieldValue"
  fm_FieldIndex :: int
  fm_RowIndex :: int
  fm_ColumnIndex :: int
  fm_Editing :: bool
  fm_InputBuffer :: string

definition noValue :: formFieldValue where
  "noValue = \<lparr>fv_Scalar = [], fv_Rows = []\<rparr>"

definition valueOf :: "actionFormModel \<Rightarrow> string \<Rightarrow> formFieldValue" where
  "valueOf m i = (case fm_Values m i of Some v \<Rightarrow> v | None \<Rightarrow> noValue)"

definition cellOf :: "formRow \<Rightarrow> string \<Rightarrow> string" where
  "cellOf row i = (case row i of Some v \<Rightarrow> v | None \<Rightarrow> [])"

definition rowAt :: "formRow list \<Rightarrow> int \<Rightarrow> formRow option" where
  "rowAt rows i = (if 0 \<le> i \<and> i < int (length rows) then Some (rows ! nat i) else None)"

definition newActionFormModel :: "RoleSchema \<Rightarrow> actionFormModel" where
  "newActionFormModel schema =
     \<lparr>fm_Schema = schema,
      fm_Values = foldl (\<lambda>values field. values(fld_ID field \<mapsto> noValue)) Map.empty (rsc_Fields schema),
      fm_FieldIndex = 0, fm_RowIndex = 0, fm_ColumnIndex = 0, fm_Editing = False, fm_InputBuffer = []\<rparr>"

text \<open>An index brought into a list, as \<open>currentField\<close> and \<open>currentColumn\<close> do.\<close>

definition clampedNth :: "'a list \<Rightarrow> int \<Rightarrow> 'a" where
  "clampedNth xs i =
     xs ! nat (let i = (if i < 0 then 0 else i) in if i \<ge> int (length xs) then int (length xs) - 1 else i)"

definition currentField :: "actionFormModel \<Rightarrow> FieldSpec option" where
  "currentField m =
    (if rsc_Fields (fm_Schema m) = [] then None else Some (clampedNth (rsc_Fields (fm_Schema m)) (fm_FieldIndex m)))"

definition currentColumn :: "actionFormModel \<Rightarrow> ColumnSpec option" where
  "currentColumn m =
    (case currentField m of
       None \<Rightarrow> None
     | Some field \<Rightarrow>
    (case fld_Collection field of
       None \<Rightarrow> None
     | Some collection \<Rightarrow>
         if cln_Columns collection = [] then None else Some (clampedNth (cln_Columns collection) (fm_ColumnIndex m))))"

definition currentValue :: "actionFormModel \<Rightarrow> formFieldValue" where
  "currentValue m = (case currentField m of None \<Rightarrow> noValue | Some field \<Rightarrow> valueOf m (fld_ID field))"

definition storeCurrentValue :: "formFieldValue \<Rightarrow> actionFormModel \<Rightarrow> actionFormModel" where
  "storeCurrentValue v m =
    (case currentField m of None \<Rightarrow> m | Some field \<Rightarrow> m\<lparr>fm_Values := (fm_Values m)(fld_ID field \<mapsto> v)\<rparr>)"

definition resetFocusForField :: "actionFormModel \<Rightarrow> actionFormModel" where
  "resetFocusForField m = m\<lparr>fm_RowIndex := 0, fm_ColumnIndex := 0, fm_Editing := False, fm_InputBuffer := []\<rparr>"

text \<open>The columns of the current field, when it is a collection.\<close>

definition currentColumns :: "actionFormModel \<Rightarrow> ColumnSpec list option" where
  "currentColumns m =
    (case currentField m of None \<Rightarrow> None | Some field \<Rightarrow> map_option cln_Columns (fld_Collection field))"

subsection \<open>Moving\<close>

definition form_MoveUp :: "actionFormModel \<Rightarrow> actionFormModel" where
  "form_MoveUp m =
    (if currentColumns m \<noteq> None \<and> 0 < fm_RowIndex m then m\<lparr>fm_RowIndex := fm_RowIndex m - 1\<rparr>
     else if 0 < fm_FieldIndex m then resetFocusForField (m\<lparr>fm_FieldIndex := fm_FieldIndex m - 1\<rparr>)
     else m)"

definition nextField :: "actionFormModel \<Rightarrow> actionFormModel" where
  "nextField m =
    (if fm_FieldIndex m < int (length (rsc_Fields (fm_Schema m))) - 1
     then resetFocusForField (m\<lparr>fm_FieldIndex := fm_FieldIndex m + 1\<rparr>) else m)"

definition form_MoveDown :: "actionFormModel \<Rightarrow> actionFormModel" where
  "form_MoveDown m =
    (if currentColumns m \<noteq> None \<and> fm_RowIndex m < int (length (fv_Rows (currentValue m))) - 1
     then m\<lparr>fm_RowIndex := fm_RowIndex m + 1\<rparr> else nextField m)"

definition form_MoveLeft :: "actionFormModel \<Rightarrow> actionFormModel" where
  "form_MoveLeft m =
    (if currentColumns m \<noteq> None \<and> 0 < fm_ColumnIndex m then m\<lparr>fm_ColumnIndex := fm_ColumnIndex m - 1\<rparr> else m)"

definition form_MoveRight :: "actionFormModel \<Rightarrow> actionFormModel" where
  "form_MoveRight m =
    (case currentColumns m of
       None \<Rightarrow> m
     | Some columns \<Rightarrow> if fm_ColumnIndex m < int (length columns) - 1
                      then m\<lparr>fm_ColumnIndex := fm_ColumnIndex m + 1\<rparr> else m)"

subsection \<open>Rows\<close>

definition form_AddRow :: "actionFormModel \<Rightarrow> actionFormModel" where
  "form_AddRow m =
    (case currentColumns m of
       None \<Rightarrow> m
     | Some columns \<Rightarrow>
        let row = foldl (\<lambda>row column. row(col_ID column \<mapsto> [])) Map.empty columns;
            v = (currentValue m)\<lparr>fv_Rows := fv_Rows (currentValue m) @ [row]\<rparr>
        in (storeCurrentValue v m)\<lparr>fm_RowIndex := int (length (fv_Rows v)) - 1, fm_ColumnIndex := 0\<rparr>)"

definition form_RemoveRow :: "actionFormModel \<Rightarrow> bool \<times> actionFormModel" where
  "form_RemoveRow m =
    (let rows = fv_Rows (currentValue m); i = fm_RowIndex m
     in if currentColumns m = None \<or> rows = [] \<or> i < 0 \<or> i \<ge> int (length rows) then (False, m)
        else let rows = take (nat i) rows @ drop (nat i + 1) rows;
                 m = m\<lparr>fm_RowIndex := (if i \<ge> int (length rows) \<and> 0 < i then i - 1 else i)\<rparr>
        in (True, storeCurrentValue ((currentValue m)\<lparr>fv_Rows := rows\<rparr>) m))"

text \<open>The row a choice or an edit works on; without rows one is added first.\<close>

definition withRow :: "actionFormModel \<Rightarrow> actionFormModel" where
  "withRow m = (if fv_Rows (currentValue m) = [] then form_AddRow m else m)"

definition storeCell :: "formRow \<Rightarrow> string \<Rightarrow> string \<Rightarrow> actionFormModel \<Rightarrow> actionFormModel" where
  "storeCell row i s m =
     storeCurrentValue ((currentValue m)\<lparr>fv_Rows := (fv_Rows (currentValue m))[nat (fm_RowIndex m) := row(i \<mapsto> s)]\<rparr>) m"

definition storeScalar :: "string \<Rightarrow> actionFormModel \<Rightarrow> actionFormModel" where
  "storeScalar s m = storeCurrentValue ((currentValue m)\<lparr>fv_Scalar := s\<rparr>) m"

definition CycleChoice :: "int \<Rightarrow> actionFormModel \<Rightarrow> (bool \<times> actionFormModel) option" where
  "CycleChoice delta m =
    (if delta = 0 then Some (False, m)
     else case currentField m of
       None \<Rightarrow> Some (False, m)
     | Some field \<Rightarrow>
    (if fld_Collection field \<noteq> None
     then case currentColumn m of
            None \<Rightarrow> Some (False, m)
          | Some column \<Rightarrow>
              if col_Kind column \<noteq> ValueKindChoice then Some (False, m)
              else let m = withRow m
              in case rowAt (fv_Rows (currentValue m)) (fm_RowIndex m) of
                   None \<Rightarrow> None
                 | Some row \<Rightarrow>
                (case cycleOptionValue (OptionSource_Options (col_Options column) (Some row)) (cellOf row (col_ID column)) delta of
                   None \<Rightarrow> None
                 | Some (next, ok) \<Rightarrow>
                     if ok then Some (True, storeCell row (col_ID column) next m) else Some (False, m))
     else if fld_Kind field \<noteq> ValueKindChoice then Some (False, m)
     else case cycleOptionValue (src_Static (fld_Options field)) (fv_Scalar (currentValue m)) delta of
            None \<Rightarrow> None
          | Some (next, ok) \<Rightarrow> if ok then Some (True, storeScalar next m) else Some (False, m)))"

subsection \<open>Editing\<close>

definition BeginEdit :: "actionFormModel \<Rightarrow> (bool \<times> actionFormModel) option" where
  "BeginEdit m =
    (case currentField m of
       None \<Rightarrow> Some (False, m)
     | Some field \<Rightarrow>
    (if fld_Collection field \<noteq> None
     then case currentColumn m of
            None \<Rightarrow> Some (False, m)
          | Some column \<Rightarrow>
             let m = withRow m
             in case rowAt (fv_Rows (currentValue m)) (fm_RowIndex m) of
                  None \<Rightarrow> None
                | Some row \<Rightarrow>
                    let cell = cellOf row (col_ID column);
                        buffer = (if col_Kind column = ValueKindChoice
                          then initialChoiceValue (OptionSource_Options (col_Options column) (Some row)) cell else cell)
                    in Some (True, m\<lparr>fm_InputBuffer := buffer, fm_Editing := True\<rparr>)
     else let scalar = fv_Scalar (currentValue m);
              buffer = (if fld_Kind field = ValueKindChoice
                then initialChoiceValue (src_Static (fld_Options field)) scalar else scalar)
          in Some (True, m\<lparr>fm_InputBuffer := buffer, fm_Editing := True\<rparr>)))"

definition AdvanceAfterCommit :: "actionFormModel \<Rightarrow> actionFormModel" where
  "AdvanceAfterCommit m =
    (if currentField m = None then m
     else case currentColumns m of
       Some columns \<Rightarrow>
         if fm_ColumnIndex m < int (length columns) - 1 then m\<lparr>fm_ColumnIndex := fm_ColumnIndex m + 1\<rparr>
         else if fm_RowIndex m < int (length (fv_Rows (currentValue m))) - 1
         then m\<lparr>fm_RowIndex := fm_RowIndex m + 1, fm_ColumnIndex := 0\<rparr> else m
     | None \<Rightarrow> nextField m)"

definition endEdit :: "actionFormModel \<Rightarrow> actionFormModel" where
  "endEdit m = m\<lparr>fm_Editing := False, fm_InputBuffer := []\<rparr>"

definition CommitEdit :: "actionFormModel \<Rightarrow> (bool \<times> actionFormModel) option" where
  "CommitEdit m =
    (if \<not> fm_Editing m then Some (False, m)
     else case currentField m of
       None \<Rightarrow> Some (False, m)
     | Some field \<Rightarrow>
    (if fld_Collection field \<noteq> None
     then case currentColumn m of
            None \<Rightarrow> Some (False, m)
          | Some column \<Rightarrow>
              if fv_Rows (currentValue m) = [] then Some (False, m)
              else case rowAt (fv_Rows (currentValue m)) (fm_RowIndex m) of
                     None \<Rightarrow> None
                   | Some row \<Rightarrow> Some (True, AdvanceAfterCommit (endEdit
                       (storeCell row (col_ID column) (TrimSpace (fm_InputBuffer m)) m)))
     else Some (True, AdvanceAfterCommit (endEdit (storeScalar (TrimSpace (fm_InputBuffer m)) m)))))"

definition CancelEdit :: "actionFormModel \<Rightarrow> bool \<times> actionFormModel" where
  "CancelEdit m = (if fm_Editing m then (True, endEdit m) else (False, m))"

definition editingChoice :: "actionFormModel \<Rightarrow> bool" where
  "editingChoice m \<longleftrightarrow> fm_Editing m \<and>
    (case currentField m of
       None \<Rightarrow> False
     | Some field \<Rightarrow>
         if fld_Collection field \<noteq> None
         then (case currentColumn m of None \<Rightarrow> False | Some column \<Rightarrow> col_Kind column = ValueKindChoice)
         else fld_Kind field = ValueKindChoice)"

definition TypeRunes :: "string \<Rightarrow> actionFormModel \<Rightarrow> bool \<times> actionFormModel" where
  "TypeRunes input m =
    (if \<not> fm_Editing m \<or> editingChoice m then (False, m)
     else (True, m\<lparr>fm_InputBuffer := fm_InputBuffer m @ input\<rparr>))"

text \<open>A backspace removes the last byte.\<close>

definition form_Backspace :: "actionFormModel \<Rightarrow> bool \<times> actionFormModel" where
  "form_Backspace m =
    (if \<not> fm_Editing m \<or> editingChoice m \<or> fm_InputBuffer m = [] then (False, m)
     else (True, m\<lparr>fm_InputBuffer := butlast (fm_InputBuffer m)\<rparr>))"

definition CycleEditingChoice :: "int \<Rightarrow> actionFormModel \<Rightarrow> (bool \<times> actionFormModel) option" where
  "CycleEditingChoice delta m =
    (if \<not> editingChoice m \<or> delta = 0 then Some (False, m)
     else case currentField m of
       None \<Rightarrow> Some (False, m)
     | Some field \<Rightarrow>
    (let cycled = (\<lambda>options. case cycleOptionValue options (fm_InputBuffer m) delta of
           None \<Rightarrow> None
         | Some (next, ok) \<Rightarrow> if ok then Some (True, m\<lparr>fm_InputBuffer := next\<rparr>) else Some (False, m))
     in if fld_Collection field \<noteq> None
        then if fv_Rows (currentValue m) = [] then Some (False, m)
             else case currentColumn m of
               None \<Rightarrow> Some (False, m)
             | Some column \<Rightarrow>
                (case rowAt (fv_Rows (currentValue m)) (fm_RowIndex m) of
                   None \<Rightarrow> None
                 | Some row \<Rightarrow> cycled (OptionSource_Options (col_Options column) (Some row)))
        else cycled (src_Static (fld_Options field))))"

section \<open>Drawing the form\<close>

definition renderInputCursor :: "string \<Rightarrow> string" where
  "renderInputCursor s = s @ ''|''"

text \<open>Whether a field is the current one, by its id.\<close>

definition isCurrent :: "actionFormModel \<Rightarrow> FieldSpec \<Rightarrow> bool" where
  "isCurrent m field \<longleftrightarrow> (case currentField m of None \<Rightarrow> False | Some current \<Rightarrow> fld_ID current = fld_ID field)"

definition displayScalar :: "actionFormModel \<Rightarrow> FieldSpec \<Rightarrow> string" where
  "displayScalar m field =
    (let scalar = fv_Scalar (valueOf m (fld_ID field)); options = src_Static (fld_Options field)
     in if fm_Editing m \<and> isCurrent m field \<and> fld_Collection field = None
        then renderInputCursor (if fld_Kind field = ValueKindChoice then optionLabel options (fm_InputBuffer m)
               else fm_InputBuffer m)
        else if TrimSpace scalar = [] then fld_Placeholder field
        else if fld_Kind field = ValueKindChoice then optionLabel options scalar else scalar)"

definition displayCell :: "actionFormModel \<Rightarrow> FieldSpec \<Rightarrow> nat \<Rightarrow> ColumnSpec \<Rightarrow> string" where
  "displayCell m field rowIndex column =
    (let rows = fv_Rows (valueOf m (fld_ID field))
     in if rowIndex \<ge> length rows then col_Placeholder column
        else let cell = cellOf (rows ! rowIndex) (col_ID column);
                 options = OptionSource_Options (col_Options column) (Some (rows ! rowIndex))
        in if fm_Editing m \<and> isCurrent m field \<and> fm_RowIndex m = int rowIndex
              \<and> (case currentColumn m of None \<Rightarrow> False | Some current \<Rightarrow> col_ID current = col_ID column)
           then renderInputCursor (if col_Kind column = ValueKindChoice then optionLabel options (fm_InputBuffer m)
                  else fm_InputBuffer m)
           else if TrimSpace cell = [] then col_Placeholder column
           else if col_Kind column = ValueKindChoice then optionLabel options cell else cell)"

definition defaultCollectionColumnWidth :: "ColumnSpec \<Rightarrow> int" where
  "defaultCollectionColumnWidth column =
    (let width = int (length (col_Label column)) + 2;
         width = (if int (length (col_Placeholder column)) + 2 > width then int (length (col_Placeholder column)) + 2 else width);
         width = (if col_Kind column = ValueKindChoice \<and> width < 14 then 14 else width);
         width = (if col_Kind column = ValueKindInteger \<and> width < 8 then 8 else width);
         width = (if width < 10 then 10 else width)
     in if width > 24 then 24 else width)"

text \<open>The columns of a field that is a collection; the code reads them only there.\<close>

definition fieldColumns :: "FieldSpec \<Rightarrow> ColumnSpec list" where
  "fieldColumns field = (case fld_Collection field of None \<Rightarrow> [] | Some collection \<Rightarrow> cln_Columns collection)"

definition tableRow :: "(ColumnSpec \<Rightarrow> string) \<Rightarrow> (nat \<Rightarrow> bool) \<Rightarrow> FieldSpec \<Rightarrow> spreadsheetCell list" where
  "tableRow text1 active field =
     map (\<lambda>(index, column). \<lparr>cl_Text = text1 column, cl_Placeholder = col_Placeholder column, cl_Active = active index\<rparr>)
       (zip [0..<length (fieldColumns field)] (fieldColumns field))"

definition tableRows :: "actionFormModel \<Rightarrow> FieldSpec \<Rightarrow> bool \<Rightarrow> spreadsheetCell list list" where
  "tableRows m field active =
    (let rows = fv_Rows (valueOf m (fld_ID field));
         here = (\<lambda>r c. active \<and> fm_RowIndex m = int r \<and> fm_ColumnIndex m = int c)
     in if rows = [] then [tableRow (\<lambda>_. []) (here 0) field]
        else map (\<lambda>r. tableRow (displayCell m field r) (here r) field) [0..<length rows])"

fun columnWidths :: "int \<Rightarrow> int \<Rightarrow> ColumnSpec list \<Rightarrow> int list" where
  "columnWidths baseWidth extra [] = []"
| "columnWidths baseWidth extra (column # columns) =
    (let colWidth = (if 0 < extra then baseWidth + 1 else baseWidth);
         preferred = defaultCollectionColumnWidth column
     in (if preferred > colWidth then preferred else colWidth)
        # columnWidths baseWidth (if 0 < extra then extra - 1 else extra) columns)"

definition tableColumns :: "actionFormModel \<Rightarrow> FieldSpec \<Rightarrow> int \<Rightarrow> bool \<Rightarrow> spreadsheetColumn list" where
  "tableColumns m field width active =
    (let columns = fieldColumns field; columnCount = int (length columns)
     in if columns = [] then []
        else let available = width - (columnCount - 1) * spreadsheetColumnGap;
                 available = (if available < columnCount * 8 then columnCount * 8 else available);
                 baseWidth = go_div available columnCount;
                 extra = go_mod available columnCount;
                 baseWidth = (if baseWidth < 10 then 10 else baseWidth)
        in map (\<lambda>(index, column, colWidth).
             \<lparr>sh_Title = (if active \<and> int index = fm_ColumnIndex m then ''['' @ col_Label column @ '']'' else col_Label column),
              sh_Width = colWidth\<rparr>) (zip [0..<length columns] (zip columns (columnWidths baseWidth extra columns))))"

definition renderedCollectionTable :: "terminal \<Rightarrow> actionFormModel \<Rightarrow> FieldSpec \<Rightarrow> int \<Rightarrow> bool \<Rightarrow> string" where
  "renderedCollectionTable tm m field width active =
     spreadsheet_Render tm \<lparr>st_Columns = tableColumns m field width active, st_Rows = tableRows m field active\<rparr>"

definition currentColumnSuffix :: "string \<Rightarrow> string" where
  "currentColumnSuffix label = (if TrimSpace label = [] then [] else '', column '' @ label)"

definition currentCollectionSummary :: "actionFormModel \<Rightarrow> FieldSpec \<Rightarrow> string" where
  "currentCollectionSummary m field =
    (case fld_Collection field of
       None \<Rightarrow> []
     | Some collection \<Rightarrow>
        let rows = fv_Rows (valueOf m (fld_ID field))
        in if rows = [] then cln_EmptyText collection @ '' Press a to add a row.''
           else itoa (int (length rows)) @ '' row(s). Selected row '' @ itoa (fm_RowIndex m + 1)
             @ currentColumnSuffix (case currentColumn m of None \<Rightarrow> [] | Some column \<Rightarrow> col_Label column))"

section \<open>No operation panics\<close>

text \<open>The operations of the form, and a series of them.\<close>

datatype formOp =
    OpMoveUp | OpMoveDown | OpMoveLeft | OpMoveRight
  | OpAddRow | OpRemoveRow | OpCycleChoice bool
  | OpBeginEdit | OpCommitEdit | OpCancelEdit | OpTypeRunes string | OpBackspace | OpCycleEditing bool

definition stepOf :: "bool \<Rightarrow> int" where
  "stepOf forward = (if forward then 1 else - 1)"

fun formStep :: "formOp \<Rightarrow> actionFormModel \<Rightarrow> actionFormModel option" where
  "formStep OpMoveUp m = Some (form_MoveUp m)"
| "formStep OpMoveDown m = Some (form_MoveDown m)"
| "formStep OpMoveLeft m = Some (form_MoveLeft m)"
| "formStep OpMoveRight m = Some (form_MoveRight m)"
| "formStep OpAddRow m = Some (form_AddRow m)"
| "formStep OpRemoveRow m = Some (snd (form_RemoveRow m))"
| "formStep (OpCycleChoice forward) m = map_option snd (CycleChoice (stepOf forward) m)"
| "formStep OpBeginEdit m = map_option snd (BeginEdit m)"
| "formStep OpCommitEdit m = map_option snd (CommitEdit m)"
| "formStep OpCancelEdit m = Some (snd (CancelEdit m))"
| "formStep (OpTypeRunes input) m = Some (snd (TypeRunes input m))"
| "formStep OpBackspace m = Some (snd (form_Backspace m))"
| "formStep (OpCycleEditing forward) m = map_option snd (CycleEditingChoice (stepOf forward) m)"

fun runForm :: "formOp list \<Rightarrow> actionFormModel \<Rightarrow> actionFormModel option" where
  "runForm [] m = Some m"
| "runForm (op # ops) m = (case formStep op m of None \<Rightarrow> None | Some m \<Rightarrow> runForm ops m)"

text \<open>The indexes stand in the form: on a field, on a row if there is one, and on a column.\<close>

definition formOk :: "actionFormModel \<Rightarrow> bool" where
  "formOk m \<longleftrightarrow> 0 \<le> fm_FieldIndex m \<and> 0 \<le> fm_RowIndex m \<and> 0 \<le> fm_ColumnIndex m
     \<and> (rsc_Fields (fm_Schema m) \<noteq> [] \<longrightarrow> fm_FieldIndex m < int (length (rsc_Fields (fm_Schema m))))
     \<and> (\<forall>columns. currentColumns m = Some columns \<longrightarrow>
          (fm_RowIndex m = 0 \<or> fm_RowIndex m < int (length (fv_Rows (currentValue m))))
          \<and> (fm_ColumnIndex m = 0 \<or> fm_ColumnIndex m < int (length columns)))"

lemma currentField_update [simp]:
  "currentField (m\<lparr>fm_Values := x\<rparr>) = currentField m" "currentField (m\<lparr>fm_RowIndex := i\<rparr>) = currentField m"
  "currentField (m\<lparr>fm_ColumnIndex := i\<rparr>) = currentField m" "currentField (m\<lparr>fm_Editing := b\<rparr>) = currentField m"
  "currentField (m\<lparr>fm_InputBuffer := t\<rparr>) = currentField m"
  by (simp_all add: currentField_def)

lemma currentColumns_update [simp]:
  "currentColumns (m\<lparr>fm_Values := x\<rparr>) = currentColumns m" "currentColumns (m\<lparr>fm_RowIndex := i\<rparr>) = currentColumns m"
  "currentColumns (m\<lparr>fm_ColumnIndex := i\<rparr>) = currentColumns m" "currentColumns (m\<lparr>fm_Editing := b\<rparr>) = currentColumns m"
  "currentColumns (m\<lparr>fm_InputBuffer := t\<rparr>) = currentColumns m"
  by (simp_all add: currentColumns_def)

lemma currentValue_update [simp]:
  "currentValue (m\<lparr>fm_RowIndex := i\<rparr>) = currentValue m" "currentValue (m\<lparr>fm_ColumnIndex := i\<rparr>) = currentValue m"
  "currentValue (m\<lparr>fm_Editing := b\<rparr>) = currentValue m" "currentValue (m\<lparr>fm_InputBuffer := t\<rparr>) = currentValue m"
  by (simp_all add: currentValue_def valueOf_def split: option.split)

lemma storeCurrentValue_fields [simp]:
  "fm_Schema (storeCurrentValue v m) = fm_Schema m" "fm_FieldIndex (storeCurrentValue v m) = fm_FieldIndex m"
  "fm_RowIndex (storeCurrentValue v m) = fm_RowIndex m" "fm_ColumnIndex (storeCurrentValue v m) = fm_ColumnIndex m"
  "fm_Editing (storeCurrentValue v m) = fm_Editing m" "fm_InputBuffer (storeCurrentValue v m) = fm_InputBuffer m"
  "currentField (storeCurrentValue v m) = currentField m" "currentColumns (storeCurrentValue v m) = currentColumns m"
  by (simp_all add: storeCurrentValue_def split: option.split)

lemma currentValue_store [simp]:
  "currentField m \<noteq> None \<Longrightarrow> currentValue (storeCurrentValue v m) = v"
  by (auto simp: currentValue_def storeCurrentValue_def valueOf_def)

lemma currentColumns_field: "currentColumns m = Some columns \<Longrightarrow> currentField m \<noteq> None"
  by (auto simp: currentColumns_def split: option.splits)

lemma currentColumns_Some: "currentColumns m \<noteq> None \<longleftrightarrow> (\<exists>field. currentField m = Some field \<and> fld_Collection field \<noteq> None)"
  by (simp add: currentColumns_def split: option.split)

lemma rowAt_Some: "0 \<le> i \<Longrightarrow> i < int (length rows) \<Longrightarrow> rowAt rows i = Some (rows ! nat i)"
  by (simp add: rowAt_def)

lemma formOk_resetFocus:
  "0 \<le> fm_FieldIndex m \<Longrightarrow> (rsc_Fields (fm_Schema m) \<noteq> [] \<Longrightarrow> fm_FieldIndex m < int (length (rsc_Fields (fm_Schema m)))) \<Longrightarrow>
     formOk (resetFocusForField m)"
  by (simp add: formOk_def resetFocusForField_def)

lemma formOk_moves:
  assumes "formOk m"
  shows "formOk (form_MoveUp m)" "formOk (nextField m)" "formOk (form_MoveDown m)" "formOk (form_MoveLeft m)"
    "formOk (form_MoveRight m)"
proof -
  show "formOk (form_MoveUp m)"
    using assms by (auto simp: form_MoveUp_def formOk_def resetFocusForField_def)
  show next1: "formOk (nextField m)"
    using assms by (auto simp: nextField_def formOk_def resetFocusForField_def)
  show "formOk (form_MoveDown m)"
    using assms next1 by (auto simp: form_MoveDown_def formOk_def)
  show "formOk (form_MoveLeft m)" using assms by (auto simp: form_MoveLeft_def formOk_def)
  show "formOk (form_MoveRight m)" using assms by (auto simp: form_MoveRight_def formOk_def split: option.split)
qed

lemma formOk_AddRow: "formOk m \<Longrightarrow> formOk (form_AddRow m)"
  by (auto simp: form_AddRow_def formOk_def Let_def currentColumns_field split: option.split)

lemma formOk_withRow:
  assumes "formOk m"
  shows "formOk (withRow m)"
    "currentColumns m \<noteq> None \<Longrightarrow> \<exists>row. rowAt (fv_Rows (currentValue (withRow m))) (fm_RowIndex (withRow m)) = Some row"
proof -
  show "formOk (withRow m)" using assms by (simp add: withRow_def formOk_AddRow)
  assume "currentColumns m \<noteq> None"
  then obtain columns where "currentColumns m = Some columns" by blast
  with assms show "\<exists>row. rowAt (fv_Rows (currentValue (withRow m))) (fm_RowIndex (withRow m)) = Some row"
    using currentColumns_field [of m columns]
    by (auto simp: withRow_def form_AddRow_def Let_def rowAt_def formOk_def)
qed

lemma formOk_storeCell: "formOk m \<Longrightarrow> formOk (storeCell row i s m)"
  by (auto simp: storeCell_def formOk_def currentColumns_field)

lemma formOk_storeScalar: "formOk m \<Longrightarrow> formOk (storeScalar s m)"
  by (auto simp: storeScalar_def formOk_def currentColumns_field)

lemma formOk_edit:
  assumes "formOk m"
  shows "formOk (m\<lparr>fm_Editing := b\<rparr>)" "formOk (m\<lparr>fm_InputBuffer := t\<rparr>)" "formOk (endEdit m)" "formOk (AdvanceAfterCommit m)"
  using assms formOk_moves(2) [OF assms]
  by (auto simp: formOk_def endEdit_def AdvanceAfterCommit_def split: option.split)

lemma formOk_RemoveRow:
  assumes "formOk m"
  shows "formOk (snd (form_RemoveRow m))"
proof (cases "currentColumns m = None \<or> fv_Rows (currentValue m) = [] \<or> fm_RowIndex m \<ge> int (length (fv_Rows (currentValue m)))")
  case True
  then show ?thesis using assms by (auto simp: form_RemoveRow_def Let_def)
next
  case False
  let ?rows = "fv_Rows (currentValue m)" and ?i = "fm_RowIndex m"
  define rest where "rest = take (nat ?i) ?rows @ drop (nat ?i + 1) ?rows"
  define k where "k = (if ?i \<ge> int (length rest) \<and> 0 < ?i then ?i - 1 else ?i)"
  have i: "0 \<le> ?i" "?i < int (length ?rows)" using assms False by (auto simp: formOk_def)
  then have rows: "int (length rest) = int (length ?rows) - 1"
    by (simp add: rest_def min_def of_nat_diff)
  obtain columns where c: "currentColumns m = Some columns" using False by (cases "currentColumns m") auto
  have step: "snd (form_RemoveRow m) = storeCurrentValue ((currentValue m)\<lparr>fv_Rows := rest\<rparr>) (m\<lparr>fm_RowIndex := k\<rparr>)"
    using c False i by (simp add: form_RemoveRow_def Let_def rest_def k_def)
  have k: "0 \<le> k" "k = 0 \<or> k < int (length rest)" using i rows by (auto simp: k_def)
  have f: "currentField m \<noteq> None" using currentColumns_field [OF c] .
  show ?thesis
    using assms k f unfolding step formOk_def by simp
qed

lemma cycleOptionValue_ok:
  assumes "delta = 1 \<or> delta = - 1"
  shows "cycleOptionValue options current delta \<noteq> None"
proof (cases "options = []")
  case False
  then have "0 < int (length options)" by simp
  moreover have "0 \<le> i + delta + int (length options)" if "0 \<le> i" for i
    using that assms \<open>0 < int (length options)\<close> by linarith
  ultimately have index: "\<not> go_mod (i + delta + int (length options)) (int (length options)) < 0" if "0 \<le> i" for i
    using go_mod_range that by (meson not_less)
  show ?thesis
    unfolding cycleOptionValue_def Let_def using False index by (auto simp del: split_paired_Ex)
qed (simp add: cycleOptionValue_def)

lemma currentColumn_columns: "currentColumn m = Some column \<Longrightarrow> currentColumns m \<noteq> None"
  by (auto simp: currentColumn_def currentColumns_def split: option.splits)

lemma currentValue_row:
  assumes "formOk m" "currentColumns m \<noteq> None" "fv_Rows (currentValue m) \<noteq> []"
  shows "\<exists>row. rowAt (fv_Rows (currentValue m)) (fm_RowIndex m) = Some row"
  using formOk_withRow(2) [OF assms(1,2)] assms(3) by (simp add: withRow_def)

lemma CycleChoice_ok:
  assumes "formOk m" "delta = 1 \<or> delta = - 1"
  shows "\<exists>changed m'. CycleChoice delta m = Some (changed, m') \<and> formOk m'"
proof (cases "currentField m")
  case (Some field)
  show ?thesis
  proof (cases "fld_Collection field")
    case None
    obtain next1 ok where "cycleOptionValue (src_Static (fld_Options field)) (fv_Scalar (currentValue m)) delta = Some (next1, ok)"
      using cycleOptionValue_ok [OF assms(2)] by fastforce
    then show ?thesis
      using assms Some None formOk_storeScalar [OF assms(1)] by (auto simp: CycleChoice_def)
  next
    case coll: (Some collection)
    show ?thesis
    proof (cases "currentColumn m")
      case None
      then show ?thesis using assms Some coll by (auto simp: CycleChoice_def)
    next
      case column: (Some column)
      obtain row where row: "rowAt (fv_Rows (currentValue (withRow m))) (fm_RowIndex (withRow m)) = Some row"
        using formOk_withRow(2) [OF assms(1) currentColumn_columns [OF column]] by blast
      obtain next1 ok where "cycleOptionValue (OptionSource_Options (col_Options column) (Some row)) (cellOf row (col_ID column)) delta
          = Some (next1, ok)"
        using cycleOptionValue_ok [OF assms(2)] by fastforce
      then show ?thesis
        using assms Some coll column row formOk_withRow(1) [OF assms(1)]
        by (auto simp: CycleChoice_def Let_def formOk_storeCell)
    qed
  qed
qed (use assms in \<open>auto simp: CycleChoice_def\<close>)

lemma BeginEdit_ok:
  assumes "formOk m"
  shows "\<exists>changed m'. BeginEdit m = Some (changed, m') \<and> formOk m'"
proof (cases "currentField m")
  case (Some field)
  show ?thesis
  proof (cases "currentColumn m")
    case None
    then show ?thesis using assms Some by (auto simp: BeginEdit_def Let_def formOk_edit)
  next
    case column: (Some column)
    obtain row where "rowAt (fv_Rows (currentValue (withRow m))) (fm_RowIndex (withRow m)) = Some row"
      using formOk_withRow(2) [OF assms(1) currentColumn_columns [OF column]] by blast
    then show ?thesis
      using assms Some column formOk_withRow(1) [OF assms(1)] by (auto simp: BeginEdit_def Let_def formOk_edit)
  qed
qed (use assms in \<open>auto simp: BeginEdit_def\<close>)

lemma CommitEdit_ok:
  assumes "formOk m"
  shows "\<exists>changed m'. CommitEdit m = Some (changed, m') \<and> formOk m'"
proof (cases "currentField m")
  case (Some field)
  have scalar: "\<exists>changed m'. Some (True, AdvanceAfterCommit (endEdit (storeScalar t m))) = Some (changed, m') \<and> formOk m'" for t
    by (intro exI conjI, rule refl) (simp add: assms formOk_edit formOk_storeScalar)
  have cell: "\<exists>changed m'. Some (True, AdvanceAfterCommit (endEdit (storeCell row i t m))) = Some (changed, m') \<and> formOk m'" for row i t
    by (intro exI conjI, rule refl) (simp add: assms formOk_edit formOk_storeCell)
  show ?thesis
  proof (cases "currentColumn m")
    case None
    then show ?thesis using assms Some scalar by (auto simp: CommitEdit_def)
  next
    case column: (Some column)
    show ?thesis
      using assms Some column scalar cell currentValue_row [OF assms(1) currentColumn_columns [OF column]]
      by (auto simp: CommitEdit_def simp del: option.inject)
  qed
qed (use assms in \<open>auto simp: CommitEdit_def\<close>)

lemma CycleEditingChoice_ok:
  assumes "formOk m" "delta = 1 \<or> delta = - 1"
  shows "\<exists>changed m'. CycleEditingChoice delta m = Some (changed, m') \<and> formOk m'"
proof -
  have cycled: "\<exists>changed m'. (case cycleOptionValue options (fm_InputBuffer m) delta of None \<Rightarrow> None
      | Some (next, ok) \<Rightarrow> if ok then Some (True, m\<lparr>fm_InputBuffer := next\<rparr>) else Some (False, m)) = Some (changed, m') \<and> formOk m'"
    for options
    using cycleOptionValue_ok [OF assms(2), of options "fm_InputBuffer m"] assms(1) formOk_edit(2) [OF assms(1)]
    by (auto simp del: split_paired_Ex)
  show ?thesis
  proof (cases "currentColumn m")
    case None
    then show ?thesis
      using assms(1) cycled by (auto simp: CycleEditingChoice_def Let_def split: option.split)
  next
    case column: (Some column)
    show ?thesis
      using assms(1) column cycled currentValue_row [OF assms(1) currentColumn_columns [OF column]]
      by (auto simp: CycleEditingChoice_def Let_def split: option.split)
  qed
qed

lemma formStep_ok:
  assumes "formOk m"
  shows "\<exists>m'. formStep op m = Some m' \<and> formOk m'"
proof (cases op)
  case (OpCycleChoice forward)
  then show ?thesis using CycleChoice_ok [OF assms, of "stepOf forward"] by (auto simp: stepOf_def)
next
  case (OpCycleEditing forward)
  then show ?thesis using CycleEditingChoice_ok [OF assms, of "stepOf forward"] by (auto simp: stepOf_def)
next
  case OpBeginEdit
  then show ?thesis using BeginEdit_ok [OF assms] by auto
next
  case OpCommitEdit
  then show ?thesis using CommitEdit_ok [OF assms] by auto
qed (use assms in \<open>auto simp: formOk_moves formOk_AddRow formOk_RemoveRow CancelEdit_def TypeRunes_def
  form_Backspace_def formOk_edit\<close>)

lemma runForm_ok: "formOk m \<Longrightarrow> \<exists>m'. runForm ops m = Some m' \<and> formOk m'"
proof (induction ops arbitrary: m)
  case (Cons op ops)
  from formStep_ok [OF Cons.prems, of op] obtain m1 where "formStep op m = Some m1" "formOk m1" by blast
  with Cons.IH show ?case by simp
qed simp

lemma formOk_new: "formOk (newActionFormModel schema)"
  by (auto simp: formOk_def newActionFormModel_def)

text \<open>The operations leave the schema as it is.\<close>

lemma form_schema [simp]:
  "fm_Schema (resetFocusForField m) = fm_Schema m" "fm_Schema (form_MoveUp m) = fm_Schema m"
  "fm_Schema (nextField m) = fm_Schema m" "fm_Schema (form_MoveDown m) = fm_Schema m"
  "fm_Schema (form_MoveLeft m) = fm_Schema m" "fm_Schema (form_MoveRight m) = fm_Schema m"
  "fm_Schema (form_AddRow m) = fm_Schema m" "fm_Schema (snd (form_RemoveRow m)) = fm_Schema m"
  "fm_Schema (withRow m) = fm_Schema m" "fm_Schema (storeCell row i s m) = fm_Schema m"
  "fm_Schema (storeScalar s m) = fm_Schema m" "fm_Schema (endEdit m) = fm_Schema m"
  "fm_Schema (AdvanceAfterCommit m) = fm_Schema m"
  by (simp_all add: resetFocusForField_def form_MoveUp_def nextField_def form_MoveDown_def form_MoveLeft_def
      form_MoveRight_def form_AddRow_def form_RemoveRow_def withRow_def storeCell_def storeScalar_def endEdit_def
      AdvanceAfterCommit_def Let_def split: option.split)

lemma formStep_schema: "formStep op m = Some m' \<Longrightarrow> fm_Schema m' = fm_Schema m"
  by (cases op) (auto simp: CycleChoice_def BeginEdit_def CommitEdit_def CancelEdit_def TypeRunes_def form_Backspace_def
      CycleEditingChoice_def Let_def split: if_splits option.splits)

end
