(* ===== verification/TuiState.thy ===== *)
theory TuiState
  imports FormEditor RoleReport
begin

text \<open>
  The state of the gameplay shell (\<open>internal/adapters/tui/model.go\<close>): the model with its drafts, what
  is read from it, and the texts for roles, phases, panes and workspaces.
\<close>

section \<open>Data\<close>

datatype draftStage = draftStageEditing | draftStageReview | draftStageSubmitted

record actionDraft =
  df_stage :: draftStage
  df_form :: actionFormModel
  df_status :: string
  df_errorText :: string
  df_submission :: "ActionSubmission option"

datatype lookupView = lookupViewSuppliers | lookupViewRoutes | lookupViewBOM | lookupViewDemand

record lookupBrowserState =
  lk_active :: lookupView
  lk_partIndex :: int
  lk_routeIndex :: int
  lk_bomIndex :: int
  lk_demandIndex :: int

datatype ExitIntent = ExitIntentQuit | ExitIntentReturnToMenu

datatype QuitBehavior = QuitBehaviorQuitProgram | QuitBehaviorReturnToMenu

text \<open>The focused pane and the workspace are numbers, as they are cycled through.\<close>

definition paneDepartments :: int where
  "paneDepartments = 0"

definition paneHistory :: int where
  "paneHistory = 1"

definition paneStats :: int where
  "paneStats = 2"

definition paneCommandBar :: int where
  "paneCommandBar = 3"

type_synonym workspaceMode = int

definition workspaceActionEntry :: workspaceMode where
  "workspaceActionEntry = 0"

definition workspaceScenarioLookup :: workspaceMode where
  "workspaceScenarioLookup = 1"

definition workspaceRoleReport :: workspaceMode where
  "workspaceRoleReport = 2"

definition workspaceRoundFeed :: workspaceMode where
  "workspaceRoundFeed = 3"

definition workspaceHistoryArchive :: workspaceMode where
  "workspaceHistoryArchive = 4"

definition workspaceDebug :: workspaceMode where
  "workspaceDebug = 5"

lemmas pane_defs = paneDepartments_def paneHistory_def paneStats_def paneCommandBar_def

lemmas workspace_defs = workspaceActionEntry_def workspaceScenarioLookup_def workspaceRoleReport_def
  workspaceRoundFeed_def workspaceHistoryArchive_def workspaceDebug_def

record Model =
  tu_state :: MatchState
  tu_selectedRole :: int
  tu_focusedPane :: int
  tu_workspace :: workspaceMode
  tu_width :: int
  tu_height :: int
  tu_status :: string
  tu_streamClosed :: bool
  tu_spinnerFrame :: int
  tu_spinnerActive :: bool
  tu_spinnerGen :: int
  tu_historyScroll :: int
  tu_debugSelected :: string
  tu_debugExpanded :: "string \<rightharpoonup> bool"
  tu_drafts :: "RoleID \<rightharpoonup> actionDraft"
  tu_lookup :: lookupBrowserState
  tu_quitBehavior :: QuitBehavior
  tu_exitIntent :: ExitIntent

text \<open>What the model is given: the scenario; the snapshots of its source, when it keeps any; the
  recorded AI calls, when there is a log; where to submit, when that is live (an answer is the
  text of an error); the order of maps in reports; and the terminal.\<close>

record tuiEnv =
  te_scenario :: Definition
  te_snapshots :: "MatchState list option"
  te_debugLog :: "AICallRecord list option"
  te_submit :: "(ActionSubmission \<Rightarrow> string option) option"
  te_hasUpdates :: bool
  te_order :: MapOrder
  te_terminal :: terminal

text \<open>The zero values of a state and of an assignment.\<close>

definition zero_MatchState :: MatchState where
  "zero_MatchState =
     \<lparr>ms_MatchID = [], ms_ScenarioID = [], ms_CurrentRound = 0, ms_Roles = [],
      ms_RoundFlow = \<lparr>rf_Phase = RoundPhaseUnset, rf_SubmittedRoles = [], rf_WaitingOnRoles = [],
        rf_ProviderWaitingRoles = [], rf_AIRevealDelaySeconds = 0\<rparr>,
      ms_Plant = \<lparr>pl_Cash = 0, pl_Debt = 0, pl_DebtCeiling = 0, pl_PartsInventory = [], pl_WIPInventory = [],
        pl_FinishedInventory = [], pl_InspectionHolds = [], pl_InTransitSupply = [], pl_PendingReturns = [],
        pl_Receivables = [], pl_Payables = [], pl_Workstations = [], pl_Backlog = []\<rparr>,
      ms_Customers = [], ms_Suppliers = [], ms_ActiveTargets = BudgetTargets.make 0 0 0 0 0 0,
      ms_Metrics = zero_PlantMetrics, ms_History = \<lparr>rh_RecentRounds = []\<rparr>\<rparr>"

definition zero_RoleAssignment :: RoleAssignment where
  "zero_RoleAssignment = \<lparr>ra_RoleID = OtherRole [], ra_PlayerID = [], ra_IsHuman = False, ra_Provider = [], ra_ModelName = []\<rparr>"

definition NewModelWithSubmitAndQuitBehavior :: "QuitBehavior \<Rightarrow> Model" where
  "NewModelWithSubmitAndQuitBehavior quitBehavior =
     \<lparr>tu_state = zero_MatchState, tu_selectedRole = 0, tu_focusedPane = 0, tu_workspace = workspaceActionEntry,
      tu_width = 0, tu_height = 0, tu_status = ''Loading round state...'', tu_streamClosed = False,
      tu_spinnerFrame = 0, tu_spinnerActive = False, tu_spinnerGen = 0, tu_historyScroll = 0,
      tu_debugSelected = [], tu_debugExpanded = Map.empty, tu_drafts = Map.empty,
      tu_lookup = \<lparr>lk_active = lookupViewSuppliers, lk_partIndex = 0, lk_routeIndex = 0, lk_bomIndex = 0, lk_demandIndex = 0\<rparr>,
      tu_quitBehavior = quitBehavior, tu_exitIntent = ExitIntentQuit\<rparr>"

section \<open>Texts\<close>

text \<open>The start menu has a copy of this function.\<close>

definition displayRoleName :: "RoleID \<Rightarrow> string" where
  "displayRoleName roleID =
    (case roleID of
       RoleProcurementManager \<Rightarrow> ''Procurement Manager''
     | RoleProductionManager \<Rightarrow> ''Production Manager''
     | RoleSalesManager \<Rightarrow> ''Sales Manager''
     | RoleFinanceController \<Rightarrow> ''Finance Controller''
     | OtherRole _ \<Rightarrow> role_string roleID)"

definition paneName :: "int \<Rightarrow> string" where
  "paneName index =
    (if index = paneDepartments then ''departments''
     else if index = paneHistory then ''center workspace''
     else if index = paneStats then ''plant stats''
     else if index = paneCommandBar then ''command bar'' else ''unknown'')"

definition modeLabel :: "int \<Rightarrow> string" where
  "modeLabel focusedPane = ''Inspecting '' @ paneName focusedPane"

definition workspaceLabel :: "workspaceMode \<Rightarrow> string" where
  "workspaceLabel mode =
    (if mode = workspaceActionEntry then ''action entry''
     else if mode = workspaceScenarioLookup then ''scenario lookup''
     else if mode = workspaceRoleReport then ''role report''
     else if mode = workspaceHistoryArchive then ''history archive''
     else if mode = workspaceDebug then ''debug inspector'' else ''round feed'')"

definition workspaceShortLabel :: "workspaceMode \<Rightarrow> string" where
  "workspaceShortLabel mode =
    (if mode = workspaceActionEntry then ''action''
     else if mode = workspaceScenarioLookup then ''lookup''
     else if mode = workspaceRoleReport then ''report''
     else if mode = workspaceHistoryArchive then ''archive'' else ''feed'')"

definition roundPhaseLabel :: "RoundPhase \<Rightarrow> string" where
  "roundPhaseLabel phase =
    (case phase of
       RoundPhaseResolving \<Rightarrow> ''resolving simultaneous turn''
     | RoundPhaseRevealed \<Rightarrow> ''revealed round results''
     | _ \<Rightarrow> ''hidden simultaneous turn collection'')"

definition roundPhaseShortLabel :: "RoundPhase \<Rightarrow> string" where
  "roundPhaseShortLabel phase =
    (case phase of RoundPhaseResolving \<Rightarrow> ''resolving'' | RoundPhaseRevealed \<Rightarrow> ''revealed'' | _ \<Rightarrow> ''collecting'')"

definition roundPhaseDescription :: "RoundPhase \<Rightarrow> string" where
  "roundPhaseDescription phase =
    (case phase of
       RoundPhaseResolving \<Rightarrow> ''The round is resolving.''
     | RoundPhaseRevealed \<Rightarrow> ''The round has been revealed.''
     | _ \<Rightarrow> ''The round is waiting for simultaneous submissions.'')"

definition timelinePhaseLabel :: "RoundTimelinePhase \<Rightarrow> string" where
  "timelinePhaseLabel phase =
    (case phase of
       RoundTimelinePhaseIntake \<Rightarrow> ''Player action intake''
     | RoundTimelinePhaseSummary \<Rightarrow> ''Round summary''
     | RoundTimelinePhaseSimulation \<Rightarrow> ''Round simulation'')"

definition waitingOnSummary :: "RoleID list \<Rightarrow> string" where
  "waitingOnSummary waiting =
    (if waiting = [] then ''Waiting on: none'' else ''Waiting on: '' @ joinStrings (map displayRoleName waiting) '', '')"

definition humanRoleCount :: "RoleAssignment list \<Rightarrow> int" where
  "humanRoleCount assignments = foldl (\<lambda>n a. if ra_IsHuman a then n + 1 else n) 0 assignments"

section \<open>Roles and drafts\<close>

text \<open>\<open>clampRoleIndex\<close> has the body of \<open>clampIndex\<close>.\<close>

definition clampRoleIndex :: "int \<Rightarrow> int \<Rightarrow> int" where
  "clampRoleIndex = clampIndex"

definition selectedAssignment :: "Model \<Rightarrow> RoleAssignment" where
  "selectedAssignment m =
    (let roles = ms_Roles (tu_state m)
     in if roles = [] then zero_RoleAssignment else roles ! nat (clampRoleIndex (tu_selectedRole m) (int (length roles))))"

definition roleTitle :: "Model \<Rightarrow> string" where
  "roleTitle m =
    (if ms_Roles (tu_state m) = [] then ''No role selected'' else displayRoleName (ra_RoleID (selectedAssignment m)))"

text \<open>The roles that have submitted: those the state has and those with a locked draft.\<close>

definition submittedHere :: "Model \<Rightarrow> RoleID \<Rightarrow> bool" where
  "submittedHere m roleID \<longleftrightarrow> roleID \<in> set (rf_SubmittedRoles (ms_RoundFlow (tu_state m)))
     \<or> (case tu_drafts m roleID of Some draft \<Rightarrow> df_stage draft = draftStageSubmitted | None \<Rightarrow> False)"

definition effectiveRoundFlow :: "Model \<Rightarrow> RoundFlowState" where
  "effectiveRoundFlow m =
    (let flow = RoundFlowState_Clone (ms_RoundFlow (tu_state m));
         roles = map ra_RoleID (ms_Roles (tu_state m));
         submitted = filter (submittedHere m) roles;
         waiting = filter (\<lambda>roleID. \<not> submittedHere m roleID) roles;
         phase = (if rf_Phase flow = RoundPhaseUnset then RoundPhaseCollecting else rf_Phase flow);
         phase = (if phase = RoundPhaseCollecting \<and> waiting = [] \<and> submitted \<noteq> [] then RoundPhaseResolving else phase)
     in flow\<lparr>rf_SubmittedRoles := submitted, rf_WaitingOnRoles := waiting, rf_Phase := phase\<rparr>)"

definition hasProviderWaits :: "Model \<Rightarrow> bool" where
  "hasProviderWaits m \<longleftrightarrow> rf_ProviderWaitingRoles (effectiveRoundFlow m) \<noteq> []"

definition selectedRoleReport :: "tuiEnv \<Rightarrow> Model \<Rightarrow> RoleRoundReport" where
  "selectedRoleReport env m = BuildRoleRoundReport (te_order env) (tu_state m) (ra_RoleID (selectedAssignment m))"

definition selectedRoleView :: "Model \<Rightarrow> RoundView" where
  "selectedRoleView m =
     (BuildRoundView (tu_state m) (ra_RoleID (selectedAssignment m)))\<lparr>rv_RoundFlow := effectiveRoundFlow m\<rparr>"

text \<open>The action of a role in the latest round that has one.\<close>

definition tui_previousAcceptedAction :: "Model \<Rightarrow> RoleID \<Rightarrow> ActionSubmission option" where
  "tui_previousAcceptedAction m roleID =
     map_option ActionSubmission_Clone (find_first (\<lambda>a. as_RoleID a = roleID)
       (concat (map rr_Actions (rev (rh_RecentRounds (ms_History (tu_state m)))))))"

lemma selectedAssignment_role: "ms_Roles (tu_state m) \<noteq> [] \<Longrightarrow> selectedAssignment m \<in> set (ms_Roles (tu_state m))"
  using clampIndex_range [of "int (length (ms_Roles (tu_state m)))" "tu_selectedRole m"]
  by (auto simp: selectedAssignment_def Let_def clampRoleIndex_def nat_less_iff intro!: nth_mem)

lemma effectiveRoundFlow_fields [simp]:
  "rf_SubmittedRoles (effectiveRoundFlow m) = filter (submittedHere m) (map ra_RoleID (ms_Roles (tu_state m)))"
  "rf_WaitingOnRoles (effectiveRoundFlow m) =
     filter (\<lambda>roleID. \<not> submittedHere m roleID) (map ra_RoleID (ms_Roles (tu_state m)))"
  "rf_ProviderWaitingRoles (effectiveRoundFlow m) = rf_ProviderWaitingRoles (ms_RoundFlow (tu_state m))"
  by (simp_all add: effectiveRoundFlow_def Let_def clone_simps)

end
