(* ===== verification/ActionEntry.thy ===== *)
theory ActionEntry
  imports TuiState
begin

text \<open>
  The entry of actions in the gameplay shell (\<open>internal/adapters/tui/action_entry.go\<close>): drafts, their
  forms read as actions and filled from actions, the keys of the workspace, and its text.  An
  operation returns \<open>None\<close> where the code would panic; a key's result says whether it was handled,
  the model after it, and what it submitted to the live match.
\<close>

section \<open>Reading a form\<close>

text \<open>\<open>strconv.Atoi\<close>: an optional sign and decimal digits, within 64 bits.\<close>

definition isDigit :: "char \<Rightarrow> bool" where
  "isDigit c \<longleftrightarrow> 48 \<le> (of_char c :: nat) \<and> (of_char c :: nat) \<le> 57"

definition Atoi :: "string \<Rightarrow> int option" where
  "Atoi s =
    (let negative = (s \<noteq> [] \<and> hd s = CHR ''-'');
         digits = (if s \<noteq> [] \<and> (hd s = CHR ''-'' \<or> hd s = CHR ''+'') then tl s else s);
         n = int (read_digits digits); n = (if negative then - n else n)
     in if digits = [] \<or> \<not> list_all isDigit digits \<or> n < - (2 ^ 63) \<or> 2 ^ 63 \<le> n then None else Some n)"

definition parseNonNegativeInt :: "string \<Rightarrow> string + int" where
  "parseNonNegativeInt raw =
    (case Atoi (TrimSpace raw) of
       None \<Rightarrow> Inl ''enter a whole number that is 0 or greater''
     | Some n \<Rightarrow> if n < 0 then Inl ''enter a whole number that is 0 or greater'' else Inr n)"

text \<open>The loop over the rows of a table, and the error of a row.\<close>

fun parseRows :: "(int \<Rightarrow> formRow \<Rightarrow> string + 'a) \<Rightarrow> int \<Rightarrow> formRow list \<Rightarrow> string + 'a list" where
  "parseRows parse i [] = Inr []"
| "parseRows parse i (row # rows) =
    (case parse i row of
       Inl err \<Rightarrow> Inl err
     | Inr x \<Rightarrow> (case parseRows parse (i + 1) rows of Inl err \<Rightarrow> Inl err | Inr xs \<Rightarrow> Inr (x # xs)))"

definition rowError :: "string \<Rightarrow> int \<Rightarrow> string \<Rightarrow> string" where
  "rowError table index message = table @ '' row '' @ itoa (index + 1) @ '': '' @ message"

definition parseOrderRow :: "int \<Rightarrow> formRow \<Rightarrow> string + PurchaseOrderIntent" where
  "parseOrderRow index row =
    (let partID = TrimSpace (cellOf row ''part_id''); supplierID = TrimSpace (cellOf row ''supplier_id'')
     in if partID = [] then Inl (rowError ''orders'' index ''part is required'')
        else if supplierID = [] then Inl (rowError ''orders'' index ''supplier is required'')
        else case parseNonNegativeInt (cellOf row ''quantity'') of
          Inl err \<Rightarrow> Inl (rowError ''orders'' index err)
        | Inr quantity \<Rightarrow> Inr \<lparr>po_PartID = partID, po_SupplierID = supplierID, po_Quantity = quantity\<rparr>)"

definition parseReleaseRow :: "int \<Rightarrow> formRow \<Rightarrow> string + ProductionRelease" where
  "parseReleaseRow index row =
    (let productID = TrimSpace (cellOf row ''product_id'')
     in if productID = [] then Inl (rowError ''releases'' index ''product is required'')
        else case parseNonNegativeInt (cellOf row ''quantity'') of
          Inl err \<Rightarrow> Inl (rowError ''releases'' index err)
        | Inr quantity \<Rightarrow> Inr \<lparr>pr_ProductID = productID, pr_Quantity = quantity\<rparr>)"

definition parseAllocationRow :: "int \<Rightarrow> formRow \<Rightarrow> string + CapacityAllocation" where
  "parseAllocationRow index row =
    (let workstationID = TrimSpace (cellOf row ''workstation_id''); productID = TrimSpace (cellOf row ''product_id'')
     in if workstationID = [] then Inl (rowError ''capacity allocation'' index ''workstation is required'')
        else if productID = [] then Inl (rowError ''capacity allocation'' index ''product is required'')
        else case parseNonNegativeInt (cellOf row ''capacity'') of
          Inl err \<Rightarrow> Inl (rowError ''capacity allocation'' index err)
        | Inr capacity \<Rightarrow>
            Inr \<lparr>ca_WorkstationID = workstationID, ca_ProductID = productID, ca_Capacity = capacity\<rparr>)"

definition parseOvertimeRow :: "int \<Rightarrow> formRow \<Rightarrow> string + OvertimeAllocation" where
  "parseOvertimeRow index row =
    (let workstationID = TrimSpace (cellOf row ''workstation_id'')
     in if workstationID = [] then Inl (rowError ''overtime'' index ''workstation is required'')
        else case parseNonNegativeInt (cellOf row ''capacity'') of
          Inl err \<Rightarrow> Inl (rowError ''overtime'' index err)
        | Inr capacity \<Rightarrow> Inr \<lparr>oa_WorkstationID = workstationID, oa_Capacity = capacity\<rparr>)"

definition parseOfferRow :: "int \<Rightarrow> formRow \<Rightarrow> string + ProductOffer" where
  "parseOfferRow index row =
    (let productID = TrimSpace (cellOf row ''product_id'')
     in if productID = [] then Inl (rowError ''offers'' index ''product is required'')
        else case parseNonNegativeInt (cellOf row ''unit_price'') of
          Inl err \<Rightarrow> Inl (rowError ''offers'' index err)
        | Inr unitPrice \<Rightarrow> Inr \<lparr>of_ProductID = productID, of_UnitPrice = unitPrice\<rparr>)"

text \<open>One target of the finance form.\<close>

definition parseTarget :: "actionFormModel \<Rightarrow> string \<Rightarrow> string \<Rightarrow> string + int" where
  "parseTarget form i label =
    (case parseNonNegativeInt (fv_Scalar (valueOf form i)) of Inl err \<Rightarrow> Inl (label @ '': '' @ err) | Inr n \<Rightarrow> Inr n)"

definition parseFinanceTargets :: "actionFormModel \<Rightarrow> RoundView \<Rightarrow> string + BudgetTargets" where
  "parseFinanceTargets form view =
    (case parseTarget form ''procurement_budget'' ''procurement budget'' of
       Inl err \<Rightarrow> Inl err
     | Inr procurement \<Rightarrow>
    (case parseTarget form ''production_spend_budget'' ''production budget'' of
       Inl err \<Rightarrow> Inl err
     | Inr production \<Rightarrow>
    (case parseTarget form ''revenue_target'' ''revenue target'' of
       Inl err \<Rightarrow> Inl err
     | Inr revenue \<Rightarrow>
    (case parseTarget form ''cash_floor_target'' ''cash floor'' of
       Inl err \<Rightarrow> Inl err
     | Inr cashFloor \<Rightarrow>
    (case parseTarget form ''debt_ceiling_target'' ''debt ceiling'' of
       Inl err \<Rightarrow> Inl err
     | Inr debtCeiling \<Rightarrow>
        Inr \<lparr>bt_EffectiveRound = bt_EffectiveRound (rv_ActiveTargets view) + 1, bt_ProcurementBudget = procurement,
             bt_ProductionSpendBudget = production, bt_RevenueTarget = revenue, bt_CashFloorTarget = cashFloor,
             bt_DebtCeilingTarget = debtCeiling\<rparr>)))))"

definition parseRoleAction :: "RoleID \<Rightarrow> actionFormModel \<Rightarrow> RoundView \<Rightarrow> string + RoleAction" where
  "parseRoleAction roleID form view =
    (case roleID of
       RoleProcurementManager \<Rightarrow>
         (case parseRows parseOrderRow 0 (fv_Rows (valueOf form ''orders'')) of
            Inl err \<Rightarrow> Inl err
          | Inr orders \<Rightarrow> Inr (RoleAction.make (Some \<lparr>pra_Orders = orders\<rparr>) None None None))
     | RoleProductionManager \<Rightarrow>
         (case parseRows parseReleaseRow 0 (fv_Rows (valueOf form ''releases'')) of
            Inl err \<Rightarrow> Inl err
          | Inr releases \<Rightarrow>
         (case parseRows parseAllocationRow 0 (fv_Rows (valueOf form ''capacity_allocation'')) of
            Inl err \<Rightarrow> Inl err
          | Inr allocations \<Rightarrow>
         (case parseRows parseOvertimeRow 0 (fv_Rows (valueOf form ''overtime'')) of
            Inl err \<Rightarrow> Inl err
          | Inr overtime \<Rightarrow> Inr (RoleAction.make None (Some \<lparr>pda_Releases = releases,
              pda_CapacityAllocation = allocations, pda_Overtime = overtime\<rparr>) None None))))
     | RoleSalesManager \<Rightarrow>
         (case parseRows parseOfferRow 0 (fv_Rows (valueOf form ''product_offers'')) of
            Inl err \<Rightarrow> Inl err
          | Inr offers \<Rightarrow> Inr (RoleAction.make None None (Some \<lparr>sa_ProductOffers = offers\<rparr>) None))
     | RoleFinanceController \<Rightarrow>
         (case parseFinanceTargets form view of
            Inl err \<Rightarrow> Inl err
          | Inr targets \<Rightarrow> Inr (RoleAction.make None None None (Some \<lparr>fa_NextRoundTargets = targets\<rparr>)))
     | OtherRole _ \<Rightarrow> Inl (''unsupported role '' @ quoteText (role_string roleID)))"

text \<open>The fields the literal leaves out have their zero values.\<close>

definition buildSubmissionDraft :: "Model \<Rightarrow> actionDraft \<Rightarrow> string + ActionSubmission" where
  "buildSubmissionDraft m draft =
    (let assignment = selectedAssignment m; form = df_form draft; view = selectedRoleView m
     in case parseRoleAction (ra_RoleID assignment) form view of
          Inl err \<Rightarrow> Inl err
        | Inr action \<Rightarrow>
    (case FirstError (ValidateRoleAction (fm_Schema form) action view) of
          Some err \<Rightarrow> Inl err
        | None \<Rightarrow>
     let commentary = TrimSpace (fv_Scalar (valueOf form ''commentary''))
     in if commentary = [] then Inl ''commentary is required before review or submit''
        else Inr \<lparr>as_ActionID = [], as_MatchID = [], as_Round = 0, as_RoleID = OtherRole [], as_SubmittedAt = 0,
               as_Action = action,
               as_Commentary = \<lparr>cm_CommentaryID = [], cm_MatchID = [], cm_Round = 0, cm_ActorID = ra_PlayerID assignment,
                 cm_RoleID = OtherRole [], cm_Visibility = CommentaryPublic, cm_Body = commentary\<rparr>\<rparr>))"

section \<open>Filling a form\<close>

definition setValue :: "string \<Rightarrow> formFieldValue \<Rightarrow> actionFormModel \<Rightarrow> actionFormModel" where
  "setValue i v form = form\<lparr>fm_Values := (fm_Values form)(i \<mapsto> v)\<rparr>"

definition setRows :: "string \<Rightarrow> formRow list \<Rightarrow> actionFormModel \<Rightarrow> actionFormModel" where
  "setRows i rows = setValue i \<lparr>fv_Scalar = [], fv_Rows = rows\<rparr>"

definition setScalar :: "string \<Rightarrow> string \<Rightarrow> actionFormModel \<Rightarrow> actionFormModel" where
  "setScalar i s = setValue i \<lparr>fv_Scalar = s, fv_Rows = []\<rparr>"

definition orderRow :: "PurchaseOrderIntent \<Rightarrow> formRow" where
  "orderRow order = [''part_id'' \<mapsto> po_PartID order, ''supplier_id'' \<mapsto> po_SupplierID order,
     ''quantity'' \<mapsto> itoa (po_Quantity order)]"

definition releaseRow :: "ProductionRelease \<Rightarrow> formRow" where
  "releaseRow release = [''product_id'' \<mapsto> pr_ProductID release, ''quantity'' \<mapsto> itoa (pr_Quantity release)]"

definition allocationRow :: "CapacityAllocation \<Rightarrow> formRow" where
  "allocationRow allocation = [''workstation_id'' \<mapsto> ca_WorkstationID allocation,
     ''product_id'' \<mapsto> ca_ProductID allocation, ''capacity'' \<mapsto> itoa (ca_Capacity allocation)]"

definition overtimeRow :: "OvertimeAllocation \<Rightarrow> formRow" where
  "overtimeRow allocation =
     [''workstation_id'' \<mapsto> oa_WorkstationID allocation, ''capacity'' \<mapsto> itoa (oa_Capacity allocation)]"

definition offerRow :: "ProductOffer \<Rightarrow> formRow" where
  "offerRow offer = [''product_id'' \<mapsto> of_ProductID offer, ''unit_price'' \<mapsto> itoa (of_UnitPrice offer)]"

definition seedTargets :: "BudgetTargets \<Rightarrow> actionFormModel \<Rightarrow> actionFormModel" where
  "seedTargets targets form =
     setScalar ''debt_ceiling_target'' (itoa (bt_DebtCeilingTarget targets))
      (setScalar ''cash_floor_target'' (itoa (bt_CashFloorTarget targets))
       (setScalar ''revenue_target'' (itoa (bt_RevenueTarget targets))
        (setScalar ''production_spend_budget'' (itoa (bt_ProductionSpendBudget targets))
         (setScalar ''procurement_budget'' (itoa (bt_ProcurementBudget targets)) form))))"

definition seedDraftFromSubmission :: "ActionSubmission \<Rightarrow> actionFormModel \<Rightarrow> actionFormModel" where
  "seedDraftFromSubmission submission form =
    (let action = as_Action submission;
         form = (case act_Procurement action of None \<Rightarrow> form
                 | Some x \<Rightarrow> setRows ''orders'' (map orderRow (pra_Orders x)) form);
         form = (case act_Production action of None \<Rightarrow> form
                 | Some x \<Rightarrow> setRows ''overtime'' (map overtimeRow (pda_Overtime x))
                     (setRows ''capacity_allocation'' (map allocationRow (pda_CapacityAllocation x))
                       (setRows ''releases'' (map releaseRow (pda_Releases x)) form)));
         form = (case act_Sales action of None \<Rightarrow> form
                 | Some x \<Rightarrow> setRows ''product_offers'' (map offerRow (sa_ProductOffers x)) form);
         form = (case act_Finance action of None \<Rightarrow> form | Some x \<Rightarrow> seedTargets (fa_NextRoundTargets x) form)
     in setScalar ''commentary'' (cm_Body (as_Commentary submission)) form)"

section \<open>Drafts\<close>

definition newDraft :: "actionFormModel \<Rightarrow> actionDraft" where
  "newDraft form = \<lparr>df_stage = draftStageEditing, df_form = form, df_status = [], df_errorText = [], df_submission = None\<rparr>"

definition currentDraftForRole :: "tuiEnv \<Rightarrow> Model \<Rightarrow> RoleID \<Rightarrow> actionDraft" where
  "currentDraftForRole env m roleID =
    (case tu_drafts m roleID of
       Some draft \<Rightarrow> draft
     | None \<Rightarrow>
        let form = newActionFormModel (BuildFromCatalog (te_scenario env) roleID)
        in case tui_previousAcceptedAction m roleID of
             Some previous \<Rightarrow> newDraft (seedDraftFromSubmission previous form)
           | None \<Rightarrow>
               if roleID = RoleFinanceController
               then newDraft (seedTargets (rv_ActiveTargets (BuildRoundView (tu_state m) roleID)) form)
               else newDraft form)"

definition currentDraft :: "tuiEnv \<Rightarrow> Model \<Rightarrow> actionDraft" where
  "currentDraft env m = currentDraftForRole env m (ra_RoleID (selectedAssignment m))"

definition setDraft :: "RoleID \<Rightarrow> actionDraft \<Rightarrow> Model \<Rightarrow> Model" where
  "setDraft roleID draft m = m\<lparr>tu_drafts := (tu_drafts m)(roleID \<mapsto> draft)\<rparr>"

definition currentFocusLabel :: "actionDraft \<Rightarrow> string" where
  "currentFocusLabel draft =
    (case currentField (df_form draft) of
       None \<Rightarrow> ''field''
     | Some field \<Rightarrow>
         if fld_Collection field = None then fld_Label field
         else case currentColumn (df_form draft) of
           None \<Rightarrow> fld_Label field
         | Some column \<Rightarrow> fld_Label field @ '' row '' @ itoa (fm_RowIndex (df_form draft) + 1) @ '' '' @ col_Label column)"

text \<open>The next role of a person, going round from the selected one, whose draft is not locked.\<close>

definition nextPendingHumanRole :: "tuiEnv \<Rightarrow> Model \<Rightarrow> RoleID \<Rightarrow> int option" where
  "nextPendingHumanRole env m submittedRoleID =
    (let roles = ms_Roles (tu_state m); n = int (length roles); start = clampRoleIndex (tu_selectedRole m) n
     in find_first (\<lambda>index. let assignment = roles ! nat index in
          ra_IsHuman assignment \<and> ra_RoleID assignment \<noteq> submittedRoleID
          \<and> df_stage (currentDraftForRole env m (ra_RoleID assignment)) \<noteq> draftStageSubmitted)
        (map (\<lambda>step. go_mod (start + int step) n) [1..<length roles + 1]))"

definition advanceAfterSubmission :: "tuiEnv \<Rightarrow> RoleID \<Rightarrow> Model \<Rightarrow> Model" where
  "advanceAfterSubmission env roleID m =
    (case nextPendingHumanRole env m roleID of
       Some nextIndex \<Rightarrow>
         let m = m\<lparr>tu_selectedRole := nextIndex, tu_workspace := workspaceActionEntry\<rparr>
         in m\<lparr>tu_status := displayRoleName roleID @ '' submitted. Moved to '' @ roleTitle m @ '' for entry.''\<rparr>
     | None \<Rightarrow> m\<lparr>tu_workspace := workspaceRoundFeed,
         tu_status := displayRoleName roleID @ '' submitted. All human entries are locked; switched to the round feed.''\<rparr>)"

section \<open>Keys\<close>

text \<open>A key while a value is edited; every key is taken.\<close>

definition keepForm :: "RoleID \<Rightarrow> actionDraft \<Rightarrow> Model \<Rightarrow> bool \<times> actionFormModel \<Rightarrow> Model" where
  "keepForm roleID draft m r = (case r of (changed, form) \<Rightarrow> if changed then setDraft roleID (draft\<lparr>df_form := form\<rparr>) m else m)"

definition handleEditingKey :: "tuiEnv \<Rightarrow> KeyMsg \<Rightarrow> RoleID \<Rightarrow> Model \<Rightarrow> Model option" where
  "handleEditingKey env msg roleID m =
    (let draft = currentDraft env m; form = df_form draft; key = ky_String msg
     in if editingChoice form \<and> key \<in> {''up'', ''k'', ''left'', ''h''}
        then map_option (keepForm roleID draft m) (CycleEditingChoice (- 1) form)
        else if editingChoice form \<and> key \<in> {''down'', ''j'', ''right'', ''l''}
        then map_option (keepForm roleID draft m) (CycleEditingChoice 1 form)
        else case ky_Type msg of
          KeyEsc \<Rightarrow> Some (setDraft roleID (draft\<lparr>df_form := snd (CancelEdit form), df_status := ''Edit cancelled''\<rparr>) m)
        | KeyEnter \<Rightarrow>
            (case CommitEdit form of
               None \<Rightarrow> None
             | Some (changed, form) \<Rightarrow>
                 if changed
                 then let draft = draft\<lparr>df_form := form\<rparr>
                      in Some (setDraft roleID (draft\<lparr>df_status := ''Saved '' @ currentFocusLabel draft, df_errorText := []\<rparr>) m)
                 else Some m)
        | KeyBackspace \<Rightarrow> Some (keepForm roleID draft m (form_Backspace form))
        | KeySpace \<Rightarrow> Some (keepForm roleID draft m (TypeRunes '' '' form))
        | KeyRunes \<Rightarrow> Some (keepForm roleID draft m
            (TypeRunes (concat (filter (tm_IsPrint (te_terminal env)) (ky_Runes msg))) form))
        | KeyOther \<Rightarrow> Some m)"

type_synonym handled = "bool \<times> Model \<times> ActionSubmission list"

definition ignored :: "Model \<Rightarrow> handled" where
  "ignored m = (False, m, [])"

definition draftTaken :: "RoleID \<Rightarrow> actionDraft \<Rightarrow> Model \<Rightarrow> handled" where
  "draftTaken roleID draft m = (True, setDraft roleID draft m, [])"

definition focusMoved :: "RoleID \<Rightarrow> actionDraft \<Rightarrow> actionFormModel \<Rightarrow> Model \<Rightarrow> handled" where
  "focusMoved roleID draft form m =
    (let draft = draft\<lparr>df_form := form\<rparr>
     in draftTaken roleID (draft\<lparr>df_status := ''Focused '' @ currentFocusLabel draft\<rparr>) m)"

text \<open>The current field when it is a collection.\<close>

definition currentCollection :: "actionFormModel \<Rightarrow> FieldSpec option" where
  "currentCollection form =
    (case currentField form of None \<Rightarrow> None | Some field \<Rightarrow> if fld_Collection field = None then None else Some field)"

definition handleReview :: "RoleID \<Rightarrow> actionDraft \<Rightarrow> Model \<Rightarrow> handled" where
  "handleReview roleID draft m =
    (case buildSubmissionDraft m draft of
       Inl err \<Rightarrow> draftTaken roleID (draft\<lparr>df_errorText := err, df_status := ''Review blocked until the draft is valid''\<rparr>) m
     | Inr submission \<Rightarrow>
         draftTaken roleID (draft\<lparr>df_stage := draftStageReview, df_errorText := [],
           df_status := ''Draft ready for review'', df_submission := Some submission\<rparr>) m)"

definition handleSubmit :: "tuiEnv \<Rightarrow> RoleID \<Rightarrow> actionDraft \<Rightarrow> Model \<Rightarrow> handled" where
  "handleSubmit env roleID draft m =
    (case buildSubmissionDraft m draft of
       Inl err \<Rightarrow> draftTaken roleID (draft\<lparr>df_errorText := err, df_status := ''Submit blocked until the draft is valid''\<rparr>) m
     | Inr submission \<Rightarrow>
        let submission = submission\<lparr>as_MatchID := ms_MatchID (tu_state m), as_Round := ms_CurrentRound (tu_state m),
              as_RoleID := roleID\<rparr>;
            failure = (case te_submit env of None \<Rightarrow> None | Some submit \<Rightarrow> submit submission);
            sent = (if te_submit env = None then [] else [submission])
        in case failure of
             Some err \<Rightarrow> (True, setDraft roleID (draft\<lparr>df_errorText := err,
               df_status := ''Submit blocked until the live match accepts the action''\<rparr>) m, sent)
           | None \<Rightarrow>
               let draft = draft\<lparr>df_stage := draftStageSubmitted, df_submission := Some submission,
                     df_status := ''Submission locked for this round'', df_errorText := []\<rparr>
               in (True, advanceAfterSubmission env roleID (setDraft roleID draft m), sent))"

definition handleActionEntryKey :: "tuiEnv \<Rightarrow> KeyMsg \<Rightarrow> Model \<Rightarrow> handled option" where
  "handleActionEntryKey env msg m =
    (let assignment = selectedAssignment m; roleID = ra_RoleID assignment; draft = currentDraft env m;
         form = df_form draft; key = ky_String msg
     in if tu_workspace m \<noteq> workspaceActionEntry \<or> tu_focusedPane m \<noteq> paneHistory then Some (ignored m)
        else if \<not> ra_IsHuman assignment then Some (ignored m)
        else if df_stage draft = draftStageSubmitted then Some (ignored m)
        else if fm_Editing form then map_option (\<lambda>m. (True, m, [])) (handleEditingKey env msg roleID m)
        else if key \<in> {''up'', ''k''} then Some (focusMoved roleID draft (form_MoveUp form) m)
        else if key \<in> {''down'', ''j''} then Some (focusMoved roleID draft (form_MoveDown form) m)
        else if key \<in> {''left'', ''h''} then Some (focusMoved roleID draft (form_MoveLeft form) m)
        else if key \<in> {''right'', ''l''} then Some (focusMoved roleID draft (form_MoveRight form) m)
        else if key = ''a''
        then case currentCollection form of
               None \<Rightarrow> Some (ignored m)
             | Some field \<Rightarrow> Some (draftTaken roleID (draft\<lparr>df_form := form_AddRow form,
                 df_status := ''Added '' @ map lowerChar (fld_Label field) @ '' row'', df_errorText := []\<rparr>) m)
        else if key = ''x''
        then case currentCollection form of
               None \<Rightarrow> Some (ignored m)
             | Some field \<Rightarrow>
                 if fst (form_RemoveRow form)
                 then Some (draftTaken roleID (draft\<lparr>df_form := snd (form_RemoveRow form),
                   df_status := ''Removed '' @ map lowerChar (fld_Label field) @ '' row'', df_errorText := []\<rparr>) m)
                 else Some (ignored m)
        else if key \<in> {''enter'', ''e''}
        then case BeginEdit form of
               None \<Rightarrow> None
             | Some (started, form) \<Rightarrow>
                 if started
                 then let draft = draft\<lparr>df_form := form, df_errorText := []\<rparr>
                      in Some (draftTaken roleID (draft\<lparr>df_status := ''Editing '' @ currentFocusLabel draft\<rparr>) m)
                 else Some (ignored m)
        else if key = ''r'' then Some (handleReview roleID draft m)
        else if key = ''s'' \<and> df_stage draft = draftStageReview then Some (handleSubmit env roleID draft m)
        else if key = ''b'' \<and> df_stage draft = draftStageReview
        then Some (draftTaken roleID (draft\<lparr>df_stage := draftStageEditing, df_status := ''Returned to editing''\<rparr>) m)
        else Some (ignored m))"

section \<open>Text\<close>

definition itemText :: "string \<Rightarrow> int \<Rightarrow> string \<Rightarrow> string" where
  "itemText before n after = before @ itoa n @ after"

definition summarizeAction :: "RoleAction \<Rightarrow> string list" where
  "summarizeAction action =
    (case act_Procurement action of
       Some procurement \<Rightarrow>
         if pra_Orders procurement = [] then [''No purchase orders'']
         else map (\<lambda>order. itemText ''Order '' (po_Quantity order)
           ('' of '' @ po_PartID order @ '' from '' @ po_SupplierID order)) (pra_Orders procurement)
     | None \<Rightarrow>
    (case act_Production action of
       Some production \<Rightarrow>
         (if pda_Releases production = [] then [''No production releases''] else [])
         @ map (\<lambda>release. itemText ''Release '' (pr_Quantity release) ('' of '' @ pr_ProductID release)) (pda_Releases production)
         @ (if pda_CapacityAllocation production = [] then [''No capacity allocations''] else [])
         @ map (\<lambda>allocation. itemText ''Allocate '' (ca_Capacity allocation)
             ('' capacity at '' @ ca_WorkstationID allocation @ '' for '' @ ca_ProductID allocation))
             (pda_CapacityAllocation production)
         @ map (\<lambda>overtime. itemText ''Use '' (oa_Capacity overtime) ('' overtime capacity at '' @ oa_WorkstationID overtime))
             (pda_Overtime production)
     | None \<Rightarrow>
    (case act_Sales action of
       Some sales \<Rightarrow>
         if sa_ProductOffers sales = [] then [''No product offers'']
         else map (\<lambda>offer. itemText (''Offer '' @ of_ProductID offer @ '' at '') (of_UnitPrice offer) []) (sa_ProductOffers sales)
     | None \<Rightarrow>
    (case act_Finance action of
       Some finance \<Rightarrow>
         let targets = fa_NextRoundTargets finance
         in [itemText ''Effective round '' (bt_EffectiveRound targets) [],
             itemText ''Procurement budget '' (bt_ProcurementBudget targets) [],
             itemText ''Production budget '' (bt_ProductionSpendBudget targets) [],
             itemText ''Revenue target '' (bt_RevenueTarget targets) [],
             itemText ''Cash floor '' (bt_CashFloorTarget targets) [],
             itemText ''Debt ceiling '' (bt_DebtCeilingTarget targets) []]
     | None \<Rightarrow> [''No action payload'']))))"

definition summarizeSubmission :: "ActionSubmission \<Rightarrow> string list" where
  "summarizeSubmission submission =
     summarizeAction (as_Action submission) @ [''Commentary: '' @ cm_Body (as_Commentary submission)]"

text \<open>A loop that sums up quantities in a map by key.\<close>

definition tally :: "('a \<Rightarrow> string) \<Rightarrow> ('a \<Rightarrow> int) \<Rightarrow> 'a list \<Rightarrow> string \<Rightarrow> int" where
  "tally key quantity items = foldl (\<lambda>m item. m(key item := m (key item) + quantity item)) (\<lambda>_. 0) items"

definition backlogTally :: "Model \<Rightarrow> ProductID \<Rightarrow> int" where
  "backlogTally m = tally be_ProductID be_Quantity (pl_Backlog (ms_Plant (tu_state m)))"

definition finishedTally :: "Model \<Rightarrow> ProductID \<Rightarrow> int" where
  "finishedTally m = tally fi_ProductID fi_OnHandQty (pl_FinishedInventory (ms_Plant (tu_state m)))"

definition expectedProcurementGuidance :: "tuiEnv \<Rightarrow> Model \<Rightarrow> string list" where
  "expectedProcurementGuidance env m =
    (let plant1 = ms_Plant (tu_state m);
         inTransitByPart = tally sl_PartID sl_Quantity (pl_InTransitSupply plant1);
         partsOnHand = tally pi_PartID pi_OnHandQty (pl_PartsInventory plant1);
         requiredByPart = foldl (\<lambda>required product.
             let gap = backlogTally m (pd_ID product) - finishedTally m (pd_ID product)
             in if gap \<le> 0 then required
                else foldl (\<lambda>required line. required(bl_PartID line := required (bl_PartID line) + gap * bl_Quantity line))
                  required (pd_BOM product)) (\<lambda>_. 0) (Definition_Products (te_scenario env));
         lines = concat (map (\<lambda>part.
             let expected = requiredByPart (pa_ID part) - partsOnHand (pa_ID part) - inTransitByPart (pa_ID part)
             in if expected \<le> 0 then []
                else [itemText (''Expected '' @ pa_ID part @ '' order is roughly '') expected
                  '' based on backlog demand, BOM coverage, on-hand parts, and inbound supply.''])
             (Definition_Parts (te_scenario env)))
     in if lines = []
        then [''Current backlog, BOM, inventory, and inbound supply do not point to an urgent additional part order.'']
        else lines)"

definition expectedProductionGuidance :: "tuiEnv \<Rightarrow> Model \<Rightarrow> string list" where
  "expectedProductionGuidance env m =
    (let wipByProduct = tally wi_ProductID wi_Quantity (pl_WIPInventory (ms_Plant (tu_state m)));
         lines = concat (map (\<lambda>product.
             let gap = backlogTally m (pd_ID product) - finishedTally m (pd_ID product) - wipByProduct (pd_ID product)
             in if gap \<le> 0 then []
                else [itemText (''Expected '' @ pd_ID product @ '' release is roughly '') gap
                  '' based on backlog pressure minus finished goods and WIP already in the line.''])
             (Definition_Products (te_scenario env)))
     in if lines = []
        then [''Backlog pressure does not currently justify more release beyond existing finished goods and WIP.'']
        else lines)"

definition expectedSalesGuidance :: "tuiEnv \<Rightarrow> Model \<Rightarrow> string list" where
  "expectedSalesGuidance env m =
    (let lines = map (\<lambda>product.
             let gap = backlogTally m (pd_ID product) - finishedTally m (pd_ID product)
             in if 0 < gap
                then itemText (pd_ID product @ '' demand already exceeds finished-goods coverage by '') gap
                  '' unit(s); avoid aggressive demand expansion until operations catch up.''
                else pd_ID product @ '' has finished-goods coverage against visible backlog, so measured demand expansion is supportable if service remains stable.'')
             (Definition_Products (te_scenario env))
     in if lines = [] then [''No sales guidance is available because no visible product demand is loaded.''] else lines)"

definition tui_sumCommitmentAmount :: "CashCommitment list \<Rightarrow> int" where
  "tui_sumCommitmentAmount items = foldl (\<lambda>sum1 item. sum1 + cc_Amount item) 0 items"

definition expectedFinanceGuidance :: "Model \<Rightarrow> string list" where
  "expectedFinanceGuidance m =
    (let state = tu_state m; plant1 = ms_Plant state;
         pressure = tui_sumCommitmentAmount (pl_Payables plant1) - tui_sumCommitmentAmount (pl_Receivables plant1)
     in [''Current targets already anchor procurement at '' @ itoa (bt_ProcurementBudget (ms_ActiveTargets state))
           @ '' and production at '' @ itoa (bt_ProductionSpendBudget (ms_ActiveTargets state)) @ '' for next round.'']
        @ [if 0 < pressure
           then itemText ''Visible commitments are net cash-negative by '' pressure '', so budget tightening deserves consideration.''
           else ''Visible commitments are not net cash-negative, so holding current targets is defensible if throughput needs support.'']
        @ (if pl_DebtCeiling plant1 \<le> pl_Debt plant1
           then [''Debt is already at or above the configured ceiling, so any growth posture needs explicit liquidity justification.'']
           else []))"

definition expectedGuidance :: "tuiEnv \<Rightarrow> Model \<Rightarrow> RoleID \<Rightarrow> string list" where
  "expectedGuidance env m roleID =
    (case roleID of
       RoleProcurementManager \<Rightarrow> expectedProcurementGuidance env m
     | RoleProductionManager \<Rightarrow> expectedProductionGuidance env m
     | RoleSalesManager \<Rightarrow> expectedSalesGuidance env m
     | RoleFinanceController \<Rightarrow> expectedFinanceGuidance m
     | OtherRole _ \<Rightarrow> [''No expected guidance is configured for this role.''])"

definition metricLine :: "RoleReportMetric \<Rightarrow> string" where
  "metricLine metric = rm_Label metric @ '': '' @ itoa (mv_Value (rm_Metric metric)) @ '' '' @ mv_DisplayUnit (rm_Metric metric)"

text \<open>The loop stops at the third line.\<close>

definition reviewPerformanceHighlights :: "tuiEnv \<Rightarrow> Model \<Rightarrow> string list" where
  "reviewPerformanceHighlights env m =
    (let lines = take 3 (concat (map (\<lambda>section. map metricLine (se_Metrics section) @ map wn_Headline (se_Warnings section))
           (dr_Sections (re_Department (selectedRoleReport env m)))))
     in if lines = [] then [''No role-specific performance highlights are available yet.''] else lines)"

definition wrapped :: "tuiEnv \<Rightarrow> int \<Rightarrow> string \<Rightarrow> string" where
  "wrapped env width line = wrapLine (te_terminal env) line (paneTextWidth width)"

definition listItems :: "tuiEnv \<Rightarrow> int \<Rightarrow> string list \<Rightarrow> string list" where
  "listItems env width = map (\<lambda>line. wrapped env width (''- '' @ line))"

definition renderReviewComparisons :: "tuiEnv \<Rightarrow> Model \<Rightarrow> int \<Rightarrow> RoleID \<Rightarrow> string list" where
  "renderReviewComparisons env m width roleID =
     [[], ''Decision support'', ''Compare with past orders'']
     @ (case tui_previousAcceptedAction m roleID of
          Some previous \<Rightarrow> listItems env width (summarizeAction (as_Action previous))
        | None \<Rightarrow> [''No prior accepted action is available for this role.''])
     @ [[], ''Past performance''] @ listItems env width (reviewPerformanceHighlights env m)
     @ [[], ''Expected guidance''] @ listItems env width (expectedGuidance env m roleID)"

definition renderDraftStatus :: "tuiEnv \<Rightarrow> int \<Rightarrow> actionDraft \<Rightarrow> string list" where
  "renderDraftStatus env width draft =
     (if TrimSpace (df_status draft) = [] then [] else [[], wrapped env width (''Status: '' @ df_status draft)])
     @ (if TrimSpace (df_errorText draft) = [] then [] else [wrapped env width (''Validation: '' @ df_errorText draft)])"

definition renderScalarFieldValue :: "actionDraft \<Rightarrow> FieldSpec \<Rightarrow> string" where
  "renderScalarFieldValue draft field =
    (let value1 = displayScalar (df_form draft) field in if TrimSpace value1 = [] then fld_Placeholder field else value1)"

definition hideSubmittedHumanDetails :: "tuiEnv \<Rightarrow> Model \<Rightarrow> RoleID \<Rightarrow> bool" where
  "hideSubmittedHumanDetails env m roleID \<longleftrightarrow>
     ra_IsHuman (selectedAssignment m) \<and> 1 < humanRoleCount (ms_Roles (tu_state m))
     \<and> df_stage (currentDraftForRole env m roleID) = draftStageSubmitted"

definition fieldLines :: "tuiEnv \<Rightarrow> actionDraft \<Rightarrow> int \<Rightarrow> nat \<Rightarrow> FieldSpec \<Rightarrow> string list" where
  "fieldLines env draft width index field =
    (let form = df_form draft; active = (int index = fm_FieldIndex form)
     in [(if active then ''>'' else '' '') @ '' '' @ fld_Label field, wrapped env width (''  '' @ fld_Help field)]
        @ (if fld_Collection field = None then [wrapped env width (''  '' @ renderScalarFieldValue draft field)]
           else [wrapped env width (''  '' @ currentCollectionSummary form field),
                 renderedCollectionTable (te_terminal env) form field (paneTextWidth width) active, []]))"

definition renderActionEntryWorkspace :: "tuiEnv \<Rightarrow> Model \<Rightarrow> int \<Rightarrow> string list" where
  "renderActionEntryWorkspace env m width =
    (let assignment = selectedAssignment m; roleID = ra_RoleID assignment; draft = currentDraft env m;
         lines = [''Action entry for '' @ roleTitle m,
           ''View: draft, review, and submit a private turn without leaving the center workspace''];
         previous = (case tui_previousAcceptedAction m roleID of
             None \<Rightarrow> []
           | Some previous \<Rightarrow> [[], ''Previous accepted commentary'', wrapped env width (cm_Body (as_Commentary previous))]);
         submission = (case df_submission draft of
             None \<Rightarrow> [] | Some submission \<Rightarrow> listItems env width (summarizeSubmission submission));
         status = renderDraftStatus env width draft;
         waiting = waitingOnSummary (rf_WaitingOnRoles (effectiveRoundFlow m))
     in if \<not> ra_IsHuman assignment
        then lines @ [[], ''This role is AI-controlled in the current match configuration.'',
          ''Use report/feed/archive views to inspect plant context while the AI submits through the shared player interface.'']
        else case df_stage draft of
          draftStageReview \<Rightarrow>
            lines @ previous @ [[], ''Review draft'', ''Press s to submit and lock, or b to return to editing.'']
            @ submission @ renderReviewComparisons env m width roleID @ status
        | draftStageSubmitted \<Rightarrow>
            if hideSubmittedHumanDetails env m roleID
            then lines @ previous @ [[], ''Submission locked for this round.'', waiting,
              ''Locked human entries stay private in multi-human games.''] @ status
            else lines @ previous @ [[], ''Submission locked for this round.'', waiting,
                ''Current-turn details stay out of the shared round feed until reveal.'']
              @ (if df_submission draft = None then [] else [[]] @ submission) @ status
        | draftStageEditing \<Rightarrow>
            lines @ previous @ [[], ''Editing flow'',
              ''Use up/down to move between fields or table rows, left/right to move across table columns, enter to edit and commit, a to add rows, x to remove rows, esc to cancel, and r to review.'',
              ''Enter commits and advances. Editors that use arrows internally keep those arrows until the value is committed or cancelled.'']
            @ concat (map (\<lambda>(index, field). fieldLines env draft width index field)
                (zip [0..<length (rsc_Fields (fm_Schema (df_form draft)))] (rsc_Fields (fm_Schema (df_form draft)))))
            @ status)"

end
