(* ===== verification/DraftFacts.thy ===== *)
theory DraftFacts
  imports ActionEntry
begin

text \<open>
  What holds of the entry of actions: a form filled from an action reads back as that action; no key
  panics and every draft keeps the schema of its role; what is submitted is an action the engine
  takes, for the current round; and a locked draft stays as it is.
\<close>

section \<open>Numbers and texts survive the trip\<close>

lemma digits_nat_ok: "digits_nat n \<noteq> [] \<and> list_all isDigit (digits_nat n)"
proof (induction n rule: digits_nat.induct)
  case (1 n)
  have digit: "isDigit (char_of (48 + k))" if "k < 10" for k :: nat
    using that by (simp add: isDigit_def of_char_of)
  show ?case
    using 1 digit [of n] digit [of "n mod 10"] by (subst (1 2) digits_nat.simps) (auto simp: add.commute)
qed

lemma isDigit_plain: "isDigit c \<Longrightarrow> \<not> isSpace c \<and> c \<noteq> CHR ''-'' \<and> c \<noteq> CHR ''+''"
  by (auto simp: isDigit_def isSpace_def)

lemma TrimSpace_id:
  assumes "s \<noteq> []" "\<not> isSpace (hd s)" "\<not> isSpace (last s)"
  shows "TrimSpace s = s"
proof -
  have keep: "dropWhile isSpace t = t" if "t \<noteq> []" "\<not> isSpace (hd t)" for t
    using that by (cases t) simp_all
  show ?thesis using assms by (simp add: TrimSpace_def keep hd_rev)
qed

lemma parse_itoa:
  assumes "0 \<le> n" "n < 2 ^ 63"
  shows "parseNonNegativeInt (itoa n) = Inr n"
proof -
  obtain c cs where s: "digits_nat (nat n) = c # cs" "isDigit c" "list_all isDigit cs"
    using digits_nat_ok [of "nat n"] by (cases "digits_nat (nat n)") auto
  then have "isDigit (last (c # cs))"
    by (simp add: list_all_iff)
  then have "TrimSpace (itoa n) = c # cs"
    using assms(1) s isDigit_plain by (simp add: itoa_def TrimSpace_id)
  moreover have "read_digits (c # cs) = nat n"
    using read_digits_nat [of "nat n"] s(1) by simp
  ultimately show ?thesis
    using assms s isDigit_plain [of c] by (auto simp: parseNonNegativeInt_def Atoi_def Let_def)
qed

text \<open>An id a form can hold: not blank, without spaces around it.\<close>

definition trimmed :: "string \<Rightarrow> bool" where
  "trimmed s \<longleftrightarrow> s \<noteq> [] \<and> TrimSpace s = s"

definition countOk :: "int \<Rightarrow> bool" where
  "countOk n \<longleftrightarrow> 0 \<le> n \<and> n < 2 ^ 63"

lemma parseRows_map:
  assumes "\<And>i x. x \<in> set xs \<Longrightarrow> parse i (row x) = Inr x"
  shows "parseRows parse i (map row xs) = Inr xs"
  using assms by (induction xs arbitrary: i) simp_all

lemma row_trips:
  "trimmed (po_PartID x) \<Longrightarrow> trimmed (po_SupplierID x) \<Longrightarrow> countOk (po_Quantity x) \<Longrightarrow> parseOrderRow i (orderRow x) = Inr x"
  "trimmed (pr_ProductID r) \<Longrightarrow> countOk (pr_Quantity r) \<Longrightarrow> parseReleaseRow i (releaseRow r) = Inr r"
  "trimmed (ca_WorkstationID a) \<Longrightarrow> trimmed (ca_ProductID a) \<Longrightarrow> countOk (ca_Capacity a) \<Longrightarrow>
     parseAllocationRow i (allocationRow a) = Inr a"
  "trimmed (oa_WorkstationID w) \<Longrightarrow> countOk (oa_Capacity w) \<Longrightarrow> parseOvertimeRow i (overtimeRow w) = Inr w"
  "trimmed (of_ProductID f) \<Longrightarrow> countOk (of_UnitPrice f) \<Longrightarrow> parseOfferRow i (offerRow f) = Inr f"
  by (simp_all add: trimmed_def countOk_def parseOrderRow_def orderRow_def parseReleaseRow_def releaseRow_def
      parseAllocationRow_def allocationRow_def parseOvertimeRow_def overtimeRow_def parseOfferRow_def offerRow_def
      cellOf_def parse_itoa)

lemma valueOf_set [simp]:
  "valueOf (setRows i rows form) j = (if j = i then \<lparr>fv_Scalar = [], fv_Rows = rows\<rparr> else valueOf form j)"
  "valueOf (setScalar i s form) j = (if j = i then \<lparr>fv_Scalar = s, fv_Rows = []\<rparr> else valueOf form j)"
  by (simp_all add: setRows_def setScalar_def setValue_def valueOf_def)

section \<open>Forms stay well-formed\<close>

lemma set_fields [simp]:
  "fm_Schema (setRows i rows form) = fm_Schema form" "fm_FieldIndex (setRows i rows form) = fm_FieldIndex form"
  "fm_RowIndex (setRows i rows form) = fm_RowIndex form" "fm_ColumnIndex (setRows i rows form) = fm_ColumnIndex form"
  "fm_Schema (setScalar i s form) = fm_Schema form" "fm_FieldIndex (setScalar i s form) = fm_FieldIndex form"
  "fm_RowIndex (setScalar i s form) = fm_RowIndex form" "fm_ColumnIndex (setScalar i s form) = fm_ColumnIndex form"
  by (simp_all add: setRows_def setScalar_def setValue_def)

definition atStart :: "actionFormModel \<Rightarrow> bool" where
  "atStart form \<longleftrightarrow> fm_FieldIndex form = 0 \<and> fm_RowIndex form = 0 \<and> fm_ColumnIndex form = 0"

lemma atStart_ok: "atStart form \<Longrightarrow> formOk form"
  by (simp add: atStart_def formOk_def)

lemma atStart_set [simp]: "atStart (setRows i rows form) = atStart form" "atStart (setScalar i s form) = atStart form"
  by (simp_all add: atStart_def)

lemma seedTargets_fields [simp]:
  "fm_Schema (seedTargets targets form) = fm_Schema form" "atStart (seedTargets targets form) = atStart form"
  by (simp_all add: seedTargets_def)

lemma seedDraft_fields [simp]:
  "fm_Schema (seedDraftFromSubmission a form) = fm_Schema form" "atStart (seedDraftFromSubmission a form) = atStart form"
  by (simp_all add: seedDraftFromSubmission_def Let_def split: option.split)

text \<open>A draft for a role of a scenario: its form is in range and has the schema of the role.\<close>

definition draftOk :: "tuiEnv \<Rightarrow> RoleID \<Rightarrow> actionDraft \<Rightarrow> bool" where
  "draftOk env roleID draft \<longleftrightarrow>
     formOk (df_form draft) \<and> fm_Schema (df_form draft) = BuildFromCatalog (te_scenario env) roleID"

definition draftsOk :: "tuiEnv \<Rightarrow> Model \<Rightarrow> bool" where
  "draftsOk env m \<longleftrightarrow> (\<forall>roleID draft. tu_drafts m roleID = Some draft \<longrightarrow> draftOk env roleID draft)"

lemma draftOk_fields [simp]:
  "draftOk env roleID (draft\<lparr>df_stage := stage\<rparr>) = draftOk env roleID draft"
  "draftOk env roleID (draft\<lparr>df_status := status\<rparr>) = draftOk env roleID draft"
  "draftOk env roleID (draft\<lparr>df_errorText := err\<rparr>) = draftOk env roleID draft"
  "draftOk env roleID (draft\<lparr>df_submission := submission\<rparr>) = draftOk env roleID draft"
  by (simp_all add: draftOk_def)

lemma currentDraftForRole_ok:
  assumes "draftsOk env m"
  shows "draftOk env roleID (currentDraftForRole env m roleID)"
proof (cases "tu_drafts m roleID")
  case None
  have new: "atStart (newActionFormModel schema)" "fm_Schema (newActionFormModel schema) = schema" for schema
    by (simp_all add: atStart_def newActionFormModel_def)
  have draft: "draftOk env r (newDraft form) \<longleftrightarrow> formOk form \<and> fm_Schema form = BuildFromCatalog (te_scenario env) r" for r form
    by (simp add: draftOk_def newDraft_def)
  show ?thesis
    by (cases "tui_previousAcceptedAction m roleID")
      (simp_all add: currentDraftForRole_def None Let_def draft new atStart_ok)
next
  case (Some draft)
  then have "draftOk env roleID draft" using assms unfolding draftsOk_def by blast
  with Some show ?thesis by (simp add: currentDraftForRole_def)
qed

lemma setDraft_ok: "draftsOk env m \<Longrightarrow> draftOk env roleID draft \<Longrightarrow> draftsOk env (setDraft roleID draft m)"
  by (simp add: draftsOk_def setDraft_def)

lemma draftOk_step:
  assumes "draftOk env roleID draft" "formStep op (df_form draft) = Some form"
  shows "draftOk env roleID (draft\<lparr>df_form := form\<rparr>)"
proof -
  have "formOk (df_form draft)" "fm_Schema (df_form draft) = BuildFromCatalog (te_scenario env) roleID"
    using assms(1) by (simp_all add: draftOk_def)
  moreover obtain form' where "formStep op (df_form draft) = Some form'" "formOk form'"
    using formStep_ok calculation(1) by blast
  moreover have "fm_Schema form = fm_Schema (df_form draft)" using assms(2) by (rule formStep_schema)
  ultimately show ?thesis using assms(2) by (simp add: draftOk_def)
qed

section \<open>No key panics\<close>

text \<open>What a handler of keys keeps.\<close>

definition handledOk :: "tuiEnv \<Rightarrow> handled \<Rightarrow> bool" where
  "handledOk env r \<longleftrightarrow> draftsOk env (fst (snd r))"

lemma draftsOk_fields [simp]:
  "draftsOk env (m\<lparr>tu_selectedRole := i\<rparr>) = draftsOk env m" "draftsOk env (m\<lparr>tu_workspace := w\<rparr>) = draftsOk env m"
  "draftsOk env (m\<lparr>tu_status := s\<rparr>) = draftsOk env m"
  by (simp_all add: draftsOk_def)

lemma advance_ok: "draftsOk env m \<Longrightarrow> draftsOk env (advanceAfterSubmission env' roleID m)"
  by (simp add: advanceAfterSubmission_def Let_def split: option.split)

lemma keepForm_ok:
  assumes "draftsOk env m" "draftOk env roleID draft" "formStep op (df_form draft) = Some (snd r)"
  shows "draftsOk env (keepForm roleID draft m r)"
  using assms setDraft_ok [OF assms(1) draftOk_step [OF assms(2,3)]] by (cases r) (simp add: keepForm_def)

lemma handleEditingKey_ok:
  assumes "draftsOk env m" "roleID = ra_RoleID (selectedAssignment m)"
  shows "\<exists>m'. handleEditingKey env msg roleID m = Some m' \<and> draftsOk env m'"
proof -
  define draft where "draft = currentDraft env m"
  have d: "draftOk env roleID draft"
    using currentDraftForRole_ok [OF assms(1)] assms(2) by (simp add: draft_def currentDraft_def)
  then have form: "formOk (df_form draft)" by (simp add: draftOk_def)
  have keep: "draftsOk env (keepForm roleID draft m r)" if "formStep op (df_form draft) = Some (snd r)" for op r
    by (rule keepForm_ok [OF assms(1) d that])
  have cycled: "\<exists>m'. map_option (keepForm roleID draft m) (CycleEditingChoice (stepOf forward) (df_form draft)) = Some m'
      \<and> draftsOk env m'" for forward
  proof -
    have "stepOf forward = 1 \<or> stepOf forward = - 1" by (simp add: stepOf_def)
    from CycleEditingChoice_ok [OF form this]
    obtain changed form' where r: "CycleEditingChoice (stepOf forward) (df_form draft) = Some (changed, form')" by blast
    then have "formStep (OpCycleEditing forward) (df_form draft) = Some (snd (changed, form'))" by simp
    from keep [OF this] r show ?thesis by simp
  qed
  have cancelled: "draftsOk env (setDraft roleID (draft\<lparr>df_form := snd (CancelEdit (df_form draft)), df_status := s\<rparr>) m)" for s
    using setDraft_ok [OF assms(1)] draftOk_step [OF d, of OpCancelEdit] by simp
  have committed: "draftsOk env (setDraft roleID (draft\<lparr>df_form := form', df_status := s, df_errorText := t\<rparr>) m)"
    if "CommitEdit (df_form draft) = Some (changed, form')" for changed form' s t
    using setDraft_ok [OF assms(1)] draftOk_step [OF d, of OpCommitEdit form'] that by simp
  obtain changed form' where commit: "CommitEdit (df_form draft) = Some (changed, form')"
    using CommitEdit_ok [OF form] by blast
  have typed: "draftsOk env (keepForm roleID draft m (TypeRunes input (df_form draft)))" for input
    by (rule keep [of "OpTypeRunes input"]) simp
  have erased: "draftsOk env (keepForm roleID draft m (form_Backspace (df_form draft)))"
    by (rule keep [of OpBackspace]) simp
  show ?thesis
    unfolding handleEditingKey_def draft_def [symmetric] Let_def
    using cycled [of True] cycled [of False] cancelled commit committed [OF commit] typed erased assms(1)
    by (cases "ky_Type msg") (simp_all add: stepOf_def)
qed

lemma handleReview_ok: "draftsOk env m \<Longrightarrow> draftOk env roleID draft \<Longrightarrow> handledOk env (handleReview roleID draft m)"
  by (simp add: handleReview_def handledOk_def draftTaken_def setDraft_ok split: sum.split)

lemma handleSubmit_ok: "draftsOk env m \<Longrightarrow> draftOk env roleID draft \<Longrightarrow> handledOk env (handleSubmit env roleID draft m)"
  by (simp add: handleSubmit_def Let_def handledOk_def draftTaken_def setDraft_ok advance_ok split: sum.split option.split)

lemma focusMoved_ok:
  assumes "draftsOk env m" "draftOk env roleID draft" "formStep op (df_form draft) = Some form"
  shows "handledOk env (focusMoved roleID draft form m)"
  using setDraft_ok [OF assms(1)] draftOk_step [OF assms(2,3)]
  by (simp add: focusMoved_def Let_def draftTaken_def handledOk_def)

definition resultOk :: "tuiEnv \<Rightarrow> handled option \<Rightarrow> bool" where
  "resultOk env r \<longleftrightarrow> (case r of None \<Rightarrow> False | Some r \<Rightarrow> handledOk env r)"

lemma resultOk_simps [simp]:
  "resultOk env (Some r) = handledOk env r" "\<not> resultOk env None"
  "resultOk env (if c then r1 else r2) = (if c then resultOk env r1 else resultOk env r2)"
  by (simp_all add: resultOk_def)

lemma handleActionEntryKey_ok:
  assumes "draftsOk env m"
  shows "resultOk env (handleActionEntryKey env msg m)"
proof -
  define roleID where "roleID = ra_RoleID (selectedAssignment m)"
  define draft where "draft = currentDraft env m"
  have d: "draftOk env roleID draft"
    using currentDraftForRole_ok [OF assms] by (simp add: draft_def roleID_def currentDraft_def)
  then have form: "formOk (df_form draft)" by (simp add: draftOk_def)
  have ign: "handledOk env (ignored m)" using assms by (simp add: handledOk_def ignored_def)
  obtain m' where editing: "handleEditingKey env msg roleID m = Some m'" "draftsOk env m'"
    using handleEditingKey_ok [OF assms roleID_def] by blast
  have moved: "handledOk env (focusMoved roleID draft (form_MoveUp (df_form draft)) m)"
    "handledOk env (focusMoved roleID draft (form_MoveDown (df_form draft)) m)"
    "handledOk env (focusMoved roleID draft (form_MoveLeft (df_form draft)) m)"
    "handledOk env (focusMoved roleID draft (form_MoveRight (df_form draft)) m)"
    using focusMoved_ok [OF assms d, of OpMoveUp] focusMoved_ok [OF assms d, of OpMoveDown]
      focusMoved_ok [OF assms d, of OpMoveLeft] focusMoved_ok [OF assms d, of OpMoveRight] by simp_all
  have taken: "handledOk env (draftTaken roleID (draft\<lparr>df_form := form', df_status := s, df_errorText := t\<rparr>) m)"
    if "formStep op (df_form draft) = Some form'" for op form' s t
    using setDraft_ok [OF assms] draftOk_step [OF d that] by (simp add: handledOk_def draftTaken_def)
  note rows = taken [of OpAddRow] taken [of OpRemoveRow]
  obtain started form' where starts: "BeginEdit (df_form draft) = Some (started, form')"
    using BeginEdit_ok [OF form] by blast
  have begun: "handledOk env (draftTaken roleID (draft\<lparr>df_form := form', df_errorText := t, df_status := s\<rparr>) m)" for s t
    using setDraft_ok [OF assms] draftOk_step [OF d, of OpBeginEdit form'] starts by (simp add: handledOk_def draftTaken_def)
  have returned: "handledOk env (draftTaken roleID (draft\<lparr>df_stage := draftStageEditing, df_status := s\<rparr>) m)" for s
    using setDraft_ok [OF assms] d by (simp add: handledOk_def draftTaken_def)
  have edited: "handledOk env (True, m', [])" using editing(2) by (simp add: handledOk_def)
  note reviewed = handleReview_ok [OF assms d] handleSubmit_ok [OF assms d]
  show ?thesis
    unfolding handleActionEntryKey_def Let_def roleID_def [symmetric] draft_def [symmetric]
    by (simp add: ign editing edited moved rows starts begun returned reviewed split: option.split)
qed

section \<open>What is submitted\<close>

text \<open>A scenario whose parts have ids of their own offers the same choices in its catalog.\<close>

lemma partSuppliers_Some:
  "distinct (map pa_ID parts) \<Longrightarrow>
     partSuppliers parts i = Some items \<longleftrightarrow> (\<exists>part \<in> set parts. pa_ID part = i \<and> items = supplierOptions part)"
proof (induction parts rule: rev_induct)
  case (snoc part parts)
  have "partSuppliers (parts @ [part]) i = (if i = pa_ID part then Some (supplierOptions part) else partSuppliers parts i)"
    by (simp add: partSuppliers_def)
  with snoc show ?case by (auto simp: image_iff dest: sym)
qed (simp add: partSuppliers_def)

lemma partSuppliers_catalog:
  assumes "distinct (map pa_ID (mo_Parts (sd_ProductionModel d)))"
  shows "partSuppliers (Definition_Parts d) i = partSuppliers (mo_Parts (sd_ProductionModel d)) i"
proof -
  have "mset (map pa_ID (Definition_Parts d)) = mset (map pa_ID (mo_Parts (sd_ProductionModel d)))"
    by (simp add: Definition_Parts_def)
  then have "distinct (map pa_ID (Definition_Parts d))" using assms by (metis mset_eq_imp_distinct_iff)
  then have "partSuppliers (Definition_Parts d) i = Some items \<longleftrightarrow>
      partSuppliers (mo_Parts (sd_ProductionModel d)) i = Some items" for items
    using assms by (simp add: partSuppliers_Some Definition_Parts_def)
  then show ?thesis by (metis not_None_eq)
qed

lemma catalog_valid:
  assumes "distinct (map pa_ID (mo_Parts (sd_ProductionModel d)))"
  shows "ValidateRoleAction (BuildFromCatalog d roleID) action view = ValidateRoleAction (Build d roleID) action view"
proof -
  have sets: "set (Definition_Parts d) = set (mo_Parts (sd_ProductionModel d))"
    "set (Definition_Products d) = set (mo_Products (sd_ProductionModel d))"
    "set (Definition_Workstations d) = set (mo_Workstations (sd_ProductionModel d))"
    by (simp_all add: Definition_Parts_def Definition_Products_def Definition_Workstations_def)
  have rows: "validateProcurementRows (procurementSchema (Definition_Parts d)) orders
      = validateProcurementRows (procurementSchema (mo_Parts (sd_ProductionModel d))) orders" for orders
    unfolding validateProcurementRows_def Let_def procurement_columns sets partSuppliers_catalog [OF assms] ..
  have production: "validateProductionRows (productionSchema (Definition_Products d) (Definition_Workstations d)) x
      = validateProductionRows (productionSchema (mo_Products (sd_ProductionModel d)) (mo_Workstations (sd_ProductionModel d))) x" for x
    unfolding validateProductionRows_def Let_def production_columns sets ..
  have sales: "validateSalesRows (salesSchema (Definition_Products d)) x
      = validateSalesRows (salesSchema (mo_Products (sd_ProductionModel d))) x" for x
    unfolding validateSalesRows_def Let_def sales_columns sets ..
  show ?thesis
    by (cases roleID)
      (simp_all add: ValidateRoleAction_def BuildFromCatalog_def Build_def buildFromPartsProductsWorkstations_def
        rows production sales cong: option.case_cong)
qed

lemma nothing_sent [simp]:
  "snd (snd (ignored m)) = []" "snd (snd (draftTaken roleID draft m)) = []"
  "snd (snd (focusMoved roleID draft form m)) = []" "snd (snd (handleReview roleID draft m)) = []"
  by (simp_all add: ignored_def draftTaken_def focusMoved_def handleReview_def Let_def split: sum.split)

text \<open>Only the key that submits a reviewed draft of a person sends anything.\<close>

lemma sent_by_submit:
  assumes "handleActionEntryKey env msg m = Some r" "snd (snd r) \<noteq> []"
  shows "r = handleSubmit env (ra_RoleID (selectedAssignment m)) (currentDraft env m) m"
    "ra_IsHuman (selectedAssignment m)" "df_stage (currentDraft env m) = draftStageReview" "ky_String msg = ''s''"
  using assms
  by (auto simp: handleActionEntryKey_def Let_def split: if_splits option.splits)

lemma buildSubmission_Inr:
  assumes "buildSubmissionDraft m draft = Inr submission"
  shows "FirstError (ValidateRoleAction (fm_Schema (df_form draft)) (as_Action submission) (selectedRoleView m)) = None"
    "cm_Body (as_Commentary submission) \<noteq> []" "cm_Visibility (as_Commentary submission) = CommentaryPublic"
    "cm_ActorID (as_Commentary submission) = ra_PlayerID (selectedAssignment m)"
  using assms by (auto simp: buildSubmissionDraft_def Let_def split: sum.splits option.splits if_splits)

lemma FirstError_None: "FirstError errs = None \<longleftrightarrow> errs = []"
  by (simp add: FirstError_def split: list.split)

lemma handleSubmit_sent:
  assumes "submission \<in> set (snd (snd (handleSubmit env roleID draft m)))"
  obtains built where "buildSubmissionDraft m draft = Inr built"
    "submission = built\<lparr>as_MatchID := ms_MatchID (tu_state m), as_Round := ms_CurrentRound (tu_state m), as_RoleID := roleID\<rparr>"
  using assms by (cases "buildSubmissionDraft m draft") (auto simp: handleSubmit_def Let_def split: option.splits if_splits)

section \<open>A locked draft\<close>

definition locked :: "Model \<Rightarrow> RoleID \<Rightarrow> actionDraft \<Rightarrow> bool" where
  "locked m roleID draft \<longleftrightarrow> tu_drafts m roleID = Some draft \<and> df_stage draft = draftStageSubmitted"

lemma advance_drafts [simp]: "tu_drafts (advanceAfterSubmission env roleID m) = tu_drafts m"
  by (simp add: advanceAfterSubmission_def Let_def split: option.split)

lemma otherDraft [simp]:
  "roleID' \<noteq> roleID \<Longrightarrow> tu_drafts (setDraft roleID draft m) roleID' = tu_drafts m roleID'"
  "roleID' \<noteq> roleID \<Longrightarrow> tu_drafts (keepForm roleID draft m x) roleID' = tu_drafts m roleID'"
  by (simp_all add: setDraft_def keepForm_def split: prod.split)

lemma editing_other:
  "handleEditingKey env msg roleID m = Some m' \<Longrightarrow> roleID' \<noteq> roleID \<Longrightarrow> tu_drafts m' roleID' = tu_drafts m roleID'"
  by (auto simp: handleEditingKey_def Let_def split: if_splits keyType.splits option.splits prod.splits)

lemma handled_other:
  assumes "handleActionEntryKey env msg m = Some r" "roleID' \<noteq> ra_RoleID (selectedAssignment m)"
  shows "tu_drafts (fst (snd r)) roleID' = tu_drafts m roleID'"
  using assms editing_other [OF _ assms(2)]
  by (auto simp: handleActionEntryKey_def Let_def ignored_def draftTaken_def focusMoved_def handleReview_def handleSubmit_def
      split: if_splits option.splits sum.splits)

lemma handled_locked:
  assumes "handleActionEntryKey env msg m = Some r" "locked m roleID draft"
  shows "locked (fst (snd r)) roleID draft"
proof (cases "roleID = ra_RoleID (selectedAssignment m)")
  case True
  with assms(2) have "df_stage (currentDraft env m) = draftStageSubmitted"
    by (simp add: locked_def currentDraft_def currentDraftForRole_def)
  with assms show ?thesis by (auto simp: handleActionEntryKey_def Let_def ignored_def split: if_splits)
next
  case False
  with handled_other [OF assms(1)] assms(2) show ?thesis by (simp add: locked_def)
qed

end
