(* ===== verification/ScenarioBrowser.thy ===== *)
theory ScenarioBrowser
  imports ActionEntry
begin

text \<open>
  The scenario lookups of the gameplay shell (\<open>internal/adapters/tui/scenario_lookup.go\<close>): its keys and
  its text, from the lookups that AI players call as tools.
\<close>

section \<open>The entry in view\<close>

text \<open>The item at an index that is brought into the list first.\<close>

definition itemAt :: "'a list \<Rightarrow> int \<Rightarrow> 'a option" where
  "itemAt items index = (if items = [] then None else Some (items ! nat (clampIndex index (int (length items)))))"

definition selectedLookupPart :: "tuiEnv \<Rightarrow> Model \<Rightarrow> Part option" where
  "selectedLookupPart env m = itemAt (Definition_Parts (te_scenario env)) (lk_partIndex (tu_lookup m))"

definition selectedLookupRouteProduct :: "tuiEnv \<Rightarrow> Model \<Rightarrow> Product option" where
  "selectedLookupRouteProduct env m = itemAt (Definition_Products (te_scenario env)) (lk_routeIndex (tu_lookup m))"

definition selectedLookupBOMProduct :: "tuiEnv \<Rightarrow> Model \<Rightarrow> Product option" where
  "selectedLookupBOMProduct env m = itemAt (Definition_Products (te_scenario env)) (lk_bomIndex (tu_lookup m))"

definition selectedDemandReference :: "tuiEnv \<Rightarrow> Model \<Rightarrow> DemandProfileReference option" where
  "selectedDemandReference env m = itemAt (DemandProfileReferences (te_scenario env)) (lk_demandIndex (tu_lookup m))"

section \<open>Keys\<close>

definition withStatus :: "string option \<Rightarrow> Model \<Rightarrow> Model" where
  "withStatus status m = (case status of None \<Rightarrow> m | Some s \<Rightarrow> m\<lparr>tu_status := s\<rparr>)"

definition focusedEntry :: "string \<Rightarrow> string \<Rightarrow> string" where
  "focusedEntry name kind = ''Scenario lookup focused '' @ name @ kind"

definition shiftLookupSelection :: "tuiEnv \<Rightarrow> int \<Rightarrow> Model \<Rightarrow> Model" where
  "shiftLookupSelection env delta m =
    (let lookup = tu_lookup m; d = te_scenario env
     in case lk_active lookup of
          lookupViewSuppliers \<Rightarrow>
            let m = m\<lparr>tu_lookup := lookup\<lparr>lk_partIndex :=
                  cycleIndex (lk_partIndex lookup) (int (length (Definition_Parts d))) delta\<rparr>\<rparr>
            in withStatus (map_option (\<lambda>part. focusedEntry (pa_DisplayName part) '' suppliers'') (selectedLookupPart env m)) m
        | lookupViewRoutes \<Rightarrow>
            let m = m\<lparr>tu_lookup := lookup\<lparr>lk_routeIndex :=
                  cycleIndex (lk_routeIndex lookup) (int (length (Definition_Products d))) delta\<rparr>\<rparr>
            in withStatus (map_option (\<lambda>product. focusedEntry (pd_DisplayName product) '' route'')
                 (selectedLookupRouteProduct env m)) m
        | lookupViewBOM \<Rightarrow>
            let m = m\<lparr>tu_lookup := lookup\<lparr>lk_bomIndex :=
                  cycleIndex (lk_bomIndex lookup) (int (length (Definition_Products d))) delta\<rparr>\<rparr>
            in withStatus (map_option (\<lambda>product. focusedEntry (pd_DisplayName product) '' BOM'')
                 (selectedLookupBOMProduct env m)) m
        | lookupViewDemand \<Rightarrow>
            let m = m\<lparr>tu_lookup := lookup\<lparr>lk_demandIndex :=
                  cycleIndex (lk_demandIndex lookup) (int (length (DemandProfileReferences d))) delta\<rparr>\<rparr>
            in withStatus (map_option (\<lambda>ref. focusedEntry (df_CustomerName ref @ '' / '' @ df_ProductName ref) '' demand'')
                 (selectedDemandReference env m)) m)"

definition switchLookup :: "lookupView \<Rightarrow> string \<Rightarrow> Model \<Rightarrow> bool \<times> Model" where
  "switchLookup view label m =
     (True, m\<lparr>tu_lookup := (tu_lookup m)\<lparr>lk_active := view\<rparr>, tu_status := ''Scenario lookup switched to '' @ label\<rparr>)"

definition handleScenarioLookupKey :: "tuiEnv \<Rightarrow> KeyMsg \<Rightarrow> Model \<Rightarrow> bool \<times> Model" where
  "handleScenarioLookupKey env msg m =
    (let key = ky_String msg
     in if tu_workspace m \<noteq> workspaceScenarioLookup \<or> tu_focusedPane m \<noteq> paneHistory then (False, m)
        else if key = ''v'' then switchLookup lookupViewSuppliers ''valid suppliers'' m
        else if key = ''r'' then switchLookup lookupViewRoutes ''product routes'' m
        else if key = ''b'' then switchLookup lookupViewBOM ''product BOMs'' m
        else if key = ''d'' then switchLookup lookupViewDemand ''customer demand'' m
        else if key \<in> {''up'', ''k''} then (True, shiftLookupSelection env (- 1) m)
        else if key \<in> {''down'', ''j''} then (True, shiftLookupSelection env 1 m)
        else (False, m))"

section \<open>Text\<close>

definition selectedLookupTabsLine :: "lookupView \<Rightarrow> string" where
  "selectedLookupTabsLine active =
     ''Lookup tabs: '' @ joinStrings (map (\<lambda>(view, label). if view = active then ''['' @ label @ '']'' else label)
       [(lookupViewSuppliers, ''v suppliers''), (lookupViewRoutes, ''r routes''), (lookupViewBOM, ''b bom''),
        (lookupViewDemand, ''d demand'')]) '' | ''"

definition lookupErrorLines :: "tuiEnv \<Rightarrow> int \<Rightarrow> lookupError \<Rightarrow> string list" where
  "lookupErrorLines env width err = [wrapped env width (''Lookup error: '' @ lookupErrorText err)]"

definition positionText :: "string \<Rightarrow> int \<Rightarrow> nat \<Rightarrow> string" where
  "positionText label index n = label @ '' ('' @ itoa (index + 1) @ ''/'' @ itoa (int n) @ '')''"

definition browseOrder :: "tuiEnv \<Rightarrow> int \<Rightarrow> string list \<Rightarrow> string" where
  "browseOrder env width names = wrapped env width (''Browse order: '' @ joinStrings names '', '')"

definition renderSupplierLookup :: "tuiEnv \<Rightarrow> Model \<Rightarrow> int \<Rightarrow> string list" where
  "renderSupplierLookup env m width =
    (let parts = Definition_Parts (te_scenario env)
     in case selectedLookupPart env m of
          None \<Rightarrow> [''No scenario parts are available.'']
        | Some part \<Rightarrow>
       (case ListValidSuppliers (te_scenario env) (pa_ID part) of
          Inl err \<Rightarrow> lookupErrorLines env width err
        | Inr lookup \<Rightarrow>
            [positionText ''Valid suppliers'' (lk_partIndex (tu_lookup m)) (length parts),
             ''Part: '' @ vl_DisplayName lookup @ '' ('' @ vl_PartID lookup @ '')'',
             ''Tool parity: list_valid_suppliers(part_id)'',
             ''Suppliers: '' @ joinStrings (vl_Suppliers lookup) '', '',
             browseOrder env width (map pa_DisplayName parts)]))"

definition renderRouteLookup :: "tuiEnv \<Rightarrow> Model \<Rightarrow> int \<Rightarrow> string list" where
  "renderRouteLookup env m width =
    (let products = Definition_Products (te_scenario env)
     in case selectedLookupRouteProduct env m of
          None \<Rightarrow> [''No scenario products are available.'']
        | Some product \<Rightarrow>
       (case ShowProductRoute (te_scenario env) (pd_ID product) of
          Inl err \<Rightarrow> lookupErrorLines env width err
        | Inr lookup \<Rightarrow>
            [positionText ''Product route'' (lk_routeIndex (tu_lookup m)) (length products),
             ''Product: '' @ rl_DisplayName lookup @ '' ('' @ rl_ProductID lookup @ '')'',
             ''Tool parity: show_product_route(product_id)'',
             ''Route: '' @ joinStrings (rl_Route lookup) '' -> '', ''Bottleneck: '' @ rl_BottleneckID lookup]
            @ (if TrimSpace (rl_BottleneckWhy lookup) = [] then []
               else [wrapped env width (''Bottleneck context: '' @ rl_BottleneckWhy lookup)])
            @ [browseOrder env width (map pd_DisplayName products)]))"

definition renderBOMLookup :: "tuiEnv \<Rightarrow> Model \<Rightarrow> int \<Rightarrow> string list" where
  "renderBOMLookup env m width =
    (let products = Definition_Products (te_scenario env)
     in case selectedLookupBOMProduct env m of
          None \<Rightarrow> [''No scenario products are available.'']
        | Some product \<Rightarrow>
       (case ShowProductBOM (te_scenario env) (pd_ID product) of
          Inl err \<Rightarrow> lookupErrorLines env width err
        | Inr lookup \<Rightarrow>
            [positionText ''Product BOM'' (lk_bomIndex (tu_lookup m)) (length products),
             ''Product: '' @ bo_DisplayName lookup @ '' ('' @ bo_ProductID lookup @ '')'',
             ''Tool parity: show_product_bom(product_id)'', ''Base unit cost: '' @ itoa (bo_BaseUnitCost lookup), ''Materials:'']
            @ map (\<lambda>item. ''- '' @ bl_PartID item @ '' x'' @ itoa (bl_Quantity item)) (bo_BOM lookup)
            @ [browseOrder env width (map pd_DisplayName products)]))"

definition renderDemandLookup :: "tuiEnv \<Rightarrow> Model \<Rightarrow> int \<Rightarrow> string list" where
  "renderDemandLookup env m width =
    (let refs = DemandProfileReferences (te_scenario env)
     in case selectedDemandReference env m of
          None \<Rightarrow> [''No customer demand profiles are available.'']
        | Some ref \<Rightarrow>
       (case ShowCustomerDemandProfile (te_scenario env) (df_CustomerID ref) (df_ProductID ref) of
          Inl err \<Rightarrow> lookupErrorLines env width err
        | Inr lookup \<Rightarrow>
            [positionText ''Customer demand'' (lk_demandIndex (tu_lookup m)) (length refs),
             ''Customer: '' @ cl_CustomerName lookup @ '' ('' @ cl_CustomerID lookup @ '')'',
             ''Product: '' @ cl_ProductName lookup @ '' ('' @ cl_ProductID lookup @ '')'',
             ''Tool parity: show_customer_demand_profile(customer_id, product_id)'',
             ''Reference price: '' @ itoa (cl_ReferencePrice lookup), ''Base demand: '' @ itoa (cl_BaseDemand lookup),
             ''Price sensitivity: '' @ itoa (cl_PriceSensitivity lookup),
             browseOrder env width (map (\<lambda>ref. df_CustomerName ref @ ''/'' @ df_ProductName ref) refs)]))"

definition renderScenarioLookupWorkspace :: "tuiEnv \<Rightarrow> Model \<Rightarrow> int \<Rightarrow> string list" where
  "renderScenarioLookupWorkspace env m width =
     [''Scenario lookups for '' @ ScenarioDisplayName (te_scenario env),
      ''View: browse the same canonical scenario lookup surface used by AI tool calls'',
      selectedLookupTabsLine (lk_active (tu_lookup m)),
      ''Use v/r/b/d to switch lookup type and up/down to browse entries.'', []]
     @ (case lk_active (tu_lookup m) of
          lookupViewRoutes \<Rightarrow> renderRouteLookup env m width
        | lookupViewBOM \<Rightarrow> renderBOMLookup env m width
        | lookupViewDemand \<Rightarrow> renderDemandLookup env m width
        | lookupViewSuppliers \<Rightarrow> renderSupplierLookup env m width)"

end
