(* ===== verification/DebugTree.thy ===== *)
theory DebugTree
  imports ScenarioBrowser
begin

text \<open>
  The debug inspector of the gameplay shell (\<open>internal/adapters/tui/debug_tree.go\<close>): the tree of round
  inspections and AI traces, which of its nodes are visible, the selection, and its text.  A node of
  the tree is a value; its parent is known by id.
\<close>

section \<open>The tree\<close>

datatype debugTreeNode =
  DebugNode (dn_id: string) (dn_parentID: string) (dn_title: string) (dn_body: string) (dn_children: "debugTreeNode list")

record debugVisibleNode =
  vn_node :: debugTreeNode
  vn_depth :: int

record debugWorkspaceRender =
  dw_lines :: "string list"
  dw_selectedLineStart :: int
  dw_selectedLineCount :: int

definition inspectionRootID :: string where
  "inspectionRootID = ''debug:inspection''"

definition debugInspectionRoundNodeID :: "RoundNumber \<Rightarrow> string" where
  "debugInspectionRoundNodeID round = ''debug:inspection:round:'' @ pad_itoa 6 round"

definition debugRoundNodeID :: "RoundNumber \<Rightarrow> string" where
  "debugRoundNodeID round = ''debug:round:'' @ pad_itoa 6 round"

definition debugAttemptNodeID :: "RoundNumber \<Rightarrow> int \<Rightarrow> string" where
  "debugAttemptNodeID round attempt = debugRoundNodeID round @ '':attempt:'' @ pad_itoa 3 attempt"

text \<open>\<open>Sscanf\<close> with \<open>%06d\<close> reads at most six digits.\<close>

definition parseRoundID :: "string \<Rightarrow> RoundNumber" where
  "parseRoundID i = int (read_digits (takeWhile isDigit (take 6 (drop (length ''debug:round:'') i))))"

definition sanitizeDebugText :: "string \<Rightarrow> string" where
  "sanitizeDebugText = map (\<lambda>c. if c = CHR 0x09 then CHR '' '' else c)"

definition actionCounts :: "RoundRecord \<Rightarrow> string" where
  "actionCounts round = itoa (int (length (rr_Actions round))) @ '' actions | '' @ itoa (int (length (rr_Events round)))
     @ '' events | '' @ itoa (int (length (rr_Commentary round))) @ '' commentary''"

definition debugActionInspectionBody :: "tuiEnv \<Rightarrow> RoundRecord \<Rightarrow> RoleID \<Rightarrow> string" where
  "debugActionInspectionBody env round roleID =
    (case find_first (\<lambda>a. as_RoleID a = roleID) (rr_Actions round) of
       None \<Rightarrow> ''No submitted action for '' @ displayRoleName roleID @ '' was recorded in round '' @ itoa (rr_Round round) @ ''.''
     | Some action \<Rightarrow>
        let selected = ActionSubmission_Clone action
        in joinStrings
            ([''Role: '' @ displayRoleName (as_RoleID selected), ''Action ID: '' @ as_ActionID selected]
             @ (if as_SubmittedAt selected = 0 then []
                else [''Submitted at: '' @ tm_FormatTime (te_terminal env) (as_SubmittedAt selected)])
             @ [''Action summary:''] @ map (\<lambda>summary. ''  - '' @ summary) (summarizeAction (as_Action selected))
             @ (if TrimSpace (cm_Body (as_Commentary selected)) = [] then []
                else [''Commentary: '' @ cm_Body (as_Commentary selected)])) [newline])"

text \<open>The snapshots before and after a round: the last ones with their round numbers.\<close>

definition roundStatePair :: "tuiEnv \<Rightarrow> RoundNumber \<Rightarrow> (MatchState \<times> MatchState) option" where
  "roundStatePair env round =
    (let snapshots = (case te_snapshots env of None \<Rightarrow> [] | Some snapshots \<Rightarrow> snapshots);
         latest = (\<lambda>n. find_first (\<lambda>s. ms_CurrentRound s = n) (rev snapshots))
     in case (latest round, latest (round + 1)) of
          (Some before, Some after) \<Rightarrow> Some (MatchState_Clone before, MatchState_Clone after)
        | _ \<Rightarrow> None)"

definition signedText :: "int \<Rightarrow> string" where
  "signedText n = (if n < 0 then itoa n else ''+'' @ itoa n)"

definition debugStateDiffBody :: "tuiEnv \<Rightarrow> RoundNumber \<Rightarrow> PlantMetrics \<Rightarrow> string" where
  "debugStateDiffBody env round metrics =
    (case roundStatePair env round of
       None \<Rightarrow> ''State diff unavailable. This inspector needs round snapshots from the current live session or persisted replay store.''
     | Some (before, after) \<Rightarrow>
        let p = ms_Plant before; q = ms_Plant after; x = ms_Metrics before; y = ms_Metrics after;
            diffs = [(''Cash'', pl_Cash p, pl_Cash q), (''Debt'', pl_Debt p, pl_Debt q),
              (''Backlog lines'', int (length (pl_Backlog p)), int (length (pl_Backlog q))),
              (''Parts on hand units'', pm_PartsOnHandUnits x, pm_PartsOnHandUnits y),
              (''Finished goods units'', pm_FinishedGoodsUnits x, pm_FinishedGoodsUnits y),
              (''Inspection hold units'', pm_InspectionHoldUnits x, pm_InspectionHoldUnits y),
              (''Receivables open'', int (length (pl_Receivables p)), int (length (pl_Receivables q))),
              (''Payables open'', int (length (pl_Payables p)), int (length (pl_Payables q)))];
            changed = filter (\<lambda>(label, from, to). from \<noteq> to) diffs
        in joinStrings
            ([''State transition: round '' @ itoa (ms_CurrentRound before) @ '' -> '' @ itoa (ms_CurrentRound after),
              ''Round profit: '' @ itoa (pm_RoundProfit metrics), ''Net cash change: '' @ itoa (pm_NetCashChange metrics)]
             @ map (\<lambda>(label, from, to). label @ '': '' @ itoa from @ '' -> '' @ itoa to @ '' ('' @ signedText (to - from) @ '')'') changed
             @ (if changed = [] then [''No tracked aggregate counters changed across the stored snapshots.''] else []))
            [newline])"

definition timelineText :: "RoundTimelineEntry \<Rightarrow> string list" where
  "timelineText entry =
    (let label = timelinePhaseLabel (tl_Phase entry) @ '' #'' @ itoa (tl_Sequence entry) @ '': ''
     in case tl_Kind entry of
          RoundTimelineKindCommentary \<Rightarrow>
            (case tl_Commentary entry of
               None \<Rightarrow> [] | Some c \<Rightarrow> [label @ displayRoleName (cm_RoleID c) @ '' said '' @ quoteText (cm_Body c)])
        | RoundTimelineKindEvent \<Rightarrow>
            (case tl_Event entry of None \<Rightarrow> [] | Some e \<Rightarrow> [label @ ev_Summary e]))"

definition debugTimelineBody :: "RoundRecord \<Rightarrow> string" where
  "debugTimelineBody round =
    (let timeline = CanonicalTimeline round; n = min (length timeline) 8
     in if timeline = [] then ''No timeline entries were recorded for this round.''
        else joinStrings ((''Showing '' @ itoa (int n) @ '' of '' @ itoa (int (length timeline)) @ '' timeline entries.'')
          # concat (map timelineText (take n timeline))) [newline])"

definition buildRoundInspectionNode :: "tuiEnv \<Rightarrow> Model \<Rightarrow> RoundRecord \<Rightarrow> debugTreeNode" where
  "buildRoundInspectionNode env m round =
    (let i = debugInspectionRoundNodeID (rr_Round round)
     in DebugNode i inspectionRootID (''Round '' @ itoa (rr_Round round) @ '' ('' @ actionCounts round @ '')'') []
          [DebugNode (i @ '':action'') i (''Action inspection for '' @ roleTitle m)
             (debugActionInspectionBody env round (ra_RoleID (selectedAssignment m))) [],
           DebugNode (i @ '':state'') i ''State transition summary'' (debugStateDiffBody env (rr_Round round) (rr_Metrics round)) [],
           DebugNode (i @ '':timeline'') i ''Round timeline highlights'' (debugTimelineBody round) []])"

definition buildRoundInspectionTree :: "tuiEnv \<Rightarrow> Model \<Rightarrow> debugTreeNode option" where
  "buildRoundInspectionTree env m =
    (let rounds = rh_RecentRounds (ms_History (tu_state m))
     in if rounds = [] then None
        else Some (DebugNode inspectionRootID [] (''Round inspections ('' @ itoa (int (length rounds)) @ '' retained)'') []
          (map (buildRoundInspectionNode env m) (rev rounds))))"

definition debugRoleRecords :: "tuiEnv \<Rightarrow> Model \<Rightarrow> AICallRecord list" where
  "debugRoleRecords env m =
    (let roleID = ra_RoleID (selectedAssignment m)
     in case te_debugLog env of
          None \<Rightarrow> []
        | Some records \<Rightarrow> if roleID = OtherRole [] then [] else filter (\<lambda>record1. cr_RoleID record1 = roleID) records)"

definition debugAttemptOutcome :: "AICallRecord \<Rightarrow> string" where
  "debugAttemptOutcome record1 = (if cr_Valid record1 then ''Success'' else ''Failure'')"

definition debugFailureKind :: "AICallRecord \<Rightarrow> string" where
  "debugFailureKind record1 =
    (if TrimSpace (cr_RawResponse record1) = [] then ''Transport/provider failure.'' else ''Parse/validation failure.'')"

definition debugStatusErrorBody :: "AICallRecord \<Rightarrow> string" where
  "debugStatusErrorBody record1 =
    (if TrimSpace (cr_ErrorMessage record1) = [] then ''No additional error details were recorded.''
     else ''Recorded details:'' @ [newline] @ sanitizeDebugText (cr_ErrorMessage record1))"

definition debugAttemptStatus :: "AICallRecord \<Rightarrow> string" where
  "debugAttemptStatus record1 =
    (if cr_Valid record1 then ''Accepted final response.''
     else if cr_IsToolCall record1
     then ''The model requested a lookup tool call, so the attempt did not return a final decision.'' @ [newline]
       @ debugStatusErrorBody record1
     else if TrimSpace (cr_ErrorMessage record1) \<noteq> []
     then debugFailureKind record1 @ [newline] @ debugStatusErrorBody record1
     else ''The attempt did not produce a valid final response.'')"

definition debugRequestDetails :: "AICallRecord \<Rightarrow> string" where
  "debugRequestDetails record1 =
    (let sections = (if TrimSpace (cr_SystemPrompt record1) = [] then []
           else [''System prompt:'' @ [newline] @ sanitizeDebugText (cr_SystemPrompt record1)])
         @ (if TrimSpace (cr_UserPrompt record1) = [] then []
            else [''User prompt:'' @ [newline] @ sanitizeDebugText (cr_UserPrompt record1)])
     in if sections = [] then ''No request payload was recorded.'' else joinStrings sections [newline, newline])"

definition debugResponseSummary :: "AICallRecord \<Rightarrow> string" where
  "debugResponseSummary record1 =
    (let chars = itoa (int (length (cr_RawResponse record1)))
     in if TrimSpace (cr_RawResponse record1) = [] then ''no response body captured''
        else if cr_IsToolCall record1 then chars @ '' chars, tool call''
        else if cr_Valid record1 then chars @ '' chars, valid JSON'' else chars @ '' chars, invalid response'')"

definition debugResponseDetails :: "AICallRecord \<Rightarrow> string" where
  "debugResponseDetails record1 =
    (if TrimSpace (cr_RawResponse record1) = [] then ''No response body was captured for this attempt.''
     else sanitizeDebugText (cr_RawResponse record1))"

definition buildDebugAttemptNode :: "AICallRecord \<Rightarrow> string \<Rightarrow> debugTreeNode" where
  "buildDebugAttemptNode record1 parentID =
    (let i = debugAttemptNodeID (cr_Round record1) (cr_Attempt record1)
     in DebugNode i parentID (''Try '' @ itoa (cr_Attempt record1) @ '' - '' @ debugAttemptOutcome record1) []
          [DebugNode (i @ '':status'') i ''Try status details'' (debugAttemptStatus record1) [],
           DebugNode (i @ '':request:summary'') i (''Request summary ('' @ cr_Provider record1 @ ''/'' @ cr_Model record1
               @ '', system '' @ itoa (int (length (cr_SystemPrompt record1))) @ '' chars, user ''
               @ itoa (int (length (cr_UserPrompt record1))) @ '' chars)'') []
             [DebugNode (i @ '':request:detail'') (i @ '':request:summary'') ''Request details'' (debugRequestDetails record1) []],
           DebugNode (i @ '':response:summary'') i (''Response summary ('' @ debugResponseSummary record1 @ '')'') []
             [DebugNode (i @ '':response:detail'') (i @ '':response:summary'') ''Response details'' (debugResponseDetails record1) []]])"

text \<open>The attempts by round, in the order the rounds are met; the nodes are then sorted by id, the
  rounds backwards.\<close>

definition attemptsByRound :: "AICallRecord list \<Rightarrow> (RoundNumber \<times> debugTreeNode list) list" where
  "attemptsByRound records = foldl (\<lambda>groups record1.
     let node = buildDebugAttemptNode record1 (debugRoundNodeID (cr_Round record1))
     in upsert_first (\<lambda>(round, _). round = cr_Round record1) (\<lambda>(round, nodes). (round, nodes @ [node]))
          (cr_Round record1, [node]) groups) [] records"

definition buildTraceRoundNodes :: "AICallRecord list \<Rightarrow> string \<Rightarrow> debugTreeNode list" where
  "buildTraceRoundNodes records parentID =
    (let tries = (\<lambda>round. length (filter (\<lambda>record1. cr_Round record1 = round) records));
         groups = sort_by (\<lambda>left right. compare_go (fst right) (fst left))
           (map (\<lambda>(round, nodes). (debugRoundNodeID round, nodes)) (attemptsByRound records))
     in map (\<lambda>(i, nodes). let round = parseRoundID i
          in DebugNode i parentID (''Round '' @ itoa round @ '' ('' @ itoa (int (tries round)) @ '' tries)'') []
               (sort_by (\<lambda>left right. compare_go (dn_id left) (dn_id right)) nodes)) groups)"

definition buildTraceTree :: "tuiEnv \<Rightarrow> Model \<Rightarrow> debugTreeNode option" where
  "buildTraceTree env m =
    (let records = debugRoleRecords env m
     in if records = [] then None
        else Some (DebugNode ''debug:traces'' [] (''Prompt/response traces for '' @ roleTitle m @ '' (''
          @ itoa (int (length records)) @ '' total)'') [] (buildTraceRoundNodes records ''debug:traces'')))"

definition buildDebugTree :: "tuiEnv \<Rightarrow> Model \<Rightarrow> debugTreeNode list" where
  "buildDebugTree env m =
     (case buildRoundInspectionTree env m of None \<Rightarrow> [] | Some inspection \<Rightarrow> [inspection])
     @ (case buildTraceTree env m of None \<Rightarrow> [] | Some traces \<Rightarrow> [traces])"

section \<open>Visible nodes and the selection\<close>

definition isDebugNodeExpanded :: "Model \<Rightarrow> string \<Rightarrow> int \<Rightarrow> bool" where
  "isDebugNodeExpanded m nodeID depth =
    (case tu_debugExpanded m nodeID of Some expanded \<Rightarrow> expanded | None \<Rightarrow> depth \<le> 1)"

fun flattenDebugNode :: "Model \<Rightarrow> int \<Rightarrow> debugTreeNode \<Rightarrow> debugVisibleNode list" where
  "flattenDebugNode m depth (DebugNode i parentID title body children) =
     \<lparr>vn_node = DebugNode i parentID title body children, vn_depth = depth\<rparr>
     # (if children = [] \<or> \<not> isDebugNodeExpanded m i depth then []
        else concat (map (flattenDebugNode m (depth + 1)) children))"

definition flattenDebugNodes :: "Model \<Rightarrow> debugTreeNode list \<Rightarrow> int \<Rightarrow> debugVisibleNode list" where
  "flattenDebugNodes m nodes depth = concat (map (flattenDebugNode m depth) nodes)"

definition visibleDebugNodes :: "tuiEnv \<Rightarrow> Model \<Rightarrow> debugVisibleNode list" where
  "visibleDebugNodes env m = flattenDebugNodes m (buildDebugTree env m) 0"

definition visibleID :: "debugVisibleNode \<Rightarrow> string" where
  "visibleID v = dn_id (vn_node v)"

text \<open>The first visible node with the selected id, or the first of all.\<close>

definition debugSelectionIndex :: "Model \<Rightarrow> debugVisibleNode list \<Rightarrow> nat" where
  "debugSelectionIndex m visible =
    (if tu_debugSelected m \<in> set (map visibleID visible)
     then length (takeWhile (\<lambda>v. visibleID v \<noteq> tu_debugSelected m) visible) else 0)"

definition ensureDebugSelection :: "tuiEnv \<Rightarrow> Model \<Rightarrow> Model" where
  "ensureDebugSelection env m =
    (let visible = visibleDebugNodes env m
     in if tu_workspace m \<noteq> workspaceDebug then m
        else if visible = [] then m\<lparr>tu_debugSelected := []\<rparr>
        else if tu_debugSelected m \<in> set (map visibleID visible) then m
        else m\<lparr>tu_debugSelected := visibleID (hd visible)\<rparr>)"

section \<open>Text\<close>

definition wrapIndentedBlock :: "terminal \<Rightarrow> string \<Rightarrow> int \<Rightarrow> string \<Rightarrow> string list" where
  "wrapIndentedBlock tm text1 width continuation =
     concat (map (\<lambda>part. case splitLines (wrapLine tm part width) of
         [] \<Rightarrow> []
       | segment # segments \<Rightarrow> segment # map (\<lambda>segment. continuation @ TrimSpace segment) segments) (splitLines text1))"

definition renderDebugTreeNode :: "terminal \<Rightarrow> debugVisibleNode \<Rightarrow> int \<Rightarrow> bool \<Rightarrow> bool \<Rightarrow> string list" where
  "renderDebugTreeNode tm v width expanded selected =
    (let node = vn_node v; indent = repeatText ''  '' (vn_depth v); prefix = (if selected then ''>'' else '' '');
         marker = (if dn_children node = [] then ''.'' else if expanded then ''-'' else ''+'');
         start = prefix @ '' '' @ indent;
         lines = wrapIndentedBlock tm (start @ marker @ '' '' @ dn_title node) width (start @ ''  '')
     in if TrimSpace (dn_body node) = [] then lines
        else lines @ wrapIndentedBlock tm (start @ ''    '' @ dn_body node) width (start @ ''    ''))"

definition nodeLines :: "tuiEnv \<Rightarrow> Model \<Rightarrow> int \<Rightarrow> debugVisibleNode \<Rightarrow> string list" where
  "nodeLines env m width v = renderDebugTreeNode (te_terminal env) v (paneTextWidth width)
     (isDebugNodeExpanded m (visibleID v) (vn_depth v)) (visibleID v = tu_debugSelected m)"

text \<open>The loop over the visible nodes: the lines so far, and where the selected node starts and how
  many lines it has.\<close>

definition renderNodes :: "tuiEnv \<Rightarrow> Model \<Rightarrow> int \<Rightarrow> string list \<Rightarrow> debugVisibleNode list \<Rightarrow> string list \<times> int \<times> int" where
  "renderNodes env m width header visible = foldl (\<lambda>(lines, start, n) v.
     let new = nodeLines env m width v
     in if visibleID v = tu_debugSelected m
        then (lines @ new, int (length (flattenLines lines)), int (length (flattenLines new)))
        else (lines @ new, start, n)) (header, - 1, 0) visible"

definition renderDebugWorkspaceContent :: "tuiEnv \<Rightarrow> Model \<Rightarrow> int \<Rightarrow> debugWorkspaceRender" where
  "renderDebugWorkspaceContent env m width =
    (let lines = [''Debug inspector for '' @ roleTitle m,
           ''View: round actions, state transitions, and AI prompt/response traces in one drill-down tree'', []];
         visible = visibleDebugNodes env m
     in if visible = []
        then \<lparr>dw_lines = lines @ [if rh_RecentRounds (ms_History (tu_state m)) = [] \<and> te_debugLog env = None
                then ''No debug data is available yet.''
                else ''No round inspection or AI trace entries are available yet for this role.''],
              dw_selectedLineStart = 0, dw_selectedLineCount = 0\<rparr>
        else case renderNodes env m width lines visible of
          (lines, start, n) \<Rightarrow>
            \<lparr>dw_lines = lines, dw_selectedLineStart = (if start < 0 then 0 else start), dw_selectedLineCount = max n 1\<rparr>)"

section \<open>Moving the selection\<close>

text \<open>The dimensions of the center pane, as \<open>View\<close> makes it.\<close>

definition historyPaneDimensions :: "terminal \<Rightarrow> Model \<Rightarrow> int \<times> int" where
  "historyPaneDimensions tm m =
    (case shellGeometry tm (tu_width m) (tu_height m) of
       (width, layout, contentHeight, _) \<Rightarrow>
        case layout of
          layoutStacked \<Rightarrow>
            (case stackedPaneHeights contentHeight of (_, historyHeight, _) \<Rightarrow> (max (width - tm_FrameWidth tm) 1, historyHeight))
        | layoutCompact \<Rightarrow>
            (case compactPaneHeights contentHeight of (_, historyHeight) \<Rightarrow> (max (width - tm_FrameWidth tm) 1, historyHeight))
        | layoutWide \<Rightarrow>
            (case paneWidths (max (width - 3 * tm_FrameWidth tm) 3) of (_, centerWidth, _) \<Rightarrow> (centerWidth, contentHeight)))"

definition historyVisibleLineCount :: "terminal \<Rightarrow> Model \<Rightarrow> int" where
  "historyVisibleLineCount tm m = max (snd (historyPaneDimensions tm m) - 1) 0"

definition ensureDebugSelectionVisible :: "tuiEnv \<Rightarrow> Model \<Rightarrow> Model" where
  "ensureDebugSelectionVisible env m =
    (if tu_workspace m \<noteq> workspaceDebug then m
     else let rendered = renderDebugWorkspaceContent env m (fst (historyPaneDimensions (te_terminal env) m));
              visibleLines = historyVisibleLineCount (te_terminal env) m
     in if visibleLines \<le> 0 \<or> dw_selectedLineCount rendered = 0 then m\<lparr>tu_historyScroll := 0\<rparr>
        else let top = tu_historyScroll m; bottom = top + visibleLines;
                 selectedTop = dw_selectedLineStart rendered;
                 selectedBottom = dw_selectedLineStart rendered + dw_selectedLineCount rendered;
                 scroll = (if selectedTop < top then selectedTop
                   else if selectedBottom > bottom then selectedBottom - visibleLines else top)
        in m\<lparr>tu_historyScroll := clampScrollOffset scroll (int (length (flattenLines (dw_lines rendered)))) visibleLines\<rparr>)"

definition selectNode :: "tuiEnv \<Rightarrow> string \<Rightarrow> Model \<Rightarrow> Model" where
  "selectNode env i m = ensureDebugSelectionVisible env (m\<lparr>tu_debugSelected := i\<rparr>)"

definition moveDebugSelection :: "tuiEnv \<Rightarrow> int \<Rightarrow> Model \<Rightarrow> Model" where
  "moveDebugSelection env delta m =
    (let visible = visibleDebugNodes env m
     in if visible = [] then m\<lparr>tu_debugSelected := []\<rparr>
        else let index = max (min (int (debugSelectionIndex m visible) + delta) (int (length visible) - 1)) 0
        in selectNode env (visibleID (visible ! nat index)) m)"

definition pageDebugSelection :: "tuiEnv \<Rightarrow> int \<Rightarrow> Model \<Rightarrow> Model" where
  "pageDebugSelection env delta m = (if delta = 0 then m else moveDebugSelection env delta m)"

definition moveDebugSelectionToEdge :: "tuiEnv \<Rightarrow> bool \<Rightarrow> Model \<Rightarrow> Model" where
  "moveDebugSelectionToEdge env toEnd m =
    (let visible = visibleDebugNodes env m
     in if visible = [] then m\<lparr>tu_debugSelected := []\<rparr>
        else selectNode env (visibleID (if toEnd then last visible else hd visible)) m)"

definition setExpanded :: "string \<Rightarrow> bool \<Rightarrow> Model \<Rightarrow> Model" where
  "setExpanded i expanded m = m\<lparr>tu_debugExpanded := (tu_debugExpanded m)(i \<mapsto> expanded)\<rparr>"

definition expandDebugSelection :: "tuiEnv \<Rightarrow> Model \<Rightarrow> Model" where
  "expandDebugSelection env m =
    (let visible = visibleDebugNodes env m; selected = vn_node (visible ! debugSelectionIndex m visible)
     in if visible = [] then m
        else if dn_children selected = [] then m
        else selectNode env (dn_id (hd (dn_children selected))) (setExpanded (dn_id selected) True m))"

text \<open>A node that is expanded by default has no entry in the map, and reads as not expanded here.\<close>

definition collapseDebugSelection :: "tuiEnv \<Rightarrow> Model \<Rightarrow> Model" where
  "collapseDebugSelection env m =
    (let visible = visibleDebugNodes env m; selected = vn_node (visible ! debugSelectionIndex m visible);
         i = dn_id selected; parentID = dn_parentID selected;
         toParent = (\<lambda>m. selectNode env parentID (setExpanded parentID False m))
     in if visible = [] then m
        else if dn_children selected = [] then (if parentID = [] then m else toParent m)
        else if tu_debugExpanded m i = Some True
        then let m = setExpanded i False m
             in ensureDebugSelectionVisible env (if parentID = [] then m else m\<lparr>tu_debugSelected := parentID\<rparr>)
        else if parentID = [] then m else toParent m)"

end
