(* ===== verification/TuiModel.thy ===== *)
theory TuiModel
  imports DebugTree
begin

text \<open>
  The gameplay shell (\<open>internal/adapters/tui/model.go\<close>): the text of its panes, its keys and
  messages, and its view.  A message is handled in one step; \<open>None\<close> is a panic.  The commands it
  returns are what the terminal library is to run next.
\<close>

section \<open>Text of the workspaces\<close>

text \<open>The number of seconds is an \<open>int\<close>.\<close>

definition revealDelaySummary :: "RoundFlowState \<Rightarrow> RoleAssignment list \<Rightarrow> string" where
  "revealDelaySummary flow assignments =
    (if 0 < humanRoleCount assignments then ''Reveal remains visible until the next collection phase begins.''
     else if rf_AIRevealDelaySeconds flow \<le> 0 then ''AI-only reveal pause is not configured.''
     else itemText ''AI-only rounds hold the reveal for '' (rf_AIRevealDelaySeconds flow) '' seconds before advancing.'')"

text \<open>The phase is one of the three named; the unset one counts as collecting.\<close>

definition roundFlowSummary :: "RoundFlowState \<Rightarrow> RoleAssignment list \<Rightarrow> string list" where
  "roundFlowSummary flow assignments =
    (let phase = (if rf_Phase flow = RoundPhaseUnset then RoundPhaseCollecting else rf_Phase flow);
         submitted = int (length (rf_SubmittedRoles flow)); waiting = int (length (rf_WaitingOnRoles flow));
         sum1 = (if submitted + waiting = 0 then int (length assignments) else submitted + waiting)
     in roundPhaseDescription phase #
        (case phase of
           RoundPhaseCollecting \<Rightarrow>
             [''Submissions received: '' @ itoa submitted @ ''/'' @ itoa sum1, waitingOnSummary (rf_WaitingOnRoles flow),
              ''Current-turn actions remain hidden until every role is collected and the round resolves.'']
         | RoundPhaseResolving \<Rightarrow>
             [''All current-turn actions are locked in.'', ''The plant is resolving simultaneous decisions before reveal.'']
         | RoundPhaseRevealed \<Rightarrow>
             [''Round results are now visible in the resolved history below.'', revealDelaySummary flow assignments]
         | RoundPhaseUnset \<Rightarrow> [''Round flow is waiting for the next engine update.'']))"

text \<open>The loop starts with the empty phase, which no entry has.\<close>

fun timelineLines :: "RoundTimelinePhase option \<Rightarrow> RoundTimelineEntry list \<Rightarrow> string list" where
  "timelineLines phase [] = []"
| "timelineLines phase (entry # entries) =
    (let label = ''    '' @ itoa (tl_Sequence entry) @ ''. ''
     in (if phase = Some (tl_Phase entry) then [] else [''  '' @ timelinePhaseLabel (tl_Phase entry)])
        @ (case tl_Kind entry of
             RoundTimelineKindCommentary \<Rightarrow>
               (case tl_Commentary entry of
                  None \<Rightarrow> [] | Some c \<Rightarrow> [label @ displayRoleName (cm_RoleID c) @ '': '' @ cm_Body c])
           | RoundTimelineKindEvent \<Rightarrow>
               (case tl_Event entry of None \<Rightarrow> [] | Some e \<Rightarrow> [label @ ''Event: '' @ ev_Summary e]))
        @ timelineLines (Some (tl_Phase entry)) entries)"

definition roundTimelineLines :: "RoundTimelineEntry list \<Rightarrow> string list" where
  "roundTimelineLines = timelineLines None"

definition historyEntryTimeline :: "RoundHistoryEntry \<Rightarrow> RoundTimelineEntry list" where
  "historyEntryTimeline entry =
    (if he_Timeline entry \<noteq> [] then map RoundTimelineEntry_Clone (he_Timeline entry)
     else CanonicalTimeline \<lparr>rr_Round = he_Round entry, rr_Actions = [], rr_Events = he_Events entry,
       rr_Commentary = he_Commentary entry, rr_Timeline = [], rr_Metrics = zero_PlantMetrics\<rparr>)"

definition timelineOrNone :: "RoundTimelineEntry list \<Rightarrow> string list" where
  "timelineOrNone timeline = (if timeline = [] then [''  No visible history.''] else roundTimelineLines timeline)"

definition historyFeedEntries :: "RoundHistoryEntry list \<Rightarrow> string list" where
  "historyFeedEntries rounds = concat (map (\<lambda>round.
     (''[R'' @ itoa (he_Round round) @ ''] '' @ itoa (int (length (he_Events round))) @ '' events | ''
        @ itoa (int (length (he_Commentary round))) @ '' commentary'')
     # timelineOrNone (historyEntryTimeline round)) rounds)"

definition archiveEntries :: "RoundRecord list \<Rightarrow> string list" where
  "archiveEntries rounds = concat (map (\<lambda>round.
     (''[R'' @ itoa (rr_Round round) @ ''] '' @ actionCounts round @ '' | profit '' @ itoa (pm_RoundProfit (rr_Metrics round))
        @ '' | net cash '' @ itoa (pm_NetCashChange (rr_Metrics round)))
     # timelineOrNone (CanonicalTimeline round)) (rev rounds))"

definition lastRoundEntries :: "RoundHistoryEntry list \<Rightarrow> nat \<Rightarrow> RoundHistoryEntry list" where
  "lastRoundEntries rounds limit = (if length rounds \<le> limit then rounds else drop (length rounds - limit) rounds)"

definition renderRoundFeedWorkspace :: "tuiEnv \<Rightarrow> Model \<Rightarrow> int \<Rightarrow> string list" where
  "renderRoundFeedWorkspace env m width =
    (let view = selectedRoleView m; recent = lastRoundEntries (rv_RecentRounds view) 3
     in [''Round '' @ itoa (rv_Round view) @ '' for '' @ roleTitle m, ''View: active round context and recent resolved feed'',
         ''Current phase: '' @ roundPhaseLabel (rf_Phase (rv_RoundFlow view))]
        @ roundFlowSummary (rv_RoundFlow view) (ms_Roles (tu_state m))
        @ (if recent = []
           then [[], ''No resolved rounds recorded yet.'', ''Recent events and role commentary will appear here after round one.'']
           else [[], itemText ''Recent resolved rounds ('' (int (length recent)) '' shown)''])
        @ map (wrapped env width) (historyFeedEntries recent))"

definition findReportSection :: "RoleReportSectionKind \<Rightarrow> RoleReportSection list \<Rightarrow> RoleReportSection option" where
  "findReportSection kind sections = find_first (\<lambda>section. se_Kind section = kind) sections"

definition departmentPaneLines :: "DepartmentPerformanceReport \<Rightarrow> string list" where
  "departmentPaneLines report =
    (case findReportSection RoleReportSectionExecutiveSummary (dr_Sections report) of
       None \<Rightarrow> []
     | Some section \<Rightarrow> se_Summary section @ map wn_Headline (se_Warnings section)
         @ (case findReportSection RoleReportSectionOperatingPicture (dr_Sections report) of
              None \<Rightarrow> [] | Some operating \<Rightarrow> se_Facts operating))"

definition departmentStatsMetrics :: "DepartmentPerformanceReport \<Rightarrow> RoleReportMetric list" where
  "departmentStatsMetrics report =
    (let operating = (case findReportSection RoleReportSectionOperatingPicture (dr_Sections report) of
           None \<Rightarrow> [] | Some operating \<Rightarrow> se_Metrics operating)
     in if operating \<noteq> [] then operating
        else case findReportSection RoleReportSectionExecutiveSummary (dr_Sections report) of
          None \<Rightarrow> [] | Some executive \<Rightarrow> se_Metrics executive)"

definition productValueSummaryLine :: "ProductValueSummary list \<Rightarrow> string" where
  "productValueSummaryLine items =
     ''Product value summary: '' @ itoa (foldl (\<lambda>n item. n + pv_Count item) 0 items) @ '' units across ''
     @ itoa (int (length items)) @ '' products worth '' @ itoa (foldl (\<lambda>n item. n + pv_TotalValue item) 0 items)"

definition productUnitSummaryLine :: "ProductUnitSummary list \<Rightarrow> string" where
  "productUnitSummaryLine items =
     ''Product unit summary: '' @ itoa (foldl (\<lambda>n item. n + pu_Count item) 0 items) @ '' units across ''
     @ itoa (int (length items)) @ '' products''"

text \<open>A line that is only there when its text is not empty.\<close>

definition lineIf :: "tuiEnv \<Rightarrow> int \<Rightarrow> string \<Rightarrow> string \<Rightarrow> string list" where
  "lineIf env width label text1 = (if text1 = [] then [] else [wrapped env width (label @ text1)])"

definition renderReportSectionLines :: "tuiEnv \<Rightarrow> RoleReportSection \<Rightarrow> int \<Rightarrow> string list" where
  "renderReportSectionLines env section width =
     [se_Title section] @ lineIf env width ''Decision support: '' (se_DecisionFocus section)
     @ listItems env width (se_Summary section)
     @ map (\<lambda>metric. wrapped env width (''- '' @ metricLine metric
         @ (if rm_Interpretation metric = [] then [] else '' | '' @ rm_Interpretation metric))) (se_Metrics section)
     @ listItems env width (se_Facts section)
     @ (case se_Inventory section of
          None \<Rightarrow> []
        | Some summary \<Rightarrow> wrapped env width (itemText ''- Inventory value: '' (iv_TotalValue summary) [])
            # map (\<lambda>bucket. wrapped env width (itemText (''- '' @ ib_Bucket bucket @ '': '') (ib_TotalValue bucket) []))
                (iv_Detail summary))
     @ (if se_ProductValues section = [] then []
        else [wrapped env width (''- '' @ productValueSummaryLine (se_ProductValues section))])
     @ (if se_ProductUnits section = [] then []
        else [wrapped env width (''- '' @ productUnitSummaryLine (se_ProductUnits section))])
     @ (if se_Financials section = [] then []
        else [wrapped env width (itemText ''- Tracked product financial summaries: '' (int (length (se_Financials section))) [])])
     @ concat (map (\<lambda>warning. [wrapped env width (''- Warning: '' @ wn_Headline warning),
         wrapped env width (''  '' @ wn_Detail warning)]) (se_Warnings section))
     @ concat (map (\<lambda>tradeoff. wrapped env width (''- Tradeoff: '' @ tr_Focus tradeoff @ '' | '' @ tr_Tension tradeoff)
         # lineIf env width ''  '' (tr_Guidance tradeoff)) (se_Tradeoffs section))
     @ concat (map (\<lambda>prompt. wrapped env width (''- Prompt: '' @ pp_Question prompt)
         # lineIf env width ''  '' (pp_WhyItMatters prompt)) (se_Prompts section))
     @ [[]]"

definition sectionsUnder :: "tuiEnv \<Rightarrow> int \<Rightarrow> string \<Rightarrow> RoleReportSection list \<Rightarrow> string list" where
  "sectionsUnder env width title sections =
    (if sections = [] then []
     else [[], title] @ concat (map (\<lambda>section. renderReportSectionLines env section width) sections))"

definition renderRoleReportWorkspace :: "tuiEnv \<Rightarrow> Model \<Rightarrow> int \<Rightarrow> string list" where
  "renderRoleReportWorkspace env m width =
    (let report = selectedRoleReport env m;
         lines = [''Role report for '' @ roleTitle m, ''View: current briefing, typed report sections, and decision prompts'']
           @ lineIf env width ''Bonus reminder: '' (re_BonusReminder report)
           @ lineIf env width ''Core decision: '' (dr_FocusQuestion (re_Department report))
           @ sectionsUnder env width ''Company snapshot'' (cr_Sections (re_Companywide report))
           @ sectionsUnder env width ''Department view'' (dr_Sections (re_Department report))
     in if length lines = 2 then lines @ [''No additional role report content is available yet.''] else lines)"

definition renderHistoryArchiveWorkspace :: "tuiEnv \<Rightarrow> Model \<Rightarrow> int \<Rightarrow> string list" where
  "renderHistoryArchiveWorkspace env m width =
    (let rounds = rh_RecentRounds (ms_History (tu_state m));
         lines = [''Archive for '' @ roleTitle m, ''View: retained round-by-round history and trend summaries'']
     in if rounds = [] then lines @ [''No historical rounds are retained yet.'']
        else lines @ [itemText ''Rounds retained: '' (int (length rounds)) [],
            ''Use this view for older rounds and per-round summaries rather than the current feed.'', []]
          @ map (wrapped env width) (archiveEntries rounds))"

definition workspaceNavigationLine :: "workspaceMode \<Rightarrow> string" where
  "workspaceNavigationLine active =
    (let items = [workspaceActionEntry, workspaceScenarioLookup, workspaceRoleReport, workspaceRoundFeed, workspaceHistoryArchive];
         labels = map (\<lambda>(index, mode). let label = itoa (int index + 1) @ '' '' @ workspaceShortLabel mode
             in if mode = active then ''['' @ label @ '']'' else label) (zip [0..<length items] items)
     in ''Navigate: '' @ joinStrings labels '' | '' @ '' | [/] cycle | ''
        @ (if active = workspaceDebug then ''[d debug]'' else ''d debug''))"

definition renderHistoryWorkspaceLines :: "tuiEnv \<Rightarrow> Model \<Rightarrow> int \<Rightarrow> string list" where
  "renderHistoryWorkspaceLines env m width =
    (let mode = tu_workspace m
     in [''Mode: '' @ workspaceLabel mode, workspaceNavigationLine mode]
        @ (if mode = workspaceScenarioLookup then renderScenarioLookupWorkspace env m width
           else if mode = workspaceRoleReport then renderRoleReportWorkspace env m width
           else if mode = workspaceActionEntry then renderActionEntryWorkspace env m width
           else if mode = workspaceHistoryArchive then renderHistoryArchiveWorkspace env m width
           else if mode = workspaceDebug then dw_lines (renderDebugWorkspaceContent env m width)
           else renderRoundFeedWorkspace env m width))"

section \<open>The panes\<close>

text \<open>The spinner's frames are Braille patterns (U+2819 and so on) in UTF-8.\<close>

definition providerSpinnerFrames :: "string list" where
  "providerSpinnerFrames = map (\<lambda>b. map char_of [226 :: nat, 160, b]) [153, 185, 184, 188, 180, 166, 167, 135]"

definition historyWorkspaceSupportsScroll :: "Model \<Rightarrow> bool" where
  "historyWorkspaceSupportsScroll m \<longleftrightarrow>
     tu_workspace m = workspaceRoundFeed \<or> tu_workspace m = workspaceHistoryArchive \<or> tu_workspace m = workspaceDebug"

definition renderDepartmentsPane :: "tuiEnv \<Rightarrow> Model \<Rightarrow> int \<Rightarrow> int \<Rightarrow> string" where
  "renderDepartmentsPane env m width height =
    (let report = selectedRoleReport env m; roles = ms_Roles (tu_state m);
         spinner = providerSpinnerFrames ! nat (go_mod (tu_spinnerFrame m) (int (length providerSpinnerFrames)));
         roleLine = (\<lambda>(index, a).
           (if int index = clampRoleIndex (tu_selectedRole m) (int (length roles)) then ''>'' else '' '') @ '' ''
           @ displayRoleName (ra_RoleID a)
           @ (if ra_RoleID a \<in> set (rf_ProviderWaitingRoles (effectiveRoundFlow m)) then '' '' @ spinner else [])
           @ '' ['' @ (if ra_IsHuman a then ''Human'' else ''AI'') @ '']'');
         spaced = (\<lambda>label text1. if text1 = [] then [] else [[], wrapped env width (label @ text1)]);
         lines = [''Scenario: '' @ ScenarioDisplayName (te_scenario env), ''Match: '' @ ms_MatchID (tu_state m),
             ''Mode: '' @ modeLabel (tu_focusedPane m), []]
           @ (if roles = [] then [''No role assignments loaded yet.''] else [])
           @ map roleLine (zip [0..<length roles] roles)
           @ spaced ''Bonus: '' (re_BonusReminder report)
           @ spaced ''Focus: '' (dr_FocusQuestion (re_Department report))
           @ listItems env width (departmentPaneLines (re_Department report))
     in renderPane (te_terminal env) ''Departments'' lines width height (tu_focusedPane m = paneDepartments))"

definition renderHistoryPane :: "tuiEnv \<Rightarrow> Model \<Rightarrow> int \<Rightarrow> int \<Rightarrow> string" where
  "renderHistoryPane env m width height =
    (let lines = renderHistoryWorkspaceLines env m width; focused = (tu_focusedPane m = paneHistory)
     in if historyWorkspaceSupportsScroll m
        then renderScrollablePane (te_terminal env) ''Center Workspace'' lines width height focused (tu_historyScroll m)
        else renderPane (te_terminal env) ''Center Workspace'' lines width height focused)"

definition workstationSummary :: "WorkstationState list \<Rightarrow> string" where
  "workstationSummary workstations =
    (if workstations = [] then ''Workstations: waiting for first telemetry''
     else itemText ''Workstations: '' (int (length workstations)) '' online'')"

definition renderStatsPane :: "tuiEnv \<Rightarrow> Model \<Rightarrow> int \<Rightarrow> int \<Rightarrow> string" where
  "renderStatsPane env m width height =
    (let view = selectedRoleView m; p = rv_Plant view; metrics = rv_Metrics view; targets = rv_ActiveTargets view;
         roleMetrics = departmentStatsMetrics (re_Department (selectedRoleReport env m));
         lines = [itemText ''Cash: '' (pl_Cash p) [], itemText ''Debt: '' (pl_Debt p) ('' / '' @ itoa (pl_DebtCeiling p)),
             itemText ''Backlog: '' (int (length (pl_Backlog p))) [], workstationSummary (pl_Workstations p),
             itemText ''Parts on hand: '' (pm_PartsOnHandUnits metrics) [],
             itemText ''Finished goods: '' (pm_FinishedGoodsUnits metrics) [],
             itemText ''Revenue: '' (pm_ThroughputRevenue metrics) [], itemText ''Profit: '' (pm_RoundProfit metrics) [],
             [], ''Targets'', itemText ''Procurement: '' (bt_ProcurementBudget targets) [],
             itemText ''Production: '' (bt_ProductionSpendBudget targets) [], itemText ''Revenue: '' (bt_RevenueTarget targets) [],
             itemText ''Cash floor: '' (bt_CashFloorTarget targets) [], itemText ''Debt ceiling: '' (bt_DebtCeilingTarget targets) []]
           @ (if roleMetrics = [] then [] else [[], ''Role metrics''] @ map metricLine roleMetrics)
     in renderPane (te_terminal env) ''Plant Stats'' lines width height (tu_focusedPane m = paneStats))"

definition workspaceInteractionHint :: "workspaceMode \<Rightarrow> string" where
  "workspaceInteractionHint active =
    (if active = workspaceActionEntry
     then ''up/down move fields or table rows, left/right move table columns, a add row, x remove row, enter edit/commit/advance, esc cancel, r review, s submit''
     else if active = workspaceScenarioLookup then ''v/r/b/d switch lookup tabs, up/down browse entries''
     else if active = workspaceRoleReport then ''role report is read-only''
     else if active = workspaceHistoryArchive then ''up/down/pgup/pgdn/home/end scroll archive history''
     else if active = workspaceDebug
     then ''up/down move, enter expand, esc collapse, pgup/pgdn/home/end jump through inspector tree''
     else ''up/down/pgup/pgdn/home/end scroll round feed history'')"

definition focusedPaneCommandHints :: "int \<Rightarrow> workspaceMode \<Rightarrow> string" where
  "focusedPaneCommandHints focusedPane active =
    (let base = ''Inspect mode | tab/shift+tab focus panes | 1/2/3/4/5 switch workspace | [/] cycle | q quit''
     in if focusedPane = paneDepartments then base @ '' | departments: up/down select role''
        else if focusedPane = paneHistory then base @ '' | center workspace: '' @ workspaceInteractionHint active
        else if focusedPane = paneStats then base @ '' | plant stats: read-only summary''
        else if focusedPane = paneCommandBar then base @ '' | command bar: status and focused-pane shortcuts''
        else base)"

definition statusLine :: "Model \<Rightarrow> string" where
  "statusLine m = (if tu_streamClosed m then tu_status m @ '' | engine updates paused'' else tu_status m)"

definition renderCommandBar :: "tuiEnv \<Rightarrow> Model \<Rightarrow> int \<Rightarrow> int \<Rightarrow> string" where
  "renderCommandBar env m width height =
    (let detail = TrimSpace (statusLine m);
         status = ''Mode: inspect | Focus: '' @ paneName (tu_focusedPane m) @ '' | Workspace: '' @ workspaceLabel (tu_workspace m)
           @ '' | Role: '' @ roleTitle m @ '' | Round: '' @ itoa (ms_CurrentRound (tu_state m))
           @ '' | Phase: '' @ roundPhaseShortLabel (rf_Phase (effectiveRoundFlow m))
           @ (if detail = [] then [] else '' | '' @ detail)
     in renderPane (te_terminal env) ''Command Bar''
          [focusedPaneCommandHints (tu_focusedPane m) (tu_workspace m), wrapped env width status]
          width height (tu_focusedPane m = paneCommandBar))"

section \<open>The view\<close>

definition renderContentArea :: "tuiEnv \<Rightarrow> Model \<Rightarrow> layoutMode \<Rightarrow> int \<Rightarrow> int \<Rightarrow> string" where
  "renderContentArea env m layout width height =
    (let tm = te_terminal env; frameWidth = tm_FrameWidth tm
     in case layout of
          layoutStacked \<Rightarrow>
            (case stackedPaneHeights height of (departmentsHeight, historyHeight, statsHeight) \<Rightarrow>
              let paneWidth = max (width - frameWidth) 1
              in tm_JoinVertical tm [renderDepartmentsPane env m paneWidth departmentsHeight,
                   renderHistoryPane env m paneWidth historyHeight, renderStatsPane env m paneWidth statsHeight])
        | layoutCompact \<Rightarrow>
            (case compactPaneHeights height of (topHeight, historyHeight) \<Rightarrow>
            (case splitWidth (max (width - 2 * frameWidth) 2) of (leftWidth, rightWidth) \<Rightarrow>
              tm_JoinVertical tm [tm_JoinHorizontal tm [renderDepartmentsPane env m leftWidth topHeight,
                   renderStatsPane env m rightWidth topHeight],
                 renderHistoryPane env m (max (width - frameWidth) 1) historyHeight]))
        | layoutWide \<Rightarrow>
            (case paneWidths (max (width - 3 * frameWidth) 3) of (leftWidth, centerWidth, rightWidth) \<Rightarrow>
              tm_JoinHorizontal tm [renderDepartmentsPane env m leftWidth height,
                renderHistoryPane env m centerWidth height, renderStatsPane env m rightWidth height]))"

definition tui_View :: "tuiEnv \<Rightarrow> Model \<Rightarrow> string" where
  "tui_View env m =
    (if ms_MatchID (tu_state m) = [] then ''Loading HerbieGo shell...''
     else case shellGeometry (te_terminal env) (tu_width m) (tu_height m) of
       (width, layout, contentHeight, commandHeight) \<Rightarrow>
         tm_JoinVertical (te_terminal env) [renderContentArea env m layout width contentHeight,
           renderCommandBar env m (max (width - tm_FrameWidth (te_terminal env)) 1) commandHeight])"

section \<open>Messages\<close>

text \<open>What a command makes the library do: quit, send the next state of the source or its end, or send a
  tick of the spinner.\<close>

datatype tuiCmd = CmdQuit | CmdWaitForUpdate | CmdLoadSnapshot | CmdSpinner int

datatype tuiMsg =
    TuiWindowSize int int
  | TuiKey KeyMsg
  | TuiMouse mouseButton
  | StateLoadedMsg MatchState
  | StatusMsg string
  | StateStreamClosedMsg
  | SpinnerTickMsg int
  | TuiOtherMsg

definition waitForUpdateCmd :: "tuiEnv \<Rightarrow> tuiCmd list" where
  "waitForUpdateCmd env = (if te_hasUpdates env then [CmdWaitForUpdate] else [])"

definition tui_Init :: "tuiEnv \<Rightarrow> tuiCmd list" where
  "tui_Init env = CmdLoadSnapshot # waitForUpdateCmd env"

definition spinnerCmd :: "Model \<Rightarrow> int \<Rightarrow> tuiCmd list" where
  "spinnerCmd m generation = (if hasProviderWaits m then [CmdSpinner generation] else [])"

definition refocus :: "tuiEnv \<Rightarrow> Model \<Rightarrow> Model" where
  "refocus env m = ensureDebugSelectionVisible env (ensureDebugSelection env m)"

definition moveRole :: "tuiEnv \<Rightarrow> int \<Rightarrow> Model \<Rightarrow> Model" where
  "moveRole env delta m =
    (let n = int (length (ms_Roles (tu_state m)))
     in if n = 0 then m
        else let m = refocus env (m\<lparr>tu_selectedRole := go_mod (tu_selectedRole m + delta + n) n, tu_historyScroll := 0\<rparr>)
        in m\<lparr>tu_status := ''Selected '' @ roleTitle m\<rparr>)"

definition switchWorkspace :: "tuiEnv \<Rightarrow> workspaceMode \<Rightarrow> Model \<Rightarrow> Model" where
  "switchWorkspace env mode m =
    (let m = refocus env (m\<lparr>tu_workspace := mode, tu_historyScroll := 0\<rparr>)
     in m\<lparr>tu_status := ''Workspace switched to '' @ workspaceLabel (tu_workspace m)\<rparr>)"

definition moveWorkspace :: "tuiEnv \<Rightarrow> int \<Rightarrow> Model \<Rightarrow> Model" where
  "moveWorkspace env delta m =
    (let modeCount = workspaceDebug + 1 in switchWorkspace env (go_mod (tu_workspace m + delta + modeCount) modeCount) m)"

definition setWorkspace :: "tuiEnv \<Rightarrow> workspaceMode \<Rightarrow> Model \<Rightarrow> Model" where
  "setWorkspace env mode m =
    (if tu_workspace m = mode then m\<lparr>tu_status := ''Workspace remains on '' @ workspaceLabel mode\<rparr>
     else switchWorkspace env mode m)"

definition historyLineCount :: "tuiEnv \<Rightarrow> Model \<Rightarrow> int" where
  "historyLineCount env m =
     int (length (flattenLines (renderHistoryWorkspaceLines env m (fst (historyPaneDimensions (te_terminal env) m)))))"

definition scrollHistoryBy :: "tuiEnv \<Rightarrow> int \<Rightarrow> Model \<Rightarrow> Model" where
  "scrollHistoryBy env delta m =
    (if delta = 0 then m
     else m\<lparr>tu_historyScroll := clampScrollOffset (tu_historyScroll m + delta) (historyLineCount env m)
       (historyVisibleLineCount (te_terminal env) m)\<rparr>)"

definition maxHistoryScrollOffset :: "tuiEnv \<Rightarrow> Model \<Rightarrow> int" where
  "maxHistoryScrollOffset env m =
     clampScrollOffset (historyLineCount env m) (historyLineCount env m) (historyVisibleLineCount (te_terminal env) m)"

definition historyPageSize :: "tuiEnv \<Rightarrow> Model \<Rightarrow> int" where
  "historyPageSize env m = max (historyVisibleLineCount (te_terminal env) m - 1) 1"

definition handleHistoryScrollKey :: "tuiEnv \<Rightarrow> KeyMsg \<Rightarrow> Model \<Rightarrow> bool \<times> Model" where
  "handleHistoryScrollKey env msg m =
    (let key = ky_String msg
     in if tu_focusedPane m \<noteq> paneHistory \<or> \<not> historyWorkspaceSupportsScroll m then (False, m)
        else if tu_workspace m = workspaceDebug
        then let m = ensureDebugSelection env m
             in if key = ''up'' then (True, moveDebugSelection env (- 1) m)
                else if key = ''down'' then (True, moveDebugSelection env 1 m)
                else if key = ''enter'' then (True, expandDebugSelection env m)
                else if key = ''esc'' then (True, collapseDebugSelection env m)
                else if key = ''pgup'' then (True, pageDebugSelection env (- historyPageSize env m) m)
                else if key = ''pgdown'' then (True, pageDebugSelection env (historyPageSize env m) m)
                else if key = ''home'' then (True, moveDebugSelectionToEdge env False m)
                else if key = ''end'' then (True, moveDebugSelectionToEdge env True m)
                else (False, m)
        else if key = ''up'' then (True, scrollHistoryBy env (- 1) m)
        else if key = ''down'' then (True, scrollHistoryBy env 1 m)
        else if key = ''pgup'' then (True, scrollHistoryBy env (- historyPageSize env m) m)
        else if key = ''pgdown'' then (True, scrollHistoryBy env (historyPageSize env m) m)
        else if key = ''home'' then (True, m\<lparr>tu_historyScroll := 0\<rparr>)
        else if key = ''end'' then (True, m\<lparr>tu_historyScroll := maxHistoryScrollOffset env m\<rparr>)
        else (False, m))"

definition handleHistoryScrollMouse :: "tuiEnv \<Rightarrow> mouseButton \<Rightarrow> Model \<Rightarrow> Model" where
  "handleHistoryScrollMouse env button m =
    (let delta = (case button of MouseButtonWheelUp \<Rightarrow> - 3 | MouseButtonWheelDown \<Rightarrow> 3 | _ \<Rightarrow> 0)
     in if tu_focusedPane m \<noteq> paneHistory \<or> \<not> historyWorkspaceSupportsScroll m \<or> \<not> IsWheel button then m
        else if tu_workspace m = workspaceDebug
        then let m = ensureDebugSelection env m in if delta = 0 then m else moveDebugSelection env delta m
        else if delta = 0 then m else scrollHistoryBy env delta m)"

text \<open>The keys of the shell itself.\<close>

definition shellKey :: "tuiEnv \<Rightarrow> string \<Rightarrow> Model \<Rightarrow> Model \<times> tuiCmd list" where
  "shellKey env key m =
    (let focus = (\<lambda>pane m. let m = m\<lparr>tu_focusedPane := pane\<rparr> in m\<lparr>tu_status := ''Focused '' @ paneName pane @ '' pane''\<rparr>)
     in if key = ''ctrl+c'' then (m\<lparr>tu_exitIntent := ExitIntentQuit\<rparr>, [CmdQuit])
        else if key = ''q''
        then if tu_quitBehavior m = QuitBehaviorReturnToMenu
             then (m\<lparr>tu_exitIntent := ExitIntentReturnToMenu, tu_status := ''Returning to the start menu...''\<rparr>, [CmdQuit])
             else (m\<lparr>tu_exitIntent := ExitIntentQuit\<rparr>, [CmdQuit])
        else if key = ''tab'' then (focus (go_mod (tu_focusedPane m + 1) 4) m, [])
        else if key = ''shift+tab'' then (focus (go_mod (tu_focusedPane m + 3) 4) m, [])
        else if key = '']'' then (moveWorkspace env 1 m, [])
        else if key = ''['' then (moveWorkspace env (- 1) m, [])
        else if key = ''1'' then (setWorkspace env workspaceActionEntry m, [])
        else if key = ''2'' then (setWorkspace env workspaceScenarioLookup m, [])
        else if key = ''3'' then (setWorkspace env workspaceRoleReport m, [])
        else if key = ''4'' then (setWorkspace env workspaceRoundFeed m, [])
        else if key = ''5'' then (setWorkspace env workspaceHistoryArchive m, [])
        else if key \<in> {''d'', ''D''} then (setWorkspace env workspaceDebug m, [])
        else if key \<in> {''up'', ''k''} then (if tu_focusedPane m = paneDepartments then moveRole env (- 1) m else m, [])
        else if key \<in> {''down'', ''j''} then (if tu_focusedPane m = paneDepartments then moveRole env 1 m else m, [])
        else (m, []))"

text \<open>A key goes to the lookups, the entry of actions and the scrolling first.\<close>

definition keyStep :: "tuiEnv \<Rightarrow> KeyMsg \<Rightarrow> Model \<Rightarrow> (Model \<times> tuiCmd list \<times> ActionSubmission list) option" where
  "keyStep env msg m =
    (case handleScenarioLookupKey env msg m of
       (True, m) \<Rightarrow> Some (m, [], [])
     | (False, m) \<Rightarrow>
    (case handleActionEntryKey env msg m of
       None \<Rightarrow> None
     | Some (True, m, sent) \<Rightarrow> Some (m, [], sent)
     | Some (False, m, sent) \<Rightarrow>
    (case handleHistoryScrollKey env msg m of
       (True, m) \<Rightarrow> Some (m, [], [])
     | (False, m) \<Rightarrow> (case shellKey env (ky_String msg) m of (m, cmds) \<Rightarrow> Some (m, cmds, [])))))"

definition stateLoaded :: "tuiEnv \<Rightarrow> MatchState \<Rightarrow> Model \<Rightarrow> Model \<times> tuiCmd list" where
  "stateLoaded env state m =
    (let m = (if ms_CurrentRound state \<noteq> ms_CurrentRound (tu_state m)
           then m\<lparr>tu_drafts := Map.empty, tu_historyScroll := 0\<rparr> else m);
         m = m\<lparr>tu_state := MatchState_Clone state\<rparr>;
         m = m\<lparr>tu_selectedRole := clampRoleIndex (tu_selectedRole m) (int (length (ms_Roles (tu_state m))))\<rparr>;
         m = refocus env m;
         m = m\<lparr>tu_status := ''Round '' @ itoa (ms_CurrentRound (tu_state m)) @ '' loaded for '' @ roleTitle m\<rparr>
     in if hasProviderWaits m
        then if tu_spinnerActive m then (m, waitForUpdateCmd env)
             else let m = m\<lparr>tu_spinnerActive := True, tu_spinnerGen := tu_spinnerGen m + 1\<rparr>
             in (m, waitForUpdateCmd env @ spinnerCmd m (tu_spinnerGen m))
        else (m\<lparr>tu_spinnerActive := False, tu_spinnerFrame := 0, tu_spinnerGen := tu_spinnerGen m + 1\<rparr>, waitForUpdateCmd env))"

definition hasPrefix :: "string \<Rightarrow> string \<Rightarrow> bool" where
  "hasPrefix s p \<longleftrightarrow> take (length p) s = p"

definition spinnerTick :: "int \<Rightarrow> Model \<Rightarrow> Model \<times> tuiCmd list" where
  "spinnerTick generation m =
    (if generation \<noteq> tu_spinnerGen m then (m, [])
     else if \<not> hasProviderWaits m then (m\<lparr>tu_spinnerActive := False, tu_spinnerFrame := 0\<rparr>, [])
     else let m = m\<lparr>tu_spinnerFrame := go_mod (tu_spinnerFrame m + 1) (int (length providerSpinnerFrames))\<rparr>
     in (m, spinnerCmd m (tu_spinnerGen m)))"

text \<open>A step gives the model, the commands and what was submitted to the live match.\<close>

definition tui_Update :: "tuiEnv \<Rightarrow> tuiMsg \<Rightarrow> Model \<Rightarrow> (Model \<times> tuiCmd list \<times> ActionSubmission list) option" where
  "tui_Update env msg m =
    (case msg of
       TuiWindowSize width height \<Rightarrow> Some (m\<lparr>tu_width := width, tu_height := height\<rparr>, [], [])
     | TuiKey key \<Rightarrow> keyStep env key m
     | TuiMouse button \<Rightarrow> Some (handleHistoryScrollMouse env button m, [], [])
     | StateLoadedMsg state \<Rightarrow> (case stateLoaded env state m of (m, cmds) \<Rightarrow> Some (m, cmds, []))
     | StatusMsg text1 \<Rightarrow> Some (if TrimSpace text1 = [] then m else m\<lparr>tu_status := text1\<rparr>, [], [])
     | StateStreamClosedMsg \<Rightarrow>
         let m = m\<lparr>tu_streamClosed := True\<rparr>
         in Some (if TrimSpace (tu_status m) = [] \<or> hasPrefix (tu_status m) ''Round ''
            then m\<lparr>tu_status := ''Match updates complete. Inspect results and press q to exit.''\<rparr> else m, [], [])
     | SpinnerTickMsg generation \<Rightarrow> (case spinnerTick generation m of (m, cmds) \<Rightarrow> Some (m, cmds, []))
     | TuiOtherMsg \<Rightarrow> Some (m, [], []))"

end
