(* ===== verification/TuiProperties.thy ===== *)
theory TuiProperties
  imports HostProperties DraftFacts TuiModel
begin

text \<open>
  The properties of the terminal: the shell of a match never panics and keeps its indexes in range,
  what it submits the engine accepts, and what its layout and its inspector do.
\<close>

section \<open>The shell never panics\<close>

text \<open>The numbers of the shell are in range, and so are its drafts.\<close>

definition shellOk :: "tuiEnv \<Rightarrow> Model \<Rightarrow> bool" where
  "shellOk env m \<longleftrightarrow> draftsOk env m
     \<and> 0 \<le> tu_selectedRole m \<and> (ms_Roles (tu_state m) \<noteq> [] \<longrightarrow> tu_selectedRole m < int (length (ms_Roles (tu_state m))))
     \<and> 0 \<le> tu_focusedPane m \<and> tu_focusedPane m < 4 \<and> 0 \<le> tu_workspace m \<and> tu_workspace m < 6
     \<and> 0 \<le> tu_historyScroll m \<and> 0 \<le> tu_spinnerFrame m \<and> tu_spinnerFrame m < int (length providerSpinnerFrames)"

text \<open>The part of the model that moving in the inspector leaves alone, apart from the scrolling.\<close>

definition sameShell :: "Model \<Rightarrow> Model \<Rightarrow> bool" where
  "sameShell m m' \<longleftrightarrow> tu_drafts m' = tu_drafts m \<and> tu_state m' = tu_state m \<and> tu_selectedRole m' = tu_selectedRole m
     \<and> tu_focusedPane m' = tu_focusedPane m \<and> tu_workspace m' = tu_workspace m \<and> tu_spinnerFrame m' = tu_spinnerFrame m
     \<and> (0 \<le> tu_historyScroll m \<longrightarrow> 0 \<le> tu_historyScroll m')"

lemma sameShell_ok: "sameShell m m' \<Longrightarrow> shellOk env m \<Longrightarrow> shellOk env m'"
  by (simp add: sameShell_def shellOk_def draftsOk_def)

lemma sameShell_refl [simp]: "sameShell m m"
  by (simp add: sameShell_def)

lemma sameShell_trans: "sameShell m1 m2 \<Longrightarrow> sameShell m2 m3 \<Longrightarrow> sameShell m1 m3"
  by (simp add: sameShell_def)

lemma clampScroll_lower [simp]: "0 \<le> clampScrollOffset offset lineCount visibleLines"
  using clampScroll_range by blast

lemma sameShell_fields [simp]:
  "sameShell m (m\<lparr>tu_debugSelected := i\<rparr>)" "sameShell m (m\<lparr>tu_debugExpanded := e\<rparr>)" "sameShell m (setExpanded i b m)"
  "sameShell m (m\<lparr>tu_status := s\<rparr>)" "0 \<le> k \<Longrightarrow> sameShell m (m\<lparr>tu_historyScroll := k\<rparr>)"
  "sameShell m (m\<lparr>tu_lookup := l\<rparr>)" "sameShell m (m\<lparr>tu_lookup := l, tu_status := s\<rparr>)"
  by (simp_all add: sameShell_def setExpanded_def)

lemma sameShell_if: "sameShell m x \<Longrightarrow> sameShell m y \<Longrightarrow> sameShell m (if c then x else y)"
  by simp

lemma sameShell_inspect:
  "sameShell m (ensureDebugSelectionVisible env m)" "sameShell m (ensureDebugSelection env m)"
  unfolding ensureDebugSelectionVisible_def ensureDebugSelection_def Let_def
  by (intro sameShell_if sameShell_refl sameShell_fields(1,5) clampScroll_lower order_refl)+

lemma sameShell_select: "sameShell m m' \<Longrightarrow> sameShell m (selectNode env i m')"
  unfolding selectNode_def by (rule sameShell_trans [OF sameShell_trans [OF _ sameShell_fields(1)] sameShell_inspect(1)])

lemma sameShell_moves:
  "sameShell m (moveDebugSelection env delta m)" "sameShell m (pageDebugSelection env delta m)"
  "sameShell m (moveDebugSelectionToEdge env b m)" "sameShell m (expandDebugSelection env m)"
  "sameShell m (collapseDebugSelection env m)" "sameShell m (scrollHistoryBy env delta m)"
proof -
  have visible: "sameShell m (ensureDebugSelectionVisible env m')" if "sameShell m m'" for m'
    by (rule sameShell_trans [OF that sameShell_inspect(1)])
  have collapsed: "sameShell m ((setExpanded i b m)\<lparr>tu_debugSelected := j\<rparr>)" for i b j
    by (rule sameShell_trans [OF sameShell_fields(3) sameShell_fields(1)])
  show move: "sameShell m (moveDebugSelection env delta m)" for delta
    by (simp add: moveDebugSelection_def Let_def sameShell_select)
  show "sameShell m (pageDebugSelection env delta m)" by (simp add: pageDebugSelection_def move)
  show "sameShell m (moveDebugSelectionToEdge env b m)"
    by (simp add: moveDebugSelectionToEdge_def Let_def sameShell_select)
  show "sameShell m (expandDebugSelection env m)" by (simp add: expandDebugSelection_def Let_def sameShell_select)
  show "sameShell m (collapseDebugSelection env m)"
    by (simp add: collapseDebugSelection_def Let_def sameShell_select visible collapsed)
  show "sameShell m (scrollHistoryBy env delta m)" by (simp add: scrollHistoryBy_def)
qed

lemma sameShell_scroll:
  "sameShell m (snd (handleHistoryScrollKey env key m))" "sameShell m (handleHistoryScrollMouse env button m)"
proof -
  have after: "sameShell m m'" if "sameShell (ensureDebugSelection env m) m'" for m'
    by (rule sameShell_trans [OF sameShell_inspect(2) that])
  have scrolled: "0 \<le> maxHistoryScrollOffset env m" by (simp add: maxHistoryScrollOffset_def)
  show "sameShell m (snd (handleHistoryScrollKey env key m))"
    by (simp add: handleHistoryScrollKey_def Let_def after sameShell_moves scrolled sameShell_inspect)
  show "sameShell m (handleHistoryScrollMouse env button m)"
    by (simp add: handleHistoryScrollMouse_def Let_def after sameShell_moves sameShell_inspect)
qed

lemma sameShell_lookup: "sameShell m (snd (handleScenarioLookupKey env key m))"
proof -
  have status: "sameShell m (withStatus s (m\<lparr>tu_lookup := l\<rparr>))" for s l
    by (simp add: withStatus_def split: option.split)
  show ?thesis
    by (simp add: handleScenarioLookupKey_def Let_def switchLookup_def shiftLookupSelection_def status split: lookupView.split)
qed

lemma sameShell_refocus: "sameShell m (refocus env m)"
  unfolding refocus_def by (rule sameShell_trans [OF sameShell_inspect(2) sameShell_inspect(1)])

lemma shellOk_status [simp]: "shellOk env (m\<lparr>tu_status := s\<rparr>) = shellOk env m"
  by (simp add: shellOk_def draftsOk_def)

lemma shellOk_role:
  assumes "shellOk env m" "ms_Roles (tu_state m) \<noteq> []" "- 1 \<le> delta"
  shows "shellOk env (m\<lparr>tu_selectedRole := go_mod (tu_selectedRole m + delta + int (length (ms_Roles (tu_state m))))
    (int (length (ms_Roles (tu_state m)))), tu_historyScroll := 0\<rparr>)"
proof -
  have "0 < int (length (ms_Roles (tu_state m)))" using assms(2) by simp
  moreover have "0 \<le> tu_selectedRole m + delta + int (length (ms_Roles (tu_state m)))"
    using assms calculation by (simp add: shellOk_def)
  ultimately show ?thesis using assms(1) go_mod_range by (auto simp: shellOk_def draftsOk_def)
qed

lemma moveRole_ok: "shellOk env m \<Longrightarrow> - 1 \<le> delta \<Longrightarrow> shellOk env (moveRole env delta m)"
  unfolding moveRole_def Let_def using shellOk_role [of env m delta] sameShell_ok [OF sameShell_refocus] by auto

lemma switchWorkspace_ok: "shellOk env m \<Longrightarrow> 0 \<le> mode \<Longrightarrow> mode < 6 \<Longrightarrow> shellOk env (switchWorkspace env mode m)"
  unfolding switchWorkspace_def Let_def
  by (simp, rule sameShell_ok [OF sameShell_refocus]) (simp add: shellOk_def draftsOk_def)

lemma setWorkspace_ok: "shellOk env m \<Longrightarrow> 0 \<le> mode \<Longrightarrow> mode < 6 \<Longrightarrow> shellOk env (setWorkspace env mode m)"
  by (simp add: setWorkspace_def switchWorkspace_ok)

lemma moveWorkspace_ok:
  assumes "shellOk env m" "- 1 \<le> delta"
  shows "shellOk env (moveWorkspace env delta m)"
proof -
  have "0 \<le> tu_workspace m + delta + 6" using assms by (simp add: shellOk_def)
  then show ?thesis
    using assms(1) go_mod_range [of "tu_workspace m + delta + 6" 6]
    by (simp add: moveWorkspace_def workspaceDebug_def switchWorkspace_ok)
qed

lemma shellKey_ok:
  assumes "shellOk env m"
  shows "shellOk env (fst (shellKey env key m))"
proof -
  have pane: "shellOk env (m\<lparr>tu_focusedPane := go_mod (tu_focusedPane m + k) 4\<rparr>)" if "0 \<le> k" for k
  proof -
    have "0 \<le> tu_focusedPane m + k" using assms that by (simp add: shellOk_def)
    then show ?thesis using assms go_mod_range [of "tu_focusedPane m + k" 4] by (simp add: shellOk_def draftsOk_def)
  qed
  have quit: "shellOk env (m\<lparr>tu_exitIntent := i\<rparr>)" for i using assms by (simp add: shellOk_def draftsOk_def)
  show ?thesis
    using assms quit pane
    by (simp add: shellKey_def Let_def moveRole_ok moveWorkspace_ok setWorkspace_ok workspace_defs)
qed

text \<open>The entry of actions moves to another role or workspace at most.\<close>

definition sameEntry :: "Model \<Rightarrow> Model \<Rightarrow> bool" where
  "sameEntry m m' \<longleftrightarrow> tu_state m' = tu_state m \<and> tu_focusedPane m' = tu_focusedPane m
     \<and> tu_historyScroll m' = tu_historyScroll m \<and> tu_spinnerFrame m' = tu_spinnerFrame m
     \<and> (tu_selectedRole m' = tu_selectedRole m
        \<or> 0 \<le> tu_selectedRole m' \<and> tu_selectedRole m' < int (length (ms_Roles (tu_state m))))
     \<and> (tu_workspace m' = tu_workspace m \<or> tu_workspace m' = workspaceActionEntry \<or> tu_workspace m' = workspaceRoundFeed)"

lemma sameEntry_simps [simp]:
  "sameEntry m m" "sameEntry m (setDraft roleID draft m)" "sameEntry m (keepForm roleID draft m r)"
  by (simp_all add: sameEntry_def setDraft_def keepForm_def split: prod.split)

lemma nextPending_range:
  assumes "nextPendingHumanRole env m roleID = Some i"
  shows "0 \<le> i \<and> i < int (length (ms_Roles (tu_state m)))"
proof -
  define n where "n = int (length (ms_Roles (tu_state m)))"
  define start where "start = clampRoleIndex (tu_selectedRole m) n"
  have "i \<in> set (map (\<lambda>step. go_mod (start + int step) n) [1..<length (ms_Roles (tu_state m)) + 1])"
    unfolding n_def start_def
    by (rule find_first_Some [OF assms [unfolded nextPendingHumanRole_def Let_def], THEN conjunct1])
  then obtain step where step: "i = go_mod (start + int step) n" "step \<in> set [1..<length (ms_Roles (tu_state m)) + 1]"
    unfolding set_map by (elim imageE)
  then have i: "i = go_mod (start + int step) n" "0 < n" by (auto simp: n_def)
  moreover have "0 \<le> start" using clampIndex_range [OF i(2)] by (simp add: start_def clampRoleIndex_def)
  ultimately show ?thesis using go_mod_range [of "start + int step" n] by (simp add: n_def)
qed

lemma sameEntry_advance: "sameEntry m (advanceAfterSubmission env roleID (setDraft roleID draft m))"
  using nextPending_range [of env "setDraft roleID draft m" roleID]
  by (auto simp: sameEntry_def advanceAfterSubmission_def setDraft_def Let_def split: option.split)

lemma editing_same: "handleEditingKey env msg roleID m = Some m' \<Longrightarrow> sameEntry m m'"
  by (auto simp: handleEditingKey_def Let_def split: if_splits keyType.splits option.splits prod.splits)

lemma handled_same:
  assumes "handleActionEntryKey env msg m = Some r"
  shows "sameEntry m (fst (snd r))"
  using assms editing_same sameEntry_advance
  by (auto simp: handleActionEntryKey_def Let_def ignored_def draftTaken_def focusMoved_def handleReview_def handleSubmit_def
      split: if_splits option.splits sum.splits)

lemma sameEntry_ok: "shellOk env m \<Longrightarrow> sameEntry m m' \<Longrightarrow> draftsOk env m' \<Longrightarrow> shellOk env m'"
  by (auto simp: shellOk_def sameEntry_def workspace_defs)

lemma keyStep_ok:
  assumes "shellOk env m"
  obtains m' cmds sent where "keyStep env msg m = Some (m', cmds, sent)" "shellOk env m'"
proof -
  obtain looked m1 where lookup: "handleScenarioLookupKey env msg m = (looked, m1)" by (cases "handleScenarioLookupKey env msg m")
  then have m1: "shellOk env m1" using sameShell_ok [OF sameShell_lookup assms] by (metis snd_conv)
  then have "resultOk env (handleActionEntryKey env msg m1)" by (simp add: shellOk_def handleActionEntryKey_ok)
  then obtain taken m2 sent where entry: "handleActionEntryKey env msg m1 = Some (taken, m2, sent)" "draftsOk env m2"
    unfolding resultOk_def handledOk_def by (auto split: option.splits)
  with handled_same [OF entry(1)] m1 have m2: "shellOk env m2" using sameEntry_ok by auto
  obtain scrolled m3 where scroll: "handleHistoryScrollKey env msg m2 = (scrolled, m3)" by (cases "handleHistoryScrollKey env msg m2")
  then have m3: "shellOk env m3" using sameShell_ok [OF sameShell_scroll(1) m2] by (metis snd_conv)
  obtain m4 cmds where keys: "shellKey env (ky_String msg) m3 = (m4, cmds)" by (cases "shellKey env (ky_String msg) m3")
  then have m4: "shellOk env m4" using shellKey_ok [OF m3] by (metis fst_conv)
  show ?thesis
    using that m1 m2 m3 m4
    by (cases looked; cases taken; cases scrolled) (simp_all add: keyStep_def lookup entry scroll keys)
qed

lemma fst_let: "(\<And>x. x = a \<Longrightarrow> shellOk env (fst (f x))) \<Longrightarrow> shellOk env (fst (Let a f))"
  by (simp add: Let_def)

lemma stateLoaded_ok:
  assumes "shellOk env m"
  shows "shellOk env (fst (stateLoaded env state m))"
  unfolding stateLoaded_def
proof (intro fst_let)
  fix m1 m2 m3 m4 m5
  assume m1: "m1 = (if ms_CurrentRound state \<noteq> ms_CurrentRound (tu_state m)
      then m\<lparr>tu_drafts := Map.empty, tu_historyScroll := 0\<rparr> else m)"
    and m2: "m2 = m1\<lparr>tu_state := MatchState_Clone state\<rparr>"
    and m3: "m3 = m2\<lparr>tu_selectedRole := clampRoleIndex (tu_selectedRole m2) (int (length (ms_Roles (tu_state m2))))\<rparr>"
    and m4: "m4 = refocus env m3"
    and m5: "m5 = m4\<lparr>tu_status := ''Round '' @ itoa (ms_CurrentRound (tu_state m4)) @ '' loaded for '' @ roleTitle m4\<rparr>"
  define n where "n = int (length (ms_Roles (MatchState_Clone state)))"
  define i where "i = clampRoleIndex (tu_selectedRole m1) n"
  have i: "0 \<le> i" "0 < n \<longrightarrow> i < n"
    using clampIndex_range [of n "tu_selectedRole m1"] by (auto simp: i_def clampRoleIndex_def clampIndex_def n_def)
  have m1_ok: "shellOk env m1" using assms by (simp add: m1 shellOk_def draftsOk_def)
  have "m3 = m1\<lparr>tu_state := MatchState_Clone state, tu_selectedRole := i\<rparr>" by (simp add: m3 m2 i_def n_def)
  then have "shellOk env m3" using m1_ok i unfolding n_def by (simp add: shellOk_def draftsOk_def)
  then have m5: "shellOk env m5" unfolding m5 m4 shellOk_status by (rule sameShell_ok [OF sameShell_refocus])
  then have spinner: "shellOk env (m5\<lparr>tu_spinnerActive := b, tu_spinnerGen := g\<rparr>)"
    "shellOk env (m5\<lparr>tu_spinnerActive := b, tu_spinnerFrame := 0, tu_spinnerGen := g\<rparr>)" for b g
    by (simp_all add: shellOk_def draftsOk_def providerSpinnerFrames_def)
  show "shellOk env (fst (if hasProviderWaits m5
        then if tu_spinnerActive m5 then (m5, waitForUpdateCmd env)
             else let m = m5\<lparr>tu_spinnerActive := True, tu_spinnerGen := tu_spinnerGen m5 + 1\<rparr>
             in (m, waitForUpdateCmd env @ spinnerCmd m (tu_spinnerGen m))
        else (m5\<lparr>tu_spinnerActive := False, tu_spinnerFrame := 0, tu_spinnerGen := tu_spinnerGen m5 + 1\<rparr>, waitForUpdateCmd env)))"
    using m5 spinner by (simp add: Let_def)
qed

lemma spinnerTick_ok:
  assumes "shellOk env m"
  shows "shellOk env (fst (spinnerTick generation m))"
proof -
  have frames: "0 < int (length providerSpinnerFrames)" by (simp add: providerSpinnerFrames_def)
  have "0 \<le> tu_spinnerFrame m + 1" using assms by (simp add: shellOk_def)
  from go_mod_range [OF this frames] assms frames show ?thesis by (simp add: spinnerTick_def Let_def shellOk_def draftsOk_def)
qed

lemma update_ok:
  assumes "shellOk env m"
  obtains m' cmds sent where "tui_Update env msg m = Some (m', cmds, sent)" "shellOk env m'"
proof (cases msg)
  case (TuiKey key)
  obtain m' cmds sent where "keyStep env key m = Some (m', cmds, sent)" "shellOk env m'" using keyStep_ok [OF assms] .
  with that TuiKey show ?thesis by (simp add: tui_Update_def)
next
  case (TuiMouse button)
  with that show ?thesis using sameShell_ok [OF sameShell_scroll(2) assms] by (simp add: tui_Update_def)
next
  case (StateLoadedMsg state)
  with that show ?thesis using stateLoaded_ok [OF assms, of state]
    by (cases "stateLoaded env state m") (simp add: tui_Update_def)
next
  case (SpinnerTickMsg generation)
  with that show ?thesis using spinnerTick_ok [OF assms, of generation]
    by (cases "spinnerTick generation m") (simp add: tui_Update_def)
next
  case (TuiWindowSize width height)
  with that assms show ?thesis by (simp add: tui_Update_def shellOk_def draftsOk_def)
next
  case (StatusMsg text1)
  with that [of _ "[]" "[]"] assms show ?thesis by (simp add: tui_Update_def)
next
  case StateStreamClosedMsg
  have "shellOk env (m\<lparr>tu_streamClosed := True\<rparr>)" using assms by (simp add: shellOk_def draftsOk_def)
  with StateStreamClosedMsg that [of _ "[]" "[]"] show ?thesis by (simp add: tui_Update_def Let_def)
next
  case TuiOtherMsg
  with that assms show ?thesis by (simp add: tui_Update_def)
qed

text \<open>A run: each message comes with the environment of its time; the result has what was submitted.\<close>

fun runTui :: "(tuiEnv \<times> tuiMsg) list \<Rightarrow> Model \<Rightarrow> (Model \<times> ActionSubmission list) option" where
  "runTui [] m = Some (m, [])"
| "runTui ((env, msg) # steps) m =
    (case tui_Update env msg m of
       None \<Rightarrow> None
     | Some (m, _, sent) \<Rightarrow> map_option (\<lambda>(m, later). (m, sent @ later)) (runTui steps m))"

lemma shellOk_scenario: "te_scenario env' = te_scenario env \<Longrightarrow> shellOk env' m = shellOk env m"
  by (simp add: shellOk_def draftsOk_def draftOk_def)

lemma run_ok:
  assumes "shellOk env m" "\<forall>(env', _) \<in> set steps. te_scenario env' = te_scenario env"
  shows "\<exists>m' sent. runTui steps m = Some (m', sent) \<and> shellOk env m'"
  using assms
proof (induction steps arbitrary: m)
  case (Cons step steps)
  obtain env' msg where step: "step = (env', msg)" by (cases step)
  then have same: "te_scenario env' = te_scenario env" using Cons.prems(2) by simp
  have "shellOk env' m" using Cons.prems(1) unfolding shellOk_scenario [OF same] .
  then obtain m1 cmds sent where update: "tui_Update env' msg m = Some (m1, cmds, sent)" "shellOk env' m1"
    by (rule update_ok)
  from update(2) have "shellOk env m1" unfolding shellOk_scenario [OF same] .
  moreover have "\<forall>(env', _) \<in> set steps. te_scenario env' = te_scenario env" using Cons.prems(2) by simp
  ultimately obtain m' later where "runTui steps m1 = Some (m', later)" "shellOk env m'" using Cons.IH by blast
  then show ?case using update by (simp add: step)
qed simp

lemma shellOk_new: "shellOk env (NewModelWithSubmitAndQuitBehavior quitBehavior)"
  by (simp add: shellOk_def draftsOk_def NewModelWithSubmitAndQuitBehavior_def workspace_defs zero_MatchState_def
      providerSpinnerFrames_def)

text \<open>The shell of a match never panics: after any messages, states, ticks and keys the model has a
  result, and the selected role, pane and workspace, the scroll position, the frame of the spinner and every
  position in the form of a draft are in range.\<close>

theorem tui_never_panics:
  assumes "\<forall>(env', _) \<in> set steps. te_scenario env' = te_scenario env"
  shows "\<exists>m sent. runTui steps (NewModelWithSubmitAndQuitBehavior quitBehavior) = Some (m, sent) \<and> shellOk env m"
  using shellOk_new assms by (rule run_ok)

section \<open>Submissions\<close>

lemma sameShell_selected: "sameShell m m' \<Longrightarrow> selectedAssignment m' = selectedAssignment m"
  by (simp add: sameShell_def selectedAssignment_def Let_def)

lemma update_sent:
  assumes "tui_Update env msg m = Some (m', cmds, sent)" "sent \<noteq> []"
  obtains key m1 r where "msg = TuiKey key" "sameShell m m1" "handleActionEntryKey env key m1 = Some r" "sent = snd (snd r)"
    "m' = fst (snd r)"
proof -
  obtain key where key: "msg = TuiKey key" "keyStep env key m = Some (m', cmds, sent)"
    using assms by (cases msg) (auto simp: tui_Update_def Let_def split: prod.splits)
  obtain looked m1 where lookup: "handleScenarioLookupKey env key m = (looked, m1)" by (cases "handleScenarioLookupKey env key m")
  have "sameShell m m1" using sameShell_lookup [of m env key] lookup by simp
  moreover obtain taken m2 sent' where "handleActionEntryKey env key m1 = Some (taken, m2, sent')" "taken" "sent = sent'" "m' = m2"
    using key(2) assms(2) lookup by (auto simp: keyStep_def split: if_splits bool.splits prod.splits option.splits)
  ultimately show ?thesis using that key(1) by auto
qed

lemma selected_human: "ra_IsHuman (selectedAssignment m) \<Longrightarrow> selectedAssignment m \<in> set (ms_Roles (tu_state m))"
  using selectedAssignment_role by (cases "ms_Roles (tu_state m) = []") (auto simp: selectedAssignment_def zero_RoleAssignment_def)

text \<open>C8: What the shell of a match submits is for the current round of the match, of the selected human role
  with its player's id and a public commentary, and the engine accepts it.\<close>

theorem submission_valid:
  assumes "shellOk env m"
    and "distinct (map pa_ID (mo_Parts (sd_ProductionModel (te_scenario env))))"
    and "wk_ID ` set (mo_Workstations (sd_ProductionModel (te_scenario env))) \<subseteq> stationIDs (ms_Plant (tu_state m))"
    and "ra_RoleID ` set (ms_Roles (tu_state m)) \<subseteq> set CanonicalRoles"
    and "tui_Update env msg m = Some (m', cmds, sent)" "submission \<in> set sent"
  shows "validateActionSubmission (tu_state m) submission = None
    \<and> as_MatchID submission = ms_MatchID (tu_state m) \<and> as_Round submission = ms_CurrentRound (tu_state m)
    \<and> (\<exists>a \<in> set (ms_Roles (tu_state m)). ra_IsHuman a \<and> ra_RoleID a = as_RoleID submission
         \<and> ra_PlayerID a = cm_ActorID (as_Commentary submission))
    \<and> cm_Body (as_Commentary submission) \<noteq> [] \<and> cm_Visibility (as_Commentary submission) = CommentaryPublic"
proof -
  have "sent \<noteq> []" using assms(6) by auto
  from assms(5) this obtain key m1 r where same: "sameShell m m1"
    and r: "handleActionEntryKey env key m1 = Some r" "sent = snd (snd r)" by (rule update_sent)
  define a where "a = selectedAssignment m"
  have a: "selectedAssignment m1 = a" using sameShell_selected [OF same] by (simp add: a_def)
  have state: "tu_state m1 = tu_state m" using same by (simp add: sameShell_def)
  have "snd (snd r) \<noteq> []" using r(2) \<open>sent \<noteq> []\<close> by simp
  note submit = sent_by_submit [OF r(1) this]
  define draft where "draft = currentDraft env m1"
  have "submission \<in> set (snd (snd (handleSubmit env (ra_RoleID a) draft m1)))"
    using assms(6) r(2) submit(1) by (simp add: a draft_def)
  then obtain built where built: "buildSubmissionDraft m1 draft = Inr built"
    "submission = built\<lparr>as_MatchID := ms_MatchID (tu_state m1), as_Round := ms_CurrentRound (tu_state m1), as_RoleID := ra_RoleID a\<rparr>"
    by (rule handleSubmit_sent)
  have human: "a \<in> set (ms_Roles (tu_state m))" "ra_IsHuman a"
    using submit(2) selected_human [of m] by (simp_all add: a a_def)
  have "draftsOk env m1" using sameShell_ok [OF same assms(1)] by (simp add: shellOk_def)

  then have "fm_Schema (df_form draft) = BuildFromCatalog (te_scenario env) (ra_RoleID a)"
    using currentDraftForRole_ok by (simp add: draft_def currentDraft_def draftOk_def a)
  then have "ValidateRoleAction (Build (te_scenario env) (ra_RoleID a)) (as_Action built) (selectedRoleView m1) = []"
    using buildSubmission_Inr(1) [OF built(1)] by (simp add: FirstError_None catalog_valid [OF assms(2)])
  then have "validateActionSubmission (tu_state m) submission = None"
    using schema_engine [of "te_scenario env" submission "selectedRoleView m1" "tu_state m"] assms(3,4) human(1)
    by (auto simp: built(2) stationIDs_def)
  then show ?thesis
    using human buildSubmission_Inr(2-4) [OF built(1)] by (auto simp: built(2) state a intro!: bexI [of _ a])
qed

section \<open>A locked draft\<close>

lemma sameShell_locked: "sameShell m m' \<Longrightarrow> locked m' roleID draft = locked m roleID draft"
  by (simp add: sameShell_def locked_def)

lemma locked_fields [simp]:
  "locked (m\<lparr>tu_status := s\<rparr>) = locked m" "locked (m\<lparr>tu_focusedPane := i\<rparr>) = locked m"
  "locked (m\<lparr>tu_exitIntent := e\<rparr>) = locked m" "locked (m\<lparr>tu_exitIntent := e, tu_status := s\<rparr>) = locked m"
  "locked (m\<lparr>tu_selectedRole := k, tu_historyScroll := j\<rparr>) = locked m"
  "locked (m\<lparr>tu_workspace := w, tu_historyScroll := j\<rparr>) = locked m"
  by (simp_all add: locked_def fun_eq_iff)

lemma refocus_locked [simp]: "locked (refocus env m) roleID draft = locked m roleID draft"
  by (rule sameShell_locked [OF sameShell_refocus])

lemma shellKey_locked [simp]: "locked (fst (shellKey env key m)) roleID draft = locked m roleID draft"
  by (simp add: shellKey_def Let_def moveRole_def moveWorkspace_def setWorkspace_def switchWorkspace_def)

lemma shellKey_state [simp]: "tu_state (fst (shellKey env key m)) = tu_state m"
proof -
  have refocused: "tu_state (refocus env m) = tu_state m" for m using sameShell_refocus by (simp add: sameShell_def)
  show ?thesis
    by (simp add: shellKey_def Let_def moveRole_def moveWorkspace_def setWorkspace_def switchWorkspace_def refocused)
qed

lemma refocus_fields [simp]:
  "tu_drafts (refocus env m) = tu_drafts m" "tu_state (refocus env m) = tu_state m"
  using sameShell_refocus [of m env] by (simp_all add: sameShell_def)

lemma stateLoaded_drafts:
  assumes "ms_CurrentRound state = ms_CurrentRound (tu_state m)"
  shows "tu_drafts (fst (stateLoaded env state m)) = tu_drafts m"
    "ms_CurrentRound (tu_state (fst (stateLoaded env state m))) = ms_CurrentRound (tu_state m)"
  using assms by (simp_all add: stateLoaded_def Let_def MatchState_Clone_def)

lemma spinnerTick_fields:
  "tu_drafts (fst (spinnerTick generation m)) = tu_drafts m" "tu_state (fst (spinnerTick generation m)) = tu_state m"
  by (simp_all add: spinnerTick_def Let_def)

lemma keyStep_locked:
  assumes "keyStep env key m = Some (m', cmds, sent)" "locked m roleID draft"
  shows "locked m' roleID draft \<and> tu_state m' = tu_state m"
proof -
  obtain looked m1 where lookup: "handleScenarioLookupKey env key m = (looked, m1)" by (cases "handleScenarioLookupKey env key m")
  then have same1: "sameShell m m1" using sameShell_lookup [of m env key] by simp
  then have m1: "locked m1 roleID draft" "tu_state m1 = tu_state m"
    using assms(2) sameShell_locked by (simp_all add: sameShell_def locked_def)
  show ?thesis
  proof (cases looked)
    case True
    with assms(1) lookup m1 show ?thesis by (simp add: keyStep_def)
  next
    case False
    then obtain taken m2 sent2 where entry: "handleActionEntryKey env key m1 = Some (taken, m2, sent2)"
      using assms(1) lookup by (auto simp: keyStep_def split: option.splits)
    have m2: "locked m2 roleID draft" "tu_state m2 = tu_state m"
      using handled_locked [OF entry m1(1)] handled_same [OF entry] m1(2) by (simp_all add: sameEntry_def)
    obtain scrolled m3 where scroll: "handleHistoryScrollKey env key m2 = (scrolled, m3)"
      by (cases "handleHistoryScrollKey env key m2")
    then have "sameShell m2 m3" using sameShell_scroll(1) [of m2 env key] by simp
    then have m3: "locked m3 roleID draft" "tu_state m3 = tu_state m" using m2 by (simp_all add: sameShell_def locked_def)
    show ?thesis
      using False assms(1) lookup entry scroll m2 m3 shellKey_locked [of env "ky_String key" m3] shellKey_state [of env "ky_String key" m3]
      by (cases taken; cases scrolled; cases "shellKey env (ky_String key) m3") (simp_all add: keyStep_def)
  qed
qed

lemma update_locked:
  assumes "tui_Update env msg m = Some (m', cmds, sent)" "locked m roleID draft"
    and "\<forall>state. msg = StateLoadedMsg state \<longrightarrow> ms_CurrentRound state = ms_CurrentRound (tu_state m)"
  shows "locked m' roleID draft \<and> ms_CurrentRound (tu_state m') = ms_CurrentRound (tu_state m)"
proof (cases msg)
  case (TuiKey key)
  with assms keyStep_locked [of env key m m' cmds sent roleID draft] show ?thesis by (simp add: tui_Update_def)
next
  case (StateLoadedMsg state)
  with assms stateLoaded_drafts [of state m env] show ?thesis
    by (cases "stateLoaded env state m") (auto simp: tui_Update_def locked_def)
next
  case (SpinnerTickMsg generation)
  with assms spinnerTick_fields [of generation m] show ?thesis
    by (cases "spinnerTick generation m") (auto simp: tui_Update_def locked_def)
next
  case (TuiMouse button)
  with assms sameShell_scroll(2) [of m env button] show ?thesis by (auto simp: tui_Update_def locked_def sameShell_def)
qed (use assms in \<open>auto simp: tui_Update_def locked_def Let_def\<close>)

lemma locked_not_sent:
  assumes "tui_Update env msg m = Some (m', cmds, sent)" "locked m roleID draft" "submission \<in> set sent"
  shows "as_RoleID submission \<noteq> roleID"
proof
  assume role: "as_RoleID submission = roleID"
  have "sent \<noteq> []" using assms(3) by auto
  from assms(1) this obtain key m1 r where same: "sameShell m m1"
    and r: "handleActionEntryKey env key m1 = Some r" "sent = snd (snd r)" by (rule update_sent)
  then have "snd (snd r) \<noteq> []" using \<open>sent \<noteq> []\<close> by simp
  note submit = sent_by_submit [OF r(1) this]
  have "submission \<in> set (snd (snd (handleSubmit env (ra_RoleID (selectedAssignment m1)) (currentDraft env m1) m1)))"
    using assms(3) r(2) submit(1) by simp
  then obtain built where "submission = built\<lparr>as_MatchID := ms_MatchID (tu_state m1), as_Round := ms_CurrentRound (tu_state m1),
      as_RoleID := ra_RoleID (selectedAssignment m1)\<rparr>" by (rule handleSubmit_sent)
  then have "ra_RoleID (selectedAssignment m1) = roleID" using role by simp
  moreover have "locked m1 roleID draft" using assms(2) sameShell_locked [OF same] by simp
  ultimately show False using submit(3) by (simp add: locked_def currentDraft_def currentDraftForRole_def)
qed

text \<open>C18: A locked draft stays as it is until the state of another round comes, and its role submits nothing
  more until then.\<close>

theorem locked_role_submits_once:
  assumes "runTui steps m = Some (m', sent)" "locked m roleID draft"
    and "\<forall>(_, msg) \<in> set steps. \<forall>state. msg = StateLoadedMsg state \<longrightarrow> ms_CurrentRound state = ms_CurrentRound (tu_state m)"
  shows "locked m' roleID draft \<and> (\<forall>submission \<in> set sent. as_RoleID submission \<noteq> roleID)"
  using assms
proof (induction steps arbitrary: m m' sent)
  case (Cons step steps)
  obtain env msg where step: "step = (env, msg)" by (cases step)
  obtain m1 cmds sent1 later where update: "tui_Update env msg m = Some (m1, cmds, sent1)"
    and rest: "runTui steps m1 = Some (m', later)" and sent: "sent = sent1 @ later"
    using Cons.prems(1) by (auto simp: step split: option.splits)
  have "\<forall>state. msg = StateLoadedMsg state \<longrightarrow> ms_CurrentRound state = ms_CurrentRound (tu_state m)"
    using Cons.prems(3) by (simp add: step)
  note m1 = update_locked [OF update Cons.prems(2) this]
  have "locked m' roleID draft \<and> (\<forall>submission \<in> set later. as_RoleID submission \<noteq> roleID)"
    using Cons.IH [OF rest] m1 Cons.prems(3) by simp
  then show ?case using locked_not_sent [OF update Cons.prems(2)] by (auto simp: sent)
qed simp

section \<open>A match at the terminal\<close>

definition plainTerminal :: terminal where
  "plainTerminal = \<lparr>tm_Width = int \<circ> length, tm_Wrap = (\<lambda>_ s. s), tm_Cell = (\<lambda>_ _ s. s), tm_Title = (\<lambda>_ s. s),
     tm_Pane = (\<lambda>_ _ _ s. s), tm_JoinHorizontal = concat, tm_JoinVertical = concat, tm_FrameWidth = 2, tm_FrameHeight = 2,
     tm_IsPrint = (\<lambda>_. True), tm_FormatTime = (\<lambda>_. [])\<rparr>"

definition deskEnv :: tuiEnv where
  "deskEnv = \<lparr>te_scenario = Starter, te_snapshots = None, te_debugLog = None, te_submit = Some (\<lambda>_. None),
     te_hasUpdates = True, te_order = sliceOrder, te_terminal = plainTerminal\<rparr>"

definition deskState :: MatchState where
  "deskState = demoState\<lparr>ms_Roles := [\<lparr>ra_RoleID = RoleProcurementManager, ra_PlayerID = ''ann'', ra_IsHuman = True,
     ra_Provider = [], ra_ModelName = []\<rparr>]\<rparr>"

text \<open>A draft with one order, reviewed.\<close>

definition deskForm :: actionFormModel where
  "deskForm = setScalar ''commentary'' ''ok'' (setRows ''orders'' [orderRow \<lparr>po_PartID = ''housing'', po_SupplierID = ''forgeco'',
     po_Quantity = 1\<rparr>] (newActionFormModel (BuildFromCatalog Starter RoleProcurementManager)))"

definition deskDraft :: actionDraft where
  "deskDraft = (newDraft deskForm)\<lparr>df_stage := draftStageReview\<rparr>"

definition deskModel :: Model where
  "deskModel = (NewModelWithSubmitAndQuitBehavior QuitBehaviorQuitProgram)
     \<lparr>tu_state := deskState, tu_focusedPane := paneHistory, tu_drafts := [RoleProcurementManager \<mapsto> deskDraft]\<rparr>"

definition press :: "string \<Rightarrow> KeyMsg" where
  "press key = \<lparr>ky_Type = KeyRunes, ky_Runes = [key], ky_String = key\<rparr>"

lemma desk_simps [simp]:
  "selectedAssignment deskModel = \<lparr>ra_RoleID = RoleProcurementManager, ra_PlayerID = ''ann'', ra_IsHuman = True,
     ra_Provider = [], ra_ModelName = []\<rparr>"
  "tu_workspace deskModel = workspaceActionEntry" "tu_focusedPane deskModel = paneHistory"
  "tu_drafts deskModel = [RoleProcurementManager \<mapsto> deskDraft]" "currentDraft deskEnv deskModel = deskDraft"
  "tu_state deskModel = deskState" "te_submit deskEnv = Some (\<lambda>_. None)" "te_scenario deskEnv = Starter"
  "ky_String (press key) = key"
  by (simp_all add: deskModel_def deskState_def NewModelWithSubmitAndQuitBehavior_def selectedAssignment_def Let_def
      clampRoleIndex_def clampIndex_def currentDraft_def currentDraftForRole_def deskEnv_def press_def)

lemma desk_form:
  "formOk deskForm" "fm_Schema deskForm = BuildFromCatalog Starter RoleProcurementManager" "\<not> fm_Editing deskForm"
  "valueOf deskForm ''orders'' = \<lparr>fv_Scalar = [], fv_Rows = [orderRow \<lparr>po_PartID = ''housing'', po_SupplierID = ''forgeco'', po_Quantity = 1\<rparr>]\<rparr>"
  "valueOf deskForm ''commentary'' = \<lparr>fv_Scalar = ''ok'', fv_Rows = []\<rparr>"
  by (simp_all add: deskForm_def atStart_ok atStart_def newActionFormModel_def)
    (simp_all add: setScalar_def setRows_def setValue_def)

lemma desk_ok: "shellOk deskEnv deskModel"
  using desk_form
  by (simp add: shellOk_def draftsOk_def draftOk_def deskDraft_def newDraft_def)
    (simp add: deskModel_def NewModelWithSubmitAndQuitBehavior_def deskState_def workspace_defs providerSpinnerFrames_def
      paneHistory_def)

lemma desk_trimmed: "trimmed ''housing''" "trimmed ''forgeco''" "trimmed ''ok''"
  by (simp_all add: trimmed_def TrimSpace_def isSpace_def)

lemma desk_parts: "distinct (map pa_ID (mo_Parts (sd_ProductionModel Starter)))"
  by code_simp

lemma desk_supplier: "case ListValidSuppliers Starter ''housing'' of Inr x \<Rightarrow> ''forgeco'' \<in> set (vl_Suppliers x) | Inl _ \<Rightarrow> False"
  by code_simp

definition deskAction :: "PurchaseOrderIntent list \<Rightarrow> ActionSubmission" where
  "deskAction orders = \<lparr>as_ActionID = [], as_MatchID = [], as_Round = 0, as_RoleID = OtherRole [], as_SubmittedAt = 0,
     as_Action = RoleAction.make (Some \<lparr>pra_Orders = orders\<rparr>) None None None,
     as_Commentary = \<lparr>cm_CommentaryID = [], cm_MatchID = [], cm_Round = 0, cm_ActorID = ''ann'',
       cm_RoleID = OtherRole [], cm_Visibility = CommentaryPublic, cm_Body = ''ok''\<rparr>\<rparr>"

lemma desk_built:
  assumes "df_form draft = form" "valueOf form ''orders'' = \<lparr>fv_Scalar = [], fv_Rows = map orderRow orders\<rparr>"
    "valueOf form ''commentary'' = \<lparr>fv_Scalar = ''ok'', fv_Rows = []\<rparr>"
    "fm_Schema form = BuildFromCatalog Starter RoleProcurementManager" "selectedAssignment m = selectedAssignment deskModel"
    "set orders \<subseteq> {\<lparr>po_PartID = ''housing'', po_SupplierID = ''forgeco'', po_Quantity = 1\<rparr>}"
  shows "buildSubmissionDraft m draft = Inr (deskAction orders)"
proof -
  have rows: "parseRows parseOrderRow 0 (map orderRow orders) = Inr orders"
    using assms(6) desk_trimmed by (intro parseRows_map row_trips) (auto simp: countOk_def)
  have "orderOk Starter x" if "x \<in> set orders" for x
    using that assms(6) desk_supplier by (auto simp: orderOk_def split: sum.splits)
  then have "ValidateRoleAction (Build Starter RoleProcurementManager) (RoleAction.make (Some \<lparr>pra_Orders = orders\<rparr>) None None None) view = []"
    for view by (auto simp: ValidateRoleAction_Nil actionOk_def list_all_iff)
  then show ?thesis
    using desk_trimmed(3)
    by (simp add: buildSubmissionDraft_def assms rows parseRoleAction_def Let_def catalog_valid [OF desk_parts] FirstError_def
        trimmed_def deskAction_def)
qed

lemma desk_row: "valueOf deskForm ''orders'' = \<lparr>fv_Scalar = [], fv_Rows = map orderRow
    [\<lparr>po_PartID = ''housing'', po_SupplierID = ''forgeco'', po_Quantity = 1\<rparr>]\<rparr>"
  by (simp add: desk_form)

lemma lookup_ignored: "tu_workspace m = workspaceActionEntry \<Longrightarrow> handleScenarioLookupKey env msg m = (False, m)"
  by (simp add: handleScenarioLookupKey_def workspace_defs)

text \<open>The key \<open>s\<close> on the reviewed draft.\<close>

lemma desk_sent:
  obtains m' where "tui_Update deskEnv (TuiKey (press ''s'')) deskModel = Some (m', [],
    [(deskAction [\<lparr>po_PartID = ''housing'', po_SupplierID = ''forgeco'', po_Quantity = 1\<rparr>])
      \<lparr>as_MatchID := ms_MatchID deskState, as_Round := ms_CurrentRound deskState, as_RoleID := RoleProcurementManager\<rparr>])"
proof -
  have draft: "df_form deskDraft = deskForm" by (simp add: deskDraft_def newDraft_def)
  have "buildSubmissionDraft deskModel deskDraft =
      Inr (deskAction [\<lparr>po_PartID = ''housing'', po_SupplierID = ''forgeco'', po_Quantity = 1\<rparr>])"
    using desk_built [OF draft desk_row desk_form(5) desk_form(2), of deskModel] by simp
  moreover have "df_stage deskDraft = draftStageReview" "\<not> fm_Editing (df_form deskDraft)"
    using desk_form(3) by (simp_all add: deskDraft_def newDraft_def)
  ultimately show ?thesis
    using that by (simp add: tui_Update_def keyStep_def lookup_ignored handleActionEntryKey_def Let_def handleSubmit_def)
qed

lemma submission_valid_witness:
  "validateActionSubmission deskState ((deskAction [\<lparr>po_PartID = ''housing'', po_SupplierID = ''forgeco'', po_Quantity = 1\<rparr>])
      \<lparr>as_MatchID := ms_MatchID deskState, as_Round := ms_CurrentRound deskState, as_RoleID := RoleProcurementManager\<rparr>) = None"
proof -
  obtain m' where sent: "tui_Update deskEnv (TuiKey (press ''s'')) deskModel = Some (m', [],
    [(deskAction [\<lparr>po_PartID = ''housing'', po_SupplierID = ''forgeco'', po_Quantity = 1\<rparr>])
      \<lparr>as_MatchID := ms_MatchID deskState, as_Round := ms_CurrentRound deskState, as_RoleID := RoleProcurementManager\<rparr>])"
    by (rule desk_sent)
  have stations: "wk_ID ` set (mo_Workstations (sd_ProductionModel (te_scenario deskEnv))) \<subseteq> stationIDs (ms_Plant (tu_state deskModel))"
    by (simp add: deskState_def stationIDs_def demoState_def InitialState_def Let_def image_image productionWorkstationState_def)
  have roles: "ra_RoleID ` set (ms_Roles (tu_state deskModel)) \<subseteq> set CanonicalRoles"
    by (simp add: deskState_def CanonicalRoles_def)
  show ?thesis using submission_valid [OF desk_ok _ stations roles sent] desk_parts by simp
qed

text \<open>C37: A reviewed draft can still be edited: removing a row leaves the review open, and what is submitted
  then is the changed action, not the reviewed one.\<close>

theorem reviewed_not_submitted:
  assumes "tu_workspace m = workspaceActionEntry" "tu_focusedPane m = paneHistory" "ra_IsHuman (selectedAssignment m)"
    and "df_stage (currentDraft env m) = draftStageReview" "\<not> fm_Editing (df_form (currentDraft env m))"
    and "currentCollection (df_form (currentDraft env m)) = Some field"
    and "form_RemoveRow (df_form (currentDraft env m)) = (True, form)" "\<not> fm_Editing form"
    and "te_submit env \<noteq> None" "ky_String x = ''x''" "ky_String s = ''s''"
  shows "\<exists>m1. tui_Update env (TuiKey x) m = Some (m1, [], []) \<and> selectedAssignment m1 = selectedAssignment m
    \<and> df_stage (currentDraft env m1) = draftStageReview \<and> df_form (currentDraft env m1) = form
    \<and> df_submission (currentDraft env m1) = df_submission (currentDraft env m)
    \<and> (\<forall>built. buildSubmissionDraft m1 (currentDraft env m1) = Inr built \<longrightarrow>
         (\<exists>m2. tui_Update env (TuiKey s) m1 = Some (m2, [], [built\<lparr>as_MatchID := ms_MatchID (tu_state m),
            as_Round := ms_CurrentRound (tu_state m), as_RoleID := ra_RoleID (selectedAssignment m)\<rparr>])))"
proof -
  define roleID where "roleID = ra_RoleID (selectedAssignment m)"
  define draft where "draft = (currentDraft env m)\<lparr>df_form := form,
    df_status := ''Removed '' @ map lowerChar (fld_Label field) @ '' row'', df_errorText := []\<rparr>"
  define m1 where "m1 = setDraft roleID draft m"
  have removed: "tui_Update env (TuiKey x) m = Some (m1, [], [])"
    using assms by (simp add: tui_Update_def keyStep_def lookup_ignored handleActionEntryKey_def Let_def draftTaken_def m1_def
        roleID_def draft_def)
  have same: "selectedAssignment m1 = selectedAssignment m" "tu_state m1 = tu_state m" "tu_workspace m1 = tu_workspace m"
    "tu_focusedPane m1 = tu_focusedPane m"
    by (simp_all add: m1_def setDraft_def selectedAssignment_def Let_def)
  then have m1: "currentDraft env m1 = draft"
    by (simp add: currentDraft_def currentDraftForRole_def m1_def setDraft_def roleID_def)
  have "\<exists>m2. tui_Update env (TuiKey s) m1 = Some (m2, [], [built\<lparr>as_MatchID := ms_MatchID (tu_state m),
      as_Round := ms_CurrentRound (tu_state m), as_RoleID := ra_RoleID (selectedAssignment m)\<rparr>])"
    if "buildSubmissionDraft m1 draft = Inr built" for built
    using assms that same m1
    by (auto simp: tui_Update_def keyStep_def lookup_ignored handleActionEntryKey_def Let_def draft_def handleSubmit_def
        split: option.split)
  with removed m1 same(1) show ?thesis using assms by (auto simp: draft_def)
qed

lemma desk_remove:
  obtains field form where "currentCollection deskForm = Some field" "form_RemoveRow deskForm = (True, form)" "\<not> fm_Editing form"
    "valueOf form ''orders'' = \<lparr>fv_Scalar = [], fv_Rows = map orderRow []\<rparr>"
    "valueOf form ''commentary'' = \<lparr>fv_Scalar = ''ok'', fv_Rows = []\<rparr>"
    "fm_Schema form = BuildFromCatalog Starter RoleProcurementManager"
proof -
  define schema where "schema = BuildFromCatalog Starter RoleProcurementManager"
  obtain field where field: "rsc_Fields schema \<noteq> []" "rsc_Fields schema ! 0 = field" "fld_ID field = ''orders''"
    "\<exists>collection. fld_Collection field = Some collection"
    by (simp add: schema_def BuildFromCatalog_def buildFromPartsProductsWorkstations_def procurementSchema_def collectionField_def)
  have index: "fm_FieldIndex deskForm = 0" "fm_RowIndex deskForm = 0" "fm_Editing deskForm = False"
    by (simp_all add: deskForm_def setScalar_def setRows_def setValue_def newActionFormModel_def)
  have current: "currentField deskForm = Some field"
    using field(1,2) index desk_form(2) by (simp add: currentField_def clampedNth_def schema_def)
  define form where "form = deskForm\<lparr>fm_RowIndex := 0, fm_Values := (fm_Values deskForm)(''orders'' \<mapsto> \<lparr>fv_Scalar = [], fv_Rows = []\<rparr>)\<rparr>"
  have "currentValue (deskForm\<lparr>fm_RowIndex := i\<rparr>) = valueOf deskForm ''orders''" for i
    using current field(3) by (simp add: currentValue_def valueOf_def)
  moreover have "currentValue deskForm = valueOf deskForm ''orders''"
    using current field(3) by (simp add: currentValue_def)
  moreover have "currentColumns deskForm \<noteq> None" using current field(4) by (auto simp: currentColumns_def)
  ultimately have "form_RemoveRow deskForm = (True, form)"
    using current field(3) index by (simp add: form_RemoveRow_def Let_def desk_form storeCurrentValue_def form_def)
  moreover have "valueOf form ''orders'' = \<lparr>fv_Scalar = [], fv_Rows = map orderRow []\<rparr>"
    "valueOf form ''commentary'' = valueOf deskForm ''commentary''"
    by (simp_all add: form_def valueOf_def)
  moreover have "currentCollection deskForm = Some field"
    using current field(4) by (auto simp: currentCollection_def)
  ultimately show ?thesis
    using that [of field form] desk_form index by (simp add: form_def)
qed

text \<open>The order for a housing is reviewed and an empty action is sent.\<close>

lemma reviewed_not_submitted_witness:
  "\<exists>m1 m2. tui_Update deskEnv (TuiKey (press ''x'')) deskModel = Some (m1, [], [])
     \<and> tui_Update deskEnv (TuiKey (press ''s'')) m1 = Some (m2, [], [(deskAction [])
          \<lparr>as_MatchID := ms_MatchID deskState, as_Round := ms_CurrentRound deskState, as_RoleID := RoleProcurementManager\<rparr>])"
proof -
  obtain field form where form: "currentCollection deskForm = Some field" "form_RemoveRow deskForm = (True, form)" "\<not> fm_Editing form"
    "valueOf form ''orders'' = \<lparr>fv_Scalar = [], fv_Rows = map orderRow []\<rparr>"
    "valueOf form ''commentary'' = \<lparr>fv_Scalar = ''ok'', fv_Rows = []\<rparr>"
    "fm_Schema form = BuildFromCatalog Starter RoleProcurementManager" by (rule desk_remove)
  have draft: "df_form deskDraft = deskForm" "df_stage deskDraft = draftStageReview"
    by (simp_all add: deskDraft_def newDraft_def)
  obtain m1 where m1: "tui_Update deskEnv (TuiKey (press ''x'')) deskModel = Some (m1, [], [])"
    "selectedAssignment m1 = selectedAssignment deskModel" "df_form (currentDraft deskEnv m1) = form"
    "\<forall>built. buildSubmissionDraft m1 (currentDraft deskEnv m1) = Inr built \<longrightarrow>
      (\<exists>m2. tui_Update deskEnv (TuiKey (press ''s'')) m1 = Some (m2, [], [built\<lparr>as_MatchID := ms_MatchID deskState,
         as_Round := ms_CurrentRound deskState, as_RoleID := RoleProcurementManager\<rparr>]))"
    using reviewed_not_submitted [of deskModel deskEnv field form "press ''x''" "press ''s''"] form draft desk_form(3) by auto
  have "buildSubmissionDraft m1 (currentDraft deskEnv m1) = Inr (deskAction [])"
    using desk_built [OF m1(3) form(4,5,6) m1(2)] by simp
  with m1 show ?thesis by blast
qed

definition lockedModel :: Model where
  "lockedModel = deskModel\<lparr>tu_drafts := [RoleProcurementManager \<mapsto> deskDraft\<lparr>df_stage := draftStageSubmitted\<rparr>]\<rparr>"

lemma locked_role_submits_once_witness:
  "\<exists>m' sent. runTui [(deskEnv, TuiKey (press ''x'')), (deskEnv, StateLoadedMsg deskState), (deskEnv, TuiKey (press ''s''))] lockedModel = Some (m', sent)
     \<and> locked m' RoleProcurementManager (deskDraft\<lparr>df_stage := draftStageSubmitted\<rparr>)
     \<and> RoleProcurementManager \<notin> as_RoleID ` set sent"
proof -
  let ?steps = "[(deskEnv, TuiKey (press ''x'')), (deskEnv, StateLoadedMsg deskState), (deskEnv, TuiKey (press ''s''))]"
  have ok: "shellOk deskEnv lockedModel"
    using desk_ok desk_form by (simp add: lockedModel_def shellOk_def draftsOk_def)
  obtain m' sent where run: "runTui ?steps lockedModel = Some (m', sent)"
    using run_ok [OF ok, of ?steps] by auto
  have locked: "locked lockedModel RoleProcurementManager (deskDraft\<lparr>df_stage := draftStageSubmitted\<rparr>)"
    by (simp add: locked_def lockedModel_def)
  have "ms_CurrentRound (tu_state lockedModel) = ms_CurrentRound deskState"
    by (simp add: lockedModel_def)
  then show ?thesis using locked_role_submits_once [OF run locked] run by auto
qed

section \<open>Repeating the last action\<close>

text \<open>An action of the given role that can be typed: ids without spaces around them and numbers of 64 bits
  that are not negative.\<close>

definition typable :: "RoleID \<Rightarrow> RoleAction \<Rightarrow> bool" where
  "typable roleID action \<longleftrightarrow>
    (case roleID of
       RoleProcurementManager \<Rightarrow>
         (\<exists>x. action = RoleAction.make (Some x) None None None
            \<and> (\<forall>o1 \<in> set (pra_Orders x). trimmed (po_PartID o1) \<and> trimmed (po_SupplierID o1) \<and> countOk (po_Quantity o1)))
     | RoleProductionManager \<Rightarrow>
         (\<exists>x. action = RoleAction.make None (Some x) None None
            \<and> (\<forall>r \<in> set (pda_Releases x). trimmed (pr_ProductID r) \<and> countOk (pr_Quantity r))
            \<and> (\<forall>c \<in> set (pda_CapacityAllocation x). trimmed (ca_WorkstationID c) \<and> trimmed (ca_ProductID c) \<and> countOk (ca_Capacity c))
            \<and> (\<forall>c \<in> set (pda_Overtime x). trimmed (oa_WorkstationID c) \<and> countOk (oa_Capacity c)))
     | RoleSalesManager \<Rightarrow>
         (\<exists>x. action = RoleAction.make None None (Some x) None
            \<and> (\<forall>f \<in> set (sa_ProductOffers x). trimmed (of_ProductID f) \<and> countOk (of_UnitPrice f)))
     | RoleFinanceController \<Rightarrow>
         (\<exists>x. action = RoleAction.make None None None (Some x)
            \<and> (\<forall>amount \<in> {bt_ProcurementBudget, bt_ProductionSpendBudget, bt_RevenueTarget, bt_CashFloorTarget, bt_DebtCeilingTarget}.
                 countOk (amount (fa_NextRoundTargets x))))
     | OtherRole _ \<Rightarrow> False)"

text \<open>The action with its targets, if it has any, for another round.\<close>

definition forRound :: "RoundNumber \<Rightarrow> RoleAction \<Rightarrow> RoleAction" where
  "forRound round action = action\<lparr>act_Finance := map_option
     (\<lambda>x. x\<lparr>fa_NextRoundTargets := (fa_NextRoundTargets x)\<lparr>bt_EffectiveRound := round\<rparr>\<rparr>) (act_Finance action)\<rparr>"

lemma parsed_rows:
  "\<forall>x \<in> set orders. trimmed (po_PartID x) \<and> trimmed (po_SupplierID x) \<and> countOk (po_Quantity x) \<Longrightarrow>
     parseRows parseOrderRow i (map orderRow orders) = Inr orders"
  "\<forall>r \<in> set releases. trimmed (pr_ProductID r) \<and> countOk (pr_Quantity r) \<Longrightarrow>
     parseRows parseReleaseRow i (map releaseRow releases) = Inr releases"
  "\<forall>a \<in> set allocations. trimmed (ca_WorkstationID a) \<and> trimmed (ca_ProductID a) \<and> countOk (ca_Capacity a) \<Longrightarrow>
     parseRows parseAllocationRow i (map allocationRow allocations) = Inr allocations"
  "\<forall>w \<in> set overtime. trimmed (oa_WorkstationID w) \<and> countOk (oa_Capacity w) \<Longrightarrow>
     parseRows parseOvertimeRow i (map overtimeRow overtime) = Inr overtime"
  "\<forall>f \<in> set offers. trimmed (of_ProductID f) \<and> countOk (of_UnitPrice f) \<Longrightarrow>
     parseRows parseOfferRow i (map offerRow offers) = Inr offers"
  by (intro parseRows_map row_trips; simp)+

lemma parsed_target:
  "valueOf form i = \<lparr>fv_Scalar = itoa n, fv_Rows = []\<rparr> \<Longrightarrow> countOk n \<Longrightarrow> parseTarget form i label = Inr n"
  by (simp add: parseTarget_def parse_itoa countOk_def)

text \<open>C24: Without a draft of its own a role starts from its last accepted action: the form reads back as that
  action, the targets of finance for the round after the active ones, with its commentary.\<close>

theorem draft_repeats_action:
  assumes "tu_drafts m roleID = None" "tui_previousAcceptedAction m roleID = Some a" "typable roleID (as_Action a)"
  shows "parseRoleAction roleID (df_form (currentDraftForRole env m roleID)) view
      = Inr (forRound (bt_EffectiveRound (rv_ActiveTargets view) + 1) (as_Action a))
    \<and> fv_Scalar (valueOf (df_form (currentDraftForRole env m roleID)) ''commentary'') = cm_Body (as_Commentary a)"
proof -
  define form where "form = newActionFormModel (BuildFromCatalog (te_scenario env) roleID)"
  have draft: "df_form (currentDraftForRole env m roleID) = seedDraftFromSubmission a form"
    using assms by (simp add: currentDraftForRole_def newDraft_def form_def)
  show ?thesis
    unfolding draft
    using assms(3)
    by (cases roleID) (auto simp: typable_def parseRoleAction_def seedDraftFromSubmission_def Let_def parsed_rows forRound_def
        RoleAction.defs seedTargets_def parseFinanceTargets_def parsed_target)
qed

text \<open>The order of the last round is the draft of the next.\<close>

definition orderedRound :: RoundRecord where
  "orderedRound = demoRound\<lparr>rr_Actions := [(deskAction [\<lparr>po_PartID = ''housing'', po_SupplierID = ''forgeco'', po_Quantity = 1\<rparr>])
     \<lparr>as_RoleID := RoleProcurementManager\<rparr>]\<rparr>"

definition nextModel :: Model where
  "nextModel = deskModel\<lparr>tu_drafts := Map.empty, tu_workspace := workspaceDebug, tu_debugSelected := inspectionRootID,
     tu_state := deskState\<lparr>ms_History := \<lparr>rh_RecentRounds = [orderedRound]\<rparr>\<rparr>\<rparr>"

lemma draft_repeats_action_witness:
  "parseRoleAction RoleProcurementManager (df_form (currentDraftForRole deskEnv nextModel RoleProcurementManager))
       (selectedRoleView nextModel)
     = Inr (RoleAction.make (Some \<lparr>pra_Orders = [\<lparr>po_PartID = ''housing'', po_SupplierID = ''forgeco'', po_Quantity = 1\<rparr>]\<rparr>) None None None)"
proof -
  let ?a = "(deskAction [\<lparr>po_PartID = ''housing'', po_SupplierID = ''forgeco'', po_Quantity = 1\<rparr>])\<lparr>as_RoleID := RoleProcurementManager\<rparr>"
  have drafts: "tu_drafts nextModel RoleProcurementManager = None" by (simp add: nextModel_def)
  have previous: "tui_previousAcceptedAction nextModel RoleProcurementManager = Some ?a"
    by (simp add: nextModel_def tui_previousAcceptedAction_def orderedRound_def ActionSubmission_Clone_id)
  have "typable RoleProcurementManager (as_Action ?a)"
    using desk_trimmed by (auto simp: typable_def deskAction_def countOk_def RoleAction.defs)
  from draft_repeats_action [OF drafts previous this, of deskEnv "selectedRoleView nextModel"] show ?thesis
    by (simp add: deskAction_def forRound_def RoleAction.defs)
qed

section \<open>The inspector\<close>

text \<open>Collapsing the selected node of the inspector does not collapse it when it is only expanded by default:
  of a root nothing happens, of a node below it the parent is collapsed and selected.\<close>

theorem collapse_skips_default:
  assumes "visibleDebugNodes env m \<noteq> []"
    and "v = visibleDebugNodes env m ! debugSelectionIndex m (visibleDebugNodes env m)"
    and "dn_children (vn_node v) \<noteq> []" "tu_debugExpanded m (visibleID v) = None" "vn_depth v \<le> 1"
  shows "isDebugNodeExpanded m (visibleID v) (vn_depth v)
    \<and> (dn_parentID (vn_node v) = [] \<longrightarrow> collapseDebugSelection env m = m)
    \<and> (dn_parentID (vn_node v) \<noteq> [] \<longrightarrow>
         tu_debugExpanded (collapseDebugSelection env m) = (tu_debugExpanded m)(dn_parentID (vn_node v) \<mapsto> False)
         \<and> tu_debugSelected (collapseDebugSelection env m) = dn_parentID (vn_node v))"
proof -
  have visible: "tu_debugExpanded (ensureDebugSelectionVisible env m') = tu_debugExpanded m'"
    "tu_debugSelected (ensureDebugSelectionVisible env m') = tu_debugSelected m'" for m'
    unfolding ensureDebugSelectionVisible_def Let_def by simp_all
  have "collapseDebugSelection env m = (if dn_parentID (vn_node v) = [] then m
      else selectNode env (dn_parentID (vn_node v)) (setExpanded (dn_parentID (vn_node v)) False m))"
    using assms(1,3,4) unfolding collapseDebugSelection_def Let_def assms(2) [symmetric] by (simp add: visibleID_def)
  then show ?thesis
    using assms(4,5) by (simp add: isDebugNodeExpanded_def selectNode_def setExpanded_def visible)
qed

lemma collapse_skips_default_witness:
  "isDebugNodeExpanded nextModel inspectionRootID 0 \<and> collapseDebugSelection deskEnv nextModel = nextModel"
proof -
  obtain rest where visible: "visibleDebugNodes deskEnv nextModel = \<lparr>vn_node = hd (buildDebugTree deskEnv nextModel), vn_depth = 0\<rparr> # rest"
    and root: "dn_id (hd (buildDebugTree deskEnv nextModel)) = inspectionRootID" "dn_parentID (hd (buildDebugTree deskEnv nextModel)) = []"
      "dn_children (hd (buildDebugTree deskEnv nextModel)) \<noteq> []"
    by (simp add: visibleDebugNodes_def flattenDebugNodes_def buildDebugTree_def buildRoundInspectionTree_def nextModel_def)
  let ?v = "\<lparr>vn_node = hd (buildDebugTree deskEnv nextModel), vn_depth = 0\<rparr>"
  have selected: "tu_debugSelected nextModel = inspectionRootID" "tu_debugExpanded nextModel = Map.empty"
    by (simp_all add: nextModel_def deskModel_def NewModelWithSubmitAndQuitBehavior_def)
  have "?v = visibleDebugNodes deskEnv nextModel ! debugSelectionIndex nextModel (visibleDebugNodes deskEnv nextModel)"
    using root by (simp add: visible debugSelectionIndex_def visibleID_def selected)
  from collapse_skips_default [OF _ this] root show ?thesis by (simp add: visible visibleID_def selected)
qed

lemma tui_never_panics_witness:
  "\<exists>m sent. runTui [(deskEnv, StateLoadedMsg deskState), (deskEnv, TuiKey (press ''x'')), (deskEnv, TuiWindowSize 80 20)]
     (NewModelWithSubmitAndQuitBehavior QuitBehaviorReturnToMenu) = Some (m, sent) \<and> shellOk deskEnv m"
  by (rule tui_never_panics) simp

end
