(* ===== verification/StartMenu.thy ===== *)
theory StartMenu
  imports SqliteStore Configuration TuiState
begin

text \<open>
  The start menu (\<open>cmd/herbiego/start_menu.go\<close>): scenario and seats of a new match, the current session and
  the save slots.  The registry of scenarios is a parameter; an index out of range is the result \<open>None\<close>.
  The map of roles is the association list of \<open>Configuration\<close>.
\<close>

section \<open>State\<close>

datatype startMenuAction =
    startMenuActionStartNewGame
  | startMenuActionResumeGame
  | startMenuActionLoadGame
  | startMenuActionSaveGame
  | startMenuActionExit

text \<open>The session a match is played in (\<open>app_flow.go\<close>); the menu only reads it.\<close>

record activeSession =
  ac_runtime :: Runtime
  ac_state :: MatchState

record startMenuState =
  sm_ActiveSession :: "activeSession option"
  sm_SaveSlots :: "SaveSlotSummary list"
  sm_SelectedLoadIndex :: int
  sm_SelectedSaveIndex :: int
  sm_StoreEnabled :: bool
  sm_StatusText :: string

definition clampSelections :: "startMenuState \<Rightarrow> startMenuState" where
  "clampSelections s =
    (let n = int (length (sm_SaveSlots s))
     in if n = 0 then s\<lparr>sm_SelectedLoadIndex := 0, sm_SelectedSaveIndex := 0\<rparr>
        else s\<lparr>sm_SelectedLoadIndex :=
                 (let i = (if sm_SelectedLoadIndex s < 0 then 0 else sm_SelectedLoadIndex s) in if i \<ge> n then n - 1 else i),
               sm_SelectedSaveIndex :=
                 (let i = (if sm_SelectedSaveIndex s < 0 then 0 else sm_SelectedSaveIndex s)
                  in if i \<ge> n + 1 then n + 1 - 1 else i)\<rparr>)"

record startMenuResult =
  sr_Action :: startMenuAction
  sr_Config :: Config
  sr_State :: startMenuState
  sr_SlotName :: string

record startMenuModel =
  mn_config :: Config
  mn_scenarios :: "ScenarioID list"
  mn_state :: startMenuState
  mn_cursor :: int
  mn_width :: int
  mn_height :: int
  mn_result :: startMenuResult
  mn_cancelled :: bool
  mn_statusLine :: string

text \<open>A copy of a configuration has the same lists and map.\<close>

definition cloneConfig :: "Config \<Rightarrow> Config" where
  "cloneConfig cfg = cfg\<lparr>cf_RoleConfigs := cloneSlice id (cf_RoleConfigs cfg),
     cf_LLMCatalog := (cf_LLMCatalog cfg)\<lparr>lc_Entries := cloneSlice id (lc_Entries (cf_LLMCatalog cfg))\<rparr>\<rparr>"

definition newStartMenuModel :: "registry \<Rightarrow> Config \<Rightarrow> startMenuState \<Rightarrow> startMenuModel" where
  "newStartMenuModel registry cfg state =
    (let normalized = cloneConfig cfg;
         availableScenarios = (let ids = RegisteredIDs registry in if ids = [] then [DefaultID] else ids);
         normalized = (if cf_ScenarioID normalized \<in> set availableScenarios then normalized
           else normalized\<lparr>cf_ScenarioID := hd availableScenarios\<rparr>);
         state = clampSelections state;
         status = (if TrimSpace (sm_StatusText state) = []
           then ''Use up/down to move, left/right to change menu selections, and enter to confirm.''
           else sm_StatusText state)
     in \<lparr>mn_config = normalized, mn_scenarios = availableScenarios, mn_state = state, mn_cursor = 0, mn_width = 0,
         mn_height = 0, mn_result = \<lparr>sr_Action = startMenuActionExit, sr_Config = normalized, sr_State = state,
           sr_SlotName = []\<rparr>, mn_cancelled = False, mn_statusLine = status\<rparr>)"

section \<open>Seats\<close>

definition firstCatalogEntry :: "LLMCatalog \<Rightarrow> LLMCatalogEntry option" where
  "firstCatalogEntry catalog = (case lc_Entries catalog of [] \<Rightarrow> None | entry # _ \<Rightarrow> Some entry)"

definition defaultRoleConfig :: "Config \<Rightarrow> RoleConfig" where
  "defaultRoleConfig cfg =
    (case firstCatalogEntry (cf_LLMCatalog cfg) of
       Some entry \<Rightarrow> \<lparr>rc_Kind = PlayerKindAI, rc_Provider = le_Provider entry, rc_Model = le_Model entry,
         rc_URL = le_URL entry, rc_APISDKType = le_APISDKType entry, rc_APIKey = le_APIKey entry\<rparr>
     | None \<Rightarrow> \<lparr>rc_Kind = PlayerKindAI, rc_Provider = [], rc_Model = [], rc_URL = [], rc_APISDKType = [], rc_APIKey = []\<rparr>)"

text \<open>The configuration of a role, or the one it gets without one.\<close>

definition roleConfigOf :: "Config \<Rightarrow> RoleID \<Rightarrow> RoleConfig" where
  "roleConfigOf cfg roleID =
    (case map_of (cf_Roles cfg) roleID of Some roleCfg \<Rightarrow> roleCfg | None \<Rightarrow> defaultRoleConfig cfg)"

definition selectedScenarioRoster :: "registry \<Rightarrow> ScenarioID \<Rightarrow> RoleID list" where
  "selectedScenarioRoster registry scenarioID =
    (case Lookup registry scenarioID of
       None \<Rightarrow> CanonicalRoles
     | Some definition1 \<Rightarrow> cloneSlice id (su_RoleRoster (sd_Setup definition1)))"

definition scenarioTitle :: "registry \<Rightarrow> ScenarioID \<Rightarrow> string" where
  "scenarioTitle registry i =
    (case Lookup registry i of None \<Rightarrow> i | Some definition1 \<Rightarrow> sd_DisplayName definition1)"

definition roleControlLabel :: "RoleConfig \<Rightarrow> string" where
  "roleControlLabel cfg =
    (let controller = (if rc_Kind cfg = PlayerKindHuman then ''Human'' else ''AI'')
     in if TrimSpace (rc_Provider cfg) = [] \<or> TrimSpace (rc_Model cfg) = [] then controller
        else controller @ '' ('' @ rc_Provider cfg @ '' / '' @ rc_Model cfg @ '')'')"

section \<open>Items\<close>

datatype menuItemKind =
    menuItemStartNewGame
  | menuItemResumeGame
  | menuItemLoadGame
  | menuItemSaveGame
  | menuItemScenario
  | menuItemRole
  | menuItemExit

record menuItem =
  mi_kind :: menuItemKind
  mi_title :: string
  mi_label :: string
  mi_roleID :: RoleID
  mi_enabled :: bool
  mi_disabledHint :: string

text \<open>A slot by its index, if it is in range.\<close>

definition slotAt :: "SaveSlotSummary list \<Rightarrow> int \<Rightarrow> SaveSlotSummary option" where
  "slotAt slots i = (if 0 \<le> i \<and> i < int (length slots) then Some (slots ! nat i) else None)"

definition selectedLoadSlotName :: "startMenuModel \<Rightarrow> string option" where
  "selectedLoadSlotName m =
    (if sm_SaveSlots (mn_state m) = [] then Some []
     else map_option ss_SlotName (slotAt (sm_SaveSlots (mn_state m)) (sm_SelectedLoadIndex (mn_state m))))"

definition selectedSaveSlotName :: "startMenuModel \<Rightarrow> string option" where
  "selectedSaveSlotName m =
    (let slots = sm_SaveSlots (mn_state m); i = sm_SelectedSaveIndex (mn_state m)
     in if slots = [] \<or> i \<ge> int (length slots) then Some [] else map_option ss_SlotName (slotAt slots i))"

definition startGameLabel :: "startMenuModel \<Rightarrow> string" where
  "startGameLabel m = (if sm_ActiveSession (mn_state m) = None then ''Start Game'' else ''Start New Game'')"

definition resumeGameLabel :: "registry \<Rightarrow> startMenuModel \<Rightarrow> string" where
  "resumeGameLabel registry m =
    (case sm_ActiveSession (mn_state m) of
       None \<Rightarrow> ''Resume Current Game: unavailable''
     | Some session \<Rightarrow>
         ''Resume Current Game: '' @ scenarioTitle registry (ms_ScenarioID (ac_state session)) @ '' round ''
         @ itoa (ms_CurrentRound (ac_state session)) @ '' cash '' @ itoa (pl_Cash (ms_Plant (ac_state session))))"

definition loadGameLabel :: "registry \<Rightarrow> startMenuModel \<Rightarrow> string option" where
  "loadGameLabel registry m =
    (if \<not> sm_StoreEnabled (mn_state m) then Some ''Load Saved Game: requires -sqlite-db''
     else if sm_SaveSlots (mn_state m) = [] then Some ''Load Saved Game: no saved games''
     else map_option (\<lambda>slot. ''Load Saved Game: '' @ ss_SlotName slot @ '' | '' @ scenarioTitle registry (ss_ScenarioID slot)
            @ '' | round '' @ itoa (ss_CurrentRound slot) @ '' | cash '' @ itoa (ss_Cash slot))
          (slotAt (sm_SaveSlots (mn_state m)) (sm_SelectedLoadIndex (mn_state m))))"

definition saveGameLabel :: "startMenuModel \<Rightarrow> string option" where
  "saveGameLabel m =
    (if \<not> sm_StoreEnabled (mn_state m) then Some ''Save Current Game: requires -sqlite-db''
     else if sm_ActiveSession (mn_state m) = None then Some ''Save Current Game: unavailable until a session exists''
     else map_option (\<lambda>slotName. if slotName \<noteq> [] then ''Save Current Game: overwrite slot '' @ slotName
            else ''Save Current Game: create new slot'') (selectedSaveSlotName m))"

definition loadDisabledHint :: "startMenuModel \<Rightarrow> string" where
  "loadDisabledHint m =
    (if \<not> sm_StoreEnabled (mn_state m) then ''Load saved game requires -sqlite-db.''
     else ''No saved games are available yet.'')"

definition saveDisabledHint :: "startMenuModel \<Rightarrow> string" where
  "saveDisabledHint m =
    (if \<not> sm_StoreEnabled (mn_state m) then ''Save current game requires -sqlite-db.''
     else ''Return from gameplay first so there is a current session to save.'')"

definition menuEntry :: "menuItemKind \<Rightarrow> string \<Rightarrow> string \<Rightarrow> bool \<Rightarrow> string \<Rightarrow> menuItem" where
  "menuEntry kind title label enabled hint =
     \<lparr>mi_kind = kind, mi_title = title, mi_label = label, mi_roleID = OtherRole [], mi_enabled = enabled,
      mi_disabledHint = hint\<rparr>"

definition roleItem :: "Config \<Rightarrow> RoleID \<Rightarrow> menuItem" where
  "roleItem cfg roleID =
     (menuEntry menuItemRole (displayRoleName roleID)
        (displayRoleName roleID @ '': '' @ roleControlLabel (roleConfigOf cfg roleID)) True [])\<lparr>mi_roleID := roleID\<rparr>"

definition menu_items :: "registry \<Rightarrow> startMenuModel \<Rightarrow> menuItem list option" where
  "menu_items registry m =
    (let s = mn_state m; active = (sm_ActiveSession s \<noteq> None)
     in case loadGameLabel registry m of
          None \<Rightarrow> None
        | Some load \<Rightarrow>
     (case saveGameLabel m of
          None \<Rightarrow> None
        | Some save \<Rightarrow> Some
     ([menuEntry menuItemStartNewGame ''Start New Game'' (startGameLabel m) True [],
       menuEntry menuItemResumeGame ''Resume Current Game'' (resumeGameLabel registry m) active
         ''No current session is available yet.'',
       menuEntry menuItemLoadGame ''Load Saved Game'' load (sm_StoreEnabled s \<and> 0 < length (sm_SaveSlots s)) (loadDisabledHint m),
       menuEntry menuItemSaveGame ''Save Current Game'' save (sm_StoreEnabled s \<and> active) (saveDisabledHint m),
       menuEntry menuItemScenario ''Scenario'' (''Scenario: '' @ scenarioTitle registry (cf_ScenarioID (mn_config m))) True []]
      @ map (roleItem (mn_config m)) (selectedScenarioRoster registry (cf_ScenarioID (mn_config m)))
      @ [menuEntry menuItemExit ''Exit'' ''Exit'' True []])))"

definition itemOf :: "registry \<Rightarrow> startMenuModel \<Rightarrow> menuItem option" where
  "itemOf registry m =
    (case menu_items registry m of
       None \<Rightarrow> None
     | Some items \<Rightarrow>
         if 0 \<le> mn_cursor m \<and> mn_cursor m < int (length items) then Some (items ! nat (mn_cursor m)) else None)"

section \<open>Operations\<close>

definition moveCursor :: "registry \<Rightarrow> int \<Rightarrow> startMenuModel \<Rightarrow> startMenuModel option" where
  "moveCursor registry delta m =
    (case menu_items registry m of
       None \<Rightarrow> None
     | Some items \<Rightarrow>
         if items = [] then Some m
         else let n = int (length items); m = m\<lparr>mn_cursor := go_mod (mn_cursor m + delta + n) n\<rparr>
         in map_option (\<lambda>item. m\<lparr>mn_statusLine := ''Selected '' @ mi_title item @ ''.''\<rparr>) (itemOf registry m))"

definition shiftScenario :: "registry \<Rightarrow> int \<Rightarrow> startMenuModel \<Rightarrow> startMenuModel option" where
  "shiftScenario registry delta m =
    (if mn_scenarios m = [] then Some m
     else let n = int (length (mn_scenarios m));
              current = indexOf (mn_scenarios m) (cf_ScenarioID (mn_config m));
              current = (if current < 0 then 0 else current);
              current = go_mod (current + delta + n) n
     in if current < 0 \<or> current \<ge> n then None
        else let scenarioID = mn_scenarios m ! nat current
        in Some (m\<lparr>mn_config := (mn_config m)\<lparr>cf_ScenarioID := scenarioID\<rparr>,
                   mn_statusLine := ''Scenario set to '' @ scenarioTitle registry scenarioID @ ''.''\<rparr>))"

definition toggleRoleControl :: "RoleID \<Rightarrow> startMenuModel \<Rightarrow> startMenuModel" where
  "toggleRoleControl roleID m =
    (let roleCfg = roleConfigOf (mn_config m) roleID;
         roleCfg = roleCfg\<lparr>rc_Kind := (if rc_Kind roleCfg = PlayerKindHuman then PlayerKindAI else PlayerKindHuman)\<rparr>
     in m\<lparr>mn_config := (mn_config m)\<lparr>cf_Roles := setRole roleID roleCfg (cf_Roles (mn_config m))\<rparr>,
          mn_statusLine := displayRoleName roleID @ '' is now '' @ roleControlLabel roleCfg @ ''-controlled.''\<rparr>)"

definition shiftLoadSelection :: "int \<Rightarrow> startMenuModel \<Rightarrow> startMenuModel option" where
  "shiftLoadSelection delta m =
    (let s = mn_state m; n = int (length (sm_SaveSlots s))
     in if n = 0 then Some (m\<lparr>mn_statusLine := ''No saved games are available yet.''\<rparr>)
        else let i = go_mod (sm_SelectedLoadIndex s + delta + n) n
        in map_option (\<lambda>slot. m\<lparr>mn_state := s\<lparr>sm_SelectedLoadIndex := i\<rparr>,
             mn_statusLine := ''Selected save slot '' @ ss_SlotName slot @ '' at round '' @ itoa (ss_CurrentRound slot) @ ''.''\<rparr>)
           (slotAt (sm_SaveSlots s) i))"

definition shiftSaveSelection :: "int \<Rightarrow> startMenuModel \<Rightarrow> startMenuModel option" where
  "shiftSaveSelection delta m =
    (let s = mn_state m; n = int (length (sm_SaveSlots s)) + 1;
         m = m\<lparr>mn_state := s\<lparr>sm_SelectedSaveIndex := go_mod (sm_SelectedSaveIndex s + delta + n) n\<rparr>\<rparr>
     in map_option (\<lambda>slotName. m\<lparr>mn_statusLine := (if slotName \<noteq> [] then ''Save target set to slot '' @ slotName @ ''.''
          else ''Save target set to a new slot.'')\<rparr>) (selectedSaveSlotName m))"

definition adjustSelected :: "registry \<Rightarrow> int \<Rightarrow> startMenuModel \<Rightarrow> startMenuModel option" where
  "adjustSelected registry delta m =
    (if delta = 0 then Some m
     else case itemOf registry m of
       None \<Rightarrow> None
     | Some item \<Rightarrow>
        (case mi_kind item of
           menuItemScenario \<Rightarrow> shiftScenario registry delta m
         | menuItemRole \<Rightarrow> Some (toggleRoleControl (mi_roleID item) m)
         | menuItemLoadGame \<Rightarrow> shiftLoadSelection delta m
         | menuItemSaveGame \<Rightarrow> shiftSaveSelection delta m
         | _ \<Rightarrow> Some m))"

definition menuChoice :: "startMenuAction \<Rightarrow> string \<Rightarrow> startMenuModel \<Rightarrow> bool \<times> startMenuModel" where
  "menuChoice action slotName m =
     (True, m\<lparr>mn_result := \<lparr>sr_Action = action, sr_Config = mn_config m, sr_State = mn_state m, sr_SlotName = slotName\<rparr>\<rparr>)"

definition activateSelected :: "registry \<Rightarrow> startMenuModel \<Rightarrow> (bool \<times> startMenuModel) option" where
  "activateSelected registry m =
    (case itemOf registry m of
       None \<Rightarrow> None
     | Some item \<Rightarrow>
        if \<not> mi_enabled item then Some (False, m\<lparr>mn_statusLine := mi_disabledHint item\<rparr>)
        else case mi_kind item of
           menuItemStartNewGame \<Rightarrow> Some (menuChoice startMenuActionStartNewGame [] m)
         | menuItemResumeGame \<Rightarrow> Some (menuChoice startMenuActionResumeGame [] m)
         | menuItemLoadGame \<Rightarrow> map_option (\<lambda>slotName. menuChoice startMenuActionLoadGame slotName m) (selectedLoadSlotName m)
         | menuItemSaveGame \<Rightarrow> map_option (\<lambda>slotName. menuChoice startMenuActionSaveGame slotName m) (selectedSaveSlotName m)
         | menuItemExit \<Rightarrow> Some (menuChoice startMenuActionExit [] m)
         | menuItemScenario \<Rightarrow> map_option (Pair False) (shiftScenario registry 1 m)
         | menuItemRole \<Rightarrow> Some (False, toggleRoleControl (mi_roleID item) m))"

text \<open>The result says whether the menu quits.\<close>

definition menuKey :: "registry \<Rightarrow> string \<Rightarrow> startMenuModel \<Rightarrow> (bool \<times> startMenuModel) option" where
  "menuKey registry key m =
    (if key \<in> {''ctrl+c'', ''esc'', ''q''}
     then Some (True, snd (menuChoice startMenuActionExit [] (m\<lparr>mn_cancelled := True\<rparr>)))
     else if key \<in> {''up'', ''k''} then map_option (Pair False) (moveCursor registry (- 1) m)
     else if key \<in> {''down'', ''j''} then map_option (Pair False) (moveCursor registry 1 m)
     else if key \<in> {''left'', ''h''} then map_option (Pair False) (adjustSelected registry (- 1) m)
     else if key \<in> {''right'', ''l''} then map_option (Pair False) (adjustSelected registry 1 m)
     else if key \<in> {''enter'', '' ''} then activateSelected registry m
     else Some (False, m))"

definition menuResize :: "int \<Rightarrow> int \<Rightarrow> startMenuModel \<Rightarrow> startMenuModel" where
  "menuResize width height m = m\<lparr>mn_width := width, mn_height := height\<rparr>"

section \<open>The view\<close>

datatype menuStyle = MenuTitle | MenuSubtitle | MenuSelected | MenuItem | MenuHint | MenuStatus | MenuDisabled

record menuStyles =
  me_line :: "menuStyle \<Rightarrow> string \<Rightarrow> string"
  me_page :: "int \<Rightarrow> string \<Rightarrow> string"

definition itemLine :: "menuStyles \<Rightarrow> startMenuModel \<Rightarrow> nat \<Rightarrow> menuItem \<Rightarrow> string" where
  "itemLine st m index item =
    (if \<not> mi_enabled item then me_line st MenuDisabled (''  '' @ mi_label item)
     else if int index = mn_cursor m then me_line st MenuSelected (''> '' @ mi_label item)
     else me_line st MenuItem (''  '' @ mi_label item))"

definition menu_View :: "registry \<Rightarrow> menuStyles \<Rightarrow> startMenuModel \<Rightarrow> string option" where
  "menu_View registry st m = map_option (\<lambda>items.
     me_page st (if mn_width m \<le> 0 then 112 else mn_width m)
       (joinStrings ([me_line st MenuTitle ''HerbieGo Start Menu'',
          me_line st MenuSubtitle ''Start a new match, resume the current session, or browse SQL-backed save slots.'', []]
        @ map (\<lambda>(index, item). itemLine st m index item) (zip [0..<length items] items)
        @ [[], me_line st MenuHint ''Controls: up/down move | left/right change | enter select'',
           me_line st MenuStatus (mn_statusLine m)]) [newline])) (menu_items registry m)"

section \<open>Selections stay in range\<close>

definition slotsOk :: "startMenuState \<Rightarrow> bool" where
  "slotsOk s \<longleftrightarrow>
    (let n = int (length (sm_SaveSlots s))
     in 0 \<le> sm_SelectedLoadIndex s \<and> (0 < n \<longrightarrow> sm_SelectedLoadIndex s < n)
        \<and> 0 \<le> sm_SelectedSaveIndex s \<and> sm_SelectedSaveIndex s \<le> n)"

definition menuSize :: "registry \<Rightarrow> startMenuModel \<Rightarrow> int" where
  "menuSize registry m = int (length (selectedScenarioRoster registry (cf_ScenarioID (mn_config m)))) + 6"

definition menuOk :: "registry \<Rightarrow> startMenuModel \<Rightarrow> bool" where
  "menuOk registry m \<longleftrightarrow> slotsOk (mn_state m) \<and> 0 \<le> mn_cursor m \<and> mn_cursor m < menuSize registry m"

lemma clampSelections_ok [simp]: "slotsOk (clampSelections s)"
  by (simp add: slotsOk_def clampSelections_def Let_def)

lemma slotAt_Some: "0 \<le> i \<Longrightarrow> i < int (length slots) \<Longrightarrow> slotAt slots i = Some (slots ! nat i)"
  by (simp add: slotAt_def)

lemma selectedSlot_Some:
  assumes "slotsOk (mn_state m)"
  shows "\<exists>name. selectedLoadSlotName m = Some name" "\<exists>name. selectedSaveSlotName m = Some name"
  using assms by (auto simp: selectedLoadSlotName_def selectedSaveSlotName_def slotsOk_def slotAt_def Let_def)

lemma gameLabels_Some:
  assumes "slotsOk (mn_state m)"
  shows "\<exists>label. loadGameLabel registry m = Some label" "\<exists>label. saveGameLabel m = Some label"
  using assms selectedSlot_Some [OF assms] by (auto simp: loadGameLabel_def saveGameLabel_def slotsOk_def slotAt_def Let_def)

text \<open>The items and where they stand.\<close>

definition menuKinds :: "registry \<Rightarrow> startMenuModel \<Rightarrow> menuItemKind list" where
  "menuKinds registry m =
     [menuItemStartNewGame, menuItemResumeGame, menuItemLoadGame, menuItemSaveGame, menuItemScenario]
     @ map (\<lambda>_. menuItemRole) (selectedScenarioRoster registry (cf_ScenarioID (mn_config m))) @ [menuItemExit]"

lemma menu_items_Some:
  assumes "slotsOk (mn_state m)"
  obtains items where "menu_items registry m = Some items" "map mi_kind items = menuKinds registry m"
    "int (length items) = menuSize registry m"
proof -
  obtain load save where "loadGameLabel registry m = Some load" "saveGameLabel m = Some save"
    using gameLabels_Some [OF assms] by blast
  then have "\<exists>items. menu_items registry m = Some items \<and> map mi_kind items = menuKinds registry m"
    by (simp add: menu_items_def menuKinds_def menuEntry_def roleItem_def o_def Let_def)
  then obtain items where "menu_items registry m = Some items" "map mi_kind items = menuKinds registry m" by blast
  moreover from this(2) have "length items = length (menuKinds registry m)" by (metis length_map)
  then have "int (length items) = menuSize registry m" by (simp add: menuKinds_def menuSize_def)
  ultimately show thesis by (rule that)
qed

lemma itemOf_Some:
  assumes "menuOk registry m"
  obtains item where "itemOf registry m = Some item" "mi_kind item = menuKinds registry m ! nat (mn_cursor m)"
proof -
  obtain items where items: "menu_items registry m = Some items" "map mi_kind items = menuKinds registry m"
    "int (length items) = menuSize registry m"
    using assms menu_items_Some unfolding menuOk_def by blast
  have cursor: "0 \<le> mn_cursor m" "mn_cursor m < int (length items)" using assms items(3) by (simp_all add: menuOk_def)
  then have "mi_kind (items ! nat (mn_cursor m)) = menuKinds registry m ! nat (mn_cursor m)"
    by (simp flip: items(2))
  with cursor items(1) that show thesis by (simp add: itemOf_def)
qed

lemma scenarioItem_cursor:
  assumes "menuOk registry m" "itemOf registry m = Some item" "mi_kind item = menuItemScenario"
  shows "mn_cursor m < 6"
proof -
  let ?roster = "selectedScenarioRoster registry (cf_ScenarioID (mn_config m))"
  obtain item' where "itemOf registry m = Some item'" "mi_kind item' = menuKinds registry m ! nat (mn_cursor m)"
    using itemOf_Some [OF assms(1)] .
  then have kind: "menuKinds registry m ! nat (mn_cursor m) = menuItemScenario" using assms(2,3) by simp
  have other: "menuKinds registry m ! (5 + j) \<noteq> menuItemScenario" if "j < length ?roster + 1" for j
    using that by (cases "j < length ?roster") (simp_all add: menuKinds_def nth_append less_Suc_eq)
  show ?thesis
  proof (rule ccontr)
    assume "\<not> mn_cursor m < 6"
    moreover have "mn_cursor m < int (length ?roster) + 6" using assms(1) by (simp add: menuOk_def menuSize_def)
    ultimately have "nat (mn_cursor m) = 5 + nat (mn_cursor m - 5)" "nat (mn_cursor m - 5) < length ?roster + 1"
      by linarith+
    with other kind show False by metis
  qed
qed

lemma moveCursor_ok:
  assumes "menuOk registry m" "- 1 \<le> delta"
  obtains m' where "moveCursor registry delta m = Some m'" "menuOk registry m'"
proof -
  obtain items where items: "menu_items registry m = Some items" "int (length items) = menuSize registry m"
    using assms menu_items_Some unfolding menuOk_def by metis
  let ?n = "int (length items)"
  define m1 where "m1 = m\<lparr>mn_cursor := go_mod (mn_cursor m + delta + ?n) ?n\<rparr>"
  have n: "0 < ?n" using items(2) by (simp add: menuSize_def)
  then have range: "0 \<le> go_mod (mn_cursor m + delta + ?n) ?n \<and> go_mod (mn_cursor m + delta + ?n) ?n < ?n"
    using assms by (intro go_mod_range) (simp_all add: menuOk_def flip: items(2))
  have ok: "menuOk registry m1" using range assms(1) items(2) by (simp add: m1_def menuOk_def menuSize_def)
  from itemOf_Some [OF this] obtain item where item: "itemOf registry m1 = Some item" by blast
  have "moveCursor registry delta m = Some (m1\<lparr>mn_statusLine := ''Selected '' @ mi_title item @ ''.''\<rparr>)"
    using items(1) n item by (simp add: moveCursor_def Let_def m1_def [symmetric])
  with that [of "m1\<lparr>mn_statusLine := ''Selected '' @ mi_title item @ ''.''\<rparr>"] ok show thesis
    by (simp add: menuOk_def menuSize_def)
qed

lemma indexOf_range: "- 1 \<le> indexOf xs x \<and> indexOf xs x < int (length xs)"
  by (induction xs) (auto simp: Let_def)

lemma shiftScenario_ok:
  assumes "menuOk registry m" "mn_cursor m < 6" "- 1 \<le> delta"
  obtains m' where "shiftScenario registry delta m = Some m'" "menuOk registry m'"
proof (cases "mn_scenarios m = []")
  case True
  with that assms(1) show thesis by (simp add: shiftScenario_def)
next
  case False
  let ?n = "int (length (mn_scenarios m))"
  define current where "current = (let i = indexOf (mn_scenarios m) (cf_ScenarioID (mn_config m)) in if i < 0 then 0 else i)"
  define shifted where "shifted = go_mod (current + delta + ?n) ?n"
  have n: "0 < ?n" using False by simp
  moreover have "0 \<le> current" by (simp add: current_def Let_def)
  ultimately have "0 \<le> current + delta + ?n" using assms(3) by linarith
  from go_mod_range [OF this n] have range: "0 \<le> shifted \<and> shifted < ?n" unfolding shifted_def .
  have "shiftScenario registry delta m = Some (m\<lparr>mn_config := (mn_config m)\<lparr>cf_ScenarioID := mn_scenarios m ! nat shifted\<rparr>,
      mn_statusLine := ''Scenario set to '' @ scenarioTitle registry (mn_scenarios m ! nat shifted) @ ''.''\<rparr>)"
    using range False unfolding shiftScenario_def shifted_def current_def Let_def by (auto simp: not_less)
  then show thesis by (rule that) (use assms(1,2) in \<open>simp add: menuOk_def menuSize_def\<close>)
qed

lemma shiftSelections_ok:
  assumes "menuOk registry m" "- 1 \<le> delta"
  shows "\<exists>m'. shiftLoadSelection delta m = Some m' \<and> menuOk registry m'"
    "\<exists>m'. shiftSaveSelection delta m = Some m' \<and> menuOk registry m'"
proof -
  let ?s = "mn_state m" and ?n = "int (length (sm_SaveSlots (mn_state m)))"
  define i where "i = go_mod (sm_SelectedLoadIndex ?s + delta + ?n) ?n"
  define j where "j = go_mod (sm_SelectedSaveIndex ?s + delta + (?n + 1)) (?n + 1)"
  have s: "slotsOk ?s" using assms(1) by (simp add: menuOk_def)
  have i: "0 \<le> i \<and> i < ?n" if "0 < ?n"
    unfolding i_def using that s assms(2) by (intro go_mod_range) (simp_all add: slotsOk_def Let_def)
  have j: "0 \<le> j \<and> j < ?n + 1"
    unfolding j_def using s assms(2) by (intro go_mod_range) (simp_all add: slotsOk_def Let_def)
  show "\<exists>m'. shiftLoadSelection delta m = Some m' \<and> menuOk registry m'"
  proof (cases "?n = 0")
    case True
    then show ?thesis using assms(1) by (simp add: shiftLoadSelection_def menuOk_def menuSize_def)
  next
    case False
    then show ?thesis using i s assms(1)
      by (simp add: shiftLoadSelection_def Let_def i_def [symmetric] slotAt_Some menuOk_def menuSize_def slotsOk_def)
  qed
  define m1 where "m1 = m\<lparr>mn_state := ?s\<lparr>sm_SelectedSaveIndex := j\<rparr>\<rparr>"
  have ok: "menuOk registry m1" using j s assms(1) by (simp add: m1_def menuOk_def menuSize_def slotsOk_def Let_def)
  then obtain name where "selectedSaveSlotName m1 = Some name"
    using selectedSlot_Some(2) [of m1] by (auto simp: menuOk_def)
  then show "\<exists>m'. shiftSaveSelection delta m = Some m' \<and> menuOk registry m'"
    using ok unfolding shiftSaveSelection_def Let_def j_def [symmetric] m1_def [symmetric]
    by (simp add: menuOk_def menuSize_def)
qed

lemma toggleRoleControl_ok: "menuOk registry m \<Longrightarrow> menuOk registry (toggleRoleControl roleID m)"
  by (simp add: toggleRoleControl_def Let_def menuOk_def menuSize_def)

lemma adjustSelected_ok:
  assumes "menuOk registry m" "- 1 \<le> delta"
  obtains m' where "adjustSelected registry delta m = Some m'" "menuOk registry m'"
proof -
  obtain item where item: "itemOf registry m = Some item" using itemOf_Some [OF assms(1)] .
  show thesis
  proof (cases "mi_kind item = menuItemScenario \<and> delta \<noteq> 0")
    case True
    with shiftScenario_ok [OF assms(1) scenarioItem_cursor [OF assms(1) item] assms(2)] obtain m'
      where "shiftScenario registry delta m = Some m'" "menuOk registry m'" by blast
    with True item that show thesis by (simp add: adjustSelected_def)
  next
    case False
    have "\<exists>m'. adjustSelected registry delta m = Some m' \<and> menuOk registry m'"
      using False item assms(1) toggleRoleControl_ok shiftSelections_ok [OF assms]
      by (cases "mi_kind item") (simp_all add: adjustSelected_def)
    with that show thesis by blast
  qed
qed

lemma menuChoice_ok: "menuOk registry m \<Longrightarrow> menuOk registry (snd (menuChoice action slotName m))"
  by (simp add: menuChoice_def menuOk_def menuSize_def)

lemma activateSelected_ok:
  assumes "menuOk registry m"
  obtains quit m' where "activateSelected registry m = Some (quit, m')" "menuOk registry m'"
proof -
  obtain item where item: "itemOf registry m = Some item" using itemOf_Some [OF assms] .
  have hint: "menuOk registry (m\<lparr>mn_statusLine := mi_disabledHint item\<rparr>)" using assms by (simp add: menuOk_def menuSize_def)
  show thesis
  proof (cases "mi_kind item = menuItemScenario \<and> mi_enabled item")
    case True
    with shiftScenario_ok [OF assms scenarioItem_cursor [OF assms item], of 1] obtain m'
      where "shiftScenario registry 1 m = Some m'" "menuOk registry m'" by auto
    with True item that [of False m'] show thesis by (simp add: activateSelected_def)
  next
    case False
    have "slotsOk (mn_state m)" using assms by (simp add: menuOk_def)
    from selectedSlot_Some [OF this] obtain load save
      where "selectedLoadSlotName m = Some load" "selectedSaveSlotName m = Some save" by blast
    with False item hint assms menuChoice_ok [OF assms] toggleRoleControl_ok [OF assms]
    have "\<exists>r. activateSelected registry m = Some r \<and> menuOk registry (snd r)"
      by (cases "mi_kind item") (simp_all add: activateSelected_def del: split_paired_Ex)
    with that show thesis by (metis prod.collapse)
  qed
qed

text \<open>Every key of the menu has a result.\<close>

lemma menuKey_ok:
  assumes "menuOk registry m"
  obtains quit m' where "menuKey registry key m = Some (quit, m')" "menuOk registry m'"
proof -
  have "menuOk registry (m\<lparr>mn_cancelled := True\<rparr>)" using assms by (simp add: menuOk_def menuSize_def)
  from menuChoice_ok [OF this] have exit: "menuOk registry (snd (menuChoice startMenuActionExit [] (m\<lparr>mn_cancelled := True\<rparr>)))" .
  obtain a where a: "moveCursor registry (- 1) m = Some a" "menuOk registry a" using moveCursor_ok [OF assms, of "- 1"] by auto
  obtain b where b: "moveCursor registry 1 m = Some b" "menuOk registry b" using moveCursor_ok [OF assms, of 1] by auto
  obtain c where c: "adjustSelected registry (- 1) m = Some c" "menuOk registry c" using adjustSelected_ok [OF assms, of "- 1"] by auto
  obtain d where d: "adjustSelected registry 1 m = Some d" "menuOk registry d" using adjustSelected_ok [OF assms, of 1] by auto
  obtain quit e where e: "activateSelected registry m = Some (quit, e)" "menuOk registry e" using activateSelected_ok [OF assms] .
  have "\<exists>r. menuKey registry key m = Some r \<and> menuOk registry (snd r)"
    unfolding menuKey_def a(1) b(1) c(1) d(1) e(1) using exit a(2) b(2) c(2) d(2) e(2) assms
    by (simp del: split_paired_Ex)
  with that show thesis by (metis prod.collapse)
qed

lemma enter_starts:
  assumes "menuOk registry m" "mn_cursor m = 0" "key \<in> {''enter'', '' ''}"
  shows "menuKey registry key m = Some (menuChoice startMenuActionStartNewGame [] m)"
proof -
  obtain load save where "loadGameLabel registry m = Some load" "saveGameLabel m = Some save"
    using assms(1) gameLabels_Some [of m] unfolding menuOk_def by blast
  then have "\<exists>item. itemOf registry m = Some item \<and> mi_kind item = menuItemStartNewGame \<and> mi_enabled item"
    using assms(2) by (simp add: itemOf_def menu_items_def menuEntry_def Let_def)
  then obtain item where item: "itemOf registry m = Some item" "mi_kind item = menuItemStartNewGame" "mi_enabled item" by blast
  have "key = ''enter'' \<or> key = '' ''" using assms(3) by simp
  then have "menuKey registry key m = activateSelected registry m" by (elim disjE) (simp_all add: menuKey_def)
  then show ?thesis by (simp add: activateSelected_def item)
qed

lemma newStartMenuModel_ok: "menuOk registry (newStartMenuModel registry cfg state)"
  by (simp add: menuOk_def menuSize_def newStartMenuModel_def Let_def)

lemma menuResize_ok: "menuOk registry m \<Longrightarrow> menuOk registry (menuResize width height m)"
  by (simp add: menuOk_def menuSize_def menuResize_def)

lemma menu_View_Some: "menuOk registry m \<Longrightarrow> menu_View registry st m \<noteq> None"
  using menu_items_Some [of m registry] by (auto simp: menuOk_def menu_View_def)

end
