(* ===== verification/Splash.thy ===== *)
theory Splash
  imports Terminal
begin

text \<open>
  The splash screen (\<open>cmd/herbiego/splash_screen.go\<close>): six frames drawn on a canvas of characters, the
  word running along the belt, and the model that shows them one tick after the other.  The colours are
  the functions of \<open>splashStyles\<close>; all that is drawn is ASCII, so a rune is a character.
\<close>

section \<open>The canvas\<close>

type_synonym splashCanvas = "string list"

definition splashCanvasWidth :: nat where
  "splashCanvasWidth = 72"

definition splashCanvasHeight :: nat where
  "splashCanvasHeight = 14"

definition newSplashCanvas :: "nat \<Rightarrow> nat \<Rightarrow> splashCanvas" where
  "newSplashCanvas width height = replicate height (replicate width CHR '' '')"

fun writeCells :: "int \<Rightarrow> string \<Rightarrow> string \<Rightarrow> string" where
  "writeCells target [] cells = cells"
| "writeCells target (c # cs) cells =
     writeCells (target + 1) cs
       (if target < 0 \<or> target \<ge> int (length cells) then cells else cells[nat target := c])"

definition canvas_write :: "int \<Rightarrow> int \<Rightarrow> string \<Rightarrow> splashCanvas \<Rightarrow> splashCanvas" where
  "canvas_write col row text1 canvas =
    (if row < 0 \<or> row \<ge> int (length canvas) then canvas
     else canvas[nat row := writeCells col text1 (canvas ! nat row)])"

definition canvas_lines :: "splashCanvas \<Rightarrow> string list" where
  "canvas_lines canvas = map (\<lambda>cells. rev (dropWhile (\<lambda>c. c = CHR '' '') (rev cells))) canvas"

section \<open>A frame\<close>

text \<open>As many copies as the loop appends are in a prefix of \<open>width\<close> copies.\<close>

definition repeatPattern :: "string \<Rightarrow> int \<Rightarrow> string" where
  "repeatPattern pattern width =
    (if width \<le> 0 \<or> pattern = [] then [] else take (nat width) (concat (replicate (nat width) pattern)))"

definition overlayWord :: "string \<Rightarrow> int \<Rightarrow> string \<Rightarrow> string" where
  "overlayWord word offset base =
     map (\<lambda>index. let wordIndex = int index - offset
       in if 0 \<le> wordIndex \<and> wordIndex < int (length word) then word ! nat wordIndex else base ! index) [0..<length base]"

definition renderBeltWordmark :: "int \<Rightarrow> int \<Rightarrow> string" where
  "renderBeltWordmark offset width = overlayWord ''HERBIEGO'' offset (repeatPattern ''=x'' width)"

definition renderLowerBeltEcho :: "int \<Rightarrow> int \<Rightarrow> string" where
  "renderLowerBeltEcho offset width = overlayWord ''herbiego'' offset (repeatPattern ''#='' width)"

function replaceAll :: "string \<Rightarrow> string \<Rightarrow> string \<Rightarrow> string" where
  "replaceAll old new [] = []"
| "replaceAll old new (c # cs) =
    (if old \<noteq> [] \<and> take (length old) (c # cs) = old
     then new @ replaceAll old new (drop (length old - 1) cs)
     else c # replaceAll old new cs)"
  by pat_completeness auto
termination by (relation "measure (\<lambda>(_, _, s). length s)") auto

record splashStyles =
  sy_steel :: "string \<Rightarrow> string"
  sy_brick :: "string \<Rightarrow> string"
  sy_fire :: "string \<Rightarrow> string"
  sy_word :: "string \<Rightarrow> string"
  sy_heatedWord :: "string \<Rightarrow> string"
  sy_eyes :: "string \<Rightarrow> string"
  sy_subtitle :: "string \<Rightarrow> string"
  sy_page :: "int \<Rightarrow> string \<Rightarrow> string"

definition flames :: string where
  "flames = ''~^^^^^^^^^^^^^^^^^^^^^^^^^^^^^^^^~''"

definition styleSplashCanvas :: "splashStyles \<Rightarrow> string list \<Rightarrow> string" where
  "styleSplashCanvas sy lines =
     joinStrings (map (\<lambda>(index, line).
       let current = replaceAll ''HERB'' (sy_word sy ''HERB'') line;
           current = replaceAll ''IEGO'' (sy_heatedWord sy ''IEGO'') current;
           current = replaceAll ''herbiego'' (sy_word sy ''herbiego'') current;
           current = replaceAll ''o o'' (sy_eyes sy ''o o'') current;
           current = replaceAll flames (sy_fire sy flames) current
       in if index = 12 \<or> index = 13 then sy_steel sy current else sy_brick sy current)
       (zip [0..<length lines] lines)) [newline]"

definition back1 :: char where
  "back1 = CHR 0x5C"

text \<open>The furnace and the belts, a row of the canvas each.\<close>

definition furnace :: "(int \<times> int \<times> string) list" where
  "furnace =
     [(4, 2, ''    /---'' @ [back1] @ ''                                /---'' @ [back1]),
      (4, 3, ''   /     '' @ [back1] @ ''______________________________/     '' @ [back1]),
      (4, 4, ''  |   __        __                        []   |''),
      (4, 5, ''  |  /  '' @ [back1] @ ''______/  '' @ [back1] @ ''                      []    |''),
      (4, 6, ''  | |   o      o   |________________________   |''),
      (4, 7, ''  | |      __      |========================'' @ [back1] @ ''  |''),
      (4, 8, ''  | |     /  '' @ [back1] @ ''     |                         | |''),
      (4, 9, ''  | |____/____'' @ [back1] @ ''____|                         | |''),
      (4, 10, ''  |    '' @ flames @ ''    | |''),
      (4, 11, ''  |__________________________________________| |''),
      (0, 12, ''===='' @ repeatText ''#='' 30 @ ''====''),
      (0, 13, ''----'' @ repeatText ''#='' 30 @ ''----'')]"

definition renderHerbieSplashFrame :: "splashStyles \<Rightarrow> int \<Rightarrow> string" where
  "renderHerbieSplashFrame sy offset =
    (let canvas = newSplashCanvas splashCanvasWidth splashCanvasHeight;
         canvas = foldl (\<lambda>canvas (col, row, text1). canvas_write col row text1 canvas) canvas furnace;
         canvas = canvas_write 14 7 (renderBeltWordmark offset 24) canvas;
         canvas = canvas_write 7 13 (renderLowerBeltEcho offset 16) canvas
     in styleSplashCanvas sy (canvas_lines canvas))"

definition herbieSplashFrames :: "splashStyles \<Rightarrow> string list" where
  "herbieSplashFrames sy = map (renderHerbieSplashFrame sy) [- 10, - 4, 2, 8, 14, 20]"

section \<open>The model\<close>

record splashModel =
  sp_frame :: int
  sp_finished :: bool
  sp_width :: int

datatype splashMsg = SplashWindowSize int | SplashKey | SplashTickMsg | SplashOther

datatype splashCmd = SplashQuit | SplashTick int

text \<open>In nanoseconds.\<close>

definition splashTotalDuration :: int where
  "splashTotalDuration = 3000000000"

definition splashFrameDelayForFrameCount :: "int \<Rightarrow> int" where
  "splashFrameDelayForFrameCount frameCount =
    (if frameCount \<le> 0 then splashTotalDuration else go_div splashTotalDuration frameCount)"

definition splashTickCmd :: "splashStyles \<Rightarrow> splashCmd" where
  "splashTickCmd sy = SplashTick (splashFrameDelayForFrameCount (int (length (herbieSplashFrames sy))))"

definition splash_Update :: "splashStyles \<Rightarrow> splashMsg \<Rightarrow> splashModel \<Rightarrow> splashModel \<times> splashCmd option" where
  "splash_Update sy msg m =
    (case msg of
       SplashWindowSize width \<Rightarrow> (m\<lparr>sp_width := width\<rparr>, None)
     | SplashKey \<Rightarrow> (m\<lparr>sp_finished := True\<rparr>, Some SplashQuit)
     | SplashTickMsg \<Rightarrow>
         if sp_frame m \<ge> int (length (herbieSplashFrames sy)) - 1 then (m\<lparr>sp_finished := True\<rparr>, Some SplashQuit)
         else (m\<lparr>sp_frame := sp_frame m + 1\<rparr>, Some (splashTickCmd sy))
     | SplashOther \<Rightarrow> (m, None))"

definition splash_View :: "splashStyles \<Rightarrow> splashModel \<Rightarrow> string option" where
  "splash_View sy m =
    (let frames = herbieSplashFrames sy; index = min (sp_frame m) (int (length frames) - 1);
         width = (if sp_width m \<le> 0 then 96 else sp_width m)
     in if index < 0 then None
        else Some (sy_page sy width (joinStrings [sy_subtitle sy ''The line is moving.'', [], frames ! nat index, [],
          sy_subtitle sy ''Launching start menu...''] [newline])))"

definition newSplash :: splashModel where
  "newSplash = \<lparr>sp_frame = 0, sp_finished = False, sp_width = 0\<rparr>"

section \<open>What the splash does\<close>

lemma frames_length [simp]: "length (herbieSplashFrames sy) = 6"
  by (simp add: herbieSplashFrames_def)

lemma splash_ok:
  assumes "0 \<le> sp_frame m" "splash_Update sy msg m = (m', cmd)"
  shows "0 \<le> sp_frame m'" "splash_View sy m' \<noteq> None"
proof -
  show "0 \<le> sp_frame m'" using assms by (auto simp: splash_Update_def split: splashMsg.splits if_splits)
  then show "splash_View sy m' \<noteq> None" by (simp add: splash_View_def Let_def)
qed

end
