(* ===== verification/AppFlow.thy ===== *)
theory AppFlow
  imports StartMenu Splash TuiModel LiveController MatchRunner
begin

text \<open>
  The program from its command line to the screens (\<open>cmd/herbiego/main.go\<close>, \<open>persistence.go\<close> and
  \<open>app_flow.go\<close>): the splash, the start menu and the sessions between them.  A step of the application takes
  a message and gives its state and the commands for the library; an index out of range in a screen and a
  submission sent on a closed channel are the result \<open>None\<close>.  The match runs in a goroutine of its own: a screen holds its runner, the controller and
  the log of AI calls it shares with it, and \<open>sessionEvents\<close> is what the goroutine sends at its end.  The menu's
  pointer to the session is a copy here: it is set whenever the menu is entered, and nothing
  changes a session while the menu is shown.
\<close>

section \<open>The surroundings\<close>

text \<open>The registry, the clock's texts, the codecs and clients the components take, what errors print, and
  what the goroutines of the match make of the controller while \<open>Submit\<close> is between its two sections.\<close>

record 't appEnv =
  ae_registry :: registry
  ae_process :: processEnv
  ae_codecs :: "'t storeCodecs"
  ae_openai :: openaiEnv
  ae_json :: jsonCodec
  ae_order :: MapOrder
  ae_worldOrders :: "RoundNumber \<Rightarrow> MapOrder"
  ae_now :: string
  ae_slotTime :: string
  ae_clock :: "nat \<Rightarrow> Time"
  ae_orders :: "nat \<Rightarrow> MapOrder"
  ae_submitRound :: SubmitFunc
  ae_atSend :: "liveGameplayController \<Rightarrow> liveGameplayController"
  ae_splash :: splashStyles
  ae_menu :: menuStyles
  ae_terminal :: terminal
  ae_storeText :: "sqliteError \<Rightarrow> string"
  ae_configText :: "configError \<Rightarrow> string"
  ae_playText :: "playError \<Rightarrow> string"

datatype appError =
    AppBootstrap configError
  | AppResumeWithoutDatabase
  | AppOpenStore sqliteError
  | AppResume MatchID sqliteError
  | AppScenario ScenarioID MatchID
  | AppSnapshots sqliteError
  | AppPlayers setupError
  | AppTraces sqliteError
  | AppSlotRuntime string configError
  | AppRunner playError

section \<open>The store of the process\<close>

definition resolveMatchPersistence ::
  "'t storeCodecs \<Rightarrow> (string \<Rightarrow> 't Database option) \<Rightarrow> Runtime \<Rightarrow> string \<Rightarrow> string \<Rightarrow>
     appError + 't SqliteStore option \<times> MatchState" where
  "resolveMatchPersistence cx disk runtime sqlitePath resumeMatchID =
    (let initial = MatchState_Clone (run_InitialMatch runtime)
     in if sqlitePath = []
        then if resumeMatchID \<noteq> [] then Inl AppResumeWithoutDatabase else Inr (None, initial)
        else case sqlite_NewStore sqlitePath 10 (disk sqlitePath) of
          Inl err \<Rightarrow> Inl (AppOpenStore err)
        | Inr store \<Rightarrow>
     if resumeMatchID = [] then Inr (Some store, initial)
     else case sqlite_CurrentState cx store resumeMatchID of
            Inl err \<Rightarrow> Inl (AppResume resumeMatchID err)
          | Inr current \<Rightarrow> Inr (Some store, current))"

text \<open>The sink of the log of AI calls: a call that cannot be stored is only logged.\<close>

definition persistAICall :: "'t storeCodecs \<Rightarrow> MatchID \<Rightarrow> AICallRecord \<Rightarrow> 't SqliteStore \<Rightarrow> 't SqliteStore" where
  "persistAICall cx matchID call store =
    (case AppendAICall cx matchID call store of Inl _ \<Rightarrow> store | Inr store \<Rightarrow> store)"

section \<open>Runtimes of menu choices and of loaded games\<close>

definition runtimeConfigFromMenu :: "registry \<Rightarrow> Config \<Rightarrow> Config" where
  "runtimeConfigFromMenu registry cfg =
    (let cloned = cloneConfig cfg
     in case Lookup registry (cf_ScenarioID cloned) of
          None \<Rightarrow> cloned
        | Some definition1 \<Rightarrow>
            cloned\<lparr>cf_Roles := foldl (\<lambda>roles roleID. setRole roleID (roleConfigOf cloned roleID) roles) []
                     (su_RoleRoster (sd_Setup definition1)),
                   cf_RoleConfigs := []\<rparr>)"

definition assignedRoleConfig :: "Config \<Rightarrow> RoleAssignment \<Rightarrow> RoleConfig" where
  "assignedRoleConfig cfg assignment =
    (let roleCfg = defaultRoleConfig cfg;
         roleCfg = (if ra_IsHuman assignment then roleCfg\<lparr>rc_Kind := PlayerKindHuman\<rparr> else roleCfg);
         roleCfg = (if TrimSpace (ra_Provider assignment) \<noteq> [] then roleCfg\<lparr>rc_Provider := ra_Provider assignment\<rparr> else roleCfg)
     in if TrimSpace (ra_ModelName assignment) \<noteq> [] then roleCfg\<lparr>rc_Model := ra_ModelName assignment\<rparr> else roleCfg)"

definition loadedConfig :: "Config \<Rightarrow> MatchState \<Rightarrow> Config" where
  "loadedConfig cfg state =
    (let runtimeCfg = (cloneConfig cfg)\<lparr>cf_ScenarioID := ms_ScenarioID state, cf_Roles := [], cf_RoleConfigs := []\<rparr>
     in runtimeCfg\<lparr>cf_Roles := foldl (\<lambda>roles assignment. setRole (ra_RoleID assignment)
          (assignedRoleConfig runtimeCfg assignment) roles) [] (ms_Roles state)\<rparr>)"

definition runtimeForLoadedState :: "processEnv \<Rightarrow> registry \<Rightarrow> Config \<Rightarrow> MatchState \<Rightarrow> configError + Runtime" where
  "runtimeForLoadedState env registry cfg state =
    (let runtimeCfg = loadedConfig cfg state
     in case NewRuntime env registry runtimeCfg of
          Inl err \<Rightarrow> Inl err
        | Inr runtime \<Rightarrow> Inr (runtime\<lparr>run_InitialMatch := MatchState_Clone state,
            run_Random := pe_Random env (cf_RandomSeed runtimeCfg)\<rparr>))"

section \<open>A session on the screen\<close>

record gameplayScreen =
  gm_model :: Model
  gm_definition :: Definition
  gm_controller :: liveGameplayController
  gm_runner :: MatchRunner
  gm_debugLog :: DebugLog
  gm_persistAI :: bool
  gm_persisted :: "AICallRecord list option"

text \<open>The records the inspector shows: those of the store before those of the log.\<close>

definition combinedDebugSource_Records :: "DebugLog \<Rightarrow> AICallRecord list \<Rightarrow> AICallRecord list" where
  "combinedDebugSource_Records live persisted =
    (let liveRecords = DebugLog_Records live in if persisted = [] then liveRecords else persisted @ liveRecords)"

definition debugRecords :: "gameplayScreen \<Rightarrow> AICallRecord list" where
  "debugRecords screen =
    (case gm_persisted screen of
       None \<Rightarrow> DebugLog_Records (gm_debugLog screen)
     | Some persisted \<Rightarrow> combinedDebugSource_Records (gm_debugLog screen) persisted)"

text \<open>\<open>Submit\<close> looks under the mutex whether the controller is closed, and sends after it has left the
  mutex: between the two the match goes on, and a channel that was closed meanwhile makes the send panic.\<close>

datatype submitOutcome = SubmitAccepted | SubmitRefused string | SubmitPanics

definition live_Submit ::
  "liveGameplayController \<Rightarrow> liveGameplayController \<Rightarrow> ActionSubmission \<Rightarrow> submitOutcome" where
  "live_Submit checked atSend submission =
    (if lv_closed checked then SubmitRefused ''the live match is no longer accepting submissions''
     else if lv_closed atSend then SubmitPanics
     else if length (lv_submissions atSend) < lv_capacity atSend then SubmitAccepted
     else SubmitRefused ''submission queue is full; wait for the current round to catch up'')"

definition submitError :: "submitOutcome \<Rightarrow> string option" where
  "submitError outcome = (case outcome of SubmitRefused err \<Rightarrow> Some err | _ \<Rightarrow> None)"

definition queueSubmission :: "liveGameplayController \<Rightarrow> ActionSubmission \<Rightarrow> liveGameplayController" where
  "queueSubmission c submission = c\<lparr>lv_submissions := lv_submissions c @ [ActionSubmission_Clone submission]\<rparr>"

text \<open>The controller after the submissions a screen has passed to \<open>Submit\<close>; \<open>None\<close> is the panic.\<close>

fun deliver :: "(liveGameplayController \<Rightarrow> liveGameplayController) \<Rightarrow> ActionSubmission list \<Rightarrow>
    liveGameplayController \<Rightarrow> liveGameplayController option" where
  "deliver meanwhile [] c = Some c"
| "deliver meanwhile (submission # sent) c =
    (case live_Submit c (meanwhile c) submission of
       SubmitPanics \<Rightarrow> None
     | SubmitAccepted \<Rightarrow> deliver meanwhile sent (queueSubmission (meanwhile c) submission)
     | SubmitRefused _ \<Rightarrow> deliver meanwhile sent (if lv_closed c then c else meanwhile c))"

definition screenEnv :: "'t appEnv \<Rightarrow> gameplayScreen \<Rightarrow> tuiEnv" where
  "screenEnv env screen =
     \<lparr>te_scenario = gm_definition screen, te_snapshots = Some (live_StateSnapshots (gm_controller screen)),
      te_debugLog = Some (debugRecords screen), te_submit = Some (\<lambda>submission. submitError
        (live_Submit (gm_controller screen) (ae_atSend env (gm_controller screen)) submission)),
      te_hasUpdates = True, te_order = ae_order env, te_terminal = ae_terminal env\<rparr>"

datatype shellCmd =
    ShellQuit
  | ShellSplashTick int
  | ShellTui tuiCmd
  | ShellWaitForGameplayEvent

datatype shellMsg =
    ShellTuiMsg tuiMsg
  | ShellSplashTickMsg
  | GameplayRunnerDone "playError option"
  | GameplayEventsClosed

definition shellCmds :: "tuiCmd list \<Rightarrow> shellCmd list" where
  "shellCmds cmds = map (\<lambda>cmd. if cmd = CmdQuit then ShellQuit else ShellTui cmd) cmds"

definition resolveScenarioForMatch :: "registry \<Rightarrow> MatchState \<Rightarrow> appError + Definition" where
  "resolveScenarioForMatch registry state =
    (case Lookup registry (ms_ScenarioID state) of
       None \<Rightarrow> Inl (AppScenario (ms_ScenarioID state) (ms_MatchID state))
     | Some definition1 \<Rightarrow> Inr definition1)"

text \<open>The snapshots of a session and the AI calls of the store.\<close>

definition sessionSnapshots :: "'t storeCodecs \<Rightarrow> 't SqliteStore option \<Rightarrow> MatchState \<Rightarrow> appError + MatchState list" where
  "sessionSnapshots cx store initial =
    (case store of
       None \<Rightarrow> Inr [MatchState_Clone initial]
     | Some st \<Rightarrow>
        (case sqlite_StateSnapshots cx st (ms_MatchID initial) of
           Inl err \<Rightarrow> Inl (AppSnapshots err)
         | Inr snapshots \<Rightarrow> Inr snapshots))"

definition sessionTraces :: "'t storeCodecs \<Rightarrow> 't SqliteStore option \<Rightarrow> MatchState \<Rightarrow> appError + AICallRecord list option" where
  "sessionTraces cx store initial =
    (case store of
       None \<Rightarrow> Inr None
     | Some st \<Rightarrow>
        (case AICallRecords cx st (ms_MatchID initial) of
           Inl err \<Rightarrow> Inl (AppTraces err)
         | Inr calls \<Rightarrow> Inr (Some calls)))"

definition newGameplayScreen ::
  "'t appEnv \<Rightarrow> Runtime \<Rightarrow> MatchState \<Rightarrow> 't SqliteStore option \<Rightarrow> bool \<Rightarrow> appError + gameplayScreen \<times> shellCmd list" where
  "newGameplayScreen env runtime initial store persistAIDebug =
    (case resolveScenarioForMatch (ae_registry env) initial of
       Inl err \<Rightarrow> Inl err
     | Inr definition1 \<Rightarrow>
    (case sessionSnapshots (ae_codecs env) store initial of
       Inl err \<Rightarrow> Inl err
     | Inr snapshots \<Rightarrow>
    (case buildPlayersWithHumanSubmit (ae_openai env) (ae_json env) (ae_order env) (run_Config runtime) definition1 initial
            (ae_submitRound env) of
       Inl err \<Rightarrow> Inl (AppPlayers err)
     | Inr (players, debugLog) \<Rightarrow>
    (case sessionTraces (ae_codecs env) store initial of
       Inl err \<Rightarrow> Inl err
     | Inr persisted \<Rightarrow>
        let screen = \<lparr>gm_model = NewModelWithSubmitAndQuitBehavior QuitBehaviorReturnToMenu, gm_definition = definition1,
              gm_controller = newLiveGameplayController initial snapshots,
              gm_runner = \<lparr>mr_Players = players, mr_clock = ae_clock env, mr_orders = ae_orders env,
                mr_Resolver = Some (NewResolver (ResolverOptions definition1 (ae_worldOrders env))),
                mr_Random = Some (run_Random runtime)\<rparr>,
              gm_debugLog = debugLog, gm_persistAI = (store \<noteq> None \<and> persistAIDebug), gm_persisted = persisted\<rparr>
        in Inr (screen, shellCmds (tui_Init (screenEnv env screen)) @ [ShellWaitForGameplayEvent])))))"

text \<open>What the goroutine of the match sends before it closes its channel.\<close>

definition runCanceled :: "playError \<Rightarrow> bool" where
  "runCanceled err = (case err of PlayCollect (PlayerFailed _ _ e) \<Rightarrow> errorIs e ContextCanceled | _ \<Rightarrow> False)"

definition matchCompleteText :: "MatchState \<Rightarrow> string" where
  "matchCompleteText final =
     ''Match complete after round '' @ itoa (ms_CurrentRound final - 1) @ ''. Final cash '' @ itoa (pl_Cash (ms_Plant final))
     @ '', debt '' @ itoa (pl_Debt (ms_Plant final)) @ '', backlog '' @ itoa (int (length (pl_Backlog (ms_Plant final))))
     @ '', profit '' @ itoa (pm_RoundProfit (ms_Metrics final)) @ ''. Inspect results and press q to return to the menu.''"

definition sessionEvents :: "(playError \<Rightarrow> string) \<Rightarrow> playError + playError option \<times> 's playState \<Rightarrow> shellMsg list" where
  "sessionEvents playText played =
    (let err = (case played of Inl e \<Rightarrow> Some e | Inr (e, _) \<Rightarrow> e)
     in (case err of
           None \<Rightarrow> [ShellTuiMsg (StatusMsg (matchCompleteText (ps_state (snd (projr played)))))]
         | Some e \<Rightarrow> if runCanceled e then []
             else [ShellTuiMsg (StatusMsg (''Match failed: '' @ playText e @ ''. Press q to return to the menu.''))])
        @ [GameplayRunnerDone err])"

section \<open>The application\<close>

datatype shellScreen = screenSplash | screenMenu | screenGameplay

record 't appShellModel =
  sh_baseRuntime :: Runtime
  sh_store :: "'t SqliteStore option"
  sh_rounds :: int
  sh_persistAIDebug :: bool
  sh_autoResume :: bool
  sh_width :: int
  sh_height :: int
  sh_screen :: shellScreen
  sh_splash :: splashModel
  sh_menu :: startMenuModel
  sh_gameplay :: "gameplayScreen option"
  sh_menuConfig :: Config
  sh_menuState :: startMenuState
  sh_current :: "activeSession option"
  sh_fatalErr :: "appError option"

definition currentSessionStatus :: "registry \<Rightarrow> MatchState \<Rightarrow> string" where
  "currentSessionStatus registry state =
     ''Current session: '' @ scenarioTitle registry (ms_ScenarioID state) @ '' round '' @ itoa (ms_CurrentRound state)
     @ '' cash '' @ itoa (pl_Cash (ms_Plant state)) @ ''.''"

definition defaultSaveSlotName :: "string \<Rightarrow> MatchState \<Rightarrow> string" where
  "defaultSaveSlotName slotTime state =
     ms_ScenarioID state @ ''-r'' @ itoa (ms_CurrentRound state) @ ''-'' @ slotTime"

definition refreshMenuState ::
  "registry \<Rightarrow> 't SqliteStore option \<Rightarrow> activeSession option \<Rightarrow> startMenuState \<Rightarrow> startMenuState" where
  "refreshMenuState registry store current state =
    (let state = state\<lparr>sm_ActiveSession := current\<rparr>;
         state = (case current of
            Some session \<Rightarrow> if TrimSpace (sm_StatusText state) = []
              then state\<lparr>sm_StatusText := currentSessionStatus registry (ac_state session)\<rparr> else state
          | None \<Rightarrow> state)
     in case store of
          None \<Rightarrow> clampSelections (state\<lparr>sm_StoreEnabled := False, sm_SaveSlots := []\<rparr>)
        | Some st \<Rightarrow> clampSelections (state\<lparr>sm_StoreEnabled := True, sm_SaveSlots := ListSaveSlots st\<rparr>))"

text \<open>The zero value of the menu, which nothing shows before it is made.\<close>

definition zero_startMenuState :: startMenuState where
  "zero_startMenuState = \<lparr>sm_ActiveSession = None, sm_SaveSlots = [], sm_SelectedLoadIndex = 0, sm_SelectedSaveIndex = 0,
     sm_StoreEnabled = False, sm_StatusText = []\<rparr>"

definition zero_Config :: Config where
  "zero_Config = \<lparr>cf_Environment = [], cf_ScenarioID = [], cf_MatchID = [], cf_RandomSeed = 0, cf_HumanPlayers = 0,
     cf_AIRevealDelaySeconds = 0, cf_Roles = [], cf_RoleConfigs = [], cf_LLMCatalog = \<lparr>lc_Entries = []\<rparr>\<rparr>"

definition zero_startMenuModel :: startMenuModel where
  "zero_startMenuModel = \<lparr>mn_config = zero_Config, mn_scenarios = [], mn_state = zero_startMenuState, mn_cursor = 0,
     mn_width = 0, mn_height = 0, mn_result = \<lparr>sr_Action = startMenuActionStartNewGame, sr_Config = zero_Config,
       sr_State = zero_startMenuState, sr_SlotName = []\<rparr>, mn_cancelled = False, mn_statusLine = []\<rparr>"

definition newAppShellModel ::
  "registry \<Rightarrow> Runtime \<Rightarrow> MatchState \<Rightarrow> bool \<Rightarrow> 't SqliteStore option \<Rightarrow> int \<Rightarrow> bool \<Rightarrow> 't appShellModel" where
  "newAppShellModel registry baseRuntime resumedState hasResumedState store rounds persistAIDebug =
    (let current = (if hasResumedState
           then Some \<lparr>ac_runtime = baseRuntime, ac_state = MatchState_Clone resumedState\<rparr> else None);
         menuState = refreshMenuState registry store current (zero_startMenuState\<lparr>sm_StoreEnabled := store \<noteq> None\<rparr>)
     in \<lparr>sh_baseRuntime = baseRuntime, sh_store = store, sh_rounds = rounds, sh_persistAIDebug = persistAIDebug,
         sh_autoResume = hasResumedState, sh_width = 0, sh_height = 0, sh_screen = screenSplash, sh_splash = newSplash,
         sh_menu = zero_startMenuModel, sh_gameplay = None, sh_menuConfig = cloneConfig (run_Config baseRuntime),
         sh_menuState = menuState, sh_current = current, sh_fatalErr = None\<rparr>)"

section \<open>Between the screens\<close>

definition applyWindowSizeToMenu :: "'t appShellModel \<Rightarrow> 't appShellModel" where
  "applyWindowSizeToMenu m =
    (if sh_width m \<le> 0 \<or> sh_height m \<le> 0 then m
     else m\<lparr>sh_menu := menuResize (sh_width m) (sh_height m) (sh_menu m)\<rparr>)"

definition applyWindowSizeToGameplay :: "'t appShellModel \<Rightarrow> 't appShellModel" where
  "applyWindowSizeToGameplay m =
    (case sh_gameplay m of
       None \<Rightarrow> m
     | Some screen \<Rightarrow>
         if sh_width m \<le> 0 \<or> sh_height m \<le> 0 then m
         else m\<lparr>sh_gameplay := Some (screen\<lparr>gm_model := (gm_model screen)\<lparr>tu_width := sh_width m, tu_height := sh_height m\<rparr>\<rparr>)\<rparr>)"

definition fatal :: "appError \<Rightarrow> 't appShellModel \<Rightarrow> 't appShellModel \<times> shellCmd list" where
  "fatal err m = (m\<lparr>sh_fatalErr := Some err\<rparr>, [ShellQuit])"

definition enterGameplay :: "'t appEnv \<Rightarrow> activeSession \<Rightarrow> 't appShellModel \<Rightarrow> 't appShellModel \<times> shellCmd list" where
  "enterGameplay env session m =
    (case newGameplayScreen env (ac_runtime session) (ac_state session) (sh_store m) (sh_persistAIDebug m) of
       Inl err \<Rightarrow> fatal err m
     | Inr (screen, cmds) \<Rightarrow>
         (applyWindowSizeToGameplay (m\<lparr>sh_screen := screenGameplay, sh_gameplay := Some screen\<rparr>), cmds))"

definition rebuildMenu :: "'t appEnv \<Rightarrow> 't appShellModel \<Rightarrow> 't appShellModel" where
  "rebuildMenu env m = m\<lparr>sh_menu := newStartMenuModel (ae_registry env) (sh_menuConfig m) (sh_menuState m)\<rparr>"

text \<open>A menu that stays, with a status.\<close>

definition menuSays :: "'t appEnv \<Rightarrow> string \<Rightarrow> 't appShellModel \<Rightarrow> 't appShellModel \<times> shellCmd list" where
  "menuSays env status m =
     (rebuildMenu env (m\<lparr>sh_menuState := (sh_menuState m)\<lparr>sm_StatusText := status\<rparr>\<rparr>), [])"

definition finishSplash :: "'t appEnv \<Rightarrow> 't appShellModel \<Rightarrow> 't appShellModel \<times> shellCmd list" where
  "finishSplash env m =
    (case sh_current m of
       Some session \<Rightarrow>
         if sh_autoResume m then enterGameplay env session (m\<lparr>sh_autoResume := False\<rparr>)
         else (applyWindowSizeToMenu (rebuildMenu env (m\<lparr>sh_screen := screenMenu\<rparr>)), [])
     | None \<Rightarrow> (applyWindowSizeToMenu (rebuildMenu env (m\<lparr>sh_screen := screenMenu\<rparr>)), []))"

definition splashMsgOf :: "shellMsg \<Rightarrow> splashMsg" where
  "splashMsgOf msg =
    (case msg of
       ShellTuiMsg (TuiWindowSize width _) \<Rightarrow> SplashWindowSize width
     | ShellTuiMsg (TuiKey _) \<Rightarrow> SplashKey
     | ShellSplashTickMsg \<Rightarrow> SplashTickMsg
     | _ \<Rightarrow> SplashOther)"

definition updateSplash :: "'t appEnv \<Rightarrow> shellMsg \<Rightarrow> 't appShellModel \<Rightarrow> 't appShellModel \<times> shellCmd list" where
  "updateSplash env msg m =
    (case splash_Update (ae_splash env) (splashMsgOf msg) (sh_splash m) of
       (splash, cmd) \<Rightarrow>
         let m = m\<lparr>sh_splash := splash\<rparr>
         in (case cmd of
               Some SplashQuit \<Rightarrow> finishSplash env m
             | Some (SplashTick d) \<Rightarrow> (m, [ShellSplashTick d])
             | None \<Rightarrow> (m, [])))"

section \<open>Choices of the menu\<close>

definition saveGame :: "'t appEnv \<Rightarrow> string \<Rightarrow> 't appShellModel \<Rightarrow> 't appShellModel \<times> shellCmd list" where
  "saveGame env slotName m =
    (case (sh_current m, sh_store m) of
       (Some session, Some store) \<Rightarrow>
         let slotName = (if TrimSpace slotName = [] then defaultSaveSlotName (ae_slotTime env) (ac_state session) else slotName);
             (status, store) = (case SaveSlot (ae_codecs env) (ae_now env) slotName (ms_MatchID (ac_state session)) store of
                 Inl err \<Rightarrow> (''Save failed: '' @ ae_storeText env err, store)
               | Inr (summary, store) \<Rightarrow> (''Saved round '' @ itoa (ss_CurrentRound summary) @ '' to slot '' @ ss_SlotName summary @ ''.'',
                   store));
             m = m\<lparr>sh_store := Some store\<rparr>
         in (rebuildMenu env (m\<lparr>sh_menuState := refreshMenuState (ae_registry env) (sh_store m) (sh_current m)
               ((sh_menuState m)\<lparr>sm_StatusText := status\<rparr>)\<rparr>), [])
     | _ \<Rightarrow> menuSays env ''Saving requires an active session and SQLite persistence.'' m)"

definition loadGame :: "'t appEnv \<Rightarrow> string \<Rightarrow> 't appShellModel \<Rightarrow> 't appShellModel \<times> shellCmd list" where
  "loadGame env slotName m =
    (case sh_store m of
       None \<Rightarrow> menuSays env ''Load saved game requires -sqlite-db.'' m
     | Some store \<Rightarrow>
    (case LoadSaveSlot (ae_codecs env) slotName store of
       Inl err \<Rightarrow> menuSays env (''Load failed: '' @ ae_storeText env err) m
     | Inr (state, summary) \<Rightarrow>
    (case runtimeForLoadedState (ae_process env) (ae_registry env) (sh_menuConfig m) state of
       Inl err \<Rightarrow> fatal (AppSlotRuntime (ss_SlotName summary) err) m
     | Inr runtime \<Rightarrow>
        let session = \<lparr>ac_runtime = runtime, ac_state = MatchState_Clone state\<rparr>
        in enterGameplay env session (m\<lparr>sh_current := Some session\<rparr>))))"

definition resumeGame :: "'t appEnv \<Rightarrow> 't appShellModel \<Rightarrow> 't appShellModel \<times> shellCmd list" where
  "resumeGame env m =
    (case sh_current m of
       None \<Rightarrow> menuSays env ''No current session is available to resume.'' m
     | Some session \<Rightarrow> enterGameplay env session m)"

definition startNewGame :: "'t appEnv \<Rightarrow> 't appShellModel \<Rightarrow> 't appShellModel \<times> shellCmd list" where
  "startNewGame env m =
    (case NewRuntime (ae_process env) (ae_registry env) (runtimeConfigFromMenu (ae_registry env) (sh_menuConfig m)) of
       Inl err \<Rightarrow> menuSays env (''Start failed: '' @ ae_configText env err) m
     | Inr runtime \<Rightarrow>
        let session = \<lparr>ac_runtime = runtime, ac_state = MatchState_Clone (run_InitialMatch runtime)\<rparr>
        in enterGameplay env session (m\<lparr>sh_current := Some session\<rparr>))"

text \<open>A menu that has quit leaves its result.\<close>

definition menuDone :: "'t appEnv \<Rightarrow> 't appShellModel \<Rightarrow> 't appShellModel \<times> shellCmd list" where
  "menuDone env m =
    (let result = mn_result (sh_menu m); m = m\<lparr>sh_menuConfig := sr_Config result, sh_menuState := sr_State result\<rparr>
     in case sr_Action result of
          startMenuActionExit \<Rightarrow> (m, [ShellQuit])
        | startMenuActionSaveGame \<Rightarrow> saveGame env (sr_SlotName result) m
        | startMenuActionLoadGame \<Rightarrow> loadGame env (sr_SlotName result) m
        | startMenuActionResumeGame \<Rightarrow> resumeGame env m
        | startMenuActionStartNewGame \<Rightarrow> startNewGame env m)"

definition menu_Update :: "registry \<Rightarrow> shellMsg \<Rightarrow> startMenuModel \<Rightarrow> (bool \<times> startMenuModel) option" where
  "menu_Update registry msg m =
    (case msg of
       ShellTuiMsg (TuiWindowSize width height) \<Rightarrow> Some (False, menuResize width height m)
     | ShellTuiMsg (TuiKey key) \<Rightarrow> menuKey registry (ky_String key) m
     | _ \<Rightarrow> Some (False, m))"

definition updateMenu :: "'t appEnv \<Rightarrow> shellMsg \<Rightarrow> 't appShellModel \<Rightarrow> ('t appShellModel \<times> shellCmd list) option" where
  "updateMenu env msg m =
    map_option (\<lambda>(quit, menu). let m = m\<lparr>sh_menu := menu\<rparr> in if quit then menuDone env m else (m, []))
      (menu_Update (ae_registry env) msg (sh_menu m))"

section \<open>Gameplay\<close>

definition snapshotSession :: "gameplayScreen \<Rightarrow> activeSession \<Rightarrow> activeSession" where
  "snapshotSession screen session = session\<lparr>ac_state := live_Snapshot (gm_controller screen)\<rparr>"

definition runnerDone :: "playError option \<Rightarrow> 't appShellModel \<Rightarrow> 't appShellModel \<times> shellCmd list" where
  "runnerDone err m =
    (case sh_gameplay m of
       None \<Rightarrow> (m, [])
     | Some screen \<Rightarrow>
         if err \<noteq> None \<and> \<not> runCanceled (the err) then fatal (AppRunner (the err)) m
         else (m\<lparr>sh_current := map_option (snapshotSession screen) (sh_current m)\<rparr>, [ShellWaitForGameplayEvent]))"

definition returnToMenu :: "'t appEnv \<Rightarrow> gameplayScreen \<Rightarrow> 't appShellModel \<Rightarrow> 't appShellModel" where
  "returnToMenu env screen m =
    (let m = (case sh_current m of
            None \<Rightarrow> m
          | Some session \<Rightarrow>
              let session = snapshotSession screen session
              in m\<lparr>sh_current := Some session, sh_menuConfig := cloneConfig (run_Config (ac_runtime session)),
                   sh_menuState := (sh_menuState m)\<lparr>sm_StatusText := currentSessionStatus (ae_registry env) (ac_state session)\<rparr>\<rparr>);
         m = m\<lparr>sh_gameplay := None\<rparr>;
         m = m\<lparr>sh_menuState := refreshMenuState (ae_registry env) (sh_store m) (sh_current m) (sh_menuState m)\<rparr>
     in applyWindowSizeToMenu (rebuildMenu env (m\<lparr>sh_screen := screenMenu\<rparr>)))"

text \<open>What a screen has passed to \<open>Submit\<close> is delivered while the screen takes the message.\<close>

definition gameplayMsg :: "'t appEnv \<Rightarrow> tuiMsg \<Rightarrow> 't appShellModel \<Rightarrow> ('t appShellModel \<times> shellCmd list) option" where
  "gameplayMsg env msg m =
    (case sh_gameplay m of
       None \<Rightarrow> Some (m, [])
     | Some screen \<Rightarrow>
    (case tui_Update (screenEnv env screen) msg (gm_model screen) of
       None \<Rightarrow> None
     | Some (model, cmds, sent) \<Rightarrow>
        map_option (\<lambda>controller.
            let screen = screen\<lparr>gm_model := model, gm_controller := controller\<rparr>
            in if cmds \<noteq> [CmdQuit] then (m\<lparr>sh_gameplay := Some screen\<rparr>, shellCmds cmds)
               else if tu_exitIntent model = ExitIntentReturnToMenu
               then (returnToMenu env screen (m\<lparr>sh_gameplay := Some screen\<rparr>), [])
               else (m\<lparr>sh_gameplay := None\<rparr>, [ShellQuit]))
          (deliver (ae_atSend env) sent (gm_controller screen))))"

definition updateGameplay :: "'t appEnv \<Rightarrow> shellMsg \<Rightarrow> 't appShellModel \<Rightarrow> ('t appShellModel \<times> shellCmd list) option" where
  "updateGameplay env msg m =
    (case msg of
       GameplayRunnerDone err \<Rightarrow> Some (runnerDone err m)
     | GameplayEventsClosed \<Rightarrow> Some (m, [])
     | ShellTuiMsg msg \<Rightarrow> gameplayMsg env msg m
     | ShellSplashTickMsg \<Rightarrow> gameplayMsg env TuiOtherMsg m)"

definition shell_Update :: "'t appEnv \<Rightarrow> shellMsg \<Rightarrow> 't appShellModel \<Rightarrow> ('t appShellModel \<times> shellCmd list) option" where
  "shell_Update env msg m =
    (let m = (case msg of ShellTuiMsg (TuiWindowSize width height) \<Rightarrow> m\<lparr>sh_width := width, sh_height := height\<rparr> | _ \<Rightarrow> m)
     in case sh_screen m of
          screenSplash \<Rightarrow> Some (updateSplash env msg m)
        | screenMenu \<Rightarrow> updateMenu env msg m
        | screenGameplay \<Rightarrow> updateGameplay env msg m)"

definition shell_Init :: "'t appEnv \<Rightarrow> shellCmd list" where
  "shell_Init env = (case splashTickCmd (ae_splash env) of SplashTick d \<Rightarrow> [ShellSplashTick d] | SplashQuit \<Rightarrow> [ShellQuit])"

definition shell_View :: "'t appEnv \<Rightarrow> 't appShellModel \<Rightarrow> string option" where
  "shell_View env m =
    (case sh_screen m of
       screenSplash \<Rightarrow> splash_View (ae_splash env) (sh_splash m)
     | screenGameplay \<Rightarrow>
         (case sh_gameplay m of
            None \<Rightarrow> Some []
          | Some screen \<Rightarrow> Some (tui_View (screenEnv env screen) (gm_model screen)))
     | screenMenu \<Rightarrow> menu_View (ae_registry env) (ae_menu env) (sh_menu m))"

section \<open>The command line\<close>

record commandLine =
  cl_config :: string
  cl_humanPlayers :: int
  cl_rounds :: int
  cl_seed :: "64 word"
  cl_sqlitePath :: string
  cl_resumeMatchID :: string
  cl_persistAIDebug :: bool

definition mainOptions :: "commandLine \<Rightarrow> BootstrapOptions" where
  "mainOptions cl =
     \<lparr>bo_ConfigPath = cl_config cl, bo_LLMCatalogPath = [], bo_MatchIDOverride = None,
      bo_HumanPlayersOverride = (if cl_humanPlayers cl \<ge> 0 then Some (cl_humanPlayers cl) else None),
      bo_SeedOverride = (if cl_seed cl \<noteq> 0 then Some (cl_seed cl) else None)\<rparr>"

text \<open>What the program starts with, before it hands over to the library.\<close>

definition main_start :: "configFiles \<Rightarrow> (string \<Rightarrow> 't Database option) \<Rightarrow> 't appEnv \<Rightarrow> commandLine \<Rightarrow>
    appError + 't appShellModel" where
  "main_start files disk env cl =
    (case Bootstrap files (ae_process env) (ae_registry env) (mainOptions cl) of
       Inl err \<Rightarrow> Inl (AppBootstrap err)
     | Inr runtime \<Rightarrow>
    (case resolveMatchPersistence (ae_codecs env) disk runtime (cl_sqlitePath cl) (cl_resumeMatchID cl) of
       Inl err \<Rightarrow> Inl err
     | Inr (store, initialState) \<Rightarrow>
        Inr (newAppShellModel (ae_registry env) runtime initialState (TrimSpace (cl_resumeMatchID cl) \<noteq> []) store
          (cl_rounds cl) (cl_persistAIDebug cl))))"

end
