(* ===== verification/FlowProperties.thy ===== *)
theory FlowProperties
  imports AppFlow TuiProperties HostProperties
begin

text \<open>
  The properties of the program's screens: only a submission the match closes its queue on makes a screen panic, a new game seats
  what the menu shows, going back to the menu keeps the session, and two things that go wrong with a
  database: a new game cannot be started, and a loaded game asks the wrong endpoints.
\<close>

section \<open>The screens never panic\<close>

definition screenOk :: "'t appEnv \<Rightarrow> gameplayScreen \<Rightarrow> bool" where
  "screenOk env screen \<longleftrightarrow> shellOk (screenEnv env screen) (gm_model screen)"

definition appOk :: "'t appEnv \<Rightarrow> 't appShellModel \<Rightarrow> bool" where
  "appOk env m \<longleftrightarrow> 0 \<le> sp_frame (sh_splash m) \<and> (sh_screen m = screenMenu \<longrightarrow> menuOk (ae_registry env) (sh_menu m))
     \<and> (\<forall>screen. sh_gameplay m = Some screen \<longrightarrow> screenOk env screen)"

text \<open>A message comes with the surroundings of its time; beside them the match goes on: it changes the
  controller, the log of AI calls and the generator it shares with the session, and, once a session has
  been entered, the store, also after the session is left.\<close>

inductive appStep :: "registry \<Rightarrow> bool \<times> 't appShellModel \<Rightarrow> bool \<times> 't appShellModel \<Rightarrow> bool" for registry where
  message: "ae_registry env = registry \<Longrightarrow> shell_Update env msg m = Some (m', cmds) \<Longrightarrow>
     appStep registry (played, m) (played \<or> sh_gameplay m' \<noteq> None, m')"
| match: "sh_gameplay m = Some screen \<Longrightarrow> sh_current m = Some session \<Longrightarrow>
     appStep registry (played, m) (played, m\<lparr>sh_gameplay := Some (screen\<lparr>gm_controller := controller, gm_debugLog := log\<rparr>),
       sh_current := Some (session\<lparr>ac_runtime := (ac_runtime session)\<lparr>run_Random := random\<rparr>\<rparr>)\<rparr>)"
| stored: "appStep registry (True, m) (True, m\<lparr>sh_store := map_option (\<lambda>_. store) (sh_store m)\<rparr>)"

lemma screenOk_definition:
  "gm_definition screen' = gm_definition screen \<Longrightarrow> gm_model screen' = gm_model screen \<Longrightarrow> screenOk env' screen' = screenOk env screen"
  unfolding screenOk_def by (simp add: screenEnv_def shellOk_def draftsOk_def draftOk_def)

lemma screenOk_model: "screenOk env (screen\<lparr>gm_model := model\<rparr>) = shellOk (screenEnv env screen) model"
  unfolding screenOk_def by (simp add: screenEnv_def shellOk_def draftsOk_def draftOk_def)

lemma appOk_env: "ae_registry env' = ae_registry env \<Longrightarrow> appOk env' m = appOk env m"
  using screenOk_definition [of _ _ env' env] unfolding appOk_def by metis

lemma new_screen_ok:
  assumes "newGameplayScreen env runtime initial store persistAIDebug = Inr (screen, cmds)"
  shows "screenOk env screen"
proof -
  have "gm_model screen = NewModelWithSubmitAndQuitBehavior QuitBehaviorReturnToMenu"
    using assms by (auto simp: newGameplayScreen_def Let_def split: sum.splits)
  then show ?thesis by (simp add: screenOk_def shellOk_new)
qed

lemma resize_ok: "screenOk env screen \<Longrightarrow>
    screenOk env (screen\<lparr>gm_model := (gm_model screen)\<lparr>tu_width := w, tu_height := h\<rparr>\<rparr>)"
  unfolding screenOk_model unfolding screenOk_def by (simp add: shellOk_def draftsOk_def)

lemma applyWindowSize_ok:
  assumes "appOk env m"
  shows "appOk env (applyWindowSizeToMenu m)" "appOk env (applyWindowSizeToGameplay m)"
  using assms menuResize_ok resize_ok
  by (auto simp: appOk_def applyWindowSizeToMenu_def applyWindowSizeToGameplay_def
      split: option.split)

lemma enterGameplay_ok:
  assumes "appOk env m"
  shows "appOk env (fst (enterGameplay env session m))"
proof (cases "newGameplayScreen env (ac_runtime session) (ac_state session) (sh_store m) (sh_persistAIDebug m)")
  case (Inl err)
  with assms show ?thesis by (simp add: enterGameplay_def fatal_def appOk_def)
next
  case (Inr r)
  obtain screen cmds where r: "r = (screen, cmds)" by (cases r)
  have "appOk env (m\<lparr>sh_screen := screenGameplay, sh_gameplay := Some screen\<rparr>)"
    using assms new_screen_ok [OF Inr [unfolded r]] by (simp add: appOk_def)
  from applyWindowSize_ok(2) [OF this] Inr r show ?thesis by (simp add: enterGameplay_def)
qed

lemma rebuildMenu_ok: "0 \<le> sp_frame (sh_splash m) \<Longrightarrow> \<forall>screen. sh_gameplay m = Some screen \<longrightarrow> screenOk env screen \<Longrightarrow>
    appOk env (rebuildMenu env m)"
  by (simp add: appOk_def rebuildMenu_def newStartMenuModel_ok)

lemma appOk_parts:
  assumes "appOk env m"
  shows "0 \<le> sp_frame (sh_splash m)" "\<forall>screen. sh_gameplay m = Some screen \<longrightarrow> screenOk env screen"
  using assms by (simp_all add: appOk_def)

lemma menuSays_ok: "appOk env m \<Longrightarrow> appOk env (fst (menuSays env status m))"
  by (simp add: menuSays_def rebuildMenu_ok appOk_parts)

lemma appOk_fields [simp]:
  "appOk env (m\<lparr>sh_current := c\<rparr>) = appOk env m" "appOk env (m\<lparr>sh_fatalErr := e\<rparr>) = appOk env m"
  "appOk env (m\<lparr>sh_menuState := s\<rparr>) = appOk env m" "appOk env (m\<lparr>sh_menuConfig := cfg\<rparr>) = appOk env m"
  "appOk env (m\<lparr>sh_store := st\<rparr>) = appOk env m" "appOk env (m\<lparr>sh_autoResume := b\<rparr>) = appOk env m"
  "appOk env (m\<lparr>sh_width := w, sh_height := h\<rparr>) = appOk env m"
  by (simp_all add: appOk_def)

lemma menuDone_ok:
  assumes "appOk env m"
  shows "appOk env (fst (menuDone env m))"
proof -
  let ?r = "mn_result (sh_menu m)"
  define m1 where "m1 = m\<lparr>sh_menuConfig := sr_Config ?r, sh_menuState := sr_State ?r\<rparr>"
  have ok: "appOk env m1" using assms by (simp add: m1_def)
  have rebuilt: "appOk env (rebuildMenu env (m1\<lparr>sh_store := st, sh_menuState := s\<rparr>))" for st s
    using appOk_parts [OF ok] by (intro rebuildMenu_ok) simp_all
  have save: "appOk env (fst (saveGame env slotName m1))" for slotName
    by (auto simp: saveGame_def Let_def rebuilt menuSays_ok [OF ok] split: option.split prod.split)
  have load: "appOk env (fst (loadGame env slotName m1))" for slotName
    by (auto simp: loadGame_def fatal_def Let_def ok menuSays_ok [OF ok] enterGameplay_ok
        split: option.split sum.split prod.split)
  have resume: "appOk env (fst (resumeGame env m1))"
    using ok menuSays_ok [OF ok] enterGameplay_ok [OF ok] by (simp add: resumeGame_def split: option.split)
  have start: "appOk env (fst (startNewGame env m1))"
    by (auto simp: startNewGame_def Let_def ok menuSays_ok [OF ok] enterGameplay_ok split: sum.split)
  show ?thesis
    unfolding menuDone_def Let_def m1_def [symmetric]
    by (cases "sr_Action ?r") (simp_all add: ok save load resume start)
qed

lemma updateSplash_ok:
  assumes "appOk env m"
  shows "appOk env (fst (updateSplash env msg m))"
proof -
  obtain splash cmd where u: "splash_Update (ae_splash env) (splashMsgOf msg) (sh_splash m) = (splash, cmd)"
    by (cases "splash_Update (ae_splash env) (splashMsgOf msg) (sh_splash m)")
  define m1 where "m1 = m\<lparr>sh_splash := splash\<rparr>"
  have "0 \<le> sp_frame splash" using splash_ok(1) [OF _ u] assms by (simp add: appOk_def)
  then have ok: "appOk env m1" using assms by (simp add: m1_def appOk_def)
  then have menu: "appOk env (applyWindowSizeToMenu (rebuildMenu env (m1\<lparr>sh_screen := screenMenu\<rparr>)))"
    by (intro applyWindowSize_ok(1) rebuildMenu_ok) (simp_all add: appOk_def)
  have "appOk env (fst (finishSplash env m1))"
    using menu ok by (auto simp: finishSplash_def enterGameplay_ok split: option.split)
  with ok u show ?thesis
    by (simp add: updateSplash_def m1_def [symmetric] Let_def split: option.split splashCmd.split)
qed

lemma updateMenu_ok:
  assumes "appOk env m" "sh_screen m = screenMenu"
  obtains m' cmds where "updateMenu env msg m = Some (m', cmds)" "appOk env m'"
proof -
  have menu: "menuOk (ae_registry env) (sh_menu m)" using assms by (simp add: appOk_def)
  have "\<exists>r. menu_Update (ae_registry env) msg (sh_menu m) = Some r \<and> menuOk (ae_registry env) (snd r)"
  proof (cases "\<exists>key. msg = ShellTuiMsg (TuiKey key)")
    case True
    then obtain key where key: "msg = ShellTuiMsg (TuiKey key)" by blast
    obtain quit menu' where "menuKey (ae_registry env) (ky_String key) (sh_menu m) = Some (quit, menu')"
      "menuOk (ae_registry env) menu'" using menuKey_ok [OF menu] .
    with key show ?thesis by (simp add: menu_Update_def)
  next
    case False
    then show ?thesis
      by (auto simp: menu_Update_def menu menuResize_ok [OF menu] simp del: split_paired_Ex split: shellMsg.split tuiMsg.split)
  qed
  then obtain quit menu' where u: "menu_Update (ae_registry env) msg (sh_menu m) = Some (quit, menu')"
    "menuOk (ae_registry env) menu'" by auto
  have ok: "appOk env (m\<lparr>sh_menu := menu'\<rparr>)" using assms(1) u(2) by (simp add: appOk_def)
  have "updateMenu env msg m = Some (if quit then menuDone env (m\<lparr>sh_menu := menu'\<rparr>) else (m\<lparr>sh_menu := menu'\<rparr>, []))"
    using u(1) by (simp add: updateMenu_def)
  with that ok menuDone_ok [OF ok] show thesis
    by (cases quit; cases "menuDone env (m\<lparr>sh_menu := menu'\<rparr>)") auto
qed

lemma returnToMenu_ok:
  assumes "0 \<le> sp_frame (sh_splash m)"
  shows "appOk env (returnToMenu env screen m)"
  unfolding returnToMenu_def Let_def
  by (intro applyWindowSize_ok(1) rebuildMenu_ok) (use assms in \<open>simp_all split: option.split\<close>)

text \<open>A message sends one submission at most, and then the screen stays.\<close>

lemma update_sends_one:
  assumes "tui_Update env msg m = Some (m', cmds, sent)" "sent \<noteq> []"
  obtains key submission where "msg = TuiKey key" "sent = [submission]" "cmds = []"
proof -
  obtain key m1 r where r: "msg = TuiKey key" "handleActionEntryKey env key m1 = Some r" "sent = snd (snd r)"
    using update_sent [OF assms] by metis
  then have "snd (snd r) \<noteq> []" using assms(2) by simp
  from sent_by_submit(1) [OF r(2) this] r(3)
  have "sent = snd (snd (handleSubmit env (ra_RoleID (selectedAssignment m1)) (currentDraft env m1) m1))" by simp
  with assms(2) obtain submission where "sent = [submission]"
    by (auto simp: handleSubmit_def draftTaken_def Let_def split: sum.splits option.splits if_splits)
  moreover have "cmds = []"
    using assms r(1) by (auto simp: tui_Update_def keyStep_def split: prod.splits bool.splits option.splits)
  ultimately show thesis using that r(1) by simp
qed

text \<open>A submission is passed to \<open>Submit\<close>, and the match closes its queue after \<open>Submit\<close> has looked.\<close>

definition closedMidSubmit :: "'t appEnv \<Rightarrow> shellMsg \<Rightarrow> 't appShellModel \<Rightarrow> bool" where
  "closedMidSubmit env msg m \<longleftrightarrow> sh_screen m = screenGameplay
     \<and> (\<exists>screen key model submission. sh_gameplay m = Some screen \<and> msg = ShellTuiMsg (TuiKey key)
          \<and> tui_Update (screenEnv env screen) (TuiKey key) (gm_model screen) = Some (model, [], [submission])
          \<and> \<not> lv_closed (gm_controller screen) \<and> lv_closed (ae_atSend env (gm_controller screen)))"

lemma deliver_panics:
  assumes "tui_Update env' msg model = Some (model', cmds, sent)"
  shows "deliver meanwhile sent c = None \<longleftrightarrow> sent \<noteq> [] \<and> \<not> lv_closed c \<and> lv_closed (meanwhile c)"
proof (cases "sent = []")
  case False
  from update_sends_one [OF assms this] obtain submission where "sent = [submission]" .
  then show ?thesis by (simp add: live_Submit_def)
qed simp

lemma gameplayMsg_ok:
  assumes "appOk env m"
  shows "gameplayMsg env msg m = None \<longleftrightarrow>
      (\<exists>screen model cmds sent. sh_gameplay m = Some screen
        \<and> tui_Update (screenEnv env screen) msg (gm_model screen) = Some (model, cmds, sent) \<and> sent \<noteq> []
        \<and> \<not> lv_closed (gm_controller screen) \<and> lv_closed (ae_atSend env (gm_controller screen)))"
    and "gameplayMsg env msg m = Some (m', cmds') \<Longrightarrow> appOk env m'"
proof -
  have "(gameplayMsg env msg m = None \<longleftrightarrow>
      (\<exists>screen model cmds sent. sh_gameplay m = Some screen
        \<and> tui_Update (screenEnv env screen) msg (gm_model screen) = Some (model, cmds, sent) \<and> sent \<noteq> []
        \<and> \<not> lv_closed (gm_controller screen) \<and> lv_closed (ae_atSend env (gm_controller screen))))
    \<and> (gameplayMsg env msg m = Some (m', cmds') \<longrightarrow> appOk env m')"
  proof (cases "sh_gameplay m")
    case None
    with assms show ?thesis by (auto simp: gameplayMsg_def)
  next
    case (Some screen)
    then have "shellOk (screenEnv env screen) (gm_model screen)" using assms by (simp add: appOk_def screenOk_def)
    then obtain model cmds sent where u: "tui_Update (screenEnv env screen) msg (gm_model screen) = Some (model, cmds, sent)"
      "shellOk (screenEnv env screen) model" by (rule update_ok)
    note panics = deliver_panics [OF u(1), of "ae_atSend env" "gm_controller screen"]
    show ?thesis
    proof (cases "deliver (ae_atSend env) sent (gm_controller screen)")
      case None
      then have "gameplayMsg env msg m = None" using Some u(1) by (simp add: gameplayMsg_def)
      with None panics Some u(1) show ?thesis by simp
    next
      case (Some controller)
      define screen' where "screen' = screen\<lparr>gm_model := model, gm_controller := controller\<rparr>"
      have "screenOk env screen' = screenOk env (screen\<lparr>gm_model := model\<rparr>)"
        by (rule screenOk_definition) (simp_all add: screen'_def)
      also have "\<dots>" using u(2) by (simp only: screenOk_model)
      finally have stay: "appOk env (m\<lparr>sh_gameplay := Some screen'\<rparr>)" using assms by (simp add: appOk_def)
      have quit: "appOk env (m\<lparr>sh_gameplay := None\<rparr>)" using assms by (simp add: appOk_def)
      have menu: "appOk env (returnToMenu env screen' (m\<lparr>sh_gameplay := Some screen'\<rparr>))"
        by (rule returnToMenu_ok) (use assms in \<open>simp add: appOk_def\<close>)
      have step: "gameplayMsg env msg m = Some
         (if cmds \<noteq> [CmdQuit] then (m\<lparr>sh_gameplay := Some screen'\<rparr>, shellCmds cmds)
          else if tu_exitIntent model = ExitIntentReturnToMenu
          then (returnToMenu env screen' (m\<lparr>sh_gameplay := Some screen'\<rparr>), [])
          else (m\<lparr>sh_gameplay := None\<rparr>, [ShellQuit]))"
        using \<open>sh_gameplay m = Some screen\<close> u(1) Some by (simp add: gameplayMsg_def Let_def screen'_def)
      have "appOk env m'" if "gameplayMsg env msg m = Some (m', cmds')"
        using that stay quit menu unfolding step by (simp split: if_splits)
      with step panics Some \<open>sh_gameplay m = Some screen\<close> u(1) show ?thesis by simp
    qed
  qed
  then show "gameplayMsg env msg m = None \<longleftrightarrow>
      (\<exists>screen model cmds sent. sh_gameplay m = Some screen
        \<and> tui_Update (screenEnv env screen) msg (gm_model screen) = Some (model, cmds, sent) \<and> sent \<noteq> []
        \<and> \<not> lv_closed (gm_controller screen) \<and> lv_closed (ae_atSend env (gm_controller screen)))"
    and "gameplayMsg env msg m = Some (m', cmds') \<Longrightarrow> appOk env m'" by blast+
qed

lemma gameplayMsg_panics:
  assumes "appOk env m" "sh_screen m = screenGameplay"
  shows "gameplayMsg env msg m = None \<longleftrightarrow> closedMidSubmit env (ShellTuiMsg msg) m"
proof -
  have "(\<exists>model cmds sent. tui_Update e msg model0 = Some (model, cmds, sent) \<and> sent \<noteq> []) \<longleftrightarrow>
      (\<exists>key model submission. msg = TuiKey key \<and> tui_Update e (TuiKey key) model0 = Some (model, [], [submission]))"
    for e model0
  proof
    assume "\<exists>model cmds sent. tui_Update e msg model0 = Some (model, cmds, sent) \<and> sent \<noteq> []"
    then obtain model cmds sent where u: "tui_Update e msg model0 = Some (model, cmds, sent)" "sent \<noteq> []" by blast
    from u obtain key submission where "msg = TuiKey key" "sent = [submission]" "cmds = []"
      by (rule update_sends_one)
    with u(1) show "\<exists>key model submission. msg = TuiKey key \<and> tui_Update e (TuiKey key) model0 = Some (model, [], [submission])"
      by blast
  qed blast
  then show ?thesis
    unfolding gameplayMsg_ok(1) [OF assms(1)] closedMidSubmit_def shellMsg.inject using assms(2) by blast
qed

lemma shell_Update_ok:
  assumes "appOk env m"
  shows "shell_Update env msg m = None \<longleftrightarrow> closedMidSubmit env msg m"
    and "shell_Update env msg m = Some (m', cmds) \<Longrightarrow> appOk env m'"
proof -
  define m1 where "m1 = (case msg of ShellTuiMsg (TuiWindowSize width height) \<Rightarrow> m\<lparr>sh_width := width, sh_height := height\<rparr> | _ \<Rightarrow> m)"
  have ok: "appOk env m1" using assms by (simp add: m1_def split: shellMsg.split tuiMsg.split)
  have screen: "sh_screen m1 = sh_screen m" by (simp add: m1_def split: shellMsg.split tuiMsg.split)
  have same: "closedMidSubmit env msg m1 \<longleftrightarrow> closedMidSubmit env msg m"
    by (cases "\<exists>width height. msg = ShellTuiMsg (TuiWindowSize width height)")
      (auto simp: closedMidSubmit_def m1_def split: shellMsg.splits tuiMsg.splits)
  have step: "shell_Update env msg m = (case sh_screen m1 of screenSplash \<Rightarrow> Some (updateSplash env msg m1)
      | screenMenu \<Rightarrow> updateMenu env msg m1 | screenGameplay \<Rightarrow> updateGameplay env msg m1)"
    unfolding shell_Update_def m1_def Let_def by (rule refl)
  have "(shell_Update env msg m = None \<longleftrightarrow> closedMidSubmit env msg m1)
    \<and> (shell_Update env msg m = Some (m', cmds) \<longrightarrow> appOk env m')"
  proof (cases "sh_screen m1")
    case screenSplash
    then have "shell_Update env msg m = Some (updateSplash env msg m1)" unfolding step by simp
    with screenSplash updateSplash_ok [OF ok, of msg] show ?thesis by (auto simp: closedMidSubmit_def)
  next
    case screenMenu
    obtain m2 cmds2 where "updateMenu env msg m1 = Some (m2, cmds2)" "appOk env m2"
      using updateMenu_ok [OF ok screenMenu] .
    moreover from screenMenu have "shell_Update env msg m = updateMenu env msg m1" unfolding step by simp
    ultimately show ?thesis using screenMenu by (auto simp: closedMidSubmit_def)
  next
    case screenGameplay
    note game = gameplayMsg_panics [OF ok screenGameplay] gameplayMsg_ok(2) [OF ok]
    have "(updateGameplay env msg m1 = None \<longleftrightarrow> closedMidSubmit env msg m1)
      \<and> (updateGameplay env msg m1 = Some (m', cmds) \<longrightarrow> appOk env m')"
    proof (cases msg)
      case (ShellTuiMsg msg')
      with game show ?thesis by (simp add: updateGameplay_def)
    next
      case ShellSplashTickMsg
      moreover have "\<not> closedMidSubmit env (ShellTuiMsg TuiOtherMsg) m1" by (simp add: closedMidSubmit_def)
      moreover have "\<not> closedMidSubmit env ShellSplashTickMsg m1" by (simp add: closedMidSubmit_def)
      ultimately show ?thesis using game by (simp add: updateGameplay_def)
    next
      case (GameplayRunnerDone err)
      with ok show ?thesis
        by (auto simp: updateGameplay_def runnerDone_def fatal_def closedMidSubmit_def split: option.splits if_splits)
    next
      case GameplayEventsClosed
      with ok show ?thesis by (auto simp: updateGameplay_def closedMidSubmit_def)
    qed
    moreover from screenGameplay have "shell_Update env msg m = updateGameplay env msg m1" unfolding step by simp
    ultimately show ?thesis by simp
  qed
  then show "shell_Update env msg m = None \<longleftrightarrow> closedMidSubmit env msg m"
    and "shell_Update env msg m = Some (m', cmds) \<Longrightarrow> appOk env m'" unfolding same by blast+
qed

lemma shell_View_ok: "appOk env m \<Longrightarrow> shell_View env m \<noteq> None"
  by (cases "sh_screen m")
    (auto simp: shell_View_def appOk_def menu_View_Some splash_View_def Let_def split: option.split)

lemma newAppShellModel_ok: "appOk env (newAppShellModel registry runtime state resumed store rounds persist)"
  by (simp add: newAppShellModel_def Let_def appOk_def newSplash_def)

lemma appStep_ok:
  assumes "appStep registry (played, m) (played', m')" "ae_registry env = registry" "appOk env m"
  shows "appOk env m'"
  using assms(1)
proof cases
  case (message env' msg cmds)
  from appOk_env [of env' env m] message(2) assms(2,3) have "appOk env' m" by simp
  from shell_Update_ok(2) [OF this message(3)] appOk_env [of env' env m'] message(2) assms(2) show ?thesis by simp
next
  case (match screen session random log controller)
  have "screenOk env (screen\<lparr>gm_controller := controller, gm_debugLog := log\<rparr>) = screenOk env screen"
    by (rule screenOk_definition) simp_all
  with match assms(3) show ?thesis by (simp add: appOk_def)
next
  case (stored store)
  with assms(3) show ?thesis by simp
qed

text \<open>C7: Nothing makes a screen panic but a submission the match closes its queue on: from the program's start,
  through the splash, the menu and the sessions, whatever is typed, however the window changes and whatever the
  match and the store do meanwhile, the screen can be drawn, and the next message has a result except exactly when
  its key passes a submission to \<open>Submit\<close>, which finds the controller open, and the match closes it before the send;
  the cursor and the selections of the menu, the frame of the splash, and the role, pane, workspace and form
  positions of the session are in range.\<close>

theorem program_panics_only_at_send:
  assumes "(appStep registry)\<^sup>*\<^sup>* (False, newAppShellModel registry runtime state resumed store rounds persist) (played, m)"
    and "ae_registry env = registry"
  shows "appOk env m \<and> shell_View env m \<noteq> None
    \<and> (shell_Update env msg m = None \<longleftrightarrow> sh_screen m = screenGameplay
        \<and> (\<exists>screen key model submission. sh_gameplay m = Some screen \<and> msg = ShellTuiMsg (TuiKey key)
            \<and> tui_Update (screenEnv env screen) (TuiKey key) (gm_model screen) = Some (model, [], [submission])
            \<and> \<not> lv_closed (gm_controller screen) \<and> lv_closed (ae_atSend env (gm_controller screen))))"
proof -
  have "appOk env m" using assms(1)
    by (induction rule: rtranclp_induct2) (simp_all add: newAppShellModel_ok appStep_ok [OF _ assms(2)])
  then show ?thesis
    unfolding closedMidSubmit_def [symmetric] using shell_Update_ok(1) shell_View_ok by blast
qed

section \<open>A database without a match\<close>

text \<open>A new game asks the database for the snapshots of its match before the runner has created it.\<close>

lemma empty_database_reads:
  "sqlite_CurrentState cx st m = Inl (SqlStore MatchNotFound)"
  "sqlite_StateSnapshots cx st m = Inl (SqlStore MatchNotFound)"
  "SaveSlot cx now name m st = Inl (if name = [] then SqlEmptySlotName else SqlStore MatchNotFound)"
  "LoadSaveSlot cx name st = Inl (if name = [] then SqlEmptySlotName else ErrSaveSlotNotFound)"
  if "sq_db st = initSchema"
proof -
  show current: "sqlite_CurrentState cx st m = Inl (SqlStore MatchNotFound)"
    by (simp add: sqlite_CurrentState_def that initSchema_def)
  show "sqlite_StateSnapshots cx st m = Inl (SqlStore MatchNotFound)"
    by (simp add: sqlite_StateSnapshots_def readRows_def that initSchema_def current)
  show "SaveSlot cx now name m st = Inl (if name = [] then SqlEmptySlotName else SqlStore MatchNotFound)"
    by (simp add: SaveSlot_def current)
  show "LoadSaveSlot cx name st = Inl (if name = [] then SqlEmptySlotName else ErrSaveSlotNotFound)"
    by (simp add: LoadSaveSlot_def that initSchema_def)
qed

definition unplayed :: "'t appShellModel \<Rightarrow> bool" where
  "unplayed m \<longleftrightarrow> sh_gameplay m = None \<and> (\<exists>st. sh_store m = Some st \<and> sq_db st = initSchema)"

lemma unplayed_fields [simp]:
  "unplayed (m\<lparr>sh_current := c\<rparr>) = unplayed m" "unplayed (m\<lparr>sh_fatalErr := e\<rparr>) = unplayed m"
  "unplayed (m\<lparr>sh_menuState := s\<rparr>) = unplayed m" "unplayed (m\<lparr>sh_menuConfig := cfg\<rparr>) = unplayed m"
  "unplayed (m\<lparr>sh_autoResume := b\<rparr>) = unplayed m" "unplayed (m\<lparr>sh_splash := sp\<rparr>) = unplayed m"
  "unplayed (m\<lparr>sh_menu := menu\<rparr>) = unplayed m" "unplayed (m\<lparr>sh_screen := sc\<rparr>) = unplayed m"
  "unplayed (m\<lparr>sh_width := w, sh_height := h\<rparr>) = unplayed m"
  "unplayed (rebuildMenu env m) = unplayed m" "unplayed (applyWindowSizeToMenu m) = unplayed m"
  by (simp_all add: unplayed_def rebuildMenu_def applyWindowSizeToMenu_def)

text \<open>Entering a session fails at its snapshots, or before them.\<close>

lemma unplayed_enter:
  assumes "unplayed m"
  obtains err where "enterGameplay env session m = fatal err m"
    "Lookup (ae_registry env) (ms_ScenarioID (ac_state session)) \<noteq> None \<longrightarrow> err = AppSnapshots (SqlStore MatchNotFound)"
proof -
  obtain st where st: "sh_store m = Some st" "sq_db st = initSchema" using assms by (auto simp: unplayed_def)
  let ?open = "newGameplayScreen env (ac_runtime session) (ac_state session) (sh_store m) (sh_persistAIDebug m)"
  have snapshots: "sessionSnapshots (ae_codecs env) (sh_store m) initial = Inl (AppSnapshots (SqlStore MatchNotFound))" for initial
    by (simp add: sessionSnapshots_def st(1) empty_database_reads(2) [OF st(2)])
  show thesis
  proof (cases "Lookup (ae_registry env) (ms_ScenarioID (ac_state session))")
    case None
    then have "?open = Inl (AppScenario (ms_ScenarioID (ac_state session)) (ms_MatchID (ac_state session)))"
      by (simp add: newGameplayScreen_def resolveScenarioForMatch_def)
    with None show thesis by (intro that) (simp_all add: enterGameplay_def)
  next
    case (Some d)
    then have "?open = Inl (AppSnapshots (SqlStore MatchNotFound))"
      by (simp add: newGameplayScreen_def resolveScenarioForMatch_def snapshots)
    then show thesis by (intro that [of "AppSnapshots (SqlStore MatchNotFound)"]) (simp_all add: enterGameplay_def)
  qed
qed

lemma unplayed_entered: "unplayed m \<Longrightarrow> unplayed (fst (enterGameplay env session m))"
  using unplayed_enter [of m env session] by (metis fatal_def fst_conv unplayed_fields(2))

lemma unplayed_says: "unplayed (fst (menuSays env status m)) = unplayed m"
  by (simp add: menuSays_def)

lemma unplayed_menuDone:
  assumes "unplayed m"
  shows "unplayed (fst (menuDone env m))"
proof -
  let ?r = "mn_result (sh_menu m)"
  define m1 where "m1 = m\<lparr>sh_menuConfig := sr_Config ?r, sh_menuState := sr_State ?r\<rparr>"
  have ok: "unplayed m1" using assms by (simp add: m1_def)
  then obtain st where st: "sh_store m1 = Some st" "sq_db st = initSchema" by (auto simp: unplayed_def)
  have stored: "unplayed (m1\<lparr>sh_store := Some st\<rparr>)"
    using ok st(2) by (simp add: unplayed_def)
  have save: "unplayed (fst (saveGame env slotName m1))" for slotName
    by (auto simp: saveGame_def Let_def st(1) empty_database_reads(3) [OF st(2)] stored unplayed_says ok
        split: option.split)
  have load: "unplayed (fst (loadGame env slotName m1))" for slotName
    by (simp add: loadGame_def st(1) empty_database_reads(4) [OF st(2)] unplayed_says ok)
  have resume: "unplayed (fst (resumeGame env m1))"
    by (auto simp: resumeGame_def unplayed_says ok unplayed_entered split: option.split)
  have start: "unplayed (fst (startNewGame env m1))"
    by (auto simp: startNewGame_def Let_def unplayed_says ok unplayed_entered split: sum.split)
  show ?thesis
    unfolding menuDone_def Let_def m1_def [symmetric]
    by (cases "sr_Action ?r") (simp_all add: ok save load resume start)
qed

lemma unplayed_step:
  assumes "appStep registry (played, m) (played', m')" "\<not> played" "unplayed m"
  shows "\<not> played' \<and> unplayed m'"
  using assms(1)
proof cases
  case (message env msg cmds)
  define m1 where "m1 = (case msg of ShellTuiMsg (TuiWindowSize width height) \<Rightarrow> m\<lparr>sh_width := width, sh_height := height\<rparr> | _ \<Rightarrow> m)"
  have ok: "unplayed m1" using assms(3) by (simp add: m1_def split: shellMsg.split tuiMsg.split)
  then have none: "sh_gameplay m1 = None" by (simp add: unplayed_def)
  have splash: "unplayed (fst (updateSplash env msg m1))"
    by (auto simp: updateSplash_def finishSplash_def Let_def ok unplayed_entered
        split: prod.split option.split splashCmd.split)
  have menu: "unplayed (fst r)" if update: "updateMenu env msg m1 = Some r" for r
  proof (cases "menu_Update (ae_registry env) msg (sh_menu m1)")
    case None
    with update show ?thesis by (simp add: updateMenu_def)
  next
    case (Some x)
    obtain quit menu where x: "x = (quit, menu)" by (cases x)
    from update Some x have "r = (if quit then menuDone env (m1\<lparr>sh_menu := menu\<rparr>) else (m1\<lparr>sh_menu := menu\<rparr>, []))"
      by (simp add: updateMenu_def Let_def)
    then show ?thesis using ok unplayed_menuDone [of "m1\<lparr>sh_menu := menu\<rparr>" env] by simp
  qed
  have "shell_Update env msg m = (case sh_screen m1 of screenSplash \<Rightarrow> Some (updateSplash env msg m1)
      | screenMenu \<Rightarrow> updateMenu env msg m1 | screenGameplay \<Rightarrow> updateGameplay env msg m1)"
    unfolding shell_Update_def m1_def Let_def by (rule refl)
  with message(3) have step: "(case sh_screen m1 of screenSplash \<Rightarrow> Some (updateSplash env msg m1)
      | screenMenu \<Rightarrow> updateMenu env msg m1 | screenGameplay \<Rightarrow> updateGameplay env msg m1) = Some (m', cmds)" by simp
  have "unplayed m'"
  proof (cases "sh_screen m1")
    case screenSplash
    with step have "updateSplash env msg m1 = (m', cmds)" by simp
    with splash show ?thesis by simp
  next
    case screenMenu
    with step menu [of "(m', cmds)"] show ?thesis by simp
  next
    case screenGameplay
    with step none ok show ?thesis
      by (cases msg) (auto simp: updateGameplay_def gameplayMsg_def runnerDone_def)
  qed
  with message(1) assms(2) show ?thesis by (simp add: unplayed_def)
next
  case (match screen session random log controller)
  with assms(3) show ?thesis by (simp add: unplayed_def)
qed (use assms(2) in simp_all)

definition registryOk :: "registry \<Rightarrow> bool" where
  "registryOk registry \<longleftrightarrow> (\<forall>i d. Lookup registry i = Some d \<longrightarrow> sd_ID d = i)"

lemma unplayed_start:
  assumes "unplayed m" "registryOk (ae_registry env)" "sr_Action (mn_result (sh_menu m)) = startMenuActionStartNewGame"
    and "NewRuntime (ae_process env) (ae_registry env)
       (runtimeConfigFromMenu (ae_registry env) (sr_Config (mn_result (sh_menu m)))) = Inr new"
  shows "menuDone env m = fatal (AppSnapshots (SqlStore MatchNotFound))
    (m\<lparr>sh_menuConfig := sr_Config (mn_result (sh_menu m)), sh_menuState := sr_State (mn_result (sh_menu m)),
       sh_current := Some \<lparr>ac_runtime = new, ac_state = MatchState_Clone (run_InitialMatch new)\<rparr>\<rparr>)"
proof -
  let ?r = "mn_result (sh_menu m)" and ?session = "\<lparr>ac_runtime = new, ac_state = MatchState_Clone (run_InitialMatch new)\<rparr>"
  define m1 where "m1 = m\<lparr>sh_menuConfig := sr_Config ?r, sh_menuState := sr_State ?r, sh_current := Some ?session\<rparr>"
  note ok = NewRuntime_ok [OF assms(4)]
  have "ms_ScenarioID (run_InitialMatch new) = sd_ID (run_Scenario new)"
    using ok(6) by (auto simp: InitialState_def Let_def)
  moreover have "sd_ID (run_Scenario new) = cf_ScenarioID (run_Config new)"
    using assms(2) ok(1) unfolding registryOk_def by blast
  ultimately have known: "Lookup (ae_registry env) (ms_ScenarioID (ac_state ?session)) \<noteq> None"
    using ok(1) by (simp add: clone_simps)
  have "unplayed m1" using assms(1) by (simp add: m1_def)
  then obtain err where "enterGameplay env ?session m1 = fatal err m1"
    "Lookup (ae_registry env) (ms_ScenarioID (ac_state ?session)) \<noteq> None \<longrightarrow> err = AppSnapshots (SqlStore MatchNotFound)"
    by (rule unplayed_enter [of m1 env ?session])
  with known have "enterGameplay env ?session m1 = fatal (AppSnapshots (SqlStore MatchNotFound)) m1" by simp
  then show ?thesis using assms(3,4) by (simp add: menuDone_def startNewGame_def Let_def m1_def)
qed

text \<open>C9: With a database that holds no match yet, the program never gets to play one, whatever is chosen: no
  session is ever entered, and the key that starts a new game with a valid configuration, whenever the menu is shown,
  ends the program with the error that the match, which the database was to store, is not found in it.\<close>

theorem empty_database_never_plays:
  fixes store :: "'t SqliteStore"
  assumes "(appStep registry)\<^sup>*\<^sup>* (False, newAppShellModel registry runtime state False (Some store) rounds persist) (played, m)"
    and "sq_db store = initSchema" "registryOk registry"
  shows "sh_gameplay m = None
    \<and> (\<forall>(env :: 't appEnv) key new. ae_registry env = registry \<and> sh_screen m = screenMenu
        \<and> mn_cursor (sh_menu m) = 0 \<and> ky_String key \<in> {''enter'', '' ''}
        \<and> NewRuntime (ae_process env) registry (runtimeConfigFromMenu registry (mn_config (sh_menu m))) = Inr new
        \<longrightarrow> (\<exists>m'. shell_Update env (ShellTuiMsg (TuiKey key)) m = Some (m', [ShellQuit])
          \<and> sh_fatalErr m' = Some (AppSnapshots (SqlStore MatchNotFound))))"
proof (intro conjI allI impI; (elim conjE)?)
  have "unplayed (newAppShellModel registry runtime state False (Some store) rounds persist)"
    using assms(2) by (simp add: unplayed_def newAppShellModel_def Let_def)
  with assms(1) have "\<not> played \<and> unplayed m"
    by (induction rule: rtranclp_induct2) (use unplayed_step in blast)+
  then have unplayed: "unplayed m" by simp
  then show "sh_gameplay m = None" by (simp add: unplayed_def)
  fix env :: "'t appEnv" and key :: KeyMsg and new
  assume registry: "ae_registry env = registry" and menu: "sh_screen m = screenMenu" "mn_cursor (sh_menu m) = 0"
    and key: "ky_String key \<in> {''enter'', '' ''}"
    and new: "NewRuntime (ae_process env) registry (runtimeConfigFromMenu registry (mn_config (sh_menu m))) = Inr new"
  define chosen where "chosen = m\<lparr>sh_menu := snd (menuChoice startMenuActionStartNewGame [] (sh_menu m))\<rparr>"
  have "appOk env m" using assms(1)
    by (induction rule: rtranclp_induct2) (simp_all add: newAppShellModel_ok appStep_ok [OF _ registry])
  then have "menuOk registry (sh_menu m)" using menu(1) registry by (simp add: appOk_def)
  from enter_starts [OF this menu(2) key]
  have step: "shell_Update env (ShellTuiMsg (TuiKey key)) m = Some (menuDone env chosen)"
    using menu(1) registry by (simp add: shell_Update_def updateMenu_def menu_Update_def chosen_def menuChoice_def Let_def)
  have start: "sr_Action (mn_result (sh_menu chosen)) = startMenuActionStartNewGame"
    "sr_Config (mn_result (sh_menu chosen)) = mn_config (sh_menu m)" "unplayed chosen"
    using unplayed by (simp_all add: chosen_def menuChoice_def)
  from unplayed_start [OF start(3), of env new] registry assms(3) start(1,2) new
  obtain m1 where "menuDone env chosen = fatal (AppSnapshots (SqlStore MatchNotFound)) m1" by simp
  with step show "\<exists>m'. shell_Update env (ShellTuiMsg (TuiKey key)) m = Some (m', [ShellQuit])
      \<and> sh_fatalErr m' = Some (AppSnapshots (SqlStore MatchNotFound))"
    by (simp add: fatal_def)
qed

section \<open>A new game\<close>

lemma map_of_setRole: "map_of (setRole roleID roleCfg roles) k = (if k = roleID then Some roleCfg else map_of roles k)"
  by (induction roles) (auto simp: setRole_def)

lemma map_of_seated_roster:
  "k \<in> set xs \<or> map_of roles k = Some (f k) \<Longrightarrow>
     map_of (foldl (\<lambda>roles x. setRole x (f x) roles) roles xs) k = Some (f k)"
  by (induction xs arbitrary: roles) (auto simp: map_of_setRole)

lemma map_of_seated_other:
  "\<forall>x \<in> set xs. key x \<noteq> k \<Longrightarrow> map_of (foldl (\<lambda>roles x. setRole (key x) (f x) roles) roles xs) k = map_of roles k"
  by (induction xs arbitrary: roles) (auto simp: map_of_setRole)

lemma map_of_seated:
  "distinct (map key xs) \<Longrightarrow> x \<in> set xs \<Longrightarrow>
     map_of (foldl (\<lambda>roles x. setRole (key x) (f x) roles) roles xs) (key x) = Some (f x)"
proof (induction xs arbitrary: roles)
  case (Cons y ys)
  show ?case
  proof (cases "x = y")
    case True
    have "\<forall>z \<in> set ys. key z \<noteq> key y" using Cons.prems(1) by (auto simp: image_iff)
    from map_of_seated_other [OF this, of f] True show ?thesis by (simp add: map_of_setRole)
  next
    case False
    with Cons show ?thesis by simp
  qed
qed simp

lemma roleConfigOf_clone [simp]: "roleConfigOf (cloneConfig cfg) roleID = roleConfigOf cfg roleID"
  by (simp add: roleConfigOf_def cloneConfig_def defaultRoleConfig_def firstCatalogEntry_def clone_simps)

text \<open>The configuration of a new game has a role for each of the roster, as the menu shows it.\<close>

lemma menu_roles:
  assumes "Lookup registry (cf_ScenarioID cfg) = Some d" "roleID \<in> set (su_RoleRoster (sd_Setup d))"
  shows "map_of (cf_Roles (runtimeConfigFromMenu registry cfg)) roleID = Some (roleConfigOf cfg roleID)"
proof -
  have scenario: "cf_ScenarioID (cloneConfig cfg) = cf_ScenarioID cfg" by (simp add: cloneConfig_def)
  show ?thesis
    using map_of_seated_roster [of roleID "su_RoleRoster (sd_Setup d)" "[]" "roleConfigOf cfg"] assms(2)
    by (simp add: runtimeConfigFromMenu_def scenario assms(1) Let_def)
qed

text \<open>What an entered session is.\<close>

lemma entered_screen:
  assumes "enterGameplay env session m = (m', cmds)" "sh_gameplay m = None" "sh_gameplay m' = Some screen"
  obtains snapshots d where "sh_screen m' = screenGameplay" "sh_current m' = sh_current m"
    "gm_controller screen = newLiveGameplayController (ac_state session) snapshots" "gm_definition screen = d"
    "Lookup (ae_registry env) (ms_ScenarioID (ac_state session)) = Some d"
    "sessionSnapshots (ae_codecs env) (sh_store m) (ac_state session) = Inr snapshots"
proof (cases "newGameplayScreen env (ac_runtime session) (ac_state session) (sh_store m) (sh_persistAIDebug m)")
  case (Inl err)
  with assms show thesis by (auto simp: enterGameplay_def fatal_def)
next
  case (Inr r)
  obtain new cmds' where r: "r = (new, cmds')" by (cases r)
  from Inr r obtain snapshots d where new: "gm_controller new = newLiveGameplayController (ac_state session) snapshots"
    "gm_definition new = d" "Lookup (ae_registry env) (ms_ScenarioID (ac_state session)) = Some d"
    "sessionSnapshots (ae_codecs env) (sh_store m) (ac_state session) = Inr snapshots"
    by (auto simp: newGameplayScreen_def resolveScenarioForMatch_def Let_def split: sum.splits option.splits)
  have m': "m' = applyWindowSizeToGameplay (m\<lparr>sh_screen := screenGameplay, sh_gameplay := Some new\<rparr>)"
    using assms(1) Inr r by (simp add: enterGameplay_def)
  then have "gm_controller screen = gm_controller new" "gm_definition screen = gm_definition new"
    "sh_screen m' = screenGameplay" "sh_current m' = sh_current m"
    using assms(3) by (auto simp: applyWindowSizeToGameplay_def split: if_splits)
  with new show thesis by (intro that) simp_all
qed

text \<open>C10: Starting a new game enters a session of the chosen scenario, at its first round, with exactly the seats of
  its roster, and a person on a seat exactly where the menu shows one; the terminal starts from the state of this
  match.\<close>

theorem new_game_seats_menu:
  assumes "sr_Action (mn_result (sh_menu m)) = startMenuActionStartNewGame" "cfg = sr_Config (mn_result (sh_menu m))"
    and "Lookup (ae_registry env) (cf_ScenarioID cfg) = Some d" "registryOk (ae_registry env)"
    and "TrimSpace (cf_ScenarioID cfg) \<noteq> []" "sh_gameplay m = None"
    and "menuDone env m = (m', cmds)" "sh_gameplay m' = Some screen"
  shows "\<exists>session. sh_current m' = Some session \<and> sh_screen m' = screenGameplay \<and> gm_definition screen = d
    \<and> map (\<lambda>a. (ra_RoleID a, ra_IsHuman a)) (ms_Roles (ac_state session))
        = map (\<lambda>roleID. (roleID, rc_Kind (roleConfigOf cfg roleID) = PlayerKindHuman)) (su_RoleRoster (sd_Setup d))
    \<and> ms_CurrentRound (ac_state session) = 1 \<and> live_Snapshot (gm_controller screen) = ac_state session"
proof -
  let ?cfg = "runtimeConfigFromMenu (ae_registry env) cfg"
  define m1 where "m1 = m\<lparr>sh_menuConfig := cfg, sh_menuState := sr_State (mn_result (sh_menu m))\<rparr>"
  have start: "startNewGame env m1 = (m', cmds)"
    using assms(1,2,7) by (simp add: menuDone_def Let_def m1_def)
  have m1: "sh_menuConfig m1 = cfg" "sh_gameplay m1 = None" using assms(6) by (simp_all add: m1_def)
  obtain r where r: "NewRuntime (ae_process env) (ae_registry env) ?cfg = Inr r"
  proof (cases "NewRuntime (ae_process env) (ae_registry env) ?cfg")
    case (Inl err)
    then have "startNewGame env m1 = menuSays env (''Start failed: '' @ ae_configText env err) m1"
      by (simp add: startNewGame_def m1(1))
    then have "sh_gameplay m' = None" using start m1(2) by (auto simp: menuSays_def rebuildMenu_def)
    with assms(8) show thesis by simp
  qed (rule that)
  let ?session = "\<lparr>ac_runtime = r, ac_state = MatchState_Clone (run_InitialMatch r)\<rparr>"
  have "enterGameplay env ?session (m1\<lparr>sh_current := Some ?session\<rparr>) = (m', cmds)"
    using start r by (simp add: startNewGame_def m1(1) Let_def)
  moreover have "sh_gameplay (m1\<lparr>sh_current := Some ?session\<rparr>) = None" using m1(2) by simp
  ultimately obtain snapshots d' where entered: "sh_screen m' = screenGameplay"
    "sh_current m' = sh_current (m1\<lparr>sh_current := Some ?session\<rparr>)"
    "gm_controller screen = newLiveGameplayController (ac_state ?session) snapshots" "gm_definition screen = d'"
    "Lookup (ae_registry env) (ms_ScenarioID (ac_state ?session)) = Some d'"
    using entered_screen [OF _ _ assms(8)] by blast
  note ok = NewRuntime_ok [OF r]
  have "cf_ScenarioID (run_Config r) = cf_ScenarioID cfg"
    using assms(3,5) by (simp add: ok(2) Config_normalize_def runtimeConfigFromMenu_def cloneConfig_def Let_def)
  then have scenario: "run_Scenario r = d" using ok(1) assms(3) by simp
  obtain flow where initial: "run_InitialMatch r = (InitialState d (runtimeMatchID (ae_process env) (run_Config r) (sd_ID d))
      (runtimeRoles (run_Config r) d))\<lparr>ms_RoundFlow := flow\<rparr>" using ok(6) scenario by auto
  have "sd_ID d = cf_ScenarioID cfg" using assms(3,4) by (simp add: registryOk_def)
  then have definition1: "d' = d" using entered(5) assms(3) by (simp add: initial InitialState_def Let_def clone_simps)
  have "cf_RoleConfigs ?cfg = []" using assms(3) by (simp add: runtimeConfigFromMenu_def cloneConfig_def Let_def)
  then have roles: "cf_Roles (run_Config r) = cf_Roles ?cfg" by (simp add: ok(2) Config_normalize_def Let_def)
  have "map (\<lambda>a. (ra_RoleID a, ra_IsHuman a)) (runtimeRoles (run_Config r) d)
      = map (\<lambda>roleID. (roleID, rc_Kind (roleConfigOf cfg roleID) = PlayerKindHuman)) (su_RoleRoster (sd_Setup d))"
  proof -
    have "concat (map (\<lambda>roleID. map (\<lambda>a. (ra_RoleID a, ra_IsHuman a)) (case map_of (cf_Roles ?cfg) roleID of None \<Rightarrow> []
         | Some roleCfg \<Rightarrow> [\<lparr>ra_RoleID = roleID, ra_PlayerID = role_string roleID @ ''-player'',
             ra_IsHuman = (rc_Kind roleCfg = PlayerKindHuman), ra_Provider = rc_Provider roleCfg,
             ra_ModelName = rc_Model roleCfg\<rparr>])) roster)
       = map (\<lambda>roleID. (roleID, rc_Kind (roleConfigOf cfg roleID) = PlayerKindHuman)) roster"
      if "set roster \<subseteq> set (su_RoleRoster (sd_Setup d))" for roster
      using that by (induction roster) (simp_all add: menu_roles [OF assms(3)])
    from this [OF subset_refl] show ?thesis by (simp add: runtimeRoles_def roles map_concat o_def)
  qed
  moreover have "ms_Roles (run_InitialMatch r) = runtimeRoles (run_Config r) d" "ms_CurrentRound (run_InitialMatch r) = 1"
    by (simp_all add: initial InitialState_def Let_def)
  moreover have "live_Snapshot (gm_controller screen) = ac_state ?session"
    by (simp add: entered(3) live_Snapshot_def newLiveGameplayController_def MatchState_Clone_idem)
  ultimately show ?thesis using entered(1,2,4) definition1 by (intro exI [of _ ?session]) (simp del: map_map)
qed

section \<open>A loaded game\<close>

text \<open>C39: A game loaded from a slot is played with the endpoint of the first model of the catalog for every
  role: a role keeps the provider and the model it was saved with, but gets the URL, the interface and the key of
  the first entry, whichever provider that is.\<close>

theorem loaded_game_endpoint:
  assumes "runtimeForLoadedState env registry cfg state = Inr r" "lc_Entries (cf_LLMCatalog cfg) = entry # rest"
    and "distinct (map ra_RoleID (ms_Roles state))" "a \<in> set (ms_Roles state)"
  shows "run_InitialMatch r = MatchState_Clone state \<and> (\<exists>roleCfg. map_of (cf_Roles (run_Config r)) (ra_RoleID a) = Some roleCfg
    \<and> rc_Provider roleCfg = (if TrimSpace (ra_Provider a) = [] then le_Provider entry else ra_Provider a)
    \<and> rc_Model roleCfg = (if TrimSpace (ra_ModelName a) = [] then le_Model entry else ra_ModelName a)
    \<and> (rc_Kind roleCfg = PlayerKindHuman \<longleftrightarrow> ra_IsHuman a)
    \<and> rc_URL roleCfg = le_URL entry \<and> rc_APISDKType roleCfg = le_APISDKType entry \<and> rc_APIKey roleCfg = le_APIKey entry)"
proof -
  let ?base = "(cloneConfig cfg)\<lparr>cf_ScenarioID := ms_ScenarioID state, cf_Roles := [], cf_RoleConfigs := []\<rparr>"
  obtain r' where r': "NewRuntime env registry (loadedConfig cfg state) = Inr r'"
    and r: "r = r'\<lparr>run_InitialMatch := MatchState_Clone state, run_Random := pe_Random env (cf_RandomSeed (loadedConfig cfg state))\<rparr>"
    using assms(1) by (auto simp: runtimeForLoadedState_def Let_def split: sum.splits)
  have "cf_RoleConfigs (loadedConfig cfg state) = []" by (simp add: loadedConfig_def Let_def)
  then have roles: "cf_Roles (run_Config r) = cf_Roles (loadedConfig cfg state)"
    by (simp add: r NewRuntime_ok(2) [OF r'] Config_normalize_def Let_def)
  have "map_of (cf_Roles (loadedConfig cfg state)) (ra_RoleID a) = Some (assignedRoleConfig ?base a)"
    using map_of_seated [OF assms(3,4), of "assignedRoleConfig ?base" "[]"] by (simp add: loadedConfig_def Let_def)
  then have seat: "map_of (cf_Roles (run_Config r)) (ra_RoleID a) = Some (assignedRoleConfig ?base a)" by (simp only: roles)
  have "defaultRoleConfig ?base = \<lparr>rc_Kind = PlayerKindAI, rc_Provider = le_Provider entry,
      rc_Model = le_Model entry, rc_URL = le_URL entry, rc_APISDKType = le_APISDKType entry, rc_APIKey = le_APIKey entry\<rparr>"
    using assms(2) by (simp add: defaultRoleConfig_def firstCatalogEntry_def cloneConfig_def clone_simps)
  then show ?thesis
    unfolding seat by (simp add: assignedRoleConfig_def Let_def r PlayerKindAI_def PlayerKindHuman_def)
qed

section \<open>Back to the menu\<close>

lemma live_Snapshot_new: "live_Snapshot (newLiveGameplayController state snapshots) = MatchState_Clone state"
  by (simp add: live_Snapshot_def newLiveGameplayController_def MatchState_Clone_idem)

lemma refreshMenuState_session: "sm_ActiveSession (refreshMenuState registry store current state) = current"
  by (simp add: refreshMenuState_def clampSelections_def Let_def split: option.split)

lemma returnToMenu_fields:
  assumes "sh_current m = Some session"
  shows "sh_screen (returnToMenu env screen m) = screenMenu" "sh_gameplay (returnToMenu env screen m) = None"
    "sh_current (returnToMenu env screen m) = Some (snapshotSession screen session)"
    "sm_ActiveSession (sh_menuState (returnToMenu env screen m)) = Some (snapshotSession screen session)"
  using assms by (simp_all add: returnToMenu_def applyWindowSizeToMenu_def rebuildMenu_def refreshMenuState_session Let_def)

text \<open>C40: Leaving a session with q shows the menu with the session as it stands: the state last published by the
  match; when it is resumed from there, the terminal starts with exactly this state.\<close>

theorem resume_continues:
  assumes "sh_screen m = screenGameplay" "sh_gameplay m = Some screen" "sh_current m = Some session"
    and "tui_Update (screenEnv env screen) (TuiKey key) (gm_model screen) = Some (model, [CmdQuit], sent)"
    and "tu_exitIntent model = ExitIntentReturnToMenu"
  shows "\<exists>m'. shell_Update env (ShellTuiMsg (TuiKey key)) m = Some (m', [])
    \<and> sh_screen m' = screenMenu \<and> sh_gameplay m' = None
    \<and> sh_current m' = Some (session\<lparr>ac_state := live_Snapshot (gm_controller screen)\<rparr>)
    \<and> sm_ActiveSession (sh_menuState m') = sh_current m'
    \<and> (\<forall>m2 cmds again. resumeGame env m' = (m2, cmds) \<and> sh_gameplay m2 = Some again \<longrightarrow>
         sh_screen m2 = screenGameplay \<and> live_Snapshot (gm_controller again) = live_Snapshot (gm_controller screen))"
proof -
  have "sent = []" using update_sends_one [OF assms(4)] by blast
  then have delivered: "deliver (ae_atSend env) sent (gm_controller screen) = Some (gm_controller screen)" by simp
  define screen' where "screen' = screen\<lparr>gm_model := model\<rparr>"
  define m' where "m' = returnToMenu env screen' (m\<lparr>sh_gameplay := Some screen'\<rparr>)"
  let ?session = "snapshotSession screen' session"
  have session: "?session = session\<lparr>ac_state := live_Snapshot (gm_controller screen)\<rparr>"
    by (simp add: snapshotSession_def screen'_def)
  have step: "shell_Update env (ShellTuiMsg (TuiKey key)) m = Some (m', [])"
    using assms delivered by (simp add: shell_Update_def updateGameplay_def gameplayMsg_def Let_def m'_def screen'_def)
  have "sh_current (m\<lparr>sh_gameplay := Some screen'\<rparr>) = Some session" using assms(3) by simp
  note fields = returnToMenu_fields [OF this, of env screen', folded m'_def]
  have "sh_screen m2 = screenGameplay \<and> live_Snapshot (gm_controller again) = live_Snapshot (gm_controller screen)"
    if resumed: "resumeGame env m' = (m2, cmds)" "sh_gameplay m2 = Some again" for m2 cmds again
  proof -
    have "enterGameplay env ?session m' = (m2, cmds)" using resumed(1) fields(3) by (simp add: resumeGame_def)
    from entered_screen [OF this fields(2) resumed(2)] obtain snapshots where "sh_screen m2 = screenGameplay"
      "gm_controller again = newLiveGameplayController (ac_state ?session) snapshots" by blast
    then show ?thesis by (simp add: live_Snapshot_new session) (simp add: live_Snapshot_def MatchState_Clone_idem)
  qed
  with step fields session show ?thesis by (intro exI [of _ m']) simp
qed

section \<open>A run of the program\<close>

text \<open>The laboratory of the runtime, with plain screens.\<close>

definition plainSplash :: splashStyles where
  "plainSplash = \<lparr>sy_steel = id, sy_brick = id, sy_fire = id, sy_word = id, sy_heatedWord = id, sy_eyes = id,
     sy_subtitle = id, sy_page = (\<lambda>_. id)\<rparr>"

definition labApp :: "demoText appEnv" where
  "labApp = \<lparr>ae_registry = [(StarterID, Starter)], ae_process = demoProcess, ae_codecs = demoCodecs,
     ae_openai = labEndpoint, ae_json = strictCodec, ae_order = sliceOrder, ae_worldOrders = (\<lambda>_. sliceOrder),
     ae_now = ''t'', ae_slotTime = ''t'', ae_clock = int, ae_orders = (\<lambda>_. sliceOrder), ae_submitRound = patientSubmit,
     ae_atSend = id, ae_splash = plainSplash, ae_menu = \<lparr>me_line = (\<lambda>_. id), me_page = (\<lambda>_. id)\<rparr>, ae_terminal = plainTerminal,
     ae_storeText = (\<lambda>_. []), ae_configText = (\<lambda>_. []), ae_playText = (\<lambda>_. [])\<rparr>"

lemma labApp_simps [simp]:
  "ae_registry labApp = [(StarterID, Starter)]" "ae_process labApp = demoProcess" "ae_openai labApp = labEndpoint"
  "ae_json labApp = strictCodec" "ae_order labApp = sliceOrder" "ae_submitRound labApp = patientSubmit"
  by (simp_all add: labApp_def)

lemma lab_registry: "registryOk [(StarterID, Starter)]" "Lookup [(StarterID, Starter)] StarterID = Some Starter"
proof -
  have "sd_ID Starter = StarterID" by (simp add: Starter_def NewDefinition_def)
  then show "registryOk [(StarterID, Starter)]" "Lookup [(StarterID, Starter)] StarterID = Some Starter"
    by (auto simp: registryOk_def Lookup_def split: if_splits)
qed

definition labConfig :: Config where
  "labConfig = (Config_normalize demoConfig)\<lparr>cf_RoleConfigs := []\<rparr>"

lemma lab_config: "cf_Roles labConfig = cf_Roles (Config_normalize demoConfig)" "cf_ScenarioID labConfig = StarterID"
  "cf_RoleConfigs labConfig = []" "cf_LLMCatalog labConfig = cf_LLMCatalog demoConfig"
  by (simp_all add: labConfig_def demo_scenario)

lemma lab_valid: "Config_Validate sliceOrder labConfig = []" "validateRuntimeRoles sliceOrder labConfig CanonicalRoles = []"
  by code_simp+

lemma lab_normal: "Config_normalize labConfig = labConfig"
  by code_simp

lemma lab_menu: "runtimeConfigFromMenu [(StarterID, Starter)] labConfig = labConfig"
proof -
  have clone: "cloneConfig labConfig = labConfig" by (simp add: cloneConfig_def clone_simps)
  have "foldl (\<lambda>roles roleID. setRole roleID (roleConfigOf labConfig roleID) roles) [] CanonicalRoles = cf_Roles labConfig"
    by (simp add: CanonicalRoles_def roleConfigOf_def lab_config(1) demo_roles setRole_def)
  moreover have same: "labConfig\<lparr>cf_Roles := cf_Roles labConfig, cf_RoleConfigs := []\<rparr> = labConfig"
    using lab_config(3) by (cases labConfig) simp
  ultimately show ?thesis
    by (simp add: runtimeConfigFromMenu_def clone lab_config(2) lab_registry(2) starter_roster Let_def)
qed

lemma lab_runtime:
  obtains r where "NewRuntime demoProcess [(StarterID, Starter)] labConfig = Inr r" "run_Config r = labConfig"
    "run_Scenario r = Starter"
  using lab_config lab_valid lab_normal lab_registry(2)
  by (simp add: NewRuntime_def Let_def demoProcess_def starter_roster)

definition labStart :: "Runtime \<Rightarrow> demoText SqliteStore option \<Rightarrow> demoText appShellModel" where
  "labStart r store = newAppShellModel [(StarterID, Starter)] r (run_InitialMatch r) False store 3 False"

text \<open>A key at the splash shows the menu of the configuration.\<close>

definition labMenu :: "Runtime \<Rightarrow> demoText SqliteStore option \<Rightarrow> demoText appShellModel" where
  "labMenu r store = rebuildMenu labApp ((labStart r store)\<lparr>sh_splash := newSplash\<lparr>sp_finished := True\<rparr>, sh_screen := screenMenu\<rparr>)"

lemma lab_splash: "shell_Update labApp (ShellTuiMsg (TuiKey key)) (labStart r store) = Some (labMenu r store, [])"
  by (simp add: shell_Update_def labStart_def newAppShellModel_def updateSplash_def splashMsgOf_def splash_Update_def
      finishSplash_def applyWindowSizeToMenu_def labMenu_def rebuildMenu_def Let_def)

lemma lab_menu_fields:
  "sh_gameplay (labMenu r store) = None" "sh_store (labMenu r store) = store" "sh_screen (labMenu r store) = screenMenu"
  by (simp_all add: labMenu_def labStart_def newAppShellModel_def rebuildMenu_def Let_def)

lemma lab_menu_reached: "(appStep [(StarterID, Starter)])\<^sup>*\<^sup>* (False, labStart r store) (False, labMenu r store)"
proof -
  have "appStep [(StarterID, Starter)] (False, labStart r store) (False \<or> sh_gameplay (labMenu r store) \<noteq> None, labMenu r store)"
    by (rule appStep.message [OF _ lab_splash [of "press ''x''"]]) simp
  then show ?thesis unfolding lab_menu_fields by (intro r_into_rtranclp) simp
qed

lemma program_panics_only_at_send_witness:
  "\<exists>r m. NewRuntime demoProcess [(StarterID, Starter)] labConfig = Inr r
     \<and> shell_Update labApp (ShellTuiMsg (TuiKey (press ''x''))) (labStart r None) = Some (m, [])
     \<and> appOk labApp m \<and> shell_Update labApp (ShellTuiMsg (TuiKey (press ''down''))) m \<noteq> None \<and> shell_View labApp m \<noteq> None"
proof -
  obtain r where r: "NewRuntime demoProcess [(StarterID, Starter)] labConfig = Inr r" by (rule lab_runtime)
  from program_panics_only_at_send [OF lab_menu_reached [unfolded labStart_def], of labApp r None "ShellTuiMsg (TuiKey (press ''down''))"]
    lab_menu_fields(3) [of r None] lab_splash [of "press ''x''" r None] r
  show ?thesis by (auto simp: labStart_def)
qed

text \<open>What the menu of the laboratory chooses: with a database, and without one.\<close>

definition emptyStore :: "demoText SqliteStore" where
  "emptyStore = \<lparr>sq_db = initSchema, sq_historyLimit = 10\<rparr>"

definition labChosen :: "Runtime \<Rightarrow> demoText SqliteStore option \<Rightarrow> demoText appShellModel" where
  "labChosen r store = (labMenu r store)\<lparr>sh_menu := snd (menuChoice startMenuActionStartNewGame [] (sh_menu (labMenu r store)))\<rparr>"

lemma lab_chosen:
  assumes "run_Config r = labConfig"
  shows "sr_Action (mn_result (sh_menu (labChosen r store))) = startMenuActionStartNewGame"
    "sr_Config (mn_result (sh_menu (labChosen r store))) = labConfig" "sh_gameplay (labChosen r store) = None"
    "sh_store (labChosen r store) = store"
proof -
  have "cloneConfig labConfig = labConfig" by (simp add: cloneConfig_def clone_simps)
  moreover have "RegisteredIDs [(StarterID, Starter)] = [StarterID]" by (simp add: RegisteredIDs_def)
  ultimately show "sr_Config (mn_result (sh_menu (labChosen r store))) = labConfig"
    using assms lab_config(2)
    by (simp add: labChosen_def menuChoice_def labMenu_def rebuildMenu_def labStart_def newAppShellModel_def newStartMenuModel_def Let_def)
qed (simp_all add: labChosen_def menuChoice_def lab_menu_fields)

lemma lab_enter:
  "shell_Update labApp (ShellTuiMsg (TuiKey (press ''enter''))) (labMenu r store) = Some (menuDone labApp (labChosen r store))"
proof -
  have menu: "sh_menu (labMenu r store)
      = newStartMenuModel [(StarterID, Starter)] (sh_menuConfig (labStart r store)) (sh_menuState (labStart r store))"
    by (simp add: labMenu_def rebuildMenu_def)
  have "menuOk [(StarterID, Starter)] (sh_menu (labMenu r store))" unfolding menu by (rule newStartMenuModel_ok)
  moreover have "mn_cursor (sh_menu (labMenu r store)) = 0" unfolding menu by (simp add: newStartMenuModel_def Let_def)
  ultimately have "menuKey [(StarterID, Starter)] ''enter'' (sh_menu (labMenu r store))
      = Some (menuChoice startMenuActionStartNewGame [] (sh_menu (labMenu r store)))" by (rule enter_starts) simp
  then show ?thesis
    by (simp add: shell_Update_def lab_menu_fields updateMenu_def menu_Update_def press_def labChosen_def menuChoice_def Let_def)
qed

lemma empty_database_never_plays_witness:
  "\<exists>r m'. (appStep [(StarterID, Starter)])\<^sup>*\<^sup>* (False, labStart r (Some emptyStore)) (False, labMenu r (Some emptyStore))
     \<and> shell_Update labApp (ShellTuiMsg (TuiKey (press ''enter''))) (labMenu r (Some emptyStore)) = Some (m', [ShellQuit])
     \<and> sh_fatalErr m' = Some (AppSnapshots (SqlStore MatchNotFound))"
proof -
  obtain r where r: "NewRuntime demoProcess [(StarterID, Starter)] labConfig = Inr r" "run_Config r = labConfig" by (rule lab_runtime)
  let ?m = "labMenu r (Some emptyStore)"
  have menu: "sh_menu ?m = newStartMenuModel [(StarterID, Starter)] (sh_menuConfig (labStart r (Some emptyStore)))
      (sh_menuState (labStart r (Some emptyStore)))"
    by (simp add: labMenu_def rebuildMenu_def)
  have "mn_cursor (sh_menu ?m) = 0" unfolding menu by (simp add: newStartMenuModel_def Let_def)
  moreover have "mn_config (sh_menu ?m) = labConfig"
    using lab_chosen(2) [OF r(2), of "Some emptyStore"] by (simp add: labChosen_def menuChoice_def)
  moreover have "NewRuntime (ae_process labApp) [(StarterID, Starter)] (runtimeConfigFromMenu [(StarterID, Starter)] labConfig) = Inr r"
    unfolding lab_menu labApp_simps by (rule r(1))
  moreover have "ky_String (press ''enter'') \<in> {''enter'', '' ''}" by (simp add: press_def)
  moreover have "sq_db emptyStore = initSchema" by (simp add: emptyStore_def)
  note conjunct2 [OF empty_database_never_plays [OF lab_menu_reached [of r "Some emptyStore", unfolded labStart_def] this
      lab_registry(1)], THEN spec [of _ labApp], THEN spec [of _ "press ''enter''"], THEN spec [of _ r]]
  ultimately have "\<exists>m'. shell_Update labApp (ShellTuiMsg (TuiKey (press ''enter''))) ?m = Some (m', [ShellQuit])
      \<and> sh_fatalErr m' = Some (AppSnapshots (SqlStore MatchNotFound))"
    by (simp add: lab_menu_fields(3) del: insert_iff)
  with lab_menu_reached show ?thesis by blast
qed

lemma lab_seated_players:
  assumes "ms_Roles initial = runtimeRoles labConfig Starter"
  shows "\<exists>players log. buildPlayersWithHumanSubmit labEndpoint strictCodec sliceOrder labConfig Starter initial patientSubmit
    = Inr (players, log)"
proof -
  have "runtimeRoles labConfig Starter = runtimeRoles (Config_normalize demoConfig) Starter"
    by (simp add: runtimeRoles_def lab_config(1))
  then have "initial\<lparr>ms_Roles := runtimeRoles (Config_normalize demoConfig) Starter\<rparr> = initial" using assms by simp
  moreover have "buildPlayersWithHumanSubmit labEndpoint strictCodec sliceOrder labConfig Starter initial patientSubmit
      = buildPlayersWithHumanSubmit labEndpoint strictCodec sliceOrder (Config_normalize demoConfig) Starter initial patientSubmit"
    unfolding buildPlayersWithHumanSubmit_def lab_config(1) by (rule refl)
  ultimately show ?thesis using lab_players [of initial] by simp
qed

lemma lab_session:
  assumes "NewRuntime demoProcess [(StarterID, Starter)] labConfig = Inr r" "run_Config r = labConfig"
  obtains m cmds screen session where "menuDone labApp (labChosen r None) = (m, cmds)" "sh_screen m = screenGameplay"
    "sh_gameplay m = Some screen" "sh_current m = Some session"
    "gm_model screen = NewModelWithSubmitAndQuitBehavior QuitBehaviorReturnToMenu"
proof -
  note chosen = lab_chosen [OF assms(2), of None]
  let ?session = "\<lparr>ac_runtime = r, ac_state = MatchState_Clone (run_InitialMatch r)\<rparr>"
  let ?result = "mn_result (sh_menu (labChosen r None))"
  define m1 where "m1 = (labChosen r None)\<lparr>sh_menuConfig := labConfig, sh_menuState := sr_State ?result, sh_current := Some ?session\<rparr>"
  note ok = NewRuntime_ok [OF assms(1)]
  have scenario: "run_Scenario r = Starter" using ok(1) by (simp add: assms(2) lab_config(2) lab_registry(2))
  have initial: "ms_Roles (run_InitialMatch r) = runtimeRoles labConfig Starter" "ms_ScenarioID (run_InitialMatch r) = StarterID"
    using ok(6) scenario assms(2) by (auto simp: InitialState_def Let_def Starter_def NewDefinition_def)
  from initial(1) obtain players log where players: "buildPlayersWithHumanSubmit labEndpoint strictCodec sliceOrder labConfig
      Starter (MatchState_Clone (run_InitialMatch r)) patientSubmit = Inr (players, log)"
    using lab_seated_players [of "MatchState_Clone (run_InitialMatch r)"] by auto
  have m1: "sh_store m1 = None" "sh_width m1 = 0" "sh_current m1 = Some ?session"
    using chosen(4) by (simp_all add: m1_def labChosen_def labMenu_def rebuildMenu_def labStart_def newAppShellModel_def Let_def)
  have "\<exists>screen cmds. newGameplayScreen labApp r (MatchState_Clone (run_InitialMatch r)) None (sh_persistAIDebug m1) = Inr (screen, cmds)
      \<and> gm_model screen = NewModelWithSubmitAndQuitBehavior QuitBehaviorReturnToMenu"
    using players by (simp add: newGameplayScreen_def resolveScenarioForMatch_def initial(2) lab_registry(2) sessionSnapshots_def
        sessionTraces_def assms(2) Let_def)
  then obtain screen cmds where screen: "newGameplayScreen labApp r (MatchState_Clone (run_InitialMatch r)) None (sh_persistAIDebug m1)
      = Inr (screen, cmds)" "gm_model screen = NewModelWithSubmitAndQuitBehavior QuitBehaviorReturnToMenu" by blast
  have "menuDone labApp (labChosen r None) = enterGameplay labApp ?session m1"
    using chosen(1,2) assms(1) by (simp add: menuDone_def startNewGame_def lab_menu Let_def m1_def)
  moreover have "enterGameplay labApp ?session m1 = (m1\<lparr>sh_screen := screenGameplay, sh_gameplay := Some screen\<rparr>, cmds)"
    using screen m1(1,2) by (simp add: enterGameplay_def applyWindowSizeToGameplay_def)
  ultimately show thesis using that screen(2) m1(3) by simp
qed

lemma new_game_seats_menu_witness:
  "\<exists>m m' cmds screen session. menuDone labApp m = (m', cmds) \<and> sh_gameplay m' = Some screen \<and> sh_current m' = Some session
     \<and> map (\<lambda>a. (ra_RoleID a, ra_IsHuman a)) (ms_Roles (ac_state session))
       = [(RoleProcurementManager, False), (RoleProductionManager, True), (RoleSalesManager, False), (RoleFinanceController, False)]"
proof -
  obtain r where r: "NewRuntime demoProcess [(StarterID, Starter)] labConfig = Inr r" "run_Config r = labConfig" by (rule lab_runtime)
  obtain m cmds screen session where m: "menuDone labApp (labChosen r None) = (m, cmds)" and "sh_screen m = screenGameplay"
    and entered: "sh_gameplay m = Some screen" and "sh_current m = Some session"
      "gm_model screen = NewModelWithSubmitAndQuitBehavior QuitBehaviorReturnToMenu" by (rule lab_session [OF r])
  note chosen = lab_chosen [OF r(2), of None]
  have hypotheses: "Lookup (ae_registry labApp) (cf_ScenarioID labConfig) = Some Starter" "registryOk (ae_registry labApp)"
    "TrimSpace (cf_ScenarioID labConfig) \<noteq> []"
    using lab_registry by (simp_all add: lab_config(2) StarterID_def TrimSpace_def isSpace_def)
  have "roleConfigOf labConfig role = labRole (if role = RoleProductionManager then PlayerKindHuman else PlayerKindAI)"
    if "role \<in> set CanonicalRoles" for role
    using that by (auto simp: roleConfigOf_def lab_config(1) demo_roles CanonicalRoles_def)
  with new_game_seats_menu [OF chosen(1) chosen(2) [symmetric] hypotheses chosen(3) m entered] m entered show ?thesis
    by (fastforce simp: starter_roster CanonicalRoles_def labRole_def PlayerKindAI_def PlayerKindHuman_def)
qed

lemma resume_continues_witness:
  "\<exists>m screen m'. sh_gameplay m = Some screen \<and> shell_Update labApp (ShellTuiMsg (TuiKey (press ''q''))) m = Some (m', [])
     \<and> sh_screen m' = screenMenu \<and> sm_ActiveSession (sh_menuState m') \<noteq> None"
proof -
  obtain r where r: "NewRuntime demoProcess [(StarterID, Starter)] labConfig = Inr r" "run_Config r = labConfig" by (rule lab_runtime)
  obtain m cmds screen session where "menuDone labApp (labChosen r None) = (m, cmds)"
    and m: "sh_screen m = screenGameplay" "sh_gameplay m = Some screen" "sh_current m = Some session"
      "gm_model screen = NewModelWithSubmitAndQuitBehavior QuitBehaviorReturnToMenu" by (rule lab_session [OF r])
  let ?model = "NewModelWithSubmitAndQuitBehavior QuitBehaviorReturnToMenu"
  have quit: "tui_Update (screenEnv labApp screen) (TuiKey (press ''q'')) (gm_model screen)
      = Some (?model\<lparr>tu_exitIntent := ExitIntentReturnToMenu, tu_status := ''Returning to the start menu...''\<rparr>, [CmdQuit], [])"
    unfolding m(4)
    by (simp add: tui_Update_def keyStep_def handleScenarioLookupKey_def handleActionEntryKey_def ignored_def handleHistoryScrollKey_def
        shellKey_def press_def NewModelWithSubmitAndQuitBehavior_def workspace_defs pane_defs Let_def)
  from resume_continues [OF m(1-3) quit] m(2) show ?thesis by fastforce
qed

text \<open>Two models in the catalog, and a match saved with the second for every role.\<close>

definition twoModels :: Config where
  "twoModels = labConfig\<lparr>cf_LLMCatalog := \<lparr>lc_Entries =
     [\<lparr>le_Provider = ''lab'', le_Model = ''m'', le_URL = ''http://lab/v1'', le_APISDKType = APISDKTypeOpenAI, le_APIKey = ''k''\<rparr>,
      \<lparr>le_Provider = ''far'', le_Model = ''n'', le_URL = ''http://far/v1'', le_APISDKType = APISDKTypeOpenAI, le_APIKey = ''f''\<rparr>]\<rparr>\<rparr>"

definition savedFar :: "MatchState \<Rightarrow> MatchState" where
  "savedFar s = s\<lparr>ms_ScenarioID := StarterID, ms_Roles := map (\<lambda>role. \<lparr>ra_RoleID = role,
     ra_PlayerID = role_string role, ra_IsHuman = False, ra_Provider = ''far'', ra_ModelName = ''n''\<rparr>) CanonicalRoles\<rparr>"

lemma loaded_game_endpoint_witness:
  "\<exists>r roleCfg. runtimeForLoadedState demoProcess [(StarterID, Starter)] twoModels (savedFar demoState) = Inr r
     \<and> map_of (cf_Roles (run_Config r)) RoleSalesManager = Some roleCfg \<and> rc_Provider roleCfg = ''far''
     \<and> rc_URL roleCfg = ''http://lab/v1''
     \<and> map_option le_URL (LLMCatalog_Lookup (cf_LLMCatalog twoModels) ''far'') = Some ''http://far/v1''"
proof -
  let ?cfg = "loadedConfig twoModels (savedFar zero_MatchState)"
  have same: "loadedConfig twoModels (savedFar demoState) = ?cfg" by (simp add: loadedConfig_def savedFar_def)
  have valid: "Config_Validate sliceOrder (Config_normalize ?cfg) = []"
    "validateRuntimeRoles sliceOrder (Config_normalize ?cfg) CanonicalRoles = []" "cf_ScenarioID (Config_normalize ?cfg) = StarterID"
    by code_simp+
  then obtain r where r: "runtimeForLoadedState demoProcess [(StarterID, Starter)] twoModels (savedFar demoState) = Inr r"
    using lab_registry(2) by (simp add: runtimeForLoadedState_def same NewRuntime_def demoProcess_def starter_roster Let_def)
  let ?a = "\<lparr>ra_RoleID = RoleSalesManager, ra_PlayerID = role_string RoleSalesManager, ra_IsHuman = False,
     ra_Provider = ''far'', ra_ModelName = ''n''\<rparr>"
  have "lc_Entries (cf_LLMCatalog twoModels) =
     \<lparr>le_Provider = ''lab'', le_Model = ''m'', le_URL = ''http://lab/v1'', le_APISDKType = APISDKTypeOpenAI, le_APIKey = ''k''\<rparr>
     # [\<lparr>le_Provider = ''far'', le_Model = ''n'', le_URL = ''http://far/v1'', le_APISDKType = APISDKTypeOpenAI, le_APIKey = ''f''\<rparr>]"
    by (simp add: twoModels_def)
  moreover have "distinct (map ra_RoleID (ms_Roles (savedFar demoState)))" "?a \<in> set (ms_Roles (savedFar demoState))"
    by (simp_all add: savedFar_def CanonicalRoles_def)
  ultimately have seat: "\<exists>roleCfg. map_of (cf_Roles (run_Config r)) RoleSalesManager = Some roleCfg \<and> rc_Provider roleCfg = ''far''
      \<and> rc_URL roleCfg = ''http://lab/v1''"
    using loaded_game_endpoint [OF r, of _ _ ?a] by (fastforce simp: TrimSpace_def isSpace_def)
  have "map_option le_URL (LLMCatalog_Lookup (cf_LLMCatalog twoModels) ''far'') = Some ''http://far/v1''" by code_simp
  with r seat show ?thesis by blast
qed

end
