(* ===== verification/Spec2Isabelle.thy ===== *)
theory Spec2Isabelle
  imports EngineProperties AppProperties MatchProperties AIProperties HostProperties TuiProperties FlowProperties
begin

text \<open>
  HerbieGo is a turn-based factory game: four roles (procurement, production, sales, finance) each
  submit one action per round, the engine resolves the actions simultaneously, and the match goes
  on with the resulting state.  This development models that core and everything a match is played
  with; file names below are relative to \<open>src/internal\<close>.

  The parts and the theories that model them, in the order of the imports.

  \<^item> \<open>domain\<close>: \<open>Domain\<close> has the records, enums and ids of \<open>model.go\<close> and \<open>roles.go\<close>, \<open>Clone\<close>
    its copy methods and the canonical timeline of a round.  \<open>Prelude\<close> holds what Go's standard
    library contributes (division, comparison, sorting, \<open>strconv.Itoa\<close>, ranging over a map) and the
    list lemmas all proofs share.
  \<^item> \<open>engine/resolver.go\<close>: a round works on a struct \<open>roundPhase\<close> of pointers and counters
    (\<open>Phase\<close>; every method of the code is a function of that record).  \<open>Inventory\<close>,
    \<open>Commitments\<close>, \<open>Procurement\<close>, \<open>Quality\<close>, \<open>Capacity\<close>, \<open>Production\<close>, \<open>Sales\<close>, \<open>Finalize\<close>
    and \<open>Actions\<close> follow the methods of the file, \<open>Resolver\<close> composes them to \<open>ResolveRound\<close>.
    \<open>MachineAmounts\<close> has purchasing and sales once more with amounts of 64 bits that wrap, the
    bounds below which this is the unbounded model, and its lemmas that the two then agree.
    \<open>Ledger\<close> has the well-formedness of a state and the relation \<open>phase_ext\<close> that every method
    keeps; \<open>Rounds\<close> carries the guarantees from one round to the next and returns the random
    source a round leaves behind.
  \<^item> \<open>ports/state_store.go\<close> and \<open>adapters/persistence/memory\<close>: \<open>MemoryStore\<close> states the port as
    the locale \<open>match_store\<close> and interprets it with the store of the code.
  \<^item> \<open>projection\<close>: \<open>Projection\<close> is the view of a round, \<open>RoleReport\<close> the reports of
    \<open>role_report.go\<close> with the types of \<open>domain/reports.go\<close>.
  \<^item> \<open>ports/player.go\<close>, \<open>adapters/player\<close>: \<open>Players\<close>, the port with the human and the AI-backed
    player and its fallbacks.
  \<^item> \<open>app/round_collection.go\<close>: \<open>RoundCollection\<close>.  \<open>Collect\<close> starts a goroutine per role; the
    step relation \<open>collectStep\<close> interleaves their atomic sections (launch, announce, ask, recover,
    store, mark, report, fail), with the errgroup's first error and cancelled context.
  \<^item> \<open>app/match_runner.go\<close>: \<open>MatchRunner\<close>, the loop \<open>Play\<close> over any store that keeps the port's
    laws.
  \<^item> \<open>scenario\<close>: \<open>Scenario\<close> (definitions, initial states, hooks, demand), \<open>Starter\<close> (the data of
    the starter scenario), \<open>Lookups\<close> (lookups, tools, registry).
  \<^item> \<open>actionschema\<close>, \<open>prompting\<close>, \<open>ports/ai.go\<close>: \<open>ActionSchema\<close> (the schema of a role and the
    validation of an action against it), \<open>Prompting\<close> (the records of the AI port, the prompts).
  \<^item> \<open>app/ai_orchestrator.go\<close>, \<open>app/debug_log.go\<close>: \<open>JsonObject\<close> (the scanner that finds a JSON
    object in the text of a model), \<open>AIOrchestrator\<close> (attempts, tool calls, validation, fallback,
    the log of calls).
  \<^item> \<open>adapters/ai\<close>: \<open>AIClients\<close>, routing by provider and the client of an OpenAI-compatible
    endpoint.
  \<^item> \<open>app/config.go\<close>, \<open>app/runtime.go\<close>, \<open>cmd/herbiego/players.go\<close>: \<open>Configuration\<close>, from the files
    to the runtime and the players of a match.
  \<^item> \<open>cmd/herbiego/live_gameplay_controller.go\<close>: \<open>LiveController\<close>, the queue between the match and
    the terminal, its goroutines as the step relation \<open>liveStep\<close>.
  \<^item> \<open>adapters/persistence/sqlite\<close>: \<open>SqliteStore\<close>, the tables, the operations and the save slots.
    \<open>stored\<close> reads a database as a memory store, and the operations simulate those of that store.
  \<^item> \<open>adapters/tui\<close>: \<open>Terminal\<close> (layout, scrolling and the spreadsheet; the styling library is the
    record \<open>terminal\<close> of functions), \<open>FormEditor\<close> (the form of an action), \<open>TuiState\<close> (the model and its
    environment \<open>tuiEnv\<close>: scenario, sources, the submit function), \<open>ActionEntry\<close> (drafts: parsing, seeding,
    review, submission), \<open>ScenarioBrowser\<close>, \<open>DebugTree\<close> (the inspector) and \<open>TuiModel\<close>, the shell with
    \<open>Init\<close>, \<open>Update\<close> and \<open>View\<close>.  \<open>DraftFacts\<close> holds the invariant of the drafts.
    A step of the shell is a function \<open>tui_Update\<close> of the message, with the commands and what was submitted.
  \<^item> \<open>cmd/herbiego\<close>: \<open>Splash\<close> (\<open>splash_screen.go\<close>), \<open>StartMenu\<close> (\<open>start_menu.go\<close>) and \<open>AppFlow\<close>
    (\<open>app_flow.go\<close>, \<open>persistence.go\<close>, \<open>main.go\<close>): from the command line to the screens.  A session on the
    screen (\<open>gameplayScreen\<close>) has the terminal model, the live controller, the runner and the log of AI calls;
    \<open>shell_Update\<close> is the step of the whole program, whose only panic is a submission sent on a queue
    the match closed after \<open>Submit\<close> had looked (\<open>ae_atSend\<close> is what the match does in between; the panic
    of \<open>Publish\<close> in the match's own goroutine is in \<open>LiveController\<close>); and \<open>appStep\<close> in \<open>FlowProperties\<close> interleaves it with what
    the running match does to the controller, the log, the generator and the store.

  The properties stand in this theory (rounds), \<open>EngineProperties\<close> (the engine's components),
  \<open>AppProperties\<close> (store, view, reports), \<open>MatchProperties\<close> (collection, matches, scenarios),
  \<open>AIProperties\<close> (decisions, schema, JSON), \<open>HostProperties\<close> (database, runtime, live controller),
  \<open>TuiProperties\<close> (the terminal) and \<open>FlowProperties\<close> (the screens of the program).
  The lemmas they rest on are grouped as follows: what each stock list holds and is
  worth and how an operation changes it (\<open>Inventory\<close>); cash, debt and credit arithmetic
  (\<open>Phase\<close>, \<open>Ledger\<close>); for every method of the phase that it keeps the state well-formed, appends
  numbered events only, and moves cash only as its counters record (\<open>phase_ext\<close>, \<open>phase_simps\<close>);
  the unit ledger and the stations' limits (\<open>Production\<close>, \<open>Resolver\<close>); that a resolved state can
  be resolved again (\<open>Rounds\<close>); that every run of a collection ends with the result of the
  sequential one (\<open>RoundCollection\<close>); that a fallback is always a valid action (\<open>Players\<close>,
  \<open>MatchRunner\<close>); that whatever a model answers, the decision ends in a valid action, a fallback
  or an outage (\<open>AIOrchestrator\<close>, \<open>AIClients\<close>).  \<open>Example\<close> and the first sections of the property
  theories hold the concrete matches, clients, databases and configurations on which the
  properties are instantiated.

  Choices of the model.  Go's 64-bit integers are unbounded in the model of a whole round and a
  match.  Where a typed quantity or price enters the money arithmetic, \<open>MachineAmounts\<close> follows the
  code at its width: what is claimed of the limits of an order, of the commitments of procurement
  and of the proceeds of sales is claimed of these wrapping operations, under bounds
  (\<open>procurementFits\<close>, \<open>salesFits\<close>: a million orders, units and money units each, on amounts of at most
  \<open>2 ^ 60\<close>, so that an order or a shipment is worth at most \<open>2 ^ 40\<close> and all of them \<open>2 ^ 60\<close>); two
  properties show what happens beyond them.  That cash, debt and stock stay non-negative over a
  round (\<open>stateOk\<close>) is a lemma of the unbounded model and no property: no bound on typed amounts is
  enforced by the code.  The supplier hash is computed on words, as the code's \<open>uint32\<close> wraps.
  Strings are lists of
  characters, taken as bytes; a time is its instant.  Maps ranged over by the code take the order
  of the visit as a parameter (\<open>MapOrder\<close>).  Scenario hooks, players and fallback policies are
  functions; a random source is a tape of draws, read modulo the bound.  A player's answer depends
  on its request and on whether its context is done, so a player with a memory of its own is
  modelled one round at a time.  Every function is total: the loops over the units of a batch run
  on the number of units, the rounds of \<open>Play\<close> on their number, and a collection of \<open>n\<close> roles
  takes at most \<open>8n+1\<close> steps.  Errors are datatypes with the data the messages are built from.

  What the program calls and does not define is a parameter: the JSON, YAML and URL codecs, files,
  the clock, the chat completion of the model's endpoint, the generator behind a seed.  The laws
  assumed of them are stated where they are used: a codec gives back what was encoded, with the
  numbers of event payloads as \<open>float64\<close> (\<open>survives\<close> for one value, \<open>codecsOk\<close> for all of them,
  \<open>jsonState\<close>; strings that are not valid UTF-8 do not survive \<open>encoding/json\<close>); an endpoint never answers
  without a choice (\<open>withChoices\<close>).

  Not modelled: the Bubble Tea program that calls the screens and runs their commands, the tool of
  \<open>cmd/quality\<close>, logging, the cancelling of a session's context beyond what \<open>liveStep\<close> and \<open>collectStep\<close>
  say of it, a database or network that fails below the calls of the code, and the generator of
  \<open>adapters/random/seeded\<close>, which is the standard library's.
\<close>

section \<open>Properties of a resolved round\<close>

text \<open>C1: Cash is never lost or created: over a resolved round, cash net of debt changes by
  exactly the cash receipts less the cash disbursements that the round's metrics report.\<close>

theorem round_cash_ledger:
  assumes "resolvable r s" "ResolveRound r s actions random = Inr res"
  shows "netCash (ms_Plant (res_NextState res)) =
     netCash (ms_Plant s) + pm_CashReceipts (rr_Metrics (res_Round res))
       - pm_CashDisbursements (rr_Metrics (res_Round res))"
  using assms by (rule ResolveRound_cash)

lemma round_cash_ledger_witness:
  "\<exists>res. ResolveRound exampleResolver exampleState exampleActions None = Inr res
     \<and> netCash (ms_Plant (res_NextState res)) = 35 + pm_CashReceipts (rr_Metrics (res_Round res))
         - pm_CashDisbursements (rr_Metrics (res_Round res))"
  using example_resolves round_cash_ledger [OF example_resolvable] by (auto simp: example_shape)

text \<open>C11: The events of a round carry the ids of that match and round, numbered from 1
  without a gap, so no two events of a round share an id.\<close>

theorem round_events_numbered:
  assumes "resolvable r s" "ResolveRound r s actions random = Inr res"
  defines "events \<equiv> rr_Events (res_Round res)"
  shows "(\<forall>i < length events. ev_EventID (events ! i) = eventID (ms_CurrentRound s) (int i + 1)
       \<and> ev_MatchID (events ! i) = ms_MatchID s \<and> ev_Round (events ! i) = ms_CurrentRound s)
     \<and> distinct (map ev_EventID events)"
proof -
  obtain p ordered where p: "phase_ext (startPhase r s ordered random) p"
    "res = closeRound (rsv_historyLimit r) p"
    using assms(1,2) by (rule ResolveRound_phase)
  then have num: "numbered (ms_MatchID s) (ms_CurrentRound s) 0 events"
    by (auto simp: phase_ext_def eventsExtend_def events_def)
  then show ?thesis using numbered_nth [OF num] numbered_distinct [OF num] numbered_keys [OF num]
    by (simp add: add.commute)
qed

lemma round_events_numbered_witness:
  "\<exists>res. ResolveRound exampleResolver exampleState exampleActions None = Inr res
     \<and> distinct (map ev_EventID (rr_Events (res_Round res)))"
  using example_resolves round_events_numbered [OF example_resolvable] by blast

text \<open>C12: Without a world update a round is resolved exactly when the match id is not empty,
  the round is positive, every action is admissible (its match and round are the state's,
  its role canonical and assigned, its only payload that of the role and valid) and no two
  actions share a role; every other input is an error.\<close>

theorem round_resolved_iff:
  assumes "rsv_worldUpdate r = None"
  shows "(\<exists>res. ResolveRound r s actions random = Inr res) \<longleftrightarrow>
     ms_MatchID s \<noteq> [] \<and> 0 < ms_CurrentRound s
     \<and> (\<forall>a \<in> set actions. admissible s a) \<and> distinct (map as_RoleID actions)"
  using assms by (auto simp: ResolveRound_Inr normalizeActions_Inr runWorldUpdate_def)

lemma round_resolved_iff_witness:
  "(\<exists>res. ResolveRound exampleResolver exampleState exampleActions None = Inr res)
     \<and> \<not> (\<exists>res. ResolveRound exampleResolver exampleState (exampleActions @ exampleActions) None = Inr res)"
proof
  show "\<exists>res. ResolveRound exampleResolver exampleState exampleActions None = Inr res"
    using round_resolved_iff [OF example_shape(3), of exampleState exampleActions None] example_admissible
    by (simp add: example_shape)
  have "\<not> distinct (map as_RoleID (exampleActions @ exampleActions))" by (simp add: exampleActions_def)
  then show "\<not> (\<exists>res. ResolveRound exampleResolver exampleState (exampleActions @ exampleActions) None = Inr res)"
    using round_resolved_iff [OF example_shape(3), of exampleState "exampleActions @ exampleActions" None]
    by blast
qed

text \<open>C15: The order in which the actions were submitted does not influence the round.\<close>

theorem round_order_independent:
  assumes "mset actions = mset actions'" "ResolveRound r s actions random = Inr res"
  shows "ResolveRound r s actions' random = Inr res"
  using assms normalizeActions_perm [OF assms(1), of s] by (auto simp: ResolveRound_Inr)

lemma round_order_independent_witness:
  "\<exists>res. ResolveRound exampleResolver exampleState exampleActions None = Inr res
     \<and> ResolveRound exampleResolver exampleState (rev exampleActions) None = Inr res"
  using example_resolves round_order_independent [of exampleActions "rev exampleActions"] by auto

text \<open>A resolved round moves the match to the next round, publishes the round's metrics
  and appends the round to a history that never exceeds its limit.\<close>

theorem round_advances:
  assumes "resolvable r s" "ResolveRound r s actions random = Inr res" "0 < rsv_historyLimit r"
  shows "ms_CurrentRound (res_NextState res) = ms_CurrentRound s + 1
     \<and> rr_Round (res_Round res) = ms_CurrentRound s
     \<and> ms_MatchID (res_NextState res) = ms_MatchID s
     \<and> ms_Metrics (res_NextState res) = rr_Metrics (res_Round res)
     \<and> int (length (rh_RecentRounds (ms_History (res_NextState res)))) =
         min (rsv_historyLimit r) (int (length (rh_RecentRounds (ms_History s))) + 1)
     \<and> last (rh_RecentRounds (ms_History (res_NextState res))) = res_Round res"
proof -
  obtain p ordered where p: "phase_ext (startPhase r s ordered random) p"
    "res = closeRound (rsv_historyLimit r) p"
    using assms(1,2) by (rule ResolveRound_phase)
  from p(1) have same: "ms_CurrentRound (rp_state p) = ms_CurrentRound s"
    "rr_Round (rp_round p) = ms_CurrentRound s" "ms_MatchID (rp_state p) = ms_MatchID s"
    "length (rh_RecentRounds (ms_History (rp_state p))) = length (rh_RecentRounds (ms_History s))"
    by (simp_all add: phase_ext_def same_defs startPhase_def Let_def RoundHistory_Clone_def cloneSlice_def)
  then show ?thesis using closeRound_history [OF assms(3), of p] by (simp add: p(2))
qed

lemma round_advances_witness:
  "\<exists>res. ResolveRound exampleResolver exampleState exampleActions None = Inr res
     \<and> ms_CurrentRound (res_NextState res) = 3
     \<and> length (rh_RecentRounds (ms_History (res_NextState res))) = 1"
  using example_resolves round_advances [OF example_resolvable] by (fastforce simp: example_shape)



end
